(* ===== verification/Prelude.thy ===== *)
theory Prelude
  imports Main "HOL-Library.Word" "HOL-Library.Sublist"
begin

text \<open>
  Shared vocabulary of the development: the operations of \<open>std::string\<close> the SDK uses
  (search, slice, trim, ASCII case folding, decimal printing) as list functions on
  \<^typ>\<open>string\<close> (one \<^typ>\<open>char\<close> is one byte, as in the source), the error taxonomy of
  \<open>include/axiam/errors.hpp\<close> as a datatype, results as sums, and the collections of
  simplification rules the component theories share.
\<close>

named_theorems str_simps \<open>evaluation of the std::string operations\<close>
named_theorems res_simps \<open>evaluation of the result sequencing\<close>

section \<open>Results and the error taxonomy\<close>

text \<open>
  Every exception the modelled code raises is a value. The human-readable text of an
  exception is kept as its ASCII lead (the parenthesised contract reference is dropped);
  the machine-readable members (\<open>cause\<close>, \<open>action\<close>, \<open>resource_id\<close>, \<open>reason_code\<close>,
  \<open>challenge\<close>) are kept whole. \<open>JsonTypeError\<close> and \<open>JsonParseError\<close> are the vendored
  JSON library's own exceptions, \<open>Undefined\<close> is a signed overflow or an out-of-range
  conversion (undefined behaviour in C++), \<open>Foreign\<close> is whatever a caller-supplied
  callback threw.
\<close>

datatype error =
    AuthError string
  | AuthChallengeError string string
  | AuthzError string "string option" "string option"
  | AuthzChallengeError string string "string option" "string option"
  | NotFoundError string
  | ConflictError string "string option"
  | NetworkError string string
  | ValidationError string
  | OAuthProtocolError string string "string option" "int option" "int option"
  | OidcValidationError string string
  | SetVerificationError string string
  | VerifyException string
  | ManifestError string
  | RebindFailure string string bool "string option"
  | AxiamError string
  | InvalidArgument string
  | JsonTypeError
  | JsonParseError
  | Undefined
  | Foreign

type_synonym 'a res = "error + 'a"

text \<open>The class hierarchy of the source, as the predicates its \<open>catch\<close> clauses test.\<close>

fun is_auth_error :: "error \<Rightarrow> bool" where
  "is_auth_error (AuthError _) = True"
| "is_auth_error (AuthChallengeError _ _) = True"
| "is_auth_error (OAuthProtocolError _ _ _ _ _) = True"
| "is_auth_error (OidcValidationError _ _) = True"
| "is_auth_error (SetVerificationError _ _) = True"
| "is_auth_error _ = False"

fun is_authz_error :: "error \<Rightarrow> bool" where
  "is_authz_error (AuthzError _ _ _) = True"
| "is_authz_error (AuthzChallengeError _ _ _ _) = True"
| "is_authz_error (NotFoundError _) = True"
| "is_authz_error (ConflictError _ _) = True"
| "is_authz_error _ = False"

fun is_network_error :: "error \<Rightarrow> bool" where
  "is_network_error (NetworkError _ _) = True"
| "is_network_error (ValidationError _) = True"
| "is_network_error _ = False"

fun is_axiam_error :: "error \<Rightarrow> bool" where
  "is_axiam_error (AxiamError _) = True"
| "is_axiam_error (VerifyException _) = True"
| "is_axiam_error (ManifestError _) = True"
| "is_axiam_error (RebindFailure _ _ _ _) = True"
| "is_axiam_error e = (is_auth_error e \<or> is_authz_error e \<or> is_network_error e)"

text \<open>\<open>e.what()\<close>; the texts of the JSON library and of callbacks are not modelled.\<close>

fun what_of :: "error \<Rightarrow> string" where
  "what_of (AuthError m) = m"
| "what_of (AuthChallengeError m _) = m"
| "what_of (AuthzError m _ _) = m"
| "what_of (AuthzChallengeError m _ _ _) = m"
| "what_of (NotFoundError m) = m"
| "what_of (ConflictError m _) = m"
| "what_of (NetworkError m _) = m"
| "what_of (ValidationError m) = m"
| "what_of (OAuthProtocolError m _ _ _ _) = m"
| "what_of (OidcValidationError m _) = m"
| "what_of (SetVerificationError m _) = m"
| "what_of (VerifyException m) = m"
| "what_of (ManifestError m) = m"
| "what_of (RebindFailure m _ _ _) = m"
| "what_of (AxiamError m) = m"
| "what_of (InvalidArgument m) = m"
| "what_of _ = []"

definition and_then :: "'a res \<Rightarrow> ('a \<Rightarrow> 'b res) \<Rightarrow> 'b res" where
  "and_then r k = (case r of Inl e \<Rightarrow> Inl e | Inr x \<Rightarrow> k x)"

lemma and_then_Inl [simp, res_simps]: "and_then (Inl e) k = Inl e"
  by (simp add: and_then_def)

lemma and_then_Inr [simp, res_simps]: "and_then (Inr x) k = k x"
  by (simp add: and_then_def)

lemma and_then_eq_Inr: "and_then r k = Inr y \<longleftrightarrow> (\<exists>x. r = Inr x \<and> k x = Inr y)"
  by (cases r) auto

definition is_ok :: "'a res \<Rightarrow> bool" where
  "is_ok r = (case r of Inl _ \<Rightarrow> False | Inr _ \<Rightarrow> True)"

lemma is_ok_simps [simp, res_simps]: "is_ok (Inl e) = False" "is_ok (Inr x) = True"
  by (simp_all add: is_ok_def)

text \<open>\<open>ensure c e\<close> is a guard clause: \<open>if (!c) throw e;\<close>.\<close>

definition ensure :: "bool \<Rightarrow> error \<Rightarrow> unit res" where
  "ensure c e = (if c then Inr () else Inl e)"

lemma ensure_simps [simp, res_simps]: "ensure True e = Inr ()" "ensure False e = Inl e"
  by (simp_all add: ensure_def)

lemma ensure_eq_Inr: "ensure c e = Inr u \<longleftrightarrow> c"
  by (simp add: ensure_def)

section \<open>Characters\<close>

abbreviation code :: "char \<Rightarrow> nat" where
  "code c \<equiv> of_char c"

abbreviation byte :: "nat \<Rightarrow> char" where
  "byte n \<equiv> char_of n"

definition is_upper :: "char \<Rightarrow> bool" where
  "is_upper c = (65 \<le> code c \<and> code c \<le> 90)"

definition is_lower :: "char \<Rightarrow> bool" where
  "is_lower c = (97 \<le> code c \<and> code c \<le> 122)"

definition is_digit :: "char \<Rightarrow> bool" where
  "is_digit c = (48 \<le> code c \<and> code c \<le> 57)"

definition lower_char :: "char \<Rightarrow> char" where
  "lower_char c = (if is_upper c then byte (code c + 32) else c)"

definition lower :: "string \<Rightarrow> string" where
  "lower s = map lower_char s"

lemma lower_char_idem [simp]: "lower_char (lower_char c) = lower_char c"
  by (auto simp: lower_char_def is_upper_def)

lemma lower_idem [simp]: "lower (lower s) = lower s"
  by (simp add: lower_def)

lemma length_lower [simp]: "length (lower s) = length s"
  by (simp add: lower_def)

lemma lower_Nil [simp]: "lower [] = []" "lower s = [] \<longleftrightarrow> s = []"
  by (simp_all add: lower_def)

lemma lower_append: "lower (s @ t) = lower s @ lower t"
  by (simp add: lower_def)

section \<open>Searching and slicing\<close>

text \<open>
  \<open>find\<close>/\<open>find_first_of\<close> return a position or \<open>npos\<close>; every use in the modelled code
  splits the string there. \<open>cut P s\<close> is that split at the first character satisfying
  \<open>P\<close> (\<open>None\<close> is \<open>npos\<close>): the part before, the character, the part after.
\<close>

fun cut :: "('a \<Rightarrow> bool) \<Rightarrow> 'a list \<Rightarrow> ('a list \<times> 'a \<times> 'a list) option" where
  "cut P [] = None"
| "cut P (x # xs) =
     (if P x then Some ([], x, xs)
      else (case cut P xs of None \<Rightarrow> None | Some (a, c, b) \<Rightarrow> Some (x # a, c, b)))"

lemma cut_eq_None: "cut P s = None \<longleftrightarrow> (\<forall>c\<in>set s. \<not> P c)"
  by (induction s) (auto split: option.splits)

lemma cut_SomeD:
  "cut P s = Some (a, c, b) \<Longrightarrow> s = a @ c # b \<and> P c \<and> (\<forall>x\<in>set a. \<not> P x)"
  by (induction s arbitrary: a) (auto split: option.splits if_splits)

lemma cut_SomeI:
  "P c \<Longrightarrow> (\<forall>x\<in>set a. \<not> P x) \<Longrightarrow> cut P (a @ c # b) = Some (a, c, b)"
  by (induction a) auto

lemma cut_eq_Some:
  "cut P s = Some (a, c, b) \<longleftrightarrow> s = a @ c # b \<and> P c \<and> (\<forall>x\<in>set a. \<not> P x)"
  using cut_SomeD cut_SomeI by metis

lemma cut_length: "cut P s = Some (a, c, b) \<Longrightarrow> length b < length s"
  by (auto dest: cut_SomeD)

text \<open>\<open>rfind\<close>/\<open>find_last_of\<close>: the same split at the last such character.\<close>

definition cut_last :: "('a \<Rightarrow> bool) \<Rightarrow> 'a list \<Rightarrow> ('a list \<times> 'a \<times> 'a list) option" where
  "cut_last P s =
     (case cut P (rev s) of None \<Rightarrow> None | Some (b, c, a) \<Rightarrow> Some (rev a, c, rev b))"

lemma cut_last_SomeD:
  "cut_last P s = Some (a, c, b) \<Longrightarrow> s = a @ c # b \<and> P c \<and> (\<forall>x\<in>set b. \<not> P x)"
proof -
  assume "cut_last P s = Some (a, c, b)"
  then obtain a' b' where h: "cut P (rev s) = Some (b', c, a')" "a = rev a'" "b = rev b'"
    by (auto simp: cut_last_def split: option.splits)
  from cut_SomeD [OF h(1)] have "rev (rev s) = rev (b' @ c # a')" "P c" "\<forall>x\<in>set b'. \<not> P x"
    by auto
  with h show ?thesis by simp
qed

lemma cut_last_SomeI:
  "P c \<Longrightarrow> (\<forall>x\<in>set b. \<not> P x) \<Longrightarrow> cut_last P (a @ c # b) = Some (a, c, b)"
  using cut_SomeI [of P c "rev b" "rev a"] by (simp add: cut_last_def)

lemma cut_last_eq_None: "cut_last P s = None \<longleftrightarrow> (\<forall>c\<in>set s. \<not> P c)"
  by (auto simp: cut_last_def cut_eq_None split: option.splits prod.splits)
    (metis cut_eq_None option.distinct(1) set_rev)

text \<open>\<open>find(pattern)\<close> for a string pattern: the parts before and after the first match.\<close>

fun cut_str :: "string \<Rightarrow> string \<Rightarrow> (string \<times> string) option" where
  "cut_str p s =
     (if prefix p s then Some ([], drop (length p) s)
      else (case s of
              [] \<Rightarrow> None
            | c # t \<Rightarrow> (case cut_str p t of None \<Rightarrow> None | Some (a, b) \<Rightarrow> Some (c # a, b))))"

declare cut_str.simps [simp del]

lemma cut_str_Nil: "p \<noteq> [] \<Longrightarrow> cut_str p [] = None"
  by (simp add: cut_str.simps)

lemma cut_str_SomeD: "cut_str p s = Some (a, b) \<Longrightarrow> s = a @ p @ b"
proof (induction s arbitrary: a)
  case Nil
  then show ?case by (auto simp: cut_str.simps [of p "[]"] split: if_splits)
next
  case (Cons c s)
  show ?case
  proof (cases "prefix p (c # s)")
    case True
    with Cons.prems show ?thesis
      by (subst (asm) cut_str.simps) (auto simp: prefix_def)
  next
    case False
    with Cons show ?thesis
      by (auto simp: cut_str.simps [of p "c # s"] split: option.splits)
  qed
qed

text \<open>The fields of a separated list: what a \<open>while (pos <= size)\<close> loop over \<open>find\<close> visits.\<close>

fun split_on :: "char \<Rightarrow> string \<Rightarrow> string list" where
  "split_on sep [] = [[]]"
| "split_on sep (c # s) =
     (if c = sep then [] # split_on sep s
      else (case split_on sep s of [] \<Rightarrow> [[c]] | f # fs \<Rightarrow> (c # f) # fs))"

lemma split_on_nonempty [simp]: "split_on sep s \<noteq> []"
  by (induction s) (auto split: list.splits)

lemma split_on_append_sep: "sep \<notin> set a \<Longrightarrow> split_on sep (a @ sep # b) = a # split_on sep b"
  by (induction a) auto

lemma split_on_no_sep: "sep \<notin> set a \<Longrightarrow> split_on sep a = [a]"
  by (induction a) auto

lemma split_on_no_sep_mem: "f \<in> set (split_on sep s) \<Longrightarrow> sep \<notin> set f"
  by (induction s arbitrary: f) (auto split: list.splits if_splits)

lemma split_on_subset: "f \<in> set (split_on sep s) \<Longrightarrow> set f \<subseteq> set s"
proof (induction s arbitrary: f)
  case (Cons c s)
  obtain g gs where g: "split_on sep s = g # gs" by (cases "split_on sep s") auto
  then have "set g \<subseteq> set s" "\<forall>h\<in>set gs. set h \<subseteq> set s" using Cons.IH by simp_all
  with Cons.prems g show ?case by (auto split: if_splits)
qed simp

text \<open>
  The fields are what the source's loop over \<open>find(sep, pos)\<close> cuts off, one at a time.
\<close>

lemma split_on_cut:
  "split_on sep s =
     (case cut (\<lambda>c. c = sep) s of None \<Rightarrow> [s] | Some (a, c, b) \<Rightarrow> a # split_on sep b)"
proof (cases "cut (\<lambda>c. c = sep) s")
  case None
  then have "sep \<notin> set s" by (auto simp: cut_eq_None)
  with None show ?thesis by (simp add: split_on_no_sep)
next
  case (Some r)
  then obtain a c b where r: "r = (a, c, b)" by (cases r)
  with Some have "s = a @ sep # b" "sep \<notin> set a" by (auto dest: cut_SomeD)
  with Some r show ?thesis by (simp add: split_on_append_sep)
qed

text \<open>Joining fields back with the separator.\<close>

fun join :: "string \<Rightarrow> string list \<Rightarrow> string" where
  "join sep [] = []"
| "join sep [x] = x"
| "join sep (x # xs) = x @ sep @ join sep xs"

lemma join_Cons: "xs \<noteq> [] \<Longrightarrow> join sep (x # xs) = x @ sep @ join sep xs"
  by (cases xs) auto

lemma join_split_on: "join [sep] (split_on sep s) = s"
proof (induction s)
  case (Cons c s)
  then show ?case
    by (cases "split_on sep s") (auto simp: join_Cons split: list.splits, metis join.simps join_Cons append_Cons)
qed simp

lemma split_on_join:
  "xs \<noteq> [] \<Longrightarrow> (\<forall>x\<in>set xs. sep \<notin> set x) \<Longrightarrow> split_on sep (join [sep] xs) = xs"
proof (induction xs)
  case (Cons x xs)
  then show ?case
    by (cases "xs = []") (auto simp: split_on_no_sep join_Cons split_on_append_sep)
qed simp

lemma join_inj:
  assumes "join [sep] xs = join [sep] ys" "xs \<noteq> []" "ys \<noteq> []"
    and "\<forall>x\<in>set xs. sep \<notin> set x" "\<forall>y\<in>set ys. sep \<notin> set y"
  shows "xs = ys"
  using assms split_on_join by metis

section \<open>Trimming\<close>

definition trim_by :: "(char \<Rightarrow> bool) \<Rightarrow> string \<Rightarrow> string" where
  "trim_by P s = rev (dropWhile P (rev (dropWhile P s)))"

lemma trim_by_id:
  assumes "s = [] \<or> \<not> P (hd s) \<and> \<not> P (last s)"
  shows "trim_by P s = s"
proof (cases "s = []")
  case False
  with assms have "\<not> P (hd s)" "\<not> P (last s)" by auto
  with False have "dropWhile P s = s" "dropWhile P (rev s) = rev s"
    by (simp_all add: dropWhile_eq_self_iff hd_rev)
  then show ?thesis by (simp add: trim_by_def)
qed (simp add: trim_by_def)

lemma trim_by_no_ends:
  "trim_by P s \<noteq> [] \<Longrightarrow> \<not> P (hd (trim_by P s)) \<and> \<not> P (last (trim_by P s))"
proof -
  assume ne: "trim_by P s \<noteq> []"
  define t where "t = dropWhile P s"
  from ne have t1: "t \<noteq> []" by (cases t) (simp_all add: trim_by_def flip: t_def)
  then have t: "\<not> P (hd t)" using hd_dropWhile [of P s] by (simp add: t_def)
  have u: "dropWhile P (rev t) \<noteq> []" using ne by (simp add: trim_by_def t_def)
  have l: "\<not> P (last (trim_by P s))"
    using hd_dropWhile [OF u] by (simp add: trim_by_def t_def last_rev)
  obtain v where v: "rev t = v @ dropWhile P (rev t)" by (metis takeWhile_dropWhile_id)
  then have "t = rev (dropWhile P (rev t)) @ rev v" by (metis rev_append rev_rev_ident)
  then have "hd t = hd (trim_by P s)"
    using u by (metis hd_append2 rev_is_Nil_conv t_def trim_by_def)
  with t l show ?thesis by simp
qed

lemma trim_by_idem: "trim_by P (trim_by P s) = trim_by P s"
  using trim_by_no_ends [of P s] by (intro trim_by_id) blast

section \<open>Decimal printing\<close>

fun dec :: "nat \<Rightarrow> string" where
  "dec n = (if n < 10 then [byte (48 + n)] else dec (n div 10) @ [byte (48 + n mod 10)])"

declare dec.simps [simp del]

lemma dec_digits: "c \<in> set (dec n) \<Longrightarrow> is_digit c"
proof (induction n rule: dec.induct)
  case (1 n)
  then show ?case
    by (subst (asm) (2) dec.simps) (auto simp: is_digit_def split: if_splits)
qed

lemma dec_nonempty [simp]: "dec n \<noteq> []"
  by (subst dec.simps) simp

definition dec_int :: "int \<Rightarrow> string" where
  "dec_int i = (if i < 0 then CHR ''-'' # dec (nat (- i)) else dec (nat i))"

text \<open>Reading decimal digits, with no bound: the value every bounded parser must agree with.\<close>

definition undec :: "string \<Rightarrow> nat" where
  "undec s = foldl (\<lambda>v c. v * 10 + (code c - 48)) 0 s"

lemma undec_snoc: "undec (s @ [c]) = undec s * 10 + (code c - 48)"
  by (simp add: undec_def)

lemma undec_dec: "undec (dec n) = n"
proof (induction n rule: dec.induct)
  case (1 n)
  show ?case
  proof (cases "n < 10")
    case True
    then show ?thesis by (subst dec.simps) (simp add: undec_def)
  next
    case False
    with 1 show ?thesis by (subst dec.simps) (simp add: undec_snoc)
  qed
qed

section \<open>Maps as association lists\<close>

text \<open>
  A \<open>std::map\<close> whose iteration order matters is an association list with distinct keys;
  \<open>put_al\<close> is \<open>m[k] = v\<close>, \<open>del_al\<close> is \<open>m.erase(k)\<close>.
\<close>

fun put_al :: "'k \<Rightarrow> 'v \<Rightarrow> ('k \<times> 'v) list \<Rightarrow> ('k \<times> 'v) list" where
  "put_al k v [] = [(k, v)]"
| "put_al k v ((k', v') # m) = (if k = k' then (k, v) # m else (k', v') # put_al k v m)"

lemma map_of_put_al [simp]: "map_of (put_al k v m) = (map_of m)(k \<mapsto> v)"
  by (induction m) (auto simp: fun_eq_iff)

lemma dom_put_al: "fst ` set (put_al k v m) = insert k (fst ` set m)"
  by (induction m rule: put_al.induct) auto

lemma distinct_put_al: "distinct (map fst m) \<Longrightarrow> distinct (map fst (put_al k v m))"
  by (induction m rule: put_al.induct) (auto simp: dom_put_al)

end
