(* ===== verification/Json.thy ===== *)
theory Json
  imports Prelude Complex_Main
begin

text \<open>
  The vendored JSON library as the SDK uses it: its document tree as a datatype with the
  library's value kinds, and the accessors the modelled code calls (\<open>is_*\<close>, \<open>contains\<close>,
  \<open>find\<close>, \<open>operator[]\<close>, \<open>value\<close>, \<open>get\<close>), each with the exception it raises.
  \<open>json::parse(text, nullptr, false)\<close> is a parameter of every operation that parses
  (\<open>\<open>string \<Rightarrow> json\<close>\<close>, answering \<open>JDiscarded\<close> on malformed text), and so is \<open>dump\<close>.
  An object is its entries in iteration order, keys distinct. A double is a rational, as
  every finite double is.
\<close>

datatype json =
    JNull
  | JObj "(string \<times> json) list"
  | JArr "json list"
  | JStr string
  | JBool bool
  | JInt "64 word"
  | JUInt "64 word"
  | JFloat rat
  | JDiscarded

fun is_object :: "json \<Rightarrow> bool" where
  "is_object (JObj _) = True"
| "is_object _ = False"

fun is_array :: "json \<Rightarrow> bool" where
  "is_array (JArr _) = True"
| "is_array _ = False"

fun is_string :: "json \<Rightarrow> bool" where
  "is_string (JStr _) = True"
| "is_string _ = False"

fun is_discarded :: "json \<Rightarrow> bool" where
  "is_discarded JDiscarded = True"
| "is_discarded _ = False"

fun is_number_integer :: "json \<Rightarrow> bool" where
  "is_number_integer (JInt _) = True"
| "is_number_integer (JUInt _) = True"
| "is_number_integer _ = False"

fun is_number :: "json \<Rightarrow> bool" where
  "is_number (JInt _) = True"
| "is_number (JUInt _) = True"
| "is_number (JFloat _) = True"
| "is_number _ = False"

text \<open>\<open>find(key)\<close>: \<open>None\<close> is \<open>end()\<close>, which is also the answer for a non-object.\<close>

fun jfind :: "json \<Rightarrow> string \<Rightarrow> json option" where
  "jfind (JObj kvs) k = map_of kvs k"
| "jfind _ k = None"

definition contains :: "json \<Rightarrow> string \<Rightarrow> bool" where
  "contains j k = (jfind j k \<noteq> None)"

text \<open>
  The idiom \<open>j.contains(k) && j[k].is_string() ? j[k].get<std::string>() : nullopt\<close>,
  used throughout.
\<close>

definition opt_str :: "json \<Rightarrow> string \<Rightarrow> string option" where
  "opt_str j k = (case jfind j k of Some (JStr s) \<Rightarrow> Some s | _ \<Rightarrow> None)"

lemma opt_str_Some: "opt_str j k = Some s \<longleftrightarrow> jfind j k = Some (JStr s)"
  by (auto simp: opt_str_def split: option.splits json.splits)

definition str_items :: "json list \<Rightarrow> string list" where
  "str_items xs = List.map_filter (\<lambda>x. case x of JStr s \<Rightarrow> Some s | _ \<Rightarrow> None) xs"

lemma str_items_simps [simp]:
  "str_items [] = []"
  "str_items (JStr s # xs) = s # str_items xs"
  "\<not> is_string x \<Longrightarrow> str_items (x # xs) = str_items xs"
  by (auto simp: str_items_def List.map_filter_def split: json.splits)

lemma set_str_items: "s \<in> set (str_items xs) \<longleftrightarrow> JStr s \<in> set xs"
  by (induction xs) (auto simp: str_items_def List.map_filter_def split: json.splits)

text \<open>
  Conversion of a double to \<open>std::int64_t\<close>: truncation towards zero, undefined when the
  truncated value does not fit.
\<close>

definition trunc_rat :: "rat \<Rightarrow> int" where
  "trunc_rat q = (if 0 \<le> q then \<lfloor>q\<rfloor> else - \<lfloor>- q\<rfloor>)"

definition fits64 :: "int \<Rightarrow> bool" where
  "fits64 i = (- (2 ^ 63) \<le> i \<and> i < 2 ^ 63)"

definition int64_of_double :: "rat \<Rightarrow> int res" where
  "int64_of_double q = (if fits64 (trunc_rat q) then Inr (trunc_rat q) else Inl Undefined)"

lemma int64_of_double_fits: "int64_of_double q = Inr i \<Longrightarrow> fits64 i"
  by (auto simp: int64_of_double_def split: if_splits)

lemma fits64_sint [simp]: "fits64 (sint (w :: 64 word))"
  using sint_greater_eq [of w] sint_less [of w] by (simp add: fits64_def)

text \<open>\<open>get<std::int64_t>()\<close>: \<open>type_error\<close> 302 on anything but a number.\<close>

fun get_int64 :: "json \<Rightarrow> int res" where
  "get_int64 (JInt w) = Inr (sint w)"
| "get_int64 (JUInt w) = Inr (sint w)"
| "get_int64 (JFloat q) = int64_of_double q"
| "get_int64 _ = Inl JsonTypeError"

lemma get_int64_fits: "get_int64 j = Inr i \<Longrightarrow> fits64 i"
  by (cases j) (auto dest: int64_of_double_fits)

fun get_str :: "json \<Rightarrow> string res" where
  "get_str (JStr s) = Inr s"
| "get_str _ = Inl JsonTypeError"

fun get_bool :: "json \<Rightarrow> bool res" where
  "get_bool (JBool b) = Inr b"
| "get_bool _ = Inl JsonTypeError"

text \<open>
  \<open>value(key, default)\<close>: \<open>type_error\<close> 306 on a non-object, the default when the key is
  absent, otherwise the conversion of the member, with its own \<open>type_error\<close>.
\<close>

definition jvalue :: "(json \<Rightarrow> 'a res) \<Rightarrow> json \<Rightarrow> string \<Rightarrow> 'a \<Rightarrow> 'a res" where
  "jvalue get j k d =
     (case j of
        JObj kvs \<Rightarrow> (case map_of kvs k of None \<Rightarrow> Inr d | Some v \<Rightarrow> get v)
      | _ \<Rightarrow> Inl JsonTypeError)"

lemma jvalue_non_object: "\<not> is_object j \<Longrightarrow> jvalue get j k d = Inl JsonTypeError"
  by (cases j) (auto simp: jvalue_def)

lemma jvalue_absent: "is_object j \<Longrightarrow> jfind j k = None \<Longrightarrow> jvalue get j k d = Inr d"
  by (cases j) (auto simp: jvalue_def)

lemma jvalue_present: "jfind j k = Some v \<Longrightarrow> jvalue get j k d = get v"
  by (cases j) (auto simp: jvalue_def)

lemma jvalue_str_errors: "jvalue get_str j k d = Inl e \<Longrightarrow> e = JsonTypeError"
proof -
  have "get_str v = Inl e \<Longrightarrow> e = JsonTypeError" for v by (cases v) auto
  then show "jvalue get_str j k d = Inl e \<Longrightarrow> e = JsonTypeError"
    by (cases j) (auto simp: jvalue_def split: option.splits)
qed

end
