(* ===== verification/Encoding.thy ===== *)
theory Encoding
  imports Prelude
begin

text \<open>
  The text encodings of the SDK: unpadded base64url (\<open>jose.cpp\<close>, \<open>jwks.cpp\<close>), percent
  encoding (\<open>management_transport.cpp\<close>, \<open>client.cpp\<close>, \<open>oidc.cpp\<close>), hexadecimal
  (\<open>jose.cpp\<close>, \<open>webhook.cpp\<close>), and the constant-time comparison. The bit manipulation is
  on 32-bit words as in the source; the round trips go through a description of the same
  digits as natural numbers.
\<close>

unbundle bit_operations_syntax

type_synonym u32 = "32 word"

section \<open>Constant-time comparison\<close>

text \<open>The accumulated difference is an \<open>unsigned char\<close>, one per byte pair.\<close>

definition u8_of :: "char \<Rightarrow> 8 word" where
  "u8_of c = of_nat (code c)"

fun diff_bytes :: "8 word \<Rightarrow> string \<Rightarrow> string \<Rightarrow> 8 word" where
  "diff_bytes d (x # xs) (y # ys) = diff_bytes (d OR (u8_of x XOR u8_of y)) xs ys"
| "diff_bytes d _ _ = d"

definition constant_time_equal :: "string \<Rightarrow> string \<Rightarrow> bool" where
  "constant_time_equal a b = (if length a \<noteq> length b then False else diff_bytes 0 a b = 0)"

lemma unat_u8_of [simp]: "unat (u8_of c) = code c"
  by (simp add: u8_of_def unat_of_nat)

lemma u8_of_eq: "u8_of x = u8_of y \<longleftrightarrow> x = y"
  by (metis of_char_eq_iff unat_u8_of)

lemma or_eq_0: "(a :: 8 word) OR b = 0 \<longleftrightarrow> a = 0 \<and> b = 0"
  by (simp add: or_eq_0_iff)

lemma xor_eq_0: "(a :: 8 word) XOR b = 0 \<longleftrightarrow> a = b"
  by (metis bit.xor_left_self bit.xor_self xor.right_neutral)

lemma diff_bytes_eq_0:
  "length a = length b \<Longrightarrow> diff_bytes d a b = 0 \<longleftrightarrow> d = 0 \<and> a = b"
  by (induction a b arbitrary: d rule: list_induct2)
    (auto simp: or_eq_0 xor_eq_0 u8_of_eq)

lemma constant_time_equal_iff [simp]: "constant_time_equal a b \<longleftrightarrow> a = b"
  by (auto simp: constant_time_equal_def diff_bytes_eq_0)

section \<open>Base64url\<close>

definition b64_alphabet :: string where
  "b64_alphabet = ''ABCDEFGHIJKLMNOPQRSTUVWXYZabcdefghijklmnopqrstuvwxyz0123456789-_''"

definition sextet :: "u32 \<Rightarrow> nat \<Rightarrow> char" where
  "sextet v n = b64_alphabet ! unat (drop_bit n v AND 0x3F)"

definition u32_of :: "char \<Rightarrow> u32" where
  "u32_of c = of_nat (code c)"

fun b64url_encode :: "string \<Rightarrow> string" where
  "b64url_encode [] = []"
| "b64url_encode [a] =
     (let v = push_bit 16 (u32_of a) in [sextet v 18, sextet v 12])"
| "b64url_encode [a, b] =
     (let v = push_bit 16 (u32_of a) OR push_bit 8 (u32_of b)
      in [sextet v 18, sextet v 12, sextet v 6])"
| "b64url_encode (a # b # c # rest) =
     (let v = push_bit 16 (u32_of a) OR push_bit 8 (u32_of b) OR u32_of c
      in [sextet v 18, sextet v 12, sextet v 6, sextet v 0] @ b64url_encode rest)"

definition b64_val :: "char \<Rightarrow> nat option" where
  "b64_val c =
     (if is_upper c then Some (code c - 65)
      else if is_lower c then Some (code c - 97 + 26)
      else if is_digit c then Some (code c - 48 + 52)
      else if c = CHR ''-'' then Some 62
      else if c = CHR ''_'' then Some 63
      else None)"

fun b64_loop :: "u32 \<Rightarrow> nat \<Rightarrow> string \<Rightarrow> string \<Rightarrow> string option" where
  "b64_loop buf bits out [] = Some out"
| "b64_loop buf bits out (ch # rest) =
     (if ch = CHR ''='' then Some out
      else (case b64_val ch of
              None \<Rightarrow> None
            | Some v \<Rightarrow>
                (let buf' = (push_bit 6 buf OR of_nat v) AND 0xFFFFFF; bits' = bits + 6
                 in if bits' \<ge> 8
                    then b64_loop buf' (bits' - 8)
                           (out @ [byte (unat (drop_bit (bits' - 8) buf' AND 0xFF))]) rest
                    else b64_loop buf' bits' out rest)))"

definition base64url_decode :: "string \<Rightarrow> string option" where
  "base64url_decode s = b64_loop 0 0 [] s"

text \<open>
  The decoder's accumulator read as a natural number: shifting in a symbol is
  multiplication by 64 and addition, and the 24-bit mask is a remainder.
\<close>

lemma b64_val_less: "b64_val c = Some v \<Longrightarrow> v < 64"
  by (auto simp: b64_val_def is_upper_def is_lower_def is_digit_def split: if_splits)

lemma unat_shift_or:
  assumes "v < 64"
  shows "unat ((push_bit 6 buf OR of_nat v) AND 0xFFFFFF :: u32) = (unat buf * 64 + v) mod 2 ^ 24"
proof -
  have m: "(0xFFFFFF :: u32) = mask 24" by (simp add: mask_eq_exp_minus_1)
  have "(push_bit 6 buf :: u32) AND of_nat v = 0"
  proof (rule bit_eqI)
    fix n
    have "\<not> bit (of_nat v :: u32) n" if "6 \<le> n"
    proof -
      have "take_bit 6 v = v" using assms by (simp add: take_bit_nat_eq_self)
      then have "\<not> bit v n" using that by (metis bit_take_bit_iff not_le)
      then show ?thesis by (simp add: bit_of_nat_iff)
    qed
    then show "bit ((push_bit 6 buf :: u32) AND of_nat v) n = bit (0 :: u32) n"
      by (auto simp: bit_and_iff bit_push_bit_iff)
  qed
  then have "push_bit 6 buf OR of_nat v = push_bit 6 buf + (of_nat v :: u32)"
    by (simp add: disjunctive_add_eq_or)
  also have "\<dots> = of_nat (unat buf * 64 + v)"
    by (simp add: push_bit_eq_mult)
  finally have eq: "push_bit 6 buf OR of_nat v = (of_nat (unat buf * 64 + v) :: u32)" .
  have "unat (take_bit 24 (of_nat (unat buf * 64 + v) :: u32))
      = take_bit 24 ((unat buf * 64 + v) mod 2 ^ 32)"
    by (simp only: unsigned_take_bit_eq unat_of_nat) simp
  then show ?thesis
    by (simp only: eq m take_bit_eq_mask [symmetric])
      (simp add: take_bit_eq_mod mod_mod_cancel)
qed

lemma unat_low_byte:
  "unat (drop_bit n (buf :: u32) AND 0xFF) = (unat buf div 2 ^ n) mod 256"
proof -
  have m: "(0xFF :: u32) = mask 8" by (simp add: mask_eq_exp_minus_1)
  have "unat (take_bit 8 (drop_bit n buf)) = take_bit 8 (drop_bit n (unat buf))"
    by (simp only: unsigned_take_bit_eq unat_drop_bit_eq)
  then show ?thesis
    by (simp only: m take_bit_eq_mask [symmetric]) (simp add: take_bit_eq_mod drop_bit_eq_div)
qed

text \<open>
  The reference decoder keeps the whole number read so far, with no mask: what the
  comment in the source argues (24 bits are enough) is \<open>b64_loop_ref\<close>.
\<close>

fun b64_ref :: "nat \<Rightarrow> nat \<Rightarrow> string \<Rightarrow> string \<Rightarrow> string option" where
  "b64_ref acc bits out [] = Some out"
| "b64_ref acc bits out (ch # rest) =
     (if ch = CHR ''='' then Some out
      else (case b64_val ch of
              None \<Rightarrow> None
            | Some v \<Rightarrow>
                (if bits + 6 \<ge> 8
                 then b64_ref (acc * 64 + v) (bits + 6 - 8)
                        (out @ [byte ((acc * 64 + v) div 2 ^ (bits + 6 - 8))]) rest
                 else b64_ref (acc * 64 + v) (bits + 6) out rest)))"

lemma mod_div_mod: "k \<le> 16 \<Longrightarrow> ((x :: nat) mod 2 ^ 24 div 2 ^ k) mod 256 = (x div 2 ^ k) mod 256"
proof -
  assume "k \<le> 16"
  then have "take_bit 8 (drop_bit k (take_bit 24 x)) = take_bit 8 (drop_bit k x)"
    by (simp add: drop_bit_take_bit)
  then show ?thesis by (simp add: take_bit_eq_mod drop_bit_eq_div)
qed

lemma b64_loop_ref:
  "unat buf mod 2 ^ 24 = acc mod 2 ^ 24 \<Longrightarrow> bits < 8 \<Longrightarrow>
     b64_loop buf bits out s = b64_ref acc bits out s"
proof (induction s arbitrary: buf acc bits out)
  case Nil
  then show ?case by simp
next
  case (Cons ch s)
  show ?case
  proof (cases "ch = CHR ''='' \<or> b64_val ch = None")
    case True
    then show ?thesis by auto
  next
    case False
    then obtain v where v: "b64_val ch = Some v" and ne: "ch \<noteq> CHR ''=''" by auto
    define buf' where "buf' = ((push_bit 6 buf OR of_nat v) AND 0xFFFFFF :: u32)"
    have u: "unat buf' = (unat buf * 64 + v) mod 2 ^ 24"
      unfolding buf'_def by (rule unat_shift_or [OF b64_val_less [OF v]])
    have "(unat buf * 64 + v) mod 2 ^ 24 = (acc * 64 + v) mod 2 ^ 24"
      using Cons.prems(1) by (metis mod_add_left_eq mod_mult_left_eq)
    with u have eq: "unat buf' = (acc * 64 + v) mod 2 ^ 24" by simp
    then have inv: "unat buf' mod 2 ^ 24 = (acc * 64 + v) mod 2 ^ 24" by simp
    have chr: "byte (unat (drop_bit k buf' AND 0xFF)) = byte ((acc * 64 + v) div 2 ^ k)"
      if "k \<le> 16" for k
      using mod_div_mod [OF that, of "acc * 64 + v"] by (simp add: unat_low_byte eq)
    show ?thesis
    proof (cases "8 \<le> bits + 6")
      case True
      have "b64_loop buf' (bits + 6 - 8) out' s = b64_ref (acc * 64 + v) (bits + 6 - 8) out' s"
        for out' by (rule Cons.IH [OF inv]) (use Cons.prems(2) True in simp)
      moreover have e: "byte (unat (drop_bit (bits + 6 - 8) buf' AND 0xFF))
          = byte ((acc * 64 + v) div 2 ^ (bits + 6 - 8))"
        by (rule chr) (use Cons.prems(2) in simp)
      ultimately show ?thesis
        using True v ne
        by (simp only: b64_loop.simps b64_ref.simps option.case Let_def if_True if_False
            buf'_def [symmetric])
    next
      case False
      have "b64_loop buf' (bits + 6) out s = b64_ref (acc * 64 + v) (bits + 6) out s"
        by (rule Cons.IH [OF inv]) (use False in simp)
      with False v ne show ?thesis by (simp add: Let_def flip: buf'_def)
    qed
  qed
qed

lemma base64url_decode_ref: "base64url_decode s = b64_ref 0 0 [] s"
  by (simp add: base64url_decode_def b64_loop_ref)

text \<open>The encoder's digits as numbers.\<close>

lemma code_le: "code c \<le> 255"
  using nat_of_char_less_256 [of c] by linarith

lemma unat_u32_of [simp]: "unat (u32_of c) = code c"
proof -
  have "code c < 2 ^ 32" by (rule less_le_trans [OF nat_of_char_less_256]) simp
  then show ?thesis by (simp add: u32_of_def unat_of_nat)
qed

lemma sextet_nat: "sextet v n = b64_alphabet ! (unat v div 2 ^ n mod 64)"
proof -
  have m: "(0x3F :: u32) = mask 6" by (simp add: mask_eq_exp_minus_1)
  have "unat (take_bit 6 (drop_bit n v)) = take_bit 6 (drop_bit n (unat v))"
    by (simp only: unsigned_take_bit_eq unat_drop_bit_eq)
  then have "unat (drop_bit n v AND 0x3F) = unat v div 2 ^ n mod 64"
    by (simp only: m take_bit_eq_mask [symmetric]) (simp add: take_bit_eq_mod drop_bit_eq_div)
  then show ?thesis by (simp add: sextet_def)
qed

lemma bit_u32_of: "bit (u32_of c) n \<Longrightarrow> n < 8"
proof -
  assume "bit (u32_of c) n"
  then have "bit (code c) n" by (simp add: u32_of_def bit_of_nat_iff)
  moreover have "take_bit 8 (code c) = code c" by (simp add: take_bit_eq_mod)
  ultimately show "n < 8" by (metis bit_take_bit_iff)
qed

lemma unat_of_nat_small: "n < 2 ^ 32 \<Longrightarrow> unat (of_nat n :: u32) = n"
  by (simp add: unat_of_nat)

lemma push_bit_u32: "push_bit n (of_nat k :: u32) = of_nat (k * 2 ^ n)"
  by (simp add: push_bit_eq_mult)

lemma unat_one: "unat (push_bit 16 (u32_of a)) = code a * 65536"
  using code_le [of a] by (simp only: u32_of_def push_bit_u32) (subst unat_of_nat_small, simp_all)

lemma or_one_two:
  "push_bit 16 (u32_of a) OR push_bit 8 (u32_of b) = of_nat (code a * 65536 + code b * 256)"
proof -
  have "push_bit 16 (u32_of a) AND push_bit 8 (u32_of b) = 0"
    by (rule bit_eqI) (auto simp: bit_and_iff bit_push_bit_iff dest: bit_u32_of)
  then have "push_bit 16 (u32_of a) OR push_bit 8 (u32_of b)
      = push_bit 16 (u32_of a) + push_bit 8 (u32_of b)"
    by (simp only: disjunctive_add_eq_or)
  then show ?thesis by (simp add: push_bit_u32 u32_of_def)
qed

lemma unat_two:
  "unat (push_bit 16 (u32_of a) OR push_bit 8 (u32_of b)) = code a * 65536 + code b * 256"
  unfolding or_one_two
  by (rule unat_of_nat_small) (use code_le [of a] code_le [of b] in simp)

lemma unat_three:
  "unat (push_bit 16 (u32_of a) OR push_bit 8 (u32_of b) OR u32_of c)
     = code a * 65536 + code b * 256 + code c"
proof -
  let ?x = "push_bit 16 (u32_of a) OR push_bit 8 (u32_of b)"
  have "?x AND u32_of c = 0"
    by (rule bit_eqI) (auto simp: bit_and_iff bit_or_iff bit_push_bit_iff dest: bit_u32_of)
  then have "?x OR u32_of c = ?x + u32_of c" by (simp only: disjunctive_add_eq_or)
  also have "\<dots> = of_nat (code a * 65536 + code b * 256 + code c)"
    by (simp only: or_one_two) (simp add: u32_of_def)
  finally have "?x OR u32_of c = of_nat (code a * 65536 + code b * 256 + code c)" .
  moreover have "code a * 65536 + code b * 256 + code c < 2 ^ 32"
    using code_le [of a] code_le [of b] code_le [of c] by simp
  ultimately show ?thesis by (simp only: or.assoc [symmetric] unat_of_nat_small)
qed

lemma b64_alphabet_vals: "list_all2 (\<lambda>c i. b64_val c = Some i) b64_alphabet [0..<64]"
  by (simp add: b64_alphabet_def b64_val_def is_upper_def is_lower_def is_digit_def upt_rec)

lemma b64_alphabet_val: "i < 64 \<Longrightarrow> b64_val (b64_alphabet ! i) = Some i"
  using list_all2_nthD [OF b64_alphabet_vals, of i] by (simp add: b64_alphabet_def)

lemma b64_alphabet_ne: "i < 64 \<Longrightarrow> b64_alphabet ! i \<noteq> CHR ''=''"
  using b64_alphabet_val [of i] by (auto simp: b64_val_def is_upper_def is_lower_def is_digit_def)

lemma b64_ref_step:
  "v < 64 \<Longrightarrow> b64_ref acc bits out ((b64_alphabet ! v) # rest) =
     (if bits + 6 \<ge> 8
      then b64_ref (acc * 64 + v) (bits + 6 - 8)
             (out @ [byte ((acc * 64 + v) div 2 ^ (bits + 6 - 8))]) rest
      else b64_ref (acc * 64 + v) (bits + 6) out rest)"
  by (simp add: b64_alphabet_val b64_alphabet_ne)

lemma byte_cong: "m mod 256 = code c \<Longrightarrow> byte m = c"
  by (metis char_of_char char_of_mod_256)

text \<open>Three bytes and their four base64 digits, as numbers.\<close>

lemma div_add_small: "(y :: nat) < k \<Longrightarrow> (x * k + y) div k = x"
  by simp

lemma mod_add_small: "(y :: nat) < k \<Longrightarrow> (x * k + y) mod k = y"
  by simp

lemma mod_256_add: "(y :: nat) < 256 \<Longrightarrow> (x * 256 + y) mod 256 = y"
  by simp

lemma mod16_tail: "(y :: nat) < 16 \<Longrightarrow> (t * 64 + (x * 16 + y)) mod 16 = y"
  using mod_add_small [of y 16 "t * 4 + x"] by (simp add: algebra_simps)

lemma mod4_tail: "(y :: nat) < 4 \<Longrightarrow> (t * 64 + (x * 4 + y)) mod 4 = y"
  using mod_add_small [of y 4 "t * 16 + x"] by (simp add: algebra_simps)

lemma digits_value:
  fixes a b c x y z w s t :: nat
  assumes "x * 4 + y = a" "z * 16 + w = b" "s * 64 + t = c"
  shows "a * 65536 + b * 256 + c = ((x * 64 + (y * 16 + z)) * 64 + (w * 4 + s)) * 64 + t"
  unfolding assms [symmetric] by simp

lemma digits_split:
  fixes a b c :: nat
  assumes "a < 256" "b < 256" "c < 256"
  defines "N \<equiv> a * 65536 + b * 256 + c"
  shows "N div 262144 mod 64 = a div 4"
    and "N div 4096 mod 64 = (a mod 4) * 16 + b div 16"
    and "N div 64 mod 64 = (b mod 16) * 4 + c div 64"
    and "N mod 64 = c mod 64"
proof -
  let ?v1 = "a div 4" and ?v2 = "(a mod 4) * 16 + b div 16"
    and ?v3 = "(b mod 16) * 4 + c div 64" and ?v4 = "c mod 64"
  have N: "N = ((?v1 * 64 + ?v2) * 64 + ?v3) * 64 + ?v4"
    unfolding N_def by (rule digits_value) (rule div_mult_mod_eq)+
  have b: "?v1 < 64" "?v2 < 64" "?v3 < 64" "?v4 < 64" using assms by auto
  have d1: "N div 64 = (?v1 * 64 + ?v2) * 64 + ?v3" unfolding N using b by (intro div_add_small)
  have d2: "N div 4096 = ?v1 * 64 + ?v2"
  proof -
    have "N div 4096 = N div 64 div 64" using div_mult2_eq [of N 64 64] by simp
    then show ?thesis unfolding d1 using b by (simp only: div_add_small)
  qed
  have d3: "N div 262144 = ?v1"
  proof -
    have "N div 262144 = N div 4096 div 64" using div_mult2_eq [of N 4096 64] by simp
    then show ?thesis unfolding d2 using b by (simp only: div_add_small)
  qed
  show "N div 262144 mod 64 = ?v1" using d3 b by simp
  show "N div 4096 mod 64 = ?v2" unfolding d2 using b by (intro mod_add_small)
  show "N div 64 mod 64 = ?v3" unfolding d1 using b by (intro mod_add_small)
  show "N mod 64 = ?v4" unfolding N using b by (intro mod_add_small)
qed

lemma digits_join:
  fixes a b c acc :: nat
  assumes "a < 256" "b < 256" "c < 256"
  shows "((acc * 64 + a div 4) * 64 + ((a mod 4) * 16 + b div 16)) div 16 mod 256 = a"
    and "(acc * 64 + ((b mod 16) * 4 + c div 64)) div 4 mod 256 = (acc mod 16) * 16 + b mod 16"
    and "(acc * 64 + c mod 64) mod 256 = (acc mod 4) * 64 + c mod 64"
proof -
  have "(acc * 64 + a div 4) * 64 + ((a mod 4) * 16 + b div 16)
      = (acc * 256 + (a div 4 * 4 + a mod 4)) * 16 + b div 16" by algebra
  then have "((acc * 64 + a div 4) * 64 + ((a mod 4) * 16 + b div 16)) div 16
      = acc * 256 + a" using assms(2) by (simp only: div_mult_mod_eq) (simp add: div_add_small)
  then show "((acc * 64 + a div 4) * 64 + ((a mod 4) * 16 + b div 16)) div 16 mod 256 = a"
    using assms(1) by simp
  have "acc * 64 + ((b mod 16) * 4 + c div 64) = (acc * 16 + b mod 16) * 4 + c div 64" by algebra
  moreover have "c div 64 < 4" using assms(3) by auto
  ultimately have d: "(acc * 64 + ((b mod 16) * 4 + c div 64)) div 4 = acc * 16 + b mod 16"
    by (simp only: div_add_small)
  have "acc * 16 + b mod 16 = (acc div 16) * 256 + ((acc mod 16) * 16 + b mod 16)"
    using div_mult_mod_eq [of acc 16] by linarith
  moreover have "(acc mod 16) * 16 + b mod 16 < 256"
    using mod_less_divisor [of 16 acc] mod_less_divisor [of 16 b] by linarith
  ultimately show "(acc * 64 + ((b mod 16) * 4 + c div 64)) div 4 mod 256
      = (acc mod 16) * 16 + b mod 16" unfolding d by (simp only: mod_256_add)
  have "acc * 64 + c mod 64 = (acc div 4) * 256 + ((acc mod 4) * 64 + c mod 64)"
    using div_mult_mod_eq [of acc 4] by linarith
  moreover have "(acc mod 4) * 64 + c mod 64 < 256"
    using mod_less_divisor [of 4 acc] mod_less_divisor [of 64 c] by linarith
  ultimately show "(acc * 64 + c mod 64) mod 256 = (acc mod 4) * 64 + c mod 64"
    by (simp only: mod_256_add)
qed

text \<open>One group of the decoder on the symbols the encoder wrote.\<close>

abbreviation sym :: "nat \<Rightarrow> char" where
  "sym v \<equiv> b64_alphabet ! v"

lemma b64_group3:
  assumes "v1 = code a div 4" "v2 = (code a mod 4) * 16 + code b div 16"
    and "v3 = (code b mod 16) * 4 + code c div 64" "v4 = code c mod 64"
  shows "\<exists>acc'. b64_ref acc 0 out (sym v1 # sym v2 # sym v3 # sym v4 # rest)
           = b64_ref acc' 0 (out @ [a, b, c]) rest"
proof -
  have v: "v1 < 64" "v2 < 64" "v3 < 64" "v4 < 64"
    using assms code_le [of a] code_le [of b] code_le [of c] by auto
  let ?p = "(acc * 64 + v1) * 64 + v2" and ?q = "((acc * 64 + v1) * 64 + v2) * 64 + v3"
  have "?p div 16 mod 256 = code a"
    unfolding assms(1,2) by (rule digits_join(1) [of _ _ "code c"]) simp_all
  then have c1: "byte (?p div 16) = a" by (rule byte_cong)
  have m: "?p mod 16 = code b div 16"
    unfolding assms(2) by (rule mod16_tail) (use code_le [of b] in auto)
  have "?q div 4 mod 256 = (?p mod 16) * 16 + code b mod 16"
    unfolding assms(3) by (rule digits_join(2) [of "code a"]) simp_all
  then have c2: "byte (?q div 4) = b"
    unfolding m by (intro byte_cong) (simp only: div_mult_mod_eq)
  have m': "?q mod 4 = code c div 64"
    unfolding assms(3) by (rule mod4_tail) (use code_le [of c] in auto)
  have "(?q * 64 + v4) mod 256 = (?q mod 4) * 64 + code c mod 64"
    unfolding assms(4) by (rule digits_join(3) [of "code a" "code b"]) simp_all
  then have c3: "byte (?q * 64 + v4) = c"
    unfolding m' by (intro byte_cong) (simp only: div_mult_mod_eq)
  have "b64_ref acc 0 out (sym v1 # sym v2 # sym v3 # sym v4 # rest)
      = b64_ref (?q * 64 + v4) 0 (out @ [byte (?p div 16), byte (?q div 4), byte (?q * 64 + v4)]) rest"
    using v by (simp add: b64_ref_step del: b64_ref.simps)
  then show ?thesis unfolding c1 c2 c3 by blast
qed

lemma b64_group2:
  assumes "v1 = code a div 4" "v2 = (code a mod 4) * 16 + code b div 16"
    and "v3 = (code b mod 16) * 4"
  shows "b64_ref acc 0 out [sym v1, sym v2, sym v3] = Some (out @ [a, b])"
proof -
  have v: "v1 < 64" "v2 < 64" "v3 < 64"
    using assms code_le [of a] code_le [of b] by auto
  let ?p = "(acc * 64 + v1) * 64 + v2"
  have "?p div 16 mod 256 = code a"
    unfolding assms(1,2) by (rule digits_join(1) [of _ _ 0]) simp_all
  then have c1: "byte (?p div 16) = a" by (rule byte_cong)
  have m: "?p mod 16 = code b div 16"
    unfolding assms(2) by (rule mod16_tail) (use code_le [of b] in auto)
  have "(?p * 64 + v3) div 4 mod 256 = (?p mod 16) * 16 + code b mod 16"
    using digits_join(2) [of "code a" "code b" 0 ?p] by (simp add: assms(3))
  then have c2: "byte ((?p * 64 + v3) div 4) = b"
    unfolding m by (intro byte_cong) (simp only: div_mult_mod_eq)
  show ?thesis
    using v c1 c2 by (simp add: b64_ref_step del: b64_ref.simps) (simp add: b64_ref.simps)
qed

lemma b64_group1:
  assumes "v1 = code a div 4" "v2 = (code a mod 4) * 16"
  shows "b64_ref acc 0 out [sym v1, sym v2] = Some (out @ [a])"
proof -
  have v: "v1 < 64" "v2 < 64" using assms code_le [of a] by auto
  have "((acc * 64 + v1) * 64 + v2) div 16 mod 256 = code a"
    using digits_join(1) [of "code a" 0 0 acc] by (simp add: assms)
  then have c1: "byte (((acc * 64 + v1) * 64 + v2) div 16) = a" by (rule byte_cong)
  show ?thesis
    using v c1 by (simp add: b64_ref_step del: b64_ref.simps) (simp add: b64_ref.simps)
qed

text \<open>Encoding never emits \<open>=\<close> and decoding what it emitted gives the bytes back.\<close>

lemma encode3:
  "b64url_encode (a # b # c # rest) =
     [sym (code a div 4), sym ((code a mod 4) * 16 + code b div 16),
      sym ((code b mod 16) * 4 + code c div 64), sym (code c mod 64)] @ b64url_encode rest"
  using digits_split [of "code a" "code b" "code c"]
  by (simp add: Let_def sextet_nat unat_three)

lemma encode2:
  "b64url_encode [a, b] =
     [sym (code a div 4), sym ((code a mod 4) * 16 + code b div 16), sym ((code b mod 16) * 4)]"
  using digits_split [of "code a" "code b" 0]
  by (simp add: Let_def sextet_nat unat_two)

lemma encode1: "b64url_encode [a] = [sym (code a div 4), sym ((code a mod 4) * 16)]"
  using digits_split [of "code a" 0 0]
  by (simp add: Let_def sextet_nat unat_one)

lemma b64_ref_encode: "b64_ref acc 0 out (b64url_encode s) = Some (out @ s)"
proof (induction s arbitrary: acc out rule: b64url_encode.induct)
  case 1
  show ?case by (simp add: b64_ref.simps)
next
  case (2 a)
  show ?case unfolding encode1 by (rule b64_group1) simp_all
next
  case (3 a b)
  show ?case unfolding encode2 by (rule b64_group2) simp_all
next
  case (4 a b c rest)
  obtain acc' where "b64_ref acc 0 out (b64url_encode (a # b # c # rest))
      = b64_ref acc' 0 (out @ [a, b, c]) (b64url_encode rest)"
    unfolding encode3 append_Cons append_Nil
    using b64_group3 [OF refl refl refl refl] by metis
  with 4 show ?case by simp
qed

lemma base64url_decode_encode: "base64url_decode (b64url_encode s) = Some s"
  by (simp add: base64url_decode_ref b64_ref_encode)

lemma length_b64url_encode:
  "length (b64url_encode s) = (length s * 8 + 5) div 6"
proof (induction s rule: b64url_encode.induct)
  case (4 a b c rest)
  have "(length (a # b # c # rest) * 8 + 5) div 6 = 4 + (length rest * 8 + 5) div 6" by simp
  with 4 show ?case unfolding encode3 by simp
qed (simp_all only: encode1 encode2, simp_all)

section \<open>Hexadecimal\<close>

definition hex_lower :: "nat \<Rightarrow> char" where
  "hex_lower n = ''0123456789abcdef'' ! n"

definition hex_upper :: "nat \<Rightarrow> char" where
  "hex_upper n = ''0123456789ABCDEF'' ! n"

text \<open>The body of \<open>random_hex\<close>, given the bytes the generator drew.\<close>

definition to_hex :: "string \<Rightarrow> string" where
  "to_hex bytes = concat (map (\<lambda>b. [hex_lower (code b div 16), hex_lower (code b mod 16)]) bytes)"

definition nibble :: "char \<Rightarrow> nat option" where
  "nibble c =
     (if is_digit c then Some (code c - 48)
      else if 97 \<le> code c \<and> code c \<le> 102 then Some (code c - 97 + 10)
      else if 65 \<le> code c \<and> code c \<le> 70 then Some (code c - 65 + 10)
      else None)"

fun hex_pairs :: "string \<Rightarrow> string option" where
  "hex_pairs (h # l # rest) =
     (case (nibble h, nibble l) of
        (Some hi, Some lo) \<Rightarrow> map_option (Cons (byte (hi * 16 + lo))) (hex_pairs rest)
      | _ \<Rightarrow> None)"
| "hex_pairs _ = Some []"

definition hex_decode :: "string \<Rightarrow> string option" where
  "hex_decode hex = (if hex = [] \<or> odd (length hex) then None else hex_pairs hex)"

lemma hex_digit_vals:
  "list_all2 (\<lambda>c i. nibble c = Some i) ''0123456789abcdef'' [0..<16]"
  "list_all2 (\<lambda>c i. nibble c = Some i) ''0123456789ABCDEF'' [0..<16]"
  by (simp_all add: nibble_def is_digit_def upt_rec)

lemma nibble_hex [simp]:
  "n < 16 \<Longrightarrow> nibble (hex_lower n) = Some n"
  "n < 16 \<Longrightarrow> nibble (hex_upper n) = Some n"
  using list_all2_nthD [OF hex_digit_vals(1), of n] list_all2_nthD [OF hex_digit_vals(2), of n]
  by (simp_all add: hex_lower_def hex_upper_def)

lemma code_nibbles: "code c div 16 < 16" "code c div 16 * 16 + code c mod 16 = code c"
  using code_le [of c] by auto

lemma nibbles_join: "byte (code c div 16 * 16 + code c mod 16) = c"
  by (simp only: code_nibbles char_of_char)

lemma hex_pairs_to_hex: "hex_pairs (to_hex bytes) = Some bytes"
  by (induction bytes) (simp_all add: to_hex_def code_nibbles(1) nibbles_join)

lemma length_to_hex [simp]: "length (to_hex bytes) = 2 * length bytes"
  by (induction bytes) (simp_all add: to_hex_def)

lemma hex_decode_to_hex: "bytes \<noteq> [] \<Longrightarrow> hex_decode (to_hex bytes) = Some bytes"
proof -
  assume "bytes \<noteq> []"
  then have "to_hex bytes \<noteq> []" by (cases bytes) (simp_all add: to_hex_def)
  then show ?thesis by (simp add: hex_decode_def hex_pairs_to_hex)
qed

section \<open>Percent encoding\<close>

definition unreserved :: "char \<Rightarrow> bool" where
  "unreserved c =
     (is_upper c \<or> is_lower c \<or> is_digit c \<or>
      c = CHR ''-'' \<or> c = CHR ''_'' \<or> c = CHR ''.'' \<or> c = CHR ''~'')"

definition encode_char :: "char \<Rightarrow> string" where
  "encode_char c =
     (if unreserved c then [c]
      else [CHR ''%'', hex_upper (code c div 16), hex_upper (code c mod 16)])"

definition url_encode :: "string \<Rightarrow> string" where
  "url_encode s = concat (map encode_char s)"

text \<open>
  The decoder of \<open>oidc.cpp\<close>: a percent sign not followed by two hex digits is copied.
\<close>

fun pct_decode :: "string \<Rightarrow> string" where
  "pct_decode (c # h # l # rest) =
     (if c = CHR ''%'' \<and> nibble h \<noteq> None \<and> nibble l \<noteq> None
      then byte (the (nibble h) * 16 + the (nibble l)) # pct_decode rest
      else c # pct_decode (h # l # rest))"
| "pct_decode s = s"

lemma pct_decode_other: "c \<noteq> CHR ''%'' \<Longrightarrow> pct_decode (c # s) = c # pct_decode s"
  by (cases "c # s" rule: pct_decode.cases) auto

lemma pct_decode_url_encode: "pct_decode (url_encode s) = s"
proof (induction s)
  case Nil
  show ?case by (simp add: url_encode_def)
next
  case (Cons c s)
  show ?case
  proof (cases "unreserved c")
    case True
    then have "c \<noteq> CHR ''%''" by (auto simp: unreserved_def is_upper_def is_lower_def is_digit_def)
    with True Cons show ?thesis by (simp add: url_encode_def encode_char_def pct_decode_other)
  next
    case False
    with Cons show ?thesis
      by (simp add: url_encode_def encode_char_def code_nibbles(1) nibbles_join)
  qed
qed

definition pct_safe :: "char \<Rightarrow> bool" where
  "pct_safe c = (unreserved c \<or> c = CHR ''%'')"

lemma hex_digits_length: "length ''0123456789ABCDEF'' = 16"
  by simp

lemma hex_upper_unreserved: "n < 16 \<Longrightarrow> unreserved (hex_upper n)"
proof -
  have "list_all unreserved ''0123456789ABCDEF''"
    by (simp add: unreserved_def is_upper_def is_lower_def is_digit_def)
  then show "n < 16 \<Longrightarrow> unreserved (hex_upper n)"
    unfolding hex_upper_def by (metis list_all_length hex_digits_length)
qed

lemma url_encode_safe: "c \<in> set (url_encode s) \<Longrightarrow> pct_safe c"
  by (induction s)
    (auto simp: url_encode_def encode_char_def pct_safe_def code_nibbles(1) hex_upper_unreserved
      split: if_splits)

lemma pct_safe_not:
  "pct_safe c \<Longrightarrow> c \<notin> {CHR ''/'', CHR ''?'', CHR ''#'', CHR ''&'', CHR ''='', CHR ''{'', CHR ''}'', CHR '' ''}"
  by (auto simp: pct_safe_def unreserved_def is_upper_def is_lower_def is_digit_def)

lemma url_encode_eq_Nil [simp]: "url_encode s = [] \<longleftrightarrow> s = []"
  by (metis concat.simps(1) list.simps(8) pct_decode.simps(2) pct_decode_url_encode url_encode_def)

section \<open>The codec interface\<close>

text \<open>
  What every caller of an encoder relies on: decoding inverts it, so distinct values stay
  distinct on the wire.
\<close>

locale codec =
  fixes enc :: "string \<Rightarrow> string" and decode :: "string \<Rightarrow> string option"
  assumes round_trip: "s \<noteq> [] \<Longrightarrow> decode (enc s) = Some s"
begin

lemma enc_inj: "enc s = enc t \<Longrightarrow> s \<noteq> [] \<Longrightarrow> t \<noteq> [] \<Longrightarrow> s = t"
  by (metis option.inject round_trip)

end

interpretation b64: codec b64url_encode base64url_decode
  by unfold_locales (rule base64url_decode_encode)

interpretation hex: codec to_hex hex_decode
  by unfold_locales (rule hex_decode_to_hex)

interpretation pct: codec url_encode "\<lambda>s. Some (pct_decode s)"
  by unfold_locales (simp add: pct_decode_url_encode)

section \<open>Properties\<close>

text \<open>
  The key-set decoder and the encoder are inverse on every byte string, the encoding has
  the unpadded length, and decoding with the source's 32-bit accumulator masked to 24 bits is
  decoding with the whole number kept, for every text.
\<close>

theorem base64url_round_trip:
  "base64url_decode (b64url_encode s) = Some s
   \<and> length (b64url_encode s) = (length s * 8 + 5) div 6
   \<and> base64url_decode txt = b64_ref 0 0 [] txt"
  by (intro conjI base64url_decode_encode length_b64url_encode base64url_decode_ref)

text \<open>
  Percent encoding writes a value that stays one path segment and one form value: the
  result is made of unreserved characters and percent signs, the SDK's decoder reads the value
  back, and hexadecimal and base64url values are read back likewise.
\<close>

theorem url_encode_faithful:
  "pct_decode (url_encode s) = s \<and> list_all pct_safe (url_encode s)
   \<and> hex_decode (to_hex (c # bytes)) = Some (c # bytes)"
  using url_encode_safe[of _ s] by (simp add: pct_decode_url_encode hex_decode_to_hex list_all_iff)

text \<open>
  The comparison of secrets is equality: the running exclusive-or over every byte is zero
  exactly when the two texts are the same.
\<close>

theorem constant_time_equal_is_equality: "constant_time_equal a b \<longleftrightarrow> a = b"
  by simp

end
