(* ===== verification/Urls.thy ===== *)
theory Urls
  imports Encoding
begin

text \<open>
  URL handling: the (scheme, host, port) origin of \<open>src/url_origin.hpp\<close>, the
  construction-time scheme check of \<open>src/client.cpp\<close>, the UUID shape test, and the
  tenant query parameter of \<open>src/oidc.cpp\<close>. None of these decodes or normalises; each
  splits the text and refuses what it cannot split.
\<close>

section \<open>Origins\<close>

record origin =
  scheme :: string
  host :: string
  port :: nat

text \<open>The port digits: at most five, read left to right.\<close>

fun port_value :: "nat \<Rightarrow> string \<Rightarrow> nat option" where
  "port_value v [] = Some v"
| "port_value v (c # s) = (if is_digit c then port_value (v * 10 + (code c - 48)) s else None)"

text \<open>\<open>authority.erase(find_first_of("/?#"))\<close>.\<close>

definition is_path_start :: "char \<Rightarrow> bool" where
  "is_path_start c = (c = CHR ''/'' \<or> c = CHR ''?'' \<or> c = CHR ''#'')"

definition authority_of :: "string \<Rightarrow> string" where
  "authority_of s = (case cut is_path_start s of None \<Rightarrow> s | Some (a, _, _) \<Rightarrow> a)"

text \<open>Host and port text of an authority: the two branches on a leading bracket.\<close>

definition split_authority :: "string \<Rightarrow> (string \<times> string) option" where
  "split_authority a =
     (if a \<noteq> [] \<and> hd a = CHR ''['' then
        (case cut (\<lambda>c. c = CHR '']'') a of
           None \<Rightarrow> None
         | Some (h, _, rest) \<Rightarrow>
             (if rest = [] then Some (tl h, [])
              else if hd rest \<noteq> CHR '':'' then None
              else Some (tl h, tl rest)))
      else (case cut (\<lambda>c. c = CHR '':'') a of
              None \<Rightarrow> Some (a, [])
            | Some (h, _, p) \<Rightarrow> Some (h, p)))"

definition origin_of :: "string \<Rightarrow> origin option" where
  "origin_of url =
     (case cut_str ''://'' url of
        None \<Rightarrow> None
      | Some (s, rest) \<Rightarrow>
          (if s = [] then None
           else let authority = authority_of rest; sch = lower s in
             if CHR ''@'' \<in> set authority then None
             else (case split_authority authority of
                     None \<Rightarrow> None
                   | Some (h, p) \<Rightarrow>
                       (if h = [] then None
                        else if p = [] then
                          Some \<lparr>scheme = sch, host = lower h,
                                port = (if sch = ''https'' then 443
                                        else if sch = ''http'' then 80 else 0)\<rparr>
                        else if length p > 5 then None
                        else (case port_value 0 p of
                                None \<Rightarrow> None
                              | Some v \<Rightarrow> Some \<lparr>scheme = sch, host = lower h, port = v\<rparr>)))))"

definition is_loopback_host :: "string \<Rightarrow> bool" where
  "is_loopback_host h = (h = ''localhost'' \<or> h = ''127.0.0.1'' \<or> h = ''::1'')"

definition is_secure_or_loopback :: "origin \<Rightarrow> bool" where
  "is_secure_or_loopback o' =
     (scheme o' = ''https'' \<or> (scheme o' = ''http'' \<and> is_loopback_host (host o')))"

lemma port_value_bound: "port_value v s = Some w \<Longrightarrow> w < (v + 1) * 10 ^ length s"
proof (induction s arbitrary: v)
  case (Cons c s)
  then have d: "is_digit c" and r: "port_value (v * 10 + (code c - 48)) s = Some w"
    by (auto split: if_splits)
  from Cons.IH [OF r] have "w < (v * 10 + (code c - 48) + 1) * 10 ^ length s" .
  also have "\<dots> \<le> ((v + 1) * 10) * 10 ^ length s"
    using d by (intro mult_le_mono1) (auto simp: is_digit_def)
  finally show ?case by (simp add: algebra_simps)
qed simp

text \<open>
  What \<open>origin_of\<close> promises of every URL it accepts: folded case, a non-empty host, no
  userinfo, a port below 100000.
\<close>

lemma origin_of_SomeD:
  assumes "origin_of url = Some r"
  obtains s rest h p where "url = s @ ''://'' @ rest" "s \<noteq> []" "CHR ''@'' \<notin> set (authority_of rest)"
    "split_authority (authority_of rest) = Some (h, p)" "h \<noteq> []"
    "scheme r = lower s" "host r = lower h" "port r < 100000"
proof -
  from assms obtain s rest h p where
    c: "cut_str ''://'' url = Some (s, rest)" "s \<noteq> []" "CHR ''@'' \<notin> set (authority_of rest)"
      "split_authority (authority_of rest) = Some (h, p)" "h \<noteq> []"
    and r: "(p = [] \<and> r = \<lparr>scheme = lower s, host = lower h,
               port = (if lower s = ''https'' then 443 else if lower s = ''http'' then 80 else 0)\<rparr>) \<or>
            (\<exists>v. length p \<le> 5 \<and> port_value 0 p = Some v \<and>
               r = \<lparr>scheme = lower s, host = lower h, port = v\<rparr>)"
    by (auto simp: origin_of_def Let_def split: option.splits prod.splits if_splits)
  have "v < 100000" if "length p \<le> 5" "port_value 0 p = Some v" for v
  proof -
    have "v < 10 ^ length p" using port_value_bound [OF that(2)] by simp
    also have "\<dots> \<le> 10 ^ 5" using that(1) by (intro power_increasing) auto
    finally show ?thesis by simp
  qed
  with r have "scheme r = lower s" "host r = lower h" "port r < 100000" by auto
  with c cut_str_SomeD [OF c(1)] that show thesis by blast
qed

section \<open>The construction-time scheme check\<close>

text \<open>\<open>ensure_secure_scheme\<close>: \<open>https\<close>, or \<open>http\<close> on a loopback host.\<close>

definition http_host :: "string \<Rightarrow> string" where
  "http_host rest =
     (let a0 = authority_of rest;
          a = (case cut_last (\<lambda>c. c = CHR ''@'') a0 of None \<Rightarrow> a0 | Some (_, _, b) \<Rightarrow> b)
      in lower (if a \<noteq> [] \<and> hd a = CHR ''['' then
                  (case cut (\<lambda>c. c = CHR '']'') a of None \<Rightarrow> [] | Some (h, _, _) \<Rightarrow> tl h)
                else (case cut (\<lambda>c. c = CHR '':'') a of None \<Rightarrow> a | Some (h, _, _) \<Rightarrow> h)))"

definition ensure_secure_scheme :: "string \<Rightarrow> unit res" where
  "ensure_secure_scheme base_url =
     (case cut_str ''://'' base_url of
        None \<Rightarrow> Inl (InvalidArgument ''base_url must be an absolute https:// URL'')
      | Some (s, rest) \<Rightarrow>
          (if lower s = ''https'' then Inr ()
           else if lower s \<noteq> ''http'' then Inl (InvalidArgument ''base_url scheme is not supported'')
           else if is_loopback_host (http_host rest) then Inr ()
           else Inl (InvalidArgument ''refusing a plaintext http:// base_url'')))"

text \<open>\<open>Builder::base_url\<close> drops trailing slashes.\<close>

definition strip_trailing_slash :: "string \<Rightarrow> string" where
  "strip_trailing_slash url = rev (dropWhile (\<lambda>c. c = CHR ''/'') (rev url))"

lemma strip_trailing_slash_last:
  "strip_trailing_slash url \<noteq> [] \<Longrightarrow> last (strip_trailing_slash url) \<noteq> CHR ''/''"
  unfolding strip_trailing_slash_def by (metis (mono_tags, lifting) hd_dropWhile last_rev rev_is_Nil_conv)

text \<open>
  Agreement with the origin test: a base URL whose authority carries no userinfo is
  accepted by the scheme check when its origin is secure or loopback.
\<close>

lemma http_host_origin:
  assumes "CHR ''@'' \<notin> set (authority_of rest)"
    and "split_authority (authority_of rest) = Some (h, p)"
  shows "http_host rest = lower h"
proof -
  have "cut_last (\<lambda>c. c = CHR ''@'') (authority_of rest) = None"
    using assms(1) by (auto simp: cut_last_eq_None)
  with assms(2) show ?thesis
    by (auto simp: http_host_def Let_def split_authority_def split: option.splits prod.splits if_splits)
qed

lemma origin_secure_accepted:
  assumes "origin_of url = Some r"
  shows "ensure_secure_scheme url = Inr () \<longleftrightarrow> is_secure_or_loopback r"
proof -
  from assms obtain s rest h p where
    c: "cut_str ''://'' url = Some (s, rest)" "CHR ''@'' \<notin> set (authority_of rest)"
      "split_authority (authority_of rest) = Some (h, p)"
    and r: "scheme r = lower s" "host r = lower h"
    by (auto simp: origin_of_def Let_def split: option.splits prod.splits if_splits)
  from http_host_origin [OF c(2,3)] c(1) r show ?thesis
    by (auto simp: ensure_secure_scheme_def is_secure_or_loopback_def)
qed

section \<open>UUID shape\<close>

definition is_hex :: "char \<Rightarrow> bool" where
  "is_hex c = (is_digit c \<or> (97 \<le> code c \<and> code c \<le> 102) \<or> (65 \<le> code c \<and> code c \<le> 70))"

text \<open>
  The two nested loops over the group lengths: each group consumes its digits, each but
  the last one dash.
\<close>

fun uuid_groups :: "nat list \<Rightarrow> string \<Rightarrow> bool" where
  "uuid_groups [] s = (s = [])"
| "uuid_groups [g] s = (length s = g \<and> list_all is_hex s)"
| "uuid_groups (g # gs) s =
     (g \<le> length s \<and> list_all is_hex (take g s) \<and>
      (case drop g s of [] \<Rightarrow> False | c # rest \<Rightarrow> c = CHR ''-'' \<and> uuid_groups gs rest))"

definition looks_like_uuid :: "string \<Rightarrow> bool" where
  "looks_like_uuid s = uuid_groups [8, 4, 4, 4, 12] s"

definition same_uuid :: "string \<Rightarrow> string \<Rightarrow> bool" where
  "same_uuid a b = (length a = length b \<and> list_all2 (\<lambda>x y. lower_char x = lower_char y) a b)"

lemma same_uuid_lower: "same_uuid a b \<longleftrightarrow> lower a = lower b"
  unfolding same_uuid_def lower_def
  by (auto simp: list_all2_conv_all_nth list_eq_iff_nth_eq)

lemma uuid_chars:
  "uuid_groups gs s \<Longrightarrow> c \<in> set s \<Longrightarrow> is_hex c \<or> c = CHR ''-''"
proof (induction gs s rule: uuid_groups.induct)
  case (3 g g' gs s)
  from 3(2) obtain rest where d: "drop g s = CHR ''-'' # rest" "uuid_groups (g' # gs) rest"
    and t: "list_all is_hex (take g s)"
    by (auto split: list.splits)
  have "c \<in> set (take g s) \<or> c \<in> set (drop g s)"
    using 3(3) by (metis Un_iff append_take_drop_id set_append)
  with 3(1) d t show ?case by (auto simp: list_all_iff)
qed (auto simp: list_all_iff)

lemma uuid_length: "uuid_groups gs s \<Longrightarrow> length s = sum_list gs + (length gs - 1)"
proof (induction gs s rule: uuid_groups.induct)
  case (3 g g' gs s)
  from 3(2) obtain rest where d: "drop g s = CHR ''-'' # rest" "uuid_groups (g' # gs) rest"
    and l: "g \<le> length s" by (auto split: list.splits)
  have "length rest = sum_list (g' # gs) + (length (g' # gs) - 1)" by (rule 3(1) [OF d])
  moreover have "length s = g + Suc (length rest)"
    using arg_cong [OF d(1), of length] l by simp
  ultimately show ?case by simp
qed auto

lemma looks_like_uuid_length: "looks_like_uuid s \<Longrightarrow> length s = 36"
  unfolding looks_like_uuid_def by (drule uuid_length) simp

text \<open>A UUID is safe inside a header, a path segment and a query value: nothing in it is encoded.\<close>

lemma hex_unreserved: "is_hex c \<or> c = CHR ''-'' \<Longrightarrow> unreserved c"
  by (auto simp: unreserved_def is_hex_def is_upper_def is_lower_def)

lemma looks_like_uuid_unreserved: "looks_like_uuid s \<Longrightarrow> url_encode s = s"
proof -
  assume "looks_like_uuid s"
  then have u: "uuid_groups [8, 4, 4, 4, 12] s" by (simp only: looks_like_uuid_def)
  have "\<forall>c\<in>set s. unreserved c"
    by (intro ballI hex_unreserved) (rule uuid_chars [OF u])
  then show ?thesis by (induction s) (auto simp: url_encode_def encode_char_def)
qed

section \<open>The tenant query parameter\<close>

record split_url =
  before_query :: string
  pairs :: "string list"
  fragment :: string

definition strip_fragment :: "string \<Rightarrow> string \<times> string" where
  "strip_fragment url =
     (case cut (\<lambda>c. c = CHR ''#'') url of None \<Rightarrow> (url, []) | Some (a, c, b) \<Rightarrow> (a, c # b))"

definition query_pairs :: "string \<Rightarrow> string \<times> string list" where
  "query_pairs addr =
     (case cut (\<lambda>c. c = CHR ''?'') addr of
        None \<Rightarrow> (addr, [])
      | Some (a, _, q) \<Rightarrow> (a, filter (\<lambda>p. p \<noteq> []) (split_on (CHR ''&'') q)))"

definition split_url_of :: "string \<Rightarrow> split_url" where
  "split_url_of url =
     (let (addr, frag) = strip_fragment url; (b, ps) = query_pairs addr
      in \<lparr>before_query = b, pairs = ps, fragment = frag\<rparr>)"

definition is_tenant_pair :: "string \<Rightarrow> bool" where
  "is_tenant_pair p =
     (take 9 p = ''tenant_id'' \<and> (length p = 9 \<or> p ! 9 = CHR ''=''))"

definition with_tenant :: "string \<Rightarrow> string \<Rightarrow> string" where
  "with_tenant endpoint tenant =
     (let sp = split_url_of endpoint
      in before_query sp @ ''?'' @
         concat (map (\<lambda>p. p @ ''&'') (filter (\<lambda>p. \<not> is_tenant_pair p) (pairs sp))) @
         ''tenant_id='' @ url_encode tenant @ fragment sp)"

lemma strip_fragment_no_hash: "strip_fragment u = (a, f) \<Longrightarrow> CHR ''#'' \<notin> set a"
  by (auto simp: strip_fragment_def cut_eq_None cut_eq_Some split: option.splits)

lemma strip_fragment_hash: "strip_fragment u = (a, f) \<Longrightarrow> f = [] \<or> hd f = CHR ''#''"
  by (auto simp: strip_fragment_def cut_eq_Some split: option.splits)

lemma strip_fragment_append:
  assumes "CHR ''#'' \<notin> set a" "f = [] \<or> hd f = CHR ''#''"
  shows "strip_fragment (a @ f) = (a, f)"
proof (cases f)
  case Nil
  moreover have "cut (\<lambda>c. c = CHR ''#'') a = None" using assms(1) by (auto simp: cut_eq_None)
  ultimately show ?thesis by (simp add: strip_fragment_def)
next
  case (Cons c f')
  with assms have "cut (\<lambda>c. c = CHR ''#'') (a @ f) = Some (a, c, f')"
    by (auto simp: cut_eq_Some)
  with Cons show ?thesis by (simp add: strip_fragment_def)
qed

lemma query_pairs_before: "query_pairs a = (b, ps) \<Longrightarrow> CHR ''?'' \<notin> set b \<and> set b \<subseteq> set a"
  by (auto simp: query_pairs_def cut_eq_None cut_eq_Some split: option.splits)

lemma query_pairs_pairs:
  assumes "query_pairs a = (b, ps)" "p \<in> set ps"
  shows "p \<noteq> [] \<and> CHR ''&'' \<notin> set p \<and> set p \<subseteq> set a"
proof -
  from assms obtain c q where q: "cut (\<lambda>c. c = CHR ''?'') a = Some (b, c, q)"
    "p \<noteq> []" "p \<in> set (split_on (CHR ''&'') q)"
    by (auto simp: query_pairs_def split: option.splits)
  then have "set q \<subseteq> set a" by (auto simp: cut_eq_Some)
  with split_on_subset [OF q(3)] split_on_no_sep_mem [OF q(3)] q(2) show ?thesis by blast
qed

lemma query_pairs_join:
  assumes "CHR ''?'' \<notin> set b" "ps \<noteq> []" "\<forall>p\<in>set ps. p \<noteq> [] \<and> CHR ''&'' \<notin> set p"
  shows "query_pairs (b @ ''?'' @ join ''&'' ps) = (b, ps)"
proof -
  have "cut (\<lambda>c. c = CHR ''?'') (b @ ''?'' @ join ''&'' ps) = Some (b, CHR ''?'', join ''&'' ps)"
    using cut_SomeI [of "\<lambda>c. c = CHR ''?''" "CHR ''?''" b "join ''&'' ps"] assms(1) by auto
  moreover have "split_on (CHR ''&'') (join ''&'' ps) = ps"
    by (rule split_on_join) (use assms in auto)
  moreover have "filter (\<lambda>p. p \<noteq> []) ps = ps" by (rule filter_True) (use assms(3) in auto)
  ultimately show ?thesis by (simp add: query_pairs_def)
qed

lemma set_join: "set (join sep xs) \<subseteq> set sep \<union> (\<Union>x\<in>set xs. set x)"
  by (induction sep xs rule: join.induct) auto

text \<open>Rebuilding: the query of the result splits into the kept pairs and one tenant pair.\<close>

lemma concat_amp: "concat (map (\<lambda>p. p @ ''&'') ps) @ t = join ''&'' (ps @ [t])"
  by (induction ps) (auto simp: join_Cons)

lemma notin_join: "x \<notin> set sep \<Longrightarrow> \<forall>p\<in>set ps. x \<notin> set p \<Longrightarrow> x \<notin> set (join sep ps)"
  using set_join [of sep ps] by blast

lemma with_tenant_split:
  "split_url_of (with_tenant endpoint tenant) =
     (let sp = split_url_of endpoint
      in sp\<lparr>pairs := filter (\<lambda>p. \<not> is_tenant_pair p) (pairs sp) @ [''tenant_id='' @ url_encode tenant]\<rparr>)"
proof -
  obtain addr frag b ps where
    sf: "strip_fragment endpoint = (addr, frag)" and qp: "query_pairs addr = (b, ps)"
    by (metis surj_pair)
  let ?t = "''tenant_id='' @ url_encode tenant"
  let ?ps = "filter (\<lambda>p. \<not> is_tenant_pair p) ps @ [?t]"
  have sp: "split_url_of endpoint = \<lparr>before_query = b, pairs = ps, fragment = frag\<rparr>"
    by (simp add: split_url_of_def sf qp)
  have w: "with_tenant endpoint tenant = (b @ ''?'' @ join ''&'' ?ps) @ frag"
    using concat_amp [of "filter (\<lambda>p. \<not> is_tenant_pair p) ps" ?t]
    by (simp add: with_tenant_def Let_def sp)
  have "CHR ''&'' \<notin> set (url_encode tenant)" "CHR ''#'' \<notin> set (url_encode tenant)"
    using url_encode_safe [of _ tenant] pct_safe_not by blast+
  then have t: "CHR ''&'' \<notin> set ?t" "CHR ''#'' \<notin> set ?t" by simp_all
  have ps: "p \<noteq> [] \<and> CHR ''&'' \<notin> set p \<and> CHR ''#'' \<notin> set p" if "p \<in> set ?ps" for p
  proof (cases "p = ?t")
    case True
    with t show ?thesis by (simp del: set_append)
  next
    case False
    with that have "p \<in> set ps" by simp
    with query_pairs_pairs [OF qp] strip_fragment_no_hash [OF sf] show ?thesis by blast
  qed
  then have "CHR ''#'' \<notin> set (join ''&'' ?ps)" by (intro notin_join) (simp, blast)
  moreover have "CHR ''#'' \<notin> set b"
    using query_pairs_before [OF qp] strip_fragment_no_hash [OF sf] by blast
  ultimately have "CHR ''#'' \<notin> set (b @ ''?'' @ join ''&'' ?ps)" by simp
  then have s: "strip_fragment (with_tenant endpoint tenant) = (b @ ''?'' @ join ''&'' ?ps, frag)"
    unfolding w by (rule strip_fragment_append) (rule strip_fragment_hash [OF sf])
  have "query_pairs (b @ ''?'' @ join ''&'' ?ps) = (b, ?ps)"
    by (rule query_pairs_join) (use ps query_pairs_before [OF qp] in auto)
  with s show ?thesis by (simp add: split_url_of_def [of "with_tenant endpoint tenant"] sp)
qed

lemma tenant_pair_written: "is_tenant_pair (''tenant_id='' @ x)"
  by (simp add: is_tenant_pair_def)

section \<open>Properties\<close>

text \<open>
  The tenant parameter is set, not appended: whatever query the endpoint carried, the
  result names exactly one tenant, the given one, and keeps every other pair, the address before
  the query and the fragment.
\<close>

theorem with_tenant_sets_one:
  "filter is_tenant_pair (pairs (split_url_of (with_tenant endpoint tenant))) = [''tenant_id='' @ url_encode tenant]
   \<and> filter (\<lambda>p. \<not> is_tenant_pair p) (pairs (split_url_of (with_tenant endpoint tenant)))
       = filter (\<lambda>p. \<not> is_tenant_pair p) (pairs (split_url_of endpoint))
   \<and> before_query (split_url_of (with_tenant endpoint tenant)) = before_query (split_url_of endpoint)
   \<and> fragment (split_url_of (with_tenant endpoint tenant)) = fragment (split_url_of endpoint)"
  using tenant_pair_written[of "url_encode tenant"] by (simp add: with_tenant_split Let_def)

text \<open>
  The construction-time scheme check accepts a URL exactly when its origin is https, or
  http on a loopback host, for every URL the origin parser reads.
\<close>

theorem secure_scheme_agrees:
  assumes "origin_of url = Some r"
  shows "ensure_secure_scheme url = Inr () \<longleftrightarrow> is_secure_or_loopback r"
  by (rule origin_secure_accepted[OF assms])

lemma secure_scheme_agrees_witness:
  "origin_of ''HTTP://Localhost:8080/x'' = Some \<lparr>scheme = ''http'', host = ''localhost'', port = 8080\<rparr>
   \<and> ensure_secure_scheme ''HTTP://Localhost:8080/x'' = Inr ()"
proof -
  have o: "origin_of ''HTTP://Localhost:8080/x'' = Some \<lparr>scheme = ''http'', host = ''localhost'', port = 8080\<rparr>"
    by code_simp
  have "is_secure_or_loopback \<lparr>scheme = ''http'', host = ''localhost'', port = 8080\<rparr>"
    by (simp add: is_secure_or_loopback_def is_loopback_host_def)
  with o secure_scheme_agrees[OF o] show ?thesis by blast
qed

end
