(* ===== verification/Retry.thy ===== *)
theory Retry
  imports Prelude
begin

text \<open>
  \<open>src/retry.hpp\<close>: the bounded retry budget. Waits are milliseconds (\<^typ>\<open>int\<close>). The
  jitter fraction is a double, modelled by its dyadic value \<open>m / 2\<^sup>k\<close>
  (mantissa \<open>m\<close>, \<open>k\<close> binary places), and the product with the backoff is rounded to 53
  significant bits, ties to even, as IEEE arithmetic rounds it. The HTTP-date parser
  (\<open>strptime\<close> and \<open>timegm\<close> of the C library) is the parameter \<open>http_date\<close>.
\<close>

section \<open>Backoff and jitter\<close>

definition kRetryMaxAttempts :: nat where "kRetryMaxAttempts = 3"
definition kRetryBaseDelay :: int where "kRetryBaseDelay = 200"
definition kRetryMaxDelay :: int where "kRetryMaxDelay = 5000"

lemmas retry_consts = kRetryMaxAttempts_def kRetryBaseDelay_def kRetryMaxDelay_def

function backoff_loop :: "int \<Rightarrow> int \<Rightarrow> int \<Rightarrow> int" where
  "backoff_loop i n delay =
     (if i < n \<and> delay < kRetryMaxDelay then backoff_loop (i + 1) n (delay * 2) else delay)"
  by pat_completeness auto
termination by (relation "measure (\<lambda>(i, n, _). nat (n - i))") auto

declare backoff_loop.simps [simp del]

definition retry_backoff :: "int \<Rightarrow> int" where
  "retry_backoff attempt =
     min (backoff_loop 1 (max attempt 1) kRetryBaseDelay) kRetryMaxDelay"

type_synonym double = "int \<times> nat"

fun bit_length :: "nat \<Rightarrow> nat" where
  "bit_length n = (if n = 0 then 0 else Suc (bit_length (n div 2)))"

declare bit_length.simps [simp del]

text \<open>Round to a multiple of \<open>2\<^sup>s\<close>, nearest, ties to even; the result counts multiples.\<close>

definition round_even :: "nat \<Rightarrow> nat \<Rightarrow> nat" where
  "round_even p s =
     (if s = 0 then p
      else let q = p div 2 ^ s; r = p mod 2 ^ s; h = 2 ^ (s - 1)
           in if h < r \<or> (r = h \<and> odd q) then q + 1 else q)"

text \<open>
  \<open>static_cast<long long>(double(b) * f)\<close> for \<open>f = m / 2\<^sup>k\<close> in \<open>[0, 1]\<close>: the exact
  product rounded to 53 bits, then truncated.
\<close>

definition scale_double :: "nat \<Rightarrow> nat \<Rightarrow> nat \<Rightarrow> nat" where
  "scale_double b m k =
     (let p = b * m; s = bit_length p - 53 in (round_even p s * 2 ^ s) div 2 ^ k)"

text \<open>\<open>std::min(std::max(fraction, 0.0), 1.0)\<close>.\<close>

definition clamp01 :: "double \<Rightarrow> double" where
  "clamp01 f = (let (m, k) = f in if m < 0 then (0, 0) else if 2 ^ k < m then (1, 0) else (m, k))"

definition jittered :: "int \<Rightarrow> double \<Rightarrow> int" where
  "jittered attempt fraction =
     (let (m, k) = clamp01 fraction
      in int (scale_double (nat (retry_backoff attempt)) (nat m) k))"

definition retry_delay :: "int \<Rightarrow> int option \<Rightarrow> double \<Rightarrow> int" where
  "retry_delay attempt retry_after fraction =
     (case retry_after of
        None \<Rightarrow> jittered attempt fraction
      | Some hint \<Rightarrow> max (jittered attempt fraction) hint)"

section \<open>What is retried\<close>

definition retry_should_retry :: "int option \<Rightarrow> bool" where
  "retry_should_retry status =
     (case status of
        None \<Rightarrow> True
      | Some s \<Rightarrow> s = 408 \<or> s = 429 \<or> (500 \<le> s \<and> s \<le> 599))"

section \<open>The Retry-After header\<close>

definition is_blank_char :: "char \<Rightarrow> bool" where
  "is_blank_char c = (c = CHR '' '' \<or> code c = 9)"

definition trim_blank :: "string \<Rightarrow> string" where
  "trim_blank s = trim_by is_blank_char s"

text \<open>\<open>strtoll\<close> on a text of digits saturates at \<open>LLONG_MAX\<close>.\<close>

definition strtoll_digits :: "string \<Rightarrow> int" where
  "strtoll_digits s = min (int (undec s)) (2 ^ 63 - 1)"

definition retry_after_from_header ::
    "(string \<Rightarrow> int option) \<Rightarrow> string \<Rightarrow> int \<Rightarrow> int option" where
  "retry_after_from_header http_date value now =
     (let raw = trim_blank value in
      if raw = [] then None
      else if list_all is_digit raw then Some (min (strtoll_digits raw) 3600 * 1000)
      else (case http_date raw of
              None \<Rightarrow> None
            | Some w \<Rightarrow>
                (if w = -1 then None
                 else if w - now \<le> 0 then None
                 else Some (min (w - now) 3600 * 1000))))"

section \<open>Closed form and bounds\<close>

lemma backoff_loop_closed:
  "0 < d \<Longrightarrow> d \<le> 5000 \<Longrightarrow>
     min (backoff_loop i n d) 5000 = min (d * 2 ^ nat (n - i)) 5000"
proof (induction i n d rule: backoff_loop.induct)
  case (1 i n d)
  show ?case
  proof (cases "i < n \<and> d < 5000")
    case True
    then have e: "nat (n - i) = Suc (nat (n - (i + 1)))" by linarith
    have step: "backoff_loop i n d = backoff_loop (i + 1) n (d * 2)"
      using True by (subst backoff_loop.simps) (simp add: retry_consts)
    show ?thesis
    proof (cases "d * 2 \<le> 5000")
      case le: True
      then have "min (backoff_loop (i + 1) n (d * 2)) 5000 = min (d * 2 * 2 ^ nat (n - (i + 1))) 5000"
        using 1 True by (simp add: retry_consts)
      then show ?thesis unfolding step e by (simp add: mult.assoc)
    next
      case False
      then have "backoff_loop (i + 1) n (d * 2) = d * 2"
        by (subst backoff_loop.simps) (simp add: retry_consts)
      moreover have "d * 1 \<le> d * 2 ^ nat (n - (i + 1))"
        using 1(2) by (intro mult_left_mono) auto
      from this [unfolded mult_1_right] have "5000 < d * 2 ^ Suc (nat (n - (i + 1)))"
        using False unfolding power_Suc by linarith
      ultimately show ?thesis using False unfolding step e by (simp add: min_def)
    qed
  next
    case False
    then have st: "backoff_loop i n d = d" by (subst backoff_loop.simps) (auto simp: retry_consts)
    show ?thesis
    proof (cases "i < n")
      case True
      with False 1(3) have "d = 5000" by simp
      moreover have "(5000 :: int) * 1 \<le> 5000 * 2 ^ nat (n - i)" by (intro mult_left_mono) auto
      ultimately show ?thesis using st by simp
    qed (use st in simp)
  qed
qed

lemma retry_backoff_closed:
  "retry_backoff attempt = min (200 * 2 ^ nat (max attempt 1 - 1)) 5000"
  using backoff_loop_closed [of 200 1 "max attempt 1"] by (simp add: retry_backoff_def retry_consts)

lemma retry_backoff_bounds: "200 \<le> retry_backoff attempt" "retry_backoff attempt \<le> 5000"
proof -
  have "(200 :: int) * 1 \<le> 200 * 2 ^ nat (max attempt 1 - 1)" by (intro mult_left_mono) auto
  then show "200 \<le> retry_backoff attempt" by (simp add: retry_backoff_closed)
  show "retry_backoff attempt \<le> 5000" by (simp add: retry_backoff_closed)
qed

lemma bit_length_le: "bit_length n \<le> k \<longleftrightarrow> n < 2 ^ k"
proof (induction n arbitrary: k rule: bit_length.induct)
  case (1 n)
  show ?case
  proof (cases "n = 0")
    case True
    then show ?thesis by (subst bit_length.simps) simp
  next
    case False
    show ?thesis
    proof (cases k)
      case 0
      with False show ?thesis by (subst bit_length.simps) simp
    next
      case (Suc j)
      have "bit_length n \<le> Suc j \<longleftrightarrow> bit_length (n div 2) \<le> j"
        using False by (subst bit_length.simps) simp
      also have "\<dots> \<longleftrightarrow> n div 2 < 2 ^ j" using 1 False by blast
      also have "\<dots> \<longleftrightarrow> n < 2 ^ Suc j" by auto
      finally show ?thesis unfolding Suc .
    qed
  qed
qed

lemma round_even_le:
  assumes "p \<le> c * 2 ^ s"
  shows "round_even p s \<le> c"
proof (cases "s = 0")
  case True
  with assms show ?thesis by (simp add: round_even_def)
next
  case False
  define q r where "q = p div 2 ^ s" and "r = p mod 2 ^ s"
  have p: "p = q * 2 ^ s + r" by (simp only: q_def r_def div_mult_mod_eq)
  have "q \<le> c" using assms unfolding q_def by (metis div_le_mono nonzero_mult_div_cancel_right
      power_not_zero zero_neq_numeral)
  moreover have "r = 0" if "q = c" using assms p that by simp
  moreover have "(0 :: nat) < 2 ^ (s - 1)" by simp
  ultimately show ?thesis
    using False by (cases "q = c") (auto simp: round_even_def Let_def q_def [symmetric] r_def [symmetric])
qed

lemma scale_double_le:
  assumes "m \<le> 2 ^ k" "b \<le> 5000"
  shows "scale_double b m k \<le> b"
proof -
  define p where "p = b * m"
  define s where "s = bit_length p - 53"
  have p: "p \<le> b * 2 ^ k" using assms(1) by (simp add: p_def)
  also have "\<dots> < 8192 * 2 ^ k" using assms(2) by simp
  finally have "p < 2 ^ (13 + k)" by (simp add: power_add)
  then have "bit_length p \<le> 13 + k" by (simp add: bit_length_le)
  then have s: "s \<le> k" by (simp add: s_def)
  then have "b * 2 ^ k = (b * 2 ^ (k - s)) * 2 ^ s" by (simp flip: power_add)
  with p have "round_even p s \<le> b * 2 ^ (k - s)" by (intro round_even_le) simp
  then have "round_even p s * 2 ^ s \<le> b * 2 ^ (k - s) * 2 ^ s" by (rule mult_right_mono) simp
  also have "\<dots> = b * 2 ^ k" using s by (simp flip: power_add)
  finally have "round_even p s * 2 ^ s div 2 ^ k \<le> b * 2 ^ k div 2 ^ k" by (rule div_le_mono)
  then show ?thesis by (simp add: scale_double_def Let_def p_def [symmetric] s_def [symmetric])
qed

lemma jittered_bounds: "0 \<le> jittered attempt f" "jittered attempt f \<le> retry_backoff attempt"
proof -
  show "0 \<le> jittered attempt f" by (simp add: jittered_def split: prod.splits)
  obtain m k where mk: "clamp01 f = (m, k)" by (cases "clamp01 f")
  then have "nat m \<le> 2 ^ k"
    by (auto simp: clamp01_def nat_le_iff split: prod.splits if_splits)
  then have "scale_double (nat (retry_backoff attempt)) (nat m) k \<le> nat (retry_backoff attempt)"
    using retry_backoff_bounds [of attempt] by (intro scale_double_le) auto
  then show "jittered attempt f \<le> retry_backoff attempt"
    using retry_backoff_bounds [of attempt] by (simp add: jittered_def mk nat_le_iff)
qed

lemma retry_after_bounds:
  "retry_after_from_header http_date v now = Some d \<Longrightarrow> 0 \<le> d \<and> d \<le> 3600000"
  by (auto simp: retry_after_from_header_def Let_def strtoll_digits_def split: if_splits option.splits)

section \<open>Properties\<close>

text \<open>
  The wait before a retry: never negative, never shorter than the server's
  \<open>Retry-After\<close> hint, and never longer than the larger of the hint and the exponential
  backoff \<open>min(5000, 200 * 2^(attempt-1))\<close> milliseconds, whatever the jitter source returns.
\<close>

theorem retry_delay_bounds:
  "0 \<le> retry_delay attempt None f
   \<and> retry_delay attempt None f \<le> min (200 * 2 ^ nat (max attempt 1 - 1)) 5000
   \<and> hint \<le> retry_delay attempt (Some hint) f
   \<and> retry_delay attempt (Some hint) f \<le> max hint (min (200 * 2 ^ nat (max attempt 1 - 1)) 5000)"
  using jittered_bounds [of attempt f]
  by (auto simp: retry_delay_def retry_backoff_closed)

text \<open>
  A parsed \<open>Retry-After\<close> is a wait of at most one hour, digits are read as seconds
  and saturate there, a date in the past is no hint, and a blank value is no hint.
\<close>

theorem retry_after_header_spec:
  assumes "retry_after_from_header http_date v now = Some d"
  shows "0 \<le> d \<and> d \<le> 3600000 \<and> trim_blank v \<noteq> []
    \<and> (list_all is_digit (trim_blank v) \<longrightarrow> d = min (int (undec (trim_blank v))) 3600 * 1000)
    \<and> (\<not> list_all is_digit (trim_blank v) \<longrightarrow>
         (\<exists>w. http_date (trim_blank v) = Some w \<and> now < w \<and> d = min (w - now) 3600 * 1000))"
  using assms retry_after_bounds [OF assms]
  by (auto simp: retry_after_from_header_def Let_def strtoll_digits_def split: if_splits option.splits)

theorem retry_after_header_witness:
  "retry_after_from_header (\<lambda>_. None) '' 120 '' 0 = Some 120000 \<and> trim_blank '' 120 '' \<noteq> []"
proof -
  have h: "retry_after_from_header (\<lambda>_. None) '' 120 '' 0 = Some 120000" by code_simp
  show ?thesis using h retry_after_header_spec [OF h] by simp
qed

end
