(* ===== verification/RefreshGuard.thy ===== *)
theory RefreshGuard
  imports Prelude
begin

text \<open>
  \<open>src/refresh_guard.hpp\<close> and \<open>Client::Impl::do_single_flight_refresh\<close>
  (\<open>src/client_impl.hpp\<close>): the single-flight token refresh as a transition system. Any
  number of calls of \<open>do_single_flight_refresh\<close> run concurrently; each is a thread of the
  model with a program counter, and every step is one critical section, one atomic access
  or one call of the source. A future is identified by the generation its owner installed
  it under; \<open>settled\<close> holds the outcome each promise was given.
\<close>

section \<open>State\<close>

datatype role = Leader | Follower

type_synonym outcome = "int res"

datatype pc =
    Idle
  | Counted nat
  | Waiting nat nat
  | Owning nat nat
  | Calling nat nat
  | Returned nat nat outcome
  | Published nat nat outcome
  | Left nat nat outcome
  | Finished nat outcome "role option"

record guard =
  inflight :: "nat option"
  generation :: nat
  settled :: "nat \<Rightarrow> outcome option"
  refresh_count :: nat
  wire :: "nat list"
  pcs :: "nat \<Rightarrow> pc"

definition guard_init :: guard where
  "guard_init = \<lparr>inflight = None, generation = 0, settled = Map.empty, refresh_count = 0,
     wire = [], pcs = (\<lambda>_. Idle)\<rparr>"

text \<open>\<open>live_locked\<close>: the slot holds a future that has not settled.\<close>

definition live :: "guard \<Rightarrow> nat option" where
  "live s = (case inflight s of
               None \<Rightarrow> None
             | Some g \<Rightarrow> (if settled s g = None then Some g else None))"

definition move :: "nat \<Rightarrow> pc \<Rightarrow> guard \<Rightarrow> guard" where
  "move t p s = s\<lparr>pcs := (pcs s)(t := p)\<rparr>"

definition install :: "guard \<Rightarrow> guard" where
  "install s = s\<lparr>generation := Suc (generation s), inflight := Some (Suc (generation s))\<rparr>"

definition publish :: "nat \<Rightarrow> outcome \<Rightarrow> guard \<Rightarrow> guard" where
  "publish g r s = s\<lparr>settled := (settled s)(g \<mapsto> r)\<rparr>"

definition vacate :: "nat \<Rightarrow> guard \<Rightarrow> guard" where
  "vacate g s = (if generation s = g then s\<lparr>inflight := None\<rparr> else s)"

definition start_wire :: "nat \<Rightarrow> guard \<Rightarrow> guard" where
  "start_wire g s = s\<lparr>refresh_count := Suc (refresh_count s), wire := wire s @ [g]\<rparr>"

text \<open>
  The role reported with the refresh event: leader when the wire count moved since the
  caller read it. A refresh that failed reports nothing, because \<open>run\<close> rethrew.
\<close>

definition reported :: "guard \<Rightarrow> nat \<Rightarrow> outcome \<Rightarrow> role option" where
  "reported s before r =
     (case r of
        Inl _ \<Rightarrow> None
      | Inr _ \<Rightarrow> Some (if before < refresh_count s then Leader else Follower))"

section \<open>Steps\<close>

text \<open>
  \<open>guard_step n\<close>: one step of one of the callers \<open>0..n-1\<close>. \<open>count\<close> reads
  \<open>refresh_count\<close> before entering the guard; \<open>join\<close> and \<open>own\<close> are the two branches of the
  critical section of \<open>run\<close>; \<open>call\<close> is the entry of \<open>perform_refresh\<close>, \<open>return\<close> its return
  or throw; \<open>publish\<close> settles the promise and \<open>vacate\<close> is the destructor's release, in that
  order; \<open>wake\<close> is \<open>joined.get()\<close>; \<open>report\<close> emits the event.
\<close>

inductive guard_step :: "nat \<Rightarrow> guard \<Rightarrow> guard \<Rightarrow> bool" for n where
  count: "t < n \<Longrightarrow> pcs s t = Idle \<Longrightarrow> guard_step n s (move t (Counted (refresh_count s)) s)"
| join: "t < n \<Longrightarrow> pcs s t = Counted b \<Longrightarrow> live s = Some g \<Longrightarrow>
     guard_step n s (move t (Waiting b g) s)"
| own: "t < n \<Longrightarrow> pcs s t = Counted b \<Longrightarrow> live s = None \<Longrightarrow>
     guard_step n s (move t (Owning b (Suc (generation s))) (install s))"
| call: "t < n \<Longrightarrow> pcs s t = Owning b g \<Longrightarrow>
     guard_step n s (move t (Calling b g) (start_wire g s))"
| return: "t < n \<Longrightarrow> pcs s t = Calling b g \<Longrightarrow>
     guard_step n s (move t (Returned b g r) s)"
| publish: "t < n \<Longrightarrow> pcs s t = Returned b g r \<Longrightarrow>
     guard_step n s (move t (Published b g r) (publish g r s))"
| vacate: "t < n \<Longrightarrow> pcs s t = Published b g r \<Longrightarrow>
     guard_step n s (move t (Left b g r) (vacate g s))"
| wake: "t < n \<Longrightarrow> pcs s t = Waiting b g \<Longrightarrow> settled s g = Some r \<Longrightarrow>
     guard_step n s (move t (Left b g r) s)"
| report: "t < n \<Longrightarrow> pcs s t = Left b g r \<Longrightarrow>
     guard_step n s (move t (Finished g r (reported s b r)) s)"

inductive reachable :: "nat \<Rightarrow> guard \<Rightarrow> bool" for n where
  start: "reachable n guard_init"
| step: "reachable n s \<Longrightarrow> guard_step n s s' \<Longrightarrow> reachable n s'"

lemmas guard_ops = move_def install_def publish_def vacate_def start_wire_def live_def

lemma move_sel [simp]:
  "inflight (move t p s) = inflight s" "generation (move t p s) = generation s"
  "settled (move t p s) = settled s" "refresh_count (move t p s) = refresh_count s"
  "wire (move t p s) = wire s" "pcs (move t p s) = (pcs s)(t := p)" "live (move t p s) = live s"
  by (simp_all add: move_def live_def split: option.split)

lemma install_sel [simp]:
  "inflight (install s) = Some (Suc (generation s))" "generation (install s) = Suc (generation s)"
  "settled (install s) = settled s" "refresh_count (install s) = refresh_count s"
  "wire (install s) = wire s" "pcs (install s) = pcs s"
  by (simp_all add: install_def)

lemma publish_sel [simp]:
  "inflight (publish g r s) = inflight s" "generation (publish g r s) = generation s"
  "settled (publish g r s) = (settled s)(g \<mapsto> r)" "refresh_count (publish g r s) = refresh_count s"
  "wire (publish g r s) = wire s" "pcs (publish g r s) = pcs s"
  by (simp_all add: publish_def)

lemma vacate_sel [simp]:
  "inflight (vacate g s) = (if generation s = g then None else inflight s)"
  "generation (vacate g s) = generation s" "settled (vacate g s) = settled s"
  "refresh_count (vacate g s) = refresh_count s" "wire (vacate g s) = wire s"
  "pcs (vacate g s) = pcs s"
  by (simp_all add: vacate_def)

lemma start_wire_sel [simp]:
  "inflight (start_wire g s) = inflight s" "generation (start_wire g s) = generation s"
  "settled (start_wire g s) = settled s" "refresh_count (start_wire g s) = Suc (refresh_count s)"
  "wire (start_wire g s) = wire s @ [g]" "pcs (start_wire g s) = pcs s"
  "live (start_wire g s) = live s"
  by (simp_all add: start_wire_def live_def split: option.split)

section \<open>The invariant\<close>

text \<open>The generation a caller has in flight, owns, or has the outcome of.\<close>

fun in_flight :: "pc \<Rightarrow> nat option" where
  "in_flight (Owning _ g) = Some g"
| "in_flight (Calling _ g) = Some g"
| "in_flight (Returned _ g _) = Some g"
| "in_flight _ = None"

fun has_result :: "pc \<Rightarrow> (nat \<times> outcome) option" where
  "has_result (Published _ g r) = Some (g, r)"
| "has_result (Left _ g r) = Some (g, r)"
| "has_result (Finished g r _) = Some (g, r)"
| "has_result _ = None"

definition inv_flight :: "guard \<Rightarrow> bool" where
  "inv_flight s \<longleftrightarrow> (\<forall>t g. in_flight (pcs s t) = Some g \<longrightarrow>
     settled s g = None \<and> inflight s = Some g \<and> generation s = g)"

definition inv_unique :: "guard \<Rightarrow> bool" where
  "inv_unique s \<longleftrightarrow> (\<forall>t t' g. in_flight (pcs s t) = Some g \<longrightarrow> in_flight (pcs s t') = Some g \<longrightarrow> t = t')"

definition inv_slot :: "guard \<Rightarrow> bool" where
  "inv_slot s \<longleftrightarrow>
     (\<forall>g. inflight s = Some g \<longrightarrow> g = generation s) \<and>
     (\<forall>g. settled s g \<noteq> None \<longrightarrow> g \<le> generation s)"

definition inv_served :: "guard \<Rightarrow> bool" where
  "inv_served s \<longleftrightarrow>
     (\<forall>g. live s = Some g \<longrightarrow> (\<exists>t. in_flight (pcs s t) = Some g)) \<and>
     (\<forall>t b g. pcs s t = Waiting b g \<longrightarrow> settled s g = None \<longrightarrow> (\<exists>t'. in_flight (pcs s t') = Some g))"

definition inv_result :: "guard \<Rightarrow> bool" where
  "inv_result s \<longleftrightarrow> (\<forall>t g r. has_result (pcs s t) = Some (g, r) \<longrightarrow> settled s g = Some r)"

definition inv_wire :: "guard \<Rightarrow> bool" where
  "inv_wire s \<longleftrightarrow> distinct (wire s) \<and> (\<forall>g\<in>set (wire s). g \<le> generation s) \<and>
     (\<forall>t b g. pcs s t = Owning b g \<longrightarrow> g \<notin> set (wire s)) \<and> length (wire s) = refresh_count s"

lemmas inv_defs = inv_flight_def inv_unique_def inv_slot_def inv_served_def inv_result_def inv_wire_def

definition guard_inv :: "guard \<Rightarrow> bool" where
  "guard_inv s \<longleftrightarrow>
     inv_flight s \<and> inv_unique s \<and> inv_slot s \<and> inv_served s \<and> inv_result s \<and> inv_wire s"

lemma guard_inv_init: "guard_inv guard_init"
  by (simp add: guard_inv_def inv_defs guard_init_def live_def)

lemma live_eq: "live s = Some g \<longleftrightarrow> inflight s = Some g \<and> settled s g = None"
  by (auto simp: live_def split: option.splits if_splits)

lemma live_None: "live s = None \<longleftrightarrow> (\<forall>g. inflight s = Some g \<longrightarrow> settled s g \<noteq> None)"
  by (auto simp: live_def split: option.splits if_splits)

lemma flightD:
  assumes "guard_inv s" "in_flight (pcs s t) = Some g"
  shows "settled s g = None" "inflight s = Some g" "generation s = g"
  using assms by (auto simp: guard_inv_def inv_flight_def)

lemma flight_unique:
  assumes "guard_inv s" "in_flight (pcs s t) = Some g" "in_flight (pcs s t') = Some g'"
  shows "t' = t"
proof -
  have "g' = g" using flightD(2)[OF assms(1,2)] flightD(2)[OF assms(1,3)] by simp
  then show ?thesis using assms by (auto simp: guard_inv_def inv_unique_def)
qed

lemma flight_others:
  assumes "guard_inv s" "in_flight (pcs s t) = Some g" "t' \<noteq> t"
  shows "in_flight (pcs s t') = None"
  using assms flight_unique by (cases "in_flight (pcs s t')") blast+

lemma no_flight:
  assumes "guard_inv s" "live s = None"
  shows "in_flight (pcs s t) = None"
  using flightD[OF assms(1)] assms(2) by (cases "in_flight (pcs s t)") (auto simp: live_None)

lemma resultD: "guard_inv s \<Longrightarrow> has_result (pcs s t) = Some (g, r) \<Longrightarrow> settled s g = Some r"
  by (simp add: guard_inv_def inv_result_def)

lemma result_cases:
  assumes "guard_inv s"
  shows "pcs s t = Published b g r \<Longrightarrow> settled s g = Some r"
    and "pcs s t = Left b g r \<Longrightarrow> settled s g = Some r"
    and "pcs s t = Finished g r w \<Longrightarrow> settled s g = Some r"
  using resultD[OF assms, of t g r] by auto

lemma servedD:
  assumes "guard_inv s"
  shows "live s = Some g \<Longrightarrow> \<exists>t. in_flight (pcs s t) = Some g"
    and "pcs s t = Waiting b g \<Longrightarrow> settled s g = None \<Longrightarrow> \<exists>t'. in_flight (pcs s t') = Some g"
  using assms by (auto simp: guard_inv_def inv_served_def)

lemma step_inv_flight: "guard_step n s s' \<Longrightarrow> guard_inv s \<Longrightarrow> inv_flight s'"
proof (induction rule: guard_step.induct)
  case (own t s b)
  with no_flight[of s] show ?case
    by (auto simp: guard_inv_def inv_flight_def inv_slot_def)
next
  case (publish t s b g r)
  with flight_others[of s t g] show ?case
    by (auto simp: inv_flight_def)
next
  case (vacate t s b g r)
  then have r: "settled s g = Some r" using result_cases by blast
  show ?case
  proof (cases "generation s = g")
    case True
    then have "in_flight (pcs s x) = None" for x
      using flightD[OF vacate(3), of x] r by (cases "in_flight (pcs s x)") auto
    then show ?thesis by (simp add: inv_flight_def)
  next
    case False
    then show ?thesis using flightD[OF vacate(3)] by (simp add: inv_flight_def)
  qed
next
  case (call t s b g)
  with flightD[OF call(3), of t g] show ?case
    by (auto simp: guard_inv_def inv_flight_def)
next
  case (return t s b g r)
  with flightD[OF return(3), of t g] show ?case
    by (auto simp: guard_inv_def inv_flight_def)
qed (auto simp: guard_inv_def inv_flight_def)

lemma unique_move:
  assumes "guard_inv s" "pcs s0 = pcs s" "in_flight p = None \<or> in_flight p = in_flight (pcs s t)"
  shows "inv_unique (move t p s0)"
proof -
  have "in_flight (pcs (move t p s0) x) = None \<or> in_flight (pcs (move t p s0) x) = in_flight (pcs s x)" for x
    using assms(2,3) by simp
  then show ?thesis
    using flight_unique[OF assms(1)] unfolding inv_unique_def by (metis option.distinct(1))
qed

lemma step_inv_unique: "guard_step n s s' \<Longrightarrow> guard_inv s \<Longrightarrow> inv_unique s'"
proof (induction rule: guard_step.induct)
  case (own t s b)
  then have "in_flight (pcs s t') = None" for t' using no_flight by blast
  with own show ?case
    by (simp add: inv_unique_def)
qed (erule unique_move; simp)+

lemma step_inv_slot: "guard_step n s s' \<Longrightarrow> guard_inv s \<Longrightarrow> inv_slot s'"
proof (induction rule: guard_step.induct)
  case (own t s b)
  then show ?case
    by (auto simp: guard_inv_def inv_slot_def intro: le_SucI)
next
  case (publish t s b g r)
  with flightD(3)[of s t g] show ?case
    by (auto simp: guard_inv_def inv_slot_def)
qed (auto simp: guard_inv_def inv_slot_def)

lemma step_inv_result: "guard_step n s s' \<Longrightarrow> guard_inv s \<Longrightarrow> inv_result s'"
proof (induction rule: guard_step.induct)
  case (publish t s b g r)
  with flightD(1)[of s t g] show ?case
    by (auto simp: guard_inv_def inv_result_def)
next
  case (vacate t s b g r)
  then have "settled s g = Some r" using result_cases by blast
  with vacate show ?case
    by (auto simp: guard_inv_def inv_result_def)
next
  case (report t s b g r)
  then have "settled s g = Some r" using result_cases by blast
  with report show ?case
    by (auto simp: guard_inv_def inv_result_def)
qed (auto simp: guard_inv_def inv_result_def)

lemma step_inv_wire: "guard_step n s s' \<Longrightarrow> guard_inv s \<Longrightarrow> inv_wire s'"
proof (induction rule: guard_step.induct)
  case (own t s b)
  with no_flight[of s] show ?case
    by (auto simp: guard_inv_def inv_wire_def intro: le_SucI)
next
  case (call t s b g)
  then have "g \<notin> set (wire s)" and "generation s = g"
    using flightD(3)[of s t g] by (auto simp: guard_inv_def inv_wire_def)
  moreover have "pcs s t' \<noteq> Owning b' g'" if "t' \<noteq> t" for t' b' g'
    using flight_others[of s t g t'] call that by auto
  ultimately show ?case using call
    by (auto simp: guard_inv_def inv_wire_def)
qed (auto simp: guard_inv_def inv_wire_def)

text \<open>A thread in flight that keeps its generation keeps every waiter served.\<close>

lemma served_moveI:
  assumes "guard_inv s"
    and pcs: "\<And>x. x \<noteq> t \<Longrightarrow> pcs s' x = pcs s x" and fl: "in_flight (pcs s' t) = in_flight (pcs s t)"
    and live: "\<And>g. live s' = Some g \<Longrightarrow> live s = Some g"
    and st: "\<And>g. settled s' g = None \<Longrightarrow> settled s g = None"
    and wait: "\<And>b g. pcs s' t = Waiting b g \<Longrightarrow> settled s' g = None \<Longrightarrow> \<exists>t'. in_flight (pcs s t') = Some g"
  shows "inv_served s'"
proof -
  have eq: "in_flight (pcs s' x) = in_flight (pcs s x)" for x
    using pcs fl by (cases "x = t") auto
  have "\<exists>t'. in_flight (pcs s t') = Some g" if "pcs s' x = Waiting b g" "settled s' g = None" for x b g
    using that pcs[of x] wait st servedD(2)[OF assms(1), of x b g] by (cases "x = t") auto
  then show ?thesis
    using live servedD(1)[OF assms(1)] unfolding inv_served_def eq by blast
qed

lemma step_inv_served: "guard_step n s s' \<Longrightarrow> guard_inv s \<Longrightarrow> inv_served s'"
proof (induction rule: guard_step.induct)
  case (join t s b g)
  then have "\<exists>t'. in_flight (pcs s t') = Some g" using servedD(1) by blast
  with join show ?case
    by (intro served_moveI[of s t]) (auto simp: live_eq)
next
  case (own t s b)
  then have nf: "in_flight (pcs s t') = None" for t' using no_flight by blast
  have "settled s g \<noteq> None" if "pcs s x = Waiting b' g" for x b' g
    using servedD(2)[OF own(4) that] nf by auto
  with own(3) show ?case
    by (fastforce simp: inv_served_def live_eq)
next
  case (publish t s b g r)
  then have fl: "in_flight (pcs s t) = Some g" by simp
  have "\<exists>x. x \<noteq> t \<and> in_flight (pcs s x) = Some g'" if "\<exists>x. in_flight (pcs s x) = Some g'" "g' \<noteq> g" for g'
    using that fl by (metis option.inject)
  with publish(3) servedD[OF publish(3)] show ?case
    by (fastforce simp: inv_served_def live_eq split: if_splits)
next
  case (vacate t s b g r)
  then show ?case
    by (intro served_moveI[of s t]) (auto simp: live_eq split: if_splits)
next
  case (call t s b g)
  then show ?case
    by (intro served_moveI[of s t]) (auto simp: live_eq)
qed (auto intro!: served_moveI)

theorem step_guard_inv: "guard_step n s s' \<Longrightarrow> guard_inv s \<Longrightarrow> guard_inv s'"
  using step_inv_flight step_inv_unique step_inv_slot step_inv_served step_inv_result step_inv_wire
  by (simp add: guard_inv_def[of s'])

lemma reachable_inv: "reachable n s \<Longrightarrow> guard_inv s"
  by (induction rule: reachable.induct) (auto intro: guard_inv_init step_guard_inv)

section \<open>Progress\<close>

text \<open>The number of steps a caller still has to take, at most.\<close>

fun pc_rank :: "pc \<Rightarrow> nat" where
  "pc_rank Idle = 7"
| "pc_rank (Counted _) = 6"
| "pc_rank (Owning _ _) = 5"
| "pc_rank (Calling _ _) = 4"
| "pc_rank (Returned _ _ _) = 3"
| "pc_rank (Published _ _ _) = 2"
| "pc_rank (Waiting _ _) = 2"
| "pc_rank (Left _ _ _) = 1"
| "pc_rank (Finished _ _ _) = 0"

definition steps_left :: "nat \<Rightarrow> guard \<Rightarrow> nat" where
  "steps_left n s = (\<Sum>t<n. pc_rank (pcs s t))"

fun finished :: "pc \<Rightarrow> bool" where
  "finished (Finished _ _ _) = True"
| "finished _ = False"

lemma steps_left_move:
  assumes "t < n" "pcs s0 = pcs s" "pc_rank p < pc_rank (pcs s t)"
  shows "steps_left n (move t p s0) < steps_left n s"
  unfolding steps_left_def
proof (rule sum_strict_mono_ex1)
  show "\<forall>x\<in>{..<n}. pc_rank (pcs (move t p s0) x) \<le> pc_rank (pcs s x)" using assms by auto
  show "\<exists>x\<in>{..<n}. pc_rank (pcs (move t p s0) x) < pc_rank (pcs s x)" using assms by force
qed simp

lemma step_decreases: "guard_step n s s' \<Longrightarrow> steps_left n s' < steps_left n s"
  by (induction rule: guard_step.induct) (rule steps_left_move; simp)+

text \<open>The owner of a generation in flight can always move.\<close>

lemma owner_moves: "t < n \<Longrightarrow> in_flight (pcs s t) = Some g \<Longrightarrow> \<exists>s'. guard_step n s s'"
  by (cases "pcs s t") (auto intro: guard_step.intros)

definition inv_callers :: "nat \<Rightarrow> guard \<Rightarrow> bool" where
  "inv_callers n s \<longleftrightarrow> (\<forall>t. pcs s t = Idle \<or> t < n)"

lemma reachable_callers: "reachable n s \<Longrightarrow> inv_callers n s"
proof (induction rule: reachable.induct)
  case (step s s')
  from step(2,3) show ?case
    by (induction rule: guard_step.induct) (auto simp: inv_callers_def)
qed (simp add: inv_callers_def guard_init_def)

lemma in_flight_caller: "reachable n s \<Longrightarrow> in_flight (pcs s t) = Some g \<Longrightarrow> t < n"
  using reachable_callers[of n s] by (auto simp: inv_callers_def dest: spec[of _ t])

lemma no_deadlock:
  assumes "reachable n s" "t < n" "\<not> finished (pcs s t)"
  shows "\<exists>s'. guard_step n s s'"
proof (cases "pcs s t")
  case (Counted b)
  then show ?thesis using assms by (cases "live s") (auto intro: guard_step.intros)
next
  case (Waiting b g)
  show ?thesis
  proof (cases "settled s g")
    case None
    then obtain t' where "in_flight (pcs s t') = Some g"
      using servedD(2)[OF reachable_inv[OF assms(1)] Waiting] by blast
    then show ?thesis using owner_moves in_flight_caller[OF assms(1)] by blast
  next
    case (Some r)
    then show ?thesis using guard_step.wake assms(2) Waiting by blast
  qed
qed (use assms in \<open>auto intro: guard_step.intros\<close>)

lemma runs_to_end:
  "reachable n s \<Longrightarrow> \<exists>s'. (guard_step n)\<^sup>*\<^sup>* s s' \<and> (\<forall>t<n. finished (pcs s' t))"
proof (induction "steps_left n s" arbitrary: s rule: less_induct)
  case less
  show ?case
  proof (cases "\<forall>t<n. finished (pcs s t)")
    case True
    then show ?thesis by blast
  next
    case False
    then obtain s1 where s1: "guard_step n s s1" using no_deadlock less.prems by blast
    with less step_decreases obtain s' where "(guard_step n)\<^sup>*\<^sup>* s1 s'" "\<forall>t<n. finished (pcs s' t)"
      by (meson reachable.step)
    with s1 show ?thesis by (meson converse_rtranclp_into_rtranclp)
  qed
qed

section \<open>A run of two callers\<close>

text \<open>
  Two callers meet an expired token. Caller 1 reads the counter before caller 0 starts the
  wire call and joins it after.
\<close>

definition shared_run :: "outcome \<Rightarrow> guard" where
  "shared_run r =
    (let s = move 0 (Counted 0) guard_init; s = move 1 (Counted 0) s;
         s = move 0 (Owning 0 1) (install s); s = move 0 (Calling 0 1) (start_wire 1 s);
         s = move 1 (Waiting 0 1) s; s = move 0 (Returned 0 1 r) s;
         s = move 0 (Published 0 1 r) (publish 1 r s); s = move 1 (Left 0 1 r) s;
         s = move 0 (Left 0 1 r) (vacate 1 s);
         s = move 0 (Finished 1 r (reported s 0 r)) s
     in move 1 (Finished 1 r (reported s 0 r)) s)"

lemma guard_init_sel [simp]:
  "inflight guard_init = None" "generation guard_init = 0" "settled guard_init = Map.empty"
  "refresh_count guard_init = 0" "wire guard_init = []" "pcs guard_init = (\<lambda>_. Idle)"
  by (simp_all add: guard_init_def)

lemma shared_run_reachable: "reachable 2 (shared_run r)"
proof -
  have step: "guard_step 2 s s' \<Longrightarrow> reachable 2 s \<Longrightarrow> reachable 2 s'" for s s'
    by (rule reachable.step)
  have count: "guard_step 2 s (move t (Counted 0) s)" if "t < 2" "pcs s t = Idle" "refresh_count s = 0" for t s
    using guard_step.count[of t 2 s] that by simp
  have own: "guard_step 2 s (move 0 (Owning 0 1) (install s))"
    if "pcs s 0 = Counted 0" "inflight s = None" "generation s = 0" for s
    using guard_step.own[of 0 2 s 0] that by (simp add: live_def)
  show ?thesis
    unfolding shared_run_def Let_def
    by (rule step guard_step.report guard_step.vacate guard_step.wake guard_step.publish guard_step.return
          guard_step.join guard_step.call own count start; (simp add: live_eq; fail)?)+
qed

section \<open>Properties\<close>

text \<open>
  C1. The refresh is single-flight, in every reachable interleaving of any number of callers:
  no two callers are inside the wire call at once; no generation is refreshed on the wire twice,
  and \<open>refresh_count\<close> counts the wire calls exactly; callers that finish with the same
  generation return the same outcome, the one its owner published; and a future that callers may
  still join is never taken out of the slot by any step of any caller.
\<close>

theorem refresh_single_flight:
  assumes "reachable n s"
  shows "(pcs s t = Calling b g \<longrightarrow> pcs s t' = Calling b' g' \<longrightarrow> t = t')
    \<and> distinct (wire s) \<and> length (wire s) = refresh_count s
    \<and> (pcs s t = Finished g r w \<longrightarrow> pcs s t' = Finished g r' w' \<longrightarrow> r = r' \<and> settled s g = Some r)
    \<and> (guard_step n s s' \<longrightarrow> live s = Some f \<longrightarrow> inflight s' = Some f)"
proof (intro conjI impI)
  note inv = reachable_inv[OF assms]
  show "t = t'" if "pcs s t = Calling b g" "pcs s t' = Calling b' g'"
    using flight_unique[OF inv, of t' g' t g] that by simp
  show "distinct (wire s)" "length (wire s) = refresh_count s"
    using inv by (auto simp: guard_inv_def inv_wire_def)
  show "r = r'" "settled s g = Some r" if "pcs s t = Finished g r w" "pcs s t' = Finished g r' w'"
    using result_cases(3)[OF inv that(1)] result_cases(3)[OF inv that(2)] by auto
  show "inflight s' = Some f" if st: "guard_step n s s'" and "live s = Some f"
    using st that(2)
  proof (cases rule: guard_step.cases)
    case (vacate t b g r)
    then show ?thesis using that(2) result_cases(1)[OF inv vacate(3)] inv
      by (auto simp: live_eq guard_inv_def inv_slot_def)
  qed (auto simp: live_eq)
qed

lemma refresh_single_flight_witness:
  "pcs (shared_run (Inr 204)) 0 = Finished 1 (Inr 204) (Some Leader)
   \<and> pcs (shared_run (Inr 204)) 1 = Finished 1 (Inr 204) (Some Leader)
   \<and> settled (shared_run (Inr 204)) 1 = Some (Inr 204)
   \<and> length (wire (shared_run (Inr 204))) = 1"
proof -
  let ?s = "shared_run (Inr 204)"
  have p: "pcs ?s 0 = Finished 1 (Inr 204) (Some Leader)" "pcs ?s 1 = Finished 1 (Inr 204) (Some Leader)"
    and c: "refresh_count ?s = 1"
    by (simp_all add: shared_run_def reported_def)
  show ?thesis
    using refresh_single_flight[OF shared_run_reachable, of "Inr 204" 0 _ 1 1 _ 1 "Inr 204" "Some Leader"
        "Inr 204" "Some Leader" _ _] p c by auto
qed

text \<open>
  C36. The guard always finishes: every step of every interleaving uses up one of finitely many
  remaining steps, no reachable state with an unfinished caller is stuck (a caller that waits has
  a live owner that can move, whether the operation returned or threw), and from every reachable
  state the callers can all run to a result.
\<close>

theorem refresh_finishes:
  assumes "reachable n s"
  shows "(guard_step n s s' \<longrightarrow> steps_left n s' < steps_left n s)
    \<and> ((\<exists>t<n. \<not> finished (pcs s t)) \<longrightarrow> (\<exists>s'. guard_step n s s'))
    \<and> (\<exists>s'. (guard_step n)\<^sup>*\<^sup>* s s' \<and> (\<forall>t<n. finished (pcs s' t)))"
  using step_decreases no_deadlock[OF assms] runs_to_end[OF assms] by blast

lemma refresh_finishes_witness:
  "\<exists>s'. (guard_step 2)\<^sup>*\<^sup>* guard_init s' \<and> (\<forall>t<2. finished (pcs s' t))"
  using refresh_finishes[OF reachable.start, of 2] by blast

text \<open>
  The role reported with a refresh is not always the role played: a caller that read the
  counter before another caller's wire call and then joined it reports \<open>Leader\<close>, so one wire
  call can be reported as two leading refreshes.
\<close>

theorem follower_reports_leader:
  "reachable 2 (shared_run (Inr c)) \<and> refresh_count (shared_run (Inr c)) = 1
   \<and> pcs (shared_run (Inr c)) 0 = Finished 1 (Inr c) (Some Leader)
   \<and> pcs (shared_run (Inr c)) 1 = Finished 1 (Inr c) (Some Leader)"
  by (simp add: shared_run_reachable) (simp add: shared_run_def reported_def)

end
