(* ===== verification/Types.thy ===== *)
theory Types
  imports Json
begin

text \<open>
  The value types of the public headers: the transport seam of
  \<open>include/axiam/transport.hpp\<close>, the results of \<open>include/axiam/types.hpp\<close> and the telemetry
  events of \<open>include/axiam/telemetry.hpp\<close>. \<open>HeaderMap\<close> is a map whose keys are folded to
  lower case, as its comparator folds them. Wall-clock durations of events are not kept.
\<close>

section \<open>Requests and responses\<close>

type_synonym headers = "string \<rightharpoonup> string"

definition hget :: "headers \<Rightarrow> string \<Rightarrow> string option" where
  "hget h k = h (lower k)"

definition hset :: "string \<Rightarrow> string \<Rightarrow> headers \<Rightarrow> headers" where
  "hset k v h = h(lower k \<mapsto> v)"

definition no_headers :: headers where
  "no_headers = Map.empty"

lemma hget_no_headers [simp]: "hget no_headers k = None"
  by (simp add: hget_def no_headers_def)

lemma hget_hset [simp]: "hget (hset k v h) k' = (if lower k = lower k' then Some v else hget h k')"
  by (auto simp: hget_def hset_def)

record http_request =
  req_method :: string
  req_url :: string
  req_headers :: headers
  req_body :: string
  no_stored_cookies :: bool
  sessionless :: bool
  replayable :: bool

definition blank_request :: http_request where
  "blank_request = \<lparr>req_method = [], req_url = [], req_headers = no_headers, req_body = [],
     no_stored_cookies = False, sessionless = False, replayable = False\<rparr>"

record http_response =
  status :: int
  resp_headers :: headers
  set_cookies :: "string list"
  resp_body :: string
  transport_error :: string

definition blank_response :: http_response where
  "blank_response = \<lparr>status = 0, resp_headers = no_headers, set_cookies = [], resp_body = [],
     transport_error = []\<rparr>"

section \<open>Results\<close>

record user_info =
  user_id :: string
  username :: string
  email :: string
  user_tenant_id :: string
  org_slug :: "string option"
  tenant_slug :: "string option"
  organization_level :: bool
  principal_tenant_id :: string
  principal_tenant_slug :: "string option"
  user_org_id :: "string option"
  reachable_tenant_ids :: "string list option"

record login_result =
  mfa_required :: bool
  login_user :: "user_info option"
  session_id :: string
  expires_in :: int
  challenge_token :: string
  available_methods :: "string list"
  mfa_setup_required :: bool
  setup_token :: string

definition blank_login :: login_result where
  "blank_login = \<lparr>mfa_required = False, login_user = None, session_id = [], expires_in = 0,
     challenge_token = [], available_methods = [], mfa_setup_required = False, setup_token = []\<rparr>"

record device_auth =
  device_access_token :: string
  device_token_type :: string
  device_expires_in :: int

record access_check =
  chk_action :: string
  chk_resource_id :: string
  chk_scope :: "string option"
  chk_subject_id :: "string option"

record access_decision =
  allowed :: bool
  reason :: "string option"
  reason_code :: "string option"

section \<open>Telemetry\<close>

datatype telemetry_outcome = Success | Failure

datatype telemetry_event =
    RequestStart string string string nat
  | RequestEnd string string string nat "int option" telemetry_outcome
  | RetryWait string nat int string
  | RefreshDone bool
  | ConfigClamped string string string string
  | SsfUnjudged string nat string

section \<open>The environment\<close>

text \<open>
  What the code calls and does not define. A transport, a clock or a generator may answer
  differently each time, so each is a function of what has happened before: the transport of
  the requests sent so far, the others of the number of readings taken so far. \<open>world\<close> is that
  history. \<open>env_parse\<close> is \<open>json::parse(text, nullptr, false)\<close> and \<open>env_dump\<close> is
  \<open>json::dump\<close>, which refuses text that is not UTF-8. Monotonic readings are nanoseconds,
  wall-clock readings seconds.
\<close>

record env =
  env_transport :: "http_request list \<Rightarrow> http_request \<Rightarrow> http_response res"
  env_steady :: "nat \<Rightarrow> int"
  env_wall :: "nat \<Rightarrow> int"
  env_parse :: "string \<Rightarrow> json"
  env_dump :: "json \<Rightarrow> string res"

record world =
  sent :: "http_request list"
  ticks :: nat

definition transmit :: "'e env_scheme \<Rightarrow> http_request \<Rightarrow> 'w world_scheme \<Rightarrow> http_response res \<times> 'w world_scheme" where
  "transmit E req w = (env_transport E (sent w) req, w\<lparr>sent := sent w @ [req]\<rparr>)"

definition steady_now :: "'e env_scheme \<Rightarrow> 'w world_scheme \<Rightarrow> int \<times> 'w world_scheme" where
  "steady_now E w = (env_steady E (ticks w), w\<lparr>ticks := Suc (ticks w)\<rparr>)"

definition wall_now :: "'e env_scheme \<Rightarrow> 'w world_scheme \<Rightarrow> int \<times> 'w world_scheme" where
  "wall_now E w = (env_wall E (ticks w), w\<lparr>ticks := Suc (ticks w)\<rparr>)"

lemma transmit_sel [simp]:
  "fst (transmit E req w) = env_transport E (sent w) req"
  "sent (snd (transmit E req w)) = sent w @ [req]"
  by (simp_all add: transmit_def)

lemma steady_now_sel [simp]: "sent (snd (steady_now E w)) = sent w"
  by (simp add: steady_now_def)

lemma wall_now_sel [simp]: "sent (snd (wall_now E w)) = sent w"
  by (simp add: wall_now_def)

end
