(* ===== verification/DecisionMemo.thy ===== *)
theory DecisionMemo
  imports Types
begin

text \<open>
  \<open>src/decision_memo.hpp\<close>: the bounded, expiring memo of authorization decisions. Every public
  member is one critical section, so a history of the memo is a list of operations. Times are
  nanoseconds of the injected clock, the configured lifetime is milliseconds.
\<close>

section \<open>State and operations\<close>

definition kMemoMaxTtl :: int where "kMemoMaxTtl = 5000"
definition kMemoMaxEntries :: nat where "kMemoMaxEntries = 1024"

record memo_entry =
  decision :: access_decision
  stored_at :: int

record memo =
  ttl :: int
  entries :: "string \<rightharpoonup> memo_entry"
  order :: "string list"

definition memo_new :: "int \<Rightarrow> memo" where
  "memo_new requested =
     \<lparr>ttl = (if requested \<le> 0 then 0 else min requested kMemoMaxTtl), entries = Map.empty, order = []\<rparr>"

definition memo_enabled :: "memo \<Rightarrow> bool" where
  "memo_enabled m = (0 < ttl m)"

definition absent_mark :: string where "absent_mark = [CHR 0x01]"
definition unit_sep :: char where "unit_sep = CHR 0x1F"

definition memo_key ::
    "string option \<Rightarrow> string \<Rightarrow> string \<Rightarrow> string option \<Rightarrow> string option \<Rightarrow> string" where
  "memo_key subject resource action scope tenant =
     (let part = (\<lambda>x. case x of None \<Rightarrow> absent_mark | Some v \<Rightarrow> v)
      in part subject @ [unit_sep] @ resource @ [unit_sep] @ action @ [unit_sep] @
         part scope @ [unit_sep] @ part tenant)"

text \<open>\<open>erase_locked\<close>: the entry goes, and with it the first occurrence of its key in \<open>order\<close>.\<close>

definition erase_locked :: "string \<Rightarrow> memo \<Rightarrow> memo" where
  "erase_locked k m =
     (if entries m k = None then m
      else m\<lparr>entries := (entries m)(k := None), order := remove1 k (order m)\<rparr>)"

definition memo_get :: "string \<Rightarrow> int \<Rightarrow> memo \<Rightarrow> access_decision option \<times> memo" where
  "memo_get k now m =
     (if \<not> memo_enabled m then (None, m)
      else (case entries m k of
              None \<Rightarrow> (None, m)
            | Some e \<Rightarrow>
                (if ttl m * 1000000 \<le> now - stored_at e then (None, erase_locked k m)
                 else (Some (decision e), m))))"

fun evict :: "string list \<Rightarrow> (string \<rightharpoonup> memo_entry) \<Rightarrow> string list \<times> (string \<rightharpoonup> memo_entry)" where
  "evict [] es = ([], es)"
| "evict (k # ks) es =
     (if kMemoMaxEntries < length (k # ks) then evict ks (es(k := None)) else (k # ks, es))"

definition memo_put :: "string \<Rightarrow> access_decision \<Rightarrow> int \<Rightarrow> memo \<Rightarrow> memo" where
  "memo_put k d now m =
     (if \<not> memo_enabled m then m
      else let m1 = erase_locked k m;
               es = (if entries m1 k = None then (entries m1)(k \<mapsto> \<lparr>decision = d, stored_at = now\<rparr>)
                     else entries m1);
               (ks, es') = evict (order m1 @ [k]) es
           in m1\<lparr>entries := es', order := ks\<rparr>)"

definition memo_clear :: "memo \<Rightarrow> memo" where
  "memo_clear m = m\<lparr>entries := Map.empty, order := []\<rparr>"

section \<open>The invariant\<close>

definition memo_inv :: "memo \<Rightarrow> bool" where
  "memo_inv m \<longleftrightarrow>
     distinct (order m) \<and> set (order m) = dom (entries m) \<and> length (order m) \<le> kMemoMaxEntries
     \<and> 0 \<le> ttl m \<and> ttl m \<le> kMemoMaxTtl"

lemma memo_inv_new: "memo_inv (memo_new requested)"
  by (simp add: memo_inv_def memo_new_def kMemoMaxTtl_def)

lemma memo_inv_clear: "memo_inv m \<Longrightarrow> memo_inv (memo_clear m)"
  by (simp add: memo_inv_def memo_clear_def)

lemma erase_locked_inv: "memo_inv m \<Longrightarrow> memo_inv (erase_locked k m)"
  by (auto simp: memo_inv_def erase_locked_def length_remove1)

lemma erase_locked_sel [simp]:
  "entries (erase_locked k m) = (entries m)(k := None)" "ttl (erase_locked k m) = ttl m"
  by (auto simp: erase_locked_def)

lemma erase_locked_order:
  "memo_inv m \<Longrightarrow> order (erase_locked k m) = filter (\<lambda>x. x \<noteq> k) (order m)"
  by (auto simp: erase_locked_def memo_inv_def distinct_remove1_removeAll removeAll_filter_not_eq dom_def
      intro!: filter_True [symmetric])
     (metis (mono_tags, lifting) filter_True mem_Collect_eq option.distinct(1))

text \<open>
  Eviction keeps a suffix of the order, at most \<open>kMemoMaxEntries\<close> long and never empty, and
  removes exactly the entries of the keys it drops.
\<close>

lemma evict_spec:
  assumes "evict ks es = (ks', es')" "distinct ks"
  shows "\<exists>dropped. ks = dropped @ ks' \<and> es' = es |` (- set dropped)
    \<and> length ks' \<le> kMemoMaxEntries \<and> (ks \<noteq> [] \<longrightarrow> ks' \<noteq> [])"
  using assms
proof (induction ks es rule: evict.induct)
  case (2 k ks es)
  show ?case
  proof (cases "kMemoMaxEntries < length (k # ks)")
    case True
    then have "evict ks (es(k := None)) = (ks', es')" "distinct ks" using 2(2,3) by simp_all
    from 2(1)[OF True this] obtain dropped where
      d: "ks = dropped @ ks'" "es' = es(k := None) |` (- set dropped)"
        "length ks' \<le> kMemoMaxEntries" "ks \<noteq> [] \<longrightarrow> ks' \<noteq> []" by blast
    moreover have "ks \<noteq> []" using True by (auto simp: kMemoMaxEntries_def)
    moreover have "es(k := None) |` (- set dropped) = es |` (- set (k # dropped))"
      by (auto simp: restrict_map_def fun_eq_iff)
    ultimately have "k # ks = (k # dropped) @ ks' \<and> es' = es |` (- set (k # dropped))" by simp
    with d \<open>ks \<noteq> []\<close> show ?thesis by blast
  next
    case False
    with 2 show ?thesis by (intro exI[of _ "[]"]) auto
  qed
qed (simp add: restrict_map_def)

lemma memo_put_spec:
  assumes "memo_inv m" "memo_enabled m"
  obtains dropped where
    "order (erase_locked k m) @ [k] = dropped @ order (memo_put k d now m)" "k \<notin> set dropped"
    "entries (memo_put k d now m) = ((entries m)(k \<mapsto> \<lparr>decision = d, stored_at = now\<rparr>)) |` (- set dropped)"
    "length (order (memo_put k d now m)) \<le> kMemoMaxEntries" "ttl (memo_put k d now m) = ttl m"
proof -
  let ?e = "\<lparr>decision = d, stored_at = now\<rparr>"
  let ?o = "order (erase_locked k m) @ [k]"
  obtain ks es where ev: "evict ?o ((entries m)(k \<mapsto> ?e)) = (ks, es)" by (metis surj_pair)
  have o: "distinct ?o" using assms(1) by (simp add: erase_locked_order memo_inv_def)
  from evict_spec[OF ev o] obtain dropped where
    d: "?o = dropped @ ks" "es = ((entries m)(k \<mapsto> ?e)) |` (- set dropped)" "length ks \<le> kMemoMaxEntries" "ks \<noteq> []"
    by auto
  have "k \<in> set ks" using d(1,4) by (metis last_appendR last_in_set last_snoc)
  then have "k \<notin> set dropped" using o d(1) by auto
  moreover have "memo_put k d now m = (erase_locked k m)\<lparr>entries := es, order := ks\<rparr>"
    using assms(2) ev by (simp add: memo_put_def)
  ultimately show thesis using d that[of dropped] by simp
qed

lemma memo_inv_put: "memo_inv m \<Longrightarrow> memo_inv (memo_put k d now m)"
proof (cases "memo_enabled m")
  case True
  assume inv: "memo_inv m"
  from inv True obtain dropped where
    o: "order (erase_locked k m) @ [k] = dropped @ order (memo_put k d now m)" "k \<notin> set dropped"
    and e: "entries (memo_put k d now m) = ((entries m)(k \<mapsto> \<lparr>decision = d, stored_at = now\<rparr>)) |` (- set dropped)"
    and l: "length (order (memo_put k d now m)) \<le> kMemoMaxEntries" "ttl (memo_put k d now m) = ttl m"
    by (rule memo_put_spec)
  have "distinct (order (erase_locked k m) @ [k])" and s: "set (order (erase_locked k m) @ [k]) = insert k (dom (entries m))"
    using inv by (auto simp: erase_locked_order memo_inv_def)
  then have "distinct (order (memo_put k d now m))" "set dropped \<inter> set (order (memo_put k d now m)) = {}"
    using o(1) by auto
  moreover have "set dropped \<union> set (order (memo_put k d now m)) = insert k (dom (entries m))"
    using s o(1) by (metis set_append)
  ultimately have "set (order (memo_put k d now m)) = insert k (dom (entries m)) - set dropped" by blast
  with \<open>distinct (order (memo_put k d now m))\<close> l inv e show ?thesis
    by (auto simp: memo_inv_def)
qed (simp add: memo_put_def)

lemma memo_inv_get: "memo_inv m \<Longrightarrow> memo_inv (snd (memo_get k now m))"
  by (simp add: memo_get_def erase_locked_inv split: option.split)

section \<open>The memo interface\<close>

text \<open>
  What the client relies on, over any implementation: \<open>held m k\<close> is the decision the memo
  holds for \<open>k\<close> and when it was stored. Storing may forget other keys, never invent one; a
  hit is a held decision younger than the lifetime; clearing forgets all.
\<close>

locale decision_memo =
  fixes get :: "'k \<Rightarrow> int \<Rightarrow> 'm \<Rightarrow> 'd option \<times> 'm"
    and put :: "'k \<Rightarrow> 'd \<Rightarrow> int \<Rightarrow> 'm \<Rightarrow> 'm"
    and clear :: "'m \<Rightarrow> 'm"
    and held :: "'m \<Rightarrow> 'k \<Rightarrow> ('d \<times> int) option"
    and inv :: "'m \<Rightarrow> bool"
    and lifetime :: int
  assumes inv_put: "inv m \<Longrightarrow> inv (put k d now m)"
    and inv_get: "inv m \<Longrightarrow> inv (snd (get k now m))"
    and inv_clear: "inv m \<Longrightarrow> inv (clear m)"
    and held_put: "inv m \<Longrightarrow> held (put k d now m) k' = Some x \<Longrightarrow>
          (k' = k \<and> x = (d, now)) \<or> (k' \<noteq> k \<and> held m k' = Some x)"
    and held_get: "inv m \<Longrightarrow> held (snd (get k now m)) k' = Some x \<Longrightarrow> held m k' = Some x"
    and held_clear: "inv m \<Longrightarrow> held (clear m) k = None"
    and hit: "inv m \<Longrightarrow> fst (get k now m) = Some d \<Longrightarrow>
          \<exists>t. held m k = Some (d, t) \<and> now - t < lifetime"

text \<open>A history: the operations in the order their critical sections ran.\<close>

datatype ('k, 'd) memo_op = Put 'k 'd int | Get 'k int | Clear

fun memo_apply ::
    "('k \<Rightarrow> int \<Rightarrow> 'm \<Rightarrow> 'd option \<times> 'm) \<Rightarrow> ('k \<Rightarrow> 'd \<Rightarrow> int \<Rightarrow> 'm \<Rightarrow> 'm) \<Rightarrow> ('m \<Rightarrow> 'm) \<Rightarrow>
     ('k, 'd) memo_op \<Rightarrow> 'm \<Rightarrow> 'm" where
  "memo_apply get put clear (Put k d t) m = put k d t m"
| "memo_apply get put clear (Get k t) m = snd (get k t m)"
| "memo_apply get put clear Clear m = clear m"

definition last_put :: "('k, 'd) memo_op list \<Rightarrow> 'k \<Rightarrow> ('d \<times> int) option" where
  "last_put ops k = fold (\<lambda>x acc. case x of
       Put k' d t \<Rightarrow> (if k' = k then Some (d, t) else acc)
     | Get _ _ \<Rightarrow> acc
     | Clear \<Rightarrow> None) ops None"

lemma last_put_snoc [simp]:
  "last_put [] k = None"
  "last_put (ops @ [Put k' d t]) k = (if k' = k then Some (d, t) else last_put ops k)"
  "last_put (ops @ [Get k' t]) k = last_put ops k"
  "last_put (ops @ [Clear]) k = None"
  by (simp_all add: last_put_def)

context decision_memo
begin

lemma history_inv: "inv m \<Longrightarrow> inv (fold (memo_apply get put clear) ops m)"
proof (induction ops arbitrary: m)
  case (Cons x ops)
  then show ?case by (cases x) (auto intro: inv_put inv_get inv_clear)
qed simp

lemma history_held:
  assumes "inv m" "\<And>k. held m k = None"
  shows "held (fold (memo_apply get put clear) ops m) k = Some x \<Longrightarrow> last_put ops k = Some x"
proof (induction ops rule: rev_induct)
  case (snoc a ops)
  note inv = history_inv[OF assms(1), of ops]
  show ?case
  proof (cases a)
    case (Put k' d t)
    with snoc.prems have "held (put k' d t (fold (memo_apply get put clear) ops m)) k = Some x" by simp
    from held_put[OF inv this] snoc.IH show ?thesis by (auto simp: Put)
  next
    case (Get k' t)
    with snoc.prems held_get[OF inv] snoc.IH show ?thesis by simp
  next
    case Clear
    with snoc.prems held_clear[OF inv] show ?thesis by simp
  qed
qed (use assms in simp)

lemma history_hit:
  assumes "inv m" "\<And>k. held m k = None"
    and "fst (get k now (fold (memo_apply get put clear) ops m)) = Some d"
  shows "\<exists>t. last_put ops k = Some (d, t) \<and> now - t < lifetime"
  using hit[OF history_inv[OF assms(1)] assms(3)] history_held[OF assms(1,2)] by blast

end

definition memo_held :: "memo \<Rightarrow> string \<Rightarrow> (access_decision \<times> int) option" where
  "memo_held m k = map_option (\<lambda>e. (decision e, stored_at e)) (entries m k)"

lemma memo_held_put:
  assumes "memo_inv m" "memo_held (memo_put k d now m) k' = Some x"
  shows "(k' = k \<and> x = (d, now)) \<or> (k' \<noteq> k \<and> memo_held m k' = Some x) \<or> \<not> memo_enabled m \<and> memo_held m k' = Some x"
proof (cases "memo_enabled m")
  case True
  from memo_put_spec[OF assms(1) True, of k d now] obtain dropped where
    "entries (memo_put k d now m) = ((entries m)(k \<mapsto> \<lparr>decision = d, stored_at = now\<rparr>)) |` (- set dropped)"
    by metis
  with assms(2) show ?thesis
    by (auto simp: memo_held_def restrict_map_def split: if_splits)
qed (use assms(2) in \<open>simp add: memo_put_def\<close>)

text \<open>The contract holds of a memo that is switched on, of whatever configured lifetime.\<close>

definition memo_ok :: "int \<Rightarrow> memo \<Rightarrow> bool" where
  "memo_ok life m \<longleftrightarrow> memo_inv m \<and> ttl m = life \<and> 0 < life"

lemma memo_ttl [simp]:
  "ttl (memo_put k d now m) = ttl m" "ttl (snd (memo_get k now m)) = ttl m" "ttl (memo_clear m) = ttl m"
  by (auto simp: memo_put_def memo_get_def memo_clear_def Let_def split: option.splits prod.splits)

interpretation memo: decision_memo memo_get memo_put memo_clear memo_held "memo_ok life" "life * 1000000" for life
proof
  fix m k k' d now x
  assume ok: "memo_ok life m"
  then have inv: "memo_inv m" and on: "memo_enabled m" and life: "ttl m = life"
    by (auto simp: memo_ok_def memo_enabled_def)
  show "memo_ok life (memo_put k d now m)" "memo_ok life (snd (memo_get k now m))" "memo_ok life (memo_clear m)"
    using ok by (simp_all add: memo_ok_def memo_inv_put memo_inv_get memo_inv_clear)
  show "memo_held (memo_put k d now m) k' = Some x \<Longrightarrow>
      (k' = k \<and> x = (d, now)) \<or> (k' \<noteq> k \<and> memo_held m k' = Some x)"
    using memo_held_put[OF inv, of k d now k' x] on by blast
  show "memo_held (snd (memo_get k now m)) k' = Some x \<Longrightarrow> memo_held m k' = Some x"
    by (auto simp: memo_get_def memo_held_def split: option.splits if_splits)
  show "memo_held (memo_clear m) k = None" by (simp add: memo_held_def memo_clear_def)
  show "fst (memo_get k now m) = Some d \<Longrightarrow> \<exists>t. memo_held m k = Some (d, t) \<and> now - t < life * 1000000"
    using life by (auto simp: memo_get_def memo_held_def split: option.splits if_splits)
qed

section \<open>Keys\<close>

lemma append_sep_cancel:
  "c \<notin> set a \<Longrightarrow> c \<notin> set b \<Longrightarrow> a @ c # x = b @ c # y \<longleftrightarrow> a = b \<and> x = y"
  by (auto simp: append_eq_append_conv2 Cons_eq_append_conv append_eq_Cons_conv)

definition key_part_ok :: "string \<Rightarrow> bool" where
  "key_part_ok s = (unit_sep \<notin> set s \<and> s \<noteq> absent_mark)"

lemma unit_sep_absent: "unit_sep \<notin> set absent_mark"
  by (simp add: unit_sep_def absent_mark_def)

lemma memo_key_inj:
  assumes ok: "\<forall>x\<in>set_option s \<union> set_option s' \<union> set_option sc \<union> set_option sc' \<union> set_option t \<union> set_option t'.
      key_part_ok x"
    and sep: "unit_sep \<notin> set r" "unit_sep \<notin> set r'" "unit_sep \<notin> set a" "unit_sep \<notin> set a'"
    and eq: "memo_key s r a sc t = memo_key s' r' a' sc' t'"
  shows "s = s' \<and> r = r' \<and> a = a' \<and> sc = sc' \<and> t = t'"
proof -
  define part where "part = (\<lambda>x. case x of None \<Rightarrow> absent_mark | Some v \<Rightarrow> v)"
  have nosep: "unit_sep \<notin> set (part x)" if "\<forall>v\<in>set_option x. key_part_ok v" for x
    using that by (auto simp: part_def key_part_ok_def unit_sep_absent split: option.split)
  have inj: "x = y" if "part x = part y" "\<forall>v\<in>set_option x \<union> set_option y. key_part_ok v" for x y
    using that by (auto simp: part_def key_part_ok_def split: option.splits)
  have "part s @ unit_sep # r @ unit_sep # a @ unit_sep # part sc @ unit_sep # part t =
      part s' @ unit_sep # r' @ unit_sep # a' @ unit_sep # part sc' @ unit_sep # part t'"
    using eq by (simp add: memo_key_def part_def Let_def)
  then have "part s = part s' \<and> r = r' \<and> a = a' \<and> part sc = part sc' \<and> part t = part t'"
    using nosep[of s] nosep[of s'] nosep[of sc] nosep[of sc'] ok sep by (simp add: append_sep_cancel)
  then show ?thesis using inj ok by blast
qed

section \<open>Properties\<close>

definition memo_history :: "int \<Rightarrow> (string, access_decision) memo_op list \<Rightarrow> memo" where
  "memo_history requested ops = fold (memo_apply memo_get memo_put memo_clear) ops (memo_new requested)"

lemma memo_disabled_history: "requested \<le> 0 \<Longrightarrow> memo_history requested ops = memo_new requested"
proof (induction ops rule: rev_induct)
  case (snoc a ops)
  then have "\<not> memo_enabled (memo_history requested ops)" and e: "memo_clear (memo_new requested) = memo_new requested"
    by (simp_all add: memo_enabled_def memo_new_def memo_clear_def)
  then show ?case using snoc
    by (cases a) (simp_all add: memo_history_def memo_get_def memo_put_def)
qed (simp add: memo_history_def)

lemma memo_history_ok: "0 < requested \<Longrightarrow> memo_ok (min requested kMemoMaxTtl) (memo_history requested ops)"
  unfolding memo_history_def
  by (rule memo.history_inv) (auto simp: memo_ok_def memo_inv_new, auto simp: memo_new_def kMemoMaxTtl_def)

text \<open>
  C33. Over every history of the memo's operations, in whatever order their critical sections run
  and whatever the clock reads: a hit is the decision most recently stored under that very key,
  stored after the last clear and less than \<open>min(requested, 5000)\<close> milliseconds ago, and a
  non-positive lifetime never hits; the eviction order lists each held key exactly once and
  never more than 1024.
\<close>

theorem memo_history_sound:
  "(fst (memo_get k now (memo_history requested ops)) = Some d \<longrightarrow>
      0 < requested \<and> (\<exists>t. last_put ops k = Some (d, t) \<and> now - t < min requested 5000 * 1000000))
   \<and> distinct (order (memo_history requested ops))
   \<and> set (order (memo_history requested ops)) = dom (entries (memo_history requested ops))
   \<and> length (order (memo_history requested ops)) \<le> 1024"
proof (cases "0 < requested")
  case True
  have "memo_inv (memo_history requested ops)"
    using memo_history_ok[OF True] by (simp add: memo_ok_def)
  moreover have "memo_ok (min requested kMemoMaxTtl) (memo_new requested)"
    using True by (simp add: memo_ok_def memo_inv_new) (simp add: memo_new_def kMemoMaxTtl_def)
  then have "fst (memo_get k now (memo_history requested ops)) = Some d \<Longrightarrow>
      \<exists>t. last_put ops k = Some (d, t) \<and> now - t < min requested kMemoMaxTtl * 1000000"
    unfolding memo_history_def by (rule memo.history_hit) (simp_all add: memo_held_def memo_new_def)
  ultimately show ?thesis using True
    by (auto simp: memo_inv_def kMemoMaxEntries_def kMemoMaxTtl_def)
next
  case False
  then show ?thesis
    by (simp add: memo_disabled_history) (simp add: memo_get_def memo_enabled_def memo_new_def)
qed

lemma memo_history_sound_witness:
  "let d = \<lparr>allowed = True, reason = None, reason_code = Some ''allowed''\<rparr>
   in fst (memo_get ''k'' 4000000 (memo_history 9000 [Put ''k'' d 1000000])) = Some d
      \<and> last_put [Put ''k'' d 1000000] ''k'' = Some (d, 1000000)"
proof -
  let ?d = "\<lparr>allowed = True, reason = None, reason_code = Some ''allowed''\<rparr>"
  have g: "fst (memo_get ''k'' 4000000 (memo_history 9000 [Put ''k'' ?d 1000000])) = Some ?d"
    by (simp add: memo_history_def memo_new_def kMemoMaxTtl_def memo_put_def memo_enabled_def
        erase_locked_def kMemoMaxEntries_def memo_get_def)
  from memo_history_sound[of "''k''" 4000000 9000 "[Put ''k'' ?d 1000000]" ?d] g
  show ?thesis by (auto simp: last_put_def)
qed

text \<open>
  The memo key is a faithful encoding of the question: for values free of the unit separator
  (and optional values that are not the absent mark), equal keys come from equal subject,
  resource, action, scope and acting tenant, and an absent value never collides with a present
  one.
\<close>

theorem memo_key_faithful:
  assumes "\<forall>x\<in>set_option s \<union> set_option s' \<union> set_option sc \<union> set_option sc' \<union> set_option t \<union> set_option t'.
      key_part_ok x"
    and "unit_sep \<notin> set r" "unit_sep \<notin> set r'" "unit_sep \<notin> set a" "unit_sep \<notin> set a'"
  shows "memo_key s r a sc t = memo_key s' r' a' sc' t' \<longleftrightarrow>
    s = s' \<and> r = r' \<and> a = a' \<and> sc = sc' \<and> t = t'"
  using memo_key_inj[OF assms] by blast

lemma memo_key_faithful_witness:
  "memo_key None ''doc'' ''read'' (Some ''x'') None \<noteq> memo_key None ''doc'' ''read'' None (Some ''x'')"
  using memo_key_faithful[of None None "Some ''x''" None None "Some ''x''" "''doc''" "''doc''" "''read''" "''read''"]
  by (simp add: key_part_ok_def unit_sep_def absent_mark_def)

end
