(* ===== verification/Jwks.thy ===== *)
theory Jwks
  imports Encoding Urls Types
begin

text \<open>
  \<open>src/jwks.cpp\<close>: the token verifier shared by the resource-server authenticator and the
  relying party. Its state is the cached key set and the two clocks that bound fetching; each
  call sends at most the requests the cache policy allows. The Ed25519 primitive and SHA-256
  are parameters (OpenSSL); the length checks around them are the code's.
\<close>

section \<open>State\<close>

record jwk =
  kid :: string
  x_b64url :: string

record verifier =
  v_base_url :: string
  cache_ttl :: int
  keys :: "string \<rightharpoonup> jwk"
  fetched_at :: int
  cooldown_until :: int
  have_keys :: bool

definition kJwksCooldown :: int where "kJwksCooldown = 60"

definition ns :: "int \<Rightarrow> int" where "ns s = s * 1000000000"

definition verifier_new :: "string \<Rightarrow> int \<Rightarrow> verifier" where
  "verifier_new base ttl = \<lparr>v_base_url = strip_trailing_slash base, cache_ttl = ttl, keys = Map.empty,
     fetched_at = 0, cooldown_until = 0, have_keys = False\<rparr>"

datatype jwt_verification = Verified string | Rejected string

section \<open>Splitting and loading\<close>

definition is_dot :: "char \<Rightarrow> bool" where "is_dot c = (c = CHR ''.'')"

definition split_jwt :: "string \<Rightarrow> (string \<times> string \<times> string) option" where
  "split_jwt jwt =
     (case cut is_dot jwt of
        None \<Rightarrow> None
      | Some (h, _, rest) \<Rightarrow>
          (case cut is_dot rest of
             None \<Rightarrow> None
           | Some (p, _, s) \<Rightarrow>
               (if list_ex is_dot s then None
                else if h = [] \<or> p = [] \<or> s = [] then None
                else Some (h, p, s))))"

text \<open>One member of the \<open>keys\<close> array: skipped, taken, or a type error of the JSON library.\<close>

definition jwk_of :: "json \<Rightarrow> jwk option res" where
  "jwk_of k =
     (if \<not> is_object k then Inr None
      else and_then (jvalue get_str k ''kty'' []) (\<lambda>kty.
           and_then (jvalue get_str k ''crv'' []) (\<lambda>crv.
             if kty \<noteq> ''OKP'' \<or> crv \<noteq> ''Ed25519'' then Inr None
             else and_then (jvalue get_str k ''kid'' []) (\<lambda>i.
                  and_then (jvalue get_str k ''x'' []) (\<lambda>x.
                    Inr (if x = [] then None else Some \<lparr>kid = i, x_b64url = x\<rparr>))))))"

fun load_loop :: "json list \<Rightarrow> (string \<rightharpoonup> jwk) \<Rightarrow> unit res \<times> (string \<rightharpoonup> jwk)" where
  "load_loop [] m = (Inr (), m)"
| "load_loop (k # ks) m =
     (case jwk_of k of
        Inl e \<Rightarrow> (Inl e, m)
      | Inr None \<Rightarrow> load_loop ks m
      | Inr (Some j) \<Rightarrow> load_loop ks (m(kid j \<mapsto> j)))"

definition load_from_json :: "json \<Rightarrow> unit res \<times> (string \<rightharpoonup> jwk)" where
  "load_from_json doc =
     (case jfind doc ''keys'' of
        Some (JArr ks) \<Rightarrow> load_loop ks Map.empty
      | _ \<Rightarrow> (Inr (), Map.empty))"

section \<open>Fetching\<close>

definition jwks_request :: "verifier \<Rightarrow> http_request" where
  "jwks_request v = blank_request\<lparr>req_method := ''GET'', req_url := v_base_url v @ ''/oauth2/jwks'',
     req_headers := hset ''Accept'' ''application/json'' no_headers, sessionless := True\<rparr>"

definition ensure_keys :: "env \<Rightarrow> verifier \<Rightarrow> world \<Rightarrow> unit res \<times> verifier \<times> world" where
  "ensure_keys E v w =
     (let (now, w) = steady_now E w in
      if have_keys v \<and> now - fetched_at v < ns (cache_ttl v) then (Inr (), v, w)
      else let (r, w) = transmit E (jwks_request v) w in
        (case r of
           Inl e \<Rightarrow> (Inl e, v, w)
         | Inr resp \<Rightarrow>
             (if transport_error resp \<noteq> [] \<or> status resp \<noteq> 200 then (Inr (), v, w)
              else (case load_from_json (env_parse E (resp_body resp)) of
                      (Inl e, ks) \<Rightarrow> (Inl e, v\<lparr>keys := ks\<rparr>, w)
                    | (Inr _, ks) \<Rightarrow> (Inr (), v\<lparr>keys := ks, fetched_at := now, have_keys := True\<rparr>, w)))))"

definition refresh_keys :: "env \<Rightarrow> verifier \<Rightarrow> world \<Rightarrow> unit res \<times> verifier \<times> world" where
  "refresh_keys E v w = ensure_keys E (v\<lparr>have_keys := False\<rparr>) w"

text \<open>
  The locked section of \<open>verify_with_reason\<close>: the key for \<open>i\<close>, re-fetching once per cooldown
  window when it is unknown.
\<close>

definition lookup_key :: "env \<Rightarrow> string \<Rightarrow> verifier \<Rightarrow> world \<Rightarrow> jwk option res \<times> verifier \<times> world" where
  "lookup_key E i v w =
     (case ensure_keys E v w of
        (Inl e, v, w) \<Rightarrow> (Inl e, v, w)
      | (Inr _, v, w) \<Rightarrow>
          (case keys v i of
             Some j \<Rightarrow> (Inr (Some j), v, w)
           | None \<Rightarrow>
               (let (now, w) = steady_now E w in
                if cooldown_until v \<le> now then
                  (case ensure_keys E (v\<lparr>cooldown_until := now + ns kJwksCooldown, have_keys := False\<rparr>) w of
                     (Inl e, v, w) \<Rightarrow> (Inl e, v, w)
                   | (Inr _, v, w) \<Rightarrow> (Inr (keys v i), v, w))
                else (Inr None, v, w))))"

section \<open>Verification\<close>

text \<open>\<open>ed25519_verify\<close>: the length checks, then the primitive.\<close>

definition ed25519_verify :: "(string \<Rightarrow> string \<Rightarrow> string \<Rightarrow> bool) \<Rightarrow> string \<Rightarrow> string \<Rightarrow> string \<Rightarrow> bool" where
  "ed25519_verify ed key msg sig = (length key = 32 \<and> length sig = 64 \<and> ed key msg sig)"

definition check_signature ::
    "(string \<Rightarrow> string \<Rightarrow> string \<Rightarrow> bool) \<Rightarrow> jwk \<Rightarrow> string \<Rightarrow> string \<Rightarrow> string \<Rightarrow> jwt_verification" where
  "check_signature ed j h p s =
     (case (base64url_decode (x_b64url j), base64url_decode s) of
        (Some pub, Some sig) \<Rightarrow>
          (if \<not> ed25519_verify ed pub (h @ ''.'' @ p) sig then Rejected ''invalid_signature''
           else (case base64url_decode p of
                   None \<Rightarrow> Rejected ''invalid_signature''
                 | Some payload \<Rightarrow> Verified payload))
      | _ \<Rightarrow> Rejected ''invalid_signature'')"

definition verify_with_reason ::
    "env \<Rightarrow> (string \<Rightarrow> string \<Rightarrow> string \<Rightarrow> bool) \<Rightarrow> string \<Rightarrow> verifier \<Rightarrow> world \<Rightarrow>
     jwt_verification res \<times> verifier \<times> world" where
  "verify_with_reason E ed jwt v w =
     (case split_jwt jwt of
        None \<Rightarrow> (Inr (Rejected ''invalid_alg''), v, w)
      | Some (h, p, s) \<Rightarrow>
          (case base64url_decode h of
             None \<Rightarrow> (Inr (Rejected ''invalid_alg''), v, w)
           | Some hj \<Rightarrow>
               (let header = env_parse E hj in
                if is_discarded header then (Inr (Rejected ''invalid_alg''), v, w)
                else (case jvalue get_str header ''alg'' [] of
                        Inl e \<Rightarrow> (Inl e, v, w)
                      | Inr alg \<Rightarrow>
                          (if alg \<noteq> ''EdDSA'' then (Inr (Rejected ''invalid_alg''), v, w)
                           else (case jvalue get_str header ''kid'' [] of
                                   Inl e \<Rightarrow> (Inl e, v, w)
                                 | Inr i \<Rightarrow>
                                     (case lookup_key E i v w of
                                        (Inl e, v, w) \<Rightarrow> (Inl e, v, w)
                                      | (Inr None, v, w) \<Rightarrow> (Inr (Rejected ''unknown_kid''), v, w)
                                      | (Inr (Some j), v, w) \<Rightarrow>
                                          (Inr (check_signature ed j h p s), v, w))))))))"

definition verify_signature_only_unchecked ::
    "env \<Rightarrow> (string \<Rightarrow> string \<Rightarrow> string \<Rightarrow> bool) \<Rightarrow> string \<Rightarrow> verifier \<Rightarrow> world \<Rightarrow>
     string option res \<times> verifier \<times> world" where
  "verify_signature_only_unchecked E ed jwt v w =
     (case verify_with_reason E ed jwt v w of
        (Inr (Verified payload), v, w) \<Rightarrow> (Inr (Some payload), v, w)
      | (Inr (Rejected _), v, w) \<Rightarrow> (Inr None, v, w)
      | (Inl e, v, w) \<Rightarrow> (Inl e, v, w))"

section \<open>Certificate-bound tokens\<close>

definition verify_certificate_binding :: "(string \<Rightarrow> json) \<Rightarrow> string \<Rightarrow> string option \<Rightarrow> bool" where
  "verify_certificate_binding parse claims_json presented =
     (let claims = parse claims_json in
      if is_discarded claims \<or> \<not> is_object claims then False
      else (case jfind claims ''cnf'' of
              None \<Rightarrow> True
            | Some JNull \<Rightarrow> True
            | Some cnf \<Rightarrow>
                (if \<not> is_object cnf then False
                 else (case jfind cnf ''x5t#S256'' of
                         Some (JStr expected) \<Rightarrow>
                           (if expected = [] then False
                            else (case jfind cnf ''jkt'' of
                                    Some (JStr (_ # _)) \<Rightarrow> False
                                  | _ \<Rightarrow>
                                      (case presented of
                                         None \<Rightarrow> False
                                       | Some t \<Rightarrow> t \<noteq> [] \<and> constant_time_equal expected t)))
                       | _ \<Rightarrow> False))))"

text \<open>\<open>sha256\<close> is the digest, \<open>None\<close> when the library fails.\<close>

definition certificate_thumbprint_s256 :: "(string \<Rightarrow> string option) \<Rightarrow> string \<Rightarrow> string" where
  "certificate_thumbprint_s256 sha256 der =
     (case sha256 der of
        None \<Rightarrow> []
      | Some d \<Rightarrow> (if length d \<noteq> 32 then [] else b64url_encode d))"

section \<open>Splitting\<close>

lemma split_jwt_Some:
  assumes "split_jwt jwt = Some (h, p, s)"
  shows "jwt = h @ ''.'' @ p @ ''.'' @ s \<and> h \<noteq> [] \<and> p \<noteq> [] \<and> s \<noteq> []
    \<and> CHR ''.'' \<notin> set h \<and> CHR ''.'' \<notin> set p \<and> CHR ''.'' \<notin> set s"
  using assms
  by (auto simp: split_jwt_def cut_eq_Some is_dot_def list_ex_iff split: option.splits prod.splits if_splits)

section \<open>What one fetch can do\<close>

text \<open>The key set was taken from a response to a key-set request of this verifier.\<close>

definition keys_served :: "env \<Rightarrow> http_request list \<Rightarrow> http_request \<Rightarrow> (string \<rightharpoonup> jwk) \<Rightarrow> bool" where
  "keys_served E past req ks \<longleftrightarrow>
     (\<exists>resp. env_transport E past req = Inr resp \<and> transport_error resp = [] \<and> status resp = 200
        \<and> load_from_json (env_parse E (resp_body resp)) = (Inr (), ks))"

text \<open>Configuration is fixed, and every request sent is the sessionless key-set request.\<close>

definition same_config :: "verifier \<Rightarrow> verifier \<Rightarrow> bool" where
  "same_config v v' \<longleftrightarrow> v_base_url v' = v_base_url v \<and> cache_ttl v' = cache_ttl v"

lemma same_config_request: "same_config v v' \<Longrightarrow> jwks_request v' = jwks_request v"
  by (simp add: same_config_def jwks_request_def)

lemma ensure_keys_cases:
  assumes "ensure_keys E v w = (r, v', w')"
  obtains
    (cached) "have_keys v" "env_steady E (ticks w) - fetched_at v < ns (cache_ttl v)"
      "r = Inr ()" "v' = v" "sent w' = sent w" "ticks w' = Suc (ticks w)"
  | (failed) "\<not> (have_keys v \<and> env_steady E (ticks w) - fetched_at v < ns (cache_ttl v))"
      "\<And>ks. \<not> keys_served E (sent w) (jwks_request v) ks"
      "sent w' = sent w @ [jwks_request v]" "ticks w' = Suc (ticks w)"
      "same_config v v'" "fetched_at v' = fetched_at v" "cooldown_until v' = cooldown_until v"
      "have_keys v' = have_keys v" "r = Inr () \<Longrightarrow> keys v' = keys v"
  | (fetched) "\<not> (have_keys v \<and> env_steady E (ticks w) - fetched_at v < ns (cache_ttl v))"
      "keys_served E (sent w) (jwks_request v) (keys v')"
      "r = Inr ()" "sent w' = sent w @ [jwks_request v]" "ticks w' = Suc (ticks w)"
      "same_config v v'" "fetched_at v' = env_steady E (ticks w)" "cooldown_until v' = cooldown_until v"
      "have_keys v'"
proof (cases "have_keys v \<and> env_steady E (ticks w) - fetched_at v < ns (cache_ttl v)")
  case True
  then show thesis using assms by (intro cached) (auto simp: ensure_keys_def steady_now_def)
next
  case False
  let ?t = "env_transport E (sent w) (jwks_request v)"
  note un = assms[unfolded ensure_keys_def Let_def steady_now_def transmit_def]
  consider (thrown) e where "?t = Inl e"
    | (bad) resp where "?t = Inr resp" "transport_error resp \<noteq> [] \<or> status resp \<noteq> 200"
    | (ok) resp q ks where "?t = Inr resp" "transport_error resp = []" "status resp = 200"
        "load_from_json (env_parse E (resp_body resp)) = (q, ks)"
    by (metis obj_sumE surj_pair)
  then show thesis
  proof cases
    case thrown
    then show thesis using un False by (intro failed) (auto simp: keys_served_def same_config_def)
  next
    case bad
    then show thesis using un False by (intro failed) (auto simp: keys_served_def same_config_def)
  next
    case (ok resp q ks)
    show thesis
    proof (cases q)
      case (Inl e)
      with ok show thesis using un False by (intro failed) (auto simp: keys_served_def same_config_def)
    next
      case (Inr u)
      with ok show thesis using un False by (intro fetched) (auto simp: keys_served_def same_config_def)
    qed
  qed
qed

lemma jwks_request_upd [simp]:
  "jwks_request (v\<lparr>keys := ks\<rparr>) = jwks_request v" "jwks_request (v\<lparr>fetched_at := t\<rparr>) = jwks_request v"
  "jwks_request (v\<lparr>have_keys := b\<rparr>) = jwks_request v" "jwks_request (v\<lparr>cooldown_until := c\<rparr>) = jwks_request v"
  by (simp_all add: jwks_request_def)

lemma ensure_keys_spec:
  assumes "ensure_keys E v w = (r, v', w')"
  shows "same_config v v'" "cooldown_until v' = cooldown_until v" "ticks w' = Suc (ticks w)"
    "\<exists>n\<le>1. sent w' = sent w @ replicate n (jwks_request v)"
    "r = Inr () \<Longrightarrow> keys v' = keys v \<or>
       (sent w' = sent w @ [jwks_request v] \<and> keys_served E (sent w) (jwks_request v) (keys v'))"
proof -
  have r0: "\<exists>n\<le>1. l = l @ replicate n x" "\<exists>n\<le>1. l @ [x] = l @ replicate n x" for l :: "http_request list" and x
    by (intro exI[of _ 0], simp, intro exI[of _ 1], simp)
  show "same_config v v'" "cooldown_until v' = cooldown_until v" "ticks w' = Suc (ticks w)"
    by (cases rule: ensure_keys_cases[OF assms]; simp add: same_config_def)+
  show "\<exists>n\<le>1. sent w' = sent w @ replicate n (jwks_request v)"
    by (cases rule: ensure_keys_cases[OF assms]) (simp_all only: r0)
  show "r = Inr () \<Longrightarrow> keys v' = keys v \<or>
       (sent w' = sent w @ [jwks_request v] \<and> keys_served E (sent w) (jwks_request v) (keys v'))"
    by (cases rule: ensure_keys_cases[OF assms]) auto
qed

definition tick :: "world \<Rightarrow> world" where
  "tick w = w\<lparr>ticks := Suc (ticks w)\<rparr>"

lemma tick_sel [simp]: "sent (tick w) = sent w" "ticks (tick w) = Suc (ticks w)"
  by (simp_all add: tick_def)

definition open_window :: "int \<Rightarrow> verifier \<Rightarrow> verifier" where
  "open_window now v = v\<lparr>cooldown_until := now + ns kJwksCooldown, have_keys := False\<rparr>"

lemma open_window_sel [simp]:
  "same_config v (open_window now v)" "cooldown_until (open_window now v) = now + ns kJwksCooldown"
  "\<not> have_keys (open_window now v)" "keys (open_window now v) = keys v"
  "jwks_request (open_window now v) = jwks_request v"
  by (simp_all add: open_window_def same_config_def)

text \<open>Rule inversion for the locked section: one key-set check, and a second one at most.\<close>

lemma lookup_key_cases:
  assumes "lookup_key E i v w = (r, v', w')"
  obtains
    (error) e where "ensure_keys E v w = (Inl e, v', w')" "r = Inl e"
  | (known) j where "ensure_keys E v w = (Inr (), v', w')" "keys v' i = Some j" "r = Inr (Some j)"
  | (held) w1 where "ensure_keys E v w = (Inr (), v', w1)" "keys v' i = None" "w' = tick w1"
      "env_steady E (ticks w1) < cooldown_until v'" "r = Inr None"
  | (refetched) v1 w1 r2 where "ensure_keys E v w = (Inr (), v1, w1)" "keys v1 i = None"
      "cooldown_until v1 \<le> env_steady E (ticks w1)"
      "ensure_keys E (open_window (env_steady E (ticks w1)) v1) (tick w1) = (r2, v', w')"
      "r = (case r2 of Inl e \<Rightarrow> Inl e | Inr _ \<Rightarrow> Inr (keys v' i))"
proof -
  obtain r1 v1 w1 where e: "ensure_keys E v w = (r1, v1, w1)" by (metis surj_pair)
  obtain r2 v2 w2 where e2: "ensure_keys E (open_window (env_steady E (ticks w1)) v1) (tick w1) = (r2, v2, w2)"
    by (metis surj_pair)
  note un = assms[unfolded lookup_key_def Let_def steady_now_def tick_def[symmetric] open_window_def[symmetric]]
  show thesis
  proof (cases r1)
    case (Inl x)
    with un e show thesis by (intro error) auto
  next
    case (Inr u)
    show thesis
    proof (cases "keys v1 i")
      case (Some j)
      with un e Inr show thesis by (intro known) auto
    next
      case None
      show thesis
      proof (cases "cooldown_until v1 \<le> env_steady E (ticks w1)")
        case True
        with un e e2 Inr None show thesis
          by (intro refetched[of v1 w1 r2]) (auto split: sum.splits)
      next
        case False
        with un e Inr None show thesis by (intro held) auto
      qed
    qed
  qed
qed

lemma lookup_key_requests:
  assumes "lookup_key E i v w = (r, v', w')"
  shows "same_config v v'" "\<exists>n\<le>2. sent w' = sent w @ replicate n (jwks_request v)"
proof -
  have trans: "same_config a b \<Longrightarrow> same_config b c \<Longrightarrow> same_config a c" for a b c
    by (simp add: same_config_def)
  have le: "\<exists>n\<le>1. l' = l @ replicate n x \<Longrightarrow> \<exists>n\<le>2. l' = l @ replicate n x" for l l' :: "http_request list" and x
    by (elim exE conjE) (rule_tac x = n in exI, simp)
  show "same_config v v'"
    by (cases rule: lookup_key_cases[OF assms])
      (auto dest!: ensure_keys_spec(1) intro: trans[OF _ trans[OF open_window_sel(1)]])
  show "\<exists>n\<le>2. sent w' = sent w @ replicate n (jwks_request v)"
    using assms
  proof (cases rule: lookup_key_cases)
    case (refetched v1 w1 r2)
    from ensure_keys_spec(4)[OF refetched(1)] obtain n where
      n: "n \<le> 1" "sent w1 = sent w @ replicate n (jwks_request v)" by blast
    from ensure_keys_spec(4)[OF refetched(4)] same_config_request[OF ensure_keys_spec(1)[OF refetched(1)]]
    obtain m where m: "m \<le> 1" "sent w' = sent w1 @ replicate m (jwks_request v)" by auto
    show ?thesis by (rule exI[of _ "n + m"]) (use n m in \<open>auto simp: replicate_add\<close>)
  qed (use ensure_keys_spec(4) le in \<open>fastforce\<close>)+
qed

lemma lookup_key_found:
  assumes "lookup_key E i v w = (Inr (Some j), v', w')"
  shows "keys v' i = Some j"
    and "keys v' = keys v \<or> (\<exists>past. keys_served E past (jwks_request v) (keys v'))"
proof -
  show "keys v' i = Some j"
    by (cases rule: lookup_key_cases[OF assms]) (auto split: sum.splits)
  show "keys v' = keys v \<or> (\<exists>past. keys_served E past (jwks_request v) (keys v'))"
    using assms
  proof (cases rule: lookup_key_cases)
    case known
    then show ?thesis using ensure_keys_spec(5)[OF known(1)] by auto
  next
    case (refetched v1 w1 r2)
    then obtain u where "r2 = Inr u" by (cases r2) auto
    then show ?thesis
      using ensure_keys_spec(5)[OF refetched(1)] ensure_keys_spec(5)[OF refetched(4)]
        same_config_request[OF ensure_keys_spec(1)[OF refetched(1)]] by auto
  qed auto
qed

text \<open>Rule inversion for the whole verification: the answer before the lookup, or after it.\<close>

lemma verify_cases:
  assumes "verify_with_reason E ed jwt v w = (r, v', w')"
  obtains
    (refused) "v' = v" "w' = w" "r = Inr (Rejected ''invalid_alg'') \<or> r = Inl JsonTypeError"
  | (looked) h p s hj i lk where "split_jwt jwt = Some (h, p, s)" "base64url_decode h = Some hj"
      "\<not> is_discarded (env_parse E hj)" "jvalue get_str (env_parse E hj) ''alg'' [] = Inr ''EdDSA''"
      "jvalue get_str (env_parse E hj) ''kid'' [] = Inr i"
      "lookup_key E i v w = (lk, v', w')"
      "r = (case lk of Inl e \<Rightarrow> Inl e | Inr None \<Rightarrow> Inr (Rejected ''unknown_kid'')
            | Inr (Some j) \<Rightarrow> Inr (check_signature ed j h p s))"
  using assms
  by (auto simp: verify_with_reason_def Let_def dest: jvalue_str_errors
      split: option.splits prod.splits sum.splits if_splits)

section \<open>The fetch bound\<close>

text \<open>
  The requests still allowed in an observation window starting at \<open>t0\<close>: one when the cached
  set may need a fetch, one when the unknown-key cooldown is not known to cover the window.
\<close>

definition fetch_credit :: "int \<Rightarrow> verifier \<Rightarrow> nat" where
  "fetch_credit t0 v =
     (if have_keys v \<and> t0 \<le> fetched_at v then 0 else 1) +
     (if t0 + ns kJwksCooldown \<le> cooldown_until v then 0 else 1)"

text \<open>All readings of the steady clock fall in \<open>[t0, t0 + min(60 s, cache lifetime))\<close>.\<close>

definition readings_within :: "env \<Rightarrow> int \<Rightarrow> int \<Rightarrow> bool" where
  "readings_within E t0 life \<longleftrightarrow>
     (\<forall>n. t0 \<le> env_steady E n \<and> env_steady E n < t0 + ns (min kJwksCooldown life))"

definition endpoint_up :: "env \<Rightarrow> http_request \<Rightarrow> bool" where
  "endpoint_up E req \<longleftrightarrow> (\<forall>past. \<exists>ks. keys_served E past req ks)"

lemma ensure_keys_credit:
  assumes "ensure_keys E v w = (r, v', w')" "readings_within E t0 (cache_ttl v)"
    "endpoint_up E (jwks_request v)"
  shows "length (sent w') + fetch_credit t0 v' \<le> length (sent w) + fetch_credit t0 v"
  using assms(1)
proof (cases rule: ensure_keys_cases)
  case fetched
  have now: "t0 \<le> env_steady E (ticks w)" "env_steady E (ticks w) < t0 + ns (cache_ttl v)"
    using assms(2) by (auto simp: readings_within_def ns_def dest!: spec[of _ "ticks w"])
  with fetched(1) have "\<not> (have_keys v \<and> t0 \<le> fetched_at v)" by auto
  with fetched now(1) show "length (sent w') + fetch_credit t0 v' \<le> length (sent w) + fetch_credit t0 v"
    by (auto simp: fetch_credit_def)
qed (use assms(3) in \<open>auto simp: endpoint_up_def\<close>)

lemma lookup_key_credit:
  assumes "lookup_key E i v w = (r, v', w')" "readings_within E t0 (cache_ttl v)"
    "endpoint_up E (jwks_request v)"
  shows "length (sent w') + fetch_credit t0 v' \<le> length (sent w) + fetch_credit t0 v"
  using assms(1)
proof (cases rule: lookup_key_cases)
  case (refetched v1 w1 r2)
  note spec1 = ensure_keys_spec[OF refetched(1)]
  note c1 = ensure_keys_credit[OF refetched(1) assms(2,3)]
  let ?now = "env_steady E (ticks w1)" let ?v2 = "open_window ?now v1"
  have "cache_ttl ?v2 = cache_ttl v" "jwks_request ?v2 = jwks_request v"
    using spec1(1) same_config_request[OF spec1(1)] by (simp_all add: same_config_def open_window_def)
  then have c2: "length (sent w') + fetch_credit t0 v' \<le> length (sent w1) + fetch_credit t0 ?v2"
    using ensure_keys_credit[OF refetched(4)] assms(2,3) by simp
  have now: "t0 \<le> ?now" "?now < t0 + ns kJwksCooldown"
    using assms(2) by (auto simp: readings_within_def ns_def dest!: spec[of _ "ticks w1"])
  with refetched(3) have "\<not> t0 + ns kJwksCooldown \<le> cooldown_until v1" by simp
  then have "fetch_credit t0 ?v2 \<le> fetch_credit t0 v1" using now(1) by (simp add: fetch_credit_def)
  with c1 c2 show ?thesis by simp
qed (use ensure_keys_credit[OF _ assms(2,3)] in \<open>fastforce\<close>)+

text \<open>Verifying a batch of tokens, one after another.\<close>

fun verify_all ::
    "env \<Rightarrow> (string \<Rightarrow> string \<Rightarrow> string \<Rightarrow> bool) \<Rightarrow> string list \<Rightarrow> verifier \<Rightarrow> world \<Rightarrow>
     jwt_verification res list \<times> verifier \<times> world" where
  "verify_all E ed [] v w = ([], v, w)"
| "verify_all E ed (t # ts) v w =
     (let (r, v, w) = verify_with_reason E ed t v w; (rs, v, w) = verify_all E ed ts v w
      in (r # rs, v, w))"

lemma verify_credit:
  assumes "verify_with_reason E ed t v w = (r, v', w')" "readings_within E t0 (cache_ttl v)"
    "endpoint_up E (jwks_request v)"
  shows "length (sent w') + fetch_credit t0 v' \<le> length (sent w) + fetch_credit t0 v" "same_config v v'"
proof -
  have "length (sent w') + fetch_credit t0 v' \<le> length (sent w) + fetch_credit t0 v \<and> same_config v v'"
    using assms(1)
  proof (cases rule: verify_cases)
    case refused
    then show ?thesis by (simp add: same_config_def)
  next
    case (looked h p s hj i lk)
    then show ?thesis using lookup_key_credit[OF looked(6) assms(2,3)] lookup_key_requests(1)[OF looked(6)] by simp
  qed
  then show "length (sent w') + fetch_credit t0 v' \<le> length (sent w) + fetch_credit t0 v" "same_config v v'"
    by simp_all
qed

lemma verify_all_credit:
  "verify_all E ed ts v w = (rs, v', w') \<Longrightarrow> readings_within E t0 (cache_ttl v) \<Longrightarrow>
   endpoint_up E (jwks_request v) \<Longrightarrow>
   length (sent w') + fetch_credit t0 v' \<le> length (sent w) + fetch_credit t0 v"
proof (induction ts arbitrary: v w rs)
  case (Cons t ts)
  obtain r1 v1 w1 where 1: "verify_with_reason E ed t v w = (r1, v1, w1)" by (metis surj_pair)
  with Cons.prems(1) obtain rs2 where "verify_all E ed ts v1 w1 = (rs2, v', w')"
    by (auto simp: Let_def split: prod.splits)
  from Cons.IH[OF this] verify_credit[OF 1 Cons.prems(2,3)] Cons.prems(2,3) show ?case
    by (simp add: same_config_request) (simp add: same_config_def)
qed simp

section \<open>An outage\<close>

text \<open>The well-formed header every forged token can carry.\<close>

definition eddsa_header :: "env \<Rightarrow> string \<Rightarrow> bool" where
  "eddsa_header E t \<longleftrightarrow>
     (\<exists>h p s hj i. split_jwt t = Some (h, p, s) \<and> base64url_decode h = Some hj
        \<and> \<not> is_discarded (env_parse E hj) \<and> jvalue get_str (env_parse E hj) ''alg'' [] = Inr ''EdDSA''
        \<and> jvalue get_str (env_parse E hj) ''kid'' [] = Inr i)"

definition endpoint_down :: "env \<Rightarrow> http_request \<Rightarrow> bool" where
  "endpoint_down E req \<longleftrightarrow> (\<forall>past ks. \<not> keys_served E past req ks)"

lemma ensure_keys_down:
  assumes "ensure_keys E v w = (r, v', w')" "\<not> have_keys v" "endpoint_down E (jwks_request v)"
  shows "\<not> have_keys v' \<and> sent w' = sent w @ [jwks_request v] \<and> same_config v v'"
  using assms(1) by (cases rule: ensure_keys_cases) (use assms(2,3) in \<open>auto simp: endpoint_down_def\<close>)

lemma lookup_key_down:
  assumes "lookup_key E i v w = (r, v', w')" "\<not> have_keys v" "endpoint_down E (jwks_request v)"
  shows "\<not> have_keys v' \<and> length (sent w) < length (sent w') \<and> same_config v v'"
  using assms(1)
proof (cases rule: lookup_key_cases)
  case (refetched v1 w1 r2)
  note d1 = ensure_keys_down[OF refetched(1) assms(2,3)]
  have "jwks_request (open_window (env_steady E (ticks w1)) v1) = jwks_request v"
    using d1 by (simp add: same_config_request)
  with ensure_keys_down[OF refetched(4)] assms(3)
  have "\<not> have_keys v' \<and> length (sent w1) < length (sent w') \<and> same_config (open_window (env_steady E (ticks w1)) v1) v'"
    by simp
  with d1 show ?thesis by (auto simp: same_config_def open_window_def)
qed (use ensure_keys_down[OF _ assms(2,3)] in \<open>fastforce\<close>)+

lemma verify_down:
  assumes "verify_with_reason E ed t v w = (r, v', w')" "eddsa_header E t" "\<not> have_keys v"
    "endpoint_down E (jwks_request v)"
  shows "\<not> have_keys v' \<and> length (sent w) < length (sent w') \<and> same_config v v'"
proof -
  from assms(2) obtain h p s hj i where hd: "split_jwt t = Some (h, p, s)" "base64url_decode h = Some hj"
    "\<not> is_discarded (env_parse E hj)" "jvalue get_str (env_parse E hj) ''alg'' [] = Inr ''EdDSA''"
    "jvalue get_str (env_parse E hj) ''kid'' [] = Inr i"
    by (auto simp: eddsa_header_def)
  obtain lk v1 w1 where lk: "lookup_key E i v w = (lk, v1, w1)" by (metis surj_pair)
  with hd assms(1) have "v' = v1" "w' = w1"
    by (auto simp: verify_with_reason_def Let_def split: sum.splits option.splits)
  with lookup_key_down[OF lk assms(3,4)] show ?thesis by simp
qed

lemma verify_all_down:
  "verify_all E ed ts v w = (rs, v', w') \<Longrightarrow> list_all (eddsa_header E) ts \<Longrightarrow> \<not> have_keys v \<Longrightarrow>
   endpoint_down E (jwks_request v) \<Longrightarrow> length (sent w) + length ts \<le> length (sent w')"
proof (induction ts arbitrary: v w rs)
  case (Cons t ts)
  obtain r1 v1 w1 where 1: "verify_with_reason E ed t v w = (r1, v1, w1)" by (metis surj_pair)
  with Cons.prems(1) obtain rs2 where "verify_all E ed ts v1 w1 = (rs2, v', w')"
    by (auto simp: Let_def split: prod.splits)
  from Cons.IH[OF this] verify_down[OF 1] same_config_request[of v v1] Cons.prems(2-4) show ?case
    by simp
qed simp

section \<open>Certificate binding\<close>

lemma binding_iff:
  "verify_certificate_binding parse c t \<longleftrightarrow>
     is_object (parse c) \<and>
     (jfind (parse c) ''cnf'' \<in> {None, Some JNull} \<or>
      (\<exists>cnf x. jfind (parse c) ''cnf'' = Some cnf \<and> opt_str cnf ''x5t#S256'' = Some x \<and> x \<noteq> []
         \<and> t = Some x \<and> (opt_str cnf ''jkt'' = None \<or> opt_str cnf ''jkt'' = Some [])))"
  (is "_ \<longleftrightarrow> ?R")
proof (cases "jfind (parse c) ''cnf''")
  case None
  then show ?thesis by (cases "parse c") (auto simp: verify_certificate_binding_def)
next
  case (Some cnf)
  then have obj: "is_object (parse c)" by (cases "parse c") auto
  then have nd: "\<not> is_discarded (parse c)" by (cases "parse c") auto
  show ?thesis
  proof (cases "is_object cnf")
    case False
    with Some obj nd show ?thesis
      by (cases cnf) (auto simp: verify_certificate_binding_def opt_str_def)
  next
    case True
    then obtain kvs where k: "cnf = JObj kvs" by (cases cnf) auto
    show ?thesis
    proof (cases "opt_str cnf ''x5t#S256''")
      case None
      with Some obj nd k show ?thesis
        by (auto simp: verify_certificate_binding_def opt_str_def split: option.splits json.splits)
    next
      case (Some x)
      then have x: "map_of kvs ''x5t#S256'' = Some (JStr x)" by (simp add: opt_str_Some k)
      show ?thesis
        using x \<open>jfind (parse c) ''cnf'' = Some cnf\<close> obj nd unfolding k
        by (cases t; cases "opt_str (JObj kvs) ''jkt''")
          (auto simp: verify_certificate_binding_def opt_str_def constant_time_equal_iff
            split: option.splits json.splits list.splits)
    qed
  qed
qed

section \<open>A concrete verifier\<close>

text \<open>
  A deployment with one published key, for evaluating the properties: \<open>demo_env claims\<close>
  serves the key set whenever it is asked and parses the payload text \<open>P\<close> as \<open>claims\<close>.
\<close>

definition demo_env :: "json \<Rightarrow> env" where
  "demo_env claims =
     \<lparr>env_transport = (\<lambda>_ _. Inr (blank_response\<lparr>status := 200, resp_body := ''K''\<rparr>)),
      env_steady = (\<lambda>_. 0), env_wall = (\<lambda>_. 1000),
      env_parse = (\<lambda>s. if s = ''H'' then JObj [(''alg'', JStr ''EdDSA''), (''kid'', JStr ''k1'')]
                     else if s = ''K'' then JObj [(''keys'', JArr [JObj [(''kty'', JStr ''OKP''),
                       (''crv'', JStr ''Ed25519''), (''kid'', JStr ''k1''),
                       (''x'', JStr (b64url_encode (replicate 32 CHR ''k'')))]])]
                     else if s = ''P'' then claims else JDiscarded),
      env_dump = (\<lambda>_. Inr [])\<rparr>"

definition demo_token :: string where
  "demo_token = b64url_encode ''H'' @ ''.'' @ b64url_encode ''P'' @ ''.'' @ b64url_encode (replicate 64 CHR ''s'')"

definition demo_world :: world where
  "demo_world = \<lparr>sent = [], ticks = 0\<rparr>"

lemma sextet_in: "sextet v n \<in> set b64_alphabet"
proof -
  have "length b64_alphabet = 64" by (simp add: b64_alphabet_def)
  then show ?thesis by (simp add: sextet_nat)
qed

lemma b64url_encode_alphabet: "set (b64url_encode s) \<subseteq> set b64_alphabet"
  by (induction s rule: b64url_encode.induct) (simp_all add: Let_def sextet_in)

lemma b64url_encode_Nil: "b64url_encode s = [] \<longleftrightarrow> s = []"
  by (cases s rule: b64url_encode.cases) (simp_all add: Let_def)

lemma split_jwt_encoded:
  assumes "a \<noteq> []" "b \<noteq> []" "c \<noteq> []"
  shows "split_jwt (b64url_encode a @ ''.'' @ b64url_encode b @ ''.'' @ b64url_encode c) =
    Some (b64url_encode a, b64url_encode b, b64url_encode c)"
proof -
  have nd: "x \<in> set (b64url_encode s) \<Longrightarrow> \<not> is_dot x" for x s
    using b64url_encode_alphabet[of s] by (auto simp: is_dot_def b64_alphabet_def)
  have "cut is_dot (b64url_encode s @ ''.'' @ r) = Some (b64url_encode s, CHR ''.'', r)" for s r
    using nd[of _ s] by (simp add: cut_eq_Some is_dot_def)
  from this[of a] this[of b] show ?thesis
    using nd[of _ c] assms by (auto simp: split_jwt_def list_ex_iff b64url_encode_Nil)
qed

lemma split_demo_token:
  "split_jwt demo_token = Some (b64url_encode ''H'', b64url_encode ''P'', b64url_encode (replicate 64 CHR ''s''))"
  unfolding demo_token_def by (rule split_jwt_encoded) simp_all

definition demo_verifier :: verifier where
  "demo_verifier = verifier_new ''https://a'' 300"

definition demo_jwk :: jwk where
  "demo_jwk = \<lparr>kid = ''k1'', x_b64url = b64url_encode (replicate 32 CHR ''k'')\<rparr>"

definition demo_verifier' :: verifier where
  "demo_verifier' = demo_verifier\<lparr>keys := [''k1'' \<mapsto> demo_jwk], have_keys := True\<rparr>"

definition demo_world' :: world where
  "demo_world' = \<lparr>sent = [jwks_request demo_verifier], ticks = 1\<rparr>"

lemma demo_keys_loaded:
  "load_from_json (env_parse (demo_env claims) ''K'') = (Inr (), [''k1'' \<mapsto> demo_jwk])"
proof -
  have ne: "b64url_encode (replicate 32 CHR ''k'') \<noteq> []" by (simp only: b64url_encode_Nil) simp
  then show ?thesis
    by (simp add: demo_env_def load_from_json_def jwk_of_def jvalue_def demo_jwk_def del: b64url_encode.simps)
qed

lemma demo_ensure_keys:
  "ensure_keys (demo_env claims) demo_verifier demo_world = (Inr (), demo_verifier', demo_world')"
proof -
  have nk: "\<not> have_keys demo_verifier" "fetched_at demo_verifier = 0"
    by (simp_all add: demo_verifier_def verifier_new_def)
  have t: "env_transport (demo_env claims) l r = Inr (blank_response\<lparr>status := 200, resp_body := ''K''\<rparr>)"
    "env_steady (demo_env claims) n = 0" for l r n
    by (simp_all add: demo_env_def)
  show ?thesis
    unfolding ensure_keys_def steady_now_def transmit_def t
    by (simp add: t nk demo_keys_loaded blank_response_def demo_world_def demo_world'_def demo_verifier'_def)
qed

lemma demo_lookup_key:
  "lookup_key (demo_env claims) ''k1'' demo_verifier demo_world = (Inr (Some demo_jwk), demo_verifier', demo_world')"
  unfolding lookup_key_def demo_ensure_keys by (simp add: demo_verifier'_def)

lemma demo_signature:
  "check_signature (\<lambda>_ _ _. True) demo_jwk h (b64url_encode ''P'') (b64url_encode (replicate 64 CHR ''s'')) = Verified ''P''"
  by (simp add: check_signature_def demo_jwk_def base64url_decode_encode ed25519_verify_def del: b64url_encode.simps)

lemma demo_verified:
  "verify_with_reason (demo_env claims) (\<lambda>_ _ _. True) demo_token demo_verifier demo_world =
     (Inr (Verified ''P''), demo_verifier', demo_world')"
proof -
  have hd: "env_parse (demo_env claims) ''H'' = JObj [(''alg'', JStr ''EdDSA''), (''kid'', JStr ''k1'')]"
    by (simp add: demo_env_def)
  have hv: "jvalue get_str (JObj [(''alg'', JStr ''EdDSA''), (''kid'', JStr ''k1'')]) ''alg'' [] = Inr ''EdDSA''"
    "jvalue get_str (JObj [(''alg'', JStr ''EdDSA''), (''kid'', JStr ''k1'')]) ''kid'' [] = Inr ''k1''"
    by (simp_all add: jvalue_def)
  show ?thesis
    unfolding verify_with_reason_def split_demo_token
    by (simp add: base64url_decode_encode hd hv demo_lookup_key demo_signature del: b64url_encode.simps)
qed

lemma jwt_accept_facts:
  assumes "verify_with_reason E ed jwt v w = (Inr (Verified payload), v', w')"
  shows "\<exists>h p s hj i j key sig. jwt = h @ ''.'' @ p @ ''.'' @ s
      \<and> h \<noteq> [] \<and> p \<noteq> [] \<and> s \<noteq> [] \<and> CHR ''.'' \<notin> set h \<and> CHR ''.'' \<notin> set p \<and> CHR ''.'' \<notin> set s
      \<and> base64url_decode h = Some hj
      \<and> jvalue get_str (env_parse E hj) ''alg'' [] = Inr ''EdDSA''
      \<and> jvalue get_str (env_parse E hj) ''kid'' [] = Inr i
      \<and> keys v' i = Some j \<and> base64url_decode (x_b64url j) = Some key \<and> base64url_decode s = Some sig
      \<and> length key = 32 \<and> length sig = 64 \<and> ed key (h @ ''.'' @ p) sig
      \<and> base64url_decode p = Some payload"
    and "(keys v' = keys v \<or> (\<exists>past. keys_served E past (jwks_request v) (keys v')))
      \<and> (\<exists>n\<le>2. sent w' = sent w @ replicate n (jwks_request v)) \<and> sessionless (jwks_request v)"
proof -
  show "\<exists>h p s hj i j key sig. jwt = h @ ''.'' @ p @ ''.'' @ s
      \<and> h \<noteq> [] \<and> p \<noteq> [] \<and> s \<noteq> [] \<and> CHR ''.'' \<notin> set h \<and> CHR ''.'' \<notin> set p \<and> CHR ''.'' \<notin> set s
      \<and> base64url_decode h = Some hj
      \<and> jvalue get_str (env_parse E hj) ''alg'' [] = Inr ''EdDSA''
      \<and> jvalue get_str (env_parse E hj) ''kid'' [] = Inr i
      \<and> keys v' i = Some j \<and> base64url_decode (x_b64url j) = Some key \<and> base64url_decode s = Some sig
      \<and> length key = 32 \<and> length sig = 64 \<and> ed key (h @ ''.'' @ p) sig
      \<and> base64url_decode p = Some payload"
    using assms
  proof (cases rule: verify_cases)
    case (looked h p s hj i lk)
    then obtain j where j: "lookup_key E i v w = (Inr (Some j), v', w')" "check_signature ed j h p s = Verified payload"
      by (auto split: sum.splits option.splits)
    from j(2) obtain key sig where "base64url_decode (x_b64url j) = Some key" "base64url_decode s = Some sig"
      "length key = 32" "length sig = 64" "ed key (h @ ''.'' @ p) sig" "base64url_decode p = Some payload"
      by (auto simp: check_signature_def ed25519_verify_def split: option.splits if_splits)
    with split_jwt_Some[OF looked(1)] looked(2,4,5) lookup_key_found(1)[OF j(1)] show ?thesis
      by blast
  qed auto
  show "(keys v' = keys v \<or> (\<exists>past. keys_served E past (jwks_request v) (keys v')))
      \<and> (\<exists>n\<le>2. sent w' = sent w @ replicate n (jwks_request v)) \<and> sessionless (jwks_request v)"
    using assms
  proof (cases rule: verify_cases)
    case (looked h p s hj i lk)
    then obtain j where j: "lookup_key E i v w = (Inr (Some j), v', w')"
      by (auto split: sum.splits option.splits)
    from lookup_key_found(2)[OF j] lookup_key_requests(2)[OF j] show ?thesis
      by (simp add: jwks_request_def)
  qed auto
qed

section \<open>Properties\<close>

text \<open>
  C3. A token is accepted only when it is three non-empty dot-separated parts whose header says
  \<open>EdDSA\<close>, and the signature part is a 64-byte Ed25519 signature over the first two parts under
  the 32-byte key cached for the header's \<open>kid\<close>; the payload returned is the decoded second
  part. The cached key set is the one held before the call or one this server's key endpoint
  answered with status 200. At most two requests are sent, all the sessionless key-set request.
\<close>

theorem jwt_accept_sound:
  assumes "verify_with_reason E ed jwt v w = (Inr (Verified payload), v', w')"
  shows "(\<exists>h p s hj i j key sig. jwt = h @ ''.'' @ p @ ''.'' @ s
      \<and> h \<noteq> [] \<and> p \<noteq> [] \<and> s \<noteq> [] \<and> CHR ''.'' \<notin> set h \<and> CHR ''.'' \<notin> set p \<and> CHR ''.'' \<notin> set s
      \<and> base64url_decode h = Some hj
      \<and> jvalue get_str (env_parse E hj) ''alg'' [] = Inr ''EdDSA''
      \<and> jvalue get_str (env_parse E hj) ''kid'' [] = Inr i
      \<and> keys v' i = Some j \<and> base64url_decode (x_b64url j) = Some key \<and> base64url_decode s = Some sig
      \<and> length key = 32 \<and> length sig = 64 \<and> ed key (h @ ''.'' @ p) sig
      \<and> base64url_decode p = Some payload)
    \<and> (keys v' = keys v \<or> (\<exists>past. keys_served E past (jwks_request v) (keys v')))
      \<and> (\<exists>n\<le>2. sent w' = sent w @ replicate n (jwks_request v)) \<and> sessionless (jwks_request v)"
  using jwt_accept_facts[OF assms] by (intro conjI) blast+

lemma jwt_accept_sound_witness:
  "\<exists>h p s i j. demo_token = h @ ''.'' @ p @ ''.'' @ s \<and> base64url_decode p = Some ''P''
     \<and> keys demo_verifier' i = Some j"
  using jwt_accept_sound[OF demo_verified[of JNull]] by blast

text \<open>
  Forged tokens cannot drive the key endpoint: while the clock stays inside one cooldown
  window (and one cache lifetime) and the endpoint answers, verifying any number of tokens, of
  any content, sends at most two requests.
\<close>

theorem jwks_fetch_bound:
  assumes "verify_all E ed ts v w = (rs, v', w')" "readings_within E t0 (cache_ttl v)"
    "endpoint_up E (jwks_request v)"
  shows "length (sent w') \<le> length (sent w) + 2"
proof -
  have "fetch_credit t0 v \<le> 2" by (simp add: fetch_credit_def)
  with verify_all_credit[OF assms] show ?thesis by simp
qed

lemma demo_endpoint_up: "endpoint_up (demo_env claims) req"
proof -
  have "env_transport (demo_env claims) past req = Inr (blank_response\<lparr>status := 200, resp_body := ''K''\<rparr>)" for past
    by (simp add: demo_env_def)
  then show ?thesis
    using demo_keys_loaded by (auto simp: endpoint_up_def keys_served_def blank_response_def)
qed

lemma jwks_fetch_bound_witness:
  "let (rs, v', w') = verify_all (demo_env JNull) (\<lambda>_ _ _. True) [demo_token, ''forged'', demo_token]
         demo_verifier demo_world
   in length (sent w') \<le> 2"
proof -
  have "readings_within (demo_env JNull) 0 (cache_ttl demo_verifier)"
    by (simp add: readings_within_def demo_env_def demo_verifier_def verifier_new_def ns_def kJwksCooldown_def)
  from jwks_fetch_bound[OF _ this demo_endpoint_up]
  have "length (sent w') \<le> 2"
    if "verify_all (demo_env JNull) (\<lambda>_ _ _. True) ts demo_verifier demo_world = (rs, v', w')"
    for ts rs v' w'
    using that by (fastforce simp: demo_world_def)
  then show ?thesis by (simp del: verify_all.simps split: prod.split)
qed

text \<open>
  The bound needs the endpoint to answer: once a fetch has failed and no key set is current,
  every further token with a well-formed header costs at least one request, cooldown window or
  not.
\<close>

theorem jwks_outage_unbounded:
  assumes "verify_all E ed ts v w = (rs, v', w')" "list_all (eddsa_header E) ts"
    "\<not> have_keys v" "endpoint_down E (jwks_request v)"
  shows "length (sent w) + length ts \<le> length (sent w')"
  using verify_all_down[OF assms] .

definition down_env :: env where
  "down_env = (demo_env JNull)\<lparr>env_transport := (\<lambda>_ _. Inr (blank_response\<lparr>status := 503\<rparr>))\<rparr>"

lemma demo_eddsa_header: "eddsa_header down_env demo_token"
proof -
  note sp = split_demo_token
  show ?thesis
    by (simp add: eddsa_header_def sp base64url_decode_encode down_env_def demo_env_def jvalue_def
        del: b64url_encode.simps)
qed

lemma jwks_outage_unbounded_witness:
  "let (rs, v', w') = verify_all down_env (\<lambda>_ _ _. True) (replicate 50 demo_token)
         (demo_verifier\<lparr>cooldown_until := ns 60\<rparr>) demo_world
   in 50 \<le> length (sent w')"
proof -
  let ?v = "demo_verifier\<lparr>cooldown_until := ns 60\<rparr>"
  have "list_all (eddsa_header down_env) (replicate 50 demo_token)"
    by (simp add: demo_eddsa_header list_all_iff)
  moreover have "\<not> have_keys ?v" by (simp add: demo_verifier_def verifier_new_def)
  moreover have "endpoint_down down_env (jwks_request ?v)"
    by (simp add: endpoint_down_def keys_served_def down_env_def blank_response_def)
  ultimately show ?thesis
    using jwks_outage_unbounded[of down_env "\<lambda>_ _ _. True" "replicate 50 demo_token" ?v demo_world]
    by (auto simp: demo_world_def split: prod.splits)
qed

text \<open>
  A certificate-bound token is never accepted as a bearer token: the binding check passes
  exactly when the claims are an object with no confirmation, or with one that names a
  certificate thumbprint and no DPoP key, and the thumbprint presented on the connection is that
  one.
\<close>

theorem certificate_binding_spec:
  "verify_certificate_binding parse c t \<longleftrightarrow>
     is_object (parse c) \<and>
     (jfind (parse c) ''cnf'' \<in> {None, Some JNull} \<or>
      (\<exists>cnf x. jfind (parse c) ''cnf'' = Some cnf \<and> opt_str cnf ''x5t#S256'' = Some x \<and> x \<noteq> []
         \<and> t = Some x \<and> (opt_str cnf ''jkt'' = None \<or> opt_str cnf ''jkt'' = Some [])))"
  by (rule binding_iff)

end
