(* ===== verification/Webhook.thy ===== *)
theory Webhook
  imports Encoding Json
begin

text \<open>
  \<open>src/webhook.cpp\<close>: verification of a signed webhook delivery. The header parser is the
  source's single pass with its early returns; HMAC-SHA256 is the parameter \<open>hmac\<close> (key, then
  message; \<open>None\<close> when the library fails), the byte comparison of the library is equality.
  Timestamps are 64-bit: a difference that leaves the range is undefined behaviour in the
  source and \<open>Undefined\<close> here.
\<close>

section \<open>Parsing\<close>

datatype verify_error =
    NoError | EmptySecret | MalformedHeader | MissingSignature | MalformedTimestamp
  | TimestampHeaderMismatch | SignatureMismatch | TimestampOutOfTolerance

definition is_space4 :: "char \<Rightarrow> bool" where
  "is_space4 c = (c = CHR '' '' \<or> c = CHR 0x09 \<or> c = CHR 0x0D \<or> c = CHR 0x0A)"

definition trim4 :: "string \<Rightarrow> string" where
  "trim4 s = trim_by is_space4 s"

definition int64_max :: int where "int64_max = 2 ^ 63 - 1"

fun unix_loop :: "int \<Rightarrow> string \<Rightarrow> int option" where
  "unix_loop v [] = Some v"
| "unix_loop v (c # s) =
     (if \<not> is_digit c then None
      else let digit = int (code c - 48) in
        if (int64_max - digit) div 10 < v then None else unix_loop (v * 10 + digit) s)"

definition parse_unix_seconds :: "string \<Rightarrow> int option" where
  "parse_unix_seconds s = (if s = [] then None else unix_loop 0 s)"

record parsed_header =
  timestamp_text :: string
  v1_hex :: "string list"

text \<open>The loop over the comma-separated elements; the accumulator is \<open>(t_count, saw, parsed)\<close>.\<close>

fun header_loop ::
    "string list \<Rightarrow> nat \<Rightarrow> bool \<Rightarrow> parsed_header \<Rightarrow> verify_error + (nat \<times> bool \<times> parsed_header)" where
  "header_loop [] n saw p = Inr (n, saw, p)"
| "header_loop (f # fs) n saw p =
     (let element = trim4 f in
      if element = [] then header_loop fs n saw p
      else (case cut (\<lambda>c. c = CHR ''='') element of
              None \<Rightarrow> Inl MalformedHeader
            | Some (k, _, v) \<Rightarrow>
                (let key = trim4 k; val = trim4 v in
                 if key = ''t'' then header_loop fs (Suc n) True (p\<lparr>timestamp_text := val\<rparr>)
                 else if key = ''v1'' then
                   (if val = [] then Inl MalformedHeader
                    else header_loop fs n True (p\<lparr>v1_hex := v1_hex p @ [val]\<rparr>))
                 else header_loop fs n True p)))"

definition parse_signature_header :: "string \<Rightarrow> verify_error + parsed_header" where
  "parse_signature_header header =
     (case header_loop (split_on (CHR '','') header) 0 False \<lparr>timestamp_text = [], v1_hex = []\<rparr> of
        Inl e \<Rightarrow> Inl e
      | Inr (n, saw, p) \<Rightarrow>
          (if \<not> saw \<or> n \<noteq> 1 then Inl MalformedHeader
           else if v1_hex p = [] then Inl MissingSignature
           else Inr p))"

section \<open>Verification\<close>

record webhook_options =
  tolerance :: int
  timestamp_header :: "string option"
  opt_event_type :: string
  opt_delivery_id :: string

record webhook_event =
  evt_timestamp :: int
  evt_type :: string
  evt_delivery_id :: string
  evt_body :: string

definition to_string :: "verify_error \<Rightarrow> string" where
  "to_string e = (case e of
       NoError \<Rightarrow> ''ok''
     | EmptySecret \<Rightarrow> ''webhook_verify_failed: no signing secret configured''
     | MalformedHeader \<Rightarrow> ''webhook_verify_failed: malformed X-Axiam-Signature header''
     | MissingSignature \<Rightarrow> ''webhook_verify_failed: X-Axiam-Signature carried no v1 signature''
     | MalformedTimestamp \<Rightarrow>
         ''webhook_verify_failed: X-Axiam-Signature timestamp is not a unix-seconds integer''
     | TimestampHeaderMismatch \<Rightarrow>
         ''webhook_verify_failed: X-Axiam-Timestamp does not match the signed timestamp''
     | SignatureMismatch \<Rightarrow> ''webhook_verify_failed: signature does not match''
     | TimestampOutOfTolerance \<Rightarrow> ''webhook_verify_failed: timestamp is outside the freshness window'')"

text \<open>The candidates are all tried; one exact match of the 32 bytes is enough.\<close>

definition kMacLen :: nat where "kMacLen = 32"

definition candidate_matches :: "string \<Rightarrow> string \<Rightarrow> bool" where
  "candidate_matches expected hex =
     (case hex_decode hex of
        None \<Rightarrow> False
      | Some cand \<Rightarrow> length cand = kMacLen \<and> cand = expected)"

definition any_candidate :: "string \<Rightarrow> string list \<Rightarrow> bool" where
  "any_candidate expected cs = fold (\<lambda>hex matched. matched \<or> candidate_matches expected hex) cs False"

text \<open>\<open>now\<close> is the reading of the clock seam, or of the system clock when none is set.\<close>

definition verify ::
    "(string \<Rightarrow> string \<Rightarrow> string option) \<Rightarrow> string \<Rightarrow> string \<Rightarrow> string \<Rightarrow> webhook_options \<Rightarrow> int \<Rightarrow>
     (verify_error + webhook_event) res" where
  "verify hmac secret signature_header body opts now =
     (if secret = [] then Inr (Inl EmptySecret)
      else if tolerance opts < 0 then Inr (Inl TimestampOutOfTolerance)
      else (case parse_signature_header signature_header of
              Inl e \<Rightarrow> Inr (Inl e)
            | Inr p \<Rightarrow>
                (case parse_unix_seconds (timestamp_text p) of
                   None \<Rightarrow> Inr (Inl MalformedTimestamp)
                 | Some t \<Rightarrow>
                     (if (case timestamp_header opts of None \<Rightarrow> False | Some h \<Rightarrow> trim4 h \<noteq> timestamp_text p)
                      then Inr (Inl TimestampHeaderMismatch)
                      else (case hmac secret (timestamp_text p @ ''.'' @ body) of
                              None \<Rightarrow> Inr (Inl SignatureMismatch)
                            | Some expected \<Rightarrow>
                                (if length expected \<noteq> kMacLen then Inr (Inl SignatureMismatch)
                                 else if \<not> any_candidate expected (v1_hex p) then Inr (Inl SignatureMismatch)
                                 else if \<not> fits64 (now - t) then Inl Undefined
                                 else if tolerance opts < now - t \<or> now - t < - tolerance opts
                                 then Inr (Inl TimestampOutOfTolerance)
                                 else Inr (Inr \<lparr>evt_timestamp = t, evt_type = opt_event_type opts,
                                        evt_delivery_id = opt_delivery_id opts, evt_body = body\<rparr>)))))))"

definition verify_or_throw ::
    "(string \<Rightarrow> string \<Rightarrow> string option) \<Rightarrow> string \<Rightarrow> string \<Rightarrow> string \<Rightarrow> webhook_options \<Rightarrow> int \<Rightarrow>
     webhook_event res" where
  "verify_or_throw hmac secret signature_header body opts now =
     and_then (verify hmac secret signature_header body opts now) (\<lambda>r.
       case r of Inl e \<Rightarrow> Inl (VerifyException (to_string e)) | Inr ev \<Rightarrow> Inr ev)"

section \<open>The header against a reference reading\<close>

text \<open>The non-empty elements, and the values given for one key, in order.\<close>

definition elements :: "string \<Rightarrow> string list" where
  "elements header = filter (\<lambda>e. e \<noteq> []) (map trim4 (split_on (CHR '','') header))"

definition element_pair :: "string \<Rightarrow> (string \<times> string) option" where
  "element_pair e = map_option (\<lambda>(k, _, v). (trim4 k, trim4 v)) (cut (\<lambda>c. c = CHR ''='') e)"

definition values_of :: "string \<Rightarrow> string list \<Rightarrow> string list" where
  "values_of key es = List.map_filter (\<lambda>e. case element_pair e of
       Some (k, v) \<Rightarrow> if k = key then Some v else None | None \<Rightarrow> None) es"

lemma values_of_simps [simp]:
  "values_of key [] = []"
  "values_of key (e # es) = (case element_pair e of
       Some (k, v) \<Rightarrow> if k = key then v # values_of key es else values_of key es
     | None \<Rightarrow> values_of key es)"
  by (auto simp: values_of_def List.map_filter_def split: option.splits)

lemma header_loop_ref:
  "header_loop fs n saw p = Inr (n', saw', p') \<longleftrightarrow>
     (let es = filter (\<lambda>e. e \<noteq> []) (map trim4 fs) in
      (\<forall>e\<in>set es. element_pair e \<noteq> None) \<and> [] \<notin> set (values_of ''v1'' es)
      \<and> n' = n + length (values_of ''t'' es) \<and> saw' = (saw \<or> es \<noteq> [])
      \<and> p' = p\<lparr>timestamp_text := last (timestamp_text p # values_of ''t'' es),
              v1_hex := v1_hex p @ values_of ''v1'' es\<rparr>)"
proof (induction fs arbitrary: n saw p)
  case (Cons f fs)
  show ?case
  proof (cases "trim4 f = []")
    case True
    with Cons show ?thesis by simp
  next
    case False
    show ?thesis
    proof (cases "cut (\<lambda>c. c = CHR ''='') (trim4 f)")
      case None
      with False show ?thesis by (simp add: element_pair_def Let_def)
    next
      case (Some r)
      then obtain k c v where r: "r = (k, c, v)" by (cases r)
      with Some False Cons show ?thesis
        by (auto simp: element_pair_def Let_def)
    qed
  qed
qed auto

lemma parse_header_ref:
  "parse_signature_header header = Inr p \<longleftrightarrow>
     (\<forall>e\<in>set (elements header). element_pair e \<noteq> None)
     \<and> values_of ''t'' (elements header) = [timestamp_text p]
     \<and> values_of ''v1'' (elements header) = v1_hex p \<and> v1_hex p \<noteq> [] \<and> [] \<notin> set (v1_hex p)"
  (is "_ = Inr p \<longleftrightarrow> ?R")
proof
  let ?l = "header_loop (split_on (CHR '','') header) 0 False \<lparr>timestamp_text = [], v1_hex = []\<rparr>"
  assume "parse_signature_header header = Inr p"
  then obtain saw where "?l = Inr (1, saw, p)" "v1_hex p \<noteq> []"
    by (auto simp: parse_signature_header_def split: sum.splits prod.splits if_splits)
  then show ?R
    unfolding header_loop_ref elements_def[symmetric] Let_def
    by (cases "values_of ''t'' (elements header)") auto
next
  assume R: ?R
  then have "header_loop (split_on (CHR '','') header) 0 False \<lparr>timestamp_text = [], v1_hex = []\<rparr> = Inr (1, True, p)"
    unfolding header_loop_ref elements_def[symmetric] Let_def by auto
  with R show "parse_signature_header header = Inr p"
    by (simp add: parse_signature_header_def)
qed

section \<open>The timestamp\<close>

lemma unix_loop_step:
  assumes "0 \<le> v" "0 \<le> d" "d \<le> 9"
  shows "(int64_max - d) div 10 < v \<longleftrightarrow> int64_max < v * 10 + d"
proof -
  have "x div 10 < v \<longleftrightarrow> x < v * 10" for x :: int by presburger
  from this[of "int64_max - d"] show ?thesis by linarith
qed

lemma undec_step_mono: "foldl (\<lambda>v c. v * 10 + (code c - 48)) a s \<ge> a"
proof (induction s arbitrary: a)
  case (Cons c s)
  have "a \<le> a * 10 + (code c - 48)" by simp
  also have "\<dots> \<le> foldl (\<lambda>v c. v * 10 + (code c - 48)) (a * 10 + (code c - 48)) s" by (rule Cons.IH)
  finally show ?case by simp
qed simp

lemma unix_loop_ref:
  "unix_loop (int v) s = Some t \<longleftrightarrow>
     list_all is_digit s \<and> t = int (foldl (\<lambda>v c. v * 10 + (code c - 48)) v s)
     \<and> (s \<noteq> [] \<longrightarrow> t \<le> int64_max)"
proof (induction s arbitrary: v)
  case (Cons c s)
  show ?case
  proof (cases "is_digit c")
    case True
    define v' where "v' = v * 10 + (code c - 48)"
    have e: "int v * 10 + int (code c - 48) = int v'" by (simp add: v'_def)
    have le: "code c - 48 \<le> 9" using True by (auto simp: is_digit_def)
    have step: "(int64_max - int (code c - 48)) div 10 < int v \<longleftrightarrow> int64_max < int v'"
      using unix_loop_step[of "int v" "int (code c - 48)"] le e by simp
    have mono: "v' \<le> foldl (\<lambda>v c. v * 10 + (code c - 48)) v' s" by (rule undec_step_mono)
    show ?thesis
    proof (cases "int64_max < int v'")
      case True
      with mono have "int64_max < int (foldl (\<lambda>v c. v * 10 + (code c - 48)) v' s)" by linarith
      with True step show ?thesis using \<open>is_digit c\<close> by (auto simp: Let_def v'_def)
    next
      case False
      with step have "unix_loop (int v) (c # s) = unix_loop (int v') s"
        using \<open>is_digit c\<close> by (simp add: Let_def e)
      with Cons.IH[of v'] False \<open>is_digit c\<close> show ?thesis by (cases s) (auto simp: v'_def)
    qed
  qed simp
qed auto

lemma parse_unix_ref:
  "parse_unix_seconds s = Some t \<longleftrightarrow>
     s \<noteq> [] \<and> list_all is_digit s \<and> t = int (undec s) \<and> t \<le> int64_max"
  using unix_loop_ref[of 0 s t] by (auto simp: parse_unix_seconds_def undec_def)

lemma any_candidate_iff: "any_candidate expected cs \<longleftrightarrow> (\<exists>c\<in>set cs. candidate_matches expected c)"
proof -
  have "fold (\<lambda>hex matched. matched \<or> candidate_matches expected hex) cs b \<longleftrightarrow>
      b \<or> (\<exists>c\<in>set cs. candidate_matches expected c)" for b
    by (induction cs arbitrary: b) auto
  then show ?thesis by (simp add: any_candidate_def)
qed

lemma candidate_matches_iff:
  "length expected = kMacLen \<Longrightarrow> candidate_matches expected hex \<longleftrightarrow> hex_decode hex = Some expected"
  by (auto simp: candidate_matches_def split: option.split)

section \<open>A signed header\<close>

text \<open>What the sender writes: the timestamp, then any number of signatures.\<close>

definition signed_header :: "nat \<Rightarrow> string list \<Rightarrow> string" where
  "signed_header t macs = join '','' ((''t='' @ dec t) # map (\<lambda>m. ''v1='' @ to_hex m) macs)"

lemma to_hex_chars: "c \<in> set (to_hex m) \<Longrightarrow> is_hex_char c" if "is_hex_char = (\<lambda>c. nibble c \<noteq> None)" for is_hex_char
  using that by (induction m) (auto simp: to_hex_def code_nibbles(1))

lemma nibble_plain: "nibble c \<noteq> None \<Longrightarrow> \<not> is_space4 c \<and> c \<noteq> CHR '','' \<and> c \<noteq> CHR ''=''"
  by (auto simp: nibble_def is_space4_def is_digit_def split: if_splits)

lemma digit_nibble: "is_digit c \<Longrightarrow> nibble c \<noteq> None"
  by (simp add: nibble_def)

lemma trim4_plain: "\<forall>c\<in>set s. \<not> is_space4 c \<Longrightarrow> trim4 s = s"
  unfolding trim4_def by (rule trim_by_id) (cases s, auto)

lemma element_of_pair:
  assumes "k \<noteq> []" "\<forall>c\<in>set k \<union> set v. \<not> is_space4 c" "CHR ''='' \<notin> set k"
  shows "trim4 (k @ ''='' @ v) = k @ ''='' @ v" "element_pair (k @ ''='' @ v) = Some (k, v)"
proof -
  show "trim4 (k @ ''='' @ v) = k @ ''='' @ v"
    using assms(2) by (intro trim4_plain) (auto simp: is_space4_def)
  have "cut (\<lambda>c. c = CHR ''='') (k @ CHR ''='' # v) = Some (k, CHR ''='', v)"
    using assms(3) by (auto simp: cut_eq_Some)
  with assms(2) show "element_pair (k @ ''='' @ v) = Some (k, v)"
    by (simp add: element_pair_def trim4_plain)
qed

lemma signed_header_parse:
  assumes "macs \<noteq> []" "[] \<notin> set macs"
  shows "parse_signature_header (signed_header t macs) =
    Inr \<lparr>timestamp_text = dec t, v1_hex = map to_hex macs\<rparr>"
proof -
  let ?es = "(''t='' @ dec t) # map (\<lambda>m. ''v1='' @ to_hex m) macs"
  have dp: "\<forall>c\<in>set (dec t). \<not> is_space4 c \<and> c \<noteq> CHR '',''"
    using dec_digits digit_nibble nibble_plain by blast
  have hp: "\<forall>c\<in>set (to_hex m). \<not> is_space4 c \<and> c \<noteq> CHR '',''" for m
    using to_hex_chars[OF refl, of _ m] nibble_plain by blast
  have "split_on (CHR '','') (signed_header t macs) = ?es"
    unfolding signed_header_def by (rule split_on_join) (use dp hp in auto)
  moreover have tr: "trim4 (''t='' @ dec t) = ''t='' @ dec t" "element_pair (''t='' @ dec t) = Some (''t'', dec t)"
    using element_of_pair[of "''t''" "dec t"] dp by (simp_all add: is_space4_def)
  moreover have vr: "trim4 (''v1='' @ to_hex m) = ''v1='' @ to_hex m"
    "element_pair (''v1='' @ to_hex m) = Some (''v1'', to_hex m)" for m
    using element_of_pair[of "''v1''" "to_hex m"] hp by (simp_all add: is_space4_def)
  ultimately have es: "elements (signed_header t macs) = ?es"
    by (simp add: elements_def comp_def filter_map)
  have t0: "values_of ''t'' (map (\<lambda>m. ''v1='' @ to_hex m) ms) = []"
    and v0: "values_of ''v1'' (map (\<lambda>m. ''v1='' @ to_hex m) ms) = map to_hex ms" for ms
    using vr by (induction ms) simp_all
  have "to_hex m \<noteq> []" if "m \<in> set macs" for m
    using that assms(2) length_to_hex[of m] by force
  then show ?thesis
    unfolding parse_header_ref es using tr vr t0 v0 assms(1) by (fastforce simp: image_iff)
qed

lemma signed_accepted:
  assumes "secret \<noteq> []" "hmac secret (dec t @ ''.'' @ body) = Some mac" "length mac = 32"
    and "mac \<in> set macs" "[] \<notin> set macs" "int t \<le> int64_max"
    and "timestamp_header opts \<in> {None, Some (dec t)}"
    and "fits64 (now - int t)" "\<bar>now - int t\<bar> \<le> tolerance opts"
  shows "\<exists>ev. verify hmac secret (signed_header t macs) body opts now = Inr (Inr ev)
    \<and> evt_timestamp ev = int t \<and> evt_body ev = body"
proof -
  have ne: "macs \<noteq> []" "mac \<noteq> []" using assms(3,4) by auto
  have p: "parse_signature_header (signed_header t macs) = Inr \<lparr>timestamp_text = dec t, v1_hex = map to_hex macs\<rparr>"
    by (rule signed_header_parse) (use ne assms(5) in auto)
  have d: "list_all is_digit (dec t)" using dec_digits by (simp add: list_all_iff)
  then have u: "parse_unix_seconds (dec t) = Some (int t)"
    using assms(6) by (simp add: parse_unix_ref undec_dec)
  have "trim4 (dec t) = dec t"
    using dec_digits digit_nibble nibble_plain by (intro trim4_plain) blast
  moreover have "any_candidate mac (map to_hex macs)"
    using assms(3,4) ne(2) hex_decode_to_hex by (auto simp: any_candidate_iff candidate_matches_iff kMacLen_def)
  ultimately show ?thesis
    using assms p u by (auto simp: verify_def kMacLen_def)
qed

definition demo_hmac :: "string \<Rightarrow> string \<Rightarrow> string option" where
  "demo_hmac key msg = Some (replicate 32 (if key = ''k'' then CHR ''m'' else CHR ''n''))"

section \<open>Properties\<close>

text \<open>
  C22. A delivery is accepted exactly when a secret is configured, the header is well formed with
  one decimal 64-bit timestamp and at least one signature, the separate timestamp header (when
  read) agrees, one signature decodes to the 32-byte HMAC of the timestamp text, a dot and the
  raw body under the secret, and the timestamp is within the tolerance of now on either side.
  The event carries that timestamp and that body.
\<close>

theorem webhook_accept_iff:
  "verify hmac secret header body opts now = Inr (Inr ev) \<longleftrightarrow>
     secret \<noteq> [] \<and> 0 \<le> tolerance opts \<and>
     (\<exists>ts sigs t mac. values_of ''t'' (elements header) = [ts] \<and> values_of ''v1'' (elements header) = sigs
        \<and> (\<forall>e\<in>set (elements header). element_pair e \<noteq> None) \<and> sigs \<noteq> [] \<and> [] \<notin> set sigs
        \<and> ts \<noteq> [] \<and> list_all is_digit ts \<and> t = int (undec ts) \<and> t \<le> int64_max
        \<and> (\<forall>h. timestamp_header opts = Some h \<longrightarrow> trim4 h = ts)
        \<and> hmac secret (ts @ ''.'' @ body) = Some mac \<and> length mac = 32
        \<and> (\<exists>c\<in>set sigs. hex_decode c = Some mac)
        \<and> fits64 (now - t) \<and> \<bar>now - t\<bar> \<le> tolerance opts
        \<and> ev = \<lparr>evt_timestamp = t, evt_type = opt_event_type opts,
                evt_delivery_id = opt_delivery_id opts, evt_body = body\<rparr>)"
  (is "?L \<longleftrightarrow> ?R")
proof
  assume ?L
  then obtain p t mac where
    p: "parse_signature_header header = Inr p" "parse_unix_seconds (timestamp_text p) = Some t"
      "hmac secret (timestamp_text p @ ''.'' @ body) = Some mac" "length mac = kMacLen"
      "any_candidate mac (v1_hex p)"
    and r: "secret \<noteq> []" "0 \<le> tolerance opts" "fits64 (now - t)" "\<bar>now - t\<bar> \<le> tolerance opts"
      "\<forall>h. timestamp_header opts = Some h \<longrightarrow> trim4 h = timestamp_text p"
      "ev = \<lparr>evt_timestamp = t, evt_type = opt_event_type opts,
                evt_delivery_id = opt_delivery_id opts, evt_body = body\<rparr>"
    by (auto simp: verify_def split: sum.splits option.splits if_splits)
  from p(1,2,4,5) have "values_of ''t'' (elements header) = [timestamp_text p]
      \<and> values_of ''v1'' (elements header) = v1_hex p
      \<and> (\<forall>e\<in>set (elements header). element_pair e \<noteq> None) \<and> v1_hex p \<noteq> [] \<and> [] \<notin> set (v1_hex p)
      \<and> timestamp_text p \<noteq> [] \<and> list_all is_digit (timestamp_text p)
      \<and> t = int (undec (timestamp_text p)) \<and> t \<le> int64_max
      \<and> (\<exists>c\<in>set (v1_hex p). hex_decode c = Some mac)"
    by (auto simp: parse_header_ref parse_unix_ref any_candidate_iff candidate_matches_iff)
  with p(3,4) r show ?R by (auto simp: kMacLen_def)
next
  assume ?R
  then obtain ts sigs t mac where
    h: "parse_signature_header header = Inr \<lparr>timestamp_text = ts, v1_hex = sigs\<rparr>"
      "parse_unix_seconds ts = Some t" "hmac secret (ts @ ''.'' @ body) = Some mac" "length mac = kMacLen"
      "any_candidate mac sigs"
    and r: "secret \<noteq> []" "0 \<le> tolerance opts" "fits64 (now - t)" "\<bar>now - t\<bar> \<le> tolerance opts"
      "\<forall>h. timestamp_header opts = Some h \<longrightarrow> trim4 h = ts"
      "ev = \<lparr>evt_timestamp = t, evt_type = opt_event_type opts,
                evt_delivery_id = opt_delivery_id opts, evt_body = body\<rparr>"
    by (auto simp: parse_header_ref parse_unix_ref any_candidate_iff candidate_matches_iff kMacLen_def)
  then show ?L by (auto simp: verify_def split: option.splits)
qed

lemma webhook_accept_iff_witness:
  "\<exists>ts sigs. values_of ''t'' (elements (signed_header 1700000000 [replicate 32 CHR ''m''])) = [ts]
     \<and> values_of ''v1'' (elements (signed_header 1700000000 [replicate 32 CHR ''m''])) = sigs
     \<and> (\<exists>c\<in>set sigs. hex_decode c = Some (replicate 32 CHR ''m''))"
proof -
  have "[] \<notin> set [replicate 32 CHR ''m'']" by simp
  with signed_accepted[of "''k''" demo_hmac 1700000000 "''{}''" "replicate 32 CHR ''m''" "[replicate 32 CHR ''m'']"
      "\<lparr>tolerance = 300, timestamp_header = None, opt_event_type = [], opt_delivery_id = []\<rparr>" 1700000100]
  obtain ev where "verify demo_hmac ''k'' (signed_header 1700000000 [replicate 32 CHR ''m'']) ''{}''
      \<lparr>tolerance = 300, timestamp_header = None, opt_event_type = [], opt_delivery_id = []\<rparr> 1700000100 = Inr (Inr ev)"
    by (auto simp: demo_hmac_def int64_max_def fits64_def)
  from this[unfolded webhook_accept_iff] obtain ts sigs mac where
    "values_of ''t'' (elements (signed_header 1700000000 [replicate 32 CHR ''m''])) = [ts]"
    "values_of ''v1'' (elements (signed_header 1700000000 [replicate 32 CHR ''m''])) = sigs"
    "demo_hmac ''k'' (ts @ ''.'' @ ''{}'') = Some mac" "\<exists>c\<in>set sigs. hex_decode c = Some mac"
    by blast
  moreover from this(3) have "mac = replicate 32 CHR ''m''" by (simp add: demo_hmac_def)
  ultimately show ?thesis by blast
qed

text \<open>
  Nothing a correctly signing sender writes is refused: a header made of the decimal
  timestamp and any number of hexadecimal signatures, one of them the HMAC under the secret, is
  accepted while the timestamp is fresh, at a receiver that reads the same timestamp header or
  none; the returned event carries the timestamp and body that were signed.
\<close>

theorem webhook_accepts_signed:
  assumes "secret \<noteq> []" "hmac secret (dec t @ ''.'' @ body) = Some mac" "length mac = 32"
    and "mac \<in> set macs" "[] \<notin> set macs" "int t \<le> int64_max"
    and "timestamp_header opts \<in> {None, Some (dec t)}"
    and "fits64 (now - int t)" "\<bar>now - int t\<bar> \<le> tolerance opts"
  shows "\<exists>ev. verify hmac secret (signed_header t macs) body opts now = Inr (Inr ev)
    \<and> evt_timestamp ev = int t \<and> evt_body ev = body"
  using assms by (rule signed_accepted)

lemma webhook_accepts_signed_witness:
  "\<exists>ev. verify demo_hmac ''k'' (signed_header 1700000000 [replicate 32 CHR ''m'', ''old'']) ''{}''
      \<lparr>tolerance = 300, timestamp_header = None, opt_event_type = [], opt_delivery_id = []\<rparr> 1700000100 = Inr (Inr ev)
    \<and> evt_timestamp ev = 1700000000 \<and> evt_body ev = ''{}''"
proof -
  have "[] \<notin> set [replicate 32 CHR ''m'', ''old'']" by simp
  from webhook_accepts_signed[of "''k''" demo_hmac 1700000000 "''{}''" "replicate 32 CHR ''m''"
      "[replicate 32 CHR ''m'', ''old'']"
      "\<lparr>tolerance = 300, timestamp_header = None, opt_event_type = [], opt_delivery_id = []\<rparr>" 1700000100]
  show ?thesis by (simp add: demo_hmac_def int64_max_def fits64_def)
qed

end
