(* ===== verification/Revocation.thy ===== *)
theory Revocation
  imports Jwks
begin

text \<open>
  \<open>src/revocation.cpp\<close>: the poller for the deployment's session-revocation feed. The feed is a
  state (the entries of the last usable document, the time of the last attempt); a check
  refreshes it when it is stale and answers from it. The second half models the critical
  sections of concurrent checks.
\<close>

section \<open>The feed\<close>

definition kMinRevocationPollInterval :: int where "kMinRevocationPollInterval = 15"
definition kMaxRevocationEntries :: nat where "kMaxRevocationEntries = 100000"

record feed =
  feed_url :: string
  poll_interval :: int
  feed_entries :: "string set option"
  last_attempt :: "int option"

definition feed_new :: "string \<Rightarrow> int \<Rightarrow> feed" where
  "feed_new base interval = \<lparr>feed_url = strip_trailing_slash base @ ''/oauth2/revocations'',
     poll_interval = (if interval < kMinRevocationPollInterval then kMinRevocationPollInterval else interval),
     feed_entries = None, last_attempt = None\<rparr>"

definition revocation_entry_for :: "(string \<Rightarrow> string option) \<Rightarrow> string \<Rightarrow> string" where
  "revocation_entry_for sha256 sid =
     (case sha256 sid of
        None \<Rightarrow> []
      | Some d \<Rightarrow> (if length d \<noteq> 32 then [] else b64url_encode d))"

definition feed_request :: "feed \<Rightarrow> http_request" where
  "feed_request f = blank_request\<lparr>req_method := ''GET'', req_url := feed_url f, sessionless := True\<rparr>"

text \<open>The document of a response, \<open>None\<close> when it is unusable for any reason.\<close>

definition doc_of :: "(string \<Rightarrow> json) \<Rightarrow> http_response res \<Rightarrow> string set option" where
  "doc_of parse r =
     (case r of
        Inl _ \<Rightarrow> None
      | Inr resp \<Rightarrow>
          (if transport_error resp \<noteq> [] \<or> status resp \<noteq> 200 then None
           else let document = parse (resp_body resp) in
             if is_discarded document \<or> \<not> is_object document then None
             else (case jfind document ''alg'' of
                     Some (JStr alg) \<Rightarrow>
                       (if alg \<noteq> ''SHA-256'' then None
                        else (case jfind document ''revoked'' of
                                Some (JArr es) \<Rightarrow>
                                  (if kMaxRevocationEntries < length es then None
                                   else Some (set (str_items es)))
                              | _ \<Rightarrow> None))
                   | _ \<Rightarrow> None)))"

definition fetch_once :: "env \<Rightarrow> feed \<Rightarrow> world \<Rightarrow> string set option \<times> world" where
  "fetch_once E f w = (let (r, w) = transmit E (feed_request f) w in (doc_of (env_parse E) r, w))"

definition refresh :: "env \<Rightarrow> feed \<Rightarrow> world \<Rightarrow> feed \<times> world" where
  "refresh E f w =
     (let (fetched, w) = fetch_once E f w; (now, w) = steady_now E w;
          f = f\<lparr>last_attempt := Some now\<rparr>
      in (case fetched of None \<Rightarrow> f | Some S \<Rightarrow> f\<lparr>feed_entries := Some S\<rparr>, w))"

definition refresh_if_stale :: "env \<Rightarrow> feed \<Rightarrow> world \<Rightarrow> feed \<times> world" where
  "refresh_if_stale E f w =
     (case last_attempt f of
        None \<Rightarrow> refresh E f w
      | Some t \<Rightarrow>
          (let (now, w) = steady_now E w in
           if now - t < ns (poll_interval f) then (f, w) else refresh E f w))"

definition is_revoked :: "env \<Rightarrow> (string \<Rightarrow> string option) \<Rightarrow> string \<Rightarrow> feed \<Rightarrow> world \<Rightarrow> bool \<times> feed \<times> world" where
  "is_revoked E sha256 sid f w =
     (if sid = [] then (False, f, w)
      else let (f, w) = refresh_if_stale E f w;
               entry = revocation_entry_for sha256 sid
           in ((case feed_entries f of None \<Rightarrow> False | Some S \<Rightarrow> entry \<in> S), f, w))"

section \<open>The entries are the last usable document\<close>

fun last_doc ::
    "env \<Rightarrow> http_request \<Rightarrow> http_request list \<Rightarrow> http_request list \<Rightarrow> string set option \<Rightarrow> string set option" where
  "last_doc E req past [] acc = acc"
| "last_doc E req past (r # rs) acc =
     last_doc E req (past @ [r]) rs
       (if r = req then (case doc_of (env_parse E) (env_transport E past r) of None \<Rightarrow> acc | Some S \<Rightarrow> Some S)
        else acc)"

lemma last_doc_snoc:
  "last_doc E req past (rs @ [r]) acc =
     (if r = req then (case doc_of (env_parse E) (env_transport E (past @ rs) r) of
          None \<Rightarrow> last_doc E req past rs acc | Some S \<Rightarrow> Some S)
      else last_doc E req past rs acc)"
  by (induction rs arbitrary: past acc) (auto split: option.split)

definition feed_inv :: "env \<Rightarrow> feed \<Rightarrow> world \<Rightarrow> bool" where
  "feed_inv E f w \<longleftrightarrow> feed_entries f = last_doc E (feed_request f) [] (sent w) None"

lemma refresh_sel:
  assumes "refresh E f w = (f', w')"
  shows "feed_request f' = feed_request f" "poll_interval f' = poll_interval f"
    "sent w' = sent w @ [feed_request f]" "last_attempt f' = Some (env_steady E (ticks w))"
    "feed_entries f' = (case doc_of (env_parse E) (env_transport E (sent w) (feed_request f)) of
        None \<Rightarrow> feed_entries f | Some S \<Rightarrow> Some S)"
  using assms
  by (auto simp: refresh_def fetch_once_def transmit_def steady_now_def feed_request_def Let_def split: option.splits)

lemma refresh_inv: "refresh E f w = (f', w') \<Longrightarrow> feed_inv E f w \<Longrightarrow> feed_inv E f' w'"
  using refresh_sel[of E f w f' w'] by (simp add: feed_inv_def last_doc_snoc split: option.split)

text \<open>A check either refreshes, or finds a recent attempt and leaves the feed alone.\<close>

lemma stale_cases:
  assumes "refresh_if_stale E f w = (f', w')"
  obtains (fresh) t where "last_attempt f = Some t" "env_steady E (ticks w) - t < ns (poll_interval f)"
      "f' = f" "sent w' = sent w"
    | (stale) w1 where "sent w1 = sent w" "refresh E f w1 = (f', w')"
        "\<And>t. last_attempt f = Some t \<Longrightarrow> ns (poll_interval f) \<le> env_steady E (ticks w) - t"
proof (cases "last_attempt f")
  case None
  with assms show thesis by (intro stale[of w]) (auto simp: refresh_if_stale_def)
next
  case (Some t)
  with assms show thesis
    by (cases "env_steady E (ticks w) - t < ns (poll_interval f)")
      (auto simp: refresh_if_stale_def steady_now_def Let_def intro: fresh stale[of "w\<lparr>ticks := Suc (ticks w)\<rparr>"])
qed

lemma stale_inv:
  assumes "refresh_if_stale E f w = (f', w')" "feed_inv E f w"
  shows "feed_inv E f' w'" "feed_request f' = feed_request f" "poll_interval f' = poll_interval f"
proof -
  have "feed_inv E f' w' \<and> feed_request f' = feed_request f \<and> poll_interval f' = poll_interval f"
    using assms(1)
  proof (cases rule: stale_cases)
    case (stale w1)
    then have "feed_inv E f w1" using assms(2) by (simp add: feed_inv_def)
    with refresh_inv[OF stale(2)] refresh_sel[OF stale(2)] show ?thesis by simp
  qed (use assms(2) in \<open>simp add: feed_inv_def\<close>)
  then show "feed_inv E f' w'" "feed_request f' = feed_request f" "poll_interval f' = poll_interval f" by auto
qed

text \<open>A sequence of checks.\<close>

fun check_all :: "env \<Rightarrow> (string \<Rightarrow> string option) \<Rightarrow> string list \<Rightarrow> feed \<Rightarrow> world \<Rightarrow> feed \<times> world" where
  "check_all E sha [] f w = (f, w)"
| "check_all E sha (s # ss) f w = (let (r, f, w) = is_revoked E sha s f w in check_all E sha ss f w)"

lemma is_revoked_inv:
  assumes "is_revoked E sha s f w = (r, f', w')" "feed_inv E f w"
  shows "feed_inv E f' w' \<and> feed_request f' = feed_request f \<and> poll_interval f' = poll_interval f
    \<and> (r \<longleftrightarrow> s \<noteq> [] \<and> (\<exists>S. feed_entries f' = Some S \<and> revocation_entry_for sha s \<in> S))"
proof (cases "s = []")
  case False
  obtain f1 w1 where st: "refresh_if_stale E f w = (f1, w1)" by (metis surj_pair)
  with False assms(1) have "f' = f1" "w' = w1"
    "r = (case feed_entries f1 of None \<Rightarrow> False | Some S \<Rightarrow> revocation_entry_for sha s \<in> S)"
    by (auto simp: is_revoked_def Let_def)
  with False stale_inv[OF st assms(2)] show ?thesis by (auto split: option.split)
qed (use assms in \<open>simp add: is_revoked_def\<close>)

lemma check_all_inv:
  "check_all E sha ss f w = (f', w') \<Longrightarrow> feed_inv E f w \<Longrightarrow> feed_inv E f' w' \<and> feed_request f' = feed_request f"
proof (induction ss arbitrary: f w)
  case (Cons s ss)
  obtain r f1 w1 where 1: "is_revoked E sha s f w = (r, f1, w1)" by (metis surj_pair)
  with Cons.prems(1) have "check_all E sha ss f1 w1 = (f', w')" by simp
  from Cons.IH[OF this] is_revoked_inv[OF 1 Cons.prems(2)] show ?case by simp
qed simp

section \<open>The polling bound\<close>

definition clock_within :: "env \<Rightarrow> int \<Rightarrow> int \<Rightarrow> bool" where
  "clock_within E t0 secs \<longleftrightarrow> (\<forall>n. t0 \<le> env_steady E n \<and> env_steady E n < t0 + ns secs)"

definition poll_credit :: "int \<Rightarrow> feed \<Rightarrow> nat" where
  "poll_credit t0 f = (case last_attempt f of Some t \<Rightarrow> (if t0 \<le> t then 0 else 1) | None \<Rightarrow> 1)"

lemma is_revoked_credit:
  assumes "is_revoked E sha s f w = (r, f', w')" "clock_within E t0 (poll_interval f)"
  shows "length (sent w') + poll_credit t0 f' \<le> length (sent w) + poll_credit t0 f \<and> poll_interval f' = poll_interval f"
proof (cases "s = []")
  case False
  obtain f1 w1 where st: "refresh_if_stale E f w = (f1, w1)" by (metis surj_pair)
  with False assms(1) have e: "f' = f1" "w' = w1" by (auto simp: is_revoked_def Let_def)
  show ?thesis using st
  proof (cases rule: stale_cases)
    case (stale w2)
    note sel = refresh_sel[OF stale(2)]
    have "\<not> t0 \<le> t" if "last_attempt f = Some t" for t
    proof
      assume "t0 \<le> t"
      moreover have "env_steady E (ticks w) < t0 + ns (poll_interval f)"
        using assms(2) by (auto simp: clock_within_def)
      ultimately show False using stale(3)[OF that] by simp
    qed
    then have "poll_credit t0 f = 1" by (simp add: poll_credit_def split: option.split)
    moreover have "poll_credit t0 f1 = 0" using sel(4) assms(2) by (simp add: poll_credit_def clock_within_def)
    ultimately show ?thesis using sel stale(1) e by simp
  qed (simp add: e)
qed (use assms in \<open>simp add: is_revoked_def\<close>)

lemma check_all_credit:
  "check_all E sha ss f w = (f', w') \<Longrightarrow> clock_within E t0 (poll_interval f) \<Longrightarrow>
   length (sent w') + poll_credit t0 f' \<le> length (sent w) + poll_credit t0 f"
proof (induction ss arbitrary: f w)
  case (Cons s ss)
  obtain r f1 w1 where 1: "is_revoked E sha s f w = (r, f1, w1)" by (metis surj_pair)
  with Cons.prems(1) have "check_all E sha ss f1 w1 = (f', w')" by simp
  from Cons.IH[OF this] is_revoked_credit[OF 1 Cons.prems(2)] Cons.prems(2) show ?case by simp
qed simp

section \<open>Concurrent checks\<close>

text \<open>
  The critical sections of one check: the staleness test (under \<open>mtx_\<close>), then, when stale, the
  whole refresh (under \<open>fetch_mtx_\<close>), then the lookup. The staleness is not tested again once
  \<open>fetch_mtx_\<close> is held.
\<close>

datatype poll_pc = Checking | MustFetch | Fetched

record poll_state =
  ps_feed :: feed
  ps_world :: world
  ps_pcs :: "nat \<Rightarrow> poll_pc"

inductive poll_step :: "env \<Rightarrow> nat \<Rightarrow> poll_state \<Rightarrow> poll_state \<Rightarrow> bool" for E n where
  fresh: "t < n \<Longrightarrow> ps_pcs s t = Checking \<Longrightarrow> last_attempt (ps_feed s) = Some t0 \<Longrightarrow>
     env_steady E (ticks (ps_world s)) - t0 < ns (poll_interval (ps_feed s)) \<Longrightarrow>
     poll_step E n s (s\<lparr>ps_world := snd (steady_now E (ps_world s)), ps_pcs := (ps_pcs s)(t := Fetched)\<rparr>)"
| never: "t < n \<Longrightarrow> ps_pcs s t = Checking \<Longrightarrow> last_attempt (ps_feed s) = None \<Longrightarrow>
     poll_step E n s (s\<lparr>ps_pcs := (ps_pcs s)(t := MustFetch)\<rparr>)"
| stale: "t < n \<Longrightarrow> ps_pcs s t = Checking \<Longrightarrow> last_attempt (ps_feed s) = Some t0 \<Longrightarrow>
     ns (poll_interval (ps_feed s)) \<le> env_steady E (ticks (ps_world s)) - t0 \<Longrightarrow>
     poll_step E n s (s\<lparr>ps_world := snd (steady_now E (ps_world s)), ps_pcs := (ps_pcs s)(t := MustFetch)\<rparr>)"
| fetch: "t < n \<Longrightarrow> ps_pcs s t = MustFetch \<Longrightarrow> refresh E (ps_feed s) (ps_world s) = (f', w') \<Longrightarrow>
     poll_step E n s (s\<lparr>ps_feed := f', ps_world := w', ps_pcs := (ps_pcs s)(t := Fetched)\<rparr>)"

definition burst :: "feed \<Rightarrow> world \<Rightarrow> poll_state" where
  "burst f w = \<lparr>ps_feed = f, ps_world = w, ps_pcs = (\<lambda>_. Checking)\<rparr>"

lemma burst_checked:
  assumes "last_attempt f = None"
  shows "k \<le> n \<Longrightarrow> (poll_step E n)\<^sup>*\<^sup>* (burst f w)
    (burst f w\<lparr>ps_pcs := (\<lambda>t. if t < k then MustFetch else Checking)\<rparr>)"
proof (induction k)
  case 0
  then show ?case by (simp add: burst_def)
next
  case (Suc k)
  let ?s = "burst f w\<lparr>ps_pcs := (\<lambda>t. if t < k then MustFetch else Checking)\<rparr>"
  have "poll_step E n ?s (?s\<lparr>ps_pcs := (ps_pcs ?s)(k := MustFetch)\<rparr>)"
    by (rule never) (use Suc.prems assms in \<open>simp_all add: burst_def\<close>)
  moreover have "?s\<lparr>ps_pcs := (ps_pcs ?s)(k := MustFetch)\<rparr> =
      burst f w\<lparr>ps_pcs := (\<lambda>t. if t < Suc k then MustFetch else Checking)\<rparr>"
    by (auto simp: burst_def fun_eq_iff less_Suc_eq)
  ultimately show ?case using Suc by (metis Suc_leD rtranclp.rtrancl_into_rtrancl)
qed

lemma burst_fetched:
  assumes "\<forall>t<n. ps_pcs s t = MustFetch"
  shows "k \<le> n \<Longrightarrow> \<exists>s'. (poll_step E n)\<^sup>*\<^sup>* s s' \<and> (\<forall>t<n. ps_pcs s' t = (if t < k then Fetched else MustFetch))
    \<and> length (sent (ps_world s')) = length (sent (ps_world s)) + k"
proof (induction k)
  case 0
  then show ?case using assms by auto
next
  case (Suc k)
  then obtain s1 where s1: "(poll_step E n)\<^sup>*\<^sup>* s s1"
    "\<forall>t<n. ps_pcs s1 t = (if t < k then Fetched else MustFetch)"
    "length (sent (ps_world s1)) = length (sent (ps_world s)) + k" by auto
  obtain f' w' where r: "refresh E (ps_feed s1) (ps_world s1) = (f', w')" by (metis surj_pair)
  let ?s = "s1\<lparr>ps_feed := f', ps_world := w', ps_pcs := (ps_pcs s1)(k := Fetched)\<rparr>"
  have "poll_step E n s1 ?s" by (rule fetch) (use Suc.prems s1(2) r in auto)
  with s1(1) have "(poll_step E n)\<^sup>*\<^sup>* s ?s" by (rule rtranclp.rtrancl_into_rtrancl)
  moreover have "\<forall>t<n. ps_pcs ?s t = (if t < Suc k then Fetched else MustFetch)"
    using s1(2) by (auto simp: less_Suc_eq)
  moreover have "length (sent (ps_world ?s)) = length (sent (ps_world s)) + Suc k"
    using s1(3) refresh_sel(3)[OF r] by simp
  ultimately show ?case by blast
qed

lemma burst_fetches:
  assumes "last_attempt f = None"
  shows "\<exists>s. (poll_step E n)\<^sup>*\<^sup>* (burst f w) s \<and> (\<forall>t<n. ps_pcs s t = Fetched)
    \<and> length (sent (ps_world s)) = length (sent w) + n"
proof -
  let ?s = "burst f w\<lparr>ps_pcs := (\<lambda>t. if t < n then MustFetch else Checking)\<rparr>"
  obtain s where "(poll_step E n)\<^sup>*\<^sup>* ?s s" "\<forall>t<n. ps_pcs s t = Fetched"
    "length (sent (ps_world s)) = length (sent (ps_world ?s)) + n"
    using burst_fetched[of n ?s n] by (auto simp: burst_def)
  with burst_checked[OF assms order_refl, of E n w] show ?thesis
    by (auto simp: burst_def intro: rtranclp_trans)
qed

section \<open>Properties\<close>

text \<open>
  Over any sequence of checks from a new feed, a session is reported revoked exactly when it
  is non-empty and its entry is listed in the last usable document fetched so far: an
  unreachable, malformed, mislabelled or oversized answer neither revokes anything nor un-revokes
  what an earlier document listed.
\<close>

theorem revocation_answers_last_document:
  assumes "check_all E sha ss (feed_new base interval) \<lparr>sent = [], ticks = 0\<rparr> = (f, w)"
    and "is_revoked E sha s f w = (r, f', w')"
  shows "r \<longleftrightarrow> s \<noteq> [] \<and> (\<exists>S. last_doc E (feed_request (feed_new base interval)) [] (sent w') None = Some S
    \<and> revocation_entry_for sha s \<in> S)"
proof -
  have "feed_inv E (feed_new base interval) \<lparr>sent = [], ticks = 0\<rparr>"
    by (simp add: feed_inv_def feed_new_def)
  from check_all_inv[OF assms(1) this] have "feed_inv E f w" "feed_request f = feed_request (feed_new base interval)"
    by auto
  with is_revoked_inv[OF assms(2)] show ?thesis by (simp add: feed_inv_def)
qed

text \<open>One listed session, then an outage.\<close>

definition outage_env :: env where
  "outage_env = \<lparr>env_transport = (\<lambda>past _. if past = [] then Inr (blank_response\<lparr>status := 200, resp_body := ''D''\<rparr>)
        else Inl Foreign),
     env_steady = (\<lambda>n. int n * ns 60), env_wall = (\<lambda>_. 0),
     env_parse = (\<lambda>_. JObj [(''alg'', JStr ''SHA-256''), (''revoked'', JArr [JStr (b64url_encode (replicate 32 CHR ''d''))])]),
     env_dump = (\<lambda>_. Inr [])\<rparr>"

definition demo_sha :: "string \<Rightarrow> string option" where
  "demo_sha s = Some (replicate 32 (if s = ''sid'' then CHR ''d'' else CHR ''e''))"

lemma outage_doc: "doc_of (env_parse outage_env) (env_transport outage_env [] r) =
    Some {b64url_encode (replicate 32 CHR ''d'')}"
  by (simp add: doc_of_def outage_env_def blank_response_def kMaxRevocationEntries_def del: b64url_encode.simps)

lemma revocation_answers_last_document_witness:
  "\<exists>f w f' w'. check_all outage_env demo_sha [''sid''] (feed_new ''https://a/'' 30) \<lparr>sent = [], ticks = 0\<rparr> = (f, w)
     \<and> is_revoked outage_env demo_sha ''sid'' f w = (True, f', w')"
proof -
  let ?q = "feed_request (feed_new ''https://a/'' 30)"
  obtain f w where c: "check_all outage_env demo_sha [''sid''] (feed_new ''https://a/'' 30) \<lparr>sent = [], ticks = 0\<rparr> = (f, w)"
    by (metis surj_pair)
  obtain r f' w' where i: "is_revoked outage_env demo_sha ''sid'' f w = (r, f', w')" by (metis surj_pair)
  let ?S = "{b64url_encode (replicate 32 CHR ''d'')}"
  have la: "last_attempt (feed_new ''https://a/'' 30) = None" by (simp add: feed_new_def)
  obtain f1 w1 where r1: "refresh outage_env (feed_new ''https://a/'' 30) \<lparr>sent = [], ticks = 0\<rparr> = (f1, w1)"
    by (metis surj_pair)
  with c la have fw: "f = f1" "w = w1" by (auto simp: is_revoked_def refresh_if_stale_def Let_def)
  note sel1 = refresh_sel[OF r1]
  have "sent w' = [?q] \<or> sent w' = [?q, ?q]"
  proof -
    obtain f2 w2 where st: "refresh_if_stale outage_env f w = (f2, w2)" by (metis surj_pair)
    with i have "w' = w2" by (auto simp: is_revoked_def Let_def)
    with st show ?thesis
      using sel1 by (cases rule: stale_cases) (auto simp: fw refresh_sel(3))
  qed
  moreover have "doc_of (env_parse outage_env) (env_transport outage_env [?q] ?q) = None"
    by (simp add: outage_env_def doc_of_def)
  ultimately have "last_doc outage_env ?q [] (sent w') None = Some ?S"
    using outage_doc by auto
  moreover have "revocation_entry_for demo_sha ''sid'' \<in> ?S"
    by (simp add: revocation_entry_for_def demo_sha_def del: b64url_encode.simps)
  ultimately have r using revocation_answers_last_document[OF c i] by auto
  with c i show ?thesis by auto
qed

text \<open>
  Within one poll interval, any number of checks, one after another, sends at most one
  request, however the feed answers.
\<close>

theorem revocation_poll_bound:
  assumes "check_all E sha ss f w = (f', w')" "clock_within E t0 (poll_interval f)"
  shows "length (sent w') \<le> length (sent w) + 1"
proof -
  have "poll_credit t0 f \<le> 1" by (simp add: poll_credit_def split: option.split)
  with check_all_credit[OF assms] show ?thesis by simp
qed

lemma revocation_poll_bound_witness:
  "let (f', w') = check_all (demo_env JNull) demo_sha (replicate 40 ''sid'') (feed_new ''https://a'' 30) demo_world
   in length (sent w') \<le> 1"
proof -
  have "clock_within (demo_env JNull) 0 (poll_interval (feed_new ''https://a'' 30))"
    by (simp add: clock_within_def demo_env_def feed_new_def ns_def kMinRevocationPollInterval_def)
  from revocation_poll_bound[OF _ this]
  have "length (sent w') \<le> 1" if "check_all (demo_env JNull) demo_sha ss (feed_new ''https://a'' 30) demo_world = (f', w')"
    for ss f' w' using that by (fastforce simp: demo_world_def)
  then show ?thesis by (simp del: check_all.simps split: prod.split)
qed

text \<open>
  The bound does not hold of concurrent checks: when several callers find the cache stale
  before the first of them has refreshed it, each sends its own request, one after another.
\<close>

theorem revocation_burst_fetches_each:
  assumes "last_attempt f = None"
  shows "\<exists>s. (poll_step E n)\<^sup>*\<^sup>* (burst f w) s \<and> (\<forall>t<n. ps_pcs s t = Fetched)
    \<and> length (sent (ps_world s)) = length (sent w) + n"
  using assms by (rule burst_fetches)

lemma revocation_burst_fetches_each_witness:
  "\<exists>s. (poll_step (demo_env JNull) 8)\<^sup>*\<^sup>* (burst (feed_new ''https://a'' 30) demo_world) s
     \<and> length (sent (ps_world s)) = 8"
  using revocation_burst_fetches_each[of "feed_new ''https://a'' 30" "demo_env JNull" 8 demo_world]
  by (auto simp: feed_new_def demo_world_def)

end
