(* ===== verification/Mcp.thy ===== *)
theory Mcp
  imports Urls Types
begin

text \<open>
  \<open>src/mcp.cpp\<close>: the protected-resource metadata document and the \<open>WWW-Authenticate: Bearer\<close>
  challenges. Every value is validated and refused, never repaired; a refusal is
  \<open>InvalidArgument\<close> naming the field.
\<close>

section \<open>Validation\<close>

definition kMetadataPrefix :: string where
  "kMetadataPrefix = ''/.well-known/oauth-protected-resource''"

definition mcp_loopback :: "string \<Rightarrow> bool" where
  "mcp_loopback h = (h = ''127.0.0.1'' \<or> h = ''[::1]'' \<or> h = ''localhost'')"

definition refuse :: "string \<Rightarrow> string \<Rightarrow> 'a res" where
  "refuse field message = Inl (InvalidArgument (field @ '': '' @ message))"

definition is_nqchar :: "char \<Rightarrow> bool" where
  "is_nqchar c = (let n = code c in n = 33 \<or> (35 \<le> n \<and> n \<le> 91) \<or> (93 \<le> n \<and> n \<le> 126))"

definition is_nqschar :: "char \<Rightarrow> bool" where
  "is_nqschar c = (code c = 32 \<or> is_nqchar c)"

definition is_all :: "string \<Rightarrow> (char \<Rightarrow> bool) \<Rightarrow> bool" where
  "is_all s P = (s \<noteq> [] \<and> list_all P s)"

record parsed_uri =
  uri_scheme :: string
  uri_authority :: string
  uri_path :: string
  has_query :: bool
  has_fragment :: bool

definition is_scheme_char :: "char \<Rightarrow> bool \<Rightarrow> bool" where
  "is_scheme_char c first =
     (if is_upper c \<or> is_lower c then True
      else if first then False
      else is_digit c \<or> c = CHR ''+'' \<or> c = CHR ''.'' \<or> c = CHR ''-'')"

fun scheme_ok :: "string \<Rightarrow> bool" where
  "scheme_ok [] = False"
| "scheme_ok (c # s) = (is_scheme_char c True \<and> list_all (\<lambda>x. is_scheme_char x False) s)"

definition is_query_start :: "char \<Rightarrow> bool" where
  "is_query_start c = (c = CHR ''?'' \<or> c = CHR ''#'')"

text \<open>The slices after the scheme: authority, path, and whether a query and a fragment follow.\<close>

definition uri_slices :: "string \<Rightarrow> string \<Rightarrow> parsed_uri" where
  "uri_slices sch rest =
     (let authority = authority_of rest; after = drop (length authority) rest;
          path = takeWhile (\<lambda>c. \<not> is_query_start c) after;
          tail = dropWhile (\<lambda>c. \<not> is_query_start c) after;
          q = (tail \<noteq> [] \<and> hd tail = CHR ''?'');
          cursor = (if q then dropWhile (\<lambda>c. c \<noteq> CHR ''#'') tail else tail)
      in \<lparr>uri_scheme = sch, uri_authority = authority, uri_path = path,
          has_query = q, has_fragment = (cursor \<noteq> [] \<and> hd cursor = CHR ''#'')\<rparr>)"

definition parse_absolute_uri :: "string \<Rightarrow> parsed_uri option" where
  "parse_absolute_uri raw =
     (case cut_str ''://'' raw of
        None \<Rightarrow> None
      | Some (sch, rest) \<Rightarrow>
          (if sch = [] then None
           else if \<not> scheme_ok sch then None
           else if authority_of rest = [] then None
           else Some (uri_slices sch rest)))"

text \<open>\<open>host_of\<close>: userinfo and port stripped, the brackets of an IPv6 literal kept.\<close>

definition host_of :: "string \<Rightarrow> string" where
  "host_of authority =
     (let hostport = (case cut_last (\<lambda>c. c = CHR ''@'') authority of None \<Rightarrow> authority | Some (_, _, b) \<Rightarrow> b) in
      if hostport \<noteq> [] \<and> hd hostport = CHR ''['' then
        (case cut (\<lambda>c. c = CHR '']'') hostport of None \<Rightarrow> hostport | Some (h, c, _) \<Rightarrow> h @ [c])
      else (case cut (\<lambda>c. c = CHR '':'') hostport of None \<Rightarrow> hostport | Some (h, _, _) \<Rightarrow> h))"

text \<open>\<open>locator\<close> is the relaxed policy: a query and a fragment are allowed.\<close>

definition require_absolute_uri :: "string \<Rightarrow> string \<Rightarrow> bool \<Rightarrow> parsed_uri res" where
  "require_absolute_uri field raw locator =
     (if raw = [] then refuse field ''must be a non-empty absolute URI''
      else (case parse_absolute_uri raw of
              None \<Rightarrow> refuse field ''must be an absolute URI with a scheme and an authority''
            | Some u \<Rightarrow>
                (if has_query u \<and> \<not> locator then refuse field ''must carry no query''
                 else if has_fragment u \<and> \<not> locator then refuse field ''must carry no fragment''
                 else if lower (uri_scheme u) = ''https'' then Inr u
                 else if lower (uri_scheme u) = ''http'' \<and> mcp_loopback (lower (host_of (uri_authority u))) then Inr u
                 else refuse field ''must use https'')))"

definition derive_metadata_path :: "string \<Rightarrow> string" where
  "derive_metadata_path path =
     (if path = [] \<or> path = ''/'' then kMetadataPrefix else kMetadataPrefix @ path)"

section \<open>The document\<close>

record metadata_options =
  o_resource :: string
  o_servers :: "string list"
  o_scopes :: "string list"
  o_methods :: "string list"
  o_documentation :: "string option"

record metadata_document =
  d_resource :: string
  d_servers :: "string list"
  d_scopes :: "string list"
  d_methods :: "string list"
  d_documentation :: "string option"

record resource_metadata =
  document :: metadata_document
  metadata_path :: string
  metadata_url :: string

definition document_json :: "metadata_document \<Rightarrow> json" where
  "document_json d =
     JObj ([(''resource'', JStr (d_resource d)), (''authorization_servers'', JArr (map JStr (d_servers d)))]
       @ (if d_scopes d \<noteq> [] then [(''scopes_supported'', JArr (map JStr (d_scopes d)))] else [])
       @ [(''bearer_methods_supported'', JArr (map JStr (d_methods d)))]
       @ (case d_documentation d of None \<Rightarrow> [] | Some u \<Rightarrow> [(''resource_documentation'', JStr u)]))"

definition to_json :: "(json \<Rightarrow> string res) \<Rightarrow> metadata_document \<Rightarrow> string res" where
  "to_json dump d = dump (document_json d)"

fun check_servers :: "string list \<Rightarrow> string list \<Rightarrow> unit res" where
  "check_servers seen [] = Inr ()"
| "check_servers seen (e # es) =
     and_then (require_absolute_uri ''authorization_servers'' e False) (\<lambda>_.
       if e \<in> set seen then refuse ''authorization_servers'' ''duplicate entry''
       else check_servers (e # seen) es)"

fun check_scopes :: "string list \<Rightarrow> string list \<Rightarrow> unit res" where
  "check_scopes seen [] = Inr ()"
| "check_scopes seen (s # ss) =
     (if \<not> is_all s is_nqchar then refuse ''scopes_supported'' ''is not a scope token''
      else if s \<in> set seen then refuse ''scopes_supported'' ''duplicate scope''
      else check_scopes (s # seen) ss)"

definition protected_resource_metadata :: "metadata_options \<Rightarrow> resource_metadata res" where
  "protected_resource_metadata opts =
     and_then (require_absolute_uri ''resource'' (o_resource opts) False) (\<lambda>parsed.
       if o_servers opts = [] then refuse ''authorization_servers'' ''must name at least one authorization server''
       else and_then (check_servers [] (o_servers opts)) (\<lambda>_.
            and_then (check_scopes [] (o_scopes opts)) (\<lambda>_.
              if length (o_methods opts) \<noteq> 1 \<or> o_methods opts ! 0 \<noteq> ''header''
              then refuse ''bearer_methods_supported'' ''must be exactly header''
              else and_then (case o_documentation opts of
                               None \<Rightarrow> Inr ()
                             | Some u \<Rightarrow> and_then (require_absolute_uri ''resource_documentation'' u True) (\<lambda>_. Inr ()))
                (\<lambda>_. let path = derive_metadata_path (uri_path parsed) in
                  Inr \<lparr>document = \<lparr>d_resource = o_resource opts, d_servers = o_servers opts,
                          d_scopes = o_scopes opts, d_methods = [''header''],
                          d_documentation = o_documentation opts\<rparr>,
                       metadata_path = path,
                       metadata_url = uri_scheme parsed @ ''://'' @ uri_authority parsed @ path\<rparr>))))"

section \<open>Challenges\<close>

datatype bearer_error = InvalidRequest | InvalidToken | InsufficientScope

definition error_wire_name :: "bearer_error \<Rightarrow> string" where
  "error_wire_name e = (case e of InvalidRequest \<Rightarrow> ''invalid_request''
     | InvalidToken \<Rightarrow> ''invalid_token'' | InsufficientScope \<Rightarrow> ''insufficient_scope'')"

record challenge_options =
  c_url :: string
  c_error :: "bearer_error option"
  c_description :: "string option"
  c_scope :: "string option"

definition append_param :: "string \<Rightarrow> string \<Rightarrow> string \<Rightarrow> string" where
  "append_param name val params =
     (if params \<noteq> [] then params @ '', '' else params) @ name @ ''='' @ [CHR 0x22] @ val @ [CHR 0x22]"

definition bearer_challenge :: "challenge_options \<Rightarrow> string res" where
  "bearer_challenge opts =
     (let params = (case c_error opts of None \<Rightarrow> [] | Some e \<Rightarrow> append_param ''error'' (error_wire_name e) []) in
      and_then (case c_description opts of
                  None \<Rightarrow> Inr params
                | Some d \<Rightarrow>
                    (if \<not> is_all d is_nqschar then refuse ''error_description'' ''must be one or more NQSCHAR''
                     else Inr (append_param ''error_description'' d params))) (\<lambda>params.
      and_then (case c_scope opts of
                  None \<Rightarrow> Inr params
                | Some s \<Rightarrow>
                    (if s = [] then refuse ''scope'' ''must be one or more scope tokens''
                     else if \<not> list_all (\<lambda>t. is_all t is_nqchar) (split_on (CHR '' '') s)
                     then refuse ''scope'' ''is not a space-joined list of scope tokens''
                     else Inr (append_param ''scope'' s params))) (\<lambda>params.
      and_then (require_absolute_uri ''resource_metadata'' (c_url opts) True) (\<lambda>_.
        if \<not> is_all (c_url opts) is_nqchar then refuse ''resource_metadata'' ''has not been encoded''
        else Inr (''Bearer '' @ append_param ''resource_metadata'' (c_url opts) params)))))"

record mcp_challenges =
  resource_metadata_url :: string
  expected_audience :: string
  challenge_path :: string
  no_credential :: string
  invalid_token :: string

definition mcp_challenges_of :: "string \<Rightarrow> string \<Rightarrow> mcp_challenges res" where
  "mcp_challenges_of url audience =
     (if audience = [] then refuse ''resource_metadata_url'' ''requires expected_audience to be set''
      else and_then (require_absolute_uri ''resource_metadata_url'' url True) (\<lambda>parsed.
           and_then (bearer_challenge \<lparr>c_url = url, c_error = None, c_description = None, c_scope = None\<rparr>) (\<lambda>nc.
           and_then (bearer_challenge \<lparr>c_url = url, c_error = Some InvalidToken, c_description = None, c_scope = None\<rparr>) (\<lambda>it.
             Inr \<lparr>resource_metadata_url = url, expected_audience = audience,
                  challenge_path = (if uri_path parsed = [] then ''/'' else uri_path parsed),
                  no_credential = nc, invalid_token = it\<rparr>))))"

definition mcp_insufficient_scope_challenge :: "mcp_challenges \<Rightarrow> string \<Rightarrow> string res" where
  "mcp_insufficient_scope_challenge ch scope =
     bearer_challenge \<lparr>c_url = resource_metadata_url ch, c_error = Some InsufficientScope,
       c_description = None, c_scope = Some scope\<rparr>"

definition is_metadata_document_request :: "mcp_challenges option \<Rightarrow> string \<Rightarrow> string \<Rightarrow> bool" where
  "is_metadata_document_request challenges method path =
     (case challenges of
        None \<Rightarrow> False
      | Some ch \<Rightarrow>
          (if method \<noteq> ''GET'' \<and> method \<noteq> ''HEAD'' then False
           else (case cut is_query_start path of None \<Rightarrow> path | Some (a, _, _) \<Rightarrow> a) = challenge_path ch))"

definition check_mcp_configuration_matches :: "mcp_challenges option \<Rightarrow> resource_metadata \<Rightarrow> unit res" where
  "check_mcp_configuration_matches challenges m =
     (case challenges of
        None \<Rightarrow> Inr ()
      | Some ch \<Rightarrow>
          (if resource_metadata_url ch \<noteq> metadata_url m
           then refuse ''resource_metadata_url'' ''does not name this document''
           else if expected_audience ch \<noteq> d_resource (document m)
           then refuse ''expected_audience'' ''does not match the announced resource''
           else Inr ()))"

section \<open>Reading a challenge back\<close>

text \<open>
  A reference reader of the parameter list: name, equals sign, quoted value with no escapes,
  comma and space.
\<close>

definition quote :: char where "quote = CHR 0x22"

function read_params :: "string \<Rightarrow> (string \<times> string) list option" where
  "read_params s =
     (case cut (\<lambda>c. c = CHR ''='') s of
        None \<Rightarrow> None
      | Some (n, _, r) \<Rightarrow>
          (case r of
             [] \<Rightarrow> None
           | q # r' \<Rightarrow>
               (if q \<noteq> quote then None
                else (case cut (\<lambda>c. c = quote) r' of
                        None \<Rightarrow> None
                      | Some (v, _, t) \<Rightarrow>
                          (if t = [] then Some [(n, v)]
                           else if take 2 t = '', '' then map_option (Cons (n, v)) (read_params (drop 2 t))
                           else None)))))"
  by pat_completeness auto
termination
  by (relation "measure length") (auto simp: cut_eq_Some)

declare read_params.simps [simp del]

definition show_param :: "string \<times> string \<Rightarrow> string" where
  "show_param p = fst p @ ''='' @ [quote] @ snd p @ [quote]"

definition param_ok :: "string \<times> string \<Rightarrow> bool" where
  "param_ok p = (CHR ''='' \<notin> set (fst p) \<and> quote \<notin> set (snd p))"

lemma read_params_step:
  assumes "param_ok p"
  shows "read_params (show_param p @ t) =
    (if t = [] then Some [p] else if take 2 t = '', '' then map_option (Cons p) (read_params (drop 2 t)) else None)"
proof -
  have "cut (\<lambda>c. c = CHR ''='') (fst p @ CHR ''='' # quote # snd p @ quote # t) =
      Some (fst p, CHR ''='', quote # snd p @ quote # t)"
    using assms by (auto simp: cut_eq_Some param_ok_def)
  moreover have "cut (\<lambda>c. c = quote) (snd p @ quote # t) = Some (snd p, quote, t)"
    using assms by (auto simp: cut_eq_Some param_ok_def)
  ultimately show ?thesis
    by (subst read_params.simps) (simp add: show_param_def)
qed

lemma read_params_join:
  "ps \<noteq> [] \<Longrightarrow> list_all param_ok ps \<Longrightarrow> read_params (join '', '' (map show_param ps)) = Some ps"
proof (induction ps)
  case (Cons p ps)
  show ?case
  proof (cases "ps = []")
    case True
    with Cons.prems read_params_step[of p "[]"] show ?thesis by simp
  next
    case False
    with Cons read_params_step[of p "'', '' @ join '', '' (map show_param ps)"] show ?thesis
      by (simp add: join_Cons)
  qed
qed simp

lemma join_snoc: "join sep (xs @ [x]) = (if xs = [] then x else join sep xs @ sep @ x)"
  by (induction sep xs rule: join.induct) (auto simp: join_Cons)

lemma show_param_nonempty [simp]: "show_param p \<noteq> []"
  by (simp add: show_param_def)

lemma join_params_Nil: "join '', '' (map show_param ps) = [] \<longleftrightarrow> ps = []"
  by (cases ps rule: rev_cases) (auto simp: join_snoc)

lemma append_param_join:
  "append_param n v (join '', '' (map show_param ps)) = join '', '' (map show_param (ps @ [(n, v)]))"
  by (simp add: append_param_def join_params_Nil join_snoc show_param_def quote_def)

definition challenge_pairs :: "challenge_options \<Rightarrow> (string \<times> string) list" where
  "challenge_pairs opts =
     (case c_error opts of None \<Rightarrow> [] | Some e \<Rightarrow> [(''error'', error_wire_name e)])
     @ (case c_description opts of None \<Rightarrow> [] | Some d \<Rightarrow> [(''error_description'', d)])
     @ (case c_scope opts of None \<Rightarrow> [] | Some s \<Rightarrow> [(''scope'', s)])
     @ [(''resource_metadata'', c_url opts)]"

lemma nqschar_not: "is_nqschar c \<Longrightarrow> c \<noteq> quote \<and> c \<noteq> CHR 0x5C \<and> 32 \<le> code c \<and> code c \<le> 126"
  by (auto simp: is_nqschar_def is_nqchar_def quote_def Let_def)

lemma is_all_nqs: "is_all s is_nqchar \<Longrightarrow> list_all is_nqschar s" "is_all s is_nqschar \<Longrightarrow> list_all is_nqschar s"
  by (auto simp: is_all_def list_all_iff is_nqschar_def)

lemma scope_tokens_nqs: "list_all (\<lambda>t. is_all t is_nqchar) (split_on (CHR '' '') s) \<Longrightarrow> list_all is_nqschar s"
proof -
  assume t: "list_all (\<lambda>t. is_all t is_nqchar) (split_on (CHR '' '') s)"
  have sp: "is_nqschar (CHR '' '')" by (simp add: is_nqschar_def)
  have "list_all is_nqschar (join [CHR '' ''] ts)" if "list_all (\<lambda>t. is_all t is_nqchar) ts" for ts
    using that sp by (induction "[CHR '' '']" ts rule: join.induct) (auto simp: is_all_nqs(1))
  from this[OF t] show ?thesis by (simp only: join_split_on)
qed

lemma wire_name_nqs: "list_all is_nqschar (error_wire_name e)"
  by (cases e) (simp_all add: error_wire_name_def is_nqschar_def is_nqchar_def)

lemma bearer_challenge_shape:
  assumes "bearer_challenge opts = Inr v"
  shows "v = ''Bearer '' @ join '', '' (map show_param (challenge_pairs opts))"
    "list_all (\<lambda>p. list_all is_nqschar (snd p)) (challenge_pairs opts)"
proof -
  define p0 where "p0 = (case c_error opts of None \<Rightarrow> [] | Some e \<Rightarrow> [(''error'', error_wire_name e)])"
  define p1 where "p1 = (case c_description opts of None \<Rightarrow> [] | Some d \<Rightarrow> [(''error_description'', d)])"
  define p2 where "p2 = (case c_scope opts of None \<Rightarrow> [] | Some s \<Rightarrow> [(''scope'', s)])"
  let ?j = "\<lambda>ps. join '', '' (map show_param ps)"
  have j0: "(case c_error opts of None \<Rightarrow> [] | Some e \<Rightarrow> append_param ''error'' (error_wire_name e) []) = ?j p0"
    using append_param_join[of _ _ "[]"] by (auto simp: p0_def split: option.split)
  from assms obtain ps1 ps2 where
    a1: "(case c_description opts of None \<Rightarrow> Inr (?j p0)
        | Some d \<Rightarrow> (if \<not> is_all d is_nqschar then refuse ''error_description'' ''must be one or more NQSCHAR''
             else Inr (append_param ''error_description'' d (?j p0)))) = Inr ps1" and
    a2: "(case c_scope opts of None \<Rightarrow> Inr ps1
        | Some s \<Rightarrow> (if s = [] then refuse ''scope'' ''must be one or more scope tokens''
             else if \<not> list_all (\<lambda>t. is_all t is_nqchar) (split_on (CHR '' '') s)
             then refuse ''scope'' ''is not a space-joined list of scope tokens''
             else Inr (append_param ''scope'' s ps1))) = Inr ps2" and
    a3: "is_all (c_url opts) is_nqchar" "v = ''Bearer '' @ append_param ''resource_metadata'' (c_url opts) ps2"
    unfolding bearer_challenge_def Let_def j0 by (auto simp: and_then_eq_Inr refuse_def split: if_splits)
  from a1 have 1: "ps1 = ?j (p0 @ p1)" "list_all (\<lambda>p. list_all is_nqschar (snd p)) p1"
    by (auto simp: p1_def refuse_def append_param_join is_all_nqs split: option.splits if_splits)
  from a2 1(1) have 2: "ps2 = ?j ((p0 @ p1) @ p2)" "list_all (\<lambda>p. list_all is_nqschar (snd p)) p2"
    by (auto simp: p2_def refuse_def append_param_join scope_tokens_nqs simp del: map_append
        split: option.splits if_splits)
  have "v = ''Bearer '' @ ?j (((p0 @ p1) @ p2) @ [(''resource_metadata'', c_url opts)])"
    unfolding a3(2) 2(1) append_param_join ..
  then show "v = ''Bearer '' @ ?j (challenge_pairs opts)"
    by (simp add: challenge_pairs_def p0_def p1_def p2_def)
  have "list_all (\<lambda>p. list_all is_nqschar (snd p)) p0"
    by (auto simp: p0_def wire_name_nqs split: option.split)
  with 1(2) 2(2) is_all_nqs(1)[OF a3(1)] show "list_all (\<lambda>p. list_all is_nqschar (snd p)) (challenge_pairs opts)"
    by (simp add: challenge_pairs_def flip: p0_def p1_def p2_def)
qed

lemma challenge_pairs_ok:
  "list_all (\<lambda>p. list_all is_nqschar (snd p)) (challenge_pairs opts) \<Longrightarrow> list_all param_ok (challenge_pairs opts)"
proof -
  have "list_all is_nqschar v \<Longrightarrow> quote \<notin> set v" for v using nqschar_not by (auto simp: list_all_iff)
  then show "list_all (\<lambda>p. list_all is_nqschar (snd p)) (challenge_pairs opts) \<Longrightarrow> list_all param_ok (challenge_pairs opts)"
    by (auto simp: challenge_pairs_def param_ok_def split: option.splits)
qed

section \<open>Identifiers\<close>

definition secure_uri :: "parsed_uri \<Rightarrow> bool" where
  "secure_uri u \<longleftrightarrow> lower (uri_scheme u) = ''https'' \<or>
     (lower (uri_scheme u) = ''http'' \<and> mcp_loopback (lower (host_of (uri_authority u))))"

lemma require_absolute_uri_iff:
  "require_absolute_uri field raw locator = Inr u \<longleftrightarrow>
     parse_absolute_uri raw = Some u \<and> secure_uri u \<and> (locator \<or> \<not> has_query u \<and> \<not> has_fragment u)"
proof -
  have "parse_absolute_uri [] = None" by (simp add: parse_absolute_uri_def cut_str_Nil)
  then show ?thesis
    by (auto simp: require_absolute_uri_def secure_uri_def refuse_def split: option.splits if_splits)
qed

lemma authority_take: "authority_of s = takeWhile (\<lambda>c. \<not> is_path_start c) s"
proof -
  have "case_option s (\<lambda>(a, _, _). a) (cut P s) = takeWhile (\<lambda>c. \<not> P c) s" for P :: "char \<Rightarrow> bool"
    by (induction s) (auto split: option.splits prod.splits)
  then show ?thesis by (simp add: authority_of_def)
qed

lemma after_authority: "drop (length (authority_of s)) s = dropWhile (\<lambda>c. \<not> is_path_start c) s"
  unfolding authority_take by (metis append_eq_conv_conj takeWhile_dropWhile_id)

lemma is_lower_not_colon: "is_scheme_char c b \<Longrightarrow> c \<noteq> CHR '':''"
  by (auto simp: is_scheme_char_def is_upper_def is_lower_def is_digit_def split: if_splits)

text \<open>An identifier is its scheme, authority and path and nothing else.\<close>

lemma identifier_split:
  assumes "parse_absolute_uri raw = Some u" "\<not> has_query u" "\<not> has_fragment u"
  shows "raw = uri_scheme u @ ''://'' @ uri_authority u @ uri_path u"
    "CHR '':'' \<notin> set (uri_scheme u)" "CHR ''/'' \<notin> set (uri_authority u)"
    "uri_path u = [] \<or> hd (uri_path u) = CHR ''/''"
proof -
  from assms(1) obtain sch rest where c: "cut_str ''://'' raw = Some (sch, rest)" "scheme_ok sch"
    and us: "u = uri_slices sch rest"
    by (auto simp: parse_absolute_uri_def split: option.splits if_splits)
  have u: "uri_scheme u = sch" "uri_authority u = authority_of rest"
      "uri_path u = takeWhile (\<lambda>c. \<not> is_query_start c) (dropWhile (\<lambda>c. \<not> is_path_start c) rest)"
    by (simp_all add: us uri_slices_def Let_def after_authority)
  have q: "let tail = dropWhile (\<lambda>c. \<not> is_query_start c) (dropWhile (\<lambda>c. \<not> is_path_start c) rest);
              qu = (tail \<noteq> [] \<and> hd tail = CHR ''?'');
              cursor = (if qu then dropWhile (\<lambda>c. c \<noteq> CHR ''#'') tail else tail)
            in has_query u = qu \<and> has_fragment u = (cursor \<noteq> [] \<and> hd cursor = CHR ''#'')"
    unfolding us uri_slices_def Let_def after_authority by simp
  let ?after = "dropWhile (\<lambda>c. \<not> is_path_start c) rest"
  have "dropWhile (\<lambda>c. \<not> is_query_start c) ?after = []"
  proof (rule ccontr)
    assume ne: "dropWhile (\<lambda>c. \<not> is_query_start c) ?after \<noteq> []"
    from hd_dropWhile[OF ne] have "is_query_start (hd (dropWhile (\<lambda>c. \<not> is_query_start c) ?after))" by simp
    with ne q assms(2,3) show False by (auto simp: is_query_start_def Let_def split: if_splits)
  qed
  then have "uri_path u = ?after" using u(3) by (metis append_Nil2 takeWhile_dropWhile_id)
  then have "rest = uri_authority u @ uri_path u" using u(2) by (simp add: authority_take)
  with cut_str_SomeD[OF c(1)] u(1) show "raw = uri_scheme u @ ''://'' @ uri_authority u @ uri_path u" by simp
  show "CHR '':'' \<notin> set (uri_scheme u)"
    using c(2) is_lower_not_colon unfolding u(1) by (cases sch) (auto simp: list_all_iff)
  show "CHR ''/'' \<notin> set (uri_authority u)"
    unfolding u(2) authority_take by (auto dest!: set_takeWhileD simp: is_path_start_def)
  show "uri_path u = [] \<or> hd (uri_path u) = CHR ''/''"
  proof (cases "?after = []")
    case False
    from hd_dropWhile[OF this] have "is_path_start (hd ?after)" by simp
    moreover have "\<not> is_query_start (hd ?after)"
      using \<open>dropWhile (\<lambda>c. \<not> is_query_start c) ?after = []\<close> False by (cases ?after) auto
    ultimately show ?thesis
      using \<open>uri_path u = ?after\<close> by (auto simp: is_path_start_def is_query_start_def)
  qed (simp add: \<open>uri_path u = ?after\<close>)
qed

lemma check_servers_ok:
  "check_servers seen es = Inr r \<Longrightarrow>
     distinct es \<and> set es \<inter> set seen = {} \<and>
     (\<forall>e\<in>set es. \<exists>u. require_absolute_uri ''authorization_servers'' e False = Inr u)"
proof (induction es arbitrary: seen)
  case (Cons e es)
  then have "check_servers (e # seen) es = Inr r" "e \<notin> set seen"
    "\<exists>u. require_absolute_uri ''authorization_servers'' e False = Inr u"
    by (auto simp: and_then_eq_Inr refuse_def split: if_splits)
  with Cons.IH[of "e # seen"] show ?case by auto
qed simp

lemma check_scopes_ok:
  "check_scopes seen ss = Inr r \<Longrightarrow> distinct ss \<and> set ss \<inter> set seen = {} \<and> (\<forall>s\<in>set ss. is_all s is_nqchar)"
proof (induction ss arbitrary: seen)
  case (Cons s ss)
  then have "check_scopes (s # seen) ss = Inr r" "s \<notin> set seen" "is_all s is_nqchar"
    by (auto simp: refuse_def split: if_splits)
  with Cons.IH[of "s # seen"] show ?case by auto
qed simp

lemma metadata_facts:
  assumes "protected_resource_metadata opts = Inr m"
  obtains u where "parse_absolute_uri (o_resource opts) = Some u" "secure_uri u" "\<not> has_query u" "\<not> has_fragment u"
    "metadata_url m = uri_scheme u @ ''://'' @ uri_authority u @ derive_metadata_path (uri_path u)"
    "d_resource (document m) = o_resource opts" "d_servers (document m) = o_servers opts" "o_servers opts \<noteq> []"
    "check_servers [] (o_servers opts) = Inr ()" "d_scopes (document m) = o_scopes opts"
    "check_scopes [] (o_scopes opts) = Inr ()" "d_methods (document m) = [''header'']"
  using assms
  by (auto simp: protected_resource_metadata_def and_then_eq_Inr require_absolute_uri_iff refuse_def Let_def
      split: if_splits)

lemma colon_split:
  "s @ ''://'' @ x = s' @ ''://'' @ x' \<Longrightarrow> CHR '':'' \<notin> set s \<Longrightarrow> CHR '':'' \<notin> set s' \<Longrightarrow> s = s' \<and> x = x'"
  by (auto simp: append_eq_append_conv2 Cons_eq_append_conv append_eq_Cons_conv)

lemma slash_split:
  assumes "a @ p = a' @ p'" "CHR ''/'' \<notin> set a" "CHR ''/'' \<notin> set a'" "hd p = CHR ''/''" "hd p' = CHR ''/''" "p \<noteq> []" "p' \<noteq> []"
  shows "a = a' \<and> p = p'"
proof -
  have "takeWhile (\<lambda>c. c \<noteq> CHR ''/'') (b @ q) = b" if "CHR ''/'' \<notin> set b" "hd q = CHR ''/''" "q \<noteq> []" for b q
    using that by (subst takeWhile_append2) (auto simp: takeWhile_eq_Nil_iff)
  from this[of a p] this[of a' p'] assms have "a = a'" by metis
  with assms(1) show ?thesis by simp
qed

lemma derive_path_hd: "derive_metadata_path p \<noteq> []" "hd (derive_metadata_path p) = CHR ''/''"
  by (simp_all add: derive_metadata_path_def kMetadataPrefix_def)

lemma derive_path_eq: "derive_metadata_path p = derive_metadata_path p' \<Longrightarrow> p = p' \<or> {p, p'} \<subseteq> {[], ''/''}"
  by (auto simp: derive_metadata_path_def split: if_splits)

section \<open>Properties\<close>

text \<open>
  A challenge value cannot be broken out of: whatever strings the configuration and the
  route supply, an accepted challenge is \<open>Bearer\<close> and a parameter list that a reader with no
  escape rule reads back to exactly the values given, in the fixed order, and every value is
  printable ASCII with no quote and no backslash.
\<close>

theorem challenge_round_trip:
  assumes "bearer_challenge opts = Inr v"
  shows "take 7 v = ''Bearer '' \<and> read_params (drop 7 v) = Some (challenge_pairs opts)
    \<and> (\<forall>p\<in>set (challenge_pairs opts). \<forall>c\<in>set (snd p).
         32 \<le> code c \<and> code c \<le> 126 \<and> c \<noteq> quote \<and> c \<noteq> CHR 0x5C)"
proof -
  note sh = bearer_challenge_shape[OF assms]
  have "read_params (drop 7 v) = Some (challenge_pairs opts)"
    using read_params_join[OF _ challenge_pairs_ok[OF sh(2)]] by (simp add: sh(1) challenge_pairs_def)
  moreover have "\<forall>p\<in>set (challenge_pairs opts). \<forall>c\<in>set (snd p). is_nqschar c"
    using sh(2) by (auto simp: list_all_iff)
  ultimately show ?thesis using sh(1) nqschar_not by auto
qed

lemma challenge_round_trip_witness:
  "read_params (drop 7 (''Bearer error='' @ [quote] @ ''invalid_token'' @ [quote] @ '', resource_metadata='' @
      [quote] @ ''https://r/m'' @ [quote])) = Some [(''error'', ''invalid_token''), (''resource_metadata'', ''https://r/m'')]"
proof -
  let ?o = "\<lparr>c_url = ''https://r/m'', c_error = Some InvalidToken, c_description = None, c_scope = None\<rparr>"
  have "bearer_challenge ?o = Inr (''Bearer error='' @ [quote] @ ''invalid_token'' @ [quote] @ '', resource_metadata='' @
      [quote] @ ''https://r/m'' @ [quote])"
    by (simp add: bearer_challenge_def append_param_def error_wire_name_def require_absolute_uri_def parse_absolute_uri_def uri_slices_def
        cut_str.simps authority_of_def is_path_start_def is_query_start_def is_scheme_char_def is_lower_def is_upper_def
        is_all_def is_nqchar_def Let_def lower_def lower_char_def quote_def)
  from challenge_round_trip[OF this] show ?thesis
    by (simp add: challenge_pairs_def error_wire_name_def)
qed

text \<open>
  A published document names only secure identifiers (https, or http on a loopback host once
  userinfo is stripped), the servers and the scopes are the caller's, in order and without
  duplicates, and every scope is a token. Its URL is the resource identifier with the
  well-known segment inserted.
\<close>

theorem metadata_document_sound:
  assumes "protected_resource_metadata opts = Inr m"
  shows "\<exists>u. parse_absolute_uri (o_resource opts) = Some u \<and> secure_uri u
      \<and> o_resource opts = uri_scheme u @ ''://'' @ uri_authority u @ uri_path u
      \<and> metadata_url m = uri_scheme u @ ''://'' @ uri_authority u @ derive_metadata_path (uri_path u)
      \<and> d_resource (document m) = o_resource opts
      \<and> d_servers (document m) = o_servers opts \<and> o_servers opts \<noteq> [] \<and> distinct (o_servers opts)
      \<and> (\<forall>e\<in>set (o_servers opts). \<exists>v. parse_absolute_uri e = Some v \<and> secure_uri v \<and> \<not> has_query v \<and> \<not> has_fragment v)
      \<and> d_scopes (document m) = o_scopes opts \<and> distinct (o_scopes opts)
      \<and> (\<forall>s\<in>set (o_scopes opts). is_all s is_nqchar) \<and> d_methods (document m) = [''header'']"
proof -
  from assms obtain u where u: "parse_absolute_uri (o_resource opts) = Some u" "secure_uri u" "\<not> has_query u" "\<not> has_fragment u"
    "metadata_url m = uri_scheme u @ ''://'' @ uri_authority u @ derive_metadata_path (uri_path u)"
    "d_resource (document m) = o_resource opts" "d_servers (document m) = o_servers opts" "o_servers opts \<noteq> []"
    "check_servers [] (o_servers opts) = Inr ()" "d_scopes (document m) = o_scopes opts"
    "check_scopes [] (o_scopes opts) = Inr ()" "d_methods (document m) = [''header'']"
    by (rule metadata_facts)
  have "distinct (o_servers opts)" "\<forall>e\<in>set (o_servers opts). \<exists>v. parse_absolute_uri e = Some v \<and> secure_uri v \<and> \<not> has_query v \<and> \<not> has_fragment v"
    using check_servers_ok[OF u(9)] by (auto simp: require_absolute_uri_iff)
  with check_scopes_ok[OF u(11)] identifier_split(1)[OF u(1,3,4)] u show ?thesis by blast
qed

text \<open>
  Two resources share a metadata URL only when they are the same resource, or differ by
  nothing but the single slash of an empty path.
\<close>

theorem metadata_url_injective:
  assumes "protected_resource_metadata o1 = Inr m1" "protected_resource_metadata o2 = Inr m2"
    "metadata_url m1 = metadata_url m2"
  shows "o_resource o1 = o_resource o2 \<or> o_resource o1 = o_resource o2 @ ''/'' \<or> o_resource o1 @ ''/'' = o_resource o2"
proof -
  from assms(1) obtain u where u: "parse_absolute_uri (o_resource o1) = Some u" "\<not> has_query u" "\<not> has_fragment u"
    "metadata_url m1 = uri_scheme u @ ''://'' @ uri_authority u @ derive_metadata_path (uri_path u)"
    by (rule metadata_facts)
  from assms(2) obtain v where v: "parse_absolute_uri (o_resource o2) = Some v" "\<not> has_query v" "\<not> has_fragment v"
    "metadata_url m2 = uri_scheme v @ ''://'' @ uri_authority v @ derive_metadata_path (uri_path v)"
    by (rule metadata_facts)
  note su = identifier_split[OF u(1-3)] and sv = identifier_split[OF v(1-3)]
  have "uri_scheme u = uri_scheme v \<and>
      uri_authority u @ derive_metadata_path (uri_path u) = uri_authority v @ derive_metadata_path (uri_path v)"
    using assms(3) su(2) sv(2) unfolding u(4) v(4) by (intro colon_split)
  moreover from this slash_split[of "uri_authority u" _ "uri_authority v"] su(3) sv(3) derive_path_hd
  have "uri_authority u = uri_authority v \<and> derive_metadata_path (uri_path u) = derive_metadata_path (uri_path v)"
    by blast
  moreover from this derive_path_eq have "uri_path u = uri_path v \<or> {uri_path u, uri_path v} \<subseteq> {[], ''/''}" by blast
  ultimately show ?thesis using su(1) sv(1) by auto
qed

definition demo_resource :: "string \<Rightarrow> metadata_options" where
  "demo_resource r = \<lparr>o_resource = r, o_servers = [''https://as''], o_scopes = [''mcp:read''],
     o_methods = [''header''], o_documentation = None\<rparr>"

lemma demo_metadata:
  "\<exists>m. protected_resource_metadata (demo_resource ''https://r/a'') = Inr m
     \<and> metadata_url m = ''https://r'' @ kMetadataPrefix @ ''/a''"
  by (simp add: protected_resource_metadata_def demo_resource_def require_absolute_uri_def parse_absolute_uri_def uri_slices_def
      cut_str.simps authority_of_def is_path_start_def is_query_start_def is_scheme_char_def is_lower_def is_upper_def
      is_all_def is_nqchar_def Let_def lower_def lower_char_def derive_metadata_path_def)

lemma metadata_document_sound_witness:
  "\<exists>m u. protected_resource_metadata (demo_resource ''https://r/a'') = Inr m
     \<and> parse_absolute_uri ''https://r/a'' = Some u \<and> secure_uri u"
  using demo_metadata metadata_document_sound[of "demo_resource ''https://r/a''"] by (fastforce simp: demo_resource_def)

lemma demo_metadata_roots:
  "\<exists>m1 m2. protected_resource_metadata (demo_resource ''https://r'') = Inr m1
     \<and> protected_resource_metadata (demo_resource ''https://r/'') = Inr m2 \<and> metadata_url m1 = metadata_url m2"
  by (simp add: protected_resource_metadata_def demo_resource_def require_absolute_uri_def parse_absolute_uri_def
      uri_slices_def cut_str.simps authority_of_def is_path_start_def is_query_start_def is_scheme_char_def is_lower_def
      is_upper_def is_all_def is_nqchar_def Let_def lower_def lower_char_def derive_metadata_path_def)

lemma metadata_url_injective_witness:
  "\<exists>m1 m2. protected_resource_metadata (demo_resource ''https://r'') = Inr m1
     \<and> protected_resource_metadata (demo_resource ''https://r/'') = Inr m2 \<and> metadata_url m1 = metadata_url m2
     \<and> (''https://r'' @ ''/'' = ''https://r/'' \<or> ''https://r'' = ''https://r/'' @ ''/'')"
  using demo_metadata_roots metadata_url_injective[of "demo_resource ''https://r''" _ "demo_resource ''https://r/''"]
  by (fastforce simp: demo_resource_def)

end
