(* ===== verification/Authenticator.thy ===== *)
theory Authenticator
  imports Jwks Revocation Mcp
begin

text \<open>
  \<open>src/authenticator.cpp\<close>: the resource server's local verification of an access token. The
  state a check can change is the shared verifier and revocation feed (\<open>server\<close>). The checks
  run in the source's order and each failure is the exception the source throws there; 64-bit
  arithmetic that leaves the range is \<open>Undefined\<close>.
\<close>

section \<open>State and configuration\<close>

record axiam_user =
  au_user_id :: string
  au_tenant_id :: string
  au_roles :: "string list"

record server =
  sv_verifier :: verifier
  sv_feed :: feed

record authenticator =
  a_tenant :: string
  a_skew :: int
  a_issuer :: "string option"
  a_audience :: "string option"
  a_use_feed :: bool
  a_challenges :: "mcp_challenges option"

definition kMaxClockSkew :: int where "kMaxClockSkew = 60"

definition authenticator_new ::
    "string \<Rightarrow> int \<Rightarrow> string option \<Rightarrow> string option \<Rightarrow> bool \<Rightarrow> string option \<Rightarrow> authenticator res" where
  "authenticator_new tenant skew issuer audience use_feed metadata =
     (if tenant = [] then Inl (InvalidArgument ''TokenAuthenticator: expected_tenant_id must not be empty'')
      else if skew < 0 then Inl (InvalidArgument ''TokenAuthenticator: clock_skew must not be negative'')
      else if kMaxClockSkew < skew then
        Inl (InvalidArgument ''TokenAuthenticator: clock_skew exceeds the maximum permitted leeway'')
      else and_then (case metadata of
                       None \<Rightarrow> Inr None
                     | Some url \<Rightarrow>
                         and_then (mcp_challenges_of url (case audience of None \<Rightarrow> [] | Some a \<Rightarrow> a))
                           (\<lambda>ch. Inr (Some ch)))
             (\<lambda>ch. Inr \<lparr>a_tenant = tenant, a_skew = skew, a_issuer = issuer, a_audience = audience,
                        a_use_feed = use_feed, a_challenges = ch\<rparr>))"

section \<open>Claims\<close>

datatype claim_read = ClaimOk int | ClaimAbsent | ClaimMalformed

definition read_numeric_claim :: "json \<Rightarrow> string \<Rightarrow> claim_read res" where
  "read_numeric_claim payload name =
     (case jfind payload name of
        None \<Rightarrow> Inr ClaimAbsent
      | Some v \<Rightarrow>
          (if is_number v then and_then (get_int64 v) (\<lambda>i. Inr (ClaimOk i)) else Inr ClaimMalformed))"

definition audience_contains :: "json \<Rightarrow> string \<Rightarrow> bool" where
  "audience_contains payload expected =
     (case jfind payload ''aud'' of
        Some (JStr s) \<Rightarrow> s = expected
      | Some (JArr es) \<Rightarrow> expected \<in> set (str_items es)
      | _ \<Rightarrow> False)"

definition auth_fail :: "string \<Rightarrow> 'a res" where
  "auth_fail msg = Inl (AuthError (''authentication_failed: '' @ msg))"

definition ck64 :: "int \<Rightarrow> int res" where
  "ck64 i = (if fits64 i then Inr i else Inl Undefined)"

definition check_exp :: "json \<Rightarrow> int \<Rightarrow> int \<Rightarrow> unit res" where
  "check_exp payload now skew =
     and_then (read_numeric_claim payload ''exp'') (\<lambda>c. case c of
         ClaimAbsent \<Rightarrow> auth_fail ''token has no exp claim''
       | ClaimMalformed \<Rightarrow> auth_fail ''token exp claim is not a number''
       | ClaimOk expiry \<Rightarrow>
           and_then (ck64 (expiry + skew)) (\<lambda>bound.
             if bound < now then auth_fail ''token has expired'' else Inr ()))"

definition check_nbf :: "json \<Rightarrow> int \<Rightarrow> int \<Rightarrow> unit res" where
  "check_nbf payload now skew =
     and_then (read_numeric_claim payload ''nbf'') (\<lambda>c. case c of
         ClaimAbsent \<Rightarrow> Inr ()
       | ClaimMalformed \<Rightarrow> auth_fail ''token nbf claim is not a number''
       | ClaimOk nbf \<Rightarrow>
           and_then (ck64 (now + skew)) (\<lambda>bound.
             if bound < nbf then auth_fail ''token is not yet valid'' else Inr ()))"

definition check_pins :: "authenticator \<Rightarrow> json \<Rightarrow> string res" where
  "check_pins a payload =
     (case opt_str payload ''tenant_id'' of
        None \<Rightarrow> auth_fail ''token has no tenant_id claim''
      | Some t \<Rightarrow>
          (if t = [] \<or> t \<noteq> a_tenant a then auth_fail ''token tenant_id does not match the configured tenant''
           else if (case a_issuer a of None \<Rightarrow> False | Some i \<Rightarrow> opt_str payload ''iss'' \<noteq> Some i)
           then auth_fail ''token iss claim does not match the expected issuer''
           else if (case a_audience a of None \<Rightarrow> False | Some i \<Rightarrow> \<not> audience_contains payload i)
           then auth_fail ''token aud claim does not include the expected audience''
           else Inr t))"

text \<open>The feed is asked only for a token that names a session.\<close>

definition check_revoked ::
    "env \<Rightarrow> (string \<Rightarrow> string option) \<Rightarrow> authenticator \<Rightarrow> json \<Rightarrow> feed \<Rightarrow> world \<Rightarrow> unit res \<times> feed \<times> world" where
  "check_revoked E sha a payload f w =
     (case (a_use_feed a, opt_str payload ''sid'') of
        (True, Some sid) \<Rightarrow>
          (let (r, f, w) = is_revoked E sha sid f w in
           (if r then auth_fail ''the session behind this token has been revoked'' else Inr (), f, w))
      | _ \<Rightarrow> (Inr (), f, w))"

definition user_of :: "json \<Rightarrow> string \<Rightarrow> axiam_user" where
  "user_of payload tenant =
     \<lparr>au_user_id = (case opt_str payload ''sub'' of None \<Rightarrow> [] | Some s \<Rightarrow> s),
      au_tenant_id = tenant,
      au_roles = (case jfind payload ''roles'' of Some (JArr es) \<Rightarrow> str_items es | _ \<Rightarrow> [])\<rparr>"

section \<open>Authentication\<close>

definition judge_payload ::
    "env \<Rightarrow> (string \<Rightarrow> string option) \<Rightarrow> authenticator \<Rightarrow> string \<Rightarrow> string option \<Rightarrow> feed \<Rightarrow> world \<Rightarrow>
     axiam_user res \<times> feed \<times> world" where
  "judge_payload E sha a text presented f w =
     (let payload = env_parse E text in
      if is_discarded payload \<or> \<not> is_object payload
      then (auth_fail ''token payload is not a JSON object'', f, w)
      else let (now, w) = wall_now E w in
        (case and_then (check_exp payload now (a_skew a)) (\<lambda>_.
              and_then (check_nbf payload now (a_skew a)) (\<lambda>_. check_pins a payload)) of
           Inl e \<Rightarrow> (Inl e, f, w)
         | Inr tenant \<Rightarrow>
             (case check_revoked E sha a payload f w of
                (Inl e, f, w) \<Rightarrow> (Inl e, f, w)
              | (Inr _, f, w) \<Rightarrow>
                  (if \<not> verify_certificate_binding (env_parse E) text presented
                   then (auth_fail ''token sender constraint (cnf) not satisfied'', f, w)
                   else (Inr (user_of payload tenant), f, w)))))"

definition authenticate_checked ::
    "env \<Rightarrow> (string \<Rightarrow> string \<Rightarrow> string \<Rightarrow> bool) \<Rightarrow> (string \<Rightarrow> string option) \<Rightarrow> authenticator \<Rightarrow> string \<Rightarrow>
     string option \<Rightarrow> server \<Rightarrow> world \<Rightarrow> axiam_user res \<times> server \<times> world" where
  "authenticate_checked E ed sha a token presented s w =
     (if token = [] then (auth_fail ''no token presented'', s, w)
      else (case verify_signature_only_unchecked E ed token (sv_verifier s) w of
              (Inl e, v, w) \<Rightarrow> (Inl e, s\<lparr>sv_verifier := v\<rparr>, w)
            | (Inr None, v, w) \<Rightarrow> (auth_fail ''token signature is not valid'', s\<lparr>sv_verifier := v\<rparr>, w)
            | (Inr (Some text), v, w) \<Rightarrow>
                (let (r, f, w) = judge_payload E sha a text presented (sv_feed s) w
                 in (r, \<lparr>sv_verifier = v, sv_feed = f\<rparr>, w))))"

definition authenticate ::
    "env \<Rightarrow> (string \<Rightarrow> string \<Rightarrow> string \<Rightarrow> bool) \<Rightarrow> (string \<Rightarrow> string option) \<Rightarrow> authenticator \<Rightarrow> string \<Rightarrow>
     server \<Rightarrow> world \<Rightarrow> axiam_user res \<times> server \<times> world" where
  "authenticate E ed sha a token s w = authenticate_checked E ed sha a token None s w"

definition authenticate_sender_constrained ::
    "env \<Rightarrow> (string \<Rightarrow> string \<Rightarrow> string \<Rightarrow> bool) \<Rightarrow> (string \<Rightarrow> string option) \<Rightarrow> authenticator \<Rightarrow> string \<Rightarrow>
     string option \<Rightarrow> server \<Rightarrow> world \<Rightarrow> axiam_user res \<times> server \<times> world" where
  "authenticate_sender_constrained E ed sha a token presented s w =
     authenticate_checked E ed sha a token presented s w"

text \<open>\<open>catch (const AxiamError&)\<close>: anything outside the taxonomy leaves the function.\<close>

definition try_authenticate ::
    "env \<Rightarrow> (string \<Rightarrow> string \<Rightarrow> string \<Rightarrow> bool) \<Rightarrow> (string \<Rightarrow> string option) \<Rightarrow> authenticator \<Rightarrow> string \<Rightarrow>
     server \<Rightarrow> world \<Rightarrow> axiam_user option res \<times> server \<times> world" where
  "try_authenticate E ed sha a token s w =
     (case authenticate E ed sha a token s w of
        (Inr u, s, w) \<Rightarrow> (Inr (Some u), s, w)
      | (Inl e, s, w) \<Rightarrow> (if is_axiam_error e then Inr None else Inl e, s, w))"

section \<open>Where the token comes from\<close>

definition bearer_from_authorization :: "string \<Rightarrow> string option" where
  "bearer_from_authorization header =
     (let val = trim_by (\<lambda>c. c = CHR '' '' \<or> c = CHR 0x09) header in
      if length val \<le> 7 then None
      else if lower (take 7 val) \<noteq> ''bearer '' then None
      else let token = trim_by (\<lambda>c. c = CHR '' '' \<or> c = CHR 0x09) (drop 7 val)
           in if token = [] then None else Some token)"

fun cookie_scan :: "string list \<Rightarrow> string option" where
  "cookie_scan [] = None"
| "cookie_scan (p # ps) =
     (let pair = trim_by (\<lambda>c. c = CHR '' '' \<or> c = CHR 0x09) p in
      case cut (\<lambda>c. c = CHR ''='') pair of
        None \<Rightarrow> cookie_scan ps
      | Some (k, _, v) \<Rightarrow>
          (if k = ''axiam_access'' then
             (let val = trim_by (\<lambda>c. c = CHR '' '' \<or> c = CHR 0x09) v in if val = [] then None else Some val)
           else cookie_scan ps))"

definition token_from_cookie_header :: "string \<Rightarrow> string option" where
  "token_from_cookie_header header = cookie_scan (split_on (CHR '';'') header)"

section \<open>What acceptance means\<close>

lemma read_numeric_ok:
  "read_numeric_claim payload name = Inr (ClaimOk i) \<Longrightarrow>
     \<exists>v. jfind payload name = Some v \<and> get_int64 v = Inr i"
  "read_numeric_claim payload name = Inr ClaimAbsent \<Longrightarrow> jfind payload name = None"
  by (auto simp: read_numeric_claim_def and_then_eq_Inr split: option.splits if_splits)

lemma check_exp_ok:
  assumes "check_exp payload now skew = Inr u"
  shows "\<exists>v expiry. jfind payload ''exp'' = Some v \<and> get_int64 v = Inr expiry \<and> now \<le> expiry + skew"
proof -
  from assms obtain c where c: "read_numeric_claim payload ''exp'' = Inr c"
    by (auto simp: check_exp_def and_then_eq_Inr)
  with assms show ?thesis
    using read_numeric_ok(1)[of payload "''exp''"]
    by (cases c) (auto simp: check_exp_def and_then_eq_Inr auth_fail_def ck64_def split: if_splits)
qed

lemma check_nbf_ok:
  assumes "check_nbf payload now skew = Inr u"
  shows "jfind payload ''nbf'' = None \<or>
     (\<exists>v nbf. jfind payload ''nbf'' = Some v \<and> get_int64 v = Inr nbf \<and> nbf \<le> now + skew)"
proof -
  from assms obtain c where c: "read_numeric_claim payload ''nbf'' = Inr c"
    by (auto simp: check_nbf_def and_then_eq_Inr)
  with assms show ?thesis
    using read_numeric_ok[of payload "''nbf''"]
    by (cases c) (auto simp: check_nbf_def and_then_eq_Inr auth_fail_def ck64_def split: if_splits)
qed

lemma check_pins_ok:
  "check_pins a payload = Inr t \<Longrightarrow>
     t = a_tenant a \<and> t \<noteq> [] \<and> opt_str payload ''tenant_id'' = Some t
     \<and> (\<forall>i. a_issuer a = Some i \<longrightarrow> opt_str payload ''iss'' = Some i)
     \<and> (\<forall>i. a_audience a = Some i \<longrightarrow> audience_contains payload i)"
  by (auto simp: check_pins_def auth_fail_def split: option.splits if_splits)

lemma check_revoked_ok:
  assumes "check_revoked E sha a payload f w = (Inr u, f', w')" "feed_inv E f w"
  shows "a_use_feed a \<Longrightarrow> opt_str payload ''sid'' = Some sid \<Longrightarrow> sid \<noteq> [] \<Longrightarrow>
    \<not> (\<exists>S. last_doc E (feed_request f) [] (sent w') None = Some S \<and> revocation_entry_for sha sid \<in> S)"
proof -
  assume c: "a_use_feed a" "opt_str payload ''sid'' = Some sid" "sid \<noteq> []"
  obtain r f1 w1 where i: "is_revoked E sha sid f w = (r, f1, w1)" by (metis surj_pair)
  with assms(1) c have "\<not> r" "w' = w1" by (auto simp: check_revoked_def auth_fail_def split: if_splits)
  with is_revoked_inv[OF i assms(2)] c(3) show ?thesis by (auto simp: feed_inv_def)
qed

lemma judge_payload_ok:
  assumes "judge_payload E sha a text presented f w = (Inr user, f', w')"
  obtains now tenant w1 where "now = env_wall E (ticks w)" "is_object (env_parse E text)"
    "check_exp (env_parse E text) now (a_skew a) = Inr ()"
    "check_nbf (env_parse E text) now (a_skew a) = Inr ()"
    "check_pins a (env_parse E text) = Inr tenant"
    "check_revoked E sha a (env_parse E text) f w1 = (Inr (), f', w')" "sent w1 = sent w"
    "verify_certificate_binding (env_parse E) text presented"
    "user = user_of (env_parse E text) tenant"
proof -
  let ?p = "env_parse E text" let ?w1 = "w\<lparr>ticks := Suc (ticks w)\<rparr>" let ?now = "env_wall E (ticks w)"
  have ob: "\<not> (is_discarded ?p \<or> \<not> is_object ?p)" using assms by (auto simp: judge_payload_def auth_fail_def Let_def split: if_splits)
  from assms ob obtain tenant where
    t: "and_then (check_exp ?p ?now (a_skew a)) (\<lambda>_. and_then (check_nbf ?p ?now (a_skew a)) (\<lambda>_. check_pins a ?p)) = Inr tenant"
    by (cases "and_then (check_exp ?p ?now (a_skew a)) (\<lambda>_. and_then (check_nbf ?p ?now (a_skew a)) (\<lambda>_. check_pins a ?p))")
      (auto simp: judge_payload_def wall_now_def Let_def)
  obtain rv f1 w2 where rv: "check_revoked E sha a ?p f ?w1 = (rv, f1, w2)" by (metis surj_pair)
  have "judge_payload E sha a text presented f w = (case (rv, f1, w2) of
      (Inl e, f, w) \<Rightarrow> (Inl e, f, w)
    | (Inr _, f, w) \<Rightarrow>
        (if \<not> verify_certificate_binding (env_parse E) text presented
         then (auth_fail ''token sender constraint (cnf) not satisfied'', f, w)
         else (Inr (user_of ?p tenant), f, w)))"
    using ob by (simp add: judge_payload_def wall_now_def t rv)
  with assms obtain u where "rv = Inr u" "f' = f1" "w' = w2"
    "verify_certificate_binding (env_parse E) text presented" "user = user_of ?p tenant"
    by (cases rv) (auto simp: auth_fail_def split: if_splits)
  with t rv ob show thesis by (intro that[of ?now tenant ?w1]) (auto simp: and_then_eq_Inr)
qed

lemma authenticate_checked_ok:
  assumes "authenticate_checked E ed sha a token presented s w = (Inr user, s', w')"
  obtains pl v w1 f' where "token \<noteq> []"
    "verify_with_reason E ed token (sv_verifier s) w = (Inr (Verified pl), v, w1)"
    "judge_payload E sha a pl presented (sv_feed s) w1 = (Inr user, f', w')" "s' = \<lparr>sv_verifier = v, sv_feed = f'\<rparr>"
proof -
  obtain r v w1 where r: "verify_with_reason E ed token (sv_verifier s) w = (r, v, w1)" by (metis surj_pair)
  from assms have tok: "token \<noteq> []" by (auto simp: authenticate_checked_def auth_fail_def)
  from assms r tok obtain pl where t: "r = Inr (Verified pl)"
    by (auto simp: authenticate_checked_def verify_signature_only_unchecked_def auth_fail_def
        split: sum.splits jwt_verification.splits)
  obtain q f1 w2 where "judge_payload E sha a pl presented (sv_feed s) w1 = (q, f1, w2)" by (metis surj_pair)
  with assms r tok t show thesis
    by (intro that[of pl v w1 f1]) (auto simp: authenticate_checked_def verify_signature_only_unchecked_def)
qed

text \<open>The claims an accepted payload makes, whatever certificate was presented.\<close>

definition claims_accepted :: "env \<Rightarrow> authenticator \<Rightarrow> string \<Rightarrow> axiam_user \<Rightarrow> int \<Rightarrow> bool" where
  "claims_accepted E a text user now \<longleftrightarrow>
     (let p = env_parse E text in
      is_object p
      \<and> (\<exists>v e. jfind p ''exp'' = Some v \<and> get_int64 v = Inr e \<and> now \<le> e + a_skew a)
      \<and> (jfind p ''nbf'' = None \<or> (\<exists>v n. jfind p ''nbf'' = Some v \<and> get_int64 v = Inr n \<and> n \<le> now + a_skew a))
      \<and> opt_str p ''tenant_id'' = Some (a_tenant a) \<and> a_tenant a \<noteq> []
      \<and> (\<forall>i. a_issuer a = Some i \<longrightarrow> opt_str p ''iss'' = Some i)
      \<and> (\<forall>i. a_audience a = Some i \<longrightarrow> audience_contains p i)
      \<and> user = user_of p (a_tenant a))"

lemma judge_claims:
  assumes "judge_payload E sha a text presented f w = (Inr user, f', w')" "feed_inv E f w"
  shows "\<exists>n. claims_accepted E a text user (env_wall E n)"
    and "verify_certificate_binding (env_parse E) text presented"
    and "a_use_feed a \<Longrightarrow> opt_str (env_parse E text) ''sid'' = Some sid \<Longrightarrow> sid \<noteq> [] \<Longrightarrow>
      \<not> (\<exists>S. last_doc E (feed_request f) [] (sent w') None = Some S \<and> revocation_entry_for sha sid \<in> S)"
proof -
  from assms(1) obtain now tenant w1 where j: "now = env_wall E (ticks w)" "is_object (env_parse E text)"
    "check_exp (env_parse E text) now (a_skew a) = Inr ()" "check_nbf (env_parse E text) now (a_skew a) = Inr ()"
    "check_pins a (env_parse E text) = Inr tenant"
    "check_revoked E sha a (env_parse E text) f w1 = (Inr (), f', w')" "sent w1 = sent w"
    "verify_certificate_binding (env_parse E) text presented" "user = user_of (env_parse E text) tenant"
    by (rule judge_payload_ok)
  show "\<exists>n. claims_accepted E a text user (env_wall E n)"
    using check_exp_ok[OF j(3)] check_nbf_ok[OF j(4)] check_pins_ok[OF j(5)] j(1,2,9)
    by (intro exI[of _ "ticks w"]) (auto simp: claims_accepted_def Let_def)
  show "verify_certificate_binding (env_parse E) text presented" by (rule j(8))
  have "feed_inv E f w1" using assms(2) j(7) by (simp add: feed_inv_def)
  from check_revoked_ok[OF j(6) this]
  show "a_use_feed a \<Longrightarrow> opt_str (env_parse E text) ''sid'' = Some sid \<Longrightarrow> sid \<noteq> [] \<Longrightarrow>
      \<not> (\<exists>S. last_doc E (feed_request f) [] (sent w') None = Some S \<and> revocation_entry_for sha sid \<in> S)" .
qed

lemma jwks_not_feed:
  "verify_with_reason E ed token v w = (r, v', w1) \<Longrightarrow> \<exists>n. sent w1 = sent w @ replicate n (jwks_request v)"
proof (erule verify_cases)
  fix i lk assume "lookup_key E i v w = (lk, v', w1)"
  from lookup_key_requests(2)[OF this] show "\<exists>n. sent w1 = sent w @ replicate n (jwks_request v)" by blast
qed (auto intro: exI[of _ 0])

text \<open>The two endpoints differ, so fetching keys leaves the feed's last document alone.\<close>

lemma jwks_feed_differ: "feed_url f \<noteq> v_base_url v @ ''/oauth2/jwks'' \<Longrightarrow> jwks_request v \<noteq> feed_request f"
  by (auto simp: jwks_request_def feed_request_def blank_request_def)

lemma last_doc_other: "r \<noteq> req \<Longrightarrow> last_doc E req past (rs @ replicate n r) acc = last_doc E req past rs acc"
proof (induction n)
  case (Suc n)
  have e: "rs @ replicate (Suc n) r = (rs @ replicate n r) @ [r]" by (simp add: replicate_append_same)
  show ?case
    unfolding e last_doc_snoc using Suc by simp
qed simp

section \<open>Properties\<close>

text \<open>
  C4. An accepted token proves what the resource server needs: with the authenticator built by
  its constructor, acceptance means a signature verified by a key of this deployment, expiry no
  more than the configured leeway (at most 60 seconds) in the past, a reached \<open>nbf\<close>, the
  configured tenant and nothing else, the pinned issuer and audience when pinned, a session the
  feed's last usable document does not list, and a satisfied sender constraint; the identity
  returned is read from that payload.
\<close>

theorem authenticate_sound:
  assumes "authenticator_new tenant skew issuer audience use_feed metadata = Inr a"
    and "authenticate_checked E ed sha a token presented s w = (Inr user, s', w')"
    and "feed_inv E (sv_feed s) w" "feed_url (sv_feed s) \<noteq> v_base_url (sv_verifier s) @ ''/oauth2/jwks''"
  shows "0 \<le> a_skew a \<and> a_skew a \<le> 60 \<and> a_tenant a = tenant \<and> a_issuer a = issuer \<and> a_audience a = audience
    \<and> (\<exists>text v w1 n. verify_with_reason E ed token (sv_verifier s) w = (Inr (Verified text), v, w1)
         \<and> claims_accepted E a text user (env_wall E n)
         \<and> verify_certificate_binding (env_parse E) text presented
         \<and> (\<forall>sid S. use_feed \<longrightarrow> opt_str (env_parse E text) ''sid'' = Some sid \<longrightarrow> sid \<noteq> [] \<longrightarrow>
              last_doc E (feed_request (sv_feed s)) [] (sent w') None = Some S \<longrightarrow> revocation_entry_for sha sid \<notin> S))"
proof -
  have conf: "0 \<le> a_skew a" "a_skew a \<le> 60" "a_tenant a = tenant" "a_issuer a = issuer" "a_audience a = audience"
    "a_use_feed a = use_feed"
    using assms(1) by (auto simp: authenticator_new_def and_then_eq_Inr kMaxClockSkew_def split: if_splits)
  from assms(2) obtain pl v w1 f' where v: "verify_with_reason E ed token (sv_verifier s) w = (Inr (Verified pl), v, w1)"
    "judge_payload E sha a pl presented (sv_feed s) w1 = (Inr user, f', w')"
    by (rule authenticate_checked_ok)
  from jwks_not_feed[OF v(1)] obtain k where "sent w1 = sent w @ replicate k (jwks_request (sv_verifier s))" by blast
  with last_doc_other[OF jwks_feed_differ[OF assms(4)], of E "[]" "sent w" k None] assms(3)
  have "feed_inv E (sv_feed s) w1" by (simp add: feed_inv_def)
  from judge_claims[OF v(2) this] v(1) conf show ?thesis by blast
qed

definition demo_claims :: json where
  "demo_claims = JObj [(''exp'', JInt 1010), (''tenant_id'', JStr ''t1''), (''sub'', JStr ''u1'')]"

definition demo_server :: server where
  "demo_server = \<lparr>sv_verifier = demo_verifier, sv_feed = feed_new ''https://a'' 30\<rparr>"

definition demo_auth :: authenticator where
  "demo_auth = \<lparr>a_tenant = ''t1'', a_skew = 30, a_issuer = None, a_audience = None, a_use_feed = True, a_challenges = None\<rparr>"

lemma demo_authenticated:
  "authenticate_checked (demo_env demo_claims) (\<lambda>_ _ _. True) demo_sha demo_auth demo_token None demo_server demo_world =
     (Inr \<lparr>au_user_id = ''u1'', au_tenant_id = ''t1'', au_roles = []\<rparr>,
      \<lparr>sv_verifier = demo_verifier', sv_feed = feed_new ''https://a'' 30\<rparr>, demo_world'\<lparr>ticks := 2\<rparr>)"
proof -
  have tok: "demo_token \<noteq> []" using split_demo_token by (auto simp: split_jwt_def)
  have p: "env_parse (demo_env demo_claims) ''P'' = demo_claims" "env_wall (demo_env demo_claims) n = 1000" for n
    by (simp_all add: demo_env_def)
  have c: "check_exp demo_claims 1000 30 = Inr ()" "check_nbf demo_claims 1000 30 = Inr ()"
    "check_pins demo_auth demo_claims = Inr ''t1''"
    by (simp_all add: check_exp_def check_nbf_def check_pins_def read_numeric_claim_def demo_claims_def ck64_def
        fits64_def demo_auth_def opt_str_def)
  have b: "verify_certificate_binding (env_parse (demo_env demo_claims)) ''P'' None"
    by (simp add: verify_certificate_binding_def p) (simp add: demo_claims_def)
  have j: "judge_payload (demo_env demo_claims) demo_sha demo_auth ''P'' None (feed_new ''https://a'' 30) demo_world' =
      (Inr \<lparr>au_user_id = ''u1'', au_tenant_id = ''t1'', au_roles = []\<rparr>, feed_new ''https://a'' 30, demo_world'\<lparr>ticks := 2\<rparr>)"
  proof -
    have r: "check_revoked (demo_env demo_claims) demo_sha demo_auth demo_claims f w = (Inr (), f, w)" for f w
    proof -
      have "opt_str demo_claims ''sid'' = None" by (simp add: opt_str_def demo_claims_def)
      then show ?thesis by (simp add: check_revoked_def split: bool.split)
    qed
    have u: "user_of demo_claims ''t1'' = \<lparr>au_user_id = ''u1'', au_tenant_id = ''t1'', au_roles = []\<rparr>"
      "\<not> is_discarded demo_claims" "is_object demo_claims" "a_skew demo_auth = 30"
      by (simp_all add: demo_claims_def demo_auth_def user_of_def opt_str_def)
    show ?thesis using c b r u by (simp add: judge_payload_def p wall_now_def demo_world'_def)
  qed
  show ?thesis
    using tok j
    by (simp add: authenticate_checked_def verify_signature_only_unchecked_def demo_server_def demo_verified)
qed

lemma authenticate_sound_witness:
  "\<exists>text v w1. verify_with_reason (demo_env demo_claims) (\<lambda>_ _ _. True) demo_token demo_verifier demo_world =
       (Inr (Verified text), v, w1)
     \<and> verify_certificate_binding (env_parse (demo_env demo_claims)) text None"
proof -
  have n: "authenticator_new ''t1'' 30 None None True None = Inr demo_auth"
    by (simp add: authenticator_new_def kMaxClockSkew_def demo_auth_def)
  have i: "feed_inv (demo_env demo_claims) (sv_feed demo_server) demo_world"
    by (simp add: feed_inv_def demo_server_def feed_new_def demo_world_def)
  have d: "feed_url (sv_feed demo_server) \<noteq> v_base_url (sv_verifier demo_server) @ ''/oauth2/jwks''"
    by (simp add: demo_server_def feed_new_def demo_verifier_def verifier_new_def strip_trailing_slash_def)
  from authenticate_sound[OF n demo_authenticated i d] show ?thesis by (auto simp: demo_server_def)
qed

text \<open>
  The plain entry point never takes a bound token for a bearer token: a token it accepts has
  no confirmation claim at all, or a null one.
\<close>

theorem authenticate_refuses_bound_tokens:
  assumes "authenticate E ed sha a token s w = (Inr user, s', w')"
  shows "\<exists>text v w1. verify_with_reason E ed token (sv_verifier s) w = (Inr (Verified text), v, w1)
    \<and> jfind (env_parse E text) ''cnf'' \<in> {None, Some JNull}"
proof -
  from assms[unfolded authenticate_def] obtain pl v w1 f' where
    v: "verify_with_reason E ed token (sv_verifier s) w = (Inr (Verified pl), v, w1)"
      "judge_payload E sha a pl None (sv_feed s) w1 = (Inr user, f', w')"
    by (rule authenticate_checked_ok)
  from v(2) have "verify_certificate_binding (env_parse E) pl None" by (rule judge_payload_ok)
  with v(1) show ?thesis by (auto simp: binding_iff)
qed

lemma authenticate_refuses_bound_tokens_witness:
  "\<exists>text v w1. verify_with_reason (demo_env demo_claims) (\<lambda>_ _ _. True) demo_token demo_verifier demo_world =
       (Inr (Verified text), v, w1) \<and> jfind (env_parse (demo_env demo_claims) text) ''cnf'' \<in> {None, Some JNull}"
  using authenticate_refuses_bound_tokens[OF demo_authenticated[folded authenticate_def]]
  by (auto simp: demo_server_def)

text \<open>
  A token whose header decodes to JSON that is not an object (an array, a number, a string)
  is not refused but leaves the non-throwing entry point as the JSON library's own exception,
  which is outside the SDK's taxonomy: nobody has to sign anything for it.
\<close>

theorem malformed_header_escapes:
  assumes "split_jwt token = Some (h, p, sg)" "base64url_decode h = Some hj"
    and "\<not> is_discarded (env_parse E hj)" "\<not> is_object (env_parse E hj)"
  shows "try_authenticate E ed sha a token s w = (Inl JsonTypeError, s, w) \<and> \<not> is_axiam_error JsonTypeError"
proof -
  have "token \<noteq> []" using assms(1) by (auto simp: split_jwt_def)
  moreover have "verify_with_reason E ed token (sv_verifier s) w = (Inl JsonTypeError, sv_verifier s, w)"
    using assms by (simp add: verify_with_reason_def jvalue_non_object)
  ultimately show ?thesis
    by (simp add: try_authenticate_def authenticate_def authenticate_checked_def verify_signature_only_unchecked_def)
qed

definition array_header_token :: string where
  "array_header_token = b64url_encode ''K'' @ ''.'' @ b64url_encode ''P'' @ ''.'' @ b64url_encode ''s''"

lemma malformed_header_escapes_witness:
  "try_authenticate ((demo_env JNull)\<lparr>env_parse := (\<lambda>_. JArr [])\<rparr>) (\<lambda>_ _ _. False) demo_sha demo_auth
     array_header_token demo_server demo_world = (Inl JsonTypeError, demo_server, demo_world)"
proof -
  have "split_jwt array_header_token = Some (b64url_encode ''K'', b64url_encode ''P'', b64url_encode ''s'')"
    unfolding array_header_token_def by (rule split_jwt_encoded) simp_all
  from malformed_header_escapes[OF this base64url_decode_encode, of "(demo_env JNull)\<lparr>env_parse := (\<lambda>_. JArr [])\<rparr>"]
  show ?thesis by simp
qed

end
