(* ===== verification/Effects.thy ===== *)
theory Effects
  imports Types "HOL-Library.List_Lexorder" "HOL-Library.Char_ord"
begin

text \<open>
  Operations that may throw and change the client's state, as functions from a state to a
  result and the state left behind: a C++ exception does not undo what was written before it
  was thrown, so the state comes back on both branches. With them, the reasoning the client
  theories share: what every operation of a program keeps (\<open>keeps\<close>, for any reflexive and
  transitive relation), and how many requests it sends (\<open>sends\<close>). The request bodies, which
  are objects of the JSON library and so ordered by key, are built with \<open>jset\<close>.
\<close>

named_theorems op_simps \<open>running an operation on a state\<close>
named_theorems keeps_intros \<open>composition of relations every step keeps\<close>
named_theorems sends_intros \<open>composition of request bounds\<close>

section \<open>Operations\<close>

type_synonym ('s, 'a) op = "'s \<Rightarrow> 'a res \<times> 's"

definition ret :: "'a \<Rightarrow> ('s, 'a) op" where "ret x = (\<lambda>s. (Inr x, s))"
definition raise :: "error \<Rightarrow> ('s, 'a) op" where "raise e = (\<lambda>s. (Inl e, s))"
definition lift_res :: "'a res \<Rightarrow> ('s, 'a) op" where "lift_res r = (\<lambda>s. (r, s))"
definition gets :: "('s \<Rightarrow> 'a) \<Rightarrow> ('s, 'a) op" where "gets f = (\<lambda>s. (Inr (f s), s))"
definition modify :: "('s \<Rightarrow> 's) \<Rightarrow> ('s, unit) op" where "modify f = (\<lambda>s. (Inr (), f s))"
definition reading :: "('s \<Rightarrow> 'a \<times> 's) \<Rightarrow> ('s, 'a) op" where
  "reading f = (\<lambda>s. (Inr (fst (f s)), snd (f s)))"

definition seq :: "('s, 'a) op \<Rightarrow> ('a \<Rightarrow> ('s, 'b) op) \<Rightarrow> ('s, 'b) op" where
  "seq m k = (\<lambda>s. case m s of (Inl e, s') \<Rightarrow> (Inl e, s') | (Inr x, s') \<Rightarrow> k x s')"

text \<open>\<open>try { m } catch (const E&) { h }\<close>, the class \<open>E\<close> as a predicate.\<close>

definition catching :: "('s, 'a) op \<Rightarrow> (error \<Rightarrow> bool) \<Rightarrow> (error \<Rightarrow> ('s, 'a) op) \<Rightarrow> ('s, 'a) op" where
  "catching m P h = (\<lambda>s. case m s of
     (Inl e, s') \<Rightarrow> (if P e then h e s' else (Inl e, s'))
   | (Inr x, s') \<Rightarrow> (Inr x, s'))"

definition require :: "bool \<Rightarrow> error \<Rightarrow> ('s, unit) op" where
  "require c e = (if c then ret () else raise e)"

lemma op_runs [op_simps]:
  "ret x s = (Inr x, s)" "raise e s = (Inl e, s)" "lift_res r s = (r, s)"
  "gets f s = (Inr (f s), s)" "modify g s = (Inr (), g s)" "reading h s = (Inr (fst (h s)), snd (h s))"
  "require c e s = (if c then (Inr (), s) else (Inl e, s))"
  by (simp_all add: ret_def raise_def lift_res_def gets_def modify_def reading_def require_def)

lemma seq_run [op_simps]:
  "seq m k s = (case m s of (Inl e, s') \<Rightarrow> (Inl e, s') | (Inr x, s') \<Rightarrow> k x s')"
  by (simp add: seq_def)

lemma catching_run [op_simps]:
  "catching m P h s = (case m s of
     (Inl e, s') \<Rightarrow> (if P e then h e s' else (Inl e, s'))
   | (Inr x, s') \<Rightarrow> (Inr x, s'))"
  by (simp add: catching_def)

lemma seq_laws:
  "seq (ret x) k = k x" "seq m ret = m" "seq (raise e) k = raise e"
  "seq (seq m k) l = seq m (\<lambda>x. seq (k x) l)"
  by (auto simp: fun_eq_iff op_simps split: prod.splits sum.splits)

lemma seq_eq_Inr:
  "seq m k s = (Inr y, t) \<longleftrightarrow> (\<exists>x s'. m s = (Inr x, s') \<and> k x s' = (Inr y, t))"
  by (auto simp: seq_def split: prod.splits sum.splits)

lemma seq_eq_Inl:
  "seq m k s = (Inl e, t) \<longleftrightarrow>
     m s = (Inl e, t) \<or> (\<exists>x s'. m s = (Inr x, s') \<and> k x s' = (Inl e, t))"
  by (auto simp: seq_def split: prod.splits sum.splits)

section \<open>What every step keeps\<close>

definition keeps :: "('s \<Rightarrow> 's \<Rightarrow> bool) \<Rightarrow> ('s, 'a) op \<Rightarrow> bool" where
  "keeps R m = (\<forall>s. R s (snd (m s)))"

lemma keepsI: "(\<And>s. R s (snd (m s))) \<Longrightarrow> keeps R m"
  by (simp add: keeps_def)

lemma keepsD: "keeps R m \<Longrightarrow> R s (snd (m s))"
  by (simp add: keeps_def)

lemma keeps_run: "keeps R m \<Longrightarrow> m s = (r, t) \<Longrightarrow> R s t"
  using keepsD[of R m s] by simp

text \<open>The interface: any reflexive and transitive relation between states.\<close>

locale kept =
  fixes R :: "'s \<Rightarrow> 's \<Rightarrow> bool"
  assumes refl: "R s s"
    and trans: "R s t \<Longrightarrow> R t u \<Longrightarrow> R s u"
begin

lemma pure: "keeps R (ret x)" "keeps R (raise e)" "keeps R (lift_res r)" "keeps R (gets f)"
  "keeps R (require c e)"
  by (auto intro!: keepsI simp: op_simps refl)

lemma step: "(\<And>s. R s (f s)) \<Longrightarrow> keeps R (modify f)"
  by (rule keepsI) (simp add: op_simps)

lemma read_step: "(\<And>s. R s (snd (f s))) \<Longrightarrow> keeps R (reading f)"
  by (rule keepsI) (simp add: op_simps)

lemma seq:
  assumes "keeps R m" "\<And>x. keeps R (k x)"
  shows "keeps R (seq m k)"
proof (rule keepsI)
  fix s
  obtain r t where m: "m s = (r, t)" by fastforce
  show "R s (snd (seq m k s))"
    using keeps_run[OF assms(1) m] keepsD[OF assms(2), where s = t] m
    by (cases r) (auto simp: op_simps intro: trans)
qed

lemma catching:
  assumes "keeps R m" "\<And>e. keeps R (h e)"
  shows "keeps R (catching m P h)"
proof (rule keepsI)
  fix s
  obtain r t where m: "m s = (r, t)" by fastforce
  show "R s (snd (catching m P h s))"
    using keeps_run[OF assms(1) m] keepsD[OF assms(2), where s = t] m
    by (cases r) (auto simp: op_simps intro: trans)
qed

lemma branch: "keeps R m \<Longrightarrow> keeps R m' \<Longrightarrow> keeps R (if c then m else m')"
  by simp

lemma on_option: "keeps R m \<Longrightarrow> (\<And>x. keeps R (k x)) \<Longrightarrow> keeps R (case v of None \<Rightarrow> m | Some x \<Rightarrow> k x)"
  by (cases v) auto

lemmas rules = pure step read_step seq catching branch on_option

end

section \<open>How many requests\<close>

definition sends :: "nat \<Rightarrow> ('w world_scheme, 'a) op \<Rightarrow> bool" where
  "sends n m = (\<forall>s. \<exists>xs. sent (snd (m s)) = sent s @ xs \<and> length xs \<le> n)"

lemma sendsI: "(\<And>s. \<exists>xs. sent (snd (m s)) = sent s @ xs \<and> length xs \<le> n) \<Longrightarrow> sends n m"
  by (simp add: sends_def)

lemma sendsD: "sends n m \<Longrightarrow> \<exists>xs. sent (snd (m s)) = sent s @ xs \<and> length xs \<le> n"
  by (simp add: sends_def)

lemma sends_mono: "sends n m \<Longrightarrow> n \<le> n' \<Longrightarrow> sends n' m"
  by (fastforce simp: sends_def)

lemma sends_0: "sends 0 m \<Longrightarrow> sent (snd (m s)) = sent s"
  using sendsD[of 0 m s] by simp

lemma sends_run: "sends n m \<Longrightarrow> m s = (r, t) \<Longrightarrow> \<exists>xs. sent t = sent s @ xs \<and> length xs \<le> n"
  using sendsD[of n m s] by simp

lemma sends_pure [sends_intros]:
  "sends n (ret x)" "sends n (raise e)" "sends n (lift_res r)" "sends n (gets f)" "sends n (require c e)"
  by (auto intro!: sendsI simp: op_simps)

lemma sends_modify: "(\<And>s. sent (f s) = sent s) \<Longrightarrow> sends 0 (modify f)"
  by (auto intro!: sendsI simp: op_simps)

lemma sends_reading: "(\<And>s. sent (snd (f s)) = sent s) \<Longrightarrow> sends 0 (reading f)"
  by (auto intro!: sendsI simp: op_simps)

lemma sends_seq:
  assumes "sends a m" "\<And>x. sends b (k x)"
  shows "sends (a + b) (seq m k)"
proof (rule sendsI)
  fix s
  obtain r t where m: "m s = (r, t)" by fastforce
  from sends_run[OF assms(1) m] obtain xs where xs: "sent t = sent s @ xs" "length xs \<le> a" by blast
  show "\<exists>xs. sent (snd (seq m k s)) = sent s @ xs \<and> length xs \<le> a + b"
  proof (cases r)
    case (Inl e)
    with m xs show ?thesis by (simp add: op_simps trans_le_add1)
  next
    case (Inr x)
    from sendsD[OF assms(2), where s = t] obtain ys where "sent (snd (k x t)) = sent t @ ys" "length ys \<le> b"
      by blast
    with m Inr xs show ?thesis by (intro exI[of _ "xs @ ys"]) (simp add: op_simps)
  qed
qed

lemma sends_catching:
  assumes "sends a m" "\<And>e. sends b (h e)"
  shows "sends (a + b) (catching m P h)"
proof (rule sendsI)
  fix s
  obtain r t where m: "m s = (r, t)" by fastforce
  from sends_run[OF assms(1) m] obtain xs where xs: "sent t = sent s @ xs" "length xs \<le> a" by blast
  show "\<exists>xs. sent (snd (catching m P h s)) = sent s @ xs \<and> length xs \<le> a + b"
  proof (cases "\<exists>e. r = Inl e \<and> P e")
    case False
    with m xs show ?thesis by (cases r) (auto simp: op_simps)
  next
    case True
    then obtain e where e: "r = Inl e" "P e" by blast
    from sendsD[OF assms(2), where s = t] obtain ys where "sent (snd (h e t)) = sent t @ ys" "length ys \<le> b"
      by blast
    with m e xs show ?thesis by (intro exI[of _ "xs @ ys"]) (simp add: op_simps)
  qed
qed

section \<open>Bounded repetition\<close>

text \<open>
  \<open>for (int attempt = 1;; ++attempt)\<close> around one request: while the budget allows and the
  outcome is worth another attempt, pause and repeat; otherwise conclude. The recursion ends
  because the budget does not change and the attempt counts up to it.
\<close>

function retry_loop ::
    "(nat \<Rightarrow> ('s, 'r) op) \<Rightarrow> ('r \<Rightarrow> bool) \<Rightarrow> (nat \<Rightarrow> 'r \<Rightarrow> ('s, unit) op) \<Rightarrow> (nat \<Rightarrow> 'r \<Rightarrow> ('s, 'a) op) \<Rightarrow>
     nat \<Rightarrow> nat \<Rightarrow> ('s, 'a) op" where
  "retry_loop once again pause conclude budget attempt =
     seq (once attempt) (\<lambda>r.
     if attempt < budget \<and> again r
     then seq (pause attempt r) (\<lambda>_. retry_loop once again pause conclude budget (attempt + 1))
     else conclude attempt r)"
  by pat_completeness auto
termination by (relation "measure (\<lambda>(_, _, _, _, budget, attempt). budget - attempt)") auto

declare retry_loop.simps [simp del]

context kept
begin

lemma repeat:
  assumes "\<And>k. keeps R (once k)" "\<And>k r. keeps R (pause k r)" "\<And>k r. keeps R (conclude k r)"
  shows "keeps R (retry_loop once again pause conclude budget attempt)"
proof (induction "budget - attempt" arbitrary: attempt)
  case 0
  then have "\<not> attempt < budget" by simp
  then show ?case by (subst retry_loop.simps) (simp add: seq assms)
next
  case (Suc n)
  then have "keeps R (retry_loop once again pause conclude budget (attempt + 1))" by simp
  then show ?case by (subst retry_loop.simps) (intro seq branch assms)
qed

end

lemma sends_retry_loop:
  assumes "\<And>k. sends 1 (once k)" "\<And>k r. sends 0 (pause k r)" "\<And>k r. sends 0 (conclude k r)"
    and "attempt \<le> budget"
  shows "sends (budget - attempt + 1) (retry_loop once again pause conclude budget attempt)"
  using assms(4)
proof (induction "budget - attempt" arbitrary: attempt)
  case 0
  have "sends (1 + 0) (seq (once attempt) (conclude attempt))"
    by (rule sends_seq) (rule assms)+
  with 0 show ?case by (subst retry_loop.simps) simp
next
  case (Suc n)
  from Suc(2) have n: "n = budget - (attempt + 1)" "attempt + 1 \<le> budget" by simp_all
  have l: "sends (n + 1) (retry_loop once again pause conclude budget (attempt + 1))"
    using Suc(1)[OF n] n(1) by simp
  have "sends (0 + (n + 1)) (seq (pause attempt r) (\<lambda>_. retry_loop once again pause conclude budget (attempt + 1)))" for r
    by (rule sends_seq) (rule assms l)+
  then have "sends (n + 1) (if attempt < budget \<and> again r
      then seq (pause attempt r) (\<lambda>_. retry_loop once again pause conclude budget (attempt + 1)) else conclude attempt r)" for r
    using sends_mono[OF assms(3), of "n + 1"] by simp
  from sends_seq[OF assms(1) this] Suc(2) show ?case by (subst retry_loop.simps) simp
qed

section \<open>Request bodies\<close>

text \<open>
  \<open>body[k] = v\<close> on an object of the JSON library, whose members are a \<open>std::map\<close>: kept in
  the order of their keys. A default-constructed \<open>json\<close> becomes an object on the first
  assignment; on any other kind \<open>operator[]\<close> is a type error.
\<close>

fun put_key :: "string \<Rightarrow> 'v \<Rightarrow> (string \<times> 'v) list \<Rightarrow> (string \<times> 'v) list" where
  "put_key k v [] = [(k, v)]"
| "put_key k v ((k', v') # m) =
     (if k = k' then (k, v) # m else if k < k' then (k, v) # (k', v') # m else (k', v') # put_key k v m)"

fun jset :: "string \<Rightarrow> json \<Rightarrow> json \<Rightarrow> json" where
  "jset k v (JObj kvs) = JObj (put_key k v kvs)"
| "jset k v JNull = JObj [(k, v)]"
| "jset k v j = j"

definition jset_opt :: "string \<Rightarrow> string option \<Rightarrow> json \<Rightarrow> json" where
  "jset_opt k v j = (case v of None \<Rightarrow> j | Some s \<Rightarrow> jset k (JStr s) j)"

lemma map_of_put_key [simp]: "map_of (put_key k v m) = (map_of m)(k \<mapsto> v)"
  by (induction m rule: put_key.induct) (auto simp: fun_eq_iff)

lemma keys_put_key: "fst ` set (put_key k v m) = insert k (fst ` set m)"
  by (induction m rule: put_key.induct) auto

lemma sorted_put_key:
  "sorted (map fst m) \<Longrightarrow> distinct (map fst m) \<Longrightarrow>
     sorted (map fst (put_key k v m)) \<and> distinct (map fst (put_key k v m))"
proof (induction m)
  case (Cons kv m)
  obtain k' v' where [simp]: "kv = (k', v')" by fastforce
  have "fst ` set (put_key k v m) = insert k (fst ` set m)" by (rule keys_put_key)
  with Cons show ?case by (auto 4 3 simp: image_iff)
qed simp

fun body_ok :: "json \<Rightarrow> bool" where
  "body_ok JNull = True"
| "body_ok (JObj kvs) = (sorted (map fst kvs) \<and> distinct (map fst kvs))"
| "body_ok _ = False"

lemma body_ok_jset: "body_ok j \<Longrightarrow> body_ok (jset k v j) \<and> is_object (jset k v j)"
  by (cases j) (auto simp: sorted_put_key)

lemma jfind_jset: "body_ok j \<Longrightarrow> jfind (jset k v j) k' = (if k' = k then Some v else jfind j k')"
  by (cases j) auto

end
