(* ===== verification/ClientImpl.thy ===== *)
theory ClientImpl
  imports Effects Retry DecisionMemo Jwks
begin

text \<open>
  \<open>src/client_impl.hpp\<close>: the state shared by every copy of one built client and the request
  core every operation goes through. The client record extends the history of the
  environment, so one state carries what was sent, the telemetry reported and the waits slept.
  An operation is sequential here; what concurrent callers of the refresh guard may do is the
  subject of \<open>RefreshGuard\<close>, and a sequential caller of the guard always leads.
\<close>

section \<open>State\<close>

record uma_configuration =
  issuer :: string
  token_endpoint :: string
  permission_endpoint :: string
  resource_registration_endpoint :: string
  permission_ticket_lifetime :: "int option"

record client_env = env +
  env_jitter :: "nat \<Rightarrow> double"
  env_http_date :: "string \<Rightarrow> int option"

record client = world +
  base_url :: string
  tenant_header :: string
  c_tenant_slug :: "string option"
  c_tenant_id :: "string option"
  c_org_slug :: "string option"
  c_org_id :: "string option"
  presents_client_certificate :: bool
  retry_enabled :: bool
  hook_set :: bool
  oidc_client_id :: "string option"
  oidc_client_secret :: "string option"
  oidc_discovery_ttl :: int
  oidc_clock_skew :: int
  csrf :: string
  session :: bool
  resolved_tenant_id :: "string option"
  resolved_org_id :: "string option"
  acting_tenant :: "string option"
  login_user_info :: "user_info option"
  device_access :: string
  device_session :: bool
  c_principal_tenant_id :: "string option"
  refresh_count :: nat
  decision_cache :: memo
  uma_config :: "uma_configuration option"
  uma_config_expires_at :: int
  is_closed :: bool
  transport_released :: bool
  events :: "telemetry_event list"
  waits :: "int list"

type_synonym ('w, 'a) cop = "('w client_scheme, 'a) op"

definition release_device_credential :: "'w client_scheme \<Rightarrow> 'w client_scheme" where
  "release_device_credential s = s\<lparr>device_access := [], device_session := False\<rparr>"

definition emit :: "telemetry_event \<Rightarrow> ('w, unit) cop" where
  "emit ev = modify (\<lambda>s. if hook_set s then s\<lparr>events := events s @ [ev]\<rparr> else s)"

definition ensure_open :: "('w, unit) cop" where
  "ensure_open = seq (gets is_closed) (\<lambda>c. require (\<not> c) (NetworkError ''client is closed'' ''closed''))"

section \<open>Requests and responses\<close>

definition is_state_changing :: "string \<Rightarrow> bool" where
  "is_state_changing m = (m = ''POST'' \<or> m = ''PUT'' \<or> m = ''PATCH'' \<or> m = ''DELETE'')"

definition kActingTenantHeader :: string where "kActingTenantHeader = ''X-Axiam-Tenant''"

definition json_type :: string where "json_type = ''application/json''"

definition build_request :: "string \<Rightarrow> string \<Rightarrow> string \<Rightarrow> 'w client_scheme \<Rightarrow> http_request" where
  "build_request meth path body s =
     (let h1 = hset ''Accept'' json_type (hset ''X-Tenant-ID'' (tenant_header s) no_headers);
          h2 = (if body \<noteq> [] then hset ''Content-Type'' json_type h1 else h1);
          h3 = (if is_state_changing meth \<and> csrf s \<noteq> [] then hset ''X-CSRF-Token'' (csrf s) h2 else h2);
          h4 = (case acting_tenant s of None \<Rightarrow> h3 | Some t \<Rightarrow> hset kActingTenantHeader t h3);
          dev = (device_access s \<noteq> []);
          h5 = (if dev then hset ''Authorization'' (''Bearer '' @ device_access s) h4 else h4)
      in blank_request\<lparr>req_method := meth, req_url := base_url s @ path, req_headers := h5,
           req_body := body, no_stored_cookies := dev\<rparr>)"

definition capture_csrf :: "http_response \<Rightarrow> 'w client_scheme \<Rightarrow> 'w client_scheme" where
  "capture_csrf resp s =
     (case hget (resp_headers resp) ''X-CSRF-Token'' of
        Some v \<Rightarrow> (if v \<noteq> [] then s\<lparr>csrf := v\<rparr> else s)
      | None \<Rightarrow> s)"

text \<open>
  The transport is a \<open>std::function\<close>: after \<open>close()\<close> it is empty, and calling an empty one
  throws \<open>std::bad_function_call\<close>, which is no SDK error.
\<close>

definition call_transport :: "'e env_scheme \<Rightarrow> http_request \<Rightarrow> ('w, http_response) cop" where
  "call_transport E req = (\<lambda>s. if transport_released s then (Inl Foreign, s) else transmit E req s)"

definition send_raw :: "'e env_scheme \<Rightarrow> http_request \<Rightarrow> ('w, http_response) cop" where
  "send_raw E req =
     seq (call_transport E req) (\<lambda>resp.
     seq (require (transport_error resp = [])
            (NetworkError (''transport failure: '' @ transport_error resp) (transport_error resp))) (\<lambda>_.
     seq (modify (capture_csrf resp)) (\<lambda>_. ret resp)))"

definition is_success :: "int \<Rightarrow> bool" where "is_success st = (200 \<le> st \<and> st < 300)"

definition denial_of :: "int \<Rightarrow> json \<Rightarrow> error" where
  "denial_of st j =
     (case jvalue get_str j ''message'' ''authorization denied'' of
        Inl e \<Rightarrow> e
      | Inr msg \<Rightarrow> AuthzError (msg @ '' ('' @ dec_int st @ '')'') (opt_str j ''action'') (opt_str j ''resource_id''))"

text \<open>\<open>raise_for_status\<close>: the error it throws.\<close>

definition raise_for_status :: "(string \<Rightarrow> json) \<Rightarrow> http_response \<Rightarrow> error" where
  "raise_for_status parse resp =
     (let st = status resp;
          j = parse (resp_body resp);
          obj = (if is_object j then j else JObj []);
          cat = ''http_'' @ dec_int st
      in if st = 401 then AuthError ''authentication failed (401)''
         else if st = 403 \<or> st = 409 then denial_of st obj
         else if st = 400 then NetworkError ''malformed request (400)'' ''http_400''
         else if st = 408 \<or> st = 429 then NetworkError (''timeout / rate limited ('' @ dec_int st @ '')'') cat
         else if 500 \<le> st then NetworkError (''server error ('' @ dec_int st @ '')'') cat
         else NetworkError (''unexpected HTTP status ('' @ dec_int st @ '')'') cat)"

definition fail_status :: "'e env_scheme \<Rightarrow> http_response \<Rightarrow> ('w, 'a) cop" where
  "fail_status E resp = raise (raise_for_status (env_parse E) resp)"

definition must_succeed :: "'e env_scheme \<Rightarrow> http_response \<Rightarrow> ('w, http_response) cop" where
  "must_succeed E resp = (if is_success (status resp) then ret resp else fail_status E resp)"

definition dump :: "'e env_scheme \<Rightarrow> json \<Rightarrow> ('w, string) cop" where
  "dump E j = lift_res (env_dump E j)"

definition post :: "'e env_scheme \<Rightarrow> string \<Rightarrow> string \<Rightarrow> ('w, http_response) cop" where
  "post E path body = seq (gets (build_request ''POST'' path body)) (send_raw E)"

section \<open>The refresh\<close>

definition refresh_body :: "'w client_scheme \<Rightarrow> json" where
  "refresh_body s =
     (let or_empty = (\<lambda>a b. case a of Some x \<Rightarrow> x | None \<Rightarrow> (case b of Some y \<Rightarrow> y | None \<Rightarrow> []))
      in jset ''org_id'' (JStr (or_empty (resolved_org_id s) (c_org_id s)))
           (jset ''tenant_id'' (JStr (or_empty (resolved_tenant_id s) (c_tenant_id s))) JNull))"

definition number_member :: "json \<Rightarrow> string \<Rightarrow> int \<Rightarrow> int res" where
  "number_member j k d = (case jfind j k of Some v \<Rightarrow> (if is_number v then get_int64 v else Inr d) | None \<Rightarrow> Inr d)"

text \<open>The token pair of a refresh is its one member, \<open>expires_in\<close>.\<close>

definition perform_refresh :: "'e env_scheme \<Rightarrow> ('w, int) cop" where
  "perform_refresh E =
     seq (modify (\<lambda>s. s\<lparr>refresh_count := Suc (refresh_count s)\<rparr>)) (\<lambda>_.
     seq (gets refresh_body) (\<lambda>j.
     seq (dump E j) (\<lambda>body.
     seq (post E ''/api/v1/auth/refresh'' body) (\<lambda>resp.
     seq (require (is_success (status resp))
            (AuthError (''token refresh failed ('' @ dec_int (status resp) @ '')''))) (\<lambda>_.
     lift_res (number_member (env_parse E (resp_body resp)) ''expires_in'' 0))))))"

definition clear_memo :: "('w, unit) cop" where
  "clear_memo = modify (\<lambda>s. s\<lparr>decision_cache := memo_clear (decision_cache s)\<rparr>)"

definition do_single_flight_refresh :: "'e env_scheme \<Rightarrow> ('w, int) cop" where
  "do_single_flight_refresh E =
     seq (gets refresh_count) (\<lambda>before.
     seq (perform_refresh E) (\<lambda>tp.
     seq clear_memo (\<lambda>_.
     seq (gets refresh_count) (\<lambda>now.
     seq (emit (RefreshDone (before < now))) (\<lambda>_. ret tp)))))"

definition can_refresh :: "'w client_scheme \<Rightarrow> bool" where
  "can_refresh s = (session s \<and> \<not> device_session s)"

section \<open>One request, and one request with retries\<close>

definition execute :: "'e env_scheme \<Rightarrow> string \<Rightarrow> string \<Rightarrow> string \<Rightarrow> bool \<Rightarrow> ('w, http_response) cop" where
  "execute E meth path body allow_refresh =
     seq (seq (gets (build_request meth path body)) (send_raw E)) (\<lambda>resp.
     if is_success (status resp) then ret resp
     else if status resp = 401 \<and> allow_refresh then
       seq (gets can_refresh) (\<lambda>have_session.
       if have_session then
         seq (do_single_flight_refresh E) (\<lambda>_.
         seq (seq (gets (build_request meth path body)) (send_raw E)) (must_succeed E))
       else fail_status E resp)
     else fail_status E resp)"

definition outcome_of :: "int option \<Rightarrow> telemetry_outcome" where
  "outcome_of st = (case st of Some x \<Rightarrow> (if is_success x then Success else Failure) | None \<Rightarrow> Failure)"

text \<open>One attempt: the pair of events around it, a \<open>NetworkError\<close> held rather than thrown.\<close>

definition answered :: "http_response res \<Rightarrow> int option" where
  "answered r = (case r of Inl _ \<Rightarrow> None | Inr resp \<Rightarrow> Some (status resp))"

definition held_send :: "'e env_scheme \<Rightarrow> string \<Rightarrow> string \<Rightarrow> ('w, http_response res) cop" where
  "held_send E path body =
     catching
       (seq (gets (build_request ''POST'' path body)) (\<lambda>req.
        seq (send_raw E (req\<lparr>replayable := True\<rparr>)) (\<lambda>resp. ret (Inr resp))))
       is_network_error (\<lambda>e. ret (Inl e))"

definition one_attempt :: "'e env_scheme \<Rightarrow> string \<Rightarrow> string \<Rightarrow> string \<Rightarrow> nat \<Rightarrow> ('w, http_response res) cop" where
  "one_attempt E op path body attempt =
     seq (emit (RequestStart op ''POST'' path attempt)) (\<lambda>_.
     seq (held_send E path body) (\<lambda>r.
     seq (emit (RequestEnd op ''POST'' path attempt (answered r) (outcome_of (answered r)))) (\<lambda>_.
     ret r)))"

definition retry_reason :: "int option \<Rightarrow> string" where
  "retry_reason st = (case st of Some x \<Rightarrow> ''HTTP '' @ dec_int x | None \<Rightarrow> ''transport failure'')"

definition draw_jitter :: "'e client_env_scheme \<Rightarrow> ('w, double) cop" where
  "draw_jitter E = reading (\<lambda>s. (env_jitter E (ticks s), s\<lparr>ticks := Suc (ticks s)\<rparr>))"

definition wait_hint :: "'e client_env_scheme \<Rightarrow> http_response res \<Rightarrow> ('w, int option) cop" where
  "wait_hint E r =
     (case r of
        Inl _ \<Rightarrow> ret None
      | Inr resp \<Rightarrow>
          (case hget (resp_headers resp) ''Retry-After'' of
             None \<Rightarrow> ret None
           | Some v \<Rightarrow> seq (reading (wall_now E)) (\<lambda>now. ret (retry_after_from_header (env_http_date E) v now))))"

definition back_off :: "'e client_env_scheme \<Rightarrow> string \<Rightarrow> nat \<Rightarrow> http_response res \<Rightarrow> ('w, unit) cop" where
  "back_off E op attempt r =
     seq (wait_hint E r) (\<lambda>hint.
     seq (draw_jitter E) (\<lambda>fraction.
     let d = retry_delay (int attempt) hint fraction in
     seq (emit (RetryWait op attempt d (retry_reason (answered r)))) (\<lambda>_.
     modify (\<lambda>s. s\<lparr>waits := waits s @ [d]\<rparr>))))"

text \<open>The one attempt after a refresh: its start is reported before the request is sent.\<close>

definition after_refresh :: "'e env_scheme \<Rightarrow> string \<Rightarrow> string \<Rightarrow> string \<Rightarrow> nat \<Rightarrow> ('w, http_response) cop" where
  "after_refresh E op path body attempt =
     seq (emit (RequestStart op ''POST'' path attempt)) (\<lambda>_.
     seq (post E path body) (\<lambda>resp.
     seq (emit (RequestEnd op ''POST'' path attempt (Some (status resp)) (outcome_of (Some (status resp))))) (\<lambda>_.
     must_succeed E resp)))"

definition conclude :: "'e env_scheme \<Rightarrow> string \<Rightarrow> string \<Rightarrow> string \<Rightarrow> nat \<Rightarrow> http_response res \<Rightarrow> ('w, http_response) cop" where
  "conclude E op path body attempt r =
     (case r of
        Inl e \<Rightarrow> raise e
      | Inr resp \<Rightarrow>
          (if is_success (status resp) then ret resp
           else if status resp = 401 then
             seq (gets can_refresh) (\<lambda>have_session.
             if have_session then
               seq (do_single_flight_refresh E) (\<lambda>_. after_refresh E op path body (attempt + 1))
             else fail_status E resp)
           else fail_status E resp))"

function attempts :: "'e client_env_scheme \<Rightarrow> string \<Rightarrow> string \<Rightarrow> string \<Rightarrow> nat \<Rightarrow> nat \<Rightarrow> ('w, http_response) cop" where
  "attempts E op path body budget attempt =
     seq (one_attempt E op path body attempt) (\<lambda>r.
     if attempt < budget \<and> retry_should_retry (answered r) then
       seq (back_off E op attempt r) (\<lambda>_. attempts E op path body budget (attempt + 1))
     else conclude E op path body attempt r)"
  by pat_completeness auto
termination by (relation "measure (\<lambda>(_, _, _, _, budget, attempt). budget - attempt)") auto

declare attempts.simps [simp del]

definition execute_retrying :: "'e client_env_scheme \<Rightarrow> string \<Rightarrow> string \<Rightarrow> string \<Rightarrow> ('w, http_response) cop" where
  "execute_retrying E op path body =
     seq (gets (\<lambda>s. if retry_enabled s then kRetryMaxAttempts else 1)) (\<lambda>budget.
     attempts E op path body budget 1)"


section \<open>What every step of the core keeps\<close>

text \<open>
  \<open>core_step\<close>: the configuration and the acting tenant stay, every request added carries both
  tenants and goes to the client's base URL, one that carries an \<open>Authorization\<close> header withholds the stored
  cookies, and the decision memo only loses entries.
\<close>

definition same_config :: "'w client_scheme \<Rightarrow> 'w client_scheme \<Rightarrow> bool" where
  "same_config s t \<longleftrightarrow>
     base_url t = base_url s \<and> tenant_header t = tenant_header s \<and> c_tenant_slug t = c_tenant_slug s
     \<and> c_tenant_id t = c_tenant_id s \<and> c_org_slug t = c_org_slug s \<and> c_org_id t = c_org_id s
     \<and> presents_client_certificate t = presents_client_certificate s
     \<and> retry_enabled t = retry_enabled s \<and> hook_set t = hook_set s \<and> acting_tenant t = acting_tenant s"

definition carries_tenant :: "'w client_scheme \<Rightarrow> http_request \<Rightarrow> bool" where
  "carries_tenant s r \<longleftrightarrow>
     prefix (base_url s) (req_url r) \<and> hget (req_headers r) ''X-Tenant-ID'' = Some (tenant_header s)
     \<and> hget (req_headers r) kActingTenantHeader = acting_tenant s
     \<and> (hget (req_headers r) ''Authorization'' \<noteq> None \<longrightarrow> no_stored_cookies r)"

definition memo_shrinks :: "memo \<Rightarrow> memo \<Rightarrow> bool" where
  "memo_shrinks m m' \<longleftrightarrow> ttl m' = ttl m \<and> entries m' \<subseteq>\<^sub>m entries m \<and> (memo_inv m \<longrightarrow> memo_inv m')"

definition core_step :: "'w client_scheme \<Rightarrow> 'w client_scheme \<Rightarrow> bool" where
  "core_step s t \<longleftrightarrow>
     same_config s t \<and> memo_shrinks (decision_cache s) (decision_cache t)
     \<and> (\<exists>xs. sent t = sent s @ xs \<and> (\<forall>r\<in>set xs. carries_tenant s r))"

lemma memo_shrinks_refl: "memo_shrinks m m"
  by (simp add: memo_shrinks_def)

lemma memo_shrinks_trans: "memo_shrinks a b \<Longrightarrow> memo_shrinks b c \<Longrightarrow> memo_shrinks a c"
  by (auto simp: memo_shrinks_def intro: map_le_trans)

lemma memo_shrinks_clear: "memo_shrinks m (memo_clear m)"
  by (auto simp: memo_shrinks_def memo_clear_def memo_inv_clear[unfolded memo_clear_def] memo_inv_def)

lemma carries_same_config: "same_config s t \<Longrightarrow> carries_tenant t r \<longleftrightarrow> carries_tenant s r"
  by (simp add: same_config_def carries_tenant_def)

interpretation core: kept core_step
proof
  fix s :: "'w client_scheme"
  show "core_step s s" by (simp add: core_step_def same_config_def memo_shrinks_refl)
next
  fix s t u :: "'w client_scheme"
  assume a: "core_step s t" and b: "core_step t u"
  from a obtain xs where xs: "sent t = sent s @ xs" "\<forall>r\<in>set xs. carries_tenant s r"
    by (auto simp: core_step_def)
  from b obtain ys where ys: "sent u = sent t @ ys" "\<forall>r\<in>set ys. carries_tenant t r"
    by (auto simp: core_step_def)
  have c: "same_config s t" "same_config t u" using a b by (simp_all add: core_step_def)
  have "\<forall>r\<in>set (xs @ ys). carries_tenant s r"
    using xs(2) ys(2) carries_same_config[OF c(1)] by auto
  moreover have "same_config s u" using c by (simp add: same_config_def)
  moreover have "memo_shrinks (decision_cache s) (decision_cache u)"
    using a b memo_shrinks_trans by (auto simp: core_step_def)
  ultimately show "core_step s u" using xs(1) ys(1) by (simp add: core_step_def)
qed

lemma core_step_quiet:
  "same_config s t \<Longrightarrow> decision_cache t = decision_cache s \<Longrightarrow> sent t = sent s \<Longrightarrow> core_step s t"
  by (simp add: core_step_def memo_shrinks_refl)

lemma core_modify:
  assumes "\<And>s. same_config s (f s) \<and> decision_cache (f s) = decision_cache s \<and> sent (f s) = sent s"
  shows "keeps core_step (modify f)"
  using assms core_step_quiet by (intro core.step) blast

lemma core_emit: "keeps core_step (emit ev)"
  unfolding emit_def by (rule core_modify) (simp add: same_config_def)

lemma core_clear_memo: "keeps core_step clear_memo"
  unfolding clear_memo_def
  by (rule core.step) (simp add: core_step_def same_config_def memo_shrinks_clear)

lemma core_ensure_open: "keeps core_step ensure_open"
  unfolding ensure_open_def by (intro core.rules)

lemma capture_csrf_sel [simp]:
  "same_config s (capture_csrf r s)" "decision_cache (capture_csrf r s) = decision_cache s"
  "sent (capture_csrf r s) = sent s" "session (capture_csrf r s) = session s"
  "device_session (capture_csrf r s) = device_session s" "refresh_count (capture_csrf r s) = refresh_count s"
  "events (capture_csrf r s) = events s" "waits (capture_csrf r s) = waits s"
  "hook_set (capture_csrf r s) = hook_set s" "is_closed (capture_csrf r s) = is_closed s"
  "transport_released (capture_csrf r s) = transport_released s"
  by (simp_all add: capture_csrf_def same_config_def split: option.split)

lemma build_request_carries: "carries_tenant s (build_request meth path body s)"
  by (auto simp: carries_tenant_def build_request_def Let_def blank_request_def kActingTenantHeader_def
      lower_def lower_char_def is_upper_def split: option.split)

lemma core_send:
  assumes "\<And>s. carries_tenant s (f s)"
  shows "keeps core_step (seq (gets f) (send_raw E))"
proof (rule keepsI)
  fix s
  let ?t = "snd (seq (gets f) (send_raw E) s)"
  have "same_config s ?t \<and> decision_cache ?t = decision_cache s \<and> (sent ?t = sent s \<or> sent ?t = sent s @ [f s])"
    by (auto simp: send_raw_def call_transport_def transmit_def op_simps same_config_def capture_csrf_def
        split: sum.split option.split)
  then show "core_step s ?t" using assms by (auto simp: core_step_def memo_shrinks_refl)
qed

lemma core_send_then:
  assumes "\<And>s. carries_tenant s (h (f s))" "\<And>r. keeps core_step (k r)"
  shows "keeps core_step (seq (gets f) (\<lambda>req. seq (send_raw E (h req)) k))"
proof -
  have "seq (gets f) (\<lambda>req. seq (send_raw E (h req)) k) = seq (seq (gets (\<lambda>s. h (f s))) (send_raw E)) k"
    by (simp add: fun_eq_iff op_simps)
  then show ?thesis using core.seq[OF core_send[OF assms(1)] assms(2)] by simp
qed

lemma core_post: "keeps core_step (post E path body)"
  unfolding post_def by (rule core_send) (rule build_request_carries)

lemma core_must_succeed: "keeps core_step (must_succeed E resp)"
  by (simp add: must_succeed_def fail_status_def core.pure)

lemma core_refresh: "keeps core_step (do_single_flight_refresh E)"
  unfolding do_single_flight_refresh_def perform_refresh_def dump_def
  by (intro core.rules core_post core_emit core_clear_memo core_modify) (simp add: same_config_def)

lemma core_execute: "keeps core_step (execute E meth path body allow)"
  unfolding execute_def fail_status_def
  by (intro core.rules core_send core_refresh core_must_succeed build_request_carries)

lemma core_held_send: "keeps core_step (held_send E path body)"
proof -
  have "carries_tenant s ((build_request ''POST'' path body s)\<lparr>replayable := True\<rparr>)" for s :: "'a client_scheme"
    using build_request_carries[of s] by (simp add: carries_tenant_def)
  then show ?thesis
    unfolding held_send_def by (intro core.catching core_send_then core.pure)
qed

lemma core_one_attempt: "keeps core_step (one_attempt E op path body attempt)"
  unfolding one_attempt_def by (intro core.rules core_emit core_held_send)

lemma core_back_off: "keeps core_step (back_off E op attempt r)"
  unfolding back_off_def wait_hint_def draw_jitter_def Let_def
  by (cases r) (auto intro!: core.rules core_emit core_modify core_step_quiet
      simp: same_config_def wall_now_def split: option.split)

lemma core_conclude: "keeps core_step (conclude E op path body attempt r)"
  unfolding conclude_def after_refresh_def fail_status_def
  by (cases r) (auto intro!: core.rules core_emit core_post core_refresh core_must_succeed)

lemma core_attempts: "keeps core_step (attempts E op path body budget attempt :: ('w, http_response) cop)"
proof (induction E op path body budget attempt rule: attempts.induct)
  case (1 E op path body budget attempt)
  have "keeps core_step (if attempt < budget \<and> retry_should_retry (answered r)
      then seq (back_off E op attempt r) (\<lambda>_. attempts E op path body budget (attempt + 1))
      else conclude E op path body attempt r :: ('w, http_response) cop)" for r
  proof (cases "attempt < budget \<and> retry_should_retry (answered r)")
    case True
    then show ?thesis using core.seq[OF core_back_off 1[OF True]] by auto
  next
    case False
    then show ?thesis using core_conclude by auto
  qed
  then show ?case by (subst attempts.simps) (intro core.seq core_one_attempt)
qed

lemma core_execute_retrying: "keeps core_step (execute_retrying E op path body)"
  unfolding execute_retrying_def by (intro core.rules core_attempts)

lemmas core_ops = core_emit core_clear_memo core_ensure_open core_post core_must_succeed core_refresh
  core_execute core_execute_retrying

section \<open>Requests, waits and refreshes\<close>

lemma sends_send: "sends 1 (seq (gets f) (send_raw E))"
  by (rule sendsI) (auto simp: send_raw_def call_transport_def transmit_def op_simps split: sum.split)

lemma sends_post: "sends 1 (post E path body)"
  unfolding post_def by (rule sends_send)

lemma sends_emit: "sends 0 (emit ev)"
  unfolding emit_def by (rule sends_modify) simp

lemma sends_must_succeed: "sends 0 (must_succeed E resp)"
  by (simp add: must_succeed_def fail_status_def sends_pure)

lemma sends_clear_memo: "sends 0 clear_memo"
  unfolding clear_memo_def by (rule sends_modify) simp

lemma sends_seq0:
  "sends 0 m \<Longrightarrow> (\<And>x. sends n (k x)) \<Longrightarrow> sends n (seq m k)"
  "sends n m \<Longrightarrow> (\<And>x. sends 0 (k x)) \<Longrightarrow> sends n (seq m k)"
  using sends_seq[of 0 m n k] sends_seq[of n m 0 k] by simp_all

lemma sends_ensure_open: "sends 0 ensure_open"
  unfolding ensure_open_def by (rule sends_seq0; rule sends_pure)

lemma sends_perform_refresh: "sends 1 (perform_refresh E)"
  unfolding perform_refresh_def dump_def
  by (rule sends_seq0, rule sends_modify, simp, rule sends_seq0, rule sends_pure, rule sends_seq0,
      rule sends_pure, rule sends_seq0(2), rule sends_post, rule sends_seq0; rule sends_pure)

lemma sends_refresh: "sends 1 (do_single_flight_refresh E)"
  unfolding do_single_flight_refresh_def
  by (rule sends_seq0, rule sends_pure, rule sends_seq0(2), rule sends_perform_refresh, rule sends_seq0,
      rule sends_clear_memo, rule sends_seq0, rule sends_pure, rule sends_seq0, rule sends_emit, rule sends_pure)

lemma sends_execute: "sends 3 (execute E meth path body allow :: ('w, http_response) cop)"
proof -
  let ?req = "seq (gets (build_request meth path body)) (send_raw E) :: ('w, http_response) cop"
  have "sends (1 + 1) (seq (do_single_flight_refresh E) (\<lambda>_. seq ?req (must_succeed E)))"
    by (intro sends_seq sends_refresh sends_seq0(2) sends_send sends_must_succeed)
  from this[unfolded one_add_one] have "sends 2 (seq (gets can_refresh) (\<lambda>b. if b
      then seq (do_single_flight_refresh E) (\<lambda>_. seq ?req (must_succeed E)) else fail_status E resp))" for resp :: http_response
    by (intro sends_seq0(1) sends_pure) (simp add: sends_pure fail_status_def)
  then have "sends (1 + 2) (execute E meth path body allow :: ('w, http_response) cop)"
    unfolding execute_def by (intro sends_seq sends_send) (auto simp: sends_pure fail_status_def)
  then show ?thesis by (simp add: eval_nat_numeral)
qed

lemma sends_execute_once: "sends 1 (execute E meth path body False)"
  unfolding execute_def by (intro sends_seq0(2) sends_send) (simp add: sends_pure fail_status_def)

lemma sends_held_send: "sends 1 (held_send E path body)"
  by (rule sendsI) (auto simp: held_send_def send_raw_def call_transport_def transmit_def op_simps split: sum.split)

lemma sends_one_attempt: "sends 1 (one_attempt E op path body attempt)"
  unfolding one_attempt_def
  by (rule sends_seq0, rule sends_emit, rule sends_seq0(2), rule sends_held_send, rule sends_seq0,
      rule sends_emit, rule sends_pure)

lemma sends_back_off: "sends 0 (back_off E op attempt r)"
  by (rule sendsI) (auto simp: back_off_def wait_hint_def draw_jitter_def emit_def Let_def op_simps wall_now_def
      split: sum.split option.split)

lemma sends_conclude: "sends 2 (conclude E op path body attempt r :: ('w, http_response) cop)"
proof -
  have "sends (1 + 1) (seq (do_single_flight_refresh E) (\<lambda>_. after_refresh E op path body (attempt + 1))
      :: ('w, http_response) cop)"
    unfolding after_refresh_def
    by (rule sends_seq, rule sends_refresh, rule sends_seq0, rule sends_emit, rule sends_seq0(2), rule sends_post,
        rule sends_seq0, rule sends_emit, rule sends_must_succeed)
  from this[unfolded one_add_one] have "sends 2 (seq (gets can_refresh) (\<lambda>b. if b
      then seq (do_single_flight_refresh E) (\<lambda>_. after_refresh E op path body (attempt + 1))
      else fail_status E resp) :: ('w, http_response) cop)" for resp
    by (intro sends_seq0(1) sends_pure) (simp add: sends_pure fail_status_def)
  then show ?thesis
    unfolding conclude_def by (cases r) (simp_all add: sends_pure fail_status_def)
qed

lemma sends_attempts:
  "attempt \<le> budget \<Longrightarrow> sends (budget - attempt + 3) (attempts E op path body budget attempt :: ('w, http_response) cop)"
proof (induction E op path body budget attempt rule: attempts.induct)
  case (1 E op path body budget attempt)
  have "sends (budget - attempt + 2) (if attempt < budget \<and> retry_should_retry (answered r)
      then seq (back_off E op attempt r) (\<lambda>_. attempts E op path body budget (attempt + 1))
      else conclude E op path body attempt r :: ('w, http_response) cop)" for r
  proof (cases "attempt < budget \<and> retry_should_retry (answered r)")
    case True
    then have "budget - attempt + 2 = budget - (attempt + 1) + 3" "attempt + 1 \<le> budget" by auto
    then show ?thesis using sends_seq0(1)[OF sends_back_off 1(1)[OF True]] True by auto
  next
    case False
    have "sends (budget - attempt + 2) (conclude E op path body attempt r :: ('w, http_response) cop)"
      by (rule sends_mono[OF sends_conclude]) simp
    with False show ?thesis by auto
  qed
  from sends_seq[OF sends_one_attempt this] show ?case
    by (subst attempts.simps) (simp add: eval_nat_numeral)
qed

text \<open>The waits: one per retry, none elsewhere, each at most an hour.\<close>

interpretation unslept: kept "\<lambda>s t :: 'w client_scheme. waits t = waits s"
  by unfold_locales simp_all

lemma unslept_send: "keeps (\<lambda>s t. waits t = waits s) (seq (gets f) (send_raw E))"
  by (rule keepsI) (auto simp: send_raw_def call_transport_def transmit_def op_simps split: sum.split)

lemma unslept_refresh: "keeps (\<lambda>s t. waits t = waits s) (do_single_flight_refresh E)"
  unfolding do_single_flight_refresh_def perform_refresh_def dump_def post_def emit_def clear_memo_def
  by (intro unslept.rules unslept_send) simp_all

lemma unslept_one_attempt: "keeps (\<lambda>s t. waits t = waits s) (one_attempt E op path body attempt)"
  by (rule keepsI) (auto simp: one_attempt_def held_send_def emit_def send_raw_def call_transport_def transmit_def
      op_simps split: sum.split)

lemma unslept_conclude: "keeps (\<lambda>s t. waits t = waits s) (conclude E op path body attempt r)"
  unfolding conclude_def after_refresh_def fail_status_def must_succeed_def post_def emit_def
  by (cases r) (auto intro!: unslept.rules unslept_send unslept_refresh)

definition wait_ok :: "int \<Rightarrow> bool" where "wait_ok d = (0 \<le> d \<and> d \<le> 3600000)"

lemma back_off_waits:
  "\<exists>d. waits (snd (back_off E op attempt r s)) = waits s @ [d] \<and> wait_ok d"
proof -
  have "wait_ok (retry_delay (int attempt) None f)" for f
    using jittered_bounds[of "int attempt" f] retry_backoff_bounds(2)[of "int attempt"]
    by (auto simp: wait_ok_def retry_delay_def)
  moreover have "wait_ok (retry_delay (int attempt) (retry_after_from_header hd v now) f)" for hd v now f
    using jittered_bounds[of "int attempt" f] retry_backoff_bounds(2)[of "int attempt"]
      retry_after_bounds[of hd v now]
    by (cases "retry_after_from_header hd v now") (auto simp: wait_ok_def retry_delay_def)
  ultimately show ?thesis
    by (cases r) (auto simp: back_off_def wait_hint_def draw_jitter_def emit_def Let_def op_simps wall_now_def
        split: option.split)
qed

lemma attempts_waits:
  fixes s :: "'w client_scheme"
  assumes "attempt \<le> budget"
  shows "\<exists>ws. waits (snd (attempts E op path body budget attempt s)) = waits s @ ws
    \<and> length ws \<le> budget - attempt \<and> (\<forall>d\<in>set ws. wait_ok d)"
  using assms
proof (induction E op path body budget attempt arbitrary: s rule: attempts.induct)
  case (1 E op path body budget attempt)
  obtain r s1 where a: "one_attempt E op path body attempt s = (r, s1)" by fastforce
  then have w1: "waits s1 = waits s" using keeps_run[OF unslept_one_attempt] by blast
  show ?case
  proof (cases r)
    case (Inl e)
    with a w1 show ?thesis by (subst attempts.simps) (simp add: op_simps)
  next
    case (Inr x)
    show ?thesis
    proof (cases "attempt < budget \<and> retry_should_retry (answered x)")
      case False
      have "waits (snd (conclude E op path body attempt x s1)) = waits s1"
        using keepsD[OF unslept_conclude] by blast
      with a Inr w1 False show ?thesis by (subst attempts.simps) (auto simp: op_simps)
    next
      case True
      obtain q s2 where b: "back_off E op attempt x s1 = (q, s2)" by fastforce
      moreover have "fst (back_off E op attempt x s1) = Inr ()"
        by (cases x) (auto simp: back_off_def wait_hint_def draw_jitter_def emit_def Let_def op_simps split: option.split)
      ultimately have q: "q = Inr ()" by simp
      from back_off_waits[of E op attempt x s1] b obtain d where d: "waits s2 = waits s1 @ [d]" "wait_ok d" by auto
      from 1(1)[OF True, of s2] True obtain ws where
        ws: "waits (snd (attempts E op path body budget (attempt + 1) s2)) = waits s2 @ ws"
          "length ws \<le> budget - (attempt + 1)" "\<forall>d\<in>set ws. wait_ok d" by auto
      have "attempts E op path body budget attempt s = attempts E op path body budget (attempt + 1) s2"
        using a Inr b q True by (subst attempts.simps) (simp add: op_simps)
      with ws d w1 True show ?thesis by (intro exI[of _ "d # ws"]) auto
    qed
  qed
qed

section \<open>Where a returned response comes from\<close>

text \<open>
  \<open>from_wire\<close>: the response is the transport's answer to the last request sent, that request
  is a POST of the given body to the given path, and the answer is a success.
\<close>

definition last_answer :: "'e env_scheme \<Rightarrow> 'w client_scheme \<Rightarrow> http_request \<Rightarrow> http_response \<Rightarrow> bool" where
  "last_answer E t req resp \<longleftrightarrow>
     (\<exists>xs. sent t = xs @ [req] \<and> env_transport E xs req = Inr resp \<and> transport_error resp = [])"

definition asks :: "'w client_scheme \<Rightarrow> string \<Rightarrow> string \<Rightarrow> http_request \<Rightarrow> bool" where
  "asks s path body req \<longleftrightarrow>
     req_method req = ''POST'' \<and> req_url req = base_url s @ path \<and> req_body req = body \<and> carries_tenant s req"

definition from_wire :: "'e env_scheme \<Rightarrow> 'w client_scheme \<Rightarrow> string \<Rightarrow> string \<Rightarrow> 'w client_scheme \<Rightarrow> http_response \<Rightarrow> bool" where
  "from_wire E s path body t resp \<longleftrightarrow>
     (\<exists>req. last_answer E t req resp \<and> asks s path body req \<and> is_success (status resp))"

lemma send_raw_Inr:
  "send_raw E req s = (Inr resp, t) \<Longrightarrow> last_answer E t req resp"
  by (auto simp: send_raw_def call_transport_def transmit_def op_simps last_answer_def split: sum.splits if_splits)

lemma asks_build: "asks s path body (build_request ''POST'' path body s)"
  using build_request_carries[of s "''POST''" path body] by (simp add: asks_def build_request_def Let_def blank_request_def)

lemma asks_config: "same_config s t \<Longrightarrow> asks t path body req \<longleftrightarrow> asks s path body req"
  using carries_same_config by (auto simp: asks_def same_config_def)

lemma core_config: "core_step s t \<Longrightarrow> same_config s t"
  by (simp add: core_step_def)

lemma from_wire_config: "same_config s s' \<Longrightarrow> from_wire E s' path body t resp \<Longrightarrow> from_wire E s path body t resp"
  using asks_config[of s s'] by (auto simp: from_wire_def)

lemma post_Inr:
  "post E path body s = (Inr resp, t) \<Longrightarrow>
     \<exists>req. last_answer E t req resp \<and> asks s path body req"
  by (auto simp: post_def op_simps dest!: send_raw_Inr intro: asks_build)

lemma held_send_Inr:
  "held_send E path body s = (Inr (Inr resp), t) \<Longrightarrow>
     \<exists>req. last_answer E t req resp \<and> asks s path body req"
  using asks_build[of s path body]
  by (fastforce simp: held_send_def op_simps asks_def carries_tenant_def split: sum.splits prod.splits if_splits
      dest!: send_raw_Inr)

lemma must_succeed_Inr: "must_succeed E r s = (Inr resp, t) \<Longrightarrow> r = resp \<and> t = s \<and> is_success (status resp)"
  by (auto simp: must_succeed_def fail_status_def op_simps split: if_splits)

lemma emit_sent [simp]: "sent (snd (emit ev s)) = sent s" "fst (emit ev s) = Inr ()"
  by (auto simp: emit_def op_simps)

lemma last_answer_sent: "sent t' = sent t \<Longrightarrow> last_answer E t' req resp = last_answer E t req resp"
  by (simp add: last_answer_def)

lemma emit_run: "emit ev s = (Inr (), if hook_set s then s\<lparr>events := events s @ [ev]\<rparr> else s)"
  by (simp add: emit_def op_simps)

lemma last_answer_emit [simp]: "last_answer E (snd (emit ev s)) = last_answer E s"
  by (simp add: last_answer_def fun_eq_iff)

lemma seq_emit: "seq (emit ev) k s = k () (snd (emit ev s))"
  by (simp add: op_simps emit_run)

lemma after_refresh_Inr:
  assumes "after_refresh E op path body attempt s = (Inr resp, t)"
  shows "from_wire E s path body t resp"
proof -
  let ?s0 = "snd (emit (RequestStart op ''POST'' path attempt) s)"
  have c: "same_config s ?s0" using core_config[OF keepsD[OF core_emit]] by blast
  from assms obtain r s1 where p: "post E path body ?s0 = (Inr r, s1)"
    and k: "must_succeed E r (snd (emit (RequestEnd op ''POST'' path attempt (Some (status r)) (outcome_of (Some (status r)))) s1)) = (Inr resp, t)"
    by (simp add: after_refresh_def seq_emit seq_eq_Inr) blast
  from must_succeed_Inr[OF k] have e: "r = resp" "is_success (status resp)" and n: "sent t = sent s1" by auto
  from post_Inr[OF p] e show ?thesis by (auto simp: from_wire_def asks_config[OF c] last_answer_sent[OF n])
qed

lemma one_attempt_Inr:
  assumes "one_attempt E op path body attempt s = (Inr (Inr resp), t)"
  shows "\<exists>req. last_answer E t req resp \<and> asks s path body req"
proof -
  let ?s0 = "snd (emit (RequestStart op ''POST'' path attempt) s)"
  have c: "same_config s ?s0" using core_config[OF keepsD[OF core_emit]] by blast
  from assms obtain r s1 where h: "held_send E path body ?s0 = (Inr r, s1)"
    and e: "r = Inr resp" "t = snd (emit (RequestEnd op ''POST'' path attempt (answered r) (outcome_of (answered r))) s1)"
    by (auto simp: one_attempt_def seq_emit seq_eq_Inr ret_def)
  from h e held_send_Inr[of E path body ?s0 resp s1] show ?thesis
    by (simp add: asks_config[OF c])
qed

lemma conclude_Inr:
  assumes "conclude E op path body attempt r s = (Inr resp, t)"
    and "\<And>x. r = Inr x \<Longrightarrow> \<exists>req. last_answer E s req x \<and> asks s path body req"
  shows "from_wire E s path body t resp"
proof (cases r)
  case (Inl e)
  with assms(1) show ?thesis by (simp add: conclude_def op_simps)
next
  case (Inr x)
  show ?thesis
  proof (cases "is_success (status x)")
    case True
    with assms(1) Inr have "x = resp" "t = s" by (auto simp: conclude_def op_simps)
    with assms(2)[OF Inr] True show ?thesis by (auto simp: from_wire_def)
  next
    case False
    with assms(1) Inr obtain tp s1 where d: "do_single_flight_refresh E s = (Inr tp, s1)"
      and a: "after_refresh E op path body (attempt + 1) s1 = (Inr resp, t)"
      by (auto simp: conclude_def fail_status_def op_simps split: if_splits prod.splits sum.splits)
    from core_config[OF keeps_run[OF core_refresh d]] show ?thesis
      using from_wire_config after_refresh_Inr[OF a] by blast
  qed
qed

lemma back_off_run: "\<exists>t. back_off E op attempt r s = (Inr (), t)"
  by (cases r) (auto simp: back_off_def wait_hint_def draw_jitter_def emit_def Let_def op_simps split: option.split)

lemma attempts_Inr:
  fixes s :: "'w client_scheme"
  assumes "attempts E op path body budget attempt s = (Inr resp, t)"
  shows "from_wire E s path body t resp"
  using assms
proof (induction E op path body budget attempt arbitrary: s rule: attempts.induct)
  case (1 E op path body budget attempt)
  from 1(2) obtain r s1 where o: "one_attempt E op path body attempt s = (Inr r, s1)"
    and k: "(if attempt < budget \<and> retry_should_retry (answered r)
      then seq (back_off E op attempt r) (\<lambda>_. attempts E op path body budget (attempt + 1))
      else conclude E op path body attempt r) s1 = (Inr resp, t)"
    by (subst (asm) attempts.simps) (auto simp: seq_eq_Inr)
  have c1: "same_config s s1" using core_config[OF keeps_run[OF core_one_attempt o]] .
  show ?case
  proof (cases "attempt < budget \<and> retry_should_retry (answered r)")
    case True
    with k obtain u s2 where b: "back_off E op attempt r s1 = (Inr u, s2)"
      and rec: "attempts E op path body budget (attempt + 1) s2 = (Inr resp, t)" by (auto simp: seq_eq_Inr)
    have "same_config s1 s2" using core_config[OF keeps_run[OF core_back_off b]] .
    with 1(1)[OF True rec] c1 show ?thesis using from_wire_config by blast
  next
    case False
    with k have "conclude E op path body attempt r s1 = (Inr resp, t)" by (simp split: if_splits)
    then have "from_wire E s1 path body t resp"
      by (rule conclude_Inr) (use o one_attempt_Inr c1 asks_config in blast)
    then show ?thesis using from_wire_config[OF c1] by blast
  qed
qed

lemma execute_retrying_Inr:
  "execute_retrying E op path body s = (Inr resp, t) \<Longrightarrow> from_wire E s path body t resp"
  by (auto simp: execute_retrying_def op_simps dest!: attempts_Inr)

section \<open>A device credential is never refreshed\<close>

definition device_idle :: "'w client_scheme \<Rightarrow> 'w client_scheme \<Rightarrow> bool" where
  "device_idle s t \<longleftrightarrow> (device_session s \<longrightarrow> device_session t \<and> refresh_count t = refresh_count s)"

interpretation device: kept device_idle
  by unfold_locales (auto simp: device_idle_def)

lemma device_gate:
  "keeps device_idle m' \<Longrightarrow> keeps device_idle (seq (gets can_refresh) (\<lambda>b. if b then m else m'))"
  by (rule keepsI) (auto simp: op_simps can_refresh_def device_idle_def dest: keepsD)

lemma device_emit: "keeps device_idle (emit ev)"
  unfolding emit_def by (rule device.step) (simp add: device_idle_def)

lemma device_send: "keeps device_idle (seq (gets f) (send_raw E))"
  by (rule keepsI) (auto simp: send_raw_def call_transport_def transmit_def op_simps device_idle_def split: sum.split)

lemma device_execute: "keeps device_idle (execute E meth path body allow)"
proof -
  have "keeps device_idle (fail_status E resp :: ('w, http_response) cop)" for resp
    by (simp add: fail_status_def device.pure)
  then show ?thesis
    unfolding execute_def by (auto intro!: device.seq[OF device_send] device.pure device_gate split: if_split)
qed

lemma device_attempts: "keeps device_idle (attempts E op path body budget attempt :: ('w, http_response) cop)"
proof (induction E op path body budget attempt rule: attempts.induct)
  case (1 E op path body budget attempt)
  have o: "keeps device_idle (one_attempt E op path body attempt)"
    by (rule keepsI) (auto simp: one_attempt_def held_send_def emit_def send_raw_def call_transport_def
        transmit_def op_simps device_idle_def split: sum.split)
  have b: "keeps device_idle (back_off E op attempt r)" for r
    by (rule keepsI; cases r) (auto simp: back_off_def wait_hint_def draw_jitter_def emit_def Let_def op_simps
        wall_now_def device_idle_def split: option.split)
  have c: "keeps device_idle (conclude E op path body attempt r :: ('w, http_response) cop)" for r
    unfolding conclude_def
    by (cases r) (auto intro!: device.pure device_gate simp: fail_status_def)
  have "keeps device_idle (if attempt < budget \<and> retry_should_retry (answered r)
      then seq (back_off E op attempt r) (\<lambda>_. attempts E op path body budget (attempt + 1))
      else conclude E op path body attempt r :: ('w, http_response) cop)" for r
  proof (cases "attempt < budget \<and> retry_should_retry (answered r)")
    case True
    then show ?thesis using device.seq[OF b 1[OF True]] by auto
  next
    case False
    then show ?thesis using c by auto
  qed
  then show ?case by (subst attempts.simps) (intro device.seq o)
qed

lemma device_execute_retrying: "keeps device_idle (execute_retrying E op path body)"
  unfolding execute_retrying_def by (intro device.rules device_attempts)

section \<open>A concrete client\<close>

definition demo_net :: "(http_request list \<Rightarrow> http_request \<Rightarrow> http_response res) \<Rightarrow> (string \<Rightarrow> json) \<Rightarrow> client_env" where
  "demo_net net parse = \<lparr>env_transport = net, env_steady = (\<lambda>n. int n), env_wall = (\<lambda>n. int n),
     env_parse = parse, env_dump = (\<lambda>_. Inr ''{}''), env_jitter = (\<lambda>_. (0, 0)), env_http_date = (\<lambda>_. None)\<rparr>"

definition demo_client :: client where
  "demo_client = \<lparr>sent = [], ticks = 0, base_url = ''https://id.example'', tenant_header = ''acme'',
     c_tenant_slug = Some ''acme'', c_tenant_id = None, c_org_slug = None, c_org_id = None,
     presents_client_certificate = False, retry_enabled = True, hook_set = True, oidc_client_id = None,
     oidc_client_secret = None, oidc_discovery_ttl = 300, oidc_clock_skew = 60, csrf = [], session = False,
     resolved_tenant_id = None, resolved_org_id = None, acting_tenant = None, login_user_info = None,
     device_access = [], device_session = False, c_principal_tenant_id = None, refresh_count = 0,
     decision_cache = memo_new 1000, uma_config = None, uma_config_expires_at = 0, is_closed = False,
     transport_released = False, events = [], waits = []\<rparr>"

definition demo_status :: "int \<Rightarrow> http_response" where
  "demo_status st = blank_response\<lparr>status := st\<rparr>"

section \<open>Properties\<close>

text \<open>
  C38. A retried operation is bounded whatever the server answers: at most three attempts plus
  one refresh and one attempt after it (one attempt when retry is off), at most two waits, none
  longer than an hour; and every request it sends goes to the client's base URL under the
  client's tenant.
\<close>

theorem retrying_is_bounded:
  "\<exists>xs ws. sent (snd (execute_retrying E op path body s)) = sent s @ xs
     \<and> length xs \<le> (if retry_enabled s then 5 else 3) \<and> list_all (carries_tenant s) xs
     \<and> waits (snd (execute_retrying E op path body s)) = waits s @ ws
     \<and> length ws \<le> (if retry_enabled s then 2 else 0) \<and> list_all (\<lambda>d. 0 \<le> d \<and> d \<le> 3600000) ws"
proof -
  let ?b = "if retry_enabled s then kRetryMaxAttempts else 1 :: nat"
  have e: "execute_retrying E op path body s = attempts E op path body ?b 1 s"
    by (simp add: execute_retrying_def op_simps)
  have b: "1 \<le> ?b" by (simp add: kRetryMaxAttempts_def)
  from sendsD[OF sends_attempts[OF b], of E op path body s] obtain xs where
    xs: "sent (snd (execute_retrying E op path body s)) = sent s @ xs" "length xs \<le> ?b - 1 + 3" using e by auto
  from keepsD[OF core_execute_retrying, of s E op path body] xs(1) have "\<forall>r\<in>set xs. carries_tenant s r"
    by (auto simp: core_step_def)
  moreover from attempts_waits[OF b, of E op path body s] obtain ws where
    "waits (snd (execute_retrying E op path body s)) = waits s @ ws" "length ws \<le> ?b - 1" "\<forall>d\<in>set ws. wait_ok d"
    using e by auto
  ultimately show ?thesis using xs
    by (intro exI[of _ xs] exI[of _ ws]) (auto simp: kRetryMaxAttempts_def wait_ok_def list_all_iff split: if_splits)
qed

text \<open>
  The shared status mapping: 401 is the one authentication error, 403 and 409 are
  authorization errors carrying the status, every other status is a network error, and a body
  that is not an object never raises a type error. Only a 403 or 409 whose object has a
  \<open>message\<close> that is not a string lets the JSON library's own error out.
\<close>

theorem status_mapping:
  "(is_auth_error (raise_for_status parse resp) \<longleftrightarrow> status resp = 401)
   \<and> (is_network_error (raise_for_status parse resp) \<longleftrightarrow> status resp \<notin> {401, 403, 409})
   \<and> (is_authz_error (raise_for_status parse resp) \<longleftrightarrow>
        status resp \<in> {403, 409} \<and> raise_for_status parse resp \<noteq> JsonTypeError)
   \<and> (raise_for_status parse resp = JsonTypeError \<longleftrightarrow>
        status resp \<in> {403, 409} \<and> (\<exists>v. jfind (parse (resp_body resp)) ''message'' = Some v \<and> \<not> is_string v))"
proof -
  let ?j = "parse (resp_body resp)"
  have d: "denial_of st (if is_object ?j then ?j else JObj []) = JsonTypeError \<longleftrightarrow>
      (\<exists>v. jfind ?j ''message'' = Some v \<and> \<not> is_string v)" for st
  proof (cases "jfind ?j ''message''")
    case None
    then show ?thesis by (cases ?j) (auto simp: denial_of_def jvalue_def)
  next
    case (Some v)
    then have "is_object ?j" by (cases ?j) auto
    with Some show ?thesis by (cases v) (auto simp: denial_of_def jvalue_present)
  qed
  have c: "denial_of st j = JsonTypeError \<or> is_authz_error (denial_of st j) \<and> \<not> is_auth_error (denial_of st j)
      \<and> \<not> is_network_error (denial_of st j) \<and> denial_of st j \<noteq> JsonTypeError" for st j
    by (auto simp: denial_of_def split: sum.split dest: jvalue_str_errors)
  show ?thesis
    using c[of "status resp" "if is_object ?j then ?j else JObj []"] d[of "status resp"]
    by (auto simp: raise_for_status_def Let_def)
qed

text \<open>
  While the client holds a device credential no request it executes, retried or not,
  spends a refresh, whatever the server answers.
\<close>

theorem device_never_refreshes:
  assumes "device_session s"
  shows "refresh_count (snd (execute E meth path body allow s)) = refresh_count s
    \<and> device_session (snd (execute E meth path body allow s))
    \<and> refresh_count (snd (execute_retrying E' op path body s)) = refresh_count s
    \<and> device_session (snd (execute_retrying E' op path body s))"
  using assms keepsD[OF device_execute, of s E meth path body allow]
    keepsD[OF device_execute_retrying, of s E' op path body]
  by (simp add: device_idle_def)

lemma device_never_refreshes_witness:
  "let E = demo_net (\<lambda>_ _. Inr (demo_status 401)) (\<lambda>_. JDiscarded);
       s = demo_client\<lparr>session := True, device_session := True, device_access := ''tok''\<rparr>
   in refresh_count (snd (execute E ''POST'' ''/x'' [] True s)) = 0
      \<and> refresh_count (snd (execute_retrying E ''check'' ''/x'' [] s)) = 0"
  unfolding Let_def
  by (intro conjI; subst device_never_refreshes[THEN conjunct1] device_never_refreshes[THEN conjunct2, THEN conjunct2, THEN conjunct1])
    (simp_all add: demo_client_def)

text \<open>
  The attempt after a refresh reports its start before it is sent and its end only when a
  response arrived: when that request fails in the transport, the start is left without an end.
\<close>

theorem refreshed_attempt_unpaired:
  assumes "hook_set s" "\<not> transport_released s"
    and "env_transport E (sent s) (build_request ''POST'' path body s) = Inr resp" "transport_error resp \<noteq> []"
  shows "fst (after_refresh E op path body attempt s)
      = Inl (NetworkError (''transport failure: '' @ transport_error resp) (transport_error resp))
    \<and> events (snd (after_refresh E op path body attempt s)) = events s @ [RequestStart op ''POST'' path attempt]"
proof -
  have b: "build_request ''POST'' path body (s\<lparr>events := x\<rparr>) = build_request ''POST'' path body s" for x
    by (cases "acting_tenant s") (auto simp: build_request_def Let_def)
  show ?thesis
    using assms by (simp add: after_refresh_def emit_run op_simps post_def b send_raw_def call_transport_def transmit_def)
qed

lemma refreshed_attempt_unpaired_witness:
  "events (snd (after_refresh (demo_net (\<lambda>_ _. Inr (blank_response\<lparr>transport_error := ''timeout''\<rparr>)) (\<lambda>_. JNull))
      ''check_access'' ''/x'' [] 2 demo_client)) = [RequestStart ''check_access'' ''POST'' ''/x'' 2]"
  using refreshed_attempt_unpaired[of demo_client "demo_net (\<lambda>_ _. Inr (blank_response\<lparr>transport_error := ''timeout''\<rparr>)) (\<lambda>_. JNull)"
      "''/x''" "[]" "blank_response\<lparr>transport_error := ''timeout''\<rparr>" "''check_access''" 2]
  by (simp add: demo_client_def demo_net_def)

end
