(* ===== verification/Opaque.thy ===== *)
theory Opaque
  imports Effects
begin

text \<open>
  \<open>src/opaque.cpp\<close>: the binding to the native OPAQUE library. The library is a parameter
  (\<open>native\<close>): what each of its calls answers, given the calls made before. What is modelled is
  what the file is for: the bounds put on a server-named cost, the errors each failure maps to,
  and the lifetime of the native handles. A handle is named by the position of the call that
  made it, so a call that takes one says which. The state follows one exchange object from its
  construction to its destructor.
\<close>

section \<open>Key-stretching parameters\<close>

type_synonym u32 = "32 word"

record ksf_params =
  ksf :: string
  memory_kib :: "u32 option"
  iterations :: "u32 option"
  parallelism :: "u32 option"
  log_n :: "u32 option"
  ksf_r :: "u32 option"
  ksf_p :: "u32 option"

type_synonym band = "nat \<times> nat"

definition kMemoryKib :: band where "kMemoryKib = (8192, 1048576)"
definition kIterations :: band where "kIterations = (1, 10)"
definition kParallelism :: band where "kParallelism = (1, 16)"
definition kLogN :: band where "kLogN = (14, 20)"
definition kR :: band where "kR = (1, 16)"
definition kP :: band where "kP = (1, 16)"

lemmas band_defs = kMemoryKib_def kIterations_def kParallelism_def kLogN_def kR_def kP_def

definition in_band :: "band \<Rightarrow> u32 \<Rightarrow> bool" where
  "in_band b v = (fst b \<le> unat v \<and> unat v \<le> snd b)"

definition require_cost :: "u32 option \<Rightarrow> band \<Rightarrow> u32 res" where
  "require_cost v b =
     (case v of
        None \<Rightarrow> Inl (NetworkError ''OPAQUE: the server named a ksf without a cost'' ''opaque_ksf_incomplete'')
      | Some x \<Rightarrow>
          (if in_band b x then Inr x
           else Inl (NetworkError ''OPAQUE: the server named a cost outside the accepted range'' ''opaque_ksf_out_of_range'')))"

section \<open>The native library\<close>

datatype native_call =
    KsfArgon2id u32 u32 u32
  | KsfScrypt "8 word" u32 u32
  | KsfFree nat
  | RegistrationStart string
  | RegistrationFinish nat string string nat
  | RegistrationFree nat
  | LoginStart string
  | LoginFinish nat string string nat
  | LoginFree nat

record native =
  n_loaded :: bool
  n_handle :: "native_call list \<Rightarrow> native_call \<Rightarrow> bool"
  n_text :: "native_call list \<Rightarrow> native_call \<Rightarrow> string option"
  n_last_error :: "native_call list \<Rightarrow> string"

record exchange =
  calls :: "native_call list"
  handle :: "nat option"
  first_message :: string
  is_login :: bool

definition fresh_exchange :: exchange where
  "fresh_exchange = \<lparr>calls = [], handle = None, first_message = [], is_login = False\<rparr>"

type_synonym 'a nop = "(exchange, 'a) op"

definition invoke :: "native_call \<Rightarrow> nat nop" where
  "invoke c = (\<lambda>s. (Inr (length (calls s)), s\<lparr>calls := calls s @ [c]\<rparr>))"

definition last_error_or :: "native \<Rightarrow> exchange \<Rightarrow> string \<Rightarrow> string" where
  "last_error_or N s fallback = (let m = n_last_error N (calls s) in if m = [] then fallback else m)"

definition fail_with :: "native \<Rightarrow> string \<Rightarrow> (string \<Rightarrow> error) \<Rightarrow> 'a nop" where
  "fail_with N fallback mk = (\<lambda>s. (Inl (mk (last_error_or N s fallback)), s))"

text \<open>A call that returns a handle or null.\<close>

definition obtain_handle :: "native \<Rightarrow> native_call \<Rightarrow> string \<Rightarrow> (string \<Rightarrow> error) \<Rightarrow> nat nop" where
  "obtain_handle N c fallback mk =
     seq (gets (\<lambda>s. n_handle N (calls s) c)) (\<lambda>ok.
     seq (invoke c) (\<lambda>h. if ok then ret h else fail_with N fallback mk))"

definition require_native :: "native \<Rightarrow> unit nop" where
  "require_native N = require (n_loaded N) (NetworkError ''OPAQUE is not available'' ''opaque_library_missing'')"

definition ksf_call :: "ksf_params \<Rightarrow> native_call res" where
  "ksf_call p =
     (if ksf p = ''argon2id'' then
        and_then (require_cost (memory_kib p) kMemoryKib) (\<lambda>m.
        and_then (require_cost (iterations p) kIterations) (\<lambda>i.
        and_then (require_cost (parallelism p) kParallelism) (\<lambda>l. Inr (KsfArgon2id m i l))))
      else if ksf p = ''scrypt'' then
        and_then (require_cost (log_n p) kLogN) (\<lambda>n.
        and_then (require_cost (ksf_r p) kR) (\<lambda>r.
        and_then (require_cost (ksf_p p) kP) (\<lambda>q. Inr (KsfScrypt (ucast n) r q))))
      else Inl (NetworkError ''OPAQUE: this SDK cannot perform the key-stretching function the server named''
                  ''opaque_unsupported_ksf''))"

definition opaque_error :: "string \<Rightarrow> string \<Rightarrow> error" where
  "opaque_error cat m = NetworkError (''OPAQUE: '' @ m) cat"

definition build_ksf :: "native \<Rightarrow> ksf_params \<Rightarrow> nat nop" where
  "build_ksf N p =
     seq (lift_res (ksf_call p)) (\<lambda>c.
     obtain_handle N c ''invalid KSF parameters'' (opaque_error ''opaque_ksf_rejected''))"

section \<open>The exchange\<close>

definition wipe_message :: "exchange \<Rightarrow> exchange" where
  "wipe_message s = s\<lparr>first_message := []\<rparr>"

text \<open>\<open>close\<close>, which is also the destructor.\<close>

definition close_exchange :: "unit nop" where
  "close_exchange =
     seq (gets (\<lambda>s. (handle s, is_login s))) (\<lambda>(h, login).
     seq (case h of None \<Rightarrow> ret 0 | Some k \<Rightarrow> invoke (if login then LoginFree k else RegistrationFree k)) (\<lambda>_.
     modify (\<lambda>s. wipe_message (s\<lparr>handle := None\<rparr>))))"

definition consume :: "nat nop" where
  "consume =
     seq (gets handle) (\<lambda>h.
     case h of
       None \<Rightarrow> raise (NetworkError ''OPAQUE: this exchange has already been completed'' ''opaque_exchange_spent'')
     | Some k \<Rightarrow> seq (modify (\<lambda>s. s\<lparr>handle := None\<rparr>)) (\<lambda>_. ret k))"

text \<open>The key-stretching handle is released on every path out of its scope.\<close>

definition with_ksf :: "native \<Rightarrow> ksf_params \<Rightarrow> (nat \<Rightarrow> 'a nop) \<Rightarrow> 'a nop" where
  "with_ksf N p body =
     seq (build_ksf N p) (\<lambda>k s. case body k s of (r, t) \<Rightarrow> (r, snd (invoke (KsfFree k) t)))"

definition finish_text :: "native \<Rightarrow> native_call \<Rightarrow> string \<Rightarrow> (string \<Rightarrow> error) \<Rightarrow> string nop" where
  "finish_text N c fallback mk =
     seq (gets (\<lambda>s. n_text N (calls s) c)) (\<lambda>answer.
     seq (invoke c) (\<lambda>_. case answer of Some x \<Rightarrow> ret x | None \<Rightarrow> fail_with N fallback mk))"

definition registration_finish :: "native \<Rightarrow> string \<Rightarrow> string \<Rightarrow> ksf_params \<Rightarrow> string nop" where
  "registration_finish N password response p =
     with_ksf N p (\<lambda>k. seq consume (\<lambda>h.
       finish_text N (RegistrationFinish h password response k) ''the envelope could not be sealed''
         (opaque_error ''opaque_registration_failed'')))"

definition login_finish :: "native \<Rightarrow> string \<Rightarrow> string \<Rightarrow> ksf_params \<Rightarrow> string nop" where
  "login_finish N password ke2 p =
     with_ksf N p (\<lambda>k. seq consume (\<lambda>h.
       finish_text N (LoginFinish h password ke2 k) ''the OPAQUE envelope did not open''
         (\<lambda>m. AuthError (''OPAQUE: invalid credentials: '' @ m))))"

definition start_exchange :: "native \<Rightarrow> bool \<Rightarrow> native_call \<Rightarrow> string \<Rightarrow> string \<Rightarrow> string nop" where
  "start_exchange N login c fallback cat =
     seq (require_native N) (\<lambda>_.
     seq (gets (\<lambda>s. case n_text N (calls s) c of Some m \<Rightarrow> m | None \<Rightarrow> [])) (\<lambda>m.
     seq (obtain_handle N c fallback (opaque_error cat)) (\<lambda>h.
     seq (modify (\<lambda>s. s\<lparr>handle := Some h, first_message := m, is_login := login\<rparr>)) (\<lambda>_. ret m))))"

definition start_registration :: "native \<Rightarrow> string \<Rightarrow> string nop" where
  "start_registration N password =
     start_exchange N False (RegistrationStart password) ''registration could not be started''
       ''opaque_registration_start_failed''"

definition start_login :: "native \<Rightarrow> string \<Rightarrow> string nop" where
  "start_login N password =
     start_exchange N True (LoginStart password) ''login could not be started'' ''opaque_login_start_failed''"

section \<open>Costs\<close>

lemma require_cost_Inr: "require_cost v b = Inr x \<longleftrightarrow> v = Some x \<and> in_band b x"
  by (auto simp: require_cost_def split: option.split)

lemma require_cost_Inl: "require_cost v b = Inl e \<Longrightarrow> is_network_error e"
  by (auto simp: require_cost_def split: option.splits if_splits)

lemma log_n_byte: "in_band kLogN v \<Longrightarrow> unat (ucast v :: 8 word) = unat v"
  by (simp add: in_band_def band_defs unsigned_ucast_eq take_bit_nat_eq_self_iff unsigned_take_bit_eq)

section \<open>The life of a handle\<close>

text \<open>Which call made a key-stretching handle, and which calls end the life of a handle.\<close>

fun makes_ksf :: "native_call \<Rightarrow> bool" where
  "makes_ksf (KsfArgon2id _ _ _) = True"
| "makes_ksf (KsfScrypt _ _ _) = True"
| "makes_ksf _ = False"

fun ends_state :: "nat \<Rightarrow> native_call \<Rightarrow> bool" where
  "ends_state h (RegistrationFinish k _ _ _) = (k = h)"
| "ends_state h (RegistrationFree k) = (k = h)"
| "ends_state h (LoginFinish k _ _ _) = (k = h)"
| "ends_state h (LoginFree k) = (k = h)"
| "ends_state h _ = False"

definition ended :: "nat \<Rightarrow> native_call list \<Rightarrow> nat" where
  "ended h cs = length (filter (ends_state h) cs)"

definition ksf_freed :: "nat \<Rightarrow> native_call list \<Rightarrow> nat" where
  "ksf_freed k cs = length (filter (\<lambda>c. c = KsfFree k) cs)"

text \<open>
  \<open>ksf_balanced\<close>: every key-stretching handle the library gave out is freed exactly once, and
  nothing else is. The list \<open>open\<close> holds the handles not yet released.
\<close>

definition ksf_balanced :: "native \<Rightarrow> nat set \<Rightarrow> native_call list \<Rightarrow> bool" where
  "ksf_balanced N live cs \<longleftrightarrow>
     (\<forall>k. ksf_freed k cs =
       (if k < length cs \<and> makes_ksf (cs ! k) \<and> n_handle N (take k cs) (cs ! k) \<and> k \<notin> live then 1 else 0))"

text \<open>
  The state handle: while the exchange holds one it has not been ended; and none is ended twice.
\<close>

definition state_once :: "exchange \<Rightarrow> bool" where
  "state_once s \<longleftrightarrow> (\<forall>h. ended h (calls s) \<le> 1 \<and> (h \<ge> length (calls s) \<longrightarrow> ended h (calls s) = 0))
     \<and> (\<forall>h. handle s = Some h \<longrightarrow> h < length (calls s) \<and> ended h (calls s) = 0)"

lemma balanced_snoc:
  assumes "ksf_balanced N live cs" "\<forall>k\<in>live. k < length cs"
  shows "makes_ksf c \<Longrightarrow> n_handle N cs c \<Longrightarrow> ksf_balanced N (insert (length cs) live) (cs @ [c])"
    and "makes_ksf c \<Longrightarrow> \<not> n_handle N cs c \<Longrightarrow> ksf_balanced N live (cs @ [c])"
    and "\<not> makes_ksf c \<Longrightarrow> \<forall>k. c \<noteq> KsfFree k \<Longrightarrow> ksf_balanced N live (cs @ [c])"
  using assms by (auto simp: ksf_balanced_def ksf_freed_def nth_append less_Suc_eq)

lemma balanced_free:
  assumes "ksf_balanced N {k} cs" "k < length cs" "makes_ksf (cs ! k)" "n_handle N (take k cs) (cs ! k)"
  shows "ksf_balanced N {} (cs @ [KsfFree k])"
  using assms by (auto simp: ksf_balanced_def ksf_freed_def nth_append less_Suc_eq)

text \<open>The ways a finish can leave the exchange, for both kinds of exchange.\<close>

definition finish_gen :: "native \<Rightarrow> (nat \<Rightarrow> nat \<Rightarrow> native_call) \<Rightarrow> string \<Rightarrow> (string \<Rightarrow> error) \<Rightarrow> ksf_params \<Rightarrow> string nop" where
  "finish_gen N mkc fallback mk p =
     with_ksf N p (\<lambda>k. seq consume (\<lambda>h. finish_text N (mkc h k) fallback mk))"

lemma ksf_call_makes: "ksf_call p = Inr c \<Longrightarrow> makes_ksf c"
  by (auto simp: ksf_call_def and_then_eq_Inr split: if_splits)

lemma ksf_call_Inl: "ksf_call p = Inl e \<Longrightarrow> is_network_error e"
  unfolding ksf_call_def
  by (auto simp: and_then_def require_cost_Inl split: if_splits sum.splits)

lemma finish_text_state: "snd (finish_text N c f mk s) = s\<lparr>calls := calls s @ [c]\<rparr>"
  by (auto simp: finish_text_def invoke_def fail_with_def op_simps split: option.split)

lemma finish_cases:
  fixes N mkc fallback mk p s
  defines "out \<equiv> finish_gen N mkc fallback mk p s"
  obtains (refused) e where "ksf_call p = Inl e" "out = (Inl e, s)"
    | (rejected) c e where "ksf_call p = Inr c" "\<not> n_handle N (calls s) c"
        "out = (Inl e, s\<lparr>calls := calls s @ [c]\<rparr>)" "is_network_error e"
    | (spent) c where "ksf_call p = Inr c" "n_handle N (calls s) c" "handle s = None"
        "out = (Inl (NetworkError ''OPAQUE: this exchange has already been completed'' ''opaque_exchange_spent''),
                s\<lparr>calls := (calls s @ [c]) @ [KsfFree (length (calls s))]\<rparr>)"
    | (ran) c h where "ksf_call p = Inr c" "n_handle N (calls s) c" "handle s = Some h"
        "snd out = s\<lparr>calls := ((calls s @ [c]) @ [mkc h (length (calls s))]) @ [KsfFree (length (calls s))], handle := None\<rparr>"
proof (cases "ksf_call p")
  case (Inl e)
  then show thesis
    by (intro refused) (simp_all add: out_def finish_gen_def with_ksf_def build_ksf_def op_simps)
next
  case (Inr c)
  show thesis
  proof (cases "n_handle N (calls s) c")
    case False
    then show thesis
      using Inr by (intro rejected[of c "opaque_error ''opaque_ksf_rejected''
          (last_error_or N (s\<lparr>calls := calls s @ [c]\<rparr>) ''invalid KSF parameters'')"])
        (simp_all add: out_def finish_gen_def with_ksf_def build_ksf_def obtain_handle_def invoke_def fail_with_def
          op_simps opaque_error_def)
  next
    case True
    show thesis
    proof (cases "handle s")
      case None
      then show thesis using Inr True
        by (intro spent[of c]) (simp_all add: out_def finish_gen_def with_ksf_def build_ksf_def obtain_handle_def
            invoke_def consume_def op_simps)
    next
      case (Some h)
      let ?s = "s\<lparr>calls := calls s @ [c], handle := None\<rparr>"
      have "out = (fst (finish_text N (mkc h (length (calls s))) fallback mk ?s),
          snd (invoke (KsfFree (length (calls s))) (snd (finish_text N (mkc h (length (calls s))) fallback mk ?s))))"
        using Inr True Some
        by (simp add: out_def finish_gen_def with_ksf_def build_ksf_def obtain_handle_def
            invoke_def consume_def op_simps split: prod.split)
      then show thesis using Inr True Some by (intro ran[of c h]) (simp_all add: finish_text_state invoke_def)
    qed
  qed
qed

definition exchange_inv :: "native \<Rightarrow> exchange \<Rightarrow> bool" where
  "exchange_inv N s \<longleftrightarrow> ksf_balanced N {} (calls s) \<and> state_once s"

lemma ended_append [simp]: "ended h (xs @ ys) = ended h xs + ended h ys"
  by (simp add: ended_def)

lemma ended_list [simp]:
  "ended h [] = 0" "ended h (c # cs) = (if ends_state h c then 1 else 0) + ended h cs"
  by (simp_all add: ended_def)

lemma ended_makes: "makes_ksf c \<Longrightarrow> \<not> ends_state h c"
  by (cases c) auto

text \<open>A call that ends exactly one state handle, and makes no key-stretching handle.\<close>

definition ends_one :: "(nat \<Rightarrow> nat \<Rightarrow> native_call) \<Rightarrow> bool" where
  "ends_one mkc \<longleftrightarrow> (\<forall>h k. \<not> makes_ksf (mkc h k) \<and> (\<forall>j. mkc h k \<noteq> KsfFree j)
     \<and> (\<forall>h'. ends_state h' (mkc h k) \<longleftrightarrow> h' = h))"

lemma ends_one_ended: "ends_one mkc \<Longrightarrow> ends_state h' (mkc h k) \<longleftrightarrow> h' = h"
  by (simp add: ends_one_def)

lemma finish_inv:
  assumes "ends_one mkc" "exchange_inv N s"
  shows "exchange_inv N (snd (finish_gen N mkc fallback mk p s))"
proof (cases N mkc fallback mk p s rule: finish_cases)
  case (refused e)
  with assms show ?thesis by simp
next
  case (rejected c e)
  from assms have b: "ksf_balanced N {} (calls s)" and o: "state_once s" by (simp_all add: exchange_inv_def)
  have m: "makes_ksf c" using ksf_call_makes rejected(1) .
  from balanced_snoc(2)[OF b _ m rejected(2)] rejected(3) o ended_makes[OF m] show ?thesis
    by (auto simp: exchange_inv_def state_once_def)
next
  case (spent c)
  from assms have b: "ksf_balanced N {} (calls s)" and o: "state_once s" by (simp_all add: exchange_inv_def)
  have m: "makes_ksf c" using ksf_call_makes spent(1) .
  have "ksf_balanced N {} ((calls s @ [c]) @ [KsfFree (length (calls s))])"
    by (rule balanced_free[OF balanced_snoc(1)[OF b _ m spent(2)]]) (use m spent(2) in \<open>auto simp: nth_append\<close>)
  with spent(3,4) o ended_makes[OF m] show ?thesis
    by (auto simp: exchange_inv_def state_once_def)
next
  case (ran c h)
  from assms have b: "ksf_balanced N {} (calls s)" and o: "state_once s" by (simp_all add: exchange_inv_def)
  have m: "makes_ksf c" using ksf_call_makes ran(1) .
  let ?cs = "(calls s @ [c]) @ [mkc h (length (calls s))]"
  have "ksf_balanced N {length (calls s)} ?cs"
    using assms(1) by (intro balanced_snoc(3) balanced_snoc(1) b m ran(2)) (auto simp: ends_one_def)
  from balanced_free[OF this] have "ksf_balanced N {} (?cs @ [KsfFree (length (calls s))])"
    using m ran(2) by (simp add: nth_append)
  moreover have "h < length (calls s)" "ended h (calls s) = 0" using o ran(3) by (simp_all add: state_once_def)
  ultimately show ?thesis
    using ran(4) o ended_makes[OF m] ends_one_ended[OF assms(1), of _ h "length (calls s)"]
    by (auto simp: exchange_inv_def state_once_def)
qed

lemma login_finish_gen:
  "login_finish N password ke2 p = finish_gen N (\<lambda>h k. LoginFinish h password ke2 k)
     ''the OPAQUE envelope did not open'' (\<lambda>m. AuthError (''OPAQUE: invalid credentials: '' @ m)) p"
  by (simp add: login_finish_def finish_gen_def)

lemma registration_finish_gen:
  "registration_finish N password response p = finish_gen N (\<lambda>h k. RegistrationFinish h password response k)
     ''the envelope could not be sealed'' (opaque_error ''opaque_registration_failed'') p"
  by (simp add: registration_finish_def finish_gen_def)

lemma ends_one_calls:
  "ends_one (\<lambda>h k. LoginFinish h password ke2 k)" "ends_one (\<lambda>h k. RegistrationFinish h password response k)"
  by (auto simp: ends_one_def)

section \<open>A whole life\<close>

text \<open>
  What may be done with an exchange between its construction and its destructor: any number of
  finishes, with any arguments, and any number of closes. The destructor closes once more.
\<close>

datatype exchange_op =
    FinishLogin string string ksf_params
  | FinishRegistration string string ksf_params
  | CloseExchange

fun apply_op :: "native \<Rightarrow> exchange_op \<Rightarrow> exchange \<Rightarrow> exchange" where
  "apply_op N (FinishLogin pw ke2 p) s = snd (login_finish N pw ke2 p s)"
| "apply_op N (FinishRegistration pw r p) s = snd (registration_finish N pw r p s)"
| "apply_op N CloseExchange s = snd (close_exchange s)"

definition life :: "native \<Rightarrow> string nop \<Rightarrow> exchange_op list \<Rightarrow> exchange" where
  "life N start ops = snd (close_exchange (fold (apply_op N) ops (snd (start fresh_exchange))))"

lemma close_run:
  "close_exchange s = (Inr (), (case handle s of
      None \<Rightarrow> wipe_message (s\<lparr>handle := None\<rparr>)
    | Some k \<Rightarrow> wipe_message (s\<lparr>calls := calls s @ [if is_login s then LoginFree k else RegistrationFree k],
                                handle := None\<rparr>)))"
  by (simp add: close_exchange_def op_simps invoke_def wipe_message_def split: option.split)

lemma close_inv: "exchange_inv N s \<Longrightarrow> exchange_inv N (snd (close_exchange s))"
proof (cases "handle s")
  case None
  then show "exchange_inv N s \<Longrightarrow> ?thesis" by (simp add: close_run exchange_inv_def state_once_def wipe_message_def)
next
  case (Some k)
  let ?c = "if is_login s then LoginFree k else RegistrationFree k"
  assume i: "exchange_inv N s"
  then have "ksf_balanced N {} (calls s @ [?c])" by (intro balanced_snoc(3)) (auto simp: exchange_inv_def)
  moreover have "ends_state h ?c \<longleftrightarrow> h = k" for h by auto
  ultimately show ?thesis
    using i Some by (auto simp: close_run exchange_inv_def state_once_def wipe_message_def)
qed

lemma apply_op_inv: "exchange_inv N s \<Longrightarrow> exchange_inv N (apply_op N op s)"
  by (cases op) (auto simp: login_finish_gen registration_finish_gen close_inv intro!: finish_inv ends_one_calls)

text \<open>The handle is the one of the first call, until it is taken; taken or held, it is accounted for.\<close>

definition accounted :: "exchange \<Rightarrow> bool" where
  "accounted s \<longleftrightarrow> calls s \<noteq> [] \<and> (case handle s of Some h \<Rightarrow> h = 0 | None \<Rightarrow> ended 0 (calls s) = 1)"

lemma finish_accounted:
  assumes "ends_one mkc" "exchange_inv N s" "accounted s"
  shows "accounted (snd (finish_gen N mkc fallback mk p s))"
proof (cases N mkc fallback mk p s rule: finish_cases)
  case (refused e)
  with assms show ?thesis by simp
next
  case (rejected c e)
  with assms ended_makes[OF ksf_call_makes[OF rejected(1)]] show ?thesis
    by (auto simp: accounted_def split: option.split)
next
  case (spent c)
  with assms ended_makes[OF ksf_call_makes[OF spent(1)]] show ?thesis
    by (auto simp: accounted_def split: option.split)
next
  case (ran c h)
  from assms ran(3) have "h = 0" "ended 0 (calls s) = 0" by (auto simp: accounted_def exchange_inv_def state_once_def)
  with ran assms ended_makes[OF ksf_call_makes[OF ran(1)]] show ?thesis
    by (auto simp: accounted_def ends_one_ended split: option.split)
qed

lemma close_accounted: "exchange_inv N s \<Longrightarrow> accounted s \<Longrightarrow> accounted (snd (close_exchange s))"
  by (auto simp: close_run accounted_def wipe_message_def exchange_inv_def state_once_def split: option.splits)

lemma apply_op_accounted: "exchange_inv N s \<Longrightarrow> accounted s \<Longrightarrow> accounted (apply_op N op s)"
  by (cases op)
    (auto simp: login_finish_gen registration_finish_gen close_accounted intro!: finish_accounted ends_one_calls)

lemma ops_keep:
  "exchange_inv N s \<Longrightarrow> accounted s \<Longrightarrow>
     exchange_inv N (fold (apply_op N) ops s) \<and> accounted (fold (apply_op N) ops s)"
  by (induction ops arbitrary: s) (auto simp: apply_op_inv apply_op_accounted)

text \<open>The state after the construction, when the library gave a handle and when it did not.\<close>

lemma start_run:
  "start_exchange N login c fallback cat fresh_exchange =
     (if n_loaded N then
        (if n_handle N [] c
         then (let m = (case n_text N [] c of Some m \<Rightarrow> m | None \<Rightarrow> [])
               in (Inr m, \<lparr>calls = [c], handle = Some 0, first_message = m, is_login = login\<rparr>))
         else (Inl (opaque_error cat (last_error_or N (fresh_exchange\<lparr>calls := [c]\<rparr>) fallback)),
               fresh_exchange\<lparr>calls := [c]\<rparr>))
      else (Inl (NetworkError ''OPAQUE is not available'' ''opaque_library_missing''), fresh_exchange))"
  by (simp add: start_exchange_def require_native_def obtain_handle_def invoke_def fail_with_def fresh_exchange_def
      op_simps Let_def)

lemma balanced_nil: "ksf_balanced N {} []"
  by (simp add: ksf_balanced_def ksf_freed_def)

lemma started_inv:
  assumes "\<not> makes_ksf c" "\<forall>k. c \<noteq> KsfFree k" "\<forall>h. \<not> ends_state h c"
    and "start_exchange N login c fallback cat fresh_exchange = (Inr m, s)"
  shows "exchange_inv N s \<and> accounted s"
proof -
  from assms(4) have s: "s = \<lparr>calls = [c], handle = Some 0, first_message = m, is_login = login\<rparr>"
    by (auto simp: start_run Let_def split: if_splits)
  have "ksf_balanced N {} ([] @ [c])" by (rule balanced_snoc(3)[OF balanced_nil]) (use assms in auto)
  with assms(3) s show ?thesis by (simp add: exchange_inv_def state_once_def accounted_def)
qed

lemma life_once:
  assumes "exchange_inv N (snd (start fresh_exchange))" "accounted (snd (start fresh_exchange))"
  shows "exchange_inv N (life N start ops) \<and> accounted (life N start ops)
    \<and> handle (life N start ops) = None \<and> first_message (life N start ops) = []"
proof -
  let ?s = "fold (apply_op N) ops (snd (start fresh_exchange))"
  from ops_keep[OF assms, of ops] have i: "exchange_inv N ?s" "accounted ?s" by simp_all
  from close_inv[OF i(1)] close_accounted[OF i] show ?thesis
    by (auto simp: life_def close_run wipe_message_def split: option.splits)
qed

section \<open>Properties\<close>

text \<open>
  C34. Whatever is done with a login exchange (finished any number of times, with any server
  message and any cost parameters, closed early or twice), by the end of its destructor the
  native state handle has been consumed or freed exactly once, no other handle has been ended
  twice, every key-stretching handle the library gave out has been freed exactly once and
  nothing else has, and the first message is wiped.
\<close>

theorem login_handles_released_once:
  assumes "start_login N password fresh_exchange = (Inr ke1, s0)"
  shows "ended 0 (calls (life N (start_login N password) ops)) = 1
    \<and> (\<forall>h. ended h (calls (life N (start_login N password) ops)) \<le> 1)
    \<and> ksf_balanced N {} (calls (life N (start_login N password) ops))
    \<and> handle (life N (start_login N password) ops) = None
    \<and> first_message (life N (start_login N password) ops) = []"
proof -
  have "exchange_inv N s0 \<and> accounted s0"
    by (rule started_inv[OF _ _ _ assms[unfolded start_login_def]]) auto
  then have "exchange_inv N (snd (start_login N password fresh_exchange))"
    "accounted (snd (start_login N password fresh_exchange))" using assms by simp_all
  from life_once[where start = "start_login N password", OF this, where ops = ops] show ?thesis
    by (auto simp: exchange_inv_def state_once_def accounted_def)
qed

definition demo_native :: native where
  "demo_native = \<lparr>n_loaded = True, n_handle = (\<lambda>_ _. True), n_text = (\<lambda>_ _. Some ''aa''), n_last_error = (\<lambda>_. [])\<rparr>"

definition demo_ksf :: ksf_params where
  "demo_ksf = \<lparr>ksf = ''argon2id'', memory_kib = Some 65536, iterations = Some 3, parallelism = Some 1,
     log_n = None, ksf_r = None, ksf_p = None\<rparr>"

lemma login_handles_released_once_witness:
  "start_login demo_native ''pw'' fresh_exchange
     = (Inr ''aa'', \<lparr>calls = [LoginStart ''pw''], handle = Some 0, first_message = ''aa'', is_login = True\<rparr>)
   \<and> ended 0 (calls (life demo_native (start_login demo_native ''pw'')
        [FinishLogin ''pw'' ''bb'' demo_ksf, FinishLogin ''pw'' ''bb'' demo_ksf])) = 1"
proof -
  have s: "start_login demo_native ''pw'' fresh_exchange
     = (Inr ''aa'', \<lparr>calls = [LoginStart ''pw''], handle = Some 0, first_message = ''aa'', is_login = True\<rparr>)"
    by (simp add: start_login_def start_run demo_native_def Let_def)
  from login_handles_released_once[OF s] s show ?thesis by blast
qed

text \<open>
  A cost the server names is acted on only inside the SDK's bands: a finish whose
  parameters the SDK does not accept is a network error, calls the library not at all and
  leaves the exchange exactly as it was; parameters it does accept name one of the two known
  functions with every cost it needs inside its band.
\<close>

theorem ksf_refusal_is_free:
  "(case ksf_call p of
      Inl e \<Rightarrow> is_network_error e \<and> login_finish N pw ke2 p s = (Inl e, s)
        \<and> registration_finish N pw r p s = (Inl e, s)
    | Inr c \<Rightarrow>
        (\<exists>m i l. c = KsfArgon2id m i l \<and> ksf p = ''argon2id'' \<and> memory_kib p = Some m \<and> iterations p = Some i
           \<and> parallelism p = Some l \<and> in_band kMemoryKib m \<and> in_band kIterations i \<and> in_band kParallelism l)
      \<or> (\<exists>n q t. c = KsfScrypt (ucast n) q t \<and> ksf p = ''scrypt'' \<and> log_n p = Some n \<and> ksf_r p = Some q
           \<and> ksf_p p = Some t \<and> in_band kLogN n \<and> in_band kR q \<and> in_band kP t
           \<and> unat (ucast n :: 8 word) = unat n))"
proof (cases "ksf_call p")
  case (Inl e)
  then show ?thesis
    by (simp add: ksf_call_Inl login_finish_def registration_finish_def with_ksf_def build_ksf_def op_simps)
next
  case (Inr c)
  then show ?thesis
    using log_n_byte by (auto simp: ksf_call_def and_then_eq_Inr require_cost_Inr split: if_splits)
qed

end
