(* ===== verification/Client.thy ===== *)
theory Client
  imports ClientImpl
begin

text \<open>
  \<open>src/client.cpp\<close>: construction of the client and its session, acting-tenant, device and
  authorization-check operations, over the core of \<open>ClientImpl\<close>. Every operation is the whole
  member function: its guards, the wire call, the parsing of the answer and the state it adopts.
\<close>

section \<open>Reading the session cookie\<close>

fun cookie_value :: "string list \<Rightarrow> string \<Rightarrow> string option" where
  "cookie_value [] name = None"
| "cookie_value (sc # scs) name =
     (if prefix (name @ ''='') sc
      then (let rest = drop (length (name @ ''='')) sc in
            case cut (\<lambda>c. c = CHR '';'') rest of None \<Rightarrow> Some rest | Some (v, _, _) \<Rightarrow> Some v)
      else cookie_value scs name)"

definition jwt_claim :: "(string \<Rightarrow> json) \<Rightarrow> string \<Rightarrow> string \<Rightarrow> string option" where
  "jwt_claim parse jwt claim =
     (case cut is_dot jwt of
        None \<Rightarrow> None
      | Some (_, _, rest) \<Rightarrow>
          (case cut is_dot rest of
             None \<Rightarrow> None
           | Some (p, _, _) \<Rightarrow>
               (case base64url_decode p of
                  None \<Rightarrow> None
                | Some payload \<Rightarrow> opt_str (parse payload) claim)))"

definition org_id_from_cookies :: "(string \<Rightarrow> json) \<Rightarrow> string list \<Rightarrow> string option" where
  "org_id_from_cookies parse cookies =
     (case cookie_value cookies ''axiam_access'' of
        None \<Rightarrow> None
      | Some access \<Rightarrow> jwt_claim parse access ''org_id'')"

section \<open>Construction\<close>

record builder =
  b_base_url :: string
  b_tenant_slug :: "string option"
  b_tenant_id :: "string option"
  b_org_slug :: "string option"
  b_org_id :: "string option"
  b_acting_tenant :: "string option"
  b_custom_ca :: string
  b_client_cert :: string
  b_client_key :: string
  b_connect_timeout :: int
  b_request_timeout :: int
  b_max_concurrent :: nat
  b_oidc_client_id :: "string option"
  b_oidc_client_secret :: "string option"
  b_oidc_discovery_ttl :: int
  b_oidc_clock_skew :: int
  b_retry_enabled :: bool
  b_memo_ttl :: int
  b_hook_set :: bool

definition pem_mark :: string where "pem_mark = ''-----BEGIN''"

definition holds_pem :: "string \<Rightarrow> bool" where
  "holds_pem s = (cut_str pem_mark s \<noteq> None)"

definition set_base_url :: "string \<Rightarrow> builder \<Rightarrow> builder" where
  "set_base_url url b = b\<lparr>b_base_url := strip_trailing_slash url\<rparr>"

definition set_oidc_client_secret :: "string \<Rightarrow> builder \<Rightarrow> builder" where
  "set_oidc_client_secret secret b = (if secret \<noteq> [] then b\<lparr>b_oidc_client_secret := Some secret\<rparr> else b)"

definition with_custom_ca :: "string \<Rightarrow> builder \<Rightarrow> builder res" where
  "with_custom_ca pem b =
     (if holds_pem pem then Inr (b\<lparr>b_custom_ca := pem\<rparr>)
      else Inl (InvalidArgument ''with_custom_ca: expected PEM-encoded certificate''))"

definition with_client_cert :: "string \<Rightarrow> string \<Rightarrow> builder \<Rightarrow> builder res" where
  "with_client_cert cert key b =
     (if \<not> holds_pem cert \<or> \<not> holds_pem key
      then Inl (InvalidArgument ''with_client_cert: expected PEM cert chain and PEM private key'')
      else Inr (b\<lparr>b_client_cert := cert, b_client_key := key\<rparr>))"

definition with_acting_tenant :: "string \<Rightarrow> builder \<Rightarrow> builder res" where
  "with_acting_tenant tenant b =
     (if looks_like_uuid tenant then Inr (b\<lparr>b_acting_tenant := Some tenant\<rparr>)
      else Inl (InvalidArgument ''with_acting_tenant: not a UUID''))"

definition set_max_concurrent :: "nat \<Rightarrow> builder \<Rightarrow> builder" where
  "set_max_concurrent n b = b\<lparr>b_max_concurrent := (if n = 0 then 1 else n)\<rparr>"

definition is_blank_ws :: "char \<Rightarrow> bool" where
  "is_blank_ws c = (c = CHR '' '' \<or> code c = 9 \<or> code c = 13 \<or> code c = 10)"

definition is_blank :: "string option \<Rightarrow> bool" where
  "is_blank v = (case v of None \<Rightarrow> False | Some s \<Rightarrow> list_all is_blank_ws s)"

definition kDiscoveryTtlFloor :: int where "kDiscoveryTtlFloor = 300"
definition kMaxClockSkewSeconds :: int where "kMaxClockSkewSeconds = 60"

definition check_builder :: "builder \<Rightarrow> unit res" where
  "check_builder b =
     and_then (ensure (b_base_url b \<noteq> []) (InvalidArgument ''AxiamClient: base_url is required'')) (\<lambda>_.
     and_then (ensure_secure_scheme (b_base_url b)) (\<lambda>_.
     and_then (ensure (b_tenant_slug b \<noteq> None \<or> b_tenant_id b \<noteq> None)
       (AuthError ''AxiamClient: tenant_slug or tenant_id is required (no default tenant)'')) (\<lambda>_.
     and_then (ensure (\<not> is_blank (b_tenant_slug b)) (AuthError ''AxiamClient: tenant_slug must not be blank'')) (\<lambda>_.
     and_then (ensure (\<not> is_blank (b_tenant_id b)) (AuthError ''AxiamClient: tenant_id must not be blank'')) (\<lambda>_.
     ensure (\<not> is_blank (b_org_slug b)) (AuthError ''AxiamClient: org_slug must not be blank''))))))"

definition fresh_client :: "builder \<Rightarrow> client" where
  "fresh_client b = \<lparr>sent = [], ticks = 0, base_url = b_base_url b,
     tenant_header = (case b_tenant_id b of Some t \<Rightarrow> t | None \<Rightarrow> (case b_tenant_slug b of Some t \<Rightarrow> t | None \<Rightarrow> [])),
     c_tenant_slug = b_tenant_slug b, c_tenant_id = b_tenant_id b, c_org_slug = b_org_slug b,
     c_org_id = b_org_id b, presents_client_certificate = (b_client_cert b \<noteq> []),
     retry_enabled = b_retry_enabled b, hook_set = b_hook_set b, oidc_client_id = b_oidc_client_id b,
     oidc_client_secret = b_oidc_client_secret b,
     oidc_discovery_ttl = max (b_oidc_discovery_ttl b) kDiscoveryTtlFloor,
     oidc_clock_skew = min (max (b_oidc_clock_skew b) 0) kMaxClockSkewSeconds,
     csrf = [], session = False, resolved_tenant_id = None, resolved_org_id = None,
     acting_tenant = b_acting_tenant b, login_user_info = None, device_access = [], device_session = False,
     c_principal_tenant_id = None, refresh_count = 0, decision_cache = memo_new (b_memo_ttl b),
     uma_config = None, uma_config_expires_at = 0, is_closed = False, transport_released = False,
     events = [], waits = []\<rparr>"

definition build :: "builder \<Rightarrow> client res" where
  "build b =
     and_then (check_builder b) (\<lambda>_.
       let c = fresh_client b; eff = ttl (decision_cache c) in
       Inr (if 0 < b_memo_ttl b \<and> b_memo_ttl b \<noteq> eff
            then snd (emit (ConfigClamped ''decision_memo_ttl'' (dec_int (b_memo_ttl b) @ ''ms'')
                              (dec_int eff @ ''ms'') ''17.1 rule 2'') c)
            else c))"

section \<open>Parsing the answers\<close>

definition read_principal_scope :: "json \<Rightarrow> user_info \<Rightarrow> user_info" where
  "read_principal_scope u info = info\<lparr>
     principal_tenant_id := (case opt_str u ''principal_tenant_id'' of Some t \<Rightarrow> t | None \<Rightarrow> user_tenant_id info),
     principal_tenant_slug := opt_str u ''principal_tenant_slug'',
     user_org_id := opt_str u ''org_id'',
     reachable_tenant_ids := (case jfind u ''reachable_tenant_ids'' of
         Some (JArr xs) \<Rightarrow> (if str_items xs \<noteq> [] then Some (str_items xs) else reachable_tenant_ids info)
       | _ \<Rightarrow> reachable_tenant_ids info)\<rparr>"

definition parse_user :: "json \<Rightarrow> user_info res" where
  "parse_user u =
     and_then (jvalue get_str u ''id'' []) (\<lambda>i.
     and_then (jvalue get_str u ''username'' []) (\<lambda>n.
     and_then (jvalue get_str u ''email'' []) (\<lambda>e.
     and_then (jvalue get_str u ''tenant_id'' []) (\<lambda>t.
     Inr (read_principal_scope u
       \<lparr>user_id = i, username = n, email = e, user_tenant_id = t, org_slug = opt_str u ''org_slug'',
        tenant_slug = opt_str u ''tenant_slug'', organization_level = (jfind u ''organization_level'' = Some (JBool True)),
        principal_tenant_id = [], principal_tenant_slug = None, user_org_id = None,
        reachable_tenant_ids = None\<rparr>)))))"

definition parse_decision :: "json \<Rightarrow> access_decision res" where
  "parse_decision d =
     and_then (jvalue get_bool d ''allowed'' False) (\<lambda>a.
     Inr \<lparr>allowed = a, reason = opt_str d ''reason'', reason_code = opt_str d ''reason_code''\<rparr>)"

text \<open>The 403 of the login endpoint that is not an error: the account must set up MFA first.\<close>

definition setup_demand :: "http_response \<Rightarrow> json \<Rightarrow> string option res" where
  "setup_demand resp j =
     (if status resp = 403 \<and> is_object j then
        and_then (jvalue get_bool j ''mfa_setup_required'' False) (\<lambda>b.
          if b then and_then (jvalue get_str j ''setup_token'' []) (\<lambda>t. Inr (Some t)) else Inr None)
      else Inr None)"

text \<open>The answer that asks for a second factor.\<close>

definition mfa_wanted :: "http_response \<Rightarrow> json \<Rightarrow> bool res" where
  "mfa_wanted resp j =
     (if status resp = 202 then Inr True
      else if is_discarded j then Inr False
      else jvalue get_bool j ''mfa_required'' False)"

definition mfa_result :: "json \<Rightarrow> login_result res" where
  "mfa_result j =
     (if is_discarded j then Inr (blank_login\<lparr>mfa_required := True\<rparr>)
      else and_then (jvalue get_str j ''challenge_token'' []) (\<lambda>t.
        Inr (blank_login\<lparr>mfa_required := True, challenge_token := t,
          available_methods := (case jfind j ''available_methods'' of Some (JArr ms) \<Rightarrow> str_items ms | _ \<Rightarrow> [])\<rparr>)))"

definition session_result :: "json \<Rightarrow> login_result res" where
  "session_result j =
     (if is_discarded j then Inr blank_login
      else and_then (jvalue get_str j ''session_id'' []) (\<lambda>i.
           and_then (jvalue get_int64 j ''expires_in'' 0) (\<lambda>x.
           and_then (case jfind j ''user'' of
                       Some (JObj kvs) \<Rightarrow> and_then (parse_user (JObj kvs)) (\<lambda>u. Inr (Some u))
                     | _ \<Rightarrow> Inr None) (\<lambda>u.
           Inr (blank_login\<lparr>session_id := i, expires_in := x, login_user := u\<rparr>)))))"

section \<open>Sessions\<close>

text \<open>The state every completed login adopts.\<close>

definition adopt_session :: "(string \<Rightarrow> json) \<Rightarrow> http_response \<Rightarrow> login_result \<Rightarrow> 'w client_scheme \<Rightarrow> 'w client_scheme" where
  "adopt_session parse resp r s =
     (let s1 = (release_device_credential (s\<lparr>session := True\<rparr>))\<lparr>login_user_info := login_user r\<rparr>;
          s2 = (case login_user r of
                  None \<Rightarrow> s1
                | Some u \<Rightarrow>
                    (let t = s1\<lparr>resolved_tenant_id := Some (user_tenant_id u)\<rparr> in
                     if principal_tenant_id u \<noteq> [] then t\<lparr>c_principal_tenant_id := Some (principal_tenant_id u)\<rparr> else t))
      in (case org_id_from_cookies parse (set_cookies resp) of None \<Rightarrow> s2 | Some oid \<Rightarrow> s2\<lparr>resolved_org_id := Some oid\<rparr>))"

definition complete_session :: "'e env_scheme \<Rightarrow> http_response \<Rightarrow> json \<Rightarrow> ('w, login_result) cop" where
  "complete_session E resp j =
     seq (lift_res (session_result j)) (\<lambda>r.
     seq (modify (adopt_session (env_parse E) resp r)) (\<lambda>_. ret r))"

definition complete_login :: "'e env_scheme \<Rightarrow> http_response \<Rightarrow> json \<Rightarrow> ('w, login_result) cop" where
  "complete_login E resp j =
     seq (lift_res (mfa_wanted resp j)) (\<lambda>mfa.
     if mfa then lift_res (mfa_result j) else complete_session E resp j)"

definition add_scope_fields :: "'w client_scheme \<Rightarrow> json \<Rightarrow> json" where
  "add_scope_fields s j =
     jset_opt ''org_id'' (c_org_id s) (jset_opt ''org_slug'' (c_org_slug s)
       (jset_opt ''tenant_id'' (c_tenant_id s) (jset_opt ''tenant_slug'' (c_tenant_slug s) j)))"

definition login_body :: "string \<Rightarrow> string \<Rightarrow> 'w client_scheme \<Rightarrow> json" where
  "login_body user password s =
     add_scope_fields s (jset ''password'' (JStr password) (jset ''username_or_email'' (JStr user) JNull))"

text \<open>The request half of \<open>login\<close>, up to the answer, and the half that reads the answer.\<close>

definition login_wire :: "'e env_scheme \<Rightarrow> string \<Rightarrow> string \<Rightarrow> ('w, http_response) cop" where
  "login_wire E user password =
     seq ensure_open (\<lambda>_.
     seq clear_memo (\<lambda>_.
     seq (gets (login_body user password)) (\<lambda>b.
     seq (dump E b) (\<lambda>body.
     post E ''/api/v1/auth/login'' body))))"

definition login_read :: "'e env_scheme \<Rightarrow> http_response \<Rightarrow> ('w, login_result) cop" where
  "login_read E resp =
     (let j = env_parse E (resp_body resp) in
      seq (lift_res (setup_demand resp j)) (\<lambda>d.
      case d of
        Some tok \<Rightarrow> ret (blank_login\<lparr>mfa_setup_required := True, setup_token := tok\<rparr>)
      | None \<Rightarrow> seq (must_succeed E resp) (\<lambda>_. complete_login E resp j)))"

definition login :: "'e env_scheme \<Rightarrow> string \<Rightarrow> string \<Rightarrow> ('w, login_result) cop" where
  "login E user password = seq (login_wire E user password) (login_read E)"

definition verify_mfa :: "'e env_scheme \<Rightarrow> string \<Rightarrow> string \<Rightarrow> ('w, login_result) cop" where
  "verify_mfa E token totp =
     seq ensure_open (\<lambda>_.
     seq clear_memo (\<lambda>_.
     seq (dump E (jset ''totp_code'' (JStr totp) (jset ''challenge_token'' (JStr token) JNull))) (\<lambda>body.
     seq (execute E ''POST'' ''/api/v1/auth/mfa/verify'' body False) (\<lambda>resp.
     complete_session E resp (env_parse E (resp_body resp))))))"

definition refresh_session :: "'e env_scheme \<Rightarrow> ('w, int) cop" where
  "refresh_session E = seq ensure_open (\<lambda>_. do_single_flight_refresh E)"

text \<open>\<open>refresh_async\<close> runs the same refresh without the open check.\<close>

definition refresh_async :: "'e env_scheme \<Rightarrow> ('w, int) cop" where
  "refresh_async E = do_single_flight_refresh E"

definition forget_session :: "'w client_scheme \<Rightarrow> 'w client_scheme" where
  "forget_session s = (release_device_credential (s\<lparr>session := False\<rparr>))\<lparr>csrf := [], login_user_info := None\<rparr>"

definition logout :: "'e env_scheme \<Rightarrow> ('w, unit) cop" where
  "logout E =
     seq ensure_open (\<lambda>_.
     seq clear_memo (\<lambda>_.
     seq (catching (seq (execute E ''POST'' ''/api/v1/auth/logout'' ''{}'' False) (\<lambda>_. ret ()))
            is_axiam_error (\<lambda>_. ret ())) (\<lambda>_.
     modify forget_session)))"

section \<open>The acting tenant\<close>

definition acting_gate :: "user_info option \<Rightarrow> string \<Rightarrow> unit res" where
  "acting_gate info tenant =
     (case info of
        None \<Rightarrow> Inr ()
      | Some u \<Rightarrow>
          (if \<not> organization_level u
           then Inl (AuthzError ''acting_tenant: this client's principal is not organization-level'' None None)
           else (case reachable_tenant_ids u of
                   None \<Rightarrow> Inr ()
                 | Some reach \<Rightarrow>
                     (if list_ex (\<lambda>r. same_uuid r tenant) reach then Inr ()
                      else Inl (AuthzError ''acting_tenant: outside this principal's reachable_tenant_ids'' None None)))))"

definition set_acting_tenant :: "string \<Rightarrow> ('w, unit) cop" where
  "set_acting_tenant tenant =
     seq ensure_open (\<lambda>_.
     seq (require (looks_like_uuid tenant) (NetworkError ''acting_tenant: not a UUID'' ''sdk_programming_error'')) (\<lambda>_.
     seq (gets login_user_info) (\<lambda>info.
     seq (lift_res (acting_gate info tenant)) (\<lambda>_.
     modify (\<lambda>s. s\<lparr>acting_tenant := Some tenant\<rparr>)))))"

definition clear_acting_tenant :: "('w, unit) cop" where
  "clear_acting_tenant = seq ensure_open (\<lambda>_. modify (\<lambda>s. s\<lparr>acting_tenant := None\<rparr>))"

definition close :: "('w, unit) cop" where
  "close =
     (\<lambda>s. if is_closed s then (Inr (), s)
          else (Inr (), s\<lparr>is_closed := True, session := False, csrf := [],
                          decision_cache := memo_clear (decision_cache s), transport_released := True\<rparr>))"

section \<open>Authorization checks\<close>

definition check_body :: "access_check \<Rightarrow> json" where
  "check_body c =
     jset_opt ''subject_id'' (chk_subject_id c) (jset_opt ''scope'' (chk_scope c)
       (jset ''resource_id'' (JStr (chk_resource_id c)) (jset ''action'' (JStr (chk_action c)) JNull)))"

definition memo_lookup :: "'e env_scheme \<Rightarrow> access_check \<Rightarrow> ('w, string \<times> access_decision option) cop" where
  "memo_lookup E c =
     seq (gets acting_tenant) (\<lambda>acting.
     let key = memo_key (chk_subject_id c) (chk_resource_id c) (chk_action c) (chk_scope c) acting in
     seq (reading (steady_now E)) (\<lambda>now.
     seq (gets (\<lambda>s. fst (memo_get key now (decision_cache s)))) (\<lambda>hit.
     seq (modify (\<lambda>s. s\<lparr>decision_cache := snd (memo_get key now (decision_cache s))\<rparr>)) (\<lambda>_.
     ret (key, hit)))))"

definition memo_store :: "'e env_scheme \<Rightarrow> string \<Rightarrow> access_decision \<Rightarrow> ('w, unit) cop" where
  "memo_store E key d =
     seq (reading (steady_now E)) (\<lambda>now.
     modify (\<lambda>s. s\<lparr>decision_cache := memo_put key d now (decision_cache s)\<rparr>))"

definition denied_blank :: access_decision where
  "denied_blank = \<lparr>allowed = False, reason = None, reason_code = None\<rparr>"

definition ask_server :: "'e client_env_scheme \<Rightarrow> access_check \<Rightarrow> ('w, access_decision option) cop" where
  "ask_server E c =
     seq (dump E (check_body c)) (\<lambda>body.
     seq (execute_retrying E ''check_access'' ''/api/v1/authz/check'' body) (\<lambda>resp.
     let j = env_parse E (resp_body resp) in
     if is_discarded j then ret None
     else seq (lift_res (parse_decision j)) (\<lambda>d. ret (Some d))))"

text \<open>On a miss the server is asked, and an answer it gave is remembered.\<close>

definition ask_and_store :: "'e client_env_scheme \<Rightarrow> access_check \<Rightarrow> bool \<Rightarrow> string \<Rightarrow> ('w, access_decision) cop" where
  "ask_and_store E c use_memo key =
     seq (ask_server E c) (\<lambda>answer.
     case answer of
       None \<Rightarrow> ret denied_blank
     | Some d \<Rightarrow> seq (if use_memo then memo_store E key d else ret ()) (\<lambda>_. ret d))"

definition check_access :: "'e client_env_scheme \<Rightarrow> access_check \<Rightarrow> ('w, access_decision) cop" where
  "check_access E c =
     seq ensure_open (\<lambda>_.
     seq (gets (\<lambda>s. memo_enabled (decision_cache s))) (\<lambda>use_memo.
     seq (if use_memo then memo_lookup E c else ret ([], None)) (\<lambda>(key, hit).
     case hit of
       Some d \<Rightarrow> ret d
     | None \<Rightarrow> ask_and_store E c use_memo key)))"

definition can :: "'e client_env_scheme \<Rightarrow> access_check \<Rightarrow> ('w, access_decision) cop" where
  "can E c = check_access E c"

fun parse_decisions :: "json list \<Rightarrow> access_decision list res" where
  "parse_decisions [] = Inr []"
| "parse_decisions (r # rs) =
     and_then (parse_decision r) (\<lambda>d. and_then (parse_decisions rs) (\<lambda>ds. Inr (d # ds)))"

definition batch_answers :: "json \<Rightarrow> access_decision list res" where
  "batch_answers j = (case jfind j ''results'' of Some (JArr rs) \<Rightarrow> parse_decisions rs | _ \<Rightarrow> Inr [])"

definition batch_check :: "'e client_env_scheme \<Rightarrow> access_check list \<Rightarrow> ('w, access_decision list) cop" where
  "batch_check E cs =
     seq ensure_open (\<lambda>_.
     seq (dump E (jset ''checks'' (JArr (map check_body cs)) JNull)) (\<lambda>body.
     seq (execute_retrying E ''batch_check'' ''/api/v1/authz/check/batch'' body) (\<lambda>resp.
     lift_res (batch_answers (env_parse E (resp_body resp))))))"

section \<open>The device\<close>

definition device_request :: "'w client_scheme \<Rightarrow> http_request" where
  "device_request s =
     (let h = hset ''Accept'' json_type (hset ''X-Tenant-ID'' (tenant_header s) no_headers)
      in blank_request\<lparr>req_method := ''POST'', req_url := base_url s @ ''/api/v1/auth/device'',
           req_headers := (case acting_tenant s of None \<Rightarrow> h | Some t \<Rightarrow> hset kActingTenantHeader t h),
           no_stored_cookies := True\<rparr>)"

definition device_auth_of :: "json \<Rightarrow> device_auth res" where
  "device_auth_of j =
     (case opt_str j ''access_token'' of
        Some tok \<Rightarrow>
          (if tok = [] then Inl (NetworkError ''authenticate_device: not a well-formed DeviceAuth'' ''malformed_body'')
           else and_then (jvalue get_str j ''token_type'' []) (\<lambda>ty.
                and_then (jvalue get_int64 j ''expires_in'' 0) (\<lambda>x.
                Inr \<lparr>device_access_token = tok, device_token_type = ty, device_expires_in = x\<rparr>)))
      | None \<Rightarrow> Inl (NetworkError ''authenticate_device: not a well-formed DeviceAuth'' ''malformed_body''))"

definition adopt_device :: "device_auth \<Rightarrow> 'w client_scheme \<Rightarrow> 'w client_scheme" where
  "adopt_device da s = s\<lparr>device_access := device_access_token da, device_session := True, login_user_info := None\<rparr>"

definition device_wire :: "'e env_scheme \<Rightarrow> ('w, device_auth) cop" where
  "device_wire E =
     seq (seq (gets device_request) (send_raw E)) (\<lambda>resp.
     seq (must_succeed E resp) (\<lambda>_.
     lift_res (device_auth_of (env_parse E (resp_body resp)))))"

definition authenticate_device :: "'e env_scheme \<Rightarrow> ('w, device_auth) cop" where
  "authenticate_device E =
     seq ensure_open (\<lambda>_.
     seq (gets presents_client_certificate) (\<lambda>cert.
     seq (require cert (AuthError ''authenticate_device: this client was not built with with_client_cert()'')) (\<lambda>_.
     seq clear_memo (\<lambda>_.
     seq (device_wire E) (\<lambda>da.
     seq (modify (adopt_device da)) (\<lambda>_. ret da))))))"

definition csrf_token :: "'w client_scheme \<Rightarrow> string option" where
  "csrf_token s = (if csrf s = [] then None else Some (csrf s))"

definition has_session :: "'w client_scheme \<Rightarrow> bool" where
  "has_session s = (session s \<or> device_session s)"

section \<open>What the operations keep of the memo\<close>

text \<open>
  \<open>served\<close>: a decision the server gave. Some request the client sent asked exactly this check
  of the authorization endpoint under this acting tenant, was answered with a success, and the
  body of that answer parses to the decision.
\<close>

definition served :: "'e env_scheme \<Rightarrow> 'w client_scheme \<Rightarrow> access_check \<Rightarrow> string option \<Rightarrow> access_decision \<Rightarrow> bool" where
  "served E s c acting d \<longleftrightarrow>
     (\<exists>xs req ys resp. sent s = xs @ req # ys \<and> env_transport E xs req = Inr resp \<and> is_success (status resp)
        \<and> req_method req = ''POST'' \<and> req_url req = base_url s @ ''/api/v1/authz/check''
        \<and> env_dump E (check_body c) = Inr (req_body req)
        \<and> hget (req_headers req) ''X-Tenant-ID'' = Some (tenant_header s)
        \<and> hget (req_headers req) kActingTenantHeader = acting
        \<and> parse_decision (env_parse E (resp_body resp)) = Inr d)"

definition check_key :: "access_check \<Rightarrow> string option \<Rightarrow> string" where
  "check_key c acting = memo_key (chk_subject_id c) (chk_resource_id c) (chk_action c) (chk_scope c) acting"

definition memo_served :: "'e env_scheme \<Rightarrow> 'w client_scheme \<Rightarrow> bool" where
  "memo_served E s \<longleftrightarrow>
     (\<forall>k e. entries (decision_cache s) k = Some e \<longrightarrow>
        (\<exists>c acting. k = check_key c acting \<and> served E s c acting (decision e)))"

definition memo_step :: "'e env_scheme \<Rightarrow> 'w client_scheme \<Rightarrow> 'w client_scheme \<Rightarrow> bool" where
  "memo_step E s t \<longleftrightarrow>
     base_url t = base_url s \<and> tenant_header t = tenant_header s \<and> (\<exists>xs. sent t = sent s @ xs)
     \<and> (memo_inv (decision_cache s) \<longrightarrow> memo_inv (decision_cache t))
     \<and> (memo_inv (decision_cache s) \<and> memo_served E s \<longrightarrow> memo_served E t)"

interpretation served_memo: kept "memo_step E" for E :: "'e env_scheme"
  by unfold_locales (auto simp: memo_step_def)

lemma served_mono:
  "served E s c acting d \<Longrightarrow> sent t = sent s @ zs \<Longrightarrow> base_url t = base_url s \<Longrightarrow> tenant_header t = tenant_header s
     \<Longrightarrow> served E t c acting d"
  by (fastforce simp: served_def)

lemma memo_stepI:
  assumes "base_url t = base_url s" "tenant_header t = tenant_header s" "sent t = sent s @ zs"
    and "memo_inv (decision_cache s) \<Longrightarrow> memo_inv (decision_cache t)"
    and "entries (decision_cache t) \<subseteq>\<^sub>m entries (decision_cache s)"
  shows "memo_step E s t"
proof -
  have "entries (decision_cache s) k = Some e" if "entries (decision_cache t) k = Some e" for k e
    using assms(5) that by (metis domI map_le_def)
  then show ?thesis
    using assms(1-4) served_mono[OF _ assms(3,1,2)] unfolding memo_step_def memo_served_def by blast
qed

lemma core_memo_step: "core_step s t \<Longrightarrow> memo_step E s t"
  by (auto simp: core_step_def same_config_def memo_shrinks_def intro: memo_stepI)

lemma core_keeps: "keeps core_step m \<Longrightarrow> keeps (memo_step E) m"
  by (simp add: keeps_def core_memo_step)

lemma memo_step_quiet:
  "base_url t = base_url s \<Longrightarrow> tenant_header t = tenant_header s \<Longrightarrow> sent t = sent s \<Longrightarrow>
     decision_cache t = decision_cache s \<Longrightarrow> memo_step E s t"
  by (rule memo_stepI[where zs = "[]"]) auto

lemma adopt_session_sel [simp]:
  "base_url (adopt_session p r l s) = base_url s" "tenant_header (adopt_session p r l s) = tenant_header s"
  "sent (adopt_session p r l s) = sent s" "decision_cache (adopt_session p r l s) = decision_cache s"
  "is_closed (adopt_session p r l s) = is_closed s" "session (adopt_session p r l s) = True"
  "device_access (adopt_session p r l s) = []" "device_session (adopt_session p r l s) = False"
  "login_user_info (adopt_session p r l s) = login_user l" "acting_tenant (adopt_session p r l s) = acting_tenant s"
  by (auto simp: adopt_session_def release_device_credential_def Let_def split: option.split)

lemmas modify_quiet = served_memo.step[OF memo_step_quiet]

lemma memo_complete_session: "keeps (memo_step E) (complete_session E' resp j)"
  unfolding complete_session_def by (intro served_memo.rules modify_quiet) auto

lemma memo_complete_login: "keeps (memo_step E) (complete_login E' resp j)"
  unfolding complete_login_def by (intro served_memo.rules memo_complete_session)

lemma memo_login: "keeps (memo_step E) (login E' u p)"
  unfolding login_def login_wire_def login_read_def dump_def Let_def
  by (intro served_memo.rules core_keeps core_ops memo_complete_login)

lemma memo_verify_mfa: "keeps (memo_step E) (verify_mfa E' tok totp)"
  unfolding verify_mfa_def dump_def
  by (intro served_memo.rules core_keeps core_ops memo_complete_session)

lemma memo_refresh: "keeps (memo_step E) (refresh_session E')" "keeps (memo_step E) (refresh_async E')"
  unfolding refresh_session_def refresh_async_def
  by (intro served_memo.rules core_keeps core_ops)+

lemma memo_logout: "keeps (memo_step E) (logout E')"
  unfolding logout_def
  by (intro served_memo.seq served_memo.catching core_keeps core_ops core.rules modify_quiet)
    (simp_all add: forget_session_def release_device_credential_def)

lemma memo_set_acting: "keeps (memo_step E) (set_acting_tenant t)"
  unfolding set_acting_tenant_def
  by (intro served_memo.seq served_memo.pure core_keeps core_ensure_open modify_quiet) simp_all

lemma memo_clear_acting: "keeps (memo_step E) clear_acting_tenant"
  unfolding clear_acting_tenant_def
  by (intro served_memo.seq core_keeps core_ensure_open modify_quiet) simp_all

lemma memo_close: "keeps (memo_step E) close"
  by (rule keepsI) (auto simp: close_def memo_inv_clear intro!: memo_stepI[where zs = "[]"],
    auto simp: memo_clear_def memo_step_def)

lemma device_request_carries: "carries_tenant s (device_request s)"
  by (auto simp: carries_tenant_def device_request_def Let_def blank_request_def kActingTenantHeader_def
      lower_def lower_char_def is_upper_def split: option.split)

lemma memo_device: "keeps (memo_step E) (authenticate_device E')"
  unfolding authenticate_device_def device_wire_def
  by (intro served_memo.seq served_memo.pure core_keeps core_ops core_send device_request_carries modify_quiet)
    (simp_all add: adopt_device_def)

lemma memo_batch: "keeps (memo_step E) (batch_check E' cs)"
  unfolding batch_check_def dump_def by (intro served_memo.seq served_memo.pure core_keeps core_ops)

section \<open>The check\<close>

definition after_lookup :: "'e env_scheme \<Rightarrow> access_check \<Rightarrow> 'w client_scheme \<Rightarrow> 'w client_scheme" where
  "after_lookup E c s = s\<lparr>ticks := Suc (ticks s),
     decision_cache := snd (memo_get (check_key c (acting_tenant s)) (env_steady E (ticks s)) (decision_cache s))\<rparr>"

definition lookup_hit :: "'e env_scheme \<Rightarrow> access_check \<Rightarrow> 'w client_scheme \<Rightarrow> access_decision option" where
  "lookup_hit E c s = fst (memo_get (check_key c (acting_tenant s)) (env_steady E (ticks s)) (decision_cache s))"

lemma memo_lookup_run:
  "memo_lookup E c s = (Inr (check_key c (acting_tenant s), lookup_hit E c s), after_lookup E c s)"
  by (simp add: memo_lookup_def op_simps steady_now_def Let_def check_key_def lookup_hit_def after_lookup_def)

lemma ensure_open_run:
  "ensure_open s = (if is_closed s then (Inl (NetworkError ''client is closed'' ''closed''), s) else (Inr (), s))"
  by (simp add: ensure_open_def op_simps)

lemma clear_memo_run: "clear_memo s = (Inr (), s\<lparr>decision_cache := memo_clear (decision_cache s)\<rparr>)"
  by (simp add: clear_memo_def op_simps)

lemma check_access_run:
  "check_access E c s =
     (if is_closed s then (Inl (NetworkError ''client is closed'' ''closed''), s)
      else if memo_enabled (decision_cache s) then
        (case lookup_hit E c s of
           Some d \<Rightarrow> (Inr d, after_lookup E c s)
         | None \<Rightarrow> ask_and_store E c True (check_key c (acting_tenant s)) (after_lookup E c s))
      else ask_and_store E c False [] s)"
  by (simp add: check_access_def seq_def[of ensure_open] ensure_open_run seq_def[of "gets _"] op_simps
      seq_def[of "memo_lookup _ _"] memo_lookup_run split: option.split)

lemma after_lookup_sel [simp]:
  "sent (after_lookup E c s) = sent s" "base_url (after_lookup E c s) = base_url s"
  "tenant_header (after_lookup E c s) = tenant_header s" "acting_tenant (after_lookup E c s) = acting_tenant s"
  by (simp_all add: after_lookup_def)

lemma memo_get_shrinks: "memo_shrinks m (snd (memo_get k now m))"
  by (auto simp: memo_shrinks_def memo_get_def erase_locked_inv map_le_def split: option.split)

lemma after_lookup_step: "memo_step E' s (after_lookup E c s)"
  using memo_get_shrinks[of "decision_cache s" "check_key c (acting_tenant s)" "env_steady E (ticks s)"]
  by (intro memo_stepI[where zs = "[]"]) (auto simp: after_lookup_def memo_shrinks_def)

lemma ask_server_Inr:
  assumes "ask_server E c s = (Inr (Some d), t)"
  shows "served E t c (acting_tenant s) d" "core_step s t"
proof -
  from assms obtain body resp where b: "env_dump E (check_body c) = Inr body"
    and x: "execute_retrying E ''check_access'' ''/api/v1/authz/check'' body s = (Inr resp, t)"
    and d: "parse_decision (env_parse E (resp_body resp)) = Inr d"
    by (auto simp: ask_server_def dump_def seq_eq_Inr op_runs Let_def split: if_splits)
  show step: "core_step s t" by (rule keeps_run[OF core_execute_retrying x])
  from execute_retrying_Inr[OF x] obtain req where
    "last_answer E t req resp" "asks s ''/api/v1/authz/check'' body req" "is_success (status resp)"
    by (auto simp: from_wire_def)
  with step b d show "served E t c (acting_tenant s) d"
    by (fastforce simp: served_def last_answer_def asks_def carries_tenant_def core_step_def same_config_def)
qed

lemma core_ask_server: "keeps core_step (ask_server E c)"
  unfolding ask_server_def dump_def Let_def by (intro core.rules core_execute_retrying)

lemma memo_put_entries:
  assumes "memo_inv m" "entries (memo_put k d now m) k' = Some e"
  shows "k' = k \<and> decision e = d \<or> entries m k' = Some e"
proof (cases "memo_enabled m")
  case True
  from memo_put_spec[OF assms(1) True, of k d now] obtain dropped where
    "entries (memo_put k d now m) = ((entries m)(k \<mapsto> \<lparr>decision = d, stored_at = now\<rparr>)) |` (- set dropped)"
    by metis
  with assms(2) show ?thesis by (auto simp: restrict_map_def split: if_splits)
qed (use assms in \<open>simp add: memo_put_def\<close>)

lemma memo_store_step:
  assumes "served E s c acting d"
  shows "memo_step E s (snd (memo_store E' (check_key c acting) d s))"
proof -
  let ?t = "snd (memo_store E' (check_key c acting) d s)"
  have m: "decision_cache ?t = memo_put (check_key c acting) d (env_steady E' (ticks s)) (decision_cache s)"
    and same: "sent ?t = sent s" "base_url ?t = base_url s" "tenant_header ?t = tenant_header s"
    by (simp_all add: memo_store_def op_simps steady_now_def)
  have sv: "served E ?t c' a d' \<longleftrightarrow> served E s c' a d'" for c' a d' using same by (simp add: served_def)
  have "memo_served E ?t" if "memo_inv (decision_cache s)" "memo_served E s"
    unfolding memo_served_def sv
  proof (intro allI impI)
    fix k e
    assume "entries (decision_cache ?t) k = Some e"
    then have "entries (memo_put (check_key c acting) d (env_steady E' (ticks s)) (decision_cache s)) k = Some e"
      by (simp add: m)
    from memo_put_entries[OF that(1) this]
    consider "k = check_key c acting" "decision e = d" | "entries (decision_cache s) k = Some e" by blast
    then show "\<exists>c' a. k = check_key c' a \<and> served E s c' a (decision e)"
      using assms that(2) by cases (auto simp: memo_served_def)
  qed
  then show ?thesis using m same by (auto simp: memo_step_def memo_inv_put)
qed

lemma ask_and_store_cases:
  assumes "ask_and_store E c use_memo key s = (r, t)" "use_memo \<Longrightarrow> key = check_key c (acting_tenant s)"
  shows "memo_step E s t \<and> (\<forall>d. r = Inr d \<longrightarrow> d = denied_blank \<or> served E t c (acting_tenant s) d)"
proof -
  obtain a u where a: "ask_server E c s = (a, u)" by fastforce
  have su: "memo_step E s u" using core_memo_step[OF keeps_run[OF core_ask_server a]] .
  show ?thesis
  proof (cases "\<exists>d. a = Inr (Some d)")
    case False
    with a assms(1) su show ?thesis
      by (cases a) (auto simp: ask_and_store_def op_simps)
  next
    case True
    then obtain d where d: "a = Inr (Some d)" by blast
    have sv: "served E u c (acting_tenant s) d" using ask_server_Inr(1) a d by blast
    show ?thesis
    proof (cases use_memo)
      case False
      with a d assms(1) su sv show ?thesis by (auto simp: ask_and_store_def op_simps)
    next
      case True
      have "memo_step E u (snd (memo_store E key d u))" using memo_store_step[OF sv] assms(2)[OF True] by simp
      moreover have "served E (snd (memo_store E key d u)) c (acting_tenant s) d"
        using sv by (simp add: served_def memo_store_def op_simps steady_now_def)
      moreover have "fst (memo_store E key d u) = Inr ()" by (simp add: memo_store_def op_simps)
      ultimately show ?thesis
        using a d True assms(1) served_memo.trans[OF su] by (auto simp: ask_and_store_def op_simps split: prod.splits)
    qed
  qed
qed

lemma memo_check: "keeps (memo_step E) (check_access E c)"
proof (rule keepsI)
  fix s
  let ?k = "check_key c (acting_tenant s)"
  have on: "memo_step E s (snd (ask_and_store E c True ?k (after_lookup E c s)))"
    using served_memo.trans[OF after_lookup_step] ask_and_store_cases[of E c True ?k "after_lookup E c s"]
    by (metis after_lookup_sel(4) prod.collapse)
  have off: "memo_step E s (snd (ask_and_store E c False [] s))"
    using ask_and_store_cases[of E c False "[]" s] by (metis prod.collapse)
  show "memo_step E s (snd (check_access E c s))"
    using on off after_lookup_step[of E s E c] served_memo.refl[of E s]
    by (simp add: check_access_run split: option.split)
qed

section \<open>Histories\<close>

text \<open>What an application may do with a client it built, one operation after another.\<close>

datatype client_op =
    Login string string
  | VerifyMfa string string
  | Refresh
  | RefreshAsync
  | Logout
  | SetActing string
  | ClearActing
  | Close
  | Check access_check
  | Batch "access_check list"
  | DeviceLogin

fun apply_client :: "'e client_env_scheme \<Rightarrow> client_op \<Rightarrow> client \<Rightarrow> client" where
  "apply_client E (Login u p) s = snd (login E u p s)"
| "apply_client E (VerifyMfa t c) s = snd (verify_mfa E t c s)"
| "apply_client E Refresh s = snd (refresh_session E s)"
| "apply_client E RefreshAsync s = snd (refresh_async E s)"
| "apply_client E Logout s = snd (logout E s)"
| "apply_client E (SetActing t) s = snd (set_acting_tenant t s)"
| "apply_client E ClearActing s = snd (clear_acting_tenant s)"
| "apply_client E Close s = snd (close s)"
| "apply_client E (Check c) s = snd (check_access E c s)"
| "apply_client E (Batch cs) s = snd (batch_check E cs s)"
| "apply_client E DeviceLogin s = snd (authenticate_device E s)"

definition history :: "'e client_env_scheme \<Rightarrow> client_op list \<Rightarrow> client \<Rightarrow> client" where
  "history E ops s = fold (apply_client E) ops s"

lemma apply_memo_step: "memo_step E s (apply_client E op s)"
  by (cases op) (simp_all add: keepsD memo_login memo_verify_mfa memo_refresh memo_logout memo_set_acting
      memo_clear_acting memo_close memo_check memo_batch memo_device)

lemma history_memo_step: "memo_step E s (history E ops s)"
  unfolding history_def
  by (induction ops arbitrary: s) (auto intro: served_memo.refl served_memo.trans apply_memo_step)

lemma build_Inr:
  "build b = Inr s \<Longrightarrow> check_builder b = Inr () \<and> (\<exists>evs. s = (fresh_client b)\<lparr>events := evs\<rparr>)"
  by (cases "check_builder b")
    (auto simp: build_def Let_def emit_run intro: exI[of _ "events (fresh_client b)"] split: if_splits)

lemma built_memo:
  assumes "build b = Inr s"
  shows "memo_inv (decision_cache s)" "memo_served E s"
proof -
  from build_Inr[OF assms] have "decision_cache s = memo_new (b_memo_ttl b)" by (auto simp: fresh_client_def)
  moreover have "entries (memo_new r) = Map.empty" for r by (simp add: memo_new_def)
  ultimately show "memo_inv (decision_cache s)" "memo_served E s" by (simp_all add: memo_inv_new memo_served_def)
qed

lemma history_memo:
  assumes "build b = Inr s"
  shows "memo_inv (decision_cache (history E ops s))" "memo_served E (history E ops s)"
  using history_memo_step[of E s ops] built_memo[OF assms] by (auto simp: memo_step_def)

lemma lookup_hit_served:
  assumes "lookup_hit E c s = Some d" "memo_served E' s"
  shows "\<exists>c' acting. check_key c (acting_tenant s) = check_key c' acting \<and> served E' s c' acting d"
proof -
  from assms(1) obtain e where "entries (decision_cache s) (check_key c (acting_tenant s)) = Some e" "decision e = d"
    by (auto simp: lookup_hit_def memo_get_def split: if_splits option.splits)
  with assms(2) show ?thesis unfolding memo_served_def by metis
qed

lemma check_access_served:
  assumes "check_access E c s = (Inr d, t)" "memo_inv (decision_cache s)" "memo_served E s"
  shows "d = denied_blank
    \<or> (\<exists>c' acting. check_key c (acting_tenant s) = check_key c' acting \<and> served E t c' acting d)"
proof (cases "memo_enabled (decision_cache s) \<and> lookup_hit E c s = Some d \<and> t = after_lookup E c s")
  case True
  with lookup_hit_served[of E c s d E] assms(3) show ?thesis by (auto simp: served_def)
next
  case False
  have sv: "x = d \<Longrightarrow> d = denied_blank \<or> served E t c (acting_tenant s) d"
    if "ask_and_store E c b k s' = (Inr x, t)" "acting_tenant s' = acting_tenant s"
      "b \<Longrightarrow> k = check_key c (acting_tenant s)" for x b k s'
    using ask_and_store_cases[OF that(1)] that(2,3) by auto
  from False assms(1) consider
      "ask_and_store E c True (check_key c (acting_tenant s)) (after_lookup E c s) = (Inr d, t)"
    | "ask_and_store E c False [] s = (Inr d, t)"
    by (auto simp: check_access_run split: if_splits option.splits)
  then show ?thesis by cases (use sv in fastforce)+
qed

section \<open>Tenants on every request\<close>

definition tenant_scoped :: "'w client_scheme \<Rightarrow> http_request \<Rightarrow> bool" where
  "tenant_scoped s r \<longleftrightarrow>
     prefix (base_url s) (req_url r) \<and> hget (req_headers r) ''X-Tenant-ID'' = Some (tenant_header s)
     \<and> (hget (req_headers r) ''Authorization'' = None \<or> no_stored_cookies r)"

definition scoped_step :: "'w client_scheme \<Rightarrow> 'w client_scheme \<Rightarrow> bool" where
  "scoped_step s t \<longleftrightarrow>
     base_url t = base_url s \<and> tenant_header t = tenant_header s
     \<and> (\<exists>xs. sent t = sent s @ xs \<and> list_all (tenant_scoped s) xs)"

lemma tenant_scoped_config:
  "base_url t = base_url s \<Longrightarrow> tenant_header t = tenant_header s \<Longrightarrow> tenant_scoped t = tenant_scoped s"
  by (simp add: tenant_scoped_def fun_eq_iff)

interpretation scoped: kept scoped_step
proof
  fix s :: "'w client_scheme"
  show "scoped_step s s" by (simp add: scoped_step_def)
next
  fix s t u :: "'w client_scheme"
  assume a: "scoped_step s t" and b: "scoped_step t u"
  then have "tenant_scoped t = tenant_scoped s" by (intro tenant_scoped_config) (simp_all add: scoped_step_def)
  with a b show "scoped_step s u" by (auto simp: scoped_step_def)
qed

lemma carries_scoped: "carries_tenant s r \<Longrightarrow> tenant_scoped s r"
  by (auto simp: carries_tenant_def tenant_scoped_def)

lemma core_scoped: "core_step s t \<Longrightarrow> scoped_step s t"
  by (auto simp: core_step_def scoped_step_def same_config_def list_all_iff carries_scoped)

lemma core_keeps_scoped: "keeps core_step m \<Longrightarrow> keeps scoped_step m"
  by (simp add: keeps_def core_scoped)

lemma scoped_quiet:
  "base_url t = base_url s \<Longrightarrow> tenant_header t = tenant_header s \<Longrightarrow> sent t = sent s \<Longrightarrow> scoped_step s t"
  by (simp add: scoped_step_def)

lemmas modify_scoped = scoped.step[OF scoped_quiet] scoped.read_step[OF scoped_quiet]

lemma scoped_complete: "keeps scoped_step (complete_session E' resp j)" "keeps scoped_step (complete_login E' resp j)"
  unfolding complete_login_def complete_session_def
  by (intro scoped.seq scoped.pure scoped.branch modify_scoped; simp)+

lemma scoped_check: "keeps scoped_step (check_access E c)"
proof -
  have l: "keeps scoped_step (memo_lookup E c)"
    unfolding memo_lookup_def Let_def by (intro scoped.seq scoped.pure modify_scoped) (simp_all add: steady_now_def)
  have st: "keeps scoped_step (memo_store E k d)" for k d
    unfolding memo_store_def by (intro scoped.seq modify_scoped) (simp_all add: steady_now_def)
  have a: "keeps scoped_step (ask_and_store E c b k)" for b k
    unfolding ask_and_store_def
    by (intro scoped.seq scoped.on_option scoped.branch scoped.pure core_keeps_scoped core_ask_server st)
  have "keeps scoped_step (case hit of Some d \<Rightarrow> ret d | None \<Rightarrow> ask_and_store E c b k)" for hit b k
    using a scoped.pure(1) by (cases hit) auto
  then show ?thesis
    unfolding check_access_def
    by (intro scoped.seq core_keeps_scoped[OF core_ensure_open] scoped.pure)
      (auto intro!: scoped.seq l scoped.pure split: prod.split)
qed

lemma scoped_login: "keeps scoped_step (login E u p)"
  unfolding login_def login_wire_def login_read_def dump_def Let_def
  by (intro scoped.rules core_keeps_scoped core_ops scoped_complete)

lemma scoped_verify_mfa: "keeps scoped_step (verify_mfa E t c)"
  unfolding verify_mfa_def dump_def
  by (intro scoped.rules core_keeps_scoped core_ops scoped_complete)

lemma scoped_refresh: "keeps scoped_step (refresh_session E)" "keeps scoped_step (refresh_async E)"
  unfolding refresh_session_def refresh_async_def by (intro scoped.rules core_keeps_scoped core_ops)+

lemma scoped_logout: "keeps scoped_step (logout E)"
  unfolding logout_def
  by (intro scoped.seq scoped.catching core_keeps_scoped core_ops core.rules modify_scoped)
    (simp_all add: forget_session_def release_device_credential_def)

lemma scoped_acting: "keeps scoped_step (set_acting_tenant t)" "keeps scoped_step clear_acting_tenant"
  unfolding set_acting_tenant_def clear_acting_tenant_def
  by (intro scoped.seq scoped.pure core_keeps_scoped core_ensure_open modify_scoped; simp)+

lemma scoped_close: "keeps scoped_step close"
  by (rule keepsI) (simp add: close_def scoped_step_def)

lemma scoped_batch: "keeps scoped_step (batch_check E cs)"
  unfolding batch_check_def dump_def by (intro scoped.seq scoped.pure core_keeps_scoped core_ops)

lemma scoped_device: "keeps scoped_step (authenticate_device E)"
  unfolding authenticate_device_def device_wire_def
  by (intro scoped.seq scoped.pure core_keeps_scoped core_ops core_send device_request_carries modify_scoped)
    (simp_all add: adopt_device_def)

lemma apply_scoped: "scoped_step s (apply_client E op s)"
  by (cases op) (simp_all add: keepsD scoped_login scoped_verify_mfa scoped_refresh scoped_logout scoped_acting
      scoped_close scoped_check scoped_batch scoped_device)

lemma history_scoped: "scoped_step s (history E ops s)"
  unfolding history_def by (induction ops arbitrary: s) (auto intro: scoped.refl scoped.trans apply_scoped)

section \<open>Sessions: what each operation leaves\<close>

text \<open>Sending leaves every session field but the CSRF token alone.\<close>

definition same_session :: "'w client_scheme \<Rightarrow> 'w client_scheme \<Rightarrow> bool" where
  "same_session s t \<longleftrightarrow>
     session t = session s \<and> device_access t = device_access s \<and> device_session t = device_session s
     \<and> login_user_info t = login_user_info s \<and> resolved_tenant_id t = resolved_tenant_id s
     \<and> resolved_org_id t = resolved_org_id s \<and> c_principal_tenant_id t = c_principal_tenant_id s
     \<and> acting_tenant t = acting_tenant s \<and> is_closed t = is_closed s
     \<and> presents_client_certificate t = presents_client_certificate s"

interpretation session: kept same_session
  by unfold_locales (simp_all add: same_session_def)

lemma session_ensure_open: "keeps same_session ensure_open"
  unfolding ensure_open_def by (intro session.rules)

lemma session_clear_memo: "keeps same_session clear_memo"
  unfolding clear_memo_def by (rule session.step) (simp add: same_session_def)

lemma session_send: "keeps same_session (seq (gets f) (send_raw E))"
  by (rule keepsI) (auto simp: send_raw_def call_transport_def transmit_def op_simps same_session_def capture_csrf_def
      split: sum.split option.split)

lemma session_post: "keeps same_session (post E path body)"
  unfolding post_def by (rule session_send)

lemma session_must_succeed: "keeps same_session (must_succeed E resp)"
  by (simp add: must_succeed_def fail_status_def session.pure)

lemma session_execute_once: "keeps same_session (execute E meth path body False)"
  unfolding execute_def by (intro session.seq session_send) (simp add: session.pure fail_status_def)

lemmas session_core = session_ensure_open session_clear_memo session_post session_send session_must_succeed
  session_execute_once

lemma complete_session_cases:
  assumes "complete_session E resp j s = (r, t)"
  shows "(\<exists>e. r = Inl e \<and> t = s) \<or> (\<exists>l. r = Inr l \<and> session_result j = Inr l \<and> t = adopt_session (env_parse E) resp l s)"
proof (cases "session_result j")
  case (Inl e)
  then have "complete_session E resp j s = (Inl e, s)" by (simp add: complete_session_def op_simps)
  with assms show ?thesis by auto
next
  case (Inr l)
  then have "complete_session E resp j s = (Inr l, adopt_session (env_parse E) resp l s)"
    by (simp add: complete_session_def op_simps)
  with assms have "r = Inr l" "t = adopt_session (env_parse E) resp l s" by simp_all
  with Inr show ?thesis by blast
qed

lemma session_result_plain: "session_result j = Inr l \<Longrightarrow> \<not> mfa_required l \<and> \<not> mfa_setup_required l"
  by (auto simp: session_result_def blank_login_def and_then_eq_Inr split: if_splits json.splits option.splits)

lemma mfa_result_required: "mfa_result j = Inr l \<Longrightarrow> mfa_required l"
  by (auto simp: mfa_result_def blank_login_def and_then_eq_Inr split: if_splits)

lemma complete_login_cases:
  assumes "complete_login E resp j s = (r, t)"
  shows "t = s \<and> (\<forall>l. r = Inr l \<longrightarrow> mfa_required l)
    \<or> (\<exists>l. r = Inr l \<and> session_result j = Inr l \<and> t = adopt_session (env_parse E) resp l s)"
proof (cases "mfa_wanted resp j")
  case (Inl e)
  with assms show ?thesis by (auto simp: complete_login_def op_simps)
next
  case (Inr b)
  show ?thesis
  proof (cases b)
    case True
    with assms Inr mfa_result_required show ?thesis by (auto simp: complete_login_def op_simps)
  next
    case False
    with assms Inr have "complete_session E resp j s = (r, t)" by (simp add: complete_login_def op_simps)
    from complete_session_cases[OF this] show ?thesis by auto
  qed
qed

text \<open>The state before the answer is read, in both login calls.\<close>

lemma login_parts:
  assumes "login E u p s = (r, t)"
  shows "same_session s t \<and> (\<forall>l. r = Inr l \<longrightarrow> mfa_required l \<or> mfa_setup_required l)
    \<or> (\<exists>l resp s1. r = Inr l \<and> same_session s s1 \<and> last_answer E s1 (last (sent s1)) resp \<and> is_success (status resp)
        \<and> session_result (env_parse E (resp_body resp)) = Inr l \<and> t = adopt_session (env_parse E) resp l s1)"
proof -
  have fr: "keeps same_session (login_wire E u p)"
    unfolding login_wire_def dump_def by (intro session.seq session.pure session_core)
  obtain q s1 where f: "login_wire E u p s = (q, s1)" by fastforce
  have same: "same_session s s1" by (rule keeps_run[OF fr f])
  show ?thesis
  proof (cases q)
    case (Inl e)
    with assms f same show ?thesis by (auto simp: login_def op_simps)
  next
    case (Inr resp)
    with f have "\<exists>req. last_answer E s1 req resp" unfolding login_wire_def
      by (auto simp: seq_eq_Inr dest!: post_Inr)
    then have la: "last_answer E s1 (last (sent s1)) resp" by (auto simp: last_answer_def)
    have b: "login_read E resp s1 = (r, t)" using assms f Inr by (simp add: login_def op_simps)
    let ?j = "env_parse E (resp_body resp)"
    show ?thesis
    proof (cases "setup_demand resp ?j")
      case (Inl e)
      with b same show ?thesis by (auto simp: login_read_def op_simps Let_def)
    next
      case (Inr d)
      show ?thesis
      proof (cases d)
        case (Some tok)
        with b Inr same show ?thesis by (auto simp: login_read_def op_simps Let_def blank_login_def)
      next
        case None
        with b Inr have c: "seq (must_succeed E resp) (\<lambda>_. complete_login E resp ?j) s1 = (r, t)"
          by (simp add: login_read_def op_simps Let_def)
        show ?thesis
        proof (cases "is_success (status resp)")
          case False
          with c same show ?thesis by (auto simp: must_succeed_def fail_status_def op_simps)
        next
          case True
          with c have "complete_login E resp ?j s1 = (r, t)" by (simp add: must_succeed_def op_simps)
          from complete_login_cases[OF this] show ?thesis using same la True by blast
        qed
      qed
    qed
  qed
qed

section \<open>Properties\<close>


definition demo_builder :: builder where
  "demo_builder = \<lparr>b_base_url = ''https://id.example'', b_tenant_slug = Some ''acme'', b_tenant_id = None,
     b_org_slug = None, b_org_id = None, b_acting_tenant = None, b_custom_ca = [], b_client_cert = [],
     b_client_key = [], b_connect_timeout = 1, b_request_timeout = 1, b_max_concurrent = 1,
     b_oidc_client_id = None, b_oidc_client_secret = None, b_oidc_discovery_ttl = 300,
     b_oidc_clock_skew = 60, b_retry_enabled = True, b_memo_ttl = 0, b_hook_set = False\<rparr>"

definition demo_answer :: "string \<Rightarrow> json" where
  "demo_answer _ = JObj [(''allowed'', JBool True)]"

definition demo_check :: access_check where
  "demo_check = \<lparr>chk_action = ''read'', chk_resource_id = ''doc'', chk_scope = None, chk_subject_id = None\<rparr>"

definition demo_ok :: client_env where
  "demo_ok = demo_net (\<lambda>_ _. Inr (demo_status 200)) demo_answer"

lemma demo_built: "build demo_builder = Inr (fresh_client demo_builder)"
proof -
  have "cut_str ''://'' ''https://id.example'' = Some (''https'', ''id.example'')" by code_simp
  then have "ensure_secure_scheme ''https://id.example'' = Inr ()"
    by (simp add: ensure_secure_scheme_def lower_def lower_char_def is_upper_def)
  then have "check_builder demo_builder = Inr ()"
    by (simp add: check_builder_def demo_builder_def is_blank_def is_blank_ws_def)
  then show ?thesis by (simp add: build_def demo_builder_def Let_def)
qed

lemma demo_asked:
  "\<exists>t. ask_server demo_ok demo_check (fresh_client demo_builder)
     = (Inr (Some \<lparr>allowed = True, reason = None, reason_code = None\<rparr>), t)"
  by (simp add: ask_server_def dump_def execute_retrying_def attempts.simps one_attempt_def held_send_def send_raw_def
      call_transport_def transmit_def conclude_def op_simps demo_ok_def demo_net_def demo_status_def blank_response_def
      demo_answer_def emit_run fresh_client_def demo_builder_def kRetryMaxAttempts_def retry_should_retry_def
      answered_def is_success_def parse_decision_def jvalue_def opt_str_def capture_csrf_def no_headers_def
      hget_def Let_def)

lemma demo_allowed:
  "\<exists>t. check_access demo_ok demo_check (history demo_ok [] (fresh_client demo_builder))
     = (Inr \<lparr>allowed = True, reason = None, reason_code = None\<rparr>, t)"
  using demo_asked
  by (auto simp: history_def check_access_run ask_and_store_def op_simps fresh_client_def demo_builder_def memo_enabled_def
      memo_new_def)



text \<open>
  A login changes the session only when it completes one: a refusal, a failure, a second
  factor still owed or a required MFA setup leaves every session field as it was; a completed
  one opens the session, drops any device credential and makes the acting-tenant gate exactly
  what this answer reported.
\<close>

theorem login_adopts_only_a_session:
  "(case login E u p s of
      (Inl e, t) \<Rightarrow> same_session s t
    | (Inr l, t) \<Rightarrow>
        (if mfa_required l \<or> mfa_setup_required l then same_session s t
         else session t \<and> \<not> device_session t \<and> device_access t = [] \<and> login_user_info t = login_user l
           \<and> acting_tenant t = acting_tenant s \<and> is_closed t = is_closed s))"
proof -
  obtain r t where l: "login E u p s = (r, t)" by fastforce
  from login_parts[OF l] consider
      (kept) "same_session s t" "\<forall>l. r = Inr l \<longrightarrow> mfa_required l \<or> mfa_setup_required l"
    | (completed) l resp s1 where "r = Inr l" "same_session s s1" "session_result (env_parse E (resp_body resp)) = Inr l"
        "t = adopt_session (env_parse E) resp l s1" by blast
  then show ?thesis
  proof cases
    case kept
    with l show ?thesis by (auto split: sum.split)
  next
    case completed
    with l session_result_plain[OF completed(3)] show ?thesis by (simp add: same_session_def)
  qed
qed

text \<open>
  Logging out forgets the session whatever the server answered: unless an error from
  outside the SDK's taxonomy escapes, the session flag, the device credential, the CSRF token
  and the acting-tenant gate are all cleared; and an escaping error leaves them all as they
  were, but for a CSRF token the answer carried.
\<close>

theorem logout_forgets:
  fixes s :: "'w client_scheme"
  shows "(case logout E s of
      (Inr _, t) \<Rightarrow> \<not> session t \<and> \<not> device_session t \<and> device_access t = [] \<and> csrf t = [] \<and> login_user_info t = None
    | (Inl e, t) \<Rightarrow> same_session s t \<and> is_axiam_error e = is_closed s)"
proof -
  let ?m = "seq (execute E ''POST'' ''/api/v1/auth/logout'' ''{}'' False) (\<lambda>_. ret ())"
  define s1 where "s1 = s\<lparr>decision_cache := memo_clear (decision_cache s)\<rparr>"
  obtain q s2 where m: "?m s1 = (q, s2)" by fastforce
  have k: "keeps same_session (?m :: ('w, unit) cop)" by (intro session.seq session.pure session_execute_once)
  from keeps_run[OF k m] have same: "same_session s s2" by (simp add: same_session_def s1_def)
  have run: "logout E s = (if is_closed s then (Inl (NetworkError ''client is closed'' ''closed''), s)
      else case (case q of Inl e \<Rightarrow> (if is_axiam_error e then Inr () else Inl e) | Inr _ \<Rightarrow> Inr ()) of
        Inl e \<Rightarrow> (Inl e, s2) | Inr _ \<Rightarrow> (Inr (), forget_session s2))"
  proof (cases "is_closed s")
    case True
    then show ?thesis by (simp add: logout_def seq_def[of ensure_open] ensure_open_run)
  next
    case False
    have c: "catching ?m is_axiam_error (\<lambda>_. ret ()) s1
        = (case q of Inl e \<Rightarrow> (if is_axiam_error e then Inr () else Inl e) | Inr _ \<Rightarrow> Inr (), s2)"
      by (simp add: catching_run m op_runs split: sum.split)
    have "logout E s = seq (catching ?m is_axiam_error (\<lambda>_. ret ())) (\<lambda>_. modify forget_session) s1"
      using False by (simp add: logout_def seq_def[of ensure_open] ensure_open_run seq_def[of clear_memo]
          clear_memo_run s1_def)
    with False c show ?thesis by (simp add: seq_def[of "catching _ _ _"] modify_def split: sum.split)
  qed
  show ?thesis
    using same by (auto simp: run forget_session_def release_device_credential_def same_session_def split: sum.split)
qed

text \<open>
  A device sign-in the server refuses, or answers with a body that is not a usable
  credential, changes no session state; a client built without a certificate sends nothing at
  all. On success the token is the one the body carried, it is not empty, and every request
  built from then on presents it as a bearer credential and withholds the stored cookies.
\<close>

theorem device_sign_in:
  fixes s :: "'w client_scheme"
  shows "(case authenticate_device E s of
      (Inl e, t) \<Rightarrow> same_session s t \<and> (presents_client_certificate s \<or> sent t = sent s)
    | (Inr da, t) \<Rightarrow> presents_client_certificate s \<and> device_access_token da \<noteq> []
        \<and> device_access t = device_access_token da \<and> device_session t \<and> login_user_info t = None
        \<and> hget (req_headers (build_request meth path body t)) ''Authorization''
            = Some (''Bearer '' @ device_access_token da)
        \<and> no_stored_cookies (build_request meth path body t))"
proof -
  have auth: "hget (req_headers (build_request meth path body t)) ''Authorization'' = Some (''Bearer '' @ device_access t)
      \<and> no_stored_cookies (build_request meth path body t)" if "device_access t \<noteq> []" for t :: "'w client_scheme"
    using that by (simp add: build_request_def Let_def blank_request_def)
  have "keeps same_session (device_wire E)"
    unfolding device_wire_def by (intro session.seq session.pure session_send session_must_succeed)
  then have w: "device_wire E s' = (q, t') \<Longrightarrow> same_session s' t'" for s' :: "'w client_scheme" and q t'
    by (rule keeps_run)
  have tok: "device_auth_of j = Inr da \<Longrightarrow> device_access_token da \<noteq> []" for j da
    by (auto simp: device_auth_of_def and_then_eq_Inr split: option.splits if_splits)
  have wt: "device_wire E s' = (Inr da, t') \<Longrightarrow> device_access_token da \<noteq> []" for s' :: "'w client_scheme" and da t'
    unfolding device_wire_def by (auto simp: seq_eq_Inr op_runs dest: tok)
  let ?s1 = "s\<lparr>decision_cache := memo_clear (decision_cache s)\<rparr>"
  have run: "authenticate_device E s = (if is_closed s then (Inl (NetworkError ''client is closed'' ''closed''), s)
      else if \<not> presents_client_certificate s
      then (Inl (AuthError ''authenticate_device: this client was not built with with_client_cert()''), s)
      else case device_wire E ?s1 of (Inl e, t) \<Rightarrow> (Inl e, t) | (Inr da, t) \<Rightarrow> (Inr da, adopt_device da t))"
    by (simp add: authenticate_device_def seq_run ensure_open_run op_runs clear_memo_run split: prod.split sum.split)
  obtain q t where q: "device_wire E ?s1 = (q, t)" by fastforce
  from w[OF q] have same: "same_session s t" by (simp add: same_session_def)
  show ?thesis
    using same wt[of ?s1 _ t] q auth[of "adopt_device (projr q) t"]
    by (cases q) (auto simp: run same_session_def adopt_device_def)
qed

text \<open>
  C23. Choosing an acting tenant sends nothing. It succeeds exactly when the client is open, the
  identifier has the shape of a UUID, and what the client knows of its principal allows it: an
  unknown principal does, a known one only when it is organization-level and, if it reported
  the tenants it reaches, names this one up to the case of its digits. Otherwise the client is
  left exactly as it was.
\<close>

theorem acting_tenant_gate:
  "(fst (set_acting_tenant tenant s) = Inr () \<longleftrightarrow>
      \<not> is_closed s \<and> looks_like_uuid tenant \<and>
      (login_user_info s = None \<or>
       (\<exists>u. login_user_info s = Some u \<and> organization_level u \<and>
          (reachable_tenant_ids u = None \<or>
           (\<exists>reach. reachable_tenant_ids u = Some reach \<and> lower tenant \<in> set (map lower reach))))))
   \<and> snd (set_acting_tenant tenant s)
       = (if fst (set_acting_tenant tenant s) = Inr () then s\<lparr>acting_tenant := Some tenant\<rparr> else s)"
proof -
  have gate: "acting_gate (login_user_info s) tenant = Inr () \<longleftrightarrow>
      (login_user_info s = None \<or>
       (\<exists>u. login_user_info s = Some u \<and> organization_level u \<and>
          (reachable_tenant_ids u = None \<or>
           (\<exists>reach. reachable_tenant_ids u = Some reach \<and> lower tenant \<in> set (map lower reach)))))"
    by (auto simp: acting_gate_def same_uuid_lower list_ex_iff image_iff split: option.split) metis+
  have run: "set_acting_tenant tenant s =
      (if is_closed s then (Inl (NetworkError ''client is closed'' ''closed''), s)
       else if \<not> looks_like_uuid tenant then (Inl (NetworkError ''acting_tenant: not a UUID'' ''sdk_programming_error''), s)
       else case acting_gate (login_user_info s) tenant of
         Inl e \<Rightarrow> (Inl e, s) | Inr _ \<Rightarrow> (Inr (), s\<lparr>acting_tenant := Some tenant\<rparr>))"
    by (simp add: set_acting_tenant_def seq_run ensure_open_run op_runs split: sum.split)
  show ?thesis
    by (cases "acting_gate (login_user_info s) tenant") (use gate in \<open>auto simp: run\<close>)
qed

text \<open>
  After \<open>close\<close> every guarded operation is refused with the one closed error, sends
  nothing and changes nothing; closing again does nothing.
\<close>

theorem closed_client_is_inert:
  assumes "is_closed s"
  shows "login E u p s = (Inl (NetworkError ''client is closed'' ''closed''), s)
    \<and> verify_mfa E tok totp s = (Inl (NetworkError ''client is closed'' ''closed''), s)
    \<and> refresh_session E s = (Inl (NetworkError ''client is closed'' ''closed''), s)
    \<and> logout E s = (Inl (NetworkError ''client is closed'' ''closed''), s)
    \<and> set_acting_tenant tenant s = (Inl (NetworkError ''client is closed'' ''closed''), s)
    \<and> clear_acting_tenant s = (Inl (NetworkError ''client is closed'' ''closed''), s)
    \<and> check_access E' c s = (Inl (NetworkError ''client is closed'' ''closed''), s)
    \<and> batch_check E' cs s = (Inl (NetworkError ''client is closed'' ''closed''), s)
    \<and> authenticate_device E s = (Inl (NetworkError ''client is closed'' ''closed''), s)
    \<and> close s = (Inr (), s)"
  using assms
  by (simp add: login_def login_wire_def verify_mfa_def refresh_session_def logout_def set_acting_tenant_def
      clear_acting_tenant_def check_access_def batch_check_def authenticate_device_def close_def seq_run ensure_open_run)

lemma closed_client_is_inert_witness:
  "login demo_ok ''u'' ''p'' (snd (close demo_client)) = (Inl (NetworkError ''client is closed'' ''closed''), snd (close demo_client))"
  by (rule closed_client_is_inert[THEN conjunct1]) (simp add: close_def demo_client_def)

text \<open>
  The asynchronous refresh has no such guard: after \<open>close\<close> it counts a refresh and calls
  the released transport, and what reaches the caller is no SDK error but the standard
  library's bad function call.
\<close>

theorem async_refresh_after_close:
  assumes "\<not> is_closed s0" "s = snd (close s0)" "env_dump E (refresh_body s) = Inr body"
  shows "fst (refresh_async E s) = Inl Foreign \<and> \<not> is_axiam_error Foreign
    \<and> refresh_count (snd (refresh_async E s)) = refresh_count s0 + 1"
proof -
  have "transport_released s" "refresh_count s = refresh_count s0" using assms(1,2) by (simp_all add: close_def)
  moreover have "refresh_body (s\<lparr>refresh_count := n\<rparr>) = refresh_body s" for n by (simp add: refresh_body_def)
  ultimately show ?thesis
    using assms(3)
    by (simp add: refresh_async_def do_single_flight_refresh_def perform_refresh_def dump_def post_def send_raw_def
        call_transport_def op_simps)
qed

lemma async_refresh_after_close_witness:
  "fst (refresh_async demo_ok (snd (close demo_client))) = Inl Foreign"
  using async_refresh_after_close[of demo_client "snd (close demo_client)" demo_ok "''{}''"]
  by (simp add: demo_client_def demo_ok_def demo_net_def)

text \<open>
  A client the builder makes is usable and within the SDK's limits: its base URL is secure
  (https, or http to a loopback host), it names a tenant that is not blank and sends it as the
  tenant header, the clock skew is between 0 and 60 seconds, discovery is cached for at least
  five minutes, the memo keeps nothing longer than five seconds, and no session, credential or
  cached decision exists yet.
\<close>

theorem built_client_sound:
  assumes "build b = Inr s"
  shows "base_url s = b_base_url b \<and> ensure_secure_scheme (base_url s) = Inr ()
    \<and> (\<exists>t. (b_tenant_id b = Some t \<or> b_tenant_id b = None \<and> b_tenant_slug b = Some t)
         \<and> tenant_header s = t \<and> \<not> list_all is_blank_ws t)
    \<and> 0 \<le> oidc_clock_skew s \<and> oidc_clock_skew s \<le> 60 \<and> 300 \<le> oidc_discovery_ttl s
    \<and> ttl (decision_cache s) \<le> 5000 \<and> entries (decision_cache s) = Map.empty
    \<and> \<not> has_session s \<and> csrf_token s = None \<and> \<not> is_closed s \<and> sent s = []"
proof -
  obtain evs where c: "check_builder b = Inr ()" and s: "s = (fresh_client b)\<lparr>events := evs\<rparr>"
    using build_Inr[OF assms] by blast
  from c have k: "ensure_secure_scheme (b_base_url b) = Inr ()" "b_tenant_slug b \<noteq> None \<or> b_tenant_id b \<noteq> None"
    "\<not> is_blank (b_tenant_slug b)" "\<not> is_blank (b_tenant_id b)"
    by (auto simp: check_builder_def and_then_eq_Inr ensure_eq_Inr)
  then have "\<exists>t. (b_tenant_id b = Some t \<or> b_tenant_id b = None \<and> b_tenant_slug b = Some t)
         \<and> tenant_header s = t \<and> \<not> list_all is_blank_ws t"
    using s by (cases "b_tenant_id b") (auto simp: is_blank_def fresh_client_def)
  with k s show ?thesis
    by (simp add: fresh_client_def kMaxClockSkewSeconds_def kDiscoveryTtlFloor_def memo_new_def kMemoMaxTtl_def
        has_session_def csrf_token_def)
qed

lemma built_client_sound_witness:
  "build demo_builder = Inr (fresh_client demo_builder) \<and> tenant_header (fresh_client demo_builder) = ''acme''
   \<and> \<not> has_session (fresh_client demo_builder)"
  using demo_built built_client_sound[OF demo_built] by (simp add: demo_builder_def)

end
