(* ===== verification/Uma.thy ===== *)
theory Uma
  imports Client
begin

text \<open>
  The UMA 2.0 part of \<open>src/client.cpp\<close>: discovery with its five-minute cache, the Protection
  API under the caller's own token, the single-request ticket grant, and the challenge helpers.
  \<open>uma_protection_request\<close> is in \<open>src/client_impl.hpp\<close>.
\<close>

section \<open>Text helpers\<close>

definition uma_unreserved :: "char \<Rightarrow> bool" where
  "uma_unreserved c =
     (is_upper c \<or> is_lower c \<or> is_digit c \<or>
      c = CHR ''-'' \<or> c = CHR ''.'' \<or> c = CHR ''_'' \<or> c = CHR ''~'')"

definition percent_encode :: "string \<Rightarrow> string" where
  "percent_encode s = concat (map (\<lambda>c. if uma_unreserved c then [c]
     else [CHR ''%'', hex_upper (code c div 16), hex_upper (code c mod 16)]) s)"

lemma percent_encode_url_encode: "percent_encode s = url_encode s"
proof -
  have "uma_unreserved c = unreserved c" for c by (auto simp: uma_unreserved_def unreserved_def)
  then show ?thesis by (simp add: percent_encode_def url_encode_def encode_char_def [abs_def])
qed

definition uma_trim :: "string \<Rightarrow> string" where
  "uma_trim s = trim_by is_blank_char s"

definition quote_mark :: char where "quote_mark = CHR 0x22"

definition unquote :: "string \<Rightarrow> string" where
  "unquote s =
     (if 2 \<le> length s \<and> hd s = quote_mark \<and> last s = quote_mark then butlast (tl s) else s)"

definition parse_or_object :: "(string \<Rightarrow> json) \<Rightarrow> string \<Rightarrow> json" where
  "parse_or_object parse body = (let j = parse body in if is_discarded j then JObj [] else j)"

definition string_array :: "json \<Rightarrow> string list" where
  "string_array j = (case j of JArr xs \<Rightarrow> str_items xs | _ \<Rightarrow> [])"

section \<open>Resource sets\<close>

record resource_set =
  rs_id :: "string option"
  rs_name :: string
  rs_type :: "string option"
  rs_scopes :: "string list"

definition nonempty_str :: "json \<Rightarrow> string \<Rightarrow> string option" where
  "nonempty_str j k = (case opt_str j k of Some s \<Rightarrow> (if s = [] then None else Some s) | None \<Rightarrow> None)"

definition resource_set_from_wire :: "json \<Rightarrow> resource_set res" where
  "resource_set_from_wire j =
     (case opt_str j ''name'' of
        None \<Rightarrow> Inl (NetworkError ''uma: malformed ResourceSet (missing name)'' ''malformed_body'')
      | Some n \<Rightarrow> Inr \<lparr>rs_id = nonempty_str j ''_id'', rs_name = n, rs_type = nonempty_str j ''type'',
           rs_scopes = (case jfind j ''resource_scopes'' of Some v \<Rightarrow> string_array v | None \<Rightarrow> [])\<rparr>)"

definition str_array :: "string list \<Rightarrow> json" where
  "str_array xs = JArr (map JStr xs)"

definition resource_set_to_wire :: "string \<Rightarrow> string option \<Rightarrow> string list \<Rightarrow> json" where
  "resource_set_to_wire name type scopes =
     jset ''resource_scopes'' (str_array scopes)
       (let b = jset ''name'' (JStr name) JNull
        in case type of None \<Rightarrow> b | Some t \<Rightarrow> (if t = [] then b else jset ''type'' (JStr t) b))"

section \<open>Discovery\<close>

definition kUmaCacheNs :: int where "kUmaCacheNs = 300 * 1000000000"

definition uma_configuration_of :: "json \<Rightarrow> uma_configuration res" where
  "uma_configuration_of j =
     (case (opt_str j ''token_endpoint'', opt_str j ''permission_endpoint'', opt_str j ''resource_registration_endpoint'') of
        (Some t, Some p, Some r) \<Rightarrow>
          and_then (jvalue get_str j ''issuer'' []) (\<lambda>i.
          and_then (case jfind j ''permission_ticket_lifetime'' of
                      Some v \<Rightarrow> (if is_number v then and_then (get_int64 v) (\<lambda>n. Inr (Some n)) else Inr None)
                    | None \<Rightarrow> Inr None) (\<lambda>n.
          Inr \<lparr>issuer = i, token_endpoint = t, permission_endpoint = p, resource_registration_endpoint = r,
               permission_ticket_lifetime = n\<rparr>))
      | _ \<Rightarrow> Inl (NetworkError ''uma discovery: missing token/permission/resource_registration endpoint''
                    ''malformed_body''))"

definition cached_uma :: "'e env_scheme \<Rightarrow> ('w, uma_configuration option) cop" where
  "cached_uma E =
     seq (gets uma_config) (\<lambda>c. case c of
       None \<Rightarrow> ret None
     | Some cfg \<Rightarrow>
         seq (reading (steady_now E)) (\<lambda>now.
         seq (gets uma_config_expires_at) (\<lambda>until. ret (if now < until then Some cfg else None))))"

definition fetch_uma :: "'e env_scheme \<Rightarrow> ('w, uma_configuration) cop" where
  "fetch_uma E =
     seq (seq (gets (build_request ''GET'' ''/.well-known/uma2-configuration'' [])) (send_raw E)) (\<lambda>resp.
     seq (must_succeed E resp) (\<lambda>_.
     lift_res (uma_configuration_of (parse_or_object (env_parse E) (resp_body resp)))))"

definition store_uma :: "'e env_scheme \<Rightarrow> uma_configuration \<Rightarrow> ('w, uma_configuration) cop" where
  "store_uma E cfg =
     seq (reading (steady_now E)) (\<lambda>now.
     seq (modify (\<lambda>s. s\<lparr>uma_config := Some cfg, uma_config_expires_at := now + kUmaCacheNs\<rparr>)) (\<lambda>_. ret cfg))"

definition uma_discover :: "'e env_scheme \<Rightarrow> ('w, uma_configuration) cop" where
  "uma_discover E =
     seq ensure_open (\<lambda>_.
     seq (cached_uma E) (\<lambda>c. case c of
       Some cfg \<Rightarrow> ret cfg
     | None \<Rightarrow> seq (fetch_uma E) (store_uma E)))"

section \<open>The Protection API\<close>

definition protection_request :: "'w client_scheme \<Rightarrow> string \<Rightarrow> string \<Rightarrow> string \<Rightarrow> string \<Rightarrow> http_request" where
  "protection_request s meth url pat body =
     (let h = hset ''Authorization'' (''Bearer '' @ pat)
                (hset ''Accept'' json_type (hset ''X-Tenant-ID'' (tenant_header s) no_headers))
      in blank_request\<lparr>req_method := meth, req_url := url,
           req_headers := (if body = [] then h else hset ''Content-Type'' json_type h), req_body := body\<rparr>)"

definition uma_protection_request :: "'e env_scheme \<Rightarrow> string \<Rightarrow> string \<Rightarrow> string \<Rightarrow> string \<Rightarrow> ('w, http_response) cop" where
  "uma_protection_request E meth url pat body =
     seq ensure_open (\<lambda>_.
     seq (require (pat \<noteq> []) (AuthError ''the UMA Protection API requires a PAT'')) (\<lambda>_.
     seq (seq (gets (\<lambda>s. protection_request s meth url pat body)) (send_raw E)) (must_succeed E)))"

definition resource_url :: "uma_configuration \<Rightarrow> string \<Rightarrow> string" where
  "resource_url cfg i = resource_registration_endpoint cfg @ ''/'' @ percent_encode i"

definition read_set :: "'e env_scheme \<Rightarrow> http_response \<Rightarrow> ('w, resource_set) cop" where
  "read_set E resp = lift_res (resource_set_from_wire (parse_or_object (env_parse E) (resp_body resp)))"

definition uma_register_resource ::
    "'e env_scheme \<Rightarrow> string \<Rightarrow> string \<Rightarrow> string option \<Rightarrow> string list \<Rightarrow> ('w, resource_set) cop" where
  "uma_register_resource E pat name type scopes =
     seq (uma_discover E) (\<lambda>cfg.
     seq (dump E (resource_set_to_wire name type scopes)) (\<lambda>body.
     seq (uma_protection_request E ''POST'' (resource_registration_endpoint cfg) pat body) (read_set E)))"

definition uma_read_resource :: "'e env_scheme \<Rightarrow> string \<Rightarrow> string \<Rightarrow> ('w, resource_set) cop" where
  "uma_read_resource E pat i =
     seq (uma_discover E) (\<lambda>cfg.
     seq (uma_protection_request E ''GET'' (resource_url cfg i) pat []) (read_set E))"

definition uma_update_resource ::
    "'e env_scheme \<Rightarrow> string \<Rightarrow> string \<Rightarrow> string \<Rightarrow> string option \<Rightarrow> string list \<Rightarrow> ('w, resource_set) cop" where
  "uma_update_resource E pat i name type scopes =
     seq (uma_discover E) (\<lambda>cfg.
     seq (dump E (resource_set_to_wire name type scopes)) (\<lambda>body.
     seq (uma_protection_request E ''PUT'' (resource_url cfg i) pat body) (read_set E)))"

definition uma_delete_resource :: "'e env_scheme \<Rightarrow> string \<Rightarrow> string \<Rightarrow> ('w, unit) cop" where
  "uma_delete_resource E pat i =
     seq (uma_discover E) (\<lambda>cfg.
     seq (uma_protection_request E ''DELETE'' (resource_url cfg i) pat []) (\<lambda>_. ret ()))"

definition uma_list_resources :: "'e env_scheme \<Rightarrow> string \<Rightarrow> ('w, string list) cop" where
  "uma_list_resources E pat =
     seq (uma_discover E) (\<lambda>cfg.
     seq (uma_protection_request E ''GET'' (resource_registration_endpoint cfg) pat []) (\<lambda>resp.
     let j = parse_or_object (env_parse E) (resp_body resp) in
     seq (require (is_array j) (NetworkError ''uma list resources: body is not a JSON array'' ''malformed_body'')) (\<lambda>_.
     ret (string_array j))))"

record requested_permission =
  rp_resource_id :: string
  rp_scopes :: "string list"

definition permission_entry :: "requested_permission \<Rightarrow> json" where
  "permission_entry p =
     jset ''resource_scopes'' (str_array (rp_scopes p)) (jset ''resource_id'' (JStr (rp_resource_id p)) JNull)"

definition uma_request_ticket :: "'e env_scheme \<Rightarrow> string \<Rightarrow> requested_permission list \<Rightarrow> ('w, string) cop" where
  "uma_request_ticket E pat perms =
     seq (uma_discover E) (\<lambda>cfg.
     seq (dump E (JArr (map permission_entry perms))) (\<lambda>body.
     seq (uma_protection_request E ''POST'' (permission_endpoint cfg) pat body) (\<lambda>resp.
     case nonempty_str (parse_or_object (env_parse E) (resp_body resp)) ''ticket'' of
       None \<Rightarrow> raise (NetworkError ''uma request ticket: malformed PermissionTicketResponse'' ''malformed_body'')
     | Some t \<Rightarrow> ret t)))"

section \<open>The ticket grant\<close>

record exchange_params =
  ep_ticket :: string
  ep_claim_token :: string
  ep_client_id :: string
  ep_client_secret :: string
  ep_tenant_id :: "string option"

record rpt =
  rpt_access_token :: string
  rpt_token_type :: string
  rpt_expires_in :: int

definition kUmaTicketGrantType :: string where
  "kUmaTicketGrantType = ''urn:ietf:params:oauth:grant-type:uma-ticket''"
definition kUmaClaimTokenFormat :: string where
  "kUmaClaimTokenFormat = ''urn:ietf:params:oauth:token-type:access_token''"

definition exchange_tenant :: "'w client_scheme \<Rightarrow> exchange_params \<Rightarrow> string" where
  "exchange_tenant s p =
     (case ep_tenant_id p of Some t \<Rightarrow> t | None \<Rightarrow> (case c_tenant_id s of Some t \<Rightarrow> t | None \<Rightarrow> []))"

definition check_exchange :: "'w client_scheme \<Rightarrow> exchange_params \<Rightarrow> unit res" where
  "check_exchange s p =
     and_then (ensure (ep_ticket p \<noteq> []) (AuthError ''the UMA ticket grant requires a ticket'')) (\<lambda>_.
     and_then (ensure (ep_claim_token p \<noteq> [])
       (AuthError ''the UMA ticket grant requires a claim_token naming the requesting party'')) (\<lambda>_.
     and_then (ensure (ep_client_id p \<noteq> [] \<and> ep_client_secret p \<noteq> [])
       (AuthError ''the UMA ticket grant requires confidential-client credentials'')) (\<lambda>_.
     ensure (looks_like_uuid (exchange_tenant s p)) (AuthError ''the UMA ticket grant requires a tenant_id UUID''))))"

definition ticket_url :: "uma_configuration \<Rightarrow> string \<Rightarrow> string" where
  "ticket_url cfg tenant =
     token_endpoint cfg @ (if CHR ''?'' \<in> set (token_endpoint cfg) then ''&'' else ''?'')
       @ ''tenant_id='' @ percent_encode tenant"

definition form_field :: "string \<times> string \<Rightarrow> string" where
  "form_field kv = fst kv @ ''='' @ percent_encode (snd kv)"

definition ticket_fields :: "exchange_params \<Rightarrow> (string \<times> string) list" where
  "ticket_fields p = [(''grant_type'', kUmaTicketGrantType), (''ticket'', ep_ticket p),
     (''claim_token'', ep_claim_token p), (''claim_token_format'', kUmaClaimTokenFormat),
     (''client_id'', ep_client_id p), (''client_secret'', ep_client_secret p)]"

definition ticket_form :: "exchange_params \<Rightarrow> string" where
  "ticket_form p = join ''&'' (map form_field (ticket_fields p))"

definition ticket_request :: "uma_configuration \<Rightarrow> exchange_params \<Rightarrow> 'w client_scheme \<Rightarrow> http_request" where
  "ticket_request cfg p s = blank_request\<lparr>req_method := ''POST'',
     req_url := ticket_url cfg (exchange_tenant s p),
     req_headers := hset ''Content-Type'' ''application/x-www-form-urlencoded''
       (hset ''Accept'' json_type (hset ''X-Tenant-ID'' (tenant_header s) no_headers)),
     req_body := ticket_form p, sessionless := True\<rparr>"

text \<open>The error of a refused exchange: the OAuth code when the body names one, else the status.\<close>

definition exchange_error :: "(string \<Rightarrow> json) \<Rightarrow> http_response \<Rightarrow> error" where
  "exchange_error parse resp =
     (if 300 \<le> status resp \<and> status resp < 400 then raise_for_status parse resp
      else let j = parse_or_object parse (resp_body resp) in
        case nonempty_str j ''error'' of
          Some c \<Rightarrow> OAuthProtocolError (''uma ticket exchange refused: '' @ c) c (opt_str j ''error_description'') None None
        | None \<Rightarrow> raise_for_status parse resp)"

definition rpt_of :: "json \<Rightarrow> rpt res" where
  "rpt_of j =
     (case nonempty_str j ''access_token'' of
        None \<Rightarrow> Inl (NetworkError ''uma ticket exchange: malformed TokenResponse (missing access_token)'' ''malformed_body'')
      | Some tok \<Rightarrow>
          and_then (jvalue get_str j ''token_type'' ''Bearer'') (\<lambda>ty.
          and_then (jvalue get_int64 j ''expires_in'' 0) (\<lambda>x.
          Inr \<lparr>rpt_access_token = tok, rpt_token_type = ty, rpt_expires_in = x\<rparr>)))"

definition redeem :: "'e env_scheme \<Rightarrow> uma_configuration \<Rightarrow> exchange_params \<Rightarrow> ('w, rpt) cop" where
  "redeem E cfg p =
     seq (seq (gets (ticket_request cfg p)) (send_raw E)) (\<lambda>resp.
     if is_success (status resp)
     then lift_res (rpt_of (parse_or_object (env_parse E) (resp_body resp)))
     else raise (exchange_error (env_parse E) resp))"

definition uma_exchange_ticket :: "'e env_scheme \<Rightarrow> exchange_params \<Rightarrow> ('w, rpt) cop" where
  "uma_exchange_ticket E p =
     seq ensure_open (\<lambda>_.
     seq (gets (\<lambda>s. check_exchange s p)) (\<lambda>ok.
     seq (lift_res ok) (\<lambda>_.
     seq (uma_discover E) (\<lambda>cfg. redeem E cfg p))))"

section \<open>Challenges\<close>

record uma_challenge =
  ch_realm :: "string option"
  ch_as_uri :: "string option"
  ch_ticket :: "string option"

definition no_challenge :: uma_challenge where
  "no_challenge = \<lparr>ch_realm = None, ch_as_uri = None, ch_ticket = None\<rparr>"

definition take_part :: "string \<Rightarrow> uma_challenge \<Rightarrow> uma_challenge" where
  "take_part part ch =
     (case cut (\<lambda>c. c = CHR ''='') part of
        None \<Rightarrow> ch
      | Some (k, _, v) \<Rightarrow>
          (let key = uma_trim k; value = unquote (uma_trim v) in
           if key = ''realm'' then ch\<lparr>ch_realm := Some value\<rparr>
           else if key = ''as_uri'' then ch\<lparr>ch_as_uri := Some value\<rparr>
           else if key = ''ticket'' then ch\<lparr>ch_ticket := Some value\<rparr>
           else ch))"

definition uma_parse_challenge :: "string \<Rightarrow> uma_challenge option" where
  "uma_parse_challenge header =
     (let trimmed = uma_trim header; rest = drop 3 trimmed in
      if \<not> prefix ''UMA'' trimmed then None
      else if rest \<noteq> [] \<and> \<not> is_blank_char (hd rest) then None
      else Some (fold take_part (split_on (CHR '','') rest) no_challenge))"

definition uma_challenge_header :: "string \<Rightarrow> string \<Rightarrow> string \<Rightarrow> string" where
  "uma_challenge_header realm as_uri ticket =
     ''UMA realm='' @ [quote_mark] @ realm @ [quote_mark] @ '', as_uri='' @ [quote_mark] @ as_uri @ [quote_mark]
       @ '', ticket='' @ [quote_mark] @ ticket @ [quote_mark]"

section \<open>Discovery sends at most one request, and keeps its answer\<close>

definition discovery_request :: "'w client_scheme \<Rightarrow> http_request" where
  "discovery_request s = build_request ''GET'' ''/.well-known/uma2-configuration'' [] s"

text \<open>What a step may add to the history: nothing, or the one discovery request.\<close>

definition discovers :: "'w client_scheme \<Rightarrow> 'w client_scheme \<Rightarrow> bool" where
  "discovers s t \<longleftrightarrow> (\<exists>xs. sent t = sent s @ xs \<and> length xs \<le> 1 \<and> list_all (\<lambda>r. \<not> sessionless r) xs)
     \<and> tenant_header t = tenant_header s \<and> c_tenant_id t = c_tenant_id s"

lemma capture_csrf_config [simp]:
  "tenant_header (capture_csrf r s) = tenant_header s" "c_tenant_id (capture_csrf r s) = c_tenant_id s"
  by (simp_all add: capture_csrf_def split: option.split)

lemma discovery_not_sessionless: "\<not> sessionless (discovery_request s)"
  by (simp add: discovery_request_def build_request_def blank_request_def Let_def)

lemma send_discovery:
  "discovers s (snd (seq (gets discovery_request) (send_raw E) s))"
  using discovery_not_sessionless[of s]
  by (auto simp: discovers_def send_raw_def call_transport_def transmit_def op_simps split: sum.split)

lemma must_succeed_state: "snd (must_succeed E resp s) = s"
  by (simp add: must_succeed_def fail_status_def op_simps)

lemma fetch_uma_discovers: "discovers s (snd (fetch_uma E s))"
proof -
  obtain q t where q: "seq (gets discovery_request) (send_raw E) s = (q, t)" by fastforce
  have d: "discovers s t" using send_discovery[of s E] q by simp
  have "snd (fetch_uma E s) = t"
  proof (cases q)
    case (Inl e)
    with q show ?thesis by (simp add: fetch_uma_def discovery_request_def[abs_def] seq_run op_runs)
  next
    case (Inr resp)
    with q must_succeed_state[of E resp t] show ?thesis
      by (cases "must_succeed E resp t")
        (auto simp: fetch_uma_def discovery_request_def[abs_def] seq_run op_runs split: sum.split)
  qed
  with d show ?thesis by simp
qed

lemma store_uma_run:
  "store_uma E cfg s = (Inr cfg, s\<lparr>ticks := Suc (ticks s), uma_config := Some cfg,
     uma_config_expires_at := env_steady E (ticks s) + kUmaCacheNs\<rparr>)"
  by (simp add: store_uma_def op_simps steady_now_def)

definition fetch_and_store :: "'e env_scheme \<Rightarrow> ('w, uma_configuration) cop" where
  "fetch_and_store E = seq (fetch_uma E) (store_uma E)"

lemma cached_uma_run:
  "cached_uma E s = (case uma_config s of
      None \<Rightarrow> (Inr None, s)
    | Some cfg \<Rightarrow> (Inr (if env_steady E (ticks s) < uma_config_expires_at s then Some cfg else None), s\<lparr>ticks := Suc (ticks s)\<rparr>))"
  by (simp add: cached_uma_def op_simps steady_now_def split: option.split)

lemma uma_discover_run:
  "uma_discover E s = (if is_closed s then (Inl (NetworkError ''client is closed'' ''closed''), s)
     else case uma_config s of
       None \<Rightarrow> fetch_and_store E s
     | Some cfg \<Rightarrow> (if env_steady E (ticks s) < uma_config_expires_at s then (Inr cfg, s\<lparr>ticks := Suc (ticks s)\<rparr>)
                    else fetch_and_store E (s\<lparr>ticks := Suc (ticks s)\<rparr>)))"
  by (simp add: uma_discover_def fetch_and_store_def seq_def[of ensure_open] ensure_open_run
      seq_def[of "cached_uma E"] cached_uma_run ret_def split: option.split)

lemma fetch_and_store_discovers: "discovers s (snd (fetch_and_store E s))"
proof -
  obtain q t where q: "fetch_uma E s = (q, t)" by fastforce
  then have "discovers s t" using fetch_uma_discovers[of s E] by simp
  with q show ?thesis
    by (cases q) (auto simp: fetch_and_store_def seq_run store_uma_run discovers_def)
qed

lemma uma_discover_discovers: "discovers s (snd (uma_discover E s))"
proof -
  have "discovers s (snd (fetch_and_store E (s\<lparr>ticks := Suc (ticks s)\<rparr>)))"
    using fetch_and_store_discovers[of "s\<lparr>ticks := Suc (ticks s)\<rparr>" E] by (simp add: discovers_def)
  then show ?thesis
    using fetch_and_store_discovers[of s E] by (auto simp: uma_discover_run discovers_def split: option.split)
qed

lemma send_keeps_open: "is_closed (snd (seq (gets f) (send_raw E) s)) = is_closed s"
  by (auto simp: send_raw_def call_transport_def transmit_def op_simps capture_csrf_def split: sum.split option.split)

lemma fetch_uma_open: "is_closed (snd (fetch_uma E s)) = is_closed s"
proof -
  obtain q t where q: "seq (gets (build_request ''GET'' ''/.well-known/uma2-configuration'' [])) (send_raw E) s = (q, t)"
    by fastforce
  then have o: "is_closed t = is_closed s" using send_keeps_open[of _ E s] by (metis snd_conv)
  have "snd (fetch_uma E s) = t"
  proof (cases q)
    case (Inl e)
    with q show ?thesis by (simp add: fetch_uma_def seq_run op_runs)
  next
    case (Inr resp)
    with q must_succeed_state[of E resp t] show ?thesis
      by (cases "must_succeed E resp t") (auto simp: fetch_uma_def seq_run op_runs split: sum.split)
  qed
  with o show ?thesis by simp
qed

section \<open>Challenges read back\<close>

lemma split_on_three:
  "sep \<notin> set a \<Longrightarrow> sep \<notin> set b \<Longrightarrow> sep \<notin> set c \<Longrightarrow> split_on sep (a @ sep # b @ sep # c) = [a, b, c]"
  by (simp add: split_on_append_sep split_on_no_sep)

lemma uma_trim_quoted: "uma_trim ([quote_mark] @ v @ [quote_mark]) = [quote_mark] @ v @ [quote_mark]"
  unfolding uma_trim_def by (rule trim_by_id) (simp add: quote_mark_def is_blank_char_def)

lemma unquote_quoted: "unquote ([quote_mark] @ v @ [quote_mark]) = v"
  by (simp add: unquote_def)

lemma uma_trim_key: "uma_trim (CHR '' '' # ''realm'') = ''realm''" "uma_trim (CHR '' '' # ''as_uri'') = ''as_uri''"
  "uma_trim (CHR '' '' # ''ticket'') = ''ticket''"
  by (code_simp)+

lemma take_part_field:
  assumes "CHR ''='' \<notin> set k"
  shows "take_part (k @ ''='' @ [quote_mark] @ v @ [quote_mark]) ch =
    (let key = uma_trim k in
       if key = ''realm'' then ch\<lparr>ch_realm := Some v\<rparr>
       else if key = ''as_uri'' then ch\<lparr>ch_as_uri := Some v\<rparr>
       else if key = ''ticket'' then ch\<lparr>ch_ticket := Some v\<rparr> else ch)"
proof -
  have "cut (\<lambda>c. c = CHR ''='') (k @ CHR ''='' # [quote_mark] @ v @ [quote_mark])
      = Some (k, CHR ''='', [quote_mark] @ v @ [quote_mark])" by (rule cut_SomeI) (use assms in auto)
  then show ?thesis by (simp add: take_part_def Let_def uma_trim_quoted[simplified] unquote_quoted[simplified])
qed

lemma challenge_read_back:
  assumes "CHR '','' \<notin> set realm" "CHR '','' \<notin> set as_uri" "CHR '','' \<notin> set ticket"
  shows "uma_parse_challenge (uma_challenge_header realm as_uri ticket)
    = Some \<lparr>ch_realm = Some realm, ch_as_uri = Some as_uri, ch_ticket = Some ticket\<rparr>"
proof -
  define rest where "rest = '' realm='' @ [quote_mark] @ realm @ [quote_mark] @ '', as_uri='' @ [quote_mark] @ as_uri @ [quote_mark]
       @ '', ticket='' @ [quote_mark] @ ticket @ [quote_mark]"
  let ?h = "uma_challenge_header realm as_uri ticket"
  have h: "?h = ''UMA'' @ rest" by (simp add: uma_challenge_header_def rest_def)
  have t: "uma_trim ?h = ?h"
    unfolding uma_trim_def by (rule trim_by_id) (simp add: uma_challenge_header_def quote_mark_def is_blank_char_def)
  have q: "CHR '','' \<noteq> quote_mark" by (simp add: quote_mark_def)
  let ?f1 = "'' realm'' @ ''='' @ [quote_mark] @ realm @ [quote_mark]"
  let ?f2 = "'' as_uri'' @ ''='' @ [quote_mark] @ as_uri @ [quote_mark]"
  let ?f3 = "'' ticket'' @ ''='' @ [quote_mark] @ ticket @ [quote_mark]"
  have "rest = ?f1 @ CHR '','' # ?f2 @ CHR '','' # ?f3" by (simp add: rest_def)
  moreover have "CHR '','' \<notin> set ?f1" "CHR '','' \<notin> set ?f2" "CHR '','' \<notin> set ?f3" using assms q by auto
  note split_on_three[OF this]
  ultimately have "split_on (CHR '','') rest = [?f1, ?f2, ?f3]" by (simp only:)
  moreover have "take_part ?f1 no_challenge = no_challenge\<lparr>ch_realm := Some realm\<rparr>"
    by (subst take_part_field) (simp_all add: uma_trim_key)
  moreover have "take_part ?f2 (no_challenge\<lparr>ch_realm := Some realm\<rparr>)
      = no_challenge\<lparr>ch_realm := Some realm, ch_as_uri := Some as_uri\<rparr>"
    by (subst take_part_field) (simp_all add: uma_trim_key)
  moreover have "take_part ?f3 (no_challenge\<lparr>ch_realm := Some realm, ch_as_uri := Some as_uri\<rparr>)
      = no_challenge\<lparr>ch_realm := Some realm, ch_as_uri := Some as_uri, ch_ticket := Some ticket\<rparr>"
    by (subst take_part_field) (simp_all add: uma_trim_key)
  moreover have "hd rest = CHR '' ''" by (simp add: rest_def)
  moreover have "prefix ''UMA'' ?h" "drop 3 ?h = rest" by (simp_all add: h)
  ultimately show ?thesis
    by (simp add: uma_parse_challenge_def t is_blank_char_def no_challenge_def)
qed

section \<open>Properties\<close>


text \<open>
  Challenges round trip: what \<open>uma_challenge_header\<close> writes, \<open>uma_parse_challenge\<close> reads back
  member by member, whatever the values hold (quotes, equals signs, blanks), as long as none of
  them contains a comma.
\<close>

theorem uma_challenge_round_trip:
  assumes "CHR '','' \<notin> set realm" "CHR '','' \<notin> set as_uri" "CHR '','' \<notin> set ticket"
  shows "uma_parse_challenge (uma_challenge_header realm as_uri ticket)
    = Some \<lparr>ch_realm = Some realm, ch_as_uri = Some as_uri, ch_ticket = Some ticket\<rparr>"
  using assms by (rule challenge_read_back)

lemma uma_challenge_round_trip_witness:
  "uma_parse_challenge (uma_challenge_header ''a=b'' ''https://as'' ''t'')
    = Some \<lparr>ch_realm = Some ''a=b'', ch_as_uri = Some ''https://as'', ch_ticket = Some ''t''\<rparr>"
  by (rule uma_challenge_round_trip) simp_all

text \<open>
  A comma breaks it: the parser splits before it unquotes, so a realm with a comma comes back
  cut at the comma with its opening quote still on, and the rest is dropped.
\<close>

theorem uma_challenge_comma_cut:
  "uma_parse_challenge (uma_challenge_header ''a,b'' ''u'' ''t'')
    = Some \<lparr>ch_realm = Some [quote_mark, CHR ''a''], ch_as_uri = Some ''u'', ch_ticket = Some ''t''\<rparr>"
  by code_simp

text \<open>
  Discovery is cached: after a discovery that succeeded its document is the stored one, and
  until the stored time is reached a second discovery answers with the same document and sends
  nothing; when the first one asked the server, that time is five minutes after the answer.
\<close>

theorem uma_discovery_cached:
  assumes "uma_discover E s = (Inr cfg, t)"
  shows "uma_config t = Some cfg
    \<and> (sent t = sent s \<or> uma_config_expires_at t = env_steady E (ticks t - 1) + kUmaCacheNs)
    \<and> (uma_discover E t = (Inr cfg, t\<lparr>ticks := Suc (ticks t)\<rparr>) \<or> uma_config_expires_at t \<le> env_steady E (ticks t))"
proof -
  have fresh: "uma_config t = Some cfg \<and> \<not> is_closed t
      \<and> uma_config_expires_at t = env_steady E (ticks t - 1) + kUmaCacheNs"
    if "fetch_and_store E r = (Inr cfg, t)" "\<not> is_closed r" for r
  proof -
    from that(1) obtain c u where u: "fetch_uma E r = (Inr c, u)" "store_uma E c u = (Inr cfg, t)"
      by (auto simp: fetch_and_store_def seq_eq_Inr)
    from fetch_uma_open[of E r] that(2) u(1) have "\<not> is_closed u" by simp
    with u(2) show ?thesis by (auto simp: store_uma_run)
  qed
  from assms have open_s: "\<not> is_closed s" by (auto simp: uma_discover_run split: if_splits)
  have "uma_config t = Some cfg \<and> \<not> is_closed t
     \<and> (sent t = sent s \<or> uma_config_expires_at t = env_steady E (ticks t - 1) + kUmaCacheNs)"
    using assms open_s fresh[of s] fresh[of "s\<lparr>ticks := Suc (ticks s)\<rparr>"]
    by (auto simp: uma_discover_run split: if_splits option.splits)
  then show ?thesis by (auto simp: uma_discover_run)
qed

definition demo_document :: "string \<Rightarrow> json" where
  "demo_document _ = JObj [(''token_endpoint'', JStr ''https://as/t''), (''permission_endpoint'', JStr ''https://as/p''),
     (''resource_registration_endpoint'', JStr ''https://as/r'')]"

definition demo_uma :: client_env where
  "demo_uma = demo_net (\<lambda>_ _. Inr (demo_status 200)) demo_document"

lemma demo_uma_run:
  "fst (uma_discover demo_uma demo_client) = Inr \<lparr>issuer = [], token_endpoint = ''https://as/t'',
     permission_endpoint = ''https://as/p'', resource_registration_endpoint = ''https://as/r'', permission_ticket_lifetime = None\<rparr>"
  by (simp add: uma_discover_run fetch_and_store_def fetch_uma_def send_raw_def call_transport_def transmit_def op_simps
      must_succeed_def demo_uma_def demo_net_def demo_status_def blank_response_def demo_document_def is_success_def
      parse_or_object_def uma_configuration_of_def jvalue_def opt_str_def capture_csrf_def no_headers_def hget_def
      Let_def demo_client_def store_uma_run)

lemma uma_discovery_cached_witness:
  "\<exists>cfg t. uma_discover demo_uma demo_client = (Inr cfg, t) \<and> uma_config t = Some cfg \<and> token_endpoint cfg = ''https://as/t''"
proof -
  let ?r = "uma_discover demo_uma demo_client"
  have f: "fst ?r = Inr \<lparr>issuer = [], token_endpoint = ''https://as/t'', permission_endpoint = ''https://as/p'',
      resource_registration_endpoint = ''https://as/r'', permission_ticket_lifetime = None\<rparr>" (is "_ = Inr ?c")
    by (simp add: demo_uma_run)
  then have "?r = (Inr ?c, snd ?r)" by (metis prod.collapse)
  moreover from uma_discovery_cached[OF this] have "uma_config (snd ?r) = Some ?c" by simp
  ultimately show ?thesis by (intro exI[of _ ?c] exI[of _ "snd ?r"]) simp
qed

end
