(* ===== verification/OpaqueLogin.thy ===== *)
theory OpaqueLogin
  imports Client Opaque
begin

text \<open>
  The OPAQUE half of \<open>src/client.cpp\<close>: \<open>login_opaque\<close>, the enrolment calls and the
  readers of the server's answers. The client record is extended with the native library's
  exchange, whose operations are those of \<open>Opaque\<close>; an exchange is a local object of the C++
  function, so its destructor runs on every way out (\<open>with_exchange\<close>).
\<close>

section \<open>State\<close>

record opaque_client = client +
  n_exchange :: exchange

type_synonym ('w, 'a) xop = "('w opaque_client_scheme, 'a) op"

definition native_op :: "'a nop \<Rightarrow> ('w, 'a) xop" where
  "native_op m = (\<lambda>s. case m (n_exchange s) of (r, x) \<Rightarrow> (r, s\<lparr>n_exchange := x\<rparr>))"

definition with_exchange :: "'a nop \<Rightarrow> ('a \<Rightarrow> ('w, 'b) xop) \<Rightarrow> ('w, 'b) xop" where
  "with_exchange start body =
     seq (native_op start) (\<lambda>m s. case body m s of (r, t) \<Rightarrow> (r, snd (native_op close_exchange t)))"

section \<open>Reading the answers\<close>

definition json_str :: "json \<Rightarrow> string \<Rightarrow> string" where
  "json_str j k = (case opt_str j k of Some s \<Rightarrow> s | None \<Rightarrow> [])"

definition json_cost :: "json \<Rightarrow> string \<Rightarrow> u32 option" where
  "json_cost j k = (case jfind j k of Some (JUInt w) \<Rightarrow> Some (ucast w) | _ \<Rightarrow> None)"

definition read_ksf :: "json \<Rightarrow> ksf_params" where
  "read_ksf j = \<lparr>ksf = json_str j ''ksf'', memory_kib = json_cost j ''memory_kib'',
     iterations = json_cost j ''iterations'', parallelism = json_cost j ''parallelism'',
     log_n = json_cost j ''log_n'', ksf_r = json_cost j ''r'', ksf_p = json_cost j ''p''\<rparr>"

definition kOpaqueModeOptional :: string where "kOpaqueModeOptional = ''optional''"

record login_start =
  ls_session :: string
  ls_ke2 :: string
  ls_ksf :: ksf_params
  ls_mode :: "string option"

definition read_login_start :: "json \<Rightarrow> login_start" where
  "read_login_start j = \<lparr>ls_session = json_str j ''opaque_session'', ls_ke2 = json_str j ''ke2'',
     ls_ksf = read_ksf j, ls_mode = opt_str j ''mode''\<rparr>"

definition opaque_start :: "'e env_scheme \<Rightarrow> string \<Rightarrow> json \<Rightarrow> string \<Rightarrow> ('w, json) cop" where
  "opaque_start E path b what =
     seq (dump E b) (\<lambda>body.
     seq (post E path body) (\<lambda>resp.
     seq (require (status resp \<noteq> 404) (NetworkError ''OPAQUE: this tenant does not offer OPAQUE'' ''opaque_disabled'')) (\<lambda>_.
     seq (must_succeed E resp) (\<lambda>_.
     let j = env_parse E (resp_body resp) in
     seq (require (\<not> is_discarded j)
       (NetworkError (''OPAQUE: the '' @ what @ '' response was not the shape defined'') ''opaque_malformed'')) (\<lambda>_.
     ret j)))))"

section \<open>Signing in\<close>

definition opaque_login_path :: string where "opaque_login_path = ''/api/v1/auth/opaque/login/start''"
definition opaque_finish_path :: string where "opaque_finish_path = ''/api/v1/auth/opaque/login/finish''"

definition opaque_login_body :: "string \<Rightarrow> string \<Rightarrow> 'w client_scheme \<Rightarrow> json" where
  "opaque_login_body user ke1 s =
     add_scope_fields s (jset ''ke1'' (JStr ke1) (jset ''username_or_email'' (JStr user) JNull))"

definition opaque_begin :: "'e env_scheme \<Rightarrow> string \<Rightarrow> string \<Rightarrow> ('w, login_start) cop" where
  "opaque_begin E user ke1 =
     seq (seq (gets (opaque_login_body user ke1)) (\<lambda>b. opaque_start E opaque_login_path b ''login/start'')) (\<lambda>j.
     let started = read_login_start j in
     seq (require (ls_ke2 started \<noteq> []) (NetworkError ''OPAQUE: login/start returned no `ke2`'' ''opaque_malformed'')) (\<lambda>_.
     ret started))"

text \<open>\<open>None\<close>: the envelope did not open and the tenant's mode lets the password login be tried.\<close>

definition open_envelope :: "native \<Rightarrow> string \<Rightarrow> login_start \<Rightarrow> ('w, string option) xop" where
  "open_envelope N password started =
     catching (seq (native_op (login_finish N password (ls_ke2 started) (ls_ksf started))) (\<lambda>k. ret (Some k)))
       is_auth_error
       (\<lambda>e. if ls_mode started = Some kOpaqueModeOptional then ret None else raise e)"

definition finish_body :: "login_start \<Rightarrow> string \<Rightarrow> json" where
  "finish_body started ke3 =
     jset ''ke3'' (JStr ke3) (jset ''opaque_session'' (JStr (ls_session started)) JNull)"

definition opaque_complete :: "'e env_scheme \<Rightarrow> login_start \<Rightarrow> string \<Rightarrow> ('w, login_result) cop" where
  "opaque_complete E started ke3 =
     seq (dump E (finish_body started ke3)) (\<lambda>body.
     seq (execute E ''POST'' opaque_finish_path body False) (\<lambda>resp.
     complete_login E resp (env_parse E (resp_body resp))))"

definition login_opaque :: "native \<Rightarrow> 'e env_scheme \<Rightarrow> string \<Rightarrow> string \<Rightarrow> ('w, login_result) xop" where
  "login_opaque N E user password =
     seq ensure_open (\<lambda>_.
     seq clear_memo (\<lambda>_.
     with_exchange (start_login N password) (\<lambda>ke1.
     seq (opaque_begin E user ke1) (\<lambda>started.
     seq (open_envelope N password started) (\<lambda>ke3. case ke3 of
         None \<Rightarrow> login E user password
       | Some k \<Rightarrow> opaque_complete E started k)))))"

section \<open>Enrolment\<close>

record opaque_enrollment =
  oe_session :: string
  oe_record :: string

definition enroll_body :: "string option \<Rightarrow> string \<Rightarrow> 'w client_scheme \<Rightarrow> json" where
  "enroll_body own request s =
     (let b = jset ''registration_request'' (JStr request) JNull in
      case own of
        Some t \<Rightarrow> jset_opt ''org_id'' (c_org_id s) (jset_opt ''org_slug'' (c_org_slug s) (jset ''tenant_id'' (JStr t) b))
      | None \<Rightarrow> add_scope_fields s b)"

definition enroll :: "native \<Rightarrow> 'e env_scheme \<Rightarrow> string \<Rightarrow> string option \<Rightarrow> ('w, opaque_enrollment) xop" where
  "enroll N E password own =
     seq ensure_open (\<lambda>_.
     with_exchange (start_registration N password) (\<lambda>request.
     seq (seq (gets (enroll_body own request))
            (\<lambda>b. opaque_start E ''/api/v1/auth/opaque/register/start'' b ''register/start'')) (\<lambda>started.
     let response = json_str started ''registration_response'' in
     seq (require (response \<noteq> [])
       (NetworkError ''OPAQUE: register/start returned no `registration_response`'' ''opaque_malformed'')) (\<lambda>_.
     seq (native_op (registration_finish N password response (read_ksf started))) (\<lambda>rec.
     ret \<lparr>oe_session = json_str started ''opaque_session'', oe_record = rec\<rparr>)))))"

definition enrollment :: "native \<Rightarrow> 'e env_scheme \<Rightarrow> string \<Rightarrow> ('w, opaque_enrollment) xop" where
  "enrollment N E password = enroll N E password None"

definition enrollment_for_self :: "native \<Rightarrow> 'e env_scheme \<Rightarrow> string \<Rightarrow> ('w, opaque_enrollment) xop" where
  "enrollment_for_self N E password =
     seq (gets c_principal_tenant_id) (\<lambda>own.
     seq (require (own \<noteq> None)
       (NetworkError ''OPAQUE: no principal tenant is known yet'' ''opaque_no_principal_tenant'')) (\<lambda>_.
     enroll N E password own))"

definition opaque_available :: "native \<Rightarrow> bool" where
  "opaque_available N = n_loaded N"

section \<open>What goes over the wire\<close>

text \<open>
  \<open>opaque_only\<close>: a request of the exchange, to one of its two endpoints, whose body has no
  \<open>password\<close> member.
\<close>

definition opaque_only :: "'e env_scheme \<Rightarrow> string \<Rightarrow> http_request \<Rightarrow> bool" where
  "opaque_only E base r \<longleftrightarrow>
     (req_url r = base @ opaque_login_path \<or> req_url r = base @ opaque_finish_path)
     \<and> (\<exists>j. env_dump E j = Inr (req_body r) \<and> jfind j ''password'' = None)"

definition opaque_step :: "'e env_scheme \<Rightarrow> 'w client_scheme \<Rightarrow> 'w client_scheme \<Rightarrow> bool" where
  "opaque_step E s t \<longleftrightarrow> base_url t = base_url s \<and> (\<exists>xs. sent t = sent s @ xs \<and> list_all (opaque_only E (base_url s)) xs)"

interpretation wire: kept "opaque_step E" for E :: "'e env_scheme"
  by unfold_locales (auto simp: opaque_step_def)

lemma opaque_quiet: "base_url t = base_url s \<Longrightarrow> sent t = sent s \<Longrightarrow> opaque_step E s t"
  by (simp add: opaque_step_def)

lemma wire_ensure_open: "keeps (opaque_step E) ensure_open"
  unfolding ensure_open_def by (intro wire.rules)

lemma wire_clear_memo: "keeps (opaque_step E) clear_memo"
  unfolding clear_memo_def by (intro wire.step opaque_quiet) simp_all

lemma wire_native: "keeps (opaque_step E) (native_op m)"
  by (rule keepsI) (simp add: native_op_def opaque_quiet split: prod.split)

lemma wire_send:
  assumes "\<And>s. opaque_only E (base_url s) (f s)"
  shows "keeps (opaque_step E) (seq (gets f) (send_raw E'))"
proof (rule keepsI)
  fix s
  let ?t = "snd (seq (gets f) (send_raw E') s)"
  have "base_url ?t = base_url s \<and> (sent ?t = sent s \<or> sent ?t = sent s @ [f s])"
    by (auto simp: send_raw_def call_transport_def transmit_def op_simps capture_csrf_def split: sum.split option.split)
  with assms[of s] show "opaque_step E s ?t" by (auto simp: opaque_step_def)
qed

lemma opaque_only_build:
  assumes "env_dump E j = Inr body" "jfind j ''password'' = None" "path \<in> {opaque_login_path, opaque_finish_path}"
  shows "opaque_only E (base_url s) (build_request ''POST'' path body s)"
  using assms by (auto simp: opaque_only_def build_request_def blank_request_def Let_def)

lemma wire_dump_post:
  assumes "jfind j ''password'' = None" "path \<in> {opaque_login_path, opaque_finish_path}"
    and "\<And>resp. keeps (opaque_step E) (k resp)"
  shows "keeps (opaque_step E) (seq (dump E j) (\<lambda>body. seq (post E path body) k))"
proof (cases "env_dump E j")
  case (Inl e)
  then have "seq (dump E j) (\<lambda>body. seq (post E path body) k) = raise e"
    by (simp add: fun_eq_iff dump_def op_simps)
  then show ?thesis by (simp add: wire.pure)
next
  case (Inr body)
  then have "seq (dump E j) (\<lambda>body. seq (post E path body) k) = seq (post E path body) k"
    by (simp add: fun_eq_iff dump_def op_simps)
  then show ?thesis
    unfolding post_def using assms Inr by (auto intro!: wire.seq wire_send opaque_only_build)
qed

lemma body_ok_scope: "body_ok j \<Longrightarrow> body_ok (add_scope_fields s j)"
  by (simp add: add_scope_fields_def jset_opt_def body_ok_jset split: option.split)

lemma no_password_body: "jfind (opaque_login_body user ke1 s) ''password'' = None"
  by (simp add: opaque_login_body_def add_scope_fields_def jset_opt_def jfind_jset body_ok_jset split: option.split)

lemma wire_opaque_start:
  assumes "jfind b ''password'' = None" "path \<in> {opaque_login_path, opaque_finish_path}"
  shows "keeps (opaque_step E) (opaque_start E path b what)"
  unfolding opaque_start_def Let_def
  by (intro wire_dump_post assms wire.seq wire.pure)
    (simp_all add: must_succeed_def fail_status_def wire.pure)

lemma wire_begin: "keeps (opaque_step E) (opaque_begin E user ke1)"
proof -
  have "keeps (opaque_step E) (seq (gets (opaque_login_body user ke1)) (\<lambda>b. opaque_start E opaque_login_path b w))" for w
    by (rule keepsI) (simp add: seq_run[of "gets _"] op_runs keepsD[OF wire_opaque_start] no_password_body)
  note first = this
  show ?thesis unfolding opaque_begin_def Let_def by (rule wire.seq, rule first) (intro wire.seq wire.pure)
qed

lemma execute_once: "seq (execute E ''POST'' path body False) k = seq (post E path body) (\<lambda>resp. seq (must_succeed E resp) k)"
  by (simp add: execute_def post_def must_succeed_def fail_status_def seq_laws fun_eq_iff seq_run op_runs
      split: sum.split prod.split)

lemma wire_complete: "keeps (opaque_step E) (opaque_complete E started ke3)"
proof -
  have n: "jfind (finish_body started ke3) ''password'' = None" by (simp add: finish_body_def jfind_jset)
  have "keeps (opaque_step E) (seq (must_succeed E resp) (\<lambda>resp. complete_login E resp (env_parse E (resp_body resp))))"
    for resp :: http_response
    unfolding complete_login_def complete_session_def must_succeed_def fail_status_def
    by (intro wire.seq wire.branch wire.pure wire.step opaque_quiet) simp_all
  then show ?thesis unfolding opaque_complete_def execute_once using n by (intro wire_dump_post) simp_all
qed

lemma wire_envelope: "keeps (opaque_step E) (open_envelope N password started)"
  unfolding open_envelope_def by (intro wire.catching wire.seq wire.branch wire.pure wire_native)

lemma envelope_state: "sent (snd (open_envelope N password started s)) = sent s"
  "base_url (snd (open_envelope N password started s)) = base_url s"
  by (auto simp: open_envelope_def native_op_def op_simps split: sum.split prod.split)

lemma envelope_None:
  assumes "open_envelope N password started s = (Inr None, t)"
  shows "ls_mode started = Some kOpaqueModeOptional
    \<and> (\<exists>e. fst (login_finish N password (ls_ke2 started) (ls_ksf started) (n_exchange s)) = Inl e \<and> is_auth_error e)"
  using assms
  by (auto simp: open_envelope_def native_op_def op_simps split: sum.splits prod.splits if_splits)

lemma begin_Inr:
  assumes "opaque_begin E user ke1 s = (Inr started, t)"
  shows "\<exists>req resp. sent t = sent s @ [req] \<and> env_transport E (sent s) req = Inr resp
    \<and> started = read_login_start (env_parse E (resp_body resp))"
proof -
  from assms obtain b j t1 where o: "opaque_start E opaque_login_path b ''login/start'' s = (Inr j, t1)"
    and st: "started = read_login_start j" "t = t1"
    by (auto simp: opaque_begin_def Let_def seq_eq_Inr op_runs split: if_splits)
  from o obtain body resp t2 where p: "post E opaque_login_path body s = (Inr resp, t2)"
    and j: "j = env_parse E (resp_body resp)" "t2 = t1"
    by (auto simp: opaque_start_def dump_def Let_def seq_eq_Inr op_runs dest!: must_succeed_Inr split: if_splits)
  from p have "\<exists>req. sent t2 = sent s @ [req] \<and> env_transport E (sent s) req = Inr resp"
    by (auto simp: post_def send_raw_def call_transport_def transmit_def capture_csrf_def op_simps
        split: sum.splits if_splits option.splits)
  with st j show ?thesis by auto
qed

text \<open>\<open>fallback_due\<close>: the answer to the first request said \<open>optional\<close>, and the envelope did not open.\<close>

definition fallback_due :: "native \<Rightarrow> 'e env_scheme \<Rightarrow> string \<Rightarrow> http_request list \<Rightarrow> http_request list \<Rightarrow> bool" where
  "fallback_due N E password before xs \<longleftrightarrow>
     (\<exists>req ys resp started x e. xs = req # ys \<and> env_transport E before req = Inr resp
        \<and> started = read_login_start (env_parse E (resp_body resp)) \<and> ls_mode started = Some ''optional''
        \<and> fst (login_finish N password (ls_ke2 started) (ls_ksf started) x) = Inl e \<and> is_auth_error e)"

definition wire_ok :: "native \<Rightarrow> 'e env_scheme \<Rightarrow> string \<Rightarrow> 'w client_scheme \<Rightarrow> 'w client_scheme \<Rightarrow> bool" where
  "wire_ok N E password s t \<longleftrightarrow>
     (\<exists>xs. sent t = sent s @ xs \<and> (list_all (opaque_only E (base_url s)) xs \<or> fallback_due N E password (sent s) xs))"

lemma opaque_step_ok: "opaque_step E s t \<Longrightarrow> wire_ok N E password s t"
  by (auto simp: opaque_step_def wire_ok_def)

lemma exchange_wire:
  "wire_ok N E password s (snd (seq (opaque_begin E user ke1) (\<lambda>started.
     seq (open_envelope N password started) (\<lambda>ke3. case ke3 of
         None \<Rightarrow> login E user password
       | Some k \<Rightarrow> opaque_complete E started k)) s))"
  (is "wire_ok _ _ _ _ (snd (?run s))")
proof -
  obtain q s1 where q: "opaque_begin E user ke1 s = (q, s1)" by fastforce
  have w1: "opaque_step E s s1" by (rule keeps_run[OF wire_begin q])
  show ?thesis
  proof (cases q)
    case (Inl e)
    with q w1 show ?thesis by (simp add: seq_run opaque_step_ok)
  next
    case (Inr started)
    obtain q2 s2 where q2: "open_envelope N password started s1 = (q2, s2)" by fastforce
    have w2: "opaque_step E s s2" using wire.trans[OF w1 keeps_run[OF wire_envelope q2]] .
    show ?thesis
    proof (cases q2)
      case (Inl e)
      with q q2 Inr w2 show ?thesis by (simp add: seq_run opaque_step_ok)
    next
      case (Inr o2)
      note i = \<open>q = Inr started\<close> Inr
      show ?thesis
      proof (cases o2)
        case (Some k)
        with q q2 i have "snd (?run s) = snd (opaque_complete E started k s2)" by (simp add: seq_run)
        with wire.trans[OF w2 keepsD[OF wire_complete]] show ?thesis by (simp add: opaque_step_ok)
      next
        case None
        with q q2 i have r: "snd (?run s) = snd (login E user password s2)" by (simp add: seq_run)
        from q i(1) begin_Inr obtain req resp where b: "sent s1 = sent s @ [req]" "env_transport E (sent s) req = Inr resp"
          "started = read_login_start (env_parse E (resp_body resp))" by blast
        from keepsD[OF scoped_login, of s2 E user password] obtain ys where
          "sent (snd (login E user password s2)) = sent s2 @ ys" by (auto simp: scoped_step_def)
        moreover have "sent s2 = sent s1" using envelope_state(1)[of N password started s1] q2 by simp
        moreover have "fallback_due N E password (sent s) (req # ys)"
          unfolding fallback_due_def
          using envelope_None[of N password started s1 s2] q2 i(2) None b kOpaqueModeOptional_def
          by (intro exI[of _ req] exI[of _ ys] exI[of _ resp] exI[of _ started] exI[of _ "n_exchange s1"]) auto
        ultimately show ?thesis using b(1) r by (auto simp: wire_ok_def)
      qed
    qed
  qed
qed

lemma with_exchange_run:
  "with_exchange start body s = (case native_op start s of
      (Inl e, t) \<Rightarrow> (Inl e, t)
    | (Inr m, t) \<Rightarrow> (fst (body m t), snd (native_op close_exchange (snd (body m t)))))"
  by (simp add: with_exchange_def seq_run split: sum.split prod.split)

lemma native_op_state: "sent (snd (native_op m s)) = sent s" "base_url (snd (native_op m s)) = base_url s"
  by (simp_all add: native_op_def split: prod.split)

lemma with_exchange_wire:
  assumes "\<And>m t. wire_ok N E password t (snd (body m t))"
  shows "wire_ok N E password s (snd (with_exchange start body s))"
proof -
  obtain q t where q: "native_op start s = (q, t)" by fastforce
  then have e: "sent t = sent s" "base_url t = base_url s" using native_op_state[of start s] by simp_all
  show ?thesis
  proof (cases q)
    case (Inl x)
    with q e show ?thesis by (simp add: with_exchange_run opaque_quiet opaque_step_ok)
  next
    case (Inr m)
    with assms[of t m] q e show ?thesis by (simp add: with_exchange_run wire_ok_def native_op_state)
  qed
qed

section \<open>Handles across any number of exchanges\<close>

text \<open>
  The library's history runs through all the exchanges of a client. \<open>tidy\<close>: every state handle
  the library ever gave out, except the one the current exchange holds, has been ended exactly
  once; nothing else has; and every key-stretching handle has been freed exactly once.
\<close>

fun makes_state :: "native_call \<Rightarrow> bool" where
  "makes_state (LoginStart _) = True"
| "makes_state (RegistrationStart _) = True"
| "makes_state _ = False"

definition given :: "native \<Rightarrow> native_call list \<Rightarrow> nat \<Rightarrow> bool" where
  "given N cs h \<longleftrightarrow> h < length cs \<and> makes_state (cs ! h) \<and> n_handle N (take h cs) (cs ! h)"

definition states_balanced :: "native \<Rightarrow> nat set \<Rightarrow> native_call list \<Rightarrow> bool" where
  "states_balanced N live cs \<longleftrightarrow> (\<forall>h. ended h cs = (if given N cs h \<and> h \<notin> live then 1 else 0))"

definition tidy :: "native \<Rightarrow> exchange \<Rightarrow> bool" where
  "tidy N s \<longleftrightarrow> ksf_balanced N {} (calls s) \<and> states_balanced N (set_option (handle s)) (calls s)
     \<and> (\<forall>h. handle s = Some h \<longrightarrow> given N (calls s) h)"

lemma given_snoc:
  "given N (cs @ [c]) h \<longleftrightarrow> given N cs h \<or> h = length cs \<and> makes_state c \<and> n_handle N cs c"
  by (auto simp: given_def nth_append less_Suc_eq)

lemma given_less: "given N cs h \<Longrightarrow> h < length cs"
  by (simp add: given_def)

lemma makes_state_ends: "makes_state c \<Longrightarrow> \<not> ends_state h c \<and> \<not> makes_ksf c \<and> c \<noteq> KsfFree k"
  by (cases c) auto

lemma makes_ksf_state: "makes_ksf c \<Longrightarrow> \<not> makes_state c"
  by (cases c) auto

lemma states_snoc:
  assumes "states_balanced N live cs"
  shows "makes_state c \<Longrightarrow> n_handle N cs c \<Longrightarrow> states_balanced N (insert (length cs) live) (cs @ [c])"
    and "makes_state c \<Longrightarrow> \<not> n_handle N cs c \<Longrightarrow> states_balanced N live (cs @ [c])"
    and "\<not> makes_state c \<Longrightarrow> \<forall>h. \<not> ends_state h c \<Longrightarrow> states_balanced N live (cs @ [c])"
    and "\<not> makes_state c \<Longrightarrow> \<forall>h. ends_state h c = (h = k) \<Longrightarrow> given N cs k \<Longrightarrow> k \<in> live \<Longrightarrow>
           states_balanced N (live - {k}) (cs @ [c])"
  using assms makes_state_ends[of c] given_less[of N cs "length cs"]
  by (auto simp: states_balanced_def given_snoc)

definition ends_only :: "(nat \<Rightarrow> nat \<Rightarrow> native_call) \<Rightarrow> bool" where
  "ends_only mkc \<longleftrightarrow> ends_one mkc \<and> (\<forall>h k. \<not> makes_state (mkc h k))"

lemma tidy_finish:
  assumes "ends_only mkc" "tidy N s"
  shows "tidy N (snd (finish_gen N mkc fallback mk p s))"
proof (cases N mkc fallback mk p s rule: finish_cases)
  case (refused e)
  with assms show ?thesis by simp
next
  case (rejected c e)
  have m: "makes_ksf c" using ksf_call_makes rejected(1) .
  from assms(2) have t: "ksf_balanced N {} (calls s)" "states_balanced N (set_option (handle s)) (calls s)"
    "\<forall>h. handle s = Some h \<longrightarrow> given N (calls s) h" by (simp_all add: tidy_def)
  from balanced_snoc(2)[OF t(1) _ m rejected(2)] states_snoc(3)[OF t(2) makes_ksf_state[OF m]] ended_makes[OF m] t(3)
  show ?thesis by (auto simp: rejected(3) tidy_def given_snoc)
next
  case (spent c)
  have m: "makes_ksf c" using ksf_call_makes spent(1) .
  from assms(2) have t: "ksf_balanced N {} (calls s)" "states_balanced N {} (calls s)"
    using spent(3) by (simp_all add: tidy_def)
  have "ksf_balanced N {} ((calls s @ [c]) @ [KsfFree (length (calls s))])"
    by (rule balanced_free[OF balanced_snoc(1)[OF t(1) _ m spent(2)]]) (use m spent(2) in \<open>auto simp: nth_append\<close>)
  moreover have "states_balanced N {} ((calls s @ [c]) @ [KsfFree (length (calls s))])"
    by (intro states_snoc(3) t(2) makes_ksf_state[OF m]) (use ended_makes[OF m] in auto)
  ultimately show ?thesis by (simp add: spent(3,4) tidy_def)
next
  case (ran c h)
  have m: "makes_ksf c" using ksf_call_makes ran(1) .
  from assms(2) have t: "ksf_balanced N {} (calls s)" "states_balanced N {h} (calls s)" "given N (calls s) h"
    using ran(3) by (simp_all add: tidy_def)
  let ?cs = "(calls s @ [c]) @ [mkc h (length (calls s))]"
  have e: "ends_one mkc" "\<not> makes_state (mkc h k)" for k using assms(1) by (simp_all add: ends_only_def)
  have "ksf_balanced N {length (calls s)} ?cs"
    using e(1) by (intro balanced_snoc(3) balanced_snoc(1) t(1) m ran(2)) (auto simp: ends_one_def)
  from balanced_free[OF this] have "ksf_balanced N {} (?cs @ [KsfFree (length (calls s))])"
    using m ran(2) by (simp add: nth_append)
  moreover have "states_balanced N {h} (calls s @ [c])"
    by (intro states_snoc(3) t(2) makes_ksf_state[OF m]) (use ended_makes[OF m] in auto)
  then have "states_balanced N ({h} - {h}) ?cs"
    by (rule states_snoc(4)) (use e t(3) in \<open>auto simp: ends_one_ended given_snoc\<close>)
  from states_snoc(3)[OF this] have "states_balanced N {} (?cs @ [KsfFree (length (calls s))])" by simp
  ultimately show ?thesis using ran(4) by (simp add: tidy_def)
qed

lemma ends_only_calls:
  "ends_only (\<lambda>h k. LoginFinish h password ke2 k)" "ends_only (\<lambda>h k. RegistrationFinish h password response k)"
  using ends_one_calls by (auto simp: ends_only_def)

lemma tidy_close: "tidy N s \<Longrightarrow> tidy N (snd (close_exchange s)) \<and> handle (snd (close_exchange s)) = None"
proof (cases "handle s")
  case None
  then show "tidy N s \<Longrightarrow> ?thesis" by (simp add: close_run tidy_def wipe_message_def)
next
  case (Some k)
  let ?c = "if is_login s then LoginFree k else RegistrationFree k"
  assume "tidy N s"
  then have t: "ksf_balanced N {} (calls s)" "states_balanced N {k} (calls s)" "given N (calls s) k"
    using Some by (simp_all add: tidy_def)
  have "ksf_balanced N {} (calls s @ [?c])" by (intro balanced_snoc(3) t(1)) auto
  moreover have "states_balanced N ({k} - {k}) (calls s @ [?c])" by (rule states_snoc(4)[OF t(2)]) (use t(3) in auto)
  ultimately show ?thesis using Some by (simp add: close_run tidy_def wipe_message_def)
qed

lemma tidy_start:
  assumes "tidy N s" "handle s = None" "makes_state c"
  shows "tidy N (snd (start_exchange N is_l c fallback cat s))"
proof -
  from assms have t: "ksf_balanced N {} (calls s)" "states_balanced N {} (calls s)" by (simp_all add: tidy_def)
  have k: "ksf_balanced N {} (calls s @ [c])" using makes_state_ends[OF assms(3)] by (intro balanced_snoc(3) t(1)) auto
  from states_snoc(1,2)[OF t(2) assms(3)] k assms show ?thesis
    by (auto simp: start_exchange_def require_native_def obtain_handle_def invoke_def fail_with_def op_simps tidy_def
        given_snoc)
qed

text \<open>The client's own operations leave the exchange alone.\<close>

definition tidy_step :: "native \<Rightarrow> 'w opaque_client_scheme \<Rightarrow> 'w opaque_client_scheme \<Rightarrow> bool" where
  "tidy_step N s t \<longleftrightarrow> (tidy N (n_exchange s) \<longrightarrow> tidy N (n_exchange t))"

interpretation hygiene: kept "tidy_step N" for N
  by unfold_locales (auto simp: tidy_step_def)

lemma tidy_quiet: "n_exchange t = n_exchange s \<Longrightarrow> tidy_step N s t"
  by (simp add: tidy_step_def)

lemma hygiene_send: "keeps (tidy_step N) (seq (gets f) (send_raw E))"
  by (rule keepsI) (auto simp: send_raw_def call_transport_def transmit_def op_simps capture_csrf_def tidy_step_def
      split: sum.split option.split)

lemma hygiene_core:
  "keeps (tidy_step N) ensure_open" "keeps (tidy_step N) clear_memo" "keeps (tidy_step N) (dump E j)"
  "keeps (tidy_step N) (post E path body)" "keeps (tidy_step N) (must_succeed E resp)"
  unfolding ensure_open_def clear_memo_def dump_def post_def must_succeed_def fail_status_def
  by (intro hygiene.rules hygiene_send tidy_quiet; simp)+

lemma hygiene_complete: "keeps (tidy_step N) (complete_login E resp j)"
  unfolding complete_login_def complete_session_def
  by (intro hygiene.seq hygiene.pure hygiene.branch hygiene.step tidy_quiet)
    (simp add: adopt_session_def release_device_credential_def Let_def split: option.split)

lemma hygiene_login: "keeps (tidy_step N) (login E u p)"
  unfolding login_def login_wire_def login_read_def Let_def
  by (intro hygiene.rules hygiene_core hygiene_complete)

lemma hygiene_start: "keeps (tidy_step N) (opaque_start E path b what)"
  unfolding opaque_start_def Let_def by (intro hygiene.seq hygiene.pure hygiene_core)

lemma hygiene_finish: "keeps (tidy_step N) (native_op (login_finish N password ke2 p))"
  "keeps (tidy_step N) (native_op (registration_finish N password r p))"
  using tidy_finish[OF ends_only_calls(1)] tidy_finish[OF ends_only_calls(2)]
  by (auto intro!: keepsI simp: native_op_def tidy_step_def login_finish_gen registration_finish_gen split: prod.split)
    (metis snd_conv)+

lemma hygiene_exchange:
  "keeps (tidy_step N) (seq (opaque_begin E user ke1) (\<lambda>started.
     seq (open_envelope N password started) (\<lambda>ke3. case ke3 of
         None \<Rightarrow> login E user password
       | Some k \<Rightarrow> opaque_complete E started k)))"
  unfolding opaque_begin_def open_envelope_def opaque_complete_def execute_once Let_def
  by (intro hygiene.rules hygiene_finish hygiene_core hygiene_start hygiene_login hygiene_complete)

definition starts_tidy :: "native \<Rightarrow> 'a nop \<Rightarrow> bool" where
  "starts_tidy N start \<longleftrightarrow> (\<forall>x. tidy N x \<and> handle x = None \<longrightarrow>
     tidy N (snd (start x)) \<and> (is_ok (fst (start x)) \<or> handle (snd (start x)) = None))"

lemma start_handle:
  assumes "handle x = None"
  shows "is_ok (fst (start_exchange N is_l c fallback cat x)) \<or> handle (snd (start_exchange N is_l c fallback cat x)) = None"
  using assms by (simp add: start_exchange_def require_native_def obtain_handle_def invoke_def fail_with_def op_simps)

lemma starts_tidy_calls: "starts_tidy N (start_login N password)" "starts_tidy N (start_registration N password)"
  using start_handle tidy_start
  by (auto simp: starts_tidy_def start_login_def start_registration_def)

definition between :: "native \<Rightarrow> 'w opaque_client_scheme \<Rightarrow> bool" where
  "between N s \<longleftrightarrow> tidy N (n_exchange s) \<and> handle (n_exchange s) = None"

lemma with_exchange_tidy:
  assumes "starts_tidy N start" "\<And>m. keeps (tidy_step N) (body m)" "between N s"
  shows "between N (snd (with_exchange start body s))"
proof -
  obtain r x where x: "start (n_exchange s) = (r, x)" by fastforce
  with assms(1,3) have t: "tidy N x" "is_ok r \<or> handle x = None" by (auto simp: starts_tidy_def between_def)
  show ?thesis
  proof (cases r)
    case (Inl e)
    with x t show ?thesis by (simp add: with_exchange_run native_op_def between_def)
  next
    case (Inr m)
    let ?u = "snd (body m (s\<lparr>n_exchange := x\<rparr>))"
    have "tidy N (n_exchange ?u)" using keepsD[OF assms(2), of "s\<lparr>n_exchange := x\<rparr>" m] t(1) by (simp add: tidy_step_def)
    note closed = tidy_close[OF this]
    have "n_exchange (snd (with_exchange start body s)) = snd (close_exchange (n_exchange ?u))"
      using Inr x by (simp add: with_exchange_run native_op_def split: prod.split)
    with closed show ?thesis by (simp add: between_def)
  qed
qed

text \<open>What an application may do with the OPAQUE half of a client.\<close>

datatype opaque_op = SignIn string string | Enroll string | EnrollSelf string

fun apply_opaque :: "native \<Rightarrow> 'e env_scheme \<Rightarrow> opaque_op \<Rightarrow> opaque_client \<Rightarrow> opaque_client" where
  "apply_opaque N E (SignIn u p) s = snd (login_opaque N E u p s)"
| "apply_opaque N E (Enroll p) s = snd (enrollment N E p s)"
| "apply_opaque N E (EnrollSelf p) s = snd (enrollment_for_self N E p s)"

lemma between_quiet: "between N s \<Longrightarrow> n_exchange t = n_exchange s \<Longrightarrow> between N t"
  by (simp add: between_def)

lemma between_login: "between N s \<Longrightarrow> between N (snd (login_opaque N E u p s))"
  unfolding login_opaque_def
  by (simp add: seq_run[of ensure_open] ensure_open_run seq_run[of clear_memo] clear_memo_run)
    (intro impI with_exchange_tidy starts_tidy_calls hygiene_exchange; simp add: between_def)

lemma between_enroll: "between N s \<Longrightarrow> between N (snd (enroll N E p own s))"
  unfolding enroll_def
  by (simp add: seq_run[of ensure_open] ensure_open_run)
    (intro impI with_exchange_tidy starts_tidy_calls; auto simp: Let_def
      intro!: hygiene.seq hygiene.pure hygiene_start hygiene_finish)

lemma between_apply: "between N s \<Longrightarrow> between N (apply_opaque N E op s)"
  by (cases op) (auto simp: between_login enrollment_def between_enroll enrollment_for_self_def seq_run[of "gets _"]
      seq_run[of "require _ _"] op_runs)

lemma between_history: "between N s \<Longrightarrow> between N (fold (apply_opaque N E) ops s)"
  by (induction ops arbitrary: s) (simp_all add: between_apply)

lemma between_fresh: "between N (s\<lparr>n_exchange := fresh_exchange\<rparr>)"
  by (simp add: between_def fresh_exchange_def tidy_def balanced_nil states_balanced_def given_def)

text \<open>
  No sign-in and no enrolment leaks a native handle: after any number of them, whatever the
  server and the native library answered and whichever error ended each, every state handle the
  library gave out has been ended exactly once and nothing else has, every key-stretching
  handle has been freed exactly once, and no exchange is left open.
\<close>

theorem opaque_history_leaks_nothing:
  "states_balanced N {} (calls (n_exchange (fold (apply_opaque N E) ops (s\<lparr>n_exchange := fresh_exchange\<rparr>))))
   \<and> ksf_balanced N {} (calls (n_exchange (fold (apply_opaque N E) ops (s\<lparr>n_exchange := fresh_exchange\<rparr>))))
   \<and> handle (n_exchange (fold (apply_opaque N E) ops (s\<lparr>n_exchange := fresh_exchange\<rparr>))) = None"
  using between_history[OF between_fresh, of N E ops s] by (auto simp: between_def tidy_def)


text \<open>
  C37. An OPAQUE sign-in keeps the password off the wire: every request it sends goes to one of the
  two endpoints of the exchange with a body that has no \<open>password\<close> member, unless the answer to
  its first request named the tenant's mode \<open>optional\<close> and the envelope of that answer failed
  to open as a credential failure. A missing mode, any other value, a refused cost or a spent
  exchange never reaches the password login.
\<close>

theorem opaque_hides_password:
  "\<exists>xs. sent (snd (login_opaque N E user password s)) = sent s @ xs
     \<and> (list_all (opaque_only E (base_url s)) xs \<or> fallback_due N E password (sent s) xs)"
proof -
  have "wire_ok N E password s (snd (login_opaque N E user password s))"
  proof (cases "is_closed s")
    case True
    then show ?thesis by (simp add: login_opaque_def seq_run ensure_open_run opaque_quiet opaque_step_ok)
  next
    case False
    let ?s = "s\<lparr>decision_cache := memo_clear (decision_cache s)\<rparr>"
    have "wire_ok N E password ?s (snd (with_exchange (start_login N password) (\<lambda>ke1.
        seq (opaque_begin E user ke1) (\<lambda>started. seq (open_envelope N password started) (\<lambda>ke3. case ke3 of
            None \<Rightarrow> login E user password | Some k \<Rightarrow> opaque_complete E started k))) ?s))"
      by (rule with_exchange_wire) (rule exchange_wire)
    with False show ?thesis
      by (simp add: login_opaque_def seq_run[of ensure_open] ensure_open_run seq_run[of clear_memo] clear_memo_run wire_ok_def)
  qed
  then show ?thesis by (simp add: wire_ok_def)
qed

end
