(* ===== verification/Guard.thy ===== *)
theory Guard
  imports Uma Authenticator
begin

text \<open>
  The route guards of \<open>include/axiam/guard.hpp\<close>: identity, role and access checks over a
  verified user, the UMA and the MCP overload of \<open>require_access\<close>, and the guard functor. The
  authenticator and the credential probe of the functor are functions the application supplies.
\<close>

section \<open>Identity and roles\<close>

definition has_role :: "axiam_user \<Rightarrow> string \<Rightarrow> bool" where
  "has_role u r = list_ex (\<lambda>x. x = r) (au_roles u)"

definition require_auth :: "axiam_user option \<Rightarrow> axiam_user res" where
  "require_auth user = (case user of None \<Rightarrow> Inl (AuthError ''authentication_failed'') | Some u \<Rightarrow> Inr u)"

fun role_among :: "axiam_user \<Rightarrow> string list \<Rightarrow> unit res" where
  "role_among u [] = Inl (AuthzError ''authorization_denied: missing required role'' None None)"
| "role_among u (r # rs) = (if has_role u r then Inr () else role_among u rs)"

definition require_role :: "axiam_user option \<Rightarrow> string list \<Rightarrow> unit res" where
  "require_role user any_of = and_then (require_auth user) (\<lambda>u. role_among u any_of)"

section \<open>Access\<close>

definition guard_check :: "axiam_user \<Rightarrow> string \<Rightarrow> string \<Rightarrow> string option \<Rightarrow> access_check" where
  "guard_check u action resource scope =
     \<lparr>chk_action = action, chk_resource_id = resource, chk_scope = scope, chk_subject_id = Some (au_user_id u)\<rparr>"

definition decide :: "'e client_env_scheme \<Rightarrow> axiam_user option \<Rightarrow> string \<Rightarrow> string \<Rightarrow> string option \<Rightarrow>
    ('w, access_decision) cop" where
  "decide E user action resource scope =
     seq (lift_res (require_auth user)) (\<lambda>u.
     seq (require (resource \<noteq> []) (InvalidArgument ''invalid_request: unresolved resource id'')) (\<lambda>_.
     catching (check_access E (guard_check u action resource scope))
       is_network_error (\<lambda>_. raise (AuthzError ''authz_unavailable'' None None))))"

definition require_access :: "'e client_env_scheme \<Rightarrow> axiam_user option \<Rightarrow> string \<Rightarrow> string \<Rightarrow> string option \<Rightarrow>
    ('w, unit) cop" where
  "require_access E user action resource scope =
     seq (decide E user action resource scope) (\<lambda>d.
     require (allowed d) (AuthzError ''authorization_denied'' None None))"

record uma_challenger =
  u_realm :: string
  u_as_uri :: string
  u_pat :: string

definition denial_text :: "error \<Rightarrow> string" where
  "denial_text e = (case e of AuthzError m _ _ \<Rightarrow> m | AuthzChallengeError m _ _ _ \<Rightarrow> m | NotFoundError m \<Rightarrow> m
     | ConflictError m _ \<Rightarrow> m | _ \<Rightarrow> [])"

definition denial_action :: "error \<Rightarrow> string option" where
  "denial_action e = (case e of AuthzError _ a _ \<Rightarrow> a | AuthzChallengeError _ _ a _ \<Rightarrow> a | _ \<Rightarrow> None)"

definition denial_resource :: "error \<Rightarrow> string option" where
  "denial_resource e = (case e of AuthzError _ _ r \<Rightarrow> r | AuthzChallengeError _ _ _ r \<Rightarrow> r | _ \<Rightarrow> None)"

definition mint_header :: "'e env_scheme \<Rightarrow> uma_challenger \<Rightarrow> string \<Rightarrow> string \<Rightarrow> ('w, string) cop" where
  "mint_header E ch action resource =
     seq (uma_request_ticket E (u_pat ch) [\<lparr>rp_resource_id = resource, rp_scopes = [action]\<rparr>]) (\<lambda>ticket.
     ret (uma_challenge_header (u_realm ch) (u_as_uri ch) ticket))"

definition require_access_uma :: "'e client_env_scheme \<Rightarrow> axiam_user option \<Rightarrow> string \<Rightarrow> string \<Rightarrow>
    uma_challenger \<Rightarrow> string option \<Rightarrow> ('w, unit) cop" where
  "require_access_uma E user action resource ch scope =
     catching (require_access E user action resource scope) is_authz_error (\<lambda>denial.
       seq (catching (mint_header E ch action resource) is_axiam_error (\<lambda>_. raise denial)) (\<lambda>header.
       raise (AuthzChallengeError (denial_text denial) header (denial_action denial) (denial_resource denial))))"

definition kNoGrant :: string where "kNoGrant = ''no_grant''"

definition mcp_denial :: "mcp_challenges option \<Rightarrow> string \<Rightarrow> string \<Rightarrow> string option \<Rightarrow> access_decision \<Rightarrow> error" where
  "mcp_denial challenges action resource scope d =
     (case (challenges, scope) of
        (Some ch, Some sc) \<Rightarrow>
          (if reason_code d = Some kNoGrant
           then (case mcp_insufficient_scope_challenge ch sc of
                   Inl e \<Rightarrow> e
                 | Inr h \<Rightarrow> AuthzChallengeError ''authorization_denied'' h (Some action) (Some resource))
           else AuthzError ''authorization_denied'' None None)
      | _ \<Rightarrow> AuthzError ''authorization_denied'' None None)"

definition require_access_mcp :: "'e client_env_scheme \<Rightarrow> axiam_user option \<Rightarrow> string \<Rightarrow> string \<Rightarrow>
    mcp_challenges option \<Rightarrow> string option \<Rightarrow> ('w, unit) cop" where
  "require_access_mcp E user action resource challenges scope =
     seq (decide E user action resource scope) (\<lambda>d.
     if allowed d then ret () else raise (mcp_denial challenges action resource scope d))"

definition require_access_resolved :: "'e client_env_scheme \<Rightarrow> axiam_user option \<Rightarrow> string \<Rightarrow> ('r \<Rightarrow> string) \<Rightarrow> 'r \<Rightarrow>
    string option \<Rightarrow> ('w, unit) cop" where
  "require_access_resolved E user action resolver request scope =
     require_access E user action (resolver request) scope"

section \<open>The guard functor\<close>

record ('r, 's) axiam_guard =
  g_auth :: "'r \<Rightarrow> ('s, axiam_user option) op"
  g_challenges :: "mcp_challenges option"
  g_has_credential :: "('r \<Rightarrow> bool) option"

definition guard_plain :: "('r \<Rightarrow> ('s, axiam_user option) op) \<Rightarrow> ('r, 's) axiam_guard" where
  "guard_plain auth = \<lparr>g_auth = auth, g_challenges = None, g_has_credential = None\<rparr>"

definition presented :: "('r, 's) axiam_guard \<Rightarrow> 'r \<Rightarrow> bool" where
  "presented g req = (case g_has_credential g of None \<Rightarrow> False | Some probe \<Rightarrow> probe req)"

definition guard_call :: "('r, 's) axiam_guard \<Rightarrow> 'r \<Rightarrow> ('s, axiam_user) op" where
  "guard_call g req =
     seq (g_auth g req) (\<lambda>user. case user of
         Some u \<Rightarrow> ret u
       | None \<Rightarrow>
           (case g_challenges g of
              None \<Rightarrow> lift_res (require_auth None)
            | Some ch \<Rightarrow>
                raise (AuthChallengeError ''authentication_failed''
                  (if presented g req then invalid_token ch else no_credential ch))))"

section \<open>Admission\<close>

lemma decide_Inr:
  assumes "decide E user action resource scope s = (Inr d, t)"
  shows "\<exists>u. user = Some u \<and> resource \<noteq> [] \<and> check_access E (guard_check u action resource scope) s = (Inr d, t)"
  using assms
  by (auto simp: decide_def require_auth_def seq_eq_Inr op_runs catching_run
      split: option.splits if_splits sum.splits prod.splits)

lemma decide_Inl:
  assumes "decide E user action resource scope s = (Inl e, t)"
  shows "\<not> is_network_error e"
  using assms
  by (auto simp: decide_def require_auth_def seq_eq_Inl op_runs catching_run
      split: option.splits if_splits sum.splits prod.splits)

lemma require_access_Inr:
  "require_access E user action resource scope s = (Inr (), t)
     \<longleftrightarrow> (\<exists>d. decide E user action resource scope s = (Inr d, t) \<and> allowed d)"
  by (auto simp: require_access_def seq_eq_Inr op_runs split: if_splits)

lemma require_access_mcp_Inr:
  "require_access_mcp E user action resource ch scope s = (Inr (), t)
     \<longleftrightarrow> require_access E user action resource scope s = (Inr (), t)"
  by (auto simp: require_access_Inr require_access_mcp_def seq_eq_Inr op_runs split: if_splits)

lemma require_access_uma_run:
  "require_access_uma E user action resource ch scope s =
     (case require_access E user action resource scope s of
        (Inl denial, t) \<Rightarrow>
          (if is_authz_error denial then
             (case mint_header E ch action resource t of
                (Inl e, t') \<Rightarrow> (Inl (if is_axiam_error e then denial else e), t')
              | (Inr h, t') \<Rightarrow> (Inl (AuthzChallengeError (denial_text denial) h (denial_action denial)
                                        (denial_resource denial)), t'))
           else (Inl denial, t))
      | (Inr x, t) \<Rightarrow> (Inr x, t))"
  by (auto simp: require_access_uma_def catching_run seq_run op_runs split: prod.split sum.split)

lemma require_access_uma_Inr:
  "require_access_uma E user action resource ch scope s = (Inr (), t)
     \<longleftrightarrow> require_access E user action resource scope s = (Inr (), t)"
  by (auto simp: require_access_uma_run split: prod.splits sum.splits if_splits)

section \<open>Properties\<close>

text \<open>
  C6. A guard admits only what the server allowed: whichever overload of \<open>require_access\<close> lets a
  request through, after any history of a built client, there is a verified user, the resource
  id is not empty, and the authorization endpoint answered allowed to a check with the memo key
  of exactly this user's, action's, resource's and scope's check.
\<close>

theorem guard_admits_only_served:
  assumes "build b = Inr s0"
    and "f \<in> {require_access E user action resource scope, require_access_uma E user action resource uch scope,
              require_access_mcp E user action resource mch scope}"
    and "f (history E ops s0) = (Inr (), t)"
  shows "\<exists>u d c' acting. user = Some u \<and> resource \<noteq> [] \<and> allowed d \<and> served E t c' acting d
    \<and> check_key (guard_check u action resource scope) (acting_tenant (history E ops s0)) = check_key c' acting"
proof -
  have "require_access E user action resource scope (history E ops s0) = (Inr (), t)"
    using assms(2,3) by (auto simp: require_access_uma_Inr require_access_mcp_Inr)
  then obtain u d where u: "user = Some u" "resource \<noteq> []" "allowed d"
    and c: "check_access E (guard_check u action resource scope) (history E ops s0) = (Inr d, t)"
    by (auto simp: require_access_Inr dest!: decide_Inr)
  from check_access_served[OF c history_memo[OF assms(1)]] u show ?thesis
    by (auto simp: denied_blank_def)
qed

definition demo_user :: axiam_user where
  "demo_user = \<lparr>au_user_id = ''alice'', au_tenant_id = ''acme'', au_roles = [''reader'']\<rparr>"

lemma demo_admitted:
  "\<exists>t. require_access demo_ok (Some demo_user) ''read'' ''doc'' None (history demo_ok [] (fresh_client demo_builder)) = (Inr (), t)"
proof -
  have "\<exists>t. ask_server demo_ok (guard_check demo_user ''read'' ''doc'' None) (fresh_client demo_builder)
     = (Inr (Some \<lparr>allowed = True, reason = None, reason_code = None\<rparr>), t)"
    by (simp add: ask_server_def dump_def execute_retrying_def attempts.simps one_attempt_def held_send_def send_raw_def
        call_transport_def transmit_def conclude_def op_simps demo_ok_def demo_net_def demo_status_def blank_response_def
        demo_answer_def emit_run fresh_client_def demo_builder_def kRetryMaxAttempts_def retry_should_retry_def
        answered_def is_success_def parse_decision_def jvalue_def opt_str_def capture_csrf_def no_headers_def
        hget_def Let_def)
  then show ?thesis
    by (auto simp: require_access_Inr decide_def require_auth_def op_simps history_def check_access_run ask_and_store_def
        fresh_client_def demo_builder_def memo_enabled_def memo_new_def)
qed

lemma guard_admits_only_served_witness:
  "\<exists>t c' acting d. require_access demo_ok (Some demo_user) ''read'' ''doc'' None
       (history demo_ok [] (fresh_client demo_builder)) = (Inr (), t) \<and> served demo_ok t c' acting d \<and> allowed d"
proof -
  obtain t where t: "require_access demo_ok (Some demo_user) ''read'' ''doc'' None
      (history demo_ok [] (fresh_client demo_builder)) = (Inr (), t)" using demo_admitted by blast
  from guard_admits_only_served[OF demo_built insertI1 t] t show ?thesis by blast
qed

text \<open>
  The three overloads agree on who is admitted and none turns a transport failure into an
  answer: the access check fails closed to an authorization error, never a network error; the
  MCP overload admits exactly as the plain one does, and so does the UMA one, whose SDK errors
  are the plain denial itself or, for an authorization denial, that denial with a challenge.
\<close>

theorem guard_overloads_agree:
  "(case require_access E user action resource scope s of
      (Inr _, t) \<Rightarrow> require_access_uma E user action resource uch scope s = (Inr (), t)
        \<and> require_access_mcp E user action resource mch scope s = (Inr (), t)
    | (Inl d, t) \<Rightarrow> \<not> is_network_error d
        \<and> (\<exists>e t'. require_access_uma E user action resource uch scope s = (Inl e, t')
             \<and> (if is_axiam_error e
                then e = d \<or> is_authz_error d \<and> (\<exists>h. e = AuthzChallengeError (denial_text d) h (denial_action d) (denial_resource d))
                else True))
        \<and> (\<exists>e. require_access_mcp E user action resource mch scope s = (Inl e, t)))"
proof (cases "require_access E user action resource scope s")
  case (Pair r t)
  show ?thesis
  proof (cases r)
    case (Inr x)
    with Pair show ?thesis by (simp add: require_access_uma_Inr require_access_mcp_Inr)
  next
    case (Inl d)
    with Pair have p: "require_access E user action resource scope s = (Inl d, t)" by simp
    have n: "\<not> is_network_error d"
      using p decide_Inl[of E user action resource scope s d t]
      by (auto simp: require_access_def seq_eq_Inl op_runs split: if_splits)
    have m: "\<exists>e. require_access_mcp E user action resource mch scope s = (Inl e, t)"
      using p by (auto simp: require_access_def require_access_mcp_def seq_run op_runs split: prod.splits sum.splits if_splits)
    have u: "\<exists>e t'. require_access_uma E user action resource uch scope s = (Inl e, t')
        \<and> (if is_axiam_error e then e = d \<or> is_authz_error d
             \<and> (\<exists>h. e = AuthzChallengeError (denial_text d) h (denial_action d) (denial_resource d)) else True)"
      by (cases "mint_header E uch action resource t"; cases "fst (mint_header E uch action resource t)")
        (auto simp: require_access_uma_run p)
    from p n m u show ?thesis by simp
  qed
qed

definition demo_refusing :: client_env where
  "demo_refusing = demo_net (\<lambda>_ _. Inr (demo_status 200))
     (\<lambda>_. JObj [(''allowed'', JBool False), (''issuer'', JNull), (''token_endpoint'', JStr ''t''),
                (''permission_endpoint'', JStr ''p''), (''resource_registration_endpoint'', JStr ''r'')])"

text \<open>
  Only an SDK error of the minting is swallowed: a discovery document whose issuer is not a
  string makes the JSON library throw its own type error, and the caller that was to be refused
  with a 403 gets that exception instead of the denial.
\<close>

theorem mint_type_error_replaces_denial:
  "fst (require_access demo_refusing (Some demo_user) ''read'' ''doc'' None (fresh_client demo_builder))
     = Inl (AuthzError ''authorization_denied'' None None)
   \<and> fst (require_access_uma demo_refusing (Some demo_user) ''read'' ''doc''
            \<lparr>u_realm = ''r'', u_as_uri = ''https://as'', u_pat = ''pat''\<rparr> None (fresh_client demo_builder))
     = Inl JsonTypeError"
proof -
  obtain t where a: "ask_server demo_refusing (guard_check demo_user ''read'' ''doc'' None) (fresh_client demo_builder)
       = (Inr (Some \<lparr>allowed = False, reason = None, reason_code = None\<rparr>), t)
     \<and> \<not> is_closed t \<and> uma_config t = None \<and> \<not> transport_released t"
    by (simp add: ask_server_def dump_def execute_retrying_def attempts.simps one_attempt_def held_send_def send_raw_def
        call_transport_def transmit_def conclude_def op_simps demo_refusing_def demo_net_def demo_status_def blank_response_def
        emit_run fresh_client_def demo_builder_def kRetryMaxAttempts_def retry_should_retry_def
        answered_def is_success_def parse_decision_def jvalue_def opt_str_def capture_csrf_def no_headers_def
        hget_def Let_def)
  then have r: "require_access demo_refusing (Some demo_user) ''read'' ''doc'' None (fresh_client demo_builder)
      = (Inl (AuthzError ''authorization_denied'' None None), t)"
    by (auto simp: require_access_def decide_def require_auth_def op_simps check_access_run ask_and_store_def
        fresh_client_def demo_builder_def memo_enabled_def memo_new_def)
  have "fst (mint_header demo_refusing \<lparr>u_realm = ''r'', u_as_uri = ''https://as'', u_pat = ''pat''\<rparr> ''read'' ''doc'' t) = Inl JsonTypeError"
    using a by (simp add: mint_header_def uma_request_ticket_def uma_discover_run fetch_and_store_def fetch_uma_def
        send_raw_def call_transport_def transmit_def op_simps must_succeed_def demo_refusing_def demo_net_def
        demo_status_def blank_response_def is_success_def parse_or_object_def uma_configuration_of_def jvalue_def
        opt_str_def capture_csrf_def no_headers_def hget_def Let_def)
  then show ?thesis using r by (auto simp: require_access_uma_run split: prod.split)
qed

text \<open>
  The guard functor never invents a user: what it returns is what the authenticator returned,
  and without a user it always throws, a plain authentication error when no challenges are
  configured and otherwise one that carries the challenge for a rejected or a missing
  credential, as the probe tells.
\<close>

theorem guard_call_spec:
  "guard_call g req s =
     (case g_auth g req s of
        (Inl e, t) \<Rightarrow> (Inl e, t)
      | (Inr (Some u), t) \<Rightarrow> (Inr u, t)
      | (Inr None, t) \<Rightarrow>
          (Inl (case g_challenges g of
              None \<Rightarrow> AuthError ''authentication_failed''
            | Some ch \<Rightarrow> AuthChallengeError ''authentication_failed''
                (if presented g req then invalid_token ch else no_credential ch)), t))"
  by (auto simp: guard_call_def seq_run op_runs require_auth_def split: option.split sum.split prod.split)

end
