(* ===== verification/Management.thy ===== *)
theory Management
  imports Client Encoding
begin

text \<open>
  The one wire path of the management surface, \<open>src/management_transport.hpp\<close> and
  \<open>src/management_transport.cpp\<close>: path templates and queries, paging, the resolution of the
  organization and tenant ids, \<open>Transport::send\<close> with its retry loop, and the status
  classification. A response type is a decoder \<open>json \<Rightarrow> 'a res\<close>; the generated models
  supply one each.
\<close>

section \<open>Paths and queries\<close>

type_synonym path_value = "string \<times> string"
type_synonym query_value = "string \<times> string option"

definition placeholder :: "string \<Rightarrow> string" where
  "placeholder name = ''{'' @ name @ ''}''"

fun substitute :: "string \<Rightarrow> path_value list \<Rightarrow> string" where
  "substitute path [] = path"
| "substitute path ((name, v) # vs) =
     substitute (case cut_str (placeholder name) path of
                   None \<Rightarrow> path
                 | Some (a, b) \<Rightarrow> a @ url_encode v @ b) vs"

fun query_loop :: "bool \<Rightarrow> string \<Rightarrow> query_value list \<Rightarrow> string" where
  "query_loop first path [] = path"
| "query_loop first path ((name, None) # qs) = query_loop first path qs"
| "query_loop first path ((name, Some v) # qs) =
     query_loop False (path @ (if first then ''?'' else ''&'') @ name @ ''='' @ url_encode v) qs"

definition with_query :: "string \<Rightarrow> query_value list \<Rightarrow> string" where
  "with_query path qs = query_loop True path qs"

definition encode_segment :: "string \<Rightarrow> string" where
  "encode_segment v = url_encode v"

section \<open>Paging\<close>

record page_request =
  pr_offset :: int
  pr_limit :: int
  pr_search :: string
  pr_site :: "string option"

definition default_limit :: "int \<Rightarrow> int" where
  "default_limit l = (if l < 1 then 50 else l)"

text \<open>The addition is at \<open>std::int64_t\<close>, undefined when it overflows.\<close>

definition page_next :: "page_request \<Rightarrow> page_request res" where
  "page_next p =
     (let l = default_limit (pr_limit p); o' = max (pr_offset p) 0 + l in
      if fits64 o' then Inr \<lparr>pr_offset = o', pr_limit = l, pr_search = pr_search p, pr_site = pr_site p\<rparr>
      else Inl Undefined)"

definition matching :: "string \<Rightarrow> page_request \<Rightarrow> page_request" where
  "matching t p = p\<lparr>pr_search := t\<rparr>"

definition is_space :: "char \<Rightarrow> bool" where
  "is_space c = (code c = 32 \<or> (9 \<le> code c \<and> code c \<le> 13))"

definition normalize_search :: "string \<Rightarrow> string" where
  "normalize_search t = trim_by is_space t"

definition paging :: "page_request \<Rightarrow> query_value list" where
  "paging p =
     (let t = normalize_search (pr_search p) in
      [(''offset'', Some (dec_int (max (pr_offset p) 0))), (''limit'', Some (dec_int (default_limit (pr_limit p))))]
      @ (if t = [] then [] else [(''search'', Some t)]))"

record 'a page =
  p_items :: "'a list"
  p_total :: int
  p_request :: page_request

text \<open>A decoder that throws an exception of the JSON library is reported as an SDK error.\<close>

definition is_json_exception :: "error \<Rightarrow> bool" where
  "is_json_exception e = (e = JsonTypeError \<or> e = JsonParseError)"

definition decode_wire :: "(json \<Rightarrow> 'a res) \<Rightarrow> string \<Rightarrow> json \<Rightarrow> 'a res" where
  "decode_wire d op j =
     (case d j of
        Inl e \<Rightarrow> (let m = op @ '': the server's response did not match the expected shape'' in
                   if is_json_exception e then Inl (NetworkError m m) else Inl e)
      | Inr x \<Rightarrow> Inr x)"

fun decode_all :: "(json \<Rightarrow> 'a res) \<Rightarrow> string \<Rightarrow> json list \<Rightarrow> 'a list res" where
  "decode_all d op [] = Inr []"
| "decode_all d op (j # js) =
     and_then (decode_wire d op j) (\<lambda>x. and_then (decode_all d op js) (\<lambda>xs. Inr (x # xs)))"

definition page_items :: "json \<Rightarrow> json list" where
  "page_items j =
     (let v = (case jfind j ''items'' of
                 Some x \<Rightarrow> x
               | None \<Rightarrow> (case jfind j ''data'' of Some x \<Rightarrow> x | None \<Rightarrow> JArr []))
      in case v of JArr xs \<Rightarrow> xs | _ \<Rightarrow> [])"

definition number_at :: "json \<Rightarrow> string \<Rightarrow> json option" where
  "number_at j k = (case jfind j k of Some v \<Rightarrow> (if is_number v then Some v else None) | None \<Rightarrow> None)"

definition to_page :: "(json \<Rightarrow> 'a res) \<Rightarrow> string \<Rightarrow> page_request \<Rightarrow> json \<Rightarrow> 'a page res" where
  "to_page d op req j =
     and_then (decode_all d op (page_items j)) (\<lambda>xs.
     and_then (case number_at j ''total'' of
                 Some v \<Rightarrow> get_int64 v
               | None \<Rightarrow> (case number_at j ''total_count'' of
                            Some v \<Rightarrow> get_int64 v | None \<Rightarrow> Inr (int (length xs)))) (\<lambda>n.
     Inr \<lparr>p_items = xs, p_total = n, p_request = req\<rparr>))"

section \<open>Scopes\<close>

record call_scope =
  scope_org_id :: "string option"
  scope_tenant_id :: "string option"

definition in_org :: "string \<Rightarrow> call_scope \<Rightarrow> call_scope" where
  "in_org o' sc = sc\<lparr>scope_org_id := Some o'\<rparr>"

definition for_tenant :: "string \<Rightarrow> call_scope \<Rightarrow> call_scope" where
  "for_tenant t sc = sc\<lparr>scope_tenant_id := Some t\<rparr>"

fun first_nonempty :: "string option list \<Rightarrow> string \<Rightarrow> string res" where
  "first_nonempty [] what = Inl (AxiamError (''this operation needs '' @ what))"
| "first_nonempty (Some (c # s) # xs) what = Inr (c # s)"
| "first_nonempty (_ # xs) what = first_nonempty xs what"

definition scoped_org_id :: "call_scope \<Rightarrow> ('w, string) cop" where
  "scoped_org_id sc =
     (\<lambda>s. (first_nonempty [scope_org_id sc, c_org_id s, resolved_org_id s] ''an organization id'', s))"

definition scoped_tenant_id :: "call_scope \<Rightarrow> ('w, string) cop" where
  "scoped_tenant_id sc =
     (\<lambda>s. (first_nonempty [scope_tenant_id sc, c_tenant_id s, resolved_tenant_id s] ''a tenant id'', s))"

section \<open>Statuses\<close>

definition body_message :: "json \<Rightarrow> string" where
  "body_message j = (case opt_str j ''message'' of Some m \<Rightarrow> '': '' @ m | None \<Rightarrow> [])"

definition management_error :: "(string \<Rightarrow> json) \<Rightarrow> string \<Rightarrow> http_response \<Rightarrow> error" where
  "management_error parse op resp =
     (let st = status resp; w = op @ '': ''; j = parse (resp_body resp) in
      if st = 404 then NotFoundError (w @ ''not found (HTTP 404)'')
      else if st = 409 then ConflictError (w @ ''conflict (HTTP 409)'' @ body_message j) (opt_str j ''reason_code'')
      else if st = 400 \<or> st = 422 then ValidationError (w @ ''invalid request (HTTP '' @ dec_int st @ '')'' @ body_message j)
      else raise_for_status parse resp)"

section \<open>Sending\<close>

definition m_send :: "'e env_scheme \<Rightarrow> string \<Rightarrow> string \<Rightarrow> string \<Rightarrow> ('w, http_response res) cop" where
  "m_send E meth path payload =
     catching (seq (seq (gets (build_request meth path payload)) (send_raw E)) (\<lambda>r. ret (Inr r)))
       is_network_error (\<lambda>e. ret (Inl e))"

definition m_attempt :: "'e env_scheme \<Rightarrow> string \<Rightarrow> string \<Rightarrow> string \<Rightarrow> string \<Rightarrow> string \<Rightarrow> nat \<Rightarrow> ('w, http_response res) cop" where
  "m_attempt E op meth tmpl path payload attempt =
     seq (emit (RequestStart op meth tmpl attempt)) (\<lambda>_.
     seq (m_send E meth path payload) (\<lambda>r.
     seq (emit (RequestEnd op meth tmpl attempt (answered r) (outcome_of (answered r)))) (\<lambda>_.
     ret r)))"

definition m_body :: "'e env_scheme \<Rightarrow> string \<Rightarrow> http_response \<Rightarrow> json res" where
  "m_body E op resp =
     (if status resp = 204 \<or> resp_body resp = [] then Inr JNull
      else let j = env_parse E (resp_body resp); m = op @ '': expected a JSON object or array in the response body'' in
        if is_discarded j then Inl (NetworkError m m) else Inr j)"

definition m_conclude :: "'e env_scheme \<Rightarrow> string \<Rightarrow> http_response res \<Rightarrow> ('w, json) cop" where
  "m_conclude E op r =
     (case r of
        Inl e \<Rightarrow> raise e
      | Inr resp \<Rightarrow>
          (if is_success (status resp) then lift_res (m_body E op resp)
           else raise (management_error (env_parse E) op resp)))"

definition worth_retrying :: "http_response res \<Rightarrow> bool" where
  "worth_retrying r = (retry_should_retry (answered r))"

definition m_send_all ::
    "'e client_env_scheme \<Rightarrow> string \<Rightarrow> string \<Rightarrow> string \<Rightarrow> string \<Rightarrow> string \<Rightarrow> nat \<Rightarrow> ('w, json) cop" where
  "m_send_all E op meth tmpl path payload budget =
     retry_loop (m_attempt E op meth tmpl path payload) worth_retrying (back_off E op)
       (\<lambda>_. m_conclude E op) budget 1"

definition dump_body :: "'e env_scheme \<Rightarrow> json option \<Rightarrow> ('w, string) cop" where
  "dump_body E body = (case body of None \<Rightarrow> ret [] | Some j \<Rightarrow> dump E j)"

definition management_send ::
    "'e client_env_scheme \<Rightarrow> string \<Rightarrow> string \<Rightarrow> string \<Rightarrow> path_value list \<Rightarrow> query_value list \<Rightarrow> json option \<Rightarrow>
     ('w, json) cop" where
  "management_send E op meth tmpl vals query body =
     seq ensure_open (\<lambda>_.
     seq (gets (\<lambda>s. session s \<or> device_session s)) (\<lambda>live.
     seq (require live (AuthError (op @ '': no active session''))) (\<lambda>_.
     let path = with_query (substitute tmpl vals) query in
     seq (dump_body E body) (\<lambda>payload.
     seq (gets (\<lambda>s. if meth = ''GET'' \<and> retry_enabled s then 3 else 1)) (\<lambda>budget.
     m_send_all E op meth tmpl path payload budget)))))"

section \<open>What a call sends and reports\<close>

fun template_only :: "string \<Rightarrow> string \<Rightarrow> string \<Rightarrow> telemetry_event \<Rightarrow> bool" where
  "template_only op meth tmpl (RequestStart o' m p _) = (o' = op \<and> m = meth \<and> p = tmpl)"
| "template_only op meth tmpl (RequestEnd o' m p _ _ _) = (o' = op \<and> m = meth \<and> p = tmpl)"
| "template_only op meth tmpl (RetryWait o' _ _ _) = (o' = op)"
| "template_only op meth tmpl _ = False"

definition aims :: "string \<Rightarrow> string \<Rightarrow> 'w client_scheme \<Rightarrow> http_request \<Rightarrow> bool" where
  "aims meth path s r \<longleftrightarrow> carries_tenant s r \<and> req_method r = meth \<and> req_url r = base_url s @ path"

definition m_step :: "string \<Rightarrow> string \<Rightarrow> string \<Rightarrow> string \<Rightarrow> 'w client_scheme \<Rightarrow> 'w client_scheme \<Rightarrow> bool" where
  "m_step op meth tmpl path s t \<longleftrightarrow>
     same_config s t \<and> refresh_count t = refresh_count s
     \<and> (\<exists>xs. sent t = sent s @ xs \<and> list_all (aims meth path s) xs)
     \<and> (\<exists>evs. events t = events s @ evs \<and> list_all (template_only op meth tmpl) evs)"

lemma aims_config: "same_config s t \<Longrightarrow> aims meth path t = aims meth path s"
  using carries_same_config by (auto simp: aims_def same_config_def fun_eq_iff)

lemma m_step_trans:
  fixes s t u :: "'w client_scheme"
  assumes a: "m_step op meth tmpl path s t" and b: "m_step op meth tmpl path t u"
  shows "m_step op meth tmpl path s u"
proof -
  from a have c: "same_config s t" by (simp add: m_step_def)
  from a b obtain xs ys where "sent t = sent s @ xs" "list_all (aims meth path s) xs"
    "sent u = sent t @ ys" "list_all (aims meth path t) ys" by (auto simp: m_step_def)
  with aims_config[OF c] have "\<exists>zs. sent u = sent s @ zs \<and> list_all (aims meth path s) zs" by auto
  moreover from a b have "\<exists>evs. events u = events s @ evs \<and> list_all (template_only op meth tmpl) evs"
    by (auto simp: m_step_def)
  ultimately show ?thesis using a b by (simp add: m_step_def same_config_def)
qed

interpretation managed: kept "m_step op meth tmpl path" for op meth tmpl path
  by (unfold_locales, simp add: m_step_def same_config_def, rule m_step_trans)

lemma m_quiet:
  "same_config s t \<Longrightarrow> refresh_count t = refresh_count s \<Longrightarrow> sent t = sent s \<Longrightarrow> events t = events s \<Longrightarrow>
     m_step op meth tmpl path s t"
  by (simp add: m_step_def)

lemma managed_emit: "template_only op meth tmpl ev \<Longrightarrow> keeps (m_step op meth tmpl path) (emit ev)"
  by (rule keepsI) (simp add: emit_run m_step_def same_config_def)

lemma managed_send: "keeps (m_step op meth tmpl path) (seq (gets (build_request meth path payload)) (send_raw E))"
proof (rule keepsI)
  fix s :: "'a client_scheme"
  let ?r = "build_request meth path payload s"
  let ?t = "snd (seq (gets (build_request meth path payload)) (send_raw E) s)"
  have "aims meth path s ?r"
    using build_request_carries[of s meth path payload] by (simp add: aims_def build_request_def Let_def blank_request_def)
  moreover have "same_config s ?t \<and> refresh_count ?t = refresh_count s \<and> events ?t = events s
      \<and> (sent ?t = sent s \<or> sent ?t = sent s @ [?r])"
    by (auto simp: send_raw_def call_transport_def transmit_def op_simps same_config_def capture_csrf_def
        split: sum.split option.split)
  ultimately show "m_step op meth tmpl path s ?t" by (auto simp: m_step_def)
qed

lemma managed_attempt: "keeps (m_step op meth tmpl path) (m_attempt E op meth tmpl path payload k)"
  unfolding m_attempt_def m_send_def
  by (intro managed.seq managed.catching managed.pure managed_emit managed_send) simp_all

lemma managed_pause: "keeps (m_step op meth tmpl path) (back_off E op k r)"
  unfolding back_off_def wait_hint_def draw_jitter_def Let_def
  by (cases r) (auto intro!: managed.rules managed_emit m_quiet simp: same_config_def wall_now_def split: option.split)

lemma managed_conclude: "keeps (m_step op' meth tmpl path) (m_conclude E op r)"
  unfolding m_conclude_def by (cases r) (simp_all add: managed.pure)

lemma managed_all: "keeps (m_step op meth tmpl path) (m_send_all E op meth tmpl path payload budget)"
  unfolding m_send_all_def by (intro managed.repeat managed_attempt managed_pause managed_conclude)

lemma sends_m_send: "sends 1 (m_send E meth path payload)"
proof -
  have "sends (1 + 0) (m_send E meth path payload)"
    unfolding m_send_def
    by (intro sends_catching sends_pure) (rule sends_seq0(2), rule sends_send, rule sends_pure)
  then show ?thesis by simp
qed

lemma sends_conclude_once: "sends 0 (m_conclude E op r)"
  unfolding m_conclude_def by (cases r) (simp_all add: sends_pure)

lemma sends_m_attempt: "sends 1 (m_attempt E op meth tmpl path payload k)"
  unfolding m_attempt_def
  by (rule sends_seq0, rule sends_emit, rule sends_seq0(2), rule sends_m_send, rule sends_seq0, rule sends_emit, rule sends_pure)

lemma sends_all:
  assumes "1 \<le> budget"
  shows "sends budget (m_send_all E op meth tmpl path payload budget)"
proof -
  have "sends (budget - 1 + 1) (m_send_all E op meth tmpl path payload budget)"
    unfolding m_send_all_def
    by (intro sends_retry_loop sends_m_attempt sends_back_off sends_conclude_once assms)
  with assms show ?thesis by simp
qed

section \<open>Templates and queries\<close>

lemma count_url_encode: "\<not> pct_safe c \<Longrightarrow> count_list (url_encode v) c = 0"
  using url_encode_safe[of c v] by (auto simp: count_list_0_iff)

lemma count_placeholder:
  "c \<notin> set name \<Longrightarrow> c \<noteq> CHR ''{'' \<Longrightarrow> c \<noteq> CHR ''}'' \<Longrightarrow> count_list (placeholder name) c = 0"
  by (simp add: placeholder_def count_list_0_iff)

text \<open>The parameters that are sent, and what a server reads back from the query.\<close>

definition present :: "query_value list \<Rightarrow> (string \<times> string) list" where
  "present qs = List.map_filter (\<lambda>(n, v). map_option (Pair n) v) qs"

lemma present_simps [simp]:
  "present [] = []" "present ((n, None) # qs) = present qs" "present ((n, Some v) # qs) = (n, v) # present qs"
  by (simp_all add: present_def List.map_filter_def)

definition show_query :: "(string \<times> string) list \<Rightarrow> string" where
  "show_query ps = join ''&'' (map (\<lambda>(n, v). n @ ''='' @ url_encode v) ps)"

definition read_pair :: "string \<Rightarrow> string \<times> string" where
  "read_pair f = (case cut (\<lambda>c. c = CHR ''='') f of None \<Rightarrow> (f, []) | Some (n, _, v) \<Rightarrow> (n, pct_decode v))"

definition read_query :: "string \<Rightarrow> (string \<times> string) list" where
  "read_query q = map read_pair (split_on (CHR ''&'') q)"

lemma query_loop_False:
  "query_loop False path qs = (if present qs = [] then path else path @ ''&'' @ show_query (present qs))"
proof (induction "False" path qs rule: query_loop.induct)
  case (3 path name v qs)
  then show ?case by (cases "present qs") (simp_all add: show_query_def join_Cons)
qed simp_all

lemma with_query_show:
  "with_query path qs = (if present qs = [] then path else path @ ''?'' @ show_query (present qs))"
proof -
  have "query_loop True path qs = (if present qs = [] then path else path @ ''?'' @ show_query (present qs))"
  proof (induction "True" path qs rule: query_loop.induct)
    case (3 path name v qs)
    then show ?case by (cases "present qs") (simp_all add: query_loop_False show_query_def join_Cons)
  qed simp_all
  then show ?thesis by (simp add: with_query_def)
qed

lemma read_pair_show:
  assumes "CHR ''='' \<notin> set n"
  shows "read_pair (n @ ''='' @ url_encode v) = (n, v)"
proof -
  have "cut (\<lambda>c. c = CHR ''='') (n @ CHR ''='' # url_encode v) = Some (n, CHR ''='', url_encode v)"
    by (rule cut_SomeI) (use assms in auto)
  then show ?thesis by (simp add: read_pair_def pct_decode_url_encode)
qed

lemma read_show_query:
  assumes "ps \<noteq> []" "list_all (\<lambda>(n, v). CHR ''='' \<notin> set n \<and> CHR ''&'' \<notin> set n) ps"
  shows "read_query (show_query ps) = ps"
proof -
  have amp: "\<not> pct_safe (CHR ''&'')" by (simp add: pct_safe_def unreserved_def is_upper_def is_lower_def is_digit_def)
  have "CHR ''&'' \<notin> set (n @ ''='' @ url_encode v)" if "(n, v) \<in> set ps" for n v
    using that assms(2) amp url_encode_safe[of "CHR ''&''" v] by (auto simp: list_all_iff)
  then have "split_on (CHR ''&'') (show_query ps) = map (\<lambda>(n, v). n @ ''='' @ url_encode v) ps"
    unfolding show_query_def using assms(1) by (intro split_on_join) auto
  moreover have "map read_pair (map (\<lambda>(n, v). n @ ''='' @ url_encode v) ps) = ps"
    using assms(2) by (auto simp: list_all_iff intro!: map_idI read_pair_show[simplified])
  ultimately show ?thesis by (simp add: read_query_def)
qed

section \<open>Properties\<close>

text \<open>
  A management call is bounded and repeats only reads: it sends at most one request, three for
  a GET with retries on, none at all without a session or a device credential; each is the
  operation's method on the client's base URL with the substituted path, under the client's
  tenants; it never spends a token refresh; and every telemetry event it reports carries the
  path template, never the path with its identifiers.
\<close>

theorem management_send_bounded:
  fixes s :: "'w client_scheme"
  shows "case management_send E op meth tmpl vals query body s of (_, t) \<Rightarrow>
     \<exists>xs evs. sent t = sent s @ xs \<and> length xs \<le> (if meth = ''GET'' \<and> retry_enabled s then 3 else 1)
     \<and> (if session s \<or> device_session s then True else xs = [])
     \<and> list_all (aims meth (with_query (substitute tmpl vals) query) s) xs
     \<and> refresh_count t = refresh_count s
     \<and> events t = events s @ evs \<and> list_all (template_only op meth tmpl) evs"
proof -
  define t where "t = snd (management_send E op meth tmpl vals query body s)"
  have "\<exists>xs evs. sent t = sent s @ xs \<and> length xs \<le> (if meth = ''GET'' \<and> retry_enabled s then 3 else 1)
     \<and> (if session s \<or> device_session s then True else xs = [])
     \<and> list_all (aims meth (with_query (substitute tmpl vals) query) s) xs
     \<and> refresh_count t = refresh_count s
     \<and> events t = events s @ evs \<and> list_all (template_only op meth tmpl) evs"
proof (cases "\<not> is_closed s \<and> (session s \<or> device_session s)")
  case False
  then have "t = s" by (auto simp: t_def management_send_def seq_run ensure_open_run op_runs)
  then show ?thesis by (intro exI[of _ "[]"]) simp
next
  case True
  let ?path = "with_query (substitute tmpl vals) query"
  let ?b = "if meth = ''GET'' \<and> retry_enabled s then 3 else 1 :: nat"
  have run: "management_send E op meth tmpl vals query body s =
      (case dump_body E body s of (Inl e, u) \<Rightarrow> (Inl e, u)
       | (Inr payload, u) \<Rightarrow> m_send_all E op meth tmpl ?path payload (if meth = ''GET'' \<and> retry_enabled u then 3 else 1) u)"
    using True by (simp add: management_send_def seq_run ensure_open_run op_runs Let_def split: sum.split prod.split)
  obtain q u where d: "dump_body E body s = (q, u)" by fastforce
  then have u: "u = s" by (auto simp: dump_body_def dump_def op_runs split: option.splits)
  show ?thesis
  proof (cases q)
    case (Inl e)
    with run d u have "t = s" by (simp add: t_def)
    then show ?thesis by (intro exI[of _ "[]"]) simp
  next
    case (Inr payload)
    with run d u have t: "t = snd (m_send_all E op meth tmpl ?path payload ?b s)" by (simp add: t_def)
    have "sends ?b (m_send_all E op meth tmpl ?path payload ?b :: ('w, json) cop)" by (rule sends_all) simp
    from sendsD[OF this, of s] t obtain xs where xs: "sent t = sent s @ xs" "length xs \<le> ?b" by auto
    from keepsD[OF managed_all, of op meth tmpl ?path s E payload ?b] t
    have m: "m_step op meth tmpl ?path s t" by simp
    with xs True show ?thesis by (fastforce simp: m_step_def)
  qed
qed
  then show ?thesis by (simp add: t_def case_prod_beta)
qed

text \<open>
  C39. An identifier cannot retarget a request: substituting values into a template leaves the
  number of slashes, question marks and hash signs of the path what it was in the template,
  whatever the values hold.
\<close>

theorem substitute_keeps_route:
  assumes "list_all (\<lambda>(n, v). c \<notin> set n) vals" "c \<in> {CHR ''/'', CHR ''?'', CHR ''#''}"
  shows "count_list (substitute tmpl vals) c = count_list tmpl c"
  using assms(1)
proof (induction tmpl vals rule: substitute.induct)
  case (2 path name v vs)
  have c: "\<not> pct_safe c" "c \<noteq> CHR ''{''" "c \<noteq> CHR ''}''" using assms(2)
    by (auto simp: pct_safe_def unreserved_def is_upper_def is_lower_def is_digit_def)
  have "count_list (case cut_str (placeholder name) path of None \<Rightarrow> path
      | Some (a, b) \<Rightarrow> a @ url_encode v @ b) c = count_list path c"
  proof (cases "cut_str (placeholder name) path")
    case (Some ab)
    then obtain a b where ab: "ab = (a, b)" "path = a @ placeholder name @ b" by (cases ab) (auto dest: cut_str_SomeD)
    with Some 2(2) c show ?thesis by (simp add: count_url_encode count_placeholder)
  qed simp
  with 2 show ?case by simp
qed simp

lemma substitute_keeps_route_witness:
  "count_list (substitute ''/api/v1/users/{user_id}'' [(''user_id'', ''a/../b?x#y'')]) (CHR ''/'') = 4"
  using substitute_keeps_route[of "CHR ''/''" "[(''user_id'', ''a/../b?x#y'')]" "''/api/v1/users/{user_id}''"] by simp

text \<open>
  Queries round trip: whatever the values hold, the parameters that are set are exactly the ones
  a server reads back, in order, and an unset one adds nothing; without any the path is sent as
  it is.
\<close>

theorem query_round_trip:
  assumes "list_all (\<lambda>(n, v). CHR ''='' \<notin> set n \<and> CHR ''&'' \<notin> set n) qs"
  shows "(if present qs = [] then with_query path qs = path
          else \<exists>q. with_query path qs = path @ ''?'' @ q \<and> read_query q = present qs)"
proof -
  have "list_all (\<lambda>(n, v). CHR ''='' \<notin> set n \<and> CHR ''&'' \<notin> set n) (present qs)"
    using assms by (induction qs) (auto simp: present_def List.map_filter_def split: option.splits)
  then show ?thesis by (auto simp: with_query_show read_show_query)
qed

lemma query_round_trip_witness:
  "\<exists>q. with_query ''/x'' [(''offset'', Some ''0''), (''site'', None), (''search'', Some ''a&b=c'')] = ''/x'' @ ''?'' @ q
    \<and> read_query q = [(''offset'', ''0''), (''search'', ''a&b=c'')]"
  using query_round_trip[of "[(''offset'', Some ''0''), (''site'', None), (''search'', Some ''a&b=c'')]" "''/x''"] by simp

text \<open>
  The status classification of the management surface: exactly 404 is a not-found error, 409 a
  conflict that carries the body's \<open>reason_code\<close> verbatim, 400 and 422 a validation error,
  and every other status is what the rest of the SDK makes of it.
\<close>

theorem management_error_spec:
  "(status resp = 404 \<longleftrightarrow> (\<exists>m. management_error parse op resp = NotFoundError m))
   \<and> (status resp = 409 \<longleftrightarrow> (\<exists>m. management_error parse op resp = ConflictError m (opt_str (parse (resp_body resp)) ''reason_code'')))
   \<and> (status resp \<in> {400, 422} \<longleftrightarrow> (\<exists>m. management_error parse op resp = ValidationError m))
   \<and> (status resp \<in> {400, 404, 409, 422} \<or> management_error parse op resp = raise_for_status parse resp)"
proof -
  have d: "denial_of st j \<noteq> NotFoundError m" "denial_of st j \<noteq> ConflictError m r" "denial_of st j \<noteq> ValidationError m"
    for st j m r by (auto simp: denial_of_def split: sum.split dest: jvalue_str_errors)
  show ?thesis by (auto simp: management_error_def raise_for_status_def Let_def d)
qed

end
