(* ===== verification/Replay.thy ===== *)
theory Replay
  imports Prelude
begin

text \<open>
  What the shared-signals receiver and the reactor rely on to accept nothing twice: a store of
  identifiers, asked with an identifier, a window and the time of the question, that answers first
  sight, already held, or (an error) that it cannot answer.
\<close>

type_synonym 'st store = "string \<Rightarrow> int \<Rightarrow> int \<Rightarrow> 'st \<Rightarrow> bool res \<times> 'st"

text \<open>Questions asked one after another.\<close>

fun ask_all :: "'st store \<Rightarrow> (string \<times> int \<times> int) list \<Rightarrow> 'st \<Rightarrow> 'st" where
  "ask_all check [] st = st"
| "ask_all check ((j, w, now) # qs) st = ask_all check qs (snd (check j w now st))"

lemma ask_all_append: "ask_all check (qs @ rs) st = ask_all check rs (ask_all check qs st)"
  by (induction check qs st rule: ask_all.induct) simp_all

text \<open>
  The contract: first sight is answered only for an identifier the store does not hold at that
  time, and from then on the store holds it for the whole window (\<open>span w\<close> in the clock's unit);
  no later question makes it forget an identifier before its time. \<open>held st j t\<close>: the store, in
  state \<open>st\<close>, holds \<open>j\<close> at time \<open>t\<close>.
\<close>

locale replay_store =
  fixes check :: "'st store" and held :: "'st \<Rightarrow> string \<Rightarrow> int \<Rightarrow> bool" and span :: "int \<Rightarrow> int"
  assumes first: "check j w now st = (Inr True, st') \<Longrightarrow> \<not> held st j now \<and> (\<forall>t. t < now + span w \<longrightarrow> held st' j t)"
    and remembers: "check j w now st = (r, st') \<Longrightarrow> held st k t \<Longrightarrow> now \<le> t \<Longrightarrow> held st' k t"
begin

lemma held_through: "held st j t \<Longrightarrow> \<forall>(i, w, now)\<in>set qs. now \<le> t \<Longrightarrow> held (ask_all check qs st) j t"
proof (induction qs arbitrary: st)
  case (Cons q qs)
  obtain i w now where q: "q = (i, w, now)" by (cases q)
  obtain r st' where c: "check i w now st = (r, st')" by fastforce
  have "held st' j t" by (rule remembers[OF c Cons.prems(1)]) (use Cons.prems(2) q in simp)
  with Cons q c show ?case by simp
qed simp

text \<open>Two first sights of one identifier are a whole window apart, whatever was asked in between.\<close>

lemma first_sights_spaced:
  assumes "check j w t1 st = (Inr True, st1)" "\<forall>(i, v, now)\<in>set qs. now \<le> t2"
    and "check j w' t2 (ask_all check qs st1) = (Inr True, st2)"
  shows "t1 + span w \<le> t2"
proof (rule ccontr)
  assume "\<not> t1 + span w \<le> t2"
  with first[OF assms(1)] have "held st1 j t2" by simp
  from held_through[OF this assms(2)] first[OF assms(3)] show False by simp
qed

end

end
