(* ===== verification/Ssf.thy ===== *)
theory Ssf
  imports Management Replay "HOL-Library.Multiset"
begin

text \<open>
  The shared-signals receiver, \<open>src/ssf.cpp\<close> and \<open>include/axiam/ssf.hpp\<close>: the replay store
  and its contract, the key cache with its fetch limit and its lifetime, the nine steps that
  judge a security event token, and the poll. The receiver's state extends the client it was
  made from, because both use one transport. A pluggable replay store is a parameter; the one
  the library ships is \<open>memory_check\<close>.
\<close>

section \<open>Reasons\<close>

datatype set_failure =
  Malformed | InvalidType | InvalidKey | InvalidIssuer | InvalidAudience | InvalidSetRequest | Replayed

fun failure_code :: "set_failure \<Rightarrow> string" where
  "failure_code Malformed = ''malformed''"
| "failure_code InvalidType = ''invalid_type''"
| "failure_code InvalidKey = ''invalid_key''"
| "failure_code InvalidIssuer = ''invalid_issuer''"
| "failure_code InvalidAudience = ''invalid_audience''"
| "failure_code InvalidSetRequest = ''invalid_request''"
| "failure_code Replayed = ''replayed''"

definition push_error_code :: "set_failure \<Rightarrow> string" where
  "push_error_code r =
     (if r \<in> {InvalidKey, InvalidIssuer, InvalidAudience} then failure_code r else ''invalid_request'')"

record set_err =
  se_err :: string
  se_description :: "string option"

definition set_err_from_reason :: "set_failure \<Rightarrow> set_err" where
  "set_err_from_reason r = \<lparr>se_err = push_error_code r, se_description = None\<rparr>"

section \<open>Replay stores\<close>

definition memory_check :: "(string \<rightharpoonup> int) store" where
  "memory_check jti window now seen =
     (let alive = (\<lambda>k. case seen k of Some u \<Rightarrow> (if u \<le> now then None else Some u) | None \<Rightarrow> None) in
      case alive jti of
        Some _ \<Rightarrow> (Inr False, alive)
      | None \<Rightarrow> (Inr True, alive(jti \<mapsto> now + window * 1000000000)))"

section \<open>Configuration and state\<close>

datatype key_source = JwksUri string | DiscoveryUrl string

definition source_url :: "key_source \<Rightarrow> string" where
  "source_url k = (case k of JwksUri u \<Rightarrow> u | DiscoveryUrl u \<Rightarrow> u)"

definition kMinReplayWindow :: int where "kMinReplayWindow = 7 * 24 * 60 * 60"
definition kKeyCacheLifetime :: int where "kKeyCacheLifetime = 10 * 60 * 1000000000"
definition kFetchInterval :: int where "kFetchInterval = 60 * 1000000000"
definition kReplayStoreUnavailable :: string where "kReplayStoreUnavailable = ''replay_store_unavailable''"

record 'st ssf_config =
  cfg_issuer :: string
  cfg_audience :: string
  cfg_keys :: key_source
  cfg_token :: "(http_request list \<Rightarrow> string res) option"
  cfg_window :: int
  cfg_store :: "'st store"

record ssf_env = client_env +
  env_ed25519 :: "string \<Rightarrow> string \<Rightarrow> string \<Rightarrow> bool"

record 'st ssf_client = client +
  r_have_keys :: bool
  r_jwks_uri :: "string option"
  r_keys :: "string \<rightharpoonup> string"
  r_last_limited :: "int option"
  r_loaded_at :: int
  r_store :: 'st

type_synonym ('st, 'w, 'a) sop = "(('st, 'w) ssf_client_scheme, 'a) op"

definition ssf_receiver_new :: "'st ssf_config \<Rightarrow> unit res" where
  "ssf_receiver_new c =
     and_then (ensure (kMinReplayWindow \<le> cfg_window c)
       (InvalidArgument ''SsfReceiver: replay_window must be at least seven days'')) (\<lambda>_.
     ensure (cfg_issuer c \<noteq> [] \<and> cfg_audience c \<noteq> []
         \<and> (case origin_of (source_url (cfg_keys c)) of None \<Rightarrow> False | Some o' \<Rightarrow> is_secure_or_loopback o'))
       (InvalidArgument ''SsfReceiver: issuer, audience and an https jwks_uri or discovery_url are required''))"

section \<open>Fetching\<close>

definition string_member :: "json \<Rightarrow> string \<Rightarrow> string" where
  "string_member j k = (case opt_str j k of Some s \<Rightarrow> s | None \<Rightarrow> [])"

definition fetch_request :: "string \<Rightarrow> http_request" where
  "fetch_request url = blank_request\<lparr>req_method := ''GET'', req_url := url,
     req_headers := hset ''Accept'' json_type no_headers, sessionless := True\<rparr>"

definition fetch_object :: "'e env_scheme \<Rightarrow> string \<Rightarrow> string \<Rightarrow> ('w, json) cop" where
  "fetch_object E url what =
     seq (call_transport E (fetch_request url)) (\<lambda>resp.
     seq (require (transport_error resp = [])
       (NetworkError (''ssf: '' @ what @ '' fetch failed: '' @ transport_error resp) (transport_error resp))) (\<lambda>_.
     let doc = env_parse E (resp_body resp) in
     seq (require (status resp = 200 \<and> is_object doc)
       (NetworkError (''ssf: '' @ what @ '' fetch failed (HTTP '' @ dec_int (status resp) @ '')'')
          (''http_'' @ dec_int (status resp)))) (\<lambda>_.
     ret doc)))"

definition discovered_uri :: "string \<Rightarrow> json \<Rightarrow> string res" where
  "discovered_uri iss doc =
     (case (opt_str doc ''issuer'', opt_str doc ''jwks_uri'') of
        (Some i, Some uri) \<Rightarrow>
          (if i \<noteq> iss then Inl (NetworkError ''ssf: the SSF configuration names another issuer, or no jwks_uri'' ''ssf_configuration'')
           else (case origin_of uri of
               None \<Rightarrow> Inl (NetworkError ''ssf: the SSF configuration's jwks_uri is not an https URL'' ''ssf_configuration'')
             | Some o' \<Rightarrow>
                 (if is_secure_or_loopback o' then Inr uri
                  else Inl (NetworkError ''ssf: the SSF configuration's jwks_uri is not an https URL'' ''ssf_configuration''))))
      | _ \<Rightarrow> Inl (NetworkError ''ssf: the SSF configuration names another issuer, or no jwks_uri'' ''ssf_configuration''))"

definition resolve_jwks_uri :: "'e env_scheme \<Rightarrow> 'st ssf_config \<Rightarrow> ('st, 'w, string) sop" where
  "resolve_jwks_uri E c =
     seq (gets r_jwks_uri) (\<lambda>known. case known of
       Some u \<Rightarrow> ret u
     | None \<Rightarrow>
         seq (case cfg_keys c of
                JwksUri u \<Rightarrow> ret u
              | DiscoveryUrl u \<Rightarrow>
                  seq (fetch_object E u ''SSF configuration'') (\<lambda>doc. lift_res (discovered_uri (cfg_issuer c) doc))) (\<lambda>uri.
         seq (modify (\<lambda>s. s\<lparr>r_jwks_uri := Some uri\<rparr>)) (\<lambda>_. ret uri)))"

definition usable_key :: "json \<Rightarrow> (string \<times> string) option" where
  "usable_key k =
     (if \<not> is_object k \<or> string_member k ''kty'' \<noteq> ''OKP'' \<or> string_member k ''crv'' \<noteq> ''Ed25519'' then None
      else (case base64url_decode (string_member k ''x'') of
              Some raw \<Rightarrow> (if length raw = 32 then Some (string_member k ''kid'', raw) else None)
            | None \<Rightarrow> None))"

definition keys_of :: "json \<Rightarrow> string \<rightharpoonup> string" where
  "keys_of doc =
     (case jfind doc ''keys'' of
        Some (JArr ks) \<Rightarrow> fold (\<lambda>k m. case usable_key k of None \<Rightarrow> m | Some (i, raw) \<Rightarrow> m(i \<mapsto> raw)) ks Map.empty
      | _ \<Rightarrow> Map.empty)"

definition load_keys :: "'e env_scheme \<Rightarrow> 'st ssf_config \<Rightarrow> int \<Rightarrow> ('st, 'w, unit) sop" where
  "load_keys E c now =
     seq (resolve_jwks_uri E c) (\<lambda>uri.
     seq (fetch_object E uri ''JWKS'') (\<lambda>doc.
     modify (\<lambda>s. s\<lparr>r_keys := keys_of doc, r_have_keys := True, r_loaded_at := now\<rparr>)))"

definition limited_at :: "int \<Rightarrow> int option \<Rightarrow> bool" where
  "limited_at now l = (case l of None \<Rightarrow> False | Some t \<Rightarrow> now - t < kFetchInterval)"

definition expire_keys :: "int \<Rightarrow> ('st, 'w) ssf_client_scheme \<Rightarrow> ('st, 'w) ssf_client_scheme" where
  "expire_keys now s =
     (if r_have_keys s \<and> kKeyCacheLifetime \<le> now - r_loaded_at s
      then s\<lparr>r_have_keys := False, r_keys := Map.empty\<rparr> else s)"

definition fill_keys :: "'e env_scheme \<Rightarrow> 'st ssf_config \<Rightarrow> int \<Rightarrow> bool \<Rightarrow> ('st, 'w, unit) sop" where
  "fill_keys E c now limited =
     seq (gets r_have_keys) (\<lambda>have.
     if have then ret ()
     else seq (require (\<not> limited)
            (NetworkError ''ssf: the JWKS fetch failed less than a minute ago and is not retried yet'' ''jwks_unavailable'')) (\<lambda>_.
          catching (load_keys E c now) (\<lambda>_. True)
            (\<lambda>e. seq (modify (\<lambda>s. s\<lparr>r_last_limited := Some now\<rparr>)) (\<lambda>_. raise e))))"

definition key_for :: "'e env_scheme \<Rightarrow> 'st ssf_config \<Rightarrow> string \<Rightarrow> ('st, 'w, string option) sop" where
  "key_for E c i =
     seq (reading (steady_now E)) (\<lambda>now.
     seq (gets (\<lambda>s. limited_at now (r_last_limited s))) (\<lambda>limited.
     seq (modify (expire_keys now)) (\<lambda>_.
     seq (fill_keys E c now limited) (\<lambda>_.
     seq (gets (\<lambda>s. r_keys s i)) (\<lambda>hit. case hit of
       Some k \<Rightarrow> ret (Some k)
     | None \<Rightarrow>
         if limited then ret None
         else seq (modify (\<lambda>s. s\<lparr>r_last_limited := Some now\<rparr>)) (\<lambda>_.
              seq (load_keys E c now) (\<lambda>_. gets (\<lambda>s. r_keys s i))))))))"

section \<open>The nine steps\<close>

definition refusal :: "set_failure \<Rightarrow> string \<Rightarrow> error" where
  "refusal r why = SetVerificationError (''SET refused ('' @ failure_code r @ ''): '' @ why) (failure_code r)"

definition refuse_set :: "set_failure \<Rightarrow> string \<Rightarrow> ('s, 'a) op" where
  "refuse_set r why = raise (refusal r why)"

definition must_set :: "bool \<Rightarrow> set_failure \<Rightarrow> string \<Rightarrow> ('s, unit) op" where
  "must_set c r why = require c (refusal r why)"

definition json_object_of :: "(string \<Rightarrow> json) \<Rightarrow> string \<Rightarrow> json option" where
  "json_object_of parse part =
     (case base64url_decode part of
        None \<Rightarrow> None
      | Some bytes \<Rightarrow> (let j = parse bytes in if is_object j then Some j else None))"

definition typ_is_secevent :: "json \<Rightarrow> bool" where
  "typ_is_secevent header =
     (case opt_str header ''typ'' of
        None \<Rightarrow> False
      | Some t \<Rightarrow> lower t = ''secevent+jwt'' \<or> lower t = ''application/secevent+jwt'')"

record set_parts =
  sp_input :: string
  sp_header :: json
  sp_claims :: json
  sp_signature :: string

definition set_parts_of :: "(string \<Rightarrow> json) \<Rightarrow> string \<Rightarrow> set_parts option" where
  "set_parts_of parse tok =
     (case split_on (CHR ''.'') tok of
        [h, p, sg] \<Rightarrow>
          (case (json_object_of parse h, json_object_of parse p, base64url_decode sg) of
             (Some header, Some claims, Some signature) \<Rightarrow>
               Some \<lparr>sp_input = h @ ''.'' @ p, sp_header = header, sp_claims = claims, sp_signature = signature\<rparr>
           | _ \<Rightarrow> None)
      | _ \<Rightarrow> None)"

definition aud_ok :: "string \<Rightarrow> json \<Rightarrow> bool" where
  "aud_ok audience claims =
     (case jfind claims ''aud'' of
        Some (JStr a) \<Rightarrow> a = audience
      | Some (JArr xs) \<Rightarrow> list_ex (\<lambda>x. x = JStr audience) xs
      | _ \<Rightarrow> False)"

record set_body =
  sb_jti :: string
  sb_iat :: json
  sb_sub_id :: json
  sb_event :: "string \<times> json"

text \<open>Step 8: the members a token must and must not have.\<close>

definition set_body_of :: "json \<Rightarrow> set_body option" where
  "set_body_of claims =
     (if contains claims ''exp'' \<or> contains claims ''sub'' then None
      else (case (jfind claims ''jti'', jfind claims ''iat'', jfind claims ''sub_id'', jfind claims ''events'') of
         (Some (JStr jti), Some iat, Some sub_id, Some (JObj [ev])) \<Rightarrow>
           (if jti \<noteq> [] \<and> is_number_integer iat \<and> is_object sub_id
            then Some \<lparr>sb_jti = jti, sb_iat = iat, sb_sub_id = sub_id, sb_event = ev\<rparr> else None)
       | _ \<Rightarrow> None))"

record security_event =
  ev_jti :: string
  ev_iat :: int
  ev_iss :: string
  ev_aud_json :: string
  ev_txn :: "string option"
  ev_type :: string
  ev_json :: string
  ev_sub_id_json :: string

definition ask_replay_store :: "ssf_env \<Rightarrow> 'st ssf_config \<Rightarrow> string \<Rightarrow> ('st, 'w, bool) sop" where
  "ask_replay_store E c jti =
     seq (reading (steady_now E)) (\<lambda>now s.
     (case cfg_store c jti (cfg_window c) now (r_store s) of
        (Inr b, st) \<Rightarrow> (Inr b, s\<lparr>r_store := st\<rparr>)
      | (Inl e, st) \<Rightarrow> (Inl (NetworkError ''ssf: the replay store could not answer'' kReplayStoreUnavailable), s\<lparr>r_store := st\<rparr>)))"

definition event_of :: "ssf_env \<Rightarrow> 'st ssf_config \<Rightarrow> json \<Rightarrow> set_body \<Rightarrow> security_event res" where
  "event_of E c claims b =
     and_then (get_int64 (sb_iat b)) (\<lambda>iat.
     and_then (case jfind claims ''aud'' of Some a \<Rightarrow> env_dump E a | None \<Rightarrow> Inl Undefined) (\<lambda>aud.
     and_then (env_dump E (snd (sb_event b))) (\<lambda>ev.
     and_then (env_dump E (sb_sub_id b)) (\<lambda>sub.
     Inr \<lparr>ev_jti = sb_jti b, ev_iat = iat, ev_iss = cfg_issuer c, ev_aud_json = aud, ev_txn = opt_str claims ''txn'',
          ev_type = fst (sb_event b), ev_json = ev, ev_sub_id_json = sub\<rparr>))))"

text \<open>Steps 4 and 5.\<close>

definition check_set_signature :: "ssf_env \<Rightarrow> 'st ssf_config \<Rightarrow> set_parts \<Rightarrow> ('st, 'w, unit) sop" where
  "check_set_signature E c p =
     (let i = string_member (sp_header p) ''kid'' in
      seq (must_set (i \<noteq> []) InvalidKey ''the header names no kid'') (\<lambda>_.
      seq (key_for E c i) (\<lambda>k. case k of
          None \<Rightarrow> refuse_set InvalidKey ''no key for the kid in the JWKS''
        | Some key \<Rightarrow> must_set (ed25519_verify (env_ed25519 E) key (sp_input p) (sp_signature p))
            InvalidKey ''the signature does not verify'')))"

text \<open>Steps 6 to 8, on the claims alone.\<close>

definition check_set_claims :: "'st ssf_config \<Rightarrow> string option \<Rightarrow> json \<Rightarrow> ('s, set_body) op" where
  "check_set_claims c expected claims =
     seq (must_set (string_member claims ''iss'' = cfg_issuer c) InvalidIssuer ''iss is not the configured issuer'') (\<lambda>_.
     seq (must_set (aud_ok (cfg_audience c) claims) InvalidAudience ''aud does not name this receiver'') (\<lambda>_.
     case set_body_of claims of
       None \<Rightarrow> refuse_set InvalidSetRequest
         (if contains claims ''exp'' \<or> contains claims ''sub'' then ''a SET carries no exp and no sub''
          else ''a SET needs a jti, a numeric iat, an object sub_id and exactly one event'')
     | Some b \<Rightarrow>
         seq (must_set (case expected of None \<Rightarrow> True | Some x \<Rightarrow> x = sb_jti b) InvalidSetRequest
                ''the poll key is not the SET's jti'') (\<lambda>_. ret b)))"

definition record_sight :: "ssf_env \<Rightarrow> 'st ssf_config \<Rightarrow> bool \<Rightarrow> set_body \<Rightarrow> ('st, 'w, unit) sop" where
  "record_sight E c ask b =
     seq (require ask (NetworkError ''ssf: the replay store could not answer earlier in this poll batch'' kReplayStoreUnavailable)) (\<lambda>_.
     seq (ask_replay_store E c (sb_jti b)) (\<lambda>first.
     must_set first Replayed ''this jti was already accepted''))"

definition judge_set :: "ssf_env \<Rightarrow> 'st ssf_config \<Rightarrow> string option \<Rightarrow> bool \<Rightarrow> set_parts \<Rightarrow> ('st, 'w, security_event) sop" where
  "judge_set E c expected ask p =
     seq (must_set (typ_is_secevent (sp_header p)) InvalidType ''typ is not secevent+jwt'') (\<lambda>_.
     seq (must_set (string_member (sp_header p) ''alg'' = ''EdDSA'') InvalidKey ''alg is not EdDSA'') (\<lambda>_.
     seq (check_set_signature E c p) (\<lambda>_.
     seq (check_set_claims c expected (sp_claims p)) (\<lambda>b.
     seq (record_sight E c ask b) (\<lambda>_.
     lift_res (event_of E c (sp_claims p) b))))))"

definition verify_state :: "ssf_env \<Rightarrow> 'st ssf_config \<Rightarrow> string \<Rightarrow> string option \<Rightarrow> bool \<Rightarrow> ('st, 'w, security_event) sop" where
  "verify_state E c tok expected ask =
     (case set_parts_of (env_parse E) tok of
        None \<Rightarrow> refuse_set Malformed
          (if length (split_on (CHR ''.'') tok) = 3 then ''a part is not base64url-encoded JSON''
           else ''not three base64url parts'')
      | Some p \<Rightarrow> judge_set E c expected ask p)"

definition verify_set :: "ssf_env \<Rightarrow> 'st ssf_config \<Rightarrow> string \<Rightarrow> ('st, 'w, security_event) sop" where
  "verify_set E c tok = verify_state E c tok None True"

section \<open>Polling\<close>

record poll_options =
  po_max_events :: "int option"
  po_immediately :: "bool option"
  po_ack :: "string list option"
  po_set_errs :: "(string \<times> set_err) list option"

definition json_int :: "int \<Rightarrow> json" where
  "json_int i = JInt (word_of_int i)"

definition err_entry :: "set_err \<Rightarrow> json" where
  "err_entry e = jset_opt ''description'' (se_description e) (jset ''err'' (JStr (se_err e)) JNull)"

definition poll_body :: "poll_options \<Rightarrow> json" where
  "poll_body o' =
     (let b1 = (case po_max_events o' of None \<Rightarrow> JObj [] | Some n \<Rightarrow> jset ''maxEvents'' (json_int n) (JObj []));
          b2 = (case po_immediately o' of None \<Rightarrow> b1 | Some b \<Rightarrow> jset ''returnImmediately'' (JBool b) b1);
          b3 = (case po_ack o' of None \<Rightarrow> b2 | Some xs \<Rightarrow> jset ''ack'' (JArr (map JStr xs)) b2)
      in case po_set_errs o' of
           None \<Rightarrow> b3
         | Some es \<Rightarrow> jset ''setErrs'' (fold (\<lambda>(jti, e) j. jset jti (err_entry e) j) es (JObj [])) b3)"

definition poll_request :: "string \<Rightarrow> string \<Rightarrow> string \<Rightarrow> bool \<Rightarrow> 'w client_scheme \<Rightarrow> http_request" where
  "poll_request stream_id token body again s = blank_request\<lparr>req_method := ''POST'',
     req_url := base_url s @ ''/ssf/v1/poll/'' @ encode_segment stream_id,
     req_headers := hset ''Authorization'' (''Bearer '' @ token)
       (hset ''Content-Type'' json_type (hset ''Accept'' json_type no_headers)),
     req_body := body, sessionless := True, replayable := again\<rparr>"

definition wire_status :: "http_response \<Rightarrow> int option" where
  "wire_status resp = (if transport_error resp = [] then Some (status resp) else None)"

definition poll_again :: "http_response \<Rightarrow> bool" where
  "poll_again resp =
     (\<not> (case wire_status resp of Some st \<Rightarrow> is_success st | None \<Rightarrow> False) \<and> retry_should_retry (wire_status resp))"

definition poll_pause :: "'e client_env_scheme \<Rightarrow> nat \<Rightarrow> http_response \<Rightarrow> ('w, unit) cop" where
  "poll_pause E attempt resp =
     seq (wait_hint E (Inr resp)) (\<lambda>hint.
     seq (draw_jitter E) (\<lambda>fraction.
     modify (\<lambda>s. s\<lparr>waits := waits s @ [retry_delay (int attempt) hint fraction]\<rparr>)))"

definition poll_conclude :: "'e env_scheme \<Rightarrow> http_response \<Rightarrow> ('w, http_response) cop" where
  "poll_conclude E resp =
     (case wire_status resp of
        None \<Rightarrow> raise (NetworkError (''ssf.poll: '' @ transport_error resp) (transport_error resp))
      | Some st \<Rightarrow> (if is_success st then ret resp else raise (management_error (env_parse E) ''ssf.poll'' resp)))"

definition poll_send :: "'e client_env_scheme \<Rightarrow> http_request \<Rightarrow> nat \<Rightarrow> ('w, http_response) cop" where
  "poll_send E req budget =
     retry_loop (\<lambda>_. call_transport E req) poll_again (poll_pause E) (\<lambda>_. poll_conclude E) budget 1"

record poll_result =
  pl_events :: "security_event list"
  pl_more :: bool
  pl_refused :: "(string \<times> string) list"
  pl_unjudged :: "(string \<times> error) list"
  pl_store_failed :: bool
  pl_by_key_fetch :: nat
  pl_by_store :: nat

definition empty_poll :: "bool \<Rightarrow> poll_result" where
  "empty_poll m = \<lparr>pl_events = [], pl_more = m, pl_refused = [], pl_unjudged = [],
     pl_store_failed = False, pl_by_key_fetch = 0, pl_by_store = 0\<rparr>"

text \<open>Where one verdict goes: the \<open>catch\<close> clauses of the loop, in their order.\<close>

definition file_verdict :: "string \<Rightarrow> security_event res \<Rightarrow> poll_result \<Rightarrow> poll_result" where
  "file_verdict jti r out =
     (case r of
        Inr ev \<Rightarrow> out\<lparr>pl_events := pl_events out @ [ev]\<rparr>
      | Inl (SetVerificationError _ rc) \<Rightarrow> out\<lparr>pl_refused := pl_refused out @ [(jti, rc)]\<rparr>
      | Inl (NetworkError m cause) \<Rightarrow>
          (let here = (cause = kReplayStoreUnavailable);
               out' = out\<lparr>pl_store_failed := pl_store_failed out \<or> here,
                          pl_unjudged := pl_unjudged out @ [(jti, NetworkError m cause)]\<rparr>
           in if here then out'\<lparr>pl_by_store := Suc (pl_by_store out)\<rparr>
              else out'\<lparr>pl_by_key_fetch := Suc (pl_by_key_fetch out)\<rparr>)
      | Inl e \<Rightarrow> out\<lparr>pl_by_key_fetch := Suc (pl_by_key_fetch out), pl_unjudged := pl_unjudged out @ [(jti, e)]\<rparr>)"

fun judge_sets :: "ssf_env \<Rightarrow> 'st ssf_config \<Rightarrow> (string \<times> json) list \<Rightarrow> poll_result \<Rightarrow>
    ('st, 'w) ssf_client_scheme \<Rightarrow> poll_result \<times> ('st, 'w) ssf_client_scheme" where
  "judge_sets E c [] out s = (out, s)"
| "judge_sets E c ((jti, JStr tok) # sets) out s =
     (case verify_state E c tok (Some jti) (\<not> pl_store_failed out) s of
        (r, t) \<Rightarrow> judge_sets E c sets (file_verdict jti r out) t)"
| "judge_sets E c ((jti, _) # sets) out s =
     judge_sets E c sets (out\<lparr>pl_refused := pl_refused out @ [(jti, failure_code Malformed)]\<rparr>) s"

definition reply_sets :: "json \<Rightarrow> (string \<times> json) list" where
  "reply_sets reply = (case jfind reply ''sets'' of Some (JObj kvs) \<Rightarrow> kvs | _ \<Rightarrow> [])"

definition report_unjudged :: "poll_result \<Rightarrow> ('w, unit) cop" where
  "report_unjudged out =
     seq (if 0 < pl_by_key_fetch out then emit (SsfUnjudged ''ssf.poll'' (pl_by_key_fetch out) ''key_fetch'') else ret ()) (\<lambda>_.
     if 0 < pl_by_store out then emit (SsfUnjudged ''ssf.poll'' (pl_by_store out) ''replay_store'') else ret ())"

definition judge_reply :: "ssf_env \<Rightarrow> 'st ssf_config \<Rightarrow> json \<Rightarrow> ('st, 'w, poll_result) sop" where
  "judge_reply E c reply =
     seq (require (is_object reply) (NetworkError ''ssf.poll: the response is not a JSON object'' ''malformed_body'')) (\<lambda>_.
     seq (reading (judge_sets E c (reply_sets reply) (empty_poll (jfind reply ''moreAvailable'' = Some (JBool True))))) (\<lambda>out.
     seq (report_unjudged out) (\<lambda>_. ret out)))"

definition poll :: "ssf_env \<Rightarrow> 'st ssf_config \<Rightarrow> string \<Rightarrow> poll_options \<Rightarrow> ('st, 'w, poll_result) sop" where
  "poll E c stream_id options =
     seq ensure_open (\<lambda>_.
     case cfg_token c of
       None \<Rightarrow> raise (AuthError ''ssf.poll needs an access_token_provider'')
     | Some provider \<Rightarrow>
         seq (\<lambda>s. (provider (sent s), s)) (\<lambda>token.
         seq (dump E (poll_body options)) (\<lambda>body.
         seq (gets (\<lambda>s. if retry_enabled s then kRetryMaxAttempts else 1)) (\<lambda>budget.
         seq (seq (gets (poll_request stream_id token body (1 < budget))) (\<lambda>req. poll_send E req budget)) (\<lambda>resp.
         judge_reply E c (env_parse E (resp_body resp)))))))"

section \<open>The contract of a replay store\<close>

text \<open>The receiver's windows are seconds and its clock counts nanoseconds.\<close>

locale receiver_store = replay_store check held span
  for check :: "'st store" and held and span +
  assumes span_ns: "span w = w * 1000000000"

interpretation memory: receiver_store memory_check "\<lambda>st j t. \<exists>u. st j = Some u \<and> t < u" "\<lambda>w. w * 1000000000"
  by unfold_locales (auto simp: memory_check_def Let_def split: option.splits if_splits)

section \<open>What one verification does to the store\<close>

definition store_quiet :: "('st, 'w) ssf_client_scheme \<Rightarrow> ('st, 'w) ssf_client_scheme \<Rightarrow> bool" where
  "store_quiet s t \<longleftrightarrow> r_store t = r_store s \<and> ticks s \<le> ticks t"

interpretation quiet: kept store_quiet
  by unfold_locales (auto simp: store_quiet_def)

lemma quiet_fetch: "keeps store_quiet (fetch_object E url what)"
  by (rule keepsI) (auto simp: fetch_object_def call_transport_def transmit_def op_simps Let_def store_quiet_def
      split: sum.split)

lemma quiet_resolve: "keeps store_quiet (resolve_jwks_uri E c)"
proof -
  have "keeps store_quiet (case cfg_keys c of JwksUri u \<Rightarrow> ret u
      | DiscoveryUrl u \<Rightarrow> seq (fetch_object E u w) (\<lambda>doc. lift_res (discovered_uri (cfg_issuer c) doc)))" for w
    by (cases "cfg_keys c") (auto intro!: quiet.seq quiet.pure quiet_fetch)
  then show ?thesis
    unfolding resolve_jwks_uri_def
    by (intro quiet.seq quiet.pure quiet.on_option quiet.step) (simp_all add: store_quiet_def)
qed

lemma quiet_load: "keeps store_quiet (load_keys E c now)"
  unfolding load_keys_def
  by (intro quiet.seq quiet_resolve quiet_fetch quiet.step) (simp add: store_quiet_def)

lemma quiet_fill: "keeps store_quiet (fill_keys E c now limited)"
  unfolding fill_keys_def
  by (intro quiet.seq quiet.branch quiet.pure quiet.catching quiet_load quiet.step) (simp add: store_quiet_def)

lemma quiet_key_for: "keeps store_quiet (key_for E c i)"
  unfolding key_for_def
  by (intro quiet.seq quiet.on_option quiet.branch quiet.pure quiet_fill quiet_load quiet.step quiet.read_step)
    (auto simp: store_quiet_def steady_now_def expire_keys_def)

lemma quiet_must: "keeps store_quiet (must_set b r why)" "keeps store_quiet (refuse_set r why)"
  by (simp_all add: must_set_def refuse_set_def quiet.pure)

lemma quiet_signature: "keeps store_quiet (check_set_signature E c p)"
  unfolding check_set_signature_def Let_def
  by (intro quiet.seq quiet.on_option quiet_must quiet_key_for)

lemma check_claims_run:
  "check_set_claims c expected claims s = (r, t) \<Longrightarrow> t = s \<and> (case r of
      Inl e \<Rightarrow> True
    | Inr b \<Rightarrow> string_member claims ''iss'' = cfg_issuer c \<and> aud_ok (cfg_audience c) claims
        \<and> set_body_of claims = Some b \<and> (case expected of None \<Rightarrow> True | Some x \<Rightarrow> x = sb_jti b))"
  by (auto simp: check_set_claims_def must_set_def refuse_set_def op_simps split: if_splits option.splits)

lemma record_sight_run:
  assumes "record_sight E c ask b s = (r, t)"
  shows "(r = Inl (NetworkError ''ssf: the replay store could not answer earlier in this poll batch'' kReplayStoreUnavailable)
        \<and> \<not> ask \<and> t = s)
    \<or> (\<exists>q st. ask \<and> cfg_store c (sb_jti b) (cfg_window c) (env_steady E (ticks s)) (r_store s) = (q, st)
        \<and> t = s\<lparr>ticks := Suc (ticks s), r_store := st\<rparr>
        \<and> r = (case q of Inl e \<Rightarrow> Inl (NetworkError ''ssf: the replay store could not answer'' kReplayStoreUnavailable)
               | Inr seen \<Rightarrow> (if seen then Inr () else Inl (refusal Replayed ''this jti was already accepted''))))"
proof (cases ask)
  case False
  with assms show ?thesis by (auto simp: record_sight_def seq_run op_runs)
next
  case True
  obtain q st where q: "cfg_store c (sb_jti b) (cfg_window c) (env_steady E (ticks s)) (r_store s) = (q, st)" by fastforce
  then have a: "ask_replay_store E c (sb_jti b) s = (case q of
      Inl e \<Rightarrow> (Inl (NetworkError ''ssf: the replay store could not answer'' kReplayStoreUnavailable), s\<lparr>ticks := Suc (ticks s), r_store := st\<rparr>)
    | Inr seen \<Rightarrow> (Inr seen, s\<lparr>ticks := Suc (ticks s), r_store := st\<rparr>))"
    by (cases q) (simp_all add: ask_replay_store_def seq_run op_runs steady_now_def)
  have "record_sight E c ask b s = (case ask_replay_store E c (sb_jti b) s of
      (Inl e, u) \<Rightarrow> (Inl e, u)
    | (Inr seen, u) \<Rightarrow> (if seen then Inr () else Inl (refusal Replayed ''this jti was already accepted''), u))"
    using True by (simp add: record_sight_def seq_run op_runs must_set_def split: sum.split prod.split)
  with assms a q True show ?thesis
    by (intro disjI2 exI[of _ q] exI[of _ st]) (cases q; simp)
qed

text \<open>The last steps of one judgement, from the state in which the signature was found good.\<close>

definition finish_set :: "ssf_env \<Rightarrow> 'st ssf_config \<Rightarrow> string option \<Rightarrow> bool \<Rightarrow> set_parts \<Rightarrow> ('st, 'w, security_event) sop" where
  "finish_set E c expected ask p =
     seq (check_set_claims c expected (sp_claims p)) (\<lambda>b.
     seq (record_sight E c ask b) (\<lambda>_.
     lift_res (event_of E c (sp_claims p) b)))"

definition begin_set :: "ssf_env \<Rightarrow> 'st ssf_config \<Rightarrow> set_parts \<Rightarrow> ('st, 'w, unit) sop" where
  "begin_set E c p =
     seq (must_set (typ_is_secevent (sp_header p)) InvalidType ''typ is not secevent+jwt'') (\<lambda>_.
     seq (must_set (string_member (sp_header p) ''alg'' = ''EdDSA'') InvalidKey ''alg is not EdDSA'') (\<lambda>_.
     check_set_signature E c p))"

lemma judge_set_split: "judge_set E c expected ask p = seq (begin_set E c p) (\<lambda>_. finish_set E c expected ask p)"
  by (simp add: judge_set_def begin_set_def finish_set_def seq_laws)

lemma quiet_begin: "keeps store_quiet (begin_set E c p)"
  unfolding begin_set_def by (intro quiet.seq quiet_must quiet_signature)

lemma event_of_jti: "event_of E c claims b = Inr ev \<Longrightarrow> ev_jti ev = sb_jti b"
  by (auto simp: event_of_def and_then_eq_Inr)

lemma finish_set_cases:
  assumes "finish_set E c expected ask p s = (r, t)"
  shows "(t = s \<and> \<not> is_ok r)
    \<or> (\<exists>b q st. ask \<and> set_body_of (sp_claims p) = Some b \<and> string_member (sp_claims p) ''iss'' = cfg_issuer c
        \<and> aud_ok (cfg_audience c) (sp_claims p) \<and> (case expected of None \<Rightarrow> True | Some x \<Rightarrow> x = sb_jti b)
        \<and> cfg_store c (sb_jti b) (cfg_window c) (env_steady E (ticks s)) (r_store s) = (q, st)
        \<and> t = s\<lparr>ticks := Suc (ticks s), r_store := st\<rparr>
        \<and> (\<forall>ev. r = Inr ev \<longrightarrow> q = Inr True \<and> event_of E c (sp_claims p) b = Inr ev))"
proof -
  obtain q1 s1 where k: "check_set_claims c expected (sp_claims p) s = (q1, s1)" by fastforce
  note k' = check_claims_run[OF k]
  show ?thesis
  proof (cases q1)
    case (Inl e)
    with assms k k' show ?thesis by (auto simp: finish_set_def seq_run)
  next
    case (Inr b)
    obtain q2 s2 where v: "record_sight E c ask b s = (q2, s2)" by fastforce
    have run: "(r, t) = (case q2 of Inl e \<Rightarrow> (Inl e, s2) | Inr _ \<Rightarrow> (event_of E c (sp_claims p) b, s2))"
      using assms k k' Inr v by (cases q2) (simp_all add: finish_set_def seq_run op_runs)
    from record_sight_run[OF v] show ?thesis
    proof
      assume "q2 = Inl (NetworkError ''ssf: the replay store could not answer earlier in this poll batch'' kReplayStoreUnavailable)
        \<and> \<not> ask \<and> s2 = s"
      with run show ?thesis by simp
    next
      assume "\<exists>q st. ask \<and> cfg_store c (sb_jti b) (cfg_window c) (env_steady E (ticks s)) (r_store s) = (q, st)
        \<and> s2 = s\<lparr>ticks := Suc (ticks s), r_store := st\<rparr>
        \<and> q2 = (case q of Inl e \<Rightarrow> Inl (NetworkError ''ssf: the replay store could not answer'' kReplayStoreUnavailable)
               | Inr seen \<Rightarrow> (if seen then Inr () else Inl (refusal Replayed ''this jti was already accepted'')))"
      then obtain q st where q: ask "cfg_store c (sb_jti b) (cfg_window c) (env_steady E (ticks s)) (r_store s) = (q, st)"
        "s2 = s\<lparr>ticks := Suc (ticks s), r_store := st\<rparr>"
        "q2 = (case q of Inl e \<Rightarrow> Inl (NetworkError ''ssf: the replay store could not answer'' kReplayStoreUnavailable)
               | Inr seen \<Rightarrow> (if seen then Inr () else Inl (refusal Replayed ''this jti was already accepted'')))" by blast
      have t: "t = s2" using run by (cases q2) auto
      have ok: "q = Inr True \<and> event_of E c (sp_claims p) b = Inr ev" if "r = Inr ev" for ev
        using run that q(4) by (auto split: sum.splits if_splits)
      from k' Inr q t ok show ?thesis by auto
    qed
  qed
qed

lemma verify_state_split:
  assumes "verify_state E c tok expected ask s = (Inr ev, t)"
  obtains p s1 where "set_parts_of (env_parse E) tok = Some p" "begin_set E c p s = (Inr (), s1)"
    "finish_set E c expected ask p s1 = (Inr ev, t)"
  using assms
  by (auto simp: verify_state_def refuse_set_def op_runs judge_set_split seq_eq_Inr split: option.splits)

lemma verify_state_store:
  assumes "verify_state E c tok expected ask s = (r, t)"
  shows "ticks s \<le> ticks t \<and> (r_store t = r_store s \<and> \<not> is_ok r
    \<or> (\<exists>k jti q. ticks s \<le> k \<and> k < ticks t
        \<and> cfg_store c jti (cfg_window c) (env_steady E k) (r_store s) = (q, r_store t)
        \<and> (\<forall>ev. r = Inr ev \<longrightarrow> q = Inr True \<and> ev_jti ev = jti)))"
proof (cases "set_parts_of (env_parse E) tok")
  case None
  with assms show ?thesis by (auto simp: verify_state_def refuse_set_def op_runs)
next
  case (Some p)
  obtain q1 s1 where g: "begin_set E c p s = (q1, s1)" by fastforce
  have qs: "store_quiet s s1" by (rule keeps_run[OF quiet_begin g])
  show ?thesis
  proof (cases q1)
    case (Inl e)
    with assms Some g qs show ?thesis by (auto simp: verify_state_def judge_set_split seq_run store_quiet_def)
  next
    case (Inr u)
    with assms Some g have "finish_set E c expected ask p s1 = (r, t)"
      by (simp add: verify_state_def judge_set_split seq_run)
    from finish_set_cases[OF this] show ?thesis
    proof
      assume "t = s1 \<and> \<not> is_ok r"
      with qs show ?thesis by (auto simp: store_quiet_def)
    next
      assume "\<exists>b q st. ask \<and> set_body_of (sp_claims p) = Some b \<and> string_member (sp_claims p) ''iss'' = cfg_issuer c
        \<and> aud_ok (cfg_audience c) (sp_claims p) \<and> (case expected of None \<Rightarrow> True | Some x \<Rightarrow> x = sb_jti b)
        \<and> cfg_store c (sb_jti b) (cfg_window c) (env_steady E (ticks s1)) (r_store s1) = (q, st)
        \<and> t = s1\<lparr>ticks := Suc (ticks s1), r_store := st\<rparr>
        \<and> (\<forall>ev. r = Inr ev \<longrightarrow> q = Inr True \<and> event_of E c (sp_claims p) b = Inr ev)"
      then obtain b q st where "cfg_store c (sb_jti b) (cfg_window c) (env_steady E (ticks s1)) (r_store s1) = (q, st)"
        "t = s1\<lparr>ticks := Suc (ticks s1), r_store := st\<rparr>"
        "\<forall>ev. r = Inr ev \<longrightarrow> q = Inr True \<and> event_of E c (sp_claims p) b = Inr ev" by blast
      with qs event_of_jti show ?thesis
        by (intro conjI disjI2 exI[of _ "ticks s1"] exI[of _ "sb_jti b"] exI[of _ q]) (auto simp: store_quiet_def)
    qed
  qed
qed

section \<open>Accepting once\<close>

text \<open>What a receiver accepts of a sequence of tokens, verified one after another.\<close>

fun verify_many :: "ssf_env \<Rightarrow> 'st ssf_config \<Rightarrow> string list \<Rightarrow> ('st, 'w) ssf_client_scheme \<Rightarrow>
    security_event list \<times> ('st, 'w) ssf_client_scheme" where
  "verify_many E c [] s = ([], s)"
| "verify_many E c (tok # toks) s =
     (case verify_set E c tok s of (r, t) \<Rightarrow>
      case verify_many E c toks t of (evs, u) \<Rightarrow>
        ((case r of Inr ev \<Rightarrow> ev # evs | Inl _ \<Rightarrow> evs), u))"

definition readings_ok :: "'e env_scheme \<Rightarrow> int \<Rightarrow> bool" where
  "readings_ok E window \<longleftrightarrow>
     (\<forall>i j. (i \<le> j \<longrightarrow> env_steady E i \<le> env_steady E j) \<and> env_steady E j < env_steady E i + window * 1000000000)"

context receiver_store
begin

lemma kept_by_verify:
  assumes "cfg_store c = check" "readings_ok E w" "verify_set E c tok s = (r, t)"
    and "\<And>k. ticks s \<le> k \<Longrightarrow> held (r_store s) j (env_steady E k)" "ticks t \<le> k"
  shows "held (r_store t) j (env_steady E k)"
proof -
  from verify_state_store[OF assms(3)[unfolded verify_set_def]]
  consider "r_store t = r_store s" "ticks s \<le> ticks t"
    | l i q where "ticks s \<le> l" "l < ticks t" "check i (cfg_window c) (env_steady E l) (r_store s) = (q, r_store t)"
    using assms(1) by auto
  then show ?thesis
  proof cases
    case 1
    with assms(4,5) show ?thesis by simp
  next
    case 2
    then have "env_steady E l \<le> env_steady E k" using assms(2,5) by (simp add: readings_ok_def)
    with 2 assms(4,5) show ?thesis by (intro remembers[OF 2(3)]) auto
  qed
qed

lemma held_not_accepted:
  assumes "cfg_store c = check" "readings_ok E w" "verify_set E c tok s = (Inr ev, t)"
    and "\<And>k. ticks s \<le> k \<Longrightarrow> held (r_store s) j (env_steady E k)"
  shows "ev_jti ev \<noteq> j"
proof -
  from verify_state_store[OF assms(3)[unfolded verify_set_def]] assms(1) obtain l where
    "ticks s \<le> l" "check (ev_jti ev) (cfg_window c) (env_steady E l) (r_store s) = (Inr True, r_store t)" by auto
  with first assms(4) show ?thesis by blast
qed

lemma held_from_now:
  assumes "cfg_store c = check" "readings_ok E (cfg_window c)" "verify_set E c tok s = (Inr ev, t)" "ticks t \<le> k"
  shows "held (r_store t) (ev_jti ev) (env_steady E k)"
proof -
  from verify_state_store[OF assms(3)[unfolded verify_set_def]] assms(1) obtain l where
    "ticks s \<le> l" "check (ev_jti ev) (cfg_window c) (env_steady E l) (r_store s) = (Inr True, r_store t)" by auto
  with first assms(2) show ?thesis unfolding readings_ok_def by (metis span_ns)
qed

lemma held_never_again:
  assumes "cfg_store c = check" "readings_ok E w"
    and "\<And>k. ticks s \<le> k \<Longrightarrow> held (r_store s) j (env_steady E k)"
  shows "j \<notin> ev_jti ` set (fst (verify_many E c toks s))"
  using assms(3)
proof (induction toks arbitrary: s)
  case (Cons tok toks)
  obtain r t where v: "verify_set E c tok s = (r, t)" by fastforce
  have "j \<notin> ev_jti ` set (fst (verify_many E c toks t))"
    using kept_by_verify[OF assms(1,2) v Cons.prems] by (intro Cons.IH) blast
  moreover have "ev_jti ev \<noteq> j" if "r = Inr ev" for ev
    using held_not_accepted[OF assms(1,2) v[unfolded that] Cons.prems] by blast
  ultimately show ?case using v by (auto split: sum.splits prod.splits)
qed simp

lemma accepted_distinct:
  assumes "cfg_store c = check" "readings_ok E (cfg_window c)"
  shows "distinct (map ev_jti (fst (verify_many E c toks s)))"
proof (induction toks arbitrary: s)
  case (Cons tok toks)
  obtain r t where v: "verify_set E c tok s = (r, t)" by fastforce
  have "ev_jti ev \<notin> ev_jti ` set (fst (verify_many E c toks t))" if "r = Inr ev" for ev
    using held_from_now[OF assms v[unfolded that]] by (intro held_never_again[OF assms]) blast
  with v Cons[of t] show ?case by (auto split: sum.split prod.split)
qed simp

end

section \<open>Keys\<close>

text \<open>
  \<open>fetched_keys\<close>: the keys in the cache are those of a document the transport answered to an
  unauthenticated request for the receiver's key URL.
\<close>

definition fetched_keys :: "'e env_scheme \<Rightarrow> ('st, 'w) ssf_client_scheme \<Rightarrow> bool" where
  "fetched_keys E s \<longleftrightarrow>
     (\<exists>past uri resp. r_jwks_uri s = Some uri \<and> env_transport E past (fetch_request uri) = Inr resp
        \<and> status resp = 200 \<and> r_keys s = keys_of (env_parse E (resp_body resp)))"

lemma fetch_object_Inr:
  assumes "fetch_object E url what s = (Inr doc, t)"
  shows "t = s\<lparr>sent := sent s @ [fetch_request url]\<rparr> \<and> (\<exists>resp. env_transport E (sent s) (fetch_request url) = Inr resp
    \<and> status resp = 200 \<and> doc = env_parse E (resp_body resp))"
  using assms
  by (auto simp: fetch_object_def call_transport_def transmit_def op_simps Let_def split: sum.splits if_splits)

lemma resolve_Inr:
  "resolve_jwks_uri E c s = (Inr uri, t) \<Longrightarrow> r_jwks_uri t = Some uri"
  by (auto simp: resolve_jwks_uri_def seq_eq_Inr op_runs split: option.splits)

lemma load_keys_Inr:
  assumes "load_keys E c now s = (Inr u, t)"
  shows "fetched_keys E t \<and> r_have_keys t \<and> r_loaded_at t = now"
proof -
  from assms obtain uri doc s1 s2 where r: "resolve_jwks_uri E c s = (Inr uri, s1)"
    and f: "fetch_object E uri ''JWKS'' s1 = (Inr doc, s2)"
    and t: "t = s2\<lparr>r_keys := keys_of doc, r_have_keys := True, r_loaded_at := now\<rparr>"
    by (auto simp: load_keys_def seq_eq_Inr op_runs)
  from fetch_object_Inr[OF f] obtain resp where s2: "s2 = s1\<lparr>sent := sent s1 @ [fetch_request uri]\<rparr>"
    and a: "env_transport E (sent s1) (fetch_request uri) = Inr resp" "status resp = 200" "doc = env_parse E (resp_body resp)"
    by blast
  with resolve_Inr[OF r] t show ?thesis unfolding fetched_keys_def by auto
qed

lemma fill_keys_Inr:
  assumes "fill_keys E c now limited s = (Inr u, t)"
  shows "(t = s \<and> r_have_keys s) \<or> (fetched_keys E t \<and> r_have_keys t \<and> r_loaded_at t = now)"
  using assms
  by (auto simp: fill_keys_def seq_eq_Inr op_runs catching_run split: if_splits sum.splits prod.splits
      dest!: load_keys_Inr[where u = "()"])

text \<open>The key used is in the cache, which is at most ten minutes old at that moment.\<close>

lemma key_for_Some:
  assumes "key_for E c i s = (Inr (Some k), t)"
  shows "r_keys t i = Some k \<and> r_have_keys t \<and> env_steady E (ticks s) - r_loaded_at t < kKeyCacheLifetime
    \<and> (fetched_keys E t \<or> r_keys t = r_keys s \<and> r_have_keys s \<and> r_jwks_uri t = r_jwks_uri s)"
proof -
  let ?now = "env_steady E (ticks s)"
  let ?s0 = "s\<lparr>ticks := Suc (ticks s)\<rparr>"
  let ?s1 = "expire_keys ?now ?s0"
  define limited where "limited = limited_at ?now (r_last_limited s)"
  obtain q s2 where f: "fill_keys E c ?now limited ?s1 = (q, s2)" by fastforce
  from assms f have q: "q = Inr ()" by (cases q) (auto simp: key_for_def seq_run op_runs steady_now_def limited_def)
  have run: "key_for E c i s = (case r_keys s2 i of
      Some k \<Rightarrow> (Inr (Some k), s2)
    | None \<Rightarrow> (if limited then (Inr None, s2)
        else seq (load_keys E c ?now) (\<lambda>_. gets (\<lambda>s. r_keys s i)) (s2\<lparr>r_last_limited := Some ?now\<rparr>)))"
    using f q by (simp add: key_for_def seq_run op_runs steady_now_def limited_def split: option.split)
  have pos: "0 < kKeyCacheLifetime" by (simp add: kKeyCacheLifetime_def)
  show ?thesis
  proof (cases "r_keys s2 i")
    case (Some k')
    with run assms have t: "t = s2" "k' = k" by simp_all
    from fill_keys_Inr[OF f[unfolded q]] show ?thesis
      using t Some pos by (auto simp: expire_keys_def split: if_splits)
  next
    case None
    with run assms have "seq (load_keys E c ?now) (\<lambda>_. gets (\<lambda>s. r_keys s i)) (s2\<lparr>r_last_limited := Some ?now\<rparr>) = (Inr (Some k), t)"
      by (simp split: if_splits)
    then obtain u where "load_keys E c ?now (s2\<lparr>r_last_limited := Some ?now\<rparr>) = (Inr u, t)" "r_keys t i = Some k"
      by (auto simp: seq_eq_Inr op_runs)
    with load_keys_Inr pos show ?thesis by fastforce
  qed
qed

section \<open>Requests for keys\<close>

lemma key_for_run:
  "key_for E c i s =
     (let now = env_steady E (ticks s); limited = limited_at now (r_last_limited s);
          start = expire_keys now (s\<lparr>ticks := Suc (ticks s)\<rparr>)
      in case fill_keys E c now limited start of
           (Inl e, t) \<Rightarrow> (Inl e, t)
         | (Inr _, t) \<Rightarrow>
             (case r_keys t i of
                Some k \<Rightarrow> (Inr (Some k), t)
              | None \<Rightarrow> (if limited then (Inr None, t)
                  else seq (load_keys E c now) (\<lambda>_. gets (\<lambda>s. r_keys s i)) (t\<lparr>r_last_limited := Some now\<rparr>))))"
  by (simp add: key_for_def seq_run op_runs steady_now_def Let_def split: sum.split prod.split option.split)

lemma fetch_object_frame:
  "fetch_object E url what s = (r, t) \<Longrightarrow> t = s \<or> t = s\<lparr>sent := sent s @ [fetch_request url]\<rparr>"
  by (auto simp: fetch_object_def call_transport_def transmit_def op_simps Let_def split: sum.splits if_splits)

definition uri_cost :: "('st, 'w) ssf_client_scheme \<Rightarrow> nat" where
  "uri_cost s = (if r_jwks_uri s = None then 2 else 1)"

text \<open>What one resolution, and one load of the keys, change.\<close>

lemma resolve_frame:
  assumes "resolve_jwks_uri E c s = (r, t)"
  shows "length (sent t) + (if is_ok r then 1 else 0) \<le> length (sent s) + uri_cost s
    \<and> r_last_limited t = r_last_limited s \<and> (r_jwks_uri s = None \<or> r_jwks_uri t = r_jwks_uri s)
    \<and> (is_ok r \<longrightarrow> r_jwks_uri t \<noteq> None)"
proof (cases "r_jwks_uri s")
  case (Some u)
  with assms show ?thesis by (auto simp: resolve_jwks_uri_def seq_run op_runs uri_cost_def)
next
  case None
  show ?thesis
  proof (cases "cfg_keys c")
    case (JwksUri u)
    with None assms show ?thesis by (auto simp: resolve_jwks_uri_def seq_run op_runs uri_cost_def)
  next
    case (DiscoveryUrl u)
    obtain q s1 where f: "fetch_object E u ''SSF configuration'' s = (q, s1)" by fastforce
    with None DiscoveryUrl assms fetch_object_frame[OF f] show ?thesis
      by (cases q) (auto simp: resolve_jwks_uri_def seq_run op_runs uri_cost_def is_ok_def split: sum.splits)
  qed
qed

lemma load_frame:
  assumes "load_keys E c now s = (r, t)"
  shows "length (sent t) \<le> length (sent s) + uri_cost s \<and> r_last_limited t = r_last_limited s
    \<and> (r_jwks_uri s = None \<or> r_jwks_uri t = r_jwks_uri s)
    \<and> (is_ok r \<longrightarrow> r_jwks_uri t \<noteq> None \<and> r_have_keys t \<and> r_loaded_at t = now)"
proof -
  obtain q s1 where a: "resolve_jwks_uri E c s = (q, s1)" by fastforce
  note a' = resolve_frame[OF a]
  show ?thesis
  proof (cases q)
    case (Inl e)
    with a a' assms show ?thesis by (auto simp: load_keys_def seq_run)
  next
    case (Inr uri)
    obtain p s2 where b: "fetch_object E uri ''JWKS'' s1 = (p, s2)" by fastforce
    with a a' Inr assms fetch_object_frame[OF b] show ?thesis
      by (cases p) (auto simp: load_keys_def seq_run op_runs)
  qed
qed

text \<open>
  The requests still possible inside one minute starting at \<open>t0\<close>: none once a limited fetch has
  happened in it, one after a successful load in it, and otherwise two, or three when the key URL
  has yet to be discovered.
\<close>

definition within_minute :: "int \<Rightarrow> int \<Rightarrow> bool" where
  "within_minute t0 t \<longleftrightarrow> t0 \<le> t \<and> t < t0 + kFetchInterval"

definition key_credit :: "int \<Rightarrow> ('st, 'w) ssf_client_scheme \<Rightarrow> nat" where
  "key_credit t0 s =
     (if (case r_last_limited s of Some t \<Rightarrow> within_minute t0 t | None \<Rightarrow> False) then 0
      else if r_jwks_uri s = None then 3
      else if r_have_keys s \<and> within_minute t0 (r_loaded_at s) then 1 else 2)"

definition within_credit :: "int \<Rightarrow> ('st, 'w) ssf_client_scheme \<Rightarrow> ('st, 'w) ssf_client_scheme \<Rightarrow> bool" where
  "within_credit t0 s t \<longleftrightarrow> length (sent t) + key_credit t0 t \<le> length (sent s) + key_credit t0 s"

interpretation credit: kept "within_credit t0"
  by unfold_locales (auto simp: within_credit_def)

lemma key_credit_3: "key_credit t0 s \<le> 3"
  by (simp add: key_credit_def)

lemma not_limited_credit:
  assumes "within_minute t0 now" "\<not> limited_at now (r_last_limited s)"
  shows "key_credit t0 s = (if r_jwks_uri s = None then 3 else if r_have_keys s \<and> within_minute t0 (r_loaded_at s) then 1 else 2)"
  using assms by (auto simp: key_credit_def limited_at_def within_minute_def split: option.splits)

lemma expire_credit:
  assumes "within_minute t0 now"
  shows "key_credit t0 (expire_keys now s) = key_credit t0 s" "sent (expire_keys now s) = sent s"
    "r_last_limited (expire_keys now s) = r_last_limited s"
  using assms
  by (auto simp: key_credit_def expire_keys_def within_minute_def kKeyCacheLifetime_def kFetchInterval_def
      split: option.split)

lemma limited_now_credit: "within_minute t0 now \<Longrightarrow> r_last_limited s = Some now \<Longrightarrow> key_credit t0 s = 0"
  by (simp add: key_credit_def)

lemma fill_within:
  assumes "within_minute t0 now" "limited = limited_at now (r_last_limited s)" "fill_keys E c now limited s = (r, t)"
  shows "within_credit t0 s t \<and> (is_ok r \<longrightarrow> r_last_limited t = r_last_limited s)"
proof (cases "limited \<or> r_have_keys s")
  case True
  with assms(3) show ?thesis
    by (cases "r_have_keys s") (auto simp: fill_keys_def seq_run op_runs within_credit_def)
next
  case False
  obtain q u where l: "load_keys E c now s = (q, u)" by fastforce
  note f = load_frame[OF l]
  have s: "key_credit t0 s = uri_cost s + 1"
    using not_limited_credit[OF assms(1), of s] False assms(2) by (simp add: uri_cost_def)
  show ?thesis
  proof (cases q)
    case (Inl e)
    with l False assms(3) have t: "t = u\<lparr>r_last_limited := Some now\<rparr>" "r = Inl e"
      by (auto simp: fill_keys_def seq_run op_runs catching_run)
    with f s show ?thesis by (simp add: within_credit_def limited_now_credit[OF assms(1)])
  next
    case (Inr x)
    with l False assms(3) have t: "t = u" by (auto simp: fill_keys_def seq_run op_runs catching_run)
    with f False assms(2) have nl: "\<not> limited_at now (r_last_limited t)" by simp
    from not_limited_credit[OF assms(1) this] f Inr t assms(1) have "key_credit t0 t = 1" by simp
    with f s t show ?thesis by (simp add: within_credit_def)
  qed
qed

lemma key_for_within:
  assumes "\<And>n. within_minute t0 (env_steady E n)"
  shows "keeps (within_credit t0) (key_for E c i :: ('st, 'w, string option) sop)"
proof (rule keepsI)
  fix s :: "('st, 'w) ssf_client_scheme"
  define now where "now = env_steady E (ticks s)"
  define limited where "limited = limited_at now (r_last_limited s)"
  define s1 where "s1 = expire_keys now (s\<lparr>ticks := Suc (ticks s)\<rparr>)"
  have w: "within_minute t0 now" using assms by (simp add: now_def)
  have s1: "within_credit t0 s s1" "r_last_limited s1 = r_last_limited s"
    by (simp_all add: within_credit_def s1_def expire_credit[OF w]) (simp add: key_credit_def)
  obtain r s2 where f: "fill_keys E c now limited s1 = (r, s2)" by fastforce
  have s2: "within_credit t0 s s2" "is_ok r \<longrightarrow> r_last_limited s2 = r_last_limited s"
    using fill_within[OF w _ f] s1 by (auto simp: limited_def within_credit_def)
  have run: "key_for E c i s = (case r of Inl e \<Rightarrow> (Inl e, s2) | Inr _ \<Rightarrow>
       (case r_keys s2 i of Some k \<Rightarrow> (Inr (Some k), s2)
        | None \<Rightarrow> (if limited then (Inr None, s2)
            else seq (load_keys E c now) (\<lambda>_. gets (\<lambda>s. r_keys s i)) (s2\<lparr>r_last_limited := Some now\<rparr>))))"
    using f by (simp add: key_for_run Let_def flip: now_def limited_def s1_def split: sum.split)
  show "within_credit t0 s (snd (key_for E c i s))"
  proof (cases "is_ok r \<and> r_keys s2 i = None \<and> \<not> limited")
    case False
    with run s2 show ?thesis by (cases r) (auto split: option.split)
  next
    case True
    obtain q u where l: "load_keys E c now (s2\<lparr>r_last_limited := Some now\<rparr>) = (q, u)" by fastforce
    have u: "snd (key_for E c i s) = u" using run True l by (cases r; cases q) (auto simp: seq_run op_runs)
    have "uri_cost s2 \<le> key_credit t0 s2"
      using not_limited_credit[OF w, of s2] True s2 by (auto simp: uri_cost_def limited_def)
    with load_frame[OF l] limited_now_credit[OF w, of u] have "within_credit t0 s2 u"
      by (simp add: within_credit_def uri_cost_def)
    with s2(1) u show ?thesis by (auto intro: credit.trans)
  qed
qed

lemma within_pure_steps:
  "keeps (within_credit t0) (must_set b r why)" "keeps (within_credit t0) (refuse_set r why)"
  "keeps (within_credit t0) (check_set_claims c expected claims)"
  "keeps (within_credit t0) (record_sight E c ask b')"
proof -
  show m: "keeps (within_credit t0) (must_set b r why)" "keeps (within_credit t0) (refuse_set r why)" for b r why
    by (simp_all add: must_set_def refuse_set_def credit.pure)
  show "keeps (within_credit t0) (check_set_claims c expected claims)"
    unfolding check_set_claims_def by (intro credit.seq credit.on_option credit.pure m)
  show "keeps (within_credit t0) (record_sight E c ask b')"
    unfolding record_sight_def
  proof (intro credit.seq credit.pure m)
    show "keeps (within_credit t0) (ask_replay_store E c (sb_jti b'))"
      by (rule keepsI) (auto simp: ask_replay_store_def op_simps steady_now_def within_credit_def key_credit_def
          split: sum.split prod.split)
  qed
qed

lemma verify_within:
  assumes "\<And>n. within_minute t0 (env_steady E n)"
  shows "keeps (within_credit t0) (verify_state E c tok expected ask)"
  unfolding verify_state_def judge_set_def check_set_signature_def Let_def
  by (intro credit.on_option credit.seq credit.pure within_pure_steps key_for_within assms)

lemma verify_many_within:
  assumes "\<And>n. within_minute t0 (env_steady E n)"
  shows "within_credit t0 s (snd (verify_many E c toks s))"
proof (induction toks arbitrary: s)
  case (Cons tok toks)
  obtain r t where v: "verify_set E c tok s = (r, t)" by fastforce
  have "within_credit t0 s t"
    by (rule keeps_run[OF verify_within[OF assms] v[unfolded verify_set_def]])
  with v Cons[of t] show ?case by (auto intro: credit.trans split: prod.split)
qed (simp add: credit.refl)

section \<open>What an accepted token has shown\<close>

lemma begin_set_Inr:
  assumes "begin_set E c p s = (Inr u, t)"
  shows "typ_is_secevent (sp_header p) \<and> string_member (sp_header p) ''alg'' = ''EdDSA''
    \<and> string_member (sp_header p) ''kid'' \<noteq> []
    \<and> (\<exists>key. key_for E c (string_member (sp_header p) ''kid'') s = (Inr (Some key), t)
        \<and> ed25519_verify (env_ed25519 E) key (sp_input p) (sp_signature p))"
  using assms
  by (auto simp: begin_set_def check_set_signature_def must_set_def refuse_set_def Let_def seq_eq_Inr op_runs
      split: option.splits if_splits)

lemma accepted_facts:
  assumes "verify_state E c tok expected ask s = (Inr ev, t)"
  obtains p b key k where "set_parts_of (env_parse E) tok = Some p" "typ_is_secevent (sp_header p)"
    "string_member (sp_header p) ''alg'' = ''EdDSA''" "string_member (sp_header p) ''kid'' \<noteq> []"
    "r_keys t (string_member (sp_header p) ''kid'') = Some key"
    "env_steady E (ticks s) - r_loaded_at t < kKeyCacheLifetime" "fetched_keys E t \<or> r_keys t = r_keys s"
    "ed25519_verify (env_ed25519 E) key (sp_input p) (sp_signature p)"
    "string_member (sp_claims p) ''iss'' = cfg_issuer c" "aud_ok (cfg_audience c) (sp_claims p)"
    "set_body_of (sp_claims p) = Some b" "case expected of None \<Rightarrow> True | Some x \<Rightarrow> x = sb_jti b"
    "cfg_store c (sb_jti b) (cfg_window c) (env_steady E k) (r_store s) = (Inr True, r_store t)"
    "event_of E c (sp_claims p) b = Inr ev" ask
proof -
  from assms obtain p s1 where p: "set_parts_of (env_parse E) tok = Some p" "begin_set E c p s = (Inr (), s1)"
    "finish_set E c expected ask p s1 = (Inr ev, t)" by (rule verify_state_split)
  from begin_set_Inr[OF p(2)] obtain key where k: "key_for E c (string_member (sp_header p) ''kid'') s = (Inr (Some key), s1)"
    "ed25519_verify (env_ed25519 E) key (sp_input p) (sp_signature p)" by blast
  note b = begin_set_Inr[OF p(2)] and key = key_for_Some[OF k(1)] and quiet = keeps_run[OF quiet_begin p(2)]
  from finish_set_cases[OF p(3)] obtain b st where f: "set_body_of (sp_claims p) = Some b" ask
    "string_member (sp_claims p) ''iss'' = cfg_issuer c" "aud_ok (cfg_audience c) (sp_claims p)"
    "case expected of None \<Rightarrow> True | Some x \<Rightarrow> x = sb_jti b"
    "cfg_store c (sb_jti b) (cfg_window c) (env_steady E (ticks s1)) (r_store s1) = (Inr True, st)"
    "t = s1\<lparr>ticks := Suc (ticks s1), r_store := st\<rparr>" "event_of E c (sp_claims p) b = Inr ev"
    by auto
  have "fetched_keys E t \<or> r_keys t = r_keys s" using key f(7) by (auto simp: fetched_keys_def)
  with that[of p key b "ticks s1"] p(1) b k key f quiet show ?thesis by (simp add: store_quiet_def)
qed

section \<open>One batch\<close>

text \<open>The token ids a result accounts for.\<close>

definition filed :: "poll_result \<Rightarrow> string list" where
  "filed out = map ev_jti (pl_events out) @ map fst (pl_refused out) @ map fst (pl_unjudged out)"

lemma unasked_refuses:
  assumes "verify_state E c tok expected False s = (r, t)"
  shows "r_store t = r_store s \<and> \<not> is_ok r"
proof (cases "set_parts_of (env_parse E) tok")
  case None
  with assms show ?thesis by (auto simp: verify_state_def refuse_set_def op_runs)
next
  case (Some p)
  obtain q1 s1 where g: "begin_set E c p s = (q1, s1)" by fastforce
  have qs: "store_quiet s s1" by (rule keeps_run[OF quiet_begin g])
  show ?thesis
  proof (cases q1)
    case (Inl e)
    with assms Some g qs show ?thesis by (auto simp: verify_state_def judge_set_split seq_run store_quiet_def)
  next
    case (Inr u)
    with assms Some g have "finish_set E c expected False p s1 = (r, t)"
      by (simp add: verify_state_def judge_set_split seq_run)
    from finish_set_cases[OF this] qs show ?thesis by (auto simp: store_quiet_def)
  qed
qed

lemma file_verdict_accounts:
  assumes "\<And>ev. r = Inr ev \<Longrightarrow> ev_jti ev = jti"
  shows "mset (filed (file_verdict jti r out)) = mset (filed out) + {#jti#}
    \<and> length (pl_unjudged (file_verdict jti r out)) + pl_by_key_fetch out + pl_by_store out
        = length (pl_unjudged out) + pl_by_key_fetch (file_verdict jti r out) + pl_by_store (file_verdict jti r out)
    \<and> (pl_store_failed out \<longrightarrow> pl_store_failed (file_verdict jti r out))
    \<and> (\<not> is_ok r \<longrightarrow> pl_events (file_verdict jti r out) = pl_events out)"
  using assms
  by (cases r; cases "projl r") (auto simp: filed_def file_verdict_def Let_def)

lemma accepted_jti:
  assumes "verify_state E c tok (Some jti) ask s = (Inr ev, t)"
  shows "ev_jti ev = jti"
proof -
  from assms show ?thesis by (rule accepted_facts) (auto dest: event_of_jti)
qed

lemma batch_accounts:
  assumes "judge_sets E c sets out s = (out', t)"
  shows "mset (filed out') = mset (filed out) + mset (map fst sets)
    \<and> length (pl_unjudged out') + pl_by_key_fetch out + pl_by_store out
        = length (pl_unjudged out) + pl_by_key_fetch out' + pl_by_store out'
    \<and> (pl_store_failed out \<longrightarrow> r_store t = r_store s \<and> pl_events out' = pl_events out)"
  using assms
proof (induction E c sets out s rule: judge_sets.induct)
  case (2 E c jti tok sets out s)
  obtain r u where v: "verify_state E c tok (Some jti) (\<not> pl_store_failed out) s = (r, u)" by fastforce
  have j: "ev_jti ev = jti" if "r = Inr ev" for ev using accepted_jti v that by blast
  have f: "pl_store_failed out \<Longrightarrow> r_store u = r_store s \<and> \<not> is_ok r" using unasked_refuses[of E c tok "Some jti" s r u] v by simp
  from 2(2) v have "judge_sets E c sets (file_verdict jti r out) u = (out', t)" by simp
  from 2(1)[OF v[symmetric] this] file_verdict_accounts[of r jti out] j f show ?case by simp
qed (auto simp: filed_def)

section \<open>A receiver to evaluate\<close>

definition demo_set_json :: "string \<Rightarrow> json" where
  "demo_set_json bytes =
     (if bytes = ''H'' then JObj [(''alg'', JStr ''EdDSA''), (''kid'', JStr ''k1''), (''typ'', JStr ''secevent+jwt'')]
      else if bytes = ''P'' then JObj [(''aud'', JStr ''me''), (''events'', JObj [(''revoked'', JNull)]), (''iat'', JInt 5),
        (''iss'', JStr ''them''), (''jti'', JStr ''j1''), (''sub_id'', JObj [])]
      else if bytes = ''K'' then JObj [(''keys'', JArr [JObj [(''crv'', JStr ''Ed25519''), (''kid'', JStr ''k1''),
        (''kty'', JStr ''OKP''), (''x'', JStr (b64url_encode (replicate 32 CHR ''k'')))]])]
      else JDiscarded)"

definition demo_ssf :: ssf_env where
  "demo_ssf = \<lparr>env_transport = (\<lambda>_ _. Inr (blank_response\<lparr>status := 200, resp_body := ''K''\<rparr>)),
     env_steady = (\<lambda>_. 0), env_wall = (\<lambda>_. 0), env_parse = demo_set_json, env_dump = (\<lambda>_. Inr ''{}''),
     env_jitter = (\<lambda>_. (0, 0)), env_http_date = (\<lambda>_. None), env_ed25519 = (\<lambda>_ _ _. True)\<rparr>"

definition demo_config :: "(string \<rightharpoonup> int) ssf_config" where
  "demo_config = \<lparr>cfg_issuer = ''them'', cfg_audience = ''me'', cfg_keys = JwksUri ''https://them/jwks'',
     cfg_token = None, cfg_window = kMinReplayWindow, cfg_store = memory_check\<rparr>"

definition demo_receiver :: "(string \<rightharpoonup> int) ssf_client" where
  "demo_receiver = client.extend demo_client \<lparr>r_have_keys = False, r_jwks_uri = None, r_keys = Map.empty,
     r_last_limited = None, r_loaded_at = 0, r_store = Map.empty\<rparr>"

lemma demo_parts:
  "set_parts_of demo_set_json demo_token = Some \<lparr>sp_input = b64url_encode ''H'' @ ''.'' @ b64url_encode ''P'',
     sp_header = demo_set_json ''H'', sp_claims = demo_set_json ''P'', sp_signature = replicate 64 CHR ''s''\<rparr>"
proof -
  have nd: "CHR ''.'' \<notin> set (b64url_encode s)" for s
    using b64url_encode_alphabet[of s] by (auto simp: b64_alphabet_def)
  then have "split_on (CHR ''.'') demo_token = [b64url_encode ''H'', b64url_encode ''P'', b64url_encode (replicate 64 CHR ''s'')]"
    by (simp add: demo_token_def split_on_append_sep split_on_no_sep del: b64url_encode.simps)
  moreover have "json_object_of demo_set_json (b64url_encode s) = Some (demo_set_json s)" if "is_object (demo_set_json s)" for s
    using that by (simp add: json_object_of_def base64url_decode_encode Let_def)
  moreover have "is_object (demo_set_json ''H'')" "is_object (demo_set_json ''P'')" by (simp_all add: demo_set_json_def)
  ultimately show ?thesis
    by (simp add: set_parts_of_def base64url_decode_encode del: b64url_encode.simps)
qed

lemma demo_keys_of: "keys_of (demo_set_json ''K'') = [''k1'' \<mapsto> replicate 32 CHR ''k'']"
  by (simp add: keys_of_def demo_set_json_def usable_key_def string_member_def opt_str_def base64url_decode_encode
      del: b64url_encode.simps)

lemma demo_load:
  "load_keys demo_ssf demo_config now (demo_receiver\<lparr>ticks := n\<rparr>) = (Inr (), demo_receiver\<lparr>ticks := n,
     sent := [fetch_request ''https://them/jwks''], r_jwks_uri := Some ''https://them/jwks'',
     r_keys := [''k1'' \<mapsto> replicate 32 CHR ''k''], r_have_keys := True, r_loaded_at := now\<rparr>)"
proof -
  have "is_object (demo_set_json ''K'')" by (simp add: demo_set_json_def)
  then show ?thesis
    by (simp add: load_keys_def resolve_jwks_uri_def fetch_object_def call_transport_def transmit_def op_simps
        demo_ssf_def demo_config_def demo_receiver_def demo_client_def client.defs blank_response_def demo_keys_of)
qed

lemma demo_key_for:
  "key_for demo_ssf demo_config ''k1'' demo_receiver = (Inr (Some (replicate 32 CHR ''k'')), demo_receiver\<lparr>ticks := 1,
     sent := [fetch_request ''https://them/jwks''], r_jwks_uri := Some ''https://them/jwks'',
     r_keys := [''k1'' \<mapsto> replicate 32 CHR ''k''], r_have_keys := True, r_loaded_at := 0\<rparr>)"
proof -
  have "env_steady demo_ssf n = 0" for n by (simp add: demo_ssf_def)
  moreover have "ticks demo_receiver = 0" "r_last_limited demo_receiver = None" "\<not> r_have_keys demo_receiver"
    by (simp_all add: demo_receiver_def demo_client_def client.defs)
  ultimately show ?thesis
    by (simp add: key_for_run Let_def limited_at_def expire_keys_def fill_keys_def seq_run op_runs catching_run demo_load)
qed

lemma demo_body:
  "set_body_of (demo_set_json ''P'') = Some \<lparr>sb_jti = ''j1'', sb_iat = JInt 5, sb_sub_id = JObj [], sb_event = (''revoked'', JNull)\<rparr>"
  by (simp add: set_body_of_def demo_set_json_def contains_def)

lemma demo_kid: "string_member (demo_set_json ''H'') ''kid'' = ''k1''"
  by (simp add: string_member_def opt_str_def demo_set_json_def)

lemma demo_judged:
  "\<exists>ev t. verify_set demo_ssf demo_config demo_token demo_receiver = (Inr ev, t) \<and> ev_jti ev = ''j1''"
proof -
  have h: "demo_set_json ''H'' = JObj [(''alg'', JStr ''EdDSA''), (''kid'', JStr ''k1''), (''typ'', JStr ''secevent+jwt'')]"
    and p: "demo_set_json ''P'' = JObj [(''aud'', JStr ''me''), (''events'', JObj [(''revoked'', JNull)]), (''iat'', JInt 5),
        (''iss'', JStr ''them''), (''jti'', JStr ''j1''), (''sub_id'', JObj [])]"
    by (simp_all add: demo_set_json_def)
  have e: "env_parse demo_ssf = demo_set_json" "env_dump demo_ssf j = Inr ''{}''" "env_ed25519 demo_ssf a b c"
    "env_steady demo_ssf n = 0" for j a b c n
    by (simp_all add: demo_ssf_def)
  have c: "cfg_issuer demo_config = ''them''" "cfg_audience demo_config = ''me''" "cfg_store demo_config = memory_check"
    by (simp_all add: demo_config_def)
  have t: "typ_is_secevent (demo_set_json ''H'')"
    by (simp add: typ_is_secevent_def h opt_str_def lower_def lower_char_def is_upper_def)
  have s: "check_set_signature demo_ssf demo_config \<lparr>sp_input = i, sp_header = demo_set_json ''H'', sp_claims = cl,
      sp_signature = replicate 64 CHR ''s''\<rparr> demo_receiver = (Inr (), snd (key_for demo_ssf demo_config ''k1'' demo_receiver))" for i cl
    by (simp add: check_set_signature_def string_member_def opt_str_def h must_set_def seq_run op_runs demo_key_for
        ed25519_verify_def e)
  have r: "r_store (snd (key_for demo_ssf demo_config ''k1'' demo_receiver)) = Map.empty"
    unfolding demo_key_for by (simp add: demo_receiver_def client.defs)
  show ?thesis
    by (simp add: verify_set_def verify_state_def e(1) demo_parts judge_set_def must_set_def t seq_run op_runs s)
      (simp add: h p string_member_def opt_str_def check_set_claims_def demo_body[unfolded p] must_set_def aud_ok_def c seq_run op_runs
        record_sight_def ask_replay_store_def steady_now_def r memory_check_def event_of_def e)
qed

section \<open>Properties\<close>


lemma demo_readings: "readings_ok demo_ssf (cfg_window demo_config)"
  by (simp add: readings_ok_def demo_ssf_def demo_config_def kMinReplayWindow_def)




text \<open>
  The once-a-minute limit as a bound: while the monotonic clock stays inside one minute, verifying
  any number of tokens, of any content, makes at most three requests for keys (the discovery
  document, the key set, and one refetch for an unknown key id).
\<close>

theorem ssf_key_requests_bounded:
  assumes "\<And>n. within_minute t0 (env_steady E n)"
  shows "length (sent (snd (verify_many E c toks s))) \<le> length (sent s) + 3"
  using verify_many_within[OF assms, of s c toks] key_credit_3[of t0 s] by (simp add: within_credit_def)

lemma ssf_key_requests_bounded_witness:
  "length (sent (snd (verify_many demo_ssf demo_config [demo_token, ''x'', demo_token] demo_receiver))) \<le> 3"
proof -
  have "within_minute 0 (env_steady demo_ssf n)" for n by (simp add: within_minute_def demo_ssf_def kFetchInterval_def)
  from ssf_key_requests_bounded[OF this, of demo_config _ demo_receiver] show ?thesis
    by (simp add: demo_receiver_def demo_client_def client.defs del: verify_many.simps)
qed

text \<open>
  One poll reply is accounted for whole: every token id of the batch ends in exactly one of the
  accepted events, the refusals and the unjudged tokens; the two counts reported are the number
  of unjudged tokens; and once the store has failed in the batch it is not asked again and
  nothing more is accepted.
\<close>

theorem poll_batch_accounts:
  "case judge_sets E c sets out s of (out', t) \<Rightarrow>
     mset (filed out') = mset (filed out) + mset (map fst sets)
     \<and> length (pl_unjudged out') + pl_by_key_fetch out + pl_by_store out
         = length (pl_unjudged out) + pl_by_key_fetch out' + pl_by_store out'
     \<and> (if pl_store_failed out then r_store t = r_store s \<and> pl_events out' = pl_events out else True)"
proof -
  obtain out' t where r: "judge_sets E c sets out s = (out', t)" by fastforce
  show ?thesis unfolding r prod.case using batch_accounts[OF r] by simp
qed

end
