(* ===== verification/Reactor.thy ===== *)
theory Reactor
  imports Authenticator Effects Replay
begin

text \<open>
  The reactor, \<open>src/reactor.cpp\<close> and \<open>include/axiam/reactor.hpp\<close>: the event registry and its
  allow-lists, the canonical bytes of events and replies, the verification of a delivery, the
  serving loop, the binder and the check of a broker URL. The keyed hash, the JSON text functions
  and the two time conversions of the C library are parameters, gathered in \<open>reactor_lib\<close>; the
  transport is the sequence of what it delivers and a function of what was published.
\<close>

section \<open>The registry\<close>

datatype failure_policy = FailOpen | FailClosed

text \<open>Ordered by strictness, so that the strictest of several is their maximum.\<close>

instantiation failure_policy :: linorder
begin

definition less_eq_failure_policy :: "failure_policy \<Rightarrow> failure_policy \<Rightarrow> bool" where
  "less_eq_failure_policy p q = (p = FailOpen \<or> q = FailClosed)"

definition less_failure_policy :: "failure_policy \<Rightarrow> failure_policy \<Rightarrow> bool" where
  "less_failure_policy p q = (p = FailOpen \<and> q = FailClosed)"

instance
proof
  fix p q r :: failure_policy
  show "p < q \<longleftrightarrow> p \<le> q \<and> \<not> q \<le> p" "p \<le> p" "p \<le> q \<or> q \<le> p"
    by (cases p; cases q; simp add: less_eq_failure_policy_def less_failure_policy_def)+
  show "p \<le> q \<Longrightarrow> q \<le> r \<Longrightarrow> p \<le> r" "p \<le> q \<Longrightarrow> q \<le> p \<Longrightarrow> p = q"
    by (cases p; cases q; cases r; simp add: less_eq_failure_policy_def)+
qed

end

fun policy_text :: "failure_policy \<Rightarrow> string" where
  "policy_text FailOpen = ''fail_open''"
| "policy_text FailClosed = ''fail_closed''"

record event_spec =
  es_name :: string
  es_mutable :: bool
  es_fields :: "string list"
  es_policy :: failure_policy

definition spec :: "string \<Rightarrow> bool \<Rightarrow> string list \<Rightarrow> failure_policy \<Rightarrow> event_spec" where
  "spec n m fs p = \<lparr>es_name = n, es_mutable = m, es_fields = fs, es_policy = p\<rparr>"

definition kLoginPostAuth :: string where "kLoginPostAuth = ''login.post_auth''"

definition registry :: "event_spec list" where
  "registry =
     [spec ''token.pre_issue'' True [''ext.''] FailOpen,
      spec kLoginPostAuth False [] FailClosed,
      spec ''user.pre_create'' True [''username'', ''email'', ''metadata.''] FailClosed,
      spec ''user.pre_update'' True [''username'', ''email'', ''metadata.''] FailClosed,
      spec ''grant.pre_assign'' False [] FailClosed]"

definition spec_for :: "string \<Rightarrow> event_spec option" where
  "spec_for name = find (\<lambda>sp. name = es_name sp) registry"

definition reactor_event_names :: "string list" where
  "reactor_event_names = map es_name registry"

definition field_matches :: "string \<Rightarrow> string \<Rightarrow> bool" where
  "field_matches field allowed_name =
     (if allowed_name \<noteq> [] \<and> last allowed_name = CHR ''.''
      then length allowed_name < length field \<and> prefix allowed_name field
      else field = allowed_name)"

definition reactor_patch_field_allowed :: "string \<Rightarrow> string \<Rightarrow> bool" where
  "reactor_patch_field_allowed event field =
     (case spec_for event of
        None \<Rightarrow> False
      | Some sp \<Rightarrow> es_mutable sp \<and> list_ex (field_matches field) (es_fields sp))"

fun strictest :: "string list \<Rightarrow> string" where
  "strictest [] = ''fail_open''"
| "strictest (name # names) =
     (case spec_for name of
        None \<Rightarrow> ''fail_closed''
      | Some sp \<Rightarrow> (if policy_text (es_policy sp) = ''fail_closed'' then ''fail_closed'' else strictest names))"

definition reactor_default_failure_policy :: "string list \<Rightarrow> string" where
  "reactor_default_failure_policy events = (if events = [] then ''fail_closed'' else strictest events)"

definition reactor_routing_key :: "string \<Rightarrow> string \<Rightarrow> string" where
  "reactor_routing_key tenant event = tenant @ ''.'' @ event"

definition reactor_queue_name :: "string \<Rightarrow> string \<Rightarrow> string" where
  "reactor_queue_name tenant reactor = ''axiam.reactor.q.'' @ tenant @ ''.'' @ reactor"

section \<open>Parameters\<close>

record reactor_lib =
  rl_hmac :: "string \<Rightarrow> string \<Rightarrow> string"
  rl_parse :: "string \<Rightarrow> json"
  rl_dump :: "json \<Rightarrow> string res"
  rl_strptime :: "string \<Rightarrow> int option"
  rl_strftime :: "int \<Rightarrow> string"

definition kKeyVersion :: int where "kKeyVersion = 2"
definition kFreshnessSkewSecs :: int where "kFreshnessSkewSecs = 300"

definition hmac_sha256_hex :: "reactor_lib \<Rightarrow> string \<Rightarrow> string \<Rightarrow> string" where
  "hmac_sha256_hex L key bytes = to_hex (rl_hmac L key bytes)"

definition constant_time_equals :: "string \<Rightarrow> string \<Rightarrow> bool" where
  "constant_time_equals a b = (if length a \<noteq> length b then False else diff_bytes 0 a b = 0)"

text \<open>\<open>strptime\<close> reads a C string, so up to the first zero byte.\<close>

definition parse_rfc3339_utc :: "reactor_lib \<Rightarrow> string \<Rightarrow> int" where
  "parse_rfc3339_utc L v = (case rl_strptime L (takeWhile (\<lambda>c. code c \<noteq> 0) v) of None \<Rightarrow> - 1 | Some t \<Rightarrow> t)"

definition rfc3339_utc :: "reactor_lib \<Rightarrow> int \<Rightarrow> string" where
  "rfc3339_utc L t = rl_strftime L t"

section \<open>Canonical bytes\<close>

definition dq :: char where "dq = CHR 0x22"
definition bs :: char where "bs = CHR 0x5C"

definition escape_char :: "char \<Rightarrow> string" where
  "escape_char c =
     (if c = dq then [bs, dq]
      else if c = bs then [bs, bs]
      else if code c = 8 then [bs, CHR ''b'']
      else if code c = 12 then [bs, CHR ''f'']
      else if code c = 10 then [bs, CHR ''n'']
      else if code c = 13 then [bs, CHR ''r'']
      else if code c = 9 then [bs, CHR ''t'']
      else if code c < 32 then [bs] @ ''u00'' @ [hex_lower (code c div 16), hex_lower (code c mod 16)]
      else [c])"

definition json_escape :: "string \<Rightarrow> string" where
  "json_escape v = concat (map escape_char v)"

definition quoted :: "string \<Rightarrow> string" where
  "quoted v = [dq] @ json_escape v @ [dq]"

text \<open>\<open>"name":\<close> before a value.\<close>

definition key :: "string \<Rightarrow> string" where
  "key name = [dq] @ name @ [dq] @ '':''"

text \<open>\<open>message.at(k)\<close> and its conversion; the library throws its own exception when it is missing.\<close>

definition get_at :: "(json \<Rightarrow> 'a res) \<Rightarrow> json \<Rightarrow> string \<Rightarrow> 'a res" where
  "get_at get m k = (case jfind m k of None \<Rightarrow> Inl JsonTypeError | Some v \<Rightarrow> get v)"

definition canonical_event :: "reactor_lib \<Rightarrow> json \<Rightarrow> string res" where
  "canonical_event L m =
     and_then (get_at get_str m ''tenant_id'') (\<lambda>tenant.
     and_then (get_at get_str m ''event'') (\<lambda>event.
     and_then (get_at get_str m ''correlation_id'') (\<lambda>corr.
     and_then (get_at (rl_dump L) m ''payload'') (\<lambda>payload.
     and_then (get_at get_int64 m ''timeout_ms'') (\<lambda>timeout.
     and_then (get_at get_int64 m ''key_version'') (\<lambda>version.
     and_then (get_at get_str m ''nonce'') (\<lambda>nonce.
     and_then (get_at get_str m ''issued_at'') (\<lambda>issued.
     Inr (''{'' @ key ''tenant_id'' @ quoted tenant @ '','' @ key ''event'' @ quoted event @ '',''
        @ key ''correlation_id'' @ quoted corr @ '','' @ key ''payload'' @ payload @ '',''
        @ key ''timeout_ms'' @ dec_int timeout @ '','' @ key ''key_version'' @ dec_int version @ '',''
        @ key ''nonce'' @ quoted nonce @ '','' @ key ''issued_at'' @ quoted issued @ '',''
        @ key ''hmac_signature'' @ ''null'' @ ''}'')))))))))"

text \<open>A patch is an ordered map: the list of its entries in the order of their keys.\<close>

fun patch_loop :: "bool \<Rightarrow> (string \<times> string) list \<Rightarrow> string" where
  "patch_loop first [] = []"
| "patch_loop first ((k, v) # kvs) =
     (if first then [] else '','') @ quoted k @ '':'' @ quoted v @ patch_loop False kvs"

definition canonical_patch :: "(string \<times> string) list \<Rightarrow> string" where
  "canonical_patch patch = ''{'' @ patch_loop True patch @ ''}''"

section \<open>Decisions and replies\<close>

record reactor_decision =
  rd_decision :: string
  rd_reason :: "string option"
  rd_patch :: "(string \<times> string) list"
  rd_mfa :: bool

definition decision_allow :: reactor_decision where
  "decision_allow = \<lparr>rd_decision = ''allow'', rd_reason = None, rd_patch = [], rd_mfa = False\<rparr>"

definition decision_step_up :: reactor_decision where
  "decision_step_up = decision_allow\<lparr>rd_mfa := True\<rparr>"

definition decision_deny :: "string \<Rightarrow> reactor_decision" where
  "decision_deny why = decision_allow\<lparr>rd_decision := ''deny'', rd_reason := (if why = [] then None else Some why)\<rparr>"

definition decision_mutate :: "(string \<times> string) list \<Rightarrow> reactor_decision" where
  "decision_mutate patch = decision_allow\<lparr>rd_decision := ''mutate'', rd_patch := patch\<rparr>"

record reply_fields =
  rf_correlation :: string
  rf_tenant :: string
  rf_event :: string
  rf_decision :: reactor_decision
  rf_nonce :: string
  rf_issued :: string

definition reactor_canonical_reply :: "reply_fields \<Rightarrow> string" where
  "reactor_canonical_reply f =
     (let d = rf_decision f in
      ''{'' @ key ''correlation_id'' @ quoted (rf_correlation f) @ '','' @ key ''tenant_id'' @ quoted (rf_tenant f)
      @ '','' @ key ''event'' @ quoted (rf_event f) @ '','' @ key ''decision'' @ quoted (rd_decision d)
      @ (case rd_reason d of None \<Rightarrow> [] | Some r \<Rightarrow> '','' @ key ''reason'' @ quoted r)
      @ (if rd_patch d = [] then [] else '','' @ key ''patch'' @ canonical_patch (rd_patch d))
      @ (if rd_mfa d then '','' @ key ''require_mfa'' @ ''true'' else [])
      @ '','' @ key ''key_version'' @ dec_int kKeyVersion @ '','' @ key ''nonce'' @ quoted (rf_nonce f)
      @ '','' @ key ''issued_at'' @ quoted (rf_issued f) @ '','' @ key ''hmac_signature'' @ ''null'' @ ''}'')"

text \<open>\<open>rfind(pattern)\<close>: the parts before and after the last match.\<close>

definition cut_last_str :: "string \<Rightarrow> string \<Rightarrow> (string \<times> string) option" where
  "cut_last_str p s = (case cut_str (rev p) (rev s) of None \<Rightarrow> None | Some (b, a) \<Rightarrow> Some (rev a, rev b))"

definition null_signature :: string where
  "null_signature = key ''hmac_signature'' @ ''null''"

definition insert_signature :: "string \<Rightarrow> string \<Rightarrow> string res" where
  "insert_signature signature canonical =
     (case cut_last_str null_signature canonical of
        None \<Rightarrow> Inl Foreign
      | Some (a, b) \<Rightarrow> Inr (a @ key ''hmac_signature'' @ [dq] @ signature @ [dq] @ b))"

definition reactor_build_reply :: "reactor_lib \<Rightarrow> string \<Rightarrow> reply_fields \<Rightarrow> string res" where
  "reactor_build_reply L signing_key f =
     and_then (ensure (\<not> (rd_mfa (rf_decision f) \<and> rf_event f \<noteq> kLoginPostAuth))
       (AuthError ''require_mfa is valid on login.post_auth only'')) (\<lambda>_.
     and_then (ensure (\<not> (rd_decision (rf_decision f) = ''mutate'' \<and> rd_patch (rf_decision f) = []))
       (AuthError ''a mutate answer requires a non-empty patch (malformed_mutation)'')) (\<lambda>_.
     let canonical = reactor_canonical_reply f
     in insert_signature (hmac_sha256_hex L signing_key canonical) canonical))"

section \<open>Verifying a delivery\<close>

datatype reactor_refusal =
  Malformed | KeyVersionTooOld | BadSignature | Stale | Replay | TenantMismatch | UnknownEvent

record reactor_event =
  ev_tenant :: string
  ev_event :: string
  ev_correlation :: string
  ev_payload :: string
  ev_timeout :: int
  ev_nonce :: string

type_synonym 'a verdict = "(reactor_refusal + 'a) res"

definition passed :: "'a verdict \<Rightarrow> ('a \<Rightarrow> 'b verdict) \<Rightarrow> 'b verdict" where
  "passed v k = and_then v (\<lambda>x. case x of Inl why \<Rightarrow> Inr (Inl why) | Inr y \<Rightarrow> k y)"

definition demand :: "bool \<Rightarrow> reactor_refusal \<Rightarrow> unit verdict" where
  "demand c why = Inr (if c then Inr () else Inl why)"

definition is_str_at :: "json \<Rightarrow> string \<Rightarrow> bool" where
  "is_str_at m k = (case jfind m k of Some v \<Rightarrow> is_string v | None \<Rightarrow> False)"

definition is_int_at :: "json \<Rightarrow> string \<Rightarrow> bool" where
  "is_int_at m k = (case jfind m k of Some v \<Rightarrow> is_number_integer v | None \<Rightarrow> False)"

definition version_of :: "json \<Rightarrow> int res" where
  "version_of m = (if is_int_at m ''key_version'' then get_at get_int64 m ''key_version'' else Inr 0)"

definition check_shape :: "json \<Rightarrow> unit verdict" where
  "check_shape m =
     passed (demand (is_object m) Malformed) (\<lambda>_.
     and_then (version_of m) (\<lambda>version.
     passed (demand (kKeyVersion \<le> version) KeyVersionTooOld) (\<lambda>_.
     demand (list_all (contains m) [''tenant_id'', ''event'', ''correlation_id'', ''payload'', ''timeout_ms'', ''nonce'', ''issued_at'']
         \<and> list_all (is_str_at m) [''tenant_id'', ''event'', ''correlation_id'', ''nonce'', ''issued_at'']
         \<and> is_int_at m ''timeout_ms'') Malformed)))"

definition check_mac :: "reactor_lib \<Rightarrow> string \<Rightarrow> json \<Rightarrow> unit verdict" where
  "check_mac L signing_key m =
     (case opt_str m ''hmac_signature'' of
        None \<Rightarrow> Inr (Inl BadSignature)
      | Some presented \<Rightarrow>
          and_then (canonical_event L m) (\<lambda>bytes.
          demand (constant_time_equals presented (hmac_sha256_hex L signing_key bytes)) BadSignature))"

definition check_fresh :: "reactor_lib \<Rightarrow> int \<Rightarrow> json \<Rightarrow> unit verdict" where
  "check_fresh L now m =
     and_then (get_at get_str m ''issued_at'') (\<lambda>text.
     let issued = parse_rfc3339_utc L text in
     passed (demand (0 \<le> issued) Malformed) (\<lambda>_.
     and_then (ck64 (now - issued)) (\<lambda>drift.
     demand (drift \<le> kFreshnessSkewSecs \<and> - kFreshnessSkewSecs \<le> drift) Stale)))"

text \<open>Step 4: expired nonces are dropped, then the nonce is looked up and recorded.\<close>

definition still_held :: "int \<Rightarrow> (string \<rightharpoonup> int) \<Rightarrow> string \<rightharpoonup> int" where
  "still_held now seen = (\<lambda>n. case seen n of Some u \<Rightarrow> (if u \<le> now then None else Some u) | None \<Rightarrow> None)"

definition check_nonce :: "int \<Rightarrow> string \<Rightarrow> (string \<rightharpoonup> int) option \<Rightarrow> unit verdict \<times> (string \<rightharpoonup> int) option" where
  "check_nonce now nonce seen =
     (case seen of
        None \<Rightarrow> (demand True Replay, None)
      | Some held \<Rightarrow>
          (let kept = still_held now held in
           if kept nonce \<noteq> None then (demand False Replay, Some kept)
           else (case ck64 (now + 2 * kFreshnessSkewSecs) of
                   Inl e \<Rightarrow> (Inl e, Some kept)
                 | Inr until \<Rightarrow> (demand True Replay, Some (kept(nonce \<mapsto> until))))))"

definition identify :: "reactor_lib \<Rightarrow> string \<Rightarrow> json \<Rightarrow> reactor_event verdict" where
  "identify L expected m =
     and_then (get_at get_str m ''tenant_id'') (\<lambda>tenant.
     passed (demand (tenant = expected) TenantMismatch) (\<lambda>_.
     and_then (get_at get_str m ''event'') (\<lambda>event.
     passed (demand (spec_for event \<noteq> None) UnknownEvent) (\<lambda>_.
     and_then (get_at get_str m ''correlation_id'') (\<lambda>corr.
     and_then (get_at (rl_dump L) m ''payload'') (\<lambda>payload.
     and_then (get_at get_int64 m ''timeout_ms'') (\<lambda>timeout.
     and_then (get_at get_str m ''nonce'') (\<lambda>nonce.
     Inr (Inr \<lparr>ev_tenant = tenant, ev_event = event, ev_correlation = corr, ev_payload = payload,
               ev_timeout = timeout, ev_nonce = nonce\<rparr>)))))))))"

definition check_message :: "reactor_lib \<Rightarrow> string \<Rightarrow> int \<Rightarrow> json \<Rightarrow> string verdict" where
  "check_message L signing_key now m =
     passed (check_shape m) (\<lambda>_.
     passed (check_mac L signing_key m) (\<lambda>_.
     passed (check_fresh L now m) (\<lambda>_.
     and_then (get_at get_str m ''nonce'') (\<lambda>nonce. Inr (Inr nonce)))))"

definition reactor_verify_event :: "reactor_lib \<Rightarrow> string \<Rightarrow> string \<Rightarrow> string \<Rightarrow> int \<Rightarrow> (string \<rightharpoonup> int) option \<Rightarrow>
    reactor_event verdict \<times> (string \<rightharpoonup> int) option" where
  "reactor_verify_event L signing_key body expected now seen =
     (let m = rl_parse L body in
      case check_message L signing_key now m of
        Inl e \<Rightarrow> (Inl e, seen)
      | Inr (Inl why) \<Rightarrow> (Inr (Inl why), seen)
      | Inr (Inr nonce) \<Rightarrow>
          (case check_nonce now nonce seen of
             (Inr (Inr _), seen') \<Rightarrow> (identify L expected m, seen')
           | (Inr (Inl why), seen') \<Rightarrow> (Inr (Inl why), seen')
           | (Inl e, seen') \<Rightarrow> (Inl e, seen')))"

section \<open>Serving\<close>

text \<open>
  What a reactor is given: its configuration, the clock and the nonce source (each a function of
  how often it was asked), the handler (of how often it was called and the event) and what
  publishing a reply after the earlier ones does. A handler answers, abstains or throws.
\<close>

type_synonym reactor_handler = "nat \<Rightarrow> reactor_event \<Rightarrow> reactor_decision option res"
type_synonym publication = "string \<times> string \<times> string"

record reactor_config =
  rc_tenant :: string
  rc_key :: string
  rc_clock :: "nat \<Rightarrow> int"
  rc_nonce :: "nat \<Rightarrow> string res"
  rc_publish :: "publication list \<Rightarrow> unit res"

record delivery =
  dl_body :: string
  dl_reply_to :: string

record serving =
  sv_clock :: nat
  sv_nonces :: nat
  sv_calls :: nat
  sv_seen :: "(string \<rightharpoonup> int) option"
  sv_published :: "publication list"

definition serving_start :: serving where
  "serving_start = \<lparr>sv_clock = 0, sv_nonces = 0, sv_calls = 0, sv_seen = Some Map.empty, sv_published = []\<rparr>"

definition read_clock :: "reactor_config \<Rightarrow> (serving, int) op" where
  "read_clock c = (\<lambda>s. (Inr (rc_clock c (sv_clock s)), s\<lparr>sv_clock := Suc (sv_clock s)\<rparr>))"

definition draw_nonce :: "reactor_config \<Rightarrow> (serving, string) op" where
  "draw_nonce c = (\<lambda>s. (rc_nonce c (sv_nonces s), s\<lparr>sv_nonces := Suc (sv_nonces s)\<rparr>))"

definition call_handler :: "reactor_handler \<Rightarrow> reactor_event \<Rightarrow> (serving, reactor_decision option) op" where
  "call_handler h ev = (\<lambda>s. (h (sv_calls s) ev, s\<lparr>sv_calls := Suc (sv_calls s)\<rparr>))"

definition verify_delivery :: "reactor_lib \<Rightarrow> reactor_config \<Rightarrow> string \<Rightarrow> int \<Rightarrow> (serving, reactor_refusal + reactor_event) op" where
  "verify_delivery L c body now = (\<lambda>s.
     case reactor_verify_event L (rc_key c) body (rc_tenant c) now (sv_seen s) of
       (r, seen) \<Rightarrow> (r, s\<lparr>sv_seen := seen\<rparr>))"

text \<open>\<open>try { x = m } catch (...) { continue; }\<close>: \<open>None\<close> leaves the loop body.\<close>

definition attempt :: "('s, 'a) op \<Rightarrow> ('s, 'a option) op" where
  "attempt m = catching (seq m (\<lambda>x. ret (Some x))) (\<lambda>_. True) (\<lambda>_. ret None)"

definition in_window :: "reactor_config \<Rightarrow> reactor_event \<Rightarrow> int \<Rightarrow> (serving, bool) op" where
  "in_window c ev received =
     (if 0 < ev_timeout ev
      then seq (read_clock c) (\<lambda>now.
           seq (lift_res (and_then (ck64 (now - received)) (\<lambda>d. ck64 (d * 1000)))) (\<lambda>elapsed.
           ret (elapsed \<le> ev_timeout ev)))
      else ret True)"

definition compose_reply :: "reactor_lib \<Rightarrow> reactor_config \<Rightarrow> reactor_event \<Rightarrow> reactor_decision \<Rightarrow> (serving, string) op" where
  "compose_reply L c ev d =
     seq (read_clock c) (\<lambda>now.
     seq (draw_nonce c) (\<lambda>nonce.
     lift_res (reactor_build_reply L (rc_key c)
       \<lparr>rf_correlation = ev_correlation ev, rf_tenant = ev_tenant ev, rf_event = ev_event ev, rf_decision = d,
        rf_nonce = nonce, rf_issued = rfc3339_utc L now\<rparr>)))"

definition reply_destination :: "delivery \<Rightarrow> string" where
  "reply_destination d = (if dl_reply_to d = [] then ''axiam.reactor.replies'' else dl_reply_to d)"

definition publish_reply :: "reactor_config \<Rightarrow> publication \<Rightarrow> (serving, unit) op" where
  "publish_reply c p = (\<lambda>s. (rc_publish c (sv_published s @ [p]), s\<lparr>sv_published := sv_published s @ [p]\<rparr>))"

definition answer_event :: "reactor_lib \<Rightarrow> reactor_config \<Rightarrow> delivery \<Rightarrow> int \<Rightarrow> reactor_event \<Rightarrow> reactor_decision \<Rightarrow> (serving, unit) op" where
  "answer_event L c dl received ev d =
     seq (in_window c ev received) (\<lambda>ok.
     if \<not> ok then ret ()
     else seq (attempt (compose_reply L c ev d)) (\<lambda>reply. case reply of
         None \<Rightarrow> ret ()
       | Some body \<Rightarrow> publish_reply c (reply_destination dl, ev_correlation ev, body)))"

definition handle_delivery :: "reactor_lib \<Rightarrow> reactor_config \<Rightarrow> reactor_handler \<Rightarrow> delivery \<Rightarrow> (serving, unit) op" where
  "handle_delivery L c h dl =
     seq (read_clock c) (\<lambda>received.
     seq (verify_delivery L c (dl_body dl) received) (\<lambda>verified. case verified of
         Inl _ \<Rightarrow> ret ()
       | Inr ev \<Rightarrow>
           seq (attempt (call_handler h ev)) (\<lambda>answer. case answer of
               Some (Some d) \<Rightarrow> answer_event L c dl received ev d
             | _ \<Rightarrow> ret ())))"

text \<open>The loop ends with the deliveries, or with the error the transport threw instead of one.\<close>

fun serve_loop :: "reactor_lib \<Rightarrow> reactor_config \<Rightarrow> reactor_handler \<Rightarrow> delivery res list \<Rightarrow> (serving, unit) op" where
  "serve_loop L c h [] = ret ()"
| "serve_loop L c h (next # dls) =
     seq (lift_res next) (\<lambda>dl. seq (handle_delivery L c h dl) (\<lambda>_. serve_loop L c h dls))"

definition reactor_serve :: "reactor_lib \<Rightarrow> reactor_config \<Rightarrow> delivery res list \<Rightarrow> reactor_handler option \<Rightarrow> (serving, unit) op" where
  "reactor_serve L c dls handler =
     (case handler of
        None \<Rightarrow> raise (AuthError ''reactor_serve needs a handler'')
      | Some h \<Rightarrow>
          seq (require (rc_tenant c \<noteq> []) (AuthError ''reactor_serve needs a tenant_id'')) (\<lambda>_.
          seq (modify (\<lambda>s. s\<lparr>sv_seen := Some Map.empty\<rparr>)) (\<lambda>_. serve_loop L c h dls)))"

section \<open>Nonces\<close>

text \<open>\<open>random_nonce\<close>, given what \<open>RAND_bytes\<close> drew: \<open>None\<close> is its failure.\<close>

definition nonce_bytes :: "string \<Rightarrow> string" where
  "nonce_bytes b =
     b[6 := byte (code (b ! 6) mod 16 + 64), 8 := byte (code (b ! 8) mod 64 + 128)]"

definition nonce_char :: "string \<Rightarrow> nat \<Rightarrow> string" where
  "nonce_char b i = (if i \<in> {4, 6, 8, 10} then ''-'' else [])
     @ [hex_lower (code (b ! i) div 16), hex_lower (code (b ! i) mod 16)]"

definition random_nonce :: "string option \<Rightarrow> string res" where
  "random_nonce drawn =
     (case drawn of
        None \<Rightarrow> Inl (NetworkError ''reactor: no entropy available for a reply nonce'' ''no_entropy'')
      | Some b \<Rightarrow> Inr (concat (map (nonce_char (nonce_bytes b)) [0..<16])))"

section \<open>The binder\<close>

record router =
  rt_bindings :: "(string \<times> reactor_handler) list"
  rt_fallback :: "reactor_handler option"

definition router_new :: router where
  "router_new = \<lparr>rt_bindings = [], rt_fallback = None\<rparr>"

definition router_on :: "string \<Rightarrow> reactor_handler option \<Rightarrow> router \<Rightarrow> router res" where
  "router_on event handler r =
     (case handler of
        None \<Rightarrow> Inl (AuthError ''reactor router: a binding needs a handler'')
      | Some h \<Rightarrow>
          and_then (ensure (spec_for event \<noteq> None)
            (AuthError (''reactor router: '' @ event @ '' is not in the event registry. Bindable events: ''
               @ join '', '' reactor_event_names))) (\<lambda>_.
          and_then (ensure (\<not> list_ex (\<lambda>(bound, _). bound = event) (rt_bindings r))
            (AuthError (''reactor router: '' @ event @ '' already has a handler bound''))) (\<lambda>_.
          Inr (r\<lparr>rt_bindings := rt_bindings r @ [(event, h)]\<rparr>))))"

definition router_fallback :: "reactor_handler option \<Rightarrow> router \<Rightarrow> router res" where
  "router_fallback handler r =
     (case handler of
        None \<Rightarrow> Inl (AuthError ''reactor router: a fallback needs a handler'')
      | Some h \<Rightarrow> Inr (r\<lparr>rt_fallback := Some h\<rparr>))"

definition bound_events :: "router \<Rightarrow> string list" where
  "bound_events r = map fst (rt_bindings r)"

fun dispatch :: "(string \<times> reactor_handler) list \<Rightarrow> reactor_handler option \<Rightarrow> reactor_handler" where
  "dispatch [] fallback n ev = (case fallback of Some f \<Rightarrow> f n ev | None \<Rightarrow> Inr None)"
| "dispatch ((name, h) # bindings) fallback n ev =
     (if name = ev_event ev then h n ev else dispatch bindings fallback n ev)"

definition router_build :: "router \<Rightarrow> reactor_handler" where
  "router_build r = dispatch (rt_bindings r) (rt_fallback r)"

section \<open>Broker URLs\<close>

record amqps =
  aq_url :: string
  aq_host :: string
  aq_port :: int
  aq_vhost :: string
  aq_ca :: string
  aq_cert :: string
  aq_key :: string

text \<open>\<open>std::atoi\<close>: leading white space, a sign, digits; undefined when the value is no \<open>int\<close>.\<close>

definition is_c_space :: "char \<Rightarrow> bool" where
  "is_c_space c = (code c = 32 \<or> 9 \<le> code c \<and> code c \<le> 13)"

definition atoi :: "string \<Rightarrow> int res" where
  "atoi s =
     (let t = dropWhile is_c_space s;
          neg = (t \<noteq> [] \<and> hd t = CHR ''-'');
          u = (if t \<noteq> [] \<and> (hd t = CHR ''-'' \<or> hd t = CHR ''+'') then tl t else t);
          n = int (undec (takeWhile is_digit u));
          v = (if neg then - n else n)
      in if - (2 ^ 31) \<le> v \<and> v < 2 ^ 31 then Inr v else Inl Undefined)"

definition amqps_fail :: "string \<Rightarrow> 'a res" where
  "amqps_fail why = Inl (AuthError (''amqps_endpoint: '' @ why))"

text \<open>The authority and the virtual host of what follows the scheme, its user information dropped.\<close>

definition split_broker :: "string \<Rightarrow> string \<times> string" where
  "split_broker rest0 =
     (let rest = (case cut_last (\<lambda>c. c = CHR ''@'') rest0 of None \<Rightarrow> rest0 | Some (_, _, r) \<Rightarrow> r)
      in case cut (\<lambda>c. c = CHR ''/'') rest of
           None \<Rightarrow> (rest, ''/'')
         | Some (authority, _, path) \<Rightarrow> (authority, if path = [] then ''/'' else path))"

definition host_port :: "string \<Rightarrow> (string \<times> int) res" where
  "host_port authority =
     (if authority \<noteq> [] \<and> hd authority = CHR ''['' then
        (case cut (\<lambda>c. c = CHR '']'') authority of
           None \<Rightarrow> amqps_fail ''unterminated IPv6 host''
         | Some (before, _, after) \<Rightarrow>
             (if after \<noteq> [] \<and> hd after = CHR '':'' then and_then (atoi (tl after)) (\<lambda>p. Inr (tl before, p))
              else Inr (tl before, 5671)))
      else
        (case cut_last (\<lambda>c. c = CHR '':'') authority of
           None \<Rightarrow> Inr (authority, 5671)
         | Some (hs, _, pt) \<Rightarrow> and_then (atoi pt) (\<lambda>p. Inr (hs, p))))"

definition amqps_endpoint :: "string \<Rightarrow> string \<Rightarrow> string \<Rightarrow> string \<Rightarrow> amqps res" where
  "amqps_endpoint url ca cert pkey =
     (if (cert = []) \<noteq> (pkey = []) then
        amqps_fail ''a client certificate and its key must be supplied together''
      else case cut_str ''://'' url of
        None \<Rightarrow> amqps_fail (url @ '' is not a URL. The broker URL must be amqps://'')
      | Some (sch, rest) \<Rightarrow>
          (if lower sch \<noteq> ''amqps'' then amqps_fail (''scheme '' @ lower sch @ '' is refused'')
           else case split_broker rest of (authority, vhost) \<Rightarrow>
             (if authority = [] then amqps_fail (url @ '' names no broker host'')
              else and_then (host_port authority) (\<lambda>(hs, pt).
                (if hs = [] \<or> pt \<le> 0 \<or> 65535 < pt then amqps_fail (url @ '' names no usable broker endpoint'')
                 else Inr \<lparr>aq_url = url, aq_host = hs, aq_port = pt, aq_vhost = vhost,
                           aq_ca = ca, aq_cert = cert, aq_key = pkey\<rparr>)))))"

section \<open>Reading the canonical bytes back\<close>

text \<open>What follows the opening quote of a JSON string, up to its closing quote, and the rest.\<close>

definition short_escape :: "char \<Rightarrow> char" where
  "short_escape e =
     (if e = CHR ''b'' then CHR 0x08 else if e = CHR ''f'' then CHR 0x0C else if e = CHR ''n'' then CHR 0x0A
      else if e = CHR ''r'' then CHR 0x0D else if e = CHR ''t'' then CHR 0x09 else e)"

fun unquote :: "string \<Rightarrow> (string \<times> string) option" where
  "unquote [] = None"
| "unquote (c # s) =
     (if c = dq then Some ([], s)
      else if c \<noteq> bs then map_option (\<lambda>(a, r). (c # a, r)) (unquote s)
      else (case s of
              [] \<Rightarrow> None
            | e # t \<Rightarrow>
                (if e \<noteq> CHR ''u'' then map_option (\<lambda>(a, r). (short_escape e # a, r)) (unquote t)
                 else (case t of
                         _ # _ # h # l # u \<Rightarrow>
                           (case (nibble h, nibble l) of
                              (Some hi, Some lo) \<Rightarrow> map_option (\<lambda>(a, r). (byte (hi * 16 + lo) # a, r)) (unquote u)
                            | _ \<Rightarrow> None)
                       | _ \<Rightarrow> None))))"

lemma dq_bs: "dq \<noteq> bs" "dq \<noteq> CHR ''u''" "bs \<noteq> CHR ''u''" "short_escape dq = dq" "short_escape bs = bs"
  by (simp_all add: dq_def bs_def short_escape_def)

lemma control_codes:
  "code c = 8 \<longleftrightarrow> c = CHR 0x08" "code c = 9 \<longleftrightarrow> c = CHR 0x09" "code c = 10 \<longleftrightarrow> c = CHR 0x0A"
  "code c = 12 \<longleftrightarrow> c = CHR 0x0C" "code c = 13 \<longleftrightarrow> c = CHR 0x0D"
proof -
  have inj: "code c = code d \<longleftrightarrow> c = d" for d by simp
  show "code c = 8 \<longleftrightarrow> c = CHR 0x08" "code c = 9 \<longleftrightarrow> c = CHR 0x09" "code c = 10 \<longleftrightarrow> c = CHR 0x0A"
    "code c = 12 \<longleftrightarrow> c = CHR 0x0C" "code c = 13 \<longleftrightarrow> c = CHR 0x0D"
    using inj[of "CHR 0x08"] inj[of "CHR 0x09"] inj[of "CHR 0x0A"] inj[of "CHR 0x0C"] inj[of "CHR 0x0D"] by simp_all
qed

lemma unquote_escape: "unquote (escape_char c @ s) = map_option (\<lambda>(a, r). (c # a, r)) (unquote s)"
proof -
  have b: "byte (code c div 16 * 16 + code c mod 16) = c" by (rule nibbles_join)
  have n: "nibble (hex_lower (code c div 16)) = Some (code c div 16)" "nibble (hex_lower (code c mod 16)) = Some (code c mod 16)"
    using code_nibbles[of c] by simp_all
  have u: "unquote (bs # CHR ''u'' # x1 # x2 # hex_lower (code c div 16) # hex_lower (code c mod 16) # s)
      = map_option (\<lambda>(a, r). (c # a, r)) (unquote s)" for x1 x2
    using dq_bs(1) by (simp add: n b del: nibble_hex)
  consider "c = dq" | "c = bs" | "c = CHR 0x08" | "c = CHR 0x09" | "c = CHR 0x0A" | "c = CHR 0x0C" | "c = CHR 0x0D"
    | "c \<noteq> dq" "c \<noteq> bs" "c \<notin> {CHR 0x08, CHR 0x09, CHR 0x0A, CHR 0x0C, CHR 0x0D}" by blast
  then show ?thesis
  proof cases
    case 8
    then have "escape_char c = (if code c < 32 then [bs] @ ''u00'' @ [hex_lower (code c div 16), hex_lower (code c mod 16)] else [c])"
      by (simp add: escape_char_def control_codes)
    then show ?thesis using 8(1,2) u by (cases "code c < 32") simp_all
  qed (simp_all add: escape_char_def short_escape_def dq_def bs_def)
qed

lemma unquote_json: "unquote (json_escape v @ dq # r) = Some (v, r)"
  by (induction v) (simp_all add: json_escape_def unquote_escape)

lemma quoted_inj: "quoted a @ x = quoted b @ y \<longleftrightarrow> a = b \<and> x = y"
proof
  assume "quoted a @ x = quoted b @ y"
  then have "json_escape a @ dq # x = json_escape b @ dq # y" by (simp add: quoted_def)
  then have "Some (a, x) = Some (b, y)" using unquote_json[of a x] unquote_json[of b y] by metis
  then show "a = b \<and> x = y" by simp
qed simp

lemma quoted_end: "quoted a = quoted b \<longleftrightarrow> a = b"
  using quoted_inj[of a "[]" b "[]"] by simp

lemma patch_loop_inj:
  "patch_loop first p @ CHR ''}'' # x = patch_loop first q @ CHR ''}'' # y \<longleftrightarrow> p = q \<and> x = y"
proof (induction p arbitrary: q first)
  case Nil
  then show ?case by (cases q; cases first) (auto simp: quoted_def dq_def)
next
  case (Cons kv p)
  obtain k v where kv: "kv = (k, v)" by fastforce
  show ?case
  proof (cases q)
    case Nil
    with kv show ?thesis by (cases first) (auto simp: quoted_def dq_def)
  next
    case (Cons kv' q')
    obtain k' v' where "kv' = (k', v')" by fastforce
    with kv Cons Cons.IH[of False q'] show ?thesis by (auto simp: quoted_inj)
  qed
qed

lemma canonical_patch_inj: "canonical_patch p @ x = canonical_patch q @ y \<longleftrightarrow> p = q \<and> x = y"
  by (simp add: canonical_patch_def patch_loop_inj)

text \<open>The members a reply may omit: the character after the comma and the quote tells them apart.\<close>

definition optional_members :: "string option \<Rightarrow> (string \<times> string) list \<Rightarrow> bool \<Rightarrow> string" where
  "optional_members why patch mfa =
     (case why of None \<Rightarrow> [] | Some r \<Rightarrow> '','' @ key ''reason'' @ quoted r)
     @ (if patch = [] then [] else '','' @ key ''patch'' @ canonical_patch patch)
     @ (if mfa then '','' @ key ''require_mfa'' @ ''true'' else [])"

lemma optional_members_inj:
  "optional_members r p m @ '','' @ key ''key_version'' @ x = optional_members r' p' m' @ '','' @ key ''key_version'' @ y
     \<longleftrightarrow> r = r' \<and> p = p' \<and> m = m' \<and> x = y"
  by (cases r; cases r'; cases p; cases p'; cases m; cases m')
    (simp_all add: optional_members_def key_def quoted_inj canonical_patch_inj)

lemma canonical_reply_eq:
  "reactor_canonical_reply f =
     ''{'' @ key ''correlation_id'' @ quoted (rf_correlation f) @ '','' @ key ''tenant_id'' @ quoted (rf_tenant f)
     @ '','' @ key ''event'' @ quoted (rf_event f) @ '','' @ key ''decision'' @ quoted (rd_decision (rf_decision f))
     @ optional_members (rd_reason (rf_decision f)) (rd_patch (rf_decision f)) (rd_mfa (rf_decision f))
     @ '','' @ key ''key_version'' @ dec_int kKeyVersion @ '','' @ key ''nonce'' @ quoted (rf_nonce f)
     @ '','' @ key ''issued_at'' @ quoted (rf_issued f) @ '','' @ null_signature @ ''}''"
  by (simp add: reactor_canonical_reply_def optional_members_def null_signature_def Let_def)

lemma canonical_reply_fields:
  assumes "reactor_canonical_reply f = reactor_canonical_reply g"
  shows "f = g"
proof -
  from assms have "rf_correlation f = rf_correlation g \<and> rf_tenant f = rf_tenant g \<and> rf_event f = rf_event g
      \<and> rd_decision (rf_decision f) = rd_decision (rf_decision g) \<and> rd_reason (rf_decision f) = rd_reason (rf_decision g)
      \<and> rd_patch (rf_decision f) = rd_patch (rf_decision g) \<and> rd_mfa (rf_decision f) = rd_mfa (rf_decision g)
      \<and> rf_nonce f = rf_nonce g \<and> rf_issued f = rf_issued g"
    unfolding canonical_reply_eq by (simp only: same_append_eq quoted_inj optional_members_inj)
  then show ?thesis by (cases f; cases g) (simp add: reactor_decision.equality)
qed

section \<open>The signature's place\<close>

lemma null_signature_last:
  "cut_last_str null_signature (a @ null_signature @ ''}'') = Some (a, ''}'')"
proof -
  have "rev null_signature = CHR ''l'' # rev (key ''hmac_signature'' @ ''nul'')" by (simp add: null_signature_def)
  then have "\<not> prefix (rev null_signature) (CHR ''}'' # x)" for x by (simp only:) simp
  then have "cut_str (rev null_signature) (CHR ''}'' # rev null_signature @ rev a) = Some (''}'', rev a)"
    by (subst cut_str.simps) (simp add: cut_str.simps[of "rev null_signature" "rev null_signature @ rev a"])
  then show ?thesis by (simp add: cut_last_str_def)
qed

lemma canonical_reply_tail: "\<exists>a. reactor_canonical_reply f = a @ null_signature @ ''}''"
  unfolding canonical_reply_eq append_assoc[symmetric] by blast

lemma build_reply_Inr:
  assumes "reactor_build_reply L k f = Inr out"
  obtains a where "reactor_canonical_reply f = a @ null_signature @ ''}''"
    "out = a @ key ''hmac_signature'' @ [dq] @ hmac_sha256_hex L k (reactor_canonical_reply f) @ [dq] @ ''}''"
    "\<not> (rd_mfa (rf_decision f) \<and> rf_event f \<noteq> kLoginPostAuth)"
    "\<not> (rd_decision (rf_decision f) = ''mutate'' \<and> rd_patch (rf_decision f) = [])"
proof -
  obtain a where a: "reactor_canonical_reply f = a @ null_signature @ ''}''" using canonical_reply_tail by blast
  from assms have "insert_signature (hmac_sha256_hex L k (reactor_canonical_reply f)) (reactor_canonical_reply f) = Inr out"
    "\<not> (rd_mfa (rf_decision f) \<and> rf_event f \<noteq> kLoginPostAuth)"
    "\<not> (rd_decision (rf_decision f) = ''mutate'' \<and> rd_patch (rf_decision f) = [])"
    by (auto simp: reactor_build_reply_def Let_def and_then_eq_Inr ensure_eq_Inr)
  with that[OF a] show ?thesis unfolding a by (simp add: insert_signature_def null_signature_last)
qed

section \<open>What a verified delivery has shown\<close>

lemma passed_eq_Inr: "passed v k = Inr (Inr y) \<longleftrightarrow> (\<exists>x. v = Inr (Inr x) \<and> k x = Inr (Inr y))"
  by (cases v; cases "projr v") (auto simp: passed_def)

lemma demand_eq_Inr: "demand c why = Inr (Inr u) \<longleftrightarrow> c"
  by (simp add: demand_def)

lemma constant_time_equals_iff: "constant_time_equals a b \<longleftrightarrow> a = b"
proof -
  have "constant_time_equals a b = constant_time_equal a b"
    by (simp only: constant_time_equals_def constant_time_equal_def)
  then show ?thesis by simp
qed

lemma get_at_eq_Inr: "get_at get m k = Inr y \<longleftrightarrow> (\<exists>v. jfind m k = Some v \<and> get v = Inr y)"
  by (simp add: get_at_def split: option.split)

lemma ck64_Inr: "ck64 i = Inr j \<longleftrightarrow> j = i \<and> fits64 i"
  by (auto simp: ck64_def)

definition authentic :: "reactor_lib \<Rightarrow> string \<Rightarrow> json \<Rightarrow> bool" where
  "authentic L k m \<longleftrightarrow>
     is_object m \<and> (\<exists>version. get_at get_int64 m ''key_version'' = Inr version \<and> kKeyVersion \<le> version)
     \<and> (\<exists>bytes. canonical_event L m = Inr bytes \<and> opt_str m ''hmac_signature'' = Some (hmac_sha256_hex L k bytes))"

definition issued_time :: "reactor_lib \<Rightarrow> json \<Rightarrow> int" where
  "issued_time L m = parse_rfc3339_utc L (case opt_str m ''issued_at'' of Some stamp \<Rightarrow> stamp | None \<Rightarrow> [])"

lemma check_shape_Inr: "check_shape m = Inr (Inr u) \<Longrightarrow>
    is_object m \<and> (\<exists>version. get_at get_int64 m ''key_version'' = Inr version \<and> kKeyVersion \<le> version)"
  by (auto simp: check_shape_def passed_eq_Inr and_then_eq_Inr demand_eq_Inr version_of_def kKeyVersion_def split: if_splits)

lemma check_mac_Inr: "check_mac L k m = Inr (Inr u) \<Longrightarrow>
    \<exists>bytes. canonical_event L m = Inr bytes \<and> opt_str m ''hmac_signature'' = Some (hmac_sha256_hex L k bytes)"
  by (auto simp: check_mac_def and_then_eq_Inr demand_eq_Inr constant_time_equals_iff split: option.splits)

lemma check_fresh_Inr: "check_fresh L now m = Inr (Inr u) \<Longrightarrow>
    0 \<le> issued_time L m \<and> \<bar>now - issued_time L m\<bar> \<le> kFreshnessSkewSecs"
proof -
  assume "check_fresh L now m = Inr (Inr u)"
  then obtain stamp drift where t: "get_at get_str m ''issued_at'' = Inr stamp"
    and d: "0 \<le> parse_rfc3339_utc L stamp" "ck64 (now - parse_rfc3339_utc L stamp) = Inr drift"
      "drift \<le> kFreshnessSkewSecs" "- kFreshnessSkewSecs \<le> drift"
    by (auto simp: check_fresh_def Let_def passed_eq_Inr and_then_eq_Inr demand_eq_Inr)
  from t have "opt_str m ''issued_at'' = Some stamp"
    by (auto simp: get_at_eq_Inr opt_str_Some elim!: get_str.elims)
  with d show ?thesis by (simp add: issued_time_def ck64_Inr abs_le_iff)
qed

lemma check_message_Inr:
  assumes "check_message L k now m = Inr (Inr nonce)"
  shows "authentic L k m \<and> 0 \<le> issued_time L m \<and> \<bar>now - issued_time L m\<bar> \<le> kFreshnessSkewSecs
    \<and> get_at get_str m ''nonce'' = Inr nonce"
  using assms check_shape_Inr check_mac_Inr check_fresh_Inr
  unfolding check_message_def authentic_def passed_eq_Inr and_then_eq_Inr by fastforce

lemma identify_Inr:
  assumes "identify L T m = Inr (Inr ev)"
  shows "ev_tenant ev = T \<and> get_at get_str m ''tenant_id'' = Inr T \<and> spec_for (ev_event ev) \<noteq> None
    \<and> get_at get_str m ''event'' = Inr (ev_event ev) \<and> get_at get_str m ''correlation_id'' = Inr (ev_correlation ev)
    \<and> get_at (rl_dump L) m ''payload'' = Inr (ev_payload ev) \<and> get_at get_int64 m ''timeout_ms'' = Inr (ev_timeout ev)
    \<and> get_at get_str m ''nonce'' = Inr (ev_nonce ev)"
  using assms by (auto simp: identify_def passed_eq_Inr and_then_eq_Inr demand_eq_Inr)

text \<open>One question to the nonce set, as the questions of a replay store.\<close>

definition nonce_store :: "(string \<rightharpoonup> int) store" where
  "nonce_store nonce w now seen =
     (case check_nonce now nonce (Some seen) of (r, after) \<Rightarrow>
        ((case r of Inl e \<Rightarrow> Inl e | Inr (Inl _) \<Rightarrow> Inr False | Inr (Inr _) \<Rightarrow> Inr True),
         (case after of Some s \<Rightarrow> s | None \<Rightarrow> seen)))"

interpretation nonces: replay_store nonce_store "\<lambda>st j t. \<exists>u. st j = Some u \<and> t < u" "\<lambda>_. 2 * kFreshnessSkewSecs"
  by unfold_locales
    (auto simp: nonce_store_def check_nonce_def still_held_def Let_def demand_def ck64_Inr
       split: option.splits if_splits sum.splits)

lemma check_nonce_Some: "check_nonce now nonce (Some st) = (r, seen) \<Longrightarrow> \<exists>st'. seen = Some st'"
  by (cases "still_held now st nonce"; cases "ck64 (now + 2 * kFreshnessSkewSecs)") (auto simp: check_nonce_def Let_def)

lemma verify_event_question:
  assumes "reactor_verify_event L k body T now (Some st) = (r, seen)"
  obtains qs st' where "seen = Some st'" "st' = ask_all nonce_store qs st" "\<forall>(j, w, t)\<in>set qs. t = now"
proof -
  consider "seen = Some st"
    | nonce r' where "check_nonce now nonce (Some st) = (r', seen)"
  proof (cases "check_message L k now (rl_parse L body)")
    case (Inl e)
    with assms that(1) show ?thesis by (simp add: reactor_verify_event_def Let_def)
  next
    case (Inr v)
    obtain r' seen' where q: "check_nonce now (projr v) (Some st) = (r', seen')" by fastforce
    with assms Inr have "\<not> isl v \<Longrightarrow> seen = seen'"
      by (cases v; cases r') (auto simp: reactor_verify_event_def Let_def split: sum.splits)
    with assms Inr q that show ?thesis by (cases v) (auto simp: reactor_verify_event_def Let_def)
  qed
  then show thesis
  proof cases
    case 1
    then show thesis using that[of st "[]"] by simp
  next
    case 2
    then obtain st' where st': "seen = Some st'" using check_nonce_Some by blast
    with 2 have "snd (nonce_store nonce 0 now st) = st'" by (simp add: nonce_store_def)
    then have "st' = ask_all nonce_store [(nonce, 0, now)] st" by simp
    from that[OF st' this] show thesis by simp
  qed
qed

lemma verify_event_Inr:
  assumes "reactor_verify_event L k body T now (Some st) = (Inr (Inr ev), seen)"
  shows "authentic L k (rl_parse L body) \<and> 0 \<le> issued_time L (rl_parse L body)
    \<and> \<bar>now - issued_time L (rl_parse L body)\<bar> \<le> kFreshnessSkewSecs
    \<and> identify L T (rl_parse L body) = Inr (Inr ev)
    \<and> (\<exists>st'. seen = Some st' \<and> nonce_store (ev_nonce ev) 0 now st = (Inr True, st'))"
proof -
  let ?m = "rl_parse L body"
  from assms obtain nonce u where c: "check_message L k now ?m = Inr (Inr nonce)"
    and n: "check_nonce now nonce (Some st) = (Inr (Inr u), seen)" and i: "identify L T ?m = Inr (Inr ev)"
    by (auto simp: reactor_verify_event_def Let_def split: sum.splits prod.splits)
  from n obtain st' where "seen = Some st'" using check_nonce_Some by blast
  moreover with n have "nonce_store nonce 0 now st = (Inr True, st')" by (simp add: nonce_store_def)
  moreover have "nonce = ev_nonce ev" using check_message_Inr[OF c] identify_Inr[OF i] by simp
  ultimately show ?thesis using check_message_Inr[OF c] i by simp
qed

section \<open>What the loop publishes\<close>

lemma attempt_run:
  "attempt m s = (case m s of (Inl _, t) \<Rightarrow> (Inr None, t) | (Inr x, t) \<Rightarrow> (Inr (Some x), t))"
  by (auto simp: attempt_def op_simps split: sum.split prod.split)

definition in_time :: "reactor_config \<Rightarrow> reactor_event \<Rightarrow> nat \<Rightarrow> int \<Rightarrow> bool" where
  "in_time c ev i received = (ev_timeout ev \<le> 0 \<or> (rc_clock c i - received) * 1000 \<le> ev_timeout ev)"

lemma in_window_run:
  "in_window c ev received s = (r, t) \<Longrightarrow> sv_published t = sv_published s
     \<and> (r = Inr True \<longrightarrow> in_time c ev (sv_clock s) received)"
  by (auto simp: in_window_def in_time_def read_clock_def op_simps and_then_def ck64_def split: if_splits sum.splits)

lemma compose_reply_run:
  "compose_reply L c ev d s = (r, t) \<Longrightarrow> sv_published t = sv_published s
     \<and> (\<forall>body. r = Inr body \<longrightarrow> (\<exists>nonce stamp. reactor_build_reply L (rc_key c)
          \<lparr>rf_correlation = ev_correlation ev, rf_tenant = ev_tenant ev, rf_event = ev_event ev, rf_decision = d,
           rf_nonce = nonce, rf_issued = stamp\<rparr> = Inr body))"
  by (auto simp: compose_reply_def read_clock_def draw_nonce_def op_simps split: sum.splits)

text \<open>
  A publication is justified by a delivery when the delivery's body was verified at the clock's
  reading \<open>i\<close>, the handler answered the verified event, the answer's window was still open, and
  what was published is the signed reply to that event at the delivery's destination.
\<close>

definition justified :: "reactor_lib \<Rightarrow> reactor_config \<Rightarrow> reactor_handler \<Rightarrow> delivery \<Rightarrow> publication \<Rightarrow> bool" where
  "justified L c h dl p \<longleftrightarrow>
     (\<exists>i seen seen' ev n d nonce stamp body.
        reactor_verify_event L (rc_key c) (dl_body dl) (rc_tenant c) (rc_clock c i) seen = (Inr (Inr ev), seen')
        \<and> h n ev = Inr (Some d) \<and> in_time c ev (Suc i) (rc_clock c i)
        \<and> reactor_build_reply L (rc_key c) \<lparr>rf_correlation = ev_correlation ev, rf_tenant = ev_tenant ev,
             rf_event = ev_event ev, rf_decision = d, rf_nonce = nonce, rf_issued = stamp\<rparr> = Inr body
        \<and> p = (reply_destination dl, ev_correlation ev, body))"

lemma answer_event_run:
  assumes "answer_event L c dl received ev d s = (r, t)"
  shows "sv_published t = sv_published s
    \<or> (\<exists>nonce stamp body. in_time c ev (sv_clock s) received
        \<and> reactor_build_reply L (rc_key c) \<lparr>rf_correlation = ev_correlation ev, rf_tenant = ev_tenant ev,
             rf_event = ev_event ev, rf_decision = d, rf_nonce = nonce, rf_issued = stamp\<rparr> = Inr body
        \<and> sv_published t = sv_published s @ [(reply_destination dl, ev_correlation ev, body)])"
proof -
  obtain q1 s1 where w: "in_window c ev received s = (q1, s1)" by fastforce
  note w' = in_window_run[OF w]
  show ?thesis
  proof (cases "q1 = Inr True")
    case False
    with assms w w' show ?thesis by (cases q1) (auto simp: answer_event_def op_simps)
  next
    case True
    obtain q2 s2 where b: "compose_reply L c ev d s1 = (q2, s2)" by fastforce
    note b' = compose_reply_run[OF b]
    show ?thesis
    proof (cases q2)
      case (Inl e)
      with assms w w' True b b' show ?thesis by (simp add: answer_event_def op_simps attempt_run)
    next
      case (Inr body)
      with assms w True b have "sv_published t = sv_published s2 @ [(reply_destination dl, ev_correlation ev, body)]"
        by (auto simp: answer_event_def op_simps attempt_run publish_reply_def)
      with w' True b' Inr show ?thesis by auto
    qed
  qed
qed

lemma handle_delivery_run:
  assumes "handle_delivery L c h dl s = (r, t)"
  shows "sv_published t = sv_published s \<or> (\<exists>p. justified L c h dl p \<and> sv_published t = sv_published s @ [p])"
proof -
  define now where "now = rc_clock c (sv_clock s)"
  obtain q seen where v: "reactor_verify_event L (rc_key c) (dl_body dl) (rc_tenant c) now (sv_seen s) = (q, seen)"
    by fastforce
  let ?s1 = "s\<lparr>sv_clock := Suc (sv_clock s), sv_seen := seen\<rparr>"
  have run: "(r, t) = (case q of Inl e \<Rightarrow> (Inl e, ?s1) | Inr (Inl _) \<Rightarrow> (Inr (), ?s1)
     | Inr (Inr ev) \<Rightarrow> (case h (sv_calls s) ev of
          Inr (Some d) \<Rightarrow> answer_event L c dl now ev d (?s1\<lparr>sv_calls := Suc (sv_calls s)\<rparr>)
        | _ \<Rightarrow> (Inr (), ?s1\<lparr>sv_calls := Suc (sv_calls s)\<rparr>)))"
    using assms v
    by (auto simp: handle_delivery_def op_simps read_clock_def verify_delivery_def attempt_run call_handler_def now_def
        split: sum.split option.split)
  show ?thesis
  proof (cases "\<exists>ev d. q = Inr (Inr ev) \<and> h (sv_calls s) ev = Inr (Some d)")
    case False
    with run show ?thesis by (auto split: sum.splits option.splits)
  next
    case True
    then obtain ev d where q: "q = Inr (Inr ev)" "h (sv_calls s) ev = Inr (Some d)" by blast
    with run have a: "answer_event L c dl now ev d (?s1\<lparr>sv_calls := Suc (sv_calls s)\<rparr>) = (r, t)" by simp
    from answer_event_run[OF a] show ?thesis
    proof
      assume "\<exists>nonce stamp body. in_time c ev (sv_clock (?s1\<lparr>sv_calls := Suc (sv_calls s)\<rparr>)) now
        \<and> reactor_build_reply L (rc_key c) \<lparr>rf_correlation = ev_correlation ev, rf_tenant = ev_tenant ev,
             rf_event = ev_event ev, rf_decision = d, rf_nonce = nonce, rf_issued = stamp\<rparr> = Inr body
        \<and> sv_published t = sv_published (?s1\<lparr>sv_calls := Suc (sv_calls s)\<rparr>) @ [(reply_destination dl, ev_correlation ev, body)]"
      with v q show ?thesis unfolding justified_def now_def by fastforce
    qed simp
  qed
qed

lemma serve_loop_justified:
  assumes "serve_loop L c h dls s = (r, t)"
  shows "\<exists>ps ds. sv_published t = sv_published s @ ps \<and> subseq (map Inr ds) dls \<and> list_all2 (justified L c h) ds ps"
  using assms
proof (induction dls arbitrary: s)
  case Nil
  then show ?case by (intro exI[of _ "[]"]) (simp add: op_simps)
next
  case (Cons dl0 dls)
  show ?case
  proof (cases "\<exists>dl s1. dl0 = Inr dl \<and> handle_delivery L c h dl s = (Inr (), s1)")
    case True
    then obtain dl s1 where n: "dl0 = Inr dl" and h: "handle_delivery L c h dl s = (Inr (), s1)" by blast
    with Cons.prems have "serve_loop L c h dls s1 = (r, t)" by (simp add: op_simps)
    from Cons.IH[OF this] obtain ps ds where ih: "sv_published t = sv_published s1 @ ps" "subseq (map Inr ds) dls"
      "list_all2 (justified L c h) ds ps" by blast
    from handle_delivery_run[OF h] show ?thesis
    proof
      assume "sv_published s1 = sv_published s"
      with ih n show ?thesis by (intro exI[of _ ps] exI[of _ ds]) auto
    next
      assume "\<exists>p. justified L c h dl p \<and> sv_published s1 = sv_published s @ [p]"
      then obtain p where "justified L c h dl p" "sv_published s1 = sv_published s @ [p]" by blast
      with ih n show ?thesis by (intro exI[of _ "p # ps"] exI[of _ "dl # ds"]) simp
    qed
  next
    case False
    show ?thesis
    proof (cases dl0)
      case (Inl e)
      with Cons.prems show ?thesis by (intro exI[of _ "[]"]) (simp add: op_simps)
    next
      case (Inr dl)
      obtain q s1 where h: "handle_delivery L c h dl s = (q, s1)" by fastforce
      with False Inr obtain e where "q = Inl e" by (cases q) auto
      with Cons.prems Inr h have "t = s1" by (simp add: op_simps)
      have "\<exists>ps. sv_published t = sv_published s @ ps \<and> (ps = [] \<or> (\<exists>p. ps = [p] \<and> justified L c h dl p))"
        using handle_delivery_run[OF h] \<open>t = s1\<close> by auto
      then obtain ps where ps: "sv_published t = sv_published s @ ps" "ps = [] \<or> (\<exists>p. ps = [p] \<and> justified L c h dl p)" by blast
      then have "list_all2 (justified L c h) (map (\<lambda>_. dl) ps) ps" "subseq (map Inr (map (\<lambda>_. dl) ps)) (dl0 # dls)"
        using Inr by auto
      with ps(1) show ?thesis by blast
    qed
  qed
qed

section \<open>Verifying a sequence of deliveries\<close>

text \<open>Bodies and the clock's readings at which they arrived, against one set of nonces.\<close>

fun verify_all_events :: "reactor_lib \<Rightarrow> string \<Rightarrow> string \<Rightarrow> (string \<times> int) list \<Rightarrow> (string \<rightharpoonup> int) \<Rightarrow>
    reactor_event verdict list \<times> (string \<rightharpoonup> int)" where
  "verify_all_events L k T [] st = ([], st)"
| "verify_all_events L k T ((body, now) # rest) st =
     (case reactor_verify_event L k body T now (Some st) of
        (r, seen) \<Rightarrow>
          (case verify_all_events L k T rest (case seen of Some st' \<Rightarrow> st' | None \<Rightarrow> st) of
             (rs, end_st) \<Rightarrow> (r # rs, end_st)))"

lemma verify_all_questions:
  "\<exists>qs. snd (verify_all_events L k T ds st) = ask_all nonce_store qs st \<and> (\<forall>(j, w, t)\<in>set qs. t \<in> snd ` set ds)"
proof (induction ds arbitrary: st)
  case Nil
  show ?case by (intro exI[of _ "[]"]) simp
next
  case (Cons d ds)
  obtain body now where d: "d = (body, now)" by fastforce
  obtain r seen where v: "reactor_verify_event L k body T now (Some st) = (r, seen)" by fastforce
  from verify_event_question[OF v] obtain qs st' where q: "seen = Some st'" "st' = ask_all nonce_store qs st"
    "\<forall>(j, w, t)\<in>set qs. t = now" by metis
  from Cons[of st'] obtain qs' where q': "snd (verify_all_events L k T ds st') = ask_all nonce_store qs' st'"
    "\<forall>(j, w, t)\<in>set qs'. t \<in> snd ` set ds" by blast
  from q q' v d have "snd (verify_all_events L k T (d # ds) st) = ask_all nonce_store (qs @ qs') st"
    by (cases "verify_all_events L k T ds st'") (simp add: ask_all_append)
  moreover have "\<forall>(j, w, t)\<in>set (qs @ qs'). t \<in> snd ` set (d # ds)" using q(3) q'(2) d by fastforce
  ultimately show ?case by blast
qed

lemma accepted_spaced:
  assumes "reactor_verify_event L k body T t1 (Some st) = (Inr (Inr ev), Some st1)"
    and "reactor_verify_event L k body' T t2 (Some (snd (verify_all_events L k T ds st1))) = (Inr (Inr ev'), seen)"
    and "ev_nonce ev = ev_nonce ev'" "\<forall>t\<in>snd ` set ds. t \<le> t2"
  shows "t1 + 2 * kFreshnessSkewSecs \<le> t2"
proof -
  obtain qs where q: "snd (verify_all_events L k T ds st1) = ask_all nonce_store qs st1" "\<forall>(j, w, t)\<in>set qs. t \<in> snd ` set ds"
    using verify_all_questions by blast
  with assms(4) have o: "\<forall>(j, w, t)\<in>set qs. t \<le> t2" by fastforce
  from verify_event_Inr[OF assms(1)] have f: "nonce_store (ev_nonce ev) 0 t1 st = (Inr True, st1)" by simp
  from verify_event_Inr[OF assms(2)] q(1) obtain st2 where
    "nonce_store (ev_nonce ev) 0 t2 (ask_all nonce_store qs st1) = (Inr True, st2)" using assms(3) by auto
  from nonces.first_sights_spaced[OF f o this] show ?thesis .
qed

section \<open>A deployment to evaluate\<close>

definition demo_event_json :: json where
  "demo_event_json = JObj [(''correlation_id'', JStr ''c1''), (''event'', JStr kLoginPostAuth), (''hmac_signature'', JStr (to_hex ''M'')),
     (''issued_at'', JStr ''T''), (''key_version'', JInt 2), (''nonce'', JStr ''n1''), (''payload'', JObj []),
     (''tenant_id'', JStr ''acme''), (''timeout_ms'', JInt 0)]"

definition demo_reactor :: reactor_lib where
  "demo_reactor = \<lparr>rl_hmac = (\<lambda>_ _. ''M''), rl_parse = (\<lambda>_. demo_event_json), rl_dump = (\<lambda>_. Inr ''{}''),
     rl_strptime = (\<lambda>_. Some 300), rl_strftime = (\<lambda>_. ''T'')\<rparr>"

definition demo_reactor_event :: reactor_event where
  "demo_reactor_event = \<lparr>ev_tenant = ''acme'', ev_event = kLoginPostAuth, ev_correlation = ''c1'', ev_payload = ''{}'',
     ev_timeout = 0, ev_nonce = ''n1''\<rparr>"

lemma demo_find:
  "jfind demo_event_json ''correlation_id'' = Some (JStr ''c1'')" "jfind demo_event_json ''event'' = Some (JStr kLoginPostAuth)"
  "jfind demo_event_json ''hmac_signature'' = Some (JStr (to_hex ''M''))" "jfind demo_event_json ''issued_at'' = Some (JStr ''T'')"
  "jfind demo_event_json ''key_version'' = Some (JInt 2)" "jfind demo_event_json ''nonce'' = Some (JStr ''n1'')"
  "jfind demo_event_json ''payload'' = Some (JObj [])" "jfind demo_event_json ''tenant_id'' = Some (JStr ''acme'')"
  "jfind demo_event_json ''timeout_ms'' = Some (JInt 0)" "is_object demo_event_json"
  by (simp_all add: demo_event_json_def)

lemma demo_message: "check_message demo_reactor k now demo_event_json = Inr (Inr ''n1'')" if "now \<in> {0, 600}"
proof -
  have s: "check_shape demo_event_json = Inr (Inr ())"
    by (simp add: check_shape_def passed_def demand_def demo_find version_of_def is_int_at_def is_str_at_def get_at_def
        contains_def kKeyVersion_def)
  have m: "check_mac demo_reactor k demo_event_json = Inr (Inr ())"
    by (simp add: check_mac_def opt_str_def demo_find canonical_event_def get_at_def demo_reactor_def hmac_sha256_hex_def
        demand_def constant_time_equals_iff)
  have f: "check_fresh demo_reactor now demo_event_json = Inr (Inr ())"
    using that by (auto simp: check_fresh_def get_at_def demo_find parse_rfc3339_utc_def demo_reactor_def Let_def passed_def
        demand_def ck64_def fits64_def kFreshnessSkewSecs_def)
  show ?thesis by (simp add: check_message_def s m f passed_def get_at_def demo_find)
qed

lemma demo_verified_event:
  assumes "now \<in> {0, 600}" "still_held now st ''n1'' = None"
  shows "reactor_verify_event demo_reactor k body ''acme'' now (Some st)
    = (Inr (Inr demo_reactor_event), Some ((still_held now st)(''n1'' \<mapsto> now + 600)))"
proof -
  have i: "identify demo_reactor ''acme'' demo_event_json = Inr (Inr demo_reactor_event)"
    by (simp add: identify_def get_at_def demo_find passed_def demand_def demo_reactor_def demo_reactor_event_def
        spec_for_def registry_def spec_def kLoginPostAuth_def)
  have n: "check_nonce now ''n1'' (Some st) = (Inr (Inr ()), Some ((still_held now st)(''n1'' \<mapsto> now + 600)))"
    using assms by (auto simp: check_nonce_def Let_def ck64_def fits64_def kFreshnessSkewSecs_def demand_def)
  have p: "rl_parse demo_reactor b = demo_event_json" for b by (simp add: demo_reactor_def)
  show ?thesis by (simp add: reactor_verify_event_def Let_def p demo_message[OF assms(1)] n i)
qed

section \<open>Facts about the registry, the binder and broker URLs\<close>

lemma nonce_store_first:
  assumes "nonce_store j w now st = (Inr True, st')"
  shows "still_held now st j = None \<and> st' j = Some (now + 2 * kFreshnessSkewSecs)"
  using assms
  by (cases "still_held now st j"; cases "ck64 (now + 2 * kFreshnessSkewSecs)")
    (auto simp: nonce_store_def check_nonce_def Let_def demand_def ck64_Inr)

lemma spec_for_name: "spec_for name \<noteq> None \<longleftrightarrow> name \<in> set reactor_event_names"
  by (simp add: spec_for_def reactor_event_names_def registry_def spec_def)

definition policy_of :: "string \<Rightarrow> failure_policy" where
  "policy_of name = (case spec_for name of None \<Rightarrow> FailClosed | Some sp \<Rightarrow> es_policy sp)"

lemma strictest_Max: "names \<noteq> [] \<Longrightarrow> strictest names = policy_text (Max (policy_of ` set names))"
proof (induction names)
  case (Cons n names)
  have t: "policy_text p = ''fail_closed'' \<longleftrightarrow> p = FailClosed" for p by (cases p) auto
  have m: "max p q = (if p = FailClosed then FailClosed else q)" for p q :: failure_policy
    by (cases p; cases q) (simp_all add: max_def less_eq_failure_policy_def)
  have "strictest (n # names) = (if policy_of n = FailClosed then ''fail_closed'' else strictest names)"
    by (simp add: policy_of_def t split: option.split)
  with Cons show ?case by (cases "names = []"; cases "policy_of n") (simp_all add: m)
qed simp

text \<open>Handlers bound one after another; a refused binding leaves the router as it was.\<close>

datatype bind_op = BindOn string "reactor_handler option" | BindFallback "reactor_handler option"

definition bind_step :: "bind_op \<Rightarrow> router \<Rightarrow> router" where
  "bind_step b r =
     (case (case b of BindOn event h \<Rightarrow> router_on event h r | BindFallback h \<Rightarrow> router_fallback h r) of
        Inl _ \<Rightarrow> r
      | Inr r' \<Rightarrow> r')"

definition router_ok :: "router \<Rightarrow> bool" where
  "router_ok r \<longleftrightarrow> distinct (bound_events r) \<and> set (bound_events r) \<subseteq> set reactor_event_names"

lemma router_on_ok: "router_ok r \<Longrightarrow> router_on event h r = Inr r' \<Longrightarrow> router_ok r'"
  by (cases h) (auto 4 4 simp: router_on_def router_ok_def bound_events_def and_then_eq_Inr ensure_eq_Inr list_ex_iff
      spec_for_name[symmetric])

lemma bind_step_ok: "router_ok r \<Longrightarrow> router_ok (bind_step b r)"
proof (cases b)
  case (BindOn event h)
  assume "router_ok r"
  with BindOn router_on_ok show ?thesis by (auto simp: bind_step_def split: sum.split)
next
  case (BindFallback h)
  assume "router_ok r"
  with BindFallback show ?thesis by (cases h) (simp_all add: bind_step_def router_fallback_def router_ok_def bound_events_def)
qed

lemma bind_all_ok: "router_ok r \<Longrightarrow> router_ok (fold bind_step ops r)"
  by (induction ops arbitrary: r) (simp_all add: bind_step_ok)

lemma router_new_ok: "router_ok router_new"
  by (simp add: router_ok_def router_new_def bound_events_def)

lemma dispatch_map_of:
  "dispatch bindings fallback n ev =
     (case map_of bindings (ev_event ev) of
        Some h \<Rightarrow> h n ev
      | None \<Rightarrow> (case fallback of Some f \<Rightarrow> f n ev | None \<Rightarrow> Inr None))"
  by (induction bindings fallback n ev rule: dispatch.induct) simp_all

section \<open>Properties\<close>

text \<open>
  C20. A delivery reaches a handler only when its body is a JSON object of key version 2 or later whose
  \<open>hmac_signature\<close> is the keyed hash of the canonical bytes of its other members, issued at most
  five minutes before or after the reading, for this reactor's tenant, naming an event of the
  registry, with a nonce the set did not hold; the event handed over has exactly the body's members.
\<close>

theorem reactor_verify_sound:
  assumes "reactor_verify_event L k body T now (Some st) = (Inr (Inr ev), seen)"
  shows "\<exists>m bytes version st'. rl_parse L body = m \<and> is_object m
    \<and> get_at get_int64 m ''key_version'' = Inr version \<and> kKeyVersion \<le> version
    \<and> canonical_event L m = Inr bytes \<and> opt_str m ''hmac_signature'' = Some (hmac_sha256_hex L k bytes)
    \<and> \<bar>now - issued_time L m\<bar> \<le> kFreshnessSkewSecs
    \<and> ev_tenant ev = T \<and> get_at get_str m ''tenant_id'' = Inr T
    \<and> ev_event ev \<in> set reactor_event_names \<and> get_at get_str m ''event'' = Inr (ev_event ev)
    \<and> get_at get_str m ''correlation_id'' = Inr (ev_correlation ev) \<and> get_at (rl_dump L) m ''payload'' = Inr (ev_payload ev)
    \<and> get_at get_int64 m ''timeout_ms'' = Inr (ev_timeout ev)
    \<and> still_held now st (ev_nonce ev) = None \<and> seen = Some st' \<and> st' (ev_nonce ev) = Some (now + 2 * kFreshnessSkewSecs)"
proof -
  let ?m = "rl_parse L body"
  from verify_event_Inr[OF assms] obtain st' where v: "authentic L k ?m" "\<bar>now - issued_time L ?m\<bar> \<le> kFreshnessSkewSecs"
    "identify L T ?m = Inr (Inr ev)" "seen = Some st'" "nonce_store (ev_nonce ev) 0 now st = (Inr True, st')" by blast
  from v(1) obtain bytes version where "is_object ?m" "get_at get_int64 ?m ''key_version'' = Inr version"
    "kKeyVersion \<le> version" "canonical_event L ?m = Inr bytes"
    "opt_str ?m ''hmac_signature'' = Some (hmac_sha256_hex L k bytes)" unfolding authentic_def by blast
  with v(2,4) identify_Inr[OF v(3)] nonce_store_first[OF v(5)] show ?thesis
    by (intro exI[of _ ?m] exI[of _ bytes] exI[of _ version] exI[of _ st']) (simp add: spec_for_name[symmetric])
qed

lemma demo_fresh_nonce: "still_held now Map.empty j = None"
  by (simp add: still_held_def)

lemma reactor_verify_sound_witness:
  "\<exists>bytes. canonical_event demo_reactor demo_event_json = Inr bytes
     \<and> opt_str demo_event_json ''hmac_signature'' = Some (hmac_sha256_hex demo_reactor ''k'' bytes)"
proof -
  have v: "reactor_verify_event demo_reactor ''k'' ''B'' ''acme'' 0 (Some Map.empty)
      = (Inr (Inr demo_reactor_event), Some ((still_held 0 Map.empty)(''n1'' \<mapsto> 0 + 600)))"
    by (rule demo_verified_event) (simp_all add: demo_fresh_nonce)
  have "rl_parse demo_reactor b = demo_event_json" for b by (simp add: demo_reactor_def)
  with reactor_verify_sound[OF v] show ?thesis by auto
qed

text \<open>
  C21. The serving loop fails closed and answers at most once: what it publishes is, in order, one signed
  reply for each of some of the deliveries, and each such delivery verified, its handler answered,
  the answer came within the event's window, and the reply was built for that event and that answer.
  An unverified body, a handler that threw or abstained, a late answer and a refused reply publish
  nothing.
\<close>

theorem reactor_replies_justified:
  "\<exists>ps. sv_published (snd (reactor_serve L c dls handler s)) = sv_published s @ ps
     \<and> (case handler of
          None \<Rightarrow> ps = []
        | Some h \<Rightarrow> \<exists>ds. subseq (map Inr ds) dls \<and> list_all2 (justified L c h) ds ps)"
proof (cases handler)
  case None
  then show ?thesis by (simp add: reactor_serve_def op_simps)
next
  case (Some h)
  show ?thesis
  proof (cases "rc_tenant c = []")
    case True
    with Some show ?thesis by (intro exI[of _ "[]"]) (auto simp: reactor_serve_def op_simps intro: exI[of _ "[]"])
  next
    case False
    obtain r t where l: "serve_loop L c h dls (s\<lparr>sv_seen := Some Map.empty\<rparr>) = (r, t)" by fastforce
    with Some False have "snd (reactor_serve L c dls handler s) = t" by (simp add: reactor_serve_def op_simps)
    with serve_loop_justified[OF l] Some show ?thesis by auto
  qed
qed

text \<open>
  The signed bytes of a reply determine every field of it: two replies with the same canonical bytes
  are the same reply, whatever the strings in them contain, so a signature made for one answer
  cannot be presented for another.
\<close>

theorem reactor_reply_injective: "reactor_canonical_reply f = reactor_canonical_reply g \<longleftrightarrow> f = g"
  using canonical_reply_fields by blast

text \<open>
  A reply on the wire is its canonical bytes with the \<open>null\<close> at the end replaced by the signature
  over them; one that asks for a step-up on another event than the login, or that mutates nothing,
  is not built at all.
\<close>

theorem reactor_reply_signed:
  "case reactor_build_reply L k f of
     Inl _ \<Rightarrow> rd_mfa (rf_decision f) \<and> rf_event f \<noteq> kLoginPostAuth
         \<or> rd_decision (rf_decision f) = ''mutate'' \<and> rd_patch (rf_decision f) = []
   | Inr out \<Rightarrow> \<exists>a. reactor_canonical_reply f = a @ null_signature @ ''}''
         \<and> out = a @ key ''hmac_signature'' @ [dq] @ hmac_sha256_hex L k (reactor_canonical_reply f) @ [dq] @ ''}''"
proof (cases "reactor_build_reply L k f")
  case (Inr out)
  then show ?thesis by (auto elim: build_reply_Inr)
next
  case (Inl e)
  obtain a where "reactor_canonical_reply f = a @ null_signature @ ''}''" using canonical_reply_tail by blast
  with Inl show ?thesis
    by (auto simp: reactor_build_reply_def Let_def insert_signature_def null_signature_last ensure_def and_then_def
        split: if_splits)
qed

text \<open>
  C40. One body is accepted twice only at the edge: if the clock does not run backwards, a second
  acceptance comes exactly ten minutes after the first, for an event that was dated exactly five
  minutes ahead of the first reading. That one replay does get through, because the nonce expires
  with the last second in which the event is still fresh.
\<close>

theorem reactor_replay_window:
  assumes "reactor_verify_event L k body T t1 (Some st) = (Inr (Inr ev), Some st1)"
    and "reactor_verify_event L k body T t2 (Some (snd (verify_all_events L k T ds st1))) = (Inr (Inr ev'), seen)"
    and "\<forall>t\<in>snd ` set ds. t \<le> t2"
  shows "t2 = t1 + 600 \<and> issued_time L (rl_parse L body) = t1 + 300"
proof -
  note v1 = verify_event_Inr[OF assms(1)] and v2 = verify_event_Inr[OF assms(2)]
  from v1 v2 have "ev_nonce ev = ev_nonce ev'" by (metis sum.inject(2))
  have s: "t1 + 600 \<le> t2" using accepted_spaced[OF assms(1,2) \<open>ev_nonce ev = ev_nonce ev'\<close> assms(3)]
    by (simp add: kFreshnessSkewSecs_def)
  have "\<bar>t1 - issued_time L (rl_parse L body)\<bar> \<le> 300" "\<bar>t2 - issued_time L (rl_parse L body)\<bar> \<le> 300"
    using v1 v2 by (simp_all add: kFreshnessSkewSecs_def)
  with s show ?thesis by linarith
qed

lemma reactor_replay_window_witness:
  "fst (reactor_verify_event demo_reactor ''k'' ''B'' ''acme'' 0 (Some Map.empty)) = Inr (Inr demo_reactor_event)
   \<and> fst (reactor_verify_event demo_reactor ''k'' ''B'' ''acme'' 600
       (snd (reactor_verify_event demo_reactor ''k'' ''B'' ''acme'' 0 (Some Map.empty)))) = Inr (Inr demo_reactor_event)
   \<and> issued_time demo_reactor (rl_parse demo_reactor ''B'') = 300"
proof -
  have v1: "reactor_verify_event demo_reactor ''k'' ''B'' ''acme'' 0 (Some Map.empty)
      = (Inr (Inr demo_reactor_event), Some ((still_held 0 Map.empty)(''n1'' \<mapsto> 0 + 600)))"
    by (rule demo_verified_event) (simp_all add: demo_fresh_nonce)
  let ?st1 = "(still_held 0 Map.empty)(''n1'' \<mapsto> 0 + 600)"
  have v2: "reactor_verify_event demo_reactor ''k'' ''B'' ''acme'' 600 (Some (snd (verify_all_events demo_reactor ''k'' ''acme'' [] ?st1)))
      = (Inr (Inr demo_reactor_event), Some ((still_held 600 ?st1)(''n1'' \<mapsto> 600 + 600)))"
    unfolding verify_all_events.simps snd_conv by (rule demo_verified_event) (simp_all add: still_held_def)
  from reactor_replay_window[OF v1 v2] v1 v2 show ?thesis by simp
qed

text \<open>
  The default policy of a registration is the strictest of its events' policies, in whatever order
  they are listed; an event outside the registry and an empty registration are closed.
\<close>

theorem strictest_policy_wins:
  "reactor_default_failure_policy events =
     (if events = [] then ''fail_closed'' else policy_text (Max (policy_of ` set events)))"
  by (simp add: reactor_default_failure_policy_def strictest_Max)

text \<open>
  The allow-list is what it says: a token hook may set exactly the \<open>ext.\<close> claims, a user hook
  exactly the name, the address and the \<open>metadata.\<close> members, no other event may be patched, and
  a namespace never admits itself.
\<close>

theorem patch_allow_list:
  "reactor_patch_field_allowed event field \<longleftrightarrow>
     event = ''token.pre_issue'' \<and> (\<exists>x. x \<noteq> [] \<and> field = ''ext.'' @ x)
     \<or> event \<in> {''user.pre_create'', ''user.pre_update''}
        \<and> (field \<in> {''username'', ''email''} \<or> (\<exists>x. x \<noteq> [] \<and> field = ''metadata.'' @ x))"
proof -
  have ns: "field_matches field p \<longleftrightarrow> (\<exists>x. x \<noteq> [] \<and> field = p @ x)" if "p \<noteq> []" "last p = CHR ''.''" for p
    using that by (auto simp: field_matches_def prefix_def)
  have ex: "field_matches field p \<longleftrightarrow> field = p" if "p = [] \<or> last p \<noteq> CHR ''.''" for p
    using that by (auto simp: field_matches_def)
  show ?thesis
    by (simp add: reactor_patch_field_allowed_def spec_for_def registry_def spec_def kLoginPostAuth_def ns ex)
qed

text \<open>
  Whatever is bound in whatever order, a router binds each event of the registry at most once and
  nothing else, and its handler passes an event to the handler bound to it, otherwise to the
  fallback, and abstains when there is none; it adds no answer and hides no failure.
\<close>

theorem router_dispatches:
  "let r = fold bind_step ops router_new in
     distinct (bound_events r) \<and> set (bound_events r) \<subseteq> set reactor_event_names
     \<and> router_build r n ev =
         (case map_of (rt_bindings r) (ev_event ev) of
            Some h \<Rightarrow> h n ev
          | None \<Rightarrow> (case rt_fallback r of Some f \<Rightarrow> f n ev | None \<Rightarrow> Inr None))"
  using bind_all_ok[OF router_new_ok, of ops] by (simp add: Let_def router_ok_def router_build_def dispatch_map_of)

text \<open>
  A broker endpoint comes only from an \<open>amqps\<close> URL (in any case of letters, for any host, local
  ones included), with a host, a port between 1 and 65535, and a client identity that is whole or
  absent.
\<close>

theorem amqps_endpoint_sound:
  "case amqps_endpoint url ca cert pkey of
     Inl _ \<Rightarrow> True
   | Inr a \<Rightarrow> (\<exists>sch rest. url = sch @ ''://'' @ rest \<and> lower sch = ''amqps'')
       \<and> aq_url a = url \<and> aq_host a \<noteq> [] \<and> 0 < aq_port a \<and> aq_port a \<le> 65535
       \<and> ((aq_cert a = []) = (aq_key a = [])) \<and> aq_ca a = ca"
proof (cases "amqps_endpoint url ca cert pkey")
  case (Inr a)
  then obtain sch rest where c: "cut_str ''://'' url = Some (sch, rest)" "lower sch = ''amqps''"
    and f: "aq_url a = url \<and> aq_host a \<noteq> [] \<and> 0 < aq_port a \<and> aq_port a \<le> 65535
      \<and> (aq_cert a = []) = (aq_key a = []) \<and> aq_ca a = ca"
    by (auto simp: amqps_endpoint_def amqps_fail_def and_then_def split: if_splits option.splits sum.splits prod.splits)
  from cut_str_SomeD[OF c(1)] c(2) have "\<exists>sch rest. url = sch @ ''://'' @ rest \<and> lower sch = ''amqps''" by blast
  with f Inr show ?thesis by simp
qed simp

text \<open>
  User information is cut off at the last \<open>@\<close> of the whole rest of the URL, not of its authority:
  for a virtual host that contains one, the host reported is a part of the path, while the URL that
  is handed on still names the broker.
\<close>

theorem amqps_host_from_path:
  "map_option aq_host (case amqps_endpoint ''amqps://broker.example/team@elsewhere'' [] [] [] of Inl _ \<Rightarrow> None | Inr a \<Rightarrow> Some a)
     = Some ''elsewhere''"
  by (simp add: amqps_endpoint_def cut_str.simps split_broker_def cut_last_def host_port_def lower_def lower_char_def is_upper_def)

end
