(* ===== verification/Oidc.thy ===== *)
theory Oidc
  imports Authenticator OpaqueLogin Uma
begin

text \<open>
  The relying party of \<open>src/oidc.cpp\<close> and \<open>include/axiam/oidc.hpp\<close>: discovery and its cache,
  the authorization request, the validation of identity tokens, the grants that take one
  token request, introspection and revocation, and logout. The client record is extended with
  the members of \<open>Client::Impl\<close> these operations use: the discovery cache and the key-set
  verifier. Randomness, SHA-256, Ed25519 and the monotonic clock are parameters.
\<close>

section \<open>Types\<close>

record mtls_aliases =
  ma_token :: "string option"
  ma_userinfo :: "string option"
  ma_revocation :: "string option"
  ma_introspection :: "string option"
  ma_device_authorization :: "string option"
  ma_par :: "string option"
  ma_backchannel :: "string option"

record oidc_configuration =
  oc_issuer :: string
  oc_authorization :: string
  oc_token :: string
  oc_jwks_uri :: string
  oc_userinfo :: "string option"
  oc_introspection :: "string option"
  oc_revocation :: "string option"
  oc_end_session :: "string option"
  oc_device_authorization :: "string option"
  oc_par :: "string option"
  oc_backchannel :: "string option"
  oc_delivery_modes :: "string list"
  oc_request_algs :: "string list"
  oc_user_code :: "bool option"
  oc_scopes :: "string list"
  oc_response_types :: "string list"
  oc_id_token_algs :: "string list"
  oc_challenge_methods :: "string list"
  oc_auth_algs :: "string list"
  oc_revocation_methods :: "string list"
  oc_revocation_algs :: "string list"
  oc_introspection_methods :: "string list"
  oc_introspection_algs :: "string list"
  oc_aliases :: "mtls_aliases option"

record authorization_request =
  ar_url :: string
  ar_state :: string
  ar_nonce :: string
  ar_verifier :: string

record id_claims =
  ic_subject :: string
  ic_issuer :: string
  ic_audience :: "string list"
  ic_expires_at :: int
  ic_issued_at :: int
  ic_nonce :: "string option"
  ic_azp :: "string option"
  ic_email :: "string option"
  ic_username :: "string option"
  ic_tenant :: "string option"
  ic_roles :: "string list"
  ic_raw :: string

record token_set =
  ts_access :: string
  ts_type :: string
  ts_expires_in :: int
  ts_scope :: "string option"
  ts_refresh :: "string option"
  ts_id_token :: "string option"
  ts_claims :: "id_claims option"

record introspection =
  in_active :: bool
  in_scope :: "string option"
  in_client_id :: "string option"
  in_username :: "string option"
  in_token_type :: "string option"
  in_subject :: "string option"
  in_audience :: "string option"
  in_issuer :: "string option"
  in_jwt_id :: "string option"
  in_expires_at :: "int option"
  in_issued_at :: "int option"

record logout_token =
  lt_sid :: "string option"
  lt_subject :: "string option"
  lt_jwt_id :: "string option"
  lt_issuer :: string
  lt_issued_at :: int

record oidc_exchange_params =
  xp_code :: string
  xp_verifier :: string
  xp_redirect_uri :: string
  xp_nonce :: string
  xp_tenant_id :: "string option"

text \<open>
  The monotonic clock reads what the readings and sleeps before it make it read, so that a
  hypothesis may say that sleeping takes time. \<open>o_random n\<close> is \<open>RAND_bytes\<close> for that many bytes.
\<close>

record oidc_env = client_env +
  o_ed25519 :: "string \<Rightarrow> string \<Rightarrow> string \<Rightarrow> bool"
  o_sha256 :: "string \<Rightarrow> string option"
  o_random :: "nat \<Rightarrow> nat \<Rightarrow> string option"
  o_now_ms :: "nat \<Rightarrow> int list \<Rightarrow> int"

record oidc_client = client +
  oidc_config :: "oidc_configuration option"
  oidc_config_expires_at :: int
  jwks_verifier :: verifier

type_synonym ('w, 'a) oop = "('w oidc_client_scheme, 'a) op"

section \<open>Forms\<close>

definition pct :: "string \<Rightarrow> string" where
  "pct s = concat (map (\<lambda>c. if is_upper c \<or> is_lower c \<or> is_digit c \<or> c \<in> {CHR ''-'', CHR ''.'', CHR ''_'', CHR ''~''}
     then [c] else [CHR ''%'', hex_upper (code c div 16), hex_upper (code c mod 16)]) s)"

lemma pct_url_encode: "pct s = url_encode s"
proof -
  have "(is_upper c \<or> is_lower c \<or> is_digit c \<or> c \<in> {CHR ''-'', CHR ''.'', CHR ''_'', CHR ''~''}) = unreserved c" for c
    by (auto simp: unreserved_def)
  then show ?thesis by (simp only: pct_def url_encode_def encode_char_def [abs_def])
qed

text \<open>\<open>Form::add\<close>: an empty or absent value is omitted.\<close>

definition form_add :: "string \<Rightarrow> string \<Rightarrow> string \<Rightarrow> string" where
  "form_add k v body =
     (if v = [] then body else (if body = [] then [] else body @ ''&'') @ pct k @ ''='' @ pct v)"

definition form_add_opt :: "string \<Rightarrow> string option \<Rightarrow> string \<Rightarrow> string" where
  "form_add_opt k v body = (case v of None \<Rightarrow> body | Some x \<Rightarrow> form_add k x body)"

type_synonym fields = "(string \<times> string option) list"

definition form_str :: "fields \<Rightarrow> string" where
  "form_str fs = fold (\<lambda>(k, v). form_add_opt k v) fs []"

section \<open>Endpoints\<close>

definition scheme_of :: "string \<Rightarrow> string" where
  "scheme_of url =
     (case cut_str ''://'' url of None \<Rightarrow> [] | Some (b, _) \<Rightarrow> lower b)"

definition assert_usable_mtls_alias :: "string \<Rightarrow> string \<Rightarrow> unit res" where
  "assert_usable_mtls_alias al replaces =
     (let sch = scheme_of al in
      if sch = [] \<or> length al \<le> length sch + 3
      then Inl (AuthError (''mtls_endpoint_aliases publishes '' @ al @ '', which is not an absolute URL''))
      else if scheme_of replaces = ''https'' \<and> sch \<noteq> ''https''
      then Inl (AuthError (''mtls_endpoint_aliases publishes '' @ al @ '', a downgrade of an https endpoint''))
      else Inr ())"

definition preferred_endpoint ::
    "'w client_scheme \<Rightarrow> oidc_configuration \<Rightarrow> (mtls_aliases \<Rightarrow> string option) \<Rightarrow> string option \<Rightarrow> string option res" where
  "preferred_endpoint s cfg pick dflt =
     (case (presents_client_certificate s, oc_aliases cfg) of
        (True, Some a) \<Rightarrow>
          (case pick a of
             Some al \<Rightarrow>
               (if al = [] then Inr dflt
                else and_then (assert_usable_mtls_alias al (case dflt of None \<Rightarrow> [] | Some t \<Rightarrow> t)) (\<lambda>_. Inr (Some al)))
           | None \<Rightarrow> Inr dflt)
      | _ \<Rightarrow> Inr dflt)"

definition preferred_endpoint_always ::
    "'w client_scheme \<Rightarrow> oidc_configuration \<Rightarrow> (mtls_aliases \<Rightarrow> string option) \<Rightarrow> string \<Rightarrow> string res" where
  "preferred_endpoint_always s cfg pick dflt =
     (case (presents_client_certificate s, oc_aliases cfg) of
        (True, Some a) \<Rightarrow>
          (case pick a of
             Some al \<Rightarrow> (if al = [] then Inr dflt else and_then (assert_usable_mtls_alias al dflt) (\<lambda>_. Inr al))
           | None \<Rightarrow> Inr dflt)
      | _ \<Rightarrow> Inr dflt)"

section \<open>Reading members\<close>

definition opt_string :: "json \<Rightarrow> string \<Rightarrow> string option" where
  "opt_string j k =
     (case jfind j k of Some (JStr v) \<Rightarrow> (if v = [] then None else Some v) | _ \<Rightarrow> None)"

definition string_list :: "json \<Rightarrow> string \<Rightarrow> string list" where
  "string_list j k =
     (case jfind j k of Some (JStr v) \<Rightarrow> [v] | Some (JArr xs) \<Rightarrow> str_items xs | _ \<Rightarrow> [])"

definition opt_int :: "json \<Rightarrow> string \<Rightarrow> int option res" where
  "opt_int j k =
     (case jfind j k of
        Some v \<Rightarrow> (if is_number v then and_then (get_int64 v) (\<lambda>n. Inr (Some n)) else Inr None)
      | None \<Rightarrow> Inr None)"

definition int_or :: "json \<Rightarrow> string \<Rightarrow> int \<Rightarrow> int res" where
  "int_or j k d = and_then (opt_int j k) (\<lambda>n. Inr (case n of None \<Rightarrow> d | Some i \<Rightarrow> i))"

definition bool_member :: "json \<Rightarrow> string \<Rightarrow> bool option" where
  "bool_member j k = (case jfind j k of Some (JBool b) \<Rightarrow> Some b | _ \<Rightarrow> None)"

section \<open>Randomness and digests\<close>

definition draw :: "oidc_env \<Rightarrow> nat \<Rightarrow> string \<Rightarrow> ('w, string) cop" where
  "draw E n what =
     seq (reading (\<lambda>s. (o_random E n (ticks s), s\<lparr>ticks := Suc (ticks s)\<rparr>))) (\<lambda>r. case r of
       None \<Rightarrow> raise (NetworkError what ''rand_failure'')
     | Some bytes \<Rightarrow> ret bytes)"

definition random_b64url :: "oidc_env \<Rightarrow> ('w, string) cop" where
  "random_b64url E =
     seq (draw E 32 ''oidc_begin: could not draw cryptographic randomness'') (\<lambda>raw. ret (b64url_encode raw))"

definition s256_challenge :: "oidc_env \<Rightarrow> string \<Rightarrow> string res" where
  "s256_challenge E v =
     (case o_sha256 E v of
        None \<Rightarrow> Inl (NetworkError ''oidc_begin: digest failed'' ''digest'')
      | Some d \<Rightarrow> Inr (b64url_encode d))"

definition digest_hex :: "oidc_env \<Rightarrow> string \<Rightarrow> string res" where
  "digest_hex E s =
     (case o_sha256 E s of
        None \<Rightarrow> Inl (NetworkError ''oidc_refresh: digest failed'' ''digest'')
      | Some d \<Rightarrow> Inr (to_hex d))"

section \<open>Errors of the token endpoint\<close>

definition retry_hint :: "'e client_env_scheme \<Rightarrow> http_response \<Rightarrow> ('w, int option) cop" where
  "retry_hint E resp = wait_hint E (Inr resp)"

definition http_category :: "int \<Rightarrow> string" where
  "http_category st = ''http_'' @ dec_int st"

definition status_error :: "string \<Rightarrow> int \<Rightarrow> error" where
  "status_error context st = NetworkError (context @ '' (HTTP '' @ dec_int st @ '')'') (http_category st)"

definition raise_grant_error :: "'e client_env_scheme \<Rightarrow> http_response \<Rightarrow> string \<Rightarrow> ('w, 'a) cop" where
  "raise_grant_error E resp context =
     (let st = status resp; j = parse_or_object (env_parse E) (resp_body resp) in
      if 300 \<le> st \<and> st < 400 then raise (status_error context st)
      else case opt_string j ''error'' of
        Some c \<Rightarrow>
          (let desc = opt_string j ''error_description'';
               message = (case desc of Some d \<Rightarrow> c @ '': '' @ d | None \<Rightarrow> c @ '' ('' @ context @ '')'')
           in seq (retry_hint E resp) (\<lambda>ra. raise (OAuthProtocolError message c desc ra (Some st))))
      | None \<Rightarrow>
          if st = 401 then raise (AuthError context)
          else if st = 403 \<or> st = 409 then raise (AuthzError context None None)
          else raise (status_error context st))"

section \<open>Logout URL\<close>

definition question :: "string \<Rightarrow> string" where
  "question url = (if CHR ''?'' \<in> set url then ''&'' else ''?'')"

definition logout_url :: "oidc_configuration \<Rightarrow> string \<Rightarrow> string option \<Rightarrow> string option \<Rightarrow> string option" where
  "logout_url cfg id_token redirect state =
     (case oc_end_session cfg of
        None \<Rightarrow> None
      | Some u \<Rightarrow>
          (if u = [] \<or> id_token = [] then None
           else Some (u @ question u @ form_str [(''id_token_hint'', Some id_token),
                  (''post_logout_redirect_uri'', redirect), (''state'', state)])))"

section \<open>Configuration the operations require\<close>

definition require_client_id :: "'w client_scheme \<Rightarrow> string \<Rightarrow> string res" where
  "require_client_id s operation =
     (case oidc_client_id s of
        Some (c # cs) \<Rightarrow> Inr (c # cs)
      | _ \<Rightarrow> Inl (AuthError (operation @ '' requires an OIDC client_id; set it on the builder'')))"

definition require_client_secret :: "'w client_scheme \<Rightarrow> string \<Rightarrow> string res" where
  "require_client_secret s operation =
     (case oidc_client_secret s of
        Some (c # cs) \<Rightarrow> Inr (c # cs)
      | _ \<Rightarrow> Inl (AuthError (operation @ '' is a confidential-client operation and requires an OIDC client_secret'')))"

definition tenant_for :: "'w client_scheme \<Rightarrow> string option \<Rightarrow> string" where
  "tenant_for s explicit_id =
     (case explicit_id of
        Some (c # cs) \<Rightarrow> c # cs
      | _ \<Rightarrow> (case c_tenant_id s of Some t \<Rightarrow> t | None \<Rightarrow> []))"

definition require_tenant_uuid :: "'w client_scheme \<Rightarrow> string option \<Rightarrow> string \<Rightarrow> string res" where
  "require_tenant_uuid s explicit_id operation =
     (if looks_like_uuid (tenant_for s explicit_id) then Inr (tenant_for s explicit_id)
      else Inl (AuthError (operation @ '' requires a tenant_id UUID for the /oauth2 query parameter'')))"

definition from_state :: "('s \<Rightarrow> 'a res) \<Rightarrow> ('s, 'a) op" where
  "from_state f = (\<lambda>s. (f s, s))"

section \<open>Discovery\<close>

definition oidc_discovery_request :: "'w client_scheme \<Rightarrow> http_request" where
  "oidc_discovery_request s = blank_request\<lparr>req_method := ''GET'',
     req_url := base_url s @ ''/.well-known/openid-configuration'',
     req_headers := hset ''Accept'' json_type (hset ''X-Tenant-ID'' (tenant_header s) no_headers)\<rparr>"

definition aliases_of :: "json \<Rightarrow> mtls_aliases option" where
  "aliases_of j =
     (case jfind j ''mtls_endpoint_aliases'' of
        Some a \<Rightarrow>
          (if is_object a
           then Some \<lparr>ma_token = opt_string a ''token_endpoint'', ma_userinfo = opt_string a ''userinfo_endpoint'',
                  ma_revocation = opt_string a ''revocation_endpoint'',
                  ma_introspection = opt_string a ''introspection_endpoint'',
                  ma_device_authorization = opt_string a ''device_authorization_endpoint'',
                  ma_par = opt_string a ''pushed_authorization_request_endpoint'',
                  ma_backchannel = opt_string a ''backchannel_authentication_endpoint''\<rparr>
           else None)
      | None \<Rightarrow> None)"

definition optional_members :: "json \<Rightarrow> string \<Rightarrow> string \<Rightarrow> string \<Rightarrow> string \<Rightarrow> oidc_configuration" where
  "optional_members j iss authz tok jwks =
     \<lparr>oc_issuer = iss, oc_authorization = authz, oc_token = tok, oc_jwks_uri = jwks,
      oc_userinfo = opt_string j ''userinfo_endpoint'',
      oc_introspection = opt_string j ''introspection_endpoint'',
      oc_revocation = opt_string j ''revocation_endpoint'',
      oc_end_session = opt_string j ''end_session_endpoint'',
      oc_device_authorization = opt_string j ''device_authorization_endpoint'',
      oc_par = opt_string j ''pushed_authorization_request_endpoint'',
      oc_backchannel = opt_string j ''backchannel_authentication_endpoint'',
      oc_delivery_modes = string_list j ''backchannel_token_delivery_modes_supported'',
      oc_request_algs = string_list j ''backchannel_authentication_request_signing_alg_values_supported'',
      oc_user_code = bool_member j ''backchannel_user_code_parameter_supported'',
      oc_scopes = string_list j ''scopes_supported'',
      oc_response_types = string_list j ''response_types_supported'',
      oc_id_token_algs = string_list j ''id_token_signing_alg_values_supported'',
      oc_challenge_methods = string_list j ''code_challenge_methods_supported'',
      oc_auth_algs = string_list j ''token_endpoint_auth_signing_alg_values_supported'',
      oc_revocation_methods = string_list j ''revocation_endpoint_auth_methods_supported'',
      oc_revocation_algs = string_list j ''revocation_endpoint_auth_signing_alg_values_supported'',
      oc_introspection_methods = string_list j ''introspection_endpoint_auth_methods_supported'',
      oc_introspection_algs = string_list j ''introspection_endpoint_auth_signing_alg_values_supported'',
      oc_aliases = aliases_of j\<rparr>"

definition configuration_of :: "json \<Rightarrow> oidc_configuration res" where
  "configuration_of j =
     and_then (jvalue get_str j ''issuer'' []) (\<lambda>iss.
     and_then (jvalue get_str j ''authorization_endpoint'' []) (\<lambda>authz.
     and_then (jvalue get_str j ''token_endpoint'' []) (\<lambda>tok.
     and_then (jvalue get_str j ''jwks_uri'' []) (\<lambda>jwks.
     and_then (ensure (iss \<noteq> [] \<and> authz \<noteq> [] \<and> tok \<noteq> [] \<and> jwks \<noteq> [])
       (NetworkError ''oidc discovery: missing issuer / authorization_endpoint / token_endpoint / jwks_uri''
          ''malformed_body'')) (\<lambda>_.
     Inr (optional_members j iss authz tok jwks))))))"

definition cached_config :: "oidc_env \<Rightarrow> ('w, oidc_configuration option) oop" where
  "cached_config E =
     seq (gets oidc_config) (\<lambda>c. case c of
       None \<Rightarrow> ret None
     | Some cfg \<Rightarrow>
         seq (reading (steady_now E)) (\<lambda>now.
         seq (gets oidc_config_expires_at) (\<lambda>until. ret (if now < until then Some cfg else None))))"

definition fetch_config :: "oidc_env \<Rightarrow> ('w, oidc_configuration) oop" where
  "fetch_config E =
     seq (seq (gets oidc_discovery_request) (send_raw E)) (\<lambda>resp.
     seq (require (is_success (status resp)) (status_error ''oidc discovery failed'' (status resp))) (\<lambda>_.
     lift_res (configuration_of (parse_or_object (env_parse E) (resp_body resp)))))"

definition store_config :: "oidc_env \<Rightarrow> oidc_configuration \<Rightarrow> ('w, oidc_configuration) oop" where
  "store_config E cfg =
     seq (reading (steady_now E)) (\<lambda>now.
     seq (modify (\<lambda>s. s\<lparr>oidc_config := Some cfg, oidc_config_expires_at := now + ns (oidc_discovery_ttl s)\<rparr>)) (\<lambda>_.
     ret cfg))"

definition oidc_discover :: "oidc_env \<Rightarrow> ('w, oidc_configuration) oop" where
  "oidc_discover E =
     seq ensure_open (\<lambda>_.
     seq (cached_config E) (\<lambda>c. case c of
       Some cfg \<Rightarrow> ret cfg
     | None \<Rightarrow> seq (fetch_config E) (store_config E)))"

section \<open>The authorization request\<close>

definition kIdpHintMaxBytes :: nat where "kIdpHintMaxBytes = 256"

definition check_idp_hint :: "string option \<Rightarrow> string \<Rightarrow> unit res" where
  "check_idp_hint hint operation =
     (case hint of
        None \<Rightarrow> Inr ()
      | Some h \<Rightarrow>
          (if h = [] then Inl (InvalidArgument (operation @ '': idp_hint must not be empty''))
           else if kIdpHintMaxBytes < length h
           then Inl (InvalidArgument (operation @ '': idp_hint is longer than 256 bytes''))
           else Inr ()))"

definition with_openid :: "string \<Rightarrow> string" where
  "with_openid scopes =
     (if ''openid'' \<in> set (split_on (CHR '' '') scopes) then scopes
      else if scopes = [] then ''openid'' else ''openid '' @ scopes)"

definition authorization_fields ::
    "string \<Rightarrow> string \<Rightarrow> string \<Rightarrow> string \<Rightarrow> string \<Rightarrow> string \<Rightarrow> string option \<Rightarrow> fields" where
  "authorization_fields client_id redirect scopes state nonce challenge hint =
     [(''response_type'', Some ''code''), (''client_id'', Some client_id), (''redirect_uri'', Some redirect),
      (''scope'', Some scopes), (''state'', Some state), (''nonce'', Some nonce),
      (''code_challenge'', Some challenge), (''code_challenge_method'', Some ''S256''),
      (''axiam_idp_hint'', hint)]"

definition oidc_begin ::
    "oidc_env \<Rightarrow> oidc_configuration \<Rightarrow> string \<Rightarrow> string option \<Rightarrow> string option \<Rightarrow> ('w, authorization_request) cop" where
  "oidc_begin E cfg redirect scope hint =
     seq (lift_res (check_idp_hint hint ''oidc_begin'')) (\<lambda>_.
     seq (require (oc_authorization cfg \<noteq> [] \<and> redirect \<noteq> [])
       (NetworkError ''oidc_begin requires a discovery document and a redirect_uri'' ''invalid_argument'')) (\<lambda>_.
     seq (from_state (\<lambda>s. require_client_id s ''oidc_begin'')) (\<lambda>client_id.
     seq (random_b64url E) (\<lambda>state.
     seq (random_b64url E) (\<lambda>nonce.
     seq (random_b64url E) (\<lambda>verifier.
     seq (lift_res (s256_challenge E verifier)) (\<lambda>challenge.
     ret \<lparr>ar_url = oc_authorization cfg @ question (oc_authorization cfg) @
            form_str (authorization_fields client_id redirect
              (with_openid (case scope of None \<Rightarrow> [] | Some x \<Rightarrow> x)) state nonce challenge hint),
          ar_state = state, ar_nonce = nonce, ar_verifier = verifier\<rparr>)))))))"

section \<open>Identity tokens\<close>

definition audience_ok :: "string list \<Rightarrow> string option \<Rightarrow> string \<Rightarrow> bool" where
  "audience_ok aud azp client_id =
     (if client_id \<notin> set aud then False
      else if 1 < length aud then azp = Some client_id else True)"

definition oidc_fail :: "string \<Rightarrow> string \<Rightarrow> 'a res" where
  "oidc_fail msg r = Inl (OidcValidationError msg r)"

text \<open>Rule 5. The sum \<open>exp + skew\<close> is computed at 64 bits; past them the source is undefined.\<close>

definition check_times :: "int \<Rightarrow> int \<Rightarrow> json \<Rightarrow> (int \<times> int) res" where
  "check_times now skew j =
     and_then (opt_int j ''exp'') (\<lambda>e.
     and_then (opt_int j ''iat'') (\<lambda>i.
     case e of
       None \<Rightarrow> oidc_fail ''id_token has no usable exp claim'' ''token_expired''
     | Some expiry \<Rightarrow>
         and_then (ck64 (expiry + skew)) (\<lambda>limit.
         if limit < now then oidc_fail ''id_token has expired'' ''token_expired''
         else case i of
           None \<Rightarrow> oidc_fail ''id_token has no usable iat claim'' ''token_expired''
         | Some issued \<Rightarrow>
             if now + skew < issued then oidc_fail ''id_token was issued in the future'' ''token_expired''
             else if \<not> contains j ''nbf'' then Inr (expiry, issued)
             else and_then (opt_int j ''nbf'') (\<lambda>n. case n of
               None \<Rightarrow> oidc_fail ''id_token is not yet valid'' ''token_expired''
             | Some nbf \<Rightarrow>
                 if now + skew < nbf then oidc_fail ''id_token is not yet valid'' ''token_expired''
                 else Inr (expiry, issued)))))"

definition nonce_ok :: "json \<Rightarrow> string option \<Rightarrow> bool" where
  "nonce_ok j expected =
     (case expected of
        None \<Rightarrow> True
      | Some x \<Rightarrow> (case opt_string j ''nonce'' of None \<Rightarrow> False | Some n \<Rightarrow> constant_time_equal n x))"

definition judge_id_claims ::
    "string \<Rightarrow> oidc_configuration \<Rightarrow> string option \<Rightarrow> int \<Rightarrow> int \<Rightarrow> string \<Rightarrow> json \<Rightarrow> id_claims res" where
  "judge_id_claims client_id cfg expected now skew raw j =
     and_then (check_times now skew j) (\<lambda>times.
     and_then (if nonce_ok j expected then Inr ()
               else oidc_fail ''id_token nonce is absent or does not match the one oidc_begin produced'' ''nonce_mismatch'') (\<lambda>_.
     and_then (jvalue get_str j ''sub'' []) (\<lambda>sub.
     Inr \<lparr>ic_subject = sub, ic_issuer = oc_issuer cfg, ic_audience = string_list j ''aud'',
          ic_expires_at = fst times, ic_issued_at = snd times, ic_nonce = opt_string j ''nonce'',
          ic_azp = opt_string j ''azp'', ic_email = opt_string j ''email'',
          ic_username = opt_string j ''preferred_username'', ic_tenant = opt_string j ''tenant_id'',
          ic_roles = string_list j ''roles'', ic_raw = raw\<rparr>)))"

definition check_id_claims ::
    "oidc_env \<Rightarrow> oidc_configuration \<Rightarrow> string option \<Rightarrow> string \<Rightarrow> json \<Rightarrow> ('w, id_claims) cop" where
  "check_id_claims E cfg expected raw j =
     seq (from_state (\<lambda>s. require_client_id s ''oidc id_token validation'')) (\<lambda>client_id.
     seq (require (opt_string j ''iss'' = Some (oc_issuer cfg))
       (OidcValidationError ''id_token iss does not equal the discovery document's issuer'' ''invalid_issuer'')) (\<lambda>_.
     seq (require (audience_ok (string_list j ''aud'') (opt_string j ''azp'') client_id)
       (OidcValidationError ''id_token aud does not name this client'' ''invalid_audience'')) (\<lambda>_.
     seq (reading (wall_now E)) (\<lambda>now.
     from_state (\<lambda>s. judge_id_claims client_id cfg expected now (oidc_clock_skew s) raw j)))))"

definition run_verifier :: "oidc_env \<Rightarrow> string \<Rightarrow> ('w, jwt_verification) oop" where
  "run_verifier E jwt = (\<lambda>s.
     case verify_with_reason (env.truncate E) (o_ed25519 E) jwt (jwks_verifier s) (world.truncate s) of
       (r, v, w) \<Rightarrow> (r, s\<lparr>jwks_verifier := v, sent := sent w, ticks := ticks w\<rparr>))"

definition read_id_token ::
    "oidc_env \<Rightarrow> oidc_configuration \<Rightarrow> string option \<Rightarrow> string \<Rightarrow> ('w, id_claims) oop" where
  "read_id_token E cfg expected tok =
     seq (run_verifier E tok) (\<lambda>v. case v of
       Rejected r \<Rightarrow> raise (OidcValidationError ''id_token signature verification failed'' r)
     | Verified payload \<Rightarrow>
         let j = parse_or_object (env_parse E) payload in
         seq (require (is_object j)
           (OidcValidationError ''id_token payload is not a JSON object'' ''invalid_signature'')) (\<lambda>_.
         check_id_claims E cfg expected payload j))"

section \<open>The token endpoint\<close>

definition form_type :: string where "form_type = ''application/x-www-form-urlencoded''"

definition form_request :: "string \<Rightarrow> string \<Rightarrow> bool \<Rightarrow> 'w client_scheme \<Rightarrow> http_request" where
  "form_request url body again s = blank_request\<lparr>req_method := ''POST'', req_url := url,
     req_headers := hset ''Content-Type'' form_type
       (hset ''Accept'' json_type (hset ''X-Tenant-ID'' (tenant_header s) no_headers)),
     req_body := body, sessionless := True, replayable := again\<rparr>"

definition transport_status :: "http_response \<Rightarrow> int option" where
  "transport_status resp = (if transport_error resp = [] then Some (status resp) else None)"

definition now_ms :: "oidc_env \<Rightarrow> ('w, int) cop" where
  "now_ms E = reading (\<lambda>s. (o_now_ms E (ticks s) (waits s), s\<lparr>ticks := Suc (ticks s)\<rparr>))"

definition slept :: "int \<Rightarrow> ('w, unit) cop" where
  "slept d = modify (\<lambda>s. s\<lparr>waits := waits s @ [d]\<rparr>)"

definition expired_token :: error where
  "expired_token = OAuthProtocolError ''expired_token: the device grant expired before the user approved it''
     ''expired_token'' None None None"

definition within_deadline :: "oidc_env \<Rightarrow> int option \<Rightarrow> int \<Rightarrow> ('w, unit) cop" where
  "within_deadline E deadline d =
     (case deadline of
        None \<Rightarrow> ret ()
      | Some t \<Rightarrow> seq (now_ms E) (\<lambda>now. seq (lift_res (ck64 (now + d))) (\<lambda>due. require (due < t) expired_token)))"

text \<open>The wait before another attempt: the hint, the jitter, and the deadline before and after it.\<close>

definition drawn_delay :: "'e client_env_scheme \<Rightarrow> nat \<Rightarrow> http_response \<Rightarrow> ('w, int) cop" where
  "drawn_delay E attempt resp =
     seq (retry_hint E resp) (\<lambda>hint.
     seq (draw_jitter E) (\<lambda>fraction. ret (retry_delay (int attempt) hint fraction)))"

definition grant_pause :: "oidc_env \<Rightarrow> int option \<Rightarrow> nat \<Rightarrow> http_response \<Rightarrow> ('w, unit) cop" where
  "grant_pause E deadline attempt resp =
     seq (drawn_delay E attempt resp) (\<lambda>d.
     seq (within_deadline E deadline d) (\<lambda>_.
     seq (slept d) (\<lambda>_. within_deadline E deadline 0)))"

definition budget_of :: "bool \<Rightarrow> 'w client_scheme \<Rightarrow> nat" where
  "budget_of retryable s = (if retryable \<and> retry_enabled s then kRetryMaxAttempts else 1)"

definition form_send ::
    "oidc_env \<Rightarrow> bool \<Rightarrow> (http_response \<Rightarrow> bool) \<Rightarrow> int option \<Rightarrow> string \<Rightarrow> string \<Rightarrow> ('w, http_response) cop" where
  "form_send E retryable stop deadline url body =
     seq (gets (budget_of retryable)) (\<lambda>budget.
     seq (gets (form_request url body (1 < budget))) (\<lambda>req.
     retry_loop (\<lambda>_. call_transport E req)
       (\<lambda>resp. retry_should_retry (transport_status resp) \<and> \<not> stop resp)
       (grant_pause E deadline) (\<lambda>_. ret) budget 1))"

definition grant_outcome :: "oidc_env \<Rightarrow> bool \<Rightarrow> string \<Rightarrow> http_response \<Rightarrow> ('w, string) cop" where
  "grant_outcome E retryable context resp =
     seq (require (transport_error resp = [])
       (NetworkError (context @ '': '' @ transport_error resp) (transport_error resp))) (\<lambda>_.
     if is_success (status resp) then ret (resp_body resp)
     else if retryable \<and> 500 \<le> status resp then raise (status_error context (status resp))
     else if retryable \<and> status resp = 429
     then seq (retry_hint E resp) (\<lambda>ra.
          raise (OAuthProtocolError (''rate_limit_exceeded ('' @ context @ '')'') ''rate_limit_exceeded'' None ra (Some 429)))
     else raise_grant_error E resp context)"

definition rate_limited :: "http_response \<Rightarrow> bool" where
  "rate_limited resp = (transport_status resp = Some 429)"

definition token_grant ::
    "oidc_env \<Rightarrow> oidc_configuration \<Rightarrow> string \<Rightarrow> string \<Rightarrow> bool \<Rightarrow> string \<Rightarrow> int option \<Rightarrow> ('w, string) cop" where
  "token_grant E cfg tenant form retryable context deadline =
     seq (from_state (\<lambda>s. preferred_endpoint_always s cfg ma_token (oc_token cfg))) (\<lambda>endpoint.
     seq (form_send E retryable (\<lambda>resp. retryable \<and> rate_limited resp) deadline (with_tenant endpoint tenant) form)
       (grant_outcome E retryable context))"

definition finish_token_set :: "string \<Rightarrow> (string \<times> id_claims) option \<Rightarrow> json \<Rightarrow> token_set res" where
  "finish_token_set access identity j =
     and_then (int_or j ''expires_in'' 0) (\<lambda>x.
     Inr \<lparr>ts_access = access,
          ts_type = (case opt_string j ''token_type'' of None \<Rightarrow> ''Bearer'' | Some t \<Rightarrow> t),
          ts_expires_in = x, ts_scope = opt_string j ''scope'', ts_refresh = opt_string j ''refresh_token'',
          ts_id_token = map_option fst identity, ts_claims = map_option snd identity\<rparr>)"

definition parse_token_set ::
    "oidc_env \<Rightarrow> oidc_configuration \<Rightarrow> string option \<Rightarrow> string \<Rightarrow> ('w, token_set) oop" where
  "parse_token_set E cfg expected body =
     (let j = parse_or_object (env_parse E) body in
      case opt_string j ''access_token'' of
        None \<Rightarrow> raise (NetworkError ''malformed TokenResponse (missing access_token)'' ''malformed_body'')
      | Some access \<Rightarrow>
          seq (case opt_string j ''id_token'' of
                 None \<Rightarrow> ret None
               | Some tok \<Rightarrow> seq (read_id_token E cfg expected tok) (\<lambda>c. ret (Some (tok, c)))) (\<lambda>identity.
          lift_res (finish_token_set access identity j)))"

definition client_auth :: "'w client_scheme \<Rightarrow> string \<Rightarrow> fields" where
  "client_auth s client_id = [(''client_id'', Some client_id), (''client_secret'', oidc_client_secret s)]"

section \<open>The grants that take one request\<close>

definition check_exchange_params :: "oidc_exchange_params \<Rightarrow> unit res" where
  "check_exchange_params p =
     and_then (ensure (xp_code p \<noteq> [] \<and> xp_redirect_uri p \<noteq> [] \<and> xp_verifier p \<noteq> [])
       (AuthError ''oidc_exchange requires code, code_verifier and the same redirect_uri'')) (\<lambda>_.
     ensure (xp_nonce p \<noteq> []) (AuthError ''oidc_exchange requires the nonce oidc_begin produced''))"

definition exchange_fields :: "oidc_exchange_params \<Rightarrow> fields" where
  "exchange_fields p = [(''grant_type'', Some ''authorization_code''), (''code'', Some (xp_code p)),
     (''code_verifier'', Some (xp_verifier p)), (''redirect_uri'', Some (xp_redirect_uri p))]"

definition oidc_exchange :: "oidc_env \<Rightarrow> oidc_exchange_params \<Rightarrow> ('w, token_set) oop" where
  "oidc_exchange E p =
     seq ensure_open (\<lambda>_.
     seq (lift_res (check_exchange_params p)) (\<lambda>_.
     seq (from_state (\<lambda>s. require_client_id s ''oidc_exchange'')) (\<lambda>client_id.
     seq (from_state (\<lambda>s. require_tenant_uuid s (xp_tenant_id p) ''oidc_exchange'')) (\<lambda>tenant.
     seq (oidc_discover E) (\<lambda>cfg.
     seq (gets (\<lambda>s. form_str (exchange_fields p @ client_auth s client_id))) (\<lambda>form.
     seq (token_grant E cfg tenant form False ''oidc exchange failed'' None) (\<lambda>body.
     parse_token_set E cfg (Some (xp_nonce p)) body)))))))"

definition login_client_credentials ::
    "oidc_env \<Rightarrow> string option \<Rightarrow> string option \<Rightarrow> ('w, token_set) oop" where
  "login_client_credentials E scope tenant_id =
     seq ensure_open (\<lambda>_.
     seq (from_state (\<lambda>s. require_client_id s ''login_client_credentials'')) (\<lambda>client_id.
     seq (from_state (\<lambda>s. require_client_secret s ''login_client_credentials'')) (\<lambda>secret.
     seq (from_state (\<lambda>s. require_tenant_uuid s tenant_id ''login_client_credentials'')) (\<lambda>tenant.
     seq (oidc_discover E) (\<lambda>cfg.
     seq (token_grant E cfg tenant
            (form_str [(''grant_type'', Some ''client_credentials''), (''client_id'', Some client_id),
               (''client_secret'', Some secret), (''scope'', scope)])
            False ''client credentials login failed'' None) (\<lambda>body.
     parse_token_set E cfg None body))))))"

record provider_nonce =
  pn_raw :: string
  pn_hashed :: string

definition native_nonce :: "oidc_env \<Rightarrow> ('w, provider_nonce) cop" where
  "native_nonce E =
     seq (random_b64url E) (\<lambda>raw.
     seq (lift_res (digest_hex E raw)) (\<lambda>h. ret \<lparr>pn_raw = raw, pn_hashed = h\<rparr>))"

definition kProviderIdTokenGrantType :: string where
  "kProviderIdTokenGrantType = ''urn:axiam:params:oauth:grant-type:provider-id-token''"

definition check_provider_input :: "string \<Rightarrow> string \<Rightarrow> string \<Rightarrow> unit res" where
  "check_provider_input provider id_token nonce =
     and_then (ensure (provider \<noteq> []) (InvalidArgument ''login_with_provider_id_token: provider must not be empty'')) (\<lambda>_.
     and_then (ensure (id_token \<noteq> []) (InvalidArgument ''login_with_provider_id_token: id_token must not be empty'')) (\<lambda>_.
     ensure (nonce \<noteq> []) (InvalidArgument ''login_with_provider_id_token: nonce must not be empty'')))"

fun join_scopes :: "string list \<Rightarrow> string \<Rightarrow> string" where
  "join_scopes [] joined = joined"
| "join_scopes (s # ss) joined = join_scopes ss ((if joined = [] then [] else joined @ '' '') @ s)"

definition provider_fields :: "string \<Rightarrow> string \<Rightarrow> string \<Rightarrow> string list \<Rightarrow> string option \<Rightarrow> fields" where
  "provider_fields provider id_token nonce scopes resource =
     [(''provider'', Some provider), (''id_token'', Some id_token), (''nonce'', Some nonce),
      (''scope'', Some (join_scopes scopes [])), (''resource'', resource)]"

definition login_with_provider_id_token ::
    "oidc_env \<Rightarrow> string \<Rightarrow> string \<Rightarrow> string \<Rightarrow> string list \<Rightarrow> string option \<Rightarrow> string option \<Rightarrow> ('w, token_set) oop" where
  "login_with_provider_id_token E provider id_token nonce scopes resource tenant_id =
     seq ensure_open (\<lambda>_.
     seq (lift_res (check_provider_input provider id_token nonce)) (\<lambda>_.
     seq (from_state (\<lambda>s. require_client_id s ''login_with_provider_id_token'')) (\<lambda>client_id.
     seq (from_state (\<lambda>s. require_tenant_uuid s tenant_id ''login_with_provider_id_token'')) (\<lambda>tenant.
     seq (oidc_discover E) (\<lambda>cfg.
     seq (gets (\<lambda>s. form_str ((''grant_type'', Some kProviderIdTokenGrantType) # client_auth s client_id
            @ provider_fields provider id_token nonce scopes resource))) (\<lambda>form.
     seq (token_grant E cfg tenant form False ''provider id token sign-in failed'' None) (\<lambda>body.
     parse_token_set E cfg (Some nonce) body)))))))"

section \<open>Introspection and revocation\<close>

definition token_admin_call ::
    "oidc_env \<Rightarrow> string option \<Rightarrow> string \<Rightarrow> string \<Rightarrow> string option \<Rightarrow> string \<Rightarrow> string \<Rightarrow> bool \<Rightarrow> ('w, string) cop" where
  "token_admin_call E discovered fallback token hint tenant operation retryable =
     seq (require (token \<noteq> []) (AuthError (operation @ '' requires a token''))) (\<lambda>_.
     seq (from_state (\<lambda>s. require_client_id s operation)) (\<lambda>client_id.
     seq (from_state (\<lambda>s. require_client_secret s operation)) (\<lambda>secret.
     seq (gets (\<lambda>s. case discovered of Some (c # cs) \<Rightarrow> c # cs | _ \<Rightarrow> base_url s @ fallback)) (\<lambda>endpoint.
     seq (form_send E retryable (\<lambda>_. False) None (with_tenant endpoint tenant)
            (form_str [(''token'', Some token), (''token_type_hint'', hint), (''client_id'', Some client_id),
               (''client_secret'', Some secret)])) (\<lambda>resp.
     seq (require (transport_error resp = [])
       (NetworkError (operation @ '' failed: '' @ transport_error resp) (transport_error resp))) (\<lambda>_.
     if is_success (status resp) then ret (resp_body resp)
     else raise_grant_error E resp (operation @ '' failed'')))))))"

definition introspection_of :: "json \<Rightarrow> introspection res" where
  "introspection_of j =
     and_then (opt_int j ''exp'') (\<lambda>e.
     and_then (opt_int j ''iat'') (\<lambda>i.
     Inr \<lparr>in_active = (bool_member j ''active'' = Some True), in_scope = opt_string j ''scope'',
          in_client_id = opt_string j ''client_id'', in_username = opt_string j ''username'',
          in_token_type = opt_string j ''token_type'', in_subject = opt_string j ''sub'',
          in_audience = opt_string j ''aud'', in_issuer = opt_string j ''iss'',
          in_jwt_id = opt_string j ''jti'', in_expires_at = e, in_issued_at = i\<rparr>))"

definition introspect :: "oidc_env \<Rightarrow> string \<Rightarrow> string option \<Rightarrow> string option \<Rightarrow> ('w, introspection) oop" where
  "introspect E token hint tenant_id =
     seq ensure_open (\<lambda>_.
     seq (from_state (\<lambda>s. require_tenant_uuid s tenant_id ''introspect'')) (\<lambda>tenant.
     seq (oidc_discover E) (\<lambda>cfg.
     seq (from_state (\<lambda>s. preferred_endpoint s cfg ma_introspection (oc_introspection cfg))) (\<lambda>endpoint.
     seq (token_admin_call E endpoint ''/oauth2/introspect'' token hint tenant ''introspect'' True) (\<lambda>body.
     lift_res (introspection_of (parse_or_object (env_parse E) body)))))))"

definition revoke :: "oidc_env \<Rightarrow> string \<Rightarrow> string option \<Rightarrow> string option \<Rightarrow> ('w, unit) oop" where
  "revoke E token hint tenant_id =
     seq ensure_open (\<lambda>_.
     seq (from_state (\<lambda>s. require_tenant_uuid s tenant_id ''revoke'')) (\<lambda>tenant.
     seq (oidc_discover E) (\<lambda>cfg.
     seq (from_state (\<lambda>s. preferred_endpoint s cfg ma_revocation (oc_revocation cfg))) (\<lambda>endpoint.
     seq (token_admin_call E endpoint ''/oauth2/revoke'' token hint tenant ''revoke'' False) (\<lambda>_. ret ())))))"

section \<open>Logout tokens\<close>

definition kBackchannelLogoutEvent :: string where
  "kBackchannelLogoutEvent = ''http://schemas.openid.net/event/backchannel-logout''"

definition logout_event :: "json \<Rightarrow> bool" where
  "logout_event j =
     (case jfind j ''events'' of
        Some ev \<Rightarrow> (case jfind ev kBackchannelLogoutEvent of Some m \<Rightarrow> is_object m | None \<Rightarrow> False)
      | None \<Rightarrow> False)"

definition check_logout_expiry :: "json \<Rightarrow> int \<Rightarrow> int \<Rightarrow> unit res" where
  "check_logout_expiry j now skew =
     and_then (opt_int j ''exp'') (\<lambda>e. case e of
       None \<Rightarrow> Inl (AuthError ''logout token has expired or carries no usable exp'')
     | Some expiry \<Rightarrow>
         and_then (ck64 (expiry + skew)) (\<lambda>limit.
         ensure (now \<le> limit) (AuthError ''logout token has expired or carries no usable exp'')))"

definition logout_token_of :: "json \<Rightarrow> string \<Rightarrow> logout_token res" where
  "logout_token_of j iss =
     and_then (ensure (opt_string j ''sid'' \<noteq> None \<or> opt_string j ''sub'' \<noteq> None)
       (AuthError ''logout token names neither sid nor sub'')) (\<lambda>_.
     and_then (int_or j ''iat'' 0) (\<lambda>i.
     Inr \<lparr>lt_sid = opt_string j ''sid'', lt_subject = opt_string j ''sub'', lt_jwt_id = opt_string j ''jti'',
          lt_issuer = iss, lt_issued_at = i\<rparr>))"

definition judge_logout :: "oidc_env \<Rightarrow> string \<Rightarrow> json \<Rightarrow> ('w, logout_token) oop" where
  "judge_logout E client_id j =
     seq (oidc_discover E) (\<lambda>cfg.
     seq (require (opt_string j ''iss'' = Some (oc_issuer cfg))
       (AuthError ''logout token iss does not match the discovered issuer'')) (\<lambda>_.
     seq (require (client_id \<in> set (string_list j ''aud''))
       (AuthError ''logout token aud does not name this client'')) (\<lambda>_.
     seq (require (logout_event j) (AuthError ''logout token has no backchannel-logout events member'')) (\<lambda>_.
     seq (require (\<not> contains j ''nonce'') (AuthError ''logout token carries a nonce'')) (\<lambda>_.
     seq (reading (wall_now E)) (\<lambda>now.
     seq (from_state (\<lambda>s. check_logout_expiry j now (oidc_clock_skew s))) (\<lambda>_.
     lift_res (logout_token_of j (oc_issuer cfg)))))))))"

definition verify_logout_token :: "oidc_env \<Rightarrow> string \<Rightarrow> ('w, logout_token) oop" where
  "verify_logout_token E tok =
     seq ensure_open (\<lambda>_.
     seq (require (tok \<noteq> []) (AuthError ''verify_logout_token requires a token'')) (\<lambda>_.
     seq (from_state (\<lambda>s. require_client_id s ''verify_logout_token'')) (\<lambda>client_id.
     seq (run_verifier E tok) (\<lambda>v. case v of
       Rejected r \<Rightarrow> raise (OidcValidationError ''logout token signature verification failed'' r)
     | Verified payload \<Rightarrow>
         let j = parse_or_object (env_parse E) payload in
         seq (require (is_object j) (AuthError ''logout token payload is not a JSON object'')) (\<lambda>_.
         judge_logout E client_id j)))))"

section \<open>Nothing is adopted\<close>

text \<open>
  What every operation of this theory leaves alone: the configuration, the session and the
  identity it carries, the device credential, the acting tenant, the decision memo. Only the
  history, the clock and the caches of this component move, and the CSRF token, which any
  response may replace.
\<close>

definition unadopted :: "'w client_scheme \<Rightarrow> 'w client_scheme \<Rightarrow> bool" where
  "unadopted s t \<longleftrightarrow>
     same_config s t \<and> oidc_client_id t = oidc_client_id s \<and> oidc_client_secret t = oidc_client_secret s
     \<and> oidc_clock_skew t = oidc_clock_skew s \<and> oidc_discovery_ttl t = oidc_discovery_ttl s
     \<and> session t = session s \<and> resolved_tenant_id t = resolved_tenant_id s
     \<and> resolved_org_id t = resolved_org_id s \<and> login_user_info t = login_user_info s
     \<and> device_access t = device_access s \<and> device_session t = device_session s
     \<and> c_principal_tenant_id t = c_principal_tenant_id s \<and> decision_cache t = decision_cache s
     \<and> is_closed t = is_closed s \<and> transport_released t = transport_released s
     \<and> events t = events s \<and> refresh_count t = refresh_count s"

text \<open>
  Time only goes on: readings are counted up and waits added, each satisfying \<open>W\<close>. With it,
  \<open>calm\<close> says that nothing is adopted while every request sent satisfies \<open>Q\<close>.
\<close>

definition later :: "(int \<Rightarrow> bool) \<Rightarrow> 'w client_scheme \<Rightarrow> 'w client_scheme \<Rightarrow> bool" where
  "later W s t \<longleftrightarrow> ticks s \<le> ticks t \<and> (\<exists>ws. waits t = waits s @ ws \<and> list_all W ws)"

definition calm :: "(http_request \<Rightarrow> bool) \<Rightarrow> (int \<Rightarrow> bool) \<Rightarrow> 'w client_scheme \<Rightarrow> 'w client_scheme \<Rightarrow> bool" where
  "calm Q W s t \<longleftrightarrow> unadopted s t \<and> later W s t \<and> (\<exists>xs. sent t = sent s @ xs \<and> list_all Q xs)"

lemma later_refl: "later W s s"
  by (simp add: later_def)

lemma later_trans: "later W s t \<Longrightarrow> later W t u \<Longrightarrow> later W s u"
  by (fastforce simp: later_def)

lemma unadopted_refl: "unadopted s s"
  by (simp add: unadopted_def same_config_def)

lemma unadopted_trans: "unadopted s t \<Longrightarrow> unadopted t u \<Longrightarrow> unadopted s u"
  by (simp add: unadopted_def same_config_def)

interpretation calm: kept "calm Q W" for Q W
proof
  fix s :: "'w client_scheme"
  show "calm Q W s s" by (simp add: calm_def unadopted_refl later_refl)
next
  fix s t u :: "'w client_scheme"
  assume a: "calm Q W s t" and b: "calm Q W t u"
  from a obtain xs where "sent t = sent s @ xs" "list_all Q xs" by (auto simp: calm_def)
  moreover from b obtain ys where "sent u = sent t @ ys" "list_all Q ys" by (auto simp: calm_def)
  ultimately have "\<exists>xs. sent u = sent s @ xs \<and> list_all Q xs" by (intro exI[of _ "xs @ ys"]) simp
  with a b show "calm Q W s u" using unadopted_trans later_trans by (auto simp: calm_def)
qed

lemma calm_quiet: "unadopted s t \<Longrightarrow> later W s t \<Longrightarrow> sent t = sent s \<Longrightarrow> calm Q W s t"
  by (simp add: calm_def)

named_theorems calm_intros \<open>operations that adopt nothing\<close>

lemmas [calm_intros] = calm.pure calm.seq calm.branch calm.on_option calm.catching

lemma calm_state [calm_intros]: "keeps (calm Q W) (from_state f)"
  by (rule keepsI) (simp add: from_state_def calm.refl)

lemma calm_let [calm_intros]: "keeps (calm Q W) (f x) \<Longrightarrow> keeps (calm Q W) (let y = x in f y)"
  by simp

lemma calm_verdict [calm_intros]:
  "(\<And>r. keeps (calm Q W) (f r)) \<Longrightarrow> (\<And>p. keeps (calm Q W) (g p)) \<Longrightarrow>
     keeps (calm Q W) (case v of Rejected r \<Rightarrow> f r | Verified p \<Rightarrow> g p)"
  by (cases v) auto

lemma calm_open [calm_intros]: "keeps (calm Q W) ensure_open"
  unfolding ensure_open_def by (intro calm_intros)

lemma calm_transport: "Q req \<Longrightarrow> keeps (calm Q W) (call_transport E req)"
  by (rule keepsI) (simp add: call_transport_def transmit_def calm_def unadopted_def same_config_def later_def)

lemma calm_capture: "calm Q W s (capture_csrf r s)"
  by (rule calm_quiet) (simp_all add: unadopted_def same_config_def capture_csrf_def later_def split: option.split)

lemma calm_send: "Q req \<Longrightarrow> keeps (calm Q W) (send_raw E req)"
  unfolding send_raw_def by (intro calm_intros calm.step calm_transport calm_capture)

lemma calm_send_built:
  assumes "\<And>s. Q (f s)"
  shows "keeps (calm Q W) (seq (gets f) (send_raw E))"
proof (rule keepsI)
  fix s
  show "calm Q W s (snd (seq (gets f) (send_raw E) s))"
    using keepsD[OF calm_send[where Q = Q and W = W and req = "f s" and E = E, OF assms]] by (simp add: seq_run op_runs)
qed

lemma calm_clock [calm_intros]:
  "keeps (calm Q W) (reading (steady_now E))" "keeps (calm Q W) (reading (wall_now E))" "keeps (calm Q W) (now_ms E')"
  unfolding now_ms_def
  by (auto intro!: calm.read_step calm_quiet simp: steady_now_def wall_now_def unadopted_def same_config_def later_def)

lemma calm_draw [calm_intros]: "keeps (calm Q W) (draw E n what)" "keeps (calm Q W) (draw_jitter E')"
  unfolding draw_def draw_jitter_def
  by (intro calm_intros calm.read_step calm_quiet; simp add: unadopted_def same_config_def later_def)+

lemma calm_random [calm_intros]: "keeps (calm Q W) (random_b64url E)"
  unfolding random_b64url_def by (intro calm_intros)

lemma calm_hint [calm_intros]: "keeps (calm Q W) (retry_hint E resp)"
  by (auto simp: retry_hint_def wait_hint_def intro!: calm_intros split: option.split)

lemma calm_grant_error [calm_intros]: "keeps (calm Q W) (raise_grant_error E resp context)"
  unfolding raise_grant_error_def by (intro calm_intros)

lemma calm_slept: "W d \<Longrightarrow> keeps (calm Q W) (slept d)"
  unfolding slept_def by (intro calm.step calm_quiet) (simp_all add: unadopted_def same_config_def later_def)

lemma calm_deadline [calm_intros]: "keeps (calm Q W) (within_deadline E deadline d)"
  unfolding within_deadline_def by (intro calm_intros)

lemma calm_delay [calm_intros]: "keeps (calm Q W) (drawn_delay E k resp)"
  unfolding drawn_delay_def by (intro calm_intros)

lemma calm_pause:
  assumes "\<And>d. 0 \<le> d \<Longrightarrow> W d"
  shows "keeps (calm Q W) (grant_pause E deadline k resp)"
proof (rule keepsI)
  fix s
  obtain h s1 where h: "retry_hint E resp s = (h, s1)" by fastforce
  have a: "calm Q W s s1" using keepsD[OF calm_hint[where Q = Q and W = W and E = E and resp = resp], of s] h by simp
  show "calm Q W s (snd (grant_pause E deadline k resp s))"
  proof (cases h)
    case (Inl e)
    with h a show ?thesis by (simp add: grant_pause_def drawn_delay_def seq_run)
  next
    case (Inr hint)
    obtain f s2 where f: "draw_jitter E s1 = (Inr f, s2)" by (simp add: draw_jitter_def op_runs)
    have b: "calm Q W s1 s2" using keepsD[OF calm_draw(2)[where Q = Q and W = W and E' = E], of s1] f by simp
    let ?d = "retry_delay (int k) hint f"
    have "0 \<le> ?d" using jittered_bounds(1)[of "int k" f] by (auto simp: retry_delay_def split: option.split)
    then have "keeps (calm Q W) (seq (within_deadline E deadline ?d) (\<lambda>_. seq (slept ?d) (\<lambda>_. within_deadline E deadline 0)))"
      by (intro calm_intros calm_slept assms)
    from keepsD[OF this, of s2] have "calm Q W s2 (snd (grant_pause E deadline k resp s))"
      by (simp add: grant_pause_def drawn_delay_def seq_run op_runs h Inr f)
    with a b show ?thesis using calm.trans by blast
  qed
qed

lemma calm_outcome [calm_intros]: "keeps (calm Q W) (grant_outcome E retryable context resp)"
  unfolding grant_outcome_def by (intro calm_intros)

lemma calm_form_send:
  assumes "\<And>b (s :: 'w client_scheme). Q (form_request url body b s)" and "\<And>d. 0 \<le> d \<Longrightarrow> W d"
  shows "keeps (calm Q W) (form_send E retryable stop deadline url body :: ('w, http_response) cop)"
proof (rule keepsI)
  fix s :: "'w client_scheme"
  have "keeps (calm Q W) (retry_loop (\<lambda>_. call_transport E req) g (grant_pause E deadline) (\<lambda>_. ret) n 1
      :: ('w, http_response) cop)" if "Q req" for req g n
    by (intro calm_intros calm.repeat calm_transport calm_pause assms(2) that)
  from keepsD[OF this[OF assms(1)], of s] show "calm Q W s (snd (form_send E retryable stop deadline url body s))"
    by (simp add: form_send_def seq_run op_runs)
qed

lemma ensure_keys_ticks: "ensure_keys E v w = (r, v', w') \<Longrightarrow> ticks w' = Suc (ticks w)"
  by (cases rule: ensure_keys_cases) auto

lemma lookup_key_ticks: "lookup_key E i v w = (r, v', w') \<Longrightarrow> ticks w \<le> ticks w'"
  by (cases rule: lookup_key_cases) (auto dest!: ensure_keys_ticks)

lemma verify_requests:
  assumes "verify_with_reason E ed jwt v w = (r, v', w')"
  shows "(\<exists>n\<le>2. sent w' = sent w @ replicate n (jwks_request v)) \<and> ticks w \<le> ticks w'"
  using assms
proof (cases rule: verify_cases)
  case refused
  then show ?thesis by (intro conjI exI[of _ 0]) simp_all
next
  case looked
  then show ?thesis using lookup_key_requests(2) lookup_key_ticks by blast
qed

text \<open>Whatever is asked of the requests, as long as those without a body satisfy it.\<close>

locale reads_allowed =
  fixes Q :: "http_request \<Rightarrow> bool"
  assumes bodiless: "req_body r = [] \<Longrightarrow> Q r"
begin

lemma calm_discover [calm_intros]: "keeps (calm Q W) (oidc_discover E)"
  unfolding oidc_discover_def cached_config_def fetch_config_def store_config_def
  by (intro calm_intros calm.step calm_quiet calm_send_built bodiless;
      simp add: oidc_discovery_request_def blank_request_def unadopted_def same_config_def later_def)

lemma calm_verifier [calm_intros]: "keeps (calm Q W) (run_verifier E tok)"
proof (rule keepsI)
  fix s :: "'a oidc_client_scheme"
  obtain r v w where v: "verify_with_reason (env.truncate E) (o_ed25519 E) tok (jwks_verifier s) (world.truncate s) = (r, v, w)"
    by (metis surj_pair)
  from verify_requests[OF v] obtain n where n: "sent w = sent s @ replicate n (jwks_request (jwks_verifier s))"
    "ticks s \<le> ticks w" by (auto simp: world.truncate_def)
  have "list_all Q (replicate n (jwks_request (jwks_verifier s)))"
    using bodiless by (simp add: list_all_iff jwks_request_def blank_request_def)
  with n show "calm Q W s (snd (run_verifier E tok s))"
    by (simp add: run_verifier_def v calm_def unadopted_def same_config_def later_def)
qed

lemma calm_token_set [calm_intros]: "keeps (calm Q W) (parse_token_set E cfg expected body)"
  unfolding parse_token_set_def read_id_token_def check_id_claims_def by (intro calm_intros)

lemma calm_grant:
  assumes "\<And>url b (s :: 'w client_scheme). Q (form_request url form b s)" and "\<And>d. 0 \<le> d \<Longrightarrow> W d"
  shows "keeps (calm Q W) (token_grant E cfg tenant form retryable what deadline :: ('w, string) cop)"
  unfolding token_grant_def by (intro calm_intros calm_form_send assms)

end

interpretation bodiless: reads_allowed "\<lambda>r. req_body r = []"
  by unfold_locales

interpretation any_request: reads_allowed "\<lambda>_. True"
  by unfold_locales simp

section \<open>At most one request carries a credential\<close>

text \<open>
  Every request without a body is a read (discovery, the key set); one with a body is a form
  posted without the session's cookies, headers or tenants, and not to be sent again.
\<close>

definition plain_form :: "http_request \<Rightarrow> bool" where
  "plain_form r \<longleftrightarrow>
     req_method r = ''POST'' \<and> sessionless r \<and> \<not> replayable r
     \<and> hget (req_headers r) ''Authorization'' = None \<and> hget (req_headers r) ''X-CSRF-Token'' = None
     \<and> hget (req_headers r) kActingTenantHeader = None"

definition spends_once :: "'w client_scheme \<Rightarrow> 'w client_scheme \<Rightarrow> bool" where
  "spends_once s t \<longleftrightarrow>
     unadopted s t \<and> (\<exists>xs. sent t = sent s @ xs \<and> length (filter (\<lambda>r. req_body r \<noteq> []) xs) \<le> 1
       \<and> list_all (\<lambda>r. req_body r = [] \<or> plain_form r) xs)"

definition once :: "('w, 'a) cop \<Rightarrow> bool" where
  "once m \<longleftrightarrow> (\<forall>s. spends_once s (snd (m s)))"

abbreviation reads_only :: "('w, 'a) cop \<Rightarrow> bool" where
  "reads_only m \<equiv> keeps (calm (\<lambda>r. req_body r = []) (\<lambda>_. True)) m"

lemma bodiless_filter: "list_all (\<lambda>r. req_body r = []) xs \<Longrightarrow> filter (\<lambda>r. req_body r \<noteq> []) xs = []"
  by (induction xs) auto

lemma once_before: "calm (\<lambda>r. req_body r = []) (\<lambda>_. True) s t \<Longrightarrow> spends_once t u \<Longrightarrow> spends_once s u"
proof -
  assume a: "calm (\<lambda>r. req_body r = []) (\<lambda>_. True) s t" and b: "spends_once t u"
  from a obtain xs where xs: "sent t = sent s @ xs" "list_all (\<lambda>r. req_body r = []) xs" by (auto simp: calm_def)
  from b obtain ys where ys: "sent u = sent t @ ys" "length (filter (\<lambda>r. req_body r \<noteq> []) ys) \<le> 1"
    "list_all (\<lambda>r. req_body r = [] \<or> plain_form r) ys" by (auto simp: spends_once_def)
  have "list_all (\<lambda>r. req_body r = [] \<or> plain_form r) (xs @ ys)"
    using xs(2) ys(3) by (auto simp: list_all_iff)
  moreover have "length (filter (\<lambda>r. req_body r \<noteq> []) (xs @ ys)) \<le> 1"
    using bodiless_filter[OF xs(2)] ys(2) by simp
  moreover have "unadopted s u" using a b unadopted_trans by (auto simp: calm_def spends_once_def)
  ultimately show "spends_once s u" using xs(1) ys(1) by (auto simp: spends_once_def)
qed

lemma once_after: "spends_once s t \<Longrightarrow> calm (\<lambda>r. req_body r = []) (\<lambda>_. True) t u \<Longrightarrow> spends_once s u"
proof -
  assume a: "spends_once s t" and b: "calm (\<lambda>r. req_body r = []) (\<lambda>_. True) t u"
  from b obtain ys where ys: "sent u = sent t @ ys" "list_all (\<lambda>r. req_body r = []) ys" by (auto simp: calm_def)
  from a obtain xs where xs: "sent t = sent s @ xs" "length (filter (\<lambda>r. req_body r \<noteq> []) xs) \<le> 1"
    "list_all (\<lambda>r. req_body r = [] \<or> plain_form r) xs" by (auto simp: spends_once_def)
  have "list_all (\<lambda>r. req_body r = [] \<or> plain_form r) (xs @ ys)"
    using xs(3) ys(2) by (auto simp: list_all_iff)
  moreover have "length (filter (\<lambda>r. req_body r \<noteq> []) (xs @ ys)) \<le> 1"
    using bodiless_filter[OF ys(2)] xs(2) by simp
  moreover have "unadopted s u" using a b unadopted_trans by (auto simp: calm_def spends_once_def)
  ultimately show "spends_once s u" using xs(1) ys(1) by (auto simp: spends_once_def)
qed

named_theorems once_intros \<open>operations that send one form at most\<close>

lemma once_calm: "calm (\<lambda>r. req_body r = []) (\<lambda>_. True) s t \<Longrightarrow> spends_once s t"
  by (fastforce simp: calm_def spends_once_def list_all_iff filter_empty_conv)

lemma once_reads: "reads_only m \<Longrightarrow> once m"
  by (simp add: once_def keeps_def once_calm)

lemma once_seq [once_intros]:
  assumes "reads_only m" "\<And>x. once (k x)"
  shows "once (seq m k)"
  unfolding once_def
proof
  fix s
  obtain r t where m: "m s = (r, t)" by fastforce
  have "calm (\<lambda>r. req_body r = []) (\<lambda>_. True) s t" using keeps_run[OF assms(1) m] .
  then show "spends_once s (snd (seq m k s))"
    using once_before[of s t] once_calm[of s t] assms(2) m
    by (cases r) (auto simp: op_simps once_def)
qed

lemma once_then:
  assumes "once m" "\<And>x. reads_only (k x)"
  shows "once (seq m k)"
  unfolding once_def
proof
  fix s
  obtain r t where m: "m s = (r, t)" by fastforce
  have "spends_once s t" using assms(1) m unfolding once_def by (metis snd_conv)
  then show "spends_once s (snd (seq m k s))"
    using once_after[of s t] assms(2) m by (cases r) (auto simp: op_simps keeps_def)
qed

lemma plain_form_request: "plain_form (form_request url body False s)"
  by (simp add: plain_form_def form_request_def blank_request_def kActingTenantHeader_def
      lower_def lower_char_def is_upper_def)

lemma once_transmit: "plain_form req \<Longrightarrow> once (call_transport E req)"
  by (auto simp: once_def spends_once_def call_transport_def transmit_def unadopted_def same_config_def)

lemma form_send_once: "form_send E False stop deadline url body s = call_transport E (form_request url body False s) s"
  by (simp add: form_send_def seq_run op_runs budget_of_def retry_loop.simps seq_laws)

lemma once_form_send: "once (form_send E False stop deadline url body)"
  unfolding once_def
proof
  fix s
  show "spends_once s (snd (form_send E False stop deadline url body s))"
    using once_transmit[OF plain_form_request, of E url body s] unfolding form_send_once once_def by blast
qed

lemma once_grant: "once (token_grant E cfg tenant form False context deadline)"
  unfolding token_grant_def by (intro once_intros once_then once_form_send calm_intros)

lemma once_admin: "once (token_admin_call E discovered fallback token hint tenant operation False)"
  unfolding token_admin_call_def by (intro once_intros once_then once_form_send calm_intros)

section \<open>Forms read back\<close>

definition supplied :: "fields \<Rightarrow> (string \<times> string) list" where
  "supplied fs = List.map_filter (\<lambda>(k, v). case v of Some (c # cs) \<Rightarrow> Some (k, c # cs) | _ \<Rightarrow> None) fs"

lemma supplied_simps [simp]:
  "supplied [] = []" "supplied ((k, None) # fs) = supplied fs" "supplied ((k, Some []) # fs) = supplied fs"
  "v \<noteq> [] \<Longrightarrow> supplied ((k, Some v) # fs) = (k, v) # supplied fs"
  by (auto simp: supplied_def List.map_filter_def split: list.splits)

definition read_field :: "string \<Rightarrow> string \<times> string" where
  "read_field p = (case cut (\<lambda>c. c = CHR ''='') p of
     Some (k, _, v) \<Rightarrow> (pct_decode k, pct_decode v) | None \<Rightarrow> (pct_decode p, []))"

definition form_pairs :: "string \<Rightarrow> (string \<times> string) list" where
  "form_pairs body = (if body = [] then [] else map read_field (split_on (CHR ''&'') body))"

definition show_field :: "string \<times> string \<Rightarrow> string" where
  "show_field kv = pct (fst kv) @ ''='' @ pct (snd kv)"

lemma pct_plain: "CHR ''='' \<notin> set (pct s)" "CHR ''&'' \<notin> set (pct s)"
  using url_encode_safe[of _ s] pct_safe_not by (auto simp: pct_url_encode)

lemma read_show_field: "read_field (show_field kv) = kv"
proof -
  have "cut (\<lambda>c. c = CHR ''='') (pct (fst kv) @ CHR ''='' # pct (snd kv)) = Some (pct (fst kv), CHR ''='', pct (snd kv))"
    by (rule cut_SomeI) (use pct_plain in auto)
  then show ?thesis by (simp add: read_field_def show_field_def pct_url_encode pct_decode_url_encode)
qed

lemma form_fold:
  "fold (\<lambda>(k, v). form_add_opt k v) fs b =
     join ''&'' ((if b = [] then [] else [b]) @ map show_field (supplied fs))"
proof (induction fs arbitrary: b)
  case Nil
  show ?case by simp
next
  case (Cons f fs)
  obtain k v where f: "f = (k, v)" by fastforce
  consider "v = None" | "v = Some []" | x where "v = Some x" "x \<noteq> []" by (cases v) auto
  then show ?case
  proof cases
    case 3
    let ?b = "form_add k x b"
    have b: "?b = (if b = [] then [] else b @ ''&'') @ show_field (k, x)" "?b \<noteq> []"
      using 3(2) by (simp_all add: form_add_def show_field_def)
    have "fold (\<lambda>(k, v). form_add_opt k v) (f # fs) b = fold (\<lambda>(k, v). form_add_opt k v) fs ?b"
      using 3 by (simp add: f form_add_opt_def[of k])
    also have "\<dots> = join ''&'' (?b # map show_field (supplied fs))" using Cons[of ?b] b(2) by simp
    also have "\<dots> = join ''&'' ((if b = [] then [] else [b]) @ map show_field (supplied (f # fs)))"
      using 3 b(1) by (cases "supplied fs") (simp_all add: f)
    finally show ?thesis .
  next
    case 1
    then show ?thesis using Cons by (simp add: f form_add_opt_def[of k])
  next
    case 2
    then show ?thesis using Cons by (simp add: f form_add_opt_def[of k] form_add_def)
  qed
qed

lemma form_str_join: "form_str fs = join ''&'' (map show_field (supplied fs))"
  by (simp add: form_str_def form_fold)

lemma form_pairs_str: "form_pairs (form_str fs) = supplied fs"
proof (cases "supplied fs")
  case Nil
  then show ?thesis by (simp add: form_str_join form_pairs_def)
next
  case (Cons f gs)
  have "CHR ''&'' \<notin> set (show_field kv)" for kv using pct_plain(2) by (auto simp: show_field_def)
  then have "split_on (CHR ''&'') (form_str fs) = map show_field (supplied fs)"
    unfolding form_str_join using Cons by (intro split_on_join) auto
  moreover have "form_str fs \<noteq> []"
    using Cons by (cases gs) (simp_all add: form_str_join show_field_def join_Cons)
  moreover have "map read_field (map show_field (supplied fs)) = supplied fs"
    by (simp add: read_show_field o_def)
  ultimately show ?thesis by (simp add: form_pairs_def)
qed

lemma with_openid_token: "''openid'' \<in> set (split_on (CHR '' '') (with_openid sc))"
proof -
  have "split_on (CHR '' '') (''openid'' @ CHR '' '' # sc) = ''openid'' # split_on (CHR '' '') sc"
    by (rule split_on_append_sep) simp
  then show ?thesis by (auto simp: with_openid_def split_on_no_sep)
qed

section \<open>Accepted identity tokens\<close>

text \<open>A token in compact form whose signature one of the verifier's keys accepts.\<close>

definition token_signed :: "oidc_env \<Rightarrow> verifier \<Rightarrow> string \<Rightarrow> string \<Rightarrow> bool" where
  "token_signed E v tok payload \<longleftrightarrow>
     (\<exists>h p sg hj i k key sig. tok = h @ ''.'' @ p @ ''.'' @ sg \<and> base64url_decode h = Some hj
        \<and> jvalue get_str (env_parse E hj) ''alg'' [] = Inr ''EdDSA''
        \<and> jvalue get_str (env_parse E hj) ''kid'' [] = Inr i \<and> keys v i = Some k
        \<and> base64url_decode (x_b64url k) = Some key \<and> base64url_decode sg = Some sig
        \<and> o_ed25519 E key (h @ ''.'' @ p) sig \<and> base64url_decode p = Some payload)"

lemma run_verifier_signed:
  assumes "run_verifier E tok s = (Inr (Verified payload), t)"
  shows "token_signed E (jwks_verifier t) tok payload \<and> unadopted s t"
proof -
  obtain v w where v: "verify_with_reason (env.truncate E) (o_ed25519 E) tok (jwks_verifier s) (world.truncate s)
      = (Inr (Verified payload), v, w)" and t: "t = s\<lparr>jwks_verifier := v, sent := sent w, ticks := ticks w\<rparr>"
    using assms by (auto simp: run_verifier_def split: prod.splits)
  have e: "env_parse (env.truncate E) = env_parse E" by (simp add: env.truncate_def)
  from jwt_accept_facts(1)[OF v] have "token_signed E v tok payload"
    unfolding token_signed_def e by blast
  with t show ?thesis by (simp add: unadopted_def same_config_def)
qed

lemma check_times_Inr:
  assumes "check_times now skew j = Inr (e, i)"
  shows "now \<le> e + skew \<and> i \<le> now + skew \<and> opt_int j ''exp'' = Inr (Some e) \<and> opt_int j ''iat'' = Inr (Some i)
    \<and> (\<not> contains j ''nbf'' \<or> (\<exists>n. opt_int j ''nbf'' = Inr (Some n) \<and> n \<le> now + skew))"
proof -
  from assms obtain e0 i0 where o: "opt_int j ''exp'' = Inr e0" "opt_int j ''iat'' = Inr i0"
    by (simp only: check_times_def and_then_eq_Inr) blast
  obtain e1 where e1: "e0 = Some e1" using assms o by (cases e0) (simp_all add: check_times_def oidc_fail_def)
  have f: "fits64 (e1 + skew)" "\<not> e1 + skew < now"
    using assms o e1 by (auto simp: check_times_def oidc_fail_def ck64_def split: if_splits)
  obtain i1 where i1: "i0 = Some i1"
    using assms o e1 f by (cases i0) (simp_all add: check_times_def oidc_fail_def ck64_def)
  have g: "\<not> now + skew < i1"
    using assms o e1 i1 f by (auto simp: check_times_def oidc_fail_def ck64_def split: if_splits)
  have r: "(if \<not> contains j ''nbf'' then Inr (e1, i1)
     else and_then (opt_int j ''nbf'') (\<lambda>n. case n of
               None \<Rightarrow> oidc_fail ''id_token is not yet valid'' ''token_expired''
             | Some nbf \<Rightarrow>
                 if now + skew < nbf then oidc_fail ''id_token is not yet valid'' ''token_expired''
                 else Inr (e1, i1))) = Inr (e, i)"
    using assms o e1 i1 f g by (simp add: check_times_def ck64_def)
  show ?thesis
  proof (cases "contains j ''nbf''")
    case False
    with r o e1 i1 f g show ?thesis by simp
  next
    case True
    with r obtain n where n: "opt_int j ''nbf'' = Inr n" by (auto simp: and_then_eq_Inr)
    with True r o e1 i1 f g show ?thesis by (cases n) (auto simp: oidc_fail_def split: if_splits)
  qed
qed

lemma judge_id_claims_Inr:
  assumes "judge_id_claims client_id cfg expected now skew raw j = Inr c"
  shows "check_times now skew j = Inr (ic_expires_at c, ic_issued_at c) \<and> nonce_ok j expected
    \<and> jvalue get_str j ''sub'' [] = Inr (ic_subject c) \<and> ic_issuer c = oc_issuer cfg
    \<and> ic_audience c = string_list j ''aud'' \<and> ic_nonce c = opt_string j ''nonce'' \<and> ic_azp c = opt_string j ''azp''
    \<and> ic_raw c = raw"
  using assms by (auto simp: judge_id_claims_def and_then_eq_Inr oidc_fail_def split: if_splits)

lemma nonce_ok_Some: "nonce_ok j (Some x) \<longleftrightarrow> opt_string j ''nonce'' = Some x"
  by (auto simp: nonce_ok_def constant_time_equal_iff split: option.split)

lemma check_id_claims_Inr:
  assumes "check_id_claims E cfg expected raw j s = (Inr c, t)"
  obtains client_id now where "require_client_id s ''oidc id_token validation'' = Inr client_id"
    "opt_string j ''iss'' = Some (oc_issuer cfg)"
    "audience_ok (string_list j ''aud'') (opt_string j ''azp'') client_id"
    "judge_id_claims client_id cfg expected now (oidc_clock_skew s) raw j = Inr c" "unadopted s t"
    "now = env_wall E (ticks s)" "jwks_verifier t = jwks_verifier s"
proof -
  have "keeps (calm (\<lambda>_. True) (\<lambda>_. True)) (check_id_claims E cfg expected raw j)"
    unfolding check_id_claims_def by (intro calm_intros)
  from keepsD[OF this, of s] assms have u: "unadopted s t" by (simp add: calm_def)
  obtain cid where c: "require_client_id s ''oidc id_token validation'' = Inr cid"
    using assms by (cases "require_client_id s ''oidc id_token validation''")
      (simp_all add: check_id_claims_def seq_run from_state_def)
  have i: "opt_string j ''iss'' = Some (oc_issuer cfg)"
    using assms c by (simp add: check_id_claims_def seq_run from_state_def op_runs split: if_splits)
  have a: "audience_ok (string_list j ''aud'') (opt_string j ''azp'') cid"
    using assms c i by (simp add: check_id_claims_def seq_run from_state_def op_runs split: if_splits)
  have "judge_id_claims cid cfg expected (env_wall E (ticks s)) (oidc_clock_skew s) raw j = Inr c"
    "t = s\<lparr>ticks := Suc (ticks s)\<rparr>"
    using assms c i a by (simp_all add: check_id_claims_def seq_run from_state_def op_runs wall_now_def)
  with that[OF c i a] u show thesis by simp
qed

text \<open>What an accepted identity token is known to satisfy.\<close>

definition id_token_sound ::
    "oidc_env \<Rightarrow> oidc_configuration \<Rightarrow> string option \<Rightarrow> 'w oidc_client_scheme \<Rightarrow> verifier \<Rightarrow> string \<Rightarrow> id_claims \<Rightarrow> bool" where
  "id_token_sound E cfg expected s v tok c \<longleftrightarrow>
     (\<exists>client_id now j. token_signed E v tok (ic_raw c)
        \<and> j = env_parse E (ic_raw c) \<and> is_object j
        \<and> oidc_client_id s = Some client_id \<and> client_id \<noteq> []
        \<and> opt_string j ''iss'' = Some (oc_issuer cfg) \<and> ic_issuer c = oc_issuer cfg
        \<and> client_id \<in> set (ic_audience c) \<and> (length (ic_audience c) \<le> 1 \<or> ic_azp c = Some client_id)
        \<and> opt_int j ''exp'' = Inr (Some (ic_expires_at c)) \<and> now \<le> ic_expires_at c + oidc_clock_skew s
        \<and> opt_int j ''iat'' = Inr (Some (ic_issued_at c)) \<and> ic_issued_at c \<le> now + oidc_clock_skew s
        \<and> (jfind j ''nbf'' = None \<or> (\<exists>n. opt_int j ''nbf'' = Inr (Some n) \<and> n \<le> now + oidc_clock_skew s))
        \<and> now \<in> range (env_wall E)
        \<and> expected \<in> {None, ic_nonce c} \<and> ic_nonce c = opt_string j ''nonce'')"

lemma require_client_id_Inr:
  "require_client_id s what = Inr c \<longleftrightarrow> oidc_client_id s = Some c \<and> c \<noteq> []"
  by (auto simp: require_client_id_def split: option.splits list.splits)

lemma read_id_token_Inr:
  assumes "read_id_token E cfg expected tok s = (Inr c, t)"
  shows "id_token_sound E cfg expected s (jwks_verifier t) tok c \<and> unadopted s t"
proof -
  obtain r s1 where r: "run_verifier E tok s = (r, s1)" by fastforce
  obtain payload where p: "r = Inr (Verified payload)"
    using assms r by (cases r; cases "projr r") (auto simp: read_id_token_def seq_run op_runs)
  have o: "is_object (parse_or_object (env_parse E) payload)"
    using assms r p by (simp add: read_id_token_def seq_run op_runs Let_def split: if_splits)
  have v: "run_verifier E tok s = (Inr (Verified payload), s1)" using r p by simp
  have c: "check_id_claims E cfg expected payload (parse_or_object (env_parse E) payload) s1 = (Inr c, t)"
    using assms r p o by (simp add: read_id_token_def seq_run op_runs Let_def)
  let ?j = "parse_or_object (env_parse E) payload"
  note sg = run_verifier_signed[OF v]
  from c obtain client_id now where k: "require_client_id s1 ''oidc id_token validation'' = Inr client_id"
    "opt_string ?j ''iss'' = Some (oc_issuer cfg)"
    "audience_ok (string_list ?j ''aud'') (opt_string ?j ''azp'') client_id"
    "judge_id_claims client_id cfg expected now (oidc_clock_skew s1) payload ?j = Inr c" "unadopted s1 t"
    "now = env_wall E (ticks s1)" "jwks_verifier t = jwks_verifier s1"
    by (rule check_id_claims_Inr)
  note jc = judge_id_claims_Inr[OF k(4)]
  have "?j = env_parse E payload"
    using k(2) by (auto simp: parse_or_object_def Let_def opt_string_def)
  moreover have "expected \<in> {None, ic_nonce c}"
    using jc by (cases expected) (auto simp: nonce_ok_Some)
  moreover have "oidc_client_id s1 = oidc_client_id s" "oidc_clock_skew s1 = oidc_clock_skew s"
    using sg by (simp_all add: unadopted_def)
  ultimately have "id_token_sound E cfg expected s (jwks_verifier t) tok c"
    unfolding id_token_sound_def
    using sg k(1,2,3,6,7) jc check_times_Inr[of now "oidc_clock_skew s1" ?j "ic_expires_at c" "ic_issued_at c"] o
    by (intro exI[of _ client_id] exI[of _ now] exI[of _ ?j])
      (auto simp: require_client_id_Inr audience_ok_def contains_def split: if_splits)
  with sg k(5) show ?thesis using unadopted_trans by blast
qed

lemma parse_token_set_identity:
  assumes "parse_token_set E cfg expected body s = (Inr ts, t)"
  shows "ts_id_token ts = opt_string (parse_or_object (env_parse E) body) ''id_token''
    \<and> (case ts_id_token ts of
         None \<Rightarrow> ts_claims ts = None
       | Some tok \<Rightarrow> \<exists>c. ts_claims ts = Some c \<and> id_token_sound E cfg expected s (jwks_verifier t) tok c)
    \<and> Some (ts_access ts) = opt_string (parse_or_object (env_parse E) body) ''access_token''"
proof -
  let ?j = "parse_or_object (env_parse E) body"
  obtain a where a: "opt_string ?j ''access_token'' = Some a"
    using assms by (cases "opt_string ?j ''access_token''") (simp_all add: parse_token_set_def Let_def op_runs)
  show ?thesis
  proof (cases "opt_string ?j ''id_token''")
    case None
    with assms a show ?thesis
      by (auto simp: parse_token_set_def Let_def seq_run op_runs finish_token_set_def and_then_eq_Inr)
  next
    case (Some tok)
    obtain r s1 where r: "read_id_token E cfg expected tok s = (r, s1)" by fastforce
    obtain c where c: "r = Inr c"
      using assms a Some r by (cases r) (simp_all add: parse_token_set_def Let_def seq_run op_runs)
    have f: "finish_token_set a (Some (tok, c)) ?j = Inr ts" "t = s1"
      using assms a Some r c by (simp_all add: parse_token_set_def Let_def seq_run op_runs)
    from f(1) have "ts_id_token ts = Some tok" "ts_claims ts = Some c" "ts_access ts = a"
      by (auto simp: finish_token_set_def and_then_eq_Inr)
    with read_id_token_Inr[OF r[unfolded c]] f(2) a Some show ?thesis by simp
  qed
qed

lemma token_grant_Inr:
  assumes "token_grant E cfg tenant form False what deadline s = (Inr body, t)"
  shows "\<exists>endpoint. preferred_endpoint_always s cfg ma_token (oc_token cfg) = Inr endpoint
    \<and> sent t = sent s @ [form_request (with_tenant endpoint tenant) form False s] \<and> unadopted s t"
proof -
  have u: "unadopted s t"
    using keepsD[OF any_request.calm_grant[where W = "\<lambda>_. True" and E = E and cfg = cfg and tenant = tenant and form = form and retryable = False and what = what and deadline = deadline], of s] assms
    by (simp add: calm_def)
  obtain ep where ep: "preferred_endpoint_always s cfg ma_token (oc_token cfg) = Inr ep"
    using assms by (cases "preferred_endpoint_always s cfg ma_token (oc_token cfg)")
      (simp_all add: token_grant_def seq_run from_state_def)
  let ?req = "form_request (with_tenant ep tenant) form False s"
  obtain r s1 where r: "call_transport E ?req s = (r, s1)" by fastforce
  obtain resp where resp: "r = Inr resp" using assms ep r
    by (cases r) (simp_all add: token_grant_def seq_run from_state_def form_send_once)
  have "sent s1 = sent s @ [?req]"
    using r resp by (auto simp: call_transport_def transmit_def split: if_splits)
  moreover have "grant_outcome E False what resp s1 = (Inr body, t)"
    using assms ep r resp by (simp add: token_grant_def seq_run from_state_def form_send_once)
  then have "t = s1"
  proof (cases "transport_error resp = [] \<and> is_success (status resp)")
    case False
    have "snd (raise_grant_error E resp what s1) = x \<Longrightarrow> fst (raise_grant_error E resp what s1) \<noteq> Inr y" for x y
      by (simp add: raise_grant_error_def Let_def seq_run op_runs split: option.split sum.split prod.split)
    then have "raise_grant_error E resp what s1 \<noteq> (Inr body, t)" by (metis fst_conv)
    with \<open>grant_outcome E False what resp s1 = (Inr body, t)\<close> False show ?thesis
      by (auto simp: grant_outcome_def seq_run op_runs split: if_splits)
  qed (simp add: grant_outcome_def seq_run op_runs)
  ultimately show ?thesis using ep u by simp
qed

lemma filter_all: "list_all (\<lambda>r. P r) xs \<Longrightarrow> filter (\<lambda>r. \<not> P r) xs = []"
  by (induction xs) auto

section \<open>A server to run against\<close>

definition demo_doc :: "(string \<times> json) list" where
  "demo_doc = [(''authorization_endpoint'', JStr ''https://id.example/authorize''), (''issuer'', JStr ''https://id.example''),
     (''jwks_uri'', JStr ''https://id.example/jwks''), (''token_endpoint'', JStr ''https://id.example/token'')]"

definition demo_oidc :: "json \<Rightarrow> oidc_env" where
  "demo_oidc claims =
     \<lparr>env_transport = (\<lambda>_ r. Inr (blank_response\<lparr>status := 200,
        resp_body := (if req_method r = ''GET'' then ''D'' else ''T'')\<rparr>)),
      env_steady = (\<lambda>_. 0), env_wall = (\<lambda>_. 50),
      env_parse = (\<lambda>x. if x = ''H'' then JObj [(''alg'', JStr ''EdDSA''), (''kid'', JStr ''k1'')]
        else if x = ''D'' then JObj demo_doc
        else if x = ''T'' then JObj [(''access_token'', JStr ''at''), (''id_token'', JStr demo_token)]
        else if x = ''P'' then claims else JDiscarded),
      env_dump = (\<lambda>_. Inr ''{}''), env_jitter = (\<lambda>_. (0, 0)), env_http_date = (\<lambda>_. None),
      o_ed25519 = (\<lambda>_ _ _. True), o_sha256 = (\<lambda>_. Some ''digest''), o_random = (\<lambda>n k. Some (replicate n (byte k))),
      o_now_ms = (\<lambda>n ws. sum_list ws)\<rparr>"

definition demo_rp :: oidc_client where
  "demo_rp = client.extend (demo_client\<lparr>oidc_client_id := Some ''app'',
       c_tenant_id := Some ''01234567-89ab-cdef-0123-456789abcdef''\<rparr>)
     \<lparr>oidc_config = None, oidc_config_expires_at = 0, jwks_verifier = demo_verifier'\<rparr>"

definition demo_exchange :: oidc_exchange_params where
  "demo_exchange = \<lparr>xp_code = ''c'', xp_verifier = ''v'', xp_redirect_uri = ''https://app/cb'', xp_nonce = ''n'', xp_tenant_id = None\<rparr>"

definition demo_id_claims :: json where
  "demo_id_claims = JObj [(''aud'', JStr ''app''), (''exp'', JInt 100), (''iat'', JInt 5), (''iss'', JStr ''https://id.example''),
     (''nonce'', JStr ''n''), (''sub'', JStr ''u'')]"

definition demo_logout_claims :: json where
  "demo_logout_claims = JObj [(''aud'', JStr ''app''), (''events'', JObj [(kBackchannelLogoutEvent, JObj [])]), (''exp'', JInt 100),
     (''iss'', JStr ''https://id.example''), (''sid'', JStr ''s1'')]"

lemma demo_run_verifier:
  assumes "jwks_verifier s = demo_verifier'"
  shows "run_verifier (demo_oidc claims) demo_token s = (Inr (Verified ''P''), s\<lparr>ticks := Suc (ticks s)\<rparr>)"
proof -
  let ?E = "env.truncate (demo_oidc claims)"
  have e: "env_parse ?E ''H'' = JObj [(''alg'', JStr ''EdDSA''), (''kid'', JStr ''k1'')]" "env_steady ?E n = 0" for n
    by (simp_all add: demo_oidc_def env.truncate_def)
  have hv: "jvalue get_str (JObj [(''alg'', JStr ''EdDSA''), (''kid'', JStr ''k1'')]) ''alg'' [] = Inr ''EdDSA''"
    "jvalue get_str (JObj [(''alg'', JStr ''EdDSA''), (''kid'', JStr ''k1'')]) ''kid'' [] = Inr ''k1''"
    by (simp_all add: jvalue_def)
  have v: "have_keys demo_verifier'" "fetched_at demo_verifier' = 0" "cache_ttl demo_verifier' = 300" "keys demo_verifier' ''k1'' = Some demo_jwk"
    by (simp_all add: demo_verifier'_def demo_verifier_def verifier_new_def)
  have l: "lookup_key ?E ''k1'' demo_verifier' w = (Inr (Some demo_jwk), demo_verifier', w\<lparr>ticks := Suc (ticks w)\<rparr>)" for w
    by (simp add: lookup_key_def ensure_keys_def steady_now_def e v ns_def)
  have o: "o_ed25519 (demo_oidc claims) = (\<lambda>_ _ _. True)" by (simp add: demo_oidc_def)
  have "verify_with_reason ?E (\<lambda>_ _ _. True) demo_token demo_verifier' w
      = (Inr (Verified ''P''), demo_verifier', w\<lparr>ticks := Suc (ticks w)\<rparr>)" for w
    unfolding verify_with_reason_def split_demo_token
    by (simp add: base64url_decode_encode e hv l demo_signature del: b64url_encode.simps)
  with assms show ?thesis by (simp add: run_verifier_def o world.truncate_def)
qed

definition demo_cfg :: oidc_configuration where
  "demo_cfg = optional_members (JObj demo_doc) ''https://id.example'' ''https://id.example/authorize''
     ''https://id.example/token'' ''https://id.example/jwks''"

definition demo_rp' :: "nat \<Rightarrow> oidc_client" where
  "demo_rp' n = demo_rp\<lparr>sent := [oidc_discovery_request demo_rp], ticks := n, oidc_config := Some demo_cfg,
     oidc_config_expires_at := 300 * 1000000000\<rparr>"

lemma demo_cfg_sel [simp]: "oc_issuer demo_cfg = ''https://id.example''" "oc_token demo_cfg = ''https://id.example/token''"
  by (simp_all add: demo_cfg_def optional_members_def)

lemma demo_rp_sel [simp]:
  "oidc_client_id demo_rp = Some ''app''" "jwks_verifier demo_rp = demo_verifier'" "oidc_clock_skew demo_rp = 60"
  "\<not> is_closed demo_rp" "\<not> transport_released demo_rp" "sent demo_rp = []" "ticks demo_rp = 0"
  "\<not> presents_client_certificate demo_rp" "oidc_discovery_ttl demo_rp = 300" "oidc_config demo_rp = None"
  "c_tenant_id demo_rp = Some ''01234567-89ab-cdef-0123-456789abcdef''"
  by (simp_all add: demo_rp_def demo_client_def client.defs)

lemma demo_discover:
  "oidc_discover (demo_oidc claims) (demo_rp\<lparr>ticks := n\<rparr>) = (Inr demo_cfg, demo_rp' (Suc n))"
proof -
  have m: "req_method (oidc_discovery_request s) = ''GET''" for s :: oidc_client
    by (simp add: oidc_discovery_request_def blank_request_def)
  have q: "oidc_discovery_request (demo_rp\<lparr>ticks := n\<rparr>) = oidc_discovery_request demo_rp"
    by (simp add: oidc_discovery_request_def)
  have net: "env_transport (demo_oidc claims) l (oidc_discovery_request demo_rp)
      = Inr (blank_response\<lparr>status := 200, resp_body := ''D''\<rparr>)" for l
    using m[of demo_rp] by (simp add: demo_oidc_def)
  have cfg: "configuration_of (JObj demo_doc) = Inr demo_cfg"
    by (simp add: configuration_of_def demo_cfg_def jvalue_def demo_doc_def)
  have "env_parse (demo_oidc claims) ''D'' = JObj demo_doc" "env_steady (demo_oidc claims) k = 0" for k
    by (simp_all add: demo_oidc_def)
  then show ?thesis
    by (simp add: oidc_discover_def cached_config_def fetch_config_def store_config_def ensure_open_def seq_run op_runs
        send_raw_def call_transport_def transmit_def q net is_success_def parse_or_object_def cfg steady_now_def
        blank_response_def capture_csrf_def no_headers_def hget_def demo_rp'_def ns_def)
qed

lemma demo_identity:
  assumes "jwks_verifier s = demo_verifier'" "oidc_client_id s = Some ''app''" "oidc_clock_skew s = 60"
  shows "\<exists>c. read_id_token (demo_oidc demo_id_claims) demo_cfg (Some ''n'') demo_token s
      = (Inr c, s\<lparr>ticks := Suc (Suc (ticks s))\<rparr>) \<and> ic_subject c = ''u''"
proof -
  have p: "parse_or_object (env_parse (demo_oidc demo_id_claims)) ''P'' = demo_id_claims" "is_object demo_id_claims"
    by (simp_all add: demo_oidc_def demo_id_claims_def parse_or_object_def)
  have i: "opt_string demo_id_claims ''iss'' = Some ''https://id.example''" "string_list demo_id_claims ''aud'' = [''app'']"
    "opt_string demo_id_claims ''nonce'' = Some ''n''" "jvalue get_str demo_id_claims ''sub'' [] = Inr ''u''"
    by (simp_all add: opt_string_def string_list_def demo_id_claims_def jvalue_def)
  have t: "check_times 50 60 demo_id_claims = Inr (100, 5)"
    by (simp add: check_times_def opt_int_def demo_id_claims_def contains_def ck64_def fits64_def)
  have w: "env_wall (demo_oidc demo_id_claims) k = 50" for k by (simp add: demo_oidc_def)
  show ?thesis
    using assms
    by (simp add: read_id_token_def seq_run demo_run_verifier op_runs p check_id_claims_def from_state_def
        require_client_id_def i audience_ok_def wall_now_def w judge_id_claims_def t nonce_ok_Some)
qed

lemma demo_token_set:
  assumes "jwks_verifier s = demo_verifier'" "oidc_client_id s = Some ''app''" "oidc_clock_skew s = 60"
  shows "\<exists>ts c. parse_token_set (demo_oidc demo_id_claims) demo_cfg (Some ''n'') ''T'' s
      = (Inr ts, s\<lparr>ticks := Suc (Suc (ticks s))\<rparr>) \<and> ts_id_token ts = Some demo_token \<and> ts_claims ts = Some c \<and> ic_subject c = ''u''"
proof -
  have p: "parse_or_object (env_parse (demo_oidc demo_id_claims)) ''T''
      = JObj [(''access_token'', JStr ''at''), (''id_token'', JStr demo_token)]"
    by (simp add: demo_oidc_def parse_or_object_def)
  have ne: "demo_token \<noteq> []" by (simp add: demo_token_def)
  from demo_identity[OF assms] obtain c where c: "read_id_token (demo_oidc demo_id_claims) demo_cfg (Some ''n'') demo_token s
      = (Inr c, s\<lparr>ticks := Suc (Suc (ticks s))\<rparr>)" "ic_subject c = ''u''" by blast
  show ?thesis
    using ne by (simp add: parse_token_set_def p opt_string_def seq_run c op_runs finish_token_set_def int_or_def opt_int_def
        split: list.split)
qed

lemma demo_exchanged:
  "\<exists>ts t c. oidc_exchange (demo_oidc demo_id_claims) demo_exchange demo_rp = (Inr ts, t)
     \<and> ts_id_token ts = Some demo_token \<and> ts_claims ts = Some c \<and> ic_subject c = ''u'' \<and> sent demo_rp = []"
proof -
  let ?E = "demo_oidc demo_id_claims"
  have z: "demo_rp\<lparr>ticks := 0\<rparr> = demo_rp" by (simp add: demo_rp_def demo_client_def client.defs)
  have d: "oidc_discover ?E demo_rp = (Inr demo_cfg, demo_rp' (Suc 0))"
    using demo_discover[of demo_id_claims 0] unfolding z by simp
  have u: "tenant_for demo_rp None = ''01234567-89ab-cdef-0123-456789abcdef''" by (simp add: tenant_for_def)
  have uu: "looks_like_uuid ''01234567-89ab-cdef-0123-456789abcdef''"
    by (simp add: looks_like_uuid_def is_hex_def is_digit_def)
  have x: "xp_nonce demo_exchange = ''n''" "xp_tenant_id demo_exchange = None" "check_exchange_params demo_exchange = Inr ()"
    by (simp_all add: demo_exchange_def check_exchange_params_def)
  have net: "env_transport ?E l (form_request url f b st) = Inr (blank_response\<lparr>status := 200, resp_body := ''T''\<rparr>)"
    for l url f b and st :: oidc_client
    by (simp add: demo_oidc_def form_request_def blank_request_def)
  have g: "token_grant ?E demo_cfg tn f False w None (demo_rp' (Suc 0))
      = (Inr ''T'', (demo_rp' (Suc 0))\<lparr>sent := sent (demo_rp' (Suc 0)) @ [form_request (with_tenant ''https://id.example/token'' tn) f False (demo_rp' (Suc 0))]\<rparr>)"
    for tn f w
    by (simp add: token_grant_def seq_run from_state_def preferred_endpoint_always_def demo_rp'_def form_send_once
        call_transport_def transmit_def net grant_outcome_def op_runs blank_response_def is_success_def)
  let ?tn = "''01234567-89ab-cdef-0123-456789abcdef''"
  let ?f = "form_str (exchange_fields demo_exchange @ client_auth (demo_rp' (Suc 0)) ''app'')"
  let ?s = "(demo_rp' (Suc 0))\<lparr>sent := sent (demo_rp' (Suc 0)) @
    [form_request (with_tenant ''https://id.example/token'' ?tn) ?f False (demo_rp' (Suc 0))]\<rparr>"
  have "jwks_verifier ?s = demo_verifier'" "oidc_client_id ?s = Some ''app''" "oidc_clock_skew ?s = 60"
    by (simp_all add: demo_rp'_def)
  from demo_token_set[OF this] obtain ts c where
    "parse_token_set ?E demo_cfg (Some ''n'') ''T'' ?s = (Inr ts, ?s\<lparr>ticks := Suc (Suc (ticks ?s))\<rparr>)"
    "ts_id_token ts = Some demo_token" "ts_claims ts = Some c" "ic_subject c = ''u''" by blast
  then show ?thesis
    by (simp add: oidc_exchange_def seq_run ensure_open_def op_runs x from_state_def require_client_id_def
        require_tenant_uuid_def u uu d g)
qed

section \<open>Properties\<close>

text \<open>
  C24. All or nothing. A token response that carries an identity token yields a token set only
  when the token is signed by a key of the verifier under EdDSA and its claims satisfy every
  rule: the discovery document's issuer exactly, this client among the audiences (and as the
  authorized party when there are several), expiry, issue and not-before times within the
  clock skew, and the expected nonce when there is one. Otherwise the access and refresh
  tokens of the same response are not returned either.
\<close>

theorem id_token_accept_sound:
  assumes "parse_token_set E cfg expected body s = (Inr ts, t)"
  shows "ts_id_token ts = opt_string (parse_or_object (env_parse E) body) ''id_token''
    \<and> (case ts_id_token ts of
         None \<Rightarrow> ts_claims ts = None
       | Some tok \<Rightarrow> \<exists>c. ts_claims ts = Some c \<and> id_token_sound E cfg expected s (jwks_verifier t) tok c)"
  using parse_token_set_identity[OF assms] by blast

lemma id_token_accept_sound_witness:
  "\<exists>(ts :: token_set) c. id_token_sound (demo_oidc demo_id_claims) demo_cfg (Some ''n'') demo_rp demo_verifier' demo_token c
     \<and> ts_claims ts = Some c \<and> ic_subject c = ''u''"
proof -
  from demo_token_set[of demo_rp] obtain ts c where
    r: "parse_token_set (demo_oidc demo_id_claims) demo_cfg (Some ''n'') ''T'' demo_rp
      = (Inr ts, demo_rp\<lparr>ticks := 2\<rparr>)" "ts_id_token ts = Some demo_token" "ts_claims ts = Some c" "ic_subject c = ''u''"
    by (auto simp: numeral_2_eq_2)
  from id_token_accept_sound[OF r(1)] r(2,3)
  have "id_token_sound (demo_oidc demo_id_claims) demo_cfg (Some ''n'') demo_rp demo_verifier' demo_token c" by simp
  with r(3,4) show ?thesis by blast
qed

text \<open>
  C25. An authorization code is exchanged in one request: on success exactly one request with a
  body was sent, the form with the code, the verifier, the redirect and the client's own
  credential; an identity token that came back carries the nonce the caller gave.
\<close>

theorem oidc_exchange_sound:
  assumes "oidc_exchange E p s = (Inr ts, t)"
  shows "\<exists>client_id url xs. oidc_client_id s = Some client_id
    \<and> sent t = sent s @ xs
    \<and> filter (\<lambda>r. req_body r \<noteq> []) xs =
        [form_request url (form_str (exchange_fields p @ client_auth s client_id)) False s]
    \<and> xp_nonce p \<noteq> [] \<and> looks_like_uuid (tenant_for s (xp_tenant_id p))
    \<and> (case ts_id_token ts of
         None \<Rightarrow> ts_claims ts = None
       | Some tok \<Rightarrow> \<exists>c cfg. ts_claims ts = Some c \<and> ic_nonce c = Some (xp_nonce p)
           \<and> id_token_sound E cfg (Some (xp_nonce p)) s (jwks_verifier t) tok c)
    \<and> unadopted s t"
proof -
  have opened: "\<not> is_closed s" using assms by (auto simp: oidc_exchange_def seq_run ensure_open_def op_runs split: if_splits)
  have o: "ensure_open s = (Inr (), s)" using opened by (simp add: ensure_open_def seq_run op_runs)
  have cp: "check_exchange_params p = Inr ()"
    using assms o by (cases "check_exchange_params p") (simp_all add: oidc_exchange_def seq_run op_runs)
  obtain cid where cid: "require_client_id s ''oidc_exchange'' = Inr cid"
    using assms o cp by (cases "require_client_id s ''oidc_exchange''") (simp_all add: oidc_exchange_def seq_run op_runs from_state_def)
  obtain tn where tn: "require_tenant_uuid s (xp_tenant_id p) ''oidc_exchange'' = Inr tn"
    using assms o cp cid by (cases "require_tenant_uuid s (xp_tenant_id p) ''oidc_exchange''")
      (simp_all add: oidc_exchange_def seq_run op_runs from_state_def)
  obtain d s1 where d: "oidc_discover E s = (d, s1)" by fastforce
  obtain cfg where cfg: "d = Inr cfg" using assms o cp cid tn d
    by (cases d) (simp_all add: oidc_exchange_def seq_run op_runs from_state_def)
  let ?form = "form_str (exchange_fields p @ client_auth s1 cid)"
  obtain g s2 where g: "token_grant E cfg tn ?form False ''oidc exchange failed'' None s1 = (g, s2)" by fastforce
  obtain body where body: "g = Inr body" using assms o cp cid tn d cfg g
    by (cases g) (simp_all add: oidc_exchange_def seq_run op_runs from_state_def)
  have pt: "parse_token_set E cfg (Some (xp_nonce p)) body s2 = (Inr ts, t)"
    using assms o cp cid tn d cfg g body by (simp add: oidc_exchange_def seq_run op_runs from_state_def)
  from keepsD[OF bodiless.calm_discover[where W = "\<lambda>_. True" and E = E], of s] d obtain us where
    us: "sent s1 = sent s @ us" "list_all (\<lambda>r. req_body r = []) us" and u1: "unadopted s s1"
    by (auto simp: calm_def)
  from token_grant_Inr[OF g[unfolded body]] obtain ep where
    ep: "sent s2 = sent s1 @ [form_request (with_tenant ep tn) ?form False s1]" and u2: "unadopted s1 s2" by blast
  from keepsD[OF bodiless.calm_token_set[where W = "\<lambda>_. True" and E = E and cfg = cfg and expected = "Some (xp_nonce p)" and body = body], of s2] pt obtain bs where
    bs: "sent t = sent s2 @ bs" "list_all (\<lambda>r. req_body r = []) bs" and u3: "unadopted s2 t"
    by (auto simp: calm_def)
  have same: "form_request (with_tenant ep tn) ?form False s1 =
      form_request (with_tenant ep tn) (form_str (exchange_fields p @ client_auth s cid)) False s"
    using u1 by (simp add: form_request_def client_auth_def unadopted_def same_config_def)
  have ne: "req_body (form_request u (form_str (exchange_fields p @ client_auth s cid)) False s) \<noteq> []" for u
  proof -
    have "supplied (exchange_fields p @ client_auth s cid) \<noteq> []" by (simp add: exchange_fields_def)
    then have "form_pairs (form_str (exchange_fields p @ client_auth s cid)) \<noteq> []" by (simp only: form_pairs_str not_False_eq_True)
    then show ?thesis by (auto simp: form_request_def form_pairs_def)
  qed
  let ?xs = "us @ [form_request (with_tenant ep tn) (form_str (exchange_fields p @ client_auth s cid)) False s] @ bs"
  have "sent t = sent s @ ?xs" using us(1) ep bs(1) same by simp
  moreover have "filter (\<lambda>r. req_body r \<noteq> []) ?xs =
      [form_request (with_tenant ep tn) (form_str (exchange_fields p @ client_auth s cid)) False s]"
    using filter_all[OF us(2)] filter_all[OF bs(2)] ne by simp
  moreover have "id_token_sound E cfg ex s2 v tok c \<longleftrightarrow> id_token_sound E cfg ex s v tok c" for ex v tok c
    using u1 u2 by (simp add: id_token_sound_def unadopted_def)
  moreover have "id_token_sound E cfg (Some (xp_nonce p)) s v tok c \<Longrightarrow> ic_nonce c = Some (xp_nonce p)" for v tok c
    by (auto simp: id_token_sound_def)
  moreover have "xp_nonce p \<noteq> []" "looks_like_uuid (tenant_for s (xp_tenant_id p))" "oidc_client_id s = Some cid"
    using cp tn cid by (auto simp: check_exchange_params_def and_then_eq_Inr require_tenant_uuid_def
        require_client_id_Inr split: if_splits)
  ultimately show ?thesis
    using parse_token_set_identity[OF pt] unadopted_trans[OF unadopted_trans[OF u1 u2] u3]
    by (intro exI[of _ cid] exI[of _ "with_tenant ep tn"] exI[of _ ?xs]) (auto split: option.splits)
qed

lemma oidc_exchange_sound_witness:
  "\<exists>ts t c url. oidc_exchange (demo_oidc demo_id_claims) demo_exchange demo_rp = (Inr ts, t)
     \<and> ts_claims ts = Some c \<and> ic_nonce c = Some ''n''
     \<and> filter (\<lambda>r. req_body r \<noteq> []) (sent t)
         = [form_request url (form_str (exchange_fields demo_exchange @ client_auth demo_rp ''app'')) False demo_rp]"
proof -
  from demo_exchanged obtain ts t c where
    r: "oidc_exchange (demo_oidc demo_id_claims) demo_exchange demo_rp = (Inr ts, t)" "ts_id_token ts = Some demo_token"
      "ts_claims ts = Some c" by blast
  have "xp_nonce demo_exchange = ''n''" by (simp add: demo_exchange_def)
  with oidc_exchange_sound[OF r(1)] r show ?thesis by auto
qed

text \<open>
  C26. The operations of the relying party return tokens and adopt none, and none repeats a
  credential: an exchange, a client-credentials login, a provider sign-in and a revocation
  send at most one request with a body, a form without the session's authorization, CSRF or
  tenant-acting headers that the transport may not send twice, and they leave the client's
  session, identity, device credential, acting tenant and decision memo as they were.
\<close>

theorem credentials_spent_once:
  "spends_once s (snd (oidc_exchange E p s))
   \<and> spends_once s (snd (login_client_credentials E scope tenant_id s))
   \<and> spends_once s (snd (login_with_provider_id_token E provider id_token nonce scopes resource tenant_id s))
   \<and> spends_once s (snd (revoke E token hint tenant_id s))"
proof -
  have "once (oidc_exchange E p)"
    unfolding oidc_exchange_def by (intro once_intros once_then once_grant calm_intros)
  moreover have "once (login_client_credentials E scope tenant_id)"
    unfolding login_client_credentials_def by (intro once_intros once_then once_grant calm_intros)
  moreover have "once (login_with_provider_id_token E provider id_token nonce scopes resource tenant_id)"
    unfolding login_with_provider_id_token_def by (intro once_intros once_then once_grant calm_intros)
  moreover have "once (revoke E token hint tenant_id)"
    unfolding revoke_def by (intro once_intros once_then once_admin calm_intros)
  ultimately show ?thesis unfolding once_def by blast
qed

text \<open>
  The tenant of the query is a UUID or nothing is sent: with only a slug, every one of the
  tenant-scoped operations fails before any request, leaving the client as it was.
\<close>

theorem slug_never_sent:
  assumes "\<not> looks_like_uuid (tenant_for s tenant_id)" "xp_tenant_id p = tenant_id"
  shows "(\<exists>e. oidc_exchange E p s = (Inl e, s))
    \<and> (\<exists>e. login_client_credentials E scope tenant_id s = (Inl e, s))
    \<and> (\<exists>e. login_with_provider_id_token E provider id_token nonce scopes resource tenant_id s = (Inl e, s))
    \<and> (\<exists>e. introspect E token hint tenant_id s = (Inl e, s))
    \<and> (\<exists>e. revoke E token hint tenant_id s = (Inl e, s))"
proof -
  have r: "require_tenant_uuid s tenant_id w = Inl (AuthError (w @ '' requires a tenant_id UUID for the /oauth2 query parameter''))" for w
    using assms by (simp add: require_tenant_uuid_def)
  note run = seq_run op_runs from_state_def r ensure_open_def assms(2)
  have "\<exists>e. oidc_exchange E p s = (Inl e, s)"
    by (simp add: oidc_exchange_def run split: sum.split)
  moreover have "\<exists>e. login_client_credentials E scope tenant_id s = (Inl e, s)"
    by (simp add: login_client_credentials_def run split: sum.split)
  moreover have "\<exists>e. login_with_provider_id_token E provider id_token nonce scopes resource tenant_id s = (Inl e, s)"
    by (simp add: login_with_provider_id_token_def run split: sum.split)
  moreover have "\<exists>e. introspect E token hint tenant_id s = (Inl e, s)" by (simp add: introspect_def run)
  moreover have "\<exists>e. revoke E token hint tenant_id s = (Inl e, s)" by (simp add: revoke_def run)
  ultimately show ?thesis by blast
qed

lemma slug_never_sent_witness:
  "\<exists>e. revoke (demo_oidc JNull) ''tok'' None (Some ''acme'') demo_rp = (Inl e, demo_rp)"
  using slug_never_sent[of demo_rp "Some ''acme''" "demo_exchange\<lparr>xp_tenant_id := Some ''acme''\<rparr>" "demo_oidc JNull"
      None "[]" "[]" "[]" "[]" None "''tok''" None]
  by (simp add: tenant_for_def looks_like_uuid_def is_hex_def is_digit_def)



text \<open>
  A client certificate is never sent where it means nothing: the endpoint a call uses is the
  one discovery advertises, or its mutual-TLS alias when the client presents a certificate, and
  then the alias is an absolute URL whose scheme is not weaker than the one it replaces.
\<close>

theorem alias_never_downgrades:
  "case preferred_endpoint_always s cfg pick dflt of
     Inl e \<Rightarrow> is_auth_error e \<and> presents_client_certificate s
   | Inr u \<Rightarrow> u = dflt \<or> (presents_client_certificate s \<and> (\<exists>a. oc_aliases cfg = Some a \<and> pick a = Some u)
       \<and> scheme_of u \<noteq> [] \<and> length (scheme_of u) + 3 < length u
       \<and> (scheme_of dflt \<noteq> ''https'' \<or> scheme_of u = ''https''))"
  by (auto simp: preferred_endpoint_always_def assert_usable_mtls_alias_def Let_def
      split: option.split bool.split sum.splits)



text \<open>
  A discovery document that parses as something other than an object makes the JSON library's
  own type error leave \<open>oidc_discover\<close>, and with it every operation that discovers.
\<close>

theorem discovery_array_escapes:
  "parse_or_object (env_parse E) body = JArr xs \<Longrightarrow>
     configuration_of (parse_or_object (env_parse E) body) = Inl JsonTypeError"
  by (simp add: configuration_of_def jvalue_def)

lemma discovery_array_escapes_witness:
  "configuration_of (parse_or_object (\<lambda>_. JArr []) ''[]'') = Inl JsonTypeError"
  using discovery_array_escapes[of "\<lparr>env_transport = \<lambda>_ _. Inr blank_response, env_steady = \<lambda>_. 0,
      env_wall = \<lambda>_. 0, env_parse = \<lambda>_. JArr [], env_dump = \<lambda>_. Inr []\<rparr> :: env" "''[]''" "[]"]
  by (simp add: parse_or_object_def)

text \<open>An expiry near the end of the 64-bit range makes the sum with the skew overflow.\<close>

theorem expiry_sum_overflows:
  "opt_int j ''exp'' = Inr (Some e) \<Longrightarrow> opt_int j ''iat'' = Inr i \<Longrightarrow> 2 ^ 63 \<le> e + skew \<Longrightarrow>
     check_times now skew j = Inl Undefined \<and> check_logout_expiry j now skew = Inl Undefined"
  by (simp add: check_times_def check_logout_expiry_def ck64_def fits64_def)

lemma expiry_sum_overflows_witness:
  "check_times 0 60 (JObj [(''exp'', JInt (word_of_int (2 ^ 63 - 1))), (''iat'', JInt 0)]) = Inl Undefined"
  using expiry_sum_overflows[of "JObj [(''exp'', JInt (word_of_int (2 ^ 63 - 1))), (''iat'', JInt 0)]" "2 ^ 63 - 1"
      "Some 0" 60 0]
  by (simp add: opt_int_def signed_take_bit_int_eq_self)

end
