(* ===== verification/OidcFlows.thy ===== *)
theory OidcFlows
  imports Oidc
begin

text \<open>
  The rest of \<open>src/oidc.cpp\<close>: the single-flight refresh (its sequential path; concurrent callers
  are the subject of \<open>OidcRefresh\<close>), federated sign-in, the device grant and its polling loop,
  token exchange, pushed authorization requests, client registration, and the client-initiated
  backchannel authentication with its loop. The two polling loops may run as long as the
  server keeps them waiting, so they are partial functions, proved to return when the clock
  advances while they sleep.
\<close>

section \<open>Refresh\<close>

definition refresh_flight ::
    "oidc_env \<Rightarrow> string \<Rightarrow> string option \<Rightarrow> string \<Rightarrow> string \<Rightarrow> ('w, token_set) oop" where
  "refresh_flight E raw scope client_id tenant =
     seq (oidc_discover E) (\<lambda>cfg.
     seq (gets (\<lambda>s. form_str ([(''grant_type'', Some ''refresh_token''), (''refresh_token'', Some raw)]
            @ client_auth s client_id @ [(''scope'', scope)]))) (\<lambda>form.
     seq (token_grant E cfg tenant form False ''oidc refresh failed'' None) (\<lambda>body.
     parse_token_set E cfg None body)))"

definition oidc_refresh :: "oidc_env \<Rightarrow> string \<Rightarrow> string option \<Rightarrow> string option \<Rightarrow> ('w, token_set) oop" where
  "oidc_refresh E raw scope tenant_id =
     seq ensure_open (\<lambda>_.
     seq (require (raw \<noteq> []) (AuthError ''oidc_refresh requires a refresh token'')) (\<lambda>_.
     seq (from_state (\<lambda>s. require_client_id s ''oidc_refresh'')) (\<lambda>client_id.
     seq (from_state (\<lambda>s. require_tenant_uuid s tenant_id ''oidc_refresh'')) (\<lambda>tenant.
     seq (lift_res (digest_hex E raw)) (\<lambda>_.
     refresh_flight E raw scope client_id tenant)))))"

section \<open>Federated sign-in\<close>

record sso_start_result =
  ss_authorize_url :: string
  ss_state :: string
  ss_expires_in :: int

record sso_complete_result =
  sc_user_id :: string
  sc_session_id :: string
  sc_expires_in :: int
  sc_redirect_uri :: "string option"

record federation_provider =
  fp_id :: string
  fp_kind :: string
  fp_name :: string
  fp_protocol :: string
  fp_icon :: "string option"
  fp_mark :: bool
  fp_inherited :: bool

definition workspace :: "'w client_scheme \<Rightarrow> json \<Rightarrow> json" where
  "workspace s j =
     (let j1 = (case c_tenant_id s of Some t \<Rightarrow> jset ''tenant_id'' (JStr t) j
                | None \<Rightarrow> jset_opt ''tenant_slug'' (c_tenant_slug s) j)
      in case c_org_id s of Some org_id \<Rightarrow> jset ''org_id'' (JStr org_id) j1 | None \<Rightarrow> jset_opt ''org_slug'' (c_org_slug s) j1)"

definition federation_body :: "string \<Rightarrow> string \<Rightarrow> 'w client_scheme \<Rightarrow> json" where
  "federation_body cfg_id redirect s =
     workspace s (jset ''redirect_uri'' (JStr redirect) (jset ''federation_config_id'' (JStr cfg_id) JNull))"

definition start_result :: "string \<Rightarrow> json \<Rightarrow> sso_start_result res" where
  "start_result malformed j =
     (case (opt_string j ''authorize_url'', opt_string j ''state'') of
        (Some u, Some st) \<Rightarrow>
          and_then (int_or j ''expires_in_secs'' 0) (\<lambda>n.
          Inr \<lparr>ss_authorize_url = u, ss_state = st, ss_expires_in = n\<rparr>)
      | _ \<Rightarrow> Inl (NetworkError malformed ''malformed_body''))"

definition post_json :: "oidc_env \<Rightarrow> string \<Rightarrow> json \<Rightarrow> ('w, json) cop" where
  "post_json E path j =
     seq (dump E j) (\<lambda>body.
     seq (execute E ''POST'' path body False) (\<lambda>resp.
     ret (parse_or_object (env_parse E) (resp_body resp))))"

definition sso_start :: "oidc_env \<Rightarrow> string \<Rightarrow> string \<Rightarrow> ('w, sso_start_result) cop" where
  "sso_start E cfg_id redirect =
     seq ensure_open (\<lambda>_.
     seq (gets (federation_body cfg_id redirect)) (\<lambda>j.
     seq (post_json E ''/api/v1/auth/federation/oidc/start'' j) (\<lambda>r.
     lift_res (start_result ''sso start: malformed OidcStartResponse'' r))))"

definition sso_start_oauth2 :: "oidc_env \<Rightarrow> string \<Rightarrow> string \<Rightarrow> ('w, sso_start_result) cop" where
  "sso_start_oauth2 E cfg_id redirect =
     seq ensure_open (\<lambda>_.
     seq (gets (federation_body cfg_id redirect)) (\<lambda>j.
     seq (post_json E ''/api/v1/auth/federation/oauth2/start'' j) (\<lambda>r.
     lift_res (start_result ''sso start oauth2: malformed OAuth2StartResponse'' r))))"

definition complete_result :: "string \<Rightarrow> json \<Rightarrow> sso_complete_result res" where
  "complete_result malformed j =
     (case (opt_string j ''user_id'', opt_string j ''session_id'') of
        (Some u, Some i) \<Rightarrow>
          and_then (int_or j ''expires_in'' 0) (\<lambda>n.
          Inr \<lparr>sc_user_id = u, sc_session_id = i, sc_expires_in = n, sc_redirect_uri = opt_string j ''redirect_uri''\<rparr>)
      | _ \<Rightarrow> Inl (NetworkError malformed ''malformed_body''))"

definition parse_federation_session :: "string \<Rightarrow> json \<Rightarrow> ('w, sso_complete_result) cop" where
  "parse_federation_session malformed j =
     seq (lift_res (complete_result malformed j)) (\<lambda>r.
     seq (modify (\<lambda>s. (release_device_credential s)\<lparr>login_user_info := None\<rparr>)) (\<lambda>_. ret r))"

definition code_body :: "string \<Rightarrow> string option \<Rightarrow> json" where
  "code_body c state = jset_opt ''state'' state (jset ''code'' (JStr c) JNull)"

definition sso_complete :: "oidc_env \<Rightarrow> string \<Rightarrow> string \<Rightarrow> ('w, sso_complete_result) cop" where
  "sso_complete E c state =
     seq ensure_open (\<lambda>_.
     seq clear_memo (\<lambda>_.
     seq (post_json E ''/api/v1/auth/federation/oidc/callback'' (code_body c (Some state))) (\<lambda>r.
     parse_federation_session ''sso complete: malformed SsoLoginSuccessResponse'' r)))"

definition sso_complete_oauth2 :: "oidc_env \<Rightarrow> string \<Rightarrow> string \<Rightarrow> ('w, sso_complete_result) cop" where
  "sso_complete_oauth2 E c state =
     seq ensure_open (\<lambda>_.
     seq clear_memo (\<lambda>_.
     seq (post_json E ''/api/v1/auth/federation/oauth2/callback'' (code_body c (Some state))) (\<lambda>r.
     parse_federation_session ''sso complete oauth2: malformed SsoLoginSuccessResponse'' r)))"

definition sso_complete_handoff :: "oidc_env \<Rightarrow> string \<Rightarrow> ('w, sso_complete_result) cop" where
  "sso_complete_handoff E c =
     seq ensure_open (\<lambda>_.
     seq clear_memo (\<lambda>_.
     seq (post_json E ''/api/v1/auth/federation/handoff'' (code_body c None)) (\<lambda>r.
     parse_federation_session ''sso complete handoff: malformed SsoLoginSuccessResponse'' r)))"

text \<open>The UUID form of an organization or tenant replaces the slug; an empty value is neither.\<close>

definition either_form :: "string \<Rightarrow> string option \<Rightarrow> string \<Rightarrow> string option \<Rightarrow> (string \<times> string) list" where
  "either_form id_key i slug_key sl =
     (case i of
        Some (c # cs) \<Rightarrow> [(id_key, c # cs)]
      | _ \<Rightarrow> (case sl of Some (c # cs) \<Rightarrow> [(slug_key, c # cs)] | _ \<Rightarrow> []))"

definition or_else :: "'a option \<Rightarrow> 'a option \<Rightarrow> 'a option" where
  "or_else a b = (case a of Some x \<Rightarrow> Some x | None \<Rightarrow> b)"

definition providers_path ::
    "'w client_scheme \<Rightarrow> string option \<Rightarrow> string option \<Rightarrow> string option \<Rightarrow> string option \<Rightarrow> string" where
  "providers_path s org_id org_sl tenant_id tenant_sl =
     (let ps = either_form ''org_id'' (or_else org_id (c_org_id s)) ''org_slug'' (or_else org_sl (c_org_slug s))
            @ either_form ''tenant_id'' (or_else tenant_id (c_tenant_id s)) ''tenant_slug'' (or_else tenant_sl (c_tenant_slug s))
      in ''/api/v1/auth/federation/providers''
         @ (if ps = [] then [] else ''?'' @ join ''&'' (map (\<lambda>(k, v). k @ ''='' @ pct v) ps)))"

definition or_empty :: "string option \<Rightarrow> string" where
  "or_empty v = (case v of None \<Rightarrow> [] | Some x \<Rightarrow> x)"

definition provider_of :: "json \<Rightarrow> federation_provider option" where
  "provider_of entry =
     (if \<not> is_object entry then None
      else case (opt_string entry ''id'', opt_string entry ''protocol'') of
        (Some i, Some p) \<Rightarrow> Some \<lparr>fp_id = i, fp_kind = or_empty (opt_string entry ''provider_kind''),
           fp_name = or_empty (opt_string entry ''display_name''), fp_protocol = p,
           fp_icon = opt_string entry ''button_icon'', fp_mark = (bool_member entry ''has_bundled_mark'' = Some True),
           fp_inherited = (bool_member entry ''inherited'' = Some True)\<rparr>
      | _ \<Rightarrow> None)"

definition sso_providers ::
    "oidc_env \<Rightarrow> string option \<Rightarrow> string option \<Rightarrow> string option \<Rightarrow> string option \<Rightarrow> ('w, federation_provider list) cop" where
  "sso_providers E org_id org_sl tenant_id tenant_sl =
     seq ensure_open (\<lambda>_.
     seq (gets (\<lambda>s. providers_path s org_id org_sl tenant_id tenant_sl)) (\<lambda>path.
     seq (execute E ''GET'' path [] False) (\<lambda>resp.
     case jfind (parse_or_object (env_parse E) (resp_body resp)) ''providers'' of
       Some (JArr xs) \<Rightarrow> ret (List.map_filter provider_of xs)
     | _ \<Rightarrow> raise (NetworkError ''sso providers: malformed PublicFederationProvidersResponse'' ''malformed_body''))))"

section \<open>The device grant\<close>

record device_authorization =
  da_device_code :: string
  da_user_code :: string
  da_verification_uri :: string
  da_verification_uri_complete :: "string option"
  da_expires_in :: int
  da_interval :: int

definition kDeviceDefaultInterval :: int where "kDeviceDefaultInterval = 5"
definition kDeviceSlowDownIncrement :: int where "kDeviceSlowDownIncrement = 5"
definition kDeviceCodeGrantType :: string where
  "kDeviceCodeGrantType = ''urn:ietf:params:oauth:grant-type:device_code''"

definition positive_or :: "int option \<Rightarrow> int \<Rightarrow> int" where
  "positive_or v d = (case v of Some n \<Rightarrow> (if 0 < n then n else d) | None \<Rightarrow> d)"

definition device_authorization_of :: "json \<Rightarrow> device_authorization res" where
  "device_authorization_of j =
     (case (opt_string j ''device_code'', opt_string j ''user_code'', opt_string j ''verification_uri'') of
        (Some d, Some u, Some v) \<Rightarrow>
          and_then (int_or j ''expires_in'' 0) (\<lambda>x.
          and_then (opt_int j ''interval'') (\<lambda>i.
          Inr \<lparr>da_device_code = d, da_user_code = u, da_verification_uri = v,
               da_verification_uri_complete = opt_string j ''verification_uri_complete'', da_expires_in = x,
               da_interval = positive_or i kDeviceDefaultInterval\<rparr>))
      | _ \<Rightarrow> Inl (NetworkError ''malformed DeviceAuthorizationResponse'' ''malformed_body''))"

definition form_once :: "oidc_env \<Rightarrow> string \<Rightarrow> string \<Rightarrow> string \<Rightarrow> ('w, json) cop" where
  "form_once E url body failed =
     seq (seq (gets (form_request url body False)) (send_raw E)) (\<lambda>resp.
     if is_success (status resp) then ret (parse_or_object (env_parse E) (resp_body resp))
     else raise_grant_error E resp failed)"

definition device_authorize :: "oidc_env \<Rightarrow> string option \<Rightarrow> string option \<Rightarrow> ('w, device_authorization) oop" where
  "device_authorize E scope tenant_id =
     seq ensure_open (\<lambda>_.
     seq (from_state (\<lambda>s. require_client_id s ''device_authorize'')) (\<lambda>client_id.
     seq (from_state (\<lambda>s. require_tenant_uuid s tenant_id ''device_authorize'')) (\<lambda>tenant.
     seq (oidc_discover E) (\<lambda>cfg.
     seq (from_state (\<lambda>s. preferred_endpoint s cfg ma_device_authorization (oc_device_authorization cfg))) (\<lambda>endpoint.
     case endpoint of
       None \<Rightarrow> raise (NetworkError ''the discovery document advertises no device_authorization_endpoint'' ''missing_endpoint'')
     | Some u \<Rightarrow>
         seq (gets (\<lambda>s. form_str (client_auth s client_id @ [(''scope'', scope)]))) (\<lambda>form.
         seq (form_once E (with_tenant u tenant) form ''device authorization failed'') (\<lambda>j.
         lift_res (device_authorization_of j))))))))"

definition device_poll_with ::
    "oidc_env \<Rightarrow> oidc_configuration \<Rightarrow> string \<Rightarrow> string \<Rightarrow> string \<Rightarrow> int option \<Rightarrow> ('w, token_set) oop" where
  "device_poll_with E cfg dc client_id tenant deadline =
     seq (gets (\<lambda>s. form_str ([(''grant_type'', Some kDeviceCodeGrantType), (''device_code'', Some dc)] @ client_auth s client_id))) (\<lambda>form.
     seq (token_grant E cfg tenant form True ''device poll failed'' deadline) (\<lambda>body.
     parse_token_set E cfg None body))"

definition device_poll :: "oidc_env \<Rightarrow> string \<Rightarrow> string option \<Rightarrow> ('w, token_set) oop" where
  "device_poll E dc tenant_id =
     seq ensure_open (\<lambda>_.
     seq (require (dc \<noteq> []) (AuthError ''device_poll requires a device code'')) (\<lambda>_.
     seq (from_state (\<lambda>s. require_client_id s ''device_poll'')) (\<lambda>client_id.
     seq (from_state (\<lambda>s. require_tenant_uuid s tenant_id ''device_poll'')) (\<lambda>tenant.
     seq (oidc_discover E) (\<lambda>cfg. device_poll_with E cfg dc client_id tenant None)))))"

text \<open>A polling loop: a round ends it or says with what to go on. It need not end.\<close>

partial_function (option) rounds ::
    "('c \<Rightarrow> ('s, 'x + 'c) op) \<Rightarrow> 'c \<Rightarrow> 's \<Rightarrow> ('x res \<times> 's) option" where
  "rounds f c s =
     (case f c s of
        (Inl e, t) \<Rightarrow> Some (Inl e, t)
      | (Inr (Inl x), t) \<Rightarrow> Some (Inr x, t)
      | (Inr (Inr c'), t) \<Rightarrow> rounds f c' t)"

definition device_verdict :: "int \<Rightarrow> error \<Rightarrow> ('s, token_set + int \<times> int) op" where
  "device_verdict interval e =
     (case e of
        OAuthProtocolError _ c _ ra st \<Rightarrow>
          (if c = ''rate_limit_exceeded'' \<or> st = Some 429
           then ret (Inr (interval, case ra of None \<Rightarrow> 0 | Some d \<Rightarrow> d))
           else if c = ''authorization_pending'' then ret (Inr (interval, 0))
           else if c = ''slow_down''
           then seq (lift_res (ck64 (interval + kDeviceSlowDownIncrement))) (\<lambda>i. ret (Inr (i, 0)))
           else raise e)
      | _ \<Rightarrow> (if is_network_error e then ret (Inr (interval, 0)) else raise e))"

definition device_round ::
    "oidc_env \<Rightarrow> oidc_configuration \<Rightarrow> string \<Rightarrow> string \<Rightarrow> string \<Rightarrow> int \<Rightarrow> int \<times> int \<Rightarrow>
     ('w oidc_client_scheme, token_set + int \<times> int) op" where
  "device_round E cfg dc client_id tenant deadline = (\<lambda>(interval, floor_ms).
     seq (lift_res (ck64 (interval * 1000))) (\<lambda>ms.
     seq (within_deadline E (Some deadline) (max ms floor_ms)) (\<lambda>_.
     seq (slept (max ms floor_ms)) (\<lambda>_.
     seq (within_deadline E (Some deadline) 0) (\<lambda>_.
     catching (seq (device_poll_with E cfg dc client_id tenant (Some deadline)) (\<lambda>ts. ret (Inl ts)))
       (\<lambda>_. True) (device_verdict interval))))))"

definition clamp_seconds :: "int \<Rightarrow> int" where
  "clamp_seconds n = min (max n 0) 1000000000"

text \<open>Up to the first poll: the codes are shown, and the deadline set.\<close>

definition device_prepare ::
    "oidc_env \<Rightarrow> (device_authorization \<Rightarrow> unit res) option \<Rightarrow> string option \<Rightarrow> string option \<Rightarrow>
     ('w, device_authorization \<times> string \<times> string \<times> oidc_configuration \<times> int) oop" where
  "device_prepare E display scope tenant_id =
     seq ensure_open (\<lambda>_.
     seq (device_authorize E scope tenant_id) (\<lambda>da.
     seq (lift_res (case display of None \<Rightarrow> Inr () | Some f \<Rightarrow> f da)) (\<lambda>_.
     seq (from_state (\<lambda>s. require_client_id s ''device_login'')) (\<lambda>client_id.
     seq (from_state (\<lambda>s. require_tenant_uuid s tenant_id ''device_login'')) (\<lambda>tenant.
     seq (oidc_discover E) (\<lambda>cfg.
     seq (now_ms E) (\<lambda>now.
     ret (da, client_id, tenant, cfg, now + clamp_seconds (da_expires_in da) * 1000))))))))"

definition device_login ::
    "oidc_env \<Rightarrow> (device_authorization \<Rightarrow> unit res) option \<Rightarrow> string option \<Rightarrow> string option \<Rightarrow>
     'w oidc_client_scheme \<Rightarrow> (token_set res \<times> 'w oidc_client_scheme) option" where
  "device_login E display scope tenant_id s =
     (case device_prepare E display scope tenant_id s of
        (Inl e, t) \<Rightarrow> Some (Inl e, t)
      | (Inr (da, client_id, tenant, cfg, deadline), t) \<Rightarrow>
          rounds (device_round E cfg (da_device_code da) client_id tenant deadline) (da_interval da, 0) t)"

section \<open>Token exchange\<close>

record token_exchange_params =
  tx_subject :: string
  tx_subject_type :: string
  tx_actor :: "string option"
  tx_scopes :: "string list"
  tx_audience :: "string option"
  tx_resource :: "string option"
  tx_tenant_id :: "string option"

record exchanged_token =
  et_access :: string
  et_issued_type :: string
  et_type :: string
  et_expires_in :: int
  et_scope :: "string option"

definition kTokenExchangeGrantType :: string where
  "kTokenExchangeGrantType = ''urn:ietf:params:oauth:grant-type:token-exchange''"
definition kAccessTokenType :: string where
  "kAccessTokenType = ''urn:ietf:params:oauth:token-type:access_token''"

definition actor_fields :: "string option \<Rightarrow> fields" where
  "actor_fields actor =
     (case actor of
        Some (c # cs) \<Rightarrow> [(''actor_token'', Some (c # cs)), (''actor_token_type'', Some kAccessTokenType)]
      | _ \<Rightarrow> [])"

definition token_exchange_fields :: "token_exchange_params \<Rightarrow> string \<Rightarrow> string \<Rightarrow> fields" where
  "token_exchange_fields p client_id secret =
     [(''grant_type'', Some kTokenExchangeGrantType), (''subject_token'', Some (tx_subject p)),
      (''subject_token_type'', Some (tx_subject_type p))]
     @ actor_fields (tx_actor p)
     @ [(''scope'', Some (join '' '' (filter (\<lambda>x. x \<noteq> []) (tx_scopes p)))), (''audience'', tx_audience p),
        (''resource'', tx_resource p), (''client_id'', Some client_id), (''client_secret'', Some secret)]"

definition exchanged_token_of :: "json \<Rightarrow> exchanged_token res" where
  "exchanged_token_of j =
     (case opt_string j ''access_token'' of
        None \<Rightarrow> Inl (NetworkError ''token exchange: malformed TokenExchangeResponse'' ''malformed_body'')
      | Some a \<Rightarrow>
          and_then (int_or j ''expires_in'' 0) (\<lambda>x.
          Inr \<lparr>et_access = a,
               et_issued_type = (case opt_string j ''issued_token_type'' of None \<Rightarrow> kAccessTokenType | Some t \<Rightarrow> t),
               et_type = (case opt_string j ''token_type'' of None \<Rightarrow> ''Bearer'' | Some t \<Rightarrow> t),
               et_expires_in = x, et_scope = opt_string j ''scope''\<rparr>))"

definition token_exchange :: "oidc_env \<Rightarrow> token_exchange_params \<Rightarrow> ('w, exchanged_token) oop" where
  "token_exchange E p =
     seq ensure_open (\<lambda>_.
     seq (require (tx_subject p \<noteq> []) (AuthError ''token_exchange requires a subject_token'')) (\<lambda>_.
     seq (require (tx_subject_type p \<noteq> []) (AuthError ''token_exchange requires subject_token_type'')) (\<lambda>_.
     seq (from_state (\<lambda>s. require_client_id s ''token_exchange'')) (\<lambda>client_id.
     seq (from_state (\<lambda>s. require_client_secret s ''token_exchange'')) (\<lambda>secret.
     seq (from_state (\<lambda>s. require_tenant_uuid s (tx_tenant_id p) ''token_exchange'')) (\<lambda>tenant.
     seq (oidc_discover E) (\<lambda>cfg.
     seq (token_grant E cfg tenant (form_str (token_exchange_fields p client_id secret)) False
            ''token exchange failed'' None) (\<lambda>body.
     lift_res (exchanged_token_of (parse_or_object (env_parse E) body))))))))))"

section \<open>Pushed authorization requests\<close>

record pushed_request =
  pr_url :: string
  pr_request_uri :: string
  pr_expires_in :: int
  pr_state :: string
  pr_nonce :: string
  pr_verifier :: string

definition begin_url_idp_hint :: "string \<Rightarrow> string option" where
  "begin_url_idp_hint url =
     (case List.find (prefix ''axiam_idp_hint='') (pairs (split_url_of url)) of
        None \<Rightarrow> None
      | Some p \<Rightarrow> Some (pct_decode (drop 15 p)))"

definition normalize_scope :: "string option \<Rightarrow> string" where
  "normalize_scope scope =
     (let requested = or_empty scope in
      if ''openid'' \<in> set (split_on (CHR '' '') requested) then requested
      else if requested = [] then ''openid'' else ''openid '' @ requested)"

definition par_redirect_url :: "string \<Rightarrow> string \<Rightarrow> string \<Rightarrow> string \<Rightarrow> string" where
  "par_redirect_url authz client_id request_uri tenant =
     before_query (split_url_of authz) @ ''?client_id='' @ pct client_id @ ''&request_uri='' @ pct request_uri
       @ ''&tenant_id='' @ pct tenant"

definition par_fields ::
    "authorization_request \<Rightarrow> string \<Rightarrow> string option \<Rightarrow> string \<Rightarrow> string option \<Rightarrow> string option \<Rightarrow> fields" where
  "par_fields r redirect scope challenge dpop_jkt hint =
     [(''response_type'', Some ''code''), (''redirect_uri'', Some redirect), (''scope'', Some (normalize_scope scope)),
      (''state'', Some (ar_state r)), (''nonce'', Some (ar_nonce r)), (''code_challenge'', Some challenge),
      (''code_challenge_method'', Some ''S256''), (''dpop_jkt'', dpop_jkt), (''axiam_idp_hint'', hint)]"

definition pushed_of :: "oidc_configuration \<Rightarrow> authorization_request \<Rightarrow> string \<Rightarrow> string \<Rightarrow> json \<Rightarrow> pushed_request res" where
  "pushed_of cfg r client_id tenant j =
     (case opt_string j ''request_uri'' of
        None \<Rightarrow> Inl (NetworkError ''pushed authorization response carried no request_uri'' ''malformed_body'')
      | Some u \<Rightarrow>
          and_then (int_or j ''expires_in'' 0) (\<lambda>x.
          Inr \<lparr>pr_url = par_redirect_url (oc_authorization cfg) client_id u tenant, pr_request_uri = u, pr_expires_in = x,
               pr_state = ar_state r, pr_nonce = ar_nonce r, pr_verifier = ar_verifier r\<rparr>))"

definition oidc_par ::
    "oidc_env \<Rightarrow> oidc_configuration \<Rightarrow> authorization_request \<Rightarrow> string \<Rightarrow> string option \<Rightarrow> string option \<Rightarrow>
     string option \<Rightarrow> string option \<Rightarrow> ('w, pushed_request) oop" where
  "oidc_par E cfg r redirect scope tenant_id dpop_jkt idp_hint =
     (let hint = or_else idp_hint (begin_url_idp_hint (ar_url r)) in
     seq (lift_res (check_idp_hint hint ''oidc_par'')) (\<lambda>_.
     seq ensure_open (\<lambda>_.
     seq (require (redirect \<noteq> []) (AuthError ''oidc_par needs a redirect_uri'')) (\<lambda>_.
     seq (from_state (\<lambda>s. preferred_endpoint s cfg ma_par (oc_par cfg))) (\<lambda>endpoint.
     case endpoint of
       Some (c # cs) \<Rightarrow>
         seq (from_state (\<lambda>s. require_client_id s ''oidc_par'')) (\<lambda>client_id.
         seq (from_state (\<lambda>s. require_tenant_uuid s tenant_id ''oidc_par'')) (\<lambda>tenant.
         seq (require (ar_verifier r \<noteq> []) (AuthError ''oidc_par: the authorization request carries no code_verifier'')) (\<lambda>_.
         seq (lift_res (s256_challenge E (ar_verifier r))) (\<lambda>challenge.
         seq (gets (\<lambda>s. form_str (par_fields r redirect scope challenge dpop_jkt hint @ client_auth s client_id))) (\<lambda>form.
         seq (form_once E (with_tenant (c # cs) tenant) form ''pushed authorization request failed'') (\<lambda>j.
         lift_res (pushed_of cfg r client_id tenant j)))))))
     | _ \<Rightarrow> raise (AuthError ''the authorization server advertises no pushed_authorization_request_endpoint''))))))"

section \<open>Client registration\<close>

record client_registration =
  cr_client_id :: string
  cr_issued_at :: "int option"
  cr_client_name :: "string option"
  cr_redirect_uris :: "string list option"
  cr_grant_types :: "string list option"
  cr_response_types :: "string list option"
  cr_auth_method :: "string option"
  cr_scope :: "string option"
  cr_uri :: "string option"
  cr_secret_expires_at :: "int option"
  cr_jwks_json :: "string option"
  cr_jwks_uri :: "string option"
  cr_client_secret :: "string option"
  cr_access_token :: "string option"
  cr_extra_json :: string

type_synonym members = "(string \<times> json) list"

definition jerase :: "string \<Rightarrow> members \<Rightarrow> members" where
  "jerase k m = filter (\<lambda>kv. fst kv \<noteq> k) m"

definition take_string :: "string \<Rightarrow> members \<Rightarrow> string option \<times> members" where
  "take_string k m =
     (case map_of m k of
        Some (JStr s) \<Rightarrow> (Some s, jerase k m)
      | Some JNull \<Rightarrow> (None, jerase k m)
      | _ \<Rightarrow> (None, m))"

definition take_int :: "string \<Rightarrow> members \<Rightarrow> int option \<times> members" where
  "take_int k m =
     (case map_of m k of
        Some (JInt w) \<Rightarrow> (Some (sint w), jerase k m)
      | Some (JUInt w) \<Rightarrow> (Some (sint w), jerase k m)
      | Some JNull \<Rightarrow> (None, jerase k m)
      | _ \<Rightarrow> (None, m))"

definition take_list :: "string \<Rightarrow> members \<Rightarrow> string list option \<times> members" where
  "take_list k m =
     (case map_of m k of
        Some (JArr xs) \<Rightarrow> (if list_all is_string xs then (Some (str_items xs), jerase k m) else (None, m))
      | _ \<Rightarrow> (None, m))"

definition take_jwks :: "(json \<Rightarrow> string res) \<Rightarrow> members \<Rightarrow> (string option \<times> members) res" where
  "take_jwks dmp m =
     (case map_of m ''jwks'' of
        None \<Rightarrow> Inr (None, m)
      | Some JNull \<Rightarrow> Inr (None, jerase ''jwks'' m)
      | Some v \<Rightarrow> and_then (dmp v) (\<lambda>t. Inr (Some t, jerase ''jwks'' m)))"

definition registration_from_members :: "(json \<Rightarrow> string res) \<Rightarrow> members \<Rightarrow> client_registration res" where
  "registration_from_members dmp m0 =
     (let (client_id, m1) = take_string ''client_id'' m0 in
      case client_id of
        Some (c # cs) \<Rightarrow>
          (let (issued, m2) = take_int ''client_id_issued_at'' m1;
               (name, m3) = take_string ''client_name'' m2;
               (redirects, m4) = take_list ''redirect_uris'' m3;
               (grants, m5) = take_list ''grant_types'' m4;
               (responses, m6) = take_list ''response_types'' m5;
               (meth, m7) = take_string ''token_endpoint_auth_method'' m6;
               (scope, m8) = take_string ''scope'' m7;
               (uri, m9) = take_string ''registration_client_uri'' m8;
               (expires, m10) = take_int ''client_secret_expires_at'' m9
           in and_then (take_jwks dmp m10) (\<lambda>(jwks, m11).
              let (jwks_uri, m12) = take_string ''jwks_uri'' m11;
                  (secret, m13) = take_string ''client_secret'' m12;
                  (token, m14) = take_string ''registration_access_token'' m13
              in and_then (dmp (JObj m14)) (\<lambda>extra.
                 Inr \<lparr>cr_client_id = c # cs, cr_issued_at = issued, cr_client_name = name,
                      cr_redirect_uris = redirects, cr_grant_types = grants, cr_response_types = responses,
                      cr_auth_method = meth, cr_scope = scope, cr_uri = uri, cr_secret_expires_at = expires,
                      cr_jwks_json = jwks, cr_jwks_uri = jwks_uri, cr_client_secret = secret,
                      cr_access_token = token, cr_extra_json = extra\<rparr>)))
      | _ \<Rightarrow> Inl (NetworkError ''a client registration response carries no client_id'' ''malformed_body''))"

definition registration_from_json ::
    "(string \<Rightarrow> json) \<Rightarrow> (json \<Rightarrow> string res) \<Rightarrow> string \<Rightarrow> client_registration res" where
  "registration_from_json parse dmp text =
     (case parse text of
        JObj m \<Rightarrow> registration_from_members dmp m
      | _ \<Rightarrow> Inl (NetworkError ''a client registration response is not a JSON object'' ''malformed_body''))"

definition kServerStatedMembers :: "string list" where
  "kServerStatedMembers = [''registration_access_token'', ''registration_client_uri'', ''client_secret_expires_at'',
     ''client_id_issued_at'', ''client_secret'']"

definition jset_list :: "string \<Rightarrow> string list option \<Rightarrow> json \<Rightarrow> json" where
  "jset_list k v j = (case v of None \<Rightarrow> j | Some xs \<Rightarrow> jset k (str_array xs) j)"

definition set_jwks :: "(string \<Rightarrow> json) \<Rightarrow> string option \<Rightarrow> json \<Rightarrow> json" where
  "set_jwks parse v j =
     (case v of None \<Rightarrow> j
      | Some t \<Rightarrow> (if is_discarded (parse t) then j else jset ''jwks'' (parse t) j))"

definition update_members :: "(string \<Rightarrow> json) \<Rightarrow> client_registration \<Rightarrow> json" where
  "update_members parse r =
     (let m = (case parse (cr_extra_json r) of JObj m \<Rightarrow> m | _ \<Rightarrow> [])
      in jset_opt ''jwks_uri'' (cr_jwks_uri r) (set_jwks parse (cr_jwks_json r)
        (jset_opt ''scope'' (cr_scope r) (jset_opt ''token_endpoint_auth_method'' (cr_auth_method r)
        (jset_list ''response_types'' (cr_response_types r) (jset_list ''grant_types'' (cr_grant_types r)
        (jset_list ''redirect_uris'' (cr_redirect_uris r) (jset_opt ''client_name'' (cr_client_name r)
        (jset ''client_id'' (JStr (cr_client_id r)) (JObj (fold jerase kServerStatedMembers m)))))))))))"

definition check_registration_uri :: "string \<Rightarrow> string \<Rightarrow> string \<Rightarrow> unit res" where
  "check_registration_uri base uri operation =
     (case (origin_of base, origin_of uri) of
        (Some b, Some u) \<Rightarrow>
          ensure ((scheme u = ''https'' \<or> scheme u = ''http'') \<and> u = b
              \<and> (scheme u \<noteq> ''http'' \<or> is_loopback_host (host b)))
            (InvalidArgument (operation @ '': registration_client_uri must be an https URL at the configured AXIAM origin''))
      | _ \<Rightarrow> Inl (InvalidArgument (operation @ '': registration_client_uri must be an https URL at the configured AXIAM origin'')))"

definition registration_http :: "string \<Rightarrow> string \<Rightarrow> string \<Rightarrow> string \<Rightarrow> bool \<Rightarrow> http_request" where
  "registration_http meth uri token body again =
     (let h = hset ''Authorization'' (''Bearer '' @ token) (hset ''Accept'' json_type no_headers)
      in blank_request\<lparr>req_method := meth, req_url := uri,
           req_headers := (if body = [] then h else hset ''Content-Type'' json_type h), req_body := body,
           sessionless := True, replayable := again\<rparr>)"

definition registration_outcome :: "oidc_env \<Rightarrow> string \<Rightarrow> http_response \<Rightarrow> ('w, http_response) cop" where
  "registration_outcome E operation resp =
     seq (require (transport_error resp = [])
       (NetworkError (operation @ '' failed: '' @ transport_error resp) (transport_error resp))) (\<lambda>_.
     if is_success (status resp) then ret resp else raise_grant_error E resp (operation @ '' failed''))"

definition registration_request ::
    "oidc_env \<Rightarrow> string \<Rightarrow> string \<Rightarrow> string \<Rightarrow> string \<Rightarrow> bool \<Rightarrow> string \<Rightarrow> ('w, http_response) cop" where
  "registration_request E meth uri token body retryable operation =
     seq (gets (budget_of retryable)) (\<lambda>budget.
     let req = registration_http meth uri token body (1 < budget) in
     retry_loop (\<lambda>_. call_transport E req)
       (\<lambda>resp. \<not> (transport_error resp = [] \<and> is_success (status resp)) \<and> retry_should_retry (transport_status resp))
       (grant_pause E None) (\<lambda>_. registration_outcome E operation) budget 1)"

definition decode_registration :: "oidc_env \<Rightarrow> string \<Rightarrow> http_response \<Rightarrow> client_registration res" where
  "decode_registration E operation resp =
     (case registration_from_json (env_parse E) (env_dump E) (resp_body resp) of
        Inl (NetworkError msg _) \<Rightarrow> Inl (NetworkError (operation @ '': '' @ msg) ''malformed_body'')
      | r \<Rightarrow> r)"

definition read_client_registration :: "oidc_env \<Rightarrow> string \<Rightarrow> string \<Rightarrow> ('w, client_registration) cop" where
  "read_client_registration E uri token =
     seq ensure_open (\<lambda>_.
     seq (from_state (\<lambda>s. check_registration_uri (base_url s) uri ''read_client_registration'')) (\<lambda>_.
     seq (registration_request E ''GET'' uri token [] True ''read_client_registration'') (\<lambda>resp.
     lift_res (decode_registration E ''read_client_registration'' resp))))"

definition update_client_registration ::
    "oidc_env \<Rightarrow> string \<Rightarrow> string \<Rightarrow> client_registration \<Rightarrow> ('w, client_registration) cop" where
  "update_client_registration E uri token r =
     seq ensure_open (\<lambda>_.
     seq (from_state (\<lambda>s. check_registration_uri (base_url s) uri ''update_client_registration'')) (\<lambda>_.
     seq (dump E (update_members (env_parse E) r)) (\<lambda>body.
     seq (registration_request E ''PUT'' uri token body False ''update_client_registration'') (\<lambda>resp.
     lift_res (decode_registration E ''update_client_registration'' resp)))))"

definition delete_client_registration :: "oidc_env \<Rightarrow> string \<Rightarrow> string \<Rightarrow> ('w, unit) cop" where
  "delete_client_registration E uri token =
     seq ensure_open (\<lambda>_.
     seq (from_state (\<lambda>s. check_registration_uri (base_url s) uri ''delete_client_registration'')) (\<lambda>_.
     seq (registration_request E ''DELETE'' uri token [] False ''delete_client_registration'') (\<lambda>_. ret ())))"

section \<open>Signing keys\<close>

datatype ciba_alg = PS256 | ES256 | EdDSA

fun alg_name :: "ciba_alg \<Rightarrow> string" where
  "alg_name PS256 = ''PS256''"
| "alg_name ES256 = ''ES256''"
| "alg_name EdDSA = ''EdDSA''"

text \<open>What OpenSSL says of a private key, and what signing with it answers.\<close>

datatype key_kind = Ed25519Key | EcKey string | RsaKey nat | OtherKey

record pkey =
  pk_kind :: key_kind
  pk_sign :: "ciba_alg \<Rightarrow> string \<Rightarrow> string option"

fun key_matches :: "ciba_alg \<Rightarrow> key_kind \<Rightarrow> bool" where
  "key_matches EdDSA k = (k = Ed25519Key)"
| "key_matches ES256 k = (k = EcKey ''prime256v1'')"
| "key_matches PS256 k = (case k of RsaKey bits \<Rightarrow> 2048 \<le> bits | _ \<Rightarrow> False)"

record signer =
  sg_alg :: ciba_alg
  sg_key :: pkey
  sg_kid :: "string option"

definition signing_key_from_pem :: "(string \<Rightarrow> pkey option) \<Rightarrow> ciba_alg \<Rightarrow> string \<Rightarrow> pkey option" where
  "signing_key_from_pem read_pem a pem =
     (if pem = [] then None
      else case read_pem pem of
        None \<Rightarrow> None
      | Some k \<Rightarrow>
          (if \<not> key_matches a (pk_kind k) then None
           else if pk_sign k a ''axiam-ciba-probe'' = None then None else Some k))"

definition signer_from_pem ::
    "(string \<Rightarrow> pkey option) \<Rightarrow> ciba_alg \<Rightarrow> string \<Rightarrow> string option \<Rightarrow> signer res" where
  "signer_from_pem read_pem a pem i =
     (case signing_key_from_pem read_pem a pem of
        None \<Rightarrow> Inl (InvalidArgument ''CibaRequestSigner: the PEM is not a private key that signs under the given algorithm'')
      | Some k \<Rightarrow> Inr \<lparr>sg_alg = a, sg_key = k, sg_kid = i\<rparr>)"

section \<open>Backchannel authentication\<close>

datatype user_hint = LoginHint string | IdTokenHint string
datatype delivery = Poll | Ping string

record ciba_params =
  cp_scope :: string
  cp_hint :: user_hint
  cp_binding :: "string option"
  cp_expiry :: "int option"
  cp_acr :: "string option"
  cp_resource :: "string option"
  cp_delivery :: delivery
  cp_signer :: "signer option"
  cp_tenant_id :: "string option"

record ciba_initiated =
  ci_auth_req_id :: string
  ci_expires_in :: int
  ci_interval :: int
  ci_received_at :: int

definition kCibaGrantType :: string where "kCibaGrantType = ''urn:openid:params:grant-type:ciba''"
definition kCibaDefaultInterval :: int where "kCibaDefaultInterval = 5"
definition kCibaSlowDownIncrement :: int where "kCibaSlowDownIncrement = 5"
definition kCibaSignedRequestLifetime :: int where "kCibaSignedRequestLifetime = 300"

definition ciba_client_auth :: "'w client_scheme \<Rightarrow> string \<Rightarrow> fields res" where
  "ciba_client_auth s operation =
     and_then (require_client_id s operation) (\<lambda>client_id.
     let has_secret = (oidc_client_secret s \<noteq> None \<and> oidc_client_secret s \<noteq> Some []) in
     and_then (ensure (has_secret \<or> presents_client_certificate s)
       (AuthError (operation @ '' requires client authentication: a CIBA client is never public''))) (\<lambda>_.
     Inr ((''client_id'', Some client_id) # (if has_secret then [(''client_secret'', oidc_client_secret s)] else []))))"

definition hint_member :: "user_hint \<Rightarrow> json \<Rightarrow> json" where
  "hint_member h j = (case h of LoginHint v \<Rightarrow> jset ''login_hint'' (JStr v) j | IdTokenHint v \<Rightarrow> jset ''id_token_hint'' (JStr v) j)"

definition ciba_members :: "ciba_params \<Rightarrow> json" where
  "ciba_members p =
     (case cp_delivery p of Poll \<Rightarrow> (\<lambda>j. j) | Ping t \<Rightarrow> jset ''client_notification_token'' (JStr t))
     (jset_opt ''resource'' (cp_resource p) (jset_opt ''acr_values'' (cp_acr p)
     ((case cp_expiry p of None \<Rightarrow> (\<lambda>j. j) | Some n \<Rightarrow> jset ''requested_expiry'' (JInt (word_of_int n)))
     (jset_opt ''binding_message'' (cp_binding p)
     (hint_member (cp_hint p) (jset ''scope'' (JStr (cp_scope p)) (JObj [])))))))"

definition signed_claims :: "ciba_params \<Rightarrow> string \<Rightarrow> string \<Rightarrow> int \<Rightarrow> string \<Rightarrow> json" where
  "signed_claims p client_id iss now jti =
     (let int = (\<lambda>n. JInt (word_of_int n)) in
      jset ''jti'' (JStr jti) (jset ''exp'' (int (now + kCibaSignedRequestLifetime)) (jset ''nbf'' (int now)
      (jset ''iat'' (int now) (jset ''aud'' (JStr iss) (jset ''iss'' (JStr client_id) (ciba_members p)))))))"

definition signed_header :: "signer \<Rightarrow> json" where
  "signed_header sg = jset_opt ''kid'' (sg_kid sg) (JObj [(''alg'', JStr (alg_name (sg_alg sg)))])"

definition signed_ciba_request ::
    "oidc_env \<Rightarrow> ciba_params \<Rightarrow> signer \<Rightarrow> string \<Rightarrow> string \<Rightarrow> ('w, string) cop" where
  "signed_ciba_request E p sg client_id iss =
     seq (reading (wall_now E)) (\<lambda>now.
     seq (draw E 16 ''could not draw cryptographic randomness'') (\<lambda>raw.
     seq (dump E (signed_header sg)) (\<lambda>h.
     seq (dump E (signed_claims p client_id iss now (to_hex raw))) (\<lambda>c.
     let input = b64url_encode h @ ''.'' @ b64url_encode c in
     case pk_sign (sg_key sg) (sg_alg sg) input of
       None \<Rightarrow> raise (NetworkError ''ciba_initiate: the signed request could not be signed'' ''sign_failure'')
     | Some sig \<Rightarrow> ret (input @ ''.'' @ b64url_encode sig)))))"

fun member_fields :: "(json \<Rightarrow> string res) \<Rightarrow> members \<Rightarrow> fields res" where
  "member_fields dmp [] = Inr []"
| "member_fields dmp ((k, v) # m) =
     and_then (case v of JStr s \<Rightarrow> Inr s | _ \<Rightarrow> dmp v) (\<lambda>x.
     and_then (member_fields dmp m) (\<lambda>fs. Inr ((k, Some x) # fs)))"

definition ciba_request_fields ::
    "oidc_env \<Rightarrow> ciba_params \<Rightarrow> oidc_configuration \<Rightarrow> ('w, fields) cop" where
  "ciba_request_fields E p cfg =
     (case cp_signer p of
        Some sg \<Rightarrow>
          seq (from_state (\<lambda>s. require_client_id s ''ciba_initiate'')) (\<lambda>client_id.
          seq (signed_ciba_request E p sg client_id (oc_issuer cfg)) (\<lambda>jws. ret [(''request'', Some jws)]))
      | None \<Rightarrow> lift_res (case ciba_members p of JObj m \<Rightarrow> member_fields (env_dump E) m | _ \<Rightarrow> Inr []))"

definition initiated_of :: "int \<Rightarrow> json \<Rightarrow> ciba_initiated res" where
  "initiated_of received j =
     and_then (opt_int j ''expires_in'') (\<lambda>x.
     case (opt_string j ''auth_req_id'', x) of
       (Some i, Some n) \<Rightarrow>
         and_then (opt_int j ''interval'') (\<lambda>v.
         Inr \<lparr>ci_auth_req_id = i, ci_expires_in = n, ci_interval = positive_or v kCibaDefaultInterval,
              ci_received_at = received\<rparr>)
     | _ \<Rightarrow> Inl (NetworkError ''malformed CibaInitiateResponse'' ''malformed_body''))"

definition ciba_initiate :: "oidc_env \<Rightarrow> ciba_params \<Rightarrow> ('w, ciba_initiated) oop" where
  "ciba_initiate E p =
     seq ensure_open (\<lambda>_.
     seq (require (cp_delivery p \<noteq> Ping [])
       (InvalidArgument ''ciba_initiate: a ping-mode request needs a client_notification_token'')) (\<lambda>_.
     seq (from_state (\<lambda>s. ciba_client_auth s ''ciba_initiate'')) (\<lambda>auth.
     seq (from_state (\<lambda>s. require_tenant_uuid s (cp_tenant_id p) ''ciba_initiate'')) (\<lambda>tenant.
     seq (oidc_discover E) (\<lambda>cfg.
     seq (from_state (\<lambda>s. preferred_endpoint s cfg ma_backchannel (oc_backchannel cfg))) (\<lambda>endpoint.
     case endpoint of
       None \<Rightarrow> raise (AuthError ''the discovery document advertises no backchannel_authentication_endpoint'')
     | Some u \<Rightarrow>
         seq (ciba_request_fields E p cfg) (\<lambda>fs.
         seq (form_once E (with_tenant u tenant) (form_str (auth @ fs)) ''ciba_initiate failed'') (\<lambda>j.
         seq (reading (steady_now E)) (\<lambda>now.
         lift_res (initiated_of now j))))))))))"

text \<open>
  One token request. A response that outlives the retries is an error with its kind: transient
  or not. The deadline's error is raised at once; both callers rethrow it.
\<close>

datatype ciba_outcome = Tokens token_set | Failed error bool

definition ciba_transient :: "oidc_env \<Rightarrow> http_response \<Rightarrow> bool" where
  "ciba_transient E resp =
     (let st = transport_status resp;
          protocol_answer = (case st of None \<Rightarrow> False
            | Some x \<Rightarrow> x < 500 \<and> opt_string (parse_or_object (env_parse E) (resp_body resp)) ''error'' \<noteq> None)
      in \<not> protocol_answer \<and> retry_should_retry st)"

definition answered_ok :: "http_response \<Rightarrow> bool" where
  "answered_ok resp = (transport_error resp = [] \<and> is_success (status resp))"

definition ciba_failure :: "oidc_env \<Rightarrow> http_response \<Rightarrow> ('w, ciba_outcome) cop" where
  "ciba_failure E resp =
     catching
       (if transport_error resp \<noteq> []
        then raise (NetworkError (''ciba poll failed: '' @ transport_error resp) (transport_error resp))
        else if 500 \<le> status resp then raise (status_error ''ciba poll failed'' (status resp))
        else raise_grant_error E resp ''ciba poll failed'')
       (\<lambda>_. True) (\<lambda>e. ret (Failed e (ciba_transient E resp)))"

type_synonym ciba_clock = "nat \<Rightarrow> int list \<Rightarrow> int"

definition ciba_expired :: error where
  "ciba_expired = OAuthProtocolError ''expired_token: the CIBA request expired before it was decided'' ''expired_token'' None None None"

definition clock_now :: "ciba_clock \<Rightarrow> ('w, int) cop" where
  "clock_now clk = reading (\<lambda>s. (clk (ticks s) (waits s), s\<lparr>ticks := Suc (ticks s)\<rparr>))"

definition clock_within :: "(ciba_clock \<times> int) option \<Rightarrow> int \<Rightarrow> ('w, unit) cop" where
  "clock_within deadline d =
     (case deadline of
        None \<Rightarrow> ret ()
      | Some (clk, t) \<Rightarrow> seq (clock_now clk) (\<lambda>now. seq (lift_res (ck64 (now + d))) (\<lambda>due. require (due < t) ciba_expired)))"

definition ciba_pause :: "oidc_env \<Rightarrow> (ciba_clock \<times> int) option \<Rightarrow> nat \<Rightarrow> http_response \<Rightarrow> ('w, unit) cop" where
  "ciba_pause E deadline attempt resp =
     seq (drawn_delay E attempt resp) (\<lambda>d.
     seq (clock_within deadline (d * 1000000)) (\<lambda>_.
     seq (slept d) (\<lambda>_. clock_within deadline 0)))"

definition ciba_poll_once ::
    "oidc_env \<Rightarrow> oidc_configuration \<Rightarrow> string \<Rightarrow> string \<Rightarrow> (ciba_clock \<times> int) option \<Rightarrow> ('w, ciba_outcome) oop" where
  "ciba_poll_once E cfg auth_req_id tenant deadline =
     seq (from_state (\<lambda>s. ciba_client_auth s ''ciba_poll'')) (\<lambda>auth.
     seq (from_state (\<lambda>s. preferred_endpoint_always s cfg ma_token (oc_token cfg))) (\<lambda>endpoint.
     seq (gets (budget_of True)) (\<lambda>budget.
     seq (gets (form_request (with_tenant endpoint tenant)
            (form_str ([(''grant_type'', Some kCibaGrantType), (''auth_req_id'', Some auth_req_id)] @ auth)) (1 < budget))) (\<lambda>req.
     retry_loop (\<lambda>_. call_transport E req)
       (\<lambda>resp. \<not> answered_ok resp \<and> ciba_transient E resp) (ciba_pause E deadline)
       (\<lambda>_ resp. if answered_ok resp
          then seq (parse_token_set E cfg None (resp_body resp)) (\<lambda>ts. ret (Tokens ts))
          else ciba_failure E resp) budget 1))))"

definition ciba_poll :: "oidc_env \<Rightarrow> string \<Rightarrow> string option \<Rightarrow> ('w, token_set) oop" where
  "ciba_poll E auth_req_id tenant_id =
     seq ensure_open (\<lambda>_.
     seq (require (auth_req_id \<noteq> []) (AuthError ''ciba_poll requires an auth_req_id'')) (\<lambda>_.
     seq (from_state (\<lambda>s. ciba_client_auth s ''ciba_poll'')) (\<lambda>_.
     seq (from_state (\<lambda>s. require_tenant_uuid s tenant_id ''ciba_poll'')) (\<lambda>tenant.
     seq (oidc_discover E) (\<lambda>cfg.
     seq (ciba_poll_once E cfg auth_req_id tenant None) (\<lambda>out.
     case out of Tokens ts \<Rightarrow> ret ts | Failed e _ \<Rightarrow> raise e))))))"

definition ciba_verdict :: "int \<Rightarrow> ciba_outcome \<Rightarrow> ('s, token_set + int) op" where
  "ciba_verdict interval out =
     (case out of
        Tokens ts \<Rightarrow> ret (Inl ts)
      | Failed e transient \<Rightarrow>
          (if transient then ret (Inr interval)
           else case e of
             OAuthProtocolError _ c _ _ _ \<Rightarrow>
               (if c = ''authorization_pending'' \<or> c = ''rate_limit_exceeded'' then ret (Inr interval)
                else if c = ''slow_down'' then seq (lift_res (ck64 (interval + kCibaSlowDownIncrement))) (\<lambda>i. ret (Inr i))
                else raise e)
           | _ \<Rightarrow> raise e))"

definition ciba_round ::
    "oidc_env \<Rightarrow> oidc_configuration \<Rightarrow> string \<Rightarrow> string \<Rightarrow> ciba_clock \<Rightarrow> int \<Rightarrow> int \<Rightarrow>
     ('w oidc_client_scheme, token_set + int) op" where
  "ciba_round E cfg auth_req_id tenant clk deadline interval =
     seq (lift_res (ck64 (interval * 1000000000))) (\<lambda>d.
     seq (clock_within (Some (clk, deadline)) d) (\<lambda>_.
     seq (slept (interval * 1000)) (\<lambda>_.
     seq (clock_within (Some (clk, deadline)) 0) (\<lambda>_.
     seq (ciba_poll_once E cfg auth_req_id tenant (Some (clk, deadline))) (ciba_verdict interval)))))"

definition ciba_prepare ::
    "oidc_env \<Rightarrow> ciba_initiated \<Rightarrow> string option \<Rightarrow> ('w, string \<times> oidc_configuration) oop" where
  "ciba_prepare E i tenant_id =
     seq ensure_open (\<lambda>_.
     seq (require (ci_auth_req_id i \<noteq> []) (AuthError ''ciba_await requires an auth_req_id'')) (\<lambda>_.
     seq (from_state (\<lambda>s. ciba_client_auth s ''ciba_await'')) (\<lambda>_.
     seq (from_state (\<lambda>s. require_tenant_uuid s tenant_id ''ciba_await'')) (\<lambda>tenant.
     seq (oidc_discover E) (\<lambda>cfg. ret (tenant, cfg))))))"

definition ciba_deadline :: "ciba_initiated \<Rightarrow> int" where
  "ciba_deadline i = ci_received_at i + clamp_seconds (ci_expires_in i) * 1000000000"

definition ciba_await ::
    "oidc_env \<Rightarrow> ciba_clock \<Rightarrow> ciba_initiated \<Rightarrow> string option \<Rightarrow> 'w oidc_client_scheme \<Rightarrow>
     (token_set res \<times> 'w oidc_client_scheme) option" where
  "ciba_await E clk i tenant_id s =
     (case ciba_prepare E i tenant_id s of
        (Inl e, t) \<Rightarrow> Some (Inl e, t)
      | (Inr (tenant, cfg), t) \<Rightarrow>
          rounds (ciba_round E cfg (ci_auth_req_id i) tenant clk (ciba_deadline i))
            (positive_or (Some (ci_interval i)) kCibaDefaultInterval) t)"

section \<open>Ping notifications\<close>

definition ping_refused :: error where
  "ping_refused = AuthError ''ciba ping refused: the Authorization header is not the expected bearer''"

definition ping_token_matches :: "string \<Rightarrow> string \<Rightarrow> bool" where
  "ping_token_matches token expected = (expected \<noteq> [] \<and> constant_time_equal token expected)"

fun authorization_of :: "(string \<times> string) list \<Rightarrow> string option \<Rightarrow> string option res" where
  "authorization_of [] found = Inr found"
| "authorization_of ((n, v) # hs) found =
     (if lower n \<noteq> ''authorization'' then authorization_of hs found
      else if found \<noteq> None then Inl ping_refused
      else authorization_of hs (Some v))"

definition bearer_matches :: "string \<Rightarrow> string \<Rightarrow> bool" where
  "bearer_matches value expected =
     (case cut (\<lambda>c. c = CHR '' '') value of
        None \<Rightarrow> False
      | Some (scheme_name, _, token) \<Rightarrow> lower scheme_name = ''bearer'' \<and> ping_token_matches token expected)"

definition ciba_handle_ping :: "(string \<Rightarrow> json) \<Rightarrow> (string \<times> string) list \<Rightarrow> string \<Rightarrow> string \<Rightarrow> string res" where
  "ciba_handle_ping parse headers body expected =
     and_then (authorization_of headers None) (\<lambda>a.
     case a of
       None \<Rightarrow> Inl ping_refused
     | Some v \<Rightarrow>
         (if \<not> bearer_matches v expected then Inl ping_refused
          else let j = parse body in
            case (if is_object j then opt_string j ''auth_req_id'' else None) of
              None \<Rightarrow> Inl (InvalidArgument ''ciba_handle_ping: the ping body is not a JSON object carrying a non-empty auth_req_id string'')
            | Some i \<Rightarrow> Inr i))"

section \<open>Polling loops\<close>

text \<open>
  Every wait of a run was checked against the deadline when it began: a reading of the clock,
  taken no earlier, plus the wait fell short of it. \<open>u\<close> is the clock's unit in a millisecond.
\<close>

definition checked :: "(nat \<Rightarrow> int list \<Rightarrow> int) \<Rightarrow> int \<Rightarrow> int \<Rightarrow> 'w client_scheme \<Rightarrow> 'w client_scheme \<Rightarrow> bool" where
  "checked clk u D s t \<longleftrightarrow>
     ticks s \<le> ticks t \<and> (\<exists>ws. waits t = waits s @ ws
       \<and> (\<forall>xs w ys. ws = xs @ w # ys \<longrightarrow> 0 \<le> w \<and> (\<exists>n\<ge>ticks s. clk n (waits s @ xs) + u * w < D)))"

lemma checked_quiet: "ticks s \<le> ticks t \<Longrightarrow> waits t = waits s \<Longrightarrow> checked clk u D s t"
  by (simp add: checked_def)

lemma append_split: "ws1 @ ws2 = xs @ w # ys \<Longrightarrow>
    (\<exists>zs. ws1 = xs @ w # zs) \<or> (\<exists>zs. xs = ws1 @ zs \<and> ws2 = zs @ w # ys)"
  by (auto simp: append_eq_append_conv2 append_eq_Cons_conv Cons_eq_append_conv)

lemma checked_trans:
  assumes "checked clk u D s t" "checked clk u D t r"
  shows "checked clk u D s r"
proof -
  from assms(1) obtain ws1 where 1: "waits t = waits s @ ws1"
    "\<And>xs w ys. ws1 = xs @ w # ys \<Longrightarrow> 0 \<le> w \<and> (\<exists>n\<ge>ticks s. clk n (waits s @ xs) + u * w < D)"
    by (auto simp: checked_def)
  from assms(2) obtain ws2 where 2: "waits r = waits t @ ws2"
    "\<And>xs w ys. ws2 = xs @ w # ys \<Longrightarrow> 0 \<le> w \<and> (\<exists>n\<ge>ticks t. clk n (waits t @ xs) + u * w < D)"
    by (auto simp: checked_def)
  have le: "ticks s \<le> ticks t" "ticks t \<le> ticks r" using assms by (simp_all add: checked_def)
  have "0 \<le> w \<and> (\<exists>n\<ge>ticks s. clk n (waits s @ xs) + u * w < D)" if "ws1 @ ws2 = xs @ w # ys" for xs w ys
    using append_split[OF that]
  proof
    assume "\<exists>zs. ws1 = xs @ w # zs"
    then show ?thesis using 1(2) by blast
  next
    assume "\<exists>zs. xs = ws1 @ zs \<and> ws2 = zs @ w # ys"
    then obtain zs where z: "xs = ws1 @ zs" "ws2 = zs @ w # ys" by blast
    from 2(2)[OF z(2)] le(1) show ?thesis by (auto simp: z(1) 1(1) intro: order_trans)
  qed
  with 1(1) 2(1) le show ?thesis by (auto simp: checked_def)
qed

interpretation checked: kept "checked clk u D" for clk u D
  using checked_quiet checked_trans by unfold_locales blast+

lemma checked_wait:
  "0 \<le> w \<Longrightarrow> clk n (waits s) + u * w < D \<Longrightarrow> ticks s \<le> n \<Longrightarrow> n \<le> ticks t \<Longrightarrow> waits t = waits s @ [w] \<Longrightarrow>
     checked clk u D s t"
  by (fastforce simp: checked_def append_eq_Cons_conv Cons_eq_append_conv)

text \<open>A clock on which sleeping takes time and time does not go back.\<close>

definition sleeping_clock :: "(nat \<Rightarrow> int list \<Rightarrow> int) \<Rightarrow> int \<Rightarrow> bool" where
  "sleeping_clock clk u \<longleftrightarrow>
     (\<forall>n n' ws xs. n \<le> n' \<longrightarrow> list_all (\<lambda>d. 0 \<le> d) xs \<longrightarrow> clk n ws + u * sum_list xs \<le> clk n' (ws @ xs))"

lemma sleepD: "sleeping_clock clk u \<Longrightarrow> n \<le> n' \<Longrightarrow> list_all (\<lambda>d. 0 \<le> d) xs \<Longrightarrow>
    clk n ws + u * sum_list xs \<le> clk n' (ws @ xs)"
  by (simp add: sleeping_clock_def)

lemma checked_total:
  assumes "checked clk u D s t" "sleeping_clock clk u"
  obtains ws where "waits t = waits s @ ws" "list_all (\<lambda>d. 0 \<le> d) ws"
    "ws = [] \<or> clk (ticks s) (waits s) + u * sum_list ws < D" "ticks s \<le> ticks t"
proof -
  from assms(1) obtain ws where ws: "waits t = waits s @ ws" "ticks s \<le> ticks t"
    "\<And>xs w ys. ws = xs @ w # ys \<Longrightarrow> 0 \<le> w \<and> (\<exists>n\<ge>ticks s. clk n (waits s @ xs) + u * w < D)"
    by (auto simp: checked_def)
  have nn: "list_all (\<lambda>d. 0 \<le> d) ws"
    unfolding list_all_iff using ws(3) by (metis split_list)
  have "clk (ticks s) (waits s) + u * sum_list ws < D" if "ws \<noteq> []"
  proof -
    have sp: "ws = butlast ws @ last ws # []" using that by simp
    from ws(3)[OF sp] obtain n where n: "ticks s \<le> n" "clk n (waits s @ butlast ws) + u * last ws < D" by blast
    have "list_all (\<lambda>d. 0 \<le> d) (butlast ws)" using nn by (auto simp: list_all_iff dest: in_set_butlastD)
    from sleepD[OF assms(2) n(1) this, of "waits s"] n(2)
    have "clk (ticks s) (waits s) + u * sum_list (butlast ws) + u * last ws < D" by simp
    moreover have "sum_list ws = sum_list (butlast ws) + last ws" by (subst sp) simp
    ultimately show ?thesis by (simp add: distrib_left)
  qed
  with that ws(1,2) nn show thesis by blast
qed

text \<open>
  What both loops promise: their waits are checked, and a round that asks for another has slept.
  Then, on a clock that sleeping advances, the loop returns.
\<close>

locale polling =
  fixes f :: "'c \<Rightarrow> ('w client_scheme, 'x + 'c) op"
    and clk :: "nat \<Rightarrow> int list \<Rightarrow> int" and u D :: int
    and ok :: "'c \<Rightarrow> bool"
  assumes unit_pos: "0 < u"
    and waits_checked: "ok c \<Longrightarrow> checked clk u D s (snd (f c s))"
    and progress: "ok c \<Longrightarrow> f c s = (Inr (Inr c'), t) \<Longrightarrow> ok c' \<and> (\<exists>ws. waits t = waits s @ ws \<and> 0 < sum_list ws)"
begin

lemma round_advances:
  assumes "sleeping_clock clk u" "ok c" "f c s = (Inr (Inr c'), t)"
  shows "nat (D - clk (ticks t) (waits t)) < nat (D - clk (ticks s) (waits s))"
proof -
  have "checked clk u D s t" using waits_checked[OF assms(2), of s] assms(3) by simp
  then obtain ws where ws: "waits t = waits s @ ws" "list_all (\<lambda>d. 0 \<le> d) ws"
    "ws = [] \<or> clk (ticks s) (waits s) + u * sum_list ws < D" "ticks s \<le> ticks t"
    using assms(1) by (rule checked_total)
  from progress[OF assms(2,3)] ws(1) have pos: "0 < sum_list ws" by auto
  then have "clk (ticks s) (waits s) + u * sum_list ws < D" using ws(3) by auto
  moreover have "clk (ticks s) (waits s) + u * sum_list ws \<le> clk (ticks t) (waits t)"
    using sleepD[OF assms(1) ws(4,2), of "waits s"] ws(1) by simp
  moreover have "0 < u * sum_list ws" using pos unit_pos by simp
  ultimately show ?thesis by linarith
qed

lemma returns:
  assumes "sleeping_clock clk u" "ok c"
  shows "\<exists>r t. rounds f c s = Some (r, t)"
  using assms(2)
proof (induction "nat (D - clk (ticks s) (waits s))" arbitrary: c s rule: less_induct)
  case less
  obtain q t where q: "f c s = (q, t)" by fastforce
  show ?case
  proof (cases "\<exists>c'. q = Inr (Inr c')")
    case True
    then obtain c' where c': "f c s = (Inr (Inr c'), t)" using q by blast
    from less(1)[OF round_advances[OF assms(1) less(2) c'], of c'] progress[OF less(2) c']
    have "\<exists>r t'. rounds f c' t = Some (r, t')" by blast
    then show ?thesis by (subst rounds.simps) (simp add: c')
  next
    case False
    then show ?thesis by (subst rounds.simps) (auto simp: q split: sum.split)
  qed
qed

lemma rounds_checked:
  assumes "ok c" "rounds f c s = Some y"
  shows "checked clk u D s (snd y)"
proof -
  have "f = f \<and> ok c \<longrightarrow> checked clk u D s (snd y)"
    using assms(2)
  proof (rule rounds.raw_induct[where P = "\<lambda>g c s y. g = f \<and> ok c \<longrightarrow> checked clk u D s (snd y)", rotated])
    fix rec :: "('c \<Rightarrow> ('w client_scheme, 'x + 'c) op) \<Rightarrow> 'c \<Rightarrow> 'w client_scheme \<Rightarrow> ('x res \<times> 'w client_scheme) option"
      and g c and s :: "'w client_scheme" and y
    assume ih: "\<And>g c s y. rec g c s = Some y \<Longrightarrow> g = f \<and> ok c \<longrightarrow> checked clk u D s (snd y)"
      and st: "(case g c s of (Inl e, t) \<Rightarrow> Some (Inl e, t) | (Inr (Inl x), t) \<Rightarrow> Some (Inr x, t)
        | (Inr (Inr c'), t) \<Rightarrow> rec g c' t) = Some y"
    show "g = f \<and> ok c \<longrightarrow> checked clk u D s (snd y)"
    proof
      assume gk: "g = f \<and> ok c"
      then have g: "g = f" ..
      obtain q t where q: "f c s = (q, t)" by fastforce
      have a: "checked clk u D s t" using waits_checked[of c s] gk q by simp
      show "checked clk u D s (snd y)"
      proof (cases "\<exists>c'. q = Inr (Inr c')")
        case True
        then obtain c' where "q = Inr (Inr c')" by blast
        with st q g have "rec g c' t = Some y" by simp
        moreover have "ok c'" using progress[of c s c' t] gk q \<open>q = Inr (Inr c')\<close> by simp
        ultimately have "checked clk u D t (snd y)" using ih g by blast
        with a show ?thesis by (rule checked_trans)
      next
        case False
        with st q g a show ?thesis by (auto split: sum.splits)
      qed
    qed
  qed
  then show ?thesis using assms(1) by simp
qed

text \<open>A loop that returns has not slept through its deadline.\<close>

lemma slept_within:
  assumes "sleeping_clock clk u" "ok c" "rounds f c s = Some (r, t)"
  shows "\<exists>ws. waits t = waits s @ ws \<and> list_all (\<lambda>d. 0 \<le> d) ws
    \<and> (ws = [] \<or> clk (ticks s) (waits s) + u * sum_list ws < D)"
proof -
  from rounds_checked[OF assms(2,3)] have "checked clk u D s t" by simp
  from checked_total[OF this assms(1)] show ?thesis by metis
qed

end

section \<open>The rounds of the two loops\<close>

lemma checked_calm: "keeps (calm Q (\<lambda>_. False)) m \<Longrightarrow> keeps (checked clk u D) m"
  by (auto simp: keeps_def calm_def later_def list_all_iff intro!: checked_quiet)

lemma within_run:
  "within_deadline E (Some t) d s =
     (if \<not> fits64 (o_now_ms E (ticks s) (waits s) + d) then (Inl Undefined, s\<lparr>ticks := Suc (ticks s)\<rparr>)
      else if o_now_ms E (ticks s) (waits s) + d < t then (Inr (), s\<lparr>ticks := Suc (ticks s)\<rparr>)
      else (Inl expired_token, s\<lparr>ticks := Suc (ticks s)\<rparr>))"
  by (simp add: within_deadline_def now_ms_def seq_run op_runs ck64_def)

lemma clock_within_run:
  "clock_within (Some (clk, t)) d s =
     (if \<not> fits64 (clk (ticks s) (waits s) + d) then (Inl Undefined, s\<lparr>ticks := Suc (ticks s)\<rparr>)
      else if clk (ticks s) (waits s) + d < t then (Inr (), s\<lparr>ticks := Suc (ticks s)\<rparr>)
      else (Inl ciba_expired, s\<lparr>ticks := Suc (ticks s)\<rparr>))"
  by (simp add: clock_within_def clock_now_def seq_run op_runs ck64_def)

text \<open>A check against the deadline: it reads the clock once, and passes only short of it.\<close>

definition deadline_check :: "(nat \<Rightarrow> int list \<Rightarrow> int) \<Rightarrow> int \<Rightarrow> (int \<Rightarrow> ('w client_scheme, unit) op) \<Rightarrow> bool" where
  "deadline_check clk D g \<longleftrightarrow>
     (\<forall>d s. snd (g d s) = s\<lparr>ticks := Suc (ticks s)\<rparr> \<and> (fst (g d s) = Inr () \<longrightarrow> clk (ticks s) (waits s) + d < D))"

lemma deadline_checks:
  "deadline_check (o_now_ms E) D (within_deadline E (Some D))" "deadline_check clk D (clock_within (Some (clk, D)))"
  by (simp_all add: deadline_check_def within_run clock_within_run)

text \<open>Check, sleep, check again, and go on.\<close>

lemma checked_nap:
  fixes g :: "int \<Rightarrow> ('w client_scheme, unit) op" and k :: "('w client_scheme, 'a) op"
  assumes g: "deadline_check clk D g" and "0 \<le> w" and d: "d = u * w"
    and k: "keeps (checked clk u D) k"
  shows "keeps (checked clk u D) (seq (g d) (\<lambda>_. seq (slept w) (\<lambda>_. seq (g 0) (\<lambda>_. k))))"
proof (rule keepsI)
  fix s :: "'w client_scheme"
  let ?s1 = "s\<lparr>ticks := Suc (ticks s)\<rparr>" and ?m = "seq (g d) (\<lambda>_. seq (slept w) (\<lambda>_. seq (g 0) (\<lambda>_. k)))"
  let ?s2 = "?s1\<lparr>waits := waits s @ [w]\<rparr>"
  have snd1: "snd (g d s) = ?s1" and snd2: "snd (g 0 ?s2) = ?s2\<lparr>ticks := Suc (ticks ?s2)\<rparr>"
    using g by (simp_all add: deadline_check_def)
  show "checked clk u D s (snd (?m s))"
  proof (cases "fst (g d s)")
    case (Inl e)
    then have "g d s = (Inl e, ?s1)" using snd1 by (metis prod.collapse)
    then show ?thesis by (simp add: seq_run checked_quiet)
  next
    case (Inr un)
    then have g1: "g d s = (Inr (), ?s1)" using snd1 by (metis (full_types) old.unit.exhaust prod.collapse)
    have "clk (ticks s) (waits s) + u * w < D" using g Inr by (simp add: deadline_check_def d)
    then have a: "checked clk u D s ?s2"
      using assms(2) by (intro checked_wait[of w clk "ticks s"]) simp_all
    have b: "checked clk u D ?s2 (?s2\<lparr>ticks := Suc (ticks ?s2)\<rparr>)" by (rule checked_quiet) simp_all
    have c: "checked clk u D (?s2\<lparr>ticks := Suc (ticks ?s2)\<rparr>) (snd (k (?s2\<lparr>ticks := Suc (ticks ?s2)\<rparr>)))"
      using keepsD[OF k] .
    show ?thesis
    proof (cases "fst (g 0 ?s2)")
      case (Inl e)
      then have "g 0 ?s2 = (Inl e, ?s2\<lparr>ticks := Suc (ticks ?s2)\<rparr>)" using snd2 by (metis prod.collapse)
      with g1 checked_trans[OF a b] show ?thesis by (simp add: seq_run slept_def op_runs)
    next
      case (Inr un)
      then have "g 0 ?s2 = (Inr un, ?s2\<lparr>ticks := Suc (ticks ?s2)\<rparr>)" using snd2 by (metis prod.collapse)
      with g1 checked_trans[OF checked_trans[OF a b] c] show ?thesis by (simp add: seq_run slept_def op_runs)
    qed
  qed
qed

lemma checked_seq_value:
  assumes "keeps (checked clk u D) m" "\<And>s x t. m s = (Inr x, t) \<Longrightarrow> keeps (checked clk u D) (k x)"
  shows "keeps (checked clk u D) (seq m k)"
proof (rule keepsI)
  fix s
  obtain r t where m: "m s = (r, t)" by fastforce
  show "checked clk u D s (snd (seq m k s))"
    using keeps_run[OF assms(1) m] keepsD[OF assms(2)[of s _ t]] m checked_trans
    by (cases r) (auto simp: seq_run intro: checked_trans)
qed

lemma drawn_nonneg:
  assumes "drawn_delay E k resp s = (Inr d, t)"
  shows "0 \<le> d"
proof -
  have "0 \<le> retry_delay (int k) hint f" for hint f
    using jittered_bounds(1)[of "int k" f] by (auto simp: retry_delay_def split: option.split)
  moreover have "\<exists>hint f. d = retry_delay (int k) hint f"
    using assms by (auto simp: drawn_delay_def seq_run op_runs draw_jitter_def simp del: split_paired_Ex split: prod.splits sum.splits)
  ultimately show ?thesis by blast
qed

lemma checked_pause:
  assumes "deadline_check clk D g"
  shows "keeps (checked clk u D) (seq (drawn_delay E k resp) (\<lambda>d. seq (g (u * d)) (\<lambda>_. seq (slept d) (\<lambda>_. g 0))))"
proof (rule checked_seq_value)
  show "keeps (checked clk u D) (drawn_delay E k resp)" by (rule checked_calm) (rule calm_delay)
next
  fix s d t
  assume "drawn_delay E k resp s = (Inr d, t)"
  then have "0 \<le> d" by (rule drawn_nonneg)
  have e: "seq (g 0) (\<lambda>_. ret ()) = g 0"
    by (auto simp: fun_eq_iff seq_run op_runs split: prod.split sum.split)
  from checked_nap[OF assms \<open>0 \<le> d\<close> refl checked.pure(1), of u "()"]
  show "keeps (checked clk u D) (seq (g (u * d)) (\<lambda>_. seq (slept d) (\<lambda>_. g 0)))" by (simp only: e)
qed

lemma checked_grant:
  "keeps (checked (o_now_ms E) 1 D) (token_grant E cfg tenant form retryable what (Some D))"
proof -
  have p: "keeps (checked (o_now_ms E) 1 D) (grant_pause E (Some D) k resp)" for k resp
    using checked_pause[OF deadline_checks(1), where u = 1 and D = D and E = E and k = k and resp = resp]
    by (simp add: grant_pause_def)
  have t: "keeps (checked (o_now_ms E) 1 D) (call_transport E req)" for req
    by (rule checked_calm[where Q = "\<lambda>_. True"]) (rule calm_transport, simp)
  have "keeps (checked (o_now_ms E) 1 D) (form_send E retryable stop (Some D) url form)" for stop url
  proof (rule keepsI)
    fix s :: "'b client_scheme"
    have "keeps (checked (o_now_ms E) 1 D) (retry_loop (\<lambda>_. call_transport E req) g (grant_pause E (Some D)) (\<lambda>_. ret) n 1
        :: ('b, http_response) cop)" for req g n
      by (intro checked.repeat p t checked.pure)
    from keepsD[OF this, of s] show "checked (o_now_ms E) 1 D s (snd (form_send E retryable stop (Some D) url form s))"
      by (simp add: form_send_def seq_run op_runs)
  qed
  moreover have "keeps (checked (o_now_ms E) 1 D) (grant_outcome E retryable what resp)" for resp
    by (rule checked_calm) (rule calm_outcome)
  moreover have "keeps (checked (o_now_ms E) 1 D) (from_state h)" for h
    by (rule checked_calm) (rule calm_state)
  ultimately show ?thesis unfolding token_grant_def by (intro checked.seq)
qed

lemma checked_poll_with:
  "keeps (checked (o_now_ms E) 1 D) (device_poll_with E cfg dc client_id tenant (Some D))"
  unfolding device_poll_with_def
  by (intro checked.seq checked.pure checked_grant checked_calm[OF any_request.calm_token_set])

lemma checked_verdict: "keeps (checked clk u D) (device_verdict interval e)"
  unfolding device_verdict_def by (cases e) (simp_all add: checked.pure checked.seq)

lemma device_round_checked:
  assumes "0 < fst c"
  shows "checked (o_now_ms E) 1 D s (snd (device_round E cfg dc client_id tenant D c s))"
proof (cases "fits64 (fst c * 1000)")
  case True
  obtain i fl where c: "c = (i, fl)" by fastforce
  have k: "keeps (checked (o_now_ms E) 1 D)
      (catching (seq (device_poll_with E cfg dc client_id tenant (Some D)) (\<lambda>ts. ret (Inl ts))) (\<lambda>_. True) (device_verdict i))"
    by (intro checked.catching checked.seq checked.pure checked_poll_with checked_verdict)
  have "0 \<le> max (i * 1000) fl" using assms c by simp
  moreover have "max (i * 1000) fl = 1 * max (i * 1000) fl" by simp
  ultimately show ?thesis
  using keepsD[OF checked_nap[OF deadline_checks(1) _ _ k], of "max (i * 1000) fl" "max (i * 1000) fl" s] True c
    by (simp add: device_round_def seq_run[of "lift_res _"] op_runs ck64_def)
next
  case False
  then show ?thesis by (cases c) (simp add: device_round_def seq_run op_runs ck64_def checked_quiet)
qed

lemma checked_ciba_poll:
  "keeps (checked clk 1000000 D) (ciba_poll_once E cfg i tenant (Some (clk, D)))"
proof -
  have p: "keeps (checked clk 1000000 D) (ciba_pause E (Some (clk, D)) k resp)" for k resp
    using checked_pause[OF deadline_checks(2), where u = 1000000 and D = D and E = E and k = k and resp = resp and clk = clk]
    by (simp add: ciba_pause_def mult.commute)
  have t: "keeps (checked clk 1000000 D) (call_transport E req)" for req
    by (rule checked_calm[where Q = "\<lambda>_. True"]) (rule calm_transport, simp)
  have f: "keeps (checked clk 1000000 D) (ciba_failure E resp)" for resp
    unfolding ciba_failure_def by (intro checked.rules checked_calm[OF calm_grant_error])
  show ?thesis
    unfolding ciba_poll_once_def
    by (intro checked.seq checked.pure checked_calm[OF calm_state] checked.repeat checked.branch p t f
        checked_calm[OF any_request.calm_token_set])
qed

lemma checked_ciba_verdict: "keeps (checked clk u D) (ciba_verdict interval out)"
proof (cases out)
  case (Failed e transient)
  then show ?thesis unfolding ciba_verdict_def by (cases e) (simp_all add: checked.pure checked.seq)
qed (simp add: ciba_verdict_def checked.pure)

lemma ciba_round_checked:
  assumes "0 < i"
  shows "checked clk 1000000 D s (snd (ciba_round E cfg req tenant clk D i s))"
proof (cases "fits64 (i * 1000000000)")
  case True
  have k: "keeps (checked clk 1000000 D) (seq (ciba_poll_once E cfg req tenant (Some (clk, D))) (ciba_verdict i))"
    by (intro checked.seq checked_ciba_poll checked_ciba_verdict)
  have "i * 1000000000 = 1000000 * (i * 1000)" "0 \<le> i * 1000" using assms by simp_all
  from keepsD[OF checked_nap[OF deadline_checks(2) this(2,1) k], of s] True
  show ?thesis by (simp add: ciba_round_def seq_run[of "lift_res _"] op_runs ck64_def)
next
  case False
  then show ?thesis by (simp add: ciba_round_def seq_run op_runs ck64_def checked_quiet)
qed

text \<open>A round that asks for another one has slept its interval.\<close>

lemma checked_waits:
  assumes "checked clk u D s t"
  shows "\<exists>ws. waits t = waits s @ ws \<and> list_all (\<lambda>d. 0 \<le> d) ws"
proof -
  from assms obtain ws where ws: "waits t = waits s @ ws"
    "\<And>xs w ys. ws = xs @ w # ys \<Longrightarrow> 0 \<le> w" by (auto simp: checked_def)
  then have "list_all (\<lambda>d. 0 \<le> d) ws" unfolding list_all_iff by (metis split_list)
  with ws(1) show ?thesis by blast
qed

lemma nap_slept:
  assumes "seq (g d) (\<lambda>_. seq (slept w) (\<lambda>_. seq (g 0) (\<lambda>_. k))) s = (Inr x, t)" "deadline_check clk D g"
    and "keeps (checked clk u D) k" "0 < w"
  shows "\<exists>ws. waits t = waits s @ ws \<and> 0 < sum_list ws"
proof -
  from assms(1) obtain s1 s2 s3 where 1: "g d s = (Inr (), s1)" "slept w s1 = (Inr (), s2)" "g 0 s2 = (Inr (), s3)"
    "k s3 = (Inr x, t)" by (simp only: seq_eq_Inr) (metis (full_types) old.unit.exhaust)
  have "s1 = s\<lparr>ticks := Suc (ticks s)\<rparr>" "s3 = s2\<lparr>ticks := Suc (ticks s2)\<rparr>"
    using assms(2) 1(1,3) unfolding deadline_check_def by (metis snd_conv)+
  moreover have "s2 = s1\<lparr>waits := waits s1 @ [w]\<rparr>" using 1(2) by (simp add: slept_def op_runs)
  ultimately have "waits s3 = waits s @ [w]" by simp
  moreover from checked_waits[OF keeps_run[OF assms(3) 1(4)]] obtain ws where
    "waits t = waits s3 @ ws" "list_all (\<lambda>d. 0 \<le> d) ws" by blast
  moreover from this(2) have "0 \<le> sum_list ws" by (simp add: list_all_iff sum_list_nonneg)
  ultimately show ?thesis using assms(4) by (intro exI[of _ "w # ws"]) simp
qed

lemma device_verdict_again:
  "device_verdict i e s = (Inr (Inr c), t) \<Longrightarrow> i \<le> fst c"
  by (cases e) (auto simp: device_verdict_def op_runs seq_run ck64_def kDeviceSlowDownIncrement_def split: if_splits)

lemma device_body_again:
  assumes "catching (seq m (\<lambda>ts. ret (Inl ts))) (\<lambda>_. True) (device_verdict i) s = (Inr (Inr c), t)"
  shows "i \<le> fst c"
proof -
  obtain r s1 where m: "m s = (r, s1)" by fastforce
  then obtain e where "r = Inl e" using assms by (cases r) (simp_all add: catching_run seq_run op_runs)
  with assms m have "device_verdict i e s1 = (Inr (Inr c), t)" by (simp add: catching_run seq_run)
  then show ?thesis by (rule device_verdict_again)
qed

lemma ciba_verdict_again: "ciba_verdict i out s = (Inr (Inr c), t) \<Longrightarrow> i \<le> c"
proof (cases out)
  case (Failed e tr)
  then show "ciba_verdict i out s = (Inr (Inr c), t) \<Longrightarrow> i \<le> c"
    by (cases e) (auto simp: ciba_verdict_def op_runs seq_run ck64_def kCibaSlowDownIncrement_def split: if_splits)
qed (simp add: ciba_verdict_def op_runs)

lemma device_round_progress:
  assumes "0 < fst c" "device_round E cfg dc client_id tenant D c s = (Inr (Inr c'), t)"
  shows "0 < fst c' \<and> (\<exists>ws. waits t = waits s @ ws \<and> 0 < sum_list ws)"
proof -
  obtain i fl where c: "c = (i, fl)" by fastforce
  let ?w = "max (i * 1000) fl"
  let ?k = "catching (seq (device_poll_with E cfg dc client_id tenant (Some D)) (\<lambda>ts. ret (Inl ts))) (\<lambda>_. True) (device_verdict i)"
  have "fits64 (i * 1000)"
    using assms(2) by (auto simp: device_round_def c seq_run op_runs ck64_def split: if_splits)
  then have r: "seq (within_deadline E (Some D) ?w) (\<lambda>_. seq (slept ?w) (\<lambda>_. seq (within_deadline E (Some D) 0) (\<lambda>_. ?k))) s
      = (Inr (Inr c'), t)"
    using assms(2) by (simp add: device_round_def c seq_run[of "lift_res _"] op_runs ck64_def)
  have k: "keeps (checked (o_now_ms E) 1 D) ?k"
    by (intro checked.catching checked.seq checked.pure checked_poll_with checked_verdict)
  have "0 < ?w" using assms(1) c by simp
  from r obtain s3 where "?k s3 = (Inr (Inr c'), t)" by (auto simp: seq_eq_Inr)
  then have "i \<le> fst c'" by (rule device_body_again)
  with nap_slept[OF r deadline_checks(1) k \<open>0 < ?w\<close>] assms(1) c show ?thesis by simp
qed

lemma ciba_round_progress:
  assumes "0 < i" "ciba_round E cfg req tenant clk D i s = (Inr (Inr i'), t)"
  shows "0 < i' \<and> (\<exists>ws. waits t = waits s @ ws \<and> 0 < sum_list ws)"
proof -
  let ?k = "seq (ciba_poll_once E cfg req tenant (Some (clk, D))) (ciba_verdict i)"
  have "fits64 (i * 1000000000)"
    using assms(2) by (auto simp: ciba_round_def seq_run op_runs ck64_def split: if_splits)
  then have r: "seq (clock_within (Some (clk, D)) (i * 1000000000)) (\<lambda>_. seq (slept (i * 1000)) (\<lambda>_. seq (clock_within (Some (clk, D)) 0) (\<lambda>_. ?k))) s
      = (Inr (Inr i'), t)"
    using assms(2) by (simp add: ciba_round_def seq_run[of "lift_res _"] op_runs ck64_def)
  have k: "keeps (checked clk 1000000 D) ?k"
    by (intro checked.seq checked_ciba_poll checked_ciba_verdict)
  have "0 < i * 1000" using assms(1) by simp
  from r obtain s4 out where "ciba_verdict i out s4 = (Inr (Inr i'), t)" by (auto simp: seq_eq_Inr)
  then have "i \<le> i'" by (rule ciba_verdict_again)
  with nap_slept[OF r deadline_checks(2) k \<open>0 < i * 1000\<close>] assms(1) show ?thesis by simp
qed

interpretation device: polling "device_round E cfg dc client_id tenant D" "o_now_ms E" 1 D "\<lambda>c. 0 < fst c"
  for E cfg dc client_id tenant D
proof
  show "(0 :: int) < 1" by simp
next
  show "0 < fst c \<Longrightarrow> checked (o_now_ms E) 1 D s (snd (device_round E cfg dc client_id tenant D c s))" for c s
    by (rule device_round_checked)
next
  show "0 < fst c \<Longrightarrow> device_round E cfg dc client_id tenant D c s = (Inr (Inr c'), t) \<Longrightarrow>
      0 < fst c' \<and> (\<exists>ws. waits t = waits s @ ws \<and> 0 < sum_list ws)" for c s c' t
    by (rule device_round_progress)
qed

interpretation ciba: polling "ciba_round E cfg req tenant clk D" clk 1000000 D "\<lambda>i. 0 < i"
  for E cfg req tenant clk D
proof
  show "(0 :: int) < 1000000" by simp
next
  show "0 < i \<Longrightarrow> checked clk 1000000 D s (snd (ciba_round E cfg req tenant clk D i s))" for i s
    by (rule ciba_round_checked)
next
  show "0 < i \<Longrightarrow> ciba_round E cfg req tenant clk D i s = (Inr (Inr i'), t) \<Longrightarrow>
      0 < i' \<and> (\<exists>ws. waits t = waits s @ ws \<and> 0 < sum_list ws)" for i s i' t
    by (rule ciba_round_progress)
qed

section \<open>What the one-request flows keep\<close>

lemma calm_form_once:
  assumes "\<And>s :: 'w client_scheme. Q (form_request url body False s)"
  shows "keeps (calm Q W) (form_once E url body failed :: ('w, json) cop)"
  unfolding form_once_def by (intro calm_intros calm_send_built assms)

lemma once_send: "plain_form req \<Longrightarrow> once (send_raw E req)"
  unfolding send_raw_def by (intro once_then once_transmit calm_intros calm.step calm_capture)

lemma once_form_once: "once (form_once E url body failed)"
proof -
  have i: "once (seq (gets (form_request url body False)) (send_raw E))"
    unfolding once_def
    by (simp add: seq_run op_runs once_send[OF plain_form_request, unfolded once_def, rule_format])
  show ?thesis unfolding form_once_def by (rule once_then[OF i]) (intro calm_intros)
qed

lemma once_list: "(\<And>c cs. once (f c cs)) \<Longrightarrow> once g \<Longrightarrow> once (case v of [] \<Rightarrow> g | c # cs \<Rightarrow> f c cs)"
  by (cases v) auto

lemma once_option: "(\<And>x. once (f x)) \<Longrightarrow> once g \<Longrightarrow> once (case v of None \<Rightarrow> g | Some x \<Rightarrow> f x)"
  by (cases v) auto

lemma once_raise: "once (raise e)"
  by (rule once_reads) (rule calm.pure)

lemma calm_signed [calm_intros]: "keeps (calm Q W) (signed_ciba_request E p sg client_id iss)"
  unfolding signed_ciba_request_def dump_def by (intro calm_intros)

lemma calm_ciba_fields [calm_intros]: "keeps (calm Q W) (ciba_request_fields E p cfg)"
  unfolding ciba_request_fields_def by (intro calm_intros)

lemma calm_device_authorize: "keeps (calm (\<lambda>_. True) (\<lambda>_. False)) (device_authorize E scope tenant_id)"
  unfolding device_authorize_def by (intro calm_intros calm_form_once) simp_all

lemma calm_device_prepare: "keeps (calm (\<lambda>_. True) (\<lambda>_. False)) (device_prepare E display scope tenant_id)"
  unfolding device_prepare_def by (intro calm_intros calm_device_authorize any_request.calm_discover)

lemma no_waits: "keeps (calm Q (\<lambda>_. False)) m \<Longrightarrow> m s = (r, t) \<Longrightarrow> waits t = waits s \<and> ticks s \<le> ticks t"
  using keepsD[of "calm Q (\<lambda>_. False)" m s] by (auto simp: calm_def later_def list_all_iff)

text \<open>What a result is known to satisfy.\<close>

definition yields :: "('a \<Rightarrow> bool) \<Rightarrow> ('s, 'a) op \<Rightarrow> bool" where
  "yields P m \<longleftrightarrow> (\<forall>s x t. m s = (Inr x, t) \<longrightarrow> P x)"

lemma yields_rules:
  "(\<And>x. yields P (k x)) \<Longrightarrow> yields P (seq m k)" "yields P (raise e)"
  "(\<And>x. r = Inr x \<Longrightarrow> P x) \<Longrightarrow> yields P (lift_res r)"
  "yields P f \<Longrightarrow> (\<And>x. yields P (g x)) \<Longrightarrow> yields P (case v of None \<Rightarrow> f | Some x \<Rightarrow> g x)"
  unfolding yields_def by (auto simp: seq_eq_Inr op_runs split: option.split)

lemma yieldsD: "yields P m \<Longrightarrow> m s = (Inr x, t) \<Longrightarrow> P x"
  by (auto simp: yields_def)

lemma yields_interval: "yields (\<lambda>da. 0 < da_interval da) (device_authorize E scope tenant_id)"
  unfolding device_authorize_def
  by (intro yields_rules)
    (auto simp: device_authorization_of_def and_then_eq_Inr positive_or_def kDeviceDefaultInterval_def split: option.splits)

lemmas device_interval_positive = yieldsD[OF yields_interval]

lemma device_prepare_Inr:
  assumes "device_prepare E display scope tenant_id s = (Inr (da, client_id, tenant, cfg, D), t)"
  shows "\<exists>s1 n. device_authorize E scope tenant_id s = (Inr da, s1) \<and> n \<le> ticks t
    \<and> D = o_now_ms E n (waits s) + clamp_seconds (da_expires_in da) * 1000 \<and> waits t = waits s"
proof -
  have w: "waits t = waits s" using no_waits[OF calm_device_prepare assms] by simp
  have o: "ensure_open s = (Inr (), s)"
    using assms by (auto simp: device_prepare_def seq_run ensure_open_def op_runs split: if_splits)
  obtain r1 s1 where 1: "device_authorize E scope tenant_id s = (r1, s1)" by fastforce
  then obtain da' where r1: "r1 = Inr da'" using assms o by (cases r1) (simp_all add: device_prepare_def seq_run)
  obtain r2 s2 where 2: "oidc_discover E s1 = (r2, s2)" by fastforce
  have "da' = da \<and> D = o_now_ms E (ticks s2) (waits s2) + clamp_seconds (da_expires_in da) * 1000
      \<and> t = s2\<lparr>ticks := Suc (ticks s2)\<rparr>"
    using assms o 1 r1 2
    by (auto simp: device_prepare_def seq_run op_runs from_state_def now_ms_def split: sum.splits)
  with 1 r1 w show ?thesis by (intro exI[of _ s1] exI[of _ "ticks s2"]) auto
qed

section \<open>Properties\<close>

text \<open>
  Single-use credentials are spent once: a refresh, a token exchange, a device authorization,
  a pushed authorization request and a backchannel authentication request send at most one
  request with a body, a form the transport may not repeat, and adopt nothing.
\<close>

theorem flows_spend_once:
  "spends_once s (snd (oidc_refresh E raw scope tenant_id s))
   \<and> spends_once s (snd (token_exchange E tp s))
   \<and> spends_once s (snd (device_authorize E scope tenant_id s))
   \<and> spends_once s (snd (oidc_par E cfg r redirect scope tenant_id dpop_jkt hint s))
   \<and> spends_once s (snd (ciba_initiate E cp s))"
proof -
  have "once (oidc_refresh E raw scope tenant_id)"
    unfolding oidc_refresh_def refresh_flight_def by (intro once_intros once_then once_grant calm_intros)
  moreover have "once (token_exchange E tp)"
    unfolding token_exchange_def by (intro once_intros once_then once_grant calm_intros)
  moreover have "once (device_authorize E scope tenant_id)"
    unfolding device_authorize_def by (intro once_intros once_then once_option once_form_once once_raise calm_intros)
  moreover have "once (oidc_par E cfg r redirect scope tenant_id dpop_jkt hint)"
    unfolding oidc_par_def Let_def
    by (intro once_intros once_then once_option once_list once_form_once once_raise calm_intros)
  moreover have "once (ciba_initiate E cp)"
    unfolding ciba_initiate_def by (intro once_intros once_then once_option once_form_once once_raise calm_intros)
  ultimately show ?thesis unfolding once_def by blast
qed

text \<open>
  C29. \<open>device_login\<close> returns: on a clock that sleeping advances, whatever the server answers and
  however often it says to wait, the loop ends, and the time it slept stays below the lifetime
  the server gave the grant, clamped to about 31 years.
\<close>

theorem device_login_returns:
  assumes "sleeping_clock (o_now_ms E) 1"
  shows "\<exists>r t ws. device_login E display scope tenant_id s = Some (r, t) \<and> waits t = waits s @ ws
    \<and> list_all (\<lambda>d. 0 \<le> d) ws
    \<and> (ws = [] \<or> (\<exists>da s1. device_authorize E scope tenant_id s = (Inr da, s1)
          \<and> sum_list ws < clamp_seconds (da_expires_in da) * 1000))"
proof -
  obtain q t0 where q: "device_prepare E display scope tenant_id s = (q, t0)" by fastforce
  show ?thesis
  proof (cases q)
    case (Inl e)
    with q no_waits[OF calm_device_prepare q] show ?thesis by (simp add: device_login_def)
  next
    case (Inr x)
    obtain da client_id tenant cfg D where x: "x = (da, client_id, tenant, cfg, D)" by (metis surj_pair)
    note p = q[unfolded Inr x]
    from device_prepare_Inr[OF p] obtain s1 n where
      n: "device_authorize E scope tenant_id s = (Inr da, s1)" "n \<le> ticks t0"
        "D = o_now_ms E n (waits s) + clamp_seconds (da_expires_in da) * 1000" "waits t0 = waits s" by blast
    have ok: "0 < fst (da_interval da, 0 :: int)" using device_interval_positive[OF n(1)] by simp
    from device.returns[OF assms ok] obtain r t where
      r: "rounds (device_round E cfg (da_device_code da) client_id tenant D) (da_interval da, 0) t0 = Some (r, t)" by blast
    from device.slept_within[OF assms ok r] obtain ws where ws: "waits t = waits t0 @ ws" "list_all (\<lambda>d. 0 \<le> d) ws"
      "ws = [] \<or> o_now_ms E (ticks t0) (waits t0) + 1 * sum_list ws < D" by blast
    have "o_now_ms E n (waits s) \<le> o_now_ms E (ticks t0) (waits t0)"
      using sleepD[OF assms n(2), of "[]" "waits s"] n(4) by simp
    then have "ws = [] \<or> sum_list ws < clamp_seconds (da_expires_in da) * 1000"
      using ws(3) n(3) by auto
    with p r ws(1,2) n(1,4) show ?thesis by (auto simp: device_login_def)
  qed
qed

lemma device_login_returns_witness:
  "\<exists>r t ws. device_login (demo_oidc JNull) (Some (\<lambda>_. Inr ())) None None demo_rp = Some (r, t) \<and> waits t = waits demo_rp @ ws
    \<and> list_all (\<lambda>d. 0 \<le> d) ws"
proof -
  have "sleeping_clock (o_now_ms (demo_oidc JNull)) 1" by (simp add: sleeping_clock_def demo_oidc_def)
  from device_login_returns[OF this, of "Some (\<lambda>_. Inr ())" None None demo_rp] show ?thesis by blast
qed

end
