(* ===== verification/OidcGuarantees.thy ===== *)
theory OidcGuarantees
  imports OidcFlows
begin

text \<open>
  What the flows of \<open>OidcFlows\<close> guarantee beyond returning: the two polling loops stop at the
  lifetime the server gave, a pushed authorization request keeps its parameters out of the
  browser's URL, a registration update sends back what it did not understand and nothing the
  server alone may state, and a ping is believed only with the bearer token agreed on.
\<close>

section \<open>The backchannel loop\<close>

lemma calm_ciba_prepare: "keeps (calm (\<lambda>_. True) (\<lambda>_. False)) (ciba_prepare E i tenant_id)"
  unfolding ciba_prepare_def by (intro calm_intros any_request.calm_discover)

text \<open>
  C30. \<open>ciba_await\<close> returns: on a clock that sleeping advances, whatever the server answers, the
  loop ends, and the time it slept ends before the authentication request expires.
\<close>

theorem ciba_await_returns:
  assumes "sleeping_clock clk 1000000"
  shows "\<exists>r t ws. ciba_await E clk i tenant_id s = Some (r, t) \<and> waits t = waits s @ ws
    \<and> list_all (\<lambda>d. 0 \<le> d) ws
    \<and> (ws = [] \<or> clk (ticks s) (waits s) + 1000000 * sum_list ws < ciba_deadline i)"
proof -
  obtain q t0 where q: "ciba_prepare E i tenant_id s = (q, t0)" by fastforce
  note w = no_waits[OF calm_ciba_prepare q]
  show ?thesis
  proof (cases q)
    case (Inl e)
    with q w show ?thesis by (simp add: ciba_await_def)
  next
    case (Inr x)
    obtain tenant cfg where x: "x = (tenant, cfg)" by fastforce
    let ?n = "positive_or (Some (ci_interval i)) kCibaDefaultInterval"
    have ok: "0 < ?n" by (simp add: positive_or_def kCibaDefaultInterval_def)
    from ciba.returns[OF assms ok] obtain r t where
      r: "rounds (ciba_round E cfg (ci_auth_req_id i) tenant clk (ciba_deadline i)) ?n t0 = Some (r, t)" by blast
    from ciba.slept_within[OF assms ok r] obtain ws where ws: "waits t = waits t0 @ ws" "list_all (\<lambda>d. 0 \<le> d) ws"
      "ws = [] \<or> clk (ticks t0) (waits t0) + 1000000 * sum_list ws < ciba_deadline i" by blast
    have "clk (ticks s) (waits s) \<le> clk (ticks t0) (waits t0)"
      using sleepD[OF assms, of "ticks s" "ticks t0" "[]" "waits s"] w by simp
    then have "ws = [] \<or> clk (ticks s) (waits s) + 1000000 * sum_list ws < ciba_deadline i"
      using ws(3) by auto
    with q Inr x r ws(1,2) w show ?thesis by (auto simp: ciba_await_def)
  qed
qed

lemma ciba_await_returns_witness:
  "\<exists>r t ws. ciba_await (demo_oidc JNull) (\<lambda>n ws. 1000000 * sum_list ws) \<lparr>ci_auth_req_id = ''r'', ci_expires_in = 30,
      ci_interval = 7, ci_received_at = 0\<rparr> None demo_rp = Some (r, t) \<and> waits t = waits demo_rp @ ws
    \<and> (ws = [] \<or> sum_list ws < 30000)"
proof -
  have c: "sleeping_clock (\<lambda>n ws. 1000000 * sum_list ws) 1000000"
    by (simp add: sleeping_clock_def distrib_left)
  have w: "waits demo_rp = []" by (simp add: demo_rp_def client.extend_def demo_client_def)
  from ciba_await_returns[OF c, of "demo_oidc JNull" "\<lparr>ci_auth_req_id = ''r'', ci_expires_in = 30,
      ci_interval = 7, ci_received_at = 0\<rparr>" None demo_rp] w
  show ?thesis by (fastforce simp: ciba_deadline_def clamp_seconds_def)
qed

text \<open>
  An interval the server invented is not clamped the way its lifetime is: its milliseconds
  leave the range of the 64-bit product before anything is sent.
\<close>

lemma device_interval_overflows:
  assumes "9223372036854775 < i"
  shows "device_round E cfg dc client_id tenant D (i, fl) s = (Inl Undefined, s)"
  using assms by (simp add: device_round_def seq_run op_runs ck64_def fits64_def)

lemma device_interval_overflows_witness:
  "device_round (demo_oidc JNull) demo_cfg ''dc'' ''app'' ''t'' 60000 (9223372036854776, 0) demo_rp = (Inl Undefined, demo_rp)"
  by (rule device_interval_overflows) simp

section \<open>Ping notifications\<close>

definition authorizations :: "(string \<times> string) list \<Rightarrow> string list" where
  "authorizations hs = map snd (filter (\<lambda>h. lower (fst h) = ''authorization'') hs)"

lemma authorization_of_spec:
  "authorization_of hs found = Inr a \<longleftrightarrow>
     (case found of None \<Rightarrow> (authorizations hs = [] \<and> a = None) \<or> (\<exists>v. authorizations hs = [v] \<and> a = Some v)
      | Some x \<Rightarrow> authorizations hs = [] \<and> a = Some x)"
  by (induction hs found rule: authorization_of.induct) (auto simp: authorizations_def split: option.splits)

text \<open>
  A ping is believed only with the token agreed on: the call succeeds exactly when one
  Authorization header is present, its scheme is Bearer in any case, its token is the expected
  one, which is not empty, and the body is an object naming an \<open>auth_req_id\<close>, which is the result.
\<close>

theorem ciba_ping_accept_iff:
  "ciba_handle_ping parse hs body expected = Inr i \<longleftrightarrow>
     (\<exists>sch. authorizations hs = [sch @ '' '' @ expected] \<and> CHR '' '' \<notin> set sch \<and> lower sch = ''bearer'')
     \<and> expected \<noteq> [] \<and> is_object (parse body) \<and> opt_string (parse body) ''auth_req_id'' = Some i"
proof -
  let ?P = "is_object (parse body) \<and> opt_string (parse body) ''auth_req_id'' = Some i"
  have b: "bearer_matches v expected \<longleftrightarrow> expected \<noteq> [] \<and>
      (\<exists>sch. v = sch @ '' '' @ expected \<and> CHR '' '' \<notin> set sch \<and> lower sch = ''bearer'')" for v
  proof (cases "cut (\<lambda>c. c = CHR '' '') v")
    case None
    then have "CHR '' '' \<notin> set v" by (auto simp: cut_eq_None)
    with None show ?thesis by (auto simp: bearer_matches_def)
  next
    case (Some q)
    obtain a c r where q: "q = (a, c, r)" by (metis surj_pair)
    with Some have v: "v = a @ CHR '' '' # r" "CHR '' '' \<notin> set a" by (auto simp: cut_eq_Some)
    have u: "x = a \<and> y = r" if "v = x @ CHR '' '' # y" "CHR '' '' \<notin> set x" for x y
      using cut_SomeI[of "\<lambda>c. c = CHR '' ''" "CHR '' ''" x y] that Some q by auto
    have e: "(\<exists>sch. v = sch @ '' '' @ expected \<and> CHR '' '' \<notin> set sch \<and> lower sch = ''bearer'')
        \<longleftrightarrow> lower a = ''bearer'' \<and> r = expected"
    proof
      assume "\<exists>sch. v = sch @ '' '' @ expected \<and> CHR '' '' \<notin> set sch \<and> lower sch = ''bearer''"
      then obtain sch where "v = sch @ CHR '' '' # expected" "CHR '' '' \<notin> set sch" "lower sch = ''bearer''" by auto
      with u[OF this(1,2)] show "lower a = ''bearer'' \<and> r = expected" by simp
    next
      assume "lower a = ''bearer'' \<and> r = expected"
      with v show "\<exists>sch. v = sch @ '' '' @ expected \<and> CHR '' '' \<notin> set sch \<and> lower sch = ''bearer''"
        by (intro exI[of _ a]) simp
    qed
    show ?thesis
      unfolding e using Some q by (simp add: bearer_matches_def ping_token_matches_def constant_time_equal_iff conj_ac)
  qed
  have r: "(if \<not> bearer_matches v expected then Inl ping_refused
      else let j = parse body in
        case (if is_object j then opt_string j ''auth_req_id'' else None) of
          None \<Rightarrow> Inl e | Some i \<Rightarrow> Inr i) = Inr i \<longleftrightarrow> bearer_matches v expected \<and> ?P" for v e
    by (simp add: Let_def split: option.split)
  have "ciba_handle_ping parse hs body expected = Inr i \<longleftrightarrow>
      (\<exists>v. authorization_of hs None = Inr (Some v) \<and> bearer_matches v expected) \<and> ?P"
    by (cases "authorization_of hs None") (auto simp only: ciba_handle_ping_def and_then_Inl and_then_Inr r
        sum.inject sum.distinct option.inject option.distinct split: option.split)
  then show ?thesis by (auto simp: authorization_of_spec b)
qed

section \<open>Pushed authorization requests\<close>

lemma grant_error_not_Inr: "raise_grant_error E resp what s \<noteq> (Inr x, t)"
  by (auto simp: raise_grant_error_def Let_def seq_eq_Inr op_runs split: option.splits if_splits)

lemma form_once_Inr:
  assumes "form_once E url body failed s = (Inr j, t)"
  shows "sent t = sent s @ [form_request url body False s]"
proof -
  from assms obtain resp s1 where 1: "seq (gets (form_request url body False)) (send_raw E) s = (Inr resp, s1)"
    "(if is_success (status resp) then ret (parse_or_object (env_parse E) (resp_body resp))
      else raise_grant_error E resp failed) s1 = (Inr j, t)" by (auto simp: form_once_def seq_eq_Inr)
  from 1(2) have "s1 = t" by (cases "is_success (status resp)") (simp_all add: op_runs grant_error_not_Inr)
  with 1(1) show ?thesis
    by (auto simp: seq_eq_Inr op_runs send_raw_def call_transport_def transmit_def capture_csrf_def Let_def split: if_splits option.splits)
qed

lemma par_redirect_split:
  "split_url_of (par_redirect_url authz client_id request_uri tenant) =
     \<lparr>before_query = before_query (split_url_of authz),
      pairs = [''client_id='' @ pct client_id, ''request_uri='' @ pct request_uri, ''tenant_id='' @ pct tenant],
      fragment = []\<rparr>"
proof -
  obtain addr frag b ps where sf: "strip_fragment authz = (addr, frag)" and qp: "query_pairs addr = (b, ps)"
    by (metis surj_pair)
  have b: "before_query (split_url_of authz) = b" by (simp add: split_url_of_def sf qp)
  have safe: "CHR ''#'' \<notin> set (pct x)" "CHR ''&'' \<notin> set (pct x)" for x
    using url_encode_safe[of _ x] pct_safe_not by (auto simp: pct_url_encode)
  let ?ps = "[''client_id='' @ pct client_id, ''request_uri='' @ pct request_uri, ''tenant_id='' @ pct tenant]"
  have nb: "CHR ''?'' \<notin> set b" "CHR ''#'' \<notin> set b"
    using query_pairs_before[OF qp] strip_fragment_no_hash[OF sf] by auto
  have u: "par_redirect_url authz client_id request_uri tenant = b @ ''?'' @ join ''&'' ?ps"
    by (simp add: par_redirect_url_def b)
  have "CHR ''#'' \<notin> set (join ''&'' ?ps)" by (rule notin_join) (simp_all add: safe)
  then have "CHR ''#'' \<notin> set (b @ ''?'' @ join ''&'' ?ps)" using nb(2) by simp
  from strip_fragment_append[OF this, of "[]"]
  have "strip_fragment (b @ ''?'' @ join ''&'' ?ps) = (b @ ''?'' @ join ''&'' ?ps, [])" by simp
  moreover have "query_pairs (b @ ''?'' @ join ''&'' ?ps) = (b, ?ps)"
    by (rule query_pairs_join[OF nb(1)]) (simp_all add: safe)
  ultimately have "split_url_of (par_redirect_url authz client_id request_uri tenant) = \<lparr>before_query = b, pairs = ?ps, fragment = []\<rparr>"
    unfolding u split_url_of_def by (simp only: Let_def prod.case)
  then show ?thesis by (simp only: b)
qed

lemma oidc_par_Inr:
  assumes "oidc_par E cfg r redirect scope tenant_id dpop_jkt hint s = (Inr p, t)"
  shows "\<exists>ep client_id tenant digest j. preferred_endpoint s cfg ma_par (oc_par cfg) = Inr (Some ep)
    \<and> require_client_id s ''oidc_par'' = Inr client_id \<and> require_tenant_uuid s tenant_id ''oidc_par'' = Inr tenant
    \<and> ar_verifier r \<noteq> [] \<and> s256_challenge E (ar_verifier r) = Inr digest \<and> pushed_of cfg r client_id tenant j = Inr p
    \<and> sent t = sent s @ [form_request (with_tenant ep tenant) (form_str (par_fields r redirect scope digest dpop_jkt
         (or_else hint (begin_url_idp_hint (ar_url r))) @ client_auth s client_id)) False s]"
proof -
  note ru = oidc_par_def Let_def seq_run op_runs from_state_def
  let ?h = "or_else hint (begin_url_idp_hint (ar_url r))"
  have h: "check_idp_hint ?h ''oidc_par'' = Inr ()"
    using assms by (cases "check_idp_hint ?h ''oidc_par''") (simp_all add: ru)
  have o: "ensure_open s = (Inr (), s)"
    using assms h by (auto simp: ru ensure_open_def split: if_splits)
  have rd: "redirect \<noteq> []" using assms h o by (auto simp: ru split: if_splits)
  obtain e where e: "preferred_endpoint s cfg ma_par (oc_par cfg) = Inr e"
    using assms h o rd by (cases "preferred_endpoint s cfg ma_par (oc_par cfg)") (simp_all add: ru)
  then obtain c cs where ep: "e = Some (c # cs)"
    using assms h o rd by (auto simp: ru split: option.splits list.splits)
  obtain cid where cid: "require_client_id s ''oidc_par'' = Inr cid"
    using assms h o rd e ep by (cases "require_client_id s ''oidc_par''") (simp_all add: ru)
  obtain tn where tn: "require_tenant_uuid s tenant_id ''oidc_par'' = Inr tn"
    using assms h o rd e ep cid by (cases "require_tenant_uuid s tenant_id ''oidc_par''") (simp_all add: ru)
  have v: "ar_verifier r \<noteq> []"
    using assms h o rd e ep cid tn by (auto simp: ru split: if_splits)
  obtain d where d: "s256_challenge E (ar_verifier r) = Inr d"
    using assms h o rd e ep cid tn v by (cases "s256_challenge E (ar_verifier r)") (simp_all add: ru)
  let ?body = "form_str (par_fields r redirect scope d dpop_jkt ?h @ client_auth s cid)"
  let ?f = "form_once E (with_tenant (c # cs) tn) ?body ''pushed authorization request failed''"
  obtain q s1 where q: "?f s = (q, s1)" by fastforce
  obtain j where j: "q = Inr j" using assms h o rd e ep cid tn v d q by (cases q) (simp_all add: ru)
  then have "pushed_of cfg r cid tn j = Inr p \<and> s1 = t"
    using assms h o rd e ep cid tn v d q by (simp add: ru)
  with form_once_Inr[OF q[unfolded j]] e ep cid tn v d show ?thesis by blast
qed

lemma pushed_of_Inr:
  "pushed_of cfg r client_id tenant j = Inr p \<Longrightarrow>
     pr_url p = par_redirect_url (oc_authorization cfg) client_id (pr_request_uri p) tenant
     \<and> pr_state p = ar_state r \<and> pr_nonce p = ar_nonce r \<and> pr_verifier p = ar_verifier r"
  by (auto simp: pushed_of_def and_then_eq_Inr split: option.splits)

text \<open>
  C31. A pushed request keeps its parameters out of the browser: one request was sent, a form whose
  body reads back to the authorization parameters, the challenge being the digest of the
  verifier handed over, and the URL for the browser carries, whatever query the authorization
  endpoint had, the client, the request URI and the tenant only, with nothing after a hash.
\<close>

theorem pushed_request_sound:
  assumes "oidc_par E cfg r redirect scope tenant_id dpop_jkt hint s = (Inr p, t)"
  shows "\<exists>client_id tenant digest req. oidc_client_id s = Some client_id \<and> looks_like_uuid tenant
    \<and> sent t = sent s @ [req] \<and> req_method req = ''POST'' \<and> \<not> replayable req
    \<and> form_pairs (req_body req) = supplied (par_fields r redirect scope (b64url_encode digest) dpop_jkt
         (or_else hint (begin_url_idp_hint (ar_url r))) @ client_auth s client_id)
    \<and> o_sha256 E (pr_verifier p) = Some digest
    \<and> pr_state p = ar_state r \<and> pr_nonce p = ar_nonce r \<and> pr_verifier p = ar_verifier r
    \<and> split_url_of (pr_url p) = \<lparr>before_query = before_query (split_url_of (oc_authorization cfg)),
         pairs = [''client_id='' @ pct client_id, ''request_uri='' @ pct (pr_request_uri p), ''tenant_id='' @ tenant],
         fragment = []\<rparr>"
proof -
  from oidc_par_Inr[OF assms] obtain ep cid tn ch j where
    1: "require_client_id s ''oidc_par'' = Inr cid" "require_tenant_uuid s tenant_id ''oidc_par'' = Inr tn"
      "s256_challenge E (ar_verifier r) = Inr ch" "pushed_of cfg r cid tn j = Inr p"
    and 2: "sent t = sent s @ [form_request (with_tenant ep tn) (form_str (par_fields r redirect scope ch dpop_jkt
         (or_else hint (begin_url_idp_hint (ar_url r))) @ client_auth s cid)) False s]" by blast
  have tn: "looks_like_uuid tn" using 1(2) by (simp add: require_tenant_uuid_def split: if_splits)
  obtain digest where dg: "o_sha256 E (ar_verifier r) = Some digest" "ch = b64url_encode digest"
    using 1(3) by (auto simp: s256_challenge_def split: option.splits)
  have pt: "pct tn = tn" using looks_like_uuid_unreserved[OF tn] by (simp add: pct_url_encode)
  have ci: "oidc_client_id s = Some cid" using 1(1) by (simp add: require_client_id_Inr)
  note po = pushed_of_Inr[OF 1(4)]
  let ?req = "form_request (with_tenant ep tn) (form_str (par_fields r redirect scope ch dpop_jkt
         (or_else hint (begin_url_idp_hint (ar_url r))) @ client_auth s cid)) False s"
  have fr: "req_method ?req = ''POST''" "\<not> replayable ?req" "form_pairs (req_body ?req) = supplied (par_fields r redirect
      scope (b64url_encode digest) dpop_jkt (or_else hint (begin_url_idp_hint (ar_url r))) @ client_auth s cid)"
    by (simp_all add: form_request_def form_pairs_str dg(2))
  have sp: "split_url_of (pr_url p) = \<lparr>before_query = before_query (split_url_of (oc_authorization cfg)),
         pairs = [''client_id='' @ pct cid, ''request_uri='' @ pct (pr_request_uri p), ''tenant_id='' @ tn],
         fragment = []\<rparr>"
    using po par_redirect_split[of "oc_authorization cfg" cid "pr_request_uri p" tn] by (simp only: pt)
  have dv: "o_sha256 E (pr_verifier p) = Some digest" using po dg(1) by simp
  show ?thesis
    by (rule exI[of _ cid], rule exI[of _ tn], rule exI[of _ digest], rule exI[of _ ?req])
      (intro conjI; (rule ci tn 2 fr dv sp po[THEN conjunct2, THEN conjunct1] po[THEN conjunct2, THEN conjunct2, THEN conjunct1] po[THEN conjunct2, THEN conjunct2, THEN conjunct2])?)
qed

definition demo_par_env :: oidc_env where
  "demo_par_env = (demo_oidc JNull)\<lparr>env_parse := (\<lambda>x. if x = ''T'' then JObj [(''request_uri'', JStr ''urn:r'')] else JDiscarded)\<rparr>"

definition demo_par_cfg :: oidc_configuration where
  "demo_par_cfg = demo_cfg\<lparr>oc_par := Some ''https://id.example/par'', oc_authorization := ''https://id.example/authorize?x=1''\<rparr>"

definition demo_request :: authorization_request where
  "demo_request = \<lparr>ar_url = ''https://id.example/authorize?scope=openid'', ar_state = ''st'', ar_nonce = ''n'', ar_verifier = ''v''\<rparr>"

lemma pushed_request_sound_witness:
  "\<exists>p t cid tn. oidc_par demo_par_env demo_par_cfg demo_request ''https://app/cb'' None None None None demo_rp = (Inr p, t)
     \<and> pairs (split_url_of (pr_url p)) = [''client_id='' @ pct cid, ''request_uri='' @ pct (pr_request_uri p), ''tenant_id='' @ tn]"
proof -
  have "is_ok (fst (oidc_par demo_par_env demo_par_cfg demo_request ''https://app/cb'' None None None None demo_rp))"
    by code_simp
  then obtain p t where r: "oidc_par demo_par_env demo_par_cfg demo_request ''https://app/cb'' None None None None demo_rp = (Inr p, t)"
    by (auto simp: is_ok_def split_beta prod_eq_iff split: sum.splits)
  from pushed_request_sound[OF r] obtain cid tn where
    "pairs (split_url_of (pr_url p)) = [''client_id='' @ pct cid, ''request_uri='' @ pct (pr_request_uri p), ''tenant_id='' @ tn]"
    by auto
  with r show ?thesis by blast
qed

section \<open>Registration updates\<close>

lemma map_of_jerase [simp]: "map_of (jerase k m) = (map_of m)(k := None)"
  by (induction m) (auto simp: jerase_def fun_eq_iff)

lemma map_of_fold_jerase: "map_of (fold jerase ks m) k = (if k \<in> set ks then None else map_of m k)"
  by (induction ks arbitrary: m) auto

text \<open>What the members of a document are after one of them was taken: the others stay.\<close>

definition left_of :: "(json \<Rightarrow> bool) \<Rightarrow> string \<Rightarrow> (string \<Rightarrow> json option) \<Rightarrow> string \<Rightarrow> json option" where
  "left_of taken k m = (case m k of None \<Rightarrow> m | Some v \<Rightarrow> (if taken v then m(k := None) else m))"

definition str_or_null :: "json \<Rightarrow> bool" where
  "str_or_null v \<longleftrightarrow> is_string v \<or> v = JNull"

definition int_or_null :: "json \<Rightarrow> bool" where
  "int_or_null v \<longleftrightarrow> v = JNull \<or> (\<exists>w. v = JInt w) \<or> (\<exists>w. v = JUInt w)"

definition str_list :: "json \<Rightarrow> bool" where
  "str_list v \<longleftrightarrow> (\<exists>xs. v = JArr xs \<and> list_all is_string xs)"

lemma left_take:
  "map_of (snd (take_string k m)) = left_of str_or_null k (map_of m)"
  "map_of (snd (take_int k m)) = left_of int_or_null k (map_of m)"
  "map_of (snd (take_list k m)) = left_of str_list k (map_of m)"
  by (auto simp: take_string_def take_int_def take_list_def left_of_def str_or_null_def int_or_null_def str_list_def
      split: option.split json.split)

lemma take_jwks_Inr:
  "take_jwks dmp m = Inr (v, m') \<Longrightarrow> map_of m' = (map_of m)(''jwks'' := None)
     \<and> (case map_of m ''jwks'' of None \<Rightarrow> v = None | Some j \<Rightarrow> if j = JNull then v = None else \<exists>t. dmp j = Inr t \<and> v = Some t)"
  by (auto simp: take_jwks_def and_then_eq_Inr fun_eq_iff split: option.splits json.splits)

lemma left_of_other: "k' \<noteq> k \<Longrightarrow> left_of P k m k' = m k'"
  by (auto simp: left_of_def split: option.split)

lemma left_of_apply: "left_of P a m k =
    (if k = a then (case m k of None \<Rightarrow> None | Some v \<Rightarrow> if P v then None else Some v) else m k)"
  by (auto simp: left_of_def split: option.split)

lemma left_of_same: "left_of P k m k = (case m k of None \<Rightarrow> None | Some v \<Rightarrow> if P v then None else Some v)"
  by (auto simp: left_of_def split: option.split)

lemma str_array_items: "list_all is_string xs \<Longrightarrow> str_array (str_items xs) = JArr xs"
  by (induction xs) (auto simp: str_array_def str_items_def list_all_iff elim!: is_string.elims)

lemma fst_take:
  "fst (take_string k m) = (case map_of m k of Some (JStr x) \<Rightarrow> Some x | _ \<Rightarrow> None)"
  "fst (take_list k m) = (case map_of m k of Some (JArr xs) \<Rightarrow> if list_all is_string xs then Some (str_items xs) else None | _ \<Rightarrow> None)"
  by (auto simp: take_string_def take_list_def split: option.split json.split)

lemma set_jerase: "set (jerase k m) \<subseteq> set m"
  by (auto simp: jerase_def)

lemma set_take:
  "set (snd (take_string k m)) \<subseteq> set m" "set (snd (take_int k m)) \<subseteq> set m" "set (snd (take_list k m)) \<subseteq> set m"
  using set_jerase[of k m] by (auto simp: take_string_def take_int_def take_list_def split: option.split json.split)

lemma set_take_jwks: "take_jwks dmp m = Inr (v, m') \<Longrightarrow> set m' \<subseteq> set m"
  using set_jerase[of "''jwks''" m] by (auto simp: take_jwks_def and_then_eq_Inr split: option.splits json.splits)

text \<open>Where the members of a document went: into the fields, or into what is kept as text.\<close>

definition accounts :: "client_registration \<Rightarrow> members \<Rightarrow> members \<Rightarrow> bool" where
  "accounts r m extra \<longleftrightarrow> map_of m ''client_id'' = Some (JStr (cr_client_id r))
    \<and> cr_client_name r = fst (take_string ''client_name'' m) \<and> cr_redirect_uris r = fst (take_list ''redirect_uris'' m)
    \<and> cr_grant_types r = fst (take_list ''grant_types'' m) \<and> cr_response_types r = fst (take_list ''response_types'' m)
    \<and> cr_auth_method r = fst (take_string ''token_endpoint_auth_method'' m) \<and> cr_scope r = fst (take_string ''scope'' m)
    \<and> cr_jwks_uri r = fst (take_string ''jwks_uri'' m)
    \<and> (\<forall>k. k \<notin> set kServerStatedMembers \<longrightarrow> map_of extra k =
         left_of str_or_null ''jwks_uri'' (left_of (\<lambda>_. True) ''jwks'' (left_of str_or_null ''scope''
         (left_of str_or_null ''token_endpoint_auth_method'' (left_of str_list ''response_types'' (left_of str_list ''grant_types''
         (left_of str_list ''redirect_uris'' (left_of str_or_null ''client_name'' (left_of str_or_null ''client_id'' (map_of m))))))))) k)"

lemma registration_members:
  assumes "registration_from_members dmp m = Inr r"
  shows "\<exists>extra. dmp (JObj extra) = Inr (cr_extra_json r) \<and> set extra \<subseteq> set m \<and> accounts r m extra
    \<and> (case map_of m ''jwks'' of None \<Rightarrow> cr_jwks_json r = None
       | Some j \<Rightarrow> if j = JNull then cr_jwks_json r = None else \<exists>t. dmp j = Inr t \<and> cr_jwks_json r = Some t)"
proof -
  obtain c cs m1 where 1: "take_string ''client_id'' m = (Some (c # cs), m1)"
    using assms by (cases "take_string ''client_id'' m")
      (auto simp: registration_from_members_def Let_def split: option.splits list.splits)
  let ?m2 = "snd (take_int ''client_id_issued_at'' m1)"
  let ?m3 = "snd (take_string ''client_name'' ?m2)"
  let ?m4 = "snd (take_list ''redirect_uris'' ?m3)"
  let ?m5 = "snd (take_list ''grant_types'' ?m4)"
  let ?m6 = "snd (take_list ''response_types'' ?m5)"
  let ?m7 = "snd (take_string ''token_endpoint_auth_method'' ?m6)"
  let ?m8 = "snd (take_string ''scope'' ?m7)"
  let ?m9 = "snd (take_string ''registration_client_uri'' ?m8)"
  let ?m10 = "snd (take_int ''client_secret_expires_at'' ?m9)"
  obtain jw m11 where 2: "take_jwks dmp ?m10 = Inr (jw, m11)"
    using assms by (cases "take_jwks dmp ?m10") (auto simp: registration_from_members_def Let_def 1 split_beta)
  let ?m12 = "snd (take_string ''jwks_uri'' m11)"
  let ?m13 = "snd (take_string ''client_secret'' ?m12)"
  let ?m14 = "snd (take_string ''registration_access_token'' ?m13)"
  have r: "dmp (JObj ?m14) = Inr (cr_extra_json r) \<and> cr_client_id r = c # cs
      \<and> cr_client_name r = fst (take_string ''client_name'' ?m2) \<and> cr_redirect_uris r = fst (take_list ''redirect_uris'' ?m3)
      \<and> cr_grant_types r = fst (take_list ''grant_types'' ?m4) \<and> cr_response_types r = fst (take_list ''response_types'' ?m5)
      \<and> cr_auth_method r = fst (take_string ''token_endpoint_auth_method'' ?m6) \<and> cr_scope r = fst (take_string ''scope'' ?m7)
      \<and> cr_jwks_json r = jw \<and> cr_jwks_uri r = fst (take_string ''jwks_uri'' m11)"
    using assms by (cases "dmp (JObj ?m14)") (auto simp: registration_from_members_def Let_def 1 2 split_beta)
  note jw = take_jwks_Inr[OF 2]
  have m1: "map_of m1 = left_of str_or_null ''client_id'' (map_of m)" using left_take(1)[of "''client_id''" m] 1 by simp
  have cid: "map_of m ''client_id'' = Some (JStr (c # cs))"
    using fst_take(1)[of "''client_id''" m] 1 by (auto split: option.splits json.splits)
  have m11: "map_of m11 = left_of (\<lambda>_. True) ''jwks'' (map_of ?m10)"
    using jw by (auto simp: left_of_def fun_eq_iff split: option.split)
  have ss: "set ?m14 \<subseteq> set m"
    using set_take(1)[of "''client_id''" m] 1 set_take_jwks[OF 2]
    by (fastforce dest: set_take[THEN subsetD])
  note st = left_take m1 m11 left_of_other fst_take
  have x: "map_of ?m14 k = left_of str_or_null ''jwks_uri'' (left_of (\<lambda>_. True) ''jwks'' (left_of str_or_null ''scope''
         (left_of str_or_null ''token_endpoint_auth_method'' (left_of str_list ''response_types'' (left_of str_list ''grant_types''
         (left_of str_list ''redirect_uris'' (left_of str_or_null ''client_name'' (left_of str_or_null ''client_id'' (map_of m))))))))) k"
    if "k \<notin> set kServerStatedMembers" for k
    using that by (simp only: st left_of_apply kServerStatedMembers_def list.set insert_iff empty_iff de_Morgan_disj if_False simp_thms)
  have rj: "cr_jwks_json r = jw" using r by blast
  have j2: "case map_of m ''jwks'' of None \<Rightarrow> cr_jwks_json r = None
      | Some j \<Rightarrow> if j = JNull then cr_jwks_json r = None else \<exists>t. dmp j = Inr t \<and> cr_jwks_json r = Some t"
    unfolding rj using conjunct2[OF jw] by (simp add: st)
  have f: "cr_client_name r = fst (take_string ''client_name'' m) \<and> cr_redirect_uris r = fst (take_list ''redirect_uris'' m)
    \<and> cr_grant_types r = fst (take_list ''grant_types'' m) \<and> cr_response_types r = fst (take_list ''response_types'' m)
    \<and> cr_auth_method r = fst (take_string ''token_endpoint_auth_method'' m) \<and> cr_scope r = fst (take_string ''scope'' m)
    \<and> cr_jwks_uri r = fst (take_string ''jwks_uri'' m)"
    using r by (simp add: st)
  have "map_of m ''client_id'' = Some (JStr (cr_client_id r))" using cid r by simp
  with f x have "accounts r m ?m14" by (simp add: accounts_def)
  with r ss j2 show ?thesis by blast
qed

definition put_opt :: "string \<Rightarrow> json option \<Rightarrow> members \<Rightarrow> members" where
  "put_opt k v m = (case v of None \<Rightarrow> m | Some x \<Rightarrow> put_key k x m)"

lemma jset_put_opt:
  "jset_opt k v (JObj m) = JObj (put_opt k (map_option JStr v) m)"
  "jset_list k xs (JObj m) = JObj (put_opt k (map_option str_array xs) m)"
  by (auto simp: jset_opt_def jset_list_def put_opt_def split: option.split)

lemma map_of_put_opt: "map_of (put_opt k v m) k' = (if k' = k \<and> v \<noteq> None then v else map_of m k')"
  by (auto simp: put_opt_def split: option.split)

lemma discarded_iff: "is_discarded v \<longleftrightarrow> v = JDiscarded"
  by (cases v) auto

text \<open>The members a null of which the reader drops.\<close>

definition kNullDropped :: "string list" where
  "kNullDropped = [''client_name'', ''token_endpoint_auth_method'', ''scope'', ''jwks'', ''jwks_uri'']"

lemma restore_string:
  "(if map_option JStr (fst (take_string k m)) \<noteq> None then map_option JStr (fst (take_string k m)) else
      (case map_of m k of None \<Rightarrow> None | Some v \<Rightarrow> if str_or_null v then None else Some v))
    = (if map_of m k = Some JNull then None else map_of m k)"
  by (auto simp: fst_take str_or_null_def split: option.split json.split)

lemma restore_list:
  "(if map_option str_array (fst (take_list k m)) \<noteq> None then map_option str_array (fst (take_list k m)) else
      (case map_of m k of None \<Rightarrow> None | Some v \<Rightarrow> if str_list v then None else Some v)) = map_of m k"
  by (auto simp: fst_take str_list_def str_array_items split: option.split json.split)

text \<open>The body of the update as a list of members, with \<open>jw\<close> the key set put back.\<close>

definition rebuilt :: "client_registration \<Rightarrow> json option \<Rightarrow> members \<Rightarrow> members" where
  "rebuilt r jw extra =
     put_opt ''jwks_uri'' (map_option JStr (cr_jwks_uri r)) (put_opt ''jwks'' jw
     (put_opt ''scope'' (map_option JStr (cr_scope r)) (put_opt ''token_endpoint_auth_method'' (map_option JStr (cr_auth_method r))
     (put_opt ''response_types'' (map_option str_array (cr_response_types r)) (put_opt ''grant_types'' (map_option str_array (cr_grant_types r))
     (put_opt ''redirect_uris'' (map_option str_array (cr_redirect_uris r)) (put_opt ''client_name'' (map_option JStr (cr_client_name r))
     (put_key ''client_id'' (JStr (cr_client_id r)) (fold jerase kServerStatedMembers extra)))))))))"

lemma update_rebuilt:
  assumes "parse (cr_extra_json r) = JObj extra" "\<And>m'. set_jwks parse (cr_jwks_json r) (JObj m') = JObj (put_opt ''jwks'' jw m')"
  shows "update_members parse r = JObj (rebuilt r jw extra)"
  by (simp add: update_members_def rebuilt_def jset_put_opt assms)

lemmas rebuilt_at = rebuilt_def map_of_put_opt map_of_put_key map_of_fold_jerase

lemma rebuilt_string:
  assumes "accounts r m extra" "a \<in> {''client_name'', ''token_endpoint_auth_method'', ''scope'', ''jwks_uri''}"
  shows "map_of (rebuilt r jw extra) a = (if map_of m a = Some JNull then None else map_of m a)"
proof -
  have "a \<notin> set kServerStatedMembers" using assms(2) by (auto simp: kServerStatedMembers_def)
  then have "map_of (rebuilt r jw extra) a = (if map_option JStr (fst (take_string a m)) \<noteq> None then map_option JStr (fst (take_string a m)) else
      (case map_of m a of None \<Rightarrow> None | Some v \<Rightarrow> if str_or_null v then None else Some v))"
    using assms unfolding accounts_def by (elim insertE emptyE) (simp_all add: rebuilt_at left_of_apply)
  then show ?thesis by (simp only: restore_string)
qed

lemma rebuilt_list:
  assumes "accounts r m extra" "a \<in> {''redirect_uris'', ''grant_types'', ''response_types''}"
  shows "map_of (rebuilt r jw extra) a = map_of m a"
proof -
  have "a \<notin> set kServerStatedMembers" using assms(2) by (auto simp: kServerStatedMembers_def)
  then have "map_of (rebuilt r jw extra) a = (if map_option str_array (fst (take_list a m)) \<noteq> None then map_option str_array (fst (take_list a m)) else
      (case map_of m a of None \<Rightarrow> None | Some v \<Rightarrow> if str_list v then None else Some v))"
    using assms unfolding accounts_def by (elim insertE emptyE) (simp_all add: rebuilt_at left_of_apply)
  then show ?thesis by (simp only: restore_list)
qed

lemma rebuilt_others:
  assumes "accounts r m extra" "jw = (if map_of m ''jwks'' = Some JNull then None else map_of m ''jwks'')"
  shows "map_of (rebuilt r jw extra) ''jwks'' = (if map_of m ''jwks'' = Some JNull then None else map_of m ''jwks'')"
    "map_of (rebuilt r jw extra) ''client_id'' = map_of m ''client_id''"
    "k \<in> set kServerStatedMembers \<Longrightarrow> map_of (rebuilt r jw extra) k = None"
proof -
  note x = assms(1)[unfolded accounts_def]
  show "map_of (rebuilt r jw extra) ''jwks'' = (if map_of m ''jwks'' = Some JNull then None else map_of m ''jwks'')"
    unfolding assms(2) using x by (cases "map_of m ''jwks''") (simp_all add: rebuilt_at left_of_apply kServerStatedMembers_def)
  show "map_of (rebuilt r jw extra) ''client_id'' = map_of m ''client_id''"
    using x by (simp add: rebuilt_at)
  show "k \<in> set kServerStatedMembers \<Longrightarrow> map_of (rebuilt r jw extra) k = None"
    by (auto simp: kServerStatedMembers_def rebuilt_at)
qed

lemma rebuilt_unknown:
  assumes "accounts r m extra" "k \<notin> set kServerStatedMembers"
    and "k \<notin> {''client_name'', ''token_endpoint_auth_method'', ''scope'', ''jwks_uri'', ''redirect_uris'',
        ''grant_types'', ''response_types'', ''jwks'', ''client_id''}"
  shows "map_of (rebuilt r jw extra) k = map_of m k"
  using assms unfolding accounts_def by (simp add: rebuilt_at left_of_apply)

text \<open>
  C32. An update sends back what it did not understand: the body built from a registration that was
  read from a document carries every member of that document as it was, whether the SDK has a
  field for it, has one of another type, or has none, except the five members only the server
  may state, which it never carries, and nulls of five optional members, which it drops.
\<close>

theorem registration_update_preserves:
  assumes "registration_from_members dmp m = Inr r"
    and "\<forall>m' t. set m' \<subseteq> set m \<longrightarrow> dmp (JObj m') = Inr t \<longrightarrow> parse t = JObj m'"
    and "\<forall>v t. (''jwks'', v) \<in> set m \<longrightarrow> dmp v = Inr t \<longrightarrow> parse t = v \<and> v \<noteq> JDiscarded"
  shows "jfind (update_members parse r) k =
    (if k \<in> set kServerStatedMembers \<or> (k \<in> set kNullDropped \<and> map_of m k = Some JNull) then None else map_of m k)"
proof -
  from registration_members[OF assms(1)] obtain extra where
    ex: "dmp (JObj extra) = Inr (cr_extra_json r)" "set extra \<subseteq> set m" and ac: "accounts r m extra"
    and j: "case map_of m ''jwks'' of None \<Rightarrow> cr_jwks_json r = None
       | Some j \<Rightarrow> if j = JNull then cr_jwks_json r = None else \<exists>t. dmp j = Inr t \<and> cr_jwks_json r = Some t"
    by blast
  let ?jw = "if map_of m ''jwks'' = Some JNull then None else map_of m ''jwks''"
  have sj: "set_jwks parse (cr_jwks_json r) (JObj m') = JObj (put_opt ''jwks'' ?jw m')" for m'
  proof (cases "map_of m ''jwks''")
    case (Some v)
    then have "(''jwks'', v) \<in> set m" by (rule map_of_SomeD)
    with assms(3) j Some show ?thesis
      by (cases "v = JNull") (auto simp: set_jwks_def put_opt_def discarded_iff)
  qed (use j in \<open>simp add: set_jwks_def put_opt_def\<close>)
  have "parse (cr_extra_json r) = JObj extra" using assms(2) ex by blast
  from update_rebuilt[where jw = ?jw, OF this sj] have jf: "jfind (update_members parse r) k = map_of (rebuilt r ?jw extra) k" by simp
  note others = rebuilt_others[OF ac refl]
  show ?thesis
  proof (cases "k \<in> {''client_name'', ''token_endpoint_auth_method'', ''scope'', ''jwks_uri'', ''redirect_uris'',
        ''grant_types'', ''response_types'', ''jwks'', ''client_id''}")
    case True
    then show ?thesis unfolding jf
      by (elim insertE emptyE) (simp_all add: rebuilt_string[OF ac] rebuilt_list[OF ac] others(1,2) ac[unfolded accounts_def]
          kNullDropped_def kServerStatedMembers_def)
  next
    case other: False
    show ?thesis
    proof (cases "k \<in> set kServerStatedMembers")
      case True
      with others(3) show ?thesis unfolding jf by simp
    next
      case False
      with other show ?thesis unfolding jf rebuilt_unknown[OF ac False other] by (simp add: kNullDropped_def)
    qed
  qed
qed

definition demo_registration :: members where
  "demo_registration = [(''client_id'', JStr ''c''), (''client_secret'', JStr ''s''), (''scope'', JNull), (''x'', JInt 5)]"

lemma registration_update_preserves_witness:
  "\<exists>r. registration_from_members (\<lambda>v. if v = JObj [(''x'', JInt 5)] then Inr ''X'' else Inl Foreign) demo_registration = Inr r
     \<and> jfind (update_members (\<lambda>t. if t = ''X'' then JObj [(''x'', JInt 5)] else JDiscarded) r) ''x'' = Some (JInt 5)
     \<and> jfind (update_members (\<lambda>t. if t = ''X'' then JObj [(''x'', JInt 5)] else JDiscarded) r) ''client_secret'' = None"
proof -
  let ?d = "\<lambda>v. if v = JObj [(''x'', JInt 5)] then Inr ''X'' else Inl Foreign"
  let ?p = "\<lambda>t. if t = ''X'' then JObj [(''x'', JInt 5)] else JDiscarded"
  have "\<exists>r. registration_from_members ?d demo_registration = Inr r"
    by (simp add: registration_from_members_def demo_registration_def take_string_def take_int_def take_list_def take_jwks_def jerase_def)
  then obtain r where r: "registration_from_members ?d demo_registration = Inr r" by blast
  have 1: "\<forall>m' t. set m' \<subseteq> set demo_registration \<longrightarrow> ?d (JObj m') = Inr t \<longrightarrow> ?p t = JObj m'" by simp
  have 2: "\<forall>v t. (''jwks'', v) \<in> set demo_registration \<longrightarrow> ?d v = Inr t \<longrightarrow> ?p t = v \<and> v \<noteq> JDiscarded"
    by (simp add: demo_registration_def)
  have k: "''x'' \<notin> set kServerStatedMembers" "''x'' \<notin> set kNullDropped" "''client_secret'' \<in> set kServerStatedMembers"
    by (simp_all add: kServerStatedMembers_def kNullDropped_def)
  have x: "map_of demo_registration ''x'' = Some (JInt 5)" by (simp add: demo_registration_def)
  from registration_update_preserves[OF r 1 2, of "''x''"] registration_update_preserves[OF r 1 2, of "''client_secret''"] r k x
  show ?thesis by (intro exI[of _ r]) simp
qed

end
