(* ===== verification/Codec.thy ===== *)
theory Codec
  imports Effects Retry
begin

text \<open>
  The forms the generated codecs of \<open>src/management_models.cpp\<close> are written in. A \<open>to_json\<close>
  assigns members one after the other to an object (\<open>build\<close>), each entry being one of the
  statement forms of the generator (\<open>req\<close>, \<open>opt\<close>, \<open>nullable\<close>, \<open>embedded\<close>, and the forms of
  an encoder that can refuse). A \<open>from_json\<close> reads members in turn (\<open>member\<close> is
  \<open>j.at(k).get\<close>, \<open>opt_member\<close> a member that may be absent or null, \<open>nullable_member\<close> one whose
  null is a value). An absent member is the library's \<open>out_of_range\<close>; it is counted under
  \<open>JsonTypeError\<close>, since every clause that catches one catches their common base. Contract
  between an encoder and its decoder: the locale \<open>codec\<close>; between the spellings of an
  enumeration: the locale \<open>wire_enum\<close>.
\<close>

section \<open>Reading\<close>

text \<open>The conversion of a 64-bit integer to a double: 53 significant bits, ties to even.\<close>

definition double_of_nat :: "nat \<Rightarrow> rat" where
  "double_of_nat n = (let s = bit_length n - 53 in of_nat (round_even n s * 2 ^ s))"

definition double_of_int :: "int \<Rightarrow> rat" where
  "double_of_int i = (if i < 0 then - double_of_nat (nat (- i)) else double_of_nat (nat i))"

fun get_double :: "json \<Rightarrow> rat res" where
  "get_double (JFloat q) = Inr q"
| "get_double (JInt w) = Inr (double_of_int (sint w))"
| "get_double (JUInt w) = Inr (double_of_nat (unat w))"
| "get_double _ = Inl JsonTypeError"

fun get_word :: "json \<Rightarrow> 64 word res" where
  "get_word (JInt w) = Inr w"
| "get_word (JUInt w) = Inr w"
| "get_word (JFloat q) = and_then (int64_of_double q) (\<lambda>i. Inr (word_of_int i))"
| "get_word _ = Inl JsonTypeError"

fun get_all :: "(json \<Rightarrow> 'a res) \<Rightarrow> json list \<Rightarrow> 'a list res" where
  "get_all get [] = Inr []"
| "get_all get (x # xs) = and_then (get x) (\<lambda>v. and_then (get_all get xs) (\<lambda>vs. Inr (v # vs)))"

fun get_list :: "(json \<Rightarrow> 'a res) \<Rightarrow> json \<Rightarrow> 'a list res" where
  "get_list get (JArr xs) = get_all get xs"
| "get_list _ _ = Inl JsonTypeError"

definition get_enum :: "(string \<Rightarrow> 'a) \<Rightarrow> json \<Rightarrow> 'a res" where
  "get_enum f j = and_then (get_str j) (\<lambda>s. Inr (f s))"

definition get_required :: "(json \<Rightarrow> 'a res) \<Rightarrow> json option \<Rightarrow> 'a res" where
  "get_required get v = (case v of None \<Rightarrow> Inl JsonTypeError | Some x \<Rightarrow> get x)"

definition get_optional :: "(json \<Rightarrow> 'a res) \<Rightarrow> json option \<Rightarrow> 'a option res" where
  "get_optional get v =
     (case v of
        None \<Rightarrow> Inr None
      | Some x \<Rightarrow> (if x = JNull then Inr None else and_then (get x) (\<lambda>y. Inr (Some y))))"

definition get_nullable :: "(json \<Rightarrow> 'a res) \<Rightarrow> json option \<Rightarrow> 'a option option res" where
  "get_nullable get v =
     (case v of
        None \<Rightarrow> Inr None
      | Some x \<Rightarrow> (if x = JNull then Inr (Some None) else and_then (get x) (\<lambda>y. Inr (Some (Some y)))))"

definition member :: "(json \<Rightarrow> 'a res) \<Rightarrow> json \<Rightarrow> string \<Rightarrow> 'a res" where
  "member get j k = get_required get (jfind j k)"

definition opt_member :: "(json \<Rightarrow> 'a res) \<Rightarrow> json \<Rightarrow> string \<Rightarrow> 'a option res" where
  "opt_member get j k = get_optional get (jfind j k)"

text \<open>A member with a default keeps it when it is absent or null.\<close>

definition default_member :: "(json \<Rightarrow> 'a res) \<Rightarrow> 'a \<Rightarrow> json \<Rightarrow> string \<Rightarrow> 'a res" where
  "default_member get d j k = and_then (opt_member get j k) (\<lambda>v. Inr (case v of None \<Rightarrow> d | Some x \<Rightarrow> x))"

definition nullable_member :: "(json \<Rightarrow> 'a res) \<Rightarrow> json \<Rightarrow> string \<Rightarrow> 'a option option res" where
  "nullable_member get j k = get_nullable get (jfind j k)"

text \<open>\<open>j.erase(key)\<close> for each of the keys.\<close>

fun without :: "string list \<Rightarrow> json \<Rightarrow> json" where
  "without ks (JObj m) = JObj (filter (\<lambda>kv. fst kv \<notin> set ks) m)"
| "without ks j = j"

section \<open>Writing\<close>

type_synonym entry = "string \<times> json option res"

definition req :: "string \<Rightarrow> json \<Rightarrow> entry" where
  "req k x = (k, Inr (Some x))"

definition req_r :: "string \<Rightarrow> json res \<Rightarrow> entry" where
  "req_r k r = (k, and_then r (\<lambda>x. Inr (Some x)))"

definition opt :: "string \<Rightarrow> ('a \<Rightarrow> json) \<Rightarrow> 'a option \<Rightarrow> entry" where
  "opt k f v = (k, Inr (map_option f v))"

definition opt_r :: "string \<Rightarrow> ('a \<Rightarrow> json res) \<Rightarrow> 'a option \<Rightarrow> entry" where
  "opt_r k f v = (k, case v of None \<Rightarrow> Inr None | Some x \<Rightarrow> and_then (f x) (\<lambda>y. Inr (Some y)))"

definition nullable :: "string \<Rightarrow> ('a \<Rightarrow> json) \<Rightarrow> 'a option option \<Rightarrow> entry" where
  "nullable k f v = (k, Inr (map_option (\<lambda>x. case x of None \<Rightarrow> JNull | Some y \<Rightarrow> f y) v))"

text \<open>A member kept as JSON text; text that does not parse is left out.\<close>

definition parsed :: "(string \<Rightarrow> json) \<Rightarrow> string \<Rightarrow> json option" where
  "parsed parse t = (if is_discarded (parse t) then None else Some (parse t))"

definition embedded :: "(string \<Rightarrow> json) \<Rightarrow> string \<Rightarrow> string \<Rightarrow> entry" where
  "embedded parse k t = (k, Inr (parsed parse t))"

definition opt_embedded :: "(string \<Rightarrow> json) \<Rightarrow> string \<Rightarrow> string option \<Rightarrow> entry" where
  "opt_embedded parse k v = (k, Inr (case v of None \<Rightarrow> None | Some t \<Rightarrow> parsed parse t))"

definition non_empty :: "'a list option \<Rightarrow> 'a list option" where
  "non_empty v = (if v = Some [] then None else v)"

definition str_arr :: "string list \<Rightarrow> json" where
  "str_arr xs = JArr (map JStr xs)"

fun arr :: "('a \<Rightarrow> json res) \<Rightarrow> 'a list \<Rightarrow> json list res" where
  "arr f [] = Inr []"
| "arr f (x # xs) = and_then (f x) (\<lambda>y. and_then (arr f xs) (\<lambda>ys. Inr (y # ys)))"

definition arr_of :: "('a \<Rightarrow> json res) \<Rightarrow> 'a list \<Rightarrow> json res" where
  "arr_of f xs = and_then (arr f xs) (\<lambda>ys. Inr (JArr ys))"

fun put_all :: "entry list \<Rightarrow> (string \<times> json) list \<Rightarrow> (string \<times> json) list res" where
  "put_all [] m = Inr m"
| "put_all ((k, r) # es) m =
     and_then r (\<lambda>v. put_all es (case v of None \<Rightarrow> m | Some x \<Rightarrow> put_key k x m))"

definition build :: "entry list \<Rightarrow> json res" where
  "build es = and_then (put_all es []) (\<lambda>m. Inr (JObj m))"

section \<open>What was written is found\<close>

definition holds :: "json \<Rightarrow> entry \<Rightarrow> bool" where
  "holds j e \<longleftrightarrow> (\<exists>v. snd e = Inr v \<and> jfind j (fst e) = v)"

lemma fst_entry [simp]:
  "fst (req k x) = k" "fst (req_r k r) = k" "fst (opt k f v) = k" "fst (opt_r k g v) = k"
  "fst (nullable k f w) = k" "fst (embedded parse k t) = k" "fst (opt_embedded parse k u) = k"
  by (simp_all add: req_def req_r_def opt_def opt_r_def nullable_def embedded_def opt_embedded_def)

lemma holds_entry:
  "holds j (req k x) \<longleftrightarrow> jfind j k = Some x"
  "holds j (req_r k r) \<longleftrightarrow> (\<exists>x. r = Inr x \<and> jfind j k = Some x)"
  "holds j (opt k f v) \<longleftrightarrow> jfind j k = map_option f v"
  "holds j (opt_r k g v) \<longleftrightarrow> (case v of None \<Rightarrow> jfind j k = None | Some y \<Rightarrow> \<exists>x. g y = Inr x \<and> jfind j k = Some x)"
  "holds j (nullable k f w) \<longleftrightarrow> jfind j k = map_option (\<lambda>x. case x of None \<Rightarrow> JNull | Some y \<Rightarrow> f y) w"
  by (auto simp: holds_def req_def req_r_def opt_def opt_r_def nullable_def and_then_eq_Inr split: option.split)

lemma put_all_keeps:
  "put_all es m = Inr m' \<Longrightarrow> k \<notin> fst ` set es \<Longrightarrow> map_of m' k = map_of m k"
proof (induction es m rule: put_all.induct)
  case (2 k' r es m)
  from 2(2) obtain v where v: "put_all es (case v of None \<Rightarrow> m | Some x \<Rightarrow> put_key k' x m) = Inr m'"
    by (auto simp: and_then_eq_Inr)
  have k: "k \<noteq> k'" "k \<notin> fst ` set es" using 2(3) by auto
  from 2(1)[OF v k(2)] k(1) show ?case by (cases v) simp_all
qed simp

lemma put_all_holds:
  "put_all es m = Inr m' \<Longrightarrow> distinct (map fst es) \<Longrightarrow> fst ` set es \<inter> fst ` set m = {} \<Longrightarrow>
     list_all (holds (JObj m')) es"
proof (induction es m rule: put_all.induct)
  case (2 k r es m)
  then obtain v where v: "r = Inr v" "put_all es (case v of None \<Rightarrow> m | Some x \<Rightarrow> put_key k x m) = Inr m'"
    by (auto simp: and_then_eq_Inr)
  have k: "k \<notin> fst ` set es" using 2(3) by (simp add: image_iff)
  have none: "map_of m k = None" using 2(4) by (auto simp: map_of_eq_None_iff)
  have "map_of m' k = v"
    using put_all_keeps[OF v(2) k] none by (cases v) auto
  moreover have "list_all (holds (JObj m')) es"
    using 2(1)[OF v(2)] 2(3,4) k by (auto simp: keys_put_key split: option.splits)
  ultimately show ?case using v(1) by (simp add: holds_def[of "JObj m'" "(k, Inr v)"])
qed simp

lemma build_holds: "build es = Inr j \<Longrightarrow> distinct (map fst es) \<Longrightarrow> list_all (holds j) es"
  using put_all_holds[of es "[]"] by (auto simp: build_def and_then_eq_Inr)

lemma build_object: "build es = Inr j \<Longrightarrow> is_object j"
  by (auto simp: build_def and_then_eq_Inr)

section \<open>Encoders and decoders\<close>

locale codec =
  fixes enc :: "'a \<Rightarrow> json res" and dec :: "json \<Rightarrow> 'a res"
  assumes dec_enc: "enc v = Inr j \<Longrightarrow> dec j = Inr v"
    and not_null: "enc v = Inr j \<Longrightarrow> j \<noteq> JNull"
begin

lemma enc_inj: "enc v = Inr j \<Longrightarrow> enc w = Inr j \<Longrightarrow> v = w"
  using dec_enc[of v j] dec_enc[of w j] by simp

lemma all: "arr enc vs = Inr js \<Longrightarrow> get_all dec js = Inr vs"
  by (induction vs arbitrary: js) (auto simp: and_then_eq_Inr dec_enc)

lemma lists: "codec (arr_of enc) (get_list dec)"
  by unfold_locales (auto simp: arr_of_def and_then_eq_Inr all)

lemma required: "enc v = Inr j \<Longrightarrow> get_required dec (Some j) = Inr v"
  by (simp add: get_required_def dec_enc)

lemma optional: "enc v = Inr j \<Longrightarrow> get_optional dec (Some j) = Inr (Some v)"
  by (simp add: get_optional_def dec_enc not_null)

lemma reads: "enc v = Inr j \<Longrightarrow> get_required dec (Some j) = Inr v \<and> get_optional dec (Some j) = Inr (Some v)"
  by (simp add: required optional)

end

text \<open>A plain encoder, which refuses nothing.\<close>

locale plain_codec =
  fixes put :: "'a \<Rightarrow> json" and get :: "json \<Rightarrow> 'a res"
  assumes get_put: "get (put x) = Inr x"
    and put_not_null: "put x \<noteq> JNull"
begin

lemma required: "get_required get (Some (put x)) = Inr x"
  by (simp add: get_required_def get_put)

lemma optional: "get_optional get (map_option put v) = Inr v"
  by (cases v) (simp_all add: get_optional_def get_put put_not_null)

lemma nullable: "get_nullable get (map_option (\<lambda>x. case x of None \<Rightarrow> JNull | Some y \<Rightarrow> put y) v) = Inr v"
  by (auto simp: get_nullable_def get_put put_not_null split: option.split)

end

sublocale plain_codec \<subseteq> refusing: codec "\<lambda>x. Inr (put x)" get
  by unfold_locales (auto simp: get_put put_not_null)

lemma get_all_str: "get_all get_str (map JStr xs) = Inr xs"
  by (induction xs) auto

interpretation str: plain_codec JStr get_str
  by unfold_locales auto

interpretation bool: plain_codec JBool get_bool
  by unfold_locales auto

interpretation int: plain_codec JInt get_word
  by unfold_locales auto

interpretation double: plain_codec JFloat get_double
  by unfold_locales auto

interpretation strs: plain_codec str_arr "get_list get_str"
  by unfold_locales (auto simp: str_arr_def get_all_str)

lemmas plain_fields = str.required str.optional str.nullable bool.required bool.optional bool.nullable
  int.required int.optional int.nullable double.required double.optional double.nullable
  strs.required strs.optional strs.nullable

section \<open>Enumerations\<close>

text \<open>
  \<open>to_wire\<close>, \<open>..._from_wire\<close> and \<open>send_wire\<close> of one enumeration: what they promise.
\<close>

definition send_known :: "string \<Rightarrow> 'a \<Rightarrow> ('a \<Rightarrow> string) \<Rightarrow> 'a \<Rightarrow> string res" where
  "send_known name unknown wire v =
     (if v = unknown then Inl (InvalidArgument (name @ '': a value this SDK does not know is never sent'')) else Inr (wire v))"

definition enum_json :: "('a \<Rightarrow> string res) \<Rightarrow> 'a \<Rightarrow> json res" where
  "enum_json send v = and_then (send v) (\<lambda>s. Inr (JStr s))"

locale wire_enum =
  fixes wire :: "'a \<Rightarrow> string" and from_wire :: "string \<Rightarrow> 'a" and unknown :: 'a and send :: "'a \<Rightarrow> string res"
  assumes known: "v \<noteq> unknown \<Longrightarrow> from_wire (wire v) = v"
    and spelling: "from_wire s \<noteq> unknown \<Longrightarrow> wire (from_wire s) = s"
    and send_Inr: "send v = Inr s \<longleftrightarrow> v \<noteq> unknown \<and> s = wire v"
begin

lemma sent_is_read: "send v = Inr s \<Longrightarrow> from_wire s = v \<and> v \<noteq> unknown"
  by (auto simp: send_Inr known)

lemma relayed_unchanged: "send (from_wire s) = Inr t \<Longrightarrow> t = s"
  by (simp add: send_Inr spelling)

lemma unknown_not_sent: "from_wire s = unknown \<Longrightarrow> \<not> is_ok (send (from_wire s))"
  using send_Inr[of unknown] by (cases "send unknown") auto

end

sublocale wire_enum \<subseteq> codec "enum_json send" "get_enum from_wire"
  by unfold_locales (auto simp: enum_json_def get_enum_def and_then_eq_Inr dest: sent_is_read)

section \<open>Codecs of structures\<close>

text \<open>
  A structure whose encoder builds an object of distinct members has a codec as soon as its
  decoder reads each member as it was entered.
\<close>

lemma build_codec:
  assumes "\<And>v. to v = build (es v)" "\<And>v. distinct (map fst (es v))"
    and "\<And>v j. list_all (holds j) (es v) \<Longrightarrow> from' j = Inr v"
  shows "codec to from'"
proof
  fix v j assume "to v = Inr j"
  then have b: "build (es v) = Inr j" by (simp add: assms(1))
  show "from' j = Inr v" by (rule assms(3)) (rule build_holds[OF b assms(2)])
  show "j \<noteq> JNull" using build_object[OF b] by auto
qed

lemma get_optional_None [simp]: "get_optional get None = Inr None"
  by (simp add: get_optional_def)

lemmas codec_simps = holds_entry member_def opt_member_def nullable_member_def plain_fields

end
