(* ===== verification/ModelEnums.thy ===== *)
theory ModelEnums
  imports Codec
begin

text \<open>
  The enumerations of \<open>include/axiam/management_models.hpp\<close>: the enumerators, the spelling of
  each on the wire (\<open>to_wire\<close>), the reading of a spelling (\<open>..._from_wire\<close>, every other string
  being the unknown enumerator), and what is sent (\<open>send_wire\<close>, which refuses the unknown one).
  Each is an interpretation of \<open>wire_enum\<close>.
\<close>

section \<open>ActorType\<close>

datatype actor_type = ActorType_User | ActorType_ServiceAccount | ActorType_System | ActorType_Unknown

fun actor_type_wire :: "actor_type \<Rightarrow> string" where
  "actor_type_wire ActorType_User = ''User''"
| "actor_type_wire ActorType_ServiceAccount = ''ServiceAccount''"
| "actor_type_wire ActorType_System = ''System''"
| "actor_type_wire ActorType_Unknown = []"

definition actor_type_from_wire :: "string \<Rightarrow> actor_type" where
  "actor_type_from_wire s =
     (if s = ''User'' then ActorType_User else (if s = ''ServiceAccount'' then ActorType_ServiceAccount else
      (if s = ''System'' then ActorType_System else ActorType_Unknown)))"

definition actor_type_send :: "actor_type \<Rightarrow> string res" where
  "actor_type_send = send_known ''ActorType'' ActorType_Unknown actor_type_wire"

interpretation actor_type: wire_enum actor_type_wire actor_type_from_wire ActorType_Unknown actor_type_send
proof
  fix v show "v \<noteq> ActorType_Unknown \<Longrightarrow> actor_type_from_wire (actor_type_wire v) = v" by (cases v) (simp_all add: actor_type_from_wire_def)
next
  fix s show "actor_type_from_wire s \<noteq> ActorType_Unknown \<Longrightarrow> actor_type_wire (actor_type_from_wire s) = s" by (simp add: actor_type_from_wire_def split: if_splits)
qed (auto simp: actor_type_send_def send_known_def)

section \<open>AttestationMode\<close>

datatype attestation_mode = AttestationMode_None | AttestationMode_Indirect | AttestationMode_DirectRequired
  | AttestationMode_Unknown

fun attestation_mode_wire :: "attestation_mode \<Rightarrow> string" where
  "attestation_mode_wire AttestationMode_None = ''none''"
| "attestation_mode_wire AttestationMode_Indirect = ''indirect''"
| "attestation_mode_wire AttestationMode_DirectRequired = ''direct_required''"
| "attestation_mode_wire AttestationMode_Unknown = []"

definition attestation_mode_from_wire :: "string \<Rightarrow> attestation_mode" where
  "attestation_mode_from_wire s =
     (if s = ''none'' then AttestationMode_None else (if s = ''indirect'' then AttestationMode_Indirect else
      (if s = ''direct_required'' then AttestationMode_DirectRequired else AttestationMode_Unknown)))"

definition attestation_mode_send :: "attestation_mode \<Rightarrow> string res" where
  "attestation_mode_send = send_known ''AttestationMode'' AttestationMode_Unknown attestation_mode_wire"

interpretation attestation_mode: wire_enum attestation_mode_wire attestation_mode_from_wire AttestationMode_Unknown attestation_mode_send
proof
  fix v show "v \<noteq> AttestationMode_Unknown \<Longrightarrow> attestation_mode_from_wire (attestation_mode_wire v) = v" by (cases v) (simp_all add: attestation_mode_from_wire_def)
next
  fix s show "attestation_mode_from_wire s \<noteq> AttestationMode_Unknown \<Longrightarrow> attestation_mode_wire (attestation_mode_from_wire s) = s" by (simp add: attestation_mode_from_wire_def split: if_splits)
qed (auto simp: attestation_mode_send_def send_known_def)

section \<open>AttributeSource\<close>

datatype attribute_source = AttributeSource_Username | AttributeSource_Email | AttributeSource_DisplayName
  | AttributeSource_GivenName | AttributeSource_FamilyName | AttributeSource_Groups | AttributeSource_Roles
  | AttributeSource_Unknown

fun attribute_source_wire :: "attribute_source \<Rightarrow> string" where
  "attribute_source_wire AttributeSource_Username = ''username''"
| "attribute_source_wire AttributeSource_Email = ''email''"
| "attribute_source_wire AttributeSource_DisplayName = ''display_name''"
| "attribute_source_wire AttributeSource_GivenName = ''given_name''"
| "attribute_source_wire AttributeSource_FamilyName = ''family_name''"
| "attribute_source_wire AttributeSource_Groups = ''groups''"
| "attribute_source_wire AttributeSource_Roles = ''roles''"
| "attribute_source_wire AttributeSource_Unknown = []"

definition attribute_source_from_wire :: "string \<Rightarrow> attribute_source" where
  "attribute_source_from_wire s =
     (if s = ''username'' then AttributeSource_Username else (if s = ''email'' then AttributeSource_Email else
      (if s = ''display_name'' then AttributeSource_DisplayName else
      (if s = ''given_name'' then AttributeSource_GivenName else
      (if s = ''family_name'' then AttributeSource_FamilyName else
      (if s = ''groups'' then AttributeSource_Groups else (if s = ''roles'' then AttributeSource_Roles else AttributeSource_Unknown)))))))"

definition attribute_source_send :: "attribute_source \<Rightarrow> string res" where
  "attribute_source_send = send_known ''AttributeSource'' AttributeSource_Unknown attribute_source_wire"

interpretation attribute_source: wire_enum attribute_source_wire attribute_source_from_wire AttributeSource_Unknown attribute_source_send
proof
  fix v show "v \<noteq> AttributeSource_Unknown \<Longrightarrow> attribute_source_from_wire (attribute_source_wire v) = v" by (cases v) (simp_all add: attribute_source_from_wire_def)
next
  fix s show "attribute_source_from_wire s \<noteq> AttributeSource_Unknown \<Longrightarrow> attribute_source_wire (attribute_source_from_wire s) = s" by (simp add: attribute_source_from_wire_def split: if_splits)
qed (auto simp: attribute_source_send_def send_known_def)

section \<open>AuditOutcome\<close>

datatype audit_outcome = AuditOutcome_Success | AuditOutcome_Failure | AuditOutcome_Denied
  | AuditOutcome_Unknown

fun audit_outcome_wire :: "audit_outcome \<Rightarrow> string" where
  "audit_outcome_wire AuditOutcome_Success = ''Success''"
| "audit_outcome_wire AuditOutcome_Failure = ''Failure''"
| "audit_outcome_wire AuditOutcome_Denied = ''Denied''"
| "audit_outcome_wire AuditOutcome_Unknown = []"

definition audit_outcome_from_wire :: "string \<Rightarrow> audit_outcome" where
  "audit_outcome_from_wire s =
     (if s = ''Success'' then AuditOutcome_Success else (if s = ''Failure'' then AuditOutcome_Failure else
      (if s = ''Denied'' then AuditOutcome_Denied else AuditOutcome_Unknown)))"

definition audit_outcome_send :: "audit_outcome \<Rightarrow> string res" where
  "audit_outcome_send = send_known ''AuditOutcome'' AuditOutcome_Unknown audit_outcome_wire"

interpretation audit_outcome: wire_enum audit_outcome_wire audit_outcome_from_wire AuditOutcome_Unknown audit_outcome_send
proof
  fix v show "v \<noteq> AuditOutcome_Unknown \<Longrightarrow> audit_outcome_from_wire (audit_outcome_wire v) = v" by (cases v) (simp_all add: audit_outcome_from_wire_def)
next
  fix s show "audit_outcome_from_wire s \<noteq> AuditOutcome_Unknown \<Longrightarrow> audit_outcome_wire (audit_outcome_from_wire s) = s" by (simp add: audit_outcome_from_wire_def split: if_splits)
qed (auto simp: audit_outcome_send_def send_known_def)

section \<open>AuthnRequestParamsMode\<close>

datatype authn_request_params_mode = AuthnRequestParamsMode_Ignore | AuthnRequestParamsMode_Honour
  | AuthnRequestParamsMode_Unknown

fun authn_request_params_mode_wire :: "authn_request_params_mode \<Rightarrow> string" where
  "authn_request_params_mode_wire AuthnRequestParamsMode_Ignore = ''ignore''"
| "authn_request_params_mode_wire AuthnRequestParamsMode_Honour = ''honour''"
| "authn_request_params_mode_wire AuthnRequestParamsMode_Unknown = []"

definition authn_request_params_mode_from_wire :: "string \<Rightarrow> authn_request_params_mode" where
  "authn_request_params_mode_from_wire s =
     (if s = ''ignore'' then AuthnRequestParamsMode_Ignore else
      (if s = ''honour'' then AuthnRequestParamsMode_Honour else AuthnRequestParamsMode_Unknown))"

definition authn_request_params_mode_send :: "authn_request_params_mode \<Rightarrow> string res" where
  "authn_request_params_mode_send = send_known ''AuthnRequestParamsMode'' AuthnRequestParamsMode_Unknown authn_request_params_mode_wire"

interpretation authn_request_params_mode: wire_enum authn_request_params_mode_wire authn_request_params_mode_from_wire AuthnRequestParamsMode_Unknown authn_request_params_mode_send
proof
  fix v show "v \<noteq> AuthnRequestParamsMode_Unknown \<Longrightarrow> authn_request_params_mode_from_wire (authn_request_params_mode_wire v) = v" by (cases v) (simp_all add: authn_request_params_mode_from_wire_def)
next
  fix s show "authn_request_params_mode_from_wire s \<noteq> AuthnRequestParamsMode_Unknown \<Longrightarrow> authn_request_params_mode_wire (authn_request_params_mode_from_wire s) = s" by (simp add: authn_request_params_mode_from_wire_def split: if_splits)
qed (auto simp: authn_request_params_mode_send_def send_known_def)

section \<open>CertificateStatus\<close>

datatype certificate_status = CertificateStatus_Active | CertificateStatus_Revoked | CertificateStatus_Expired
  | CertificateStatus_Unknown

fun certificate_status_wire :: "certificate_status \<Rightarrow> string" where
  "certificate_status_wire CertificateStatus_Active = ''Active''"
| "certificate_status_wire CertificateStatus_Revoked = ''Revoked''"
| "certificate_status_wire CertificateStatus_Expired = ''Expired''"
| "certificate_status_wire CertificateStatus_Unknown = []"

definition certificate_status_from_wire :: "string \<Rightarrow> certificate_status" where
  "certificate_status_from_wire s =
     (if s = ''Active'' then CertificateStatus_Active else
      (if s = ''Revoked'' then CertificateStatus_Revoked else
      (if s = ''Expired'' then CertificateStatus_Expired else CertificateStatus_Unknown)))"

definition certificate_status_send :: "certificate_status \<Rightarrow> string res" where
  "certificate_status_send = send_known ''CertificateStatus'' CertificateStatus_Unknown certificate_status_wire"

interpretation certificate_status: wire_enum certificate_status_wire certificate_status_from_wire CertificateStatus_Unknown certificate_status_send
proof
  fix v show "v \<noteq> CertificateStatus_Unknown \<Longrightarrow> certificate_status_from_wire (certificate_status_wire v) = v" by (cases v) (simp_all add: certificate_status_from_wire_def)
next
  fix s show "certificate_status_from_wire s \<noteq> CertificateStatus_Unknown \<Longrightarrow> certificate_status_wire (certificate_status_from_wire s) = s" by (simp add: certificate_status_from_wire_def split: if_splits)
qed (auto simp: certificate_status_send_def send_known_def)

section \<open>CertificateType\<close>

datatype certificate_type = CertificateType_User | CertificateType_Service | CertificateType_Device
  | CertificateType_Server | CertificateType_Unknown

fun certificate_type_wire :: "certificate_type \<Rightarrow> string" where
  "certificate_type_wire CertificateType_User = ''User''"
| "certificate_type_wire CertificateType_Service = ''Service''"
| "certificate_type_wire CertificateType_Device = ''Device''"
| "certificate_type_wire CertificateType_Server = ''Server''"
| "certificate_type_wire CertificateType_Unknown = []"

definition certificate_type_from_wire :: "string \<Rightarrow> certificate_type" where
  "certificate_type_from_wire s =
     (if s = ''User'' then CertificateType_User else (if s = ''Service'' then CertificateType_Service else
      (if s = ''Device'' then CertificateType_Device else (if s = ''Server'' then CertificateType_Server else CertificateType_Unknown))))"

definition certificate_type_send :: "certificate_type \<Rightarrow> string res" where
  "certificate_type_send = send_known ''CertificateType'' CertificateType_Unknown certificate_type_wire"

interpretation certificate_type: wire_enum certificate_type_wire certificate_type_from_wire CertificateType_Unknown certificate_type_send
proof
  fix v show "v \<noteq> CertificateType_Unknown \<Longrightarrow> certificate_type_from_wire (certificate_type_wire v) = v" by (cases v) (simp_all add: certificate_type_from_wire_def)
next
  fix s show "certificate_type_from_wire s \<noteq> CertificateType_Unknown \<Longrightarrow> certificate_type_wire (certificate_type_from_wire s) = s" by (simp add: certificate_type_from_wire_def split: if_splits)
qed (auto simp: certificate_type_send_def send_known_def)

section \<open>CertificationLevel\<close>

datatype certification_level = CertificationLevel_L1 | CertificationLevel_L1Plus | CertificationLevel_L2
  | CertificationLevel_L2Plus | CertificationLevel_L3 | CertificationLevel_L3Plus | CertificationLevel_Unknown

fun certification_level_wire :: "certification_level \<Rightarrow> string" where
  "certification_level_wire CertificationLevel_L1 = ''L1''"
| "certification_level_wire CertificationLevel_L1Plus = ''L1Plus''"
| "certification_level_wire CertificationLevel_L2 = ''L2''"
| "certification_level_wire CertificationLevel_L2Plus = ''L2Plus''"
| "certification_level_wire CertificationLevel_L3 = ''L3''"
| "certification_level_wire CertificationLevel_L3Plus = ''L3Plus''"
| "certification_level_wire CertificationLevel_Unknown = []"

definition certification_level_from_wire :: "string \<Rightarrow> certification_level" where
  "certification_level_from_wire s =
     (if s = ''L1'' then CertificationLevel_L1 else (if s = ''L1Plus'' then CertificationLevel_L1Plus else
      (if s = ''L2'' then CertificationLevel_L2 else (if s = ''L2Plus'' then CertificationLevel_L2Plus else
      (if s = ''L3'' then CertificationLevel_L3 else (if s = ''L3Plus'' then CertificationLevel_L3Plus else CertificationLevel_Unknown))))))"

definition certification_level_send :: "certification_level \<Rightarrow> string res" where
  "certification_level_send = send_known ''CertificationLevel'' CertificationLevel_Unknown certification_level_wire"

interpretation certification_level: wire_enum certification_level_wire certification_level_from_wire CertificationLevel_Unknown certification_level_send
proof
  fix v show "v \<noteq> CertificationLevel_Unknown \<Longrightarrow> certification_level_from_wire (certification_level_wire v) = v" by (cases v) (simp_all add: certification_level_from_wire_def)
next
  fix s show "certification_level_from_wire s \<noteq> CertificationLevel_Unknown \<Longrightarrow> certification_level_wire (certification_level_from_wire s) = s" by (simp add: certification_level_from_wire_def split: if_splits)
qed (auto simp: certification_level_send_def send_known_def)

section \<open>CibaDeliveryMode\<close>

datatype ciba_delivery_mode = CibaDeliveryMode_Poll | CibaDeliveryMode_Ping | CibaDeliveryMode_Unknown

fun ciba_delivery_mode_wire :: "ciba_delivery_mode \<Rightarrow> string" where
  "ciba_delivery_mode_wire CibaDeliveryMode_Poll = ''poll''"
| "ciba_delivery_mode_wire CibaDeliveryMode_Ping = ''ping''"
| "ciba_delivery_mode_wire CibaDeliveryMode_Unknown = []"

definition ciba_delivery_mode_from_wire :: "string \<Rightarrow> ciba_delivery_mode" where
  "ciba_delivery_mode_from_wire s =
     (if s = ''poll'' then CibaDeliveryMode_Poll else (if s = ''ping'' then CibaDeliveryMode_Ping else CibaDeliveryMode_Unknown))"

definition ciba_delivery_mode_send :: "ciba_delivery_mode \<Rightarrow> string res" where
  "ciba_delivery_mode_send = send_known ''CibaDeliveryMode'' CibaDeliveryMode_Unknown ciba_delivery_mode_wire"

interpretation ciba_delivery_mode: wire_enum ciba_delivery_mode_wire ciba_delivery_mode_from_wire CibaDeliveryMode_Unknown ciba_delivery_mode_send
proof
  fix v show "v \<noteq> CibaDeliveryMode_Unknown \<Longrightarrow> ciba_delivery_mode_from_wire (ciba_delivery_mode_wire v) = v" by (cases v) (simp_all add: ciba_delivery_mode_from_wire_def)
next
  fix s show "ciba_delivery_mode_from_wire s \<noteq> CibaDeliveryMode_Unknown \<Longrightarrow> ciba_delivery_mode_wire (ciba_delivery_mode_from_wire s) = s" by (simp add: ciba_delivery_mode_from_wire_def split: if_splits)
qed (auto simp: ciba_delivery_mode_send_def send_known_def)

section \<open>CibaRequestSigningAlg\<close>

datatype ciba_request_signing_alg = CibaRequestSigningAlg_PS256 | CibaRequestSigningAlg_ES256
  | CibaRequestSigningAlg_EdDSA | CibaRequestSigningAlg_Unknown

fun ciba_request_signing_alg_wire :: "ciba_request_signing_alg \<Rightarrow> string" where
  "ciba_request_signing_alg_wire CibaRequestSigningAlg_PS256 = ''PS256''"
| "ciba_request_signing_alg_wire CibaRequestSigningAlg_ES256 = ''ES256''"
| "ciba_request_signing_alg_wire CibaRequestSigningAlg_EdDSA = ''EdDSA''"
| "ciba_request_signing_alg_wire CibaRequestSigningAlg_Unknown = []"

definition ciba_request_signing_alg_from_wire :: "string \<Rightarrow> ciba_request_signing_alg" where
  "ciba_request_signing_alg_from_wire s =
     (if s = ''PS256'' then CibaRequestSigningAlg_PS256 else
      (if s = ''ES256'' then CibaRequestSigningAlg_ES256 else
      (if s = ''EdDSA'' then CibaRequestSigningAlg_EdDSA else CibaRequestSigningAlg_Unknown)))"

definition ciba_request_signing_alg_send :: "ciba_request_signing_alg \<Rightarrow> string res" where
  "ciba_request_signing_alg_send = send_known ''CibaRequestSigningAlg'' CibaRequestSigningAlg_Unknown ciba_request_signing_alg_wire"

interpretation ciba_request_signing_alg: wire_enum ciba_request_signing_alg_wire ciba_request_signing_alg_from_wire CibaRequestSigningAlg_Unknown ciba_request_signing_alg_send
proof
  fix v show "v \<noteq> CibaRequestSigningAlg_Unknown \<Longrightarrow> ciba_request_signing_alg_from_wire (ciba_request_signing_alg_wire v) = v" by (cases v) (simp_all add: ciba_request_signing_alg_from_wire_def)
next
  fix s show "ciba_request_signing_alg_from_wire s \<noteq> CibaRequestSigningAlg_Unknown \<Longrightarrow> ciba_request_signing_alg_wire (ciba_request_signing_alg_from_wire s) = s" by (simp add: ciba_request_signing_alg_from_wire_def split: if_splits)
qed (auto simp: ciba_request_signing_alg_send_def send_known_def)

section \<open>ClientAuthMethod\<close>

datatype client_auth_method = ClientAuthMethod_ClientSecretPost | ClientAuthMethod_ClientSecretBasic
  | ClientAuthMethod_TlsClientAuth | ClientAuthMethod_SelfSignedTlsClientAuth | ClientAuthMethod_PrivateKeyJwt
  | ClientAuthMethod_None | ClientAuthMethod_Unknown

fun client_auth_method_wire :: "client_auth_method \<Rightarrow> string" where
  "client_auth_method_wire ClientAuthMethod_ClientSecretPost = ''client_secret_post''"
| "client_auth_method_wire ClientAuthMethod_ClientSecretBasic = ''client_secret_basic''"
| "client_auth_method_wire ClientAuthMethod_TlsClientAuth = ''tls_client_auth''"
| "client_auth_method_wire ClientAuthMethod_SelfSignedTlsClientAuth = ''self_signed_tls_client_auth''"
| "client_auth_method_wire ClientAuthMethod_PrivateKeyJwt = ''private_key_jwt''"
| "client_auth_method_wire ClientAuthMethod_None = ''none''"
| "client_auth_method_wire ClientAuthMethod_Unknown = []"

definition client_auth_method_from_wire :: "string \<Rightarrow> client_auth_method" where
  "client_auth_method_from_wire s =
     (if s = ''client_secret_post'' then ClientAuthMethod_ClientSecretPost else
      (if s = ''client_secret_basic'' then ClientAuthMethod_ClientSecretBasic else
      (if s = ''tls_client_auth'' then ClientAuthMethod_TlsClientAuth else
      (if s = ''self_signed_tls_client_auth'' then ClientAuthMethod_SelfSignedTlsClientAuth else
      (if s = ''private_key_jwt'' then ClientAuthMethod_PrivateKeyJwt else
      (if s = ''none'' then ClientAuthMethod_None else ClientAuthMethod_Unknown))))))"

definition client_auth_method_send :: "client_auth_method \<Rightarrow> string res" where
  "client_auth_method_send = send_known ''ClientAuthMethod'' ClientAuthMethod_Unknown client_auth_method_wire"

interpretation client_auth_method: wire_enum client_auth_method_wire client_auth_method_from_wire ClientAuthMethod_Unknown client_auth_method_send
proof
  fix v show "v \<noteq> ClientAuthMethod_Unknown \<Longrightarrow> client_auth_method_from_wire (client_auth_method_wire v) = v" by (cases v) (simp_all add: client_auth_method_from_wire_def)
next
  fix s show "client_auth_method_from_wire s \<noteq> ClientAuthMethod_Unknown \<Longrightarrow> client_auth_method_wire (client_auth_method_from_wire s) = s" by (simp add: client_auth_method_from_wire_def split: if_splits)
qed (auto simp: client_auth_method_send_def send_known_def)

section \<open>ClientProfile\<close>

datatype client_profile = ClientProfile_Standard | ClientProfile_Fapi2 | ClientProfile_Unknown

fun client_profile_wire :: "client_profile \<Rightarrow> string" where
  "client_profile_wire ClientProfile_Standard = ''standard''"
| "client_profile_wire ClientProfile_Fapi2 = ''fapi2''"
| "client_profile_wire ClientProfile_Unknown = []"

definition client_profile_from_wire :: "string \<Rightarrow> client_profile" where
  "client_profile_from_wire s =
     (if s = ''standard'' then ClientProfile_Standard else (if s = ''fapi2'' then ClientProfile_Fapi2 else ClientProfile_Unknown))"

definition client_profile_send :: "client_profile \<Rightarrow> string res" where
  "client_profile_send = send_known ''ClientProfile'' ClientProfile_Unknown client_profile_wire"

interpretation client_profile: wire_enum client_profile_wire client_profile_from_wire ClientProfile_Unknown client_profile_send
proof
  fix v show "v \<noteq> ClientProfile_Unknown \<Longrightarrow> client_profile_from_wire (client_profile_wire v) = v" by (cases v) (simp_all add: client_profile_from_wire_def)
next
  fix s show "client_profile_from_wire s \<noteq> ClientProfile_Unknown \<Longrightarrow> client_profile_wire (client_profile_from_wire s) = s" by (simp add: client_profile_from_wire_def split: if_splits)
qed (auto simp: client_profile_send_def send_known_def)

section \<open>DeprovisionPolicy\<close>

datatype deprovision_policy = DeprovisionPolicy_Deactivate | DeprovisionPolicy_Delete
  | DeprovisionPolicy_Unknown

fun deprovision_policy_wire :: "deprovision_policy \<Rightarrow> string" where
  "deprovision_policy_wire DeprovisionPolicy_Deactivate = ''deactivate''"
| "deprovision_policy_wire DeprovisionPolicy_Delete = ''delete''"
| "deprovision_policy_wire DeprovisionPolicy_Unknown = []"

definition deprovision_policy_from_wire :: "string \<Rightarrow> deprovision_policy" where
  "deprovision_policy_from_wire s =
     (if s = ''deactivate'' then DeprovisionPolicy_Deactivate else
      (if s = ''delete'' then DeprovisionPolicy_Delete else DeprovisionPolicy_Unknown))"

definition deprovision_policy_send :: "deprovision_policy \<Rightarrow> string res" where
  "deprovision_policy_send = send_known ''DeprovisionPolicy'' DeprovisionPolicy_Unknown deprovision_policy_wire"

interpretation deprovision_policy: wire_enum deprovision_policy_wire deprovision_policy_from_wire DeprovisionPolicy_Unknown deprovision_policy_send
proof
  fix v show "v \<noteq> DeprovisionPolicy_Unknown \<Longrightarrow> deprovision_policy_from_wire (deprovision_policy_wire v) = v" by (cases v) (simp_all add: deprovision_policy_from_wire_def)
next
  fix s show "deprovision_policy_from_wire s \<noteq> DeprovisionPolicy_Unknown \<Longrightarrow> deprovision_policy_wire (deprovision_policy_from_wire s) = s" by (simp add: deprovision_policy_from_wire_def split: if_splits)
qed (auto simp: deprovision_policy_send_def send_known_def)

section \<open>DirectoryKind\<close>

datatype directory_kind = DirectoryKind_OpenLdap | DirectoryKind_ActiveDirectory | DirectoryKind_Unknown

fun directory_kind_wire :: "directory_kind \<Rightarrow> string" where
  "directory_kind_wire DirectoryKind_OpenLdap = ''open_ldap''"
| "directory_kind_wire DirectoryKind_ActiveDirectory = ''active_directory''"
| "directory_kind_wire DirectoryKind_Unknown = []"

definition directory_kind_from_wire :: "string \<Rightarrow> directory_kind" where
  "directory_kind_from_wire s =
     (if s = ''open_ldap'' then DirectoryKind_OpenLdap else
      (if s = ''active_directory'' then DirectoryKind_ActiveDirectory else DirectoryKind_Unknown))"

definition directory_kind_send :: "directory_kind \<Rightarrow> string res" where
  "directory_kind_send = send_known ''DirectoryKind'' DirectoryKind_Unknown directory_kind_wire"

interpretation directory_kind: wire_enum directory_kind_wire directory_kind_from_wire DirectoryKind_Unknown directory_kind_send
proof
  fix v show "v \<noteq> DirectoryKind_Unknown \<Longrightarrow> directory_kind_from_wire (directory_kind_wire v) = v" by (cases v) (simp_all add: directory_kind_from_wire_def)
next
  fix s show "directory_kind_from_wire s \<noteq> DirectoryKind_Unknown \<Longrightarrow> directory_kind_wire (directory_kind_from_wire s) = s" by (simp add: directory_kind_from_wire_def split: if_splits)
qed (auto simp: directory_kind_send_def send_known_def)

section \<open>FailurePolicy\<close>

datatype failure_policy = FailurePolicy_FailClosed | FailurePolicy_FailOpen | FailurePolicy_Unknown

fun failure_policy_wire :: "failure_policy \<Rightarrow> string" where
  "failure_policy_wire FailurePolicy_FailClosed = ''fail_closed''"
| "failure_policy_wire FailurePolicy_FailOpen = ''fail_open''"
| "failure_policy_wire FailurePolicy_Unknown = []"

definition failure_policy_from_wire :: "string \<Rightarrow> failure_policy" where
  "failure_policy_from_wire s =
     (if s = ''fail_closed'' then FailurePolicy_FailClosed else
      (if s = ''fail_open'' then FailurePolicy_FailOpen else FailurePolicy_Unknown))"

definition failure_policy_send :: "failure_policy \<Rightarrow> string res" where
  "failure_policy_send = send_known ''FailurePolicy'' FailurePolicy_Unknown failure_policy_wire"

interpretation failure_policy: wire_enum failure_policy_wire failure_policy_from_wire FailurePolicy_Unknown failure_policy_send
proof
  fix v show "v \<noteq> FailurePolicy_Unknown \<Longrightarrow> failure_policy_from_wire (failure_policy_wire v) = v" by (cases v) (simp_all add: failure_policy_from_wire_def)
next
  fix s show "failure_policy_from_wire s \<noteq> FailurePolicy_Unknown \<Longrightarrow> failure_policy_wire (failure_policy_from_wire s) = s" by (simp add: failure_policy_from_wire_def split: if_splits)
qed (auto simp: failure_policy_send_def send_known_def)

section \<open>KeyAlgorithm\<close>

datatype key_algorithm = KeyAlgorithm_Rsa4096 | KeyAlgorithm_Ed25519 | KeyAlgorithm_Unknown

fun key_algorithm_wire :: "key_algorithm \<Rightarrow> string" where
  "key_algorithm_wire KeyAlgorithm_Rsa4096 = ''Rsa4096''"
| "key_algorithm_wire KeyAlgorithm_Ed25519 = ''Ed25519''"
| "key_algorithm_wire KeyAlgorithm_Unknown = []"

definition key_algorithm_from_wire :: "string \<Rightarrow> key_algorithm" where
  "key_algorithm_from_wire s =
     (if s = ''Rsa4096'' then KeyAlgorithm_Rsa4096 else (if s = ''Ed25519'' then KeyAlgorithm_Ed25519 else KeyAlgorithm_Unknown))"

definition key_algorithm_send :: "key_algorithm \<Rightarrow> string res" where
  "key_algorithm_send = send_known ''KeyAlgorithm'' KeyAlgorithm_Unknown key_algorithm_wire"

interpretation key_algorithm: wire_enum key_algorithm_wire key_algorithm_from_wire KeyAlgorithm_Unknown key_algorithm_send
proof
  fix v show "v \<noteq> KeyAlgorithm_Unknown \<Longrightarrow> key_algorithm_from_wire (key_algorithm_wire v) = v" by (cases v) (simp_all add: key_algorithm_from_wire_def)
next
  fix s show "key_algorithm_from_wire s \<noteq> KeyAlgorithm_Unknown \<Longrightarrow> key_algorithm_wire (key_algorithm_from_wire s) = s" by (simp add: key_algorithm_from_wire_def split: if_splits)
qed (auto simp: key_algorithm_send_def send_known_def)

section \<open>ManagedBy\<close>

datatype managed_by = ManagedBy_Admin | ManagedBy_Dcr | ManagedBy_Cimd | ManagedBy_Unknown

fun managed_by_wire :: "managed_by \<Rightarrow> string" where
  "managed_by_wire ManagedBy_Admin = ''admin''"
| "managed_by_wire ManagedBy_Dcr = ''dcr''"
| "managed_by_wire ManagedBy_Cimd = ''cimd''"
| "managed_by_wire ManagedBy_Unknown = []"

definition managed_by_from_wire :: "string \<Rightarrow> managed_by" where
  "managed_by_from_wire s =
     (if s = ''admin'' then ManagedBy_Admin else (if s = ''dcr'' then ManagedBy_Dcr else
      (if s = ''cimd'' then ManagedBy_Cimd else ManagedBy_Unknown)))"

definition managed_by_send :: "managed_by \<Rightarrow> string res" where
  "managed_by_send = send_known ''ManagedBy'' ManagedBy_Unknown managed_by_wire"

interpretation managed_by: wire_enum managed_by_wire managed_by_from_wire ManagedBy_Unknown managed_by_send
proof
  fix v show "v \<noteq> ManagedBy_Unknown \<Longrightarrow> managed_by_from_wire (managed_by_wire v) = v" by (cases v) (simp_all add: managed_by_from_wire_def)
next
  fix s show "managed_by_from_wire s \<noteq> ManagedBy_Unknown \<Longrightarrow> managed_by_wire (managed_by_from_wire s) = s" by (simp add: managed_by_from_wire_def split: if_splits)
qed (auto simp: managed_by_send_def send_known_def)

section \<open>MfaMethodType\<close>

datatype mfa_method_type = MfaMethodType_Totp | MfaMethodType_Passkey | MfaMethodType_SecurityKey
  | MfaMethodType_Unknown

fun mfa_method_type_wire :: "mfa_method_type \<Rightarrow> string" where
  "mfa_method_type_wire MfaMethodType_Totp = ''Totp''"
| "mfa_method_type_wire MfaMethodType_Passkey = ''Passkey''"
| "mfa_method_type_wire MfaMethodType_SecurityKey = ''SecurityKey''"
| "mfa_method_type_wire MfaMethodType_Unknown = []"

definition mfa_method_type_from_wire :: "string \<Rightarrow> mfa_method_type" where
  "mfa_method_type_from_wire s =
     (if s = ''Totp'' then MfaMethodType_Totp else (if s = ''Passkey'' then MfaMethodType_Passkey else
      (if s = ''SecurityKey'' then MfaMethodType_SecurityKey else MfaMethodType_Unknown)))"

definition mfa_method_type_send :: "mfa_method_type \<Rightarrow> string res" where
  "mfa_method_type_send = send_known ''MfaMethodType'' MfaMethodType_Unknown mfa_method_type_wire"

interpretation mfa_method_type: wire_enum mfa_method_type_wire mfa_method_type_from_wire MfaMethodType_Unknown mfa_method_type_send
proof
  fix v show "v \<noteq> MfaMethodType_Unknown \<Longrightarrow> mfa_method_type_from_wire (mfa_method_type_wire v) = v" by (cases v) (simp_all add: mfa_method_type_from_wire_def)
next
  fix s show "mfa_method_type_from_wire s \<noteq> MfaMethodType_Unknown \<Longrightarrow> mfa_method_type_wire (mfa_method_type_from_wire s) = s" by (simp add: mfa_method_type_from_wire_def split: if_splits)
qed (auto simp: mfa_method_type_send_def send_known_def)

section \<open>NameIdFormat\<close>

datatype name_id_format = NameIdFormat_Persistent | NameIdFormat_EmailAddress | NameIdFormat_Unknown

fun name_id_format_wire :: "name_id_format \<Rightarrow> string" where
  "name_id_format_wire NameIdFormat_Persistent = ''persistent''"
| "name_id_format_wire NameIdFormat_EmailAddress = ''email_address''"
| "name_id_format_wire NameIdFormat_Unknown = []"

definition name_id_format_from_wire :: "string \<Rightarrow> name_id_format" where
  "name_id_format_from_wire s =
     (if s = ''persistent'' then NameIdFormat_Persistent else
      (if s = ''email_address'' then NameIdFormat_EmailAddress else NameIdFormat_Unknown))"

definition name_id_format_send :: "name_id_format \<Rightarrow> string res" where
  "name_id_format_send = send_known ''NameIdFormat'' NameIdFormat_Unknown name_id_format_wire"

interpretation name_id_format: wire_enum name_id_format_wire name_id_format_from_wire NameIdFormat_Unknown name_id_format_send
proof
  fix v show "v \<noteq> NameIdFormat_Unknown \<Longrightarrow> name_id_format_from_wire (name_id_format_wire v) = v" by (cases v) (simp_all add: name_id_format_from_wire_def)
next
  fix s show "name_id_format_from_wire s \<noteq> NameIdFormat_Unknown \<Longrightarrow> name_id_format_wire (name_id_format_from_wire s) = s" by (simp add: name_id_format_from_wire_def split: if_splits)
qed (auto simp: name_id_format_send_def send_known_def)

section \<open>NetworkSegmentKind\<close>

datatype network_segment_kind = NetworkSegmentKind_Access | NetworkSegmentKind_Quarantine
  | NetworkSegmentKind_Unknown

fun network_segment_kind_wire :: "network_segment_kind \<Rightarrow> string" where
  "network_segment_kind_wire NetworkSegmentKind_Access = ''access''"
| "network_segment_kind_wire NetworkSegmentKind_Quarantine = ''quarantine''"
| "network_segment_kind_wire NetworkSegmentKind_Unknown = []"

definition network_segment_kind_from_wire :: "string \<Rightarrow> network_segment_kind" where
  "network_segment_kind_from_wire s =
     (if s = ''access'' then NetworkSegmentKind_Access else
      (if s = ''quarantine'' then NetworkSegmentKind_Quarantine else NetworkSegmentKind_Unknown))"

definition network_segment_kind_send :: "network_segment_kind \<Rightarrow> string res" where
  "network_segment_kind_send = send_known ''NetworkSegmentKind'' NetworkSegmentKind_Unknown network_segment_kind_wire"

interpretation network_segment_kind: wire_enum network_segment_kind_wire network_segment_kind_from_wire NetworkSegmentKind_Unknown network_segment_kind_send
proof
  fix v show "v \<noteq> NetworkSegmentKind_Unknown \<Longrightarrow> network_segment_kind_from_wire (network_segment_kind_wire v) = v" by (cases v) (simp_all add: network_segment_kind_from_wire_def)
next
  fix s show "network_segment_kind_from_wire s \<noteq> NetworkSegmentKind_Unknown \<Longrightarrow> network_segment_kind_wire (network_segment_kind_from_wire s) = s" by (simp add: network_segment_kind_from_wire_def split: if_splits)
qed (auto simp: network_segment_kind_send_def send_known_def)

section \<open>NotificationEventType\<close>

datatype notification_event_type = NotificationEventType_LoginFailure | NotificationEventType_AccountLocked
  | NotificationEventType_MfaEnrollmentChanged | NotificationEventType_PasswordChanged
  | NotificationEventType_PasswordResetRequested | NotificationEventType_RoleAssigned
  | NotificationEventType_RoleUnassigned | NotificationEventType_PermissionGranted
  | NotificationEventType_PermissionRevoked | NotificationEventType_CertificateIssued
  | NotificationEventType_CertificateRevoked | NotificationEventType_CaCertificateRevoked
  | NotificationEventType_UserCreated | NotificationEventType_UserDeleted | NotificationEventType_UserUpdated
  | NotificationEventType_ServiceAccountCreated | NotificationEventType_ServiceAccountDeleted
  | NotificationEventType_ScimDeliveryFailed | NotificationEventType_Unknown

fun notification_event_type_wire :: "notification_event_type \<Rightarrow> string" where
  "notification_event_type_wire NotificationEventType_LoginFailure = ''login_failure''"
| "notification_event_type_wire NotificationEventType_AccountLocked = ''account_locked''"
| "notification_event_type_wire NotificationEventType_MfaEnrollmentChanged = ''mfa_enrollment_changed''"
| "notification_event_type_wire NotificationEventType_PasswordChanged = ''password_changed''"
| "notification_event_type_wire NotificationEventType_PasswordResetRequested = ''password_reset_requested''"
| "notification_event_type_wire NotificationEventType_RoleAssigned = ''role_assigned''"
| "notification_event_type_wire NotificationEventType_RoleUnassigned = ''role_unassigned''"
| "notification_event_type_wire NotificationEventType_PermissionGranted = ''permission_granted''"
| "notification_event_type_wire NotificationEventType_PermissionRevoked = ''permission_revoked''"
| "notification_event_type_wire NotificationEventType_CertificateIssued = ''certificate_issued''"
| "notification_event_type_wire NotificationEventType_CertificateRevoked = ''certificate_revoked''"
| "notification_event_type_wire NotificationEventType_CaCertificateRevoked = ''ca_certificate_revoked''"
| "notification_event_type_wire NotificationEventType_UserCreated = ''user_created''"
| "notification_event_type_wire NotificationEventType_UserDeleted = ''user_deleted''"
| "notification_event_type_wire NotificationEventType_UserUpdated = ''user_updated''"
| "notification_event_type_wire NotificationEventType_ServiceAccountCreated = ''service_account_created''"
| "notification_event_type_wire NotificationEventType_ServiceAccountDeleted = ''service_account_deleted''"
| "notification_event_type_wire NotificationEventType_ScimDeliveryFailed = ''scim_delivery_failed''"
| "notification_event_type_wire NotificationEventType_Unknown = []"

definition notification_event_type_from_wire :: "string \<Rightarrow> notification_event_type" where
  "notification_event_type_from_wire s =
     (if s = ''login_failure'' then NotificationEventType_LoginFailure else
      (if s = ''account_locked'' then NotificationEventType_AccountLocked else
      (if s = ''mfa_enrollment_changed'' then NotificationEventType_MfaEnrollmentChanged else
      (if s = ''password_changed'' then NotificationEventType_PasswordChanged else
      (if s = ''password_reset_requested'' then NotificationEventType_PasswordResetRequested else
      (if s = ''role_assigned'' then NotificationEventType_RoleAssigned else
      (if s = ''role_unassigned'' then NotificationEventType_RoleUnassigned else
      (if s = ''permission_granted'' then NotificationEventType_PermissionGranted else
      (if s = ''permission_revoked'' then NotificationEventType_PermissionRevoked else
      (if s = ''certificate_issued'' then NotificationEventType_CertificateIssued else
      (if s = ''certificate_revoked'' then NotificationEventType_CertificateRevoked else
      (if s = ''ca_certificate_revoked'' then NotificationEventType_CaCertificateRevoked else
      (if s = ''user_created'' then NotificationEventType_UserCreated else
      (if s = ''user_deleted'' then NotificationEventType_UserDeleted else
      (if s = ''user_updated'' then NotificationEventType_UserUpdated else
      (if s = ''service_account_created'' then NotificationEventType_ServiceAccountCreated else
      (if s = ''service_account_deleted'' then NotificationEventType_ServiceAccountDeleted else
      (if s = ''scim_delivery_failed'' then NotificationEventType_ScimDeliveryFailed else NotificationEventType_Unknown))))))))))))))))))"

definition notification_event_type_send :: "notification_event_type \<Rightarrow> string res" where
  "notification_event_type_send = send_known ''NotificationEventType'' NotificationEventType_Unknown notification_event_type_wire"

interpretation notification_event_type: wire_enum notification_event_type_wire notification_event_type_from_wire NotificationEventType_Unknown notification_event_type_send
proof
  fix v show "v \<noteq> NotificationEventType_Unknown \<Longrightarrow> notification_event_type_from_wire (notification_event_type_wire v) = v" by (cases v) (simp_all add: notification_event_type_from_wire_def)
next
  fix s show "notification_event_type_from_wire s \<noteq> NotificationEventType_Unknown \<Longrightarrow> notification_event_type_wire (notification_event_type_from_wire s) = s" by (simp add: notification_event_type_from_wire_def split: if_splits)
qed (auto simp: notification_event_type_send_def send_known_def)

section \<open>PermissionEffect\<close>

datatype permission_effect = PermissionEffect_Allow | PermissionEffect_Deny | PermissionEffect_Unknown

fun permission_effect_wire :: "permission_effect \<Rightarrow> string" where
  "permission_effect_wire PermissionEffect_Allow = ''allow''"
| "permission_effect_wire PermissionEffect_Deny = ''deny''"
| "permission_effect_wire PermissionEffect_Unknown = []"

definition permission_effect_from_wire :: "string \<Rightarrow> permission_effect" where
  "permission_effect_from_wire s =
     (if s = ''allow'' then PermissionEffect_Allow else (if s = ''deny'' then PermissionEffect_Deny else PermissionEffect_Unknown))"

definition permission_effect_send :: "permission_effect \<Rightarrow> string res" where
  "permission_effect_send = send_known ''PermissionEffect'' PermissionEffect_Unknown permission_effect_wire"

interpretation permission_effect: wire_enum permission_effect_wire permission_effect_from_wire PermissionEffect_Unknown permission_effect_send
proof
  fix v show "v \<noteq> PermissionEffect_Unknown \<Longrightarrow> permission_effect_from_wire (permission_effect_wire v) = v" by (cases v) (simp_all add: permission_effect_from_wire_def)
next
  fix s show "permission_effect_from_wire s \<noteq> PermissionEffect_Unknown \<Longrightarrow> permission_effect_wire (permission_effect_from_wire s) = s" by (simp add: permission_effect_from_wire_def split: if_splits)
qed (auto simp: permission_effect_send_def send_known_def)

section \<open>PgpKeyAlgorithm\<close>

datatype pgp_key_algorithm = PgpKeyAlgorithm_Rsa4096 | PgpKeyAlgorithm_Ed25519 | PgpKeyAlgorithm_Unknown

fun pgp_key_algorithm_wire :: "pgp_key_algorithm \<Rightarrow> string" where
  "pgp_key_algorithm_wire PgpKeyAlgorithm_Rsa4096 = ''Rsa4096''"
| "pgp_key_algorithm_wire PgpKeyAlgorithm_Ed25519 = ''Ed25519''"
| "pgp_key_algorithm_wire PgpKeyAlgorithm_Unknown = []"

definition pgp_key_algorithm_from_wire :: "string \<Rightarrow> pgp_key_algorithm" where
  "pgp_key_algorithm_from_wire s =
     (if s = ''Rsa4096'' then PgpKeyAlgorithm_Rsa4096 else
      (if s = ''Ed25519'' then PgpKeyAlgorithm_Ed25519 else PgpKeyAlgorithm_Unknown))"

definition pgp_key_algorithm_send :: "pgp_key_algorithm \<Rightarrow> string res" where
  "pgp_key_algorithm_send = send_known ''PgpKeyAlgorithm'' PgpKeyAlgorithm_Unknown pgp_key_algorithm_wire"

interpretation pgp_key_algorithm: wire_enum pgp_key_algorithm_wire pgp_key_algorithm_from_wire PgpKeyAlgorithm_Unknown pgp_key_algorithm_send
proof
  fix v show "v \<noteq> PgpKeyAlgorithm_Unknown \<Longrightarrow> pgp_key_algorithm_from_wire (pgp_key_algorithm_wire v) = v" by (cases v) (simp_all add: pgp_key_algorithm_from_wire_def)
next
  fix s show "pgp_key_algorithm_from_wire s \<noteq> PgpKeyAlgorithm_Unknown \<Longrightarrow> pgp_key_algorithm_wire (pgp_key_algorithm_from_wire s) = s" by (simp add: pgp_key_algorithm_from_wire_def split: if_splits)
qed (auto simp: pgp_key_algorithm_send_def send_known_def)

section \<open>PgpKeyPurpose\<close>

datatype pgp_key_purpose = PgpKeyPurpose_AuditSigning | PgpKeyPurpose_Export | PgpKeyPurpose_Unknown

fun pgp_key_purpose_wire :: "pgp_key_purpose \<Rightarrow> string" where
  "pgp_key_purpose_wire PgpKeyPurpose_AuditSigning = ''AuditSigning''"
| "pgp_key_purpose_wire PgpKeyPurpose_Export = ''Export''"
| "pgp_key_purpose_wire PgpKeyPurpose_Unknown = []"

definition pgp_key_purpose_from_wire :: "string \<Rightarrow> pgp_key_purpose" where
  "pgp_key_purpose_from_wire s =
     (if s = ''AuditSigning'' then PgpKeyPurpose_AuditSigning else
      (if s = ''Export'' then PgpKeyPurpose_Export else PgpKeyPurpose_Unknown))"

definition pgp_key_purpose_send :: "pgp_key_purpose \<Rightarrow> string res" where
  "pgp_key_purpose_send = send_known ''PgpKeyPurpose'' PgpKeyPurpose_Unknown pgp_key_purpose_wire"

interpretation pgp_key_purpose: wire_enum pgp_key_purpose_wire pgp_key_purpose_from_wire PgpKeyPurpose_Unknown pgp_key_purpose_send
proof
  fix v show "v \<noteq> PgpKeyPurpose_Unknown \<Longrightarrow> pgp_key_purpose_from_wire (pgp_key_purpose_wire v) = v" by (cases v) (simp_all add: pgp_key_purpose_from_wire_def)
next
  fix s show "pgp_key_purpose_from_wire s \<noteq> PgpKeyPurpose_Unknown \<Longrightarrow> pgp_key_purpose_wire (pgp_key_purpose_from_wire s) = s" by (simp add: pgp_key_purpose_from_wire_def split: if_splits)
qed (auto simp: pgp_key_purpose_send_def send_known_def)

section \<open>PgpKeyStatus\<close>

datatype pgp_key_status = PgpKeyStatus_Active | PgpKeyStatus_Revoked | PgpKeyStatus_Unknown

fun pgp_key_status_wire :: "pgp_key_status \<Rightarrow> string" where
  "pgp_key_status_wire PgpKeyStatus_Active = ''Active''"
| "pgp_key_status_wire PgpKeyStatus_Revoked = ''Revoked''"
| "pgp_key_status_wire PgpKeyStatus_Unknown = []"

definition pgp_key_status_from_wire :: "string \<Rightarrow> pgp_key_status" where
  "pgp_key_status_from_wire s =
     (if s = ''Active'' then PgpKeyStatus_Active else (if s = ''Revoked'' then PgpKeyStatus_Revoked else PgpKeyStatus_Unknown))"

definition pgp_key_status_send :: "pgp_key_status \<Rightarrow> string res" where
  "pgp_key_status_send = send_known ''PgpKeyStatus'' PgpKeyStatus_Unknown pgp_key_status_wire"

interpretation pgp_key_status: wire_enum pgp_key_status_wire pgp_key_status_from_wire PgpKeyStatus_Unknown pgp_key_status_send
proof
  fix v show "v \<noteq> PgpKeyStatus_Unknown \<Longrightarrow> pgp_key_status_from_wire (pgp_key_status_wire v) = v" by (cases v) (simp_all add: pgp_key_status_from_wire_def)
next
  fix s show "pgp_key_status_from_wire s \<noteq> PgpKeyStatus_Unknown \<Longrightarrow> pgp_key_status_wire (pgp_key_status_from_wire s) = s" by (simp add: pgp_key_status_from_wire_def split: if_splits)
qed (auto simp: pgp_key_status_send_def send_known_def)

section \<open>RadiusServiceType\<close>

datatype radius_service_type = RadiusServiceType_FramedUser | RadiusServiceType_Unknown

fun radius_service_type_wire :: "radius_service_type \<Rightarrow> string" where
  "radius_service_type_wire RadiusServiceType_FramedUser = ''framed_user''"
| "radius_service_type_wire RadiusServiceType_Unknown = []"

definition radius_service_type_from_wire :: "string \<Rightarrow> radius_service_type" where
  "radius_service_type_from_wire s =
     (if s = ''framed_user'' then RadiusServiceType_FramedUser else RadiusServiceType_Unknown)"

definition radius_service_type_send :: "radius_service_type \<Rightarrow> string res" where
  "radius_service_type_send = send_known ''RadiusServiceType'' RadiusServiceType_Unknown radius_service_type_wire"

interpretation radius_service_type: wire_enum radius_service_type_wire radius_service_type_from_wire RadiusServiceType_Unknown radius_service_type_send
proof
  fix v show "v \<noteq> RadiusServiceType_Unknown \<Longrightarrow> radius_service_type_from_wire (radius_service_type_wire v) = v" by (cases v) (simp_all add: radius_service_type_from_wire_def)
next
  fix s show "radius_service_type_from_wire s \<noteq> RadiusServiceType_Unknown \<Longrightarrow> radius_service_type_wire (radius_service_type_from_wire s) = s" by (simp add: radius_service_type_from_wire_def split: if_splits)
qed (auto simp: radius_service_type_send_def send_known_def)

section \<open>RadiusTerminationAction\<close>

datatype radius_termination_action = RadiusTerminationAction_Default | RadiusTerminationAction_RadiusRequest
  | RadiusTerminationAction_Unknown

fun radius_termination_action_wire :: "radius_termination_action \<Rightarrow> string" where
  "radius_termination_action_wire RadiusTerminationAction_Default = ''default''"
| "radius_termination_action_wire RadiusTerminationAction_RadiusRequest = ''radius_request''"
| "radius_termination_action_wire RadiusTerminationAction_Unknown = []"

definition radius_termination_action_from_wire :: "string \<Rightarrow> radius_termination_action" where
  "radius_termination_action_from_wire s =
     (if s = ''default'' then RadiusTerminationAction_Default else
      (if s = ''radius_request'' then RadiusTerminationAction_RadiusRequest else RadiusTerminationAction_Unknown))"

definition radius_termination_action_send :: "radius_termination_action \<Rightarrow> string res" where
  "radius_termination_action_send = send_known ''RadiusTerminationAction'' RadiusTerminationAction_Unknown radius_termination_action_wire"

interpretation radius_termination_action: wire_enum radius_termination_action_wire radius_termination_action_from_wire RadiusTerminationAction_Unknown radius_termination_action_send
proof
  fix v show "v \<noteq> RadiusTerminationAction_Unknown \<Longrightarrow> radius_termination_action_from_wire (radius_termination_action_wire v) = v" by (cases v) (simp_all add: radius_termination_action_from_wire_def)
next
  fix s show "radius_termination_action_from_wire s \<noteq> RadiusTerminationAction_Unknown \<Longrightarrow> radius_termination_action_wire (radius_termination_action_from_wire s) = s" by (simp add: radius_termination_action_from_wire_def split: if_splits)
qed (auto simp: radius_termination_action_send_def send_known_def)

section \<open>ReactorMode\<close>

datatype reactor_mode = ReactorMode_Intercept | ReactorMode_Listen | ReactorMode_Unknown

fun reactor_mode_wire :: "reactor_mode \<Rightarrow> string" where
  "reactor_mode_wire ReactorMode_Intercept = ''intercept''"
| "reactor_mode_wire ReactorMode_Listen = ''listen''"
| "reactor_mode_wire ReactorMode_Unknown = []"

definition reactor_mode_from_wire :: "string \<Rightarrow> reactor_mode" where
  "reactor_mode_from_wire s =
     (if s = ''intercept'' then ReactorMode_Intercept else (if s = ''listen'' then ReactorMode_Listen else ReactorMode_Unknown))"

definition reactor_mode_send :: "reactor_mode \<Rightarrow> string res" where
  "reactor_mode_send = send_known ''ReactorMode'' ReactorMode_Unknown reactor_mode_wire"

interpretation reactor_mode: wire_enum reactor_mode_wire reactor_mode_from_wire ReactorMode_Unknown reactor_mode_send
proof
  fix v show "v \<noteq> ReactorMode_Unknown \<Longrightarrow> reactor_mode_from_wire (reactor_mode_wire v) = v" by (cases v) (simp_all add: reactor_mode_from_wire_def)
next
  fix s show "reactor_mode_from_wire s \<noteq> ReactorMode_Unknown \<Longrightarrow> reactor_mode_wire (reactor_mode_from_wire s) = s" by (simp add: reactor_mode_from_wire_def split: if_splits)
qed (auto simp: reactor_mode_send_def send_known_def)

section \<open>RefreshReuseResponse\<close>

datatype refresh_reuse_response = RefreshReuseResponse_RevokeSession | RefreshReuseResponse_Refuse
  | RefreshReuseResponse_Unknown

fun refresh_reuse_response_wire :: "refresh_reuse_response \<Rightarrow> string" where
  "refresh_reuse_response_wire RefreshReuseResponse_RevokeSession = ''revoke_session''"
| "refresh_reuse_response_wire RefreshReuseResponse_Refuse = ''refuse''"
| "refresh_reuse_response_wire RefreshReuseResponse_Unknown = []"

definition refresh_reuse_response_from_wire :: "string \<Rightarrow> refresh_reuse_response" where
  "refresh_reuse_response_from_wire s =
     (if s = ''revoke_session'' then RefreshReuseResponse_RevokeSession else
      (if s = ''refuse'' then RefreshReuseResponse_Refuse else RefreshReuseResponse_Unknown))"

definition refresh_reuse_response_send :: "refresh_reuse_response \<Rightarrow> string res" where
  "refresh_reuse_response_send = send_known ''RefreshReuseResponse'' RefreshReuseResponse_Unknown refresh_reuse_response_wire"

interpretation refresh_reuse_response: wire_enum refresh_reuse_response_wire refresh_reuse_response_from_wire RefreshReuseResponse_Unknown refresh_reuse_response_send
proof
  fix v show "v \<noteq> RefreshReuseResponse_Unknown \<Longrightarrow> refresh_reuse_response_from_wire (refresh_reuse_response_wire v) = v" by (cases v) (simp_all add: refresh_reuse_response_from_wire_def)
next
  fix s show "refresh_reuse_response_from_wire s \<noteq> RefreshReuseResponse_Unknown \<Longrightarrow> refresh_reuse_response_wire (refresh_reuse_response_from_wire s) = s" by (simp add: refresh_reuse_response_from_wire_def split: if_splits)
qed (auto simp: refresh_reuse_response_send_def send_known_def)

section \<open>SamlBinding\<close>

datatype saml_binding = SamlBinding_HttpPost | SamlBinding_HttpRedirect | SamlBinding_Unknown

fun saml_binding_wire :: "saml_binding \<Rightarrow> string" where
  "saml_binding_wire SamlBinding_HttpPost = ''http_post''"
| "saml_binding_wire SamlBinding_HttpRedirect = ''http_redirect''"
| "saml_binding_wire SamlBinding_Unknown = []"

definition saml_binding_from_wire :: "string \<Rightarrow> saml_binding" where
  "saml_binding_from_wire s =
     (if s = ''http_post'' then SamlBinding_HttpPost else
      (if s = ''http_redirect'' then SamlBinding_HttpRedirect else SamlBinding_Unknown))"

definition saml_binding_send :: "saml_binding \<Rightarrow> string res" where
  "saml_binding_send = send_known ''SamlBinding'' SamlBinding_Unknown saml_binding_wire"

interpretation saml_binding: wire_enum saml_binding_wire saml_binding_from_wire SamlBinding_Unknown saml_binding_send
proof
  fix v show "v \<noteq> SamlBinding_Unknown \<Longrightarrow> saml_binding_from_wire (saml_binding_wire v) = v" by (cases v) (simp_all add: saml_binding_from_wire_def)
next
  fix s show "saml_binding_from_wire s \<noteq> SamlBinding_Unknown \<Longrightarrow> saml_binding_wire (saml_binding_from_wire s) = s" by (simp add: saml_binding_from_wire_def split: if_splits)
qed (auto simp: saml_binding_send_def send_known_def)

section \<open>SamlIdpCredentialStatus\<close>

datatype saml_idp_credential_status = SamlIdpCredentialStatus_Active | SamlIdpCredentialStatus_Next
  | SamlIdpCredentialStatus_Retired | SamlIdpCredentialStatus_Unknown

fun saml_idp_credential_status_wire :: "saml_idp_credential_status \<Rightarrow> string" where
  "saml_idp_credential_status_wire SamlIdpCredentialStatus_Active = ''active''"
| "saml_idp_credential_status_wire SamlIdpCredentialStatus_Next = ''next''"
| "saml_idp_credential_status_wire SamlIdpCredentialStatus_Retired = ''retired''"
| "saml_idp_credential_status_wire SamlIdpCredentialStatus_Unknown = []"

definition saml_idp_credential_status_from_wire :: "string \<Rightarrow> saml_idp_credential_status" where
  "saml_idp_credential_status_from_wire s =
     (if s = ''active'' then SamlIdpCredentialStatus_Active else
      (if s = ''next'' then SamlIdpCredentialStatus_Next else
      (if s = ''retired'' then SamlIdpCredentialStatus_Retired else SamlIdpCredentialStatus_Unknown)))"

definition saml_idp_credential_status_send :: "saml_idp_credential_status \<Rightarrow> string res" where
  "saml_idp_credential_status_send = send_known ''SamlIdpCredentialStatus'' SamlIdpCredentialStatus_Unknown saml_idp_credential_status_wire"

interpretation saml_idp_credential_status: wire_enum saml_idp_credential_status_wire saml_idp_credential_status_from_wire SamlIdpCredentialStatus_Unknown saml_idp_credential_status_send
proof
  fix v show "v \<noteq> SamlIdpCredentialStatus_Unknown \<Longrightarrow> saml_idp_credential_status_from_wire (saml_idp_credential_status_wire v) = v" by (cases v) (simp_all add: saml_idp_credential_status_from_wire_def)
next
  fix s show "saml_idp_credential_status_from_wire s \<noteq> SamlIdpCredentialStatus_Unknown \<Longrightarrow> saml_idp_credential_status_wire (saml_idp_credential_status_from_wire s) = s" by (simp add: saml_idp_credential_status_from_wire_def split: if_splits)
qed (auto simp: saml_idp_credential_status_send_def send_known_def)

section \<open>SamlIdpSlot\<close>

datatype saml_idp_slot = SamlIdpSlot_Active | SamlIdpSlot_Next | SamlIdpSlot_Unknown

fun saml_idp_slot_wire :: "saml_idp_slot \<Rightarrow> string" where
  "saml_idp_slot_wire SamlIdpSlot_Active = ''active''"
| "saml_idp_slot_wire SamlIdpSlot_Next = ''next''"
| "saml_idp_slot_wire SamlIdpSlot_Unknown = []"

definition saml_idp_slot_from_wire :: "string \<Rightarrow> saml_idp_slot" where
  "saml_idp_slot_from_wire s =
     (if s = ''active'' then SamlIdpSlot_Active else (if s = ''next'' then SamlIdpSlot_Next else SamlIdpSlot_Unknown))"

definition saml_idp_slot_send :: "saml_idp_slot \<Rightarrow> string res" where
  "saml_idp_slot_send = send_known ''SamlIdpSlot'' SamlIdpSlot_Unknown saml_idp_slot_wire"

interpretation saml_idp_slot: wire_enum saml_idp_slot_wire saml_idp_slot_from_wire SamlIdpSlot_Unknown saml_idp_slot_send
proof
  fix v show "v \<noteq> SamlIdpSlot_Unknown \<Longrightarrow> saml_idp_slot_from_wire (saml_idp_slot_wire v) = v" by (cases v) (simp_all add: saml_idp_slot_from_wire_def)
next
  fix s show "saml_idp_slot_from_wire s \<noteq> SamlIdpSlot_Unknown \<Longrightarrow> saml_idp_slot_wire (saml_idp_slot_from_wire s) = s" by (simp add: saml_idp_slot_from_wire_def split: if_splits)
qed (auto simp: saml_idp_slot_send_def send_known_def)

section \<open>ScimTokenStatus\<close>

datatype scim_token_status = ScimTokenStatus_Active | ScimTokenStatus_Expired | ScimTokenStatus_Revoked
  | ScimTokenStatus_Unknown

fun scim_token_status_wire :: "scim_token_status \<Rightarrow> string" where
  "scim_token_status_wire ScimTokenStatus_Active = ''active''"
| "scim_token_status_wire ScimTokenStatus_Expired = ''expired''"
| "scim_token_status_wire ScimTokenStatus_Revoked = ''revoked''"
| "scim_token_status_wire ScimTokenStatus_Unknown = []"

definition scim_token_status_from_wire :: "string \<Rightarrow> scim_token_status" where
  "scim_token_status_from_wire s =
     (if s = ''active'' then ScimTokenStatus_Active else (if s = ''expired'' then ScimTokenStatus_Expired else
      (if s = ''revoked'' then ScimTokenStatus_Revoked else ScimTokenStatus_Unknown)))"

definition scim_token_status_send :: "scim_token_status \<Rightarrow> string res" where
  "scim_token_status_send = send_known ''ScimTokenStatus'' ScimTokenStatus_Unknown scim_token_status_wire"

interpretation scim_token_status: wire_enum scim_token_status_wire scim_token_status_from_wire ScimTokenStatus_Unknown scim_token_status_send
proof
  fix v show "v \<noteq> ScimTokenStatus_Unknown \<Longrightarrow> scim_token_status_from_wire (scim_token_status_wire v) = v" by (cases v) (simp_all add: scim_token_status_from_wire_def)
next
  fix s show "scim_token_status_from_wire s \<noteq> ScimTokenStatus_Unknown \<Longrightarrow> scim_token_status_wire (scim_token_status_from_wire s) = s" by (simp add: scim_token_status_from_wire_def split: if_splits)
qed (auto simp: scim_token_status_send_def send_known_def)

section \<open>SettingsScope\<close>

datatype settings_scope = SettingsScope_Org | SettingsScope_Tenant | SettingsScope_Unknown

fun settings_scope_wire :: "settings_scope \<Rightarrow> string" where
  "settings_scope_wire SettingsScope_Org = ''Org''"
| "settings_scope_wire SettingsScope_Tenant = ''Tenant''"
| "settings_scope_wire SettingsScope_Unknown = []"

definition settings_scope_from_wire :: "string \<Rightarrow> settings_scope" where
  "settings_scope_from_wire s =
     (if s = ''Org'' then SettingsScope_Org else (if s = ''Tenant'' then SettingsScope_Tenant else SettingsScope_Unknown))"

definition settings_scope_send :: "settings_scope \<Rightarrow> string res" where
  "settings_scope_send = send_known ''SettingsScope'' SettingsScope_Unknown settings_scope_wire"

interpretation settings_scope: wire_enum settings_scope_wire settings_scope_from_wire SettingsScope_Unknown settings_scope_send
proof
  fix v show "v \<noteq> SettingsScope_Unknown \<Longrightarrow> settings_scope_from_wire (settings_scope_wire v) = v" by (cases v) (simp_all add: settings_scope_from_wire_def)
next
  fix s show "settings_scope_from_wire s \<noteq> SettingsScope_Unknown \<Longrightarrow> settings_scope_wire (settings_scope_from_wire s) = s" by (simp add: settings_scope_from_wire_def split: if_splits)
qed (auto simp: settings_scope_send_def send_known_def)

section \<open>SsfDeliveryMethod\<close>

datatype ssf_delivery_method = SsfDeliveryMethod_Push | SsfDeliveryMethod_Poll | SsfDeliveryMethod_Unknown

fun ssf_delivery_method_wire :: "ssf_delivery_method \<Rightarrow> string" where
  "ssf_delivery_method_wire SsfDeliveryMethod_Push = ''push''"
| "ssf_delivery_method_wire SsfDeliveryMethod_Poll = ''poll''"
| "ssf_delivery_method_wire SsfDeliveryMethod_Unknown = []"

definition ssf_delivery_method_from_wire :: "string \<Rightarrow> ssf_delivery_method" where
  "ssf_delivery_method_from_wire s =
     (if s = ''push'' then SsfDeliveryMethod_Push else (if s = ''poll'' then SsfDeliveryMethod_Poll else SsfDeliveryMethod_Unknown))"

definition ssf_delivery_method_send :: "ssf_delivery_method \<Rightarrow> string res" where
  "ssf_delivery_method_send = send_known ''SsfDeliveryMethod'' SsfDeliveryMethod_Unknown ssf_delivery_method_wire"

interpretation ssf_delivery_method: wire_enum ssf_delivery_method_wire ssf_delivery_method_from_wire SsfDeliveryMethod_Unknown ssf_delivery_method_send
proof
  fix v show "v \<noteq> SsfDeliveryMethod_Unknown \<Longrightarrow> ssf_delivery_method_from_wire (ssf_delivery_method_wire v) = v" by (cases v) (simp_all add: ssf_delivery_method_from_wire_def)
next
  fix s show "ssf_delivery_method_from_wire s \<noteq> SsfDeliveryMethod_Unknown \<Longrightarrow> ssf_delivery_method_wire (ssf_delivery_method_from_wire s) = s" by (simp add: ssf_delivery_method_from_wire_def split: if_splits)
qed (auto simp: ssf_delivery_method_send_def send_known_def)

section \<open>SsfStatusActor\<close>

datatype ssf_status_actor = SsfStatusActor_Admin | SsfStatusActor_Receiver | SsfStatusActor_Unknown

fun ssf_status_actor_wire :: "ssf_status_actor \<Rightarrow> string" where
  "ssf_status_actor_wire SsfStatusActor_Admin = ''admin''"
| "ssf_status_actor_wire SsfStatusActor_Receiver = ''receiver''"
| "ssf_status_actor_wire SsfStatusActor_Unknown = []"

definition ssf_status_actor_from_wire :: "string \<Rightarrow> ssf_status_actor" where
  "ssf_status_actor_from_wire s =
     (if s = ''admin'' then SsfStatusActor_Admin else (if s = ''receiver'' then SsfStatusActor_Receiver else SsfStatusActor_Unknown))"

definition ssf_status_actor_send :: "ssf_status_actor \<Rightarrow> string res" where
  "ssf_status_actor_send = send_known ''SsfStatusActor'' SsfStatusActor_Unknown ssf_status_actor_wire"

interpretation ssf_status_actor: wire_enum ssf_status_actor_wire ssf_status_actor_from_wire SsfStatusActor_Unknown ssf_status_actor_send
proof
  fix v show "v \<noteq> SsfStatusActor_Unknown \<Longrightarrow> ssf_status_actor_from_wire (ssf_status_actor_wire v) = v" by (cases v) (simp_all add: ssf_status_actor_from_wire_def)
next
  fix s show "ssf_status_actor_from_wire s \<noteq> SsfStatusActor_Unknown \<Longrightarrow> ssf_status_actor_wire (ssf_status_actor_from_wire s) = s" by (simp add: ssf_status_actor_from_wire_def split: if_splits)
qed (auto simp: ssf_status_actor_send_def send_known_def)

section \<open>SsfStreamStatus\<close>

datatype ssf_stream_status = SsfStreamStatus_Enabled | SsfStreamStatus_Paused | SsfStreamStatus_Disabled
  | SsfStreamStatus_Unknown

fun ssf_stream_status_wire :: "ssf_stream_status \<Rightarrow> string" where
  "ssf_stream_status_wire SsfStreamStatus_Enabled = ''enabled''"
| "ssf_stream_status_wire SsfStreamStatus_Paused = ''paused''"
| "ssf_stream_status_wire SsfStreamStatus_Disabled = ''disabled''"
| "ssf_stream_status_wire SsfStreamStatus_Unknown = []"

definition ssf_stream_status_from_wire :: "string \<Rightarrow> ssf_stream_status" where
  "ssf_stream_status_from_wire s =
     (if s = ''enabled'' then SsfStreamStatus_Enabled else (if s = ''paused'' then SsfStreamStatus_Paused else
      (if s = ''disabled'' then SsfStreamStatus_Disabled else SsfStreamStatus_Unknown)))"

definition ssf_stream_status_send :: "ssf_stream_status \<Rightarrow> string res" where
  "ssf_stream_status_send = send_known ''SsfStreamStatus'' SsfStreamStatus_Unknown ssf_stream_status_wire"

interpretation ssf_stream_status: wire_enum ssf_stream_status_wire ssf_stream_status_from_wire SsfStreamStatus_Unknown ssf_stream_status_send
proof
  fix v show "v \<noteq> SsfStreamStatus_Unknown \<Longrightarrow> ssf_stream_status_from_wire (ssf_stream_status_wire v) = v" by (cases v) (simp_all add: ssf_stream_status_from_wire_def)
next
  fix s show "ssf_stream_status_from_wire s \<noteq> SsfStreamStatus_Unknown \<Longrightarrow> ssf_stream_status_wire (ssf_stream_status_from_wire s) = s" by (simp add: ssf_stream_status_from_wire_def split: if_splits)
qed (auto simp: ssf_stream_status_send_def send_known_def)

section \<open>SsfSubjectFormat\<close>

datatype ssf_subject_format = SsfSubjectFormat_IssSub | SsfSubjectFormat_Email | SsfSubjectFormat_Unknown

fun ssf_subject_format_wire :: "ssf_subject_format \<Rightarrow> string" where
  "ssf_subject_format_wire SsfSubjectFormat_IssSub = ''iss_sub''"
| "ssf_subject_format_wire SsfSubjectFormat_Email = ''email''"
| "ssf_subject_format_wire SsfSubjectFormat_Unknown = []"

definition ssf_subject_format_from_wire :: "string \<Rightarrow> ssf_subject_format" where
  "ssf_subject_format_from_wire s =
     (if s = ''iss_sub'' then SsfSubjectFormat_IssSub else (if s = ''email'' then SsfSubjectFormat_Email else SsfSubjectFormat_Unknown))"

definition ssf_subject_format_send :: "ssf_subject_format \<Rightarrow> string res" where
  "ssf_subject_format_send = send_known ''SsfSubjectFormat'' SsfSubjectFormat_Unknown ssf_subject_format_wire"

interpretation ssf_subject_format: wire_enum ssf_subject_format_wire ssf_subject_format_from_wire SsfSubjectFormat_Unknown ssf_subject_format_send
proof
  fix v show "v \<noteq> SsfSubjectFormat_Unknown \<Longrightarrow> ssf_subject_format_from_wire (ssf_subject_format_wire v) = v" by (cases v) (simp_all add: ssf_subject_format_from_wire_def)
next
  fix s show "ssf_subject_format_from_wire s \<noteq> SsfSubjectFormat_Unknown \<Longrightarrow> ssf_subject_format_wire (ssf_subject_format_from_wire s) = s" by (simp add: ssf_subject_format_from_wire_def split: if_splits)
qed (auto simp: ssf_subject_format_send_def send_known_def)

section \<open>TenantKind\<close>

datatype tenant_kind = TenantKind_Standard | TenantKind_Organization | TenantKind_Unknown

fun tenant_kind_wire :: "tenant_kind \<Rightarrow> string" where
  "tenant_kind_wire TenantKind_Standard = ''standard''"
| "tenant_kind_wire TenantKind_Organization = ''organization''"
| "tenant_kind_wire TenantKind_Unknown = []"

definition tenant_kind_from_wire :: "string \<Rightarrow> tenant_kind" where
  "tenant_kind_from_wire s =
     (if s = ''standard'' then TenantKind_Standard else
      (if s = ''organization'' then TenantKind_Organization else TenantKind_Unknown))"

definition tenant_kind_send :: "tenant_kind \<Rightarrow> string res" where
  "tenant_kind_send = send_known ''TenantKind'' TenantKind_Unknown tenant_kind_wire"

interpretation tenant_kind: wire_enum tenant_kind_wire tenant_kind_from_wire TenantKind_Unknown tenant_kind_send
proof
  fix v show "v \<noteq> TenantKind_Unknown \<Longrightarrow> tenant_kind_from_wire (tenant_kind_wire v) = v" by (cases v) (simp_all add: tenant_kind_from_wire_def)
next
  fix s show "tenant_kind_from_wire s \<noteq> TenantKind_Unknown \<Longrightarrow> tenant_kind_wire (tenant_kind_from_wire s) = s" by (simp add: tenant_kind_from_wire_def split: if_splits)
qed (auto simp: tenant_kind_send_def send_known_def)

section \<open>TenantStatus\<close>

datatype tenant_status = TenantStatus_Active | TenantStatus_Suspended | TenantStatus_Unknown

fun tenant_status_wire :: "tenant_status \<Rightarrow> string" where
  "tenant_status_wire TenantStatus_Active = ''Active''"
| "tenant_status_wire TenantStatus_Suspended = ''Suspended''"
| "tenant_status_wire TenantStatus_Unknown = []"

definition tenant_status_from_wire :: "string \<Rightarrow> tenant_status" where
  "tenant_status_from_wire s =
     (if s = ''Active'' then TenantStatus_Active else (if s = ''Suspended'' then TenantStatus_Suspended else TenantStatus_Unknown))"

definition tenant_status_send :: "tenant_status \<Rightarrow> string res" where
  "tenant_status_send = send_known ''TenantStatus'' TenantStatus_Unknown tenant_status_wire"

interpretation tenant_status: wire_enum tenant_status_wire tenant_status_from_wire TenantStatus_Unknown tenant_status_send
proof
  fix v show "v \<noteq> TenantStatus_Unknown \<Longrightarrow> tenant_status_from_wire (tenant_status_wire v) = v" by (cases v) (simp_all add: tenant_status_from_wire_def)
next
  fix s show "tenant_status_from_wire s \<noteq> TenantStatus_Unknown \<Longrightarrow> tenant_status_wire (tenant_status_from_wire s) = s" by (simp add: tenant_status_from_wire_def split: if_splits)
qed (auto simp: tenant_status_send_def send_known_def)

section \<open>UnknownAaguidAction\<close>

datatype unknown_aaguid_action = UnknownAaguidAction_Allow | UnknownAaguidAction_Deny
  | UnknownAaguidAction_Unknown

fun unknown_aaguid_action_wire :: "unknown_aaguid_action \<Rightarrow> string" where
  "unknown_aaguid_action_wire UnknownAaguidAction_Allow = ''allow''"
| "unknown_aaguid_action_wire UnknownAaguidAction_Deny = ''deny''"
| "unknown_aaguid_action_wire UnknownAaguidAction_Unknown = []"

definition unknown_aaguid_action_from_wire :: "string \<Rightarrow> unknown_aaguid_action" where
  "unknown_aaguid_action_from_wire s =
     (if s = ''allow'' then UnknownAaguidAction_Allow else (if s = ''deny'' then UnknownAaguidAction_Deny else UnknownAaguidAction_Unknown))"

definition unknown_aaguid_action_send :: "unknown_aaguid_action \<Rightarrow> string res" where
  "unknown_aaguid_action_send = send_known ''UnknownAaguidAction'' UnknownAaguidAction_Unknown unknown_aaguid_action_wire"

interpretation unknown_aaguid_action: wire_enum unknown_aaguid_action_wire unknown_aaguid_action_from_wire UnknownAaguidAction_Unknown unknown_aaguid_action_send
proof
  fix v show "v \<noteq> UnknownAaguidAction_Unknown \<Longrightarrow> unknown_aaguid_action_from_wire (unknown_aaguid_action_wire v) = v" by (cases v) (simp_all add: unknown_aaguid_action_from_wire_def)
next
  fix s show "unknown_aaguid_action_from_wire s \<noteq> UnknownAaguidAction_Unknown \<Longrightarrow> unknown_aaguid_action_wire (unknown_aaguid_action_from_wire s) = s" by (simp add: unknown_aaguid_action_from_wire_def split: if_splits)
qed (auto simp: unknown_aaguid_action_send_def send_known_def)

section \<open>UserNameSource\<close>

datatype user_name_source = UserNameSource_Username | UserNameSource_Email | UserNameSource_Unknown

fun user_name_source_wire :: "user_name_source \<Rightarrow> string" where
  "user_name_source_wire UserNameSource_Username = ''username''"
| "user_name_source_wire UserNameSource_Email = ''email''"
| "user_name_source_wire UserNameSource_Unknown = []"

definition user_name_source_from_wire :: "string \<Rightarrow> user_name_source" where
  "user_name_source_from_wire s =
     (if s = ''username'' then UserNameSource_Username else (if s = ''email'' then UserNameSource_Email else UserNameSource_Unknown))"

definition user_name_source_send :: "user_name_source \<Rightarrow> string res" where
  "user_name_source_send = send_known ''UserNameSource'' UserNameSource_Unknown user_name_source_wire"

interpretation user_name_source: wire_enum user_name_source_wire user_name_source_from_wire UserNameSource_Unknown user_name_source_send
proof
  fix v show "v \<noteq> UserNameSource_Unknown \<Longrightarrow> user_name_source_from_wire (user_name_source_wire v) = v" by (cases v) (simp_all add: user_name_source_from_wire_def)
next
  fix s show "user_name_source_from_wire s \<noteq> UserNameSource_Unknown \<Longrightarrow> user_name_source_wire (user_name_source_from_wire s) = s" by (simp add: user_name_source_from_wire_def split: if_splits)
qed (auto simp: user_name_source_send_def send_known_def)

section \<open>UserStatus\<close>

datatype user_status = UserStatus_Active | UserStatus_Inactive | UserStatus_Locked
  | UserStatus_PendingVerification | UserStatus_Anonymized | UserStatus_Deleted | UserStatus_Unknown

fun user_status_wire :: "user_status \<Rightarrow> string" where
  "user_status_wire UserStatus_Active = ''Active''"
| "user_status_wire UserStatus_Inactive = ''Inactive''"
| "user_status_wire UserStatus_Locked = ''Locked''"
| "user_status_wire UserStatus_PendingVerification = ''PendingVerification''"
| "user_status_wire UserStatus_Anonymized = ''Anonymized''"
| "user_status_wire UserStatus_Deleted = ''Deleted''"
| "user_status_wire UserStatus_Unknown = []"

definition user_status_from_wire :: "string \<Rightarrow> user_status" where
  "user_status_from_wire s =
     (if s = ''Active'' then UserStatus_Active else (if s = ''Inactive'' then UserStatus_Inactive else
      (if s = ''Locked'' then UserStatus_Locked else
      (if s = ''PendingVerification'' then UserStatus_PendingVerification else
      (if s = ''Anonymized'' then UserStatus_Anonymized else (if s = ''Deleted'' then UserStatus_Deleted else UserStatus_Unknown))))))"

definition user_status_send :: "user_status \<Rightarrow> string res" where
  "user_status_send = send_known ''UserStatus'' UserStatus_Unknown user_status_wire"

interpretation user_status: wire_enum user_status_wire user_status_from_wire UserStatus_Unknown user_status_send
proof
  fix v show "v \<noteq> UserStatus_Unknown \<Longrightarrow> user_status_from_wire (user_status_wire v) = v" by (cases v) (simp_all add: user_status_from_wire_def)
next
  fix s show "user_status_from_wire s \<noteq> UserStatus_Unknown \<Longrightarrow> user_status_wire (user_status_from_wire s) = s" by (simp add: user_status_from_wire_def split: if_splits)
qed (auto simp: user_status_send_def send_known_def)

end
