(* ===== verification/Models1.thy ===== *)
theory Models1
  imports ModelEnums
begin

text \<open>
  Structures of \<open>include/axiam/management_models.hpp\<close> (CertificatePolicy to SsfStreamChanges and the structures they use), each with its
  encoder and decoder of \<open>src/management_models.cpp\<close>, and, where the members are kept as
  values and not as JSON text, the interpretation of the locale \<open>codec\<close>: what is decoded from
  the encoding is what was encoded.
\<close>

section \<open>CertificatePolicy\<close>

record certificate_policy =
  f_default_cert_validity_days :: "64 word"
  f_max_cert_validity_days :: "64 word"
  f_server_cert_allowed_names :: "string list option"

definition to_certificate_policy :: "certificate_policy \<Rightarrow> json res" where
  "to_certificate_policy v = build
     [req ''default_cert_validity_days'' (JInt (certificate_policy.f_default_cert_validity_days v)),
      req ''max_cert_validity_days'' (JInt (certificate_policy.f_max_cert_validity_days v)),
      opt ''server_cert_allowed_names'' str_arr (certificate_policy.f_server_cert_allowed_names v)]"

definition from_certificate_policy :: "json \<Rightarrow> certificate_policy res" where
  "from_certificate_policy j =
     and_then (member get_word j ''default_cert_validity_days'') (\<lambda>default_cert_validity_days.
     and_then (member get_word j ''max_cert_validity_days'') (\<lambda>max_cert_validity_days.
     and_then (opt_member (get_list get_str) j ''server_cert_allowed_names'') (\<lambda>server_cert_allowed_names.
     Inr (certificate_policy.make default_cert_validity_days max_cert_validity_days server_cert_allowed_names))))"

interpretation certificate_policy: codec to_certificate_policy from_certificate_policy
  by (rule build_codec[OF to_certificate_policy_def], simp)
    (rename_tac v j, case_tac v, simp add: codec_simps from_certificate_policy_def certificate_policy.make_def)

section \<open>CimdPolicy\<close>

record cimd_policy =
  f_allow_http :: "bool option"
  f_confidential_only :: "bool option"
  f_enabled :: "bool option"
  f_max_cache_secs :: "(64 word) option"
  f_max_metadata_bytes :: "(64 word) option"
  f_min_cache_secs :: "(64 word) option"
  f_restrict_same_domain :: "bool option"
  f_trusted_client_id_domains :: "string list option"
  f_trusted_redirect_domains :: "string list option"

definition to_cimd_policy :: "cimd_policy \<Rightarrow> json res" where
  "to_cimd_policy v = build
     [opt ''allow_http'' JBool (cimd_policy.f_allow_http v),
      opt ''confidential_only'' JBool (cimd_policy.f_confidential_only v),
      opt ''enabled'' JBool (cimd_policy.f_enabled v),
      opt ''max_cache_secs'' JInt (cimd_policy.f_max_cache_secs v),
      opt ''max_metadata_bytes'' JInt (cimd_policy.f_max_metadata_bytes v),
      opt ''min_cache_secs'' JInt (cimd_policy.f_min_cache_secs v),
      opt ''restrict_same_domain'' JBool (cimd_policy.f_restrict_same_domain v),
      opt ''trusted_client_id_domains'' str_arr (cimd_policy.f_trusted_client_id_domains v),
      opt ''trusted_redirect_domains'' str_arr (cimd_policy.f_trusted_redirect_domains v)]"

definition from_cimd_policy :: "json \<Rightarrow> cimd_policy res" where
  "from_cimd_policy j =
     and_then (opt_member get_bool j ''allow_http'') (\<lambda>allow_http.
     and_then (opt_member get_bool j ''confidential_only'') (\<lambda>confidential_only.
     and_then (opt_member get_bool j ''enabled'') (\<lambda>enabled.
     and_then (opt_member get_word j ''max_cache_secs'') (\<lambda>max_cache_secs.
     and_then (opt_member get_word j ''max_metadata_bytes'') (\<lambda>max_metadata_bytes.
     and_then (opt_member get_word j ''min_cache_secs'') (\<lambda>min_cache_secs.
     and_then (opt_member get_bool j ''restrict_same_domain'') (\<lambda>restrict_same_domain.
     and_then (opt_member (get_list get_str) j ''trusted_client_id_domains'') (\<lambda>trusted_client_id_domains.
     and_then (opt_member (get_list get_str) j ''trusted_redirect_domains'') (\<lambda>trusted_redirect_domains.
     Inr (cimd_policy.make allow_http confidential_only enabled max_cache_secs max_metadata_bytes min_cache_secs restrict_same_domain trusted_client_id_domains trusted_redirect_domains))))))))))"

interpretation cimd_policy: codec to_cimd_policy from_cimd_policy
  by (rule build_codec[OF to_cimd_policy_def], simp)
    (rename_tac v j, case_tac v, simp add: codec_simps from_cimd_policy_def cimd_policy.make_def)

section \<open>ComplianceReportEntry\<close>

record compliance_report_entry =
  f_aaguid :: "string option"
  f_authenticator_name :: "string option"
  f_compliant :: bool
  f_credential_id :: string
  f_name :: string
  f_reason :: "string option"
  f_user_id :: string

definition to_compliance_report_entry :: "compliance_report_entry \<Rightarrow> json res" where
  "to_compliance_report_entry v = build
     [opt ''aaguid'' JStr (compliance_report_entry.f_aaguid v),
      opt ''authenticator_name'' JStr (compliance_report_entry.f_authenticator_name v),
      req ''compliant'' (JBool (compliance_report_entry.f_compliant v)),
      req ''credential_id'' (JStr (compliance_report_entry.f_credential_id v)),
      req ''name'' (JStr (compliance_report_entry.f_name v)),
      opt ''reason'' JStr (compliance_report_entry.f_reason v),
      req ''user_id'' (JStr (compliance_report_entry.f_user_id v))]"

definition from_compliance_report_entry :: "json \<Rightarrow> compliance_report_entry res" where
  "from_compliance_report_entry j =
     and_then (opt_member get_str j ''aaguid'') (\<lambda>aaguid.
     and_then (opt_member get_str j ''authenticator_name'') (\<lambda>authenticator_name.
     and_then (member get_bool j ''compliant'') (\<lambda>compliant.
     and_then (member get_str j ''credential_id'') (\<lambda>credential_id.
     and_then (member get_str j ''name'') (\<lambda>name.
     and_then (opt_member get_str j ''reason'') (\<lambda>reason.
     and_then (member get_str j ''user_id'') (\<lambda>user_id.
     Inr (compliance_report_entry.make aaguid authenticator_name compliant credential_id name reason user_id))))))))"

interpretation compliance_report_entry: codec to_compliance_report_entry from_compliance_report_entry
  by (rule build_codec[OF to_compliance_report_entry_def], simp)
    (rename_tac v j, case_tac v, simp add: codec_simps from_compliance_report_entry_def compliance_report_entry.make_def)

section \<open>CreateCaCertificateRequest\<close>

record create_ca_certificate_request =
  f_intermediate_subject :: "string option"
  f_intermediate_validity_days :: "(64 word) option"
  f_issue_from_root :: "bool option"
  f_key_algorithm :: key_algorithm
  f_subject :: string
  f_validity_days :: "64 word"

definition to_create_ca_certificate_request :: "create_ca_certificate_request \<Rightarrow> json res" where
  "to_create_ca_certificate_request v = build
     [opt ''intermediate_subject'' JStr (create_ca_certificate_request.f_intermediate_subject v),
      opt ''intermediate_validity_days'' JInt (create_ca_certificate_request.f_intermediate_validity_days v),
      opt ''issue_from_root'' JBool (create_ca_certificate_request.f_issue_from_root v),
      req_r ''key_algorithm'' (enum_json key_algorithm_send (create_ca_certificate_request.f_key_algorithm v)),
      req ''subject'' (JStr (create_ca_certificate_request.f_subject v)),
      req ''validity_days'' (JInt (create_ca_certificate_request.f_validity_days v))]"

definition from_create_ca_certificate_request :: "json \<Rightarrow> create_ca_certificate_request res" where
  "from_create_ca_certificate_request j =
     and_then (opt_member get_str j ''intermediate_subject'') (\<lambda>intermediate_subject.
     and_then (opt_member get_word j ''intermediate_validity_days'') (\<lambda>intermediate_validity_days.
     and_then (opt_member get_bool j ''issue_from_root'') (\<lambda>issue_from_root.
     and_then (member (get_enum key_algorithm_from_wire) j ''key_algorithm'') (\<lambda>key_algorithm.
     and_then (member get_str j ''subject'') (\<lambda>subject.
     and_then (member get_word j ''validity_days'') (\<lambda>validity_days.
     Inr (create_ca_certificate_request.make intermediate_subject intermediate_validity_days issue_from_root key_algorithm subject validity_days)))))))"

interpretation create_ca_certificate_request: codec to_create_ca_certificate_request from_create_ca_certificate_request
  by (rule build_codec[OF to_create_ca_certificate_request_def], simp)
    (rename_tac v j, case_tac v, auto simp: codec_simps from_create_ca_certificate_request_def create_ca_certificate_request.make_def
      dest!: key_algorithm.reads split: option.splits)

section \<open>CreateGroupRequest\<close>

record create_group_request =
  f_description :: string
  f_metadata :: "string option"
  f_name :: string

definition to_create_group_request :: "(string \<Rightarrow> json) \<Rightarrow> create_group_request \<Rightarrow> json res" where
  "to_create_group_request parse v = build
     [req ''description'' (JStr (create_group_request.f_description v)),
      opt_embedded parse ''metadata'' (create_group_request.f_metadata v),
      req ''name'' (JStr (create_group_request.f_name v))]"

definition from_create_group_request :: "(json \<Rightarrow> string res) \<Rightarrow> json \<Rightarrow> create_group_request res" where
  "from_create_group_request dmp j =
     and_then (member get_str j ''description'') (\<lambda>description.
     and_then (opt_member dmp j ''metadata'') (\<lambda>metadata.
     and_then (member get_str j ''name'') (\<lambda>name.
     Inr (create_group_request.make description metadata name))))"

section \<open>NetworkReplyProfileInput\<close>

record network_reply_profile_input =
  f_dictionary :: "string option"
  f_filter_id :: "string option"
  f_idle_timeout_secs :: "(64 word) option"
  f_service_type :: "radius_service_type option"
  f_session_timeout_secs :: "64 word"
  f_termination_action :: "radius_termination_action option"

definition to_network_reply_profile_input :: "network_reply_profile_input \<Rightarrow> json res" where
  "to_network_reply_profile_input v = build
     [opt ''dictionary'' JStr (network_reply_profile_input.f_dictionary v),
      opt ''filter_id'' JStr (network_reply_profile_input.f_filter_id v),
      opt ''idle_timeout_secs'' JInt (network_reply_profile_input.f_idle_timeout_secs v),
      opt_r ''service_type'' (enum_json radius_service_type_send) (network_reply_profile_input.f_service_type v),
      req ''session_timeout_secs'' (JInt (network_reply_profile_input.f_session_timeout_secs v)),
      opt_r ''termination_action'' (enum_json radius_termination_action_send) (network_reply_profile_input.f_termination_action v)]"

definition from_network_reply_profile_input :: "json \<Rightarrow> network_reply_profile_input res" where
  "from_network_reply_profile_input j =
     and_then (opt_member get_str j ''dictionary'') (\<lambda>dictionary.
     and_then (opt_member get_str j ''filter_id'') (\<lambda>filter_id.
     and_then (opt_member get_word j ''idle_timeout_secs'') (\<lambda>idle_timeout_secs.
     and_then (opt_member (get_enum radius_service_type_from_wire) j ''service_type'') (\<lambda>service_type.
     and_then (member get_word j ''session_timeout_secs'') (\<lambda>session_timeout_secs.
     and_then (opt_member (get_enum radius_termination_action_from_wire) j ''termination_action'') (\<lambda>termination_action.
     Inr (network_reply_profile_input.make dictionary filter_id idle_timeout_secs service_type session_timeout_secs termination_action)))))))"

interpretation network_reply_profile_input: codec to_network_reply_profile_input from_network_reply_profile_input
  by (rule build_codec[OF to_network_reply_profile_input_def], simp)
    (rename_tac v j, case_tac v, auto simp: codec_simps from_network_reply_profile_input_def network_reply_profile_input.make_def
      dest!: radius_service_type.reads radius_termination_action.reads split: option.splits)

section \<open>CreateNetworkReplyProfileRequest\<close>

record create_network_reply_profile_request =
  f_profile :: network_reply_profile_input
  f_segment_id :: string
  f_segment_version :: "64 word"

definition to_create_network_reply_profile_request :: "create_network_reply_profile_request \<Rightarrow> json res" where
  "to_create_network_reply_profile_request v = build
     [req_r ''profile'' (to_network_reply_profile_input (create_network_reply_profile_request.f_profile v)),
      req ''segment_id'' (JStr (create_network_reply_profile_request.f_segment_id v)),
      req ''segment_version'' (JInt (create_network_reply_profile_request.f_segment_version v))]"

definition from_create_network_reply_profile_request :: "json \<Rightarrow> create_network_reply_profile_request res" where
  "from_create_network_reply_profile_request j =
     and_then (member from_network_reply_profile_input j ''profile'') (\<lambda>profile.
     and_then (member get_str j ''segment_id'') (\<lambda>segment_id.
     and_then (member get_word j ''segment_version'') (\<lambda>segment_version.
     Inr (create_network_reply_profile_request.make profile segment_id segment_version))))"

interpretation create_network_reply_profile_request: codec to_create_network_reply_profile_request from_create_network_reply_profile_request
  by (rule build_codec[OF to_create_network_reply_profile_request_def], simp)
    (rename_tac v j, case_tac v, auto simp: codec_simps from_create_network_reply_profile_request_def create_network_reply_profile_request.make_def
      dest!: network_reply_profile_input.reads split: option.splits)

section \<open>CreatePermissionRequest\<close>

record create_permission_request =
  f_action :: string
  f_description :: string

definition to_create_permission_request :: "create_permission_request \<Rightarrow> json res" where
  "to_create_permission_request v = build
     [req ''action'' (JStr (create_permission_request.f_action v)),
      req ''description'' (JStr (create_permission_request.f_description v))]"

definition from_create_permission_request :: "json \<Rightarrow> create_permission_request res" where
  "from_create_permission_request j =
     and_then (member get_str j ''action'') (\<lambda>action.
     and_then (member get_str j ''description'') (\<lambda>description.
     Inr (create_permission_request.make action description)))"

interpretation create_permission_request: codec to_create_permission_request from_create_permission_request
  by (rule build_codec[OF to_create_permission_request_def], simp)
    (rename_tac v j, case_tac v, simp add: codec_simps from_create_permission_request_def create_permission_request.make_def)

section \<open>CreatePgpKeyRequest\<close>

record create_pgp_key_request =
  f_algorithm :: pgp_key_algorithm
  f_email :: string
  f_name :: string
  f_purpose :: pgp_key_purpose

definition to_create_pgp_key_request :: "create_pgp_key_request \<Rightarrow> json res" where
  "to_create_pgp_key_request v = build
     [req_r ''algorithm'' (enum_json pgp_key_algorithm_send (create_pgp_key_request.f_algorithm v)),
      req ''email'' (JStr (create_pgp_key_request.f_email v)),
      req ''name'' (JStr (create_pgp_key_request.f_name v)),
      req_r ''purpose'' (enum_json pgp_key_purpose_send (create_pgp_key_request.f_purpose v))]"

definition from_create_pgp_key_request :: "json \<Rightarrow> create_pgp_key_request res" where
  "from_create_pgp_key_request j =
     and_then (member (get_enum pgp_key_algorithm_from_wire) j ''algorithm'') (\<lambda>algorithm.
     and_then (member get_str j ''email'') (\<lambda>email.
     and_then (member get_str j ''name'') (\<lambda>name.
     and_then (member (get_enum pgp_key_purpose_from_wire) j ''purpose'') (\<lambda>purpose.
     Inr (create_pgp_key_request.make algorithm email name purpose)))))"

interpretation create_pgp_key_request: codec to_create_pgp_key_request from_create_pgp_key_request
  by (rule build_codec[OF to_create_pgp_key_request_def], simp)
    (rename_tac v j, case_tac v, auto simp: codec_simps from_create_pgp_key_request_def create_pgp_key_request.make_def
      dest!: pgp_key_algorithm.reads pgp_key_purpose.reads split: option.splits)

section \<open>CreateResourceRequest\<close>

record create_resource_request =
  f_metadata :: "string option"
  f_name :: string
  f_parent_id :: "string option"
  f_resource_type :: string

definition to_create_resource_request :: "(string \<Rightarrow> json) \<Rightarrow> create_resource_request \<Rightarrow> json res" where
  "to_create_resource_request parse v = build
     [opt_embedded parse ''metadata'' (create_resource_request.f_metadata v),
      req ''name'' (JStr (create_resource_request.f_name v)),
      opt ''parent_id'' JStr (create_resource_request.f_parent_id v),
      req ''resource_type'' (JStr (create_resource_request.f_resource_type v))]"

definition from_create_resource_request :: "(json \<Rightarrow> string res) \<Rightarrow> json \<Rightarrow> create_resource_request res" where
  "from_create_resource_request dmp j =
     and_then (opt_member dmp j ''metadata'') (\<lambda>metadata.
     and_then (member get_str j ''name'') (\<lambda>name.
     and_then (opt_member get_str j ''parent_id'') (\<lambda>parent_id.
     and_then (member get_str j ''resource_type'') (\<lambda>resource_type.
     Inr (create_resource_request.make metadata name parent_id resource_type)))))"

section \<open>CreateRoleRequest\<close>

record create_role_request =
  f_description :: string
  f_is_global :: bool
  f_name :: string

definition to_create_role_request :: "create_role_request \<Rightarrow> json res" where
  "to_create_role_request v = build
     [req ''description'' (JStr (create_role_request.f_description v)),
      req ''is_global'' (JBool (create_role_request.f_is_global v)),
      req ''name'' (JStr (create_role_request.f_name v))]"

definition from_create_role_request :: "json \<Rightarrow> create_role_request res" where
  "from_create_role_request j =
     and_then (member get_str j ''description'') (\<lambda>description.
     and_then (member get_bool j ''is_global'') (\<lambda>is_global.
     and_then (member get_str j ''name'') (\<lambda>name.
     Inr (create_role_request.make description is_global name))))"

interpretation create_role_request: codec to_create_role_request from_create_role_request
  by (rule build_codec[OF to_create_role_request_def], simp)
    (rename_tac v j, case_tac v, simp add: codec_simps from_create_role_request_def create_role_request.make_def)

section \<open>CreateScimTokenResponse\<close>

record create_scim_token_response =
  f_created_at :: string
  f_created_by :: string
  f_expires_at :: string
  f_id :: string
  f_last_used_at :: "string option"
  f_name :: string
  f_revoked_at :: "string option"
  f_status :: scim_token_status
  f_tenant_id :: string
  f_user_id :: string
  f_provisioning_token :: string

definition to_create_scim_token_response :: "create_scim_token_response \<Rightarrow> json res" where
  "to_create_scim_token_response v = build
     [req ''created_at'' (JStr (create_scim_token_response.f_created_at v)),
      req ''created_by'' (JStr (create_scim_token_response.f_created_by v)),
      req ''expires_at'' (JStr (create_scim_token_response.f_expires_at v)),
      req ''id'' (JStr (create_scim_token_response.f_id v)),
      opt ''last_used_at'' JStr (create_scim_token_response.f_last_used_at v),
      req ''name'' (JStr (create_scim_token_response.f_name v)),
      opt ''revoked_at'' JStr (create_scim_token_response.f_revoked_at v),
      req_r ''status'' (enum_json scim_token_status_send (create_scim_token_response.f_status v)),
      req ''tenant_id'' (JStr (create_scim_token_response.f_tenant_id v)),
      req ''user_id'' (JStr (create_scim_token_response.f_user_id v)),
      req ''provisioning_token'' (JStr (create_scim_token_response.f_provisioning_token v))]"

definition from_create_scim_token_response :: "json \<Rightarrow> create_scim_token_response res" where
  "from_create_scim_token_response j =
     and_then (member get_str j ''created_at'') (\<lambda>created_at.
     and_then (member get_str j ''created_by'') (\<lambda>created_by.
     and_then (member get_str j ''expires_at'') (\<lambda>expires_at.
     and_then (member get_str j ''id'') (\<lambda>id.
     and_then (opt_member get_str j ''last_used_at'') (\<lambda>last_used_at.
     and_then (member get_str j ''name'') (\<lambda>name.
     and_then (opt_member get_str j ''revoked_at'') (\<lambda>revoked_at.
     and_then (member (get_enum scim_token_status_from_wire) j ''status'') (\<lambda>status.
     and_then (member get_str j ''tenant_id'') (\<lambda>tenant_id.
     and_then (member get_str j ''user_id'') (\<lambda>user_id.
     and_then (member get_str j ''provisioning_token'') (\<lambda>provisioning_token.
     Inr (create_scim_token_response.make created_at created_by expires_at id last_used_at name revoked_at status tenant_id user_id provisioning_token))))))))))))"

interpretation create_scim_token_response: codec to_create_scim_token_response from_create_scim_token_response
  by (rule build_codec[OF to_create_scim_token_response_def], simp)
    (rename_tac v j, case_tac v, auto simp: codec_simps from_create_scim_token_response_def create_scim_token_response.make_def
      dest!: scim_token_status.reads split: option.splits)

section \<open>EmailTestResult\<close>

record email_test_result =
  f_message_id :: "string option"
  f_provider :: string
  f_to :: string

definition to_email_test_result :: "email_test_result \<Rightarrow> json res" where
  "to_email_test_result v = build
     [opt ''message_id'' JStr (email_test_result.f_message_id v),
      req ''provider'' (JStr (email_test_result.f_provider v)),
      req ''to'' (JStr (email_test_result.f_to v))]"

definition from_email_test_result :: "json \<Rightarrow> email_test_result res" where
  "from_email_test_result j =
     and_then (opt_member get_str j ''message_id'') (\<lambda>message_id.
     and_then (member get_str j ''provider'') (\<lambda>provider.
     and_then (member get_str j ''to'') (\<lambda>to.
     Inr (email_test_result.make message_id provider to))))"

interpretation email_test_result: codec to_email_test_result from_email_test_result
  by (rule build_codec[OF to_email_test_result_def], simp)
    (rename_tac v j, case_tac v, simp add: codec_simps from_email_test_result_def email_test_result.make_def)

section \<open>EmailVerificationPolicy\<close>

record email_verification_policy =
  f_email_verification_grace_period_hours :: "64 word"
  f_email_verification_required :: bool

definition to_email_verification_policy :: "email_verification_policy \<Rightarrow> json res" where
  "to_email_verification_policy v = build
     [req ''email_verification_grace_period_hours'' (JInt (email_verification_policy.f_email_verification_grace_period_hours v)),
      req ''email_verification_required'' (JBool (email_verification_policy.f_email_verification_required v))]"

definition from_email_verification_policy :: "json \<Rightarrow> email_verification_policy res" where
  "from_email_verification_policy j =
     and_then (member get_word j ''email_verification_grace_period_hours'') (\<lambda>email_verification_grace_period_hours.
     and_then (member get_bool j ''email_verification_required'') (\<lambda>email_verification_required.
     Inr (email_verification_policy.make email_verification_grace_period_hours email_verification_required)))"

interpretation email_verification_policy: codec to_email_verification_policy from_email_verification_policy
  by (rule build_codec[OF to_email_verification_policy_def], simp)
    (rename_tac v j, case_tac v, simp add: codec_simps from_email_verification_policy_def email_verification_policy.make_def)

section \<open>EncryptRequest\<close>

record encrypt_request =
  f_data_base64 :: string

definition to_encrypt_request :: "encrypt_request \<Rightarrow> json res" where
  "to_encrypt_request v = build
     [req ''data_base64'' (JStr (encrypt_request.f_data_base64 v))]"

definition from_encrypt_request :: "json \<Rightarrow> encrypt_request res" where
  "from_encrypt_request j =
     and_then (member get_str j ''data_base64'') (\<lambda>data_base64.
     Inr (encrypt_request.make data_base64))"

interpretation encrypt_request: codec to_encrypt_request from_encrypt_request
  by (rule build_codec[OF to_encrypt_request_def], simp)
    (rename_tac v j, case_tac v, simp add: codec_simps from_encrypt_request_def encrypt_request.make_def)

section \<open>EncryptedExport\<close>

record encrypted_export =
  f_ciphertext_armored :: string
  f_recipient_key_id :: string

definition to_encrypted_export :: "encrypted_export \<Rightarrow> json res" where
  "to_encrypted_export v = build
     [req ''ciphertext_armored'' (JStr (encrypted_export.f_ciphertext_armored v)),
      req ''recipient_key_id'' (JStr (encrypted_export.f_recipient_key_id v))]"

definition from_encrypted_export :: "json \<Rightarrow> encrypted_export res" where
  "from_encrypted_export j =
     and_then (member get_str j ''ciphertext_armored'') (\<lambda>ciphertext_armored.
     and_then (member get_str j ''recipient_key_id'') (\<lambda>recipient_key_id.
     Inr (encrypted_export.make ciphertext_armored recipient_key_id)))"

interpretation encrypted_export: codec to_encrypted_export from_encrypted_export
  by (rule build_codec[OF to_encrypted_export_def], simp)
    (rename_tac v j, case_tac v, simp add: codec_simps from_encrypted_export_def encrypted_export.make_def)

section \<open>FederationLinkResponse\<close>

record federation_link_response =
  f_created_at :: string
  f_external_email :: "string option"
  f_external_subject :: string
  f_federation_config_id :: string
  f_id :: string
  f_tenant_id :: string
  f_updated_at :: string
  f_user_id :: string

definition to_federation_link_response :: "federation_link_response \<Rightarrow> json res" where
  "to_federation_link_response v = build
     [req ''created_at'' (JStr (federation_link_response.f_created_at v)),
      opt ''external_email'' JStr (federation_link_response.f_external_email v),
      req ''external_subject'' (JStr (federation_link_response.f_external_subject v)),
      req ''federation_config_id'' (JStr (federation_link_response.f_federation_config_id v)),
      req ''id'' (JStr (federation_link_response.f_id v)),
      req ''tenant_id'' (JStr (federation_link_response.f_tenant_id v)),
      req ''updated_at'' (JStr (federation_link_response.f_updated_at v)),
      req ''user_id'' (JStr (federation_link_response.f_user_id v))]"

definition from_federation_link_response :: "json \<Rightarrow> federation_link_response res" where
  "from_federation_link_response j =
     and_then (member get_str j ''created_at'') (\<lambda>created_at.
     and_then (opt_member get_str j ''external_email'') (\<lambda>external_email.
     and_then (member get_str j ''external_subject'') (\<lambda>external_subject.
     and_then (member get_str j ''federation_config_id'') (\<lambda>federation_config_id.
     and_then (member get_str j ''id'') (\<lambda>id.
     and_then (member get_str j ''tenant_id'') (\<lambda>tenant_id.
     and_then (member get_str j ''updated_at'') (\<lambda>updated_at.
     and_then (member get_str j ''user_id'') (\<lambda>user_id.
     Inr (federation_link_response.make created_at external_email external_subject federation_config_id id tenant_id updated_at user_id)))))))))"

interpretation federation_link_response: codec to_federation_link_response from_federation_link_response
  by (rule build_codec[OF to_federation_link_response_def], simp)
    (rename_tac v j, case_tac v, simp add: codec_simps from_federation_link_response_def federation_link_response.make_def)

section \<open>LockoutPolicy\<close>

record lockout_policy =
  f_lockout_backoff_multiplier :: rat
  f_lockout_duration_secs :: "64 word"
  f_max_failed_login_attempts :: "64 word"
  f_max_lockout_duration_secs :: "64 word"

definition to_lockout_policy :: "lockout_policy \<Rightarrow> json res" where
  "to_lockout_policy v = build
     [req ''lockout_backoff_multiplier'' (JFloat (lockout_policy.f_lockout_backoff_multiplier v)),
      req ''lockout_duration_secs'' (JInt (lockout_policy.f_lockout_duration_secs v)),
      req ''max_failed_login_attempts'' (JInt (lockout_policy.f_max_failed_login_attempts v)),
      req ''max_lockout_duration_secs'' (JInt (lockout_policy.f_max_lockout_duration_secs v))]"

definition from_lockout_policy :: "json \<Rightarrow> lockout_policy res" where
  "from_lockout_policy j =
     and_then (member get_double j ''lockout_backoff_multiplier'') (\<lambda>lockout_backoff_multiplier.
     and_then (member get_word j ''lockout_duration_secs'') (\<lambda>lockout_duration_secs.
     and_then (member get_word j ''max_failed_login_attempts'') (\<lambda>max_failed_login_attempts.
     and_then (member get_word j ''max_lockout_duration_secs'') (\<lambda>max_lockout_duration_secs.
     Inr (lockout_policy.make lockout_backoff_multiplier lockout_duration_secs max_failed_login_attempts max_lockout_duration_secs)))))"

interpretation lockout_policy: codec to_lockout_policy from_lockout_policy
  by (rule build_codec[OF to_lockout_policy_def], simp)
    (rename_tac v j, case_tac v, simp add: codec_simps from_lockout_policy_def lockout_policy.make_def)

section \<open>MdsStatusResponse\<close>

record mds_status_response =
  f_entry_count :: "64 word"
  f_last_refreshed_at :: "string option"
  f_next_update :: "string option"
  f_no :: "(64 word) option"
  f_stale :: bool

definition to_mds_status_response :: "mds_status_response \<Rightarrow> json res" where
  "to_mds_status_response v = build
     [req ''entry_count'' (JInt (mds_status_response.f_entry_count v)),
      opt ''last_refreshed_at'' JStr (mds_status_response.f_last_refreshed_at v),
      opt ''next_update'' JStr (mds_status_response.f_next_update v),
      opt ''no'' JInt (mds_status_response.f_no v),
      req ''stale'' (JBool (mds_status_response.f_stale v))]"

definition from_mds_status_response :: "json \<Rightarrow> mds_status_response res" where
  "from_mds_status_response j =
     and_then (member get_word j ''entry_count'') (\<lambda>entry_count.
     and_then (opt_member get_str j ''last_refreshed_at'') (\<lambda>last_refreshed_at.
     and_then (opt_member get_str j ''next_update'') (\<lambda>next_update.
     and_then (opt_member get_word j ''no'') (\<lambda>no.
     and_then (member get_bool j ''stale'') (\<lambda>stale.
     Inr (mds_status_response.make entry_count last_refreshed_at next_update no stale))))))"

interpretation mds_status_response: codec to_mds_status_response from_mds_status_response
  by (rule build_codec[OF to_mds_status_response_def], simp)
    (rename_tac v j, case_tac v, simp add: codec_simps from_mds_status_response_def mds_status_response.make_def)

section \<open>MfaPolicy\<close>

record mfa_policy =
  f_mfa_challenge_lifetime_secs :: "64 word"
  f_mfa_enforced :: bool

definition to_mfa_policy :: "mfa_policy \<Rightarrow> json res" where
  "to_mfa_policy v = build
     [req ''mfa_challenge_lifetime_secs'' (JInt (mfa_policy.f_mfa_challenge_lifetime_secs v)),
      req ''mfa_enforced'' (JBool (mfa_policy.f_mfa_enforced v))]"

definition from_mfa_policy :: "json \<Rightarrow> mfa_policy res" where
  "from_mfa_policy j =
     and_then (member get_word j ''mfa_challenge_lifetime_secs'') (\<lambda>mfa_challenge_lifetime_secs.
     and_then (member get_bool j ''mfa_enforced'') (\<lambda>mfa_enforced.
     Inr (mfa_policy.make mfa_challenge_lifetime_secs mfa_enforced)))"

interpretation mfa_policy: codec to_mfa_policy from_mfa_policy
  by (rule build_codec[OF to_mfa_policy_def], simp)
    (rename_tac v j, case_tac v, simp add: codec_simps from_mfa_policy_def mfa_policy.make_def)

section \<open>NotificationPolicy\<close>

record notification_policy =
  f_admin_notifications_enabled :: bool

definition to_notification_policy :: "notification_policy \<Rightarrow> json res" where
  "to_notification_policy v = build
     [req ''admin_notifications_enabled'' (JBool (notification_policy.f_admin_notifications_enabled v))]"

definition from_notification_policy :: "json \<Rightarrow> notification_policy res" where
  "from_notification_policy j =
     and_then (member get_bool j ''admin_notifications_enabled'') (\<lambda>admin_notifications_enabled.
     Inr (notification_policy.make admin_notifications_enabled))"

interpretation notification_policy: codec to_notification_policy from_notification_policy
  by (rule build_codec[OF to_notification_policy_def], simp)
    (rename_tac v j, case_tac v, simp add: codec_simps from_notification_policy_def notification_policy.make_def)

section \<open>OAuth2Policy\<close>

record o_auth2_policy =
  f_refresh_reuse_response :: "refresh_reuse_response option"

definition to_o_auth2_policy :: "o_auth2_policy \<Rightarrow> json res" where
  "to_o_auth2_policy v = build
     [opt_r ''refresh_reuse_response'' (enum_json refresh_reuse_response_send) (o_auth2_policy.f_refresh_reuse_response v)]"

definition from_o_auth2_policy :: "json \<Rightarrow> o_auth2_policy res" where
  "from_o_auth2_policy j =
     and_then (opt_member (get_enum refresh_reuse_response_from_wire) j ''refresh_reuse_response'') (\<lambda>refresh_reuse_response.
     Inr (o_auth2_policy.make refresh_reuse_response))"

interpretation o_auth2_policy: codec to_o_auth2_policy from_o_auth2_policy
  by (rule build_codec[OF to_o_auth2_policy_def], simp)
    (rename_tac v j, case_tac v, auto simp: codec_simps from_o_auth2_policy_def o_auth2_policy.make_def
      dest!: refresh_reuse_response.reads split: option.splits)

section \<open>OidcCallbackRequest\<close>

record oidc_callback_request =
  f_code :: string
  f_config_id :: string
  f_nonce :: string
  f_redirect_uri :: string
  f_state :: string

definition to_oidc_callback_request :: "oidc_callback_request \<Rightarrow> json res" where
  "to_oidc_callback_request v = build
     [req ''code'' (JStr (oidc_callback_request.f_code v)),
      req ''config_id'' (JStr (oidc_callback_request.f_config_id v)),
      req ''nonce'' (JStr (oidc_callback_request.f_nonce v)),
      req ''redirect_uri'' (JStr (oidc_callback_request.f_redirect_uri v)),
      req ''state'' (JStr (oidc_callback_request.f_state v))]"

definition from_oidc_callback_request :: "json \<Rightarrow> oidc_callback_request res" where
  "from_oidc_callback_request j =
     and_then (member get_str j ''code'') (\<lambda>code.
     and_then (member get_str j ''config_id'') (\<lambda>config_id.
     and_then (member get_str j ''nonce'') (\<lambda>nonce.
     and_then (member get_str j ''redirect_uri'') (\<lambda>redirect_uri.
     and_then (member get_str j ''state'') (\<lambda>state.
     Inr (oidc_callback_request.make code config_id nonce redirect_uri state))))))"

interpretation oidc_callback_request: codec to_oidc_callback_request from_oidc_callback_request
  by (rule build_codec[OF to_oidc_callback_request_def], simp)
    (rename_tac v j, case_tac v, simp add: codec_simps from_oidc_callback_request_def oidc_callback_request.make_def)

section \<open>OidcCallbackResponse\<close>

record oidc_callback_response =
  f_federation_link_id :: string
  f_newly_provisioned :: bool
  f_user_id :: string

definition to_oidc_callback_response :: "oidc_callback_response \<Rightarrow> json res" where
  "to_oidc_callback_response v = build
     [req ''federation_link_id'' (JStr (oidc_callback_response.f_federation_link_id v)),
      req ''newly_provisioned'' (JBool (oidc_callback_response.f_newly_provisioned v)),
      req ''user_id'' (JStr (oidc_callback_response.f_user_id v))]"

definition from_oidc_callback_response :: "json \<Rightarrow> oidc_callback_response res" where
  "from_oidc_callback_response j =
     and_then (member get_str j ''federation_link_id'') (\<lambda>federation_link_id.
     and_then (member get_bool j ''newly_provisioned'') (\<lambda>newly_provisioned.
     and_then (member get_str j ''user_id'') (\<lambda>user_id.
     Inr (oidc_callback_response.make federation_link_id newly_provisioned user_id))))"

interpretation oidc_callback_response: codec to_oidc_callback_response from_oidc_callback_response
  by (rule build_codec[OF to_oidc_callback_response_def], simp)
    (rename_tac v j, case_tac v, simp add: codec_simps from_oidc_callback_response_def oidc_callback_response.make_def)

section \<open>OidcPolicy\<close>

record oidc_policy =
  f_cimd :: "cimd_policy option"
  f_dcr_allowed_redirect_hosts :: "string list option"
  f_dcr_allowed_scopes :: "string list option"
  f_dcr_max_clients :: "(64 word) option"
  f_dcr_unused_client_ttl_days :: "(64 word) option"
  f_default_locale :: "string option"
  f_dynamic_registration :: "string option"
  f_external_client_allowed_resources :: "string list option"
  f_saml_idp_enabled :: "bool option"
  f_sensitive_scopes_enabled :: bool
  f_ssf_enabled :: "bool option"
  f_ssf_inactive_reason :: "string option"

definition to_oidc_policy :: "oidc_policy \<Rightarrow> json res" where
  "to_oidc_policy v = build
     [opt_r ''cimd'' to_cimd_policy (oidc_policy.f_cimd v),
      opt ''dcr_allowed_redirect_hosts'' str_arr (oidc_policy.f_dcr_allowed_redirect_hosts v),
      opt ''dcr_allowed_scopes'' str_arr (oidc_policy.f_dcr_allowed_scopes v),
      opt ''dcr_max_clients'' JInt (oidc_policy.f_dcr_max_clients v),
      opt ''dcr_unused_client_ttl_days'' JInt (oidc_policy.f_dcr_unused_client_ttl_days v),
      opt ''default_locale'' JStr (oidc_policy.f_default_locale v),
      opt ''dynamic_registration'' JStr (oidc_policy.f_dynamic_registration v),
      opt ''external_client_allowed_resources'' str_arr (oidc_policy.f_external_client_allowed_resources v),
      opt ''saml_idp_enabled'' JBool (oidc_policy.f_saml_idp_enabled v),
      req ''sensitive_scopes_enabled'' (JBool (oidc_policy.f_sensitive_scopes_enabled v)),
      opt ''ssf_enabled'' JBool (oidc_policy.f_ssf_enabled v),
      opt ''ssf_inactive_reason'' JStr (oidc_policy.f_ssf_inactive_reason v)]"

definition from_oidc_policy :: "json \<Rightarrow> oidc_policy res" where
  "from_oidc_policy j =
     and_then (opt_member from_cimd_policy j ''cimd'') (\<lambda>cimd.
     and_then (opt_member (get_list get_str) j ''dcr_allowed_redirect_hosts'') (\<lambda>dcr_allowed_redirect_hosts.
     and_then (opt_member (get_list get_str) j ''dcr_allowed_scopes'') (\<lambda>dcr_allowed_scopes.
     and_then (opt_member get_word j ''dcr_max_clients'') (\<lambda>dcr_max_clients.
     and_then (opt_member get_word j ''dcr_unused_client_ttl_days'') (\<lambda>dcr_unused_client_ttl_days.
     and_then (opt_member get_str j ''default_locale'') (\<lambda>default_locale.
     and_then (opt_member get_str j ''dynamic_registration'') (\<lambda>dynamic_registration.
     and_then (opt_member (get_list get_str) j ''external_client_allowed_resources'') (\<lambda>external_client_allowed_resources.
     and_then (opt_member get_bool j ''saml_idp_enabled'') (\<lambda>saml_idp_enabled.
     and_then (member get_bool j ''sensitive_scopes_enabled'') (\<lambda>sensitive_scopes_enabled.
     and_then (opt_member get_bool j ''ssf_enabled'') (\<lambda>ssf_enabled.
     and_then (opt_member get_str j ''ssf_inactive_reason'') (\<lambda>ssf_inactive_reason.
     Inr (oidc_policy.make cimd dcr_allowed_redirect_hosts dcr_allowed_scopes dcr_max_clients dcr_unused_client_ttl_days default_locale dynamic_registration external_client_allowed_resources saml_idp_enabled sensitive_scopes_enabled ssf_enabled ssf_inactive_reason)))))))))))))"

interpretation oidc_policy: codec to_oidc_policy from_oidc_policy
  by (rule build_codec[OF to_oidc_policy_def], simp)
    (rename_tac v j, case_tac v, auto simp: codec_simps from_oidc_policy_def oidc_policy.make_def
      dest!: cimd_policy.reads split: option.splits)

section \<open>OpaquePolicy\<close>

record opaque_policy =
  f_opaque_ksf :: string
  f_opaque_mode :: string
  f_opaque_suite :: string

definition to_opaque_policy :: "opaque_policy \<Rightarrow> json res" where
  "to_opaque_policy v = build
     [req ''opaque_ksf'' (JStr (opaque_policy.f_opaque_ksf v)),
      req ''opaque_mode'' (JStr (opaque_policy.f_opaque_mode v)),
      req ''opaque_suite'' (JStr (opaque_policy.f_opaque_suite v))]"

definition from_opaque_policy :: "json \<Rightarrow> opaque_policy res" where
  "from_opaque_policy j =
     and_then (member get_str j ''opaque_ksf'') (\<lambda>opaque_ksf.
     and_then (member get_str j ''opaque_mode'') (\<lambda>opaque_mode.
     and_then (member get_str j ''opaque_suite'') (\<lambda>opaque_suite.
     Inr (opaque_policy.make opaque_ksf opaque_mode opaque_suite))))"

interpretation opaque_policy: codec to_opaque_policy from_opaque_policy
  by (rule build_codec[OF to_opaque_policy_def], simp)
    (rename_tac v j, case_tac v, simp add: codec_simps from_opaque_policy_def opaque_policy.make_def)

section \<open>ParseSamlSpMetadata\<close>

record parse_saml_sp_metadata =
  f_metadata_url :: "string option"
  f_metadata_xml :: "string option"

definition to_parse_saml_sp_metadata :: "parse_saml_sp_metadata \<Rightarrow> json res" where
  "to_parse_saml_sp_metadata v = build
     [opt ''metadata_url'' JStr (parse_saml_sp_metadata.f_metadata_url v),
      opt ''metadata_xml'' JStr (parse_saml_sp_metadata.f_metadata_xml v)]"

definition from_parse_saml_sp_metadata :: "json \<Rightarrow> parse_saml_sp_metadata res" where
  "from_parse_saml_sp_metadata j =
     and_then (opt_member get_str j ''metadata_url'') (\<lambda>metadata_url.
     and_then (opt_member get_str j ''metadata_xml'') (\<lambda>metadata_xml.
     Inr (parse_saml_sp_metadata.make metadata_url metadata_xml)))"

interpretation parse_saml_sp_metadata: codec to_parse_saml_sp_metadata from_parse_saml_sp_metadata
  by (rule build_codec[OF to_parse_saml_sp_metadata_def], simp)
    (rename_tac v j, case_tac v, simp add: codec_simps from_parse_saml_sp_metadata_def parse_saml_sp_metadata.make_def)

section \<open>PasswordPolicy\<close>

record password_policy =
  f_hibp_check_enabled :: bool
  f_min_length :: "64 word"
  f_password_history_count :: "64 word"
  f_require_digits :: bool
  f_require_lowercase :: bool
  f_require_symbols :: bool
  f_require_uppercase :: bool

definition to_password_policy :: "password_policy \<Rightarrow> json res" where
  "to_password_policy v = build
     [req ''hibp_check_enabled'' (JBool (password_policy.f_hibp_check_enabled v)),
      req ''min_length'' (JInt (password_policy.f_min_length v)),
      req ''password_history_count'' (JInt (password_policy.f_password_history_count v)),
      req ''require_digits'' (JBool (password_policy.f_require_digits v)),
      req ''require_lowercase'' (JBool (password_policy.f_require_lowercase v)),
      req ''require_symbols'' (JBool (password_policy.f_require_symbols v)),
      req ''require_uppercase'' (JBool (password_policy.f_require_uppercase v))]"

definition from_password_policy :: "json \<Rightarrow> password_policy res" where
  "from_password_policy j =
     and_then (member get_bool j ''hibp_check_enabled'') (\<lambda>hibp_check_enabled.
     and_then (member get_word j ''min_length'') (\<lambda>min_length.
     and_then (member get_word j ''password_history_count'') (\<lambda>password_history_count.
     and_then (member get_bool j ''require_digits'') (\<lambda>require_digits.
     and_then (member get_bool j ''require_lowercase'') (\<lambda>require_lowercase.
     and_then (member get_bool j ''require_symbols'') (\<lambda>require_symbols.
     and_then (member get_bool j ''require_uppercase'') (\<lambda>require_uppercase.
     Inr (password_policy.make hibp_check_enabled min_length password_history_count require_digits require_lowercase require_symbols require_uppercase))))))))"

interpretation password_policy: codec to_password_policy from_password_policy
  by (rule build_codec[OF to_password_policy_def], simp)
    (rename_tac v j, case_tac v, simp add: codec_simps from_password_policy_def password_policy.make_def)

section \<open>PrivacyPolicy\<close>

record privacy_policy =
  f_deletion_grace_period_days :: "64 word"

definition to_privacy_policy :: "privacy_policy \<Rightarrow> json res" where
  "to_privacy_policy v = build
     [req ''deletion_grace_period_days'' (JInt (privacy_policy.f_deletion_grace_period_days v))]"

definition from_privacy_policy :: "json \<Rightarrow> privacy_policy res" where
  "from_privacy_policy j =
     and_then (member get_word j ''deletion_grace_period_days'') (\<lambda>deletion_grace_period_days.
     Inr (privacy_policy.make deletion_grace_period_days))"

interpretation privacy_policy: codec to_privacy_policy from_privacy_policy
  by (rule build_codec[OF to_privacy_policy_def], simp)
    (rename_tac v j, case_tac v, simp add: codec_simps from_privacy_policy_def privacy_policy.make_def)

section \<open>ReactorResponse\<close>

record reactor_response =
  f_created_at :: string
  f_description :: string
  f_enabled :: bool
  f_events :: "string list"
  f_failure_policy :: failure_policy
  f_id :: string
  f_last_seen_at :: "string option"
  f_mode :: reactor_mode
  f_name :: string
  f_priority :: "64 word"
  f_recent_timeout_count :: "64 word"
  f_recent_veto_count :: "64 word"
  f_tenant_id :: string
  f_timeout_ms :: "64 word"
  f_updated_at :: string

definition to_reactor_response :: "reactor_response \<Rightarrow> json res" where
  "to_reactor_response v = build
     [req ''created_at'' (JStr (reactor_response.f_created_at v)),
      req ''description'' (JStr (reactor_response.f_description v)),
      req ''enabled'' (JBool (reactor_response.f_enabled v)),
      req ''events'' (str_arr (reactor_response.f_events v)),
      req_r ''failure_policy'' (enum_json failure_policy_send (reactor_response.f_failure_policy v)),
      req ''id'' (JStr (reactor_response.f_id v)),
      opt ''last_seen_at'' JStr (reactor_response.f_last_seen_at v),
      req_r ''mode'' (enum_json reactor_mode_send (reactor_response.f_mode v)),
      req ''name'' (JStr (reactor_response.f_name v)),
      req ''priority'' (JInt (reactor_response.f_priority v)),
      req ''recent_timeout_count'' (JInt (reactor_response.f_recent_timeout_count v)),
      req ''recent_veto_count'' (JInt (reactor_response.f_recent_veto_count v)),
      req ''tenant_id'' (JStr (reactor_response.f_tenant_id v)),
      req ''timeout_ms'' (JInt (reactor_response.f_timeout_ms v)),
      req ''updated_at'' (JStr (reactor_response.f_updated_at v))]"

definition from_reactor_response :: "json \<Rightarrow> reactor_response res" where
  "from_reactor_response j =
     and_then (member get_str j ''created_at'') (\<lambda>created_at.
     and_then (member get_str j ''description'') (\<lambda>description.
     and_then (member get_bool j ''enabled'') (\<lambda>enabled.
     and_then (member (get_list get_str) j ''events'') (\<lambda>events.
     and_then (member (get_enum failure_policy_from_wire) j ''failure_policy'') (\<lambda>failure_policy.
     and_then (member get_str j ''id'') (\<lambda>id.
     and_then (opt_member get_str j ''last_seen_at'') (\<lambda>last_seen_at.
     and_then (member (get_enum reactor_mode_from_wire) j ''mode'') (\<lambda>mode.
     and_then (member get_str j ''name'') (\<lambda>name.
     and_then (member get_word j ''priority'') (\<lambda>priority.
     and_then (member get_word j ''recent_timeout_count'') (\<lambda>recent_timeout_count.
     and_then (member get_word j ''recent_veto_count'') (\<lambda>recent_veto_count.
     and_then (member get_str j ''tenant_id'') (\<lambda>tenant_id.
     and_then (member get_word j ''timeout_ms'') (\<lambda>timeout_ms.
     and_then (member get_str j ''updated_at'') (\<lambda>updated_at.
     Inr (reactor_response.make created_at description enabled events failure_policy id last_seen_at mode name priority recent_timeout_count recent_veto_count tenant_id timeout_ms updated_at))))))))))))))))"

interpretation reactor_response: codec to_reactor_response from_reactor_response
  by (rule build_codec[OF to_reactor_response_def], simp)
    (rename_tac v j, case_tac v, auto simp: codec_simps from_reactor_response_def reactor_response.make_def
      dest!: failure_policy.reads reactor_mode.reads split: option.splits)

section \<open>ReplaceNetworkReplyProfileRequest\<close>

record replace_network_reply_profile_request =
  f_profile :: network_reply_profile_input
  f_segment_version :: "64 word"
  f_version :: "64 word"

definition to_replace_network_reply_profile_request :: "replace_network_reply_profile_request \<Rightarrow> json res" where
  "to_replace_network_reply_profile_request v = build
     [req_r ''profile'' (to_network_reply_profile_input (replace_network_reply_profile_request.f_profile v)),
      req ''segment_version'' (JInt (replace_network_reply_profile_request.f_segment_version v)),
      req ''version'' (JInt (replace_network_reply_profile_request.f_version v))]"

definition from_replace_network_reply_profile_request :: "json \<Rightarrow> replace_network_reply_profile_request res" where
  "from_replace_network_reply_profile_request j =
     and_then (member from_network_reply_profile_input j ''profile'') (\<lambda>profile.
     and_then (member get_word j ''segment_version'') (\<lambda>segment_version.
     and_then (member get_word j ''version'') (\<lambda>version.
     Inr (replace_network_reply_profile_request.make profile segment_version version))))"

interpretation replace_network_reply_profile_request: codec to_replace_network_reply_profile_request from_replace_network_reply_profile_request
  by (rule build_codec[OF to_replace_network_reply_profile_request_def], simp)
    (rename_tac v j, case_tac v, auto simp: codec_simps from_replace_network_reply_profile_request_def replace_network_reply_profile_request.make_def
      dest!: network_reply_profile_input.reads split: option.splits)

section \<open>SamlIdpInfo\<close>

record saml_idp_info =
  f_active_credential_id :: "string option option"
  f_entity_id :: string
  f_metadata_served :: bool
  f_metadata_url :: string
  f_next_credential_id :: "string option option"
  f_saml_available :: bool
  f_saml_idp_enabled :: bool
  f_slo_url :: string
  f_sso_url :: string
  f_tenant_id :: string

definition to_saml_idp_info :: "saml_idp_info \<Rightarrow> json res" where
  "to_saml_idp_info v = build
     [nullable ''active_credential_id'' JStr (saml_idp_info.f_active_credential_id v),
      req ''entity_id'' (JStr (saml_idp_info.f_entity_id v)),
      req ''metadata_served'' (JBool (saml_idp_info.f_metadata_served v)),
      req ''metadata_url'' (JStr (saml_idp_info.f_metadata_url v)),
      nullable ''next_credential_id'' JStr (saml_idp_info.f_next_credential_id v),
      req ''saml_available'' (JBool (saml_idp_info.f_saml_available v)),
      req ''saml_idp_enabled'' (JBool (saml_idp_info.f_saml_idp_enabled v)),
      req ''slo_url'' (JStr (saml_idp_info.f_slo_url v)),
      req ''sso_url'' (JStr (saml_idp_info.f_sso_url v)),
      req ''tenant_id'' (JStr (saml_idp_info.f_tenant_id v))]"

definition from_saml_idp_info :: "json \<Rightarrow> saml_idp_info res" where
  "from_saml_idp_info j =
     and_then (nullable_member get_str j ''active_credential_id'') (\<lambda>active_credential_id.
     and_then (member get_str j ''entity_id'') (\<lambda>entity_id.
     and_then (member get_bool j ''metadata_served'') (\<lambda>metadata_served.
     and_then (member get_str j ''metadata_url'') (\<lambda>metadata_url.
     and_then (nullable_member get_str j ''next_credential_id'') (\<lambda>next_credential_id.
     and_then (member get_bool j ''saml_available'') (\<lambda>saml_available.
     and_then (member get_bool j ''saml_idp_enabled'') (\<lambda>saml_idp_enabled.
     and_then (member get_str j ''slo_url'') (\<lambda>slo_url.
     and_then (member get_str j ''sso_url'') (\<lambda>sso_url.
     and_then (member get_str j ''tenant_id'') (\<lambda>tenant_id.
     Inr (saml_idp_info.make active_credential_id entity_id metadata_served metadata_url next_credential_id saml_available saml_idp_enabled slo_url sso_url tenant_id)))))))))))"

interpretation saml_idp_info: codec to_saml_idp_info from_saml_idp_info
  by (rule build_codec[OF to_saml_idp_info_def], simp)
    (rename_tac v j, case_tac v, simp add: codec_simps from_saml_idp_info_def saml_idp_info.make_def)

section \<open>TokenPolicy\<close>

record token_policy =
  f_access_token_lifetime_secs :: "64 word"
  f_refresh_token_lifetime_secs :: "64 word"

definition to_token_policy :: "token_policy \<Rightarrow> json res" where
  "to_token_policy v = build
     [req ''access_token_lifetime_secs'' (JInt (token_policy.f_access_token_lifetime_secs v)),
      req ''refresh_token_lifetime_secs'' (JInt (token_policy.f_refresh_token_lifetime_secs v))]"

definition from_token_policy :: "json \<Rightarrow> token_policy res" where
  "from_token_policy j =
     and_then (member get_word j ''access_token_lifetime_secs'') (\<lambda>access_token_lifetime_secs.
     and_then (member get_word j ''refresh_token_lifetime_secs'') (\<lambda>refresh_token_lifetime_secs.
     Inr (token_policy.make access_token_lifetime_secs refresh_token_lifetime_secs)))"

interpretation token_policy: codec to_token_policy from_token_policy
  by (rule build_codec[OF to_token_policy_def], simp)
    (rename_tac v j, case_tac v, simp add: codec_simps from_token_policy_def token_policy.make_def)

section \<open>WebauthnPolicy\<close>

record webauthn_policy =
  f_webauthn_user_verification :: string

definition to_webauthn_policy :: "webauthn_policy \<Rightarrow> json res" where
  "to_webauthn_policy v = build
     [req ''webauthn_user_verification'' (JStr (webauthn_policy.f_webauthn_user_verification v))]"

definition from_webauthn_policy :: "json \<Rightarrow> webauthn_policy res" where
  "from_webauthn_policy j =
     and_then (member get_str j ''webauthn_user_verification'') (\<lambda>webauthn_user_verification.
     Inr (webauthn_policy.make webauthn_user_verification))"

interpretation webauthn_policy: codec to_webauthn_policy from_webauthn_policy
  by (rule build_codec[OF to_webauthn_policy_def], simp)
    (rename_tac v j, case_tac v, simp add: codec_simps from_webauthn_policy_def webauthn_policy.make_def)

section \<open>SecuritySettings\<close>

record security_settings =
  f_certificate :: certificate_policy
  f_created_at :: string
  f_email :: email_verification_policy
  f_id :: string
  f_lockout :: lockout_policy
  f_mfa :: mfa_policy
  f_notification :: notification_policy
  f_oauth2 :: "o_auth2_policy option"
  f_oidc :: oidc_policy
  f_opaque :: opaque_policy
  f_password :: password_policy
  f_privacy :: privacy_policy
  f_scope :: settings_scope
  f_scope_id :: string
  f_token :: token_policy
  f_updated_at :: string
  f_webauthn :: webauthn_policy

definition to_security_settings :: "security_settings \<Rightarrow> json res" where
  "to_security_settings v = build
     [req_r ''certificate'' (to_certificate_policy (security_settings.f_certificate v)),
      req ''created_at'' (JStr (security_settings.f_created_at v)),
      req_r ''email'' (to_email_verification_policy (security_settings.f_email v)),
      req ''id'' (JStr (security_settings.f_id v)),
      req_r ''lockout'' (to_lockout_policy (security_settings.f_lockout v)),
      req_r ''mfa'' (to_mfa_policy (security_settings.f_mfa v)),
      req_r ''notification'' (to_notification_policy (security_settings.f_notification v)),
      opt_r ''oauth2'' to_o_auth2_policy (security_settings.f_oauth2 v),
      req_r ''oidc'' (to_oidc_policy (security_settings.f_oidc v)),
      req_r ''opaque'' (to_opaque_policy (security_settings.f_opaque v)),
      req_r ''password'' (to_password_policy (security_settings.f_password v)),
      req_r ''privacy'' (to_privacy_policy (security_settings.f_privacy v)),
      req_r ''scope'' (enum_json settings_scope_send (security_settings.f_scope v)),
      req ''scope_id'' (JStr (security_settings.f_scope_id v)),
      req_r ''token'' (to_token_policy (security_settings.f_token v)),
      req ''updated_at'' (JStr (security_settings.f_updated_at v)),
      req_r ''webauthn'' (to_webauthn_policy (security_settings.f_webauthn v))]"

definition from_security_settings :: "json \<Rightarrow> security_settings res" where
  "from_security_settings j =
     and_then (member from_certificate_policy j ''certificate'') (\<lambda>certificate.
     and_then (member get_str j ''created_at'') (\<lambda>created_at.
     and_then (member from_email_verification_policy j ''email'') (\<lambda>email.
     and_then (member get_str j ''id'') (\<lambda>id.
     and_then (member from_lockout_policy j ''lockout'') (\<lambda>lockout.
     and_then (member from_mfa_policy j ''mfa'') (\<lambda>mfa.
     and_then (member from_notification_policy j ''notification'') (\<lambda>notification.
     and_then (opt_member from_o_auth2_policy j ''oauth2'') (\<lambda>oauth2.
     and_then (member from_oidc_policy j ''oidc'') (\<lambda>oidc.
     and_then (member from_opaque_policy j ''opaque'') (\<lambda>opaque.
     and_then (member from_password_policy j ''password'') (\<lambda>password.
     and_then (member from_privacy_policy j ''privacy'') (\<lambda>privacy.
     and_then (member (get_enum settings_scope_from_wire) j ''scope'') (\<lambda>scope.
     and_then (member get_str j ''scope_id'') (\<lambda>scope_id.
     and_then (member from_token_policy j ''token'') (\<lambda>token.
     and_then (member get_str j ''updated_at'') (\<lambda>updated_at.
     and_then (member from_webauthn_policy j ''webauthn'') (\<lambda>webauthn.
     Inr (security_settings.make certificate created_at email id lockout mfa notification oauth2 oidc opaque password privacy scope scope_id token updated_at webauthn))))))))))))))))))"

interpretation security_settings: codec to_security_settings from_security_settings
  by (rule build_codec[OF to_security_settings_def], simp)
    (rename_tac v j, case_tac v, auto simp: codec_simps from_security_settings_def security_settings.make_def
      dest!: certificate_policy.reads email_verification_policy.reads lockout_policy.reads mfa_policy.reads notification_policy.reads o_auth2_policy.reads oidc_policy.reads opaque_policy.reads password_policy.reads privacy_policy.reads settings_scope.reads token_policy.reads webauthn_policy.reads split: option.splits)

section \<open>ServiceAccountCreatedResponse\<close>

record service_account_created_response =
  f_client_id :: string
  f_client_secret :: string
  f_created_at :: string
  f_description :: "string option"
  f_id :: string
  f_name :: string
  f_status :: user_status
  f_tenant_id :: string
  f_updated_at :: string

definition to_service_account_created_response :: "service_account_created_response \<Rightarrow> json res" where
  "to_service_account_created_response v = build
     [req ''client_id'' (JStr (service_account_created_response.f_client_id v)),
      req ''client_secret'' (JStr (service_account_created_response.f_client_secret v)),
      req ''created_at'' (JStr (service_account_created_response.f_created_at v)),
      opt ''description'' JStr (service_account_created_response.f_description v),
      req ''id'' (JStr (service_account_created_response.f_id v)),
      req ''name'' (JStr (service_account_created_response.f_name v)),
      req_r ''status'' (enum_json user_status_send (service_account_created_response.f_status v)),
      req ''tenant_id'' (JStr (service_account_created_response.f_tenant_id v)),
      req ''updated_at'' (JStr (service_account_created_response.f_updated_at v))]"

definition from_service_account_created_response :: "json \<Rightarrow> service_account_created_response res" where
  "from_service_account_created_response j =
     and_then (member get_str j ''client_id'') (\<lambda>client_id.
     and_then (member get_str j ''client_secret'') (\<lambda>client_secret.
     and_then (member get_str j ''created_at'') (\<lambda>created_at.
     and_then (opt_member get_str j ''description'') (\<lambda>description.
     and_then (member get_str j ''id'') (\<lambda>id.
     and_then (member get_str j ''name'') (\<lambda>name.
     and_then (member (get_enum user_status_from_wire) j ''status'') (\<lambda>status.
     and_then (member get_str j ''tenant_id'') (\<lambda>tenant_id.
     and_then (member get_str j ''updated_at'') (\<lambda>updated_at.
     Inr (service_account_created_response.make client_id client_secret created_at description id name status tenant_id updated_at))))))))))"

interpretation service_account_created_response: codec to_service_account_created_response from_service_account_created_response
  by (rule build_codec[OF to_service_account_created_response_def], simp)
    (rename_tac v j, case_tac v, auto simp: codec_simps from_service_account_created_response_def service_account_created_response.make_def
      dest!: user_status.reads split: option.splits)

section \<open>SetMtlsTrustAnchor\<close>

record set_mtls_trust_anchor =
  f_enabled :: bool

definition to_set_mtls_trust_anchor :: "set_mtls_trust_anchor \<Rightarrow> json res" where
  "to_set_mtls_trust_anchor v = build
     [req ''enabled'' (JBool (set_mtls_trust_anchor.f_enabled v))]"

definition from_set_mtls_trust_anchor :: "json \<Rightarrow> set_mtls_trust_anchor res" where
  "from_set_mtls_trust_anchor j =
     and_then (member get_bool j ''enabled'') (\<lambda>enabled.
     Inr (set_mtls_trust_anchor.make enabled))"

interpretation set_mtls_trust_anchor: codec to_set_mtls_trust_anchor from_set_mtls_trust_anchor
  by (rule build_codec[OF to_set_mtls_trust_anchor_def], simp)
    (rename_tac v j, case_tac v, simp add: codec_simps from_set_mtls_trust_anchor_def set_mtls_trust_anchor.make_def)

section \<open>SetOrgSettings\<close>

record set_org_settings =
  f_access_token_lifetime_secs :: "64 word"
  f_admin_notifications_enabled :: bool
  f_cimd :: "cimd_policy option"
  f_dcr_allowed_redirect_hosts :: "string list option"
  f_dcr_allowed_scopes :: "string list option"
  f_dcr_max_clients :: "(64 word) option"
  f_dcr_unused_client_ttl_days :: "(64 word) option"
  f_default_cert_validity_days :: "64 word"
  f_default_locale :: "string option"
  f_deletion_grace_period_days :: "(64 word) option"
  f_dynamic_registration :: "string option"
  f_email_verification_grace_period_hours :: "64 word"
  f_email_verification_required :: bool
  f_external_client_allowed_resources :: "string list option"
  f_hibp_check_enabled :: bool
  f_lockout_backoff_multiplier :: rat
  f_lockout_duration_secs :: "64 word"
  f_max_cert_validity_days :: "64 word"
  f_max_failed_login_attempts :: "64 word"
  f_max_lockout_duration_secs :: "64 word"
  f_mfa_challenge_lifetime_secs :: "64 word"
  f_mfa_enforced :: bool
  f_min_length :: "64 word"
  f_opaque_ksf :: "string option"
  f_opaque_mode :: "string option"
  f_opaque_suite :: "string option"
  f_password_history_count :: "64 word"
  f_refresh_reuse_response :: "refresh_reuse_response option"
  f_refresh_token_lifetime_secs :: "64 word"
  f_require_digits :: bool
  f_require_lowercase :: bool
  f_require_symbols :: bool
  f_require_uppercase :: bool
  f_saml_idp_enabled :: "bool option"
  f_sensitive_scopes_enabled :: "bool option"
  f_server_cert_allowed_names :: "string list option"
  f_ssf_enabled :: "bool option"
  f_webauthn_user_verification :: "string option"

definition to_set_org_settings :: "set_org_settings \<Rightarrow> json res" where
  "to_set_org_settings v = build
     [req ''access_token_lifetime_secs'' (JInt (set_org_settings.f_access_token_lifetime_secs v)),
      req ''admin_notifications_enabled'' (JBool (set_org_settings.f_admin_notifications_enabled v)),
      opt_r ''cimd'' to_cimd_policy (set_org_settings.f_cimd v),
      opt ''dcr_allowed_redirect_hosts'' str_arr (set_org_settings.f_dcr_allowed_redirect_hosts v),
      opt ''dcr_allowed_scopes'' str_arr (set_org_settings.f_dcr_allowed_scopes v),
      opt ''dcr_max_clients'' JInt (set_org_settings.f_dcr_max_clients v),
      opt ''dcr_unused_client_ttl_days'' JInt (set_org_settings.f_dcr_unused_client_ttl_days v),
      req ''default_cert_validity_days'' (JInt (set_org_settings.f_default_cert_validity_days v)),
      opt ''default_locale'' JStr (set_org_settings.f_default_locale v),
      opt ''deletion_grace_period_days'' JInt (set_org_settings.f_deletion_grace_period_days v),
      opt ''dynamic_registration'' JStr (set_org_settings.f_dynamic_registration v),
      req ''email_verification_grace_period_hours'' (JInt (set_org_settings.f_email_verification_grace_period_hours v)),
      req ''email_verification_required'' (JBool (set_org_settings.f_email_verification_required v)),
      opt ''external_client_allowed_resources'' str_arr (set_org_settings.f_external_client_allowed_resources v),
      req ''hibp_check_enabled'' (JBool (set_org_settings.f_hibp_check_enabled v)),
      req ''lockout_backoff_multiplier'' (JFloat (set_org_settings.f_lockout_backoff_multiplier v)),
      req ''lockout_duration_secs'' (JInt (set_org_settings.f_lockout_duration_secs v)),
      req ''max_cert_validity_days'' (JInt (set_org_settings.f_max_cert_validity_days v)),
      req ''max_failed_login_attempts'' (JInt (set_org_settings.f_max_failed_login_attempts v)),
      req ''max_lockout_duration_secs'' (JInt (set_org_settings.f_max_lockout_duration_secs v)),
      req ''mfa_challenge_lifetime_secs'' (JInt (set_org_settings.f_mfa_challenge_lifetime_secs v)),
      req ''mfa_enforced'' (JBool (set_org_settings.f_mfa_enforced v)),
      req ''min_length'' (JInt (set_org_settings.f_min_length v)),
      opt ''opaque_ksf'' JStr (set_org_settings.f_opaque_ksf v),
      opt ''opaque_mode'' JStr (set_org_settings.f_opaque_mode v),
      opt ''opaque_suite'' JStr (set_org_settings.f_opaque_suite v),
      req ''password_history_count'' (JInt (set_org_settings.f_password_history_count v)),
      opt_r ''refresh_reuse_response'' (enum_json refresh_reuse_response_send) (set_org_settings.f_refresh_reuse_response v),
      req ''refresh_token_lifetime_secs'' (JInt (set_org_settings.f_refresh_token_lifetime_secs v)),
      req ''require_digits'' (JBool (set_org_settings.f_require_digits v)),
      req ''require_lowercase'' (JBool (set_org_settings.f_require_lowercase v)),
      req ''require_symbols'' (JBool (set_org_settings.f_require_symbols v)),
      req ''require_uppercase'' (JBool (set_org_settings.f_require_uppercase v)),
      opt ''saml_idp_enabled'' JBool (set_org_settings.f_saml_idp_enabled v),
      opt ''sensitive_scopes_enabled'' JBool (set_org_settings.f_sensitive_scopes_enabled v),
      opt ''server_cert_allowed_names'' str_arr (set_org_settings.f_server_cert_allowed_names v),
      opt ''ssf_enabled'' JBool (set_org_settings.f_ssf_enabled v),
      opt ''webauthn_user_verification'' JStr (set_org_settings.f_webauthn_user_verification v)]"

definition from_set_org_settings :: "json \<Rightarrow> set_org_settings res" where
  "from_set_org_settings j =
     and_then (member get_word j ''access_token_lifetime_secs'') (\<lambda>access_token_lifetime_secs.
     and_then (member get_bool j ''admin_notifications_enabled'') (\<lambda>admin_notifications_enabled.
     and_then (opt_member from_cimd_policy j ''cimd'') (\<lambda>cimd.
     and_then (opt_member (get_list get_str) j ''dcr_allowed_redirect_hosts'') (\<lambda>dcr_allowed_redirect_hosts.
     and_then (opt_member (get_list get_str) j ''dcr_allowed_scopes'') (\<lambda>dcr_allowed_scopes.
     and_then (opt_member get_word j ''dcr_max_clients'') (\<lambda>dcr_max_clients.
     and_then (opt_member get_word j ''dcr_unused_client_ttl_days'') (\<lambda>dcr_unused_client_ttl_days.
     and_then (member get_word j ''default_cert_validity_days'') (\<lambda>default_cert_validity_days.
     and_then (opt_member get_str j ''default_locale'') (\<lambda>default_locale.
     and_then (opt_member get_word j ''deletion_grace_period_days'') (\<lambda>deletion_grace_period_days.
     and_then (opt_member get_str j ''dynamic_registration'') (\<lambda>dynamic_registration.
     and_then (member get_word j ''email_verification_grace_period_hours'') (\<lambda>email_verification_grace_period_hours.
     and_then (member get_bool j ''email_verification_required'') (\<lambda>email_verification_required.
     and_then (opt_member (get_list get_str) j ''external_client_allowed_resources'') (\<lambda>external_client_allowed_resources.
     and_then (member get_bool j ''hibp_check_enabled'') (\<lambda>hibp_check_enabled.
     and_then (member get_double j ''lockout_backoff_multiplier'') (\<lambda>lockout_backoff_multiplier.
     and_then (member get_word j ''lockout_duration_secs'') (\<lambda>lockout_duration_secs.
     and_then (member get_word j ''max_cert_validity_days'') (\<lambda>max_cert_validity_days.
     and_then (member get_word j ''max_failed_login_attempts'') (\<lambda>max_failed_login_attempts.
     and_then (member get_word j ''max_lockout_duration_secs'') (\<lambda>max_lockout_duration_secs.
     and_then (member get_word j ''mfa_challenge_lifetime_secs'') (\<lambda>mfa_challenge_lifetime_secs.
     and_then (member get_bool j ''mfa_enforced'') (\<lambda>mfa_enforced.
     and_then (member get_word j ''min_length'') (\<lambda>min_length.
     and_then (opt_member get_str j ''opaque_ksf'') (\<lambda>opaque_ksf.
     and_then (opt_member get_str j ''opaque_mode'') (\<lambda>opaque_mode.
     and_then (opt_member get_str j ''opaque_suite'') (\<lambda>opaque_suite.
     and_then (member get_word j ''password_history_count'') (\<lambda>password_history_count.
     and_then (opt_member (get_enum refresh_reuse_response_from_wire) j ''refresh_reuse_response'') (\<lambda>refresh_reuse_response.
     and_then (member get_word j ''refresh_token_lifetime_secs'') (\<lambda>refresh_token_lifetime_secs.
     and_then (member get_bool j ''require_digits'') (\<lambda>require_digits.
     and_then (member get_bool j ''require_lowercase'') (\<lambda>require_lowercase.
     and_then (member get_bool j ''require_symbols'') (\<lambda>require_symbols.
     and_then (member get_bool j ''require_uppercase'') (\<lambda>require_uppercase.
     and_then (opt_member get_bool j ''saml_idp_enabled'') (\<lambda>saml_idp_enabled.
     and_then (opt_member get_bool j ''sensitive_scopes_enabled'') (\<lambda>sensitive_scopes_enabled.
     and_then (opt_member (get_list get_str) j ''server_cert_allowed_names'') (\<lambda>server_cert_allowed_names.
     and_then (opt_member get_bool j ''ssf_enabled'') (\<lambda>ssf_enabled.
     and_then (opt_member get_str j ''webauthn_user_verification'') (\<lambda>webauthn_user_verification.
     Inr (set_org_settings.make access_token_lifetime_secs admin_notifications_enabled cimd dcr_allowed_redirect_hosts dcr_allowed_scopes dcr_max_clients dcr_unused_client_ttl_days default_cert_validity_days default_locale deletion_grace_period_days dynamic_registration email_verification_grace_period_hours email_verification_required external_client_allowed_resources hibp_check_enabled lockout_backoff_multiplier lockout_duration_secs max_cert_validity_days max_failed_login_attempts max_lockout_duration_secs mfa_challenge_lifetime_secs mfa_enforced min_length opaque_ksf opaque_mode opaque_suite password_history_count refresh_reuse_response refresh_token_lifetime_secs require_digits require_lowercase require_symbols require_uppercase saml_idp_enabled sensitive_scopes_enabled server_cert_allowed_names ssf_enabled webauthn_user_verification)))))))))))))))))))))))))))))))))))))))"

interpretation set_org_settings: codec to_set_org_settings from_set_org_settings
  by (rule build_codec[OF to_set_org_settings_def], simp)
    (rename_tac v j, case_tac v, auto simp: codec_simps from_set_org_settings_def set_org_settings.make_def
      dest!: cimd_policy.reads refresh_reuse_response.reads split: option.splits)

section \<open>SmtpConfig\<close>

record smtp_config =
  f_host :: string
  f_port :: "64 word"
  f_starttls :: bool
  f_username :: string

definition to_smtp_config :: "smtp_config \<Rightarrow> json res" where
  "to_smtp_config v = build
     [req ''host'' (JStr (smtp_config.f_host v)),
      req ''port'' (JInt (smtp_config.f_port v)),
      req ''starttls'' (JBool (smtp_config.f_starttls v)),
      req ''username'' (JStr (smtp_config.f_username v))]"

definition from_smtp_config :: "json \<Rightarrow> smtp_config res" where
  "from_smtp_config j =
     and_then (member get_str j ''host'') (\<lambda>host.
     and_then (member get_word j ''port'') (\<lambda>port.
     and_then (member get_bool j ''starttls'') (\<lambda>starttls.
     and_then (member get_str j ''username'') (\<lambda>username.
     Inr (smtp_config.make host port starttls username)))))"

interpretation smtp_config: codec to_smtp_config from_smtp_config
  by (rule build_codec[OF to_smtp_config_def], simp)
    (rename_tac v j, case_tac v, simp add: codec_simps from_smtp_config_def smtp_config.make_def)

section \<open>TenantSettingsOverride\<close>

record tenant_settings_override =
  f_access_token_lifetime_secs :: "(64 word) option"
  f_admin_notifications_enabled :: "bool option"
  f_cimd :: "cimd_policy option"
  f_dcr_allowed_redirect_hosts :: "string list option"
  f_dcr_allowed_scopes :: "string list option"
  f_dcr_max_clients :: "(64 word) option"
  f_dcr_unused_client_ttl_days :: "(64 word) option"
  f_default_cert_validity_days :: "(64 word) option"
  f_default_locale :: "string option"
  f_deletion_grace_period_days :: "(64 word) option"
  f_dynamic_registration :: "string option"
  f_email_verification_grace_period_hours :: "(64 word) option"
  f_email_verification_required :: "bool option"
  f_external_client_allowed_resources :: "string list option"
  f_hibp_check_enabled :: "bool option"
  f_lockout_backoff_multiplier :: "rat option"
  f_lockout_duration_secs :: "(64 word) option"
  f_max_cert_validity_days :: "(64 word) option"
  f_max_failed_login_attempts :: "(64 word) option"
  f_max_lockout_duration_secs :: "(64 word) option"
  f_mfa_challenge_lifetime_secs :: "(64 word) option"
  f_mfa_enforced :: "bool option"
  f_min_length :: "(64 word) option"
  f_opaque_ksf :: "string option"
  f_opaque_mode :: "string option"
  f_opaque_suite :: "string option"
  f_password_history_count :: "(64 word) option"
  f_refresh_reuse_response :: "refresh_reuse_response option"
  f_refresh_token_lifetime_secs :: "(64 word) option"
  f_require_digits :: "bool option"
  f_require_lowercase :: "bool option"
  f_require_symbols :: "bool option"
  f_require_uppercase :: "bool option"
  f_saml_idp_enabled :: "bool option"
  f_sensitive_scopes_enabled :: "bool option"
  f_server_cert_allowed_names :: "string list option"
  f_ssf_enabled :: "bool option"
  f_webauthn_user_verification :: "string option"

definition to_tenant_settings_override :: "tenant_settings_override \<Rightarrow> json res" where
  "to_tenant_settings_override v = build
     [opt ''access_token_lifetime_secs'' JInt (tenant_settings_override.f_access_token_lifetime_secs v),
      opt ''admin_notifications_enabled'' JBool (tenant_settings_override.f_admin_notifications_enabled v),
      opt_r ''cimd'' to_cimd_policy (tenant_settings_override.f_cimd v),
      opt ''dcr_allowed_redirect_hosts'' str_arr (tenant_settings_override.f_dcr_allowed_redirect_hosts v),
      opt ''dcr_allowed_scopes'' str_arr (tenant_settings_override.f_dcr_allowed_scopes v),
      opt ''dcr_max_clients'' JInt (tenant_settings_override.f_dcr_max_clients v),
      opt ''dcr_unused_client_ttl_days'' JInt (tenant_settings_override.f_dcr_unused_client_ttl_days v),
      opt ''default_cert_validity_days'' JInt (tenant_settings_override.f_default_cert_validity_days v),
      opt ''default_locale'' JStr (tenant_settings_override.f_default_locale v),
      opt ''deletion_grace_period_days'' JInt (tenant_settings_override.f_deletion_grace_period_days v),
      opt ''dynamic_registration'' JStr (tenant_settings_override.f_dynamic_registration v),
      opt ''email_verification_grace_period_hours'' JInt (tenant_settings_override.f_email_verification_grace_period_hours v),
      opt ''email_verification_required'' JBool (tenant_settings_override.f_email_verification_required v),
      opt ''external_client_allowed_resources'' str_arr (tenant_settings_override.f_external_client_allowed_resources v),
      opt ''hibp_check_enabled'' JBool (tenant_settings_override.f_hibp_check_enabled v),
      opt ''lockout_backoff_multiplier'' JFloat (tenant_settings_override.f_lockout_backoff_multiplier v),
      opt ''lockout_duration_secs'' JInt (tenant_settings_override.f_lockout_duration_secs v),
      opt ''max_cert_validity_days'' JInt (tenant_settings_override.f_max_cert_validity_days v),
      opt ''max_failed_login_attempts'' JInt (tenant_settings_override.f_max_failed_login_attempts v),
      opt ''max_lockout_duration_secs'' JInt (tenant_settings_override.f_max_lockout_duration_secs v),
      opt ''mfa_challenge_lifetime_secs'' JInt (tenant_settings_override.f_mfa_challenge_lifetime_secs v),
      opt ''mfa_enforced'' JBool (tenant_settings_override.f_mfa_enforced v),
      opt ''min_length'' JInt (tenant_settings_override.f_min_length v),
      opt ''opaque_ksf'' JStr (tenant_settings_override.f_opaque_ksf v),
      opt ''opaque_mode'' JStr (tenant_settings_override.f_opaque_mode v),
      opt ''opaque_suite'' JStr (tenant_settings_override.f_opaque_suite v),
      opt ''password_history_count'' JInt (tenant_settings_override.f_password_history_count v),
      opt_r ''refresh_reuse_response'' (enum_json refresh_reuse_response_send) (tenant_settings_override.f_refresh_reuse_response v),
      opt ''refresh_token_lifetime_secs'' JInt (tenant_settings_override.f_refresh_token_lifetime_secs v),
      opt ''require_digits'' JBool (tenant_settings_override.f_require_digits v),
      opt ''require_lowercase'' JBool (tenant_settings_override.f_require_lowercase v),
      opt ''require_symbols'' JBool (tenant_settings_override.f_require_symbols v),
      opt ''require_uppercase'' JBool (tenant_settings_override.f_require_uppercase v),
      opt ''saml_idp_enabled'' JBool (tenant_settings_override.f_saml_idp_enabled v),
      opt ''sensitive_scopes_enabled'' JBool (tenant_settings_override.f_sensitive_scopes_enabled v),
      opt ''server_cert_allowed_names'' str_arr (tenant_settings_override.f_server_cert_allowed_names v),
      opt ''ssf_enabled'' JBool (tenant_settings_override.f_ssf_enabled v),
      opt ''webauthn_user_verification'' JStr (tenant_settings_override.f_webauthn_user_verification v)]"

definition from_tenant_settings_override :: "json \<Rightarrow> tenant_settings_override res" where
  "from_tenant_settings_override j =
     and_then (opt_member get_word j ''access_token_lifetime_secs'') (\<lambda>access_token_lifetime_secs.
     and_then (opt_member get_bool j ''admin_notifications_enabled'') (\<lambda>admin_notifications_enabled.
     and_then (opt_member from_cimd_policy j ''cimd'') (\<lambda>cimd.
     and_then (opt_member (get_list get_str) j ''dcr_allowed_redirect_hosts'') (\<lambda>dcr_allowed_redirect_hosts.
     and_then (opt_member (get_list get_str) j ''dcr_allowed_scopes'') (\<lambda>dcr_allowed_scopes.
     and_then (opt_member get_word j ''dcr_max_clients'') (\<lambda>dcr_max_clients.
     and_then (opt_member get_word j ''dcr_unused_client_ttl_days'') (\<lambda>dcr_unused_client_ttl_days.
     and_then (opt_member get_word j ''default_cert_validity_days'') (\<lambda>default_cert_validity_days.
     and_then (opt_member get_str j ''default_locale'') (\<lambda>default_locale.
     and_then (opt_member get_word j ''deletion_grace_period_days'') (\<lambda>deletion_grace_period_days.
     and_then (opt_member get_str j ''dynamic_registration'') (\<lambda>dynamic_registration.
     and_then (opt_member get_word j ''email_verification_grace_period_hours'') (\<lambda>email_verification_grace_period_hours.
     and_then (opt_member get_bool j ''email_verification_required'') (\<lambda>email_verification_required.
     and_then (opt_member (get_list get_str) j ''external_client_allowed_resources'') (\<lambda>external_client_allowed_resources.
     and_then (opt_member get_bool j ''hibp_check_enabled'') (\<lambda>hibp_check_enabled.
     and_then (opt_member get_double j ''lockout_backoff_multiplier'') (\<lambda>lockout_backoff_multiplier.
     and_then (opt_member get_word j ''lockout_duration_secs'') (\<lambda>lockout_duration_secs.
     and_then (opt_member get_word j ''max_cert_validity_days'') (\<lambda>max_cert_validity_days.
     and_then (opt_member get_word j ''max_failed_login_attempts'') (\<lambda>max_failed_login_attempts.
     and_then (opt_member get_word j ''max_lockout_duration_secs'') (\<lambda>max_lockout_duration_secs.
     and_then (opt_member get_word j ''mfa_challenge_lifetime_secs'') (\<lambda>mfa_challenge_lifetime_secs.
     and_then (opt_member get_bool j ''mfa_enforced'') (\<lambda>mfa_enforced.
     and_then (opt_member get_word j ''min_length'') (\<lambda>min_length.
     and_then (opt_member get_str j ''opaque_ksf'') (\<lambda>opaque_ksf.
     and_then (opt_member get_str j ''opaque_mode'') (\<lambda>opaque_mode.
     and_then (opt_member get_str j ''opaque_suite'') (\<lambda>opaque_suite.
     and_then (opt_member get_word j ''password_history_count'') (\<lambda>password_history_count.
     and_then (opt_member (get_enum refresh_reuse_response_from_wire) j ''refresh_reuse_response'') (\<lambda>refresh_reuse_response.
     and_then (opt_member get_word j ''refresh_token_lifetime_secs'') (\<lambda>refresh_token_lifetime_secs.
     and_then (opt_member get_bool j ''require_digits'') (\<lambda>require_digits.
     and_then (opt_member get_bool j ''require_lowercase'') (\<lambda>require_lowercase.
     and_then (opt_member get_bool j ''require_symbols'') (\<lambda>require_symbols.
     and_then (opt_member get_bool j ''require_uppercase'') (\<lambda>require_uppercase.
     and_then (opt_member get_bool j ''saml_idp_enabled'') (\<lambda>saml_idp_enabled.
     and_then (opt_member get_bool j ''sensitive_scopes_enabled'') (\<lambda>sensitive_scopes_enabled.
     and_then (opt_member (get_list get_str) j ''server_cert_allowed_names'') (\<lambda>server_cert_allowed_names.
     and_then (opt_member get_bool j ''ssf_enabled'') (\<lambda>ssf_enabled.
     and_then (opt_member get_str j ''webauthn_user_verification'') (\<lambda>webauthn_user_verification.
     Inr (tenant_settings_override.make access_token_lifetime_secs admin_notifications_enabled cimd dcr_allowed_redirect_hosts dcr_allowed_scopes dcr_max_clients dcr_unused_client_ttl_days default_cert_validity_days default_locale deletion_grace_period_days dynamic_registration email_verification_grace_period_hours email_verification_required external_client_allowed_resources hibp_check_enabled lockout_backoff_multiplier lockout_duration_secs max_cert_validity_days max_failed_login_attempts max_lockout_duration_secs mfa_challenge_lifetime_secs mfa_enforced min_length opaque_ksf opaque_mode opaque_suite password_history_count refresh_reuse_response refresh_token_lifetime_secs require_digits require_lowercase require_symbols require_uppercase saml_idp_enabled sensitive_scopes_enabled server_cert_allowed_names ssf_enabled webauthn_user_verification)))))))))))))))))))))))))))))))))))))))"

interpretation tenant_settings_override: codec to_tenant_settings_override from_tenant_settings_override
  by (rule build_codec[OF to_tenant_settings_override_def], simp)
    (rename_tac v j, case_tac v, auto simp: codec_simps from_tenant_settings_override_def tenant_settings_override.make_def
      dest!: cimd_policy.reads refresh_reuse_response.reads split: option.splits)

section \<open>UpdateNotificationRuleRequest\<close>

record update_notification_rule_request =
  f_description :: "string option"
  f_enabled :: "bool option"
  f_events :: "notification_event_type list option"
  f_name :: "string option"
  f_recipient_emails :: "string list option"
  f_window_minutes :: "(64 word) option"

definition to_update_notification_rule_request :: "update_notification_rule_request \<Rightarrow> json res" where
  "to_update_notification_rule_request v = build
     [opt ''description'' JStr (update_notification_rule_request.f_description v),
      opt ''enabled'' JBool (update_notification_rule_request.f_enabled v),
      opt_r ''events'' (arr_of (enum_json notification_event_type_send)) (update_notification_rule_request.f_events v),
      opt ''name'' JStr (update_notification_rule_request.f_name v),
      opt ''recipient_emails'' str_arr (update_notification_rule_request.f_recipient_emails v),
      opt ''window_minutes'' JInt (update_notification_rule_request.f_window_minutes v)]"

definition from_update_notification_rule_request :: "json \<Rightarrow> update_notification_rule_request res" where
  "from_update_notification_rule_request j =
     and_then (opt_member get_str j ''description'') (\<lambda>description.
     and_then (opt_member get_bool j ''enabled'') (\<lambda>enabled.
     and_then (opt_member (get_list (get_enum notification_event_type_from_wire)) j ''events'') (\<lambda>events.
     and_then (opt_member get_str j ''name'') (\<lambda>name.
     and_then (opt_member (get_list get_str) j ''recipient_emails'') (\<lambda>recipient_emails.
     and_then (opt_member get_word j ''window_minutes'') (\<lambda>window_minutes.
     Inr (update_notification_rule_request.make description enabled events name recipient_emails window_minutes)))))))"

interpretation update_notification_rule_request: codec to_update_notification_rule_request from_update_notification_rule_request
  by (rule build_codec[OF to_update_notification_rule_request_def], simp)
    (rename_tac v j, case_tac v, auto simp: codec_simps from_update_notification_rule_request_def update_notification_rule_request.make_def
      dest!: codec.reads[OF notification_event_type.lists] notification_event_type.reads split: option.splits)

section \<open>UpdatePermissionRequest\<close>

record update_permission_request =
  f_action :: "string option"
  f_description :: "string option"

definition to_update_permission_request :: "update_permission_request \<Rightarrow> json res" where
  "to_update_permission_request v = build
     [opt ''action'' JStr (update_permission_request.f_action v),
      opt ''description'' JStr (update_permission_request.f_description v)]"

definition from_update_permission_request :: "json \<Rightarrow> update_permission_request res" where
  "from_update_permission_request j =
     and_then (opt_member get_str j ''action'') (\<lambda>action.
     and_then (opt_member get_str j ''description'') (\<lambda>description.
     Inr (update_permission_request.make action description)))"

interpretation update_permission_request: codec to_update_permission_request from_update_permission_request
  by (rule build_codec[OF to_update_permission_request_def], simp)
    (rename_tac v j, case_tac v, simp add: codec_simps from_update_permission_request_def update_permission_request.make_def)

section \<open>SsfStreamChanges\<close>

record ssf_stream_changes =
  f_receiver_client_id :: "string option"
  f_audience :: "string option"
  f_delivery_method :: "ssf_delivery_method option"
  f_events_allowed :: "string list option"
  f_events_requested :: "string list option"
  f_description :: "string option option"
  f_endpoint_url :: "string option option"
  f_status :: "ssf_stream_status option"
  f_status_reason :: "string option option"
  f_subject_format :: "ssf_subject_format option"
  f_authorization_header :: "string option"
  f_clear_authorization_header :: "bool option"
  f_expected_updated_at :: "string option option"

end
