(* ===== verification/Models2.thy ===== *)
theory Models2
  imports ModelEnums
begin

text \<open>
  Structures of \<open>include/axiam/management_models.hpp\<close> (AddServiceAccountMemberRequest to UpdateUserRequest and the structures they use), each with its
  encoder and decoder of \<open>src/management_models.cpp\<close>, and, where the members are kept as
  values and not as JSON text, the interpretation of the locale \<open>codec\<close>: what is decoded from
  the encoding is what was encoded.
\<close>

section \<open>AddServiceAccountMemberRequest\<close>

record add_service_account_member_request =
  f_service_account_id :: string

definition to_add_service_account_member_request :: "add_service_account_member_request \<Rightarrow> json res" where
  "to_add_service_account_member_request v = build
     [req ''service_account_id'' (JStr (add_service_account_member_request.f_service_account_id v))]"

definition from_add_service_account_member_request :: "json \<Rightarrow> add_service_account_member_request res" where
  "from_add_service_account_member_request j =
     and_then (member get_str j ''service_account_id'') (\<lambda>service_account_id.
     Inr (add_service_account_member_request.make service_account_id))"

interpretation add_service_account_member_request: codec to_add_service_account_member_request from_add_service_account_member_request
  by (rule build_codec[OF to_add_service_account_member_request_def], simp)
    (rename_tac v j, case_tac v, simp add: codec_simps from_add_service_account_member_request_def add_service_account_member_request.make_def)

section \<open>AssignRoleToUserRequest\<close>

record assign_role_to_user_request =
  f_inherit :: "bool option"
  f_resource_id :: "string option"
  f_tenant_scope :: "string list option"
  f_user_id :: string

definition to_assign_role_to_user_request :: "assign_role_to_user_request \<Rightarrow> json res" where
  "to_assign_role_to_user_request v = build
     [opt ''inherit'' JBool (assign_role_to_user_request.f_inherit v),
      opt ''resource_id'' JStr (assign_role_to_user_request.f_resource_id v),
      opt ''tenant_scope'' str_arr (non_empty (assign_role_to_user_request.f_tenant_scope v)),
      req ''user_id'' (JStr (assign_role_to_user_request.f_user_id v))]"

definition from_assign_role_to_user_request :: "json \<Rightarrow> assign_role_to_user_request res" where
  "from_assign_role_to_user_request j =
     and_then (opt_member get_bool j ''inherit'') (\<lambda>inherit.
     and_then (opt_member get_str j ''resource_id'') (\<lambda>resource_id.
     and_then (opt_member (get_list get_str) j ''tenant_scope'') (\<lambda>tenant_scope.
     and_then (member get_str j ''user_id'') (\<lambda>user_id.
     Inr (assign_role_to_user_request.make inherit resource_id tenant_scope user_id)))))"

section \<open>BindCertificate\<close>

record bind_certificate =
  f_certificate_id :: string

definition to_bind_certificate :: "bind_certificate \<Rightarrow> json res" where
  "to_bind_certificate v = build
     [req ''certificate_id'' (JStr (bind_certificate.f_certificate_id v))]"

definition from_bind_certificate :: "json \<Rightarrow> bind_certificate res" where
  "from_bind_certificate j =
     and_then (member get_str j ''certificate_id'') (\<lambda>certificate_id.
     Inr (bind_certificate.make certificate_id))"

interpretation bind_certificate: codec to_bind_certificate from_bind_certificate
  by (rule build_codec[OF to_bind_certificate_def], simp)
    (rename_tac v j, case_tac v, simp add: codec_simps from_bind_certificate_def bind_certificate.make_def)

section \<open>CaCertificate\<close>

record ca_certificate =
  f_chain_pem :: "string option"
  f_created_at :: string
  f_fingerprint :: string
  f_id :: string
  f_key_algorithm :: key_algorithm
  f_key_custody :: "string option"
  f_key_locator :: "string option"
  f_mtls_trust_anchor :: "bool option"
  f_not_after :: string
  f_not_before :: string
  f_organization_id :: string
  f_parent_ca_id :: "string option"
  f_public_cert_pem :: string
  f_status :: certificate_status
  f_subject :: string
  f_tenant_id :: "string option"

definition to_ca_certificate :: "ca_certificate \<Rightarrow> json res" where
  "to_ca_certificate v = build
     [opt ''chain_pem'' JStr (ca_certificate.f_chain_pem v),
      req ''created_at'' (JStr (ca_certificate.f_created_at v)),
      req ''fingerprint'' (JStr (ca_certificate.f_fingerprint v)),
      req ''id'' (JStr (ca_certificate.f_id v)),
      req_r ''key_algorithm'' (enum_json key_algorithm_send (ca_certificate.f_key_algorithm v)),
      opt ''key_custody'' JStr (ca_certificate.f_key_custody v),
      opt ''key_locator'' JStr (ca_certificate.f_key_locator v),
      opt ''mtls_trust_anchor'' JBool (ca_certificate.f_mtls_trust_anchor v),
      req ''not_after'' (JStr (ca_certificate.f_not_after v)),
      req ''not_before'' (JStr (ca_certificate.f_not_before v)),
      req ''organization_id'' (JStr (ca_certificate.f_organization_id v)),
      opt ''parent_ca_id'' JStr (ca_certificate.f_parent_ca_id v),
      req ''public_cert_pem'' (JStr (ca_certificate.f_public_cert_pem v)),
      req_r ''status'' (enum_json certificate_status_send (ca_certificate.f_status v)),
      req ''subject'' (JStr (ca_certificate.f_subject v)),
      opt ''tenant_id'' JStr (ca_certificate.f_tenant_id v)]"

definition from_ca_certificate :: "json \<Rightarrow> ca_certificate res" where
  "from_ca_certificate j =
     and_then (opt_member get_str j ''chain_pem'') (\<lambda>chain_pem.
     and_then (member get_str j ''created_at'') (\<lambda>created_at.
     and_then (member get_str j ''fingerprint'') (\<lambda>fingerprint.
     and_then (member get_str j ''id'') (\<lambda>id.
     and_then (member (get_enum key_algorithm_from_wire) j ''key_algorithm'') (\<lambda>key_algorithm.
     and_then (opt_member get_str j ''key_custody'') (\<lambda>key_custody.
     and_then (opt_member get_str j ''key_locator'') (\<lambda>key_locator.
     and_then (opt_member get_bool j ''mtls_trust_anchor'') (\<lambda>mtls_trust_anchor.
     and_then (member get_str j ''not_after'') (\<lambda>not_after.
     and_then (member get_str j ''not_before'') (\<lambda>not_before.
     and_then (member get_str j ''organization_id'') (\<lambda>organization_id.
     and_then (opt_member get_str j ''parent_ca_id'') (\<lambda>parent_ca_id.
     and_then (member get_str j ''public_cert_pem'') (\<lambda>public_cert_pem.
     and_then (member (get_enum certificate_status_from_wire) j ''status'') (\<lambda>status.
     and_then (member get_str j ''subject'') (\<lambda>subject.
     and_then (opt_member get_str j ''tenant_id'') (\<lambda>tenant_id.
     Inr (ca_certificate.make chain_pem created_at fingerprint id key_algorithm key_custody key_locator mtls_trust_anchor not_after not_before organization_id parent_ca_id public_cert_pem status subject tenant_id)))))))))))))))))"

interpretation ca_certificate: codec to_ca_certificate from_ca_certificate
  by (rule build_codec[OF to_ca_certificate_def], simp)
    (rename_tac v j, case_tac v, auto simp: codec_simps from_ca_certificate_def ca_certificate.make_def
      dest!: certificate_status.reads key_algorithm.reads split: option.splits)

section \<open>CreateIntermediateCaRequest\<close>

record create_intermediate_ca_request =
  f_key_algorithm :: key_algorithm
  f_parent_ca_id :: string
  f_subject :: string
  f_validity_days :: "64 word"

definition to_create_intermediate_ca_request :: "create_intermediate_ca_request \<Rightarrow> json res" where
  "to_create_intermediate_ca_request v = build
     [req_r ''key_algorithm'' (enum_json key_algorithm_send (create_intermediate_ca_request.f_key_algorithm v)),
      req ''parent_ca_id'' (JStr (create_intermediate_ca_request.f_parent_ca_id v)),
      req ''subject'' (JStr (create_intermediate_ca_request.f_subject v)),
      req ''validity_days'' (JInt (create_intermediate_ca_request.f_validity_days v))]"

definition from_create_intermediate_ca_request :: "json \<Rightarrow> create_intermediate_ca_request res" where
  "from_create_intermediate_ca_request j =
     and_then (member (get_enum key_algorithm_from_wire) j ''key_algorithm'') (\<lambda>key_algorithm.
     and_then (member get_str j ''parent_ca_id'') (\<lambda>parent_ca_id.
     and_then (member get_str j ''subject'') (\<lambda>subject.
     and_then (member get_word j ''validity_days'') (\<lambda>validity_days.
     Inr (create_intermediate_ca_request.make key_algorithm parent_ca_id subject validity_days)))))"

interpretation create_intermediate_ca_request: codec to_create_intermediate_ca_request from_create_intermediate_ca_request
  by (rule build_codec[OF to_create_intermediate_ca_request_def], simp)
    (rename_tac v j, case_tac v, auto simp: codec_simps from_create_intermediate_ca_request_def create_intermediate_ca_request.make_def
      dest!: key_algorithm.reads split: option.splits)

section \<open>CreateReactorRequest\<close>

record create_reactor_request =
  f_description :: "string option"
  f_enabled :: "bool option"
  f_events :: "string list"
  f_failure_policy :: "failure_policy option"
  f_mode :: reactor_mode
  f_name :: string
  f_priority :: "(64 word) option"
  f_timeout_ms :: "(64 word) option"

definition to_create_reactor_request :: "create_reactor_request \<Rightarrow> json res" where
  "to_create_reactor_request v = build
     [opt ''description'' JStr (create_reactor_request.f_description v),
      opt ''enabled'' JBool (create_reactor_request.f_enabled v),
      req ''events'' (str_arr (create_reactor_request.f_events v)),
      opt_r ''failure_policy'' (enum_json failure_policy_send) (create_reactor_request.f_failure_policy v),
      req_r ''mode'' (enum_json reactor_mode_send (create_reactor_request.f_mode v)),
      req ''name'' (JStr (create_reactor_request.f_name v)),
      opt ''priority'' JInt (create_reactor_request.f_priority v),
      opt ''timeout_ms'' JInt (create_reactor_request.f_timeout_ms v)]"

definition from_create_reactor_request :: "json \<Rightarrow> create_reactor_request res" where
  "from_create_reactor_request j =
     and_then (opt_member get_str j ''description'') (\<lambda>description.
     and_then (opt_member get_bool j ''enabled'') (\<lambda>enabled.
     and_then (member (get_list get_str) j ''events'') (\<lambda>events.
     and_then (opt_member (get_enum failure_policy_from_wire) j ''failure_policy'') (\<lambda>failure_policy.
     and_then (member (get_enum reactor_mode_from_wire) j ''mode'') (\<lambda>mode.
     and_then (member get_str j ''name'') (\<lambda>name.
     and_then (opt_member get_word j ''priority'') (\<lambda>priority.
     and_then (opt_member get_word j ''timeout_ms'') (\<lambda>timeout_ms.
     Inr (create_reactor_request.make description enabled events failure_policy mode name priority timeout_ms)))))))))"

interpretation create_reactor_request: codec to_create_reactor_request from_create_reactor_request
  by (rule build_codec[OF to_create_reactor_request_def], simp)
    (rename_tac v j, case_tac v, auto simp: codec_simps from_create_reactor_request_def create_reactor_request.make_def
      dest!: failure_policy.reads reactor_mode.reads split: option.splits)

section \<open>RegistrationTokenResponse\<close>

record registration_token_response =
  f_created_at :: string
  f_created_by :: string
  f_expires_at :: string
  f_id :: string
  f_name :: string
  f_tenant_id :: string
  f_used_at :: "string option"
  f_used_by_client_id :: "string option"

definition to_registration_token_response :: "registration_token_response \<Rightarrow> json res" where
  "to_registration_token_response v = build
     [req ''created_at'' (JStr (registration_token_response.f_created_at v)),
      req ''created_by'' (JStr (registration_token_response.f_created_by v)),
      req ''expires_at'' (JStr (registration_token_response.f_expires_at v)),
      req ''id'' (JStr (registration_token_response.f_id v)),
      req ''name'' (JStr (registration_token_response.f_name v)),
      req ''tenant_id'' (JStr (registration_token_response.f_tenant_id v)),
      opt ''used_at'' JStr (registration_token_response.f_used_at v),
      opt ''used_by_client_id'' JStr (registration_token_response.f_used_by_client_id v)]"

definition from_registration_token_response :: "json \<Rightarrow> registration_token_response res" where
  "from_registration_token_response j =
     and_then (member get_str j ''created_at'') (\<lambda>created_at.
     and_then (member get_str j ''created_by'') (\<lambda>created_by.
     and_then (member get_str j ''expires_at'') (\<lambda>expires_at.
     and_then (member get_str j ''id'') (\<lambda>id.
     and_then (member get_str j ''name'') (\<lambda>name.
     and_then (member get_str j ''tenant_id'') (\<lambda>tenant_id.
     and_then (opt_member get_str j ''used_at'') (\<lambda>used_at.
     and_then (opt_member get_str j ''used_by_client_id'') (\<lambda>used_by_client_id.
     Inr (registration_token_response.make created_at created_by expires_at id name tenant_id used_at used_by_client_id)))))))))"

interpretation registration_token_response: codec to_registration_token_response from_registration_token_response
  by (rule build_codec[OF to_registration_token_response_def], simp)
    (rename_tac v j, case_tac v, simp add: codec_simps from_registration_token_response_def registration_token_response.make_def)

section \<open>CreateRegistrationTokenResponse\<close>

record create_registration_token_response =
  f_initial_access_token :: string
  f_token :: registration_token_response

definition to_create_registration_token_response :: "create_registration_token_response \<Rightarrow> json res" where
  "to_create_registration_token_response v = build
     [req ''initial_access_token'' (JStr (create_registration_token_response.f_initial_access_token v)),
      req_r ''token'' (to_registration_token_response (create_registration_token_response.f_token v))]"

definition from_create_registration_token_response :: "json \<Rightarrow> create_registration_token_response res" where
  "from_create_registration_token_response j =
     and_then (member get_str j ''initial_access_token'') (\<lambda>initial_access_token.
     and_then (member from_registration_token_response j ''token'') (\<lambda>token.
     Inr (create_registration_token_response.make initial_access_token token)))"

interpretation create_registration_token_response: codec to_create_registration_token_response from_create_registration_token_response
  by (rule build_codec[OF to_create_registration_token_response_def], simp)
    (rename_tac v j, case_tac v, auto simp: codec_simps from_create_registration_token_response_def create_registration_token_response.make_def
      dest!: registration_token_response.reads split: option.splits)

section \<open>CreateServiceAccountRequest\<close>

record create_service_account_request =
  f_description :: "string option"
  f_name :: string

definition to_create_service_account_request :: "create_service_account_request \<Rightarrow> json res" where
  "to_create_service_account_request v = build
     [opt ''description'' JStr (create_service_account_request.f_description v),
      req ''name'' (JStr (create_service_account_request.f_name v))]"

definition from_create_service_account_request :: "json \<Rightarrow> create_service_account_request res" where
  "from_create_service_account_request j =
     and_then (opt_member get_str j ''description'') (\<lambda>description.
     and_then (member get_str j ''name'') (\<lambda>name.
     Inr (create_service_account_request.make description name)))"

interpretation create_service_account_request: codec to_create_service_account_request from_create_service_account_request
  by (rule build_codec[OF to_create_service_account_request_def], simp)
    (rename_tac v j, case_tac v, simp add: codec_simps from_create_service_account_request_def create_service_account_request.make_def)

section \<open>GroupMapping\<close>

record group_mapping =
  f_directory_group_dn :: string
  f_group_id :: string

definition to_group_mapping :: "group_mapping \<Rightarrow> json res" where
  "to_group_mapping v = build
     [req ''directory_group_dn'' (JStr (group_mapping.f_directory_group_dn v)),
      req ''group_id'' (JStr (group_mapping.f_group_id v))]"

definition from_group_mapping :: "json \<Rightarrow> group_mapping res" where
  "from_group_mapping j =
     and_then (member get_str j ''directory_group_dn'') (\<lambda>directory_group_dn.
     and_then (member get_str j ''group_id'') (\<lambda>group_id.
     Inr (group_mapping.make directory_group_dn group_id)))"

interpretation group_mapping: codec to_group_mapping from_group_mapping
  by (rule build_codec[OF to_group_mapping_def], simp)
    (rename_tac v j, case_tac v, simp add: codec_simps from_group_mapping_def group_mapping.make_def)

section \<open>UserAttributeMap\<close>

record user_attribute_map =
  f_display_name :: string
  f_email :: string
  f_external_id :: string
  f_username :: string

definition to_user_attribute_map :: "user_attribute_map \<Rightarrow> json res" where
  "to_user_attribute_map v = build
     [req ''display_name'' (JStr (user_attribute_map.f_display_name v)),
      req ''email'' (JStr (user_attribute_map.f_email v)),
      req ''external_id'' (JStr (user_attribute_map.f_external_id v)),
      req ''username'' (JStr (user_attribute_map.f_username v))]"

definition from_user_attribute_map :: "json \<Rightarrow> user_attribute_map res" where
  "from_user_attribute_map j =
     and_then (member get_str j ''display_name'') (\<lambda>display_name.
     and_then (member get_str j ''email'') (\<lambda>email.
     and_then (member get_str j ''external_id'') (\<lambda>external_id.
     and_then (member get_str j ''username'') (\<lambda>username.
     Inr (user_attribute_map.make display_name email external_id username)))))"

interpretation user_attribute_map: codec to_user_attribute_map from_user_attribute_map
  by (rule build_codec[OF to_user_attribute_map_def], simp)
    (rename_tac v j, case_tac v, simp add: codec_simps from_user_attribute_map_def user_attribute_map.make_def)

section \<open>DirectoryConfig\<close>

record directory_config =
  f_base_dn :: string
  f_bind_dn :: string
  f_created_at :: string
  f_enabled :: bool
  f_group_base_dn :: "string option"
  f_group_filter :: "string option"
  f_group_mappings :: "group_mapping list"
  f_group_member_attribute :: string
  f_group_nesting_depth :: "64 word"
  f_id :: string
  f_jit_provisioning :: bool
  f_kind :: directory_kind
  f_start_tls :: bool
  f_sync_interval_secs :: "64 word"
  f_tenant_id :: string
  f_trust_anchors_pem :: "string list"
  f_updated_at :: string
  f_url :: string
  f_user_attribute_map :: user_attribute_map
  f_user_filter :: string

definition to_directory_config :: "directory_config \<Rightarrow> json res" where
  "to_directory_config v = build
     [req ''base_dn'' (JStr (directory_config.f_base_dn v)),
      req ''bind_dn'' (JStr (directory_config.f_bind_dn v)),
      req ''created_at'' (JStr (directory_config.f_created_at v)),
      req ''enabled'' (JBool (directory_config.f_enabled v)),
      opt ''group_base_dn'' JStr (directory_config.f_group_base_dn v),
      opt ''group_filter'' JStr (directory_config.f_group_filter v),
      req_r ''group_mappings'' (arr_of to_group_mapping (directory_config.f_group_mappings v)),
      req ''group_member_attribute'' (JStr (directory_config.f_group_member_attribute v)),
      req ''group_nesting_depth'' (JInt (directory_config.f_group_nesting_depth v)),
      req ''id'' (JStr (directory_config.f_id v)),
      req ''jit_provisioning'' (JBool (directory_config.f_jit_provisioning v)),
      req_r ''kind'' (enum_json directory_kind_send (directory_config.f_kind v)),
      req ''start_tls'' (JBool (directory_config.f_start_tls v)),
      req ''sync_interval_secs'' (JInt (directory_config.f_sync_interval_secs v)),
      req ''tenant_id'' (JStr (directory_config.f_tenant_id v)),
      req ''trust_anchors_pem'' (str_arr (directory_config.f_trust_anchors_pem v)),
      req ''updated_at'' (JStr (directory_config.f_updated_at v)),
      req ''url'' (JStr (directory_config.f_url v)),
      req_r ''user_attribute_map'' (to_user_attribute_map (directory_config.f_user_attribute_map v)),
      req ''user_filter'' (JStr (directory_config.f_user_filter v))]"

definition from_directory_config :: "json \<Rightarrow> directory_config res" where
  "from_directory_config j =
     and_then (member get_str j ''base_dn'') (\<lambda>base_dn.
     and_then (member get_str j ''bind_dn'') (\<lambda>bind_dn.
     and_then (member get_str j ''created_at'') (\<lambda>created_at.
     and_then (member get_bool j ''enabled'') (\<lambda>enabled.
     and_then (opt_member get_str j ''group_base_dn'') (\<lambda>group_base_dn.
     and_then (opt_member get_str j ''group_filter'') (\<lambda>group_filter.
     and_then (member (get_list from_group_mapping) j ''group_mappings'') (\<lambda>group_mappings.
     and_then (member get_str j ''group_member_attribute'') (\<lambda>group_member_attribute.
     and_then (member get_word j ''group_nesting_depth'') (\<lambda>group_nesting_depth.
     and_then (member get_str j ''id'') (\<lambda>id.
     and_then (member get_bool j ''jit_provisioning'') (\<lambda>jit_provisioning.
     and_then (member (get_enum directory_kind_from_wire) j ''kind'') (\<lambda>kind.
     and_then (member get_bool j ''start_tls'') (\<lambda>start_tls.
     and_then (member get_word j ''sync_interval_secs'') (\<lambda>sync_interval_secs.
     and_then (member get_str j ''tenant_id'') (\<lambda>tenant_id.
     and_then (member (get_list get_str) j ''trust_anchors_pem'') (\<lambda>trust_anchors_pem.
     and_then (member get_str j ''updated_at'') (\<lambda>updated_at.
     and_then (member get_str j ''url'') (\<lambda>url.
     and_then (member from_user_attribute_map j ''user_attribute_map'') (\<lambda>user_attribute_map.
     and_then (member get_str j ''user_filter'') (\<lambda>user_filter.
     Inr (directory_config.make base_dn bind_dn created_at enabled group_base_dn group_filter group_mappings group_member_attribute group_nesting_depth id jit_provisioning kind start_tls sync_interval_secs tenant_id trust_anchors_pem updated_at url user_attribute_map user_filter)))))))))))))))))))))"

interpretation directory_config: codec to_directory_config from_directory_config
  by (rule build_codec[OF to_directory_config_def], simp)
    (rename_tac v j, case_tac v, auto simp: codec_simps from_directory_config_def directory_config.make_def
      dest!: codec.reads[OF group_mapping.lists] directory_kind.reads group_mapping.reads user_attribute_map.reads split: option.splits)

section \<open>DirectorySyncStatus\<close>

record directory_sync_status =
  f_full_required :: bool
  f_has_watermark :: bool
  f_last_attempt_at :: "string option"
  f_last_full_run_at :: "string option"
  f_last_result :: "string option"

definition to_directory_sync_status :: "directory_sync_status \<Rightarrow> json res" where
  "to_directory_sync_status v = build
     [req ''full_required'' (JBool (directory_sync_status.f_full_required v)),
      req ''has_watermark'' (JBool (directory_sync_status.f_has_watermark v)),
      opt ''last_attempt_at'' JStr (directory_sync_status.f_last_attempt_at v),
      opt ''last_full_run_at'' JStr (directory_sync_status.f_last_full_run_at v),
      opt ''last_result'' JStr (directory_sync_status.f_last_result v)]"

definition from_directory_sync_status :: "json \<Rightarrow> directory_sync_status res" where
  "from_directory_sync_status j =
     and_then (member get_bool j ''full_required'') (\<lambda>full_required.
     and_then (member get_bool j ''has_watermark'') (\<lambda>has_watermark.
     and_then (opt_member get_str j ''last_attempt_at'') (\<lambda>last_attempt_at.
     and_then (opt_member get_str j ''last_full_run_at'') (\<lambda>last_full_run_at.
     and_then (opt_member get_str j ''last_result'') (\<lambda>last_result.
     Inr (directory_sync_status.make full_required has_watermark last_attempt_at last_full_run_at last_result))))))"

interpretation directory_sync_status: codec to_directory_sync_status from_directory_sync_status
  by (rule build_codec[OF to_directory_sync_status_def], simp)
    (rename_tac v j, case_tac v, simp add: codec_simps from_directory_sync_status_def directory_sync_status.make_def)

section \<open>ProviderConfig\<close>

record provider_config =
  f_kind :: string
  f_raw :: string

definition to_provider_config :: "(string \<Rightarrow> json) \<Rightarrow> provider_config \<Rightarrow> json res" where
  "to_provider_config parse v =
     Inr (if is_discarded (parse (provider_config.f_raw v)) then JObj [] else parse (provider_config.f_raw v))"

definition from_provider_config :: "(json \<Rightarrow> string res) \<Rightarrow> json \<Rightarrow> provider_config res" where
  "from_provider_config dmp j =
     and_then (member get_str j ''kind'') (\<lambda>kind.
     and_then (dmp j) (\<lambda>raw.
     Inr (provider_config.make kind raw)))"

section \<open>EmailConfig\<close>

record email_config =
  f_created_at :: string
  f_enabled :: bool
  f_from_email :: string
  f_from_name :: string
  f_id :: string
  f_provider :: provider_config
  f_reply_to :: "string option"
  f_scope :: settings_scope
  f_scope_id :: string
  f_updated_at :: string

definition to_email_config :: "(string \<Rightarrow> json) \<Rightarrow> email_config \<Rightarrow> json res" where
  "to_email_config parse v = build
     [req ''created_at'' (JStr (email_config.f_created_at v)),
      req ''enabled'' (JBool (email_config.f_enabled v)),
      req ''from_email'' (JStr (email_config.f_from_email v)),
      req ''from_name'' (JStr (email_config.f_from_name v)),
      req ''id'' (JStr (email_config.f_id v)),
      req_r ''provider'' (to_provider_config parse (email_config.f_provider v)),
      opt ''reply_to'' JStr (email_config.f_reply_to v),
      req_r ''scope'' (enum_json settings_scope_send (email_config.f_scope v)),
      req ''scope_id'' (JStr (email_config.f_scope_id v)),
      req ''updated_at'' (JStr (email_config.f_updated_at v))]"

definition from_email_config :: "(json \<Rightarrow> string res) \<Rightarrow> json \<Rightarrow> email_config res" where
  "from_email_config dmp j =
     and_then (member get_str j ''created_at'') (\<lambda>created_at.
     and_then (member get_bool j ''enabled'') (\<lambda>enabled.
     and_then (member get_str j ''from_email'') (\<lambda>from_email.
     and_then (member get_str j ''from_name'') (\<lambda>from_name.
     and_then (member get_str j ''id'') (\<lambda>id.
     and_then (member (from_provider_config dmp) j ''provider'') (\<lambda>provider.
     and_then (opt_member get_str j ''reply_to'') (\<lambda>reply_to.
     and_then (member (get_enum settings_scope_from_wire) j ''scope'') (\<lambda>scope.
     and_then (member get_str j ''scope_id'') (\<lambda>scope_id.
     and_then (member get_str j ''updated_at'') (\<lambda>updated_at.
     Inr (email_config.make created_at enabled from_email from_name id provider reply_to scope scope_id updated_at)))))))))))"

section \<open>EmailConfigOverride\<close>

record email_config_override =
  f_enabled :: "bool option"
  f_from_email :: "string option"
  f_from_name :: "string option"
  f_provider :: "provider_config option"
  f_reply_to :: "string option"

definition to_email_config_override :: "(string \<Rightarrow> json) \<Rightarrow> email_config_override \<Rightarrow> json res" where
  "to_email_config_override parse v = build
     [opt ''enabled'' JBool (email_config_override.f_enabled v),
      opt ''from_email'' JStr (email_config_override.f_from_email v),
      opt ''from_name'' JStr (email_config_override.f_from_name v),
      opt_r ''provider'' (to_provider_config parse) (email_config_override.f_provider v),
      opt ''reply_to'' JStr (email_config_override.f_reply_to v)]"

definition from_email_config_override :: "(json \<Rightarrow> string res) \<Rightarrow> json \<Rightarrow> email_config_override res" where
  "from_email_config_override dmp j =
     and_then (opt_member get_bool j ''enabled'') (\<lambda>enabled.
     and_then (opt_member get_str j ''from_email'') (\<lambda>from_email.
     and_then (opt_member get_str j ''from_name'') (\<lambda>from_name.
     and_then (opt_member (from_provider_config dmp) j ''provider'') (\<lambda>provider.
     and_then (opt_member get_str j ''reply_to'') (\<lambda>reply_to.
     Inr (email_config_override.make enabled from_email from_name provider reply_to))))))"

section \<open>GeneratedCertificate\<close>

record generated_certificate =
  f_cert_type :: certificate_type
  f_created_at :: string
  f_fingerprint :: string
  f_id :: string
  f_issuer_ca_id :: string
  f_key_algorithm :: key_algorithm
  f_metadata :: string
  f_not_after :: string
  f_not_before :: string
  f_public_cert_pem :: string
  f_status :: certificate_status
  f_subject :: string
  f_tenant_id :: string
  f_user_id :: "string option"
  f_chain_pem :: "string option"
  f_private_key_pem :: string

definition to_generated_certificate :: "(string \<Rightarrow> json) \<Rightarrow> generated_certificate \<Rightarrow> json res" where
  "to_generated_certificate parse v = build
     [req_r ''cert_type'' (enum_json certificate_type_send (generated_certificate.f_cert_type v)),
      req ''created_at'' (JStr (generated_certificate.f_created_at v)),
      req ''fingerprint'' (JStr (generated_certificate.f_fingerprint v)),
      req ''id'' (JStr (generated_certificate.f_id v)),
      req ''issuer_ca_id'' (JStr (generated_certificate.f_issuer_ca_id v)),
      req_r ''key_algorithm'' (enum_json key_algorithm_send (generated_certificate.f_key_algorithm v)),
      embedded parse ''metadata'' (generated_certificate.f_metadata v),
      req ''not_after'' (JStr (generated_certificate.f_not_after v)),
      req ''not_before'' (JStr (generated_certificate.f_not_before v)),
      req ''public_cert_pem'' (JStr (generated_certificate.f_public_cert_pem v)),
      req_r ''status'' (enum_json certificate_status_send (generated_certificate.f_status v)),
      req ''subject'' (JStr (generated_certificate.f_subject v)),
      req ''tenant_id'' (JStr (generated_certificate.f_tenant_id v)),
      opt ''user_id'' JStr (generated_certificate.f_user_id v),
      opt ''chain_pem'' JStr (generated_certificate.f_chain_pem v),
      req ''private_key_pem'' (JStr (generated_certificate.f_private_key_pem v))]"

definition from_generated_certificate :: "(json \<Rightarrow> string res) \<Rightarrow> json \<Rightarrow> generated_certificate res" where
  "from_generated_certificate dmp j =
     and_then (member (get_enum certificate_type_from_wire) j ''cert_type'') (\<lambda>cert_type.
     and_then (member get_str j ''created_at'') (\<lambda>created_at.
     and_then (member get_str j ''fingerprint'') (\<lambda>fingerprint.
     and_then (member get_str j ''id'') (\<lambda>id.
     and_then (member get_str j ''issuer_ca_id'') (\<lambda>issuer_ca_id.
     and_then (member (get_enum key_algorithm_from_wire) j ''key_algorithm'') (\<lambda>key_algorithm.
     and_then (member dmp j ''metadata'') (\<lambda>metadata.
     and_then (member get_str j ''not_after'') (\<lambda>not_after.
     and_then (member get_str j ''not_before'') (\<lambda>not_before.
     and_then (member get_str j ''public_cert_pem'') (\<lambda>public_cert_pem.
     and_then (member (get_enum certificate_status_from_wire) j ''status'') (\<lambda>status.
     and_then (member get_str j ''subject'') (\<lambda>subject.
     and_then (member get_str j ''tenant_id'') (\<lambda>tenant_id.
     and_then (opt_member get_str j ''user_id'') (\<lambda>user_id.
     and_then (opt_member get_str j ''chain_pem'') (\<lambda>chain_pem.
     and_then (member get_str j ''private_key_pem'') (\<lambda>private_key_pem.
     Inr (generated_certificate.make cert_type created_at fingerprint id issuer_ca_id key_algorithm metadata not_after not_before public_cert_pem status subject tenant_id user_id chain_pem private_key_pem)))))))))))))))))"

section \<open>GeneratedPgpKey\<close>

record generated_pgp_key =
  f_algorithm :: pgp_key_algorithm
  f_created_at :: string
  f_fingerprint :: string
  f_id :: string
  f_name :: string
  f_public_key_armored :: string
  f_purpose :: pgp_key_purpose
  f_status :: pgp_key_status
  f_tenant_id :: string
  f_private_key_armored :: "string option"

definition to_generated_pgp_key :: "generated_pgp_key \<Rightarrow> json res" where
  "to_generated_pgp_key v = build
     [req_r ''algorithm'' (enum_json pgp_key_algorithm_send (generated_pgp_key.f_algorithm v)),
      req ''created_at'' (JStr (generated_pgp_key.f_created_at v)),
      req ''fingerprint'' (JStr (generated_pgp_key.f_fingerprint v)),
      req ''id'' (JStr (generated_pgp_key.f_id v)),
      req ''name'' (JStr (generated_pgp_key.f_name v)),
      req ''public_key_armored'' (JStr (generated_pgp_key.f_public_key_armored v)),
      req_r ''purpose'' (enum_json pgp_key_purpose_send (generated_pgp_key.f_purpose v)),
      req_r ''status'' (enum_json pgp_key_status_send (generated_pgp_key.f_status v)),
      req ''tenant_id'' (JStr (generated_pgp_key.f_tenant_id v)),
      opt ''private_key_armored'' JStr (generated_pgp_key.f_private_key_armored v)]"

definition from_generated_pgp_key :: "json \<Rightarrow> generated_pgp_key res" where
  "from_generated_pgp_key j =
     and_then (member (get_enum pgp_key_algorithm_from_wire) j ''algorithm'') (\<lambda>algorithm.
     and_then (member get_str j ''created_at'') (\<lambda>created_at.
     and_then (member get_str j ''fingerprint'') (\<lambda>fingerprint.
     and_then (member get_str j ''id'') (\<lambda>id.
     and_then (member get_str j ''name'') (\<lambda>name.
     and_then (member get_str j ''public_key_armored'') (\<lambda>public_key_armored.
     and_then (member (get_enum pgp_key_purpose_from_wire) j ''purpose'') (\<lambda>purpose.
     and_then (member (get_enum pgp_key_status_from_wire) j ''status'') (\<lambda>status.
     and_then (member get_str j ''tenant_id'') (\<lambda>tenant_id.
     and_then (opt_member get_str j ''private_key_armored'') (\<lambda>private_key_armored.
     Inr (generated_pgp_key.make algorithm created_at fingerprint id name public_key_armored purpose status tenant_id private_key_armored)))))))))))"

interpretation generated_pgp_key: codec to_generated_pgp_key from_generated_pgp_key
  by (rule build_codec[OF to_generated_pgp_key_def], simp)
    (rename_tac v j, case_tac v, auto simp: codec_simps from_generated_pgp_key_def generated_pgp_key.make_def
      dest!: pgp_key_algorithm.reads pgp_key_purpose.reads pgp_key_status.reads split: option.splits)

section \<open>GrantedScope\<close>

record granted_scope =
  f_id :: string
  f_name :: string
  f_resource_id :: string

definition to_granted_scope :: "granted_scope \<Rightarrow> json res" where
  "to_granted_scope v = build
     [req ''id'' (JStr (granted_scope.f_id v)),
      req ''name'' (JStr (granted_scope.f_name v)),
      req ''resource_id'' (JStr (granted_scope.f_resource_id v))]"

definition from_granted_scope :: "json \<Rightarrow> granted_scope res" where
  "from_granted_scope j =
     and_then (member get_str j ''id'') (\<lambda>id.
     and_then (member get_str j ''name'') (\<lambda>name.
     and_then (member get_str j ''resource_id'') (\<lambda>resource_id.
     Inr (granted_scope.make id name resource_id))))"

interpretation granted_scope: codec to_granted_scope from_granted_scope
  by (rule build_codec[OF to_granted_scope_def], simp)
    (rename_tac v j, case_tac v, simp add: codec_simps from_granted_scope_def granted_scope.make_def)

section \<open>IssueSamlIdpCredential\<close>

record issue_saml_idp_credential =
  f_issuer_ca_id :: string
  f_slot :: saml_idp_slot
  f_validity_days :: "(64 word) option"

definition to_issue_saml_idp_credential :: "issue_saml_idp_credential \<Rightarrow> json res" where
  "to_issue_saml_idp_credential v = build
     [req ''issuer_ca_id'' (JStr (issue_saml_idp_credential.f_issuer_ca_id v)),
      req_r ''slot'' (enum_json saml_idp_slot_send (issue_saml_idp_credential.f_slot v)),
      opt ''validity_days'' JInt (issue_saml_idp_credential.f_validity_days v)]"

definition from_issue_saml_idp_credential :: "json \<Rightarrow> issue_saml_idp_credential res" where
  "from_issue_saml_idp_credential j =
     and_then (member get_str j ''issuer_ca_id'') (\<lambda>issuer_ca_id.
     and_then (member (get_enum saml_idp_slot_from_wire) j ''slot'') (\<lambda>slot.
     and_then (opt_member get_word j ''validity_days'') (\<lambda>validity_days.
     Inr (issue_saml_idp_credential.make issuer_ca_id slot validity_days))))"

interpretation issue_saml_idp_credential: codec to_issue_saml_idp_credential from_issue_saml_idp_credential
  by (rule build_codec[OF to_issue_saml_idp_credential_def], simp)
    (rename_tac v j, case_tac v, auto simp: codec_simps from_issue_saml_idp_credential_def issue_saml_idp_credential.make_def
      dest!: saml_idp_slot.reads split: option.splits)

section \<open>MdsRefreshOutcome\<close>

record mds_refresh_outcome =
  f_outcome :: string
  f_raw :: string

definition to_mds_refresh_outcome :: "(string \<Rightarrow> json) \<Rightarrow> mds_refresh_outcome \<Rightarrow> json res" where
  "to_mds_refresh_outcome parse v =
     Inr (if is_discarded (parse (mds_refresh_outcome.f_raw v)) then JObj [] else parse (mds_refresh_outcome.f_raw v))"

definition from_mds_refresh_outcome :: "(json \<Rightarrow> string res) \<Rightarrow> json \<Rightarrow> mds_refresh_outcome res" where
  "from_mds_refresh_outcome dmp j =
     and_then (member get_str j ''outcome'') (\<lambda>outcome.
     and_then (dmp j) (\<lambda>raw.
     Inr (mds_refresh_outcome.make outcome raw)))"

section \<open>NetworkPolicyResponse\<close>

record network_policy_response =
  f_session_timeout_max_secs :: "64 word"
  f_tenant_id :: string
  f_updated_at :: "string option"
  f_updated_by :: "string option"
  f_version :: "64 word"

definition to_network_policy_response :: "network_policy_response \<Rightarrow> json res" where
  "to_network_policy_response v = build
     [req ''session_timeout_max_secs'' (JInt (network_policy_response.f_session_timeout_max_secs v)),
      req ''tenant_id'' (JStr (network_policy_response.f_tenant_id v)),
      opt ''updated_at'' JStr (network_policy_response.f_updated_at v),
      opt ''updated_by'' JStr (network_policy_response.f_updated_by v),
      req ''version'' (JInt (network_policy_response.f_version v))]"

definition from_network_policy_response :: "json \<Rightarrow> network_policy_response res" where
  "from_network_policy_response j =
     and_then (member get_word j ''session_timeout_max_secs'') (\<lambda>session_timeout_max_secs.
     and_then (member get_str j ''tenant_id'') (\<lambda>tenant_id.
     and_then (opt_member get_str j ''updated_at'') (\<lambda>updated_at.
     and_then (opt_member get_str j ''updated_by'') (\<lambda>updated_by.
     and_then (member get_word j ''version'') (\<lambda>version.
     Inr (network_policy_response.make session_timeout_max_secs tenant_id updated_at updated_by version))))))"

interpretation network_policy_response: codec to_network_policy_response from_network_policy_response
  by (rule build_codec[OF to_network_policy_response_def], simp)
    (rename_tac v j, case_tac v, simp add: codec_simps from_network_policy_response_def network_policy_response.make_def)

section \<open>OAuth2ClientResponse\<close>

record o_auth2_client_response =
  f_allowed_resources :: "string list"
  f_authn_request_params :: authn_request_params_mode
  f_backchannel_authentication_request_signing_alg :: "ciba_request_signing_alg option"
  f_backchannel_client_notification_endpoint :: "string option"
  f_backchannel_token_delivery_mode :: "ciba_delivery_mode option"
  f_browser_sso :: bool
  f_client_id :: string
  f_created_at :: string
  f_default_idp :: "string option"
  f_dpop_bound_access_tokens :: bool
  f_dpop_require_nonce :: bool
  f_grant_types :: "string list"
  f_id :: string
  f_jwks :: "string option"
  f_jwks_uri :: "string option"
  f_last_authorized_at :: "string option"
  f_managed_by :: managed_by
  f_name :: string
  f_profile :: client_profile
  f_redirect_uris :: "string list"
  f_require_par :: bool
  f_scopes :: "string list"
  f_self_signed_tls_client_auth_thumbprints :: "string list"
  f_tenant_id :: string
  f_tls_client_auth_san_dns :: "string option"
  f_tls_client_auth_san_uri :: "string option"
  f_tls_client_auth_subject_dn :: "string option"
  f_tls_client_certificate_bound_access_tokens :: bool
  f_token_endpoint_auth_method :: client_auth_method
  f_updated_at :: string

definition to_o_auth2_client_response :: "o_auth2_client_response \<Rightarrow> json res" where
  "to_o_auth2_client_response v = build
     [req ''allowed_resources'' (str_arr (o_auth2_client_response.f_allowed_resources v)),
      req_r ''authn_request_params'' (enum_json authn_request_params_mode_send (o_auth2_client_response.f_authn_request_params v)),
      opt_r ''backchannel_authentication_request_signing_alg'' (enum_json ciba_request_signing_alg_send) (o_auth2_client_response.f_backchannel_authentication_request_signing_alg v),
      opt ''backchannel_client_notification_endpoint'' JStr (o_auth2_client_response.f_backchannel_client_notification_endpoint v),
      opt_r ''backchannel_token_delivery_mode'' (enum_json ciba_delivery_mode_send) (o_auth2_client_response.f_backchannel_token_delivery_mode v),
      req ''browser_sso'' (JBool (o_auth2_client_response.f_browser_sso v)),
      req ''client_id'' (JStr (o_auth2_client_response.f_client_id v)),
      req ''created_at'' (JStr (o_auth2_client_response.f_created_at v)),
      opt ''default_idp'' JStr (o_auth2_client_response.f_default_idp v),
      req ''dpop_bound_access_tokens'' (JBool (o_auth2_client_response.f_dpop_bound_access_tokens v)),
      req ''dpop_require_nonce'' (JBool (o_auth2_client_response.f_dpop_require_nonce v)),
      req ''grant_types'' (str_arr (o_auth2_client_response.f_grant_types v)),
      req ''id'' (JStr (o_auth2_client_response.f_id v)),
      opt ''jwks'' JStr (o_auth2_client_response.f_jwks v),
      opt ''jwks_uri'' JStr (o_auth2_client_response.f_jwks_uri v),
      opt ''last_authorized_at'' JStr (o_auth2_client_response.f_last_authorized_at v),
      req_r ''managed_by'' (enum_json managed_by_send (o_auth2_client_response.f_managed_by v)),
      req ''name'' (JStr (o_auth2_client_response.f_name v)),
      req_r ''profile'' (enum_json client_profile_send (o_auth2_client_response.f_profile v)),
      req ''redirect_uris'' (str_arr (o_auth2_client_response.f_redirect_uris v)),
      req ''require_par'' (JBool (o_auth2_client_response.f_require_par v)),
      req ''scopes'' (str_arr (o_auth2_client_response.f_scopes v)),
      req ''self_signed_tls_client_auth_thumbprints'' (str_arr (o_auth2_client_response.f_self_signed_tls_client_auth_thumbprints v)),
      req ''tenant_id'' (JStr (o_auth2_client_response.f_tenant_id v)),
      opt ''tls_client_auth_san_dns'' JStr (o_auth2_client_response.f_tls_client_auth_san_dns v),
      opt ''tls_client_auth_san_uri'' JStr (o_auth2_client_response.f_tls_client_auth_san_uri v),
      opt ''tls_client_auth_subject_dn'' JStr (o_auth2_client_response.f_tls_client_auth_subject_dn v),
      req ''tls_client_certificate_bound_access_tokens'' (JBool (o_auth2_client_response.f_tls_client_certificate_bound_access_tokens v)),
      req_r ''token_endpoint_auth_method'' (enum_json client_auth_method_send (o_auth2_client_response.f_token_endpoint_auth_method v)),
      req ''updated_at'' (JStr (o_auth2_client_response.f_updated_at v))]"

definition from_o_auth2_client_response :: "json \<Rightarrow> o_auth2_client_response res" where
  "from_o_auth2_client_response j =
     and_then (member (get_list get_str) j ''allowed_resources'') (\<lambda>allowed_resources.
     and_then (member (get_enum authn_request_params_mode_from_wire) j ''authn_request_params'') (\<lambda>authn_request_params.
     and_then (opt_member (get_enum ciba_request_signing_alg_from_wire) j ''backchannel_authentication_request_signing_alg'') (\<lambda>backchannel_authentication_request_signing_alg.
     and_then (opt_member get_str j ''backchannel_client_notification_endpoint'') (\<lambda>backchannel_client_notification_endpoint.
     and_then (opt_member (get_enum ciba_delivery_mode_from_wire) j ''backchannel_token_delivery_mode'') (\<lambda>backchannel_token_delivery_mode.
     and_then (member get_bool j ''browser_sso'') (\<lambda>browser_sso.
     and_then (member get_str j ''client_id'') (\<lambda>client_id.
     and_then (member get_str j ''created_at'') (\<lambda>created_at.
     and_then (opt_member get_str j ''default_idp'') (\<lambda>default_idp.
     and_then (member get_bool j ''dpop_bound_access_tokens'') (\<lambda>dpop_bound_access_tokens.
     and_then (member get_bool j ''dpop_require_nonce'') (\<lambda>dpop_require_nonce.
     and_then (member (get_list get_str) j ''grant_types'') (\<lambda>grant_types.
     and_then (member get_str j ''id'') (\<lambda>id.
     and_then (opt_member get_str j ''jwks'') (\<lambda>jwks.
     and_then (opt_member get_str j ''jwks_uri'') (\<lambda>jwks_uri.
     and_then (opt_member get_str j ''last_authorized_at'') (\<lambda>last_authorized_at.
     and_then (member (get_enum managed_by_from_wire) j ''managed_by'') (\<lambda>managed_by.
     and_then (member get_str j ''name'') (\<lambda>name.
     and_then (member (get_enum client_profile_from_wire) j ''profile'') (\<lambda>profile.
     and_then (member (get_list get_str) j ''redirect_uris'') (\<lambda>redirect_uris.
     and_then (member get_bool j ''require_par'') (\<lambda>require_par.
     and_then (member (get_list get_str) j ''scopes'') (\<lambda>scopes.
     and_then (member (get_list get_str) j ''self_signed_tls_client_auth_thumbprints'') (\<lambda>self_signed_tls_client_auth_thumbprints.
     and_then (member get_str j ''tenant_id'') (\<lambda>tenant_id.
     and_then (opt_member get_str j ''tls_client_auth_san_dns'') (\<lambda>tls_client_auth_san_dns.
     and_then (opt_member get_str j ''tls_client_auth_san_uri'') (\<lambda>tls_client_auth_san_uri.
     and_then (opt_member get_str j ''tls_client_auth_subject_dn'') (\<lambda>tls_client_auth_subject_dn.
     and_then (member get_bool j ''tls_client_certificate_bound_access_tokens'') (\<lambda>tls_client_certificate_bound_access_tokens.
     and_then (member (get_enum client_auth_method_from_wire) j ''token_endpoint_auth_method'') (\<lambda>token_endpoint_auth_method.
     and_then (member get_str j ''updated_at'') (\<lambda>updated_at.
     Inr (o_auth2_client_response.make allowed_resources authn_request_params backchannel_authentication_request_signing_alg backchannel_client_notification_endpoint backchannel_token_delivery_mode browser_sso client_id created_at default_idp dpop_bound_access_tokens dpop_require_nonce grant_types id jwks jwks_uri last_authorized_at managed_by name profile redirect_uris require_par scopes self_signed_tls_client_auth_thumbprints tenant_id tls_client_auth_san_dns tls_client_auth_san_uri tls_client_auth_subject_dn tls_client_certificate_bound_access_tokens token_endpoint_auth_method updated_at)))))))))))))))))))))))))))))))"

interpretation o_auth2_client_response: codec to_o_auth2_client_response from_o_auth2_client_response
  by (rule build_codec[OF to_o_auth2_client_response_def], simp)
    (rename_tac v j, case_tac v, auto simp: codec_simps from_o_auth2_client_response_def o_auth2_client_response.make_def
      dest!: authn_request_params_mode.reads ciba_delivery_mode.reads ciba_request_signing_alg.reads client_auth_method.reads client_profile.reads managed_by.reads split: option.splits)

section \<open>OidcAuthorizeRequest\<close>

record oidc_authorize_request =
  f_config_id :: string
  f_nonce :: string
  f_redirect_uri :: string
  f_state :: string

definition to_oidc_authorize_request :: "oidc_authorize_request \<Rightarrow> json res" where
  "to_oidc_authorize_request v = build
     [req ''config_id'' (JStr (oidc_authorize_request.f_config_id v)),
      req ''nonce'' (JStr (oidc_authorize_request.f_nonce v)),
      req ''redirect_uri'' (JStr (oidc_authorize_request.f_redirect_uri v)),
      req ''state'' (JStr (oidc_authorize_request.f_state v))]"

definition from_oidc_authorize_request :: "json \<Rightarrow> oidc_authorize_request res" where
  "from_oidc_authorize_request j =
     and_then (member get_str j ''config_id'') (\<lambda>config_id.
     and_then (member get_str j ''nonce'') (\<lambda>nonce.
     and_then (member get_str j ''redirect_uri'') (\<lambda>redirect_uri.
     and_then (member get_str j ''state'') (\<lambda>state.
     Inr (oidc_authorize_request.make config_id nonce redirect_uri state)))))"

interpretation oidc_authorize_request: codec to_oidc_authorize_request from_oidc_authorize_request
  by (rule build_codec[OF to_oidc_authorize_request_def], simp)
    (rename_tac v j, case_tac v, simp add: codec_simps from_oidc_authorize_request_def oidc_authorize_request.make_def)

section \<open>Permission\<close>

record permission =
  f_action :: string
  f_created_at :: string
  f_description :: string
  f_id :: string
  f_tenant_id :: string
  f_updated_at :: string

definition to_permission :: "permission \<Rightarrow> json res" where
  "to_permission v = build
     [req ''action'' (JStr (permission.f_action v)),
      req ''created_at'' (JStr (permission.f_created_at v)),
      req ''description'' (JStr (permission.f_description v)),
      req ''id'' (JStr (permission.f_id v)),
      req ''tenant_id'' (JStr (permission.f_tenant_id v)),
      req ''updated_at'' (JStr (permission.f_updated_at v))]"

definition from_permission :: "json \<Rightarrow> permission res" where
  "from_permission j =
     and_then (member get_str j ''action'') (\<lambda>action.
     and_then (member get_str j ''created_at'') (\<lambda>created_at.
     and_then (member get_str j ''description'') (\<lambda>description.
     and_then (member get_str j ''id'') (\<lambda>id.
     and_then (member get_str j ''tenant_id'') (\<lambda>tenant_id.
     and_then (member get_str j ''updated_at'') (\<lambda>updated_at.
     Inr (permission.make action created_at description id tenant_id updated_at)))))))"

interpretation permission: codec to_permission from_permission
  by (rule build_codec[OF to_permission_def], simp)
    (rename_tac v j, case_tac v, simp add: codec_simps from_permission_def permission.make_def)

section \<open>PolicyResponse\<close>

record policy_response =
  f_allowed_aaguids :: "string list option"
  f_block_revoked_status :: bool
  f_blocked_aaguids :: "string list option"
  f_min_certification :: "certification_level option"
  f_mode :: attestation_mode
  f_require_fido_certified :: bool
  f_unknown_aaguid :: "unknown_aaguid_action option"
  f_effective_unknown_aaguid :: unknown_aaguid_action

definition to_policy_response :: "policy_response \<Rightarrow> json res" where
  "to_policy_response v = build
     [opt ''allowed_aaguids'' str_arr (policy_response.f_allowed_aaguids v),
      req ''block_revoked_status'' (JBool (policy_response.f_block_revoked_status v)),
      opt ''blocked_aaguids'' str_arr (policy_response.f_blocked_aaguids v),
      opt_r ''min_certification'' (enum_json certification_level_send) (policy_response.f_min_certification v),
      req_r ''mode'' (enum_json attestation_mode_send (policy_response.f_mode v)),
      req ''require_fido_certified'' (JBool (policy_response.f_require_fido_certified v)),
      opt_r ''unknown_aaguid'' (enum_json unknown_aaguid_action_send) (policy_response.f_unknown_aaguid v),
      req_r ''effective_unknown_aaguid'' (enum_json unknown_aaguid_action_send (policy_response.f_effective_unknown_aaguid v))]"

definition from_policy_response :: "json \<Rightarrow> policy_response res" where
  "from_policy_response j =
     and_then (opt_member (get_list get_str) j ''allowed_aaguids'') (\<lambda>allowed_aaguids.
     and_then (member get_bool j ''block_revoked_status'') (\<lambda>block_revoked_status.
     and_then (opt_member (get_list get_str) j ''blocked_aaguids'') (\<lambda>blocked_aaguids.
     and_then (opt_member (get_enum certification_level_from_wire) j ''min_certification'') (\<lambda>min_certification.
     and_then (member (get_enum attestation_mode_from_wire) j ''mode'') (\<lambda>mode.
     and_then (member get_bool j ''require_fido_certified'') (\<lambda>require_fido_certified.
     and_then (opt_member (get_enum unknown_aaguid_action_from_wire) j ''unknown_aaguid'') (\<lambda>unknown_aaguid.
     and_then (member (get_enum unknown_aaguid_action_from_wire) j ''effective_unknown_aaguid'') (\<lambda>effective_unknown_aaguid.
     Inr (policy_response.make allowed_aaguids block_revoked_status blocked_aaguids min_certification mode require_fido_certified unknown_aaguid effective_unknown_aaguid)))))))))"

interpretation policy_response: codec to_policy_response from_policy_response
  by (rule build_codec[OF to_policy_response_def], simp)
    (rename_tac v j, case_tac v, auto simp: codec_simps from_policy_response_def policy_response.make_def
      dest!: attestation_mode.reads certification_level.reads unknown_aaguid_action.reads split: option.splits)

section \<open>ResolvedPermissionGrant\<close>

record resolved_permission_grant =
  f_effect :: permission_effect
  f_permission :: permission
  f_scope_ids :: "string list"
  f_scopes :: "granted_scope list"

definition to_resolved_permission_grant :: "resolved_permission_grant \<Rightarrow> json res" where
  "to_resolved_permission_grant v = build
     [req_r ''effect'' (enum_json permission_effect_send (resolved_permission_grant.f_effect v)),
      req_r ''permission'' (to_permission (resolved_permission_grant.f_permission v)),
      req ''scope_ids'' (str_arr (resolved_permission_grant.f_scope_ids v)),
      req_r ''scopes'' (arr_of to_granted_scope (resolved_permission_grant.f_scopes v))]"

definition from_resolved_permission_grant :: "json \<Rightarrow> resolved_permission_grant res" where
  "from_resolved_permission_grant j =
     and_then (member (get_enum permission_effect_from_wire) j ''effect'') (\<lambda>effect.
     and_then (member from_permission j ''permission'') (\<lambda>permission.
     and_then (member (get_list get_str) j ''scope_ids'') (\<lambda>scope_ids.
     and_then (member (get_list from_granted_scope) j ''scopes'') (\<lambda>scopes.
     Inr (resolved_permission_grant.make effect permission scope_ids scopes)))))"

interpretation resolved_permission_grant: codec to_resolved_permission_grant from_resolved_permission_grant
  by (rule build_codec[OF to_resolved_permission_grant_def], simp)
    (rename_tac v j, case_tac v, auto simp: codec_simps from_resolved_permission_grant_def resolved_permission_grant.make_def
      dest!: codec.reads[OF granted_scope.lists] granted_scope.reads permission.reads permission_effect.reads split: option.splits)

section \<open>ServiceAccountResponse\<close>

record service_account_response =
  f_client_id :: string
  f_created_at :: string
  f_description :: "string option"
  f_id :: string
  f_name :: string
  f_status :: user_status
  f_tenant_id :: string
  f_updated_at :: string

definition to_service_account_response :: "service_account_response \<Rightarrow> json res" where
  "to_service_account_response v = build
     [req ''client_id'' (JStr (service_account_response.f_client_id v)),
      req ''created_at'' (JStr (service_account_response.f_created_at v)),
      opt ''description'' JStr (service_account_response.f_description v),
      req ''id'' (JStr (service_account_response.f_id v)),
      req ''name'' (JStr (service_account_response.f_name v)),
      req_r ''status'' (enum_json user_status_send (service_account_response.f_status v)),
      req ''tenant_id'' (JStr (service_account_response.f_tenant_id v)),
      req ''updated_at'' (JStr (service_account_response.f_updated_at v))]"

definition from_service_account_response :: "json \<Rightarrow> service_account_response res" where
  "from_service_account_response j =
     and_then (member get_str j ''client_id'') (\<lambda>client_id.
     and_then (member get_str j ''created_at'') (\<lambda>created_at.
     and_then (opt_member get_str j ''description'') (\<lambda>description.
     and_then (member get_str j ''id'') (\<lambda>id.
     and_then (member get_str j ''name'') (\<lambda>name.
     and_then (member (get_enum user_status_from_wire) j ''status'') (\<lambda>status.
     and_then (member get_str j ''tenant_id'') (\<lambda>tenant_id.
     and_then (member get_str j ''updated_at'') (\<lambda>updated_at.
     Inr (service_account_response.make client_id created_at description id name status tenant_id updated_at)))))))))"

interpretation service_account_response: codec to_service_account_response from_service_account_response
  by (rule build_codec[OF to_service_account_response_def], simp)
    (rename_tac v j, case_tac v, auto simp: codec_simps from_service_account_response_def service_account_response.make_def
      dest!: user_status.reads split: option.splits)

section \<open>RoleServiceAccountAssignment\<close>

record role_service_account_assignment =
  f_inherit :: "bool option"
  f_resource_id :: "string option"
  f_service_account :: service_account_response
  f_tenant_scope :: "string list option"

definition to_role_service_account_assignment :: "role_service_account_assignment \<Rightarrow> json res" where
  "to_role_service_account_assignment v = build
     [opt ''inherit'' JBool (role_service_account_assignment.f_inherit v),
      opt ''resource_id'' JStr (role_service_account_assignment.f_resource_id v),
      req_r ''service_account'' (to_service_account_response (role_service_account_assignment.f_service_account v)),
      opt ''tenant_scope'' str_arr (non_empty (role_service_account_assignment.f_tenant_scope v))]"

definition from_role_service_account_assignment :: "json \<Rightarrow> role_service_account_assignment res" where
  "from_role_service_account_assignment j =
     and_then (opt_member get_bool j ''inherit'') (\<lambda>inherit.
     and_then (opt_member get_str j ''resource_id'') (\<lambda>resource_id.
     and_then (member from_service_account_response j ''service_account'') (\<lambda>service_account.
     and_then (opt_member (get_list get_str) j ''tenant_scope'') (\<lambda>tenant_scope.
     Inr (role_service_account_assignment.make inherit resource_id service_account tenant_scope)))))"

section \<open>RotateSecretResponse\<close>

record rotate_secret_response =
  f_client_secret :: string

definition to_rotate_secret_response :: "rotate_secret_response \<Rightarrow> json res" where
  "to_rotate_secret_response v = build
     [req ''client_secret'' (JStr (rotate_secret_response.f_client_secret v))]"

definition from_rotate_secret_response :: "json \<Rightarrow> rotate_secret_response res" where
  "from_rotate_secret_response j =
     and_then (member get_str j ''client_secret'') (\<lambda>client_secret.
     Inr (rotate_secret_response.make client_secret))"

interpretation rotate_secret_response: codec to_rotate_secret_response from_rotate_secret_response
  by (rule build_codec[OF to_rotate_secret_response_def], simp)
    (rename_tac v j, case_tac v, simp add: codec_simps from_rotate_secret_response_def rotate_secret_response.make_def)

section \<open>ScimReconcileAccepted\<close>

record scim_reconcile_accepted =
  f_status :: string
  f_target_id :: string

definition to_scim_reconcile_accepted :: "scim_reconcile_accepted \<Rightarrow> json res" where
  "to_scim_reconcile_accepted v = build
     [req ''status'' (JStr (scim_reconcile_accepted.f_status v)),
      req ''target_id'' (JStr (scim_reconcile_accepted.f_target_id v))]"

definition from_scim_reconcile_accepted :: "json \<Rightarrow> scim_reconcile_accepted res" where
  "from_scim_reconcile_accepted j =
     and_then (member get_str j ''status'') (\<lambda>status.
     and_then (member get_str j ''target_id'') (\<lambda>target_id.
     Inr (scim_reconcile_accepted.make status target_id)))"

interpretation scim_reconcile_accepted: codec to_scim_reconcile_accepted from_scim_reconcile_accepted
  by (rule build_codec[OF to_scim_reconcile_accepted_def], simp)
    (rename_tac v j, case_tac v, simp add: codec_simps from_scim_reconcile_accepted_def scim_reconcile_accepted.make_def)

section \<open>ScimTokenResponse\<close>

record scim_token_response =
  f_created_at :: string
  f_created_by :: string
  f_expires_at :: string
  f_id :: string
  f_last_used_at :: "string option"
  f_name :: string
  f_revoked_at :: "string option"
  f_status :: scim_token_status
  f_tenant_id :: string
  f_user_id :: string

definition to_scim_token_response :: "scim_token_response \<Rightarrow> json res" where
  "to_scim_token_response v = build
     [req ''created_at'' (JStr (scim_token_response.f_created_at v)),
      req ''created_by'' (JStr (scim_token_response.f_created_by v)),
      req ''expires_at'' (JStr (scim_token_response.f_expires_at v)),
      req ''id'' (JStr (scim_token_response.f_id v)),
      opt ''last_used_at'' JStr (scim_token_response.f_last_used_at v),
      req ''name'' (JStr (scim_token_response.f_name v)),
      opt ''revoked_at'' JStr (scim_token_response.f_revoked_at v),
      req_r ''status'' (enum_json scim_token_status_send (scim_token_response.f_status v)),
      req ''tenant_id'' (JStr (scim_token_response.f_tenant_id v)),
      req ''user_id'' (JStr (scim_token_response.f_user_id v))]"

definition from_scim_token_response :: "json \<Rightarrow> scim_token_response res" where
  "from_scim_token_response j =
     and_then (member get_str j ''created_at'') (\<lambda>created_at.
     and_then (member get_str j ''created_by'') (\<lambda>created_by.
     and_then (member get_str j ''expires_at'') (\<lambda>expires_at.
     and_then (member get_str j ''id'') (\<lambda>id.
     and_then (opt_member get_str j ''last_used_at'') (\<lambda>last_used_at.
     and_then (member get_str j ''name'') (\<lambda>name.
     and_then (opt_member get_str j ''revoked_at'') (\<lambda>revoked_at.
     and_then (member (get_enum scim_token_status_from_wire) j ''status'') (\<lambda>status.
     and_then (member get_str j ''tenant_id'') (\<lambda>tenant_id.
     and_then (member get_str j ''user_id'') (\<lambda>user_id.
     Inr (scim_token_response.make created_at created_by expires_at id last_used_at name revoked_at status tenant_id user_id)))))))))))"

interpretation scim_token_response: codec to_scim_token_response from_scim_token_response
  by (rule build_codec[OF to_scim_token_response_def], simp)
    (rename_tac v j, case_tac v, auto simp: codec_simps from_scim_token_response_def scim_token_response.make_def
      dest!: scim_token_status.reads split: option.splits)

section \<open>Scope\<close>

record scope =
  f_created_at :: string
  f_description :: string
  f_id :: string
  f_name :: string
  f_resource_id :: string
  f_tenant_id :: string
  f_updated_at :: string

definition to_scope :: "scope \<Rightarrow> json res" where
  "to_scope v = build
     [req ''created_at'' (JStr (scope.f_created_at v)),
      req ''description'' (JStr (scope.f_description v)),
      req ''id'' (JStr (scope.f_id v)),
      req ''name'' (JStr (scope.f_name v)),
      req ''resource_id'' (JStr (scope.f_resource_id v)),
      req ''tenant_id'' (JStr (scope.f_tenant_id v)),
      req ''updated_at'' (JStr (scope.f_updated_at v))]"

definition from_scope :: "json \<Rightarrow> scope res" where
  "from_scope j =
     and_then (member get_str j ''created_at'') (\<lambda>created_at.
     and_then (member get_str j ''description'') (\<lambda>description.
     and_then (member get_str j ''id'') (\<lambda>id.
     and_then (member get_str j ''name'') (\<lambda>name.
     and_then (member get_str j ''resource_id'') (\<lambda>resource_id.
     and_then (member get_str j ''tenant_id'') (\<lambda>tenant_id.
     and_then (member get_str j ''updated_at'') (\<lambda>updated_at.
     Inr (scope.make created_at description id name resource_id tenant_id updated_at))))))))"

interpretation scope: codec to_scope from_scope
  by (rule build_codec[OF to_scope_def], simp)
    (rename_tac v j, case_tac v, simp add: codec_simps from_scope_def scope.make_def)

section \<open>SetDirectoryConfig\<close>

record set_directory_config =
  f_base_dn :: string
  f_bind_dn :: string
  f_bind_secret :: "string option"
  f_enabled :: bool
  f_group_base_dn :: "string option"
  f_group_filter :: "string option"
  f_group_mappings :: "group_mapping list option"
  f_group_member_attribute :: "string option"
  f_group_nesting_depth :: "(64 word) option"
  f_jit_provisioning :: "bool option"
  f_kind :: directory_kind
  f_start_tls :: bool
  f_sync_interval_secs :: "(64 word) option"
  f_trust_anchors_pem :: "string list option"
  f_url :: string
  f_user_attribute_map :: "user_attribute_map option"
  f_user_filter :: string

definition to_set_directory_config :: "set_directory_config \<Rightarrow> json res" where
  "to_set_directory_config v = build
     [req ''base_dn'' (JStr (set_directory_config.f_base_dn v)),
      req ''bind_dn'' (JStr (set_directory_config.f_bind_dn v)),
      opt ''bind_secret'' JStr (set_directory_config.f_bind_secret v),
      req ''enabled'' (JBool (set_directory_config.f_enabled v)),
      opt ''group_base_dn'' JStr (set_directory_config.f_group_base_dn v),
      opt ''group_filter'' JStr (set_directory_config.f_group_filter v),
      opt_r ''group_mappings'' (arr_of to_group_mapping) (set_directory_config.f_group_mappings v),
      opt ''group_member_attribute'' JStr (set_directory_config.f_group_member_attribute v),
      opt ''group_nesting_depth'' JInt (set_directory_config.f_group_nesting_depth v),
      opt ''jit_provisioning'' JBool (set_directory_config.f_jit_provisioning v),
      req_r ''kind'' (enum_json directory_kind_send (set_directory_config.f_kind v)),
      req ''start_tls'' (JBool (set_directory_config.f_start_tls v)),
      opt ''sync_interval_secs'' JInt (set_directory_config.f_sync_interval_secs v),
      opt ''trust_anchors_pem'' str_arr (set_directory_config.f_trust_anchors_pem v),
      req ''url'' (JStr (set_directory_config.f_url v)),
      opt_r ''user_attribute_map'' to_user_attribute_map (set_directory_config.f_user_attribute_map v),
      req ''user_filter'' (JStr (set_directory_config.f_user_filter v))]"

definition from_set_directory_config :: "json \<Rightarrow> set_directory_config res" where
  "from_set_directory_config j =
     and_then (member get_str j ''base_dn'') (\<lambda>base_dn.
     and_then (member get_str j ''bind_dn'') (\<lambda>bind_dn.
     and_then (opt_member get_str j ''bind_secret'') (\<lambda>bind_secret.
     and_then (member get_bool j ''enabled'') (\<lambda>enabled.
     and_then (opt_member get_str j ''group_base_dn'') (\<lambda>group_base_dn.
     and_then (opt_member get_str j ''group_filter'') (\<lambda>group_filter.
     and_then (opt_member (get_list from_group_mapping) j ''group_mappings'') (\<lambda>group_mappings.
     and_then (opt_member get_str j ''group_member_attribute'') (\<lambda>group_member_attribute.
     and_then (opt_member get_word j ''group_nesting_depth'') (\<lambda>group_nesting_depth.
     and_then (opt_member get_bool j ''jit_provisioning'') (\<lambda>jit_provisioning.
     and_then (member (get_enum directory_kind_from_wire) j ''kind'') (\<lambda>kind.
     and_then (member get_bool j ''start_tls'') (\<lambda>start_tls.
     and_then (opt_member get_word j ''sync_interval_secs'') (\<lambda>sync_interval_secs.
     and_then (opt_member (get_list get_str) j ''trust_anchors_pem'') (\<lambda>trust_anchors_pem.
     and_then (member get_str j ''url'') (\<lambda>url.
     and_then (opt_member from_user_attribute_map j ''user_attribute_map'') (\<lambda>user_attribute_map.
     and_then (member get_str j ''user_filter'') (\<lambda>user_filter.
     Inr (set_directory_config.make base_dn bind_dn bind_secret enabled group_base_dn group_filter group_mappings group_member_attribute group_nesting_depth jit_provisioning kind start_tls sync_interval_secs trust_anchors_pem url user_attribute_map user_filter))))))))))))))))))"

interpretation set_directory_config: codec to_set_directory_config from_set_directory_config
  by (rule build_codec[OF to_set_directory_config_def], simp)
    (rename_tac v j, case_tac v, auto simp: codec_simps from_set_directory_config_def set_directory_config.make_def
      dest!: codec.reads[OF group_mapping.lists] directory_kind.reads group_mapping.reads user_attribute_map.reads split: option.splits)

section \<open>SetOrgEmailConfig\<close>

record set_org_email_config =
  f_enabled :: bool
  f_from_email :: string
  f_from_name :: string
  f_provider :: provider_config
  f_reply_to :: "string option"

definition to_set_org_email_config :: "(string \<Rightarrow> json) \<Rightarrow> set_org_email_config \<Rightarrow> json res" where
  "to_set_org_email_config parse v = build
     [req ''enabled'' (JBool (set_org_email_config.f_enabled v)),
      req ''from_email'' (JStr (set_org_email_config.f_from_email v)),
      req ''from_name'' (JStr (set_org_email_config.f_from_name v)),
      req_r ''provider'' (to_provider_config parse (set_org_email_config.f_provider v)),
      opt ''reply_to'' JStr (set_org_email_config.f_reply_to v)]"

definition from_set_org_email_config :: "(json \<Rightarrow> string res) \<Rightarrow> json \<Rightarrow> set_org_email_config res" where
  "from_set_org_email_config dmp j =
     and_then (member get_bool j ''enabled'') (\<lambda>enabled.
     and_then (member get_str j ''from_email'') (\<lambda>from_email.
     and_then (member get_str j ''from_name'') (\<lambda>from_name.
     and_then (member (from_provider_config dmp) j ''provider'') (\<lambda>provider.
     and_then (opt_member get_str j ''reply_to'') (\<lambda>reply_to.
     Inr (set_org_email_config.make enabled from_email from_name provider reply_to))))))"

section \<open>SignedAuditBatch\<close>

record signed_audit_batch =
  f_batch_id :: string
  f_entry_ids :: "string list"
  f_signature_armored :: string
  f_signed_at :: string
  f_signing_key_id :: string
  f_tenant_id :: string

definition to_signed_audit_batch :: "signed_audit_batch \<Rightarrow> json res" where
  "to_signed_audit_batch v = build
     [req ''batch_id'' (JStr (signed_audit_batch.f_batch_id v)),
      req ''entry_ids'' (str_arr (signed_audit_batch.f_entry_ids v)),
      req ''signature_armored'' (JStr (signed_audit_batch.f_signature_armored v)),
      req ''signed_at'' (JStr (signed_audit_batch.f_signed_at v)),
      req ''signing_key_id'' (JStr (signed_audit_batch.f_signing_key_id v)),
      req ''tenant_id'' (JStr (signed_audit_batch.f_tenant_id v))]"

definition from_signed_audit_batch :: "json \<Rightarrow> signed_audit_batch res" where
  "from_signed_audit_batch j =
     and_then (member get_str j ''batch_id'') (\<lambda>batch_id.
     and_then (member (get_list get_str) j ''entry_ids'') (\<lambda>entry_ids.
     and_then (member get_str j ''signature_armored'') (\<lambda>signature_armored.
     and_then (member get_str j ''signed_at'') (\<lambda>signed_at.
     and_then (member get_str j ''signing_key_id'') (\<lambda>signing_key_id.
     and_then (member get_str j ''tenant_id'') (\<lambda>tenant_id.
     Inr (signed_audit_batch.make batch_id entry_ids signature_armored signed_at signing_key_id tenant_id)))))))"

interpretation signed_audit_batch: codec to_signed_audit_batch from_signed_audit_batch
  by (rule build_codec[OF to_signed_audit_batch_def], simp)
    (rename_tac v j, case_tac v, simp add: codec_simps from_signed_audit_batch_def signed_audit_batch.make_def)

section \<open>SsfStream\<close>

record ssf_stream =
  f_audience :: string
  f_authorization_header_set :: bool
  f_created_at :: string
  f_delivery_method :: ssf_delivery_method
  f_description :: "string option"
  f_endpoint_url :: "string option"
  f_events_allowed :: "string list"
  f_events_delivered :: "string list"
  f_events_requested :: "string list"
  f_id :: string
  f_last_verification_at :: "string option"
  f_receiver_client_id :: string
  f_status :: ssf_stream_status
  f_status_actor :: ssf_status_actor
  f_status_reason :: "string option"
  f_subject_format :: ssf_subject_format
  f_tenant_id :: string
  f_transmitter_active :: bool
  f_transmitter_inactive_reason :: "string option"
  f_updated_at :: string

definition to_ssf_stream :: "ssf_stream \<Rightarrow> json res" where
  "to_ssf_stream v = build
     [req ''audience'' (JStr (ssf_stream.f_audience v)),
      req ''authorization_header_set'' (JBool (ssf_stream.f_authorization_header_set v)),
      req ''created_at'' (JStr (ssf_stream.f_created_at v)),
      req_r ''delivery_method'' (enum_json ssf_delivery_method_send (ssf_stream.f_delivery_method v)),
      opt ''description'' JStr (ssf_stream.f_description v),
      opt ''endpoint_url'' JStr (ssf_stream.f_endpoint_url v),
      req ''events_allowed'' (str_arr (ssf_stream.f_events_allowed v)),
      req ''events_delivered'' (str_arr (ssf_stream.f_events_delivered v)),
      req ''events_requested'' (str_arr (ssf_stream.f_events_requested v)),
      req ''id'' (JStr (ssf_stream.f_id v)),
      opt ''last_verification_at'' JStr (ssf_stream.f_last_verification_at v),
      req ''receiver_client_id'' (JStr (ssf_stream.f_receiver_client_id v)),
      req_r ''status'' (enum_json ssf_stream_status_send (ssf_stream.f_status v)),
      req_r ''status_actor'' (enum_json ssf_status_actor_send (ssf_stream.f_status_actor v)),
      opt ''status_reason'' JStr (ssf_stream.f_status_reason v),
      req_r ''subject_format'' (enum_json ssf_subject_format_send (ssf_stream.f_subject_format v)),
      req ''tenant_id'' (JStr (ssf_stream.f_tenant_id v)),
      req ''transmitter_active'' (JBool (ssf_stream.f_transmitter_active v)),
      opt ''transmitter_inactive_reason'' JStr (ssf_stream.f_transmitter_inactive_reason v),
      req ''updated_at'' (JStr (ssf_stream.f_updated_at v))]"

definition from_ssf_stream :: "json \<Rightarrow> ssf_stream res" where
  "from_ssf_stream j =
     and_then (member get_str j ''audience'') (\<lambda>audience.
     and_then (member get_bool j ''authorization_header_set'') (\<lambda>authorization_header_set.
     and_then (member get_str j ''created_at'') (\<lambda>created_at.
     and_then (member (get_enum ssf_delivery_method_from_wire) j ''delivery_method'') (\<lambda>delivery_method.
     and_then (opt_member get_str j ''description'') (\<lambda>description.
     and_then (opt_member get_str j ''endpoint_url'') (\<lambda>endpoint_url.
     and_then (member (get_list get_str) j ''events_allowed'') (\<lambda>events_allowed.
     and_then (member (get_list get_str) j ''events_delivered'') (\<lambda>events_delivered.
     and_then (member (get_list get_str) j ''events_requested'') (\<lambda>events_requested.
     and_then (member get_str j ''id'') (\<lambda>id.
     and_then (opt_member get_str j ''last_verification_at'') (\<lambda>last_verification_at.
     and_then (member get_str j ''receiver_client_id'') (\<lambda>receiver_client_id.
     and_then (member (get_enum ssf_stream_status_from_wire) j ''status'') (\<lambda>status.
     and_then (member (get_enum ssf_status_actor_from_wire) j ''status_actor'') (\<lambda>status_actor.
     and_then (opt_member get_str j ''status_reason'') (\<lambda>status_reason.
     and_then (member (get_enum ssf_subject_format_from_wire) j ''subject_format'') (\<lambda>subject_format.
     and_then (member get_str j ''tenant_id'') (\<lambda>tenant_id.
     and_then (member get_bool j ''transmitter_active'') (\<lambda>transmitter_active.
     and_then (opt_member get_str j ''transmitter_inactive_reason'') (\<lambda>transmitter_inactive_reason.
     and_then (member get_str j ''updated_at'') (\<lambda>updated_at.
     Inr (ssf_stream.make audience authorization_header_set created_at delivery_method description endpoint_url events_allowed events_delivered events_requested id last_verification_at receiver_client_id status status_actor status_reason subject_format tenant_id transmitter_active transmitter_inactive_reason updated_at)))))))))))))))))))))"

interpretation ssf_stream: codec to_ssf_stream from_ssf_stream
  by (rule build_codec[OF to_ssf_stream_def], simp)
    (rename_tac v j, case_tac v, auto simp: codec_simps from_ssf_stream_def ssf_stream.make_def
      dest!: ssf_delivery_method.reads ssf_status_actor.reads ssf_stream_status.reads ssf_subject_format.reads split: option.splits)

section \<open>UpdateDirectoryConfig\<close>

record update_directory_config =
  f_base_dn :: "string option"
  f_bind_dn :: "string option"
  f_bind_secret :: "string option"
  f_enabled :: "bool option"
  f_group_base_dn :: "string option option"
  f_group_filter :: "string option option"
  f_group_mappings :: "group_mapping list option"
  f_group_member_attribute :: "string option"
  f_group_nesting_depth :: "(64 word) option"
  f_jit_provisioning :: "bool option"
  f_kind :: "directory_kind option"
  f_start_tls :: "bool option"
  f_sync_interval_secs :: "(64 word) option"
  f_trust_anchors_pem :: "string list option"
  f_url :: "string option"
  f_user_attribute_map :: "user_attribute_map option"
  f_user_filter :: "string option"

definition to_update_directory_config :: "update_directory_config \<Rightarrow> json res" where
  "to_update_directory_config v = build
     [opt ''base_dn'' JStr (update_directory_config.f_base_dn v),
      opt ''bind_dn'' JStr (update_directory_config.f_bind_dn v),
      opt ''bind_secret'' JStr (update_directory_config.f_bind_secret v),
      opt ''enabled'' JBool (update_directory_config.f_enabled v),
      nullable ''group_base_dn'' JStr (update_directory_config.f_group_base_dn v),
      nullable ''group_filter'' JStr (update_directory_config.f_group_filter v),
      opt_r ''group_mappings'' (arr_of to_group_mapping) (update_directory_config.f_group_mappings v),
      opt ''group_member_attribute'' JStr (update_directory_config.f_group_member_attribute v),
      opt ''group_nesting_depth'' JInt (update_directory_config.f_group_nesting_depth v),
      opt ''jit_provisioning'' JBool (update_directory_config.f_jit_provisioning v),
      opt_r ''kind'' (enum_json directory_kind_send) (update_directory_config.f_kind v),
      opt ''start_tls'' JBool (update_directory_config.f_start_tls v),
      opt ''sync_interval_secs'' JInt (update_directory_config.f_sync_interval_secs v),
      opt ''trust_anchors_pem'' str_arr (update_directory_config.f_trust_anchors_pem v),
      opt ''url'' JStr (update_directory_config.f_url v),
      opt_r ''user_attribute_map'' to_user_attribute_map (update_directory_config.f_user_attribute_map v),
      opt ''user_filter'' JStr (update_directory_config.f_user_filter v)]"

definition from_update_directory_config :: "json \<Rightarrow> update_directory_config res" where
  "from_update_directory_config j =
     and_then (opt_member get_str j ''base_dn'') (\<lambda>base_dn.
     and_then (opt_member get_str j ''bind_dn'') (\<lambda>bind_dn.
     and_then (opt_member get_str j ''bind_secret'') (\<lambda>bind_secret.
     and_then (opt_member get_bool j ''enabled'') (\<lambda>enabled.
     and_then (nullable_member get_str j ''group_base_dn'') (\<lambda>group_base_dn.
     and_then (nullable_member get_str j ''group_filter'') (\<lambda>group_filter.
     and_then (opt_member (get_list from_group_mapping) j ''group_mappings'') (\<lambda>group_mappings.
     and_then (opt_member get_str j ''group_member_attribute'') (\<lambda>group_member_attribute.
     and_then (opt_member get_word j ''group_nesting_depth'') (\<lambda>group_nesting_depth.
     and_then (opt_member get_bool j ''jit_provisioning'') (\<lambda>jit_provisioning.
     and_then (opt_member (get_enum directory_kind_from_wire) j ''kind'') (\<lambda>kind.
     and_then (opt_member get_bool j ''start_tls'') (\<lambda>start_tls.
     and_then (opt_member get_word j ''sync_interval_secs'') (\<lambda>sync_interval_secs.
     and_then (opt_member (get_list get_str) j ''trust_anchors_pem'') (\<lambda>trust_anchors_pem.
     and_then (opt_member get_str j ''url'') (\<lambda>url.
     and_then (opt_member from_user_attribute_map j ''user_attribute_map'') (\<lambda>user_attribute_map.
     and_then (opt_member get_str j ''user_filter'') (\<lambda>user_filter.
     Inr (update_directory_config.make base_dn bind_dn bind_secret enabled group_base_dn group_filter group_mappings group_member_attribute group_nesting_depth jit_provisioning kind start_tls sync_interval_secs trust_anchors_pem url user_attribute_map user_filter))))))))))))))))))"

interpretation update_directory_config: codec to_update_directory_config from_update_directory_config
  by (rule build_codec[OF to_update_directory_config_def], simp)
    (rename_tac v j, case_tac v, auto simp: codec_simps from_update_directory_config_def update_directory_config.make_def
      dest!: codec.reads[OF group_mapping.lists] directory_kind.reads group_mapping.reads user_attribute_map.reads split: option.splits)

section \<open>UpdateOrganizationRequest\<close>

record update_organization_request =
  f_metadata :: "string option"
  f_name :: "string option"
  f_slug :: "string option"

definition to_update_organization_request :: "(string \<Rightarrow> json) \<Rightarrow> update_organization_request \<Rightarrow> json res" where
  "to_update_organization_request parse v = build
     [opt_embedded parse ''metadata'' (update_organization_request.f_metadata v),
      opt ''name'' JStr (update_organization_request.f_name v),
      opt ''slug'' JStr (update_organization_request.f_slug v)]"

definition from_update_organization_request :: "(json \<Rightarrow> string res) \<Rightarrow> json \<Rightarrow> update_organization_request res" where
  "from_update_organization_request dmp j =
     and_then (opt_member dmp j ''metadata'') (\<lambda>metadata.
     and_then (opt_member get_str j ''name'') (\<lambda>name.
     and_then (opt_member get_str j ''slug'') (\<lambda>slug.
     Inr (update_organization_request.make metadata name slug))))"

section \<open>UpdateServiceAccount\<close>

record update_service_account =
  f_description :: "string option"
  f_name :: "string option"
  f_status :: "user_status option"

definition to_update_service_account :: "update_service_account \<Rightarrow> json res" where
  "to_update_service_account v = build
     [opt ''description'' JStr (update_service_account.f_description v),
      opt ''name'' JStr (update_service_account.f_name v),
      opt_r ''status'' (enum_json user_status_send) (update_service_account.f_status v)]"

definition from_update_service_account :: "json \<Rightarrow> update_service_account res" where
  "from_update_service_account j =
     and_then (opt_member get_str j ''description'') (\<lambda>description.
     and_then (opt_member get_str j ''name'') (\<lambda>name.
     and_then (opt_member (get_enum user_status_from_wire) j ''status'') (\<lambda>status.
     Inr (update_service_account.make description name status))))"

interpretation update_service_account: codec to_update_service_account from_update_service_account
  by (rule build_codec[OF to_update_service_account_def], simp)
    (rename_tac v j, case_tac v, auto simp: codec_simps from_update_service_account_def update_service_account.make_def
      dest!: user_status.reads split: option.splits)

section \<open>UpdateUserRequest\<close>

record update_user_request =
  f_email :: "string option"
  f_metadata :: "string option"
  f_status :: "user_status option"
  f_username :: "string option"

definition to_update_user_request :: "(string \<Rightarrow> json) \<Rightarrow> update_user_request \<Rightarrow> json res" where
  "to_update_user_request parse v = build
     [opt ''email'' JStr (update_user_request.f_email v),
      opt_embedded parse ''metadata'' (update_user_request.f_metadata v),
      opt_r ''status'' (enum_json user_status_send) (update_user_request.f_status v),
      opt ''username'' JStr (update_user_request.f_username v)]"

definition from_update_user_request :: "(json \<Rightarrow> string res) \<Rightarrow> json \<Rightarrow> update_user_request res" where
  "from_update_user_request dmp j =
     and_then (opt_member get_str j ''email'') (\<lambda>email.
     and_then (opt_member dmp j ''metadata'') (\<lambda>metadata.
     and_then (opt_member (get_enum user_status_from_wire) j ''status'') (\<lambda>status.
     and_then (opt_member get_str j ''username'') (\<lambda>username.
     Inr (update_user_request.make email metadata status username)))))"

end
