(* ===== verification/Models3.thy ===== *)
theory Models3
  imports ModelEnums
begin

text \<open>
  Structures of \<open>include/axiam/management_models.hpp\<close> (AddMemberRequest to UpdateTenant and the structures they use), each with its
  encoder and decoder of \<open>src/management_models.cpp\<close>, and, where the members are kept as
  values and not as JSON text, the interpretation of the locale \<open>codec\<close>: what is decoded from
  the encoding is what was encoded.
\<close>

section \<open>AddMemberRequest\<close>

record add_member_request =
  f_user_id :: string

definition to_add_member_request :: "add_member_request \<Rightarrow> json res" where
  "to_add_member_request v = build
     [req ''user_id'' (JStr (add_member_request.f_user_id v))]"

definition from_add_member_request :: "json \<Rightarrow> add_member_request res" where
  "from_add_member_request j =
     and_then (member get_str j ''user_id'') (\<lambda>user_id.
     Inr (add_member_request.make user_id))"

interpretation add_member_request: codec to_add_member_request from_add_member_request
  by (rule build_codec[OF to_add_member_request_def], simp)
    (rename_tac v j, case_tac v, simp add: codec_simps from_add_member_request_def add_member_request.make_def)

section \<open>ApiProviderConfig\<close>

record api_provider_config =
  f_api_url :: "string option"

definition to_api_provider_config :: "api_provider_config \<Rightarrow> json res" where
  "to_api_provider_config v = build
     [opt ''api_url'' JStr (api_provider_config.f_api_url v)]"

definition from_api_provider_config :: "json \<Rightarrow> api_provider_config res" where
  "from_api_provider_config j =
     and_then (opt_member get_str j ''api_url'') (\<lambda>api_url.
     Inr (api_provider_config.make api_url))"

interpretation api_provider_config: codec to_api_provider_config from_api_provider_config
  by (rule build_codec[OF to_api_provider_config_def], simp)
    (rename_tac v j, case_tac v, simp add: codec_simps from_api_provider_config_def api_provider_config.make_def)

section \<open>AssignRoleToServiceAccountRequest\<close>

record assign_role_to_service_account_request =
  f_inherit :: "bool option"
  f_resource_id :: "string option"
  f_service_account_id :: string
  f_tenant_scope :: "string list option"

definition to_assign_role_to_service_account_request :: "assign_role_to_service_account_request \<Rightarrow> json res" where
  "to_assign_role_to_service_account_request v = build
     [opt ''inherit'' JBool (assign_role_to_service_account_request.f_inherit v),
      opt ''resource_id'' JStr (assign_role_to_service_account_request.f_resource_id v),
      req ''service_account_id'' (JStr (assign_role_to_service_account_request.f_service_account_id v)),
      opt ''tenant_scope'' str_arr (non_empty (assign_role_to_service_account_request.f_tenant_scope v))]"

definition from_assign_role_to_service_account_request :: "json \<Rightarrow> assign_role_to_service_account_request res" where
  "from_assign_role_to_service_account_request j =
     and_then (opt_member get_bool j ''inherit'') (\<lambda>inherit.
     and_then (opt_member get_str j ''resource_id'') (\<lambda>resource_id.
     and_then (member get_str j ''service_account_id'') (\<lambda>service_account_id.
     and_then (opt_member (get_list get_str) j ''tenant_scope'') (\<lambda>tenant_scope.
     Inr (assign_role_to_service_account_request.make inherit resource_id service_account_id tenant_scope)))))"

section \<open>ConsentView\<close>

record consent_view =
  f_accepted_at :: string
  f_consent_type :: string
  f_version :: string
  f_withdrawable :: bool

definition to_consent_view :: "consent_view \<Rightarrow> json res" where
  "to_consent_view v = build
     [req ''accepted_at'' (JStr (consent_view.f_accepted_at v)),
      req ''consent_type'' (JStr (consent_view.f_consent_type v)),
      req ''version'' (JStr (consent_view.f_version v)),
      req ''withdrawable'' (JBool (consent_view.f_withdrawable v))]"

definition from_consent_view :: "json \<Rightarrow> consent_view res" where
  "from_consent_view j =
     and_then (member get_str j ''accepted_at'') (\<lambda>accepted_at.
     and_then (member get_str j ''consent_type'') (\<lambda>consent_type.
     and_then (member get_str j ''version'') (\<lambda>version.
     and_then (member get_bool j ''withdrawable'') (\<lambda>withdrawable.
     Inr (consent_view.make accepted_at consent_type version withdrawable)))))"

interpretation consent_view: codec to_consent_view from_consent_view
  by (rule build_codec[OF to_consent_view_def], simp)
    (rename_tac v j, case_tac v, simp add: codec_simps from_consent_view_def consent_view.make_def)

section \<open>SubjectAltName\<close>

record subject_alt_name =
  f_dns :: "string option"
  f_ip :: "string option"

definition to_subject_alt_name :: "subject_alt_name \<Rightarrow> json res" where
  "to_subject_alt_name v =
     (if (subject_alt_name.f_dns v \<noteq> None) = (subject_alt_name.f_ip v \<noteq> None)
      then Inl (InvalidArgument ''SubjectAltName must set exactly one of `dns`, `ip`, never neither and never both'')
      else build
     [opt ''dns'' JStr (subject_alt_name.f_dns v),
      opt ''ip'' JStr (subject_alt_name.f_ip v)])"

definition from_subject_alt_name :: "json \<Rightarrow> subject_alt_name res" where
  "from_subject_alt_name j =
     and_then (opt_member get_str j ''dns'') (\<lambda>dns.
     and_then (opt_member get_str j ''ip'') (\<lambda>ip.
     Inr (subject_alt_name.make dns ip)))"

section \<open>CreateCertificateRequest\<close>

record create_certificate_request =
  f_cert_type :: certificate_type
  f_issuer_ca_id :: string
  f_key_algorithm :: key_algorithm
  f_metadata :: "string option"
  f_subject :: string
  f_subject_alt_names :: "subject_alt_name list option"
  f_user_id :: "string option"
  f_validity_days :: "64 word"

definition to_create_certificate_request :: "(string \<Rightarrow> json) \<Rightarrow> create_certificate_request \<Rightarrow> json res" where
  "to_create_certificate_request parse v = build
     [req_r ''cert_type'' (enum_json certificate_type_send (create_certificate_request.f_cert_type v)),
      req ''issuer_ca_id'' (JStr (create_certificate_request.f_issuer_ca_id v)),
      req_r ''key_algorithm'' (enum_json key_algorithm_send (create_certificate_request.f_key_algorithm v)),
      opt_embedded parse ''metadata'' (create_certificate_request.f_metadata v),
      req ''subject'' (JStr (create_certificate_request.f_subject v)),
      opt_r ''subject_alt_names'' (arr_of to_subject_alt_name) (non_empty (create_certificate_request.f_subject_alt_names v)),
      opt ''user_id'' JStr (create_certificate_request.f_user_id v),
      req ''validity_days'' (JInt (create_certificate_request.f_validity_days v))]"

definition from_create_certificate_request :: "(json \<Rightarrow> string res) \<Rightarrow> json \<Rightarrow> create_certificate_request res" where
  "from_create_certificate_request dmp j =
     and_then (member (get_enum certificate_type_from_wire) j ''cert_type'') (\<lambda>cert_type.
     and_then (member get_str j ''issuer_ca_id'') (\<lambda>issuer_ca_id.
     and_then (member (get_enum key_algorithm_from_wire) j ''key_algorithm'') (\<lambda>key_algorithm.
     and_then (opt_member dmp j ''metadata'') (\<lambda>metadata.
     and_then (member get_str j ''subject'') (\<lambda>subject.
     and_then (opt_member (get_list from_subject_alt_name) j ''subject_alt_names'') (\<lambda>subject_alt_names.
     and_then (opt_member get_str j ''user_id'') (\<lambda>user_id.
     and_then (member get_word j ''validity_days'') (\<lambda>validity_days.
     Inr (create_certificate_request.make cert_type issuer_ca_id key_algorithm metadata subject subject_alt_names user_id validity_days)))))))))"

section \<open>NativeLoginTrustRequest\<close>

record native_login_trust_request =
  f_client_ids :: "string list option"
  f_enabled :: "bool option"
  f_max_token_age_secs :: "(64 word) option"

definition to_native_login_trust_request :: "native_login_trust_request \<Rightarrow> json res" where
  "to_native_login_trust_request v = build
     [opt ''client_ids'' str_arr (native_login_trust_request.f_client_ids v),
      opt ''enabled'' JBool (native_login_trust_request.f_enabled v),
      opt ''max_token_age_secs'' JInt (native_login_trust_request.f_max_token_age_secs v)]"

definition from_native_login_trust_request :: "json \<Rightarrow> native_login_trust_request res" where
  "from_native_login_trust_request j =
     and_then (opt_member (get_list get_str) j ''client_ids'') (\<lambda>client_ids.
     and_then (opt_member get_bool j ''enabled'') (\<lambda>enabled.
     and_then (opt_member get_word j ''max_token_age_secs'') (\<lambda>max_token_age_secs.
     Inr (native_login_trust_request.make client_ids enabled max_token_age_secs))))"

interpretation native_login_trust_request: codec to_native_login_trust_request from_native_login_trust_request
  by (rule build_codec[OF to_native_login_trust_request_def], simp)
    (rename_tac v j, case_tac v, simp add: codec_simps from_native_login_trust_request_def native_login_trust_request.make_def)

section \<open>TokenExchangeTrustRequest\<close>

record token_exchange_trust_request =
  f_accepted_audiences :: "string list option"
  f_enabled :: "bool option"
  f_max_lifetime_secs :: "(64 word) option"
  f_max_token_age_secs :: "(64 word) option"
  f_scope_map :: "string option"
  f_subject_mapping :: "string option"

definition to_token_exchange_trust_request :: "(string \<Rightarrow> json) \<Rightarrow> token_exchange_trust_request \<Rightarrow> json res" where
  "to_token_exchange_trust_request parse v = build
     [opt ''accepted_audiences'' str_arr (token_exchange_trust_request.f_accepted_audiences v),
      opt ''enabled'' JBool (token_exchange_trust_request.f_enabled v),
      opt ''max_lifetime_secs'' JInt (token_exchange_trust_request.f_max_lifetime_secs v),
      opt ''max_token_age_secs'' JInt (token_exchange_trust_request.f_max_token_age_secs v),
      opt_embedded parse ''scope_map'' (token_exchange_trust_request.f_scope_map v),
      opt ''subject_mapping'' JStr (token_exchange_trust_request.f_subject_mapping v)]"

definition from_token_exchange_trust_request :: "(json \<Rightarrow> string res) \<Rightarrow> json \<Rightarrow> token_exchange_trust_request res" where
  "from_token_exchange_trust_request dmp j =
     and_then (opt_member (get_list get_str) j ''accepted_audiences'') (\<lambda>accepted_audiences.
     and_then (opt_member get_bool j ''enabled'') (\<lambda>enabled.
     and_then (opt_member get_word j ''max_lifetime_secs'') (\<lambda>max_lifetime_secs.
     and_then (opt_member get_word j ''max_token_age_secs'') (\<lambda>max_token_age_secs.
     and_then (opt_member dmp j ''scope_map'') (\<lambda>scope_map.
     and_then (opt_member get_str j ''subject_mapping'') (\<lambda>subject_mapping.
     Inr (token_exchange_trust_request.make accepted_audiences enabled max_lifetime_secs max_token_age_secs scope_map subject_mapping)))))))"

section \<open>CreateFederationConfigRequest\<close>

record create_federation_config_request =
  f_allow_sha1_signatures :: "bool option"
  f_allow_tenant_inheritance :: "bool option"
  f_allowed_algorithms :: "string list option"
  f_allowed_issuer_tenants :: "string list option"
  f_apple_key_id :: "string option"
  f_apple_team_id :: "string option"
  f_attribute_map :: "string option"
  f_authorization_endpoint :: "string option"
  f_button_icon :: "string option"
  f_client_id :: string
  f_client_secret :: string
  f_idp_metadata_signing_cert_pem :: "string option"
  f_idp_signing_cert_pem :: "string option"
  f_metadata_url :: "string option"
  f_native_login :: "native_login_trust_request option"
  f_protocol :: string
  f_provider :: string
  f_provider_kind :: "string option"
  f_provider_slug :: "string option"
  f_require_pkce :: "bool option"
  f_scopes :: "string list option"
  f_token_endpoint :: "string option"
  f_token_exchange :: "token_exchange_trust_request option"
  f_userinfo_endpoint :: "string option"

definition to_create_federation_config_request :: "(string \<Rightarrow> json) \<Rightarrow> create_federation_config_request \<Rightarrow> json res" where
  "to_create_federation_config_request parse v = build
     [opt ''allow_sha1_signatures'' JBool (create_federation_config_request.f_allow_sha1_signatures v),
      opt ''allow_tenant_inheritance'' JBool (create_federation_config_request.f_allow_tenant_inheritance v),
      opt ''allowed_algorithms'' str_arr (create_federation_config_request.f_allowed_algorithms v),
      opt ''allowed_issuer_tenants'' str_arr (create_federation_config_request.f_allowed_issuer_tenants v),
      opt ''apple_key_id'' JStr (create_federation_config_request.f_apple_key_id v),
      opt ''apple_team_id'' JStr (create_federation_config_request.f_apple_team_id v),
      opt_embedded parse ''attribute_map'' (create_federation_config_request.f_attribute_map v),
      opt ''authorization_endpoint'' JStr (create_federation_config_request.f_authorization_endpoint v),
      opt ''button_icon'' JStr (create_federation_config_request.f_button_icon v),
      req ''client_id'' (JStr (create_federation_config_request.f_client_id v)),
      req ''client_secret'' (JStr (create_federation_config_request.f_client_secret v)),
      opt ''idp_metadata_signing_cert_pem'' JStr (create_federation_config_request.f_idp_metadata_signing_cert_pem v),
      opt ''idp_signing_cert_pem'' JStr (create_federation_config_request.f_idp_signing_cert_pem v),
      opt ''metadata_url'' JStr (create_federation_config_request.f_metadata_url v),
      opt_r ''native_login'' to_native_login_trust_request (create_federation_config_request.f_native_login v),
      req ''protocol'' (JStr (create_federation_config_request.f_protocol v)),
      req ''provider'' (JStr (create_federation_config_request.f_provider v)),
      opt ''provider_kind'' JStr (create_federation_config_request.f_provider_kind v),
      opt ''provider_slug'' JStr (create_federation_config_request.f_provider_slug v),
      opt ''require_pkce'' JBool (create_federation_config_request.f_require_pkce v),
      opt ''scopes'' str_arr (create_federation_config_request.f_scopes v),
      opt ''token_endpoint'' JStr (create_federation_config_request.f_token_endpoint v),
      opt_r ''token_exchange'' (to_token_exchange_trust_request parse) (create_federation_config_request.f_token_exchange v),
      opt ''userinfo_endpoint'' JStr (create_federation_config_request.f_userinfo_endpoint v)]"

definition from_create_federation_config_request :: "(json \<Rightarrow> string res) \<Rightarrow> json \<Rightarrow> create_federation_config_request res" where
  "from_create_federation_config_request dmp j =
     and_then (opt_member get_bool j ''allow_sha1_signatures'') (\<lambda>allow_sha1_signatures.
     and_then (opt_member get_bool j ''allow_tenant_inheritance'') (\<lambda>allow_tenant_inheritance.
     and_then (opt_member (get_list get_str) j ''allowed_algorithms'') (\<lambda>allowed_algorithms.
     and_then (opt_member (get_list get_str) j ''allowed_issuer_tenants'') (\<lambda>allowed_issuer_tenants.
     and_then (opt_member get_str j ''apple_key_id'') (\<lambda>apple_key_id.
     and_then (opt_member get_str j ''apple_team_id'') (\<lambda>apple_team_id.
     and_then (opt_member dmp j ''attribute_map'') (\<lambda>attribute_map.
     and_then (opt_member get_str j ''authorization_endpoint'') (\<lambda>authorization_endpoint.
     and_then (opt_member get_str j ''button_icon'') (\<lambda>button_icon.
     and_then (member get_str j ''client_id'') (\<lambda>client_id.
     and_then (member get_str j ''client_secret'') (\<lambda>client_secret.
     and_then (opt_member get_str j ''idp_metadata_signing_cert_pem'') (\<lambda>idp_metadata_signing_cert_pem.
     and_then (opt_member get_str j ''idp_signing_cert_pem'') (\<lambda>idp_signing_cert_pem.
     and_then (opt_member get_str j ''metadata_url'') (\<lambda>metadata_url.
     and_then (opt_member from_native_login_trust_request j ''native_login'') (\<lambda>native_login.
     and_then (member get_str j ''protocol'') (\<lambda>protocol.
     and_then (member get_str j ''provider'') (\<lambda>provider.
     and_then (opt_member get_str j ''provider_kind'') (\<lambda>provider_kind.
     and_then (opt_member get_str j ''provider_slug'') (\<lambda>provider_slug.
     and_then (opt_member get_bool j ''require_pkce'') (\<lambda>require_pkce.
     and_then (opt_member (get_list get_str) j ''scopes'') (\<lambda>scopes.
     and_then (opt_member get_str j ''token_endpoint'') (\<lambda>token_endpoint.
     and_then (opt_member (from_token_exchange_trust_request dmp) j ''token_exchange'') (\<lambda>token_exchange.
     and_then (opt_member get_str j ''userinfo_endpoint'') (\<lambda>userinfo_endpoint.
     Inr (create_federation_config_request.make allow_sha1_signatures allow_tenant_inheritance allowed_algorithms allowed_issuer_tenants apple_key_id apple_team_id attribute_map authorization_endpoint button_icon client_id client_secret idp_metadata_signing_cert_pem idp_signing_cert_pem metadata_url native_login protocol provider provider_kind provider_slug require_pkce scopes token_endpoint token_exchange userinfo_endpoint)))))))))))))))))))))))))"

section \<open>CreateNetworkSegmentRequest\<close>

record create_network_segment_request =
  f_enabled :: "bool option"
  f_filter_ids :: "string list option"
  f_kind :: network_segment_kind
  f_name :: string
  f_rank :: "(64 word) option"
  f_site_key :: string
  f_vlan_id :: "64 word"

definition to_create_network_segment_request :: "create_network_segment_request \<Rightarrow> json res" where
  "to_create_network_segment_request v = build
     [opt ''enabled'' JBool (create_network_segment_request.f_enabled v),
      opt ''filter_ids'' str_arr (create_network_segment_request.f_filter_ids v),
      req_r ''kind'' (enum_json network_segment_kind_send (create_network_segment_request.f_kind v)),
      req ''name'' (JStr (create_network_segment_request.f_name v)),
      opt ''rank'' JInt (create_network_segment_request.f_rank v),
      req ''site_key'' (JStr (create_network_segment_request.f_site_key v)),
      req ''vlan_id'' (JInt (create_network_segment_request.f_vlan_id v))]"

definition from_create_network_segment_request :: "json \<Rightarrow> create_network_segment_request res" where
  "from_create_network_segment_request j =
     and_then (opt_member get_bool j ''enabled'') (\<lambda>enabled.
     and_then (opt_member (get_list get_str) j ''filter_ids'') (\<lambda>filter_ids.
     and_then (member (get_enum network_segment_kind_from_wire) j ''kind'') (\<lambda>kind.
     and_then (member get_str j ''name'') (\<lambda>name.
     and_then (opt_member get_word j ''rank'') (\<lambda>rank.
     and_then (member get_str j ''site_key'') (\<lambda>site_key.
     and_then (member get_word j ''vlan_id'') (\<lambda>vlan_id.
     Inr (create_network_segment_request.make enabled filter_ids kind name rank site_key vlan_id))))))))"

interpretation create_network_segment_request: codec to_create_network_segment_request from_create_network_segment_request
  by (rule build_codec[OF to_create_network_segment_request_def], simp)
    (rename_tac v j, case_tac v, auto simp: codec_simps from_create_network_segment_request_def create_network_segment_request.make_def
      dest!: network_segment_kind.reads split: option.splits)

section \<open>CreateScopeRequest\<close>

record create_scope_request =
  f_description :: string
  f_name :: string

definition to_create_scope_request :: "create_scope_request \<Rightarrow> json res" where
  "to_create_scope_request v = build
     [req ''description'' (JStr (create_scope_request.f_description v)),
      req ''name'' (JStr (create_scope_request.f_name v))]"

definition from_create_scope_request :: "json \<Rightarrow> create_scope_request res" where
  "from_create_scope_request j =
     and_then (member get_str j ''description'') (\<lambda>description.
     and_then (member get_str j ''name'') (\<lambda>name.
     Inr (create_scope_request.make description name)))"

interpretation create_scope_request: codec to_create_scope_request from_create_scope_request
  by (rule build_codec[OF to_create_scope_request_def], simp)
    (rename_tac v j, case_tac v, simp add: codec_simps from_create_scope_request_def create_scope_request.make_def)

section \<open>OpaqueEnrollment\<close>

record opaque_enrollment =
  f_opaque_session :: string
  f_registration_record :: string

definition to_opaque_enrollment :: "opaque_enrollment \<Rightarrow> json res" where
  "to_opaque_enrollment v = build
     [req ''opaque_session'' (JStr (opaque_enrollment.f_opaque_session v)),
      req ''registration_record'' (JStr (opaque_enrollment.f_registration_record v))]"

definition from_opaque_enrollment :: "json \<Rightarrow> opaque_enrollment res" where
  "from_opaque_enrollment j =
     and_then (member get_str j ''opaque_session'') (\<lambda>opaque_session.
     and_then (member get_str j ''registration_record'') (\<lambda>registration_record.
     Inr (opaque_enrollment.make opaque_session registration_record)))"

interpretation opaque_enrollment: codec to_opaque_enrollment from_opaque_enrollment
  by (rule build_codec[OF to_opaque_enrollment_def], simp)
    (rename_tac v j, case_tac v, simp add: codec_simps from_opaque_enrollment_def opaque_enrollment.make_def)

section \<open>CreateUserRequest\<close>

record create_user_request =
  f_email :: string
  f_metadata :: "string option"
  f_opaque :: "opaque_enrollment option"
  f_password :: string
  f_username :: string

definition to_create_user_request :: "(string \<Rightarrow> json) \<Rightarrow> create_user_request \<Rightarrow> json res" where
  "to_create_user_request parse v = build
     [req ''email'' (JStr (create_user_request.f_email v)),
      opt_embedded parse ''metadata'' (create_user_request.f_metadata v),
      opt_r ''opaque'' to_opaque_enrollment (create_user_request.f_opaque v),
      req ''password'' (JStr (create_user_request.f_password v)),
      req ''username'' (JStr (create_user_request.f_username v))]"

definition from_create_user_request :: "(json \<Rightarrow> string res) \<Rightarrow> json \<Rightarrow> create_user_request res" where
  "from_create_user_request dmp j =
     and_then (member get_str j ''email'') (\<lambda>email.
     and_then (opt_member dmp j ''metadata'') (\<lambda>metadata.
     and_then (opt_member from_opaque_enrollment j ''opaque'') (\<lambda>opaque.
     and_then (member get_str j ''password'') (\<lambda>password.
     and_then (member get_str j ''username'') (\<lambda>username.
     Inr (create_user_request.make email metadata opaque password username))))))"

section \<open>DirectoryLinkResult\<close>

record directory_link_result =
  f_certificates_revoked :: "64 word"
  f_directory_external_id :: string
  f_user_id :: string
  f_was_already_linked :: bool
  f_webauthn_credentials_deleted :: "64 word"

definition to_directory_link_result :: "directory_link_result \<Rightarrow> json res" where
  "to_directory_link_result v = build
     [req ''certificates_revoked'' (JInt (directory_link_result.f_certificates_revoked v)),
      req ''directory_external_id'' (JStr (directory_link_result.f_directory_external_id v)),
      req ''user_id'' (JStr (directory_link_result.f_user_id v)),
      req ''was_already_linked'' (JBool (directory_link_result.f_was_already_linked v)),
      req ''webauthn_credentials_deleted'' (JInt (directory_link_result.f_webauthn_credentials_deleted v))]"

definition from_directory_link_result :: "json \<Rightarrow> directory_link_result res" where
  "from_directory_link_result j =
     and_then (member get_word j ''certificates_revoked'') (\<lambda>certificates_revoked.
     and_then (member get_str j ''directory_external_id'') (\<lambda>directory_external_id.
     and_then (member get_str j ''user_id'') (\<lambda>user_id.
     and_then (member get_bool j ''was_already_linked'') (\<lambda>was_already_linked.
     and_then (member get_word j ''webauthn_credentials_deleted'') (\<lambda>webauthn_credentials_deleted.
     Inr (directory_link_result.make certificates_revoked directory_external_id user_id was_already_linked webauthn_credentials_deleted))))))"

interpretation directory_link_result: codec to_directory_link_result from_directory_link_result
  by (rule build_codec[OF to_directory_link_result_def], simp)
    (rename_tac v j, case_tac v, simp add: codec_simps from_directory_link_result_def directory_link_result.make_def)

section \<open>Group\<close>

record group =
  f_created_at :: string
  f_description :: string
  f_id :: string
  f_metadata :: string
  f_name :: string
  f_tenant_id :: string
  f_updated_at :: string

definition to_group :: "(string \<Rightarrow> json) \<Rightarrow> group \<Rightarrow> json res" where
  "to_group parse v = build
     [req ''created_at'' (JStr (group.f_created_at v)),
      req ''description'' (JStr (group.f_description v)),
      req ''id'' (JStr (group.f_id v)),
      embedded parse ''metadata'' (group.f_metadata v),
      req ''name'' (JStr (group.f_name v)),
      req ''tenant_id'' (JStr (group.f_tenant_id v)),
      req ''updated_at'' (JStr (group.f_updated_at v))]"

definition from_group :: "(json \<Rightarrow> string res) \<Rightarrow> json \<Rightarrow> group res" where
  "from_group dmp j =
     and_then (member get_str j ''created_at'') (\<lambda>created_at.
     and_then (member get_str j ''description'') (\<lambda>description.
     and_then (member get_str j ''id'') (\<lambda>id.
     and_then (member dmp j ''metadata'') (\<lambda>metadata.
     and_then (member get_str j ''name'') (\<lambda>name.
     and_then (member get_str j ''tenant_id'') (\<lambda>tenant_id.
     and_then (member get_str j ''updated_at'') (\<lambda>updated_at.
     Inr (group.make created_at description id metadata name tenant_id updated_at))))))))"

section \<open>HealthResponse\<close>

record health_response =
  f_profile :: string
  f_status :: string
  f_unavailable :: "string list option"

definition to_health_response :: "health_response \<Rightarrow> json res" where
  "to_health_response v = build
     [req ''profile'' (JStr (health_response.f_profile v)),
      req ''status'' (JStr (health_response.f_status v)),
      opt ''unavailable'' str_arr (health_response.f_unavailable v)]"

definition from_health_response :: "json \<Rightarrow> health_response res" where
  "from_health_response j =
     and_then (member get_str j ''profile'') (\<lambda>profile.
     and_then (member get_str j ''status'') (\<lambda>status.
     and_then (opt_member (get_list get_str) j ''unavailable'') (\<lambda>unavailable.
     Inr (health_response.make profile status unavailable))))"

interpretation health_response: codec to_health_response from_health_response
  by (rule build_codec[OF to_health_response_def], simp)
    (rename_tac v j, case_tac v, simp add: codec_simps from_health_response_def health_response.make_def)

section \<open>ImportCaCertificateRequest\<close>

record import_ca_certificate_request =
  f_private_key_pem :: "string option"
  f_public_cert_pem :: string

definition to_import_ca_certificate_request :: "import_ca_certificate_request \<Rightarrow> json res" where
  "to_import_ca_certificate_request v = build
     [opt ''private_key_pem'' JStr (import_ca_certificate_request.f_private_key_pem v),
      req ''public_cert_pem'' (JStr (import_ca_certificate_request.f_public_cert_pem v))]"

definition from_import_ca_certificate_request :: "json \<Rightarrow> import_ca_certificate_request res" where
  "from_import_ca_certificate_request j =
     and_then (opt_member get_str j ''private_key_pem'') (\<lambda>private_key_pem.
     and_then (member get_str j ''public_cert_pem'') (\<lambda>public_cert_pem.
     Inr (import_ca_certificate_request.make private_key_pem public_cert_pem)))"

interpretation import_ca_certificate_request: codec to_import_ca_certificate_request from_import_ca_certificate_request
  by (rule build_codec[OF to_import_ca_certificate_request_def], simp)
    (rename_tac v j, case_tac v, simp add: codec_simps from_import_ca_certificate_request_def import_ca_certificate_request.make_def)

section \<open>MigrateCustodyResponse\<close>

record migrate_custody_response =
  f_ca_certificate_id :: string
  f_key_custody :: string
  f_key_locator :: "string option"
  f_previous_custody :: string

definition to_migrate_custody_response :: "migrate_custody_response \<Rightarrow> json res" where
  "to_migrate_custody_response v = build
     [req ''ca_certificate_id'' (JStr (migrate_custody_response.f_ca_certificate_id v)),
      req ''key_custody'' (JStr (migrate_custody_response.f_key_custody v)),
      opt ''key_locator'' JStr (migrate_custody_response.f_key_locator v),
      req ''previous_custody'' (JStr (migrate_custody_response.f_previous_custody v))]"

definition from_migrate_custody_response :: "json \<Rightarrow> migrate_custody_response res" where
  "from_migrate_custody_response j =
     and_then (member get_str j ''ca_certificate_id'') (\<lambda>ca_certificate_id.
     and_then (member get_str j ''key_custody'') (\<lambda>key_custody.
     and_then (opt_member get_str j ''key_locator'') (\<lambda>key_locator.
     and_then (member get_str j ''previous_custody'') (\<lambda>previous_custody.
     Inr (migrate_custody_response.make ca_certificate_id key_custody key_locator previous_custody)))))"

interpretation migrate_custody_response: codec to_migrate_custody_response from_migrate_custody_response
  by (rule build_codec[OF to_migrate_custody_response_def], simp)
    (rename_tac v j, case_tac v, simp add: codec_simps from_migrate_custody_response_def migrate_custody_response.make_def)

section \<open>MtlsTrustAnchorResponse\<close>

record mtls_trust_anchor_response =
  f_ca_certificate_id :: string
  f_message :: string
  f_mtls_trust_anchor :: bool
  f_restart_required :: bool
  f_trusted_anchors :: "(64 word) option"

definition to_mtls_trust_anchor_response :: "mtls_trust_anchor_response \<Rightarrow> json res" where
  "to_mtls_trust_anchor_response v = build
     [req ''ca_certificate_id'' (JStr (mtls_trust_anchor_response.f_ca_certificate_id v)),
      req ''message'' (JStr (mtls_trust_anchor_response.f_message v)),
      req ''mtls_trust_anchor'' (JBool (mtls_trust_anchor_response.f_mtls_trust_anchor v)),
      req ''restart_required'' (JBool (mtls_trust_anchor_response.f_restart_required v)),
      opt ''trusted_anchors'' JInt (mtls_trust_anchor_response.f_trusted_anchors v)]"

definition from_mtls_trust_anchor_response :: "json \<Rightarrow> mtls_trust_anchor_response res" where
  "from_mtls_trust_anchor_response j =
     and_then (member get_str j ''ca_certificate_id'') (\<lambda>ca_certificate_id.
     and_then (member get_str j ''message'') (\<lambda>message.
     and_then (member get_bool j ''mtls_trust_anchor'') (\<lambda>mtls_trust_anchor.
     and_then (member get_bool j ''restart_required'') (\<lambda>restart_required.
     and_then (opt_member get_word j ''trusted_anchors'') (\<lambda>trusted_anchors.
     Inr (mtls_trust_anchor_response.make ca_certificate_id message mtls_trust_anchor restart_required trusted_anchors))))))"

interpretation mtls_trust_anchor_response: codec to_mtls_trust_anchor_response from_mtls_trust_anchor_response
  by (rule build_codec[OF to_mtls_trust_anchor_response_def], simp)
    (rename_tac v j, case_tac v, simp add: codec_simps from_mtls_trust_anchor_response_def mtls_trust_anchor_response.make_def)

section \<open>NetworkReplyProfile\<close>

record network_reply_profile =
  f_created_at :: string
  f_created_by :: string
  f_dictionary :: string
  f_filter_id :: "string option"
  f_idle_timeout_secs :: "(64 word) option"
  f_segment_id :: string
  f_service_type :: "radius_service_type option"
  f_session_timeout_clamped :: bool
  f_session_timeout_secs :: "64 word"
  f_tenant_id :: string
  f_termination_action :: radius_termination_action
  f_updated_at :: string
  f_updated_by :: string
  f_version :: "64 word"
  f_termination_action_wire :: "string option"
  f_service_type_wire :: "string option"

definition to_network_reply_profile :: "network_reply_profile \<Rightarrow> json res" where
  "to_network_reply_profile v = build
     [req ''created_at'' (JStr (network_reply_profile.f_created_at v)),
      req ''created_by'' (JStr (network_reply_profile.f_created_by v)),
      req ''dictionary'' (JStr (network_reply_profile.f_dictionary v)),
      opt ''filter_id'' JStr (network_reply_profile.f_filter_id v),
      opt ''idle_timeout_secs'' JInt (network_reply_profile.f_idle_timeout_secs v),
      req ''segment_id'' (JStr (network_reply_profile.f_segment_id v)),
      opt_r ''service_type'' (enum_json radius_service_type_send) (network_reply_profile.f_service_type v),
      req ''session_timeout_clamped'' (JBool (network_reply_profile.f_session_timeout_clamped v)),
      req ''session_timeout_secs'' (JInt (network_reply_profile.f_session_timeout_secs v)),
      req ''tenant_id'' (JStr (network_reply_profile.f_tenant_id v)),
      req_r ''termination_action'' (enum_json radius_termination_action_send (network_reply_profile.f_termination_action v)),
      req ''updated_at'' (JStr (network_reply_profile.f_updated_at v)),
      req ''updated_by'' (JStr (network_reply_profile.f_updated_by v)),
      req ''version'' (JInt (network_reply_profile.f_version v))]"

definition from_network_reply_profile :: "json \<Rightarrow> network_reply_profile res" where
  "from_network_reply_profile j =
     and_then (member get_str j ''created_at'') (\<lambda>created_at.
     and_then (member get_str j ''created_by'') (\<lambda>created_by.
     and_then (member get_str j ''dictionary'') (\<lambda>dictionary.
     and_then (opt_member get_str j ''filter_id'') (\<lambda>filter_id.
     and_then (opt_member get_word j ''idle_timeout_secs'') (\<lambda>idle_timeout_secs.
     and_then (member get_str j ''segment_id'') (\<lambda>segment_id.
     and_then (opt_member (get_enum radius_service_type_from_wire) j ''service_type'') (\<lambda>service_type.
     and_then (member get_bool j ''session_timeout_clamped'') (\<lambda>session_timeout_clamped.
     and_then (member get_word j ''session_timeout_secs'') (\<lambda>session_timeout_secs.
     and_then (member get_str j ''tenant_id'') (\<lambda>tenant_id.
     and_then (member (get_enum radius_termination_action_from_wire) j ''termination_action'') (\<lambda>termination_action.
     and_then (member get_str j ''updated_at'') (\<lambda>updated_at.
     and_then (member get_str j ''updated_by'') (\<lambda>updated_by.
     and_then (member get_word j ''version'') (\<lambda>version.
     and_then (Inr (opt_str j ''termination_action'')) (\<lambda>termination_action_wire.
     and_then (Inr (opt_str j ''service_type'')) (\<lambda>service_type_wire.
     Inr (network_reply_profile.make created_at created_by dictionary filter_id idle_timeout_secs segment_id service_type session_timeout_clamped session_timeout_secs tenant_id termination_action updated_at updated_by version termination_action_wire service_type_wire)))))))))))))))))"

section \<open>OAuth2ClientCreatedResponse\<close>

record o_auth2_client_created_response =
  f_client_id :: string
  f_client_secret :: "string option"
  f_created_at :: string
  f_grant_types :: "string list"
  f_id :: string
  f_name :: string
  f_redirect_uris :: "string list"
  f_scopes :: "string list"
  f_tenant_id :: string
  f_updated_at :: string

definition to_o_auth2_client_created_response :: "o_auth2_client_created_response \<Rightarrow> json res" where
  "to_o_auth2_client_created_response v = build
     [req ''client_id'' (JStr (o_auth2_client_created_response.f_client_id v)),
      opt ''client_secret'' JStr (o_auth2_client_created_response.f_client_secret v),
      req ''created_at'' (JStr (o_auth2_client_created_response.f_created_at v)),
      req ''grant_types'' (str_arr (o_auth2_client_created_response.f_grant_types v)),
      req ''id'' (JStr (o_auth2_client_created_response.f_id v)),
      req ''name'' (JStr (o_auth2_client_created_response.f_name v)),
      req ''redirect_uris'' (str_arr (o_auth2_client_created_response.f_redirect_uris v)),
      req ''scopes'' (str_arr (o_auth2_client_created_response.f_scopes v)),
      req ''tenant_id'' (JStr (o_auth2_client_created_response.f_tenant_id v)),
      req ''updated_at'' (JStr (o_auth2_client_created_response.f_updated_at v))]"

definition from_o_auth2_client_created_response :: "json \<Rightarrow> o_auth2_client_created_response res" where
  "from_o_auth2_client_created_response j =
     and_then (member get_str j ''client_id'') (\<lambda>client_id.
     and_then (opt_member get_str j ''client_secret'') (\<lambda>client_secret.
     and_then (member get_str j ''created_at'') (\<lambda>created_at.
     and_then (member (get_list get_str) j ''grant_types'') (\<lambda>grant_types.
     and_then (member get_str j ''id'') (\<lambda>id.
     and_then (member get_str j ''name'') (\<lambda>name.
     and_then (member (get_list get_str) j ''redirect_uris'') (\<lambda>redirect_uris.
     and_then (member (get_list get_str) j ''scopes'') (\<lambda>scopes.
     and_then (member get_str j ''tenant_id'') (\<lambda>tenant_id.
     and_then (member get_str j ''updated_at'') (\<lambda>updated_at.
     Inr (o_auth2_client_created_response.make client_id client_secret created_at grant_types id name redirect_uris scopes tenant_id updated_at)))))))))))"

interpretation o_auth2_client_created_response: codec to_o_auth2_client_created_response from_o_auth2_client_created_response
  by (rule build_codec[OF to_o_auth2_client_created_response_def], simp)
    (rename_tac v j, case_tac v, simp add: codec_simps from_o_auth2_client_created_response_def o_auth2_client_created_response.make_def)

section \<open>OidcAuthorizeResponse\<close>

record oidc_authorize_response =
  f_url :: string

definition to_oidc_authorize_response :: "oidc_authorize_response \<Rightarrow> json res" where
  "to_oidc_authorize_response v = build
     [req ''url'' (JStr (oidc_authorize_response.f_url v))]"

definition from_oidc_authorize_response :: "json \<Rightarrow> oidc_authorize_response res" where
  "from_oidc_authorize_response j =
     and_then (member get_str j ''url'') (\<lambda>url.
     Inr (oidc_authorize_response.make url))"

interpretation oidc_authorize_response: codec to_oidc_authorize_response from_oidc_authorize_response
  by (rule build_codec[OF to_oidc_authorize_response_def], simp)
    (rename_tac v j, case_tac v, simp add: codec_simps from_oidc_authorize_response_def oidc_authorize_response.make_def)

section \<open>PgpKey\<close>

record pgp_key =
  f_algorithm :: pgp_key_algorithm
  f_created_at :: string
  f_fingerprint :: string
  f_id :: string
  f_name :: string
  f_public_key_armored :: string
  f_purpose :: pgp_key_purpose
  f_status :: pgp_key_status
  f_tenant_id :: string

definition to_pgp_key :: "pgp_key \<Rightarrow> json res" where
  "to_pgp_key v = build
     [req_r ''algorithm'' (enum_json pgp_key_algorithm_send (pgp_key.f_algorithm v)),
      req ''created_at'' (JStr (pgp_key.f_created_at v)),
      req ''fingerprint'' (JStr (pgp_key.f_fingerprint v)),
      req ''id'' (JStr (pgp_key.f_id v)),
      req ''name'' (JStr (pgp_key.f_name v)),
      req ''public_key_armored'' (JStr (pgp_key.f_public_key_armored v)),
      req_r ''purpose'' (enum_json pgp_key_purpose_send (pgp_key.f_purpose v)),
      req_r ''status'' (enum_json pgp_key_status_send (pgp_key.f_status v)),
      req ''tenant_id'' (JStr (pgp_key.f_tenant_id v))]"

definition from_pgp_key :: "json \<Rightarrow> pgp_key res" where
  "from_pgp_key j =
     and_then (member (get_enum pgp_key_algorithm_from_wire) j ''algorithm'') (\<lambda>algorithm.
     and_then (member get_str j ''created_at'') (\<lambda>created_at.
     and_then (member get_str j ''fingerprint'') (\<lambda>fingerprint.
     and_then (member get_str j ''id'') (\<lambda>id.
     and_then (member get_str j ''name'') (\<lambda>name.
     and_then (member get_str j ''public_key_armored'') (\<lambda>public_key_armored.
     and_then (member (get_enum pgp_key_purpose_from_wire) j ''purpose'') (\<lambda>purpose.
     and_then (member (get_enum pgp_key_status_from_wire) j ''status'') (\<lambda>status.
     and_then (member get_str j ''tenant_id'') (\<lambda>tenant_id.
     Inr (pgp_key.make algorithm created_at fingerprint id name public_key_armored purpose status tenant_id))))))))))"

interpretation pgp_key: codec to_pgp_key from_pgp_key
  by (rule build_codec[OF to_pgp_key_def], simp)
    (rename_tac v j, case_tac v, auto simp: codec_simps from_pgp_key_def pgp_key.make_def
      dest!: pgp_key_algorithm.reads pgp_key_purpose.reads pgp_key_status.reads split: option.splits)

section \<open>ReactorEventDescriptor\<close>

record reactor_event_descriptor =
  f_default_failure_policy :: failure_policy
  f_description :: string
  f_interceptable :: bool
  f_mutable :: bool
  f_mutable_fields :: "string list"
  f_name :: string

definition to_reactor_event_descriptor :: "reactor_event_descriptor \<Rightarrow> json res" where
  "to_reactor_event_descriptor v = build
     [req_r ''default_failure_policy'' (enum_json failure_policy_send (reactor_event_descriptor.f_default_failure_policy v)),
      req ''description'' (JStr (reactor_event_descriptor.f_description v)),
      req ''interceptable'' (JBool (reactor_event_descriptor.f_interceptable v)),
      req ''mutable'' (JBool (reactor_event_descriptor.f_mutable v)),
      req ''mutable_fields'' (str_arr (reactor_event_descriptor.f_mutable_fields v)),
      req ''name'' (JStr (reactor_event_descriptor.f_name v))]"

definition from_reactor_event_descriptor :: "json \<Rightarrow> reactor_event_descriptor res" where
  "from_reactor_event_descriptor j =
     and_then (member (get_enum failure_policy_from_wire) j ''default_failure_policy'') (\<lambda>default_failure_policy.
     and_then (member get_str j ''description'') (\<lambda>description.
     and_then (member get_bool j ''interceptable'') (\<lambda>interceptable.
     and_then (member get_bool j ''mutable'') (\<lambda>mutable.
     and_then (member (get_list get_str) j ''mutable_fields'') (\<lambda>mutable_fields.
     and_then (member get_str j ''name'') (\<lambda>name.
     Inr (reactor_event_descriptor.make default_failure_policy description interceptable mutable mutable_fields name)))))))"

interpretation reactor_event_descriptor: codec to_reactor_event_descriptor from_reactor_event_descriptor
  by (rule build_codec[OF to_reactor_event_descriptor_def], simp)
    (rename_tac v j, case_tac v, auto simp: codec_simps from_reactor_event_descriptor_def reactor_event_descriptor.make_def
      dest!: failure_policy.reads split: option.splits)

section \<open>ReplaceNetworkPolicyRequest\<close>

record replace_network_policy_request =
  f_session_timeout_max_secs :: "64 word"
  f_version :: "64 word"

definition to_replace_network_policy_request :: "replace_network_policy_request \<Rightarrow> json res" where
  "to_replace_network_policy_request v = build
     [req ''session_timeout_max_secs'' (JInt (replace_network_policy_request.f_session_timeout_max_secs v)),
      req ''version'' (JInt (replace_network_policy_request.f_version v))]"

definition from_replace_network_policy_request :: "json \<Rightarrow> replace_network_policy_request res" where
  "from_replace_network_policy_request j =
     and_then (member get_word j ''session_timeout_max_secs'') (\<lambda>session_timeout_max_secs.
     and_then (member get_word j ''version'') (\<lambda>version.
     Inr (replace_network_policy_request.make session_timeout_max_secs version)))"

interpretation replace_network_policy_request: codec to_replace_network_policy_request from_replace_network_policy_request
  by (rule build_codec[OF to_replace_network_policy_request_def], simp)
    (rename_tac v j, case_tac v, simp add: codec_simps from_replace_network_policy_request_def replace_network_policy_request.make_def)

section \<open>RoleGroupAssignment\<close>

record role_group_assignment =
  f_group :: group
  f_inherit :: "bool option"
  f_resource_id :: "string option"
  f_tenant_scope :: "string list option"

definition to_role_group_assignment :: "(string \<Rightarrow> json) \<Rightarrow> role_group_assignment \<Rightarrow> json res" where
  "to_role_group_assignment parse v = build
     [req_r ''group'' (to_group parse (role_group_assignment.f_group v)),
      opt ''inherit'' JBool (role_group_assignment.f_inherit v),
      opt ''resource_id'' JStr (role_group_assignment.f_resource_id v),
      opt ''tenant_scope'' str_arr (non_empty (role_group_assignment.f_tenant_scope v))]"

definition from_role_group_assignment :: "(json \<Rightarrow> string res) \<Rightarrow> json \<Rightarrow> role_group_assignment res" where
  "from_role_group_assignment dmp j =
     and_then (member (from_group dmp) j ''group'') (\<lambda>group.
     and_then (opt_member get_bool j ''inherit'') (\<lambda>inherit.
     and_then (opt_member get_str j ''resource_id'') (\<lambda>resource_id.
     and_then (opt_member (get_list get_str) j ''tenant_scope'') (\<lambda>tenant_scope.
     Inr (role_group_assignment.make group inherit resource_id tenant_scope)))))"

section \<open>UserResponse\<close>

record user_response =
  f_created_at :: string
  f_email :: string
  f_email_verified :: bool
  f_failed_login_attempts :: "64 word"
  f_id :: string
  f_is_locked :: bool
  f_locked_until :: "string option"
  f_metadata :: string
  f_mfa_enabled :: bool
  f_status :: user_status
  f_tenant_id :: string
  f_updated_at :: string
  f_username :: string

definition to_user_response :: "(string \<Rightarrow> json) \<Rightarrow> user_response \<Rightarrow> json res" where
  "to_user_response parse v = build
     [req ''created_at'' (JStr (user_response.f_created_at v)),
      req ''email'' (JStr (user_response.f_email v)),
      req ''email_verified'' (JBool (user_response.f_email_verified v)),
      req ''failed_login_attempts'' (JInt (user_response.f_failed_login_attempts v)),
      req ''id'' (JStr (user_response.f_id v)),
      req ''is_locked'' (JBool (user_response.f_is_locked v)),
      opt ''locked_until'' JStr (user_response.f_locked_until v),
      embedded parse ''metadata'' (user_response.f_metadata v),
      req ''mfa_enabled'' (JBool (user_response.f_mfa_enabled v)),
      req_r ''status'' (enum_json user_status_send (user_response.f_status v)),
      req ''tenant_id'' (JStr (user_response.f_tenant_id v)),
      req ''updated_at'' (JStr (user_response.f_updated_at v)),
      req ''username'' (JStr (user_response.f_username v))]"

definition from_user_response :: "(json \<Rightarrow> string res) \<Rightarrow> json \<Rightarrow> user_response res" where
  "from_user_response dmp j =
     and_then (member get_str j ''created_at'') (\<lambda>created_at.
     and_then (member get_str j ''email'') (\<lambda>email.
     and_then (member get_bool j ''email_verified'') (\<lambda>email_verified.
     and_then (member get_word j ''failed_login_attempts'') (\<lambda>failed_login_attempts.
     and_then (member get_str j ''id'') (\<lambda>id.
     and_then (member get_bool j ''is_locked'') (\<lambda>is_locked.
     and_then (opt_member get_str j ''locked_until'') (\<lambda>locked_until.
     and_then (member dmp j ''metadata'') (\<lambda>metadata.
     and_then (member get_bool j ''mfa_enabled'') (\<lambda>mfa_enabled.
     and_then (member (get_enum user_status_from_wire) j ''status'') (\<lambda>status.
     and_then (member get_str j ''tenant_id'') (\<lambda>tenant_id.
     and_then (member get_str j ''updated_at'') (\<lambda>updated_at.
     and_then (member get_str j ''username'') (\<lambda>username.
     Inr (user_response.make created_at email email_verified failed_login_attempts id is_locked locked_until metadata mfa_enabled status tenant_id updated_at username))))))))))))))"

section \<open>RoleUserAssignment\<close>

record role_user_assignment =
  f_inherit :: "bool option"
  f_resource_id :: "string option"
  f_tenant_scope :: "string list option"
  f_user :: user_response

definition to_role_user_assignment :: "(string \<Rightarrow> json) \<Rightarrow> role_user_assignment \<Rightarrow> json res" where
  "to_role_user_assignment parse v = build
     [opt ''inherit'' JBool (role_user_assignment.f_inherit v),
      opt ''resource_id'' JStr (role_user_assignment.f_resource_id v),
      opt ''tenant_scope'' str_arr (non_empty (role_user_assignment.f_tenant_scope v)),
      req_r ''user'' (to_user_response parse (role_user_assignment.f_user v))]"

definition from_role_user_assignment :: "(json \<Rightarrow> string res) \<Rightarrow> json \<Rightarrow> role_user_assignment res" where
  "from_role_user_assignment dmp j =
     and_then (opt_member get_bool j ''inherit'') (\<lambda>inherit.
     and_then (opt_member get_str j ''resource_id'') (\<lambda>resource_id.
     and_then (opt_member (get_list get_str) j ''tenant_scope'') (\<lambda>tenant_scope.
     and_then (member (from_user_response dmp) j ''user'') (\<lambda>user.
     Inr (role_user_assignment.make inherit resource_id tenant_scope user)))))"

section \<open>SamlIdpCredential\<close>

record saml_idp_credential =
  f_certificate_pem :: string
  f_created_at :: string
  f_fingerprint :: string
  f_id :: string
  f_issuer_ca_id :: string
  f_not_after :: string
  f_not_before :: string
  f_retired_at :: "string option"
  f_serial :: string
  f_status :: saml_idp_credential_status
  f_tenant_id :: string

definition to_saml_idp_credential :: "saml_idp_credential \<Rightarrow> json res" where
  "to_saml_idp_credential v = build
     [req ''certificate_pem'' (JStr (saml_idp_credential.f_certificate_pem v)),
      req ''created_at'' (JStr (saml_idp_credential.f_created_at v)),
      req ''fingerprint'' (JStr (saml_idp_credential.f_fingerprint v)),
      req ''id'' (JStr (saml_idp_credential.f_id v)),
      req ''issuer_ca_id'' (JStr (saml_idp_credential.f_issuer_ca_id v)),
      req ''not_after'' (JStr (saml_idp_credential.f_not_after v)),
      req ''not_before'' (JStr (saml_idp_credential.f_not_before v)),
      opt ''retired_at'' JStr (saml_idp_credential.f_retired_at v),
      req ''serial'' (JStr (saml_idp_credential.f_serial v)),
      req_r ''status'' (enum_json saml_idp_credential_status_send (saml_idp_credential.f_status v)),
      req ''tenant_id'' (JStr (saml_idp_credential.f_tenant_id v))]"

definition from_saml_idp_credential :: "json \<Rightarrow> saml_idp_credential res" where
  "from_saml_idp_credential j =
     and_then (member get_str j ''certificate_pem'') (\<lambda>certificate_pem.
     and_then (member get_str j ''created_at'') (\<lambda>created_at.
     and_then (member get_str j ''fingerprint'') (\<lambda>fingerprint.
     and_then (member get_str j ''id'') (\<lambda>id.
     and_then (member get_str j ''issuer_ca_id'') (\<lambda>issuer_ca_id.
     and_then (member get_str j ''not_after'') (\<lambda>not_after.
     and_then (member get_str j ''not_before'') (\<lambda>not_before.
     and_then (opt_member get_str j ''retired_at'') (\<lambda>retired_at.
     and_then (member get_str j ''serial'') (\<lambda>serial.
     and_then (member (get_enum saml_idp_credential_status_from_wire) j ''status'') (\<lambda>status.
     and_then (member get_str j ''tenant_id'') (\<lambda>tenant_id.
     Inr (saml_idp_credential.make certificate_pem created_at fingerprint id issuer_ca_id not_after not_before retired_at serial status tenant_id))))))))))))"

interpretation saml_idp_credential: codec to_saml_idp_credential from_saml_idp_credential
  by (rule build_codec[OF to_saml_idp_credential_def], simp)
    (rename_tac v j, case_tac v, auto simp: codec_simps from_saml_idp_credential_def saml_idp_credential.make_def
      dest!: saml_idp_credential_status.reads split: option.splits)

section \<open>SamlIdpCredentialPromotion\<close>

record saml_idp_credential_promotion =
  f_active :: saml_idp_credential
  f_retired :: "saml_idp_credential option"

definition to_saml_idp_credential_promotion :: "saml_idp_credential_promotion \<Rightarrow> json res" where
  "to_saml_idp_credential_promotion v = build
     [req_r ''active'' (to_saml_idp_credential (saml_idp_credential_promotion.f_active v)),
      opt_r ''retired'' to_saml_idp_credential (saml_idp_credential_promotion.f_retired v)]"

definition from_saml_idp_credential_promotion :: "json \<Rightarrow> saml_idp_credential_promotion res" where
  "from_saml_idp_credential_promotion j =
     and_then (member from_saml_idp_credential j ''active'') (\<lambda>active.
     and_then (opt_member from_saml_idp_credential j ''retired'') (\<lambda>retired.
     Inr (saml_idp_credential_promotion.make active retired)))"

interpretation saml_idp_credential_promotion: codec to_saml_idp_credential_promotion from_saml_idp_credential_promotion
  by (rule build_codec[OF to_saml_idp_credential_promotion_def], simp)
    (rename_tac v j, case_tac v, auto simp: codec_simps from_saml_idp_credential_promotion_def saml_idp_credential_promotion.make_def
      dest!: saml_idp_credential.reads split: option.splits)

section \<open>ScimTargetAuth\<close>

record scim_target_auth =
  f_type :: string
  f_raw :: string

definition to_scim_target_auth :: "(string \<Rightarrow> json) \<Rightarrow> scim_target_auth \<Rightarrow> json res" where
  "to_scim_target_auth parse v =
     (if scim_target_auth.f_type v \<noteq> ''bearer'' \<and> scim_target_auth.f_type v \<noteq> ''oauth2_client_credentials''
      then Inl (InvalidArgument ''ScimTargetAuth: `type` must be one of `bearer`, `oauth2_client_credentials`; a variant this SDK does not know is never sent'')
      else Inr (jset ''type'' (JStr (scim_target_auth.f_type v))
             (if is_object (parse (scim_target_auth.f_raw v)) then parse (scim_target_auth.f_raw v) else JObj [])))"

definition from_scim_target_auth :: "(json \<Rightarrow> string res) \<Rightarrow> json \<Rightarrow> scim_target_auth res" where
  "from_scim_target_auth dmp j =
     and_then (member get_str j ''type'') (\<lambda>type.
     and_then (dmp (without [''credential'', ''bind_secret'', ''authorization_header'', ''private_key_pem''] j)) (\<lambda>raw.
     Inr (scim_target_auth.make type raw)))"

section \<open>ScimTargetDeliveryState\<close>

record scim_target_delivery_state =
  f_consecutive_failures :: "64 word"
  f_dead_lettered_total :: "64 word"
  f_last_failure_at :: "string option"
  f_last_failure_reason :: "string option"
  f_last_reconciled_at :: "string option"
  f_last_success_at :: "string option"

definition to_scim_target_delivery_state :: "scim_target_delivery_state \<Rightarrow> json res" where
  "to_scim_target_delivery_state v = build
     [req ''consecutive_failures'' (JInt (scim_target_delivery_state.f_consecutive_failures v)),
      req ''dead_lettered_total'' (JInt (scim_target_delivery_state.f_dead_lettered_total v)),
      opt ''last_failure_at'' JStr (scim_target_delivery_state.f_last_failure_at v),
      opt ''last_failure_reason'' JStr (scim_target_delivery_state.f_last_failure_reason v),
      opt ''last_reconciled_at'' JStr (scim_target_delivery_state.f_last_reconciled_at v),
      opt ''last_success_at'' JStr (scim_target_delivery_state.f_last_success_at v)]"

definition from_scim_target_delivery_state :: "json \<Rightarrow> scim_target_delivery_state res" where
  "from_scim_target_delivery_state j =
     and_then (member get_word j ''consecutive_failures'') (\<lambda>consecutive_failures.
     and_then (member get_word j ''dead_lettered_total'') (\<lambda>dead_lettered_total.
     and_then (opt_member get_str j ''last_failure_at'') (\<lambda>last_failure_at.
     and_then (opt_member get_str j ''last_failure_reason'') (\<lambda>last_failure_reason.
     and_then (opt_member get_str j ''last_reconciled_at'') (\<lambda>last_reconciled_at.
     and_then (opt_member get_str j ''last_success_at'') (\<lambda>last_success_at.
     Inr (scim_target_delivery_state.make consecutive_failures dead_lettered_total last_failure_at last_failure_reason last_reconciled_at last_success_at)))))))"

interpretation scim_target_delivery_state: codec to_scim_target_delivery_state from_scim_target_delivery_state
  by (rule build_codec[OF to_scim_target_delivery_state_def], simp)
    (rename_tac v j, case_tac v, simp add: codec_simps from_scim_target_delivery_state_def scim_target_delivery_state.make_def)

section \<open>ScimTargetScope\<close>

record scim_target_scope =
  f_type :: string
  f_raw :: string

definition to_scim_target_scope :: "(string \<Rightarrow> json) \<Rightarrow> scim_target_scope \<Rightarrow> json res" where
  "to_scim_target_scope parse v =
     (if scim_target_scope.f_type v \<noteq> ''all_users'' \<and> scim_target_scope.f_type v \<noteq> ''groups''
      then Inl (InvalidArgument ''ScimTargetScope: `type` must be one of `all_users`, `groups`; a variant this SDK does not know is never sent'')
      else Inr (jset ''type'' (JStr (scim_target_scope.f_type v))
             (if is_object (parse (scim_target_scope.f_raw v)) then parse (scim_target_scope.f_raw v) else JObj [])))"

definition from_scim_target_scope :: "(json \<Rightarrow> string res) \<Rightarrow> json \<Rightarrow> scim_target_scope res" where
  "from_scim_target_scope dmp j =
     and_then (member get_str j ''type'') (\<lambda>type.
     and_then (dmp (without [''credential'', ''bind_secret'', ''authorization_header'', ''private_key_pem''] j)) (\<lambda>raw.
     Inr (scim_target_scope.make type raw)))"

section \<open>ScimTargetInput\<close>

record scim_target_input =
  f_auth :: scim_target_auth
  f_base_url :: string
  f_credential :: "string option"
  f_deprovision :: "deprovision_policy option"
  f_enabled :: "bool option"
  f_expected_updated_at :: "string option"
  f_name :: string
  f_push_groups :: "bool option"
  f_scope :: scim_target_scope
  f_user_name_from :: "user_name_source option"

definition to_scim_target_input :: "(string \<Rightarrow> json) \<Rightarrow> scim_target_input \<Rightarrow> json res" where
  "to_scim_target_input parse v = build
     [req_r ''auth'' (to_scim_target_auth parse (scim_target_input.f_auth v)),
      req ''base_url'' (JStr (scim_target_input.f_base_url v)),
      opt ''credential'' JStr (scim_target_input.f_credential v),
      opt_r ''deprovision'' (enum_json deprovision_policy_send) (scim_target_input.f_deprovision v),
      opt ''enabled'' JBool (scim_target_input.f_enabled v),
      opt ''expected_updated_at'' JStr (scim_target_input.f_expected_updated_at v),
      req ''name'' (JStr (scim_target_input.f_name v)),
      opt ''push_groups'' JBool (scim_target_input.f_push_groups v),
      req_r ''scope'' (to_scim_target_scope parse (scim_target_input.f_scope v)),
      opt_r ''user_name_from'' (enum_json user_name_source_send) (scim_target_input.f_user_name_from v)]"

definition from_scim_target_input :: "(json \<Rightarrow> string res) \<Rightarrow> json \<Rightarrow> scim_target_input res" where
  "from_scim_target_input dmp j =
     and_then (member (from_scim_target_auth dmp) j ''auth'') (\<lambda>auth.
     and_then (member get_str j ''base_url'') (\<lambda>base_url.
     and_then (opt_member get_str j ''credential'') (\<lambda>credential.
     and_then (opt_member (get_enum deprovision_policy_from_wire) j ''deprovision'') (\<lambda>deprovision.
     and_then (opt_member get_bool j ''enabled'') (\<lambda>enabled.
     and_then (opt_member get_str j ''expected_updated_at'') (\<lambda>expected_updated_at.
     and_then (member get_str j ''name'') (\<lambda>name.
     and_then (opt_member get_bool j ''push_groups'') (\<lambda>push_groups.
     and_then (member (from_scim_target_scope dmp) j ''scope'') (\<lambda>scope.
     and_then (opt_member (get_enum user_name_source_from_wire) j ''user_name_from'') (\<lambda>user_name_from.
     Inr (scim_target_input.make auth base_url credential deprovision enabled expected_updated_at name push_groups scope user_name_from)))))))))))"

section \<open>ScimTargetResponse\<close>

record scim_target_response =
  f_auth :: scim_target_auth
  f_base_url :: string
  f_created_at :: string
  f_deprovision :: deprovision_policy
  f_enabled :: bool
  f_id :: string
  f_name :: string
  f_push_groups :: bool
  f_scope :: scim_target_scope
  f_state :: "scim_target_delivery_state option"
  f_tenant_id :: string
  f_updated_at :: string
  f_user_name_from :: user_name_source

definition to_scim_target_response :: "(string \<Rightarrow> json) \<Rightarrow> scim_target_response \<Rightarrow> json res" where
  "to_scim_target_response parse v = build
     [req_r ''auth'' (to_scim_target_auth parse (scim_target_response.f_auth v)),
      req ''base_url'' (JStr (scim_target_response.f_base_url v)),
      req ''created_at'' (JStr (scim_target_response.f_created_at v)),
      req_r ''deprovision'' (enum_json deprovision_policy_send (scim_target_response.f_deprovision v)),
      req ''enabled'' (JBool (scim_target_response.f_enabled v)),
      req ''id'' (JStr (scim_target_response.f_id v)),
      req ''name'' (JStr (scim_target_response.f_name v)),
      req ''push_groups'' (JBool (scim_target_response.f_push_groups v)),
      req_r ''scope'' (to_scim_target_scope parse (scim_target_response.f_scope v)),
      opt_r ''state'' to_scim_target_delivery_state (scim_target_response.f_state v),
      req ''tenant_id'' (JStr (scim_target_response.f_tenant_id v)),
      req ''updated_at'' (JStr (scim_target_response.f_updated_at v)),
      req_r ''user_name_from'' (enum_json user_name_source_send (scim_target_response.f_user_name_from v))]"

definition from_scim_target_response :: "(json \<Rightarrow> string res) \<Rightarrow> json \<Rightarrow> scim_target_response res" where
  "from_scim_target_response dmp j =
     and_then (member (from_scim_target_auth dmp) j ''auth'') (\<lambda>auth.
     and_then (member get_str j ''base_url'') (\<lambda>base_url.
     and_then (member get_str j ''created_at'') (\<lambda>created_at.
     and_then (member (get_enum deprovision_policy_from_wire) j ''deprovision'') (\<lambda>deprovision.
     and_then (member get_bool j ''enabled'') (\<lambda>enabled.
     and_then (member get_str j ''id'') (\<lambda>id.
     and_then (member get_str j ''name'') (\<lambda>name.
     and_then (member get_bool j ''push_groups'') (\<lambda>push_groups.
     and_then (member (from_scim_target_scope dmp) j ''scope'') (\<lambda>scope.
     and_then (opt_member from_scim_target_delivery_state j ''state'') (\<lambda>state.
     and_then (member get_str j ''tenant_id'') (\<lambda>tenant_id.
     and_then (member get_str j ''updated_at'') (\<lambda>updated_at.
     and_then (member (get_enum user_name_source_from_wire) j ''user_name_from'') (\<lambda>user_name_from.
     Inr (scim_target_response.make auth base_url created_at deprovision enabled id name push_groups scope state tenant_id updated_at user_name_from))))))))))))))"

section \<open>SignCertificateCsrRequest\<close>

record sign_certificate_csr_request =
  f_cert_type :: certificate_type
  f_csr_pem :: string
  f_issuer_ca_id :: string
  f_metadata :: "string option"
  f_subject_alt_names :: "subject_alt_name list option"
  f_user_id :: "string option"
  f_validity_days :: "64 word"

definition to_sign_certificate_csr_request :: "(string \<Rightarrow> json) \<Rightarrow> sign_certificate_csr_request \<Rightarrow> json res" where
  "to_sign_certificate_csr_request parse v = build
     [req_r ''cert_type'' (enum_json certificate_type_send (sign_certificate_csr_request.f_cert_type v)),
      req ''csr_pem'' (JStr (sign_certificate_csr_request.f_csr_pem v)),
      req ''issuer_ca_id'' (JStr (sign_certificate_csr_request.f_issuer_ca_id v)),
      opt_embedded parse ''metadata'' (sign_certificate_csr_request.f_metadata v),
      opt_r ''subject_alt_names'' (arr_of to_subject_alt_name) (non_empty (sign_certificate_csr_request.f_subject_alt_names v)),
      opt ''user_id'' JStr (sign_certificate_csr_request.f_user_id v),
      req ''validity_days'' (JInt (sign_certificate_csr_request.f_validity_days v))]"

definition from_sign_certificate_csr_request :: "(json \<Rightarrow> string res) \<Rightarrow> json \<Rightarrow> sign_certificate_csr_request res" where
  "from_sign_certificate_csr_request dmp j =
     and_then (member (get_enum certificate_type_from_wire) j ''cert_type'') (\<lambda>cert_type.
     and_then (member get_str j ''csr_pem'') (\<lambda>csr_pem.
     and_then (member get_str j ''issuer_ca_id'') (\<lambda>issuer_ca_id.
     and_then (opt_member dmp j ''metadata'') (\<lambda>metadata.
     and_then (opt_member (get_list from_subject_alt_name) j ''subject_alt_names'') (\<lambda>subject_alt_names.
     and_then (opt_member get_str j ''user_id'') (\<lambda>user_id.
     and_then (member get_word j ''validity_days'') (\<lambda>validity_days.
     Inr (sign_certificate_csr_request.make cert_type csr_pem issuer_ca_id metadata subject_alt_names user_id validity_days))))))))"

section \<open>SsfStreamInput\<close>

record ssf_stream_input =
  f_audience :: string
  f_authorization_header :: "string option"
  f_clear_authorization_header :: "bool option"
  f_delivery_method :: ssf_delivery_method
  f_description :: "string option"
  f_endpoint_url :: "string option"
  f_events_allowed :: "string list"
  f_events_requested :: "string list option"
  f_expected_updated_at :: "string option"
  f_receiver_client_id :: string
  f_status :: "ssf_stream_status option"
  f_status_reason :: "string option"
  f_subject_format :: "ssf_subject_format option"

definition to_ssf_stream_input :: "ssf_stream_input \<Rightarrow> json res" where
  "to_ssf_stream_input v = build
     [req ''audience'' (JStr (ssf_stream_input.f_audience v)),
      opt ''authorization_header'' JStr (ssf_stream_input.f_authorization_header v),
      opt ''clear_authorization_header'' JBool (ssf_stream_input.f_clear_authorization_header v),
      req_r ''delivery_method'' (enum_json ssf_delivery_method_send (ssf_stream_input.f_delivery_method v)),
      opt ''description'' JStr (ssf_stream_input.f_description v),
      opt ''endpoint_url'' JStr (ssf_stream_input.f_endpoint_url v),
      req ''events_allowed'' (str_arr (ssf_stream_input.f_events_allowed v)),
      opt ''events_requested'' str_arr (ssf_stream_input.f_events_requested v),
      opt ''expected_updated_at'' JStr (ssf_stream_input.f_expected_updated_at v),
      req ''receiver_client_id'' (JStr (ssf_stream_input.f_receiver_client_id v)),
      opt_r ''status'' (enum_json ssf_stream_status_send) (ssf_stream_input.f_status v),
      opt ''status_reason'' JStr (ssf_stream_input.f_status_reason v),
      opt_r ''subject_format'' (enum_json ssf_subject_format_send) (ssf_stream_input.f_subject_format v)]"

definition from_ssf_stream_input :: "json \<Rightarrow> ssf_stream_input res" where
  "from_ssf_stream_input j =
     and_then (member get_str j ''audience'') (\<lambda>audience.
     and_then (opt_member get_str j ''authorization_header'') (\<lambda>authorization_header.
     and_then (opt_member get_bool j ''clear_authorization_header'') (\<lambda>clear_authorization_header.
     and_then (member (get_enum ssf_delivery_method_from_wire) j ''delivery_method'') (\<lambda>delivery_method.
     and_then (opt_member get_str j ''description'') (\<lambda>description.
     and_then (opt_member get_str j ''endpoint_url'') (\<lambda>endpoint_url.
     and_then (member (get_list get_str) j ''events_allowed'') (\<lambda>events_allowed.
     and_then (opt_member (get_list get_str) j ''events_requested'') (\<lambda>events_requested.
     and_then (opt_member get_str j ''expected_updated_at'') (\<lambda>expected_updated_at.
     and_then (member get_str j ''receiver_client_id'') (\<lambda>receiver_client_id.
     and_then (opt_member (get_enum ssf_stream_status_from_wire) j ''status'') (\<lambda>status.
     and_then (opt_member get_str j ''status_reason'') (\<lambda>status_reason.
     and_then (opt_member (get_enum ssf_subject_format_from_wire) j ''subject_format'') (\<lambda>subject_format.
     Inr (ssf_stream_input.make audience authorization_header clear_authorization_header delivery_method description endpoint_url events_allowed events_requested expected_updated_at receiver_client_id status status_reason subject_format))))))))))))))"

interpretation ssf_stream_input: codec to_ssf_stream_input from_ssf_stream_input
  by (rule build_codec[OF to_ssf_stream_input_def], simp)
    (rename_tac v j, case_tac v, auto simp: codec_simps from_ssf_stream_input_def ssf_stream_input.make_def
      dest!: ssf_delivery_method.reads ssf_stream_status.reads ssf_subject_format.reads split: option.splits)

section \<open>Tenant\<close>

record tenant =
  f_created_at :: string
  f_id :: string
  f_kind :: "tenant_kind option"
  f_metadata :: string
  f_name :: string
  f_organization_id :: string
  f_slug :: string
  f_status :: tenant_status
  f_updated_at :: string

definition to_tenant :: "(string \<Rightarrow> json) \<Rightarrow> tenant \<Rightarrow> json res" where
  "to_tenant parse v = build
     [req ''created_at'' (JStr (tenant.f_created_at v)),
      req ''id'' (JStr (tenant.f_id v)),
      opt_r ''kind'' (enum_json tenant_kind_send) (tenant.f_kind v),
      embedded parse ''metadata'' (tenant.f_metadata v),
      req ''name'' (JStr (tenant.f_name v)),
      req ''organization_id'' (JStr (tenant.f_organization_id v)),
      req ''slug'' (JStr (tenant.f_slug v)),
      req_r ''status'' (enum_json tenant_status_send (tenant.f_status v)),
      req ''updated_at'' (JStr (tenant.f_updated_at v))]"

definition from_tenant :: "(json \<Rightarrow> string res) \<Rightarrow> json \<Rightarrow> tenant res" where
  "from_tenant dmp j =
     and_then (member get_str j ''created_at'') (\<lambda>created_at.
     and_then (member get_str j ''id'') (\<lambda>id.
     and_then (opt_member (get_enum tenant_kind_from_wire) j ''kind'') (\<lambda>kind.
     and_then (member dmp j ''metadata'') (\<lambda>metadata.
     and_then (member get_str j ''name'') (\<lambda>name.
     and_then (member get_str j ''organization_id'') (\<lambda>organization_id.
     and_then (member get_str j ''slug'') (\<lambda>slug.
     and_then (member (get_enum tenant_status_from_wire) j ''status'') (\<lambda>status.
     and_then (member get_str j ''updated_at'') (\<lambda>updated_at.
     Inr (tenant.make created_at id kind metadata name organization_id slug status updated_at))))))))))"

section \<open>UpdateFederationConfigRequest\<close>

record update_federation_config_request =
  f_allow_sha1_signatures :: "bool option"
  f_allow_tenant_inheritance :: "bool option"
  f_allowed_algorithms :: "string list option"
  f_allowed_issuer_tenants :: "string list option"
  f_apple_key_id :: "string option option"
  f_apple_team_id :: "string option option"
  f_attribute_map :: "string option"
  f_authorization_endpoint :: "string option option"
  f_button_icon :: "string option option"
  f_client_id :: "string option"
  f_client_secret :: "string option"
  f_enabled :: "bool option"
  f_idp_metadata_signing_cert_pem :: "string option option"
  f_idp_signing_cert_pem :: "string option option"
  f_metadata_url :: "string option option"
  f_native_login :: "native_login_trust_request option"
  f_provider :: "string option"
  f_provider_slug :: "string option option"
  f_require_pkce :: "bool option"
  f_scopes :: "string list option"
  f_token_endpoint :: "string option option"
  f_token_exchange :: "token_exchange_trust_request option"
  f_userinfo_endpoint :: "string option option"

definition to_update_federation_config_request :: "(string \<Rightarrow> json) \<Rightarrow> update_federation_config_request \<Rightarrow> json res" where
  "to_update_federation_config_request parse v = build
     [opt ''allow_sha1_signatures'' JBool (update_federation_config_request.f_allow_sha1_signatures v),
      opt ''allow_tenant_inheritance'' JBool (update_federation_config_request.f_allow_tenant_inheritance v),
      opt ''allowed_algorithms'' str_arr (update_federation_config_request.f_allowed_algorithms v),
      opt ''allowed_issuer_tenants'' str_arr (update_federation_config_request.f_allowed_issuer_tenants v),
      nullable ''apple_key_id'' JStr (update_federation_config_request.f_apple_key_id v),
      nullable ''apple_team_id'' JStr (update_federation_config_request.f_apple_team_id v),
      opt_embedded parse ''attribute_map'' (update_federation_config_request.f_attribute_map v),
      nullable ''authorization_endpoint'' JStr (update_federation_config_request.f_authorization_endpoint v),
      nullable ''button_icon'' JStr (update_federation_config_request.f_button_icon v),
      opt ''client_id'' JStr (update_federation_config_request.f_client_id v),
      opt ''client_secret'' JStr (update_federation_config_request.f_client_secret v),
      opt ''enabled'' JBool (update_federation_config_request.f_enabled v),
      nullable ''idp_metadata_signing_cert_pem'' JStr (update_federation_config_request.f_idp_metadata_signing_cert_pem v),
      nullable ''idp_signing_cert_pem'' JStr (update_federation_config_request.f_idp_signing_cert_pem v),
      nullable ''metadata_url'' JStr (update_federation_config_request.f_metadata_url v),
      opt_r ''native_login'' to_native_login_trust_request (update_federation_config_request.f_native_login v),
      opt ''provider'' JStr (update_federation_config_request.f_provider v),
      nullable ''provider_slug'' JStr (update_federation_config_request.f_provider_slug v),
      opt ''require_pkce'' JBool (update_federation_config_request.f_require_pkce v),
      opt ''scopes'' str_arr (update_federation_config_request.f_scopes v),
      nullable ''token_endpoint'' JStr (update_federation_config_request.f_token_endpoint v),
      opt_r ''token_exchange'' (to_token_exchange_trust_request parse) (update_federation_config_request.f_token_exchange v),
      nullable ''userinfo_endpoint'' JStr (update_federation_config_request.f_userinfo_endpoint v)]"

definition from_update_federation_config_request :: "(json \<Rightarrow> string res) \<Rightarrow> json \<Rightarrow> update_federation_config_request res" where
  "from_update_federation_config_request dmp j =
     and_then (opt_member get_bool j ''allow_sha1_signatures'') (\<lambda>allow_sha1_signatures.
     and_then (opt_member get_bool j ''allow_tenant_inheritance'') (\<lambda>allow_tenant_inheritance.
     and_then (opt_member (get_list get_str) j ''allowed_algorithms'') (\<lambda>allowed_algorithms.
     and_then (opt_member (get_list get_str) j ''allowed_issuer_tenants'') (\<lambda>allowed_issuer_tenants.
     and_then (nullable_member get_str j ''apple_key_id'') (\<lambda>apple_key_id.
     and_then (nullable_member get_str j ''apple_team_id'') (\<lambda>apple_team_id.
     and_then (opt_member dmp j ''attribute_map'') (\<lambda>attribute_map.
     and_then (nullable_member get_str j ''authorization_endpoint'') (\<lambda>authorization_endpoint.
     and_then (nullable_member get_str j ''button_icon'') (\<lambda>button_icon.
     and_then (opt_member get_str j ''client_id'') (\<lambda>client_id.
     and_then (opt_member get_str j ''client_secret'') (\<lambda>client_secret.
     and_then (opt_member get_bool j ''enabled'') (\<lambda>enabled.
     and_then (nullable_member get_str j ''idp_metadata_signing_cert_pem'') (\<lambda>idp_metadata_signing_cert_pem.
     and_then (nullable_member get_str j ''idp_signing_cert_pem'') (\<lambda>idp_signing_cert_pem.
     and_then (nullable_member get_str j ''metadata_url'') (\<lambda>metadata_url.
     and_then (opt_member from_native_login_trust_request j ''native_login'') (\<lambda>native_login.
     and_then (opt_member get_str j ''provider'') (\<lambda>provider.
     and_then (nullable_member get_str j ''provider_slug'') (\<lambda>provider_slug.
     and_then (opt_member get_bool j ''require_pkce'') (\<lambda>require_pkce.
     and_then (opt_member (get_list get_str) j ''scopes'') (\<lambda>scopes.
     and_then (nullable_member get_str j ''token_endpoint'') (\<lambda>token_endpoint.
     and_then (opt_member (from_token_exchange_trust_request dmp) j ''token_exchange'') (\<lambda>token_exchange.
     and_then (nullable_member get_str j ''userinfo_endpoint'') (\<lambda>userinfo_endpoint.
     Inr (update_federation_config_request.make allow_sha1_signatures allow_tenant_inheritance allowed_algorithms allowed_issuer_tenants apple_key_id apple_team_id attribute_map authorization_endpoint button_icon client_id client_secret enabled idp_metadata_signing_cert_pem idp_signing_cert_pem metadata_url native_login provider provider_slug require_pkce scopes token_endpoint token_exchange userinfo_endpoint))))))))))))))))))))))))"

section \<open>UpdateGroup\<close>

record update_group =
  f_description :: "string option"
  f_metadata :: "string option"
  f_name :: "string option"

definition to_update_group :: "(string \<Rightarrow> json) \<Rightarrow> update_group \<Rightarrow> json res" where
  "to_update_group parse v = build
     [opt ''description'' JStr (update_group.f_description v),
      opt_embedded parse ''metadata'' (update_group.f_metadata v),
      opt ''name'' JStr (update_group.f_name v)]"

definition from_update_group :: "(json \<Rightarrow> string res) \<Rightarrow> json \<Rightarrow> update_group res" where
  "from_update_group dmp j =
     and_then (opt_member get_str j ''description'') (\<lambda>description.
     and_then (opt_member dmp j ''metadata'') (\<lambda>metadata.
     and_then (opt_member get_str j ''name'') (\<lambda>name.
     Inr (update_group.make description metadata name))))"

section \<open>UpdateOAuth2ClientRequest\<close>

record update_o_auth2_client_request =
  f_allowed_resources :: "string list option"
  f_authn_request_params :: "authn_request_params_mode option"
  f_backchannel_authentication_request_signing_alg :: "string option"
  f_backchannel_client_notification_endpoint :: "string option"
  f_backchannel_logout_uri :: "string option"
  f_backchannel_token_delivery_mode :: "string option"
  f_backchannel_user_code_parameter :: "bool option"
  f_browser_sso :: "bool option"
  f_default_idp :: "string option"
  f_dpop_bound_access_tokens :: "bool option"
  f_dpop_require_nonce :: "bool option"
  f_grant_types :: "string list option"
  f_jwks :: "string option"
  f_jwks_uri :: "string option"
  f_name :: "string option"
  f_post_logout_redirect_uris :: "string list option"
  f_profile :: "client_profile option"
  f_redirect_uris :: "string list option"
  f_require_par :: "bool option"
  f_scopes :: "string list option"
  f_self_signed_tls_client_auth_thumbprints :: "string list option"
  f_tls_client_auth_san_dns :: "string option"
  f_tls_client_auth_san_uri :: "string option"
  f_tls_client_auth_subject_dn :: "string option"
  f_tls_client_certificate_bound_access_tokens :: "bool option"
  f_token_endpoint_auth_method :: "client_auth_method option"

definition to_update_o_auth2_client_request :: "update_o_auth2_client_request \<Rightarrow> json res" where
  "to_update_o_auth2_client_request v = build
     [opt ''allowed_resources'' str_arr (update_o_auth2_client_request.f_allowed_resources v),
      opt_r ''authn_request_params'' (enum_json authn_request_params_mode_send) (update_o_auth2_client_request.f_authn_request_params v),
      opt ''backchannel_authentication_request_signing_alg'' JStr (update_o_auth2_client_request.f_backchannel_authentication_request_signing_alg v),
      opt ''backchannel_client_notification_endpoint'' JStr (update_o_auth2_client_request.f_backchannel_client_notification_endpoint v),
      opt ''backchannel_logout_uri'' JStr (update_o_auth2_client_request.f_backchannel_logout_uri v),
      opt ''backchannel_token_delivery_mode'' JStr (update_o_auth2_client_request.f_backchannel_token_delivery_mode v),
      opt ''backchannel_user_code_parameter'' JBool (update_o_auth2_client_request.f_backchannel_user_code_parameter v),
      opt ''browser_sso'' JBool (update_o_auth2_client_request.f_browser_sso v),
      opt ''default_idp'' JStr (update_o_auth2_client_request.f_default_idp v),
      opt ''dpop_bound_access_tokens'' JBool (update_o_auth2_client_request.f_dpop_bound_access_tokens v),
      opt ''dpop_require_nonce'' JBool (update_o_auth2_client_request.f_dpop_require_nonce v),
      opt ''grant_types'' str_arr (update_o_auth2_client_request.f_grant_types v),
      opt ''jwks'' JStr (update_o_auth2_client_request.f_jwks v),
      opt ''jwks_uri'' JStr (update_o_auth2_client_request.f_jwks_uri v),
      opt ''name'' JStr (update_o_auth2_client_request.f_name v),
      opt ''post_logout_redirect_uris'' str_arr (update_o_auth2_client_request.f_post_logout_redirect_uris v),
      opt_r ''profile'' (enum_json client_profile_send) (update_o_auth2_client_request.f_profile v),
      opt ''redirect_uris'' str_arr (update_o_auth2_client_request.f_redirect_uris v),
      opt ''require_par'' JBool (update_o_auth2_client_request.f_require_par v),
      opt ''scopes'' str_arr (update_o_auth2_client_request.f_scopes v),
      opt ''self_signed_tls_client_auth_thumbprints'' str_arr (update_o_auth2_client_request.f_self_signed_tls_client_auth_thumbprints v),
      opt ''tls_client_auth_san_dns'' JStr (update_o_auth2_client_request.f_tls_client_auth_san_dns v),
      opt ''tls_client_auth_san_uri'' JStr (update_o_auth2_client_request.f_tls_client_auth_san_uri v),
      opt ''tls_client_auth_subject_dn'' JStr (update_o_auth2_client_request.f_tls_client_auth_subject_dn v),
      opt ''tls_client_certificate_bound_access_tokens'' JBool (update_o_auth2_client_request.f_tls_client_certificate_bound_access_tokens v),
      opt_r ''token_endpoint_auth_method'' (enum_json client_auth_method_send) (update_o_auth2_client_request.f_token_endpoint_auth_method v)]"

definition from_update_o_auth2_client_request :: "json \<Rightarrow> update_o_auth2_client_request res" where
  "from_update_o_auth2_client_request j =
     and_then (opt_member (get_list get_str) j ''allowed_resources'') (\<lambda>allowed_resources.
     and_then (opt_member (get_enum authn_request_params_mode_from_wire) j ''authn_request_params'') (\<lambda>authn_request_params.
     and_then (opt_member get_str j ''backchannel_authentication_request_signing_alg'') (\<lambda>backchannel_authentication_request_signing_alg.
     and_then (opt_member get_str j ''backchannel_client_notification_endpoint'') (\<lambda>backchannel_client_notification_endpoint.
     and_then (opt_member get_str j ''backchannel_logout_uri'') (\<lambda>backchannel_logout_uri.
     and_then (opt_member get_str j ''backchannel_token_delivery_mode'') (\<lambda>backchannel_token_delivery_mode.
     and_then (opt_member get_bool j ''backchannel_user_code_parameter'') (\<lambda>backchannel_user_code_parameter.
     and_then (opt_member get_bool j ''browser_sso'') (\<lambda>browser_sso.
     and_then (opt_member get_str j ''default_idp'') (\<lambda>default_idp.
     and_then (opt_member get_bool j ''dpop_bound_access_tokens'') (\<lambda>dpop_bound_access_tokens.
     and_then (opt_member get_bool j ''dpop_require_nonce'') (\<lambda>dpop_require_nonce.
     and_then (opt_member (get_list get_str) j ''grant_types'') (\<lambda>grant_types.
     and_then (opt_member get_str j ''jwks'') (\<lambda>jwks.
     and_then (opt_member get_str j ''jwks_uri'') (\<lambda>jwks_uri.
     and_then (opt_member get_str j ''name'') (\<lambda>name.
     and_then (opt_member (get_list get_str) j ''post_logout_redirect_uris'') (\<lambda>post_logout_redirect_uris.
     and_then (opt_member (get_enum client_profile_from_wire) j ''profile'') (\<lambda>profile.
     and_then (opt_member (get_list get_str) j ''redirect_uris'') (\<lambda>redirect_uris.
     and_then (opt_member get_bool j ''require_par'') (\<lambda>require_par.
     and_then (opt_member (get_list get_str) j ''scopes'') (\<lambda>scopes.
     and_then (opt_member (get_list get_str) j ''self_signed_tls_client_auth_thumbprints'') (\<lambda>self_signed_tls_client_auth_thumbprints.
     and_then (opt_member get_str j ''tls_client_auth_san_dns'') (\<lambda>tls_client_auth_san_dns.
     and_then (opt_member get_str j ''tls_client_auth_san_uri'') (\<lambda>tls_client_auth_san_uri.
     and_then (opt_member get_str j ''tls_client_auth_subject_dn'') (\<lambda>tls_client_auth_subject_dn.
     and_then (opt_member get_bool j ''tls_client_certificate_bound_access_tokens'') (\<lambda>tls_client_certificate_bound_access_tokens.
     and_then (opt_member (get_enum client_auth_method_from_wire) j ''token_endpoint_auth_method'') (\<lambda>token_endpoint_auth_method.
     Inr (update_o_auth2_client_request.make allowed_resources authn_request_params backchannel_authentication_request_signing_alg backchannel_client_notification_endpoint backchannel_logout_uri backchannel_token_delivery_mode backchannel_user_code_parameter browser_sso default_idp dpop_bound_access_tokens dpop_require_nonce grant_types jwks jwks_uri name post_logout_redirect_uris profile redirect_uris require_par scopes self_signed_tls_client_auth_thumbprints tls_client_auth_san_dns tls_client_auth_san_uri tls_client_auth_subject_dn tls_client_certificate_bound_access_tokens token_endpoint_auth_method)))))))))))))))))))))))))))"

interpretation update_o_auth2_client_request: codec to_update_o_auth2_client_request from_update_o_auth2_client_request
  by (rule build_codec[OF to_update_o_auth2_client_request_def], simp)
    (rename_tac v j, case_tac v, auto simp: codec_simps from_update_o_auth2_client_request_def update_o_auth2_client_request.make_def
      dest!: authn_request_params_mode.reads client_auth_method.reads client_profile.reads split: option.splits)

section \<open>UpdateRole\<close>

record update_role =
  f_description :: "string option"
  f_is_global :: "bool option"
  f_name :: "string option"

definition to_update_role :: "update_role \<Rightarrow> json res" where
  "to_update_role v = build
     [opt ''description'' JStr (update_role.f_description v),
      opt ''is_global'' JBool (update_role.f_is_global v),
      opt ''name'' JStr (update_role.f_name v)]"

definition from_update_role :: "json \<Rightarrow> update_role res" where
  "from_update_role j =
     and_then (opt_member get_str j ''description'') (\<lambda>description.
     and_then (opt_member get_bool j ''is_global'') (\<lambda>is_global.
     and_then (opt_member get_str j ''name'') (\<lambda>name.
     Inr (update_role.make description is_global name))))"

interpretation update_role: codec to_update_role from_update_role
  by (rule build_codec[OF to_update_role_def], simp)
    (rename_tac v j, case_tac v, simp add: codec_simps from_update_role_def update_role.make_def)

section \<open>UpdateTenant\<close>

record update_tenant =
  f_metadata :: "string option"
  f_name :: "string option"
  f_slug :: "string option"
  f_status :: "tenant_status option"

definition to_update_tenant :: "(string \<Rightarrow> json) \<Rightarrow> update_tenant \<Rightarrow> json res" where
  "to_update_tenant parse v = build
     [opt_embedded parse ''metadata'' (update_tenant.f_metadata v),
      opt ''name'' JStr (update_tenant.f_name v),
      opt ''slug'' JStr (update_tenant.f_slug v),
      opt_r ''status'' (enum_json tenant_status_send) (update_tenant.f_status v)]"

definition from_update_tenant :: "(json \<Rightarrow> string res) \<Rightarrow> json \<Rightarrow> update_tenant res" where
  "from_update_tenant dmp j =
     and_then (opt_member dmp j ''metadata'') (\<lambda>metadata.
     and_then (opt_member get_str j ''name'') (\<lambda>name.
     and_then (opt_member get_str j ''slug'') (\<lambda>slug.
     and_then (opt_member (get_enum tenant_status_from_wire) j ''status'') (\<lambda>status.
     Inr (update_tenant.make metadata name slug status)))))"

end
