(* ===== verification/Models4.thy ===== *)
theory Models4
  imports ModelEnums
begin

text \<open>
  Structures of \<open>include/axiam/management_models.hpp\<close> (AcsEndpoint to WebhookResponse and the structures they use), each with its
  encoder and decoder of \<open>src/management_models.cpp\<close>, and, where the members are kept as
  values and not as JSON text, the interpretation of the locale \<open>codec\<close>: what is decoded from
  the encoding is what was encoded.
\<close>

section \<open>AcsEndpoint\<close>

record acs_endpoint =
  f_binding :: saml_binding
  f_index :: "64 word"
  f_is_default :: "bool option"
  f_url :: string

definition to_acs_endpoint :: "acs_endpoint \<Rightarrow> json res" where
  "to_acs_endpoint v = build
     [req_r ''binding'' (enum_json saml_binding_send (acs_endpoint.f_binding v)),
      req ''index'' (JInt (acs_endpoint.f_index v)),
      opt ''is_default'' JBool (acs_endpoint.f_is_default v),
      req ''url'' (JStr (acs_endpoint.f_url v))]"

definition from_acs_endpoint :: "json \<Rightarrow> acs_endpoint res" where
  "from_acs_endpoint j =
     and_then (member (get_enum saml_binding_from_wire) j ''binding'') (\<lambda>binding.
     and_then (member get_word j ''index'') (\<lambda>index.
     and_then (opt_member get_bool j ''is_default'') (\<lambda>is_default.
     and_then (member get_str j ''url'') (\<lambda>url.
     Inr (acs_endpoint.make binding index is_default url)))))"

interpretation acs_endpoint: codec to_acs_endpoint from_acs_endpoint
  by (rule build_codec[OF to_acs_endpoint_def], simp)
    (rename_tac v j, case_tac v, auto simp: codec_simps from_acs_endpoint_def acs_endpoint.make_def
      dest!: saml_binding.reads split: option.splits)

section \<open>AssignRoleToGroupRequest\<close>

record assign_role_to_group_request =
  f_group_id :: string
  f_inherit :: "bool option"
  f_resource_id :: "string option"
  f_tenant_scope :: "string list option"

definition to_assign_role_to_group_request :: "assign_role_to_group_request \<Rightarrow> json res" where
  "to_assign_role_to_group_request v = build
     [req ''group_id'' (JStr (assign_role_to_group_request.f_group_id v)),
      opt ''inherit'' JBool (assign_role_to_group_request.f_inherit v),
      opt ''resource_id'' JStr (assign_role_to_group_request.f_resource_id v),
      opt ''tenant_scope'' str_arr (non_empty (assign_role_to_group_request.f_tenant_scope v))]"

definition from_assign_role_to_group_request :: "json \<Rightarrow> assign_role_to_group_request res" where
  "from_assign_role_to_group_request j =
     and_then (member get_str j ''group_id'') (\<lambda>group_id.
     and_then (opt_member get_bool j ''inherit'') (\<lambda>inherit.
     and_then (opt_member get_str j ''resource_id'') (\<lambda>resource_id.
     and_then (opt_member (get_list get_str) j ''tenant_scope'') (\<lambda>tenant_scope.
     Inr (assign_role_to_group_request.make group_id inherit resource_id tenant_scope)))))"

section \<open>AttributeMapping\<close>

record attribute_mapping =
  f_name_format :: "string option"
  f_saml_name :: string
  f_source :: attribute_source

definition to_attribute_mapping :: "attribute_mapping \<Rightarrow> json res" where
  "to_attribute_mapping v = build
     [opt ''name_format'' JStr (attribute_mapping.f_name_format v),
      req ''saml_name'' (JStr (attribute_mapping.f_saml_name v)),
      req_r ''source'' (enum_json attribute_source_send (attribute_mapping.f_source v))]"

definition from_attribute_mapping :: "json \<Rightarrow> attribute_mapping res" where
  "from_attribute_mapping j =
     and_then (opt_member get_str j ''name_format'') (\<lambda>name_format.
     and_then (member get_str j ''saml_name'') (\<lambda>saml_name.
     and_then (member (get_enum attribute_source_from_wire) j ''source'') (\<lambda>source.
     Inr (attribute_mapping.make name_format saml_name source))))"

interpretation attribute_mapping: codec to_attribute_mapping from_attribute_mapping
  by (rule build_codec[OF to_attribute_mapping_def], simp)
    (rename_tac v j, case_tac v, auto simp: codec_simps from_attribute_mapping_def attribute_mapping.make_def
      dest!: attribute_source.reads split: option.splits)

section \<open>AuditLogEntry\<close>

record audit_log_entry =
  f_action :: string
  f_actor_id :: string
  f_actor_type :: actor_type
  f_id :: string
  f_ip_address :: "string option"
  f_metadata :: string
  f_outcome :: audit_outcome
  f_resource_id :: "string option"
  f_tenant_id :: string
  f_timestamp :: string

definition to_audit_log_entry :: "(string \<Rightarrow> json) \<Rightarrow> audit_log_entry \<Rightarrow> json res" where
  "to_audit_log_entry parse v = build
     [req ''action'' (JStr (audit_log_entry.f_action v)),
      req ''actor_id'' (JStr (audit_log_entry.f_actor_id v)),
      req_r ''actor_type'' (enum_json actor_type_send (audit_log_entry.f_actor_type v)),
      req ''id'' (JStr (audit_log_entry.f_id v)),
      opt ''ip_address'' JStr (audit_log_entry.f_ip_address v),
      embedded parse ''metadata'' (audit_log_entry.f_metadata v),
      req_r ''outcome'' (enum_json audit_outcome_send (audit_log_entry.f_outcome v)),
      opt ''resource_id'' JStr (audit_log_entry.f_resource_id v),
      req ''tenant_id'' (JStr (audit_log_entry.f_tenant_id v)),
      req ''timestamp'' (JStr (audit_log_entry.f_timestamp v))]"

definition from_audit_log_entry :: "(json \<Rightarrow> string res) \<Rightarrow> json \<Rightarrow> audit_log_entry res" where
  "from_audit_log_entry dmp j =
     and_then (member get_str j ''action'') (\<lambda>action.
     and_then (member get_str j ''actor_id'') (\<lambda>actor_id.
     and_then (member (get_enum actor_type_from_wire) j ''actor_type'') (\<lambda>actor_type.
     and_then (member get_str j ''id'') (\<lambda>id.
     and_then (opt_member get_str j ''ip_address'') (\<lambda>ip_address.
     and_then (member dmp j ''metadata'') (\<lambda>metadata.
     and_then (member (get_enum audit_outcome_from_wire) j ''outcome'') (\<lambda>outcome.
     and_then (opt_member get_str j ''resource_id'') (\<lambda>resource_id.
     and_then (member get_str j ''tenant_id'') (\<lambda>tenant_id.
     and_then (member get_str j ''timestamp'') (\<lambda>timestamp.
     Inr (audit_log_entry.make action actor_id actor_type id ip_address metadata outcome resource_id tenant_id timestamp)))))))))))"

section \<open>Certificate\<close>

record certificate =
  f_cert_type :: certificate_type
  f_created_at :: string
  f_fingerprint :: string
  f_id :: string
  f_issuer_ca_id :: string
  f_key_algorithm :: key_algorithm
  f_metadata :: string
  f_not_after :: string
  f_not_before :: string
  f_public_cert_pem :: string
  f_status :: certificate_status
  f_subject :: string
  f_tenant_id :: string
  f_user_id :: "string option"
  f_bound_service_account_id :: "string option"

definition to_certificate :: "(string \<Rightarrow> json) \<Rightarrow> certificate \<Rightarrow> json res" where
  "to_certificate parse v = build
     [req_r ''cert_type'' (enum_json certificate_type_send (certificate.f_cert_type v)),
      req ''created_at'' (JStr (certificate.f_created_at v)),
      req ''fingerprint'' (JStr (certificate.f_fingerprint v)),
      req ''id'' (JStr (certificate.f_id v)),
      req ''issuer_ca_id'' (JStr (certificate.f_issuer_ca_id v)),
      req_r ''key_algorithm'' (enum_json key_algorithm_send (certificate.f_key_algorithm v)),
      embedded parse ''metadata'' (certificate.f_metadata v),
      req ''not_after'' (JStr (certificate.f_not_after v)),
      req ''not_before'' (JStr (certificate.f_not_before v)),
      req ''public_cert_pem'' (JStr (certificate.f_public_cert_pem v)),
      req_r ''status'' (enum_json certificate_status_send (certificate.f_status v)),
      req ''subject'' (JStr (certificate.f_subject v)),
      req ''tenant_id'' (JStr (certificate.f_tenant_id v)),
      opt ''user_id'' JStr (certificate.f_user_id v),
      opt ''bound_service_account_id'' JStr (certificate.f_bound_service_account_id v)]"

definition from_certificate :: "(json \<Rightarrow> string res) \<Rightarrow> json \<Rightarrow> certificate res" where
  "from_certificate dmp j =
     and_then (member (get_enum certificate_type_from_wire) j ''cert_type'') (\<lambda>cert_type.
     and_then (member get_str j ''created_at'') (\<lambda>created_at.
     and_then (member get_str j ''fingerprint'') (\<lambda>fingerprint.
     and_then (member get_str j ''id'') (\<lambda>id.
     and_then (member get_str j ''issuer_ca_id'') (\<lambda>issuer_ca_id.
     and_then (member (get_enum key_algorithm_from_wire) j ''key_algorithm'') (\<lambda>key_algorithm.
     and_then (member dmp j ''metadata'') (\<lambda>metadata.
     and_then (member get_str j ''not_after'') (\<lambda>not_after.
     and_then (member get_str j ''not_before'') (\<lambda>not_before.
     and_then (member get_str j ''public_cert_pem'') (\<lambda>public_cert_pem.
     and_then (member (get_enum certificate_status_from_wire) j ''status'') (\<lambda>status.
     and_then (member get_str j ''subject'') (\<lambda>subject.
     and_then (member get_str j ''tenant_id'') (\<lambda>tenant_id.
     and_then (opt_member get_str j ''user_id'') (\<lambda>user_id.
     and_then (opt_member get_str j ''bound_service_account_id'') (\<lambda>bound_service_account_id.
     Inr (certificate.make cert_type created_at fingerprint id issuer_ca_id key_algorithm metadata not_after not_before public_cert_pem status subject tenant_id user_id bound_service_account_id))))))))))))))))"

section \<open>CreateNotificationRuleRequest\<close>

record create_notification_rule_request =
  f_description :: string
  f_events :: "notification_event_type list"
  f_name :: string
  f_recipient_emails :: "string list"
  f_window_minutes :: "(64 word) option"

definition to_create_notification_rule_request :: "create_notification_rule_request \<Rightarrow> json res" where
  "to_create_notification_rule_request v = build
     [req ''description'' (JStr (create_notification_rule_request.f_description v)),
      req_r ''events'' (arr_of (enum_json notification_event_type_send) (create_notification_rule_request.f_events v)),
      req ''name'' (JStr (create_notification_rule_request.f_name v)),
      req ''recipient_emails'' (str_arr (create_notification_rule_request.f_recipient_emails v)),
      opt ''window_minutes'' JInt (create_notification_rule_request.f_window_minutes v)]"

definition from_create_notification_rule_request :: "json \<Rightarrow> create_notification_rule_request res" where
  "from_create_notification_rule_request j =
     and_then (member get_str j ''description'') (\<lambda>description.
     and_then (member (get_list (get_enum notification_event_type_from_wire)) j ''events'') (\<lambda>events.
     and_then (member get_str j ''name'') (\<lambda>name.
     and_then (member (get_list get_str) j ''recipient_emails'') (\<lambda>recipient_emails.
     and_then (opt_member get_word j ''window_minutes'') (\<lambda>window_minutes.
     Inr (create_notification_rule_request.make description events name recipient_emails window_minutes))))))"

interpretation create_notification_rule_request: codec to_create_notification_rule_request from_create_notification_rule_request
  by (rule build_codec[OF to_create_notification_rule_request_def], simp)
    (rename_tac v j, case_tac v, auto simp: codec_simps from_create_notification_rule_request_def create_notification_rule_request.make_def
      dest!: codec.reads[OF notification_event_type.lists] notification_event_type.reads split: option.splits)

section \<open>CreateOAuth2ClientRequest\<close>

record create_o_auth2_client_request =
  f_allowed_resources :: "string list option"
  f_authn_request_params :: "authn_request_params_mode option"
  f_backchannel_authentication_request_signing_alg :: "string option"
  f_backchannel_client_notification_endpoint :: "string option"
  f_backchannel_logout_uri :: "string option"
  f_backchannel_token_delivery_mode :: "string option"
  f_backchannel_user_code_parameter :: "bool option"
  f_browser_sso :: "bool option"
  f_default_idp :: "string option"
  f_dpop_bound_access_tokens :: "bool option"
  f_dpop_require_nonce :: "bool option"
  f_grant_types :: "string list"
  f_jwks :: "string option"
  f_jwks_uri :: "string option"
  f_name :: string
  f_post_logout_redirect_uris :: "string list option"
  f_profile :: "client_profile option"
  f_redirect_uris :: "string list"
  f_require_par :: "bool option"
  f_scopes :: "string list"
  f_self_signed_tls_client_auth_thumbprints :: "string list option"
  f_tls_client_auth_san_dns :: "string option"
  f_tls_client_auth_san_uri :: "string option"
  f_tls_client_auth_subject_dn :: "string option"
  f_tls_client_certificate_bound_access_tokens :: "bool option"
  f_token_endpoint_auth_method :: "client_auth_method option"

definition to_create_o_auth2_client_request :: "create_o_auth2_client_request \<Rightarrow> json res" where
  "to_create_o_auth2_client_request v = build
     [opt ''allowed_resources'' str_arr (create_o_auth2_client_request.f_allowed_resources v),
      opt_r ''authn_request_params'' (enum_json authn_request_params_mode_send) (create_o_auth2_client_request.f_authn_request_params v),
      opt ''backchannel_authentication_request_signing_alg'' JStr (create_o_auth2_client_request.f_backchannel_authentication_request_signing_alg v),
      opt ''backchannel_client_notification_endpoint'' JStr (create_o_auth2_client_request.f_backchannel_client_notification_endpoint v),
      opt ''backchannel_logout_uri'' JStr (create_o_auth2_client_request.f_backchannel_logout_uri v),
      opt ''backchannel_token_delivery_mode'' JStr (create_o_auth2_client_request.f_backchannel_token_delivery_mode v),
      opt ''backchannel_user_code_parameter'' JBool (create_o_auth2_client_request.f_backchannel_user_code_parameter v),
      opt ''browser_sso'' JBool (create_o_auth2_client_request.f_browser_sso v),
      opt ''default_idp'' JStr (create_o_auth2_client_request.f_default_idp v),
      opt ''dpop_bound_access_tokens'' JBool (create_o_auth2_client_request.f_dpop_bound_access_tokens v),
      opt ''dpop_require_nonce'' JBool (create_o_auth2_client_request.f_dpop_require_nonce v),
      req ''grant_types'' (str_arr (create_o_auth2_client_request.f_grant_types v)),
      opt ''jwks'' JStr (create_o_auth2_client_request.f_jwks v),
      opt ''jwks_uri'' JStr (create_o_auth2_client_request.f_jwks_uri v),
      req ''name'' (JStr (create_o_auth2_client_request.f_name v)),
      opt ''post_logout_redirect_uris'' str_arr (create_o_auth2_client_request.f_post_logout_redirect_uris v),
      opt_r ''profile'' (enum_json client_profile_send) (create_o_auth2_client_request.f_profile v),
      req ''redirect_uris'' (str_arr (create_o_auth2_client_request.f_redirect_uris v)),
      opt ''require_par'' JBool (create_o_auth2_client_request.f_require_par v),
      req ''scopes'' (str_arr (create_o_auth2_client_request.f_scopes v)),
      opt ''self_signed_tls_client_auth_thumbprints'' str_arr (create_o_auth2_client_request.f_self_signed_tls_client_auth_thumbprints v),
      opt ''tls_client_auth_san_dns'' JStr (create_o_auth2_client_request.f_tls_client_auth_san_dns v),
      opt ''tls_client_auth_san_uri'' JStr (create_o_auth2_client_request.f_tls_client_auth_san_uri v),
      opt ''tls_client_auth_subject_dn'' JStr (create_o_auth2_client_request.f_tls_client_auth_subject_dn v),
      opt ''tls_client_certificate_bound_access_tokens'' JBool (create_o_auth2_client_request.f_tls_client_certificate_bound_access_tokens v),
      opt_r ''token_endpoint_auth_method'' (enum_json client_auth_method_send) (create_o_auth2_client_request.f_token_endpoint_auth_method v)]"

definition from_create_o_auth2_client_request :: "json \<Rightarrow> create_o_auth2_client_request res" where
  "from_create_o_auth2_client_request j =
     and_then (opt_member (get_list get_str) j ''allowed_resources'') (\<lambda>allowed_resources.
     and_then (opt_member (get_enum authn_request_params_mode_from_wire) j ''authn_request_params'') (\<lambda>authn_request_params.
     and_then (opt_member get_str j ''backchannel_authentication_request_signing_alg'') (\<lambda>backchannel_authentication_request_signing_alg.
     and_then (opt_member get_str j ''backchannel_client_notification_endpoint'') (\<lambda>backchannel_client_notification_endpoint.
     and_then (opt_member get_str j ''backchannel_logout_uri'') (\<lambda>backchannel_logout_uri.
     and_then (opt_member get_str j ''backchannel_token_delivery_mode'') (\<lambda>backchannel_token_delivery_mode.
     and_then (opt_member get_bool j ''backchannel_user_code_parameter'') (\<lambda>backchannel_user_code_parameter.
     and_then (opt_member get_bool j ''browser_sso'') (\<lambda>browser_sso.
     and_then (opt_member get_str j ''default_idp'') (\<lambda>default_idp.
     and_then (opt_member get_bool j ''dpop_bound_access_tokens'') (\<lambda>dpop_bound_access_tokens.
     and_then (opt_member get_bool j ''dpop_require_nonce'') (\<lambda>dpop_require_nonce.
     and_then (member (get_list get_str) j ''grant_types'') (\<lambda>grant_types.
     and_then (opt_member get_str j ''jwks'') (\<lambda>jwks.
     and_then (opt_member get_str j ''jwks_uri'') (\<lambda>jwks_uri.
     and_then (member get_str j ''name'') (\<lambda>name.
     and_then (opt_member (get_list get_str) j ''post_logout_redirect_uris'') (\<lambda>post_logout_redirect_uris.
     and_then (opt_member (get_enum client_profile_from_wire) j ''profile'') (\<lambda>profile.
     and_then (member (get_list get_str) j ''redirect_uris'') (\<lambda>redirect_uris.
     and_then (opt_member get_bool j ''require_par'') (\<lambda>require_par.
     and_then (member (get_list get_str) j ''scopes'') (\<lambda>scopes.
     and_then (opt_member (get_list get_str) j ''self_signed_tls_client_auth_thumbprints'') (\<lambda>self_signed_tls_client_auth_thumbprints.
     and_then (opt_member get_str j ''tls_client_auth_san_dns'') (\<lambda>tls_client_auth_san_dns.
     and_then (opt_member get_str j ''tls_client_auth_san_uri'') (\<lambda>tls_client_auth_san_uri.
     and_then (opt_member get_str j ''tls_client_auth_subject_dn'') (\<lambda>tls_client_auth_subject_dn.
     and_then (opt_member get_bool j ''tls_client_certificate_bound_access_tokens'') (\<lambda>tls_client_certificate_bound_access_tokens.
     and_then (opt_member (get_enum client_auth_method_from_wire) j ''token_endpoint_auth_method'') (\<lambda>token_endpoint_auth_method.
     Inr (create_o_auth2_client_request.make allowed_resources authn_request_params backchannel_authentication_request_signing_alg backchannel_client_notification_endpoint backchannel_logout_uri backchannel_token_delivery_mode backchannel_user_code_parameter browser_sso default_idp dpop_bound_access_tokens dpop_require_nonce grant_types jwks jwks_uri name post_logout_redirect_uris profile redirect_uris require_par scopes self_signed_tls_client_auth_thumbprints tls_client_auth_san_dns tls_client_auth_san_uri tls_client_auth_subject_dn tls_client_certificate_bound_access_tokens token_endpoint_auth_method)))))))))))))))))))))))))))"

interpretation create_o_auth2_client_request: codec to_create_o_auth2_client_request from_create_o_auth2_client_request
  by (rule build_codec[OF to_create_o_auth2_client_request_def], simp)
    (rename_tac v j, case_tac v, auto simp: codec_simps from_create_o_auth2_client_request_def create_o_auth2_client_request.make_def
      dest!: authn_request_params_mode.reads client_auth_method.reads client_profile.reads split: option.splits)

section \<open>CreateRegistrationTokenRequest\<close>

record create_registration_token_request =
  f_expires_in_hours :: "(64 word) option"
  f_name :: string

definition to_create_registration_token_request :: "create_registration_token_request \<Rightarrow> json res" where
  "to_create_registration_token_request v = build
     [opt ''expires_in_hours'' JInt (create_registration_token_request.f_expires_in_hours v),
      req ''name'' (JStr (create_registration_token_request.f_name v))]"

definition from_create_registration_token_request :: "json \<Rightarrow> create_registration_token_request res" where
  "from_create_registration_token_request j =
     and_then (opt_member get_word j ''expires_in_hours'') (\<lambda>expires_in_hours.
     and_then (member get_str j ''name'') (\<lambda>name.
     Inr (create_registration_token_request.make expires_in_hours name)))"

interpretation create_registration_token_request: codec to_create_registration_token_request from_create_registration_token_request
  by (rule build_codec[OF to_create_registration_token_request_def], simp)
    (rename_tac v j, case_tac v, simp add: codec_simps from_create_registration_token_request_def create_registration_token_request.make_def)

section \<open>CreateScimTokenRequest\<close>

record create_scim_token_request =
  f_expires_in_days :: "(64 word) option"
  f_name :: string
  f_user_id :: string

definition to_create_scim_token_request :: "create_scim_token_request \<Rightarrow> json res" where
  "to_create_scim_token_request v = build
     [opt ''expires_in_days'' JInt (create_scim_token_request.f_expires_in_days v),
      req ''name'' (JStr (create_scim_token_request.f_name v)),
      req ''user_id'' (JStr (create_scim_token_request.f_user_id v))]"

definition from_create_scim_token_request :: "json \<Rightarrow> create_scim_token_request res" where
  "from_create_scim_token_request j =
     and_then (opt_member get_word j ''expires_in_days'') (\<lambda>expires_in_days.
     and_then (member get_str j ''name'') (\<lambda>name.
     and_then (member get_str j ''user_id'') (\<lambda>user_id.
     Inr (create_scim_token_request.make expires_in_days name user_id))))"

interpretation create_scim_token_request: codec to_create_scim_token_request from_create_scim_token_request
  by (rule build_codec[OF to_create_scim_token_request_def], simp)
    (rename_tac v j, case_tac v, simp add: codec_simps from_create_scim_token_request_def create_scim_token_request.make_def)

section \<open>CreateTenantRequest\<close>

record create_tenant_request =
  f_metadata :: "string option"
  f_name :: string
  f_slug :: string

definition to_create_tenant_request :: "(string \<Rightarrow> json) \<Rightarrow> create_tenant_request \<Rightarrow> json res" where
  "to_create_tenant_request parse v = build
     [opt_embedded parse ''metadata'' (create_tenant_request.f_metadata v),
      req ''name'' (JStr (create_tenant_request.f_name v)),
      req ''slug'' (JStr (create_tenant_request.f_slug v))]"

definition from_create_tenant_request :: "(json \<Rightarrow> string res) \<Rightarrow> json \<Rightarrow> create_tenant_request res" where
  "from_create_tenant_request dmp j =
     and_then (opt_member dmp j ''metadata'') (\<lambda>metadata.
     and_then (member get_str j ''name'') (\<lambda>name.
     and_then (member get_str j ''slug'') (\<lambda>slug.
     Inr (create_tenant_request.make metadata name slug))))"

section \<open>RetryPolicy\<close>

record retry_policy =
  f_backoff_multiplier :: rat
  f_initial_delay_secs :: "64 word"
  f_max_retries :: "64 word"

definition to_retry_policy :: "retry_policy \<Rightarrow> json res" where
  "to_retry_policy v = build
     [req ''backoff_multiplier'' (JFloat (retry_policy.f_backoff_multiplier v)),
      req ''initial_delay_secs'' (JInt (retry_policy.f_initial_delay_secs v)),
      req ''max_retries'' (JInt (retry_policy.f_max_retries v))]"

definition from_retry_policy :: "json \<Rightarrow> retry_policy res" where
  "from_retry_policy j =
     and_then (member get_double j ''backoff_multiplier'') (\<lambda>backoff_multiplier.
     and_then (member get_word j ''initial_delay_secs'') (\<lambda>initial_delay_secs.
     and_then (member get_word j ''max_retries'') (\<lambda>max_retries.
     Inr (retry_policy.make backoff_multiplier initial_delay_secs max_retries))))"

interpretation retry_policy: codec to_retry_policy from_retry_policy
  by (rule build_codec[OF to_retry_policy_def], simp)
    (rename_tac v j, case_tac v, simp add: codec_simps from_retry_policy_def retry_policy.make_def)

section \<open>CreateWebhookRequest\<close>

record create_webhook_request =
  f_events :: "string list"
  f_retry_policy :: "retry_policy option"
  f_secret :: string
  f_url :: string

definition to_create_webhook_request :: "create_webhook_request \<Rightarrow> json res" where
  "to_create_webhook_request v = build
     [req ''events'' (str_arr (create_webhook_request.f_events v)),
      opt_r ''retry_policy'' to_retry_policy (create_webhook_request.f_retry_policy v),
      req ''secret'' (JStr (create_webhook_request.f_secret v)),
      req ''url'' (JStr (create_webhook_request.f_url v))]"

definition from_create_webhook_request :: "json \<Rightarrow> create_webhook_request res" where
  "from_create_webhook_request j =
     and_then (member (get_list get_str) j ''events'') (\<lambda>events.
     and_then (opt_member from_retry_policy j ''retry_policy'') (\<lambda>retry_policy.
     and_then (member get_str j ''secret'') (\<lambda>secret.
     and_then (member get_str j ''url'') (\<lambda>url.
     Inr (create_webhook_request.make events retry_policy secret url)))))"

interpretation create_webhook_request: codec to_create_webhook_request from_create_webhook_request
  by (rule build_codec[OF to_create_webhook_request_def], simp)
    (rename_tac v j, case_tac v, auto simp: codec_simps from_create_webhook_request_def create_webhook_request.make_def
      dest!: retry_policy.reads split: option.splits)

section \<open>NativeLoginTrustResponse\<close>

record native_login_trust_response =
  f_client_ids :: "string list"
  f_enabled :: bool
  f_max_token_age_secs :: "64 word"

definition to_native_login_trust_response :: "native_login_trust_response \<Rightarrow> json res" where
  "to_native_login_trust_response v = build
     [req ''client_ids'' (str_arr (native_login_trust_response.f_client_ids v)),
      req ''enabled'' (JBool (native_login_trust_response.f_enabled v)),
      req ''max_token_age_secs'' (JInt (native_login_trust_response.f_max_token_age_secs v))]"

definition from_native_login_trust_response :: "json \<Rightarrow> native_login_trust_response res" where
  "from_native_login_trust_response j =
     and_then (member (get_list get_str) j ''client_ids'') (\<lambda>client_ids.
     and_then (member get_bool j ''enabled'') (\<lambda>enabled.
     and_then (member get_word j ''max_token_age_secs'') (\<lambda>max_token_age_secs.
     Inr (native_login_trust_response.make client_ids enabled max_token_age_secs))))"

interpretation native_login_trust_response: codec to_native_login_trust_response from_native_login_trust_response
  by (rule build_codec[OF to_native_login_trust_response_def], simp)
    (rename_tac v j, case_tac v, simp add: codec_simps from_native_login_trust_response_def native_login_trust_response.make_def)

section \<open>TokenExchangeTrustResponse\<close>

record token_exchange_trust_response =
  f_accepted_audiences :: "string list"
  f_enabled :: bool
  f_max_lifetime_secs :: "(64 word) option"
  f_max_token_age_secs :: "64 word"
  f_scope_map :: string
  f_subject_mapping :: string

definition to_token_exchange_trust_response :: "(string \<Rightarrow> json) \<Rightarrow> token_exchange_trust_response \<Rightarrow> json res" where
  "to_token_exchange_trust_response parse v = build
     [req ''accepted_audiences'' (str_arr (token_exchange_trust_response.f_accepted_audiences v)),
      req ''enabled'' (JBool (token_exchange_trust_response.f_enabled v)),
      opt ''max_lifetime_secs'' JInt (token_exchange_trust_response.f_max_lifetime_secs v),
      req ''max_token_age_secs'' (JInt (token_exchange_trust_response.f_max_token_age_secs v)),
      embedded parse ''scope_map'' (token_exchange_trust_response.f_scope_map v),
      req ''subject_mapping'' (JStr (token_exchange_trust_response.f_subject_mapping v))]"

definition from_token_exchange_trust_response :: "(json \<Rightarrow> string res) \<Rightarrow> json \<Rightarrow> token_exchange_trust_response res" where
  "from_token_exchange_trust_response dmp j =
     and_then (member (get_list get_str) j ''accepted_audiences'') (\<lambda>accepted_audiences.
     and_then (member get_bool j ''enabled'') (\<lambda>enabled.
     and_then (opt_member get_word j ''max_lifetime_secs'') (\<lambda>max_lifetime_secs.
     and_then (member get_word j ''max_token_age_secs'') (\<lambda>max_token_age_secs.
     and_then (member dmp j ''scope_map'') (\<lambda>scope_map.
     and_then (member get_str j ''subject_mapping'') (\<lambda>subject_mapping.
     Inr (token_exchange_trust_response.make accepted_audiences enabled max_lifetime_secs max_token_age_secs scope_map subject_mapping)))))))"

section \<open>FederationConfigResponse\<close>

record federation_config_response =
  f_allow_sha1_signatures :: bool
  f_allow_tenant_inheritance :: bool
  f_allowed_algorithms :: "string list"
  f_allowed_issuer_tenants :: "string list"
  f_apple_key_id :: "string option"
  f_apple_team_id :: "string option"
  f_attribute_map :: string
  f_authorization_endpoint :: "string option"
  f_button_icon :: "string option"
  f_client_id :: string
  f_created_at :: string
  f_effective_scopes :: "string list"
  f_enabled :: bool
  f_has_bundled_mark :: bool
  f_id :: string
  f_idp_metadata_signing_cert_pem :: "string option"
  f_metadata_url :: "string option"
  f_mints_client_secret :: bool
  f_native_login :: native_login_trust_response
  f_pkce_required :: bool
  f_protocol :: string
  f_provider :: string
  f_provider_kind :: string
  f_provider_slug :: "string option"
  f_scopes :: "string list"
  f_tenant_id :: string
  f_token_endpoint :: "string option"
  f_token_exchange :: token_exchange_trust_response
  f_updated_at :: string
  f_userinfo_endpoint :: "string option"

definition to_federation_config_response :: "(string \<Rightarrow> json) \<Rightarrow> federation_config_response \<Rightarrow> json res" where
  "to_federation_config_response parse v = build
     [req ''allow_sha1_signatures'' (JBool (federation_config_response.f_allow_sha1_signatures v)),
      req ''allow_tenant_inheritance'' (JBool (federation_config_response.f_allow_tenant_inheritance v)),
      req ''allowed_algorithms'' (str_arr (federation_config_response.f_allowed_algorithms v)),
      req ''allowed_issuer_tenants'' (str_arr (federation_config_response.f_allowed_issuer_tenants v)),
      opt ''apple_key_id'' JStr (federation_config_response.f_apple_key_id v),
      opt ''apple_team_id'' JStr (federation_config_response.f_apple_team_id v),
      embedded parse ''attribute_map'' (federation_config_response.f_attribute_map v),
      opt ''authorization_endpoint'' JStr (federation_config_response.f_authorization_endpoint v),
      opt ''button_icon'' JStr (federation_config_response.f_button_icon v),
      req ''client_id'' (JStr (federation_config_response.f_client_id v)),
      req ''created_at'' (JStr (federation_config_response.f_created_at v)),
      req ''effective_scopes'' (str_arr (federation_config_response.f_effective_scopes v)),
      req ''enabled'' (JBool (federation_config_response.f_enabled v)),
      req ''has_bundled_mark'' (JBool (federation_config_response.f_has_bundled_mark v)),
      req ''id'' (JStr (federation_config_response.f_id v)),
      opt ''idp_metadata_signing_cert_pem'' JStr (federation_config_response.f_idp_metadata_signing_cert_pem v),
      opt ''metadata_url'' JStr (federation_config_response.f_metadata_url v),
      req ''mints_client_secret'' (JBool (federation_config_response.f_mints_client_secret v)),
      req_r ''native_login'' (to_native_login_trust_response (federation_config_response.f_native_login v)),
      req ''pkce_required'' (JBool (federation_config_response.f_pkce_required v)),
      req ''protocol'' (JStr (federation_config_response.f_protocol v)),
      req ''provider'' (JStr (federation_config_response.f_provider v)),
      req ''provider_kind'' (JStr (federation_config_response.f_provider_kind v)),
      opt ''provider_slug'' JStr (federation_config_response.f_provider_slug v),
      req ''scopes'' (str_arr (federation_config_response.f_scopes v)),
      req ''tenant_id'' (JStr (federation_config_response.f_tenant_id v)),
      opt ''token_endpoint'' JStr (federation_config_response.f_token_endpoint v),
      req_r ''token_exchange'' (to_token_exchange_trust_response parse (federation_config_response.f_token_exchange v)),
      req ''updated_at'' (JStr (federation_config_response.f_updated_at v)),
      opt ''userinfo_endpoint'' JStr (federation_config_response.f_userinfo_endpoint v)]"

definition from_federation_config_response :: "(json \<Rightarrow> string res) \<Rightarrow> json \<Rightarrow> federation_config_response res" where
  "from_federation_config_response dmp j =
     and_then (default_member get_bool False j ''allow_sha1_signatures'') (\<lambda>allow_sha1_signatures.
     and_then (member get_bool j ''allow_tenant_inheritance'') (\<lambda>allow_tenant_inheritance.
     and_then (member (get_list get_str) j ''allowed_algorithms'') (\<lambda>allowed_algorithms.
     and_then (member (get_list get_str) j ''allowed_issuer_tenants'') (\<lambda>allowed_issuer_tenants.
     and_then (opt_member get_str j ''apple_key_id'') (\<lambda>apple_key_id.
     and_then (opt_member get_str j ''apple_team_id'') (\<lambda>apple_team_id.
     and_then (member dmp j ''attribute_map'') (\<lambda>attribute_map.
     and_then (opt_member get_str j ''authorization_endpoint'') (\<lambda>authorization_endpoint.
     and_then (opt_member get_str j ''button_icon'') (\<lambda>button_icon.
     and_then (member get_str j ''client_id'') (\<lambda>client_id.
     and_then (member get_str j ''created_at'') (\<lambda>created_at.
     and_then (member (get_list get_str) j ''effective_scopes'') (\<lambda>effective_scopes.
     and_then (member get_bool j ''enabled'') (\<lambda>enabled.
     and_then (member get_bool j ''has_bundled_mark'') (\<lambda>has_bundled_mark.
     and_then (member get_str j ''id'') (\<lambda>id.
     and_then (opt_member get_str j ''idp_metadata_signing_cert_pem'') (\<lambda>idp_metadata_signing_cert_pem.
     and_then (opt_member get_str j ''metadata_url'') (\<lambda>metadata_url.
     and_then (member get_bool j ''mints_client_secret'') (\<lambda>mints_client_secret.
     and_then (member from_native_login_trust_response j ''native_login'') (\<lambda>native_login.
     and_then (member get_bool j ''pkce_required'') (\<lambda>pkce_required.
     and_then (member get_str j ''protocol'') (\<lambda>protocol.
     and_then (member get_str j ''provider'') (\<lambda>provider.
     and_then (member get_str j ''provider_kind'') (\<lambda>provider_kind.
     and_then (opt_member get_str j ''provider_slug'') (\<lambda>provider_slug.
     and_then (member (get_list get_str) j ''scopes'') (\<lambda>scopes.
     and_then (member get_str j ''tenant_id'') (\<lambda>tenant_id.
     and_then (opt_member get_str j ''token_endpoint'') (\<lambda>token_endpoint.
     and_then (member (from_token_exchange_trust_response dmp) j ''token_exchange'') (\<lambda>token_exchange.
     and_then (member get_str j ''updated_at'') (\<lambda>updated_at.
     and_then (opt_member get_str j ''userinfo_endpoint'') (\<lambda>userinfo_endpoint.
     Inr (federation_config_response.make allow_sha1_signatures allow_tenant_inheritance allowed_algorithms allowed_issuer_tenants apple_key_id apple_team_id attribute_map authorization_endpoint button_icon client_id created_at effective_scopes enabled has_bundled_mark id idp_metadata_signing_cert_pem metadata_url mints_client_secret native_login pkce_required protocol provider provider_kind provider_slug scopes tenant_id token_endpoint token_exchange updated_at userinfo_endpoint)))))))))))))))))))))))))))))))"

section \<open>GeneratedCaCertificate\<close>

record generated_ca_certificate =
  f_chain_pem :: "string option"
  f_created_at :: string
  f_fingerprint :: string
  f_id :: string
  f_key_algorithm :: key_algorithm
  f_key_custody :: "string option"
  f_key_locator :: "string option"
  f_mtls_trust_anchor :: "bool option"
  f_not_after :: string
  f_not_before :: string
  f_organization_id :: string
  f_parent_ca_id :: "string option"
  f_public_cert_pem :: string
  f_status :: certificate_status
  f_subject :: string
  f_tenant_id :: "string option"
  f_private_key_pem :: "string option"

definition to_generated_ca_certificate :: "generated_ca_certificate \<Rightarrow> json res" where
  "to_generated_ca_certificate v = build
     [opt ''chain_pem'' JStr (generated_ca_certificate.f_chain_pem v),
      req ''created_at'' (JStr (generated_ca_certificate.f_created_at v)),
      req ''fingerprint'' (JStr (generated_ca_certificate.f_fingerprint v)),
      req ''id'' (JStr (generated_ca_certificate.f_id v)),
      req_r ''key_algorithm'' (enum_json key_algorithm_send (generated_ca_certificate.f_key_algorithm v)),
      opt ''key_custody'' JStr (generated_ca_certificate.f_key_custody v),
      opt ''key_locator'' JStr (generated_ca_certificate.f_key_locator v),
      opt ''mtls_trust_anchor'' JBool (generated_ca_certificate.f_mtls_trust_anchor v),
      req ''not_after'' (JStr (generated_ca_certificate.f_not_after v)),
      req ''not_before'' (JStr (generated_ca_certificate.f_not_before v)),
      req ''organization_id'' (JStr (generated_ca_certificate.f_organization_id v)),
      opt ''parent_ca_id'' JStr (generated_ca_certificate.f_parent_ca_id v),
      req ''public_cert_pem'' (JStr (generated_ca_certificate.f_public_cert_pem v)),
      req_r ''status'' (enum_json certificate_status_send (generated_ca_certificate.f_status v)),
      req ''subject'' (JStr (generated_ca_certificate.f_subject v)),
      opt ''tenant_id'' JStr (generated_ca_certificate.f_tenant_id v),
      opt ''private_key_pem'' JStr (generated_ca_certificate.f_private_key_pem v)]"

definition from_generated_ca_certificate :: "json \<Rightarrow> generated_ca_certificate res" where
  "from_generated_ca_certificate j =
     and_then (opt_member get_str j ''chain_pem'') (\<lambda>chain_pem.
     and_then (member get_str j ''created_at'') (\<lambda>created_at.
     and_then (member get_str j ''fingerprint'') (\<lambda>fingerprint.
     and_then (member get_str j ''id'') (\<lambda>id.
     and_then (member (get_enum key_algorithm_from_wire) j ''key_algorithm'') (\<lambda>key_algorithm.
     and_then (opt_member get_str j ''key_custody'') (\<lambda>key_custody.
     and_then (opt_member get_str j ''key_locator'') (\<lambda>key_locator.
     and_then (opt_member get_bool j ''mtls_trust_anchor'') (\<lambda>mtls_trust_anchor.
     and_then (member get_str j ''not_after'') (\<lambda>not_after.
     and_then (member get_str j ''not_before'') (\<lambda>not_before.
     and_then (member get_str j ''organization_id'') (\<lambda>organization_id.
     and_then (opt_member get_str j ''parent_ca_id'') (\<lambda>parent_ca_id.
     and_then (member get_str j ''public_cert_pem'') (\<lambda>public_cert_pem.
     and_then (member (get_enum certificate_status_from_wire) j ''status'') (\<lambda>status.
     and_then (member get_str j ''subject'') (\<lambda>subject.
     and_then (opt_member get_str j ''tenant_id'') (\<lambda>tenant_id.
     and_then (opt_member get_str j ''private_key_pem'') (\<lambda>private_key_pem.
     Inr (generated_ca_certificate.make chain_pem created_at fingerprint id key_algorithm key_custody key_locator mtls_trust_anchor not_after not_before organization_id parent_ca_id public_cert_pem status subject tenant_id private_key_pem))))))))))))))))))"

interpretation generated_ca_certificate: codec to_generated_ca_certificate from_generated_ca_certificate
  by (rule build_codec[OF to_generated_ca_certificate_def], simp)
    (rename_tac v j, case_tac v, auto simp: codec_simps from_generated_ca_certificate_def generated_ca_certificate.make_def
      dest!: certificate_status.reads key_algorithm.reads split: option.splits)

section \<open>GrantPermissionRequest\<close>

record grant_permission_request =
  f_effect :: "permission_effect option"
  f_permission_id :: string
  f_scope_ids :: "string list option"

definition to_grant_permission_request :: "grant_permission_request \<Rightarrow> json res" where
  "to_grant_permission_request v = build
     [opt_r ''effect'' (enum_json permission_effect_send) (grant_permission_request.f_effect v),
      req ''permission_id'' (JStr (grant_permission_request.f_permission_id v)),
      opt ''scope_ids'' str_arr (grant_permission_request.f_scope_ids v)]"

definition from_grant_permission_request :: "json \<Rightarrow> grant_permission_request res" where
  "from_grant_permission_request j =
     and_then (opt_member (get_enum permission_effect_from_wire) j ''effect'') (\<lambda>effect.
     and_then (member get_str j ''permission_id'') (\<lambda>permission_id.
     and_then (opt_member (get_list get_str) j ''scope_ids'') (\<lambda>scope_ids.
     Inr (grant_permission_request.make effect permission_id scope_ids))))"

interpretation grant_permission_request: codec to_grant_permission_request from_grant_permission_request
  by (rule build_codec[OF to_grant_permission_request_def], simp)
    (rename_tac v j, case_tac v, auto simp: codec_simps from_grant_permission_request_def grant_permission_request.make_def
      dest!: permission_effect.reads split: option.splits)

section \<open>GrantScopeConsent\<close>

record grant_scope_consent =
  f_client_id :: string
  f_scopes :: "string list"

definition to_grant_scope_consent :: "grant_scope_consent \<Rightarrow> json res" where
  "to_grant_scope_consent v = build
     [req ''client_id'' (JStr (grant_scope_consent.f_client_id v)),
      req ''scopes'' (str_arr (grant_scope_consent.f_scopes v))]"

definition from_grant_scope_consent :: "json \<Rightarrow> grant_scope_consent res" where
  "from_grant_scope_consent j =
     and_then (member get_str j ''client_id'') (\<lambda>client_id.
     and_then (member (get_list get_str) j ''scopes'') (\<lambda>scopes.
     Inr (grant_scope_consent.make client_id scopes)))"

interpretation grant_scope_consent: codec to_grant_scope_consent from_grant_scope_consent
  by (rule build_codec[OF to_grant_scope_consent_def], simp)
    (rename_tac v j, case_tac v, simp add: codec_simps from_grant_scope_consent_def grant_scope_consent.make_def)

section \<open>LinkDirectoryAccount\<close>

record link_directory_account =
  f_user_id :: string

definition to_link_directory_account :: "link_directory_account \<Rightarrow> json res" where
  "to_link_directory_account v = build
     [req ''user_id'' (JStr (link_directory_account.f_user_id v))]"

definition from_link_directory_account :: "json \<Rightarrow> link_directory_account res" where
  "from_link_directory_account j =
     and_then (member get_str j ''user_id'') (\<lambda>user_id.
     Inr (link_directory_account.make user_id))"

interpretation link_directory_account: codec to_link_directory_account from_link_directory_account
  by (rule build_codec[OF to_link_directory_account_def], simp)
    (rename_tac v j, case_tac v, simp add: codec_simps from_link_directory_account_def link_directory_account.make_def)

section \<open>MfaMethodResponse\<close>

record mfa_method_response =
  f_created_at :: string
  f_last_used_at :: "string option"
  f_method_id :: string
  f_method_type :: mfa_method_type
  f_name :: string

definition to_mfa_method_response :: "mfa_method_response \<Rightarrow> json res" where
  "to_mfa_method_response v = build
     [req ''created_at'' (JStr (mfa_method_response.f_created_at v)),
      opt ''last_used_at'' JStr (mfa_method_response.f_last_used_at v),
      req ''method_id'' (JStr (mfa_method_response.f_method_id v)),
      req_r ''method_type'' (enum_json mfa_method_type_send (mfa_method_response.f_method_type v)),
      req ''name'' (JStr (mfa_method_response.f_name v))]"

definition from_mfa_method_response :: "json \<Rightarrow> mfa_method_response res" where
  "from_mfa_method_response j =
     and_then (member get_str j ''created_at'') (\<lambda>created_at.
     and_then (opt_member get_str j ''last_used_at'') (\<lambda>last_used_at.
     and_then (member get_str j ''method_id'') (\<lambda>method_id.
     and_then (member (get_enum mfa_method_type_from_wire) j ''method_type'') (\<lambda>method_type.
     and_then (member get_str j ''name'') (\<lambda>name.
     Inr (mfa_method_response.make created_at last_used_at method_id method_type name))))))"

interpretation mfa_method_response: codec to_mfa_method_response from_mfa_method_response
  by (rule build_codec[OF to_mfa_method_response_def], simp)
    (rename_tac v j, case_tac v, auto simp: codec_simps from_mfa_method_response_def mfa_method_response.make_def
      dest!: mfa_method_type.reads split: option.splits)

section \<open>NetworkSegmentResponse\<close>

record network_segment_response =
  f_created_at :: string
  f_created_by :: string
  f_enabled :: bool
  f_filter_ids :: "string list"
  f_id :: string
  f_kind :: network_segment_kind
  f_name :: string
  f_path :: string
  f_rank :: "(64 word) option"
  f_site_key :: string
  f_tenant_id :: string
  f_updated_at :: string
  f_updated_by :: string
  f_version :: "64 word"
  f_vlan_id :: "64 word"

definition to_network_segment_response :: "network_segment_response \<Rightarrow> json res" where
  "to_network_segment_response v = build
     [req ''created_at'' (JStr (network_segment_response.f_created_at v)),
      req ''created_by'' (JStr (network_segment_response.f_created_by v)),
      req ''enabled'' (JBool (network_segment_response.f_enabled v)),
      req ''filter_ids'' (str_arr (network_segment_response.f_filter_ids v)),
      req ''id'' (JStr (network_segment_response.f_id v)),
      req_r ''kind'' (enum_json network_segment_kind_send (network_segment_response.f_kind v)),
      req ''name'' (JStr (network_segment_response.f_name v)),
      req ''path'' (JStr (network_segment_response.f_path v)),
      opt ''rank'' JInt (network_segment_response.f_rank v),
      req ''site_key'' (JStr (network_segment_response.f_site_key v)),
      req ''tenant_id'' (JStr (network_segment_response.f_tenant_id v)),
      req ''updated_at'' (JStr (network_segment_response.f_updated_at v)),
      req ''updated_by'' (JStr (network_segment_response.f_updated_by v)),
      req ''version'' (JInt (network_segment_response.f_version v)),
      req ''vlan_id'' (JInt (network_segment_response.f_vlan_id v))]"

definition from_network_segment_response :: "json \<Rightarrow> network_segment_response res" where
  "from_network_segment_response j =
     and_then (member get_str j ''created_at'') (\<lambda>created_at.
     and_then (member get_str j ''created_by'') (\<lambda>created_by.
     and_then (member get_bool j ''enabled'') (\<lambda>enabled.
     and_then (member (get_list get_str) j ''filter_ids'') (\<lambda>filter_ids.
     and_then (member get_str j ''id'') (\<lambda>id.
     and_then (member (get_enum network_segment_kind_from_wire) j ''kind'') (\<lambda>kind.
     and_then (member get_str j ''name'') (\<lambda>name.
     and_then (member get_str j ''path'') (\<lambda>path.
     and_then (opt_member get_word j ''rank'') (\<lambda>rank.
     and_then (member get_str j ''site_key'') (\<lambda>site_key.
     and_then (member get_str j ''tenant_id'') (\<lambda>tenant_id.
     and_then (member get_str j ''updated_at'') (\<lambda>updated_at.
     and_then (member get_str j ''updated_by'') (\<lambda>updated_by.
     and_then (member get_word j ''version'') (\<lambda>version.
     and_then (member get_word j ''vlan_id'') (\<lambda>vlan_id.
     Inr (network_segment_response.make created_at created_by enabled filter_ids id kind name path rank site_key tenant_id updated_at updated_by version vlan_id))))))))))))))))"

interpretation network_segment_response: codec to_network_segment_response from_network_segment_response
  by (rule build_codec[OF to_network_segment_response_def], simp)
    (rename_tac v j, case_tac v, auto simp: codec_simps from_network_segment_response_def network_segment_response.make_def
      dest!: network_segment_kind.reads split: option.splits)

section \<open>NotificationRuleResponse\<close>

record notification_rule_response =
  f_created_at :: string
  f_description :: string
  f_enabled :: bool
  f_events :: "notification_event_type list"
  f_id :: string
  f_name :: string
  f_recipient_emails :: "string list"
  f_tenant_id :: string
  f_updated_at :: string
  f_window_minutes :: "64 word"

definition to_notification_rule_response :: "notification_rule_response \<Rightarrow> json res" where
  "to_notification_rule_response v = build
     [req ''created_at'' (JStr (notification_rule_response.f_created_at v)),
      req ''description'' (JStr (notification_rule_response.f_description v)),
      req ''enabled'' (JBool (notification_rule_response.f_enabled v)),
      req_r ''events'' (arr_of (enum_json notification_event_type_send) (notification_rule_response.f_events v)),
      req ''id'' (JStr (notification_rule_response.f_id v)),
      req ''name'' (JStr (notification_rule_response.f_name v)),
      req ''recipient_emails'' (str_arr (notification_rule_response.f_recipient_emails v)),
      req ''tenant_id'' (JStr (notification_rule_response.f_tenant_id v)),
      req ''updated_at'' (JStr (notification_rule_response.f_updated_at v)),
      req ''window_minutes'' (JInt (notification_rule_response.f_window_minutes v))]"

definition from_notification_rule_response :: "json \<Rightarrow> notification_rule_response res" where
  "from_notification_rule_response j =
     and_then (member get_str j ''created_at'') (\<lambda>created_at.
     and_then (member get_str j ''description'') (\<lambda>description.
     and_then (member get_bool j ''enabled'') (\<lambda>enabled.
     and_then (member (get_list (get_enum notification_event_type_from_wire)) j ''events'') (\<lambda>events.
     and_then (member get_str j ''id'') (\<lambda>id.
     and_then (member get_str j ''name'') (\<lambda>name.
     and_then (member (get_list get_str) j ''recipient_emails'') (\<lambda>recipient_emails.
     and_then (member get_str j ''tenant_id'') (\<lambda>tenant_id.
     and_then (member get_str j ''updated_at'') (\<lambda>updated_at.
     and_then (member get_word j ''window_minutes'') (\<lambda>window_minutes.
     Inr (notification_rule_response.make created_at description enabled events id name recipient_emails tenant_id updated_at window_minutes)))))))))))"

interpretation notification_rule_response: codec to_notification_rule_response from_notification_rule_response
  by (rule build_codec[OF to_notification_rule_response_def], simp)
    (rename_tac v j, case_tac v, auto simp: codec_simps from_notification_rule_response_def notification_rule_response.make_def
      dest!: codec.reads[OF notification_event_type.lists] notification_event_type.reads split: option.splits)

section \<open>Organization\<close>

record organization =
  f_created_at :: string
  f_id :: string
  f_metadata :: string
  f_name :: string
  f_slug :: string
  f_updated_at :: string

definition to_organization :: "(string \<Rightarrow> json) \<Rightarrow> organization \<Rightarrow> json res" where
  "to_organization parse v = build
     [req ''created_at'' (JStr (organization.f_created_at v)),
      req ''id'' (JStr (organization.f_id v)),
      embedded parse ''metadata'' (organization.f_metadata v),
      req ''name'' (JStr (organization.f_name v)),
      req ''slug'' (JStr (organization.f_slug v)),
      req ''updated_at'' (JStr (organization.f_updated_at v))]"

definition from_organization :: "(json \<Rightarrow> string res) \<Rightarrow> json \<Rightarrow> organization res" where
  "from_organization dmp j =
     and_then (member get_str j ''created_at'') (\<lambda>created_at.
     and_then (member get_str j ''id'') (\<lambda>id.
     and_then (member dmp j ''metadata'') (\<lambda>metadata.
     and_then (member get_str j ''name'') (\<lambda>name.
     and_then (member get_str j ''slug'') (\<lambda>slug.
     and_then (member get_str j ''updated_at'') (\<lambda>updated_at.
     Inr (organization.make created_at id metadata name slug updated_at)))))))"

section \<open>ReadyResponse\<close>

record ready_response =
  f_database :: string
  f_status :: string

definition to_ready_response :: "ready_response \<Rightarrow> json res" where
  "to_ready_response v = build
     [req ''database'' (JStr (ready_response.f_database v)),
      req ''status'' (JStr (ready_response.f_status v))]"

definition from_ready_response :: "json \<Rightarrow> ready_response res" where
  "from_ready_response j =
     and_then (member get_str j ''database'') (\<lambda>database.
     and_then (member get_str j ''status'') (\<lambda>status.
     Inr (ready_response.make database status)))"

interpretation ready_response: codec to_ready_response from_ready_response
  by (rule build_codec[OF to_ready_response_def], simp)
    (rename_tac v j, case_tac v, simp add: codec_simps from_ready_response_def ready_response.make_def)

section \<open>ReplaceNetworkSegmentRequest\<close>

record replace_network_segment_request =
  f_enabled :: bool
  f_filter_ids :: "string list"
  f_rank :: "(64 word) option"
  f_version :: "64 word"
  f_vlan_id :: "64 word"

definition to_replace_network_segment_request :: "replace_network_segment_request \<Rightarrow> json res" where
  "to_replace_network_segment_request v = build
     [req ''enabled'' (JBool (replace_network_segment_request.f_enabled v)),
      req ''filter_ids'' (str_arr (replace_network_segment_request.f_filter_ids v)),
      opt ''rank'' JInt (replace_network_segment_request.f_rank v),
      req ''version'' (JInt (replace_network_segment_request.f_version v)),
      req ''vlan_id'' (JInt (replace_network_segment_request.f_vlan_id v))]"

definition from_replace_network_segment_request :: "json \<Rightarrow> replace_network_segment_request res" where
  "from_replace_network_segment_request j =
     and_then (member get_bool j ''enabled'') (\<lambda>enabled.
     and_then (member (get_list get_str) j ''filter_ids'') (\<lambda>filter_ids.
     and_then (opt_member get_word j ''rank'') (\<lambda>rank.
     and_then (member get_word j ''version'') (\<lambda>version.
     and_then (member get_word j ''vlan_id'') (\<lambda>vlan_id.
     Inr (replace_network_segment_request.make enabled filter_ids rank version vlan_id))))))"

interpretation replace_network_segment_request: codec to_replace_network_segment_request from_replace_network_segment_request
  by (rule build_codec[OF to_replace_network_segment_request_def], simp)
    (rename_tac v j, case_tac v, simp add: codec_simps from_replace_network_segment_request_def replace_network_segment_request.make_def)

section \<open>Resource\<close>

record resource =
  f_created_at :: string
  f_id :: string
  f_metadata :: string
  f_name :: string
  f_parent_id :: "string option"
  f_resource_type :: string
  f_tenant_id :: string
  f_uma_registered_by :: "string option"
  f_updated_at :: string

definition to_resource :: "(string \<Rightarrow> json) \<Rightarrow> resource \<Rightarrow> json res" where
  "to_resource parse v = build
     [req ''created_at'' (JStr (resource.f_created_at v)),
      req ''id'' (JStr (resource.f_id v)),
      embedded parse ''metadata'' (resource.f_metadata v),
      req ''name'' (JStr (resource.f_name v)),
      opt ''parent_id'' JStr (resource.f_parent_id v),
      req ''resource_type'' (JStr (resource.f_resource_type v)),
      req ''tenant_id'' (JStr (resource.f_tenant_id v)),
      opt ''uma_registered_by'' JStr (resource.f_uma_registered_by v),
      req ''updated_at'' (JStr (resource.f_updated_at v))]"

definition from_resource :: "(json \<Rightarrow> string res) \<Rightarrow> json \<Rightarrow> resource res" where
  "from_resource dmp j =
     and_then (member get_str j ''created_at'') (\<lambda>created_at.
     and_then (member get_str j ''id'') (\<lambda>id.
     and_then (member dmp j ''metadata'') (\<lambda>metadata.
     and_then (member get_str j ''name'') (\<lambda>name.
     and_then (opt_member get_str j ''parent_id'') (\<lambda>parent_id.
     and_then (member get_str j ''resource_type'') (\<lambda>resource_type.
     and_then (member get_str j ''tenant_id'') (\<lambda>tenant_id.
     and_then (opt_member get_str j ''uma_registered_by'') (\<lambda>uma_registered_by.
     and_then (member get_str j ''updated_at'') (\<lambda>updated_at.
     Inr (resource.make created_at id metadata name parent_id resource_type tenant_id uma_registered_by updated_at))))))))))"

section \<open>Role\<close>

record role =
  f_created_at :: string
  f_description :: string
  f_id :: string
  f_is_global :: bool
  f_name :: string
  f_tenant_id :: string
  f_updated_at :: string

definition to_role :: "role \<Rightarrow> json res" where
  "to_role v = build
     [req ''created_at'' (JStr (role.f_created_at v)),
      req ''description'' (JStr (role.f_description v)),
      req ''id'' (JStr (role.f_id v)),
      req ''is_global'' (JBool (role.f_is_global v)),
      req ''name'' (JStr (role.f_name v)),
      req ''tenant_id'' (JStr (role.f_tenant_id v)),
      req ''updated_at'' (JStr (role.f_updated_at v))]"

definition from_role :: "json \<Rightarrow> role res" where
  "from_role j =
     and_then (member get_str j ''created_at'') (\<lambda>created_at.
     and_then (member get_str j ''description'') (\<lambda>description.
     and_then (member get_str j ''id'') (\<lambda>id.
     and_then (member get_bool j ''is_global'') (\<lambda>is_global.
     and_then (member get_str j ''name'') (\<lambda>name.
     and_then (member get_str j ''tenant_id'') (\<lambda>tenant_id.
     and_then (member get_str j ''updated_at'') (\<lambda>updated_at.
     Inr (role.make created_at description id is_global name tenant_id updated_at))))))))"

interpretation role: codec to_role from_role
  by (rule build_codec[OF to_role_def], simp)
    (rename_tac v j, case_tac v, simp add: codec_simps from_role_def role.make_def)

section \<open>RoleAssignment\<close>

record role_assignment =
  f_inherit :: "bool option"
  f_resource_id :: "string option"
  f_role :: role
  f_tenant_scope :: "string list option"

definition to_role_assignment :: "role_assignment \<Rightarrow> json res" where
  "to_role_assignment v = build
     [opt ''inherit'' JBool (role_assignment.f_inherit v),
      opt ''resource_id'' JStr (role_assignment.f_resource_id v),
      req_r ''role'' (to_role (role_assignment.f_role v)),
      opt ''tenant_scope'' str_arr (non_empty (role_assignment.f_tenant_scope v))]"

definition from_role_assignment :: "json \<Rightarrow> role_assignment res" where
  "from_role_assignment j =
     and_then (opt_member get_bool j ''inherit'') (\<lambda>inherit.
     and_then (opt_member get_str j ''resource_id'') (\<lambda>resource_id.
     and_then (member from_role j ''role'') (\<lambda>role.
     and_then (opt_member (get_list get_str) j ''tenant_scope'') (\<lambda>tenant_scope.
     Inr (role_assignment.make inherit resource_id role tenant_scope)))))"

section \<open>SamlServiceProvider\<close>

record saml_service_provider =
  f_acs_urls :: "acs_endpoint list"
  f_allow_idp_initiated :: bool
  f_allowed_groups :: "string list"
  f_attribute_mappings :: "attribute_mapping list"
  f_created_at :: string
  f_display_name :: string
  f_enabled :: bool
  f_encrypt_assertions :: bool
  f_entity_id :: string
  f_id :: string
  f_name_id_format :: name_id_format
  f_sign_responses :: bool
  f_slo_binding :: "saml_binding option"
  f_slo_url :: "string option"
  f_sp_encryption_cert_pem :: "string option"
  f_sp_signing_cert_pem :: "string option"
  f_tenant_id :: string
  f_updated_at :: string
  f_want_authn_requests_signed :: bool

definition to_saml_service_provider :: "saml_service_provider \<Rightarrow> json res" where
  "to_saml_service_provider v = build
     [req_r ''acs_urls'' (arr_of to_acs_endpoint (saml_service_provider.f_acs_urls v)),
      req ''allow_idp_initiated'' (JBool (saml_service_provider.f_allow_idp_initiated v)),
      req ''allowed_groups'' (str_arr (saml_service_provider.f_allowed_groups v)),
      req_r ''attribute_mappings'' (arr_of to_attribute_mapping (saml_service_provider.f_attribute_mappings v)),
      req ''created_at'' (JStr (saml_service_provider.f_created_at v)),
      req ''display_name'' (JStr (saml_service_provider.f_display_name v)),
      req ''enabled'' (JBool (saml_service_provider.f_enabled v)),
      req ''encrypt_assertions'' (JBool (saml_service_provider.f_encrypt_assertions v)),
      req ''entity_id'' (JStr (saml_service_provider.f_entity_id v)),
      req ''id'' (JStr (saml_service_provider.f_id v)),
      req_r ''name_id_format'' (enum_json name_id_format_send (saml_service_provider.f_name_id_format v)),
      req ''sign_responses'' (JBool (saml_service_provider.f_sign_responses v)),
      opt_r ''slo_binding'' (enum_json saml_binding_send) (saml_service_provider.f_slo_binding v),
      opt ''slo_url'' JStr (saml_service_provider.f_slo_url v),
      opt ''sp_encryption_cert_pem'' JStr (saml_service_provider.f_sp_encryption_cert_pem v),
      opt ''sp_signing_cert_pem'' JStr (saml_service_provider.f_sp_signing_cert_pem v),
      req ''tenant_id'' (JStr (saml_service_provider.f_tenant_id v)),
      req ''updated_at'' (JStr (saml_service_provider.f_updated_at v)),
      req ''want_authn_requests_signed'' (JBool (saml_service_provider.f_want_authn_requests_signed v))]"

definition from_saml_service_provider :: "json \<Rightarrow> saml_service_provider res" where
  "from_saml_service_provider j =
     and_then (member (get_list from_acs_endpoint) j ''acs_urls'') (\<lambda>acs_urls.
     and_then (member get_bool j ''allow_idp_initiated'') (\<lambda>allow_idp_initiated.
     and_then (member (get_list get_str) j ''allowed_groups'') (\<lambda>allowed_groups.
     and_then (member (get_list from_attribute_mapping) j ''attribute_mappings'') (\<lambda>attribute_mappings.
     and_then (member get_str j ''created_at'') (\<lambda>created_at.
     and_then (member get_str j ''display_name'') (\<lambda>display_name.
     and_then (member get_bool j ''enabled'') (\<lambda>enabled.
     and_then (member get_bool j ''encrypt_assertions'') (\<lambda>encrypt_assertions.
     and_then (member get_str j ''entity_id'') (\<lambda>entity_id.
     and_then (member get_str j ''id'') (\<lambda>id.
     and_then (member (get_enum name_id_format_from_wire) j ''name_id_format'') (\<lambda>name_id_format.
     and_then (member get_bool j ''sign_responses'') (\<lambda>sign_responses.
     and_then (opt_member (get_enum saml_binding_from_wire) j ''slo_binding'') (\<lambda>slo_binding.
     and_then (opt_member get_str j ''slo_url'') (\<lambda>slo_url.
     and_then (opt_member get_str j ''sp_encryption_cert_pem'') (\<lambda>sp_encryption_cert_pem.
     and_then (opt_member get_str j ''sp_signing_cert_pem'') (\<lambda>sp_signing_cert_pem.
     and_then (member get_str j ''tenant_id'') (\<lambda>tenant_id.
     and_then (member get_str j ''updated_at'') (\<lambda>updated_at.
     and_then (member get_bool j ''want_authn_requests_signed'') (\<lambda>want_authn_requests_signed.
     Inr (saml_service_provider.make acs_urls allow_idp_initiated allowed_groups attribute_mappings created_at display_name enabled encrypt_assertions entity_id id name_id_format sign_responses slo_binding slo_url sp_encryption_cert_pem sp_signing_cert_pem tenant_id updated_at want_authn_requests_signed))))))))))))))))))))"

interpretation saml_service_provider: codec to_saml_service_provider from_saml_service_provider
  by (rule build_codec[OF to_saml_service_provider_def], simp)
    (rename_tac v j, case_tac v, auto simp: codec_simps from_saml_service_provider_def saml_service_provider.make_def
      dest!: acs_endpoint.reads attribute_mapping.reads codec.reads[OF acs_endpoint.lists] codec.reads[OF attribute_mapping.lists] name_id_format.reads saml_binding.reads split: option.splits)

section \<open>SamlServiceProviderInput\<close>

record saml_service_provider_input =
  f_acs_urls :: "acs_endpoint list"
  f_allow_idp_initiated :: "bool option"
  f_allowed_groups :: "string list option"
  f_attribute_mappings :: "attribute_mapping list option"
  f_display_name :: string
  f_enabled :: "bool option"
  f_encrypt_assertions :: "bool option"
  f_entity_id :: string
  f_name_id_format :: "name_id_format option"
  f_sign_responses :: "bool option"
  f_slo_binding :: "saml_binding option"
  f_slo_url :: "string option"
  f_sp_encryption_cert_pem :: "string option"
  f_sp_signing_cert_pem :: "string option"
  f_want_authn_requests_signed :: "bool option"

definition to_saml_service_provider_input :: "saml_service_provider_input \<Rightarrow> json res" where
  "to_saml_service_provider_input v = build
     [req_r ''acs_urls'' (arr_of to_acs_endpoint (saml_service_provider_input.f_acs_urls v)),
      opt ''allow_idp_initiated'' JBool (saml_service_provider_input.f_allow_idp_initiated v),
      opt ''allowed_groups'' str_arr (saml_service_provider_input.f_allowed_groups v),
      opt_r ''attribute_mappings'' (arr_of to_attribute_mapping) (saml_service_provider_input.f_attribute_mappings v),
      req ''display_name'' (JStr (saml_service_provider_input.f_display_name v)),
      opt ''enabled'' JBool (saml_service_provider_input.f_enabled v),
      opt ''encrypt_assertions'' JBool (saml_service_provider_input.f_encrypt_assertions v),
      req ''entity_id'' (JStr (saml_service_provider_input.f_entity_id v)),
      opt_r ''name_id_format'' (enum_json name_id_format_send) (saml_service_provider_input.f_name_id_format v),
      opt ''sign_responses'' JBool (saml_service_provider_input.f_sign_responses v),
      opt_r ''slo_binding'' (enum_json saml_binding_send) (saml_service_provider_input.f_slo_binding v),
      opt ''slo_url'' JStr (saml_service_provider_input.f_slo_url v),
      opt ''sp_encryption_cert_pem'' JStr (saml_service_provider_input.f_sp_encryption_cert_pem v),
      opt ''sp_signing_cert_pem'' JStr (saml_service_provider_input.f_sp_signing_cert_pem v),
      opt ''want_authn_requests_signed'' JBool (saml_service_provider_input.f_want_authn_requests_signed v)]"

definition from_saml_service_provider_input :: "json \<Rightarrow> saml_service_provider_input res" where
  "from_saml_service_provider_input j =
     and_then (member (get_list from_acs_endpoint) j ''acs_urls'') (\<lambda>acs_urls.
     and_then (opt_member get_bool j ''allow_idp_initiated'') (\<lambda>allow_idp_initiated.
     and_then (opt_member (get_list get_str) j ''allowed_groups'') (\<lambda>allowed_groups.
     and_then (opt_member (get_list from_attribute_mapping) j ''attribute_mappings'') (\<lambda>attribute_mappings.
     and_then (member get_str j ''display_name'') (\<lambda>display_name.
     and_then (opt_member get_bool j ''enabled'') (\<lambda>enabled.
     and_then (opt_member get_bool j ''encrypt_assertions'') (\<lambda>encrypt_assertions.
     and_then (member get_str j ''entity_id'') (\<lambda>entity_id.
     and_then (opt_member (get_enum name_id_format_from_wire) j ''name_id_format'') (\<lambda>name_id_format.
     and_then (opt_member get_bool j ''sign_responses'') (\<lambda>sign_responses.
     and_then (opt_member (get_enum saml_binding_from_wire) j ''slo_binding'') (\<lambda>slo_binding.
     and_then (opt_member get_str j ''slo_url'') (\<lambda>slo_url.
     and_then (opt_member get_str j ''sp_encryption_cert_pem'') (\<lambda>sp_encryption_cert_pem.
     and_then (opt_member get_str j ''sp_signing_cert_pem'') (\<lambda>sp_signing_cert_pem.
     and_then (opt_member get_bool j ''want_authn_requests_signed'') (\<lambda>want_authn_requests_signed.
     Inr (saml_service_provider_input.make acs_urls allow_idp_initiated allowed_groups attribute_mappings display_name enabled encrypt_assertions entity_id name_id_format sign_responses slo_binding slo_url sp_encryption_cert_pem sp_signing_cert_pem want_authn_requests_signed))))))))))))))))"

interpretation saml_service_provider_input: codec to_saml_service_provider_input from_saml_service_provider_input
  by (rule build_codec[OF to_saml_service_provider_input_def], simp)
    (rename_tac v j, case_tac v, auto simp: codec_simps from_saml_service_provider_input_def saml_service_provider_input.make_def
      dest!: acs_endpoint.reads attribute_mapping.reads codec.reads[OF acs_endpoint.lists] codec.reads[OF attribute_mapping.lists] name_id_format.reads saml_binding.reads split: option.splits)

section \<open>SamlSpMetadataDraft\<close>

record saml_sp_metadata_draft =
  f_encryption_certificate_fingerprint :: "string option"
  f_service_provider :: saml_service_provider_input
  f_signing_certificate_fingerprint :: "string option"
  f_warnings :: "string list"

definition to_saml_sp_metadata_draft :: "saml_sp_metadata_draft \<Rightarrow> json res" where
  "to_saml_sp_metadata_draft v = build
     [opt ''encryption_certificate_fingerprint'' JStr (saml_sp_metadata_draft.f_encryption_certificate_fingerprint v),
      req_r ''service_provider'' (to_saml_service_provider_input (saml_sp_metadata_draft.f_service_provider v)),
      opt ''signing_certificate_fingerprint'' JStr (saml_sp_metadata_draft.f_signing_certificate_fingerprint v),
      req ''warnings'' (str_arr (saml_sp_metadata_draft.f_warnings v))]"

definition from_saml_sp_metadata_draft :: "json \<Rightarrow> saml_sp_metadata_draft res" where
  "from_saml_sp_metadata_draft j =
     and_then (opt_member get_str j ''encryption_certificate_fingerprint'') (\<lambda>encryption_certificate_fingerprint.
     and_then (member from_saml_service_provider_input j ''service_provider'') (\<lambda>service_provider.
     and_then (opt_member get_str j ''signing_certificate_fingerprint'') (\<lambda>signing_certificate_fingerprint.
     and_then (member (get_list get_str) j ''warnings'') (\<lambda>warnings.
     Inr (saml_sp_metadata_draft.make encryption_certificate_fingerprint service_provider signing_certificate_fingerprint warnings)))))"

interpretation saml_sp_metadata_draft: codec to_saml_sp_metadata_draft from_saml_sp_metadata_draft
  by (rule build_codec[OF to_saml_sp_metadata_draft_def], simp)
    (rename_tac v j, case_tac v, auto simp: codec_simps from_saml_sp_metadata_draft_def saml_sp_metadata_draft.make_def
      dest!: saml_service_provider_input.reads split: option.splits)

section \<open>SessionResponse\<close>

record session_response =
  f_amr :: "string list"
  f_authenticated_at :: string
  f_created_at :: string
  f_expires_at :: string
  f_id :: string
  f_ip_address :: "string option"
  f_refresh_replay_at :: "string option"
  f_refresh_replay_grace_accepted :: "64 word"
  f_refresh_replay_refused :: "64 word"
  f_refresh_replay_verdict :: string
  f_user_agent :: "string option"

definition to_session_response :: "session_response \<Rightarrow> json res" where
  "to_session_response v = build
     [req ''amr'' (str_arr (session_response.f_amr v)),
      req ''authenticated_at'' (JStr (session_response.f_authenticated_at v)),
      req ''created_at'' (JStr (session_response.f_created_at v)),
      req ''expires_at'' (JStr (session_response.f_expires_at v)),
      req ''id'' (JStr (session_response.f_id v)),
      opt ''ip_address'' JStr (session_response.f_ip_address v),
      opt ''refresh_replay_at'' JStr (session_response.f_refresh_replay_at v),
      req ''refresh_replay_grace_accepted'' (JInt (session_response.f_refresh_replay_grace_accepted v)),
      req ''refresh_replay_refused'' (JInt (session_response.f_refresh_replay_refused v)),
      req ''refresh_replay_verdict'' (JStr (session_response.f_refresh_replay_verdict v)),
      opt ''user_agent'' JStr (session_response.f_user_agent v)]"

definition from_session_response :: "json \<Rightarrow> session_response res" where
  "from_session_response j =
     and_then (member (get_list get_str) j ''amr'') (\<lambda>amr.
     and_then (member get_str j ''authenticated_at'') (\<lambda>authenticated_at.
     and_then (member get_str j ''created_at'') (\<lambda>created_at.
     and_then (member get_str j ''expires_at'') (\<lambda>expires_at.
     and_then (member get_str j ''id'') (\<lambda>id.
     and_then (opt_member get_str j ''ip_address'') (\<lambda>ip_address.
     and_then (opt_member get_str j ''refresh_replay_at'') (\<lambda>refresh_replay_at.
     and_then (member get_word j ''refresh_replay_grace_accepted'') (\<lambda>refresh_replay_grace_accepted.
     and_then (member get_word j ''refresh_replay_refused'') (\<lambda>refresh_replay_refused.
     and_then (member get_str j ''refresh_replay_verdict'') (\<lambda>refresh_replay_verdict.
     and_then (opt_member get_str j ''user_agent'') (\<lambda>user_agent.
     Inr (session_response.make amr authenticated_at created_at expires_at id ip_address refresh_replay_at refresh_replay_grace_accepted refresh_replay_refused refresh_replay_verdict user_agent))))))))))))"

interpretation session_response: codec to_session_response from_session_response
  by (rule build_codec[OF to_session_response_def], simp)
    (rename_tac v j, case_tac v, simp add: codec_simps from_session_response_def session_response.make_def)

section \<open>SignAuditBatchRequest\<close>

record sign_audit_batch_request =
  f_entry_ids :: "string list"

definition to_sign_audit_batch_request :: "sign_audit_batch_request \<Rightarrow> json res" where
  "to_sign_audit_batch_request v = build
     [req ''entry_ids'' (str_arr (sign_audit_batch_request.f_entry_ids v))]"

definition from_sign_audit_batch_request :: "json \<Rightarrow> sign_audit_batch_request res" where
  "from_sign_audit_batch_request j =
     and_then (member (get_list get_str) j ''entry_ids'') (\<lambda>entry_ids.
     Inr (sign_audit_batch_request.make entry_ids))"

interpretation sign_audit_batch_request: codec to_sign_audit_batch_request from_sign_audit_batch_request
  by (rule build_codec[OF to_sign_audit_batch_request_def], simp)
    (rename_tac v j, case_tac v, simp add: codec_simps from_sign_audit_batch_request_def sign_audit_batch_request.make_def)

section \<open>SignIntermediateCsrRequest\<close>

record sign_intermediate_csr_request =
  f_csr_pem :: string
  f_parent_ca_id :: string
  f_validity_days :: "64 word"

definition to_sign_intermediate_csr_request :: "sign_intermediate_csr_request \<Rightarrow> json res" where
  "to_sign_intermediate_csr_request v = build
     [req ''csr_pem'' (JStr (sign_intermediate_csr_request.f_csr_pem v)),
      req ''parent_ca_id'' (JStr (sign_intermediate_csr_request.f_parent_ca_id v)),
      req ''validity_days'' (JInt (sign_intermediate_csr_request.f_validity_days v))]"

definition from_sign_intermediate_csr_request :: "json \<Rightarrow> sign_intermediate_csr_request res" where
  "from_sign_intermediate_csr_request j =
     and_then (member get_str j ''csr_pem'') (\<lambda>csr_pem.
     and_then (member get_str j ''parent_ca_id'') (\<lambda>parent_ca_id.
     and_then (member get_word j ''validity_days'') (\<lambda>validity_days.
     Inr (sign_intermediate_csr_request.make csr_pem parent_ca_id validity_days))))"

interpretation sign_intermediate_csr_request: codec to_sign_intermediate_csr_request from_sign_intermediate_csr_request
  by (rule build_codec[OF to_sign_intermediate_csr_request_def], simp)
    (rename_tac v j, case_tac v, simp add: codec_simps from_sign_intermediate_csr_request_def sign_intermediate_csr_request.make_def)

section \<open>UpdateReactorRequest\<close>

record update_reactor_request =
  f_description :: "string option"
  f_enabled :: "bool option"
  f_events :: "string list option"
  f_failure_policy :: "failure_policy option"
  f_mode :: "reactor_mode option"
  f_name :: "string option"
  f_priority :: "(64 word) option"
  f_timeout_ms :: "(64 word) option"

definition to_update_reactor_request :: "update_reactor_request \<Rightarrow> json res" where
  "to_update_reactor_request v = build
     [opt ''description'' JStr (update_reactor_request.f_description v),
      opt ''enabled'' JBool (update_reactor_request.f_enabled v),
      opt ''events'' str_arr (update_reactor_request.f_events v),
      opt_r ''failure_policy'' (enum_json failure_policy_send) (update_reactor_request.f_failure_policy v),
      opt_r ''mode'' (enum_json reactor_mode_send) (update_reactor_request.f_mode v),
      opt ''name'' JStr (update_reactor_request.f_name v),
      opt ''priority'' JInt (update_reactor_request.f_priority v),
      opt ''timeout_ms'' JInt (update_reactor_request.f_timeout_ms v)]"

definition from_update_reactor_request :: "json \<Rightarrow> update_reactor_request res" where
  "from_update_reactor_request j =
     and_then (opt_member get_str j ''description'') (\<lambda>description.
     and_then (opt_member get_bool j ''enabled'') (\<lambda>enabled.
     and_then (opt_member (get_list get_str) j ''events'') (\<lambda>events.
     and_then (opt_member (get_enum failure_policy_from_wire) j ''failure_policy'') (\<lambda>failure_policy.
     and_then (opt_member (get_enum reactor_mode_from_wire) j ''mode'') (\<lambda>mode.
     and_then (opt_member get_str j ''name'') (\<lambda>name.
     and_then (opt_member get_word j ''priority'') (\<lambda>priority.
     and_then (opt_member get_word j ''timeout_ms'') (\<lambda>timeout_ms.
     Inr (update_reactor_request.make description enabled events failure_policy mode name priority timeout_ms)))))))))"

interpretation update_reactor_request: codec to_update_reactor_request from_update_reactor_request
  by (rule build_codec[OF to_update_reactor_request_def], simp)
    (rename_tac v j, case_tac v, auto simp: codec_simps from_update_reactor_request_def update_reactor_request.make_def
      dest!: failure_policy.reads reactor_mode.reads split: option.splits)

section \<open>UpdateResourceRequest\<close>

record update_resource_request =
  f_metadata :: "string option"
  f_name :: "string option"
  f_parent_id :: "string option"
  f_resource_type :: "string option"

definition to_update_resource_request :: "(string \<Rightarrow> json) \<Rightarrow> update_resource_request \<Rightarrow> json res" where
  "to_update_resource_request parse v = build
     [opt_embedded parse ''metadata'' (update_resource_request.f_metadata v),
      opt ''name'' JStr (update_resource_request.f_name v),
      opt ''parent_id'' JStr (update_resource_request.f_parent_id v),
      opt ''resource_type'' JStr (update_resource_request.f_resource_type v)]"

definition from_update_resource_request :: "(json \<Rightarrow> string res) \<Rightarrow> json \<Rightarrow> update_resource_request res" where
  "from_update_resource_request dmp j =
     and_then (opt_member dmp j ''metadata'') (\<lambda>metadata.
     and_then (opt_member get_str j ''name'') (\<lambda>name.
     and_then (opt_member get_str j ''parent_id'') (\<lambda>parent_id.
     and_then (opt_member get_str j ''resource_type'') (\<lambda>resource_type.
     Inr (update_resource_request.make metadata name parent_id resource_type)))))"

section \<open>UpdateScopeRequest\<close>

record update_scope_request =
  f_description :: "string option"
  f_name :: "string option"

definition to_update_scope_request :: "update_scope_request \<Rightarrow> json res" where
  "to_update_scope_request v = build
     [opt ''description'' JStr (update_scope_request.f_description v),
      opt ''name'' JStr (update_scope_request.f_name v)]"

definition from_update_scope_request :: "json \<Rightarrow> update_scope_request res" where
  "from_update_scope_request j =
     and_then (opt_member get_str j ''description'') (\<lambda>description.
     and_then (opt_member get_str j ''name'') (\<lambda>name.
     Inr (update_scope_request.make description name)))"

interpretation update_scope_request: codec to_update_scope_request from_update_scope_request
  by (rule build_codec[OF to_update_scope_request_def], simp)
    (rename_tac v j, case_tac v, simp add: codec_simps from_update_scope_request_def update_scope_request.make_def)

section \<open>UpdateWebhookRequest\<close>

record update_webhook_request =
  f_enabled :: "bool option"
  f_events :: "string list option"
  f_retry_policy :: "retry_policy option"
  f_secret :: "string option"
  f_url :: "string option"

definition to_update_webhook_request :: "update_webhook_request \<Rightarrow> json res" where
  "to_update_webhook_request v = build
     [opt ''enabled'' JBool (update_webhook_request.f_enabled v),
      opt ''events'' str_arr (update_webhook_request.f_events v),
      opt_r ''retry_policy'' to_retry_policy (update_webhook_request.f_retry_policy v),
      opt ''secret'' JStr (update_webhook_request.f_secret v),
      opt ''url'' JStr (update_webhook_request.f_url v)]"

definition from_update_webhook_request :: "json \<Rightarrow> update_webhook_request res" where
  "from_update_webhook_request j =
     and_then (opt_member get_bool j ''enabled'') (\<lambda>enabled.
     and_then (opt_member (get_list get_str) j ''events'') (\<lambda>events.
     and_then (opt_member from_retry_policy j ''retry_policy'') (\<lambda>retry_policy.
     and_then (opt_member get_str j ''secret'') (\<lambda>secret.
     and_then (opt_member get_str j ''url'') (\<lambda>url.
     Inr (update_webhook_request.make enabled events retry_policy secret url))))))"

interpretation update_webhook_request: codec to_update_webhook_request from_update_webhook_request
  by (rule build_codec[OF to_update_webhook_request_def], simp)
    (rename_tac v j, case_tac v, auto simp: codec_simps from_update_webhook_request_def update_webhook_request.make_def
      dest!: retry_policy.reads split: option.splits)

section \<open>WebauthnAttestationPolicy\<close>

record webauthn_attestation_policy =
  f_allowed_aaguids :: "string list option"
  f_block_revoked_status :: bool
  f_blocked_aaguids :: "string list option"
  f_min_certification :: "certification_level option"
  f_mode :: attestation_mode
  f_require_fido_certified :: bool
  f_unknown_aaguid :: "unknown_aaguid_action option"

definition to_webauthn_attestation_policy :: "webauthn_attestation_policy \<Rightarrow> json res" where
  "to_webauthn_attestation_policy v = build
     [opt ''allowed_aaguids'' str_arr (webauthn_attestation_policy.f_allowed_aaguids v),
      req ''block_revoked_status'' (JBool (webauthn_attestation_policy.f_block_revoked_status v)),
      opt ''blocked_aaguids'' str_arr (webauthn_attestation_policy.f_blocked_aaguids v),
      opt_r ''min_certification'' (enum_json certification_level_send) (webauthn_attestation_policy.f_min_certification v),
      req_r ''mode'' (enum_json attestation_mode_send (webauthn_attestation_policy.f_mode v)),
      req ''require_fido_certified'' (JBool (webauthn_attestation_policy.f_require_fido_certified v)),
      opt_r ''unknown_aaguid'' (enum_json unknown_aaguid_action_send) (webauthn_attestation_policy.f_unknown_aaguid v)]"

definition from_webauthn_attestation_policy :: "json \<Rightarrow> webauthn_attestation_policy res" where
  "from_webauthn_attestation_policy j =
     and_then (opt_member (get_list get_str) j ''allowed_aaguids'') (\<lambda>allowed_aaguids.
     and_then (member get_bool j ''block_revoked_status'') (\<lambda>block_revoked_status.
     and_then (opt_member (get_list get_str) j ''blocked_aaguids'') (\<lambda>blocked_aaguids.
     and_then (opt_member (get_enum certification_level_from_wire) j ''min_certification'') (\<lambda>min_certification.
     and_then (member (get_enum attestation_mode_from_wire) j ''mode'') (\<lambda>mode.
     and_then (member get_bool j ''require_fido_certified'') (\<lambda>require_fido_certified.
     and_then (opt_member (get_enum unknown_aaguid_action_from_wire) j ''unknown_aaguid'') (\<lambda>unknown_aaguid.
     Inr (webauthn_attestation_policy.make allowed_aaguids block_revoked_status blocked_aaguids min_certification mode require_fido_certified unknown_aaguid))))))))"

interpretation webauthn_attestation_policy: codec to_webauthn_attestation_policy from_webauthn_attestation_policy
  by (rule build_codec[OF to_webauthn_attestation_policy_def], simp)
    (rename_tac v j, case_tac v, auto simp: codec_simps from_webauthn_attestation_policy_def webauthn_attestation_policy.make_def
      dest!: attestation_mode.reads certification_level.reads unknown_aaguid_action.reads split: option.splits)

section \<open>WebhookResponse\<close>

record webhook_response =
  f_created_at :: string
  f_enabled :: bool
  f_events :: "string list"
  f_id :: string
  f_retry_policy :: retry_policy
  f_tenant_id :: string
  f_updated_at :: string
  f_url :: string

definition to_webhook_response :: "webhook_response \<Rightarrow> json res" where
  "to_webhook_response v = build
     [req ''created_at'' (JStr (webhook_response.f_created_at v)),
      req ''enabled'' (JBool (webhook_response.f_enabled v)),
      req ''events'' (str_arr (webhook_response.f_events v)),
      req ''id'' (JStr (webhook_response.f_id v)),
      req_r ''retry_policy'' (to_retry_policy (webhook_response.f_retry_policy v)),
      req ''tenant_id'' (JStr (webhook_response.f_tenant_id v)),
      req ''updated_at'' (JStr (webhook_response.f_updated_at v)),
      req ''url'' (JStr (webhook_response.f_url v))]"

definition from_webhook_response :: "json \<Rightarrow> webhook_response res" where
  "from_webhook_response j =
     and_then (member get_str j ''created_at'') (\<lambda>created_at.
     and_then (member get_bool j ''enabled'') (\<lambda>enabled.
     and_then (member (get_list get_str) j ''events'') (\<lambda>events.
     and_then (member get_str j ''id'') (\<lambda>id.
     and_then (member from_retry_policy j ''retry_policy'') (\<lambda>retry_policy.
     and_then (member get_str j ''tenant_id'') (\<lambda>tenant_id.
     and_then (member get_str j ''updated_at'') (\<lambda>updated_at.
     and_then (member get_str j ''url'') (\<lambda>url.
     Inr (webhook_response.make created_at enabled events id retry_policy tenant_id updated_at url)))))))))"

interpretation webhook_response: codec to_webhook_response from_webhook_response
  by (rule build_codec[OF to_webhook_response_def], simp)
    (rename_tac v j, case_tac v, auto simp: codec_simps from_webhook_response_def webhook_response.make_def
      dest!: retry_policy.reads split: option.splits)

end
