(* ===== verification/ModelHelpers.thy ===== *)
theory ModelHelpers
  imports Models1 Models2 Models3 Models4
begin

text \<open>
  The hand-written members of the models, \<open>src/management_helpers.cpp\<close>: the conversions of a
  read into the input of its replacement (\<open>to_input\<close>), the variants of a SCIM target's
  authentication and scope, and the check made before \<open>saml.parse_sp_metadata\<close>. A constructor of
  an input leaves every member it does not take unset. \<open>dmp\<close> is the serialiser of the JSON
  library, which can refuse a string that is not UTF-8.
\<close>

section \<open>Directory\<close>

definition directory_config_to_input :: "directory_config \<Rightarrow> set_directory_config" where
  "directory_config_to_input v =
     \<lparr>set_directory_config.f_base_dn = directory_config.f_base_dn v,
      f_bind_dn = directory_config.f_bind_dn v,
      f_bind_secret = None,
      f_enabled = directory_config.f_enabled v,
      f_group_base_dn = directory_config.f_group_base_dn v,
      f_group_filter = directory_config.f_group_filter v,
      f_group_mappings = Some (directory_config.f_group_mappings v),
      f_group_member_attribute = Some (directory_config.f_group_member_attribute v),
      f_group_nesting_depth = Some (directory_config.f_group_nesting_depth v),
      f_jit_provisioning = Some (directory_config.f_jit_provisioning v),
      f_kind = directory_config.f_kind v,
      f_start_tls = directory_config.f_start_tls v,
      f_sync_interval_secs = Some (directory_config.f_sync_interval_secs v),
      f_trust_anchors_pem = Some (directory_config.f_trust_anchors_pem v),
      f_url = directory_config.f_url v,
      f_user_attribute_map = Some (directory_config.f_user_attribute_map v),
      f_user_filter = directory_config.f_user_filter v\<rparr>"

section \<open>SAML\<close>

definition parse_saml_sp_metadata_from_url :: "string \<Rightarrow> parse_saml_sp_metadata" where
  "parse_saml_sp_metadata_from_url url = parse_saml_sp_metadata.make (Some url) None"

definition parse_saml_sp_metadata_from_xml :: "string \<Rightarrow> parse_saml_sp_metadata" where
  "parse_saml_sp_metadata_from_xml xml = parse_saml_sp_metadata.make None (Some xml)"

definition saml_service_provider_to_input :: "saml_service_provider \<Rightarrow> saml_service_provider_input" where
  "saml_service_provider_to_input v =
     \<lparr>saml_service_provider_input.f_acs_urls = saml_service_provider.f_acs_urls v,
      f_allow_idp_initiated = Some (saml_service_provider.f_allow_idp_initiated v),
      f_allowed_groups = Some (saml_service_provider.f_allowed_groups v),
      f_attribute_mappings = Some (saml_service_provider.f_attribute_mappings v),
      f_display_name = saml_service_provider.f_display_name v,
      f_enabled = Some (saml_service_provider.f_enabled v),
      f_encrypt_assertions = Some (saml_service_provider.f_encrypt_assertions v),
      f_entity_id = saml_service_provider.f_entity_id v,
      f_name_id_format = Some (saml_service_provider.f_name_id_format v),
      f_sign_responses = Some (saml_service_provider.f_sign_responses v),
      f_slo_binding = saml_service_provider.f_slo_binding v,
      f_slo_url = saml_service_provider.f_slo_url v,
      f_sp_encryption_cert_pem = saml_service_provider.f_sp_encryption_cert_pem v,
      f_sp_signing_cert_pem = saml_service_provider.f_sp_signing_cert_pem v,
      f_want_authn_requests_signed = Some (saml_service_provider.f_want_authn_requests_signed v)\<rparr>"

definition parse_sp_metadata_exactly_one :: "parse_saml_sp_metadata \<Rightarrow> unit res" where
  "parse_sp_metadata_exactly_one body =
     (if (parse_saml_sp_metadata.f_metadata_url body \<noteq> None) \<noteq> (parse_saml_sp_metadata.f_metadata_xml body \<noteq> None)
      then Inr ()
      else Inl (InvalidArgument ''saml.parse_sp_metadata: set exactly one of metadata_xml and metadata_url''))"

section \<open>Shared signals\<close>

definition ssf_stream_to_input :: "ssf_stream \<Rightarrow> ssf_stream_input" where
  "ssf_stream_to_input v =
     \<lparr>ssf_stream_input.f_audience = ssf_stream.f_audience v,
      f_authorization_header = None,
      f_clear_authorization_header = None,
      f_delivery_method = ssf_stream.f_delivery_method v,
      f_description = ssf_stream.f_description v,
      f_endpoint_url = ssf_stream.f_endpoint_url v,
      f_events_allowed = ssf_stream.f_events_allowed v,
      f_events_requested = Some (ssf_stream.f_events_requested v),
      f_expected_updated_at = Some (ssf_stream.f_updated_at v),
      f_receiver_client_id = ssf_stream.f_receiver_client_id v,
      f_status = Some (ssf_stream.f_status v),
      f_status_reason = ssf_stream.f_status_reason v,
      f_subject_format = Some (ssf_stream.f_subject_format v)\<rparr>"

text \<open>A change that is set replaces the member, one that is not leaves it.\<close>

definition laid :: "'a option \<Rightarrow> 'a \<Rightarrow> 'a" where
  "laid change old = (case change of None \<Rightarrow> old | Some x \<Rightarrow> x)"

definition laid_some :: "'a option \<Rightarrow> 'a option \<Rightarrow> 'a option" where
  "laid_some change old = (case change of None \<Rightarrow> old | Some x \<Rightarrow> Some x)"

definition ssf_stream_to_input_with :: "ssf_stream \<Rightarrow> ssf_stream_changes \<Rightarrow> ssf_stream_input" where
  "ssf_stream_to_input_with v c =
     (let out = ssf_stream_to_input v;
          cut = (case ssf_stream_changes.f_events_allowed c of
                   None \<Rightarrow> ssf_stream_input.f_events_requested out
                 | Some inside \<Rightarrow>
                     (if ssf_stream_changes.f_events_requested c = None
                      then Some (filter (\<lambda>ev. ev \<in> set inside) (ssf_stream.f_events_requested v))
                      else ssf_stream_input.f_events_requested out))
      in \<lparr>ssf_stream_input.f_audience = laid (ssf_stream_changes.f_audience c) (ssf_stream_input.f_audience out),
          f_authorization_header = laid_some (ssf_stream_changes.f_authorization_header c) (ssf_stream_input.f_authorization_header out),
          f_clear_authorization_header =
            laid_some (ssf_stream_changes.f_clear_authorization_header c) (ssf_stream_input.f_clear_authorization_header out),
          f_delivery_method = laid (ssf_stream_changes.f_delivery_method c) (ssf_stream_input.f_delivery_method out),
          f_description = laid (ssf_stream_changes.f_description c) (ssf_stream_input.f_description out),
          f_endpoint_url = laid (ssf_stream_changes.f_endpoint_url c) (ssf_stream_input.f_endpoint_url out),
          f_events_allowed = laid (ssf_stream_changes.f_events_allowed c) (ssf_stream_input.f_events_allowed out),
          f_events_requested = laid_some (ssf_stream_changes.f_events_requested c) cut,
          f_expected_updated_at =
            laid (ssf_stream_changes.f_expected_updated_at c) (ssf_stream_input.f_expected_updated_at out),
          f_receiver_client_id = laid (ssf_stream_changes.f_receiver_client_id c) (ssf_stream_input.f_receiver_client_id out),
          f_status = laid_some (ssf_stream_changes.f_status c) (ssf_stream_input.f_status out),
          f_status_reason = laid (ssf_stream_changes.f_status_reason c) (ssf_stream_input.f_status_reason out),
          f_subject_format = laid_some (ssf_stream_changes.f_subject_format c) (ssf_stream_input.f_subject_format out)\<rparr>)"

section \<open>SCIM targets\<close>

definition scim_target_response_to_input :: "scim_target_response \<Rightarrow> scim_target_input" where
  "scim_target_response_to_input v =
     \<lparr>scim_target_input.f_auth = scim_target_response.f_auth v,
      f_base_url = scim_target_response.f_base_url v,
      f_credential = None,
      f_deprovision = Some (scim_target_response.f_deprovision v),
      f_enabled = Some (scim_target_response.f_enabled v),
      f_expected_updated_at = Some (scim_target_response.f_updated_at v),
      f_name = scim_target_response.f_name v,
      f_push_groups = Some (scim_target_response.f_push_groups v),
      f_scope = scim_target_response.f_scope v,
      f_user_name_from = Some (scim_target_response.f_user_name_from v)\<rparr>"

definition scim_auth_bearer :: "(json \<Rightarrow> string res) \<Rightarrow> scim_target_auth res" where
  "scim_auth_bearer dmp =
     and_then (dmp (JObj [(''type'', JStr ''bearer'')])) (\<lambda>raw. Inr (scim_target_auth.make ''bearer'' raw))"

definition scim_auth_oauth2_client_credentials ::
    "(json \<Rightarrow> string res) \<Rightarrow> string \<Rightarrow> string \<Rightarrow> string option \<Rightarrow> scim_target_auth res" where
  "scim_auth_oauth2_client_credentials dmp token_url client_id sc =
     (let t = ''oauth2_client_credentials'';
          j = jset ''client_id'' (JStr client_id) (jset ''token_url'' (JStr token_url) (jset ''type'' (JStr t) (JObj [])));
          j' = (case sc of None \<Rightarrow> j | Some x \<Rightarrow> jset ''scope'' (JStr x) j)
      in and_then (dmp j') (\<lambda>raw. Inr (scim_target_auth.make t raw)))"

definition scim_scope_all_users :: "(json \<Rightarrow> string res) \<Rightarrow> scim_target_scope res" where
  "scim_scope_all_users dmp =
     and_then (dmp (JObj [(''type'', JStr ''all_users'')])) (\<lambda>raw. Inr (scim_target_scope.make ''all_users'' raw))"

definition scim_scope_groups :: "(json \<Rightarrow> string res) \<Rightarrow> string list \<Rightarrow> scim_target_scope res" where
  "scim_scope_groups dmp ids =
     (let j = jset ''group_ids'' (str_arr ids) (jset ''type'' (JStr ''groups'') (JObj []))
      in and_then (dmp j) (\<lambda>raw. Inr (scim_target_scope.make ''groups'' raw)))"

end
