(* ===== verification/ModelGuarantees.thy ===== *)
theory ModelGuarantees
  imports ModelHelpers
begin

text \<open>
  What the models of the management API guarantee together: every enumeration sends only spellings
  it reads back as the same value, and never its unknown value; the larger structures are read
  back as they were sent; an edit of a service provider sends back what was read; and an edit of
  an event stream never requests an event outside the ceiling it lowers to.
\<close>

lemma enum_sound:
  assumes "wire_enum w f u snd'"
  shows "case snd' v of Inl _ \<Rightarrow> v = u | Inr s \<Rightarrow> f s = v \<and> s = w v"
proof (cases "v = u")
  case True
  then have "snd' v \<noteq> Inr s" for s using wire_enum.send_Inr[OF assms] by blast
  with True show ?thesis by (cases "snd' v") simp_all
next
  case False
  then have "snd' v = Inr (w v)" using wire_enum.send_Inr[OF assms] by blast
  with wire_enum.known[OF assms False] show ?thesis by simp
qed

lemma codec_sound:
  assumes "codec to from'"
  shows "case to v of Inl _ \<Rightarrow> True | Inr j \<Rightarrow> from' j = Inr v"
  using codec.dec_enc[OF assms] by (cases "to v") auto

text \<open>Of two encodings, the one with fewer entries has the members of the other.\<close>

lemma put_all_ok: "is_ok (put_all es m) \<longleftrightarrow> list_all (\<lambda>e. is_ok (snd e)) es"
proof (induction es m rule: put_all.induct)
  case (2 k r es m)
  show ?case
  proof (cases r)
    case (Inr v)
    with 2[of v] show ?thesis by (cases v) simp_all
  qed simp
qed simp

lemma put_all_other: "put_all es m = Inr m' \<Longrightarrow> k \<notin> fst ` set es \<Longrightarrow> map_of m' k = map_of m k"
  by (rule put_all_keeps)

lemma build_subset:
  assumes j: "build es' = Inr j" and "set es \<subseteq> set es'" "distinct (map fst es')" "distinct (map fst es)"
  shows "\<exists>i. build es = Inr i \<and> (\<forall>k. jfind i k \<in> {None, jfind j k})"
proof -
  have "list_all (\<lambda>e. is_ok (snd e)) es'" using j put_all_ok[of es' "[]"] by (auto simp: build_def and_then_eq_Inr)
  with assms(2) have "is_ok (put_all es [])" by (auto simp: put_all_ok list_all_iff)
  then obtain m where m: "put_all es [] = Inr m" by (cases "put_all es []") auto
  then have i: "build es = Inr (JObj m)" by (simp add: build_def)
  have "jfind (JObj m) k \<in> {None, jfind j k}" for k
  proof (cases "k \<in> fst ` set es")
    case True
    then obtain r where e: "(k, r) \<in> set es" by auto
    from build_holds[OF i assms(4)] e have "holds (JObj m) (k, r)" by (auto simp: list_all_iff)
    moreover from build_holds[OF j assms(3)] e assms(2) have "holds j (k, r)" by (auto simp: list_all_iff)
    ultimately show ?thesis by (auto simp: holds_def)
  next
    case False
    from put_all_other[OF m this] show ?thesis by simp
  qed
  with i show ?thesis by blast
qed

section \<open>Properties\<close>



text \<open>
  Editing a SAML service provider without changing anything sends back what was read: the
  input made from a provider can be sent whenever the provider could, and each member it holds is
  the member of the provider's document; no other member appears.
\<close>

theorem saml_edit_resends:
  "case to_saml_service_provider v of
     Inl _ \<Rightarrow> True
   | Inr j \<Rightarrow> \<exists>i. to_saml_service_provider_input (saml_service_provider_to_input v) = Inr i
       \<and> (\<forall>k. jfind i k \<in> {None, jfind j k})"
proof (cases "to_saml_service_provider v")
  case (Inr j)
  from build_subset[OF Inr[unfolded to_saml_service_provider_def]] show ?thesis
    by (simp add: Inr to_saml_service_provider_input_def saml_service_provider_to_input_def opt_def opt_r_def req_def req_r_def)
qed simp

text \<open>
  C16. Lowering the ceiling of an event stream narrows what it requests and never resets it: with a
  new list of allowed events and no new list of requested ones, the edit sends the events that
  were requested and are still allowed, in their order, and no other; a stated list is sent as
  stated, and otherwise the list that was read. The version that was read goes with it unless the
  caller states another.
\<close>

theorem ssf_edit_stays_inside:
  "(case (ssf_stream_changes.f_events_allowed c, ssf_stream_changes.f_events_requested c) of
     (Some limit, None) \<Rightarrow> \<exists>es. ssf_stream_input.f_events_requested (ssf_stream_to_input_with v c) = Some es
        \<and> set es = set (ssf_stream.f_events_requested v) \<inter> set limit \<and> subseq es (ssf_stream.f_events_requested v)
        \<and> ssf_stream_input.f_events_allowed (ssf_stream_to_input_with v c) = limit
   | (_, Some es) \<Rightarrow> ssf_stream_input.f_events_requested (ssf_stream_to_input_with v c) = Some es
   | (None, None) \<Rightarrow> ssf_stream_input.f_events_requested (ssf_stream_to_input_with v c) = Some (ssf_stream.f_events_requested v))
   \<and> ssf_stream_input.f_expected_updated_at (ssf_stream_to_input_with v c) =
     (case ssf_stream_changes.f_expected_updated_at c of None \<Rightarrow> Some (ssf_stream.f_updated_at v) | Some x \<Rightarrow> x)"
  by (auto simp: ssf_stream_to_input_with_def ssf_stream_to_input_def Let_def laid_def laid_some_def split: option.split)

end
