(* ===== verification/Calls.thy ===== *)
theory Calls
  imports Management Models1 Models2 Models3 Models4 ModelHelpers
begin

text \<open>
  The forms the generated operations of \<open>src/management_ops.cpp\<close> are written in: the values of
  the path are resolved first (an organization or tenant id can be refused), then the body is
  encoded (an encoder can refuse), then \<open>Transport::send\<close> runs, and the answer is dropped
  (\<open>void_call\<close>), decoded (\<open>read_call\<close>) or read as a page (\<open>page_call\<close>). The lemmas say which
  methods an operation can send; \<open>method_rules\<close> collects them. Also the hand-written members of
  the models (\<open>src/management_helpers.cpp\<close>).
\<close>

named_theorems method_rules

section \<open>The forms\<close>

definition with_org :: "call_scope \<Rightarrow> (string \<Rightarrow> path_value list) \<Rightarrow> ('w, path_value list) cop" where
  "with_org sc f = seq (scoped_org_id sc) (\<lambda>i. ret (f i))"

definition with_tenant :: "call_scope \<Rightarrow> (string \<Rightarrow> path_value list) \<Rightarrow> ('w, path_value list) cop" where
  "with_tenant sc f = seq (scoped_tenant_id sc) (\<lambda>i. ret (f i))"

definition no_body :: "json option res" where
  "no_body = Inr None"

definition json_body :: "json res \<Rightarrow> json option res" where
  "json_body r = and_then r (\<lambda>j. Inr (Some j))"

definition issue ::
    "'e client_env_scheme \<Rightarrow> string \<Rightarrow> string \<Rightarrow> string \<Rightarrow> ('w, path_value list) cop \<Rightarrow> query_value list \<Rightarrow>
     json option res \<Rightarrow> ('w, json) cop" where
  "issue E op meth tmpl vals query body =
     seq vals (\<lambda>vs. seq (lift_res body) (\<lambda>b. management_send E op meth tmpl vs query b))"

definition void_call ::
    "'e client_env_scheme \<Rightarrow> string \<Rightarrow> string \<Rightarrow> string \<Rightarrow> ('w, path_value list) cop \<Rightarrow> query_value list \<Rightarrow>
     json option res \<Rightarrow> ('w, unit) cop" where
  "void_call E op meth tmpl vals query body = seq (issue E op meth tmpl vals query body) (\<lambda>_. ret ())"

definition read_call ::
    "'e client_env_scheme \<Rightarrow> (json \<Rightarrow> 'a res) \<Rightarrow> string \<Rightarrow> string \<Rightarrow> string \<Rightarrow> ('w, path_value list) cop \<Rightarrow>
     query_value list \<Rightarrow> json option res \<Rightarrow> ('w, 'a) cop" where
  "read_call E dcd op meth tmpl vals query body =
     seq (issue E op meth tmpl vals query body) (\<lambda>j. lift_res (decode_wire dcd op j))"

definition page_call ::
    "'e client_env_scheme \<Rightarrow> (json \<Rightarrow> 'a res) \<Rightarrow> string \<Rightarrow> string \<Rightarrow> ('w, path_value list) cop \<Rightarrow>
     query_value list \<Rightarrow> page_request \<Rightarrow> ('w, 'a page) cop" where
  "page_call E dcd op tmpl vals extra pg =
     seq (issue E op ''GET'' tmpl vals (paging pg @ extra) no_body) (\<lambda>j. lift_res (to_page dcd op pg j))"

section \<open>Which methods a call sends\<close>

text \<open>What was sent between two states used only the methods \<open>M\<close>, under the client's tenants.\<close>

definition methods :: "string set \<Rightarrow> 'w client_scheme \<Rightarrow> 'w client_scheme \<Rightarrow> bool" where
  "methods M s t \<longleftrightarrow> same_config s t
     \<and> (\<exists>xs. sent t = sent s @ xs \<and> list_all (\<lambda>r. req_method r \<in> M \<and> carries_tenant s r) xs)"

lemma methods_trans:
  fixes s t u :: "'w client_scheme"
  assumes a: "methods M s t" and b: "methods M t u"
  shows "methods M s u"
proof -
  from a have c: "same_config s t" by (simp add: methods_def)
  then have "carries_tenant t = carries_tenant s" by (simp add: carries_same_config fun_eq_iff)
  with a b show ?thesis by (auto simp: methods_def same_config_def)
qed

interpretation methods: kept "methods M" for M
  by unfold_locales (simp add: methods_def same_config_def, rule methods_trans)

declare methods.rules [method_rules]

lemma m_step_methods: "m_step op meth tmpl path s t \<Longrightarrow> meth \<in> M \<Longrightarrow> methods M s t"
  by (auto simp: m_step_def methods_def aims_def list_all_iff)

lemma methods_send_all [method_rules]:
  "meth \<in> M \<Longrightarrow> keeps (methods M) (m_send_all E op meth tmpl path payload budget)"
  by (rule keepsI) (rule m_step_methods[OF keepsD[OF managed_all]])

lemma methods_ensure_open [method_rules]: "keeps (methods M) ensure_open"
  by (rule keepsI) (simp add: ensure_open_run methods.refl)

lemma methods_dump_body [method_rules]: "keeps (methods M) (dump_body E body)"
  by (cases body) (simp_all add: dump_body_def dump_def methods.pure)

lemma methods_management_send [method_rules]:
  "meth \<in> M \<Longrightarrow> keeps (methods M) (management_send E op meth tmpl vals query body)"
  unfolding management_send_def Let_def by (intro method_rules methods.pure)

text \<open>The values of a path are read from the scope or from the client, which is left as it is.\<close>

lemma methods_values [method_rules]:
  "keeps (methods M) (with_org sc f)" "keeps (methods M) (with_tenant sc f)"
  by (auto intro!: keepsI simp: with_org_def with_tenant_def scoped_org_id_def scoped_tenant_id_def seq_run op_runs
      methods.refl split: sum.split)

lemma methods_issue [method_rules]:
  "keeps (methods M) vals \<Longrightarrow> meth \<in> M \<Longrightarrow> keeps (methods M) (issue E op meth tmpl vals query body)"
  unfolding issue_def by (intro method_rules methods.pure)

lemma methods_void_call [method_rules]:
  "keeps (methods M) vals \<Longrightarrow> meth \<in> M \<Longrightarrow> keeps (methods M) (void_call E op meth tmpl vals query body)"
  unfolding void_call_def by (intro method_rules methods.pure)

lemma methods_read_call [method_rules]:
  "keeps (methods M) vals \<Longrightarrow> meth \<in> M \<Longrightarrow> keeps (methods M) (read_call E dcd op meth tmpl vals query body)"
  unfolding read_call_def by (intro method_rules methods.pure)

lemma methods_page_call [method_rules]:
  "keeps (methods M) vals \<Longrightarrow> ''GET'' \<in> M \<Longrightarrow> keeps (methods M) (page_call E dcd op tmpl vals query pg)"
  unfolding page_call_def by (intro method_rules methods.pure)

end
