(* ===== verification/Operations1.thy ===== *)
theory Operations1
  imports Calls
begin

text \<open>
  The operations of the management surface from \<open>OrganizationsApi\<close> to \<open>ServiceAccountsApi\<close>
  (\<open>src/management_ops.cpp\<close>): the values of the path in the order they are resolved, the query,
  the body and the decoder of each, over the forms of \<open>Calls\<close>. The argument \<open>sc\<close> is the scope of the
  handle the operation is called on.
\<close>

section \<open>OrganizationsApi\<close>

definition organizations_list ::
    "'e client_env_scheme \<Rightarrow> page_request \<Rightarrow> ('w, organization page) cop" where
  "organizations_list E pg =
     page_call E (from_organization (env_dump E)) ''organizations.list'' ''/api/v1/organizations''
       (ret []) [] pg"

definition organizations_get ::
    "'e client_env_scheme \<Rightarrow> call_scope \<Rightarrow> ('w, organization) cop" where
  "organizations_get E sc =
     read_call E (from_organization (env_dump E)) ''organizations.get'' ''GET'' ''/api/v1/organizations/{org_id}''
       (with_org sc (\<lambda>i. [(''org_id'', i)])) [] no_body"

definition organizations_update ::
    "'e client_env_scheme \<Rightarrow> call_scope \<Rightarrow> update_organization_request \<Rightarrow> ('w, organization) cop" where
  "organizations_update E sc body =
     read_call E (from_organization (env_dump E)) ''organizations.update'' ''PUT'' ''/api/v1/organizations/{org_id}''
       (with_org sc (\<lambda>i. [(''org_id'', i)])) [] (json_body (to_update_organization_request (env_parse E) body))"

section \<open>TenantsApi\<close>

definition tenants_list ::
    "'e client_env_scheme \<Rightarrow> call_scope \<Rightarrow> page_request \<Rightarrow> ('w, tenant page) cop" where
  "tenants_list E sc pg =
     page_call E (from_tenant (env_dump E)) ''tenants.list'' ''/api/v1/organizations/{org_id}/tenants''
       (with_org sc (\<lambda>i. [(''org_id'', i)])) [] pg"

definition tenants_create ::
    "'e client_env_scheme \<Rightarrow> call_scope \<Rightarrow> create_tenant_request \<Rightarrow> ('w, tenant) cop" where
  "tenants_create E sc body =
     read_call E (from_tenant (env_dump E)) ''tenants.create'' ''POST'' ''/api/v1/organizations/{org_id}/tenants''
       (with_org sc (\<lambda>i. [(''org_id'', i)])) [] (json_body (to_create_tenant_request (env_parse E) body))"

definition tenants_get ::
    "'e client_env_scheme \<Rightarrow> call_scope \<Rightarrow> string \<Rightarrow> ('w, tenant) cop" where
  "tenants_get E sc tenant_id' =
     read_call E (from_tenant (env_dump E)) ''tenants.get'' ''GET'' ''/api/v1/organizations/{org_id}/tenants/{tenant_id}''
       (with_org sc (\<lambda>i. [(''org_id'', i), (''tenant_id'', tenant_id')])) [] no_body"

definition tenants_update ::
    "'e client_env_scheme \<Rightarrow> call_scope \<Rightarrow> string \<Rightarrow> update_tenant \<Rightarrow> ('w, tenant) cop" where
  "tenants_update E sc tenant_id' body =
     read_call E (from_tenant (env_dump E)) ''tenants.update'' ''PUT'' ''/api/v1/organizations/{org_id}/tenants/{tenant_id}''
       (with_org sc (\<lambda>i. [(''org_id'', i), (''tenant_id'', tenant_id')])) [] (json_body (to_update_tenant (env_parse E) body))"

definition tenants_delete ::
    "'e client_env_scheme \<Rightarrow> call_scope \<Rightarrow> string \<Rightarrow> ('w, unit) cop" where
  "tenants_delete E sc tenant_id' =
     void_call E ''tenants.delete'' ''DELETE'' ''/api/v1/organizations/{org_id}/tenants/{tenant_id}''
       (with_org sc (\<lambda>i. [(''org_id'', i), (''tenant_id'', tenant_id')])) [] no_body"

definition tenants_export_audit ::
    "'e client_env_scheme \<Rightarrow> call_scope \<Rightarrow> string \<Rightarrow> ('w, unit) cop" where
  "tenants_export_audit E sc tenant_id' =
     void_call E ''tenants.export_audit'' ''POST'' ''/api/v1/organizations/{org_id}/tenants/{tenant_id}/audit-export''
       (with_org sc (\<lambda>i. [(''org_id'', i), (''tenant_id'', tenant_id')])) [] no_body"

section \<open>UsersApi\<close>

definition users_list ::
    "'e client_env_scheme \<Rightarrow> page_request \<Rightarrow> ('w, user_response page) cop" where
  "users_list E pg =
     page_call E (from_user_response (env_dump E)) ''users.list'' ''/api/v1/users''
       (ret []) [] pg"

definition users_create ::
    "'e client_env_scheme \<Rightarrow> create_user_request \<Rightarrow> ('w, user_response) cop" where
  "users_create E body =
     read_call E (from_user_response (env_dump E)) ''users.create'' ''POST'' ''/api/v1/users''
       (ret []) [] (json_body (to_create_user_request (env_parse E) body))"

definition users_get ::
    "'e client_env_scheme \<Rightarrow> string \<Rightarrow> ('w, user_response) cop" where
  "users_get E user_id' =
     read_call E (from_user_response (env_dump E)) ''users.get'' ''GET'' ''/api/v1/users/{user_id}''
       (ret [(''user_id'', user_id')]) [] no_body"

definition users_update ::
    "'e client_env_scheme \<Rightarrow> string \<Rightarrow> update_user_request \<Rightarrow> ('w, user_response) cop" where
  "users_update E user_id' body =
     read_call E (from_user_response (env_dump E)) ''users.update'' ''PUT'' ''/api/v1/users/{user_id}''
       (ret [(''user_id'', user_id')]) [] (json_body (to_update_user_request (env_parse E) body))"

definition users_delete ::
    "'e client_env_scheme \<Rightarrow> string \<Rightarrow> ('w, unit) cop" where
  "users_delete E user_id' =
     void_call E ''users.delete'' ''DELETE'' ''/api/v1/users/{user_id}''
       (ret [(''user_id'', user_id')]) [] no_body"

definition users_list_mfa_methods ::
    "'e client_env_scheme \<Rightarrow> string \<Rightarrow> ('w, mfa_method_response list) cop" where
  "users_list_mfa_methods E user_id' =
     read_call E (get_list from_mfa_method_response) ''users.list_mfa_methods'' ''GET'' ''/api/v1/users/{user_id}/mfa-methods''
       (ret [(''user_id'', user_id')]) [] no_body"

definition users_delete_mfa_method ::
    "'e client_env_scheme \<Rightarrow> string \<Rightarrow> string \<Rightarrow> ('w, unit) cop" where
  "users_delete_mfa_method E user_id' method_id =
     void_call E ''users.delete_mfa_method'' ''DELETE'' ''/api/v1/users/{user_id}/mfa-methods/{method_id}''
       (ret [(''user_id'', user_id'), (''method_id'', method_id)]) [] no_body"

definition users_reset_mfa ::
    "'e client_env_scheme \<Rightarrow> string \<Rightarrow> ('w, unit) cop" where
  "users_reset_mfa E user_id' =
     void_call E ''users.reset_mfa'' ''POST'' ''/api/v1/users/{user_id}/reset-mfa''
       (ret [(''user_id'', user_id')]) [] no_body"

definition users_unlock ::
    "'e client_env_scheme \<Rightarrow> string \<Rightarrow> ('w, user_response) cop" where
  "users_unlock E user_id' =
     read_call E (from_user_response (env_dump E)) ''users.unlock'' ''POST'' ''/api/v1/users/{user_id}/unlock''
       (ret [(''user_id'', user_id')]) [] no_body"

definition users_list_roles ::
    "'e client_env_scheme \<Rightarrow> string \<Rightarrow> ('w, role_assignment list) cop" where
  "users_list_roles E user_id' =
     read_call E (get_list from_role_assignment) ''users.list_roles'' ''GET'' ''/api/v1/users/{user_id}/roles''
       (ret [(''user_id'', user_id')]) [] no_body"

definition users_list_sessions ::
    "'e client_env_scheme \<Rightarrow> string \<Rightarrow> ('w, session_response list) cop" where
  "users_list_sessions E user_id' =
     read_call E (get_list from_session_response) ''users.list_sessions'' ''GET'' ''/api/v1/users/{user_id}/sessions''
       (ret [(''user_id'', user_id')]) [] no_body"

section \<open>GroupsApi\<close>

definition groups_list ::
    "'e client_env_scheme \<Rightarrow> page_request \<Rightarrow> ('w, group page) cop" where
  "groups_list E pg =
     page_call E (from_group (env_dump E)) ''groups.list'' ''/api/v1/groups''
       (ret []) [] pg"

definition groups_create ::
    "'e client_env_scheme \<Rightarrow> create_group_request \<Rightarrow> ('w, group) cop" where
  "groups_create E body =
     read_call E (from_group (env_dump E)) ''groups.create'' ''POST'' ''/api/v1/groups''
       (ret []) [] (json_body (to_create_group_request (env_parse E) body))"

definition groups_get ::
    "'e client_env_scheme \<Rightarrow> string \<Rightarrow> ('w, group) cop" where
  "groups_get E group_id =
     read_call E (from_group (env_dump E)) ''groups.get'' ''GET'' ''/api/v1/groups/{group_id}''
       (ret [(''group_id'', group_id)]) [] no_body"

definition groups_update ::
    "'e client_env_scheme \<Rightarrow> string \<Rightarrow> update_group \<Rightarrow> ('w, group) cop" where
  "groups_update E group_id body =
     read_call E (from_group (env_dump E)) ''groups.update'' ''PUT'' ''/api/v1/groups/{group_id}''
       (ret [(''group_id'', group_id)]) [] (json_body (to_update_group (env_parse E) body))"

definition groups_delete ::
    "'e client_env_scheme \<Rightarrow> string \<Rightarrow> ('w, unit) cop" where
  "groups_delete E group_id =
     void_call E ''groups.delete'' ''DELETE'' ''/api/v1/groups/{group_id}''
       (ret [(''group_id'', group_id)]) [] no_body"

definition groups_list_members ::
    "'e client_env_scheme \<Rightarrow> string \<Rightarrow> page_request \<Rightarrow> ('w, user_response page) cop" where
  "groups_list_members E group_id pg =
     page_call E (from_user_response (env_dump E)) ''groups.list_members'' ''/api/v1/groups/{group_id}/members''
       (ret [(''group_id'', group_id)]) [] pg"

definition groups_add_member ::
    "'e client_env_scheme \<Rightarrow> string \<Rightarrow> add_member_request \<Rightarrow> ('w, unit) cop" where
  "groups_add_member E group_id body =
     void_call E ''groups.add_member'' ''POST'' ''/api/v1/groups/{group_id}/members''
       (ret [(''group_id'', group_id)]) [] (json_body (to_add_member_request body))"

definition groups_remove_member ::
    "'e client_env_scheme \<Rightarrow> string \<Rightarrow> string \<Rightarrow> ('w, unit) cop" where
  "groups_remove_member E group_id user_id' =
     void_call E ''groups.remove_member'' ''DELETE'' ''/api/v1/groups/{group_id}/members/{user_id}''
       (ret [(''group_id'', group_id), (''user_id'', user_id')]) [] no_body"

definition groups_list_roles ::
    "'e client_env_scheme \<Rightarrow> string \<Rightarrow> ('w, role_assignment list) cop" where
  "groups_list_roles E group_id =
     read_call E (get_list from_role_assignment) ''groups.list_roles'' ''GET'' ''/api/v1/groups/{group_id}/roles''
       (ret [(''group_id'', group_id)]) [] no_body"

definition groups_list_service_accounts ::
    "'e client_env_scheme \<Rightarrow> string \<Rightarrow> page_request \<Rightarrow> ('w, service_account_response page) cop" where
  "groups_list_service_accounts E group_id pg =
     page_call E from_service_account_response ''groups.list_service_accounts'' ''/api/v1/groups/{group_id}/service-accounts''
       (ret [(''group_id'', group_id)]) [] pg"

definition groups_add_service_account ::
    "'e client_env_scheme \<Rightarrow> string \<Rightarrow> add_service_account_member_request \<Rightarrow> ('w, unit) cop" where
  "groups_add_service_account E group_id body =
     void_call E ''groups.add_service_account'' ''POST'' ''/api/v1/groups/{group_id}/service-accounts''
       (ret [(''group_id'', group_id)]) [] (json_body (to_add_service_account_member_request body))"

definition groups_remove_service_account ::
    "'e client_env_scheme \<Rightarrow> string \<Rightarrow> string \<Rightarrow> ('w, unit) cop" where
  "groups_remove_service_account E group_id service_account_id =
     void_call E ''groups.remove_service_account'' ''DELETE'' ''/api/v1/groups/{group_id}/service-accounts/{service_account_id}''
       (ret [(''group_id'', group_id), (''service_account_id'', service_account_id)]) [] no_body"

section \<open>RolesApi\<close>

definition roles_list ::
    "'e client_env_scheme \<Rightarrow> page_request \<Rightarrow> ('w, role page) cop" where
  "roles_list E pg =
     page_call E from_role ''roles.list'' ''/api/v1/roles''
       (ret []) [] pg"

definition roles_create ::
    "'e client_env_scheme \<Rightarrow> create_role_request \<Rightarrow> ('w, role) cop" where
  "roles_create E body =
     read_call E from_role ''roles.create'' ''POST'' ''/api/v1/roles''
       (ret []) [] (json_body (to_create_role_request body))"

definition roles_get ::
    "'e client_env_scheme \<Rightarrow> string \<Rightarrow> ('w, role) cop" where
  "roles_get E role_id =
     read_call E from_role ''roles.get'' ''GET'' ''/api/v1/roles/{role_id}''
       (ret [(''role_id'', role_id)]) [] no_body"

definition roles_update ::
    "'e client_env_scheme \<Rightarrow> string \<Rightarrow> update_role \<Rightarrow> ('w, role) cop" where
  "roles_update E role_id body =
     read_call E from_role ''roles.update'' ''PUT'' ''/api/v1/roles/{role_id}''
       (ret [(''role_id'', role_id)]) [] (json_body (to_update_role body))"

definition roles_delete ::
    "'e client_env_scheme \<Rightarrow> string \<Rightarrow> ('w, unit) cop" where
  "roles_delete E role_id =
     void_call E ''roles.delete'' ''DELETE'' ''/api/v1/roles/{role_id}''
       (ret [(''role_id'', role_id)]) [] no_body"

definition roles_list_users ::
    "'e client_env_scheme \<Rightarrow> string \<Rightarrow> ('w, role_user_assignment list) cop" where
  "roles_list_users E role_id =
     read_call E (get_list (from_role_user_assignment (env_dump E))) ''roles.list_users'' ''GET'' ''/api/v1/roles/{role_id}/users''
       (ret [(''role_id'', role_id)]) [] no_body"

definition roles_assign_to_user ::
    "'e client_env_scheme \<Rightarrow> string \<Rightarrow> assign_role_to_user_request \<Rightarrow> ('w, unit) cop" where
  "roles_assign_to_user E role_id body =
     void_call E ''roles.assign_to_user'' ''POST'' ''/api/v1/roles/{role_id}/users''
       (ret [(''role_id'', role_id)]) [] (json_body (to_assign_role_to_user_request body))"

definition roles_unassign_from_user ::
    "'e client_env_scheme \<Rightarrow> string \<Rightarrow> string \<Rightarrow> string option \<Rightarrow> ('w, unit) cop" where
  "roles_unassign_from_user E role_id user_id' resource_id' =
     void_call E ''roles.unassign_from_user'' ''DELETE'' ''/api/v1/roles/{role_id}/users/{user_id}''
       (ret [(''role_id'', role_id), (''user_id'', user_id')]) [(''resource_id'', resource_id')] no_body"

definition roles_list_groups ::
    "'e client_env_scheme \<Rightarrow> string \<Rightarrow> ('w, role_group_assignment list) cop" where
  "roles_list_groups E role_id =
     read_call E (get_list (from_role_group_assignment (env_dump E))) ''roles.list_groups'' ''GET'' ''/api/v1/roles/{role_id}/groups''
       (ret [(''role_id'', role_id)]) [] no_body"

definition roles_assign_to_group ::
    "'e client_env_scheme \<Rightarrow> string \<Rightarrow> assign_role_to_group_request \<Rightarrow> ('w, unit) cop" where
  "roles_assign_to_group E role_id body =
     void_call E ''roles.assign_to_group'' ''POST'' ''/api/v1/roles/{role_id}/groups''
       (ret [(''role_id'', role_id)]) [] (json_body (to_assign_role_to_group_request body))"

definition roles_unassign_from_group ::
    "'e client_env_scheme \<Rightarrow> string \<Rightarrow> string \<Rightarrow> string option \<Rightarrow> ('w, unit) cop" where
  "roles_unassign_from_group E role_id group_id resource_id' =
     void_call E ''roles.unassign_from_group'' ''DELETE'' ''/api/v1/roles/{role_id}/groups/{group_id}''
       (ret [(''role_id'', role_id), (''group_id'', group_id)]) [(''resource_id'', resource_id')] no_body"

definition roles_list_permissions ::
    "'e client_env_scheme \<Rightarrow> string \<Rightarrow> ('w, resolved_permission_grant list) cop" where
  "roles_list_permissions E role_id =
     read_call E (get_list from_resolved_permission_grant) ''roles.list_permissions'' ''GET'' ''/api/v1/roles/{role_id}/permissions''
       (ret [(''role_id'', role_id)]) [] no_body"

definition roles_grant_permission ::
    "'e client_env_scheme \<Rightarrow> string \<Rightarrow> grant_permission_request \<Rightarrow> ('w, unit) cop" where
  "roles_grant_permission E role_id body =
     void_call E ''roles.grant_permission'' ''POST'' ''/api/v1/roles/{role_id}/permissions''
       (ret [(''role_id'', role_id)]) [] (json_body (to_grant_permission_request body))"

definition roles_revoke_permission ::
    "'e client_env_scheme \<Rightarrow> string \<Rightarrow> string \<Rightarrow> ('w, unit) cop" where
  "roles_revoke_permission E role_id permission_id =
     void_call E ''roles.revoke_permission'' ''DELETE'' ''/api/v1/roles/{role_id}/permissions/{permission_id}''
       (ret [(''role_id'', role_id), (''permission_id'', permission_id)]) [] no_body"

definition roles_list_service_accounts ::
    "'e client_env_scheme \<Rightarrow> string \<Rightarrow> ('w, role_service_account_assignment list) cop" where
  "roles_list_service_accounts E role_id =
     read_call E (get_list from_role_service_account_assignment) ''roles.list_service_accounts'' ''GET'' ''/api/v1/roles/{role_id}/service-accounts''
       (ret [(''role_id'', role_id)]) [] no_body"

definition roles_assign_to_service_account ::
    "'e client_env_scheme \<Rightarrow> string \<Rightarrow> assign_role_to_service_account_request \<Rightarrow> ('w, unit) cop" where
  "roles_assign_to_service_account E role_id body =
     void_call E ''roles.assign_to_service_account'' ''POST'' ''/api/v1/roles/{role_id}/service-accounts''
       (ret [(''role_id'', role_id)]) [] (json_body (to_assign_role_to_service_account_request body))"

definition roles_unassign_from_service_account ::
    "'e client_env_scheme \<Rightarrow> string \<Rightarrow> string \<Rightarrow> string option \<Rightarrow> ('w, unit) cop" where
  "roles_unassign_from_service_account E role_id service_account_id resource_id' =
     void_call E ''roles.unassign_from_service_account'' ''DELETE'' ''/api/v1/roles/{role_id}/service-accounts/{service_account_id}''
       (ret [(''role_id'', role_id), (''service_account_id'', service_account_id)]) [(''resource_id'', resource_id')] no_body"

section \<open>PermissionsApi\<close>

definition permissions_list ::
    "'e client_env_scheme \<Rightarrow> page_request \<Rightarrow> ('w, permission page) cop" where
  "permissions_list E pg =
     page_call E from_permission ''permissions.list'' ''/api/v1/permissions''
       (ret []) [] pg"

definition permissions_create ::
    "'e client_env_scheme \<Rightarrow> create_permission_request \<Rightarrow> ('w, permission) cop" where
  "permissions_create E body =
     read_call E from_permission ''permissions.create'' ''POST'' ''/api/v1/permissions''
       (ret []) [] (json_body (to_create_permission_request body))"

definition permissions_get ::
    "'e client_env_scheme \<Rightarrow> string \<Rightarrow> ('w, permission) cop" where
  "permissions_get E permission_id =
     read_call E from_permission ''permissions.get'' ''GET'' ''/api/v1/permissions/{permission_id}''
       (ret [(''permission_id'', permission_id)]) [] no_body"

definition permissions_update ::
    "'e client_env_scheme \<Rightarrow> string \<Rightarrow> update_permission_request \<Rightarrow> ('w, permission) cop" where
  "permissions_update E permission_id body =
     read_call E from_permission ''permissions.update'' ''PUT'' ''/api/v1/permissions/{permission_id}''
       (ret [(''permission_id'', permission_id)]) [] (json_body (to_update_permission_request body))"

definition permissions_delete ::
    "'e client_env_scheme \<Rightarrow> string \<Rightarrow> ('w, unit) cop" where
  "permissions_delete E permission_id =
     void_call E ''permissions.delete'' ''DELETE'' ''/api/v1/permissions/{permission_id}''
       (ret [(''permission_id'', permission_id)]) [] no_body"

section \<open>ResourcesApi\<close>

definition resources_list ::
    "'e client_env_scheme \<Rightarrow> page_request \<Rightarrow> ('w, resource page) cop" where
  "resources_list E pg =
     page_call E (from_resource (env_dump E)) ''resources.list'' ''/api/v1/resources''
       (ret []) [] pg"

definition resources_create ::
    "'e client_env_scheme \<Rightarrow> create_resource_request \<Rightarrow> ('w, resource) cop" where
  "resources_create E body =
     read_call E (from_resource (env_dump E)) ''resources.create'' ''POST'' ''/api/v1/resources''
       (ret []) [] (json_body (to_create_resource_request (env_parse E) body))"

definition resources_get ::
    "'e client_env_scheme \<Rightarrow> string \<Rightarrow> ('w, resource) cop" where
  "resources_get E resource_id' =
     read_call E (from_resource (env_dump E)) ''resources.get'' ''GET'' ''/api/v1/resources/{resource_id}''
       (ret [(''resource_id'', resource_id')]) [] no_body"

definition resources_update ::
    "'e client_env_scheme \<Rightarrow> string \<Rightarrow> update_resource_request \<Rightarrow> ('w, resource) cop" where
  "resources_update E resource_id' body =
     read_call E (from_resource (env_dump E)) ''resources.update'' ''PUT'' ''/api/v1/resources/{resource_id}''
       (ret [(''resource_id'', resource_id')]) [] (json_body (to_update_resource_request (env_parse E) body))"

definition resources_delete ::
    "'e client_env_scheme \<Rightarrow> string \<Rightarrow> ('w, unit) cop" where
  "resources_delete E resource_id' =
     void_call E ''resources.delete'' ''DELETE'' ''/api/v1/resources/{resource_id}''
       (ret [(''resource_id'', resource_id')]) [] no_body"

definition resources_list_children ::
    "'e client_env_scheme \<Rightarrow> string \<Rightarrow> ('w, resource list) cop" where
  "resources_list_children E resource_id' =
     read_call E (get_list (from_resource (env_dump E))) ''resources.list_children'' ''GET'' ''/api/v1/resources/{resource_id}/children''
       (ret [(''resource_id'', resource_id')]) [] no_body"

definition resources_list_ancestors ::
    "'e client_env_scheme \<Rightarrow> string \<Rightarrow> ('w, resource list) cop" where
  "resources_list_ancestors E resource_id' =
     read_call E (get_list (from_resource (env_dump E))) ''resources.list_ancestors'' ''GET'' ''/api/v1/resources/{resource_id}/ancestors''
       (ret [(''resource_id'', resource_id')]) [] no_body"

section \<open>ScopesApi\<close>

definition scopes_list ::
    "'e client_env_scheme \<Rightarrow> string \<Rightarrow> ('w, scope list) cop" where
  "scopes_list E resource_id' =
     read_call E (get_list from_scope) ''scopes.list'' ''GET'' ''/api/v1/resources/{resource_id}/scopes''
       (ret [(''resource_id'', resource_id')]) [] no_body"

definition scopes_create ::
    "'e client_env_scheme \<Rightarrow> string \<Rightarrow> create_scope_request \<Rightarrow> ('w, scope) cop" where
  "scopes_create E resource_id' body =
     read_call E from_scope ''scopes.create'' ''POST'' ''/api/v1/resources/{resource_id}/scopes''
       (ret [(''resource_id'', resource_id')]) [] (json_body (to_create_scope_request body))"

definition scopes_get ::
    "'e client_env_scheme \<Rightarrow> string \<Rightarrow> string \<Rightarrow> ('w, scope) cop" where
  "scopes_get E resource_id' scope_id =
     read_call E from_scope ''scopes.get'' ''GET'' ''/api/v1/resources/{resource_id}/scopes/{scope_id}''
       (ret [(''resource_id'', resource_id'), (''scope_id'', scope_id)]) [] no_body"

definition scopes_update ::
    "'e client_env_scheme \<Rightarrow> string \<Rightarrow> string \<Rightarrow> update_scope_request \<Rightarrow> ('w, scope) cop" where
  "scopes_update E resource_id' scope_id body =
     read_call E from_scope ''scopes.update'' ''PUT'' ''/api/v1/resources/{resource_id}/scopes/{scope_id}''
       (ret [(''resource_id'', resource_id'), (''scope_id'', scope_id)]) [] (json_body (to_update_scope_request body))"

definition scopes_delete ::
    "'e client_env_scheme \<Rightarrow> string \<Rightarrow> string \<Rightarrow> ('w, unit) cop" where
  "scopes_delete E resource_id' scope_id =
     void_call E ''scopes.delete'' ''DELETE'' ''/api/v1/resources/{resource_id}/scopes/{scope_id}''
       (ret [(''resource_id'', resource_id'), (''scope_id'', scope_id)]) [] no_body"

section \<open>ServiceAccountsApi\<close>

definition service_accounts_list ::
    "'e client_env_scheme \<Rightarrow> page_request \<Rightarrow> ('w, service_account_response page) cop" where
  "service_accounts_list E pg =
     page_call E from_service_account_response ''service_accounts.list'' ''/api/v1/service-accounts''
       (ret []) [] pg"

definition service_accounts_create ::
    "'e client_env_scheme \<Rightarrow> create_service_account_request \<Rightarrow> ('w, service_account_created_response) cop" where
  "service_accounts_create E body =
     read_call E from_service_account_created_response ''service_accounts.create'' ''POST'' ''/api/v1/service-accounts''
       (ret []) [] (json_body (to_create_service_account_request body))"

definition service_accounts_get ::
    "'e client_env_scheme \<Rightarrow> string \<Rightarrow> ('w, service_account_response) cop" where
  "service_accounts_get E sa_id =
     read_call E from_service_account_response ''service_accounts.get'' ''GET'' ''/api/v1/service-accounts/{sa_id}''
       (ret [(''sa_id'', sa_id)]) [] no_body"

definition service_accounts_update ::
    "'e client_env_scheme \<Rightarrow> string \<Rightarrow> update_service_account \<Rightarrow> ('w, service_account_response) cop" where
  "service_accounts_update E sa_id body =
     read_call E from_service_account_response ''service_accounts.update'' ''PUT'' ''/api/v1/service-accounts/{sa_id}''
       (ret [(''sa_id'', sa_id)]) [] (json_body (to_update_service_account body))"

definition service_accounts_delete ::
    "'e client_env_scheme \<Rightarrow> string \<Rightarrow> ('w, unit) cop" where
  "service_accounts_delete E sa_id =
     void_call E ''service_accounts.delete'' ''DELETE'' ''/api/v1/service-accounts/{sa_id}''
       (ret [(''sa_id'', sa_id)]) [] no_body"

definition service_accounts_rotate_secret ::
    "'e client_env_scheme \<Rightarrow> string \<Rightarrow> ('w, rotate_secret_response) cop" where
  "service_accounts_rotate_secret E sa_id =
     read_call E from_rotate_secret_response ''service_accounts.rotate_secret'' ''POST'' ''/api/v1/service-accounts/{sa_id}/rotate-secret''
       (ret [(''sa_id'', sa_id)]) [] no_body"

definition service_accounts_bind_certificate ::
    "'e client_env_scheme \<Rightarrow> string \<Rightarrow> bind_certificate \<Rightarrow> ('w, unit) cop" where
  "service_accounts_bind_certificate E sa_id body =
     void_call E ''service_accounts.bind_certificate'' ''POST'' ''/api/v1/service-accounts/{sa_id}/bind-certificate''
       (ret [(''sa_id'', sa_id)]) [] (json_body (to_bind_certificate body))"

definition service_accounts_list_roles ::
    "'e client_env_scheme \<Rightarrow> string \<Rightarrow> ('w, role_assignment list) cop" where
  "service_accounts_list_roles E service_account_id =
     read_call E (get_list from_role_assignment) ''service_accounts.list_roles'' ''GET'' ''/api/v1/service-accounts/{service_account_id}/roles''
       (ret [(''service_account_id'', service_account_id)]) [] no_body"

definition service_accounts_list_groups ::
    "'e client_env_scheme \<Rightarrow> string \<Rightarrow> ('w, group list) cop" where
  "service_accounts_list_groups E service_account_id =
     read_call E (get_list (from_group (env_dump E))) ''service_accounts.list_groups'' ''GET'' ''/api/v1/service-accounts/{service_account_id}/groups''
       (ret [(''service_account_id'', service_account_id)]) [] no_body"

end
