(* ===== verification/Operations2.thy ===== *)
theory Operations2
  imports Calls
begin

text \<open>
  The operations of the management surface from \<open>CertificatesApi\<close> to \<open>SamlApi\<close>
  (\<open>src/management_ops.cpp\<close>): the values of the path in the order they are resolved, the query,
  the body and the decoder of each, over the forms of \<open>Calls\<close>. The argument \<open>sc\<close> is the scope of the
  handle the operation is called on.
\<close>

section \<open>CertificatesApi\<close>

definition certificates_list ::
    "'e client_env_scheme \<Rightarrow> page_request \<Rightarrow> ('w, certificate page) cop" where
  "certificates_list E pg =
     page_call E (from_certificate (env_dump E)) ''certificates.list'' ''/api/v1/certificates''
       (ret []) [] pg"

definition certificates_generate ::
    "'e client_env_scheme \<Rightarrow> create_certificate_request \<Rightarrow> ('w, generated_certificate) cop" where
  "certificates_generate E body =
     read_call E (from_generated_certificate (env_dump E)) ''certificates.generate'' ''POST'' ''/api/v1/certificates''
       (ret []) [] (json_body (to_create_certificate_request (env_parse E) body))"

definition certificates_sign_csr ::
    "'e client_env_scheme \<Rightarrow> sign_certificate_csr_request \<Rightarrow> ('w, certificate) cop" where
  "certificates_sign_csr E body =
     read_call E (from_certificate (env_dump E)) ''certificates.sign_csr'' ''POST'' ''/api/v1/certificates/sign-csr''
       (ret []) [] (json_body (to_sign_certificate_csr_request (env_parse E) body))"

definition certificates_get ::
    "'e client_env_scheme \<Rightarrow> string \<Rightarrow> ('w, certificate) cop" where
  "certificates_get E id' =
     read_call E (from_certificate (env_dump E)) ''certificates.get'' ''GET'' ''/api/v1/certificates/{id}''
       (ret [(''id'', id')]) [] no_body"

definition certificates_revoke ::
    "'e client_env_scheme \<Rightarrow> string \<Rightarrow> ('w, unit) cop" where
  "certificates_revoke E id' =
     void_call E ''certificates.revoke'' ''POST'' ''/api/v1/certificates/{id}/revoke''
       (ret [(''id'', id')]) [] no_body"

section \<open>CaCertificatesApi\<close>

definition ca_certificates_list ::
    "'e client_env_scheme \<Rightarrow> call_scope \<Rightarrow> page_request \<Rightarrow> ('w, ca_certificate page) cop" where
  "ca_certificates_list E sc pg =
     page_call E from_ca_certificate ''ca_certificates.list'' ''/api/v1/organizations/{org_id}/ca-certificates''
       (with_org sc (\<lambda>i. [(''org_id'', i)])) [] pg"

definition ca_certificates_generate ::
    "'e client_env_scheme \<Rightarrow> call_scope \<Rightarrow> create_ca_certificate_request \<Rightarrow> ('w, generated_ca_certificate) cop" where
  "ca_certificates_generate E sc body =
     read_call E from_generated_ca_certificate ''ca_certificates.generate'' ''POST'' ''/api/v1/organizations/{org_id}/ca-certificates''
       (with_org sc (\<lambda>i. [(''org_id'', i)])) [] (json_body (to_create_ca_certificate_request body))"

definition ca_certificates_import_ca ::
    "'e client_env_scheme \<Rightarrow> call_scope \<Rightarrow> import_ca_certificate_request \<Rightarrow> ('w, ca_certificate) cop" where
  "ca_certificates_import_ca E sc body =
     read_call E from_ca_certificate ''ca_certificates.import_ca'' ''POST'' ''/api/v1/organizations/{org_id}/ca-certificates/import''
       (with_org sc (\<lambda>i. [(''org_id'', i)])) [] (json_body (to_import_ca_certificate_request body))"

definition ca_certificates_get ::
    "'e client_env_scheme \<Rightarrow> call_scope \<Rightarrow> string \<Rightarrow> ('w, ca_certificate) cop" where
  "ca_certificates_get E sc id' =
     read_call E from_ca_certificate ''ca_certificates.get'' ''GET'' ''/api/v1/organizations/{org_id}/ca-certificates/{id}''
       (with_org sc (\<lambda>i. [(''org_id'', i), (''id'', id')])) [] no_body"

definition ca_certificates_revoke ::
    "'e client_env_scheme \<Rightarrow> call_scope \<Rightarrow> string \<Rightarrow> ('w, unit) cop" where
  "ca_certificates_revoke E sc id' =
     void_call E ''ca_certificates.revoke'' ''POST'' ''/api/v1/organizations/{org_id}/ca-certificates/{id}/revoke''
       (with_org sc (\<lambda>i. [(''org_id'', i), (''id'', id')])) [] no_body"

definition ca_certificates_migrate_custody ::
    "'e client_env_scheme \<Rightarrow> call_scope \<Rightarrow> string \<Rightarrow> ('w, migrate_custody_response) cop" where
  "ca_certificates_migrate_custody E sc id' =
     read_call E from_migrate_custody_response ''ca_certificates.migrate_custody'' ''POST'' ''/api/v1/organizations/{org_id}/ca-certificates/{id}/migrate-custody''
       (with_org sc (\<lambda>i. [(''org_id'', i), (''id'', id')])) [] no_body"

definition ca_certificates_set_mtls_trust_anchor ::
    "'e client_env_scheme \<Rightarrow> call_scope \<Rightarrow> string \<Rightarrow> set_mtls_trust_anchor \<Rightarrow> ('w, mtls_trust_anchor_response) cop" where
  "ca_certificates_set_mtls_trust_anchor E sc id' body =
     read_call E from_mtls_trust_anchor_response ''ca_certificates.set_mtls_trust_anchor'' ''PUT'' ''/api/v1/organizations/{org_id}/ca-certificates/{id}/mtls-trust-anchor''
       (with_org sc (\<lambda>i. [(''org_id'', i), (''id'', id')])) [] (json_body (to_set_mtls_trust_anchor body))"

definition ca_certificates_list_signing_cas ::
    "'e client_env_scheme \<Rightarrow> call_scope \<Rightarrow> string \<Rightarrow> page_request \<Rightarrow> ('w, ca_certificate page) cop" where
  "ca_certificates_list_signing_cas E sc tenant_id' pg =
     page_call E from_ca_certificate ''ca_certificates.list_signing_cas'' ''/api/v1/organizations/{org_id}/tenants/{tenant_id}/signing-cas''
       (with_org sc (\<lambda>i. [(''org_id'', i), (''tenant_id'', tenant_id')])) [] pg"

definition ca_certificates_generate_signing_ca ::
    "'e client_env_scheme \<Rightarrow> call_scope \<Rightarrow> string \<Rightarrow> create_intermediate_ca_request \<Rightarrow> ('w, generated_ca_certificate) cop" where
  "ca_certificates_generate_signing_ca E sc tenant_id' body =
     read_call E from_generated_ca_certificate ''ca_certificates.generate_signing_ca'' ''POST'' ''/api/v1/organizations/{org_id}/tenants/{tenant_id}/signing-cas''
       (with_org sc (\<lambda>i. [(''org_id'', i), (''tenant_id'', tenant_id')])) [] (json_body (to_create_intermediate_ca_request body))"

definition ca_certificates_sign_signing_ca_csr ::
    "'e client_env_scheme \<Rightarrow> call_scope \<Rightarrow> string \<Rightarrow> sign_intermediate_csr_request \<Rightarrow> ('w, ca_certificate) cop" where
  "ca_certificates_sign_signing_ca_csr E sc tenant_id' body =
     read_call E from_ca_certificate ''ca_certificates.sign_signing_ca_csr'' ''POST'' ''/api/v1/organizations/{org_id}/tenants/{tenant_id}/signing-cas/sign-csr''
       (with_org sc (\<lambda>i. [(''org_id'', i), (''tenant_id'', tenant_id')])) [] (json_body (to_sign_intermediate_csr_request body))"

section \<open>PgpKeysApi\<close>

definition pgp_keys_list ::
    "'e client_env_scheme \<Rightarrow> page_request \<Rightarrow> ('w, pgp_key page) cop" where
  "pgp_keys_list E pg =
     page_call E from_pgp_key ''pgp_keys.list'' ''/api/v1/pgp-keys''
       (ret []) [] pg"

definition pgp_keys_generate ::
    "'e client_env_scheme \<Rightarrow> create_pgp_key_request \<Rightarrow> ('w, generated_pgp_key) cop" where
  "pgp_keys_generate E body =
     read_call E from_generated_pgp_key ''pgp_keys.generate'' ''POST'' ''/api/v1/pgp-keys''
       (ret []) [] (json_body (to_create_pgp_key_request body))"

definition pgp_keys_get ::
    "'e client_env_scheme \<Rightarrow> string \<Rightarrow> ('w, pgp_key) cop" where
  "pgp_keys_get E id' =
     read_call E from_pgp_key ''pgp_keys.get'' ''GET'' ''/api/v1/pgp-keys/{id}''
       (ret [(''id'', id')]) [] no_body"

definition pgp_keys_revoke ::
    "'e client_env_scheme \<Rightarrow> string \<Rightarrow> ('w, unit) cop" where
  "pgp_keys_revoke E id' =
     void_call E ''pgp_keys.revoke'' ''POST'' ''/api/v1/pgp-keys/{id}/revoke''
       (ret [(''id'', id')]) [] no_body"

definition pgp_keys_encrypt ::
    "'e client_env_scheme \<Rightarrow> string \<Rightarrow> encrypt_request \<Rightarrow> ('w, encrypted_export) cop" where
  "pgp_keys_encrypt E id' body =
     read_call E from_encrypted_export ''pgp_keys.encrypt'' ''POST'' ''/api/v1/pgp-keys/{id}/encrypt''
       (ret [(''id'', id')]) [] (json_body (to_encrypt_request body))"

definition pgp_keys_sign_audit_batch ::
    "'e client_env_scheme \<Rightarrow> sign_audit_batch_request \<Rightarrow> ('w, signed_audit_batch) cop" where
  "pgp_keys_sign_audit_batch E body =
     read_call E from_signed_audit_batch ''pgp_keys.sign_audit_batch'' ''POST'' ''/api/v1/pgp-keys/sign-audit-batch''
       (ret []) [] (json_body (to_sign_audit_batch_request body))"

section \<open>WebhooksApi\<close>

definition webhooks_list ::
    "'e client_env_scheme \<Rightarrow> page_request \<Rightarrow> ('w, webhook_response page) cop" where
  "webhooks_list E pg =
     page_call E from_webhook_response ''webhooks.list'' ''/api/v1/webhooks''
       (ret []) [] pg"

definition webhooks_create ::
    "'e client_env_scheme \<Rightarrow> create_webhook_request \<Rightarrow> ('w, webhook_response) cop" where
  "webhooks_create E body =
     read_call E from_webhook_response ''webhooks.create'' ''POST'' ''/api/v1/webhooks''
       (ret []) [] (json_body (to_create_webhook_request body))"

definition webhooks_get ::
    "'e client_env_scheme \<Rightarrow> string \<Rightarrow> ('w, webhook_response) cop" where
  "webhooks_get E id' =
     read_call E from_webhook_response ''webhooks.get'' ''GET'' ''/api/v1/webhooks/{id}''
       (ret [(''id'', id')]) [] no_body"

definition webhooks_update ::
    "'e client_env_scheme \<Rightarrow> string \<Rightarrow> update_webhook_request \<Rightarrow> ('w, webhook_response) cop" where
  "webhooks_update E id' body =
     read_call E from_webhook_response ''webhooks.update'' ''PUT'' ''/api/v1/webhooks/{id}''
       (ret [(''id'', id')]) [] (json_body (to_update_webhook_request body))"

definition webhooks_delete ::
    "'e client_env_scheme \<Rightarrow> string \<Rightarrow> ('w, unit) cop" where
  "webhooks_delete E id' =
     void_call E ''webhooks.delete'' ''DELETE'' ''/api/v1/webhooks/{id}''
       (ret [(''id'', id')]) [] no_body"

section \<open>Oauth2ClientsApi\<close>

definition oauth2_clients_list ::
    "'e client_env_scheme \<Rightarrow> page_request \<Rightarrow> ('w, o_auth2_client_response page) cop" where
  "oauth2_clients_list E pg =
     page_call E from_o_auth2_client_response ''oauth2_clients.list'' ''/api/v1/oauth2-clients''
       (ret []) [] pg"

definition oauth2_clients_create ::
    "'e client_env_scheme \<Rightarrow> create_o_auth2_client_request \<Rightarrow> ('w, o_auth2_client_created_response) cop" where
  "oauth2_clients_create E body =
     read_call E from_o_auth2_client_created_response ''oauth2_clients.create'' ''POST'' ''/api/v1/oauth2-clients''
       (ret []) [] (json_body (to_create_o_auth2_client_request body))"

definition oauth2_clients_get ::
    "'e client_env_scheme \<Rightarrow> string \<Rightarrow> ('w, o_auth2_client_response) cop" where
  "oauth2_clients_get E id' =
     read_call E from_o_auth2_client_response ''oauth2_clients.get'' ''GET'' ''/api/v1/oauth2-clients/{id}''
       (ret [(''id'', id')]) [] no_body"

definition oauth2_clients_update ::
    "'e client_env_scheme \<Rightarrow> string \<Rightarrow> update_o_auth2_client_request \<Rightarrow> ('w, o_auth2_client_response) cop" where
  "oauth2_clients_update E id' body =
     read_call E from_o_auth2_client_response ''oauth2_clients.update'' ''PUT'' ''/api/v1/oauth2-clients/{id}''
       (ret [(''id'', id')]) [] (json_body (to_update_o_auth2_client_request body))"

definition oauth2_clients_delete ::
    "'e client_env_scheme \<Rightarrow> string \<Rightarrow> ('w, unit) cop" where
  "oauth2_clients_delete E id' =
     void_call E ''oauth2_clients.delete'' ''DELETE'' ''/api/v1/oauth2-clients/{id}''
       (ret [(''id'', id')]) [] no_body"

definition oauth2_clients_create_registration_token ::
    "'e client_env_scheme \<Rightarrow> create_registration_token_request \<Rightarrow> ('w, create_registration_token_response) cop" where
  "oauth2_clients_create_registration_token E body =
     read_call E from_create_registration_token_response ''oauth2_clients.create_registration_token'' ''POST'' ''/api/v1/oauth2-clients/registration-tokens''
       (ret []) [] (json_body (to_create_registration_token_request body))"

definition oauth2_clients_list_registration_tokens ::
    "'e client_env_scheme \<Rightarrow> ('w, registration_token_response list) cop" where
  "oauth2_clients_list_registration_tokens E =
     read_call E (get_list from_registration_token_response) ''oauth2_clients.list_registration_tokens'' ''GET'' ''/api/v1/oauth2-clients/registration-tokens''
       (ret []) [] no_body"

section \<open>FederationApi\<close>

definition federation_list_configs ::
    "'e client_env_scheme \<Rightarrow> page_request \<Rightarrow> ('w, federation_config_response page) cop" where
  "federation_list_configs E pg =
     page_call E (from_federation_config_response (env_dump E)) ''federation.list_configs'' ''/api/v1/federation-configs''
       (ret []) [] pg"

definition federation_create_config ::
    "'e client_env_scheme \<Rightarrow> create_federation_config_request \<Rightarrow> ('w, federation_config_response) cop" where
  "federation_create_config E body =
     read_call E (from_federation_config_response (env_dump E)) ''federation.create_config'' ''POST'' ''/api/v1/federation-configs''
       (ret []) [] (json_body (to_create_federation_config_request (env_parse E) body))"

definition federation_get_config ::
    "'e client_env_scheme \<Rightarrow> string \<Rightarrow> ('w, federation_config_response) cop" where
  "federation_get_config E id' =
     read_call E (from_federation_config_response (env_dump E)) ''federation.get_config'' ''GET'' ''/api/v1/federation-configs/{id}''
       (ret [(''id'', id')]) [] no_body"

definition federation_update_config ::
    "'e client_env_scheme \<Rightarrow> string \<Rightarrow> update_federation_config_request \<Rightarrow> ('w, federation_config_response) cop" where
  "federation_update_config E id' body =
     read_call E (from_federation_config_response (env_dump E)) ''federation.update_config'' ''PUT'' ''/api/v1/federation-configs/{id}''
       (ret [(''id'', id')]) [] (json_body (to_update_federation_config_request (env_parse E) body))"

definition federation_delete_config ::
    "'e client_env_scheme \<Rightarrow> string \<Rightarrow> ('w, unit) cop" where
  "federation_delete_config E id' =
     void_call E ''federation.delete_config'' ''DELETE'' ''/api/v1/federation-configs/{id}''
       (ret [(''id'', id')]) [] no_body"

definition federation_list_user_links ::
    "'e client_env_scheme \<Rightarrow> string \<Rightarrow> ('w, federation_link_response list) cop" where
  "federation_list_user_links E user_id' =
     read_call E (get_list from_federation_link_response) ''federation.list_user_links'' ''GET'' ''/api/v1/federation-links/user/{user_id}''
       (ret [(''user_id'', user_id')]) [] no_body"

definition federation_delete_link ::
    "'e client_env_scheme \<Rightarrow> string \<Rightarrow> ('w, unit) cop" where
  "federation_delete_link E id' =
     void_call E ''federation.delete_link'' ''DELETE'' ''/api/v1/federation-links/{id}''
       (ret [(''id'', id')]) [] no_body"

definition federation_oidc_authorize ::
    "'e client_env_scheme \<Rightarrow> oidc_authorize_request \<Rightarrow> ('w, oidc_authorize_response) cop" where
  "federation_oidc_authorize E body =
     read_call E from_oidc_authorize_response ''federation.oidc_authorize'' ''POST'' ''/api/v1/federation/oidc/authorize''
       (ret []) [] (json_body (to_oidc_authorize_request body))"

definition federation_oidc_callback ::
    "'e client_env_scheme \<Rightarrow> oidc_callback_request \<Rightarrow> ('w, oidc_callback_response) cop" where
  "federation_oidc_callback E body =
     read_call E from_oidc_callback_response ''federation.oidc_callback'' ''POST'' ''/api/v1/federation/oidc/callback''
       (ret []) [] (json_body (to_oidc_callback_request body))"

section \<open>NotificationRulesApi\<close>

definition notification_rules_list ::
    "'e client_env_scheme \<Rightarrow> page_request \<Rightarrow> ('w, notification_rule_response page) cop" where
  "notification_rules_list E pg =
     page_call E from_notification_rule_response ''notification_rules.list'' ''/api/v1/notification-rules''
       (ret []) [] pg"

definition notification_rules_create ::
    "'e client_env_scheme \<Rightarrow> create_notification_rule_request \<Rightarrow> ('w, notification_rule_response) cop" where
  "notification_rules_create E body =
     read_call E from_notification_rule_response ''notification_rules.create'' ''POST'' ''/api/v1/notification-rules''
       (ret []) [] (json_body (to_create_notification_rule_request body))"

definition notification_rules_get ::
    "'e client_env_scheme \<Rightarrow> string \<Rightarrow> ('w, notification_rule_response) cop" where
  "notification_rules_get E id' =
     read_call E from_notification_rule_response ''notification_rules.get'' ''GET'' ''/api/v1/notification-rules/{id}''
       (ret [(''id'', id')]) [] no_body"

definition notification_rules_update ::
    "'e client_env_scheme \<Rightarrow> string \<Rightarrow> update_notification_rule_request \<Rightarrow> ('w, notification_rule_response) cop" where
  "notification_rules_update E id' body =
     read_call E from_notification_rule_response ''notification_rules.update'' ''PUT'' ''/api/v1/notification-rules/{id}''
       (ret [(''id'', id')]) [] (json_body (to_update_notification_rule_request body))"

definition notification_rules_delete ::
    "'e client_env_scheme \<Rightarrow> string \<Rightarrow> ('w, unit) cop" where
  "notification_rules_delete E id' =
     void_call E ''notification_rules.delete'' ''DELETE'' ''/api/v1/notification-rules/{id}''
       (ret [(''id'', id')]) [] no_body"

section \<open>EmailConfigApi\<close>

definition email_config_get_org ::
    "'e client_env_scheme \<Rightarrow> call_scope \<Rightarrow> ('w, email_config) cop" where
  "email_config_get_org E sc =
     read_call E (from_email_config (env_dump E)) ''email_config.get_org'' ''GET'' ''/api/v1/organizations/{org_id}/email-config''
       (with_org sc (\<lambda>i. [(''org_id'', i)])) [] no_body"

definition email_config_set_org ::
    "'e client_env_scheme \<Rightarrow> call_scope \<Rightarrow> set_org_email_config \<Rightarrow> ('w, email_config) cop" where
  "email_config_set_org E sc body =
     read_call E (from_email_config (env_dump E)) ''email_config.set_org'' ''PUT'' ''/api/v1/organizations/{org_id}/email-config''
       (with_org sc (\<lambda>i. [(''org_id'', i)])) [] (json_body (to_set_org_email_config (env_parse E) body))"

definition email_config_delete_org ::
    "'e client_env_scheme \<Rightarrow> call_scope \<Rightarrow> ('w, unit) cop" where
  "email_config_delete_org E sc =
     void_call E ''email_config.delete_org'' ''DELETE'' ''/api/v1/organizations/{org_id}/email-config''
       (with_org sc (\<lambda>i. [(''org_id'', i)])) [] no_body"

definition email_config_test_org ::
    "'e client_env_scheme \<Rightarrow> call_scope \<Rightarrow> ('w, email_test_result) cop" where
  "email_config_test_org E sc =
     read_call E from_email_test_result ''email_config.test_org'' ''POST'' ''/api/v1/organizations/{org_id}/email-config/test''
       (with_org sc (\<lambda>i. [(''org_id'', i)])) [] no_body"

definition email_config_get_tenant ::
    "'e client_env_scheme \<Rightarrow> call_scope \<Rightarrow> ('w, email_config_override) cop" where
  "email_config_get_tenant E sc =
     read_call E (from_email_config_override (env_dump E)) ''email_config.get_tenant'' ''GET'' ''/api/v1/tenants/{tenant_id}/email-config''
       (with_tenant sc (\<lambda>i. [(''tenant_id'', i)])) [] no_body"

definition email_config_set_tenant ::
    "'e client_env_scheme \<Rightarrow> call_scope \<Rightarrow> email_config_override \<Rightarrow> ('w, email_config_override) cop" where
  "email_config_set_tenant E sc body =
     read_call E (from_email_config_override (env_dump E)) ''email_config.set_tenant'' ''PUT'' ''/api/v1/tenants/{tenant_id}/email-config''
       (with_tenant sc (\<lambda>i. [(''tenant_id'', i)])) [] (json_body (to_email_config_override (env_parse E) body))"

definition email_config_delete_tenant ::
    "'e client_env_scheme \<Rightarrow> call_scope \<Rightarrow> ('w, unit) cop" where
  "email_config_delete_tenant E sc =
     void_call E ''email_config.delete_tenant'' ''DELETE'' ''/api/v1/tenants/{tenant_id}/email-config''
       (with_tenant sc (\<lambda>i. [(''tenant_id'', i)])) [] no_body"

definition email_config_test_tenant ::
    "'e client_env_scheme \<Rightarrow> call_scope \<Rightarrow> ('w, email_test_result) cop" where
  "email_config_test_tenant E sc =
     read_call E from_email_test_result ''email_config.test_tenant'' ''POST'' ''/api/v1/tenants/{tenant_id}/email-config/test''
       (with_tenant sc (\<lambda>i. [(''tenant_id'', i)])) [] no_body"

section \<open>DirectoryApi\<close>

definition directory_get ::
    "'e client_env_scheme \<Rightarrow> call_scope \<Rightarrow> ('w, directory_config) cop" where
  "directory_get E sc =
     read_call E from_directory_config ''directory.get'' ''GET'' ''/api/v1/tenants/{tenant_id}/directory''
       (with_tenant sc (\<lambda>i. [(''tenant_id'', i)])) [] no_body"

definition directory_set ::
    "'e client_env_scheme \<Rightarrow> call_scope \<Rightarrow> set_directory_config \<Rightarrow> ('w, directory_config) cop" where
  "directory_set E sc body =
     read_call E from_directory_config ''directory.set'' ''PUT'' ''/api/v1/tenants/{tenant_id}/directory''
       (with_tenant sc (\<lambda>i. [(''tenant_id'', i)])) [] (json_body (to_set_directory_config body))"

definition directory_update ::
    "'e client_env_scheme \<Rightarrow> call_scope \<Rightarrow> update_directory_config \<Rightarrow> ('w, directory_config) cop" where
  "directory_update E sc body =
     read_call E from_directory_config ''directory.update'' ''PATCH'' ''/api/v1/tenants/{tenant_id}/directory''
       (with_tenant sc (\<lambda>i. [(''tenant_id'', i)])) [] (json_body (to_update_directory_config body))"

definition directory_delete ::
    "'e client_env_scheme \<Rightarrow> call_scope \<Rightarrow> ('w, unit) cop" where
  "directory_delete E sc =
     void_call E ''directory.delete'' ''DELETE'' ''/api/v1/tenants/{tenant_id}/directory''
       (with_tenant sc (\<lambda>i. [(''tenant_id'', i)])) [] no_body"

definition directory_link_account ::
    "'e client_env_scheme \<Rightarrow> call_scope \<Rightarrow> link_directory_account \<Rightarrow> ('w, directory_link_result) cop" where
  "directory_link_account E sc body =
     read_call E from_directory_link_result ''directory.link_account'' ''POST'' ''/api/v1/tenants/{tenant_id}/directory/links''
       (with_tenant sc (\<lambda>i. [(''tenant_id'', i)])) [] (json_body (to_link_directory_account body))"

definition directory_get_sync_status ::
    "'e client_env_scheme \<Rightarrow> call_scope \<Rightarrow> ('w, directory_sync_status) cop" where
  "directory_get_sync_status E sc =
     read_call E from_directory_sync_status ''directory.get_sync_status'' ''GET'' ''/api/v1/tenants/{tenant_id}/directory/sync-status''
       (with_tenant sc (\<lambda>i. [(''tenant_id'', i)])) [] no_body"

section \<open>SamlApi\<close>

definition saml_get_idp ::
    "'e client_env_scheme \<Rightarrow> call_scope \<Rightarrow> ('w, saml_idp_info) cop" where
  "saml_get_idp E sc =
     read_call E from_saml_idp_info ''saml.get_idp'' ''GET'' ''/api/v1/tenants/{tenant_id}/saml/idp''
       (with_tenant sc (\<lambda>i. [(''tenant_id'', i)])) [] no_body"

definition saml_list_service_providers ::
    "'e client_env_scheme \<Rightarrow> call_scope \<Rightarrow> page_request \<Rightarrow> ('w, saml_service_provider page) cop" where
  "saml_list_service_providers E sc pg =
     page_call E from_saml_service_provider ''saml.list_service_providers'' ''/api/v1/tenants/{tenant_id}/saml/service-providers''
       (with_tenant sc (\<lambda>i. [(''tenant_id'', i)])) [] pg"

definition saml_create_service_provider ::
    "'e client_env_scheme \<Rightarrow> call_scope \<Rightarrow> saml_service_provider_input \<Rightarrow> ('w, saml_service_provider) cop" where
  "saml_create_service_provider E sc body =
     read_call E from_saml_service_provider ''saml.create_service_provider'' ''POST'' ''/api/v1/tenants/{tenant_id}/saml/service-providers''
       (with_tenant sc (\<lambda>i. [(''tenant_id'', i)])) [] (json_body (to_saml_service_provider_input body))"

definition saml_get_service_provider ::
    "'e client_env_scheme \<Rightarrow> call_scope \<Rightarrow> string \<Rightarrow> ('w, saml_service_provider) cop" where
  "saml_get_service_provider E sc sp_id =
     read_call E from_saml_service_provider ''saml.get_service_provider'' ''GET'' ''/api/v1/tenants/{tenant_id}/saml/service-providers/{sp_id}''
       (with_tenant sc (\<lambda>i. [(''tenant_id'', i), (''sp_id'', sp_id)])) [] no_body"

definition saml_update_service_provider ::
    "'e client_env_scheme \<Rightarrow> call_scope \<Rightarrow> string \<Rightarrow> saml_service_provider_input \<Rightarrow> ('w, saml_service_provider) cop" where
  "saml_update_service_provider E sc sp_id body =
     read_call E from_saml_service_provider ''saml.update_service_provider'' ''PUT'' ''/api/v1/tenants/{tenant_id}/saml/service-providers/{sp_id}''
       (with_tenant sc (\<lambda>i. [(''tenant_id'', i), (''sp_id'', sp_id)])) [] (json_body (to_saml_service_provider_input body))"

definition saml_delete_service_provider ::
    "'e client_env_scheme \<Rightarrow> call_scope \<Rightarrow> string \<Rightarrow> ('w, unit) cop" where
  "saml_delete_service_provider E sc sp_id =
     void_call E ''saml.delete_service_provider'' ''DELETE'' ''/api/v1/tenants/{tenant_id}/saml/service-providers/{sp_id}''
       (with_tenant sc (\<lambda>i. [(''tenant_id'', i), (''sp_id'', sp_id)])) [] no_body"

definition saml_parse_sp_metadata ::
    "'e client_env_scheme \<Rightarrow> call_scope \<Rightarrow> parse_saml_sp_metadata \<Rightarrow> ('w, saml_sp_metadata_draft) cop" where
  "saml_parse_sp_metadata E sc body =
     seq (lift_res (parse_sp_metadata_exactly_one body)) (\<lambda>_.
     read_call E from_saml_sp_metadata_draft ''saml.parse_sp_metadata'' ''POST'' ''/api/v1/tenants/{tenant_id}/saml/parse-sp-metadata''
       (with_tenant sc (\<lambda>i. [(''tenant_id'', i)])) [] (json_body (to_parse_saml_sp_metadata body)))"

definition saml_list_idp_credentials ::
    "'e client_env_scheme \<Rightarrow> call_scope \<Rightarrow> ('w, saml_idp_credential list) cop" where
  "saml_list_idp_credentials E sc =
     read_call E (get_list from_saml_idp_credential) ''saml.list_idp_credentials'' ''GET'' ''/api/v1/tenants/{tenant_id}/saml/idp-credentials''
       (with_tenant sc (\<lambda>i. [(''tenant_id'', i)])) [] no_body"

definition saml_issue_idp_credential ::
    "'e client_env_scheme \<Rightarrow> call_scope \<Rightarrow> issue_saml_idp_credential \<Rightarrow> ('w, saml_idp_credential) cop" where
  "saml_issue_idp_credential E sc body =
     read_call E from_saml_idp_credential ''saml.issue_idp_credential'' ''POST'' ''/api/v1/tenants/{tenant_id}/saml/idp-credentials''
       (with_tenant sc (\<lambda>i. [(''tenant_id'', i)])) [] (json_body (to_issue_saml_idp_credential body))"

definition saml_promote_idp_credential ::
    "'e client_env_scheme \<Rightarrow> call_scope \<Rightarrow> string \<Rightarrow> ('w, saml_idp_credential_promotion) cop" where
  "saml_promote_idp_credential E sc credential_id =
     read_call E from_saml_idp_credential_promotion ''saml.promote_idp_credential'' ''POST'' ''/api/v1/tenants/{tenant_id}/saml/idp-credentials/{credential_id}/promote''
       (with_tenant sc (\<lambda>i. [(''tenant_id'', i), (''credential_id'', credential_id)])) [] no_body"

definition saml_retire_idp_credential ::
    "'e client_env_scheme \<Rightarrow> call_scope \<Rightarrow> string \<Rightarrow> ('w, saml_idp_credential) cop" where
  "saml_retire_idp_credential E sc credential_id =
     read_call E from_saml_idp_credential ''saml.retire_idp_credential'' ''POST'' ''/api/v1/tenants/{tenant_id}/saml/idp-credentials/{credential_id}/retire''
       (with_tenant sc (\<lambda>i. [(''tenant_id'', i), (''credential_id'', credential_id)])) [] no_body"

end
