(* ===== verification/Operations3.thy ===== *)
theory Operations3
  imports Calls
begin

text \<open>
  The operations of the management surface from \<open>SsfApi\<close> to \<open>PlatformApi\<close>
  (\<open>src/management_ops.cpp\<close>): the values of the path in the order they are resolved, the query,
  the body and the decoder of each, over the forms of \<open>Calls\<close>. The argument \<open>sc\<close> is the scope of the
  handle the operation is called on.
\<close>

section \<open>SsfApi\<close>

definition ssf_list_streams ::
    "'e client_env_scheme \<Rightarrow> call_scope \<Rightarrow> page_request \<Rightarrow> ('w, ssf_stream page) cop" where
  "ssf_list_streams E sc pg =
     page_call E from_ssf_stream ''ssf.list_streams'' ''/api/v1/tenants/{tenant_id}/ssf/streams''
       (with_tenant sc (\<lambda>i. [(''tenant_id'', i)])) [] pg"

definition ssf_create_stream ::
    "'e client_env_scheme \<Rightarrow> call_scope \<Rightarrow> ssf_stream_input \<Rightarrow> ('w, ssf_stream) cop" where
  "ssf_create_stream E sc body =
     read_call E from_ssf_stream ''ssf.create_stream'' ''POST'' ''/api/v1/tenants/{tenant_id}/ssf/streams''
       (with_tenant sc (\<lambda>i. [(''tenant_id'', i)])) [] (json_body (to_ssf_stream_input body))"

definition ssf_get_stream ::
    "'e client_env_scheme \<Rightarrow> call_scope \<Rightarrow> string \<Rightarrow> ('w, ssf_stream) cop" where
  "ssf_get_stream E sc stream_id =
     read_call E from_ssf_stream ''ssf.get_stream'' ''GET'' ''/api/v1/tenants/{tenant_id}/ssf/streams/{stream_id}''
       (with_tenant sc (\<lambda>i. [(''tenant_id'', i), (''stream_id'', stream_id)])) [] no_body"

definition ssf_update_stream ::
    "'e client_env_scheme \<Rightarrow> call_scope \<Rightarrow> string \<Rightarrow> ssf_stream_input \<Rightarrow> ('w, ssf_stream) cop" where
  "ssf_update_stream E sc stream_id body =
     read_call E from_ssf_stream ''ssf.update_stream'' ''PUT'' ''/api/v1/tenants/{tenant_id}/ssf/streams/{stream_id}''
       (with_tenant sc (\<lambda>i. [(''tenant_id'', i), (''stream_id'', stream_id)])) [] (json_body (to_ssf_stream_input body))"

definition ssf_delete_stream ::
    "'e client_env_scheme \<Rightarrow> call_scope \<Rightarrow> string \<Rightarrow> ('w, unit) cop" where
  "ssf_delete_stream E sc stream_id =
     void_call E ''ssf.delete_stream'' ''DELETE'' ''/api/v1/tenants/{tenant_id}/ssf/streams/{stream_id}''
       (with_tenant sc (\<lambda>i. [(''tenant_id'', i), (''stream_id'', stream_id)])) [] no_body"

section \<open>ScimTargetsApi\<close>

definition scim_targets_list ::
    "'e client_env_scheme \<Rightarrow> page_request \<Rightarrow> ('w, scim_target_response page) cop" where
  "scim_targets_list E pg =
     page_call E (from_scim_target_response (env_dump E)) ''scim_targets.list'' ''/api/v1/scim-targets''
       (ret []) [] pg"

definition scim_targets_create ::
    "'e client_env_scheme \<Rightarrow> scim_target_input \<Rightarrow> ('w, scim_target_response) cop" where
  "scim_targets_create E body =
     read_call E (from_scim_target_response (env_dump E)) ''scim_targets.create'' ''POST'' ''/api/v1/scim-targets''
       (ret []) [] (json_body (to_scim_target_input (env_parse E) body))"

definition scim_targets_get ::
    "'e client_env_scheme \<Rightarrow> string \<Rightarrow> ('w, scim_target_response) cop" where
  "scim_targets_get E id' =
     read_call E (from_scim_target_response (env_dump E)) ''scim_targets.get'' ''GET'' ''/api/v1/scim-targets/{id}''
       (ret [(''id'', id')]) [] no_body"

definition scim_targets_update ::
    "'e client_env_scheme \<Rightarrow> string \<Rightarrow> scim_target_input \<Rightarrow> ('w, scim_target_response) cop" where
  "scim_targets_update E id' body =
     read_call E (from_scim_target_response (env_dump E)) ''scim_targets.update'' ''PUT'' ''/api/v1/scim-targets/{id}''
       (ret [(''id'', id')]) [] (json_body (to_scim_target_input (env_parse E) body))"

definition scim_targets_delete ::
    "'e client_env_scheme \<Rightarrow> string \<Rightarrow> ('w, unit) cop" where
  "scim_targets_delete E id' =
     void_call E ''scim_targets.delete'' ''DELETE'' ''/api/v1/scim-targets/{id}''
       (ret [(''id'', id')]) [] no_body"

definition scim_targets_reconcile ::
    "'e client_env_scheme \<Rightarrow> string \<Rightarrow> ('w, scim_reconcile_accepted) cop" where
  "scim_targets_reconcile E id' =
     read_call E from_scim_reconcile_accepted ''scim_targets.reconcile'' ''POST'' ''/api/v1/scim-targets/{id}/reconcile''
       (ret [(''id'', id')]) [] no_body"

section \<open>NetworkApi\<close>

definition network_list_segments ::
    "'e client_env_scheme \<Rightarrow> page_request \<Rightarrow> string option \<Rightarrow> ('w, network_segment_response page) cop" where
  "network_list_segments E pg site' =
     (let p = (case site' of None \<Rightarrow> pg | Some s \<Rightarrow> pg\<lparr>pr_site := Some s\<rparr>) in
      page_call E from_network_segment_response ''network.list_segments'' ''/api/v1/network/segments''
       (ret []) [(''site'', pr_site p)] p)"

definition network_create_segment ::
    "'e client_env_scheme \<Rightarrow> create_network_segment_request \<Rightarrow> ('w, network_segment_response) cop" where
  "network_create_segment E body =
     read_call E from_network_segment_response ''network.create_segment'' ''POST'' ''/api/v1/network/segments''
       (ret []) [] (json_body (to_create_network_segment_request body))"

definition network_get_segment ::
    "'e client_env_scheme \<Rightarrow> string \<Rightarrow> ('w, network_segment_response) cop" where
  "network_get_segment E id' =
     read_call E from_network_segment_response ''network.get_segment'' ''GET'' ''/api/v1/network/segments/{id}''
       (ret [(''id'', id')]) [] no_body"

definition network_replace_segment ::
    "'e client_env_scheme \<Rightarrow> string \<Rightarrow> replace_network_segment_request \<Rightarrow> ('w, network_segment_response) cop" where
  "network_replace_segment E id' body =
     read_call E from_network_segment_response ''network.replace_segment'' ''PUT'' ''/api/v1/network/segments/{id}''
       (ret [(''id'', id')]) [] (json_body (to_replace_network_segment_request body))"

definition network_delete_segment ::
    "'e client_env_scheme \<Rightarrow> string \<Rightarrow> 64 word \<Rightarrow> ('w, unit) cop" where
  "network_delete_segment E id' version =
     void_call E ''network.delete_segment'' ''DELETE'' ''/api/v1/network/segments/{id}''
       (ret [(''id'', id')]) [(''version'', Some (dec_int (sint version)))] no_body"

definition network_list_profiles ::
    "'e client_env_scheme \<Rightarrow> page_request \<Rightarrow> ('w, network_reply_profile page) cop" where
  "network_list_profiles E pg =
     page_call E from_network_reply_profile ''network.list_profiles'' ''/api/v1/network/profiles''
       (ret []) [] pg"

definition network_create_profile ::
    "'e client_env_scheme \<Rightarrow> create_network_reply_profile_request \<Rightarrow> ('w, network_reply_profile) cop" where
  "network_create_profile E body =
     read_call E from_network_reply_profile ''network.create_profile'' ''POST'' ''/api/v1/network/profiles''
       (ret []) [] (json_body (to_create_network_reply_profile_request body))"

definition network_get_profile ::
    "'e client_env_scheme \<Rightarrow> string \<Rightarrow> ('w, network_reply_profile) cop" where
  "network_get_profile E segment_id =
     read_call E from_network_reply_profile ''network.get_profile'' ''GET'' ''/api/v1/network/profiles/{segment_id}''
       (ret [(''segment_id'', segment_id)]) [] no_body"

definition network_replace_profile ::
    "'e client_env_scheme \<Rightarrow> string \<Rightarrow> replace_network_reply_profile_request \<Rightarrow> ('w, network_reply_profile) cop" where
  "network_replace_profile E segment_id body =
     read_call E from_network_reply_profile ''network.replace_profile'' ''PUT'' ''/api/v1/network/profiles/{segment_id}''
       (ret [(''segment_id'', segment_id)]) [] (json_body (to_replace_network_reply_profile_request body))"

definition network_delete_profile ::
    "'e client_env_scheme \<Rightarrow> string \<Rightarrow> 64 word \<Rightarrow> ('w, unit) cop" where
  "network_delete_profile E segment_id version =
     void_call E ''network.delete_profile'' ''DELETE'' ''/api/v1/network/profiles/{segment_id}''
       (ret [(''segment_id'', segment_id)]) [(''version'', Some (dec_int (sint version)))] no_body"

definition network_get_policy ::
    "'e client_env_scheme \<Rightarrow> ('w, network_policy_response) cop" where
  "network_get_policy E =
     read_call E from_network_policy_response ''network.get_policy'' ''GET'' ''/api/v1/network/policy''
       (ret []) [] no_body"

definition network_replace_policy ::
    "'e client_env_scheme \<Rightarrow> replace_network_policy_request \<Rightarrow> ('w, network_policy_response) cop" where
  "network_replace_policy E body =
     read_call E from_network_policy_response ''network.replace_policy'' ''PUT'' ''/api/v1/network/policy''
       (ret []) [] (json_body (to_replace_network_policy_request body))"

section \<open>SettingsApi\<close>

definition settings_get_org ::
    "'e client_env_scheme \<Rightarrow> call_scope \<Rightarrow> ('w, security_settings) cop" where
  "settings_get_org E sc =
     read_call E from_security_settings ''settings.get_org'' ''GET'' ''/api/v1/organizations/{org_id}/settings''
       (with_org sc (\<lambda>i. [(''org_id'', i)])) [] no_body"

definition settings_set_org ::
    "'e client_env_scheme \<Rightarrow> call_scope \<Rightarrow> set_org_settings \<Rightarrow> ('w, security_settings) cop" where
  "settings_set_org E sc body =
     read_call E from_security_settings ''settings.set_org'' ''PUT'' ''/api/v1/organizations/{org_id}/settings''
       (with_org sc (\<lambda>i. [(''org_id'', i)])) [] (json_body (to_set_org_settings body))"

definition settings_get_effective ::
    "'e client_env_scheme \<Rightarrow> ('w, security_settings) cop" where
  "settings_get_effective E =
     read_call E from_security_settings ''settings.get_effective'' ''GET'' ''/api/v1/settings''
       (ret []) [] no_body"

definition settings_set_effective ::
    "'e client_env_scheme \<Rightarrow> tenant_settings_override \<Rightarrow> ('w, security_settings) cop" where
  "settings_set_effective E body =
     read_call E from_security_settings ''settings.set_effective'' ''PUT'' ''/api/v1/settings''
       (ret []) [] (json_body (to_tenant_settings_override body))"

definition settings_get_tenant_override ::
    "'e client_env_scheme \<Rightarrow> call_scope \<Rightarrow> ('w, tenant_settings_override) cop" where
  "settings_get_tenant_override E sc =
     read_call E from_tenant_settings_override ''settings.get_tenant_override'' ''GET'' ''/api/v1/tenants/{tenant_id}/settings''
       (with_tenant sc (\<lambda>i. [(''tenant_id'', i)])) [] no_body"

definition settings_set_tenant_override ::
    "'e client_env_scheme \<Rightarrow> call_scope \<Rightarrow> tenant_settings_override \<Rightarrow> ('w, tenant_settings_override) cop" where
  "settings_set_tenant_override E sc body =
     read_call E from_tenant_settings_override ''settings.set_tenant_override'' ''PUT'' ''/api/v1/tenants/{tenant_id}/settings''
       (with_tenant sc (\<lambda>i. [(''tenant_id'', i)])) [] (json_body (to_tenant_settings_override body))"

definition settings_delete_tenant_override ::
    "'e client_env_scheme \<Rightarrow> call_scope \<Rightarrow> ('w, unit) cop" where
  "settings_delete_tenant_override E sc =
     void_call E ''settings.delete_tenant_override'' ''DELETE'' ''/api/v1/tenants/{tenant_id}/settings''
       (with_tenant sc (\<lambda>i. [(''tenant_id'', i)])) [] no_body"

section \<open>ScimTokensApi\<close>

definition scim_tokens_list ::
    "'e client_env_scheme \<Rightarrow> ('w, scim_token_response list) cop" where
  "scim_tokens_list E =
     read_call E (get_list from_scim_token_response) ''scim_tokens.list'' ''GET'' ''/api/v1/scim-tokens''
       (ret []) [] no_body"

definition scim_tokens_create ::
    "'e client_env_scheme \<Rightarrow> create_scim_token_request \<Rightarrow> ('w, create_scim_token_response) cop" where
  "scim_tokens_create E body =
     read_call E from_create_scim_token_response ''scim_tokens.create'' ''POST'' ''/api/v1/scim-tokens''
       (ret []) [] (json_body (to_create_scim_token_request body))"

definition scim_tokens_revoke ::
    "'e client_env_scheme \<Rightarrow> string \<Rightarrow> ('w, unit) cop" where
  "scim_tokens_revoke E id' =
     void_call E ''scim_tokens.revoke'' ''DELETE'' ''/api/v1/scim-tokens/{id}''
       (ret [(''id'', id')]) [] no_body"

section \<open>ReactorsApi\<close>

definition reactors_list ::
    "'e client_env_scheme \<Rightarrow> page_request \<Rightarrow> ('w, reactor_response page) cop" where
  "reactors_list E pg =
     page_call E from_reactor_response ''reactors.list'' ''/api/v1/reactors''
       (ret []) [] pg"

definition reactors_create ::
    "'e client_env_scheme \<Rightarrow> create_reactor_request \<Rightarrow> ('w, reactor_response) cop" where
  "reactors_create E body =
     read_call E from_reactor_response ''reactors.create'' ''POST'' ''/api/v1/reactors''
       (ret []) [] (json_body (to_create_reactor_request body))"

definition reactors_get ::
    "'e client_env_scheme \<Rightarrow> string \<Rightarrow> ('w, reactor_response) cop" where
  "reactors_get E id' =
     read_call E from_reactor_response ''reactors.get'' ''GET'' ''/api/v1/reactors/{id}''
       (ret [(''id'', id')]) [] no_body"

definition reactors_update ::
    "'e client_env_scheme \<Rightarrow> string \<Rightarrow> update_reactor_request \<Rightarrow> ('w, reactor_response) cop" where
  "reactors_update E id' body =
     read_call E from_reactor_response ''reactors.update'' ''PUT'' ''/api/v1/reactors/{id}''
       (ret [(''id'', id')]) [] (json_body (to_update_reactor_request body))"

definition reactors_delete ::
    "'e client_env_scheme \<Rightarrow> string \<Rightarrow> ('w, unit) cop" where
  "reactors_delete E id' =
     void_call E ''reactors.delete'' ''DELETE'' ''/api/v1/reactors/{id}''
       (ret [(''id'', id')]) [] no_body"

definition reactors_list_events ::
    "'e client_env_scheme \<Rightarrow> ('w, reactor_event_descriptor list) cop" where
  "reactors_list_events E =
     read_call E (get_list from_reactor_event_descriptor) ''reactors.list_events'' ''GET'' ''/api/v1/reactors/events''
       (ret []) [] no_body"

section \<open>WebauthnPolicyApi\<close>

definition webauthn_policy_get ::
    "'e client_env_scheme \<Rightarrow> call_scope \<Rightarrow> ('w, policy_response) cop" where
  "webauthn_policy_get E sc =
     read_call E from_policy_response ''webauthn_policy.get'' ''GET'' ''/api/v1/tenants/{tenant_id}/webauthn/attestation-policy''
       (with_tenant sc (\<lambda>i. [(''tenant_id'', i)])) [] no_body"

definition webauthn_policy_set ::
    "'e client_env_scheme \<Rightarrow> call_scope \<Rightarrow> webauthn_attestation_policy \<Rightarrow> ('w, webauthn_attestation_policy) cop" where
  "webauthn_policy_set E sc body =
     read_call E from_webauthn_attestation_policy ''webauthn_policy.set'' ''PUT'' ''/api/v1/tenants/{tenant_id}/webauthn/attestation-policy''
       (with_tenant sc (\<lambda>i. [(''tenant_id'', i)])) [] (json_body (to_webauthn_attestation_policy body))"

definition webauthn_policy_compliance_report ::
    "'e client_env_scheme \<Rightarrow> call_scope \<Rightarrow> ('w, compliance_report_entry list) cop" where
  "webauthn_policy_compliance_report E sc =
     read_call E (get_list from_compliance_report_entry) ''webauthn_policy.compliance_report'' ''GET'' ''/api/v1/tenants/{tenant_id}/webauthn/compliance-report''
       (with_tenant sc (\<lambda>i. [(''tenant_id'', i)])) [] no_body"

section \<open>AuditApi\<close>

definition audit_list ::
    "'e client_env_scheme \<Rightarrow> page_request \<Rightarrow> string option \<Rightarrow> string option \<Rightarrow> string option \<Rightarrow> string option \<Rightarrow> string option \<Rightarrow> string option \<Rightarrow> ('w, audit_log_entry page) cop" where
  "audit_list E pg actor_id action' outcome' resource_id' from' to' =
     page_call E (from_audit_log_entry (env_dump E)) ''audit.list'' ''/api/v1/audit-logs''
       (ret []) [(''actor_id'', actor_id), (''action'', action'), (''outcome'', outcome'), (''resource_id'', resource_id'), (''from'', from'), (''to'', to')] pg"

definition audit_list_system ::
    "'e client_env_scheme \<Rightarrow> page_request \<Rightarrow> string option \<Rightarrow> string option \<Rightarrow> string option \<Rightarrow> string option \<Rightarrow> string option \<Rightarrow> string option \<Rightarrow> ('w, audit_log_entry page) cop" where
  "audit_list_system E pg actor_id action' outcome' resource_id' from' to' =
     page_call E (from_audit_log_entry (env_dump E)) ''audit.list_system'' ''/api/v1/audit-logs/system''
       (ret []) [(''actor_id'', actor_id), (''action'', action'), (''outcome'', outcome'), (''resource_id'', resource_id'), (''from'', from'), (''to'', to')] pg"

section \<open>PrivacyApi\<close>

definition privacy_request_export ::
    "'e client_env_scheme \<Rightarrow> ('w, unit) cop" where
  "privacy_request_export E =
     void_call E ''privacy.request_export'' ''POST'' ''/api/v1/account/export''
       (ret []) [] no_body"

definition privacy_download_export ::
    "'e client_env_scheme \<Rightarrow> string \<Rightarrow> ('w, unit) cop" where
  "privacy_download_export E tok =
     void_call E ''privacy.download_export'' ''GET'' ''/api/v1/account/export/{token}''
       (ret [(''token'', tok)]) [] no_body"

definition privacy_request_delete ::
    "'e client_env_scheme \<Rightarrow> ('w, unit) cop" where
  "privacy_request_delete E =
     void_call E ''privacy.request_delete'' ''POST'' ''/api/v1/account/delete''
       (ret []) [] no_body"

definition privacy_cancel_delete ::
    "'e client_env_scheme \<Rightarrow> string \<Rightarrow> ('w, unit) cop" where
  "privacy_cancel_delete E tok =
     void_call E ''privacy.cancel_delete'' ''GET'' ''/api/v1/auth/account/delete/cancel''
       (ret []) [(''token'', Some tok)] no_body"

definition privacy_list_consents ::
    "'e client_env_scheme \<Rightarrow> ('w, consent_view list) cop" where
  "privacy_list_consents E =
     read_call E (get_list from_consent_view) ''privacy.list_consents'' ''GET'' ''/api/v1/account/consents''
       (ret []) [] no_body"

definition privacy_grant_scope_consent ::
    "'e client_env_scheme \<Rightarrow> grant_scope_consent \<Rightarrow> ('w, unit) cop" where
  "privacy_grant_scope_consent E body =
     void_call E ''privacy.grant_scope_consent'' ''POST'' ''/api/v1/account/consents/oidc-scopes''
       (ret []) [] (json_body (to_grant_scope_consent body))"

definition privacy_withdraw_scope_consent ::
    "'e client_env_scheme \<Rightarrow> string \<Rightarrow> ('w, unit) cop" where
  "privacy_withdraw_scope_consent E client_id =
     void_call E ''privacy.withdraw_scope_consent'' ''DELETE'' ''/api/v1/account/consents/oidc-scopes/{client_id}''
       (ret [(''client_id'', client_id)]) [] no_body"

section \<open>PlatformApi\<close>

definition platform_health ::
    "'e client_env_scheme \<Rightarrow> ('w, health_response) cop" where
  "platform_health E =
     read_call E from_health_response ''platform.health'' ''GET'' ''/health''
       (ret []) [] no_body"

definition platform_ready ::
    "'e client_env_scheme \<Rightarrow> ('w, ready_response) cop" where
  "platform_ready E =
     read_call E from_ready_response ''platform.ready'' ''GET'' ''/ready''
       (ret []) [] no_body"

definition platform_mds_status ::
    "'e client_env_scheme \<Rightarrow> ('w, mds_status_response) cop" where
  "platform_mds_status E =
     read_call E from_mds_status_response ''platform.mds_status'' ''GET'' ''/api/v1/mds/status''
       (ret []) [] no_body"

definition platform_mds_refresh ::
    "'e client_env_scheme \<Rightarrow> ('w, mds_refresh_outcome) cop" where
  "platform_mds_refresh E =
     read_call E (from_mds_refresh_outcome (env_dump E)) ''platform.mds_refresh'' ''POST'' ''/api/v1/mds/refresh''
       (ret []) [] no_body"

end
