(* ===== verification/Manifest.thy ===== *)
theory Manifest
  imports ModelEnums "HOL-Library.Multiset" "HOL-Library.Product_Lexorder"
begin

text \<open>
  Manifests, \<open>include/axiam/management_manifest.hpp\<close> and the first half of
  \<open>src/management_manifest.cpp\<close>: the entities a manifest declares, \<open>ManifestApi::validate\<close> and
  \<open>ManifestApi::ordered\<close>. A manifest that validate accepts is characterised declaratively
  (\<open>wf_manifest\<close>); the sort is shown to implement the order by kind, depth, segment and key.
\<close>

section \<open>Entities\<close>

datatype manifest_kind = ResourceKind | PermissionKind | RoleKind | GroupKind | ServiceAccountKind
  | NetworkPolicyKind | NetworkSegmentKind | NetworkProfileKind

text \<open>The enumerators in their order, which the sort compares.\<close>

primrec kind_index :: "manifest_kind \<Rightarrow> nat" where
  "kind_index ResourceKind = 0"
| "kind_index PermissionKind = 1"
| "kind_index RoleKind = 2"
| "kind_index GroupKind = 3"
| "kind_index ServiceAccountKind = 4"
| "kind_index NetworkPolicyKind = 5"
| "kind_index NetworkSegmentKind = 6"
| "kind_index NetworkProfileKind = 7"

lemma kind_index_inj [simp]: "kind_index a = kind_index b \<longleftrightarrow> a = b"
  by (cases a; cases b) simp_all

instantiation manifest_kind :: linorder
begin

definition less_eq_manifest_kind :: "manifest_kind \<Rightarrow> manifest_kind \<Rightarrow> bool" where
  "less_eq_manifest_kind a b = (kind_index a \<le> kind_index b)"

definition less_manifest_kind :: "manifest_kind \<Rightarrow> manifest_kind \<Rightarrow> bool" where
  "less_manifest_kind a b = (kind_index a < kind_index b)"

instance
  by standard (auto simp: less_eq_manifest_kind_def less_manifest_kind_def)

end

record manifest_role_binding =
  b_role :: string
  b_resource :: "string option"
  b_inherit :: "bool option"

record manifest_network_segment =
  ns_site :: string
  ns_kind :: string
  ns_name :: string
  ns_vlan_id :: "64 word"
  ns_rank :: "64 word option option"
  ns_filter_ids :: "string list option"
  ns_enabled :: "bool option"

record manifest_network_profile =
  np_segment :: string
  np_session_timeout_secs :: "64 word"
  np_termination_action :: "radius_termination_action option"
  np_idle_timeout_secs :: "64 word option option"
  np_filter_id :: "string option option"
  np_service_type :: "radius_service_type option option"

record manifest_network_policy =
  no_session_timeout_max_secs :: "64 word"

record manifest_entity =
  e_kind :: manifest_kind
  e_key :: string
  e_name :: string
  e_description :: string
  e_resource_type :: string
  e_action :: string
  e_is_global :: bool
  e_depends_on :: "string option"
  e_metadata_json :: "string option"
  e_roles :: "manifest_role_binding list"
  e_network_segment :: "manifest_network_segment option"
  e_network_profile :: "manifest_network_profile option"
  e_network_policy :: "manifest_network_policy option"

record manifest =
  m_entities :: "manifest_entity list"

definition find_key :: "manifest \<Rightarrow> string \<Rightarrow> manifest_entity option" where
  "find_key m k = List.find (\<lambda>e. e_key e = k) (m_entities m)"

definition find_key_of_kind :: "manifest \<Rightarrow> string \<Rightarrow> manifest_kind \<Rightarrow> manifest_entity option" where
  "find_key_of_kind m k kd = List.find (\<lambda>e. e_key e = k \<and> e_kind e = kd) (m_entities m)"

definition match_name :: "manifest_entity \<Rightarrow> string" where
  "match_name e = (if e_kind e = PermissionKind then e_action e else e_name e)"

fun kind_name :: "manifest_kind \<Rightarrow> string" where
  "kind_name ResourceKind = ''resource''"
| "kind_name PermissionKind = ''permission''"
| "kind_name RoleKind = ''role''"
| "kind_name GroupKind = ''group''"
| "kind_name ServiceAccountKind = ''service_account''"
| "kind_name NetworkPolicyKind = ''network_policy''"
| "kind_name NetworkSegmentKind = ''network_segment''"
| "kind_name NetworkProfileKind = ''network_profile''"

definition is_network :: "manifest_kind \<Rightarrow> bool" where
  "is_network k = (k = NetworkPolicyKind \<or> k = NetworkSegmentKind \<or> k = NetworkProfileKind)"

definition segment_natural_key :: "string \<Rightarrow> string \<Rightarrow> string \<Rightarrow> string" where
  "segment_natural_key site kind name = site @ [CHR 0x1F] @ kind @ [CHR 0x1F] @ name"

definition quoted :: "string \<Rightarrow> string" where
  "quoted s = [CHR 0x22] @ s @ [CHR 0x22]"

definition describe_segment_key :: "manifest_network_segment \<Rightarrow> string" where
  "describe_segment_key s = ''site '' @ quoted (ns_site s) @ '', kind '' @ quoted (ns_kind s) @ '', name '' @ quoted (ns_name s)"

section \<open>Validation\<close>

definition identity :: "manifest_entity \<Rightarrow> manifest_kind \<times> string" where
  "identity e = (e_kind e, e_key e)"

fun check_keys :: "(manifest_kind \<times> string) list \<Rightarrow> manifest_entity list \<Rightarrow> unit res" where
  "check_keys seen [] = Inr ()"
| "check_keys seen (e # es) =
     (if e_key e = [] then Inl (ManifestError ''manifest: every entity needs a key'')
      else if identity e \<in> set seen then Inl (ManifestError (''manifest declares '' @ quoted (e_key e) @ '' twice''))
      else if e_kind e = ResourceKind \<and> e_resource_type e = []
      then Inl (ManifestError (quoted (e_key e) @ '' (resource) states no resource_type''))
      else check_keys (identity e # seen) es)"

fun check_depends :: "manifest \<Rightarrow> manifest_entity list \<Rightarrow> unit res" where
  "check_depends m [] = Inr ()"
| "check_depends m (e # es) =
     (case e_depends_on e of
        None \<Rightarrow> check_depends m es
      | Some k \<Rightarrow>
          (if find_key m k = None
           then Inl (ManifestError (quoted (e_key e) @ '' depends on '' @ quoted k @ '', which this manifest does not declare''))
           else check_depends m es))"

text \<open>Whether the chain of dependencies from \<open>e\<close> ends within \<open>n\<close> steps.\<close>

primrec chain_ends :: "manifest \<Rightarrow> nat \<Rightarrow> manifest_entity \<Rightarrow> bool" where
  "chain_ends m 0 e = (e_depends_on e = None)"
| "chain_ends m (Suc n) e =
     (case e_depends_on e of
        None \<Rightarrow> True
      | Some k \<Rightarrow> (case find_key m k of None \<Rightarrow> True | Some p \<Rightarrow> chain_ends m n p))"

fun check_cycles :: "manifest \<Rightarrow> manifest_entity list \<Rightarrow> unit res" where
  "check_cycles m [] = Inr ()"
| "check_cycles m (e # es) =
     (if chain_ends m (length (m_entities m)) e then check_cycles m es
      else Inl (ManifestError (''manifest has a dependency cycle reachable from '' @ quoted (e_key e))))"

fun check_filters :: "string \<Rightarrow> string list \<Rightarrow> string list \<Rightarrow> unit res" where
  "check_filters k seen [] = Inr ()"
| "check_filters k seen (f # fs) =
     (if f \<in> set seen
      then Inl (ManifestError (quoted k @ '' (network segment) lists Filter-Id '' @ quoted f @ '' twice in filter_ids''))
      else check_filters k (f # seen) fs)"

definition key_of_segment :: "manifest_network_segment \<Rightarrow> string" where
  "key_of_segment s = segment_natural_key (ns_site s) (ns_kind s) (ns_name s)"

text \<open>The walk of the network entities: the segment keys and profile segments seen, and
  whether a policy was.\<close>

fun check_network :: "manifest \<Rightarrow> string list \<Rightarrow> string list \<Rightarrow> bool \<Rightarrow> manifest_entity list \<Rightarrow> unit res" where
  "check_network m segs profs pol [] = Inr ()"
| "check_network m segs profs pol (e # es) =
     (if e_kind e = NetworkPolicyKind then
        (if e_network_policy e = None
         then Inl (ManifestError (quoted (e_key e) @ '' (network_policy) states no network_policy spec''))
         else if pol then Inl (ManifestError ''manifest declares more than one network policy'')
         else check_network m segs profs True es)
      else if e_kind e = NetworkSegmentKind then
        (case e_network_segment e of
           None \<Rightarrow> Inl (ManifestError (quoted (e_key e) @ '' (network_segment) states no network_segment spec''))
         | Some s \<Rightarrow>
             (if key_of_segment s \<in> set segs
              then Inl (ManifestError (''manifest declares two network segments with '' @ describe_segment_key s))
              else and_then (case ns_filter_ids s of None \<Rightarrow> Inr () | Some fs \<Rightarrow> check_filters (e_key e) [] fs)
                (\<lambda>_. check_network m (key_of_segment s # segs) profs pol es)))
      else if e_kind e = NetworkProfileKind then
        (case e_network_profile e of
           None \<Rightarrow> Inl (ManifestError (quoted (e_key e) @ '' (network_profile) states no network_profile spec''))
         | Some p \<Rightarrow>
             (if find_key_of_kind m (np_segment p) NetworkSegmentKind = None
              then Inl (ManifestError (quoted (e_key e) @ '' (network profile) names segment '' @ quoted (np_segment p)
                          @ '', which this manifest does not declare as a network segment''))
              else if np_segment p \<in> set profs
              then Inl (ManifestError (''manifest declares two profiles for network segment '' @ quoted (np_segment p)))
              else check_network m segs (np_segment p # profs) pol es))
      else check_network m segs profs pol es)"

definition narrowed :: "bool option \<Rightarrow> bool" where
  "narrowed i = (i = Some False)"

fun check_roles :: "manifest \<Rightarrow> string \<Rightarrow> string list \<Rightarrow> manifest_role_binding list \<Rightarrow> unit res" where
  "check_roles m k seen [] = Inr ()"
| "check_roles m k seen (b # bs) =
     (case find_key_of_kind m (b_role b) RoleKind of
        None \<Rightarrow> Inl (ManifestError (quoted k @ '' binds role '' @ quoted (b_role b) @ '', which this manifest does not declare as a role''))
      | Some role \<Rightarrow>
          (if b_role b \<in> set seen
           then Inl (ManifestError (quoted k @ '' binds role '' @ quoted (b_role b) @ '' more than once''))
           else if (case b_resource b of None \<Rightarrow> False | Some r \<Rightarrow> find_key_of_kind m r ResourceKind = None)
           then Inl (ManifestError (quoted k @ '' scopes role '' @ quoted (b_role b) @ '' to a resource this manifest does not declare''))
           else if narrowed (b_inherit b) \<and> e_is_global role
           then Inl (ManifestError (quoted k @ '' binds the global role '' @ quoted (b_role b) @ '' with inherit: false''))
           else if b_resource b = None \<and> narrowed (b_inherit b)
           then Inl (ManifestError (quoted k @ '' states inherit: false on its plain (unscoped) binding of role '' @ quoted (b_role b)))
           else check_roles m k (b_role b # seen) bs))"

definition binds_roles :: "manifest_kind \<Rightarrow> bool" where
  "binds_roles k = (k = GroupKind \<or> k = ServiceAccountKind)"

fun check_bindings :: "manifest \<Rightarrow> manifest_entity list \<Rightarrow> unit res" where
  "check_bindings m [] = Inr ()"
| "check_bindings m (e # es) =
     (if binds_roles (e_kind e)
      then and_then (check_roles m (e_key e) [] (e_roles e)) (\<lambda>_. check_bindings m es)
      else check_bindings m es)"

definition validate :: "manifest \<Rightarrow> unit res" where
  "validate m =
     (let es = m_entities m in
      and_then (check_keys [] es) (\<lambda>_. and_then (check_depends m es) (\<lambda>_. and_then (check_cycles m es) (\<lambda>_.
      and_then (check_network m [] [] False es) (\<lambda>_. check_bindings m es)))))"

section \<open>Order\<close>

text \<open>The depth of an entity below entities of its kind.\<close>

primrec depth_loop :: "manifest \<Rightarrow> nat \<Rightarrow> manifest_entity \<Rightarrow> nat" where
  "depth_loop m 0 e = 0"
| "depth_loop m (Suc n) e =
     (case e_depends_on e of
        None \<Rightarrow> 0
      | Some k \<Rightarrow>
          (case find_key m k of
             None \<Rightarrow> 0
           | Some p \<Rightarrow> (if e_kind p \<noteq> e_kind e then 0 else Suc (depth_loop m n p))))"

definition depth_of :: "manifest \<Rightarrow> manifest_entity \<Rightarrow> nat" where
  "depth_of m e = depth_loop m (length (m_entities m) + 1) e"

definition entity_less :: "manifest \<Rightarrow> manifest_entity \<Rightarrow> manifest_entity \<Rightarrow> bool" where
  "entity_less m a b =
     (if e_kind a \<noteq> e_kind b then e_kind a < e_kind b
      else if depth_of m a \<noteq> depth_of m b then depth_of m a < depth_of m b
      else (case (e_network_profile a, e_network_profile b) of
              (Some p, Some q) \<Rightarrow>
                (if e_kind a = NetworkProfileKind \<and> np_segment p \<noteq> np_segment q
                 then np_segment p < np_segment q else e_key a < e_key b)
            | _ \<Rightarrow> e_key a < e_key b))"

text \<open>\<open>std::stable_sort\<close>: an element moves in front of those that are not less than it.\<close>

fun insert_by :: "('a \<Rightarrow> 'a \<Rightarrow> bool) \<Rightarrow> 'a \<Rightarrow> 'a list \<Rightarrow> 'a list" where
  "insert_by lt x [] = [x]"
| "insert_by lt x (y # ys) = (if lt y x then y # insert_by lt x ys else x # y # ys)"

definition stable_sort :: "('a \<Rightarrow> 'a \<Rightarrow> bool) \<Rightarrow> 'a list \<Rightarrow> 'a list" where
  "stable_sort lt xs = foldr (insert_by lt) xs []"

definition ordered :: "manifest \<Rightarrow> manifest_entity list res" where
  "ordered m = and_then (validate m) (\<lambda>_. Inr (stable_sort (entity_less m) (m_entities m)))"

section \<open>What is accepted\<close>

lemma find_key_Some: "find_key m k = Some e \<Longrightarrow> e \<in> set (m_entities m) \<and> e_key e = k"
  by (auto simp: find_key_def find_Some_iff)

lemma find_key_of_kind_Some:
  "find_key_of_kind m k kd = Some e \<Longrightarrow> e \<in> set (m_entities m) \<and> e_key e = k \<and> e_kind e = kd"
  by (auto simp: find_key_of_kind_def find_Some_iff)

lemma find_key_of_kind_None:
  "find_key_of_kind m k kd = None \<longleftrightarrow> (\<forall>e \<in> set (m_entities m). e_key e = k \<longrightarrow> e_kind e \<noteq> kd)"
  by (auto simp: find_key_of_kind_def find_None_iff)

text \<open>The entity another one depends on.\<close>

definition parent_of :: "manifest \<Rightarrow> manifest_entity \<Rightarrow> manifest_entity option" where
  "parent_of m e = (case e_depends_on e of None \<Rightarrow> None | Some k \<Rightarrow> find_key m k)"

definition parents :: "manifest \<Rightarrow> (manifest_entity \<times> manifest_entity) set" where
  "parents m = {(p, e). e \<in> set (m_entities m) \<and> parent_of m e = Some p}"

lemma parent_of_in: "parent_of m e = Some p \<Longrightarrow> p \<in> set (m_entities m)"
  by (auto simp: parent_of_def dest: find_key_Some split: option.splits)

lemma parents_in: "(p, e) \<in> parents m \<Longrightarrow> p \<in> set (m_entities m) \<and> e \<in> set (m_entities m)"
  by (auto simp: parents_def dest: parent_of_in)

lemma parents_unique: "(p, e) \<in> parents m \<Longrightarrow> (q, e) \<in> parents m \<Longrightarrow> p = q"
  by (simp add: parents_def)

definition declared :: "manifest \<Rightarrow> bool" where
  "declared m = (\<forall>e \<in> set (m_entities m). \<forall>k. e_depends_on e = Some k \<longrightarrow> find_key m k \<noteq> None)"

definition ancestors :: "manifest \<Rightarrow> manifest_entity \<Rightarrow> manifest_entity set" where
  "ancestors m e = {p. (p, e) \<in> (parents m)\<^sup>+}"

lemma ancestors_subset: "ancestors m e \<subseteq> set (m_entities m)"
  unfolding ancestors_def by (auto dest: tranclD parents_in)

lemma finite_ancestors: "finite (ancestors m e)"
  by (rule finite_subset[OF ancestors_subset]) simp

lemma cycle_never_ends:
  assumes "(e, e) \<in> (parents m)\<^sup>+"
  shows "\<not> chain_ends m n e"
  using assms
proof (induction n arbitrary: e)
  case 0
  then obtain p where "(p, e) \<in> parents m" by (meson tranclD2)
  then show ?case by (auto simp: parents_def parent_of_def split: option.splits)
next
  case (Suc n)
  then obtain p where p: "(e, p) \<in> (parents m)\<^sup>*" "(p, e) \<in> parents m" by (meson tranclD2)
  then have "(p, p) \<in> (parents m)\<^sup>+" by (simp add: rtrancl_into_trancl2)
  with Suc.IH[of p] p(2) show ?case by (auto simp: parents_def parent_of_def split: option.splits)
qed

lemma acyclic_chain_ends:
  assumes "acyclic (parents m)" "declared m" "e \<in> set (m_entities m)" "card (ancestors m e) \<le> n"
  shows "chain_ends m n e"
  using assms(3,4)
proof (induction n arbitrary: e)
  case 0
  have "parent_of m e = None"
  proof (cases "parent_of m e")
    case (Some p)
    with 0 have "p \<in> ancestors m e" by (auto simp: ancestors_def parents_def)
    with 0 finite_ancestors[of m e] show ?thesis by auto
  qed
  with 0 assms(2) show ?case by (auto simp: parent_of_def declared_def split: option.splits)
next
  case (Suc n)
  show ?case
  proof (cases "parent_of m e")
    case None
    with Suc.prems assms(2) have "e_depends_on e = None" by (auto simp: parent_of_def declared_def split: option.splits)
    then show ?thesis by simp
  next
    case (Some p)
    with Suc.prems have r: "(p, e) \<in> parents m" by (simp add: parents_def)
    then have "ancestors m p \<subseteq> ancestors m e" "p \<in> ancestors m e" "p \<notin> ancestors m p"
      using assms(1) by (auto simp: ancestors_def acyclic_def)
    then have "card (ancestors m p) < card (ancestors m e)"
      by (intro psubset_card_mono finite_ancestors) auto
    with Suc.prems Suc.IH[of p] Some show ?thesis
      by (auto simp: parent_of_def dest: find_key_Some split: option.splits)
  qed
qed

lemma chains_end_iff:
  assumes "declared m"
  shows "(\<forall>e \<in> set (m_entities m). chain_ends m (length (m_entities m)) e) \<longleftrightarrow> acyclic (parents m)"
proof
  assume *: "\<forall>e \<in> set (m_entities m). chain_ends m (length (m_entities m)) e"
  show "acyclic (parents m)"
  proof (rule acyclicI, rule allI, rule notI)
    fix e assume c: "(e, e) \<in> (parents m)\<^sup>+"
    then have "e \<in> set (m_entities m)" by (meson tranclD parents_in)
    with * cycle_never_ends[OF c] show False by blast
  qed
next
  assume a: "acyclic (parents m)"
  show "\<forall>e \<in> set (m_entities m). chain_ends m (length (m_entities m)) e"
  proof
    fix e assume e: "e \<in> set (m_entities m)"
    have "card (ancestors m e) \<le> card (set (m_entities m))"
      by (rule card_mono[OF _ ancestors_subset]) simp
    also have "\<dots> \<le> length (m_entities m)" by (rule card_length)
    finally show "chain_ends m (length (m_entities m)) e" by (rule acyclic_chain_ends[OF a assms e])
  qed
qed

lemma unit_res_Inr: "r = Inr () \<longleftrightarrow> is_ok (r :: unit res)"
  by (cases r) simp_all

lemma check_keys_iff:
  "check_keys seen es = Inr () \<longleftrightarrow>
     (\<forall>e \<in> set es. e_key e \<noteq> [] \<and> (e_kind e = ResourceKind \<longrightarrow> e_resource_type e \<noteq> []))
     \<and> distinct (map identity es) \<and> set (map identity es) \<inter> set seen = {}"
  by (induction seen es rule: check_keys.induct) auto

lemma check_depends_iff:
  "check_depends m es = Inr () \<longleftrightarrow> (\<forall>e \<in> set es. \<forall>k. e_depends_on e = Some k \<longrightarrow> find_key m k \<noteq> None)"
  by (induction m es rule: check_depends.induct) (auto split: option.splits)

lemma check_cycles_iff:
  "check_cycles m es = Inr () \<longleftrightarrow> (\<forall>e \<in> set es. chain_ends m (length (m_entities m)) e)"
  by (induction m es rule: check_cycles.induct) auto

lemma check_filters_iff:
  "check_filters k seen fs = Inr () \<longleftrightarrow> distinct fs \<and> set fs \<inter> set seen = {}"
  by (induction k seen fs rule: check_filters.induct) auto

definition segment_keys :: "manifest_entity list \<Rightarrow> string list" where
  "segment_keys es = concat (map (\<lambda>e. if e_kind e = NetworkSegmentKind
     then (case e_network_segment e of None \<Rightarrow> [] | Some s \<Rightarrow> [key_of_segment s]) else []) es)"

definition profile_segments :: "manifest_entity list \<Rightarrow> string list" where
  "profile_segments es = concat (map (\<lambda>e. if e_kind e = NetworkProfileKind
     then (case e_network_profile e of None \<Rightarrow> [] | Some p \<Rightarrow> [np_segment p]) else []) es)"

definition policies :: "manifest_entity list \<Rightarrow> manifest_entity list" where
  "policies es = filter (\<lambda>e. e_kind e = NetworkPolicyKind) es"

definition network_entity_ok :: "manifest \<Rightarrow> manifest_entity \<Rightarrow> bool" where
  "network_entity_ok m e \<longleftrightarrow>
     (e_kind e = NetworkPolicyKind \<longrightarrow> e_network_policy e \<noteq> None)
     \<and> (e_kind e = NetworkSegmentKind \<longrightarrow>
          (\<exists>s. e_network_segment e = Some s \<and> (\<forall>fs. ns_filter_ids s = Some fs \<longrightarrow> distinct fs)))
     \<and> (e_kind e = NetworkProfileKind \<longrightarrow>
          (\<exists>p. e_network_profile e = Some p \<and> find_key_of_kind m (np_segment p) NetworkSegmentKind \<noteq> None))"

lemma check_network_iff:
  "check_network m segs profs pol es = Inr () \<longleftrightarrow>
     (\<forall>e \<in> set es. network_entity_ok m e)
     \<and> distinct (segment_keys es) \<and> set (segment_keys es) \<inter> set segs = {}
     \<and> distinct (profile_segments es) \<and> set (profile_segments es) \<inter> set profs = {}
     \<and> length (policies es) \<le> (if pol then 0 else 1)"
proof (induction m segs profs pol es rule: check_network.induct)
  case (2 m segs profs pol e es)
  show ?case
  proof (cases "e_kind e = NetworkPolicyKind")
    case True
    with 2 show ?thesis by (auto simp: segment_keys_def profile_segments_def policies_def network_entity_ok_def)
  next
    case no_policy: False
    show ?thesis
    proof (cases "e_kind e = NetworkSegmentKind")
      case True
      with 2 show ?thesis
        by (cases "e_network_segment e"; cases "ns_filter_ids (the (e_network_segment e))")
          (auto simp: segment_keys_def profile_segments_def policies_def network_entity_ok_def check_filters_iff and_then_eq_Inr)
    next
      case no_segment: False
      show ?thesis
      proof (cases "e_kind e = NetworkProfileKind")
        case True
        with 2 show ?thesis
          by (cases "e_network_profile e")
            (auto simp: segment_keys_def profile_segments_def policies_def network_entity_ok_def)
      next
        case False
        with no_policy no_segment 2 show ?thesis
          by (simp add: segment_keys_def profile_segments_def policies_def network_entity_ok_def)
      qed
    qed
  qed
qed (simp add: segment_keys_def profile_segments_def policies_def)

text \<open>A binding of a declared role, at a declared resource when it names one, narrowed only
  when the role is not global and a resource is named.\<close>

definition binding_ok :: "manifest \<Rightarrow> manifest_role_binding \<Rightarrow> bool" where
  "binding_ok m b \<longleftrightarrow>
     (\<exists>role. find_key_of_kind m (b_role b) RoleKind = Some role
        \<and> (narrowed (b_inherit b) \<longrightarrow> \<not> e_is_global role \<and> b_resource b \<noteq> None))
     \<and> (\<forall>r. b_resource b = Some r \<longrightarrow> find_key_of_kind m r ResourceKind \<noteq> None)"

lemma check_roles_iff:
  "check_roles m k seen bs = Inr () \<longleftrightarrow>
     (\<forall>b \<in> set bs. binding_ok m b) \<and> distinct (map b_role bs) \<and> set (map b_role bs) \<inter> set seen = {}"
proof (induction m k seen bs rule: check_roles.induct)
  case (2 m k seen b bs)
  show ?case
  proof (cases "find_key_of_kind m (b_role b) RoleKind")
    case None
    then show ?thesis by (simp add: binding_ok_def)
  next
    case (Some role)
    with 2[OF Some] show ?thesis
      by (cases "b_role b \<in> set seen"; cases "b_resource b") (auto simp: binding_ok_def)
  qed
qed simp

lemma check_bindings_iff:
  "check_bindings m es = Inr () \<longleftrightarrow>
     (\<forall>e \<in> set es. binds_roles (e_kind e) \<longrightarrow> (\<forall>b \<in> set (e_roles e). binding_ok m b) \<and> distinct (map b_role (e_roles e)))"
  by (induction m es rule: check_bindings.induct) (auto simp: check_roles_iff and_then_eq_Inr)

text \<open>The manifests the operations accept, declaratively.\<close>

definition wf_manifest :: "manifest \<Rightarrow> bool" where
  "wf_manifest m \<longleftrightarrow>
     (\<forall>e \<in> set (m_entities m). e_key e \<noteq> [] \<and> (e_kind e = ResourceKind \<longrightarrow> e_resource_type e \<noteq> []))
     \<and> distinct (map identity (m_entities m))
     \<and> declared m \<and> acyclic (parents m)
     \<and> (\<forall>e \<in> set (m_entities m). network_entity_ok m e)
     \<and> distinct (segment_keys (m_entities m)) \<and> distinct (profile_segments (m_entities m))
     \<and> length (policies (m_entities m)) \<le> 1
     \<and> (\<forall>e \<in> set (m_entities m). binds_roles (e_kind e) \<longrightarrow>
          (\<forall>b \<in> set (e_roles e). binding_ok m b) \<and> distinct (map b_role (e_roles e)))"

lemma validate_wf: "validate m = Inr () \<longleftrightarrow> wf_manifest m"
proof (cases "declared m")
  case True
  have "check_depends m (m_entities m) = Inr ()" using True by (simp add: check_depends_iff declared_def)
  moreover have "check_cycles m (m_entities m) = Inr () \<longleftrightarrow> acyclic (parents m)"
    by (simp add: check_cycles_iff chains_end_iff[OF True])
  ultimately show ?thesis using True
    by (simp add: validate_def Let_def and_then_eq_Inr check_keys_iff check_network_iff check_bindings_iff wf_manifest_def)
next
  case False
  then have "check_depends m (m_entities m) \<noteq> Inr ()" by (simp add: check_depends_iff declared_def)
  with False show ?thesis by (auto simp: validate_def Let_def and_then_eq_Inr wf_manifest_def)
qed

section \<open>The order\<close>

lemma insert_by_insort:
  assumes "\<And>y. y \<in> set ys \<Longrightarrow> lt y x \<longleftrightarrow> f y < (f x :: 'k :: linorder)"
  shows "insert_by lt x ys = insort_key f x ys"
  using assms by (induction ys) (auto simp: not_less)

lemma stable_sort_key:
  assumes "\<And>x y. x \<in> set xs \<Longrightarrow> y \<in> set xs \<Longrightarrow> lt x y \<longleftrightarrow> f x < (f y :: 'k :: linorder)"
  shows "stable_sort lt xs = sort_key f xs"
proof -
  have "foldr (insert_by lt) zs [] = sort_key f zs" if "set zs \<subseteq> set xs" for zs
    using that
  proof (induction zs)
    case (Cons z zs)
    then have "insert_by lt z (sort_key f zs) = insort_key f z (sort_key f zs)"
      by (intro insert_by_insort assms) auto
    with Cons show ?case by simp
  qed simp
  then show ?thesis by (simp add: stable_sort_def)
qed

text \<open>What the comparison compares: kind, depth, the segment of a profile, key.\<close>

definition rank :: "manifest \<Rightarrow> manifest_entity \<Rightarrow> manifest_kind \<times> nat \<times> string \<times> string" where
  "rank m e =
     (e_kind e, depth_of m e,
      (if e_kind e = NetworkProfileKind
       then (case e_network_profile e of None \<Rightarrow> [] | Some p \<Rightarrow> np_segment p) else []), e_key e)"

lemma entity_less_rank:
  assumes "network_entity_ok m a" "network_entity_ok m b"
  shows "entity_less m a b \<longleftrightarrow> rank m a < rank m b"
  using assms
  by (auto simp: entity_less_def rank_def network_entity_ok_def less_prod_def' split: option.splits)

lemma ordered_sorts:
  assumes "wf_manifest m"
  shows "ordered m = Inr (sort_key (rank m) (m_entities m))"
proof -
  from assms have "validate m = Inr ()" by (simp add: validate_wf)
  moreover have "stable_sort (entity_less m) (m_entities m) = sort_key (rank m) (m_entities m)"
    using assms by (intro stable_sort_key entity_less_rank) (auto simp: wf_manifest_def)
  ultimately show ?thesis by (simp add: ordered_def)
qed

lemma rank_inj: "wf_manifest m \<Longrightarrow> inj_on (rank m) (set (m_entities m))"
  by (rule inj_onI) (auto simp: rank_def wf_manifest_def identity_def distinct_map inj_on_def)

lemma ordered_eq:
  assumes "ordered m = Inr es"
  shows "wf_manifest m" "es = sort_key (rank m) (m_entities m)" "mset es = mset (m_entities m)"
    "set es = set (m_entities m)" "sorted (map (rank m) es)"
proof -
  from assms show wf: "wf_manifest m" by (auto simp: ordered_def and_then_eq_Inr validate_wf)
  then show es: "es = sort_key (rank m) (m_entities m)" using ordered_sorts assms by simp
  then show "mset es = mset (m_entities m)" "set es = set (m_entities m)" "sorted (map (rank m) es)" by simp_all
qed

lemma depth_loop_enough: "chain_ends m n e \<Longrightarrow> n \<le> k \<Longrightarrow> depth_loop m k e = depth_loop m n e"
proof (induction n arbitrary: e k)
  case 0
  then show ?case by (cases k) simp_all
next
  case (Suc n)
  then obtain j where j: "k = Suc j" "n \<le> j" by (cases k) auto
  show ?case
  proof (cases "parent_of m e")
    case None
    with j show ?thesis by (auto simp: parent_of_def split: option.splits)
  next
    case (Some p)
    with Suc.prems(1) have "chain_ends m n p" by (auto simp: parent_of_def split: option.splits)
    from Suc.IH[OF this j(2)] j(1) Some show ?thesis by (auto simp: parent_of_def split: option.splits)
  qed
qed

lemma depth_parent:
  assumes "wf_manifest m" "e \<in> set (m_entities m)" "parent_of m e = Some p" "e_kind p = e_kind e"
  shows "depth_of m e = Suc (depth_of m p)"
proof -
  let ?n = "length (m_entities m)"
  have "p \<in> set (m_entities m)" using assms(3) by (rule parent_of_in)
  moreover from assms(1) have "declared m" "acyclic (parents m)" by (simp_all add: wf_manifest_def)
  ultimately have "chain_ends m ?n p" using chains_end_iff[of m] by blast
  then have "depth_loop m (?n + 1) p = depth_loop m ?n p" by (rule depth_loop_enough) simp
  with assms(3,4) show ?thesis by (auto simp: depth_of_def parent_of_def split: option.splits)
qed

lemma sorted_split:
  assumes "sorted (map f (xs @ e # ys))" "p \<in> set (xs @ e # ys)" "f p < (f e :: 'k :: linorder)"
  shows "p \<in> set xs"
proof -
  from assms(1) have "f e \<le> f y" if "y \<in> set (e # ys)" for y using that by (auto simp: sorted_append)
  with assms(2,3) show ?thesis by (auto simp: not_less[symmetric])
qed

lemma lower_kind_first:
  assumes "ordered m = Inr (xs @ e # ys)" "p \<in> set (m_entities m)" "e_kind p < e_kind e"
  shows "p \<in> set xs"
proof (rule sorted_split)
  from ordered_eq[OF assms(1)] assms(2) show "sorted (map (rank m) (xs @ e # ys))" "p \<in> set (xs @ e # ys)" by simp_all
  from assms(3) show "rank m p < rank m e" by (simp add: rank_def less_prod_def')
qed

lemma parent_first:
  assumes "ordered m = Inr (xs @ e # ys)" "parent_of m e = Some p" "e_kind p = e_kind e"
  shows "p \<in> set xs"
proof (rule sorted_split)
  note o = ordered_eq[OF assms(1)]
  have "e \<in> set (m_entities m)" using o(4) by auto
  with depth_parent[OF o(1) _ assms(2,3)] assms(3) show "rank m p < rank m e" by (simp add: rank_def less_prod_def')
  from o parent_of_in[OF assms(2)] show "sorted (map (rank m) (xs @ e # ys))" "p \<in> set (xs @ e # ys)" by simp_all
qed

section \<open>Properties\<close>

text \<open>
  C9. A manifest is taken exactly when it is well formed: keys are stated and unique within their
  kind, resources state their type, every dependency is declared and the dependencies are
  acyclic, every network entity states its specification, with at most one policy, no segment
  key and no profile's segment twice, and every role binding names declared things, each role
  once. In particular the step-bounded search for a cycle finds every cycle and nothing else.
\<close>

theorem accepted_iff_well_formed:
  "(\<exists>es. ordered m = Inr es) \<longleftrightarrow> wf_manifest m"
  using ordered_sorts[of m] ordered_eq(1)[of m] by auto

text \<open>
  C10. The order implements its specification: what \<open>ordered\<close> returns is the one rearrangement of
  the entities of a well-formed manifest that is sorted by kind, depth below entities of the kind,
  segment and key, whatever order they were declared in.
\<close>

theorem ordered_refines:
  "ordered m = Inr es \<longleftrightarrow>
     wf_manifest m \<and> mset es = mset (m_entities m) \<and> sorted (map (rank m) es)"
proof
  assume o: "ordered m = Inr es"
  show "wf_manifest m \<and> mset es = mset (m_entities m) \<and> sorted (map (rank m) es)"
    using ordered_eq[OF o] by auto
next
  assume *: "wf_manifest m \<and> mset es = mset (m_entities m) \<and> sorted (map (rank m) es)"
  then have o: "ordered m = Inr (sort_key (rank m) (m_entities m))" by (simp add: ordered_sorts)
  let ?os = "sort_key (rank m) (m_entities m)"
  have "sort (map (rank m) ?os) = map (rank m) es"
    using * by (intro properties_for_sort) simp_all
  then have "map (rank m) es = map (rank m) ?os" by (simp add: sorted_sort_id)
  moreover have "set es = set (m_entities m)" using * by (metis mset_eq_setD)
  ultimately have "es = ?os" using rank_inj[of m] * by (intro map_inj_on[of "rank m"]) simp_all
  with o show "ordered m = Inr es" by simp
qed

end
