(* ===== verification/Provision.thy ===== *)
theory Provision
  imports Manifest Operations1 Operations2 Operations3
begin

text \<open>
  Provisioning, the second half of \<open>src/management_manifest.cpp\<close>: \<open>ManifestApi::plan\<close> reads the
  tenant and computes one change per entity, \<open>ManifestApi::apply\<close> plans again and performs the
  pending changes in order, stopping at the first failure. The calls are the operations of
  \<open>Operations1\<close> to \<open>Operations3\<close> on the client's state. \<open>perform\<close> writes to the change it executes
  and to the ids and versions resolved so far before it may throw, so these are part of its
  state (\<open>progress\<close>). \<open>std::map\<close>s are maps, of which only lookups are used.
\<close>

section \<open>JSON values\<close>

text \<open>\<open>operator==\<close> of the JSON library: numbers of different types compare after conversion.\<close>

definition int_eq :: "64 word \<Rightarrow> json \<Rightarrow> bool" where
  "int_eq a y =
     (case y of JInt b \<Rightarrow> a = b | JUInt b \<Rightarrow> a = b | JFloat b \<Rightarrow> double_of_int (sint a) = b | _ \<Rightarrow> False)"

definition uint_eq :: "64 word \<Rightarrow> json \<Rightarrow> bool" where
  "uint_eq a y =
     (case y of JInt b \<Rightarrow> a = b | JUInt b \<Rightarrow> a = b | JFloat b \<Rightarrow> double_of_nat (unat a) = b | _ \<Rightarrow> False)"

definition float_eq :: "rat \<Rightarrow> json \<Rightarrow> bool" where
  "float_eq a y =
     (case y of JInt b \<Rightarrow> a = double_of_int (sint b) | JUInt b \<Rightarrow> a = double_of_nat (unat b) | JFloat b \<Rightarrow> a = b | _ \<Rightarrow> False)"

fun json_eq :: "json \<Rightarrow> json \<Rightarrow> bool" and json_eq_all :: "json list \<Rightarrow> json list \<Rightarrow> bool"
  and json_eq_members :: "(string \<times> json) list \<Rightarrow> (string \<times> json) list \<Rightarrow> bool" where
  "json_eq (JArr xs) y = (case y of JArr ys \<Rightarrow> json_eq_all xs ys | _ \<Rightarrow> False)"
| "json_eq (JObj xs) y = (case y of JObj ys \<Rightarrow> json_eq_members xs ys | _ \<Rightarrow> False)"
| "json_eq JNull y = (y = JNull)"
| "json_eq (JStr a) y = (y = JStr a)"
| "json_eq (JBool a) y = (y = JBool a)"
| "json_eq (JInt a) y = int_eq a y"
| "json_eq (JUInt a) y = uint_eq a y"
| "json_eq (JFloat a) y = float_eq a y"
| "json_eq JDiscarded y = False"
| "json_eq_all [] ys = (ys = [])"
| "json_eq_all (x # xs) ys = (case ys of [] \<Rightarrow> False | y # ys' \<Rightarrow> json_eq x y \<and> json_eq_all xs ys')"
| "json_eq_members [] ys = (ys = [])"
| "json_eq_members (x # xs) ys =
     (case ys of [] \<Rightarrow> False | y # ys' \<Rightarrow> fst x = fst y \<and> json_eq (snd x) (snd y) \<and> json_eq_members xs ys')"

definition metadata_equal :: "(string \<Rightarrow> json) \<Rightarrow> string \<Rightarrow> string \<Rightarrow> bool" where
  "metadata_equal parse stated stored =
     (\<not> is_discarded (parse stated) \<and> \<not> is_discarded (parse stored) \<and> json_eq (parse stated) (parse stored))"

section \<open>Changes\<close>

datatype change_action = Unchanged | Create | Update

fun action_name :: "change_action \<Rightarrow> string" where
  "action_name Unchanged = ''unchanged''"
| "action_name Create = ''create''"
| "action_name Update = ''update''"

record planned_change =
  pc_entity :: manifest_entity
  pc_action :: change_action
  pc_id :: "string option"
  pc_secret :: "string option"
  pc_read_segment :: "network_segment_response option"
  pc_read_profile :: "network_reply_profile option"
  pc_read_policy :: "network_policy_response option"

definition change_for :: "manifest_entity \<Rightarrow> planned_change" where
  "change_for e = planned_change.make e Unchanged None None None None None"

definition describe_change :: "planned_change \<Rightarrow> string" where
  "describe_change c = action_name (pc_action c) @ '' '' @ kind_name (e_kind (pc_entity c)) @ '':'' @ e_key (pc_entity c)"

definition pending :: "planned_change list \<Rightarrow> planned_change list" where
  "pending cs = filter (\<lambda>c. pc_action c \<noteq> Unchanged) cs"

definition converged :: "planned_change list \<Rightarrow> bool" where
  "converged cs = (pending cs = [])"

record apply_report =
  ar_applied :: "planned_change list"
  ar_failed :: "planned_change option"
  ar_failure :: string
  ar_failed_reason_code :: "string option"
  ar_remaining :: "planned_change list"
  ar_restore_attempted :: bool
  ar_restore_succeeded :: bool
  ar_restore_error :: "string option"
  ar_failed_binding :: "string option"

definition empty_report :: apply_report where
  "empty_report = apply_report.make [] None [] None [] False False None None"

definition complete :: "apply_report \<Rightarrow> bool" where
  "complete r = (ar_failed r = None)"

definition or_text :: "string option \<Rightarrow> string \<Rightarrow> string" where
  "or_text v d = (case v of None \<Rightarrow> d | Some x \<Rightarrow> x)"

definition describe_report :: "apply_report \<Rightarrow> string list" where
  "describe_report r =
     map (\<lambda>c. ''applied  '' @ describe_change c) (ar_applied r)
     @ (case ar_failed r of
          None \<Rightarrow> []
        | Some c \<Rightarrow>
            [''FAILED   '' @ describe_change c @ '': '' @ ar_failure r]
            @ (if ar_restore_attempted r
               then [''         restore of '' @ or_text (ar_failed_binding r) ''previous binding''
                     @ (if ar_restore_succeeded r then '' succeeded'' else '' FAILED: '' @ or_text (ar_restore_error r) [])]
               else [])
            @ map (\<lambda>c. ''skipped  '' @ describe_change c) (ar_remaining r))"

section \<open>Reading the tenant\<close>

definition scan_page :: page_request where
  "scan_page = \<lparr>pr_offset = 0, pr_limit = 200, pr_search = [], pr_site = None\<rparr>"

lemma page_next_grows:
  "page_next p = Inr q \<Longrightarrow> nat (2 ^ 63 - pr_offset q) < nat (2 ^ 63 - pr_offset p)"
  by (auto simp: page_next_def Let_def fits64_def default_limit_def max_def split: if_splits)

text \<open>A list read to exhaustion: a page that carries nothing, or the server's total reached, ends
  it. \<open>page.next_request()\<close> continues the request the page was asked with, which the two lists
  this is used on record unchanged. The offset grows at every turn until it would overflow.\<close>

function walk_from ::
    "(page_request \<Rightarrow> ('w, 'a page) cop) \<Rightarrow> 'a list \<Rightarrow> page_request \<Rightarrow> ('w, 'a list) cop" where
  "walk_from list got q s =
     (case list q s of
        (Inl e, t) \<Rightarrow> (Inl e, t)
      | (Inr pg, t) \<Rightarrow>
          (if p_items pg = [] then (Inr got, t)
           else if p_total pg \<le> int (length (got @ p_items pg)) then (Inr (got @ p_items pg), t)
           else (case page_next q of
                   Inl e \<Rightarrow> (Inl e, t)
                 | Inr q' \<Rightarrow> walk_from list (got @ p_items pg) q' t)))"
  by pat_completeness auto
termination
  by (relation "measure (\<lambda>(list, got, q, s). nat (2 ^ 63 - pr_offset q))") (auto dest: page_next_grows)

declare walk_from.simps [simp del]

definition walk :: "(page_request \<Rightarrow> ('w, 'a page) cop) \<Rightarrow> ('w, 'a list) cop" where
  "walk list = walk_from list [] scan_page"

record existing =
  x_id :: string
  x_description :: string
  x_metadata :: string
  x_ambiguous :: bool

type_synonym existing_set = "string \<Rightarrow> existing option"

definition noted :: "('a \<Rightarrow> string) \<Rightarrow> ('a \<Rightarrow> existing) \<Rightarrow> 'a list \<Rightarrow> existing_set" where
  "noted name row xs = foldl (\<lambda>m x. m(name x \<mapsto> row x)) Map.empty xs"

definition note_account :: "existing_set \<Rightarrow> service_account_response \<Rightarrow> existing_set" where
  "note_account m a =
     (case m (service_account_response.f_name a) of
        None \<Rightarrow> m(service_account_response.f_name a \<mapsto>
          existing.make (service_account_response.f_id a) (or_text (service_account_response.f_description a) []) [] False)
      | Some x \<Rightarrow> m(service_account_response.f_name a \<mapsto> x\<lparr>x_ambiguous := True\<rparr>))"

definition read_existing :: "'e client_env_scheme \<Rightarrow> manifest_kind \<Rightarrow> ('w, existing_set) cop" where
  "read_existing E k =
     (case k of
        ResourceKind \<Rightarrow> seq (resources_list E scan_page) (\<lambda>pg.
          ret (noted resource.f_name (\<lambda>r. existing.make (resource.f_id r) [] (resource.f_metadata r) False) (p_items pg)))
      | PermissionKind \<Rightarrow> seq (permissions_list E scan_page) (\<lambda>pg.
          ret (noted permission.f_action (\<lambda>r. existing.make (permission.f_id r) (permission.f_description r) [] False) (p_items pg)))
      | RoleKind \<Rightarrow> seq (roles_list E scan_page) (\<lambda>pg.
          ret (noted role.f_name (\<lambda>r. existing.make (role.f_id r) (role.f_description r) [] False) (p_items pg)))
      | GroupKind \<Rightarrow> seq (groups_list E scan_page) (\<lambda>pg.
          ret (noted group.f_name (\<lambda>r. existing.make (group.f_id r) (group.f_description r) [] False) (p_items pg)))
      | ServiceAccountKind \<Rightarrow> seq (service_accounts_list E scan_page) (\<lambda>pg.
          ret (foldl note_account Map.empty (p_items pg)))
      | _ \<Rightarrow> ret Map.empty)"

type_synonym held_roles = "string \<Rightarrow> role_assignment option"

definition by_role :: "role_assignment list \<Rightarrow> held_roles" where
  "by_role as = foldl (\<lambda>m a. m(role.f_name (role_assignment.f_role a) \<mapsto> a)) Map.empty as"

definition bound_role_bindings :: "'e client_env_scheme \<Rightarrow> manifest_kind \<Rightarrow> string \<Rightarrow> ('w, held_roles) cop" where
  "bound_role_bindings E k subject =
     (case k of
        GroupKind \<Rightarrow> seq (groups_list_roles E subject) (\<lambda>as. ret (by_role as))
      | ServiceAccountKind \<Rightarrow> seq (service_accounts_list_roles E subject) (\<lambda>as. ret (by_role as))
      | _ \<Rightarrow> ret Map.empty)"

definition binding_satisfied :: "role_assignment \<Rightarrow> string option \<Rightarrow> bool \<Rightarrow> bool" where
  "binding_satisfied a resource_id narrow \<longleftrightarrow>
     role_assignment.f_resource_id a = resource_id \<and> narrowed (role_assignment.f_inherit a) = narrow"

section \<open>The network namespace\<close>

definition same_set :: "string list \<Rightarrow> string list \<Rightarrow> bool" where
  "same_set xs ys = (set xs = set ys)"

record network_read =
  nr_policy :: "network_policy_response option"
  nr_segments :: "network_segment_response list option"
  nr_profiles :: "network_reply_profile list option"

definition read_policy :: "'e client_env_scheme \<Rightarrow> network_read \<Rightarrow> ('w, network_policy_response \<times> network_read) cop" where
  "read_policy E nr =
     (case nr_policy nr of
        Some p \<Rightarrow> ret (p, nr)
      | None \<Rightarrow> seq (network_get_policy E) (\<lambda>p. ret (p, nr\<lparr>nr_policy := Some p\<rparr>)))"

definition read_segments :: "'e client_env_scheme \<Rightarrow> network_read \<Rightarrow> ('w, network_segment_response list \<times> network_read) cop" where
  "read_segments E nr =
     (case nr_segments nr of
        Some xs \<Rightarrow> ret (xs, nr)
      | None \<Rightarrow> seq (walk (\<lambda>r. network_list_segments E r None)) (\<lambda>xs. ret (xs, nr\<lparr>nr_segments := Some xs\<rparr>)))"

definition read_profiles :: "'e client_env_scheme \<Rightarrow> network_read \<Rightarrow> ('w, network_reply_profile list \<times> network_read) cop" where
  "read_profiles E nr =
     (case nr_profiles nr of
        Some xs \<Rightarrow> ret (xs, nr)
      | None \<Rightarrow> seq (walk (network_list_profiles E)) (\<lambda>xs. ret (xs, nr\<lparr>nr_profiles := Some xs\<rparr>)))"

definition find_read_segment :: "network_segment_response list \<Rightarrow> manifest_network_segment \<Rightarrow> network_segment_response option" where
  "find_read_segment xs spec =
     List.find (\<lambda>r. network_segment_response.f_site_key r = ns_site spec
        \<and> network_segment_kind_wire (network_segment_response.f_kind r) = ns_kind spec
        \<and> network_segment_response.f_name r = ns_name spec) xs"

text \<open>A stated member that differs from the one read.\<close>

definition states_other :: "'a option \<Rightarrow> 'a \<Rightarrow> bool" where
  "states_other stated have' = (case stated of None \<Rightarrow> False | Some x \<Rightarrow> x \<noteq> have')"

definition segment_drifted :: "manifest_network_segment \<Rightarrow> network_segment_response \<Rightarrow> bool" where
  "segment_drifted spec r \<longleftrightarrow>
     ns_vlan_id spec \<noteq> network_segment_response.f_vlan_id r
     \<or> states_other (ns_rank spec) (network_segment_response.f_rank r)
     \<or> (case ns_filter_ids spec of None \<Rightarrow> False | Some fs \<Rightarrow> \<not> same_set fs (network_segment_response.f_filter_ids r))
     \<or> states_other (ns_enabled spec) (network_segment_response.f_enabled r)"

definition profile_drifted :: "manifest_network_profile \<Rightarrow> network_reply_profile \<Rightarrow> bool" where
  "profile_drifted spec r \<longleftrightarrow>
     np_session_timeout_secs spec \<noteq> network_reply_profile.f_session_timeout_secs r
     \<or> states_other (np_termination_action spec) (network_reply_profile.f_termination_action r)
     \<or> states_other (np_idle_timeout_secs spec) (network_reply_profile.f_idle_timeout_secs r)
     \<or> states_other (np_filter_id spec) (network_reply_profile.f_filter_id r)
     \<or> states_other (np_service_type spec) (network_reply_profile.f_service_type r)"

text \<open>A stated member, or the one carried from the read; a stated "none" is none.\<close>

definition stated_or :: "'a option \<Rightarrow> 'a \<Rightarrow> 'a" where
  "stated_or stated carried = (case stated of None \<Rightarrow> carried | Some x \<Rightarrow> x)"

definition stated_value :: "'a option option \<Rightarrow> 'a option" where
  "stated_value v = (case v of None \<Rightarrow> None | Some x \<Rightarrow> x)"

definition segment_create_body :: "manifest_network_segment \<Rightarrow> create_network_segment_request" where
  "segment_create_body spec =
     create_network_segment_request.make (ns_enabled spec) (ns_filter_ids spec)
       (network_segment_kind_from_wire (ns_kind spec)) (ns_name spec) (stated_value (ns_rank spec)) (ns_site spec)
       (ns_vlan_id spec)"

definition segment_replace_body :: "manifest_network_segment \<Rightarrow> network_segment_response \<Rightarrow> replace_network_segment_request" where
  "segment_replace_body spec r =
     replace_network_segment_request.make
       (stated_or (ns_enabled spec) (network_segment_response.f_enabled r))
       (stated_or (ns_filter_ids spec) (network_segment_response.f_filter_ids r))
       (stated_or (ns_rank spec) (network_segment_response.f_rank r))
       (network_segment_response.f_version r) (ns_vlan_id spec)"

definition profile_create_input :: "manifest_network_profile \<Rightarrow> network_reply_profile_input" where
  "profile_create_input spec =
     \<lparr>network_reply_profile_input.f_dictionary = None,
      f_filter_id = stated_value (np_filter_id spec),
      f_idle_timeout_secs = stated_value (np_idle_timeout_secs spec),
      f_service_type = stated_value (np_service_type spec),
      f_session_timeout_secs = np_session_timeout_secs spec,
      f_termination_action = np_termination_action spec\<rparr>"

definition profile_replace_input :: "manifest_network_profile \<Rightarrow> network_reply_profile \<Rightarrow> network_reply_profile_input" where
  "profile_replace_input spec r =
     \<lparr>network_reply_profile_input.f_dictionary = Some (network_reply_profile.f_dictionary r),
      f_filter_id = stated_or (np_filter_id spec) (network_reply_profile.f_filter_id r),
      f_idle_timeout_secs = stated_or (np_idle_timeout_secs spec) (network_reply_profile.f_idle_timeout_secs r),
      f_service_type = stated_or (np_service_type spec) (network_reply_profile.f_service_type r),
      f_session_timeout_secs = np_session_timeout_secs spec,
      f_termination_action =
        Some (stated_or (np_termination_action spec) (network_reply_profile.f_termination_action r))\<rparr>"

definition quote_server_value :: "string \<Rightarrow> string" where
  "quote_server_value raw =
     [CHR 0x22] @ map (\<lambda>c. if code c < 0x20 \<or> 0x7F \<le> code c then CHR ''?'' else c) (take 64 raw)
       @ (if 64 < length raw then ''...'' else []) @ [CHR 0x22]"

definition refuse_member :: "manifest_network_profile \<Rightarrow> string \<Rightarrow> string option \<Rightarrow> error" where
  "refuse_member spec member_name wire =
     InvalidArgument (''network profile '' @ np_segment spec @ '': '' @ member_name @ '' holds the value ''
       @ (case wire of None \<Rightarrow> ''unknown'' | Some w \<Rightarrow> quote_server_value w) @ '', which this SDK does not know'')"

definition refuse_unknown_carried :: "manifest_network_profile \<Rightarrow> network_reply_profile \<Rightarrow> unit res" where
  "refuse_unknown_carried spec r =
     (if np_termination_action spec = None
         \<and> network_reply_profile.f_termination_action r = RadiusTerminationAction_Unknown
      then Inl (refuse_member spec ''termination_action'' (network_reply_profile.f_termination_action_wire r))
      else if np_service_type spec = None
         \<and> network_reply_profile.f_service_type r = Some RadiusServiceType_Unknown
      then Inl (refuse_member spec ''service_type'' (network_reply_profile.f_service_type_wire r))
      else Inr ())"

definition update_if :: "bool \<Rightarrow> change_action" where
  "update_if drifted = (if drifted then Update else Unchanged)"

text \<open>A specification that is not set is a null dereference; validate has refused it before.\<close>

definition plan_policy :: "'e client_env_scheme \<Rightarrow> network_read \<Rightarrow> manifest_entity \<Rightarrow> ('w, planned_change \<times> network_read) cop" where
  "plan_policy E nr e =
     seq (read_policy E nr) (\<lambda>(p, nr').
     (case e_network_policy e of
        None \<Rightarrow> raise Undefined
      | Some spec \<Rightarrow>
          ret ((change_for e)\<lparr>pc_read_policy := Some p, pc_action := update_if
             (no_session_timeout_max_secs spec \<noteq> network_policy_response.f_session_timeout_max_secs p)\<rparr>, nr')))"

definition plan_segment :: "'e client_env_scheme \<Rightarrow> network_read \<Rightarrow> manifest_entity \<Rightarrow> ('w, planned_change \<times> network_read) cop" where
  "plan_segment E nr e =
     seq (read_segments E nr) (\<lambda>(xs, nr').
     (case e_network_segment e of
        None \<Rightarrow> raise Undefined
      | Some spec \<Rightarrow>
          ret (case find_read_segment xs spec of
                 None \<Rightarrow> (change_for e)\<lparr>pc_action := Create\<rparr>
               | Some r \<Rightarrow> (change_for e)\<lparr>pc_id := Some (network_segment_response.f_id r),
                   pc_read_segment := Some r, pc_action := update_if (segment_drifted spec r)\<rparr>, nr')))"

definition segment_of_profile :: "manifest \<Rightarrow> network_segment_response list \<Rightarrow> string \<Rightarrow> network_segment_response option" where
  "segment_of_profile m xs k =
     (case find_key_of_kind m k NetworkSegmentKind of
        None \<Rightarrow> None
      | Some s \<Rightarrow> (case e_network_segment s of None \<Rightarrow> None | Some spec \<Rightarrow> find_read_segment xs spec))"

definition plan_profile ::
    "'e client_env_scheme \<Rightarrow> manifest \<Rightarrow> network_read \<Rightarrow> manifest_entity \<Rightarrow> ('w, planned_change \<times> network_read) cop" where
  "plan_profile E m nr e =
     (case e_network_profile e of
        None \<Rightarrow> raise Undefined
      | Some spec \<Rightarrow>
          seq (read_segments E nr) (\<lambda>(xs, nr1).
          seq (read_profiles E nr1) (\<lambda>(ps, nr2).
          (case segment_of_profile m xs (np_segment spec) of
             None \<Rightarrow> ret ((change_for e)\<lparr>pc_action := Create\<rparr>, nr2)
           | Some seg \<Rightarrow>
               (case List.find (\<lambda>p. network_reply_profile.f_segment_id p = network_segment_response.f_id seg) ps of
                  None \<Rightarrow> ret ((change_for e)\<lparr>pc_action := Create\<rparr>, nr2)
                | Some r \<Rightarrow>
                    seq (lift_res (if profile_drifted spec r then refuse_unknown_carried spec r else Inr ())) (\<lambda>_.
                    ret ((change_for e)\<lparr>pc_id := Some (network_segment_response.f_id seg),
                      pc_read_profile := Some r, pc_action := update_if (profile_drifted spec r)\<rparr>, nr2)))))))"

definition plan_network_entity ::
    "'e client_env_scheme \<Rightarrow> manifest \<Rightarrow> network_read \<Rightarrow> manifest_entity \<Rightarrow> ('w, planned_change \<times> network_read) cop" where
  "plan_network_entity E m nr e =
     (case e_kind e of
        NetworkPolicyKind \<Rightarrow> plan_policy E nr e
      | NetworkSegmentKind \<Rightarrow> plan_segment E nr e
      | NetworkProfileKind \<Rightarrow> plan_profile E m nr e
      | _ \<Rightarrow> ret (change_for e, nr))"

section \<open>The plan\<close>

definition has_description :: "manifest_kind \<Rightarrow> bool" where
  "has_description k = (k \<noteq> ResourceKind)"

type_synonym read_cache = "manifest_kind \<Rightarrow> existing_set option"

definition ensure_read :: "'e client_env_scheme \<Rightarrow> read_cache \<Rightarrow> manifest_kind \<Rightarrow> ('w, existing_set \<times> read_cache) cop" where
  "ensure_read E cache k =
     (case cache k of
        Some x \<Rightarrow> ret (x, cache)
      | None \<Rightarrow> seq (read_existing E k) (\<lambda>x. ret (x, cache(k \<mapsto> x))))"

text \<open>Whether a declared binding is not what the subject holds: for one scoped to a resource
  that does not exist yet, nothing held can be.\<close>

fun binding_drift :: "manifest \<Rightarrow> existing_set \<Rightarrow> held_roles \<Rightarrow> manifest_role_binding list \<Rightarrow> bool" where
  "binding_drift m resources held [] = False"
| "binding_drift m resources held (b # bs) =
     (case find_key_of_kind m (b_role b) RoleKind of
        None \<Rightarrow> binding_drift m resources held bs
      | Some role \<Rightarrow>
          (case (case b_resource b of
                   None \<Rightarrow> Some None
                 | Some k \<Rightarrow> (case find_key_of_kind m k ResourceKind of
                               None \<Rightarrow> None
                             | Some res \<Rightarrow> map_option (\<lambda>x. Some (x_id x)) (resources (e_name res)))) of
             None \<Rightarrow> True
           | Some resource_id \<Rightarrow>
               (case held (e_name role) of
                  None \<Rightarrow> True
                | Some a \<Rightarrow> (if binding_satisfied a resource_id (narrowed (b_inherit b))
                             then binding_drift m resources held bs else True))))"

definition description_drift :: "manifest_entity \<Rightarrow> existing \<Rightarrow> bool" where
  "description_drift e x = (has_description (e_kind e) \<and> e_description e \<noteq> [] \<and> e_description e \<noteq> x_description x)"

definition metadata_drift :: "(string \<Rightarrow> json) \<Rightarrow> manifest_entity \<Rightarrow> existing \<Rightarrow> bool" where
  "metadata_drift parse e x =
     (e_kind e = ResourceKind \<and>
      (case e_metadata_json e of None \<Rightarrow> False | Some t \<Rightarrow> \<not> metadata_equal parse t (x_metadata x)))"

definition ambiguous_account :: "manifest_entity \<Rightarrow> error" where
  "ambiguous_account e =
     ManifestError (''manifest: '' @ quoted (e_name e) @ '' (service account) matches more than one existing account'')"

definition plan_existing ::
    "'e client_env_scheme \<Rightarrow> manifest \<Rightarrow> read_cache \<Rightarrow> manifest_entity \<Rightarrow> existing \<Rightarrow> ('w, planned_change \<times> read_cache) cop" where
  "plan_existing E m cache e x =
     seq (require (\<not> (e_kind e = ServiceAccountKind \<and> x_ambiguous x)) (ambiguous_account e)) (\<lambda>_.
     let drifted = description_drift e x \<or> metadata_drift (env_parse E) e x;
         c = (change_for e)\<lparr>pc_id := Some (x_id x)\<rparr>
     in if binds_roles (e_kind e) \<and> e_roles e \<noteq> [] \<and> \<not> drifted
        then seq (ensure_read E cache ResourceKind) (\<lambda>(resources, cache').
             seq (bound_role_bindings E (e_kind e) (x_id x)) (\<lambda>held.
             ret (c\<lparr>pc_action := update_if (binding_drift m resources held (e_roles e))\<rparr>, cache')))
        else ret (c\<lparr>pc_action := update_if drifted\<rparr>, cache))"

definition plan_entity ::
    "'e client_env_scheme \<Rightarrow> manifest \<Rightarrow> read_cache \<Rightarrow> manifest_entity \<Rightarrow> ('w, planned_change \<times> read_cache) cop" where
  "plan_entity E m cache e =
     seq (ensure_read E cache (e_kind e)) (\<lambda>(found, cache').
     (case found (match_name e) of
        None \<Rightarrow> ret ((change_for e)\<lparr>pc_action := Create\<rparr>, cache')
      | Some x \<Rightarrow> plan_existing E m cache' e x))"

fun plan_entities ::
    "'e client_env_scheme \<Rightarrow> manifest \<Rightarrow> read_cache \<Rightarrow> network_read \<Rightarrow> manifest_entity list \<Rightarrow> ('w, planned_change list) cop" where
  "plan_entities E m cache nr [] = ret []"
| "plan_entities E m cache nr (e # es) =
     (if is_network (e_kind e)
      then seq (plan_network_entity E m nr e) (\<lambda>(c, nr').
           seq (plan_entities E m cache nr' es) (\<lambda>cs. ret (c # cs)))
      else seq (plan_entity E m cache e) (\<lambda>(c, cache').
           seq (plan_entities E m cache' nr es) (\<lambda>cs. ret (c # cs))))"

definition plan :: "'e client_env_scheme \<Rightarrow> manifest \<Rightarrow> ('w, planned_change list) cop" where
  "plan E m = seq (lift_res (ordered m)) (\<lambda>es. plan_entities E m Map.empty (network_read.make None None None) es)"

section \<open>Role bindings\<close>

type_synonym resolved_ids = "manifest_kind \<times> string \<Rightarrow> string option"
type_synonym 'w assign = "string \<Rightarrow> string option \<Rightarrow> bool option \<Rightarrow> string list option \<Rightarrow> ('w, unit) cop"
type_synonym 'w unassign = "string \<Rightarrow> string option \<Rightarrow> ('w, unit) cop"

definition describe_binding :: "string \<Rightarrow> string option \<Rightarrow> string" where
  "describe_binding role_id resource_id = ''role:'' @ role_id @ '' resource:'' @ or_text resource_id ''(global)''"

definition require_resolved :: "resolved_ids \<Rightarrow> manifest_kind \<Rightarrow> string \<Rightarrow> string \<Rightarrow> string res" where
  "require_resolved R k key what =
     (case R (k, key) of
        None \<Rightarrow> Inl (ManifestError (''manifest: '' @ quoted key @ '' ('' @ what @ '') has no resolved server id''))
      | Some i \<Rightarrow> Inr i)"

definition wire_inherit :: "bool \<Rightarrow> bool option" where
  "wire_inherit narrow = (if narrow then Some False else None)"

text \<open>The assignment that replaces a binding just removed; when it fails the old binding is
  assigned again, and the first failure is thrown with the outcome of that.\<close>

definition restore :: "'w assign \<Rightarrow> string \<Rightarrow> role_assignment \<Rightarrow> ('w, string option) cop" where
  "restore assign role_id old =
     catching
       (seq (assign role_id (role_assignment.f_resource_id old)
              (wire_inherit (narrowed (role_assignment.f_inherit old))) (role_assignment.f_tenant_scope old))
            (\<lambda>_. ret None))
       is_axiam_error (\<lambda>e. ret (Some (what_of e)))"

definition rebind :: "'w assign \<Rightarrow> string \<Rightarrow> string option \<Rightarrow> bool option \<Rightarrow> role_assignment \<Rightarrow> ('w, unit) cop" where
  "rebind assign role_id resource_id wire old =
     catching (assign role_id resource_id wire (role_assignment.f_tenant_scope old)) is_axiam_error (\<lambda>e.
       seq (restore assign role_id old) (\<lambda>out.
       raise (RebindFailure (what_of e) (describe_binding role_id (role_assignment.f_resource_id old)) (out = None) out)))"

definition bind_one ::
    "'w assign \<Rightarrow> 'w unassign \<Rightarrow> string \<Rightarrow> string option \<Rightarrow> bool \<Rightarrow> role_assignment option \<Rightarrow> ('w, unit) cop" where
  "bind_one assign unassign role_id resource_id narrow held =
     (case held of
        None \<Rightarrow> assign role_id resource_id (wire_inherit narrow) None
      | Some old \<Rightarrow>
          (if binding_satisfied old resource_id narrow then ret ()
           else seq (unassign role_id (role_assignment.f_resource_id old)) (\<lambda>_.
                rebind assign role_id resource_id (wire_inherit narrow) old)))"

definition resource_of_binding :: "resolved_ids \<Rightarrow> manifest_role_binding \<Rightarrow> string option res" where
  "resource_of_binding R b =
     (case b_resource b of
        None \<Rightarrow> Inr None
      | Some k \<Rightarrow> and_then (require_resolved R ResourceKind k ''resource'') (\<lambda>i. Inr (Some i)))"

definition held_binding :: "manifest \<Rightarrow> held_roles \<Rightarrow> manifest_role_binding \<Rightarrow> role_assignment option" where
  "held_binding m current b =
     (case find_key_of_kind m (b_role b) RoleKind of None \<Rightarrow> None | Some role \<Rightarrow> current (e_name role))"

fun reconcile_role_bindings ::
    "manifest \<Rightarrow> resolved_ids \<Rightarrow> held_roles \<Rightarrow> 'w assign \<Rightarrow> 'w unassign \<Rightarrow> manifest_role_binding list \<Rightarrow> ('w, unit) cop" where
  "reconcile_role_bindings m R current assign unassign [] = ret ()"
| "reconcile_role_bindings m R current assign unassign (b # bs) =
     seq (lift_res (require_resolved R RoleKind (b_role b) ''role'')) (\<lambda>role_id.
     seq (lift_res (resource_of_binding R b)) (\<lambda>resource_id.
     seq (bind_one assign unassign role_id resource_id (narrowed (b_inherit b)) (held_binding m current b)) (\<lambda>_.
     reconcile_role_bindings m R current assign unassign bs)))"

section \<open>One change\<close>

record 'w progress =
  pg_client :: 'w
  pg_change :: planned_change
  pg_resolved :: resolved_ids
  pg_versions :: "string \<Rightarrow> (64 word) option"

type_synonym ('w, 'a) step = "('w client_scheme progress, 'a) op"

definition on_client :: "('w, 'a) cop \<Rightarrow> ('w, 'a) step" where
  "on_client c = (\<lambda>s. case c (pg_client s) of (r, t) \<Rightarrow> (r, s\<lparr>pg_client := t\<rparr>))"

definition set_id :: "string \<Rightarrow> ('w, unit) step" where
  "set_id i = modify (\<lambda>s. s\<lparr>pg_change := (pg_change s)\<lparr>pc_id := Some i\<rparr>\<rparr>)"

definition resolve :: "manifest_kind \<Rightarrow> string \<Rightarrow> string \<Rightarrow> ('w, unit) step" where
  "resolve k key i = modify (\<lambda>s. s\<lparr>pg_resolved := (pg_resolved s)((k, key) \<mapsto> i)\<rparr>)"

text \<open>The id of the object just written, recorded on the change and for later entities.\<close>

definition settle :: "manifest_entity \<Rightarrow> string \<Rightarrow> ('w, unit) step" where
  "settle e i = seq (set_id i) (\<lambda>_. resolve (e_kind e) (e_key e) i)"

definition parent_id :: "manifest \<Rightarrow> resolved_ids \<Rightarrow> manifest_entity \<Rightarrow> string option res" where
  "parent_id m R e =
     (case e_depends_on e of
        None \<Rightarrow> Inr None
      | Some k \<Rightarrow>
          (if find_key_of_kind m k ResourceKind = None then Inr None
           else and_then (require_resolved R ResourceKind k ''parent resource'') (\<lambda>i. Inr (Some i))))"

definition the_id :: "planned_change \<Rightarrow> string" where
  "the_id c = or_text (pc_id c) []"

definition perform_resource :: "'e client_env_scheme \<Rightarrow> manifest \<Rightarrow> planned_change \<Rightarrow> ('w, unit) step" where
  "perform_resource E m c =
     (let e = pc_entity c in
      seq (gets pg_resolved) (\<lambda>R.
      seq (lift_res (parent_id m R e)) (\<lambda>parent.
      seq (if pc_action c = Create
           then on_client (seq (resources_create E
                  (create_resource_request.make (e_metadata_json e) (e_name e) parent (e_resource_type e)))
                  (\<lambda>r. ret (resource.f_id r)))
           else on_client (seq (resources_update E (the_id c)
                  (update_resource_request.make (e_metadata_json e) (Some (e_name e)) parent None))
                  (\<lambda>r. ret (resource.f_id r)))) (\<lambda>i.
      settle e i))))"

definition perform_permission :: "'e client_env_scheme \<Rightarrow> planned_change \<Rightarrow> ('w, unit) step" where
  "perform_permission E c =
     (let e = pc_entity c in
      seq (if pc_action c = Create
           then on_client (seq (permissions_create E (create_permission_request.make (e_action e) (e_description e)))
                  (\<lambda>r. ret (permission.f_id r)))
           else on_client (seq (permissions_update E (the_id c) (update_permission_request.make None (Some (e_description e))))
                  (\<lambda>r. ret (permission.f_id r)))) (settle e))"

definition perform_role :: "'e client_env_scheme \<Rightarrow> planned_change \<Rightarrow> ('w, unit) step" where
  "perform_role E c =
     (let e = pc_entity c in
      seq (if pc_action c = Create
           then on_client (seq (roles_create E (create_role_request.make (e_description e) (e_is_global e) (e_name e)))
                  (\<lambda>r. ret (role.f_id r)))
           else on_client (seq (roles_update E (the_id c) (update_role.make (Some (e_description e)) None None))
                  (\<lambda>r. ret (role.f_id r)))) (settle e))"

text \<open>The bindings of a subject just written: none is held by one just created.\<close>

definition reconcile ::
    "'e client_env_scheme \<Rightarrow> manifest \<Rightarrow> planned_change \<Rightarrow> string \<Rightarrow> 'w assign \<Rightarrow> 'w unassign \<Rightarrow> ('w, unit) step" where
  "reconcile E m c subject assign unassign =
     (let e = pc_entity c in
      if e_roles e = [] then ret ()
      else seq (if pc_action c = Create then ret Map.empty
                else on_client (bound_role_bindings E (e_kind e) subject)) (\<lambda>current.
           seq (gets pg_resolved) (\<lambda>R.
           on_client (reconcile_role_bindings m R current assign unassign (e_roles e)))))"

definition assign_group :: "'e client_env_scheme \<Rightarrow> string \<Rightarrow> 'w assign" where
  "assign_group E g role_id resource_id inh scope =
     roles_assign_to_group E role_id (assign_role_to_group_request.make g inh resource_id scope)"

definition assign_account :: "'e client_env_scheme \<Rightarrow> string \<Rightarrow> 'w assign" where
  "assign_account E a role_id resource_id inh scope =
     roles_assign_to_service_account E role_id (assign_role_to_service_account_request.make inh resource_id a scope)"

definition perform_group :: "'e client_env_scheme \<Rightarrow> manifest \<Rightarrow> planned_change \<Rightarrow> ('w, unit) step" where
  "perform_group E m c =
     (let e = pc_entity c in
      seq (if pc_action c = Create
           then on_client (seq (groups_create E (create_group_request.make (e_description e) None (e_name e)))
                  (\<lambda>r. ret (group.f_id r)))
           else if e_description e \<noteq> []
           then on_client (seq (groups_update E (the_id c) (update_group.make (Some (e_description e)) None None))
                  (\<lambda>r. ret (group.f_id r)))
           else ret (the_id c)) (\<lambda>i.
      seq (settle e i) (\<lambda>_.
      reconcile E m c i (assign_group E i) (\<lambda>role_id. roles_unassign_from_group E role_id i))))"

definition perform_account :: "'e client_env_scheme \<Rightarrow> manifest \<Rightarrow> planned_change \<Rightarrow> ('w, unit) step" where
  "perform_account E m c =
     (let e = pc_entity c in
      seq (if pc_action c = Create
           then seq (on_client (service_accounts_create E (create_service_account_request.make
                       (if e_description e = [] then None else Some (e_description e)) (e_name e)))) (\<lambda>r.
                seq (modify (\<lambda>s. s\<lparr>pg_change := (pg_change s)\<lparr>pc_secret :=
                       Some (service_account_created_response.f_client_secret r)\<rparr>\<rparr>)) (\<lambda>_.
                ret (service_account_created_response.f_id r)))
           else if e_description e \<noteq> []
           then on_client (seq (service_accounts_update E (the_id c)
                       (update_service_account.make (Some (e_description e)) None None))
                  (\<lambda>r. ret (service_account_response.f_id r)))
           else ret (the_id c)) (\<lambda>i.
      seq (settle e i) (\<lambda>_.
      reconcile E m c i (assign_account E i) (\<lambda>role_id. roles_unassign_from_service_account E role_id i))))"

definition perform_policy :: "'e client_env_scheme \<Rightarrow> planned_change \<Rightarrow> ('w, unit) step" where
  "perform_policy E c =
     (case (e_network_policy (pc_entity c), pc_read_policy c) of
        (Some spec, Some p) \<Rightarrow>
          seq (on_client (network_replace_policy E (replace_network_policy_request.make
                 (no_session_timeout_max_secs spec) (network_policy_response.f_version p)))) (\<lambda>_. ret ())
      | _ \<Rightarrow> raise Undefined)"

definition perform_segment :: "'e client_env_scheme \<Rightarrow> planned_change \<Rightarrow> ('w, unit) step" where
  "perform_segment E c =
     (case e_network_segment (pc_entity c) of
        None \<Rightarrow> raise Undefined
      | Some spec \<Rightarrow>
          seq (if pc_action c = Create then on_client (network_create_segment E (segment_create_body spec))
               else (case pc_read_segment c of
                       None \<Rightarrow> raise Undefined
                     | Some r \<Rightarrow> on_client (network_replace_segment E (the_id c) (segment_replace_body spec r)))) (\<lambda>w.
          seq (settle (pc_entity c) (network_segment_response.f_id w)) (\<lambda>_.
          modify (\<lambda>s. s\<lparr>pg_versions :=
            (pg_versions s)(e_key (pc_entity c) \<mapsto> network_segment_response.f_version w)\<rparr>))))"

definition segment_version :: "(string \<Rightarrow> (64 word) option) \<Rightarrow> string \<Rightarrow> (64 word) res" where
  "segment_version V k =
     (case V k of
        None \<Rightarrow> Inl (ManifestError (''manifest: network segment '' @ quoted k @ '' has no known version''))
      | Some v \<Rightarrow> Inr v)"

definition perform_profile :: "'e client_env_scheme \<Rightarrow> planned_change \<Rightarrow> ('w, unit) step" where
  "perform_profile E c =
     (case e_network_profile (pc_entity c) of
        None \<Rightarrow> raise Undefined
      | Some spec \<Rightarrow>
          seq (gets (\<lambda>s. require_resolved (pg_resolved s) NetworkSegmentKind (np_segment spec) ''network segment'')) (\<lambda>found.
          seq (lift_res found) (\<lambda>segment_id.
          seq (gets (\<lambda>s. segment_version (pg_versions s) (np_segment spec))) (\<lambda>known.
          seq (lift_res known) (\<lambda>v.
          seq (if pc_action c = Create
               then on_client (network_create_profile E
                      (create_network_reply_profile_request.make (profile_create_input spec) segment_id v))
               else (case pc_read_profile c of
                       None \<Rightarrow> raise Undefined
                     | Some r \<Rightarrow> on_client (network_replace_profile E segment_id
                         (replace_network_reply_profile_request.make (profile_replace_input spec r) v
                           (network_reply_profile.f_version r))))) (\<lambda>_.
          set_id segment_id))))))"

definition perform :: "'e client_env_scheme \<Rightarrow> manifest \<Rightarrow> planned_change \<Rightarrow> ('w, unit) step" where
  "perform E m c =
     (case e_kind (pc_entity c) of
        ResourceKind \<Rightarrow> perform_resource E m c
      | PermissionKind \<Rightarrow> perform_permission E c
      | RoleKind \<Rightarrow> perform_role E c
      | GroupKind \<Rightarrow> perform_group E m c
      | ServiceAccountKind \<Rightarrow> perform_account E m c
      | NetworkPolicyKind \<Rightarrow> perform_policy E c
      | NetworkSegmentKind \<Rightarrow> perform_segment E c
      | NetworkProfileKind \<Rightarrow> perform_profile E c)"

section \<open>The run\<close>

definition failed_report :: "planned_change list \<Rightarrow> planned_change \<Rightarrow> error \<Rightarrow> planned_change list \<Rightarrow> apply_report" where
  "failed_report applied c e rest =
     (let r = empty_report\<lparr>ar_applied := applied, ar_failed := Some c, ar_failure := what_of e, ar_remaining := rest\<rparr> in
      case e of
        ConflictError _ rc \<Rightarrow> r\<lparr>ar_failed_reason_code := rc\<rparr>
      | RebindFailure _ binding ok err \<Rightarrow>
          r\<lparr>ar_restore_attempted := True, ar_restore_succeeded := ok, ar_restore_error := err, ar_failed_binding := Some binding\<rparr>
      | _ \<Rightarrow> r)"

fun is_invalid_argument :: "error \<Rightarrow> bool" where
  "is_invalid_argument (InvalidArgument _) = True"
| "is_invalid_argument _ = False"

fun apply_changes ::
    "'e client_env_scheme \<Rightarrow> manifest \<Rightarrow> planned_change list \<Rightarrow> resolved_ids \<Rightarrow> (string \<Rightarrow> (64 word) option) \<Rightarrow>
     planned_change list \<Rightarrow> ('w, apply_report) cop" where
  "apply_changes E m applied R V [] = ret (empty_report\<lparr>ar_applied := applied\<rparr>)"
| "apply_changes E m applied R V (c # cs) = (\<lambda>s.
     case perform E m c \<lparr>pg_client = s, pg_change = c, pg_resolved = R, pg_versions = V\<rparr> of
       (Inl e, p) \<Rightarrow>
         (if is_axiam_error e \<or> is_invalid_argument e
          then (Inr (failed_report applied (pg_change p) e cs), pg_client p)
          else (Inl e, pg_client p))
     | (Inr _, p) \<Rightarrow>
         apply_changes E m (applied @ [pg_change p]) (pg_resolved p) (pg_versions p) cs (pg_client p))"

definition seed_ids :: "planned_change list \<Rightarrow> resolved_ids" where
  "seed_ids cs =
     foldl (\<lambda>R c. case pc_id c of None \<Rightarrow> R | Some i \<Rightarrow> R(identity (pc_entity c) \<mapsto> i)) Map.empty cs"

definition seed_versions :: "planned_change list \<Rightarrow> string \<Rightarrow> (64 word) option" where
  "seed_versions cs =
     foldl (\<lambda>V c. case pc_read_segment c of
         None \<Rightarrow> V
       | Some r \<Rightarrow> (if e_kind (pc_entity c) = NetworkSegmentKind
                    then V(e_key (pc_entity c) \<mapsto> network_segment_response.f_version r) else V)) Map.empty cs"

definition apply_manifest :: "'e client_env_scheme \<Rightarrow> manifest \<Rightarrow> ('w, apply_report) cop" where
  "apply_manifest E m =
     seq (plan E m) (\<lambda>cs. apply_changes E m [] (seed_ids cs) (seed_versions cs) (pending cs))"

end
