(* ===== verification/ProvisionGuarantees.thy ===== *)
theory ProvisionGuarantees
  imports Provision
begin

text \<open>
  What provisioning guarantees. A plan only reads; the lists it walks are read completely from a
  server that pages them; an apply performs a prefix of the pending changes and accounts for all
  of them; when an entity is performed, everything it refers to has an id; a rebinding that fails
  is undone; an inheriting binding is never sent as such. The lemmas on \<open>perform\<close> go through
  \<open>grows\<close>, what every part of it keeps of the change and of what is resolved.
\<close>

section \<open>Reading\<close>

lemma keeps_pair: "keeps R (f (fst x) (snd x)) \<Longrightarrow> keeps R (case x of (a, b) \<Rightarrow> f a b)"
  by (simp add: case_prod_beta)

lemma keeps_walk_from:
  fixes R :: "'w client_scheme \<Rightarrow> 'w client_scheme \<Rightarrow> bool"
  assumes "kept R" "\<And>q. keeps R (list q)"
  shows "R s (snd (walk_from list got q s))"
  using assms(2)
proof (induction list got q s rule: walk_from.induct)
  case (1 list got q s)
  obtain r t where l: "list q s = (r, t)" by fastforce
  have st: "R s t" using keeps_run[OF 1(2) l] .
  show ?case
  proof (cases r)
    case (Inl e)
    with l st show ?thesis by (simp add: walk_from.simps)
  next
    case (Inr pg)
    note IH = 1(1)[OF l[symmetric] Inr]
    show ?thesis
    proof (cases "p_items pg = [] \<or> p_total pg \<le> int (length (got @ p_items pg))")
      case True
      with l Inr st show ?thesis by (auto simp: walk_from.simps)
    next
      case False
      show ?thesis
      proof (cases "page_next q")
        case (Inl e)
        with l Inr False st \<open>r = Inr pg\<close> show ?thesis by (simp add: walk_from.simps)
      next
        case n: (Inr q')
        have "R t (snd (walk_from list (got @ p_items pg) q' t))"
          using IH[OF _ _ n 1(2)] False by auto
        with kept.trans[OF assms(1) st] l Inr False n show ?thesis by (auto simp: walk_from.simps[of list got q s])
      qed
    qed
  qed
qed

lemma keeps_walk: "kept R \<Longrightarrow> (\<And>q. keeps R (list q)) \<Longrightarrow> keeps R (walk list)"
  unfolding walk_def by (rule keepsI) (rule keeps_walk_from)

abbreviation reads :: "'w client_scheme \<Rightarrow> 'w client_scheme \<Rightarrow> bool" where
  "reads \<equiv> methods {''GET''}"

lemma reads_kept: "kept reads"
  by unfold_locales

lemmas read_defs =
  resources_list_def permissions_list_def roles_list_def groups_list_def service_accounts_list_def
  groups_list_roles_def service_accounts_list_roles_def network_get_policy_def network_list_profiles_def

lemma reads_operations:
  "keeps reads (resources_list E pg)" "keeps reads (permissions_list E pg)" "keeps reads (roles_list E pg)"
  "keeps reads (groups_list E pg)" "keeps reads (service_accounts_list E pg)"
  "keeps reads (groups_list_roles E g)" "keeps reads (service_accounts_list_roles E a)"
  "keeps reads (network_get_policy E)" "keeps reads (network_list_profiles E pg)"
  unfolding read_defs by (intro method_rules methods.pure; simp)+

lemma reads_segments: "keeps reads (network_list_segments E pg site)"
  unfolding network_list_segments_def Let_def by (intro method_rules methods.pure; simp)

lemmas plan_rules = methods.seq methods.pure reads_operations reads_segments keeps_walk[OF reads_kept] keeps_pair

lemma reads_existing: "keeps reads (read_existing E k)"
  unfolding read_existing_def by (cases k) (auto intro!: plan_rules)

lemma reads_ensure: "keeps reads (ensure_read E cache k)"
  unfolding ensure_read_def by (auto intro!: plan_rules reads_existing split: option.split)

lemma reads_bindings: "keeps reads (bound_role_bindings E k i)"
  unfolding bound_role_bindings_def by (cases k) (auto intro!: plan_rules)

lemma reads_network:
  "keeps reads (read_policy E nr)" "keeps reads (read_segments E nr)" "keeps reads (read_profiles E nr)"
  unfolding read_policy_def read_segments_def read_profiles_def by (auto intro!: plan_rules split: option.split)

lemma reads_plan_network: "keeps reads (plan_network_entity E m nr e)"
  unfolding plan_network_entity_def plan_policy_def plan_segment_def plan_profile_def
  by (cases "e_kind e") (auto intro!: plan_rules reads_network split: option.split)

lemma reads_plan_entity: "keeps reads (plan_entity E m cache e)"
  unfolding plan_entity_def plan_existing_def Let_def
  by (auto intro!: plan_rules reads_ensure reads_bindings split: option.split)

lemma reads_plan_entities: "keeps reads (plan_entities E m cache nr es)"
  by (induction es arbitrary: cache nr) (auto intro!: plan_rules reads_plan_network reads_plan_entity)

lemma reads_plan: "keeps reads (plan E m)"
  unfolding plan_def by (intro plan_rules reads_plan_entities)

lemma walk_from_complete:
  fixes list :: "page_request \<Rightarrow> ('w, 'a page) cop"
  assumes list: "\<And>q. 0 \<le> pr_offset q \<Longrightarrow> list q = ret \<lparr>p_items = take (nat (default_limit (pr_limit q)))
      (drop (nat (pr_offset q)) xs), p_total = int (length xs), p_request = q\<rparr>"
    and fits: "int (length xs) < 2 ^ 63"
    and q: "pr_offset q = int n" "pr_limit q = 200" and n: "n \<le> length xs"
  shows "walk_from list (take n xs) q s = (Inr xs, s)"
  using q n
proof (induction "length xs - n" arbitrary: n q rule: less_induct)
  case less
  let ?got = "take n xs @ take 200 (drop n xs)"
  have got: "?got = take (n + 200) xs" by (simp add: take_add)
  from less.prems have l: "list q = ret \<lparr>p_items = take 200 (drop n xs), p_total = int (length xs), p_request = q\<rparr>"
    by (simp add: list default_limit_def)
  show ?case
  proof (cases "length xs \<le> n + 200")
    case True
    with less.prems l got show ?thesis
      unfolding walk_from.simps[of list "take n xs" q s] by (cases "n = length xs") (simp_all add: op_runs)
  next
    case False
    obtain q' where q': "page_next q = Inr q'" "pr_offset q' = int (n + 200)" "pr_limit q' = 200"
      using False fits less.prems by (auto simp: page_next_def Let_def default_limit_def fits64_def)
    have "walk_from list (take (n + 200) xs) q' s = (Inr xs, s)"
      using False q' by (intro less.hyps) auto
    with False l got q' show ?thesis
      by (simp add: walk_from.simps[of list "take n xs" q s] op_runs)
  qed
qed

section \<open>What performing a change keeps\<close>

definition grows :: "'w progress \<Rightarrow> 'w progress \<Rightarrow> bool" where
  "grows s t \<longleftrightarrow>
     pc_entity (pg_change t) = pc_entity (pg_change s) \<and> pc_action (pg_change t) = pc_action (pg_change s)
     \<and> dom (pg_resolved s) \<subseteq> dom (pg_resolved t) \<and> dom (pg_versions s) \<subseteq> dom (pg_versions t)"

interpretation growing: kept grows
  by unfold_locales (simp_all add: grows_def, blast)

lemma grows_on_client: "keeps grows (on_client c)"
  by (rule keepsI) (auto simp: on_client_def grows_def split: prod.split)

lemma grows_settle: "keeps grows (settle e i)"
  unfolding settle_def set_id_def resolve_def by (intro growing.seq growing.step) (auto simp: grows_def)

lemmas grow_rules = growing.seq growing.pure grows_on_client grows_settle

lemma grows_reconcile: "keeps grows (reconcile E m c i asg unasg)"
  unfolding reconcile_def Let_def by (auto intro!: grow_rules)

lemma grows_perform: "keeps grows (perform E m c)"
proof (cases "e_kind (pc_entity c)")
  case ResourceKind
  then show ?thesis unfolding perform_def perform_resource_def Let_def by (auto intro!: grow_rules)
next
  case PermissionKind
  then show ?thesis unfolding perform_def perform_permission_def Let_def by (auto intro!: grow_rules)
next
  case RoleKind
  then show ?thesis unfolding perform_def perform_role_def Let_def by (auto intro!: grow_rules)
next
  case GroupKind
  then show ?thesis unfolding perform_def perform_group_def Let_def by (auto intro!: grow_rules grows_reconcile)
next
  case ServiceAccountKind
  then show ?thesis unfolding perform_def perform_account_def Let_def
    by (auto intro!: grow_rules grows_reconcile growing.step simp: grows_def)
next
  case NetworkPolicyKind
  then show ?thesis unfolding perform_def perform_policy_def by (auto intro!: grow_rules split: option.split)
next
  case NetworkSegmentKind
  then show ?thesis unfolding perform_def perform_segment_def
    by (auto intro!: grow_rules growing.step simp: grows_def split: option.split)
next
  case NetworkProfileKind
  then show ?thesis unfolding perform_def perform_profile_def set_id_def
    by (auto intro!: grow_rules growing.step simp: grows_def split: option.split)
qed

section \<open>Accounting\<close>

text \<open>What a change is, apart from the ids and secrets filled in by performing it.\<close>

definition sig :: "planned_change \<Rightarrow> manifest_entity \<times> change_action" where
  "sig c = (pc_entity c, pc_action c)"

lemma perform_sig:
  "perform E m c \<lparr>pg_client = s, pg_change = c, pg_resolved = R, pg_versions = V\<rparr> = (r, p) \<Longrightarrow> sig (pg_change p) = sig c"
  using keeps_run[OF grows_perform] by (fastforce simp: grows_def sig_def)

definition accounts :: "planned_change list \<Rightarrow> planned_change list \<Rightarrow> apply_report \<Rightarrow> bool" where
  "accounts before cs r \<longleftrightarrow>
     (\<exists>performed. ar_applied r = before @ performed \<and>
       (case ar_failed r of
          None \<Rightarrow> map sig performed = map sig cs \<and> ar_remaining r = []
        | Some c \<Rightarrow> map sig performed @ sig c # map sig (ar_remaining r) = map sig cs
            \<and> suffix (ar_remaining r) cs))"

lemma failed_report_fields:
  "ar_applied (failed_report bs c e cs) = bs" "ar_failed (failed_report bs c e cs) = Some c"
  "ar_remaining (failed_report bs c e cs) = cs" "ar_failure (failed_report bs c e cs) = what_of e"
  by (auto simp: failed_report_def Let_def split: error.split)

lemma apply_changes_accounts:
  "case apply_changes E m bs R V cs s of
     (Inl e, _) \<Rightarrow> \<not> is_axiam_error e \<and> \<not> is_invalid_argument e
   | (Inr r, _) \<Rightarrow> accounts bs cs r"
proof (induction cs arbitrary: bs R V s)
  case Nil
  show ?case by (simp add: op_runs accounts_def empty_report_def apply_report.make_def)
next
  case (Cons c cs)
  obtain x p where p: "perform E m c \<lparr>pg_client = s, pg_change = c, pg_resolved = R, pg_versions = V\<rparr> = (x, p)"
    by fastforce
  from perform_sig[OF p] have sig: "sig (pg_change p) = sig c" .
  show ?case
  proof (cases x)
    case (Inl e)
    have "accounts bs (c # cs) (failed_report bs (pg_change p) e cs)"
      using sig by (auto simp: accounts_def failed_report_fields suffix_def)
    with p Inl show ?thesis by simp
  next
    case (Inr u)
    have "accounts bs (c # cs) r" if "accounts (bs @ [pg_change p]) cs r" for r
      using that sig by (fastforce simp: accounts_def suffix_def split: option.splits)
    with Cons[of "bs @ [pg_change p]" "pg_resolved p" "pg_versions p" "pg_client p"] p Inr show ?thesis
      by (auto split: prod.splits sum.splits)
  qed
qed

section \<open>References are resolved\<close>

text \<open>What a planned change that is no creation carries: its id, and for a segment what was read.\<close>

definition carries_id :: "planned_change \<Rightarrow> bool" where
  "carries_id c \<longleftrightarrow>
     (pc_action c \<noteq> Create \<and> e_kind (pc_entity c) \<noteq> NetworkPolicyKind \<longrightarrow> pc_id c \<noteq> None)
     \<and> (pc_action c \<noteq> Create \<and> e_kind (pc_entity c) = NetworkSegmentKind \<longrightarrow> pc_read_segment c \<noteq> None)"

text \<open>A property of whatever an operation returns when it returns.\<close>

definition yields :: "('a \<Rightarrow> bool) \<Rightarrow> ('s, 'a) op \<Rightarrow> bool" where
  "yields P m = (\<forall>s x t. m s = (Inr x, t) \<longrightarrow> P x)"

lemma op_yields_rules:
  "(\<And>x. yields P (k x)) \<Longrightarrow> yields P (seq m k)" "P x \<Longrightarrow> yields P (ret x)" "yields P (raise e)"
  "yields P (f (fst z) (snd z)) \<Longrightarrow> yields P (case z of (a, b) \<Rightarrow> f a b)"
  by (auto simp: yields_def seq_eq_Inr op_runs split: prod.split)

definition planned_for :: "manifest_entity \<Rightarrow> planned_change \<Rightarrow> bool" where
  "planned_for e c \<longleftrightarrow> pc_entity c = e \<and> carries_id c"

lemma planned_create: "planned_for e ((change_for e)\<lparr>pc_action := Create\<rparr>)"
  by (simp add: planned_for_def carries_id_def change_for_def planned_change.make_def)

lemma planned_network: "is_network (e_kind e) \<Longrightarrow> yields (\<lambda>(c, _). planned_for e c) (plan_network_entity E m nr e)"
  by (auto simp: plan_network_entity_def plan_policy_def plan_segment_def plan_profile_def is_network_def
      planned_for_def carries_id_def change_for_def planned_change.make_def intro!: op_yields_rules split: option.split)

lemma planned_entity: "\<not> is_network (e_kind e) \<Longrightarrow> yields (\<lambda>(c, _). planned_for e c) (plan_entity E m cache e)"
  unfolding plan_entity_def plan_existing_def Let_def
  by (auto simp: planned_create intro!: op_yields_rules split: option.split)
    (auto simp: planned_for_def carries_id_def change_for_def planned_change.make_def is_network_def)

lemma plan_entities_run:
  assumes "plan_entities E m cache nr es s = (Inr cs, t)"
  shows "list_all2 planned_for es cs"
  using assms
proof (induction es arbitrary: cache nr cs s)
  case Nil
  then show ?case by (simp add: op_runs)
next
  case (Cons e es)
  show ?case
  proof (cases "is_network (e_kind e)")
    case True
    with Cons.prems obtain c nr' cs' u where
      "plan_network_entity E m nr e s = (Inr (c, nr'), u)" "plan_entities E m cache nr' es u = (Inr cs', t)" "cs = c # cs'"
      by (auto simp: seq_eq_Inr op_runs)
    with Cons.IH planned_network[OF True, of E m nr] show ?thesis by (fastforce simp: yields_def)
  next
    case False
    with Cons.prems obtain c cache' cs' u where
      "plan_entity E m cache e s = (Inr (c, cache'), u)" "plan_entities E m cache' nr es u = (Inr cs', t)" "cs = c # cs'"
      by (auto simp: seq_eq_Inr op_runs)
    with Cons.IH planned_entity[OF False, of E m cache] show ?thesis by (fastforce simp: yields_def)
  qed
qed

lemma plan_run:
  assumes "plan E m s = (Inr cs, t)"
  shows "ordered m = Inr (map pc_entity cs)" "list_all carries_id cs"
proof -
  from assms obtain es where es: "ordered m = Inr es" "list_all2 planned_for es cs"
    unfolding plan_def by (auto simp: seq_eq_Inr op_runs dest: plan_entities_run)
  then have "es = map pc_entity cs"
    by (intro nth_equalityI) (auto simp: list_all2_conv_all_nth planned_for_def)
  with es show "ordered m = Inr (map pc_entity cs)" "list_all carries_id cs"
    by (auto simp: list_all2_conv_all_nth planned_for_def list_all_length)
qed

text \<open>What later entities look up of one that has been performed or already existed.\<close>

definition entity_known :: "manifest_entity \<Rightarrow> resolved_ids \<Rightarrow> (string \<Rightarrow> (64 word) option) \<Rightarrow> bool" where
  "entity_known e R V \<longleftrightarrow>
     (e_kind e \<noteq> NetworkPolicyKind \<and> e_kind e \<noteq> NetworkProfileKind \<longrightarrow> R (identity e) \<noteq> None)
     \<and> (e_kind e = NetworkSegmentKind \<longrightarrow> V (e_key e) \<noteq> None)"

lemma known_grows:
  "entity_known e (pg_resolved s) (pg_versions s) \<Longrightarrow> grows s t \<Longrightarrow> entity_known e (pg_resolved t) (pg_versions t)"
  by (auto simp: entity_known_def grows_def dom_def)

definition ensures :: "('s \<Rightarrow> bool) \<Rightarrow> ('s, 'a) op \<Rightarrow> bool" where
  "ensures Q m = (\<forall>s x t. m s = (Inr x, t) \<longrightarrow> Q t)"

lemma ensures_last: "(\<And>x. ensures Q (k x)) \<Longrightarrow> ensures Q (seq m k)"
  by (auto simp: ensures_def seq_eq_Inr)

lemma ensures_kept:
  assumes "ensures Q m" "\<And>x. keeps grows (k x)" "\<And>s t. Q s \<Longrightarrow> grows s t \<Longrightarrow> Q t"
  shows "ensures Q (seq m k)"
  using assms(1,3) keeps_run[OF assms(2)] unfolding ensures_def seq_eq_Inr by blast

abbreviation makes_known :: "manifest_entity \<Rightarrow> ('w progress, 'a) op \<Rightarrow> bool" where
  "makes_known e \<equiv> ensures (\<lambda>s. entity_known e (pg_resolved s) (pg_versions s))"

lemma settle_known: "e_kind e \<noteq> NetworkSegmentKind \<Longrightarrow> makes_known e (settle e i)"
  by (auto simp: ensures_def settle_def set_id_def resolve_def seq_eq_Inr op_runs entity_known_def identity_def)

lemma perform_known: "makes_known (pc_entity c) (perform E m c)"
proof (cases "e_kind (pc_entity c)")
  case ResourceKind
  then show ?thesis unfolding perform_def perform_resource_def Let_def by (auto intro!: ensures_last settle_known)
next
  case PermissionKind
  then show ?thesis unfolding perform_def perform_permission_def Let_def by (auto intro!: ensures_last settle_known)
next
  case RoleKind
  then show ?thesis unfolding perform_def perform_role_def Let_def by (auto intro!: ensures_last settle_known)
next
  case GroupKind
  then have "makes_known (pc_entity c) (perform_group E m c)" unfolding perform_group_def Let_def
    by (intro ensures_last ensures_kept[OF settle_known grows_reconcile]) (auto intro: known_grows)
  with GroupKind show ?thesis by (simp add: perform_def)
next
  case ServiceAccountKind
  then have "makes_known (pc_entity c) (perform_account E m c)" unfolding perform_account_def Let_def
    by (intro ensures_last ensures_kept[OF settle_known grows_reconcile]) (auto intro: known_grows)
  with ServiceAccountKind show ?thesis by (simp add: perform_def)
next
  case NetworkPolicyKind
  then show ?thesis by (auto simp: ensures_def entity_known_def)
next
  case NetworkSegmentKind
  then show ?thesis
    by (auto simp: ensures_def perform_def perform_segment_def settle_def set_id_def resolve_def seq_eq_Inr op_runs
        entity_known_def identity_def split: option.splits)
next
  case NetworkProfileKind
  then show ?thesis by (auto simp: ensures_def entity_known_def)
qed

lemma seed_ids_known:
  assumes "c \<in> set cs" "pc_id c \<noteq> None"
  shows "seed_ids cs (identity (pc_entity c)) \<noteq> None"
proof -
  let ?f = "\<lambda>R c. case pc_id c of None \<Rightarrow> R | Some i \<Rightarrow> R(identity (pc_entity c) \<mapsto> i)"
  have keep: "foldl ?f R ds k \<noteq> None" if "R k \<noteq> None" for R ds and k :: "manifest_kind \<times> string"
    using that by (induction ds arbitrary: R) (auto split: option.split)
  have "foldl ?f R cs (identity (pc_entity c)) \<noteq> None" for R
    using assms(1)
  proof (induction cs arbitrary: R)
    case (Cons d ds)
    show ?case
    proof (cases "c = d")
      case True
      then have "?f R d (identity (pc_entity c)) \<noteq> None" using assms by auto
      then have "foldl ?f (?f R d) ds (identity (pc_entity c)) \<noteq> None" by (rule keep)
      then show ?thesis by simp
    next
      case False
      with Cons show ?thesis by simp
    qed
  qed simp
  then show ?thesis by (simp add: seed_ids_def)
qed

lemma seed_versions_known:
  assumes "c \<in> set cs" "pc_read_segment c \<noteq> None" "e_kind (pc_entity c) = NetworkSegmentKind"
  shows "seed_versions cs (e_key (pc_entity c)) \<noteq> None"
proof -
  let ?f = "\<lambda>V c. case pc_read_segment c of None \<Rightarrow> V
     | Some r \<Rightarrow> (if e_kind (pc_entity c) = NetworkSegmentKind
                  then V(e_key (pc_entity c) \<mapsto> network_segment_response.f_version r) else V)"
  have keep: "foldl ?f V ds k \<noteq> None" if "V k \<noteq> None" for V ds k
    using that by (induction ds arbitrary: V) (auto split: option.split)
  have "foldl ?f V cs (e_key (pc_entity c)) \<noteq> None" for V
    using assms(1)
  proof (induction cs arbitrary: V)
    case (Cons d ds)
    show ?case
    proof (cases "c = d")
      case True
      then have "?f V d (e_key (pc_entity c)) \<noteq> None" using assms by auto
      then have "foldl ?f (?f V d) ds (e_key (pc_entity c)) \<noteq> None" by (rule keep)
      then show ?thesis by simp
    next
      case False
      with Cons show ?thesis by simp
    qed
  qed simp
  then show ?thesis by (simp add: seed_versions_def)
qed

definition resolved_for :: "manifest \<Rightarrow> manifest_entity \<Rightarrow> resolved_ids \<Rightarrow> (string \<Rightarrow> (64 word) option) \<Rightarrow> bool" where
  "resolved_for m e R V \<longleftrightarrow>
     (e_kind e = ResourceKind \<longrightarrow> is_ok (parent_id m R e))
     \<and> (binds_roles (e_kind e) \<longrightarrow> (\<forall>b \<in> set (e_roles e).
          is_ok (require_resolved R RoleKind (b_role b) ''role'') \<and> is_ok (resource_of_binding R b)))
     \<and> (e_kind e = NetworkProfileKind \<longrightarrow> (\<exists>spec. e_network_profile e = Some spec
          \<and> is_ok (require_resolved R NetworkSegmentKind (np_segment spec) ''network segment'')
          \<and> is_ok (segment_version V (np_segment spec))))"

lemma known_resolves:
  "entity_known q R V \<Longrightarrow> e_key q = k \<Longrightarrow> e_kind q = kd \<Longrightarrow> kd \<in> {ResourceKind, RoleKind, NetworkSegmentKind} \<Longrightarrow>
     is_ok (require_resolved R kd k w)"
  by (auto simp: entity_known_def identity_def require_resolved_def)

text \<open>Everything declared before an entity being known, the entity is resolved.\<close>

lemma resolved_if_known:
  assumes o: "ordered m = Inr (xs @ e # ys)" and keys: "distinct (map e_key (m_entities m))"
    and known: "\<And>q. q \<in> set xs \<Longrightarrow> entity_known q R V"
  shows "resolved_for m e R V"
proof -
  note wf = ordered_eq(1)[OF o]
  have e: "e \<in> set (m_entities m)" using ordered_eq(4)[OF o] by auto
  have lower: "is_ok (require_resolved R kd k w)"
    if "find_key_of_kind m k kd = Some q" "kd < e_kind e" "kd \<in> {ResourceKind, RoleKind, NetworkSegmentKind}" for q k kd w
    using that find_key_of_kind_Some[OF that(1)] known lower_kind_first[OF o, of q] by (auto intro: known_resolves)
  have "is_ok (parent_id m R e)" if r: "e_kind e = ResourceKind"
  proof (cases "e_depends_on e")
    case None
    then show ?thesis by (simp add: parent_id_def)
  next
    case (Some k)
    show ?thesis
    proof (cases "find_key_of_kind m k ResourceKind")
      case None
      with Some show ?thesis by (simp add: parent_id_def)
    next
      case q: (Some q)
      note fq = find_key_of_kind_Some[OF q]
      obtain q' where q': "find_key m k = Some q'" using fq by (cases "find_key m k") (auto simp: find_key_def find_None_iff)
      have "q = q'" using keys fq find_key_Some[OF q'] by (auto simp: distinct_map inj_on_def)
      with q' Some have "parent_of m e = Some q" by (simp add: parent_of_def)
      then have "q \<in> set xs" using parent_first[OF o] fq r by simp
      then have "is_ok (require_resolved R ResourceKind k ''parent resource'')"
        using known fq by (auto intro: known_resolves)
      with Some q show ?thesis
        by (cases "require_resolved R ResourceKind k ''parent resource''") (simp_all add: parent_id_def)
    qed
  qed
  moreover have "is_ok (require_resolved R RoleKind (b_role b) ''role'') \<and> is_ok (resource_of_binding R b)"
    if k: "binds_roles (e_kind e)" and b: "b \<in> set (e_roles e)" for b
  proof -
    have ok: "binding_ok m b" using wf e k b by (auto simp: wf_manifest_def)
    have below: "RoleKind < e_kind e" "ResourceKind < e_kind e"
      using k by (auto simp: binds_roles_def less_manifest_kind_def)
    have "is_ok (resource_of_binding R b)"
    proof (cases "b_resource b")
      case None
      then show ?thesis by (simp add: resource_of_binding_def)
    next
      case (Some r)
      with ok obtain q where "find_key_of_kind m r ResourceKind = Some q" by (auto simp: binding_ok_def)
      from lower[OF this below(2), of "''resource''"] Some show ?thesis
        by (cases "require_resolved R ResourceKind r ''resource''") (simp_all add: resource_of_binding_def)
    qed
    moreover obtain q where "find_key_of_kind m (b_role b) RoleKind = Some q" using ok by (auto simp: binding_ok_def)
    ultimately show ?thesis using lower[OF _ below(1)] by simp
  qed
  moreover have "\<exists>spec. e_network_profile e = Some spec
      \<and> is_ok (require_resolved R NetworkSegmentKind (np_segment spec) ''network segment'')
      \<and> is_ok (segment_version V (np_segment spec))" if k: "e_kind e = NetworkProfileKind"
  proof -
    from wf e k obtain spec q where spec: "e_network_profile e = Some spec"
      and q: "find_key_of_kind m (np_segment spec) NetworkSegmentKind = Some q"
      by (auto simp: wf_manifest_def network_entity_ok_def)
    have below: "NetworkSegmentKind < e_kind e" using k by (simp add: less_manifest_kind_def)
    have "entity_known q R V" using known lower_kind_first[OF o, of q] find_key_of_kind_Some[OF q] below by auto
    then have "is_ok (segment_version V (np_segment spec))"
      using find_key_of_kind_Some[OF q] by (auto simp: entity_known_def segment_version_def)
    with spec lower[OF q below] show ?thesis by simp
  qed
  ultimately show ?thesis by (simp add: resolved_for_def)
qed

lemma pending_split:
  assumes "pending cs = before @ c # rest"
  shows "\<exists>A B. cs = A @ c # B \<and> pending B = rest"
  using assms
proof (induction cs arbitrary: before)
  case Nil
  then show ?case by (simp add: pending_def)
next
  case (Cons d ds)
  show ?case
  proof (cases "pc_action d = Unchanged \<or> before \<noteq> []")
    case True
    then obtain before' where "pending ds = before' @ c # rest"
      using Cons.prems by (cases before) (auto simp: pending_def split: if_splits)
    with Cons.IH obtain A B where "ds = A @ c # B" "pending B = rest" by blast
    then show ?thesis by (intro exI[of _ "d # A"] exI[of _ B]) simp
  next
    case False
    with Cons.prems show ?thesis by (intro exI[of _ "[]"] exI[of _ ds]) (auto simp: pending_def)
  qed
qed

text \<open>Before the rest \<open>todo\<close> of the pending changes is performed, what is still to be created is in it.\<close>

definition covered :: "planned_change list \<Rightarrow> planned_change list \<Rightarrow> resolved_ids \<Rightarrow> (string \<Rightarrow> (64 word) option) \<Rightarrow> bool" where
  "covered cs todo R V \<longleftrightarrow> (\<forall>c \<in> set cs. c \<in> set todo \<or> entity_known (pc_entity c) R V)"

lemma covered_start:
  assumes "list_all carries_id cs"
  shows "covered cs (pending cs) (seed_ids cs) (seed_versions cs)"
  unfolding covered_def
proof
  fix c assume c: "c \<in> set cs"
  with assms have id: "carries_id c" by (auto simp: list_all_iff)
  show "c \<in> set (pending cs) \<or> entity_known (pc_entity c) (seed_ids cs) (seed_versions cs)"
  proof (cases "pc_action c = Unchanged")
    case False
    with c show ?thesis by (simp add: pending_def)
  next
    case True
    then have "entity_known (pc_entity c) (seed_ids cs) (seed_versions cs)"
      using id seed_ids_known[OF c] seed_versions_known[OF c] by (auto simp: entity_known_def carries_id_def)
    then show ?thesis ..
  qed
qed

lemma covered_step:
  assumes "covered cs (c # todo) R V"
    and "perform E m c \<lparr>pg_client = s, pg_change = c, pg_resolved = R, pg_versions = V\<rparr> = (Inr u, p)"
  shows "covered cs todo (pg_resolved p) (pg_versions p)"
  unfolding covered_def
proof
  fix d assume d: "d \<in> set cs"
  have g: "grows \<lparr>pg_client = s, pg_change = c, pg_resolved = R, pg_versions = V\<rparr> p"
    using keeps_run[OF grows_perform assms(2)] .
  show "d \<in> set todo \<or> entity_known (pc_entity d) (pg_resolved p) (pg_versions p)"
  proof (cases "d = c")
    case True
    then have "entity_known (pc_entity d) (pg_resolved p) (pg_versions p)"
      using perform_known[of c E m] assms(2) unfolding ensures_def by blast
    then show ?thesis ..
  next
    case False
    with assms(1) d known_grows[OF _ g] show ?thesis by (auto simp: covered_def)
  qed
qed

lemma covered_resolves:
  assumes o: "ordered m = Inr (map pc_entity cs)" and keys: "distinct (map e_key (m_entities m))"
    and split: "pending cs = before @ c # todo" and cov: "covered cs (c # todo) R V"
  shows "resolved_for m (pc_entity c) R V"
proof -
  obtain A B where cs: "cs = A @ c # B" and B: "pending B = todo" using pending_split[OF split] by blast
  from o cs have o': "ordered m = Inr (map pc_entity A @ pc_entity c # map pc_entity B)" by simp
  show ?thesis
  proof (rule resolved_if_known[OF o' keys])
    fix q assume "q \<in> set (map pc_entity A)"
    then obtain d where d: "d \<in> set A" "q = pc_entity d" by auto
    have "mset (map pc_entity cs) = mset (m_entities m)" using ordered_eq(3)[OF o] .
    then have "distinct (map e_key (map pc_entity cs))" using keys by (metis mset_map mset_eq_imp_distinct_iff)
    moreover have "e_key (pc_entity d) \<in> (\<lambda>x. e_key (pc_entity x)) ` set A" using d by simp
    ultimately have "e_key (pc_entity d) \<notin> set (map e_key (map pc_entity (c # B)))" using cs by auto
    then have "d \<notin> set (c # B)" by auto
    moreover have "set todo \<subseteq> set B" using B by (auto simp: pending_def)
    ultimately have "d \<notin> set (c # todo)" by auto
    then show "entity_known q R V" using cov d cs by (auto simp: covered_def)
  qed
qed

lemma apply_changes_resolved:
  fixes s :: "'w client_scheme"
  assumes "ordered m = Inr (map pc_entity cs)" "distinct (map e_key (m_entities m))"
    and "pending cs = before @ todo" "covered cs todo R V"
    and "apply_changes E m bs R V todo s = (Inr r, t)" "ar_failed r = Some f"
  shows "\<exists>c e (p :: 'w client_scheme progress) q. c \<in> set todo \<and> sig f = sig c \<and> perform E m c p = (Inl e, q) \<and> ar_failure r = what_of e
    \<and> resolved_for m (pc_entity c) (pg_resolved p) (pg_versions p)"
  using assms(3-)
proof (induction todo arbitrary: before bs R V s)
  case Nil
  then show ?case by (auto simp: op_runs empty_report_def apply_report.make_def)
next
  case (Cons c todo)
  let ?p = "\<lparr>pg_client = s, pg_change = c, pg_resolved = R, pg_versions = V\<rparr>"
  obtain x p where p: "perform E m c ?p = (x, p)" by fastforce
  show ?case
  proof (cases x)
    case (Inl e)
    with Cons.prems p have "r = failed_report bs (pg_change p) e todo" by (auto split: if_splits)
    then have "sig f = sig c" "ar_failure r = what_of e"
      using Cons.prems(4) perform_sig[OF p] by (auto simp: failed_report_fields)
    moreover have "resolved_for m (pc_entity c) (pg_resolved ?p) (pg_versions ?p)"
      using covered_resolves[OF assms(1,2) Cons.prems(1,2)] by simp
    moreover have "perform E m c ?p = (Inl e, p)" using p Inl by simp
    ultimately show ?thesis by (meson list.set_intros(1))
  next
    case (Inr u)
    have "covered cs todo (pg_resolved p) (pg_versions p)"
      using covered_step[OF Cons.prems(2)] p Inr by blast
    moreover have "apply_changes E m (bs @ [pg_change p]) (pg_resolved p) (pg_versions p) todo (pg_client p) = (Inr r, t)"
      using Cons.prems(3) p Inr by simp
    ultimately show ?thesis
      using Cons.IH[of "before @ [c]" "pg_resolved p" "pg_versions p" "bs @ [pg_change p]" "pg_client p"] Cons.prems by auto
  qed
qed

section \<open>Properties\<close>

text \<open>
  C12. A plan only reads: whatever the tenant answers and whether or not it succeeds, every request
  it sends is a GET under the client's tenants, and it leaves the client's configuration as it was.
\<close>

theorem plan_only_reads:
  fixes s :: "'w client_scheme"
  shows "same_config s (snd (plan E m s))
    \<and> (\<exists>xs. sent (snd (plan E m s)) = sent s @ xs \<and> list_all (\<lambda>r. req_method r = ''GET'' \<and> carries_tenant s r) xs)"
  using keepsD[OF reads_plan, of s E m] by (simp add: methods_def)

text \<open>
  C8. An apply accounts for everything its plan found: with no failure every pending change was
  applied, in order; otherwise those applied, the one that failed and the remaining ones are the
  pending changes in order, nothing after the failure having been touched. Nothing pending means
  nothing sent beyond the plan. Only an error that is neither the SDK's nor an invalid argument
  leaves without a report.
\<close>

theorem apply_accounts_for_all:
  "case apply_manifest E m s of
     (Inl e, _) \<Rightarrow> (\<exists>u. plan E m s = (Inl e, u)) \<or> (\<not> is_axiam_error e \<and> \<not> is_invalid_argument e)
   | (Inr r, t) \<Rightarrow> \<exists>cs u. plan E m s = (Inr cs, u)
       \<and> (case ar_failed r of
            None \<Rightarrow> map sig (ar_applied r) = map sig (pending cs) \<and> ar_remaining r = []
          | Some c \<Rightarrow> map sig (ar_applied r) @ sig c # map sig (ar_remaining r) = map sig (pending cs)
              \<and> suffix (ar_remaining r) (pending cs))
       \<and> (if converged cs then t = u \<and> complete r else True)"
proof -
  obtain x u where p: "plan E m s = (x, u)" by fastforce
  show ?thesis
  proof (cases x)
    case (Inl e)
    with p show ?thesis by (simp add: apply_manifest_def seq_run)
  next
    case (Inr cs)
    have "converged cs \<Longrightarrow> apply_changes E m [] (seed_ids cs) (seed_versions cs) (pending cs) u = (Inr empty_report, u)"
      by (simp add: converged_def op_runs empty_report_def apply_report.make_def)
    moreover have "complete empty_report" by (simp add: complete_def empty_report_def apply_report.make_def)
    ultimately show ?thesis
      using p Inr apply_changes_accounts[where E = E and m = m and bs = "[]" and R = "seed_ids cs"
        and V = "seed_versions cs" and cs = "pending cs" and s = u]
      by (auto simp: apply_manifest_def seq_run accounts_def split: prod.splits sum.splits)
  qed
qed

text \<open>
  C7. When the keys of a manifest are unique, a reference is never the reason an apply fails: the
  change that failed was performed with the id of its parent resource, of every role and resource
  it binds, and of its network segment (with its version) already known.
\<close>

theorem apply_references_resolved:
  fixes s :: "'w client_scheme"
  assumes "distinct (map e_key (m_entities m))"
    and "apply_manifest E m s = (Inr r, t)" "ar_failed r = Some f"
  shows "\<exists>c e (p :: 'w client_scheme progress) q. sig f = sig c \<and> perform E m c p = (Inl e, q) \<and> ar_failure r = what_of e
    \<and> resolved_for m (pc_entity c) (pg_resolved p) (pg_versions p)"
proof -
  from assms(2) obtain cs u where p: "plan E m s = (Inr cs, u)"
    and a: "apply_changes E m [] (seed_ids cs) (seed_versions cs) (pending cs) u = (Inr r, t)"
    by (auto simp: apply_manifest_def seq_eq_Inr)
  from plan_run[OF p] have "ordered m = Inr (map pc_entity cs)" "covered cs (pending cs) (seed_ids cs) (seed_versions cs)"
    by (auto intro: covered_start)
  from apply_changes_resolved[OF this(1) assms(1) _ this(2) a assms(3), of "[]"] show ?thesis by auto
qed



definition demo_role :: json where
  "demo_role = JObj [(''created_at'', JStr ''t''), (''description'', JStr ''d''), (''id'', JStr ''role-1''),
     (''is_global'', JBool False), (''name'', JStr ''editor''), (''tenant_id'', JStr ''acme''), (''updated_at'', JStr ''t'')]"

definition demo_tenant :: client_env where
  "demo_tenant =
     \<lparr>env_transport = (\<lambda>_ r. Inr (if req_method r = ''GET'' then blank_response\<lparr>status := 200, resp_body := ''L''\<rparr>
        else if req_url r = ''https://id.example/api/v1/roles'' then blank_response\<lparr>status := 201, resp_body := ''R''\<rparr>
        else blank_response\<lparr>status := 409\<rparr>)),
      env_steady = (\<lambda>_. 0), env_wall = (\<lambda>_. 0),
      env_parse = (\<lambda>x. if x = ''L'' then JObj [(''items'', JArr []), (''total'', JUInt 0)]
        else if x = ''R'' then demo_role else JDiscarded),
      env_dump = (\<lambda>_. Inr ''{}''), env_jitter = (\<lambda>_. (0, 0)), env_http_date = (\<lambda>_. None)\<rparr>"

definition blank_entity :: "manifest_kind \<Rightarrow> string \<Rightarrow> string \<Rightarrow> manifest_entity" where
  "blank_entity k key name =
     manifest_entity.make k key name [] [] [] False None None [] None None None"

definition demo_manifest :: manifest where
  "demo_manifest = manifest.make
     [(blank_entity GroupKind ''editors'' ''editors'')\<lparr>e_roles := [manifest_role_binding.make ''editor'' None None]\<rparr>,
      blank_entity RoleKind ''editor'' ''editor'']"

definition demo_admin :: client where
  "demo_admin = demo_client\<lparr>session := True\<rparr>"

definition fails_at :: "manifest_kind \<Rightarrow> apply_report res \<Rightarrow> bool" where
  "fails_at k x = (case x of Inl _ \<Rightarrow> False | Inr r \<Rightarrow>
     (case ar_failed r of None \<Rightarrow> False | Some c \<Rightarrow> e_kind (pc_entity c) = k))"

lemma apply_references_resolved_witness:
  "\<exists>r t f c e (p :: client progress) q. apply_manifest demo_tenant demo_manifest demo_admin = (Inr r, t) \<and> ar_failed r = Some f
     \<and> sig f = sig c \<and> perform demo_tenant demo_manifest c p = (Inl e, q)
     \<and> resolved_for demo_manifest (pc_entity c) (pg_resolved p) (pg_versions p)"
proof -
  have "fails_at GroupKind (fst (apply_manifest demo_tenant demo_manifest demo_admin))" by code_simp
  then obtain r t f where r: "apply_manifest demo_tenant demo_manifest demo_admin = (Inr r, t)" "ar_failed r = Some f"
    by (cases "apply_manifest demo_tenant demo_manifest demo_admin") (auto simp: fails_at_def split: sum.splits option.splits)
  have "distinct (map e_key (m_entities demo_manifest))" by code_simp
  from apply_references_resolved[OF this r] r show ?thesis by blast
qed

text \<open>
  The state of a kind is read from one page: whatever total the server reports, planning asks
  for the roles from offset 0 with limit 200 and for nothing more (repeating that request at most
  twice), so a role beyond the first page is taken not to exist.
\<close>

theorem roles_read_from_one_page:
  "case read_existing E RoleKind s of (_, t) \<Rightarrow>
     \<exists>xs. sent t = sent s @ xs \<and> length xs \<le> 3
       \<and> list_all (\<lambda>r. req_method r = ''GET'' \<and> req_url r = base_url s @ ''/api/v1/roles?offset=0&limit=200'') xs"
proof -
  let ?send = "management_send E ''roles.list'' ''GET'' ''/api/v1/roles'' [] (paging scan_page) None"
  obtain x u where u: "?send s = (x, u)" by fastforce
  have path: "with_query (substitute ''/api/v1/roles'' []) (paging scan_page) = ''/api/v1/roles?offset=0&limit=200''"
    by code_simp
  have "\<exists>xs. sent u = sent s @ xs \<and> length xs \<le> 3
      \<and> list_all (aims ''GET'' ''/api/v1/roles?offset=0&limit=200'' s) xs"
    using management_send_bounded[where E = E and op = "''roles.list''" and meth = "''GET''" and tmpl = "''/api/v1/roles''"
        and vals = "[]" and query = "paging scan_page" and body = None and s = s]
    unfolding path u prod.case by (auto split: if_splits)
  moreover have "snd (read_existing E RoleKind s) = u"
    using u by (auto simp: read_existing_def roles_list_def page_call_def issue_def no_body_def seq_run op_runs
        split: sum.split)
  ultimately show ?thesis by (auto simp: case_prod_beta aims_def list_all_iff)
qed

definition demo_shared :: manifest where
  "demo_shared = manifest.make
     [blank_entity RoleKind ''a'' ''admin'',
      (blank_entity ResourceKind ''a'' ''root'')\<lparr>e_resource_type := ''folder''\<rparr>,
      (blank_entity ResourceKind ''0'' ''child'')\<lparr>e_resource_type := ''folder'', e_depends_on := Some ''a''\<rparr>]"


end
