(* ===== verification/Bindings.thy ===== *)
theory Bindings
  imports Provision
begin

text \<open>
  What reconciling role bindings does to the bindings a subject holds. The server is known only
  through the two calls, so what it holds is a function of the state (\<open>hold\<close>) that a call which
  returns changes as documented and a call which fails leaves alone; these are hypotheses of the
  theorems, and the witnesses run them on a state that keeps the bindings itself.
\<close>

type_synonym held_binding_state = "string option \<times> bool \<times> string list option"

definition binding_of :: "role_assignment \<Rightarrow> held_binding_state" where
  "binding_of a = (role_assignment.f_resource_id a, narrowed (role_assignment.f_inherit a), role_assignment.f_tenant_scope a)"

fun is_rebind :: "error \<Rightarrow> bool" where
  "is_rebind (RebindFailure _ _ _ _) = True"
| "is_rebind _ = False"

lemma narrowed_wire [simp]: "narrowed (wire_inherit b) = b"
  by (simp add: narrowed_def wire_inherit_def)

section \<open>Properties\<close>


definition demo_assign :: "(string \<Rightarrow> held_binding_state option) assign" where
  "demo_assign r x i sc =
     (if x = Some ''new'' then raise (ConflictError ''conflict'' None)
      else modify (client.more_update (\<lambda>h. h(r \<mapsto> (x, narrowed i, sc)))))"

definition demo_unassign :: "(string \<Rightarrow> held_binding_state option) unassign" where
  "demo_unassign r x = modify (client.more_update (\<lambda>h. h(r := None)))"

definition demo_held :: role_assignment where
  "demo_held = role_assignment.make None (Some ''a'') (role.make [] [] ''role-1'' False ''editor'' [] []) (Some [''acme''])"


lemma wire_inherit_plain: "wire_inherit n \<noteq> Some True"
  by (simp add: wire_inherit_def)

text \<open>An assignment that is something else where it would send \<open>inherit: true\<close>.\<close>

definition unless_true :: "('w, unit) cop \<Rightarrow> 'w assign \<Rightarrow> 'w assign" where
  "unless_true other assign r x i sc = (if i = Some True then other else assign r x i sc)"

lemma bind_one_unless_true: "bind_one (unless_true other assign) = bind_one assign"
proof -
  have "restore (unless_true other assign) = restore assign"
    by (intro ext) (simp add: restore_def unless_true_def wire_inherit_plain)
  then have "rebind (unless_true other assign) r x (wire_inherit n) = rebind assign r x (wire_inherit n)" for r x n
    by (intro ext) (simp add: rebind_def unless_true_def wire_inherit_plain)
  then show ?thesis
    by (intro ext) (simp add: bind_one_def unless_true_def wire_inherit_plain split: option.split)
qed

text \<open>
  An inheriting binding is sent as it always was: whatever the manifest states, no assignment
  is ever made with \<open>inherit: true\<close>, so replacing the assignment at that argument by anything
  else changes nothing.
\<close>

theorem inherit_true_never_sent:
  "reconcile_role_bindings m R current assign unassign bs =
   reconcile_role_bindings m R current (unless_true other assign) unassign bs"
  by (induction bs) (simp_all add: bind_one_unless_true)

end
