(* ===== verification/Spec2Isabelle.thy ===== *)
theory Spec2Isabelle
  imports Prelude Json Encoding Urls Retry RefreshGuard Types DecisionMemo Jwks Webhook Revocation Mcp
    Authenticator Effects ClientImpl Opaque Client Uma OpaqueLogin Guard Management Replay Ssf Reactor
    Oidc OidcFlows OidcGuarantees Codec ModelEnums Models1 Models2 Models3 Models4
    ModelHelpers ModelGuarantees Calls Operations1 Operations2 Operations3 Manifest Provision ProvisionGuarantees Bindings
begin

text \<open>
  A verification development for the AXIAM C++ SDK.
\<close>

end
